(* ===== verification/Prelude.thy ===== *)
theory Prelude
  imports Main "HOL-Library.Word"
begin

unbundle bit_operations_syntax

text \<open>
  The shared layer of the development: the machine types of the C++ code, the
  exception-and-state shape of its member functions, the byte images that
  \<open>memcpy\<close> of an integer produces, and the operations of \<open>std::string\<close>,
  \<open>memcpy\<close> and \<open><ctype.h>\<close> that several components use.  Facts that the component
  proofs share are collected in the named theorem lists declared below.
\<close>

section \<open>Named theorem collections\<close>

named_theorems exc_simps \<open>unfolding of the exception/state combinators\<close>
named_theorems blit_simps \<open>facts about overwriting a range of a list\<close>
named_theorems enc_simps \<open>facts about byte images of machine integers\<close>

section \<open>Machine types\<close>

type_synonym u8 = "8 word"
type_synonym u16 = "16 word"
type_synonym u32 = "32 word"
type_synonym u64 = "64 word"
type_synonym bytes = "u8 list"

datatype endian = LittleEndian | BigEndian

section \<open>Exceptions and state\<close>

text \<open>
  A member function that may throw runs on the object's state and returns either the
  exception or the result, together with the state it leaves behind: C++ keeps the
  effects made before a throw.
\<close>

type_synonym ('s, 'e, 'a) exc = "'s \<Rightarrow> ('e + 'a) \<times> 's"

definition ex_return :: "'a \<Rightarrow> ('s, 'e, 'a) exc" where
  "ex_return x s = (Inr x, s)"

definition ex_throw :: "'e \<Rightarrow> ('s, 'e, 'a) exc" where
  "ex_throw e s = (Inl e, s)"

definition ex_bind :: "('s, 'e, 'a) exc \<Rightarrow> ('a \<Rightarrow> ('s, 'e, 'b) exc) \<Rightarrow> ('s, 'e, 'b) exc" where
  "ex_bind m f s = (case m s of (Inl e, s') \<Rightarrow> (Inl e, s') | (Inr x, s') \<Rightarrow> f x s')"

lemma ex_return_apply [exc_simps, simp]: "ex_return x s = (Inr x, s)"
  by (simp add: ex_return_def)

lemma ex_throw_apply [exc_simps, simp]: "ex_throw e s = (Inl e, s)"
  by (simp add: ex_throw_def)

lemma ex_bind_ok [exc_simps]: "m s = (Inr x, s') \<Longrightarrow> ex_bind m f s = f x s'"
  by (simp add: ex_bind_def)

lemma ex_bind_err [exc_simps]: "m s = (Inl e, s') \<Longrightarrow> ex_bind m f s = (Inl e, s')"
  by (simp add: ex_bind_def)

lemma ex_bind_assoc: "ex_bind (ex_bind m f) g = ex_bind m (\<lambda>x. ex_bind (f x) g)"
  by (rule ext) (simp add: ex_bind_def split: prod.splits sum.splits)

lemma ex_bind_return [simp]: "ex_bind m ex_return = m"
  by (rule ext) (simp add: ex_bind_def split: prod.splits sum.splits)

section \<open>Overwriting a range of memory\<close>

text \<open>\<open>memcpy(dst + off, d, |d|)\<close> on a block of bytes.\<close>

definition blit :: "'a list \<Rightarrow> nat \<Rightarrow> 'a list \<Rightarrow> 'a list" where
  "blit block off d = take off block @ d @ drop (off + length d) block"

lemma length_blit [blit_simps, simp]:
  "off + length d \<le> length block \<Longrightarrow> length (blit block off d) = length block"
  by (simp add: blit_def)

lemma blit_Nil [blit_simps, simp]: "off \<le> length block \<Longrightarrow> blit block off [] = block"
  by (simp add: blit_def)

lemma blit_append_left [blit_simps]:
  "off + length d \<le> length xs \<Longrightarrow> blit (xs @ ys) off d = blit xs off d @ ys"
  by (simp add: blit_def)

lemma blit_append_right [blit_simps]:
  "length xs \<le> off \<Longrightarrow> blit (xs @ ys) off d = xs @ blit ys (off - length xs) d"
  by (simp add: blit_def)

lemma take_drop_blit [blit_simps]:
  "off + length d \<le> length block \<Longrightarrow> take (length d) (drop off (blit block off d)) = d"
  by (simp add: blit_def)

lemma blit_blit_consecutive [blit_simps]:
  assumes "off + length d + length e \<le> length block"
  shows "blit (blit block off d) (off + length d) e = blit block off (d @ e)"
  using assms by (simp add: blit_def take_drop add.commute add.left_commute)

lemma blit_blit [blit_simps]:
  "p \<le> length old \<Longrightarrow> blit (blit old p bs) (p + length bs) cs = blit old p (bs @ cs)"
  by (simp add: blit_def add.commute add.left_commute)

lemma blit_split:
  assumes "npos \<le> length x" "length d \<le> (length x - npos) + length ys"
  shows "blit (x @ ys) npos d
    = blit x npos (take (length x - npos) d) @ blit ys 0 (drop (length x - npos) d)"
proof (cases "length d \<le> length x - npos")
  case True
  then show ?thesis using assms by (simp add: blit_def)
next
  case False
  let ?k = "length x - npos"
  have "take ?k d @ drop ?k d @ zs = d @ zs" for zs
    using append_take_drop_id [of ?k d] by (metis append_assoc)
  then show ?thesis using False assms by (simp add: blit_def add.commute)
qed

lemma take_blit_max:
  assumes "off \<le> n" "n \<le> length block" "off + length d \<le> length block"
  shows "take (max n (off + length d)) (blit block off d) = blit (take n block) off d"
proof (cases "off + length d \<le> n")
  case True
  with assms have "max n (off + length d) = n" by simp
  with True assms show ?thesis by (cases "n = off") (auto simp: blit_def drop_take min_def)
next
  case False
  with assms show ?thesis by (simp add: blit_def max_absorb2)
qed

lemma length_concat_uniform:
  "\<forall>x \<in> set xs. length x = n \<Longrightarrow> length (concat xs) = n * length xs"
  by (induction xs) auto

lemma concat_update_blit:
  assumes "\<forall>x \<in> set xs. length x = n" "i < length xs" "off + length d \<le> n"
  shows "concat (xs[i := blit (xs ! i) off d]) = blit (concat xs) (i * n + off) d"
  using assms
proof (induction xs arbitrary: i)
  case Nil
  then show ?case by simp
next
  case (Cons x xs)
  show ?case
  proof (cases i)
    case 0
    with Cons.prems show ?thesis by (simp add: blit_append_left)
  next
    case (Suc j)
    with Cons.prems have "concat (xs[j := blit (xs ! j) off d]) = blit (concat xs) (j * n + off) d"
      by (intro Cons.IH) auto
    with Suc Cons.prems show ?thesis by (simp add: blit_append_right)
  qed
qed

lemma concat_take_uniform:
  assumes "\<forall>x \<in> set xs. length x = n" "i < length xs" "off + k \<le> n"
  shows "take k (drop off (xs ! i)) = take k (drop (i * n + off) (concat xs))"
  using assms
proof (induction xs arbitrary: i)
  case Nil
  then show ?case by simp
next
  case (Cons x xs)
  show ?case
  proof (cases i)
    case 0
    with Cons.prems show ?thesis by simp
  next
    case (Suc j)
    with Cons.prems have "take k (drop off (xs ! j)) = take k (drop (j * n + off) (concat xs))"
      by (intro Cons.IH) auto
    with Suc Cons.prems show ?thesis by simp
  qed
qed

lemma all_length_update:
  "\<forall>x \<in> set xs. length x = n \<Longrightarrow> length y = n \<Longrightarrow> \<forall>x \<in> set (xs[i := y]). length x = n"
  by (metis set_update_subset_insert insert_iff subset_iff)

lemma div_mult_add_less:
  fixes c :: nat
  assumes "r < n"
  shows "(c * n + r) div n = c"
  using assms by simp

lemma Suc_div_eq:
  fixes n :: nat
  assumes "0 < n" "a = n + b"
  shows "Suc (b div n) = a div n"
  using assms(1) by (simp add: assms(2) div_add_self1)

section \<open>Byte images of machine integers\<close>

text \<open>
  The memory of an integer of \<open>n\<close> bytes, least significant byte first, and the number that
  such a memory holds.
\<close>

lemma unat_drop_bit: "unat (drop_bit n w) = unat w div 2 ^ n"
  by (subst unat_drop_bit_eq) (rule drop_bit_eq_div)

lemma u8_less [simp]: "unat (b :: u8) < 256"
  using unsigned_less [of b, where 'a = nat] by simp

fun le_bytes :: "nat \<Rightarrow> nat \<Rightarrow> bytes" where
  "le_bytes 0 x = []"
| "le_bytes (Suc n) x = word_of_nat x # le_bytes n (x div 256)"

fun le_nat :: "bytes \<Rightarrow> nat" where
  "le_nat [] = 0"
| "le_nat (b # bs) = unat b + 256 * le_nat bs"

lemma le_bytes_numeral [enc_simps, simp]:
  "le_bytes (numeral k) x = word_of_nat x # le_bytes (pred_numeral k) (x div 256)"
  by (simp only: numeral_eq_Suc [of k] le_bytes.simps)

lemma length_le_bytes [enc_simps, simp]: "length (le_bytes n x) = n"
  by (induction n arbitrary: x) auto

lemma le_nat_bound: "le_nat bs < 256 ^ length bs"
proof (induction bs)
  case Nil
  show ?case by simp
next
  case (Cons b bs)
  have b: "unat b < 256" by (rule u8_less)
  from Cons have "le_nat bs + 1 \<le> 256 ^ length bs" by simp
  then have "256 * (le_nat bs + 1) \<le> 256 * 256 ^ length bs" by (rule mult_le_mono2)
  then have "256 * le_nat bs + 256 \<le> 256 ^ length (b # bs)" by simp
  with b show ?case by (simp only: le_nat.simps)
qed

lemma unat_u8_of_nat: "unat (word_of_nat x :: u8) = x mod 256"
  by (simp add: unat_of_nat)

lemma le_nat_le_bytes [enc_simps]: "le_nat (le_bytes n x) = x mod 256 ^ n"
proof (induction n arbitrary: x)
  case 0
  show ?case by simp
next
  case (Suc n)
  show ?case by (simp add: Suc unat_u8_of_nat mod_mult2_eq)
qed

lemma le_bytes_le_nat [enc_simps]: "le_bytes (length bs) (le_nat bs) = bs"
proof (induction bs)
  case Nil
  show ?case by simp
next
  case (Cons b bs)
  have b: "unat b < 256" by (rule u8_less)
  have "(unat b + 256 * le_nat bs) div 256 = le_nat bs" using b by simp
  moreover have "(word_of_nat (unat b + 256 * le_nat bs) :: u8) = b"
  proof (rule word_unat_eq_iff [THEN iffD2])
    show "unat (word_of_nat (unat b + 256 * le_nat bs) :: u8) = unat b"
      using b by (simp only: unat_u8_of_nat mod_mult_self2) simp
  qed
  ultimately show ?case using Cons by simp
qed

text \<open>
  \<open>mem_image h w\<close> is what \<open>memcpy(dst, &w, sizeof(w))\<close> copies on a host of byte order
  \<open>h\<close>; \<open>mem_load h\<close> is the copy back.  \<open>byteswap\<close> is the template of
  \<^verbatim>\<open>include/my_endian.h\<close>: \<open>bswap_16/32/64\<close> reverses the bytes of the value.
\<close>

definition nbytes :: "'a::len word \<Rightarrow> nat" where
  "nbytes w = LENGTH('a) div 8"

definition mem_image :: "endian \<Rightarrow> 'a::len word \<Rightarrow> bytes" where
  "mem_image h w = (let bs = le_bytes (nbytes w) (unat w) in
     case h of LittleEndian \<Rightarrow> bs | BigEndian \<Rightarrow> rev bs)"

definition mem_load :: "endian \<Rightarrow> bytes \<Rightarrow> 'a::len word" where
  "mem_load h bs = (case h of LittleEndian \<Rightarrow> word_of_nat (le_nat bs)
                            | BigEndian \<Rightarrow> word_of_nat (le_nat (rev bs)))"

definition byteswap :: "'a::len word \<Rightarrow> 'a word" where
  "byteswap w = word_of_nat (le_nat (rev (le_bytes (nbytes w) (unat w))))"

lemma nbytes_simps [simp]:
  "nbytes (w8 :: u8) = 1" "nbytes (w16 :: u16) = 2"
  "nbytes (w32 :: u32) = 4" "nbytes (w64 :: u64) = 8"
  by (simp_all add: nbytes_def)

lemma length_mem_image [enc_simps, simp]: "length (mem_image h w) = nbytes w"
  by (cases h) (simp_all add: mem_image_def)

lemma mem_image_u8 [enc_simps, simp]: "mem_image h (w :: u8) = [w]"
  by (cases h) (simp_all add: mem_image_def)

text \<open>The types of the code have a whole number of bytes.\<close>

definition whole_bytes :: "'a::len word itself \<Rightarrow> bool" where
  "whole_bytes t \<longleftrightarrow> 8 * (LENGTH('a) div 8) = LENGTH('a)"

lemma whole_bytes_simps [simp]:
  "whole_bytes TYPE(u8)" "whole_bytes TYPE(u16)" "whole_bytes TYPE(u32)" "whole_bytes TYPE(u64)"
  by (simp_all add: whole_bytes_def)

lemma whole_bytes_256:
  "whole_bytes TYPE('a::len word) \<Longrightarrow> (256 :: nat) ^ nbytes (w :: 'a word) = 2 ^ LENGTH('a)"
proof -
  assume "whole_bytes TYPE('a word)"
  then have "8 * nbytes w = LENGTH('a)" by (simp add: whole_bytes_def nbytes_def)
  moreover have "(256 :: nat) = 2 ^ 8" by simp
  ultimately show ?thesis by (metis power_mult)
qed

lemma unat_word_of_le_nat:
  assumes "whole_bytes TYPE('a::len word)" "length bs = nbytes (undefined :: 'a word)"
  shows "unat (word_of_nat (le_nat bs) :: 'a word) = le_nat bs"
proof -
  have "le_nat bs < 2 ^ LENGTH('a)"
    using le_nat_bound [of bs] assms whole_bytes_256 [where 'a = 'a] by metis
  then show ?thesis by (simp add: unat_of_nat)
qed

lemma le_bytes_unat_inverse:
  assumes "whole_bytes TYPE('a::len word)"
  shows "word_of_nat (le_nat (le_bytes (nbytes w) (unat w))) = (w :: 'a word)"
proof -
  have "unat w < 256 ^ nbytes w"
    using unsigned_less [of w, where 'a = nat] whole_bytes_256 [OF assms, of w] by simp
  then show ?thesis by (simp add: le_nat_le_bytes)
qed

lemma nbytes_type: "nbytes (w :: 'a::len word) = nbytes (v :: 'a word)"
  by (simp add: nbytes_def)

lemma mem_load_image [enc_simps]:
  "whole_bytes TYPE('a::len word) \<Longrightarrow> mem_load h (mem_image h w) = (w :: 'a word)"
  by (cases h) (simp_all add: mem_load_def mem_image_def le_bytes_unat_inverse)

lemma le_bytes_byteswap:
  assumes "whole_bytes TYPE('a::len word)"
  shows "le_bytes (nbytes w) (unat (byteswap (w :: 'a word))) = rev (le_bytes (nbytes w) (unat w))"
proof -
  let ?r = "rev (le_bytes (nbytes w) (unat w))"
  have len: "length ?r = nbytes (undefined :: 'a word)" by (simp add: nbytes_def)
  have "unat (byteswap w) = le_nat ?r"
    unfolding byteswap_def by (rule unat_word_of_le_nat [OF assms len])
  moreover have "le_bytes (length ?r) (le_nat ?r) = ?r" by (rule le_bytes_le_nat)
  ultimately show ?thesis by simp
qed

lemma mem_image_byteswap [enc_simps]:
  "whole_bytes TYPE('a::len word) \<Longrightarrow> mem_image h (byteswap (w :: 'a word)) = rev (mem_image h w)"
  by (cases h) (simp_all add: mem_image_def le_bytes_byteswap nbytes_type [of "byteswap w" w])

lemma byteswap_byteswap [enc_simps, simp]:
  assumes "whole_bytes TYPE('a::len word)"
  shows "byteswap (byteswap w) = (w :: 'a word)"
proof -
  have "byteswap (byteswap w)
      = word_of_nat (le_nat (rev (le_bytes (nbytes w) (unat (byteswap w)))))"
    by (simp add: byteswap_def [of "byteswap w"] nbytes_type [of "byteswap w" w])
  also have "\<dots> = w" by (simp add: le_bytes_byteswap assms le_bytes_unat_inverse)
  finally show ?thesis .
qed

lemma mem_image_other_host: "rev (mem_image LittleEndian w) = mem_image BigEndian w"
  by (simp add: mem_image_def)

text \<open>\<open>byteswapOnLittleEndian\<close> of the header: host order to network order and back.\<close>

definition byteswapOnLittleEndian :: "endian \<Rightarrow> 'a::len word \<Rightarrow> 'a word" where
  "byteswapOnLittleEndian host v = (case host of BigEndian \<Rightarrow> v | LittleEndian \<Rightarrow> byteswap v)"

lemma byteswapOnLittleEndian_twice [enc_simps, simp]:
  "whole_bytes TYPE('a::len word) \<Longrightarrow>
   byteswapOnLittleEndian host (byteswapOnLittleEndian host (w :: 'a word)) = w"
  by (cases host) (simp_all add: byteswapOnLittleEndian_def)

end
