(* ===== verification/Cpp_Strings.thy ===== *)
theory Cpp_Strings
  imports Prelude
begin

text \<open>
  The members of \<open>std::string\<close> that the text components use, over lists of characters: the
  searches return \<open>None\<close> for \<open>npos\<close>.
\<close>

section \<open>Searching\<close>

fun find_idx :: "('a \<Rightarrow> bool) \<Rightarrow> 'a list \<Rightarrow> nat option" where
  "find_idx P [] = None"
| "find_idx P (x # xs) = (if P x then Some 0 else map_option Suc (find_idx P xs))"

fun rfind_idx :: "('a \<Rightarrow> bool) \<Rightarrow> 'a list \<Rightarrow> nat option" where
  "rfind_idx P [] = None"
| "rfind_idx P (x # xs) = (case rfind_idx P xs of Some i \<Rightarrow> Some (Suc i)
     | None \<Rightarrow> if P x then Some 0 else None)"

fun find_sub :: "'a list \<Rightarrow> 'a list \<Rightarrow> nat option" where
  "find_sub pat [] = (if pat = [] then Some 0 else None)"
| "find_sub pat (x # xs) = (if take (length pat) (x # xs) = pat then Some 0
     else map_option Suc (find_sub pat xs))"

definition find_from :: "('a \<Rightarrow> bool) \<Rightarrow> 'a list \<Rightarrow> nat \<Rightarrow> nat option" where
  "find_from P s k = map_option ((+) k) (find_idx P (drop k s))"

definition substr :: "'a list \<Rightarrow> nat \<Rightarrow> nat \<Rightarrow> 'a list" where
  "substr s pos n = take n (drop pos s)"

lemma find_idx_None: "find_idx P xs = None \<longleftrightarrow> (\<forall>x \<in> set xs. \<not> P x)"
  by (induction xs) auto

lemma find_idx_Some:
  "find_idx P xs = Some i \<Longrightarrow> i < length xs \<and> P (xs ! i) \<and> (\<forall>x \<in> set (take i xs). \<not> P x)"
proof (induction xs arbitrary: i)
  case Nil
  then show ?case by simp
next
  case (Cons x xs)
  then show ?case by (auto split: if_splits)
qed

lemma find_idx_less: "find_idx P xs = Some i \<Longrightarrow> i < length xs"
  using find_idx_Some by blast

lemma find_idx_split:
  assumes "find_idx P xs = Some i"
  shows "xs = take i xs @ xs ! i # drop (Suc i) xs"
  using find_idx_Some [OF assms] by (simp add: id_take_nth_drop)

lemma find_idx_takeWhile:
  "find_idx P xs = (let n = length (takeWhile (\<lambda>x. \<not> P x) xs) in if n < length xs then Some n else None)"
  by (induction xs) (auto simp: Let_def)

lemma find_idx_append:
  "find_idx P (xs @ ys) = (case find_idx P xs of Some i \<Rightarrow> Some i
     | None \<Rightarrow> map_option ((+) (length xs)) (find_idx P ys))"
  by (induction xs; cases "find_idx P ys") (auto split: option.splits)

lemma rfind_idx_None: "rfind_idx P xs = None \<longleftrightarrow> (\<forall>x \<in> set xs. \<not> P x)"
  by (induction xs) (auto split: option.splits)

lemma rfind_idx_Some:
  "rfind_idx P xs = Some i \<Longrightarrow>
     i < length xs \<and> P (xs ! i) \<and> (\<forall>x \<in> set (drop (Suc i) xs). \<not> P x)"
proof (induction xs arbitrary: i)
  case Nil
  then show ?case by simp
next
  case (Cons x xs)
  show ?case
  proof (cases "rfind_idx P xs")
    case None
    with Cons.prems show ?thesis by (auto simp: rfind_idx_None split: if_splits)
  next
    case (Some j)
    with Cons show ?thesis by auto
  qed
qed

lemma find_sub_Some:
  "find_sub pat xs = Some i \<Longrightarrow> xs = take i xs @ pat @ drop (i + length pat) xs \<and> i \<le> length xs"
proof (induction pat xs arbitrary: i rule: find_sub.induct)
  case (1 pat)
  then show ?case by (auto split: if_splits)
next
  case (2 pat x xs)
  show ?case
  proof (cases "take (length pat) (x # xs) = pat")
    case True
    then have "i = 0" using "2.prems" by simp
    with True show ?thesis by (metis append_self_conv2 append_take_drop_id add_0 le0 take0)
  next
    case False
    with "2.prems" obtain j where "find_sub pat xs = Some j" "i = Suc j"
      by (auto split: if_splits)
    with "2.IH" [OF False, of j] show ?thesis by auto
  qed
qed

section \<open>Characters\<close>

text \<open>\<open><ctype.h>\<close> in the C locale; a character beyond 127 belongs to no class.\<close>

definition code :: "char \<Rightarrow> nat" where
  "code c = of_char c"

lemma code_less [simp]: "code c < 256"
  by (simp add: code_def)

definition is_digit :: "char \<Rightarrow> bool" where
  "is_digit c \<longleftrightarrow> 48 \<le> code c \<and> code c \<le> 57"

definition is_upper :: "char \<Rightarrow> bool" where
  "is_upper c \<longleftrightarrow> 65 \<le> code c \<and> code c \<le> 90"

definition is_lower :: "char \<Rightarrow> bool" where
  "is_lower c \<longleftrightarrow> 97 \<le> code c \<and> code c \<le> 122"

definition is_xdigit :: "char \<Rightarrow> bool" where
  "is_xdigit c \<longleftrightarrow> is_digit c \<or> 65 \<le> code c \<and> code c \<le> 70 \<or> 97 \<le> code c \<and> code c \<le> 102"

definition to_lower :: "char \<Rightarrow> char" where
  "to_lower c = (if is_upper c then char_of (code c + 32) else c)"

definition to_upper :: "char \<Rightarrow> char" where
  "to_upper c = (if is_lower c then char_of (code c - 32) else c)"

definition is_space :: "char \<Rightarrow> bool" where
  "is_space c \<longleftrightarrow> code c = 32 \<or> 9 \<le> code c \<and> code c \<le> 13"

text \<open>The C string of a \<open>std::string\<close> ends at the first zero character.\<close>

definition c_str :: "string \<Rightarrow> string" where
  "c_str s = takeWhile (\<lambda>c. code c \<noteq> 0) s"

section \<open>Numbers in text\<close>

text \<open>\<open>std::to_string\<close> and \<open>operator <<\<close> of an unsigned number.\<close>

function dec :: "nat \<Rightarrow> string" where
  "dec n = (if n < 10 then [char_of (48 + n)] else dec (n div 10) @ [char_of (48 + n mod 10)])"
  by pat_completeness auto
termination by (relation "measure id") auto

declare dec.simps [simp del]

definition dec_int :: "int \<Rightarrow> string" where
  "dec_int i = (if i < 0 then ''-'' @ dec (nat (- i)) else dec (nat i))"

definition digits_val :: "string \<Rightarrow> nat" where
  "digits_val ds = foldl (\<lambda>a c. 10 * a + (code c - 48)) 0 ds"

lemma digits_val_append: "digits_val (xs @ [c]) = 10 * digits_val xs + (code c - 48)"
  by (simp add: digits_val_def)

lemma code_char_of [simp]: "code (char_of (n :: nat)) = n mod 256"
  by (simp add: code_def)

lemma dec_digits: "(\<forall>c \<in> set (dec n). is_digit c) \<and> dec n \<noteq> [] \<and> digits_val (dec n) = n"
proof (induction n rule: dec.induct)
  case (1 n)
  show ?case
  proof (cases "n < 10")
    case True
    then show ?thesis by (subst dec.simps) (simp add: is_digit_def digits_val_def dec.simps)
  next
    case False
    then have d: "dec n = dec (n div 10) @ [char_of (48 + n mod 10)]" by (subst dec.simps) simp
    have m: "n mod 10 < 10" by simp
    from 1 [OF False] m show ?thesis
      unfolding d by (auto simp: digits_val_append is_digit_def)
  qed
qed

text \<open>
  \<open>strtoull\<close> and \<open>strtol\<close> with base 10: leading blanks, a sign, then as many digits as
  there are; the result saturates.
\<close>

definition strtoull :: "string \<Rightarrow> nat" where
  "strtoull s = (let t = dropWhile is_space s;
       neg = (t \<noteq> [] \<and> List.hd t = CHR ''-'');
       u = (if t \<noteq> [] \<and> (List.hd t = CHR ''-'' \<or> List.hd t = CHR ''+'') then List.tl t else t);
       n = digits_val (takeWhile is_digit u)
     in if 2 ^ 64 \<le> n then 2 ^ 64 - 1 else if neg then (2 ^ 64 - n) mod 2 ^ 64 else n)"

lemma strtoull_dec:
  assumes "n < 2 ^ 64"
  shows "strtoull (dec n) = n"
proof -
  have ds: "\<forall>c \<in> set (dec n). is_digit c" and ne: "dec n \<noteq> []" and v: "digits_val (dec n) = n"
    using dec_digits [of n] by auto
  obtain c cs where c: "dec n = c # cs" using ne by (cases "dec n") auto
  with ds have dc: "is_digit c" by simp
  then have "\<not> is_space c" "c \<noteq> CHR ''-''" "c \<noteq> CHR ''+''"
    by (auto simp: is_digit_def is_space_def code_def)
  moreover have "takeWhile is_digit (dec n) = dec n" using ds by simp
  ultimately show ?thesis using assms v c by (simp add: strtoull_def Let_def)
qed

end
