(* ===== verification/Address.thy ===== *)
theory Address
  imports Cpp_Strings
begin

text \<open>
  \<^verbatim>\<open>src/address.cc\<close>: socket addresses.  The members of \<open>sockaddr_in\<close> and \<open>sockaddr_in6\<close> are the
  words that the structures hold, so ports and IPv4 addresses are in network byte order in
  memory; \<open>host\<close> is the byte order of the machine.  \<open>getaddrinfo\<close>, \<open>getifaddrs\<close> and
  \<open>inet_pton\<close> are arguments.
\<close>

section \<open>Address structures\<close>

definition AF_UNIX :: u16 where "AF_UNIX = 1"
definition AF_INET :: u16 where "AF_INET = 2"
definition AF_INET6 :: u16 where "AF_INET6 = 10"

record sockaddr_in =
  sin_family :: u16
  sin_port :: u16
  sin_addr :: u32
  sin_zero :: bytes

record sockaddr_in6 =
  sin6_family :: u16
  sin6_port :: u16
  sin6_flowinfo :: u32
  s6_addr :: bytes
  sin6_scope_id :: u32

record sockaddr_un =
  sun_family :: u16
  sun_path :: bytes
  m_length :: nat

datatype Address = IPv4Address sockaddr_in | IPv6Address sockaddr_in6
  | UnixAddress sockaddr_un | UnknownAddress u16 bytes

text \<open>The bytes that \<open>getAddr\<close> points to and their number.\<close>

fun getAddr :: "endian \<Rightarrow> Address \<Rightarrow> bytes" where
  "getAddr host (IPv4Address a) = mem_image host (sin_family a) @ mem_image host (sin_port a)
     @ mem_image host (sin_addr a) @ sin_zero a"
| "getAddr host (IPv6Address a) = mem_image host (sin6_family a) @ mem_image host (sin6_port a)
     @ mem_image host (sin6_flowinfo a) @ s6_addr a @ mem_image host (sin6_scope_id a)"
| "getAddr host (UnixAddress a) = mem_image host (sun_family a) @ sun_path a"
| "getAddr host (UnknownAddress f d) = mem_image host f @ d"

fun getAddrLen :: "Address \<Rightarrow> nat" where
  "getAddrLen (IPv4Address a) = 16"
| "getAddrLen (IPv6Address a) = 28"
| "getAddrLen (UnixAddress a) = m_length a"
| "getAddrLen (UnknownAddress f d) = 16"

fun getFamily :: "Address \<Rightarrow> u16" where
  "getFamily (IPv4Address a) = sin_family a"
| "getFamily (IPv6Address a) = sin6_family a"
| "getFamily (UnixAddress a) = sun_family a"
| "getFamily (UnknownAddress f d) = f"

definition address_eq :: "endian \<Rightarrow> Address \<Rightarrow> Address \<Rightarrow> bool" where
  "address_eq host a b \<longleftrightarrow> getAddrLen a = getAddrLen b
     \<and> take (getAddrLen a) (getAddr host a) = take (getAddrLen a) (getAddr host b)"

text \<open>\<open>memcmp\<close> on the first \<open>n\<close> bytes.\<close>

fun memcmp :: "bytes \<Rightarrow> bytes \<Rightarrow> int" where
  "memcmp (a # as) (b # bs) = (if unat a < unat b then -1 else if unat b < unat a then 1 else memcmp as bs)"
| "memcmp _ _ = 0"

text \<open>\<open>garbage\<close> is the value of \<open>minlen\<close> in its own initializer.\<close>

definition address_less :: "endian \<Rightarrow> nat \<Rightarrow> Address \<Rightarrow> Address \<Rightarrow> bool" where
  "address_less host garbage a b =
    (let minlen = min (getAddrLen a) garbage;
         result = memcmp (take minlen (getAddr host a)) (take minlen (getAddr host b))
     in if result < 0 then True
        else if 0 < result then False
        else getAddrLen a < getAddrLen b)"

section \<open>Masks\<close>

text \<open>
  The shift is on \<open>int\<close>: shifting by 32 bits and the subtraction from the least integer are
  undefined (\<open>None\<close>).
\<close>

definition CreateMask32 :: "nat \<Rightarrow> u32 option" where
  "CreateMask32 bits = (if bits \<le> 1 \<or> 32 < bits then None else Some (2 ^ (32 - bits) - 1))"

definition CreateMask8 :: "nat \<Rightarrow> u8" where
  "CreateMask8 bits = word_of_nat (2 ^ (8 - bits) - 1)"

function CountBytes :: "'a::len word \<Rightarrow> nat" where
  "CountBytes w = (if w = 0 then 0 else Suc (CountBytes (w AND (w - 1))))"
  by pat_completeness auto
termination
proof (relation "measure unat")
  fix w :: "'a word"
  assume "w \<noteq> 0"
  then have "unat (w - 1) < unat w" using unat_gt_0 [of w] by (simp add: unat_minus_one)
  moreover have "w AND (w - 1) \<le> w - 1" by (rule word_and_le1)
  ultimately show "(w AND (w - 1), w) \<in> measure unat" by (simp add: word_le_nat_alt)
qed simp

declare CountBytes.simps [simp del]

section \<open>IPv4\<close>

definition new_IPv4Address :: "endian \<Rightarrow> u32 \<Rightarrow> u16 \<Rightarrow> sockaddr_in" where
  "new_IPv4Address host address port = \<lparr>sin_family = AF_INET,
     sin_port = byteswapOnLittleEndian host port, sin_addr = byteswapOnLittleEndian host address,
     sin_zero = replicate 8 0\<rparr>"

definition insert4 :: "endian \<Rightarrow> sockaddr_in \<Rightarrow> string" where
  "insert4 host a = (let addr = byteswapOnLittleEndian host (sin_addr a) in
     dec (unat (drop_bit 24 addr AND 0xff)) @ ''.'' @ dec (unat (drop_bit 16 addr AND 0xff)) @ ''.''
     @ dec (unat (drop_bit 8 addr AND 0xff)) @ ''.'' @ dec (unat (addr AND 0xff))
     @ '':'' @ dec (unat (byteswapOnLittleEndian host (sin_port a))))"

text \<open>
  The outer option is undefined behaviour of \<open>CreateMask\<close>, the inner one the null pointer.
\<close>

definition broadcastAddress4 :: "endian \<Rightarrow> nat \<Rightarrow> sockaddr_in \<Rightarrow> sockaddr_in option option" where
  "broadcastAddress4 host prefix_len a = (if 32 < prefix_len then Some None
     else map_option (\<lambda>msk. Some (a\<lparr>sin_addr := sin_addr a AND byteswapOnLittleEndian host msk\<rparr>))
            (CreateMask32 prefix_len))"

definition networdAddress4 :: "endian \<Rightarrow> nat \<Rightarrow> sockaddr_in \<Rightarrow> sockaddr_in option option" where
  "networdAddress4 host prefix_len a = (if 32 < prefix_len then Some None
     else map_option (\<lambda>msk. Some (a\<lparr>sin_addr := sin_addr a AND byteswapOnLittleEndian host msk\<rparr>))
            (CreateMask32 prefix_len))"

definition subnetMask4 :: "endian \<Rightarrow> nat \<Rightarrow> sockaddr_in option" where
  "subnetMask4 host prefix_len =
     map_option (\<lambda>msk. \<lparr>sin_family = AF_INET, sin_port = 0,
         sin_addr = 0 AND NOT (byteswapOnLittleEndian host msk), sin_zero = replicate 8 0\<rparr>)
       (CreateMask32 prefix_len)"

definition getPort4 :: "endian \<Rightarrow> sockaddr_in \<Rightarrow> u16" where
  "getPort4 host a = byteswapOnLittleEndian host (sin_port a)"

definition setPort4 :: "endian \<Rightarrow> u16 \<Rightarrow> sockaddr_in \<Rightarrow> sockaddr_in" where
  "setPort4 host v a = a\<lparr>sin_port := byteswapOnLittleEndian host v\<rparr>"

section \<open>IPv6\<close>

definition new_IPv6Address :: sockaddr_in6 where
  "new_IPv6Address = \<lparr>sin6_family = AF_INET6, sin6_port = 0, sin6_flowinfo = 0,
     s6_addr = replicate 16 0, sin6_scope_id = 0\<rparr>"

definition new_IPv6Address_bytes :: "endian \<Rightarrow> bytes \<Rightarrow> u16 \<Rightarrow> sockaddr_in6" where
  "new_IPv6Address_bytes host address port =
     new_IPv6Address\<lparr>sin6_port := byteswapOnLittleEndian host port, s6_addr := take 16 address\<rparr>"

definition IPv6_Create :: "endian \<Rightarrow> (string \<Rightarrow> bytes option) \<Rightarrow> string \<Rightarrow> u16 \<Rightarrow> sockaddr_in6 option" where
  "IPv6_Create host pton address port = (case pton address of
       None \<Rightarrow> None
     | Some bs \<Rightarrow> Some (new_IPv6Address\<lparr>sin6_port := byteswapOnLittleEndian host port, s6_addr := bs\<rparr>))"

text \<open>\<open>os << std::hex << n\<close>.\<close>

definition hexdigit :: "nat \<Rightarrow> char" where
  "hexdigit n = char_of (if n < 10 then n + 48 else n + 87)"

function hexnum :: "nat \<Rightarrow> string" where
  "hexnum n = (if n < 16 then [hexdigit n] else hexnum (n div 16) @ [hexdigit (n mod 16)])"
  by pat_completeness auto
termination by (relation "measure id") auto

declare hexnum.simps [simp del]

text \<open>The address as an array of 8 \<open>uint16_t\<close> in memory order.\<close>

definition v6_words :: "endian \<Rightarrow> sockaddr_in6 \<Rightarrow> u16 list" where
  "v6_words host a = map (\<lambda>i. mem_load host (take 2 (drop (2 * i) (s6_addr a)))) [0..<8]"

text \<open>The loop from index \<open>i\<close>: whether zeros have been left out, and the text.\<close>

function insert6_loop :: "endian \<Rightarrow> u16 list \<Rightarrow> nat \<Rightarrow> bool \<Rightarrow> bool \<times> string" where
  "insert6_loop host addr i used_zeros =
    (if 8 \<le> i then (used_zeros, [])
     else if addr ! i = 0 \<and> \<not> used_zeros then insert6_loop host addr (Suc i) used_zeros
     else let skipped = (i \<noteq> 0 \<and> addr ! (i - 1) = 0 \<and> \<not> used_zeros) in
       case insert6_loop host addr (Suc i) (used_zeros \<or> skipped) of
         (u, s) \<Rightarrow> (u, (if skipped then '':'' else []) @ (if i \<noteq> 0 then '':'' else [])
                      @ hexnum (unat (byteswapOnLittleEndian host (addr ! i))) @ s))"
  by pat_completeness auto
termination by (relation "measure (\<lambda>(host, addr, i, u). 8 - i)") auto

declare insert6_loop.simps [simp del]

definition insert6 :: "endian \<Rightarrow> sockaddr_in6 \<Rightarrow> string" where
  "insert6 host a = (let addr = v6_words host a in
     case insert6_loop host addr 0 False of
       (used_zeros, s) \<Rightarrow> ''['' @ s @ (if \<not> used_zeros \<and> addr ! 7 = 0 then ''::'' else [])
          @ '']:'' @ dec (unat (byteswapOnLittleEndian host (sin6_port a))))"

text \<open>\<open>None\<close> is the access behind the 16 bytes, for a prefix of 128 bits or more.\<close>

definition broadcastAddress6 :: "nat \<Rightarrow> sockaddr_in6 \<Rightarrow> sockaddr_in6 option" where
  "broadcastAddress6 prefix_len a = (let k = prefix_len div 8; bs = s6_addr a in
     if 16 \<le> k then None
     else Some (a\<lparr>s6_addr := take k bs @ [bs ! k OR CreateMask8 (prefix_len mod 8)]
                   @ replicate (16 - (k + 1)) 0xff\<rparr>))"

definition networdAddress6 :: "nat \<Rightarrow> sockaddr_in6 \<Rightarrow> sockaddr_in6 option" where
  "networdAddress6 prefix_len a = (let k = prefix_len div 8; bs = s6_addr a in
     if 16 \<le> k then None
     else Some (a\<lparr>s6_addr := take k bs @ [bs ! k AND CreateMask8 (prefix_len mod 8)]
                   @ replicate (16 - (k + 1)) 0\<rparr>))"

definition subnetMask6 :: "nat \<Rightarrow> sockaddr_in6 option" where
  "subnetMask6 prefix_len = (let k = prefix_len div 8 in
     if 16 \<le> k then None
     else Some (new_IPv6Address\<lparr>sin6_family := AF_INET,
            s6_addr := replicate k 0xff @ [NOT (CreateMask8 (prefix_len mod 8))]
              @ replicate (16 - (k + 1)) 0\<rparr>))"

definition getPort6 :: "endian \<Rightarrow> sockaddr_in6 \<Rightarrow> u16" where
  "getPort6 host a = byteswapOnLittleEndian host (sin6_port a)"

definition setPort6 :: "endian \<Rightarrow> u16 \<Rightarrow> sockaddr_in6 \<Rightarrow> sockaddr_in6" where
  "setPort6 host v a = a\<lparr>sin6_port := byteswapOnLittleEndian host v\<rparr>"

section \<open>Unix addresses\<close>

definition new_UnixAddress :: sockaddr_un where
  "new_UnixAddress = \<lparr>sun_family = AF_UNIX, sun_path = replicate 108 0, m_length = 2 + 107\<rparr>"

text \<open>\<open>None\<close> is the exception for a path that is too long.\<close>

definition new_UnixAddress_path :: "bytes \<Rightarrow> sockaddr_un option" where
  "new_UnixAddress_path path =
    (let len = (if path \<noteq> [] \<and> path ! 0 = 0 then length path else length path + 1)
     in if 108 < len then None
        else Some \<lparr>sun_family = AF_UNIX, sun_path = take len (path @ [0]) @ replicate (108 - len) 0,
                   m_length = len + 2\<rparr>)"

definition setAddrLen :: "nat \<Rightarrow> sockaddr_un \<Rightarrow> sockaddr_un" where
  "setAddrLen v a = a\<lparr>m_length := v\<rparr>"

definition getPath :: "sockaddr_un \<Rightarrow> bytes" where
  "getPath a = (if 2 < m_length a \<and> sun_path a ! 0 = 0
     then [92, 48] @ take (m_length a - 2 - 1) (drop 1 (sun_path a))
     else takeWhile (\<lambda>b. b \<noteq> 0) (sun_path a))"

section \<open>Lookup\<close>

text \<open>
  The text of the host and the service that are passed to \<open>getaddrinfo\<close>; \<open>None\<close> is the null
  pointer.
\<close>

definition split_bracket :: "string \<Rightarrow> string \<times> string option" where
  "split_bracket host =
    (if host \<noteq> [] \<and> host ! 0 = CHR ''['' then
       (case find_idx (\<lambda>c. c = CHR '']'') (drop 1 host) of
          None \<Rightarrow> ([], None)
        | Some k \<Rightarrow> let e = k + 1 in
            (substr host 1 (e - 1),
             if e + 1 < length host \<and> host ! (e + 1) = CHR '':'' then Some (drop (e + 2) host) else None))
     else ([], None))"

definition split_host :: "string \<Rightarrow> string \<times> string option" where
  "split_host host = (case split_bracket host of (node, service) \<Rightarrow>
     (let (node1, service1) =
        (if node = [] then
           (case find_idx (\<lambda>c. c = CHR '':'') host of
              None \<Rightarrow> ([], None)
            | Some k \<Rightarrow>
                if find_idx (\<lambda>c. c = CHR '':'') (drop (k + 1) host) = None
                then (take k host, Some (drop (k + 1) host))
                else ([], Some (drop k host)))
         else (node, service))
      in (if node1 = [] then host else node1, service1)))"

text \<open>
  What the resolver returns; \<open>Create\<close> takes the class from the family of the structure.
\<close>

datatype sockaddr = SockIn sockaddr_in | SockIn6 sockaddr_in6 | SockOther u16 bytes

fun Create :: "sockaddr \<Rightarrow> Address" where
  "Create (SockIn a) = IPv4Address a"
| "Create (SockIn6 a) = IPv6Address a"
| "Create (SockOther f d) = UnknownAddress f d"

type_synonym resolver = "string \<Rightarrow> string option \<Rightarrow> sockaddr list option"

definition Lookup :: "resolver \<Rightarrow> Address list \<Rightarrow> string \<Rightarrow> bool \<times> Address list" where
  "Lookup getaddrinfo result host = (case split_host host of (node, service) \<Rightarrow>
     (case getaddrinfo node service of
        None \<Rightarrow> (False, result)
      | Some rs \<Rightarrow> let result' = result @ map Create rs in (result' \<noteq> [], result')))"

definition LookupAny :: "resolver \<Rightarrow> string \<Rightarrow> Address option" where
  "LookupAny getaddrinfo host = (case Lookup getaddrinfo [] host of
     (True, r # _) \<Rightarrow> Some r | _ \<Rightarrow> None)"

fun is_IPAddress :: "Address \<Rightarrow> bool" where
  "is_IPAddress (IPv4Address _) = True"
| "is_IPAddress (IPv6Address _) = True"
| "is_IPAddress _ = False"

definition LookupAnyIPAddress :: "resolver \<Rightarrow> string \<Rightarrow> Address option" where
  "LookupAnyIPAddress getaddrinfo host = (case Lookup getaddrinfo [] host of
     (True, rs) \<Rightarrow> find is_IPAddress rs | (False, _) \<Rightarrow> None)"

fun setPort :: "endian \<Rightarrow> u16 \<Rightarrow> Address \<Rightarrow> Address" where
  "setPort host v (IPv4Address a) = IPv4Address (setPort4 host v a)"
| "setPort host v (IPv6Address a) = IPv6Address (setPort6 host v a)"
| "setPort host v a = a"

text \<open>\<open>IPAddress::Create\<close>: only the first numeric result is looked at.\<close>

definition IPAddress_Create :: "endian \<Rightarrow> (string \<Rightarrow> sockaddr list option) \<Rightarrow> string \<Rightarrow> u16 \<Rightarrow> Address option" where
  "IPAddress_Create host numeric address port = (case numeric address of
     Some (r # _) \<Rightarrow> if is_IPAddress (Create r) then Some (setPort host port (Create r)) else None
   | _ \<Rightarrow> None)"

section \<open>Interfaces\<close>

text \<open>The entries of \<open>getifaddrs\<close>: the name, the address, and the netmask.\<close>

datatype ifaddr = IfIn string sockaddr_in u32 | IfIn6 string sockaddr_in6 bytes | IfOther string u16

fun if_family :: "ifaddr \<Rightarrow> u16" where
  "if_family (IfIn n a _) = sin_family a"
| "if_family (IfIn6 n a _) = sin6_family a"
| "if_family (IfOther n f) = f"

fun if_entry :: "ifaddr \<Rightarrow> (string \<times> Address \<times> nat) list" where
  "if_entry (IfIn n a netmask) = [(n, IPv4Address a, CountBytes netmask)]"
| "if_entry (IfIn6 n a netmask) = [(n, IPv6Address a, sum_list (map CountBytes netmask))]"
| "if_entry (IfOther n f) = []"

text \<open>The family \<open>AF_UNSPEC\<close> is 0.  A multimap keeps its insertions in order per name.\<close>

definition GetInterfaceAddresses :: "ifaddr list option \<Rightarrow> u16 \<Rightarrow> bool \<times> (string \<times> Address \<times> nat) list" where
  "GetInterfaceAddresses ifs family = (case ifs of
     None \<Rightarrow> (False, [])
   | Some results \<Rightarrow>
       (let r = concat (map (\<lambda>n. if family \<noteq> 0 \<and> family \<noteq> if_family n then [] else if_entry n) results)
        in (r \<noteq> [], r)))"

definition GetInterfaceAddresses_of :: "endian \<Rightarrow> ifaddr list option \<Rightarrow> (Address \<times> nat) list \<Rightarrow> string \<Rightarrow> u16
    \<Rightarrow> bool \<times> (Address \<times> nat) list" where
  "GetInterfaceAddresses_of host ifs result iface family =
    (if iface = [] \<or> iface = ''*'' then
       (True, result
          @ (if family = AF_INET \<or> family = 0 then [(IPv4Address (new_IPv4Address host 0 0), 0)] else [])
          @ (if family = AF_INET6 \<or> family = 0 then [(IPv6Address new_IPv6Address, 0)] else []))
     else case GetInterfaceAddresses ifs family of
       (False, _) \<Rightarrow> (False, result)
     | (True, rs) \<Rightarrow>
         (let r = result @ map snd (filter (\<lambda>e. fst e = iface) rs) in (r \<noteq> [], r)))"

end
