(* ===== verification/Fd_Manager.thy ===== *)
theory Fd_Manager
  imports Prelude
begin

text \<open>
  \<^verbatim>\<open>src/fd_manager.cc\<close>: what the hooks know of each file descriptor.  The table owns the entries;
  the pointers the code hands out are used at once, so an entry is named by its descriptor.
  \<open>fstat\<close> and the system's \<open>fcntl\<close> are arguments: \<open>fstat fd\<close> says whether \<open>fd\<close> is a socket, if there
  is such a descriptor at all; \<open>getfl\<close> and \<open>setfl\<close> read and set the status flags in a kernel state.
  An index outside the table is \<open>None\<close>.
\<close>

section \<open>One descriptor\<close>

definition O_NONBLOCK :: int where "O_NONBLOCK = 2048"
definition SO_RCVTIMEO :: int where "SO_RCVTIMEO = 20"
definition SO_SNDTIMEO :: int where "SO_SNDTIMEO = 21"

record FdCtx =
  fx_fd :: int
  m_isInit :: bool
  m_isSocket :: bool
  m_sysNonblock :: bool
  m_userNonblock :: bool
  m_isClosed :: bool
  m_recvTimeout :: u64
  m_sendTimeout :: u64

definition init_FdCtx :: "(int \<Rightarrow> bool option) \<Rightarrow> ('k \<Rightarrow> int \<Rightarrow> int) \<Rightarrow> ('k \<Rightarrow> int \<Rightarrow> int \<Rightarrow> 'k)
    \<Rightarrow> FdCtx \<Rightarrow> 'k \<Rightarrow> bool \<times> FdCtx \<times> 'k" where
  "init_FdCtx fstat getfl setfl c k =
    (if m_isInit c then (True, c, k)
     else let c1 = c\<lparr>m_recvTimeout := -1, m_sendTimeout := -1\<rparr>;
              c2 = (case fstat (fx_fd c) of
                     None \<Rightarrow> c1\<lparr>m_isInit := False, m_isSocket := False\<rparr>
                   | Some sock \<Rightarrow> c1\<lparr>m_isInit := True, m_isSocket := sock\<rparr>);
              flags = getfl k (fx_fd c);
              k1 = (if m_isSocket c2 \<and> flags AND O_NONBLOCK = 0 then setfl k (fx_fd c) (flags OR O_NONBLOCK) else k);
              c3 = c2\<lparr>m_sysNonblock := m_isSocket c2, m_userNonblock := False, m_isClosed := False\<rparr>
          in (m_isInit c3, c3, k1))"

definition new_FdCtx :: "(int \<Rightarrow> bool option) \<Rightarrow> ('k \<Rightarrow> int \<Rightarrow> int) \<Rightarrow> ('k \<Rightarrow> int \<Rightarrow> int \<Rightarrow> 'k)
    \<Rightarrow> int \<Rightarrow> 'k \<Rightarrow> FdCtx \<times> 'k" where
  "new_FdCtx fstat getfl setfl fd k =
    (case init_FdCtx fstat getfl setfl \<lparr>fx_fd = fd, m_isInit = False, m_isSocket = False, m_sysNonblock = False,
        m_userNonblock = False, m_isClosed = False, m_recvTimeout = -1, m_sendTimeout = -1\<rparr> k of (_, c, k1) \<Rightarrow> (c, k1))"

definition setTimeout :: "int \<Rightarrow> u64 \<Rightarrow> FdCtx \<Rightarrow> FdCtx" where
  "setTimeout type v c = (if type = SO_RCVTIMEO then c\<lparr>m_recvTimeout := v\<rparr> else c\<lparr>m_sendTimeout := v\<rparr>)"

definition getTimeout :: "int \<Rightarrow> FdCtx \<Rightarrow> u64" where
  "getTimeout type c = (if type = SO_RCVTIMEO then m_recvTimeout c else m_sendTimeout c)"

section \<open>The table\<close>

type_synonym FdManager = "FdCtx option list"

definition new_FdManager :: FdManager where
  "new_FdManager = replicate 64 None"

definition resize_datas :: "nat \<Rightarrow> FdManager \<Rightarrow> FdManager" where
  "resize_datas n ds = take n ds @ replicate (n - length ds) None"

text \<open>\<open>get(fd)\<close>: the entry, if there is one.\<close>

definition fd_get :: "int \<Rightarrow> FdManager \<Rightarrow> FdCtx option option" where
  "fd_get fd ds = (if fd = -1 then Some None
     else if int (length ds) \<le> fd then Some None
     else if fd < 0 then None else Some (ds ! nat fd))"

text \<open>\<open>get(fd, true)\<close>: an entry is made where there is none.\<close>

definition fd_get_create :: "(int \<Rightarrow> bool option) \<Rightarrow> ('k \<Rightarrow> int \<Rightarrow> int) \<Rightarrow> ('k \<Rightarrow> int \<Rightarrow> int \<Rightarrow> 'k)
    \<Rightarrow> int \<Rightarrow> FdManager \<Rightarrow> 'k \<Rightarrow> (FdCtx option \<times> FdManager \<times> 'k) option" where
  "fd_get_create fstat getfl setfl fd ds k =
    (if fd = -1 then Some (None, ds, k)
     else if fd < 0 then None
     else if nat fd < length ds \<and> ds ! nat fd \<noteq> None then Some (ds ! nat fd, ds, k)
     else case new_FdCtx fstat getfl setfl fd k of
       (c, k1) \<Rightarrow> let ds1 = (if int (length ds) \<le> fd then resize_datas (nat (fd * 3 div 2)) ds else ds)
                  in Some (Some c, ds1[nat fd := Some c], k1))"

definition fd_del :: "int \<Rightarrow> FdManager \<Rightarrow> FdManager option" where
  "fd_del fd ds = (if int (length ds) \<le> fd then Some ds
     else if fd < 0 then None else Some (ds[nat fd := None]))"

section \<open>Laws\<close>

text \<open>The table as a map from descriptors to entries.\<close>

definition fd_abs :: "FdManager \<Rightarrow> int \<Rightarrow> FdCtx option" where
  "fd_abs ds fd = (if 0 \<le> fd \<and> nat fd < length ds then ds ! nat fd else None)"

lemma fd_get_abs: "-1 \<le> fd \<Longrightarrow> fd_get fd ds = Some (fd_abs ds fd)"
  by (auto simp: fd_get_def fd_abs_def)

lemma fd_del_abs: "0 \<le> fd \<Longrightarrow> \<exists>ds'. fd_del fd ds = Some ds' \<and> fd_abs ds' = (fd_abs ds)(fd := None) \<and> length ds' = length ds"
  by (auto simp: fd_del_def fd_abs_def fun_eq_iff nth_list_update)

lemma fd_get_create_abs:
  assumes "0 \<le> fd" "64 \<le> length ds" "new_FdCtx fstat getfl setfl fd k = (c, k1)"
  shows "\<exists>ds'. fd_get_create fstat getfl setfl fd ds k
      = Some (case fd_abs ds fd of Some x \<Rightarrow> (Some x, ds', k) | None \<Rightarrow> (Some c, ds', k1))
    \<and> fd_abs ds' = (case fd_abs ds fd of Some x \<Rightarrow> fd_abs ds | None \<Rightarrow> (fd_abs ds)(fd \<mapsto> c))
    \<and> length ds \<le> length ds'"
proof (cases "fd_abs ds fd")
  case (Some x)
  then show ?thesis using assms(1)
    by (auto simp: fd_get_create_def fd_abs_def split: if_splits)
next
  case None
  let ?ds1 = "if int (length ds) \<le> fd then resize_datas (nat (fd * 3 div 2)) ds else ds"
  let ?ds = "?ds1[nat fd := Some c]"
  have len: "nat fd < length ?ds1" "length ds \<le> length ?ds1" using assms(1,2) by (auto simp: resize_datas_def)
  have n: "?ds1 ! j = ds ! j" if "j < length ds" for j
    using that assms(2) by (auto simp: resize_datas_def nth_append)
  have n': "?ds1 ! j = None" if "length ds \<le> j" "j < length ?ds1" for j
    using that by (auto simp: resize_datas_def nth_append split: if_splits)
  have "\<not> (nat fd < length ds \<and> ds ! nat fd \<noteq> None)" using None assms(1) by (auto simp: fd_abs_def)
  then have g: "fd_get_create fstat getfl setfl fd ds k = Some (Some c, ?ds, k1)"
    using assms(1,3) by (auto simp: fd_get_create_def Let_def)
  have "fd_abs ?ds = (fd_abs ds)(fd \<mapsto> c)"
  proof
    fix i show "fd_abs ?ds i = ((fd_abs ds)(fd \<mapsto> c)) i"
    proof (cases "i = fd")
      case True
      with assms(1) len(1) show ?thesis by (simp add: fd_abs_def del: if_image_distrib)
    next
      case False
      then show ?thesis using assms(1) len(2) n [of "nat i"] n' [of "nat i"]
        by (cases "0 \<le> i"; cases "nat i < length ds"; cases "nat i < length ?ds1")
          (simp_all add: fd_abs_def nat_eq_iff)
    qed
  qed
  with g None len(2) show ?thesis by (intro exI [of _ ?ds]) simp
qed

end
