(* ===== verification/Hook.thy ===== *)
theory Hook
  imports Fd_Manager
begin

text \<open>
  \<^verbatim>\<open>src/hook.cc\<close>: the system calls that block a fiber instead of its thread.  The results of the
  system calls, of \<open>addEvent\<close>, and whether a timer fired before the fiber was resumed, are arguments
  in the order in which the code meets them; the effects on the event loop are a list of actions.
  A result \<open>None\<close> means that the given results did not suffice, for example that the fiber waits.
\<close>

section \<open>The loop of a blocking call\<close>

definition EINTR :: int where "EINTR = 4"
definition EBADF :: int where "EBADF = 9"
definition EAGAIN :: int where "EAGAIN = 11"
definition ETIMEDOUT :: int where "ETIMEDOUT = 110"
definition EINPROGRESS :: int where "EINPROGRESS = 115"

datatype io_action = CallFun | AddConditionTimer u64 | AddEvent | Yield | CancelTimer

text \<open>The callback of the timer: whether the call is alive, its \<open>cancelled\<close>; the new \<open>cancelled\<close> and
  whether it cancels the event.\<close>

definition on_timeout :: "bool \<Rightarrow> int \<Rightarrow> int \<times> bool" where
  "on_timeout alive cancelled = (if \<not> alive \<or> cancelled \<noteq> 0 then (cancelled, False) else (ETIMEDOUT, True))"

definition timer_action :: "u64 \<Rightarrow> io_action list" where
  "timer_action to = (if to \<noteq> -1 then [AddConditionTimer to] else [])"

definition cancel_action :: "u64 \<Rightarrow> io_action list" where
  "cancel_action to = (if to \<noteq> -1 then [CancelTimer] else [])"

text \<open>
  From the label \<open>retry\<close>: each result of the system call with its \<open>errno\<close>; each result of \<open>addEvent\<close>
  with the \<open>errno\<close> it leaves; for each wait whether the timer fired.
\<close>

fun do_io_loop :: "u64 \<Rightarrow> (int \<times> int) list \<Rightarrow> (int \<times> int) list \<Rightarrow> bool list
    \<Rightarrow> (int \<times> int) option \<times> io_action list" where
  "do_io_loop to [] adds wakes = (None, [])"
| "do_io_loop to ((n, e) # calls) adds wakes =
    (if n = -1 \<and> e = EINTR then apsnd ((@) [CallFun]) (do_io_loop to calls adds wakes)
     else if n = -1 \<and> e = EAGAIN then
       (case adds of
          [] \<Rightarrow> (None, [CallFun] @ timer_action to)
        | (rt, e1) # adds1 \<Rightarrow>
            if rt \<noteq> 0 then (Some (-1, e1), [CallFun] @ timer_action to @ [AddEvent] @ cancel_action to)
            else (case wakes of
                [] \<Rightarrow> (None, [CallFun] @ timer_action to @ [AddEvent, Yield])
              | fired # wakes1 \<Rightarrow>
                  let acts = [CallFun] @ timer_action to @ [AddEvent, Yield] @ cancel_action to in
                  if fired \<and> to \<noteq> -1 then (Some (-1, fst (on_timeout True 0)), acts)
                  else apsnd ((@) acts) (do_io_loop to calls adds1 wakes1)))
     else (Some (n, e), [CallFun]))"

text \<open>\<open>direct\<close> is what the system call alone returns.\<close>

definition do_io :: "bool \<Rightarrow> FdManager \<Rightarrow> int \<Rightarrow> int \<Rightarrow> int \<times> int \<Rightarrow> (int \<times> int) list \<Rightarrow> (int \<times> int) list \<Rightarrow> bool list
    \<Rightarrow> ((int \<times> int) option \<times> io_action list) option" where
  "do_io t_hook_enable ds fd timeout_so direct calls adds wakes =
    (if \<not> t_hook_enable then Some (Some direct, [CallFun])
     else case fd_get fd ds of
       None \<Rightarrow> None
     | Some None \<Rightarrow> Some (Some direct, [CallFun])
     | Some (Some ctx) \<Rightarrow>
        if m_isClosed ctx then Some (Some (-1, EBADF), [])
        else if \<not> m_isSocket ctx \<or> m_userNonblock ctx then Some (Some direct, [CallFun])
        else Some (do_io_loop (getTimeout timeout_so ctx) calls adds wakes))"

section \<open>Sleeping\<close>

text \<open>The milliseconds for the timer, at the widths of the code.\<close>

definition sleep_ms :: "u32 \<Rightarrow> u64" where
  "sleep_ms seconds = ucast (seconds * 1000)"

definition usleep_ms :: "u32 \<Rightarrow> u64" where
  "usleep_ms usec = ucast (usec div 1000)"

definition nanosleep_ms :: "int \<Rightarrow> int \<Rightarrow> u64" where
  "nanosleep_ms tv_sec tv_nsec =
     word_of_int (sint (word_of_int (tv_sec * 1000 + tv_nsec div 1000 div 1000) :: 32 word))"

section \<open>Sockets\<close>

definition hook_socket :: "(int \<Rightarrow> bool option) \<Rightarrow> ('k \<Rightarrow> int \<Rightarrow> int) \<Rightarrow> ('k \<Rightarrow> int \<Rightarrow> int \<Rightarrow> 'k)
    \<Rightarrow> bool \<Rightarrow> int \<Rightarrow> FdManager \<Rightarrow> 'k \<Rightarrow> (FdManager \<times> 'k) option" where
  "hook_socket fstat getfl setfl t_hook_enable fd ds k =
    (if \<not> t_hook_enable \<or> fd = -1 then Some (ds, k)
     else map_option snd (fd_get_create fstat getfl setfl fd ds k))"

definition hook_accept :: "(int \<Rightarrow> bool option) \<Rightarrow> ('k \<Rightarrow> int \<Rightarrow> int) \<Rightarrow> ('k \<Rightarrow> int \<Rightarrow> int \<Rightarrow> 'k)
    \<Rightarrow> int \<Rightarrow> FdManager \<Rightarrow> 'k \<Rightarrow> (FdManager \<times> 'k) option" where
  "hook_accept fstat getfl setfl fd ds k =
    (if 0 < fd then map_option snd (fd_get_create fstat getfl setfl fd ds k) else Some (ds, k))"

text \<open>\<open>close\<close>: whether the events of the descriptor are cancelled, and the table behind it.\<close>

definition hook_close :: "bool \<Rightarrow> bool \<Rightarrow> int \<Rightarrow> FdManager \<Rightarrow> (bool \<times> FdManager) option" where
  "hook_close t_hook_enable has_iom fd ds =
    (if \<not> t_hook_enable then Some (False, ds)
     else case fd_get fd ds of
       None \<Rightarrow> None
     | Some None \<Rightarrow> Some (False, ds)
     | Some (Some _) \<Rightarrow> map_option (Pair has_iom) (fd_del fd ds))"

text \<open>
  \<open>connect_with_timeout\<close> on a descriptor of the table: the results of \<open>connect\<close> and \<open>addEvent\<close>, whether
  the timer fired, and what \<open>getsockopt\<close> returns with its \<open>errno\<close> and the error it reads.
\<close>

definition connect_with_timeout :: "bool \<Rightarrow> FdManager \<Rightarrow> int \<Rightarrow> u64 \<Rightarrow> int \<times> int \<Rightarrow> int \<Rightarrow> bool \<Rightarrow> int \<times> int \<times> int
    \<Rightarrow> ((int \<times> int) \<times> io_action list) option" where
  "connect_with_timeout t_hook_enable ds fd timeout_ms conn rt fired sockopt =
    (if \<not> t_hook_enable then Some (conn, [CallFun])
     else case fd_get fd ds of
       None \<Rightarrow> None
     | Some None \<Rightarrow> Some ((-1, EBADF), [])
     | Some (Some ctx) \<Rightarrow>
        if m_isClosed ctx then Some ((-1, EBADF), [])
        else if \<not> m_isSocket ctx \<or> m_userNonblock ctx then Some (conn, [CallFun])
        else if fst conn = 0 then Some ((0, snd conn), [CallFun])
        else if fst conn \<noteq> -1 \<and> snd conn \<noteq> EINPROGRESS then Some (conn, [CallFun])
        else let check = (case sockopt of (r, e, err) \<Rightarrow>
                  if r = -1 then (-1, e) else if err = 0 then (0, e) else (-1, err));
                 acts = [CallFun] @ timer_action timeout_ms @ [AddEvent]
          in if rt = 0
             then (let acts1 = acts @ [Yield] @ cancel_action timeout_ms in
                   if fired \<and> timeout_ms \<noteq> -1 then Some ((-1, ETIMEDOUT), acts1) else Some (check, acts1))
             else Some (check, acts @ cancel_action timeout_ms))"

definition s_connect_timeout :: u64 where "s_connect_timeout = -1"

section \<open>Flags and options\<close>

abbreviation put_fd :: "int \<Rightarrow> FdCtx \<Rightarrow> FdManager \<Rightarrow> FdManager" where
  "put_fd fd c ds \<equiv> ds[nat fd := Some c]"

text \<open>\<open>fcntl\<close> for \<open>F_SETFL\<close> and \<open>F_GETFL\<close>; every other command is passed on.\<close>

definition hook_setfl :: "('k \<Rightarrow> int \<Rightarrow> int \<Rightarrow> 'k) \<Rightarrow> int \<Rightarrow> int \<Rightarrow> FdManager \<Rightarrow> 'k \<Rightarrow> (FdManager \<times> 'k) option" where
  "hook_setfl setfl fd arg ds k = (case fd_get fd ds of
     None \<Rightarrow> None
   | Some None \<Rightarrow> Some (ds, setfl k fd arg)
   | Some (Some ctx) \<Rightarrow>
      if m_isClosed ctx \<or> \<not> m_isSocket ctx then Some (ds, setfl k fd arg)
      else Some (put_fd fd (ctx\<lparr>m_userNonblock := (arg AND O_NONBLOCK \<noteq> 0)\<rparr>) ds,
        setfl k fd (if m_sysNonblock ctx then arg OR O_NONBLOCK else arg AND NOT O_NONBLOCK)))"

definition hook_getfl :: "('k \<Rightarrow> int \<Rightarrow> int) \<Rightarrow> int \<Rightarrow> FdManager \<Rightarrow> 'k \<Rightarrow> int option" where
  "hook_getfl getfl fd ds k = (case fd_get fd ds of
     None \<Rightarrow> None
   | Some None \<Rightarrow> Some (getfl k fd)
   | Some (Some ctx) \<Rightarrow>
      if m_isClosed ctx \<or> \<not> m_isSocket ctx then Some (getfl k fd)
      else Some (if m_userNonblock ctx then getfl k fd OR O_NONBLOCK else getfl k fd AND NOT O_NONBLOCK))"

text \<open>\<open>ioctl(FIONBIO)\<close>: the system's own \<open>ioctl\<close> sets or clears the flag as asked.\<close>

definition hook_fionbio :: "('k \<Rightarrow> int \<Rightarrow> int) \<Rightarrow> ('k \<Rightarrow> int \<Rightarrow> int \<Rightarrow> 'k) \<Rightarrow> int \<Rightarrow> int \<Rightarrow> FdManager \<Rightarrow> 'k
    \<Rightarrow> (FdManager \<times> 'k) option" where
  "hook_fionbio getfl setfl fd arg ds k =
    (let k1 = setfl k fd (if arg \<noteq> 0 then getfl k fd OR O_NONBLOCK else getfl k fd AND NOT O_NONBLOCK) in
     case fd_get fd ds of
       None \<Rightarrow> None
     | Some None \<Rightarrow> Some (ds, k1)
     | Some (Some ctx) \<Rightarrow>
        if m_isClosed ctx \<or> \<not> m_isSocket ctx then Some (ds, k1)
        else Some (put_fd fd (ctx\<lparr>m_userNonblock := (arg \<noteq> 0)\<rparr>) ds, k1))"

definition SOL_SOCKET :: int where "SOL_SOCKET = 1"

definition hook_setsockopt :: "bool \<Rightarrow> int \<Rightarrow> int \<Rightarrow> int \<Rightarrow> int \<Rightarrow> int \<Rightarrow> FdManager \<Rightarrow> FdManager option" where
  "hook_setsockopt t_hook_enable fd level optname tv_sec tv_usec ds =
    (if \<not> t_hook_enable then Some ds
     else if level = SOL_SOCKET \<and> (optname = SO_RCVTIMEO \<or> optname = SO_SNDTIMEO) then
       (case fd_get fd ds of
          None \<Rightarrow> None
        | Some None \<Rightarrow> Some ds
        | Some (Some ctx) \<Rightarrow> Some (put_fd fd (setTimeout optname (word_of_int (tv_sec * 1000 + tv_usec div 1000)) ctx) ds))
     else Some ds)"

end
