(* ===== verification/Socket.thy ===== *)
theory Socket
  imports Address Hook "HOL-Library.Signed_Division"
begin

text \<open>
  \<^verbatim>\<open>src/socket.cc\<close>: \<open>Socket\<close>, which opens its descriptor when it first needs one, and the loops
  of \<open>SSLSocket\<close> over several buffers.  The system calls, as \<^verbatim>\<open>src/hook.cc\<close> provides them, are a
  record of functions on a state of type \<open>'k\<close>.
\<close>

section \<open>System calls\<close>

text \<open>
  \<open>sys_connect\<close> takes the timeout of \<open>connect_with_timeout\<close>, \<open>None\<close> for the plain call;
  \<open>sys_recvfrom\<close> gives the address it was handed back as it has filled it;
  \<open>sys_fd_socket\<close> says that the descriptor manager knows the descriptor as an open socket.
\<close>

record 'k sys =
  sys_socket :: "u16 \<Rightarrow> int \<Rightarrow> int \<Rightarrow> 'k \<Rightarrow> int \<times> 'k"
  sys_close :: "int \<Rightarrow> 'k \<Rightarrow> 'k"
  sys_bind :: "int \<Rightarrow> Address \<Rightarrow> 'k \<Rightarrow> int \<times> 'k"
  sys_listen :: "int \<Rightarrow> int \<Rightarrow> 'k \<Rightarrow> int \<times> 'k"
  sys_accept :: "int \<Rightarrow> 'k \<Rightarrow> int \<times> 'k"
  sys_connect :: "int \<Rightarrow> Address \<Rightarrow> u64 option \<Rightarrow> 'k \<Rightarrow> int \<times> 'k"
  sys_getpeername :: "int \<Rightarrow> 'k \<Rightarrow> Address option"
  sys_getsockname :: "int \<Rightarrow> 'k \<Rightarrow> Address option"
  sys_setsockopt :: "int \<Rightarrow> int \<Rightarrow> int \<Rightarrow> int list \<Rightarrow> 'k \<Rightarrow> int \<times> 'k"
  sys_sockerror :: "int \<Rightarrow> 'k \<Rightarrow> int option"
  sys_errno :: "'k \<Rightarrow> int"
  sys_fd_socket :: "int \<Rightarrow> 'k \<Rightarrow> bool"
  sys_fd_timeout :: "int \<Rightarrow> int \<Rightarrow> 'k \<Rightarrow> u64 option"
  sys_unlink :: "bytes \<Rightarrow> 'k \<Rightarrow> 'k"
  sys_send :: "int \<Rightarrow> bytes \<Rightarrow> Address option \<Rightarrow> int \<Rightarrow> 'k \<Rightarrow> int \<times> 'k"
  sys_recv :: "int \<Rightarrow> nat \<Rightarrow> int \<Rightarrow> 'k \<Rightarrow> (int \<times> bytes) \<times> 'k"
  sys_recvfrom :: "int \<Rightarrow> nat \<Rightarrow> Address \<Rightarrow> int \<Rightarrow> 'k \<Rightarrow> (int \<times> bytes \<times> Address) \<times> 'k"

text \<open>\<open>g_open\<close> records the descriptors that were opened and not closed, \<open>g_lost\<close> those no object has.\<close>

record 'k net =
  kern :: 'k
  g_open :: "int list"
  g_lost :: "int list"

definition do_socket :: "'k sys \<Rightarrow> u16 \<Rightarrow> int \<Rightarrow> int \<Rightarrow> 'k net \<Rightarrow> int \<times> 'k net" where
  "do_socket c fam ty proto n = (case sys_socket c fam ty proto (kern n) of (fd, k) \<Rightarrow>
     (fd, n\<lparr>kern := k, g_open := (if fd = -1 then g_open n else fd # g_open n)\<rparr>))"

definition do_accept :: "'k sys \<Rightarrow> int \<Rightarrow> 'k net \<Rightarrow> int \<times> 'k net" where
  "do_accept c sock n = (case sys_accept c sock (kern n) of (fd, k) \<Rightarrow>
     (fd, n\<lparr>kern := k, g_open := (if fd = -1 then g_open n else fd # g_open n)\<rparr>))"

definition do_close :: "'k sys \<Rightarrow> int \<Rightarrow> 'k net \<Rightarrow> 'k net" where
  "do_close c fd n = n\<lparr>kern := sys_close c fd (kern n), g_open := remove1 fd (g_open n)\<rparr>"

section \<open>Sockets\<close>

definition SOCK_STREAM :: int where "SOCK_STREAM = 1"
definition SOCK_DGRAM :: int where "SOCK_DGRAM = 2"
definition SO_REUSEADDR :: int where "SO_REUSEADDR = 2"
definition IPPROTO_TCP :: int where "IPPROTO_TCP = 6"
definition TCP_NODELAY :: int where "TCP_NODELAY = 1"

text \<open>
  \<open>g_bound\<close> and \<open>g_listening\<close> record the address and the backlog of the last \<open>bind\<close> and \<open>listen\<close>
  that the kernel has accepted on the descriptor of the object; closing it forgets them.
\<close>

record Socket =
  m_sock :: int
  m_family :: u16
  m_type :: int
  m_protocol :: int
  m_isConnected :: bool
  m_localAddress :: "Address option"
  m_remoteAddress :: "Address option"
  g_bound :: "Address option"
  g_listening :: "int option"

type_synonym 'k sn = "Socket \<times> 'k net"

definition new_Socket :: "u16 \<Rightarrow> int \<Rightarrow> int \<Rightarrow> Socket" where
  "new_Socket family type protocol = \<lparr>m_sock = -1, m_family = family, m_type = type, m_protocol = protocol,
     m_isConnected = False, m_localAddress = None, m_remoteAddress = None, g_bound = None, g_listening = None\<rparr>"

definition isValid :: "Socket \<Rightarrow> bool" where
  "isValid s \<longleftrightarrow> m_sock s \<noteq> -1"

definition setOption :: "'k sys \<Rightarrow> int \<Rightarrow> int \<Rightarrow> int list \<Rightarrow> 'k sn \<Rightarrow> bool \<times> 'k sn" where
  "setOption c level opt v sn = (case sn of (s, n) \<Rightarrow>
     (case sys_setsockopt c (m_sock s) level opt v (kern n) of (r, k) \<Rightarrow> (r = 0, s, n\<lparr>kern := k\<rparr>)))"

definition initSock :: "'k sys \<Rightarrow> 'k sn \<Rightarrow> 'k sn" where
  "initSock c sn = (let sn1 = snd (setOption c SOL_SOCKET SO_REUSEADDR [1] sn) in
     if m_type (fst sn1) = SOCK_STREAM then snd (setOption c IPPROTO_TCP TCP_NODELAY [1] sn1) else sn1)"

definition newSock :: "'k sys \<Rightarrow> 'k sn \<Rightarrow> 'k sn" where
  "newSock c sn = (case sn of (s, n) \<Rightarrow>
     (case do_socket c (m_family s) (m_type s) (m_protocol s) n of (fd, n1) \<Rightarrow>
        let sn1 = (s\<lparr>m_sock := fd\<rparr>, n1) in if fd \<noteq> -1 then initSock c sn1 else sn1))"

definition CreateTCP :: "Address \<Rightarrow> Socket" where
  "CreateTCP a = new_Socket (getFamily a) SOCK_STREAM 0"

definition CreateUDP :: "'k sys \<Rightarrow> Address \<Rightarrow> 'k net \<Rightarrow> 'k sn" where
  "CreateUDP c a n = newSock c ((new_Socket (getFamily a) SOCK_DGRAM 0)\<lparr>m_isConnected := True\<rparr>, n)"

definition CreateTCPSocket :: Socket where
  "CreateTCPSocket = new_Socket AF_INET SOCK_STREAM 0"

definition CreateUDPSocket :: "'k sys \<Rightarrow> 'k net \<Rightarrow> 'k sn" where
  "CreateUDPSocket c n = (case newSock c (new_Socket AF_INET SOCK_DGRAM 0, n) of (s, n1) \<Rightarrow> (s\<lparr>m_isConnected := True\<rparr>, n1))"

definition CreateTCPSocket6 :: Socket where
  "CreateTCPSocket6 = new_Socket AF_INET6 SOCK_STREAM 0"

definition CreateUDPSocket6 :: "'k sys \<Rightarrow> 'k net \<Rightarrow> 'k sn" where
  "CreateUDPSocket6 c n = (case newSock c (new_Socket AF_INET6 SOCK_DGRAM 0, n) of (s, n1) \<Rightarrow> (s\<lparr>m_isConnected := True\<rparr>, n1))"

definition CreateUnixTCPSocket :: Socket where
  "CreateUnixTCPSocket = new_Socket AF_UNIX SOCK_STREAM 0"

definition CreateUnixUDPSocket :: Socket where
  "CreateUnixUDPSocket = new_Socket AF_UNIX SOCK_DGRAM 0"

text \<open>The two timeouts: \<open>timeval_of\<close> is the structure that is passed on, in seconds and microseconds.\<close>

definition cast_int :: "int \<Rightarrow> int" where
  "cast_int v = sint (word_of_int v :: u32)"

definition timeval_of :: "int \<Rightarrow> int list" where
  "timeval_of v = [cast_int (v sdiv 1000), cast_int (v smod 1000 * 1000)]"

definition setSendTimeout :: "'k sys \<Rightarrow> int \<Rightarrow> 'k sn \<Rightarrow> 'k sn" where
  "setSendTimeout c v sn = snd (setOption c SOL_SOCKET SO_SNDTIMEO (timeval_of v) sn)"

definition setRecvTimeout :: "'k sys \<Rightarrow> int \<Rightarrow> 'k sn \<Rightarrow> 'k sn" where
  "setRecvTimeout c v sn = snd (setOption c SOL_SOCKET SO_RCVTIMEO (timeval_of v) sn)"

definition getSendTimeout :: "'k sys \<Rightarrow> 'k sn \<Rightarrow> int" where
  "getSendTimeout c sn = (case sys_fd_timeout c (m_sock (fst sn)) SO_SNDTIMEO (kern (snd sn)) of
     None \<Rightarrow> -1 | Some t \<Rightarrow> sint t)"

definition getRecvTimeout :: "'k sys \<Rightarrow> 'k sn \<Rightarrow> int" where
  "getRecvTimeout c sn = (case sys_fd_timeout c (m_sock (fst sn)) SO_RCVTIMEO (kern (snd sn)) of
     None \<Rightarrow> -1 | Some t \<Rightarrow> sint t)"

definition getError :: "'k sys \<Rightarrow> 'k sn \<Rightarrow> int" where
  "getError c sn = (case sys_sockerror c (m_sock (fst sn)) (kern (snd sn)) of
     None \<Rightarrow> sys_errno c (kern (snd sn)) | Some e \<Rightarrow> e)"

text \<open>The addresses are asked for once and kept; without an answer it is an unknown one, not kept.\<close>

definition getRemoteAddress :: "'k sys \<Rightarrow> 'k sn \<Rightarrow> Address \<times> Socket" where
  "getRemoteAddress c sn = (case sn of (s, n) \<Rightarrow> (case m_remoteAddress s of
       Some a \<Rightarrow> (a, s)
     | None \<Rightarrow> (case sys_getpeername c (m_sock s) (kern n) of
           None \<Rightarrow> (UnknownAddress (m_family s) (replicate 14 0), s)
         | Some a \<Rightarrow> (a, s\<lparr>m_remoteAddress := Some a\<rparr>))))"

definition getLocalAddress :: "'k sys \<Rightarrow> 'k sn \<Rightarrow> Address \<times> Socket" where
  "getLocalAddress c sn = (case sn of (s, n) \<Rightarrow> (case m_localAddress s of
       Some a \<Rightarrow> (a, s)
     | None \<Rightarrow> (case sys_getsockname c (m_sock s) (kern n) of
           None \<Rightarrow> (UnknownAddress (m_family s) (replicate 14 0), s)
         | Some a \<Rightarrow> (a, s\<lparr>m_localAddress := Some a\<rparr>))))"

definition with_local :: "'k sys \<Rightarrow> 'k sn \<Rightarrow> 'k sn" where
  "with_local c sn = (snd (getLocalAddress c sn), snd sn)"

definition with_remote :: "'k sys \<Rightarrow> 'k sn \<Rightarrow> 'k sn" where
  "with_remote c sn = (snd (getRemoteAddress c sn), snd sn)"

definition init_sock :: "'k sys \<Rightarrow> int \<Rightarrow> 'k sn \<Rightarrow> bool \<times> 'k sn" where
  "init_sock c sock sn = (case sn of (s, n) \<Rightarrow>
     if sys_fd_socket c sock (kern n)
     then (True, with_remote c (with_local c (initSock c (s\<lparr>m_sock := sock, m_isConnected := True\<rparr>, n))))
     else (False, sn))"

text \<open>\<open>accept\<close>: the new object if there is one.  When it cannot be set up, its descriptor is not in it.\<close>

definition socket_accept :: "'k sys \<Rightarrow> 'k sn \<Rightarrow> Socket option \<times> 'k net" where
  "socket_accept c sn = (case sn of (s, n) \<Rightarrow>
     (case do_accept c (m_sock s) n of (newsock, n1) \<Rightarrow>
        if newsock = -1 then (None, n1)
        else (case init_sock c newsock (new_Socket (m_family s) (m_type s) (m_protocol s), n1) of
            (True, s', n2) \<Rightarrow> (Some s', n2)
          | (False, s', n2) \<Rightarrow> (None, n2\<lparr>g_lost := newsock # g_lost n2\<rparr>))))"

definition socket_close :: "'k sys \<Rightarrow> 'k sn \<Rightarrow> bool \<times> 'k sn" where
  "socket_close c sn = (case sn of (s, n) \<Rightarrow>
     if \<not> m_isConnected s \<and> m_sock s = -1 then (True, s, n)
     else if m_sock s \<noteq> -1 then (False, s\<lparr>m_isConnected := False, m_sock := -1, g_bound := None, g_listening := None\<rparr>, do_close c (m_sock s) n)
     else (False, s\<lparr>m_isConnected := False\<rparr>, n))"

definition delete_Socket :: "'k sys \<Rightarrow> 'k sn \<Rightarrow> 'k net" where
  "delete_Socket c sn = snd (snd (socket_close c sn))"

text \<open>A descriptor is made when there is none yet; \<open>False\<close> if it could not be.\<close>

definition ensure_sock :: "'k sys \<Rightarrow> 'k sn \<Rightarrow> bool \<times> 'k sn" where
  "ensure_sock c sn = (let sn1 = (if isValid (fst sn) then sn else newSock c sn) in (isValid (fst sn1), sn1))"

definition socket_connect :: "'k sys \<Rightarrow> Address \<Rightarrow> u64 \<Rightarrow> 'k sn \<Rightarrow> bool \<times> 'k sn" where
  "socket_connect c addr timeout_ms sn = (case ensure_sock c ((fst sn)\<lparr>m_remoteAddress := Some addr\<rparr>, snd sn) of
       (False, sn1) \<Rightarrow> (False, sn1)
     | (True, s, n) \<Rightarrow>
        if getFamily addr \<noteq> m_family s then (False, s, n)
        else (case sys_connect c (m_sock s) addr (if timeout_ms = -1 then None else Some timeout_ms) (kern n) of
            (r, k) \<Rightarrow> if r \<noteq> 0 then (False, snd (socket_close c (s, n\<lparr>kern := k\<rparr>)))
              else (True, with_local c (with_remote c (s\<lparr>m_isConnected := True\<rparr>, n\<lparr>kern := k\<rparr>)))))"

definition socket_reconnect :: "'k sys \<Rightarrow> u64 \<Rightarrow> 'k sn \<Rightarrow> bool \<times> 'k sn" where
  "socket_reconnect c timeout_ms sn = (case m_remoteAddress (fst sn) of
       None \<Rightarrow> (False, sn)
     | Some a \<Rightarrow> socket_connect c a timeout_ms ((fst sn)\<lparr>m_localAddress := None\<rparr>, snd sn))"

text \<open>
  Binding to a path first tries to connect to it: an answer means that it is in use, otherwise it is removed.  The
  object that tried is destroyed either way.
\<close>

definition try_unix :: "'k sys \<Rightarrow> Address \<Rightarrow> 'k net \<Rightarrow> bool \<times> 'k net" where
  "try_unix c addr n = (case socket_connect c addr (-1) (CreateUnixTCPSocket, n) of (ok, s, n1) \<Rightarrow>
     if ok then (False, delete_Socket c (s, n1))
     else (case addr of UnixAddress u \<Rightarrow> (True, delete_Socket c (s, n1\<lparr>kern := sys_unlink c (getPath u) (kern n1)\<rparr>))
           | _ \<Rightarrow> (True, delete_Socket c (s, n1))))"

definition socket_bind :: "'k sys \<Rightarrow> Address \<Rightarrow> 'k sn \<Rightarrow> bool \<times> 'k sn" where
  "socket_bind c addr sn = (case ensure_sock c sn of
       (False, sn1) \<Rightarrow> (False, sn1)
     | (True, s, n) \<Rightarrow>
        if getFamily addr \<noteq> m_family s then (False, s, n)
        else (case (case addr of UnixAddress u \<Rightarrow> try_unix c addr n | _ \<Rightarrow> (True, n)) of
            (False, n1) \<Rightarrow> (False, s, n1)
          | (True, n1) \<Rightarrow> (case sys_bind c (m_sock s) addr (kern n1) of (r, k) \<Rightarrow>
                if r \<noteq> 0 then (False, s, n1\<lparr>kern := k\<rparr>)
                else (True, with_local c (s\<lparr>g_bound := Some addr\<rparr>, n1\<lparr>kern := k\<rparr>)))))"

definition socket_listen :: "'k sys \<Rightarrow> int \<Rightarrow> 'k sn \<Rightarrow> bool \<times> 'k sn" where
  "socket_listen c backlog sn = (case sn of (s, n) \<Rightarrow>
     if \<not> isValid s then (False, s, n)
     else (case sys_listen c (m_sock s) backlog (kern n) of (r, k) \<Rightarrow>
       if r \<noteq> 0 then (False, s, n\<lparr>kern := k\<rparr>) else (True, s\<lparr>g_listening := Some backlog\<rparr>, n\<lparr>kern := k\<rparr>)))"

text \<open>Sending and receiving need a connection; several buffers are one message of their concatenation.\<close>

definition socket_send :: "'k sys \<Rightarrow> bytes \<Rightarrow> int \<Rightarrow> 'k sn \<Rightarrow> int \<times> 'k sn" where
  "socket_send c buffer flags sn = (case sn of (s, n) \<Rightarrow>
     if m_isConnected s then (case sys_send c (m_sock s) buffer None flags (kern n) of (r, k) \<Rightarrow> (r, s, n\<lparr>kern := k\<rparr>))
     else (-1, s, n))"

definition socket_send_iov :: "'k sys \<Rightarrow> bytes list \<Rightarrow> int \<Rightarrow> 'k sn \<Rightarrow> int \<times> 'k sn" where
  "socket_send_iov c buffers flags sn = socket_send c (concat buffers) flags sn"

definition socket_sendTo :: "'k sys \<Rightarrow> bytes \<Rightarrow> Address \<Rightarrow> int \<Rightarrow> 'k sn \<Rightarrow> int \<times> 'k sn" where
  "socket_sendTo c buffer to flags sn = (case sn of (s, n) \<Rightarrow>
     if m_isConnected s then (case sys_send c (m_sock s) buffer (Some to) flags (kern n) of (r, k) \<Rightarrow> (r, s, n\<lparr>kern := k\<rparr>))
     else (-1, s, n))"

definition socket_recv :: "'k sys \<Rightarrow> nat \<Rightarrow> int \<Rightarrow> 'k sn \<Rightarrow> (int \<times> bytes) \<times> 'k sn" where
  "socket_recv c len flags sn = (case sn of (s, n) \<Rightarrow>
     if m_isConnected s then (case sys_recv c (m_sock s) len flags (kern n) of (r, k) \<Rightarrow> (r, s, n\<lparr>kern := k\<rparr>))
     else ((-1, []), s, n))"

definition socket_sendTo_iov :: "'k sys \<Rightarrow> bytes list \<Rightarrow> Address \<Rightarrow> int \<Rightarrow> 'k sn \<Rightarrow> int \<times> 'k sn" where
  "socket_sendTo_iov c buffers to flags sn = socket_sendTo c (concat buffers) to flags sn"

definition socket_recv_iov :: "'k sys \<Rightarrow> nat list \<Rightarrow> int \<Rightarrow> 'k sn \<Rightarrow> (int \<times> bytes) \<times> 'k sn" where
  "socket_recv_iov c lens flags sn = socket_recv c (sum_list lens) flags sn"

definition socket_recvFrom :: "'k sys \<Rightarrow> nat \<Rightarrow> Address \<Rightarrow> int \<Rightarrow> 'k sn \<Rightarrow> (int \<times> bytes \<times> Address) \<times> 'k sn" where
  "socket_recvFrom c len sender flags sn = (case sn of (s, n) \<Rightarrow>
     if m_isConnected s then (case sys_recvfrom c (m_sock s) len sender flags (kern n) of (r, k) \<Rightarrow> (r, s, n\<lparr>kern := k\<rparr>))
     else ((-1, [], sender), s, n))"

definition socket_recvFrom_iov :: "'k sys \<Rightarrow> nat list \<Rightarrow> Address \<Rightarrow> int \<Rightarrow> 'k sn \<Rightarrow> (int \<times> bytes \<times> Address) \<times> 'k sn" where
  "socket_recvFrom_iov c lens sender flags sn = socket_recvFrom c (sum_list lens) sender flags sn"

section \<open>SSL\<close>

text \<open>
  \<open>SSLSocket::send\<close> and \<open>recv\<close> over several buffers of the given contents or lengths: \<open>wr\<close> is
  \<open>SSL_write\<close> and \<open>rd\<close> is \<open>SSL_read\<close> on the state of the connection.
\<close>

fun ssl_send_loop :: "(bytes \<Rightarrow> 's \<Rightarrow> int \<times> 's) \<Rightarrow> bytes list \<Rightarrow> int \<Rightarrow> 's \<Rightarrow> int \<times> 's" where
  "ssl_send_loop wr [] tot s = (tot, s)"
| "ssl_send_loop wr (b # bs) tot s = (case wr b s of (tmp, s1) \<Rightarrow>
     if tmp \<le> 0 then (tmp, s1)
     else if tmp \<noteq> int (length b) then (tot + tmp, s1) else ssl_send_loop wr bs (tot + tmp) s1)"

definition ssl_send :: "(bytes \<Rightarrow> 's \<Rightarrow> int \<times> 's) \<Rightarrow> bool \<Rightarrow> bytes list \<Rightarrow> 's \<Rightarrow> int \<times> 's" where
  "ssl_send wr m_ssl buffers s = (if \<not> m_ssl then (-1, s) else ssl_send_loop wr buffers 0 s)"

fun ssl_recv_loop :: "(nat \<Rightarrow> 's \<Rightarrow> (int \<times> bytes) \<times> 's) \<Rightarrow> nat list \<Rightarrow> int \<Rightarrow> bytes \<Rightarrow> 's \<Rightarrow> (int \<times> bytes) \<times> 's" where
  "ssl_recv_loop rd [] tot acc s = ((tot, acc), s)"
| "ssl_recv_loop rd (l # ls) tot acc s = (case rd l s of ((tmp, d), s1) \<Rightarrow>
     if tmp \<le> 0 then ((tmp, acc), s1)
     else if tmp \<noteq> int l then ((tot + tmp, acc @ d), s1) else ssl_recv_loop rd ls (tot + tmp) (acc @ d) s1)"

definition ssl_recv :: "(nat \<Rightarrow> 's \<Rightarrow> (int \<times> bytes) \<times> 's) \<Rightarrow> bool \<Rightarrow> nat list \<Rightarrow> 's \<Rightarrow> (int \<times> bytes) \<times> 's" where
  "ssl_recv rd m_ssl lens s = (if \<not> m_ssl then ((-1, []), s) else ssl_recv_loop rd lens 0 [] s)"

text \<open>
  Connecting and accepting add a handshake on the descriptor, \<open>hs\<close>, which is \<open>SSL_connect\<close> or
  \<open>SSL_accept\<close>.  Accepting takes the context of the listening socket, \<open>ctx\<close>: there is none before
  \<open>loadCertificates\<close>, and then \<open>SSL_set_fd\<close> is called on a null pointer, which is \<open>None\<close>.
\<close>

definition ssl_connect :: "'k sys \<Rightarrow> (int \<Rightarrow> 'k \<Rightarrow> int \<times> 'k) \<Rightarrow> Address \<Rightarrow> u64 \<Rightarrow> 'k sn \<Rightarrow> bool \<times> 'k sn" where
  "ssl_connect c hs addr timeout_ms sn = (case socket_connect c addr timeout_ms sn of
       (False, sn1) \<Rightarrow> (False, sn1)
     | (True, s, n) \<Rightarrow> (case hs (m_sock s) (kern n) of (r, k) \<Rightarrow> (r = 1, s, n\<lparr>kern := k\<rparr>)))"

definition ssl_init_sock :: "'k sys \<Rightarrow> (int \<Rightarrow> 'k \<Rightarrow> int \<times> 'k) \<Rightarrow> bool \<Rightarrow> int \<Rightarrow> 'k sn \<Rightarrow> (bool \<times> 'k sn) option" where
  "ssl_init_sock c hs ctx sock sn = (case init_sock c sock sn of
       (False, sn1) \<Rightarrow> Some (False, sn1)
     | (True, s, n) \<Rightarrow> if \<not> ctx then None
         else (case hs (m_sock s) (kern n) of (r, k) \<Rightarrow> Some (r = 1, s, n\<lparr>kern := k\<rparr>)))"

definition ssl_accept :: "'k sys \<Rightarrow> (int \<Rightarrow> 'k \<Rightarrow> int \<times> 'k) \<Rightarrow> bool \<Rightarrow> 'k sn \<Rightarrow> (Socket option \<times> 'k net) option" where
  "ssl_accept c hs ctx sn = (case sn of (s, n) \<Rightarrow>
     (case do_accept c (m_sock s) n of (newsock, n1) \<Rightarrow>
        if newsock = -1 then Some (None, n1)
        else (case ssl_init_sock c hs ctx newsock (new_Socket (m_family s) (m_type s) (m_protocol s), n1) of
            None \<Rightarrow> None
          | Some (True, s', n2) \<Rightarrow> Some (Some s', n2)
          | Some (False, s', n2) \<Rightarrow>
              Some (None, if isValid s' then delete_Socket c (s', n2) else n2\<lparr>g_lost := newsock # g_lost n2\<rparr>))))"

text \<open>\<open>loadCertificates\<close>: the three calls in their order; whether there is a context after them, and the result.\<close>

definition loadCertificates :: "(string \<Rightarrow> bool) \<Rightarrow> (string \<Rightarrow> bool) \<Rightarrow> bool \<Rightarrow> string \<Rightarrow> string \<Rightarrow> bool \<times> bool" where
  "loadCertificates use_chain use_key check cert_file key_file =
    (True, use_chain cert_file \<and> use_key key_file \<and> check)"

end
