(* ===== verification/Config.thy ===== *)
theory Config
  imports Cpp_Strings
begin

text \<open>
  \<^verbatim>\<open>include/config.h\<close> and \<^verbatim>\<open>src/config.cc\<close>: configuration variables with listeners, the registry by
  name, and loading from YAML.  Parsing and printing YAML is an argument (\<open>load\<close>, \<open>emit\<close>), and so
  are the conversions of the element types; a conversion that throws is \<open>None\<close>.  A variable has
  values of one type \<open>'v\<close>, of which \<open>cv_type\<close> names the C++ type.
\<close>

section \<open>YAML\<close>

datatype YAML_Node = Null | Scalar string | Seq "YAML_Node list" | Map "(string \<times> YAML_Node) list"

fun IsScalar :: "YAML_Node \<Rightarrow> bool" where
  "IsScalar (Scalar _) = True" | "IsScalar _ = False"

fun IsMap :: "YAML_Node \<Rightarrow> bool" where
  "IsMap (Map _) = True" | "IsMap _ = False"

text \<open>
  The elements \<open>node[0], node[1], \<dots>\<close>; a scalar has size 0, and the elements of a map by number are
  not defined.  The entries in the order of iteration.
\<close>

fun node_items :: "YAML_Node \<Rightarrow> YAML_Node list option" where
  "node_items (Seq xs) = Some xs" | "node_items (Map es) = (if es = [] then Some [] else None)" | "node_items _ = Some []"

fun node_entries :: "YAML_Node \<Rightarrow> (string \<times> YAML_Node) list" where
  "node_entries (Map es) = es" | "node_entries _ = []"

fun those :: "'a option list \<Rightarrow> 'a list option" where
  "those [] = Some []"
| "those (x # xs) = (case x of None \<Rightarrow> None | Some y \<Rightarrow> map_option ((#) y) (those xs))"

text \<open>
  \<open>node[k]\<close> of a map, \<open>None\<close> when it is not there; \<open>as<T>\<close> of a scalar, with the conversion \<open>cast\<close>, and with a value to fall back on.
\<close>

definition yget :: "string \<Rightarrow> YAML_Node \<Rightarrow> YAML_Node option" where
  "yget k node = map_of (node_entries node) k"

definition yas :: "(string \<Rightarrow> 'a option) \<Rightarrow> YAML_Node option \<Rightarrow> 'a option" where
  "yas cast node = (case node of Some (Scalar s) \<Rightarrow> cast s | _ \<Rightarrow> None)"

definition yas_or :: "(string \<Rightarrow> 'a option) \<Rightarrow> 'a \<Rightarrow> YAML_Node option \<Rightarrow> 'a" where
  "yas_or cast d node = (case yas cast node of Some x \<Rightarrow> x | None \<Rightarrow> d)"

text \<open>
  Containers of \<open>T\<close> from a string and back: each element goes through its own text.  A list stands
  for the vector, the list and the elements a set is given in this order; a list of pairs for the
  maps.
\<close>

definition cast_from_seq :: "(string \<Rightarrow> YAML_Node option) \<Rightarrow> (YAML_Node \<Rightarrow> string) \<Rightarrow> (string \<Rightarrow> 't option) \<Rightarrow> string \<Rightarrow> 't list option" where
  "cast_from_seq load emit cast v = (case load v of
     None \<Rightarrow> None
   | Some node \<Rightarrow> (case node_items node of None \<Rightarrow> None | Some xs \<Rightarrow> those (map (\<lambda>x. cast (emit x)) xs)))"

definition cast_to_seq :: "(string \<Rightarrow> YAML_Node option) \<Rightarrow> (YAML_Node \<Rightarrow> string) \<Rightarrow> ('t \<Rightarrow> string option) \<Rightarrow> 't list \<Rightarrow> string option" where
  "cast_to_seq load emit cast v =
     map_option (\<lambda>xs. emit (Seq xs)) (those (map (\<lambda>x. Option.bind (cast x) load) v))"

definition cast_from_map :: "(string \<Rightarrow> YAML_Node option) \<Rightarrow> (YAML_Node \<Rightarrow> string) \<Rightarrow> (string \<Rightarrow> 't option) \<Rightarrow> string
    \<Rightarrow> (string \<times> 't) list option" where
  "cast_from_map load emit cast v = (case load v of
     None \<Rightarrow> None
   | Some node \<Rightarrow> those (map (\<lambda>(k, x). map_option (Pair k) (cast (emit x))) (node_entries node)))"

definition cast_to_map :: "(string \<Rightarrow> YAML_Node option) \<Rightarrow> (YAML_Node \<Rightarrow> string) \<Rightarrow> ('t \<Rightarrow> string option) \<Rightarrow> (string \<times> 't) list
    \<Rightarrow> string option" where
  "cast_to_map load emit cast v =
     map_option (\<lambda>es. emit (Map es)) (those (map (\<lambda>(k, x). map_option (Pair k) (Option.bind (cast x) load)) v))"

text \<open>
  The six containers: vectors and lists are sequences, sets forget order and repetition (a set is
  written in some order of its elements, \<open>order\<close>), and \<open>insert\<close> into a map keeps the first of two
  entries with one key.
\<close>

definition cast_from_vector :: "(string \<Rightarrow> YAML_Node option) \<Rightarrow> (YAML_Node \<Rightarrow> string) \<Rightarrow> (string \<Rightarrow> 't option) \<Rightarrow> string \<Rightarrow> 't list option" where
  "cast_from_vector = cast_from_seq"

definition cast_to_vector :: "(string \<Rightarrow> YAML_Node option) \<Rightarrow> (YAML_Node \<Rightarrow> string) \<Rightarrow> ('t \<Rightarrow> string option) \<Rightarrow> 't list \<Rightarrow> string option" where
  "cast_to_vector = cast_to_seq"

definition cast_from_list :: "(string \<Rightarrow> YAML_Node option) \<Rightarrow> (YAML_Node \<Rightarrow> string) \<Rightarrow> (string \<Rightarrow> 't option) \<Rightarrow> string \<Rightarrow> 't list option" where
  "cast_from_list = cast_from_seq"

definition cast_to_list :: "(string \<Rightarrow> YAML_Node option) \<Rightarrow> (YAML_Node \<Rightarrow> string) \<Rightarrow> ('t \<Rightarrow> string option) \<Rightarrow> 't list \<Rightarrow> string option" where
  "cast_to_list = cast_to_seq"

definition cast_from_set :: "(string \<Rightarrow> YAML_Node option) \<Rightarrow> (YAML_Node \<Rightarrow> string) \<Rightarrow> (string \<Rightarrow> 't option) \<Rightarrow> string \<Rightarrow> 't set option" where
  "cast_from_set load emit cast v = map_option set (cast_from_seq load emit cast v)"

definition cast_to_set :: "('t set \<Rightarrow> 't list) \<Rightarrow> (string \<Rightarrow> YAML_Node option) \<Rightarrow> (YAML_Node \<Rightarrow> string) \<Rightarrow> ('t \<Rightarrow> string option) \<Rightarrow> 't set
    \<Rightarrow> string option" where
  "cast_to_set order load emit cast v = cast_to_seq load emit cast (order v)"

definition cast_from_std_map :: "(string \<Rightarrow> YAML_Node option) \<Rightarrow> (YAML_Node \<Rightarrow> string) \<Rightarrow> (string \<Rightarrow> 't option) \<Rightarrow> string
    \<Rightarrow> (string \<Rightarrow> 't option) option" where
  "cast_from_std_map load emit cast v = map_option map_of (cast_from_map load emit cast v)"

definition cast_to_std_map :: "((string \<Rightarrow> 't option) \<Rightarrow> (string \<times> 't) list) \<Rightarrow> (string \<Rightarrow> YAML_Node option) \<Rightarrow> (YAML_Node \<Rightarrow> string)
    \<Rightarrow> ('t \<Rightarrow> string option) \<Rightarrow> (string \<Rightarrow> 't option) \<Rightarrow> string option" where
  "cast_to_std_map order load emit cast v = cast_to_map load emit cast (order v)"

text \<open>\<open>std::transform(..., ::tolower)\<close>\<close>

abbreviation lower_str :: "string \<Rightarrow> string" where
  "lower_str \<equiv> map to_lower"

text \<open>\<open>boost\<close> is \<open>boost::lexical_cast<bool>\<close>.\<close>

definition cast_to_bool :: "(string \<Rightarrow> bool option) \<Rightarrow> string \<Rightarrow> bool option" where
  "cast_to_bool boost v = (let str = lower_str v in
     if str \<in> {''1'', ''true'', ''yes'', ''on''} then Some True
     else if str \<in> {''0'', ''false'', ''no'', ''off'', []} then Some False
     else boost v)"

definition cast_of_bool :: "bool \<Rightarrow> string" where
  "cast_of_bool v = (if v then ''true'' else ''false'')"

section \<open>Variables\<close>

record ('v, 'cb) ConfigVar =
  cv_name :: string
  cv_description :: string
  cv_type :: string
  cv_val :: 'v
  cv_cbs :: "(nat \<times> 'cb) list"

definition new_ConfigVar :: "string \<Rightarrow> string \<Rightarrow> 'v \<Rightarrow> string \<Rightarrow> ('v, 'cb) ConfigVar" where
  "new_ConfigVar type name default_value description = \<lparr>cv_name = lower_str name, cv_description = description,
     cv_type = type, cv_val = default_value, cv_cbs = []\<rparr>"

text \<open>\<open>to\<close> and \<open>conv\<close> are the conversions of the variable's type; a failure is logged.\<close>

definition var_toString :: "('v \<Rightarrow> string option) \<Rightarrow> ('v, 'cb) ConfigVar \<Rightarrow> string" where
  "var_toString to v = (case to (cv_val v) of Some s \<Rightarrow> s | None \<Rightarrow> [])"

text \<open>The calls of the listeners, with the old and the new value.\<close>

definition setValue :: "'v \<Rightarrow> ('v, 'cb) ConfigVar \<Rightarrow> ('v, 'cb) ConfigVar \<times> ('cb \<times> 'v \<times> 'v) list" where
  "setValue x v = (if x = cv_val v then (v, [])
     else (v\<lparr>cv_val := x\<rparr>, map (\<lambda>(k, cb). (cb, cv_val v, x)) (cv_cbs v)))"

definition var_fromString :: "(string \<Rightarrow> 'v option) \<Rightarrow> string \<Rightarrow> ('v, 'cb) ConfigVar
    \<Rightarrow> bool \<times> ('v, 'cb) ConfigVar \<times> ('cb \<times> 'v \<times> 'v) list" where
  "var_fromString conv val v = (False, (case conv val of Some x \<Rightarrow> setValue x v | None \<Rightarrow> (v, [])))"

text \<open>The ids are given in increasing order by a counter shared by all variables of the type.\<close>

fun cbs_put :: "nat \<Rightarrow> 'cb \<Rightarrow> (nat \<times> 'cb) list \<Rightarrow> (nat \<times> 'cb) list" where
  "cbs_put k cb [] = [(k, cb)]"
| "cbs_put k cb ((j, c) # cs) = (if k < j then (k, cb) # (j, c) # cs else if k = j then (k, cb) # cs
     else (j, c) # cbs_put k cb cs)"

definition addListener :: "'cb \<Rightarrow> nat \<Rightarrow> ('v, 'cb) ConfigVar \<Rightarrow> nat \<times> nat \<times> ('v, 'cb) ConfigVar" where
  "addListener cb s_fun_id v = (Suc s_fun_id, Suc s_fun_id, v\<lparr>cv_cbs := cbs_put (Suc s_fun_id) cb (cv_cbs v)\<rparr>)"

definition delListener :: "nat \<Rightarrow> ('v, 'cb) ConfigVar \<Rightarrow> ('v, 'cb) ConfigVar" where
  "delListener key v = v\<lparr>cv_cbs := filter (\<lambda>(k, cb). k \<noteq> key) (cv_cbs v)\<rparr>"

definition getListener :: "nat \<Rightarrow> ('v, 'cb) ConfigVar \<Rightarrow> 'cb option" where
  "getListener key v = map_of (cv_cbs v) key"

definition clearListener :: "('v, 'cb) ConfigVar \<Rightarrow> ('v, 'cb) ConfigVar" where
  "clearListener v = v\<lparr>cv_cbs := []\<rparr>"

section \<open>The registry\<close>

type_synonym ('v, 'cb) registry = "string \<Rightarrow> ('v, 'cb) ConfigVar option"

definition name_chars :: "char set" where
  "name_chars = set ''abcdefghikjlmnopqrstuvwxyz._012345678''"

definition valid_name :: "string \<Rightarrow> bool" where
  "valid_name name \<longleftrightarrow> list_all (\<lambda>c. c \<in> name_chars) name"

datatype config_error = invalid_argument string

text \<open>\<open>Lookup<T>\<close> with a default: the variable, null if it has another type, or an exception.\<close>

definition Config_Lookup :: "string \<Rightarrow> string \<Rightarrow> 'v \<Rightarrow> string \<Rightarrow> ('v, 'cb) registry
    \<Rightarrow> (config_error + ('v, 'cb) ConfigVar option) \<times> ('v, 'cb) registry" where
  "Config_Lookup type name default_value description reg = (case reg name of
     Some v \<Rightarrow> (Inr (if cv_type v = type then Some v else None), reg)
   | None \<Rightarrow>
      if \<not> valid_name name then (Inl (invalid_argument name), reg)
      else let v = new_ConfigVar type name default_value description in (Inr (Some v), reg(name \<mapsto> v)))"

definition Config_find :: "string \<Rightarrow> string \<Rightarrow> ('v, 'cb) registry \<Rightarrow> ('v, 'cb) ConfigVar option" where
  "Config_find type name reg = (case reg name of None \<Rightarrow> None | Some v \<Rightarrow> if cv_type v = type then Some v else None)"

definition LookupBase :: "string \<Rightarrow> ('v, 'cb) registry \<Rightarrow> ('v, 'cb) ConfigVar option" where
  "LookupBase name reg = reg name"

fun ListAllMember :: "string \<Rightarrow> YAML_Node \<Rightarrow> (string \<times> YAML_Node) list"
  and ListAllMembers :: "string \<Rightarrow> (string \<times> YAML_Node) list \<Rightarrow> (string \<times> YAML_Node) list" where
  "ListAllMember prefix node = (if \<not> valid_name prefix then []
     else (prefix, node) # (case node of Map es \<Rightarrow> ListAllMembers prefix es | _ \<Rightarrow> []))"
| "ListAllMembers prefix [] = []"
| "ListAllMembers prefix ((k, n) # es) =
     ListAllMember (if prefix = [] then k else prefix @ ''.'' @ k) n @ ListAllMembers prefix es"

text \<open>One node: \<open>conv type\<close> converts for the variables of that type.\<close>

definition load_node :: "(YAML_Node \<Rightarrow> string) \<Rightarrow> (string \<Rightarrow> string \<Rightarrow> 'v option) \<Rightarrow> string \<times> YAML_Node
    \<Rightarrow> ('v, 'cb) registry \<times> ('cb \<times> 'v \<times> 'v) list \<Rightarrow> ('v, 'cb) registry \<times> ('cb \<times> 'v \<times> 'v) list" where
  "load_node emit conv kn rl = (case kn of (key, node) \<Rightarrow> case rl of (reg, calls) \<Rightarrow>
     if key = [] then rl
     else let name = lower_str key in
       (case LookupBase name reg of
          None \<Rightarrow> rl
        | Some v \<Rightarrow>
           (case var_fromString (conv (cv_type v)) (case node of Scalar s \<Rightarrow> s | _ \<Rightarrow> emit node) v of
              (_, v', cs) \<Rightarrow> (reg(name \<mapsto> v'), calls @ cs))))"

definition LoadFromYaml :: "(YAML_Node \<Rightarrow> string) \<Rightarrow> (string \<Rightarrow> string \<Rightarrow> 'v option) \<Rightarrow> YAML_Node
    \<Rightarrow> ('v, 'cb) registry \<Rightarrow> ('v, 'cb) registry \<times> ('cb \<times> 'v \<times> 'v) list" where
  "LoadFromYaml emit conv root reg = fold (load_node emit conv) (ListAllMember [] root) (reg, [])"

text \<open>
  The files of a directory with their times and contents (\<open>None\<close> is a file that does not load);
  the times seen before are part of the state.
\<close>

fun LoadFromConfDir :: "(YAML_Node \<Rightarrow> string) \<Rightarrow> (string \<Rightarrow> string \<Rightarrow> 'v option) \<Rightarrow> bool
    \<Rightarrow> (string \<times> nat \<times> YAML_Node option) list \<Rightarrow> (string \<Rightarrow> nat) \<times> ('v, 'cb) registry
    \<Rightarrow> (string \<Rightarrow> nat) \<times> ('v, 'cb) registry" where
  "LoadFromConfDir emit conv force [] st = st"
| "LoadFromConfDir emit conv force ((f, mtime, root) # fs) (seen, reg) =
     (if \<not> force \<and> seen f = mtime then LoadFromConfDir emit conv force fs (seen, reg)
      else LoadFromConfDir emit conv force fs
        (seen(f := mtime), case root of None \<Rightarrow> reg | Some n \<Rightarrow> fst (LoadFromYaml emit conv n reg)))"

end
