(* ===== verification/Tcp_Server.thy ===== *)
theory Tcp_Server
  imports Socket Config
begin

text \<open>
  \<^verbatim>\<open>src/tcp_server.cc\<close> and \<^verbatim>\<open>include/tcp_server.h\<close>: a server with its listening sockets, the loop
  that accepts, and its configuration in YAML.  A socket object is known by its number in
  \<open>tc_store\<close>; a destroyed one stays there without a descriptor.
\<close>

section \<open>State\<close>

text \<open>
  \<open>tc_held\<close> are the sockets that a running \<open>startAccept\<close> keeps alive; \<open>tc_accept_q\<close> and \<open>tc_io_q\<close>
  are the callbacks given to the two schedulers so far, \<open>tc_clients\<close> the accepted sockets by number.
\<close>

datatype tcp_task = StartAccept nat | CloseSockets | HandleClient nat

record 'k TcpServer =
  tc_store :: "Socket list"
  m_socks :: "nat list"
  tc_held :: "nat list"
  tc_clients :: "Socket list"
  tc_accept_q :: "tcp_task list"
  tc_io_q :: "tcp_task list"
  m_recvTimeout :: u64
  m_isStop :: bool
  m_ssl :: bool
  tc_net :: "'k net"

definition new_TcpServer :: "u64 \<Rightarrow> 'k net \<Rightarrow> 'k TcpServer" where
  "new_TcpServer read_timeout n = \<lparr>tc_store = [], m_socks = [], tc_held = [], tc_clients = [], tc_accept_q = [], tc_io_q = [],
     m_recvTimeout = read_timeout, m_isStop = True, m_ssl = False, tc_net = n\<rparr>"

section \<open>Binding\<close>

text \<open>An operation on the socket of number \<open>i\<close>.\<close>

definition on_sock :: "nat \<Rightarrow> ('k sn \<Rightarrow> bool \<times> 'k sn) \<Rightarrow> 'k TcpServer \<Rightarrow> bool \<times> 'k TcpServer" where
  "on_sock i f t = (case f (tc_store t ! i, tc_net t) of (b, s, n) \<Rightarrow> (b, t\<lparr>tc_store := (tc_store t)[i := s], tc_net := n\<rparr>))"

definition close_sock :: "'k sys \<Rightarrow> nat \<Rightarrow> 'k TcpServer \<Rightarrow> 'k TcpServer" where
  "close_sock c i t = snd (on_sock i (socket_close c) t)"

text \<open>The vector lets go of its sockets; those nothing else holds are destroyed.\<close>

definition clear_socks :: "'k sys \<Rightarrow> 'k TcpServer \<Rightarrow> 'k TcpServer" where
  "clear_socks c t = fold (close_sock c) (filter (\<lambda>i. i \<notin> set (tc_held t)) (m_socks t)) (t\<lparr>m_socks := []\<rparr>)"

fun bind_loop :: "'k sys \<Rightarrow> int \<Rightarrow> Address list \<Rightarrow> Address list \<Rightarrow> 'k TcpServer \<Rightarrow> Address list \<times> 'k TcpServer" where
  "bind_loop c backlog [] fails t = (fails, t)"
| "bind_loop c backlog (addr # addrs) fails t =
    (let i = length (tc_store t); t0 = t\<lparr>tc_store := tc_store t @ [CreateTCP addr]\<rparr> in
     case on_sock i (socket_bind c addr) t0 of
       (False, t1) \<Rightarrow> bind_loop c backlog addrs (fails @ [addr]) (close_sock c i t1)
     | (True, t1) \<Rightarrow> (case on_sock i (socket_listen c backlog) t1 of
           (False, t2) \<Rightarrow> bind_loop c backlog addrs (fails @ [addr]) (close_sock c i t2)
         | (True, t2) \<Rightarrow> bind_loop c backlog addrs fails (t2\<lparr>m_socks := m_socks t2 @ [i]\<rparr>)))"

definition tcp_bind :: "'k sys \<Rightarrow> int \<Rightarrow> bool \<Rightarrow> Address list \<Rightarrow> 'k TcpServer \<Rightarrow> bool \<times> Address list \<times> 'k TcpServer" where
  "tcp_bind c backlog ssl addrs t = (case bind_loop c backlog addrs [] (t\<lparr>m_ssl := ssl\<rparr>) of
     (fails, t1) \<Rightarrow> if fails \<noteq> [] then (False, fails, clear_socks c t1) else (True, fails, t1))"

section \<open>Running\<close>

definition tcp_start :: "'k TcpServer \<Rightarrow> bool \<times> 'k TcpServer" where
  "tcp_start t = (if \<not> m_isStop t then (True, t)
     else (True, t\<lparr>m_isStop := False, tc_held := tc_held t @ m_socks t, tc_accept_q := tc_accept_q t @ map StartAccept (m_socks t)\<rparr>))"

text \<open>One turn of the loop of \<open>startAccept\<close> on socket \<open>i\<close>: whether it goes on.\<close>

definition accept_turn :: "'k sys \<Rightarrow> nat \<Rightarrow> 'k TcpServer \<Rightarrow> bool \<times> 'k TcpServer" where
  "accept_turn c i t =
    (if m_isStop t then
       (let t1 = t\<lparr>tc_held := remove1 i (tc_held t)\<rparr> in
        (False, if i \<in> set (tc_held t1) \<or> i \<in> set (m_socks t1) then t1 else close_sock c i t1))
     else (case socket_accept c (tc_store t ! i, tc_net t) of
         (None, n) \<Rightarrow> (True, t\<lparr>tc_net := n\<rparr>)
       | (Some client, n) \<Rightarrow> (case setRecvTimeout c (sint (m_recvTimeout t)) (client, n) of (client1, n1) \<Rightarrow>
           (True, t\<lparr>tc_net := n1, tc_clients := tc_clients t @ [client1],
              tc_io_q := tc_io_q t @ [HandleClient (length (tc_clients t))]\<rparr>))))"

definition tcp_stop :: "'k TcpServer \<Rightarrow> 'k TcpServer" where
  "tcp_stop t = t\<lparr>m_isStop := True, tc_accept_q := tc_accept_q t @ [CloseSockets]\<rparr>"

text \<open>The callback that \<open>stop\<close> schedules; \<open>cancelAll\<close> wakes whoever waits for the socket.\<close>

definition close_sockets :: "'k sys \<Rightarrow> 'k TcpServer \<Rightarrow> 'k TcpServer" where
  "close_sockets c t = clear_socks c (fold (close_sock c) (m_socks t) t)"

definition delete_TcpServer :: "'k sys \<Rightarrow> 'k TcpServer \<Rightarrow> 'k TcpServer" where
  "delete_TcpServer c t = clear_socks c (fold (close_sock c) (m_socks t) t)"

section \<open>Configuration\<close>

record TcpServerConf =
  cf_address :: "string list"
  cf_keepalive :: int
  cf_timeout :: int
  cf_ssl :: int
  cf_id :: string
  cf_type :: string
  cf_name :: string
  cf_cert_file :: string
  cf_key_file :: string
  cf_accept_worker :: string
  cf_io_worker :: string
  cf_process_worker :: string
  cf_args :: "(string \<times> string) list"

definition default_conf :: TcpServerConf where
  "default_conf = \<lparr>cf_address = [], cf_keepalive = 0, cf_timeout = 1000 * 2 * 60, cf_ssl = 0, cf_id = [], cf_type = ''http'',
     cf_name = [], cf_cert_file = [], cf_key_file = [], cf_accept_worker = [], cf_io_worker = [], cf_process_worker = [],
     cf_args = []\<rparr>"

definition conf_isValid :: "TcpServerConf \<Rightarrow> bool" where
  "conf_isValid v \<longleftrightarrow> cf_address v \<noteq> []"

text \<open>
  \<open>LexicalCast<std::string, TcpServerConf>\<close>: the three workers have no value to fall back on, so
  without them it throws; \<open>to_int\<close> reads an \<open>int\<close>, \<open>map_cast\<close> is the conversion of a text to a map
  of strings.
\<close>

definition conf_of_text :: "(string \<Rightarrow> YAML_Node option) \<Rightarrow> (string \<Rightarrow> int option) \<Rightarrow> (string \<Rightarrow> (string \<times> string) list option)
    \<Rightarrow> string \<Rightarrow> TcpServerConf option" where
  "conf_of_text load to_int map_cast v = Option.bind (load v) (\<lambda>node.
     let d = default_conf; str = (\<lambda>k x. yas_or Some x (yget k node)) in
     Option.bind (yas Some (yget ''accept_worker'' node)) (\<lambda>aw.
     Option.bind (yas Some (yget ''io_worker'' node)) (\<lambda>iw.
     Option.bind (yas Some (yget ''process_worker'' node)) (\<lambda>pw.
     Option.bind (map_cast (str ''args'' [])) (\<lambda>args.
     Option.bind (case yget ''address'' node of None \<Rightarrow> Some []
         | Some a \<Rightarrow> Option.bind (node_items a) (\<lambda>xs. those (map (\<lambda>x. yas Some (Some x)) xs))) (\<lambda>address.
     Some \<lparr>cf_address = address, cf_keepalive = yas_or to_int (cf_keepalive d) (yget ''keepalive'' node),
       cf_timeout = yas_or to_int (cf_timeout d) (yget ''timeout'' node), cf_ssl = yas_or to_int (cf_ssl d) (yget ''ssl'' node),
       cf_id = str ''id'' (cf_id d), cf_type = str ''type'' (cf_type d), cf_name = str ''name'' (cf_name d),
       cf_cert_file = str ''cert_file'' (cf_cert_file d), cf_key_file = str ''key_file'' (cf_key_file d),
       cf_accept_worker = aw, cf_io_worker = iw, cf_process_worker = pw, cf_args = args\<rparr>))))))"

text \<open>The tree that \<open>LexicalCast<TcpServerConf, std::string>\<close> prints; \<open>args_node\<close> is the one of the arguments.\<close>

definition conf_node :: "(int \<Rightarrow> string) \<Rightarrow> ((string \<times> string) list \<Rightarrow> YAML_Node) \<Rightarrow> TcpServerConf \<Rightarrow> YAML_Node" where
  "conf_node int_text args_node conf = Map ([(''id'', Scalar (cf_id conf)), (''type'', Scalar (cf_type conf)),
     (''name'', Scalar (cf_name conf)), (''keepalive'', Scalar (int_text (cf_keepalive conf))),
     (''timeout'', Scalar (int_text (cf_timeout conf))), (''ssl'', Scalar (int_text (cf_ssl conf))),
     (''cert_file'', Scalar (cf_cert_file conf)), (''key_file'', Scalar (cf_key_file conf)),
     (''accept_worker'', Scalar (cf_accept_worker conf)), (''io_worker'', Scalar (cf_io_worker conf)),
     (''process_worker'', Scalar (cf_process_worker conf)), (''args'', args_node (cf_args conf))]
     @ (if cf_address conf = [] then [] else [(''address'', Seq (map Scalar (cf_address conf)))]))"

end
