(* ===== verification/Fiber.thy ===== *)
theory Fiber
  imports Prelude
begin

text \<open>
  \<^verbatim>\<open>src/fiber.cc\<close>: fibers, their states and the switches between the contexts of one thread.
  Fiber objects live in a heap by address.  A thread has the two thread-local pointers of the
  code and, as \<open>context\<close>, the fiber whose context it executes: \<open>swapcontext\<close> changes it.  The main
  fiber of a thread has no stack of its own.
\<close>

section \<open>State\<close>

datatype State = INIT | HOLD | RUNNING | END | READY | EXCEPT

type_synonym addr = nat

text \<open>The number of a main fiber is never set.\<close>

record 'c Fiber =
  m_id :: "u64 option"
  m_state :: State
  m_stack :: bool
  m_stacksize :: u32
  m_cb :: "'c option"

record 'c fiber_heap =
  fibers :: "addr \<Rightarrow> 'c Fiber option"
  s_fiber_id :: u64
  s_fiber_count :: u64

record thread_local =
  t_fiber :: "addr option"
  t_thread_fiber :: "addr option"
  exec_context :: "addr option"

definition STACKSIZE :: u32 where
  "STACKSIZE = 1024 * 128"

section \<open>Objects\<close>

definition new_main_fiber :: "addr \<Rightarrow> 'c fiber_heap \<Rightarrow> thread_local \<Rightarrow> 'c fiber_heap \<times> thread_local" where
  "new_main_fiber a h t =
    (h\<lparr>fibers := (fibers h)(a \<mapsto> \<lparr>m_id = None, m_state = RUNNING, m_stack = False, m_stacksize = 0, m_cb = None\<rparr>),
       s_fiber_count := s_fiber_count h + 1\<rparr>,
     t\<lparr>t_fiber := Some a, exec_context := Some a\<rparr>)"

definition new_Fiber :: "addr \<Rightarrow> 'c option \<Rightarrow> u64 \<Rightarrow> 'c fiber_heap \<Rightarrow> 'c fiber_heap" where
  "new_Fiber a cb stacksize h =
    h\<lparr>fibers := (fibers h)(a \<mapsto> \<lparr>m_id = Some (s_fiber_id h + 1), m_state = INIT, m_stack = True,
         m_stacksize = (if stacksize \<noteq> 0 then ucast stacksize else STACKSIZE), m_cb = cb\<rparr>),
      s_fiber_id := s_fiber_id h + 1, s_fiber_count := s_fiber_count h + 1\<rparr>"

definition SetThis :: "addr option \<Rightarrow> thread_local \<Rightarrow> thread_local" where
  "SetThis f t = t\<lparr>t_fiber := f\<rparr>"

text \<open>The destructor of the object at \<open>a\<close>.\<close>

definition delete_Fiber :: "addr \<Rightarrow> 'c fiber_heap \<Rightarrow> thread_local \<Rightarrow> 'c fiber_heap \<times> thread_local" where
  "delete_Fiber a h t = (case fibers h a of
     None \<Rightarrow> (h, t)
   | Some f \<Rightarrow> (h\<lparr>fibers := (fibers h)(a := None), s_fiber_count := s_fiber_count h - 1\<rparr>,
        if \<not> m_stack f \<and> t_fiber t = Some a then SetThis None t else t))"

text \<open>\<open>a\<close> is the address of the main fiber, should it be made now.\<close>

definition GetThis :: "addr \<Rightarrow> 'c fiber_heap \<Rightarrow> thread_local \<Rightarrow> addr \<times> 'c fiber_heap \<times> thread_local" where
  "GetThis a h t = (case t_fiber t of
     Some f \<Rightarrow> (f, h, t)
   | None \<Rightarrow> (case new_main_fiber a h t of (h', t') \<Rightarrow> (a, h', t'\<lparr>t_thread_fiber := Some a\<rparr>)))"

definition getState :: "'c fiber_heap \<Rightarrow> addr \<Rightarrow> State" where
  "getState h f = (case fibers h f of Some x \<Rightarrow> m_state x | None \<Rightarrow> EXCEPT)"

definition setState :: "addr \<Rightarrow> State \<Rightarrow> 'c fiber_heap \<Rightarrow> 'c fiber_heap" where
  "setState f s h = h\<lparr>fibers := (fibers h)(f := map_option (m_state_update (\<lambda>_. s)) (fibers h f))\<rparr>"

text \<open>\<open>reset\<close> gives the stack a new function to run.\<close>

definition reset_cb :: "addr \<Rightarrow> 'c option \<Rightarrow> 'c fiber_heap \<Rightarrow> 'c fiber_heap" where
  "reset_cb f cb h = h\<lparr>fibers := (fibers h)(f := map_option (\<lambda>x. x\<lparr>m_cb := cb, m_state := INIT\<rparr>) (fibers h f))\<rparr>"

section \<open>Switching\<close>

text \<open>
  \<open>swapcontext\<close> goes on with the given context; \<open>None\<close> is the null pointer, which the code does
  not check.
\<close>

definition swapcontext :: "addr option \<Rightarrow> thread_local \<Rightarrow> thread_local option" where
  "swapcontext to t = (case to of None \<Rightarrow> None | Some f \<Rightarrow> Some (t\<lparr>exec_context := Some f\<rparr>))"

definition fiber_call :: "addr \<Rightarrow> 'c fiber_heap \<Rightarrow> thread_local \<Rightarrow> ('c fiber_heap \<times> thread_local) option" where
  "fiber_call f h t = (if t_thread_fiber t = None then None
     else map_option (\<lambda>t'. (setState f RUNNING h, t')) (swapcontext (Some f) (SetThis (Some f) t)))"

definition swapIn :: "addr \<Rightarrow> 'c fiber_heap \<Rightarrow> thread_local \<Rightarrow> ('c fiber_heap \<times> thread_local) option" where
  "swapIn f h t =
    (let t1 = SetThis (Some f) t in
     if getState h f = RUNNING then Some (h, t1)
     else if t_thread_fiber t = None then None
     else map_option (\<lambda>t'. (setState f RUNNING h, t')) (swapcontext (Some f) t1))"

definition swapOut :: "thread_local \<Rightarrow> thread_local option" where
  "swapOut t = swapcontext (t_thread_fiber t) (SetThis (t_thread_fiber t) t)"

definition fiber_back :: "thread_local \<Rightarrow> thread_local option" where
  "fiber_back t = swapcontext (t_thread_fiber t) (SetThis (t_thread_fiber t) t)"

text \<open>
  The end of \<open>MainFunc\<close> of the executing fiber: \<open>ok\<close> says whether its function returned or threw;
  calling an empty function throws.
\<close>

definition MainFunc_end :: "bool \<Rightarrow> 'c fiber_heap \<Rightarrow> thread_local \<Rightarrow> ('c fiber_heap \<times> thread_local) option" where
  "MainFunc_end ok h t = (case t_fiber t of
     None \<Rightarrow> None
   | Some f \<Rightarrow> (case fibers h f of
       None \<Rightarrow> None
     | Some x \<Rightarrow>
        let x' = (if ok \<and> m_cb x \<noteq> None then x\<lparr>m_cb := None, m_state := END\<rparr> else x\<lparr>m_state := EXCEPT\<rparr>)
        in map_option (\<lambda>t'. (h\<lparr>fibers := (fibers h)(f \<mapsto> x')\<rparr>, t')) (swapOut t)))"

definition YieldToReady :: "addr \<Rightarrow> 'c fiber_heap \<Rightarrow> thread_local \<Rightarrow> ('c fiber_heap \<times> thread_local) option" where
  "YieldToReady a h t = (case GetThis a h t of (cur, h1, t1) \<Rightarrow>
     if getState h1 cur \<noteq> RUNNING then Some (h1, t1)
     else map_option (\<lambda>t'. (setState cur READY h1, t')) (swapOut t1))"

definition YieldToHold :: "addr \<Rightarrow> 'c fiber_heap \<Rightarrow> thread_local \<Rightarrow> ('c fiber_heap \<times> thread_local) option" where
  "YieldToHold a h t = (case GetThis a h t of (cur, h1, t1) \<Rightarrow>
     if getState h1 cur \<noteq> RUNNING then Some (h1, t1)
     else map_option (\<lambda>t'. (h1, t')) (swapOut t1))"

section \<open>Laws\<close>

text \<open>
  A thread is consistent when it executes the context it calls its current fiber, that fiber is
  running, and its main fiber is there and running.
\<close>

definition thread_ok :: "'c fiber_heap \<Rightarrow> thread_local \<Rightarrow> bool" where
  "thread_ok h t \<longleftrightarrow> exec_context t = t_fiber t
     \<and> (\<exists>f m. t_fiber t = Some f \<and> t_thread_fiber t = Some m
          \<and> fibers h f \<noteq> None \<and> getState h f = RUNNING \<and> fibers h m \<noteq> None \<and> getState h m = RUNNING)"

lemma thread_okI:
  "\<lbrakk>exec_context t = Some f; t_fiber t = Some f; t_thread_fiber t = Some m;
    fibers h f \<noteq> None; getState h f = RUNNING; fibers h m \<noteq> None; getState h m = RUNNING\<rbrakk> \<Longrightarrow> thread_ok h t"
  by (simp add: thread_ok_def)

lemma thread_okE:
  assumes "thread_ok h t"
  obtains f m where "exec_context t = Some f" "t_fiber t = Some f" "t_thread_fiber t = Some m"
    "fibers h f \<noteq> None" "getState h f = RUNNING" "fibers h m \<noteq> None" "getState h m = RUNNING"
  using assms by (auto simp: thread_ok_def)

lemma getState_setState [simp]:
  "getState (setState f s h) g = (if g = f \<and> fibers h f \<noteq> None then s else getState h g)"
  by (auto simp: getState_def setState_def split: option.splits)

lemma fibers_setState [simp]: "fibers (setState f s h) g = None \<longleftrightarrow> fibers h g = None"
  by (auto simp: setState_def)

lemma getState_reset [simp]:
  "getState (reset_cb f cb h) g = (if g = f \<and> fibers h f \<noteq> None then INIT else getState h g)"
  by (auto simp: getState_def reset_cb_def split: option.splits)

lemma getState_new [simp]: "getState (new_Fiber a cb n h) g = (if g = a then INIT else getState h g)"
  by (simp add: getState_def new_Fiber_def)

lemma GetThis_current: "t_fiber t = Some f \<Longrightarrow> GetThis a h t = (f, h, t)"
  by (simp add: GetThis_def)

lemma swapOut_main: "t_thread_fiber t = Some m \<Longrightarrow> swapOut t = Some (t\<lparr>t_fiber := Some m, exec_context := Some m\<rparr>)"
  by (simp add: swapOut_def swapcontext_def SetThis_def)

text \<open>A thread's first \<open>GetThis\<close> makes its main fiber.\<close>

lemma GetThis_first:
  assumes "t_fiber t = None"
  shows "\<exists>h' t'. GetThis a h t = (a, h', t') \<and> thread_ok h' t' \<and> t_thread_fiber t' = Some a"
  using assms by (auto simp: GetThis_def new_main_fiber_def thread_ok_def getState_def)

lemma swapIn_ok:
  assumes "thread_ok h t" "fibers h f \<noteq> None" "getState h f \<noteq> RUNNING"
  obtains h' t' where "swapIn f h t = Some (h', t')" "thread_ok h' t'" "exec_context t' = Some f"
    "t_thread_fiber t' = t_thread_fiber t" "h' = setState f RUNNING h"
proof -
  from assms(1) obtain m where m: "t_thread_fiber t = Some m" "fibers h m \<noteq> None" "getState h m = RUNNING"
    by (rule thread_okE)
  show ?thesis
    using that [of "setState f RUNNING h" "t\<lparr>t_fiber := Some f, exec_context := Some f\<rparr>"] assms(2,3) m
    by (auto simp: swapIn_def swapcontext_def SetThis_def thread_ok_def Let_def)
qed

text \<open>
  C40.  Resuming and leaving a fiber: on a consistent thread that executes its main fiber,
  \<open>swapIn\<close> of a fiber that is not running makes it the current and the executed one; whichever way
  it leaves, by yielding or by the end of its function, the thread is back at its main fiber
  with the thread-local pointers it had, and only the state of that fiber has changed.
\<close>

theorem resume_and_leave:
  assumes "thread_ok h t" "exec_context t = t_thread_fiber t"
    and f: "fibers h f = Some x" "getState h f \<noteq> RUNNING"
  shows "\<exists>h1 t1. swapIn f h t = Some (h1, t1) \<and> thread_ok h1 t1 \<and> exec_context t1 = Some f
    \<and> getState h1 f = RUNNING
    \<and> YieldToReady a h1 t1 = Some (setState f READY h1, t)
    \<and> YieldToHold a h1 t1 = Some (h1, t)
    \<and> (\<exists>h2. MainFunc_end ok h1 t1 = Some (h2, t)
          \<and> getState h2 f = (if ok \<and> m_cb x \<noteq> None then END else EXCEPT)
          \<and> (g \<noteq> f \<longrightarrow> fibers h2 g = fibers h g))"
proof -
  from assms(1,2) obtain m where m: "exec_context t = Some m" "t_fiber t = Some m" "t_thread_fiber t = Some m"
    "fibers h m \<noteq> None" "getState h m = RUNNING"
    by (elim thread_okE) simp
  then have t: "t\<lparr>t_fiber := Some m, exec_context := Some m\<rparr> = t" by simp
  let ?h1 = "setState f RUNNING h" and ?t1 = "t\<lparr>t_fiber := Some f, exec_context := Some f\<rparr>"
  have s: "swapIn f h t = Some (?h1, ?t1)"
    using f m by (simp add: swapIn_def swapcontext_def SetThis_def)
  have "thread_ok ?h1 ?t1" using f m by (simp add: thread_ok_def)
  moreover have "YieldToReady a ?h1 ?t1 = Some (setState f READY ?h1, t)"
    using f m t by (simp add: YieldToReady_def GetThis_current [of _ f] swapOut_main [of _ m])
  moreover have "YieldToHold a ?h1 ?t1 = Some (?h1, t)"
    using f m t by (simp add: YieldToHold_def GetThis_current [of _ f] swapOut_main [of _ m])
  moreover have "\<exists>h2. MainFunc_end ok ?h1 ?t1 = Some (h2, t)
      \<and> getState h2 f = (if ok \<and> m_cb x \<noteq> None then END else EXCEPT)
      \<and> (g \<noteq> f \<longrightarrow> fibers h2 g = fibers h g)"
  proof -
    let ?x = "if ok \<and> m_cb x \<noteq> None then x\<lparr>m_cb := None, m_state := END\<rparr> else x\<lparr>m_state := EXCEPT\<rparr>"
    have fx: "fibers ?h1 f = Some (x\<lparr>m_state := RUNNING\<rparr>)" using f by (simp add: setState_def)
    have "MainFunc_end ok ?h1 ?t1 = Some (?h1\<lparr>fibers := (fibers ?h1)(f \<mapsto> ?x)\<rparr>, t)"
      by (auto simp: MainFunc_end_def fx swapOut_main [of _ m] m(3) t)
    moreover have "g \<noteq> f \<Longrightarrow> fibers ?h1 g = fibers h g" by (simp add: setState_def)
    ultimately show ?thesis by (simp add: getState_def)
  qed
  ultimately show ?thesis using s f by auto
qed

text \<open>A callback on a thread whose main fiber is at address 0.\<close>

theorem resume_and_leave_witness:
  "\<exists>h1 t1 h2. swapIn 1 (new_Fiber 1 (Some ''cb'') 0 (fst (new_main_fiber 0
      \<lparr>fibers = Map.empty, s_fiber_id = 0, s_fiber_count = 0\<rparr> \<lparr>t_fiber = None, t_thread_fiber = None, exec_context = None\<rparr>)))
      \<lparr>t_fiber = Some 0, t_thread_fiber = Some 0, exec_context = Some 0\<rparr> = Some (h1, t1)
    \<and> MainFunc_end True h1 t1 = Some (h2, \<lparr>t_fiber = Some 0, t_thread_fiber = Some 0, exec_context = Some 0\<rparr>)
    \<and> getState h2 1 = END"
proof -
  let ?h = "new_Fiber 1 (Some ''cb'') 0 (fst (new_main_fiber 0
      \<lparr>fibers = Map.empty, s_fiber_id = 0, s_fiber_count = 0\<rparr> \<lparr>t_fiber = None, t_thread_fiber = None, exec_context = None\<rparr>)) "
  let ?t = "\<lparr>t_fiber = Some 0, t_thread_fiber = Some 0, exec_context = Some 0\<rparr>"
  let ?x = "\<lparr>m_id = Some 1, m_state = INIT, m_stack = True, m_stacksize = STACKSIZE, m_cb = Some ''cb''\<rparr>"
  have "thread_ok ?h ?t" "fibers ?h 1 = Some ?x" "getState ?h 1 \<noteq> RUNNING" "exec_context ?t = t_thread_fiber ?t"
    by (simp_all add: thread_ok_def new_Fiber_def new_main_fiber_def getState_def)
  from resume_and_leave [OF this(1,4,2,3), of 0 True 0] show ?thesis by auto
qed

text \<open>
  \<open>swapIn\<close> of a fiber that already runs elsewhere returns at once, but leaves it behind as the
  current fiber of this thread: what the thread then asks about itself is about the other fiber.
\<close>

lemma swapIn_running_desync:
  assumes "thread_ok h t" "exec_context t = Some g" "f \<noteq> g" "getState h f = RUNNING"
  shows "\<exists>t'. swapIn f h t = Some (h, t') \<and> exec_context t' = Some g \<and> t_fiber t' = Some f \<and> \<not> thread_ok h t'"
  using assms by (auto simp: swapIn_def SetThis_def thread_ok_def)

end
