(* ===== verification/Scheduler.thy ===== *)
theory Scheduler
  imports Fiber
begin

text \<open>
  \<^verbatim>\<open>src/scheduler.cc\<close> and \<^verbatim>\<open>include/scheduler.h\<close>: the queue of fibers and callbacks that worker
  threads take from, and the loop \<open>run\<close> of a worker.  The workers are interleaved: a step of a
  worker is a section under \<open>m_mutex\<close>, the start of a task, an action of the code that runs in a
  fiber, or what the loop does when that fiber has switched back.  What a task does is not known;
  it may schedule, yield, return or throw at any time.  Fields with the prefix \<open>g_\<close> only record
  what has happened.
\<close>

section \<open>State\<close>

record 'c FiberAndThread =
  ft_fiber :: "addr option"
  ft_cb :: "'c option"
  ft_thread :: int

text \<open>
  Where a worker is in \<open>run\<close>: at the head of the loop, with a task taken (or none), inside the
  fiber of a task, of a callback or of \<open>idle\<close>, behind the \<open>swapIn\<close> of one, or at the end.
\<close>

datatype 'c pc = Head | Taken "'c FiberAndThread" | Nothing
  | InTask addr | InCb addr | InIdle | AfterTask addr | AfterCb addr | AfterIdle | Finished

record 'c worker =
  w_id :: int
  w_local :: thread_local
  w_pc :: "'c pc"
  w_cb_fiber :: "addr option"
  w_idle_fiber :: addr

record 'c Scheduler =
  heap :: "'c fiber_heap"
  workers :: "'c worker list"
  m_fibers :: "'c FiberAndThread list"
  m_threadCount :: nat
  m_activeThreadCount :: int
  m_idleThreadCount :: int
  m_stopping :: bool
  m_autoStop :: bool
  g_tickles :: nat
  g_scheduled :: "'c FiberAndThread list"
  g_taken :: "(int \<times> 'c FiberAndThread) list"

section \<open>Scheduling\<close>

definition tickle :: "'c Scheduler \<Rightarrow> 'c Scheduler" where
  "tickle s = s\<lparr>g_tickles := Suc (g_tickles s)\<rparr>"

definition scheduleNoLock :: "'c FiberAndThread \<Rightarrow> 'c Scheduler \<Rightarrow> bool \<times> 'c Scheduler" where
  "scheduleNoLock ft s =
    (m_fibers s = [],
     if ft_fiber ft \<noteq> None \<or> ft_cb ft \<noteq> None
     then s\<lparr>m_fibers := m_fibers s @ [ft], g_scheduled := g_scheduled s @ [ft]\<rparr> else s)"

definition schedule :: "'c FiberAndThread \<Rightarrow> 'c Scheduler \<Rightarrow> 'c Scheduler" where
  "schedule ft s = (case scheduleNoLock ft s of (need_tickle, s') \<Rightarrow> if need_tickle then tickle s' else s')"

fun schedule_range_loop :: "'c FiberAndThread list \<Rightarrow> bool \<Rightarrow> 'c Scheduler \<Rightarrow> bool \<times> 'c Scheduler" where
  "schedule_range_loop [] need s = (need, s)"
| "schedule_range_loop (ft # fts) need s =
    (case scheduleNoLock ft s of (n, s') \<Rightarrow> schedule_range_loop fts (n \<or> need) s')"

definition schedule_range :: "'c FiberAndThread list \<Rightarrow> 'c Scheduler \<Rightarrow> 'c Scheduler" where
  "schedule_range fts s = (case schedule_range_loop (map (ft_thread_update (\<lambda>_. -1)) fts) False s of
     (need, s') \<Rightarrow> if need then tickle s' else s')"

section \<open>The loop of a worker\<close>

text \<open>
  The search of thread \<open>tid\<close> through the queue: the task, the tasks that stay and \<open>tickle_me\<close>;
  \<open>None\<close> is the failed assertion that an entry holds a fiber or a callback.
\<close>

fun pick :: "(addr \<Rightarrow> State) \<Rightarrow> int \<Rightarrow> 'c FiberAndThread list
    \<Rightarrow> ('c FiberAndThread option \<times> 'c FiberAndThread list \<times> bool) option" where
  "pick st tid [] = Some (None, [], False)"
| "pick st tid (it # fs) =
    (if ft_thread it \<noteq> -1 \<and> ft_thread it \<noteq> tid then
       map_option (\<lambda>(ft, rest, tk). (ft, it # rest, True)) (pick st tid fs)
     else if ft_fiber it = None \<and> ft_cb it = None then None
     else if (case ft_fiber it of Some f \<Rightarrow> st f = RUNNING | None \<Rightarrow> False) then
       map_option (\<lambda>(ft, rest, tk). (ft, it # rest, tk)) (pick st tid fs)
     else Some (Some it, fs, fs \<noteq> []))"

abbreviation set_worker :: "nat \<Rightarrow> 'c worker \<Rightarrow> 'c Scheduler \<Rightarrow> 'c Scheduler" where
  "set_worker i w s \<equiv> s\<lparr>workers := (workers s)[i := w]\<rparr>"

text \<open>The section under the lock, and the tickle behind it.\<close>

definition take_task :: "nat \<Rightarrow> 'c Scheduler \<Rightarrow> 'c Scheduler option" where
  "take_task i s = (let w = workers s ! i in
     case pick (getState (heap s)) (w_id w) (m_fibers s) of
       None \<Rightarrow> None
     | Some (ft, rest, tickle_me) \<Rightarrow>
        let s1 = s\<lparr>m_fibers := rest\<rparr>;
            s2 = (case ft of
                None \<Rightarrow> set_worker i (w\<lparr>w_pc := Nothing\<rparr>) s1
              | Some t \<Rightarrow> set_worker i (w\<lparr>w_pc := Taken t\<rparr>) (s1\<lparr>m_activeThreadCount := m_activeThreadCount s1 + 1,
                    g_taken := g_taken s1 @ [(w_id w, t)]\<rparr>))
        in Some (if tickle_me then tickle s2 else s2))"

text \<open>\<open>swapIn\<close> by worker \<open>i\<close>: inside the fiber, or already behind it if it was found running.\<close>

definition enter :: "addr \<Rightarrow> 'c pc \<Rightarrow> 'c pc \<Rightarrow> nat \<Rightarrow> 'c Scheduler \<Rightarrow> 'c Scheduler option" where
  "enter f inside behind i s = (let w = workers s ! i in
     case swapIn f (heap s) (w_local w) of
       None \<Rightarrow> None
     | Some (h, t) \<Rightarrow> Some (set_worker i
         (w\<lparr>w_local := t, w_pc := (if getState (heap s) f = RUNNING then behind else inside)\<rparr>) (s\<lparr>heap := h\<rparr>)))"

text \<open>The branch on the task; \<open>a\<close> is the address of the fiber, should one be made.\<close>

definition start_task :: "addr \<Rightarrow> nat \<Rightarrow> 'c FiberAndThread \<Rightarrow> 'c Scheduler \<Rightarrow> 'c Scheduler option" where
  "start_task a i ft s =
    (let w = workers s ! i;
         live = (case ft_fiber ft of Some f \<Rightarrow> getState (heap s) f \<noteq> END \<and> getState (heap s) f \<noteq> EXCEPT | None \<Rightarrow> False)
     in if live then enter (the (ft_fiber ft)) (InTask (the (ft_fiber ft))) (AfterTask (the (ft_fiber ft))) i s
        else (case ft_cb ft of
          Some c \<Rightarrow>
           (case w_cb_fiber w of
              Some f \<Rightarrow> enter f (InCb f) (AfterCb f) i (s\<lparr>heap := reset_cb f (Some c) (heap s)\<rparr>)
            | None \<Rightarrow> enter a (InCb a) (AfterCb a) i
                (set_worker i (w\<lparr>w_cb_fiber := Some a\<rparr>) (s\<lparr>heap := new_Fiber a (Some c) 0 (heap s)\<rparr>)))
        | None \<Rightarrow> Some (set_worker i (w\<lparr>w_pc := Head\<rparr>) (s\<lparr>m_activeThreadCount := m_activeThreadCount s - 1\<rparr>))))"

definition start_idle :: "nat \<Rightarrow> 'c Scheduler \<Rightarrow> 'c Scheduler option" where
  "start_idle i s = (let w = workers s ! i in
     if getState (heap s) (w_idle_fiber w) = END then Some (set_worker i (w\<lparr>w_pc := Finished\<rparr>) s)
     else enter (w_idle_fiber w) InIdle AfterIdle i (s\<lparr>m_idleThreadCount := m_idleThreadCount s + 1\<rparr>))"

definition ft_of_fiber :: "addr \<Rightarrow> int \<Rightarrow> 'c FiberAndThread" where
  "ft_of_fiber f thread = \<lparr>ft_fiber = Some f, ft_cb = None, ft_thread = thread\<rparr>"

definition after_task :: "nat \<Rightarrow> addr \<Rightarrow> 'c Scheduler \<Rightarrow> 'c Scheduler" where
  "after_task i f s =
    (let s1 = set_worker i ((workers s ! i)\<lparr>w_pc := Head\<rparr>) (s\<lparr>m_activeThreadCount := m_activeThreadCount s - 1\<rparr>) in
     if getState (heap s) f = READY then schedule (ft_of_fiber f (-1)) s1
     else if getState (heap s) f \<noteq> END \<and> getState (heap s) f \<noteq> EXCEPT
     then s1\<lparr>heap := setState f HOLD (heap s1)\<rparr> else s1)"

definition after_cb :: "nat \<Rightarrow> addr \<Rightarrow> 'c Scheduler \<Rightarrow> 'c Scheduler" where
  "after_cb i f s =
    (let w = (workers s ! i)\<lparr>w_pc := Head\<rparr>; s1 = s\<lparr>m_activeThreadCount := m_activeThreadCount s - 1\<rparr> in
     if getState (heap s) f = READY then schedule (ft_of_fiber f (-1)) (set_worker i (w\<lparr>w_cb_fiber := None\<rparr>) s1)
     else if getState (heap s) f = EXCEPT \<or> getState (heap s) f = END
     then set_worker i w (s1\<lparr>heap := reset_cb f None (heap s1)\<rparr>)
     else set_worker i (w\<lparr>w_cb_fiber := None\<rparr>) (s1\<lparr>heap := setState f HOLD (heap s1)\<rparr>))"

definition after_idle :: "nat \<Rightarrow> 'c Scheduler \<Rightarrow> 'c Scheduler" where
  "after_idle i s =
    (let w = workers s ! i; f = w_idle_fiber w;
         s1 = set_worker i (w\<lparr>w_pc := Head\<rparr>) (s\<lparr>m_idleThreadCount := m_idleThreadCount s - 1\<rparr>) in
     if getState (heap s) f \<noteq> END \<and> getState (heap s) f \<noteq> EXCEPT
     then s1\<lparr>heap := setState f HOLD (heap s1)\<rparr> else s1)"

section \<open>Start and stop\<close>

definition stopping :: "'c Scheduler \<Rightarrow> bool" where
  "stopping s \<longleftrightarrow> m_stopping s \<and> m_autoStop s \<and> m_fibers s = [] \<and> m_threadCount s = 0"

text \<open>A worker at the start of \<open>run\<close>: its main fiber is at \<open>a\<close>, the idle fiber at \<open>b\<close>.\<close>

definition new_worker :: "int \<Rightarrow> addr \<Rightarrow> addr \<Rightarrow> 'c \<Rightarrow> 'c fiber_heap \<Rightarrow> 'c worker \<times> 'c fiber_heap" where
  "new_worker tid a b idle h =
    (case GetThis a h \<lparr>t_fiber = None, t_thread_fiber = None, exec_context = None\<rparr> of (f, h1, t) \<Rightarrow>
      (\<lparr>w_id = tid, w_local = t, w_pc = Head, w_cb_fiber = None, w_idle_fiber = b\<rparr>,
       new_Fiber b (Some idle) 0 h1))"

fun new_workers :: "(int \<times> addr \<times> addr) list \<Rightarrow> 'c \<Rightarrow> 'c fiber_heap \<Rightarrow> 'c worker list \<times> 'c fiber_heap" where
  "new_workers [] idle h = ([], h)"
| "new_workers ((tid, a, b) # ts) idle h = (case new_worker tid a b idle h of (w, h1) \<Rightarrow>
     case new_workers ts idle h1 of (ws, h2) \<Rightarrow> (w # ws, h2))"

text \<open>
  A scheduler that does not use its caller, and its start with as many threads as were asked for:
  their ids and the addresses their fibers get.
\<close>

definition new_Scheduler :: "nat \<Rightarrow> 'c fiber_heap \<Rightarrow> 'c Scheduler" where
  "new_Scheduler threads h = \<lparr>heap = h, workers = [], m_fibers = [], m_threadCount = threads,
     m_activeThreadCount = 0, m_idleThreadCount = 0, m_stopping = True, m_autoStop = False, g_tickles = 0,
     g_scheduled = [], g_taken = []\<rparr>"

definition start_threads :: "(int \<times> addr \<times> addr) list \<Rightarrow> 'c \<Rightarrow> 'c Scheduler \<Rightarrow> 'c Scheduler" where
  "start_threads ts idle s =
    (if \<not> m_stopping s then s
     else case new_workers (take (m_threadCount s) ts) idle (heap s) of
       (ws, h) \<Rightarrow> s\<lparr>m_stopping := False, workers := ws, heap := h\<rparr>)"

text \<open>What \<open>stop\<close> does before it waits for the threads.\<close>

definition stop :: "'c Scheduler \<Rightarrow> 'c Scheduler" where
  "stop s = (tickle ^^ m_threadCount s) (s\<lparr>m_autoStop := True, m_stopping := True\<rparr>)"

section \<open>Steps\<close>

text \<open>Worker \<open>i\<close>, whose fiber is executing, goes on with thread-local state and heap as given.\<close>

definition leave :: "nat \<Rightarrow> 'c pc \<Rightarrow> 'c fiber_heap \<times> thread_local \<Rightarrow> 'c Scheduler \<Rightarrow> 'c Scheduler" where
  "leave i p ht s = (case ht of (h, t) \<Rightarrow>
     set_worker i ((workers s ! i)\<lparr>w_local := t, w_pc := p\<rparr>) (s\<lparr>heap := h\<rparr>))"

fun behind :: "'c pc \<Rightarrow> 'c pc option" where
  "behind (InTask f) = Some (AfterTask f)"
| "behind (InCb f) = Some (AfterCb f)"
| "behind InIdle = Some AfterIdle"
| "behind _ = None"

text \<open>A yield of a fiber that is not marked running returns without a switch.\<close>

definition yield_pc :: "addr \<Rightarrow> 'c Scheduler \<Rightarrow> nat \<Rightarrow> 'c pc \<Rightarrow> 'c pc" where
  "yield_pc a s i p = (case GetThis a (heap s) (w_local (workers s ! i)) of (cur, h, _) \<Rightarrow>
     if getState h cur = RUNNING then p else w_pc (workers s ! i))"

inductive sched_step :: "'c Scheduler \<Rightarrow> 'c Scheduler \<Rightarrow> bool" where
  st_take: "\<lbrakk>i < length (workers s); w_pc (workers s ! i) = Head; take_task i s = Some s'\<rbrakk> \<Longrightarrow> sched_step s s'"
| st_start: "\<lbrakk>i < length (workers s); w_pc (workers s ! i) = Taken ft; fibers (heap s) a = None;
    start_task a i ft s = Some s'\<rbrakk> \<Longrightarrow> sched_step s s'"
| st_idle: "\<lbrakk>i < length (workers s); w_pc (workers s ! i) = Nothing; start_idle i s = Some s'\<rbrakk> \<Longrightarrow> sched_step s s'"
| st_ready: "\<lbrakk>i < length (workers s); behind (w_pc (workers s ! i)) = Some p;
    YieldToReady a (heap s) (w_local (workers s ! i)) = Some ht\<rbrakk> \<Longrightarrow> sched_step s (leave i (yield_pc a s i p) ht s)"
| st_hold: "\<lbrakk>i < length (workers s); behind (w_pc (workers s ! i)) = Some p;
    YieldToHold a (heap s) (w_local (workers s ! i)) = Some ht\<rbrakk> \<Longrightarrow> sched_step s (leave i (yield_pc a s i p) ht s)"
| st_end: "\<lbrakk>i < length (workers s); behind (w_pc (workers s ! i)) = Some p; w_pc (workers s ! i) = InIdle \<longrightarrow> stopping s;
    MainFunc_end ok (heap s) (w_local (workers s ! i)) = Some ht\<rbrakk> \<Longrightarrow> sched_step s (leave i p ht s)"
| st_after_task: "\<lbrakk>i < length (workers s); w_pc (workers s ! i) = AfterTask f\<rbrakk> \<Longrightarrow> sched_step s (after_task i f s)"
| st_after_cb: "\<lbrakk>i < length (workers s); w_pc (workers s ! i) = AfterCb f\<rbrakk> \<Longrightarrow> sched_step s (after_cb i f s)"
| st_after_idle: "\<lbrakk>i < length (workers s); w_pc (workers s ! i) = AfterIdle\<rbrakk> \<Longrightarrow> sched_step s (after_idle i s)"
| st_schedule: "sched_step s (schedule ft s)"
| st_schedule_range: "sched_step s (schedule_range fts s)"
| st_stop: "sched_step s (stop s)"

inductive reachable :: "'c Scheduler \<Rightarrow> 'c Scheduler \<Rightarrow> bool" for s0 where
  r_start: "reachable s0 s0"
| r_step: "reachable s0 s \<Longrightarrow> sched_step s s' \<Longrightarrow> reachable s0 s'"

end
