(* ===== verification/Mutex.thy ===== *)
theory Mutex
  imports Scheduler
begin

text \<open>
  \<^verbatim>\<open>src/mutex.cc\<close> and \<^verbatim>\<open>include/mutex.h\<close>: the scoped locks over a mutex and over a
  reader-writer lock, and \<open>FiberSemaphore\<close>, which suspends the fiber that waits and hands it back
  to its scheduler when it is notified.  What \<open>pthread\<close> leaves undefined (unlocking a lock that is
  not held) is the value \<open>None\<close>.
\<close>

section \<open>Scoped locks\<close>

text \<open>
  A lock as the thread that uses it sees it: whether it is held.  Locking again what is held would
  block for ever; that, too, is \<open>None\<close>.
\<close>

type_synonym held = bool

definition lk_lock :: "held \<Rightarrow> held option" where
  "lk_lock h = (if h then None else Some True)"

definition lk_unlock :: "held \<Rightarrow> held option" where
  "lk_unlock h = (if h then Some False else None)"

text \<open>The flag \<open>m_lock\<close> of the scope, and the lock.\<close>

type_synonym scope = "bool \<times> held"

definition scoped_init :: "held \<Rightarrow> scope option" where
  "scoped_init h = map_option (\<lambda>h'. (True, h')) (lk_lock h)"

definition scoped_lock :: "scope \<Rightarrow> scope option" where
  "scoped_lock s = (case s of (m_lock, h) \<Rightarrow>
     if \<not> m_lock then map_option (\<lambda>h'. (True, h')) (lk_lock h) else Some s)"

definition scoped_unlock :: "scope \<Rightarrow> scope option" where
  "scoped_unlock s = (case s of (m_lock, h) \<Rightarrow>
     if m_lock then map_option (\<lambda>h'. (False, h')) (lk_unlock h) else Some s)"

text \<open>\<open>~ScopedLockImpl\<close> unlocks whatever the flag says; the scopes of a read or a write lock do not.\<close>

definition scoped_exit :: "scope \<Rightarrow> held option" where
  "scoped_exit s = lk_unlock (snd s)"

definition rw_scoped_exit :: "scope \<Rightarrow> held option" where
  "rw_scoped_exit s = map_option snd (scoped_unlock s)"

text \<open>The calls a function makes on its scope between entry and exit.\<close>

datatype scope_call = CallLock | CallUnlock

fun scope_calls :: "scope_call list \<Rightarrow> scope \<Rightarrow> scope option" where
  "scope_calls [] s = Some s"
| "scope_calls (CallLock # cs) s = Option.bind (scoped_lock s) (scope_calls cs)"
| "scope_calls (CallUnlock # cs) s = Option.bind (scoped_unlock s) (scope_calls cs)"

definition with_lock :: "(scope \<Rightarrow> held option) \<Rightarrow> scope_call list \<Rightarrow> held \<Rightarrow> held option" where
  "with_lock leave_scope cs h = Option.bind (scoped_init h) (\<lambda>s. Option.bind (scope_calls cs s) leave_scope)"

lemma scope_calls_ok: "\<exists>b. scope_calls cs (m, m) = Some (b, b)"
proof (induction cs arbitrary: m)
  case Nil
  then show ?case by simp
next
  case (Cons c cs)
  then show ?case by (cases c; cases m) (auto simp: scoped_lock_def scoped_unlock_def lk_lock_def lk_unlock_def)
qed

text \<open>
  A read or write scope gives the lock back exactly once, whatever is called on it.
\<close>

lemma rw_scope_balanced: "with_lock rw_scoped_exit cs False = Some False"
proof -
  obtain b where "scope_calls cs (True, True) = Some (b, b)" using scope_calls_ok by blast
  then show ?thesis
    by (cases b) (auto simp: with_lock_def scoped_init_def lk_lock_def rw_scoped_exit_def scoped_unlock_def lk_unlock_def)
qed

text \<open>
  A scope over a mutex that was unlocked early unlocks it a second time when it ends.
\<close>

lemma scoped_double_unlock: "with_lock scoped_exit [CallUnlock] False = None"
  by (simp add: with_lock_def scoped_init_def lk_lock_def scoped_unlock_def lk_unlock_def scoped_exit_def)

section \<open>FiberSemaphore\<close>

text \<open>A waiter is a fiber with the scheduler it ran on.\<close>

type_synonym sched_id = nat
type_synonym waiter = "sched_id \<times> addr"

record FiberSemaphore =
  m_waiters :: "waiter list"
  m_concurrency :: u64

definition new_FiberSemaphore :: "u64 \<Rightarrow> FiberSemaphore" where
  "new_FiberSemaphore initial_concurrency = \<lparr>m_waiters = [], m_concurrency = initial_concurrency\<rparr>"

text \<open>The assertion of the destructor.\<close>

definition delete_FiberSemaphore :: "FiberSemaphore \<Rightarrow> bool" where
  "delete_FiberSemaphore m \<longleftrightarrow> m_waiters m = []"

definition fs_tryWait :: "FiberSemaphore \<Rightarrow> bool \<times> FiberSemaphore" where
  "fs_tryWait m = (if m_concurrency m > 0 then (True, m\<lparr>m_concurrency := m_concurrency m - 1\<rparr>) else (False, m))"

text \<open>
  The section of \<open>wait\<close> under the lock; with \<open>False\<close> the caller goes on to \<open>YieldToHold\<close>, which
  is a step of its scheduler.
\<close>

definition fs_wait :: "waiter \<Rightarrow> FiberSemaphore \<Rightarrow> bool \<times> FiberSemaphore" where
  "fs_wait w m = (if m_concurrency m > 0 then (True, m\<lparr>m_concurrency := m_concurrency m - 1\<rparr>)
     else (False, m\<lparr>m_waiters := m_waiters m @ [w]\<rparr>))"

definition fs_notify :: "FiberSemaphore \<Rightarrow> waiter option \<times> FiberSemaphore" where
  "fs_notify m = (case m_waiters m of
       next # rest \<Rightarrow> (Some next, m\<lparr>m_waiters := rest\<rparr>)
     | [] \<Rightarrow> (None, m\<lparr>m_concurrency := m_concurrency m + 1\<rparr>))"

definition fs_getConcurrency :: "FiberSemaphore \<Rightarrow> u64" where
  "fs_getConcurrency m = m_concurrency m"

definition fs_reset :: "FiberSemaphore \<Rightarrow> FiberSemaphore" where
  "fs_reset m = m\<lparr>m_concurrency := 0\<rparr>"

section \<open>A semaphore among schedulers\<close>

text \<open>
  The semaphore with the schedulers of the fibers that use it, each call with its effect on both;
  \<open>g_passed\<close> and \<open>g_woken\<close> record who went through without waiting and who was scheduled again.
\<close>

record 'c sem_system =
  sem :: FiberSemaphore
  scheds :: "sched_id \<Rightarrow> 'c Scheduler"
  g_passed :: "waiter list"
  g_woken :: "waiter list"

datatype sem_call = TryWait waiter | Wait waiter | Notify

fun sem_do :: "sem_call \<Rightarrow> 'c sem_system \<Rightarrow> 'c sem_system" where
  "sem_do (TryWait w) s = (case fs_tryWait (sem s) of (ok, m) \<Rightarrow>
     s\<lparr>sem := m, g_passed := (if ok then g_passed s @ [w] else g_passed s)\<rparr>)"
| "sem_do (Wait w) s = (case fs_wait w (sem s) of (ok, m) \<Rightarrow>
     s\<lparr>sem := m, g_passed := (if ok then g_passed s @ [w] else g_passed s)\<rparr>)"
| "sem_do Notify s = (case fs_notify (sem s) of
       (None, m) \<Rightarrow> s\<lparr>sem := m\<rparr>
     | (Some (k, f), m) \<Rightarrow> s\<lparr>sem := m, g_woken := g_woken s @ [(k, f)],
          scheds := (scheds s)(k := schedule (ft_of_fiber f (-1)) (scheds s k))\<rparr>)"

text \<open>
  Between the calls the schedulers take any steps of their own, among them the \<open>YieldToHold\<close> of a
  fiber that waits; the list holds the calls in the order they took the lock.
\<close>

inductive sem_reach :: "'c sem_system \<Rightarrow> sem_call list \<Rightarrow> 'c sem_system \<Rightarrow> bool" for s0 where
  sr_start: "sem_reach s0 [] s0"
| sr_call: "sem_reach s0 cs s \<Longrightarrow> sem_reach s0 (cs @ [c]) (sem_do c s)"
| sr_sched: "sem_reach s0 cs s \<Longrightarrow> sched_step (scheds s k) t \<Longrightarrow> sem_reach s0 cs (s\<lparr>scheds := (scheds s)(k := t)\<rparr>)"

end
