(* ===== verification/Ordered_Map.thy ===== *)
theory Ordered_Map
  imports Prelude "HOL-Library.List_Lexorder"
begin

text \<open>
  \<open>std::map\<close> with a comparator: the entries in the order of iteration, sorted strictly by the
  rank \<open>f\<close> of their keys.  Two keys of one rank are one key for the map, which keeps the
  spelling it was first given.  The interface \<open>map_ops\<close> states the laws the components rely on
  and is interpreted for every rank.
\<close>

section \<open>Operations\<close>

fun om_find :: "('k \<Rightarrow> 'o::linorder) \<Rightarrow> ('k \<times> 'v) list \<Rightarrow> 'k \<Rightarrow> 'v option" where
  "om_find f [] k = None"
| "om_find f ((a, v) # m) k = (if f a = f k then Some v else om_find f m k)"

text \<open>\<open>m[k] = v\<close>\<close>

fun om_assign :: "('k \<Rightarrow> 'o::linorder) \<Rightarrow> ('k \<times> 'v) list \<Rightarrow> 'k \<Rightarrow> 'v \<Rightarrow> ('k \<times> 'v) list" where
  "om_assign f [] k v = [(k, v)]"
| "om_assign f ((a, w) # m) k v =
    (if f k < f a then (k, v) # (a, w) # m
     else if f k = f a then (a, v) # m
     else (a, w) # om_assign f m k v)"

text \<open>\<open>m.insert(make_pair(k, v))\<close> leaves an existing entry alone.\<close>

definition om_insert :: "('k \<Rightarrow> 'o::linorder) \<Rightarrow> ('k \<times> 'v) list \<Rightarrow> 'k \<Rightarrow> 'v \<Rightarrow> ('k \<times> 'v) list" where
  "om_insert f m k v = (case om_find f m k of None \<Rightarrow> om_assign f m k v | Some _ \<Rightarrow> m)"

definition om_erase :: "('k \<Rightarrow> 'o::linorder) \<Rightarrow> ('k \<times> 'v) list \<Rightarrow> 'k \<Rightarrow> ('k \<times> 'v) list" where
  "om_erase f m k = filter (\<lambda>(a, v). f a \<noteq> f k) m"

definition om_sorted :: "('k \<Rightarrow> 'o::linorder) \<Rightarrow> ('k \<times> 'v) list \<Rightarrow> bool" where
  "om_sorted f m \<longleftrightarrow> sorted_wrt (<) (map (\<lambda>(a, v). f a) m)"

definition om_abs :: "('k \<Rightarrow> 'o::linorder) \<Rightarrow> ('k \<times> 'v) list \<Rightarrow> 'o \<Rightarrow> 'v option" where
  "om_abs f m = map_of (map (\<lambda>(a, v). (f a, v)) m)"

section \<open>Laws\<close>

locale map_ops =
  fixes find :: "'m \<Rightarrow> 'k \<Rightarrow> 'v option"
    and assign :: "'m \<Rightarrow> 'k \<Rightarrow> 'v \<Rightarrow> 'm"
    and erase :: "'m \<Rightarrow> 'k \<Rightarrow> 'm"
    and rank :: "'k \<Rightarrow> 'o"
    and abs_map :: "'m \<Rightarrow> 'o \<Rightarrow> 'v option"
    and inv :: "'m \<Rightarrow> bool"
  assumes find_law: "inv m \<Longrightarrow> find m k = abs_map m (rank k)"
    and assign_law: "inv m \<Longrightarrow> inv (assign m k v) \<and> abs_map (assign m k v) = (abs_map m)(rank k \<mapsto> v)"
    and erase_law: "inv m \<Longrightarrow> inv (erase m k) \<and> abs_map (erase m k) = (abs_map m)(rank k := None)"
begin

lemma find_assign:
  "inv m \<Longrightarrow> find (assign m k v) k' = (if rank k' = rank k then Some v else find m k')"
  by (simp add: find_law assign_law)

lemma find_erase:
  "inv m \<Longrightarrow> find (erase m k) k' = (if rank k' = rank k then None else find m k')"
  by (simp add: find_law erase_law)

lemma assign_assign_same:
  "inv m \<Longrightarrow> rank k = rank k' \<Longrightarrow> abs_map (assign (assign m k v) k' w) = abs_map (assign m k w)"
  by (simp add: assign_law)

lemma fold_assign_inv: "inv m \<Longrightarrow> inv (fold (\<lambda>(k, v) m. assign m k v) kvs m)"
  by (induction kvs arbitrary: m) (auto simp: assign_law)

end

lemma om_find_abs: "om_find f m k = om_abs f m (f k)"
  by (induction m) (auto simp: om_abs_def)

lemma om_abs_Cons: "om_abs f ((a, v) # m) = (om_abs f m)(f a \<mapsto> v)"
  by (simp add: om_abs_def)

lemma om_sorted_Cons:
  "om_sorted f ((a, v) # m) \<longleftrightarrow> (\<forall>(b, w) \<in> set m. f a < f b) \<and> om_sorted f m"
  by (auto simp: om_sorted_def)

lemma om_assign_set: "(b, w) \<in> set (om_assign f m k v) \<Longrightarrow> f b = f k \<or> (\<exists>w. (b, w) \<in> set m)"
  by (induction m) (auto split: if_splits)

lemma om_assign_sorted: "om_sorted f m \<Longrightarrow> om_sorted f (om_assign f m k v)"
proof (induction m)
  case Nil
  then show ?case by (simp add: om_sorted_def)
next
  case (Cons av m)
  obtain a w where av: "av = (a, w)" by fastforce
  show ?case
  proof (cases "f k < f a")
    case True
    then show ?thesis using Cons.prems by (auto simp: av om_sorted_Cons)
  next
    case False
    then show ?thesis
      using Cons by (fastforce simp: av om_sorted_Cons dest!: om_assign_set)
  qed
qed

lemma om_assign_abs: "om_abs f (om_assign f m k v) = (om_abs f m)(f k \<mapsto> v)"
  by (induction m) (auto simp: om_abs_Cons fun_upd_twist om_abs_def [of f "[]"])

lemma om_erase_sorted: "om_sorted f m \<Longrightarrow> om_sorted f (om_erase f m k)"
  unfolding om_erase_def by (induction m) (auto simp: om_sorted_Cons om_sorted_def [of f "[]"])

lemma om_erase_abs: "om_abs f (om_erase f m k) = (om_abs f m)(f k := None)"
  unfolding om_erase_def by (induction m) (auto simp: om_abs_Cons om_abs_def [of f "[]"] fun_eq_iff)

interpretation om: map_ops "om_find f" "om_assign f" "om_erase f" f "om_abs f" "om_sorted f"
  for f :: "'k \<Rightarrow> 'o::linorder"
  by unfold_locales
    (simp_all add: om_find_abs om_assign_sorted om_assign_abs om_erase_sorted om_erase_abs)

lemma om_insert_law:
  "om_sorted f m \<Longrightarrow> om_sorted f (om_insert f m k v)"
  "om_abs f (om_insert f m k v) = (if om_abs f m (f k) = None then (om_abs f m)(f k \<mapsto> v) else om_abs f m)"
  by (auto simp: om_insert_def om_find_abs om_assign_sorted om_assign_abs split: option.splits)

lemma om_sorted_Nil [simp]: "om_sorted f []"
  by (simp add: om_sorted_def)

lemma om_abs_Nil [simp]: "om_abs f [] = Map.empty"
  by (simp add: om_abs_def)

end
