(* ===== verification/String_Map.thy ===== *)
theory String_Map
  imports Cpp_Strings Ordered_Map
begin

text \<open>
  \<open>std::map\<close> with keys of type \<open>std::string\<close>: an ordered map whose rank is the comparison of
  \<open>std::string\<close>, byte by byte as unsigned characters.  Different keys have different ranks, so
  the map is one from strings.
\<close>

type_synonym 'v smap = "(string \<times> 'v) list"

definition str_key :: "string \<Rightarrow> nat list" where
  "str_key s = map code s"

lemma str_key_inj [simp]: "str_key a = str_key b \<longleftrightarrow> a = b"
proof -
  have "inj code" by (rule injI) (simp add: code_def)
  then show ?thesis by (simp add: str_key_def inj_map_eq_map)
qed

abbreviation sm_find :: "'v smap \<Rightarrow> string \<Rightarrow> 'v option" where
  "sm_find m k \<equiv> om_find str_key m k"

abbreviation sm_put :: "string \<Rightarrow> 'v \<Rightarrow> 'v smap \<Rightarrow> 'v smap" where
  "sm_put k v m \<equiv> om_assign str_key m k v"

abbreviation sm_erase :: "string \<Rightarrow> 'v smap \<Rightarrow> 'v smap" where
  "sm_erase k m \<equiv> om_erase str_key m k"

text \<open>\<open>m[k]\<close> on the right of an operation makes the entry with a value of its type's default.\<close>

definition sm_at :: "'v \<Rightarrow> string \<Rightarrow> 'v smap \<Rightarrow> 'v" where
  "sm_at d k m = (case sm_find m k of None \<Rightarrow> d | Some v \<Rightarrow> v)"

lemma sm_find_put [simp]: "sm_find (sm_put k v m) j = (if j = k then Some v else sm_find m j)"
  by (simp add: om_find_abs om_assign_abs)

lemma sm_find_erase [simp]: "sm_find (sm_erase k m) j = (if j = k then None else sm_find m j)"
  by (simp add: om_find_abs om_erase_abs)

lemma sm_at_put [simp]: "sm_at d j (sm_put k v m) = (if j = k then v else sm_at d j m)"
  by (simp add: sm_at_def)

lemma sm_find_in_set: "sm_find m k = Some v \<Longrightarrow> (k, v) \<in> set m"
  by (induction m) (auto split: if_splits)

lemma sm_find_of_set: "om_sorted str_key m \<Longrightarrow> (k, v) \<in> set m \<Longrightarrow> sm_find m k = Some v"
proof (induction m)
  case (Cons a m)
  then show ?case by (cases a) (auto simp: om_sorted_Cons)
qed simp

lemma sm_put_set: "(j, w) \<in> set (sm_put k v m) \<Longrightarrow> j = k \<and> w = v \<or> (j, w) \<in> set m"
  by (induction m) (auto split: if_splits)

text \<open>\<open>GetParamValue\<close>: the parameter cast to the type of the default, or the default.\<close>

definition GetParamValue :: "(string \<Rightarrow> 'a option) \<Rightarrow> string smap \<Rightarrow> string \<Rightarrow> 'a \<Rightarrow> 'a" where
  "GetParamValue lexical_cast m k dflt = (case sm_find m k of None \<Rightarrow> dflt
     | Some v \<Rightarrow> (case lexical_cast v of Some x \<Rightarrow> x | None \<Rightarrow> dflt))"

end
