(* ===== verification/Worker.thy ===== *)
theory Worker
  imports Mutex String_Map
begin

text \<open>
  \<^verbatim>\<open>src/worker.cc\<close>: \<open>WorkerGroup\<close>, which runs callbacks on a scheduler with a semaphore to
  bound how many run at a time, and \<open>WorkerManager\<close>, the named schedulers of the configuration.
\<close>

section \<open>WorkerGroup\<close>

text \<open>
  What a fiber does once its wait on the semaphore is over: hand its callback to the scheduler, or
  go on with the loop of \<open>waitAll\<close>, with so many turns left.
\<close>

datatype 'cb wait_cont = ContSchedule 'cb int | ContWaitAll nat

text \<open>
  \<open>wg_blocked\<close> are the fibers inside \<open>wait\<close>, \<open>wg_woken\<close> those a notify has scheduled again that
  have not gone on yet; \<open>wg_works\<close> are the calls of \<open>doWork\<close> given to the scheduler that have not
  ended, \<open>wg_taken\<close> counts the permits that \<open>waitAll\<close> keeps.
\<close>

record 'cb WorkerGroup =
  m_batchSize :: u32
  m_finish :: bool
  m_sem :: FiberSemaphore
  wg_blocked :: "(waiter \<times> 'cb wait_cont) list"
  wg_woken :: "(waiter \<times> 'cb wait_cont) list"
  wg_works :: "('cb \<times> int) list"
  wg_taken :: nat

definition new_WorkerGroup :: "u32 \<Rightarrow> 'cb WorkerGroup" where
  "new_WorkerGroup batch_size = \<lparr>m_batchSize = batch_size, m_finish = False, m_sem = new_FiberSemaphore 0,
     wg_blocked = [], wg_woken = [], wg_works = [], wg_taken = 0\<rparr>"

definition wg_schedule :: "waiter \<Rightarrow> 'cb \<Rightarrow> int \<Rightarrow> 'cb WorkerGroup \<Rightarrow> 'cb WorkerGroup" where
  "wg_schedule w cb thread g = (case fs_wait w (m_sem g) of
       (True, m) \<Rightarrow> g\<lparr>m_sem := m, wg_works := wg_works g @ [(cb, thread)]\<rparr>
     | (False, m) \<Rightarrow> g\<lparr>m_sem := m, wg_blocked := wg_blocked g @ [(w, ContSchedule cb thread)]\<rparr>)"

fun waitAll_loop :: "nat \<Rightarrow> waiter \<Rightarrow> 'cb WorkerGroup \<Rightarrow> 'cb WorkerGroup" where
  "waitAll_loop 0 w g = g"
| "waitAll_loop (Suc n) w g = (case fs_wait w (m_sem g) of
       (True, m) \<Rightarrow> waitAll_loop n w (g\<lparr>m_sem := m, wg_taken := Suc (wg_taken g)\<rparr>)
     | (False, m) \<Rightarrow> g\<lparr>m_sem := m, wg_blocked := wg_blocked g @ [(w, ContWaitAll n)]\<rparr>)"

definition waitAll :: "waiter \<Rightarrow> 'cb WorkerGroup \<Rightarrow> 'cb WorkerGroup" where
  "waitAll w g = (if \<not> m_finish g then waitAll_loop (unat (m_batchSize g)) w (g\<lparr>m_finish := True\<rparr>) else g)"

text \<open>The end of \<open>doWork\<close> for the \<open>i\<close>-th work, whose callback has returned.\<close>

definition wg_notify :: "'cb WorkerGroup \<Rightarrow> 'cb WorkerGroup" where
  "wg_notify g = (case fs_notify (m_sem g) of
       (None, m) \<Rightarrow> g\<lparr>m_sem := m\<rparr>
     | (Some _, m) \<Rightarrow> g\<lparr>m_sem := m, wg_blocked := List.tl (wg_blocked g), wg_woken := wg_woken g @ [List.hd (wg_blocked g)]\<rparr>)"

definition doWork_end :: "nat \<Rightarrow> 'cb WorkerGroup \<Rightarrow> 'cb WorkerGroup" where
  "doWork_end i g = wg_notify (g\<lparr>wg_works := take i (wg_works g) @ drop (Suc i) (wg_works g)\<rparr>)"

definition wg_resume :: "nat \<Rightarrow> 'cb WorkerGroup \<Rightarrow> 'cb WorkerGroup" where
  "wg_resume i g = (let g' = g\<lparr>wg_woken := take i (wg_woken g) @ drop (Suc i) (wg_woken g)\<rparr> in
     case wg_woken g ! i of
       (w, ContSchedule cb thread) \<Rightarrow> g'\<lparr>wg_works := wg_works g @ [(cb, thread)]\<rparr>
     | (w, ContWaitAll n) \<Rightarrow> waitAll_loop n w (g'\<lparr>wg_taken := Suc (wg_taken g)\<rparr>))"

inductive wg_step :: "'cb WorkerGroup \<Rightarrow> 'cb WorkerGroup \<Rightarrow> bool" where
  wgs_schedule: "wg_step g (wg_schedule w cb thread g)"
| wgs_waitAll: "wg_step g (waitAll w g)"
| wgs_end: "i < length (wg_works g) \<Longrightarrow> wg_step g (doWork_end i g)"
| wgs_resume: "i < length (wg_woken g) \<Longrightarrow> wg_step g (wg_resume i g)"

text \<open>
  The group keeps count: the permits it was given are with the works, with the fibers that have
  been woken, kept by \<open>waitAll\<close>, or left; and the semaphore's waiters are the blocked fibers.
\<close>

definition wg_inv :: "nat \<Rightarrow> 'cb WorkerGroup \<Rightarrow> bool" where
  "wg_inv n g \<longleftrightarrow> m_waiters (m_sem g) = map fst (wg_blocked g)
     \<and> length (wg_works g) + length (wg_woken g) + wg_taken g + unat (m_concurrency (m_sem g)) = n"

lemma wait_unat: "c > 0 \<Longrightarrow> unat ((c :: u64) - 1) = unat c - 1 \<and> unat c > 0"
  by (simp add: unat_minus_one word_neq_0_conv unat_gt_0)

lemma waitAll_loop_inv: "wg_inv n g \<Longrightarrow> wg_inv n (waitAll_loop k w g)"
proof (induction k arbitrary: g)
  case (Suc k)
  show ?case
  proof (cases "m_concurrency (m_sem g) > 0")
    case True
    have "wg_inv n (g\<lparr>m_sem := m_sem g\<lparr>m_concurrency := m_concurrency (m_sem g) - 1\<rparr>, wg_taken := Suc (wg_taken g)\<rparr>)"
      using Suc.prems wait_unat [OF True] by (simp add: wg_inv_def)
    from Suc.IH [OF this] True show ?thesis by (simp add: fs_wait_def)
  next
    case False
    with Suc.prems show ?thesis by (simp add: fs_wait_def wg_inv_def)
  qed
qed simp

lemma wg_step_inv:
  assumes "wg_step g g'" "wg_inv n g" "n < 2 ^ 64"
  shows "wg_inv n g'"
  using assms
proof (induction rule: wg_step.induct)
  case (wgs_schedule g w cb thread)
  then show ?case using wait_unat [of "m_concurrency (m_sem g)"]
    by (auto simp: wg_schedule_def fs_wait_def wg_inv_def)
next
  case (wgs_waitAll g w)
  then have "wg_inv n (g\<lparr>m_finish := True\<rparr>)" by (simp add: wg_inv_def)
  with wgs_waitAll show ?case by (simp add: waitAll_def waitAll_loop_inv)
next
  case (wgs_end i g)
  then have "unat (m_concurrency (m_sem g)) + unat (1 :: u64) < 2 ^ 64" by (simp add: wg_inv_def)
  then have "unat (m_concurrency (m_sem g) + 1) = unat (m_concurrency (m_sem g)) + 1"
    using unat_add_lem [of "m_concurrency (m_sem g)" 1] by simp
  with wgs_end show ?case
    by (cases "wg_blocked g") (auto simp: doWork_end_def wg_notify_def fs_notify_def wg_inv_def)
next
  case (wgs_resume i g)
  then have inv: "wg_inv n (g\<lparr>wg_woken := take i (wg_woken g) @ drop (Suc i) (wg_woken g), wg_taken := Suc (wg_taken g)\<rparr>)"
    by (auto simp: wg_inv_def)
  with wgs_resume show ?case
  proof (cases "snd (wg_woken g ! i)")
    case (ContSchedule cb thread)
    with wgs_resume show ?thesis by (auto simp: wg_resume_def wg_inv_def case_prod_beta)
  next
    case (ContWaitAll k)
    with inv show ?thesis by (simp add: wg_resume_def case_prod_beta waitAll_loop_inv)
  qed
qed

inductive wg_reach :: "'cb WorkerGroup \<Rightarrow> 'cb WorkerGroup \<Rightarrow> bool" for g0 where
  wgr_start: "wg_reach g0 g0"
| wgr_step: "wg_reach g0 g \<Longrightarrow> wg_step g g' \<Longrightarrow> wg_reach g0 g'"

lemma wg_reach_inv: "wg_reach g0 g \<Longrightarrow> wg_inv n g0 \<Longrightarrow> n < 2 ^ 64 \<Longrightarrow> wg_inv n g"
  by (induction rule: wg_reach.induct) (auto intro: wg_step_inv)

text \<open>
  The group is made with a semaphore that holds no permit, not one of \<open>batch_size\<close>: nothing it is
  given ever runs, and every caller of \<open>schedule\<close> waits for ever.
\<close>

lemma group_never_runs:
  assumes "wg_reach (new_WorkerGroup batch_size) g"
  shows "wg_works g = [] \<and> wg_woken g = []"
  using wg_reach_inv [OF assms, of 0] by (simp add: wg_inv_def new_WorkerGroup_def new_FiberSemaphore_def)

section \<open>WorkerManager\<close>

text \<open>
  A scheduler with its name; the manager holds them by name.  \<open>mk thread_num name\<close> is the construction of an
  \<open>IOManager\<close>, whose threads get their ids from the system.
\<close>

record 'c named_sched =
  ns_name :: string
  ns_sched :: "'c Scheduler"

record 'c WorkerManager =
  m_datas :: "'c named_sched list smap"
  m_stop :: bool

definition new_WorkerManager :: "'c WorkerManager" where
  "new_WorkerManager = \<lparr>m_datas = [], m_stop = False\<rparr>"

definition wm_add :: "'c named_sched \<Rightarrow> 'c WorkerManager \<Rightarrow> 'c WorkerManager" where
  "wm_add s m = m\<lparr>m_datas := sm_put (ns_name s) (sm_at [] (ns_name s) (m_datas m) @ [s]) (m_datas m)\<rparr>"

text \<open>\<open>r\<close> is what \<open>rand()\<close> returns.\<close>

definition wm_get :: "nat \<Rightarrow> string \<Rightarrow> 'c WorkerManager \<Rightarrow> 'c named_sched option" where
  "wm_get r name m = (case sm_find (m_datas m) name of
       None \<Rightarrow> None
     | Some ss \<Rightarrow> if length ss = 1 then Some (ss ! 0) else Some (ss ! (r mod length ss)))"

definition wm_schedule :: "nat \<Rightarrow> string \<Rightarrow> 'c FiberAndThread \<Rightarrow> 'c WorkerManager \<Rightarrow> 'c WorkerManager" where
  "wm_schedule r name ft m = (case sm_find (m_datas m) name of
       None \<Rightarrow> m
     | Some ss \<Rightarrow> let k = (if length ss = 1 then 0 else r mod length ss) in
         m\<lparr>m_datas := sm_put name (ss[k := (ss ! k)\<lparr>ns_sched := schedule ft (ns_sched (ss ! k))\<rparr>]) (m_datas m)\<rparr>)"

fun wm_init_workers :: "(int \<Rightarrow> string \<Rightarrow> 'c Scheduler) \<Rightarrow> int \<Rightarrow> string \<Rightarrow> nat list \<Rightarrow> 'c WorkerManager \<Rightarrow> 'c WorkerManager" where
  "wm_init_workers mk thread_num name [] m = m"
| "wm_init_workers mk thread_num name (x # xs) m = wm_init_workers mk thread_num name xs
     (let nm = (if x = 0 then name else name @ ''-'' @ dec x)
      in wm_add \<lparr>ns_name = nm, ns_sched = mk thread_num nm\<rparr> m)"

text \<open>\<open>lexical_cast\<close> is that of \<open>boost\<close> from text to \<open>int32_t\<close>.\<close>

definition wm_init :: "(int \<Rightarrow> string \<Rightarrow> 'c Scheduler) \<Rightarrow> (string \<Rightarrow> int option) \<Rightarrow> (string smap) smap
    \<Rightarrow> 'c WorkerManager \<Rightarrow> bool \<times> 'c WorkerManager" where
  "wm_init mk lexical_cast v m =
    (let m' = fold (\<lambda>(name, params) m. wm_init_workers mk (GetParamValue lexical_cast params ''thread_num'' 1) name
                 [0..<nat (GetParamValue lexical_cast params ''worker_num'' 1)] m) v m
     in (True, m'\<lparr>m_stop := m_datas m' = []\<rparr>))"

text \<open>Every scheduler gets a callback \<open>nop\<close> and is stopped; the second component lists them as they are left.\<close>

definition wm_stop :: "'c \<Rightarrow> 'c WorkerManager \<Rightarrow> 'c WorkerManager \<times> 'c named_sched list" where
  "wm_stop nop m = (if m_stop m then (m, [])
     else (m\<lparr>m_datas := [], m_stop := True\<rparr>,
       map (\<lambda>n. n\<lparr>ns_sched := stop (schedule \<lparr>ft_fiber = None, ft_cb = Some nop, ft_thread = -1\<rparr> (ns_sched n))\<rparr>)
         (concat (map snd (m_datas m)))))"

definition wm_isStoped :: "'c WorkerManager \<Rightarrow> bool" where
  "wm_isStoped m = m_stop m"

definition wm_getCount :: "'c WorkerManager \<Rightarrow> u32" where
  "wm_getCount m = word_of_nat (length (m_datas m))"

section \<open>The names of the workers\<close>

definition wm_inv :: "'c WorkerManager \<Rightarrow> bool" where
  "wm_inv m \<longleftrightarrow> om_sorted str_key (m_datas m)
     \<and> (\<forall>(k, ss) \<in> set (m_datas m). ss \<noteq> [] \<and> (\<forall>s \<in> set ss. ns_name s = k))"

lemma wm_inv_new: "wm_inv new_WorkerManager"
  by (simp add: wm_inv_def new_WorkerManager_def)

lemma wm_inv_find:
  "wm_inv m \<Longrightarrow> sm_find (m_datas m) name = Some ss \<Longrightarrow> ss \<noteq> [] \<and> (\<forall>s \<in> set ss. ns_name s = name)"
  by (fastforce simp: wm_inv_def dest: sm_find_in_set)

lemma wm_inv_put:
  "\<lbrakk>wm_inv m; ss \<noteq> []; \<forall>s \<in> set ss. ns_name s = name\<rbrakk> \<Longrightarrow> wm_inv (m\<lparr>m_datas := sm_put name ss (m_datas m)\<rparr>)"
  by (auto simp: wm_inv_def om_assign_sorted dest!: sm_put_set)

lemma wm_add_inv: "wm_inv m \<Longrightarrow> wm_inv (wm_add s m)"
  using wm_inv_find [of m "ns_name s"]
  by (auto simp: wm_add_def sm_at_def intro!: wm_inv_put split: option.splits)

lemma wm_init_workers_inv: "wm_inv m \<Longrightarrow> wm_inv (wm_init_workers mk t name xs m)"
  by (induction mk t name xs m rule: wm_init_workers.induct) (simp_all add: Let_def wm_add_inv)

lemma wm_init_inv:
  assumes "wm_inv m"
  shows "wm_inv (snd (wm_init mk lexical_cast v m))"
proof -
  have "wm_inv (fold (\<lambda>(name, params) m. wm_init_workers mk (GetParamValue lexical_cast params ''thread_num'' 1) name
      [0..<nat (GetParamValue lexical_cast params ''worker_num'' 1)] m) v m)"
    using assms by (induction v arbitrary: m) (auto simp: wm_init_workers_inv)
  then show ?thesis by (simp add: wm_init_def Let_def wm_inv_def)
qed

text \<open>A worker that was asked for by name has that name, and its number is one of those there are.\<close>

lemma wm_get_named:
  assumes "wm_inv m" "wm_get r name m = Some s"
  shows "ns_name s = name \<and> (\<exists>ss. sm_find (m_datas m) name = Some ss \<and> s \<in> set ss)"
proof -
  obtain ss where ss: "sm_find (m_datas m) name = Some ss"
    using assms(2) by (auto simp: wm_get_def split: option.splits)
  from wm_inv_find [OF assms(1) this] have "ss \<noteq> []" "\<forall>s \<in> set ss. ns_name s = name" by auto
  moreover from this(1) have "s \<in> set ss" using assms(2) ss by (auto simp: wm_get_def split: if_splits)
  ultimately show ?thesis using ss by blast
qed

lemma wm_stop_empties: "\<not> m_stop m \<Longrightarrow> wm_getCount (fst (wm_stop nop m)) = 0 \<and> wm_get r name (fst (wm_stop nop m)) = None"
  by (simp add: wm_stop_def wm_getCount_def wm_get_def)

end
