(* ===== verification/Hash_Util.thy ===== *)
theory Hash_Util
  imports Cpp_Strings
begin

text \<open>
  \<^verbatim>\<open>src/hash_util.cc\<close>: murmur3 and the quick hash on 32-bit words, base64, hexadecimal text,
  \<open>hmac\<close> over a digest, and the string helpers.  A buffer is a list of bytes; the null
  pointer is \<open>None\<close>; \<open>len\<close> is an \<open>int\<close>, so the hashes are modelled for buffers shorter than
  \<open>2 ^ 31\<close> bytes.
\<close>

section \<open>murmur3\<close>

definition ROTL :: "u32 \<Rightarrow> nat \<Rightarrow> u32" where
  "ROTL x r = push_bit r x OR drop_bit (32 - r) x"

definition fmix32 :: "u32 \<Rightarrow> u32" where
  "fmix32 h0 = (let h1 = h0 XOR drop_bit 16 h0;
                    h2 = h1 * 0x85ebca6b;
                    h3 = h2 XOR drop_bit 13 h2;
                    h4 = h3 * 0xc2b2ae35
                in h4 XOR drop_bit 16 h4)"

definition mix_s :: "u32 \<Rightarrow> u32" where
  "mix_s s = ROTL (s * 0xcc9e2d51) 15 * 0x1b873593"

definition mix_block :: "u32 \<Rightarrow> u32 \<Rightarrow> u32" where
  "mix_block s h = ROTL (h XOR mix_s s) 13 * 5 + 0xe6546b64"

text \<open>The words \<open>ptr[0 ..< len / 4]\<close> of a buffer, loaded in the byte order of the host.\<close>

fun blocks :: "endian \<Rightarrow> bytes \<Rightarrow> u32 list" where
  "blocks host (a # b # c # d # bs) = mem_load host [a, b, c, d] # blocks host bs"
| "blocks host _ = []"

fun tail_word :: "bytes \<Rightarrow> u32" where
  "tail_word [a, b, c] = push_bit 16 (ucast c) OR push_bit 8 (ucast b) OR ucast a"
| "tail_word [a, b] = push_bit 8 (ucast b) OR ucast a"
| "tail_word [a] = ucast a"
| "tail_word _ = 0"

definition murmur3_hash :: "endian \<Rightarrow> bytes option \<Rightarrow> u32 \<Rightarrow> u32" where
  "murmur3_hash host data seed = (case data of None \<Rightarrow> 0 | Some str \<Rightarrow>
     let len = length str;
         h = fold mix_block (blocks host str) seed;
         tl_bytes = drop (len div 4 * 4) str;
         h' = (if tl_bytes = [] then h else h XOR mix_s (tail_word tl_bytes))
     in fmix32 (h' XOR word_of_nat len))"

text \<open>The overload on a C string hashes the bytes before the terminating zero.\<close>

definition murmur3_hash_cstr :: "endian \<Rightarrow> bytes option \<Rightarrow> u32 \<Rightarrow> u32" where
  "murmur3_hash_cstr host mem seed =
     murmur3_hash host (map_option (takeWhile (\<lambda>c. c \<noteq> 0)) mem) seed"

definition murmur3_hash64 :: "endian \<Rightarrow> bytes option \<Rightarrow> u32 \<Rightarrow> u32 \<Rightarrow> u64" where
  "murmur3_hash64 host data seed seed2 =
     push_bit 32 (ucast (murmur3_hash host data seed)) OR ucast (murmur3_hash host data seed2)"

text \<open>
  \<open>char\<close> is signed: \<open>*str\<close> is sign-extended.  The overload on a buffer adds the first
  character \<open>size\<close> times: its loop never advances \<open>str\<close>.
\<close>

definition quick_hash :: "bytes \<Rightarrow> u32" where
  "quick_hash mem = foldl (\<lambda>h c. 31 * h + scast c) 0 (takeWhile (\<lambda>c. c \<noteq> 0) mem)"

definition quick_hash_buf :: "bytes \<Rightarrow> nat \<Rightarrow> u32" where
  "quick_hash_buf mem sz = ((\<lambda>h. 31 * h + scast (mem ! 0)) ^^ sz) 0"

section \<open>base64\<close>

definition base64_chars :: string where
  "base64_chars = ''ABCDEFGHIJKLMNOPQRSTUVWXYZabcdefghijklmnopqrstuvwxyz0123456789+/''"

definition b64 :: "nat \<Rightarrow> char" where
  "b64 v = base64_chars ! v"

text \<open>One round of the loop packs up to three bytes and prints four characters.\<close>

fun base64encode :: "bytes \<Rightarrow> string" where
  "base64encode [] = []"
| "base64encode [a] = (let packed = unat a * 65536 in
     [b64 (packed div 262144), b64 (packed div 4096 mod 64), CHR ''='', CHR ''=''])"
| "base64encode [a, b] = (let packed = (unat a * 256 + unat b) * 256 in
     [b64 (packed div 262144), b64 (packed div 4096 mod 64), b64 (packed div 64 mod 64), CHR ''=''])"
| "base64encode (a # b # c # rest) = (let packed = (unat a * 256 + unat b) * 256 + unat c in
     [b64 (packed div 262144), b64 (packed div 4096 mod 64), b64 (packed div 64 mod 64),
      b64 (packed mod 64)]) @ base64encode rest"

text \<open>The value of a character, \<open>None\<close> for an invalid one.\<close>

definition b64_val :: "char \<Rightarrow> nat option" where
  "b64_val c = (if is_upper c then Some (code c - 65)
     else if is_lower c then Some (code c - 97 + 26)
     else if is_digit c then Some (code c - 48 + 52)
     else if c = CHR ''+'' then Some 62
     else if c = CHR ''/'' then Some 63
     else None)"

text \<open>
  The inner loop over at most four characters: the packed value and the padding; \<open>None\<close> is
  the return of the empty string.
\<close>

fun b64_pack :: "string \<Rightarrow> nat \<Rightarrow> nat \<Rightarrow> (nat \<times> nat) option" where
  "b64_pack [] packed padding = Some (packed, padding)"
| "b64_pack (c # cs) packed padding =
     (if c = CHR ''='' then b64_pack cs (packed * 64) (Suc padding)
      else if 0 < padding then None
      else case b64_val c of None \<Rightarrow> None | Some v \<Rightarrow> b64_pack cs (packed * 64 + v) padding)"

function base64decode_loop :: "string \<Rightarrow> bytes option" where
  "base64decode_loop src =
     (if src = [] then Some []
      else case b64_pack (take 4 src) 0 0 of
        None \<Rightarrow> None
      | Some (packed, padding) \<Rightarrow>
          if length src < 4 then None
          else if 0 < padding \<and> drop 4 src \<noteq> [] then None
          else if 2 < padding then None
          else map_option
            (\<lambda>out. word_of_nat (packed div 65536)
                 # (if padding \<noteq> 2 then [word_of_nat (packed div 256)] else [])
                 @ (if padding = 0 then [word_of_nat packed] else []) @ out)
            (base64decode_loop (drop 4 src)))"
  by pat_completeness auto
termination by (relation "measure length") auto

declare base64decode_loop.simps [simp del]

definition base64decode :: "string \<Rightarrow> bytes" where
  "base64decode src = (case base64decode_loop src of None \<Rightarrow> [] | Some out \<Rightarrow> out)"

section \<open>Hexadecimal text\<close>

definition hex_digit :: "u8 \<Rightarrow> char" where
  "hex_digit c = char_of (if 9 < unat c then unat c + 97 - 10 else unat c + 48)"

definition hexstring_from_data :: "bytes \<Rightarrow> string" where
  "hexstring_from_data data =
     concat (map (\<lambda>b. [hex_digit (drop_bit 4 b AND 0xf), hex_digit (b AND 0xf)]) data)"

datatype hex_error = OddLength | InvalidHex

definition hex_val :: "char \<Rightarrow> nat option" where
  "hex_val c = (if 97 \<le> code c \<and> code c \<le> 102 then Some (code c - 97 + 10)
     else if 65 \<le> code c \<and> code c \<le> 70 then Some (code c - 65 + 10)
     else if 48 \<le> code c \<and> code c \<le> 57 then Some (code c - 48)
     else None)"

fun data_from_hexstring_loop :: "string \<Rightarrow> hex_error + bytes" where
  "data_from_hexstring_loop (c # d # cs) = (case hex_val c of
       None \<Rightarrow> Inl InvalidHex
     | Some x \<Rightarrow> (case hex_val d of
           None \<Rightarrow> Inl InvalidHex
         | Some y \<Rightarrow> (case data_from_hexstring_loop cs of
               Inl e \<Rightarrow> Inl e
             | Inr out \<Rightarrow> Inr ((push_bit 4 (word_of_nat x) OR word_of_nat y) # out))))"
| "data_from_hexstring_loop _ = Inr []"

definition data_from_hexstring :: "string \<Rightarrow> hex_error + bytes" where
  "data_from_hexstring s = (if length s mod 2 \<noteq> 0 then Inl OddLength
     else data_from_hexstring_loop s)"

section \<open>Digests\<close>

text \<open>
  The digests of OpenSSL are parameters: \<open>H\<close> maps the concatenation of the updates to the
  digest of \<open>L\<close> bytes, and \<open>B\<close> is its block size.
\<close>

definition hmac :: "(bytes \<Rightarrow> bytes) \<Rightarrow> nat \<Rightarrow> bytes \<Rightarrow> bytes \<Rightarrow> bytes" where
  "hmac H B txt key =
     (let k0 = (if B < length key then H key else key);
          keyLocal = k0 @ replicate (B - length k0) 0;
          ipad = map (\<lambda>c. c XOR 0x36) keyLocal;
          opad = map (\<lambda>c. c XOR 0x5c) keyLocal;
          inner = H (take B ipad @ txt)
      in H (take B opad @ inner))"

definition hmac_md5 :: "(bytes \<Rightarrow> bytes) \<Rightarrow> bytes \<Rightarrow> bytes \<Rightarrow> bytes" where
  "hmac_md5 MD5 txt key = hmac MD5 64 txt key"

definition hmac_sha1 :: "(bytes \<Rightarrow> bytes) \<Rightarrow> bytes \<Rightarrow> bytes \<Rightarrow> bytes" where
  "hmac_sha1 SHA1 txt key = hmac SHA1 64 txt key"

definition hmac_sha256 :: "(bytes \<Rightarrow> bytes) \<Rightarrow> bytes \<Rightarrow> bytes \<Rightarrow> bytes" where
  "hmac_sha256 SHA256 txt key = hmac SHA256 64 txt key"

definition md5 :: "(bytes \<Rightarrow> bytes) \<Rightarrow> bytes \<Rightarrow> string" where
  "md5 MD5 data = hexstring_from_data (take 16 (MD5 data))"

definition sha1 :: "(bytes \<Rightarrow> bytes) \<Rightarrow> bytes \<Rightarrow> string" where
  "sha1 SHA1 data = hexstring_from_data (take 20 (SHA1 data))"

section \<open>String helpers\<close>

text \<open>The loops over \<open>find(find, index)\<close>, on the rest of the string at \<open>index\<close>.\<close>

function replace_char :: "string \<Rightarrow> char \<Rightarrow> char \<Rightarrow> string" where
  "replace_char str f r = (case find_idx (\<lambda>c. c = f) str of
       None \<Rightarrow> str
     | Some i \<Rightarrow> take i str @ r # replace_char (drop (Suc i) str) f r)"
  by pat_completeness auto
termination by (relation "measure (\<lambda>(s, f, r). length s)") (auto dest: find_idx_Some)

function replace_char_str :: "string \<Rightarrow> char \<Rightarrow> string \<Rightarrow> string" where
  "replace_char_str str f r = (case find_idx (\<lambda>c. c = f) str of
       None \<Rightarrow> str
     | Some i \<Rightarrow> take i str @ r @ replace_char_str (drop (Suc i) str) f r)"
  by pat_completeness auto
termination by (relation "measure (\<lambda>(s, f, r). length s)") (auto dest: find_idx_Some)

declare replace_char.simps [simp del] replace_char_str.simps [simp del]

text \<open>
  With an empty \<open>find\<close> the search succeeds at every index, the string keeps its rest, and the
  loop does not end: the result is then \<open>None\<close>.
\<close>

partial_function (option) replace_str :: "string \<Rightarrow> string \<Rightarrow> string \<Rightarrow> string option" where
  "replace_str str f r = (case find_sub f str of
       None \<Rightarrow> Some str
     | Some i \<Rightarrow> Option.bind (replace_str (drop (i + length f) str) f r)
         (\<lambda>out. Some (take i str @ r @ out)))"

text \<open>
  Both overloads of \<open>split\<close>: the parts in front of the delimiters, and the rest.  \<open>--max == 1\<close>
  is tested after the decrement, so that \<open>max = 1\<close> wraps and does not limit.
\<close>

function split_loop :: "(char \<Rightarrow> bool) \<Rightarrow> string \<Rightarrow> u64 \<Rightarrow> string list" where
  "split_loop P rest lim = (case find_idx P rest of
       None \<Rightarrow> [rest]
     | Some p \<Rightarrow> take p rest #
         (if lim - 1 = 1 then [drop (Suc p) rest]
          else split_loop P (drop (Suc p) rest) (lim - 1)))"
  by pat_completeness auto
termination by (relation "measure (\<lambda>(P, s, m). length s)") (auto dest: find_idx_Some)

declare split_loop.simps [simp del]

definition split :: "string \<Rightarrow> char \<Rightarrow> u64 \<Rightarrow> string list" where
  "split str delim lim = (if str = [] then [] else split_loop (\<lambda>c. c = delim) str lim)"

definition split_any :: "string \<Rightarrow> string \<Rightarrow> u64 \<Rightarrow> string list" where
  "split_any str delims lim = (if str = [] then [] else split_loop (\<lambda>c. c \<in> set delims) str lim)"

text \<open>\<open>rnd i\<close> is the \<open>i\<close>-th value of \<open>rand()\<close>.\<close>

definition random_string :: "(nat \<Rightarrow> nat) \<Rightarrow> nat \<Rightarrow> string \<Rightarrow> string" where
  "random_string rnd len chars = (if len = 0 \<or> chars = [] then []
     else map (\<lambda>i. chars ! (rnd i mod length chars)) [0..<len])"

end
