(* ===== verification/Env.thy ===== *)
theory Env
  imports String_Map Hash_Util
begin

text \<open>
  \<^verbatim>\<open>src/env.cc\<close>: the options of the command line, the help texts and the paths of the program.
  \<open>readlink\<close>, \<open>getenv\<close> and the value of the configuration are arguments.
\<close>

section \<open>State\<close>

record Env =
  m_args :: "string smap"
  m_helps :: "(string \<times> string) list"
  m_program :: string
  m_exe :: string
  m_cwd :: string

definition new_Env :: Env where
  "new_Env = \<lparr>m_args = [], m_helps = [], m_program = [], m_exe = [], m_cwd = []\<rparr>"

definition env_add :: "string \<Rightarrow> string \<Rightarrow> Env \<Rightarrow> Env" where
  "env_add key v e = e\<lparr>m_args := sm_put key v (m_args e)\<rparr>"

definition env_has :: "string \<Rightarrow> Env \<Rightarrow> bool" where
  "env_has key e \<longleftrightarrow> sm_find (m_args e) key \<noteq> None"

definition env_del :: "string \<Rightarrow> Env \<Rightarrow> Env" where
  "env_del key e = e\<lparr>m_args := sm_erase key (m_args e)\<rparr>"

definition env_get :: "string \<Rightarrow> string \<Rightarrow> Env \<Rightarrow> string" where
  "env_get key d e = sm_at d key (m_args e)"

section \<open>Options\<close>

text \<open>
  The loop over \<open>argv\<close> behind the program name; \<open>now_key\<close> is the option that waits for its value.
  A single hyphen and a value without an option end it with \<open>False\<close>.
\<close>

fun env_init_loop :: "string list \<Rightarrow> string option \<Rightarrow> Env \<Rightarrow> bool \<times> Env" where
  "env_init_loop [] now_key e = (True, case now_key of None \<Rightarrow> e | Some k \<Rightarrow> env_add k [] e)"
| "env_init_loop (a # as) now_key e =
    (if a \<noteq> [] \<and> a ! 0 = CHR ''-'' then
       (if 1 < length a then env_init_loop as (Some (drop 1 a)) (case now_key of None \<Rightarrow> e | Some k \<Rightarrow> env_add k [] e)
        else (False, e))
     else (case now_key of Some k \<Rightarrow> env_init_loop as None (env_add k a e) | None \<Rightarrow> (False, e)))"

definition env_init :: "string \<Rightarrow> string list \<Rightarrow> Env \<Rightarrow> bool \<times> Env" where
  "env_init exe argv e = env_init_loop (drop 1 argv) None
     (e\<lparr>m_exe := exe, m_cwd := (case rfind_idx (\<lambda>c. c = CHR ''/'') exe of None \<Rightarrow> exe | Some pos \<Rightarrow> take pos exe) @ ''/'',
        m_program := argv ! 0\<rparr>)"

section \<open>Help\<close>

definition removeHelp :: "string \<Rightarrow> Env \<Rightarrow> Env" where
  "removeHelp key e = e\<lparr>m_helps := filter (\<lambda>h. fst h \<noteq> key) (m_helps e)\<rparr>"

definition addHelp :: "string \<Rightarrow> string \<Rightarrow> Env \<Rightarrow> Env" where
  "addHelp key desc e = (let e1 = removeHelp key e in e1\<lparr>m_helps := m_helps e1 @ [(key, desc)]\<rparr>)"

text \<open>\<open>setw(5)\<close> applies to the hyphen.\<close>

definition printHelp :: "Env \<Rightarrow> string" where
  "printHelp e = ''Usage: '' @ m_program e @ '' [options]'' @ [CHR 0x0A]
     @ concat (map (\<lambda>(k, d). ''    -'' @ k @ '' : '' @ d @ [CHR 0x0A]) (m_helps e))"

section \<open>Paths\<close>

definition getEnv :: "(string \<Rightarrow> string option) \<Rightarrow> string \<Rightarrow> string \<Rightarrow> string" where
  "getEnv getenv key d = (case getenv key of None \<Rightarrow> d | Some v \<Rightarrow> v)"

definition getAbsolutePath :: "string \<Rightarrow> Env \<Rightarrow> string" where
  "getAbsolutePath path e = (if path = [] then ''/'' else if path ! 0 = CHR ''/'' then path else m_cwd e @ path)"

definition getAbsoluteWorkPath :: "string \<Rightarrow> string \<Rightarrow> string" where
  "getAbsoluteWorkPath work_path path =
    (if path = [] then ''/'' else if path ! 0 = CHR ''/'' then path else work_path @ ''/'' @ path)"

definition getConfigPath :: "Env \<Rightarrow> string" where
  "getConfigPath e = getAbsolutePath (env_get ''c'' ''conf'' e) e"

section \<open>Lemmas\<close>

text \<open>A command line of options, each with a value that is no option or without one.\<close>

fun option_args :: "string \<times> string option \<Rightarrow> string list" where
  "option_args (k, None) = [CHR ''-'' # k]"
| "option_args (k, Some v) = [CHR ''-'' # k, v]"

definition is_option :: "string \<Rightarrow> bool" where
  "is_option a \<longleftrightarrow> a \<noteq> [] \<and> a ! 0 = CHR ''-''"

definition option_value :: "string option \<Rightarrow> string" where
  "option_value v = (case v of None \<Rightarrow> [] | Some x \<Rightarrow> x)"

lemma init_loop_options:
  assumes "\<forall>(k, v) \<in> set ps. k \<noteq> [] \<and> (\<forall>x. v = Some x \<longrightarrow> \<not> is_option x)"
  shows "env_init_loop (concat (map option_args ps)) now_key e = (True, fold (\<lambda>(k, v). env_add k (option_value v)) ps
    (case now_key of None \<Rightarrow> e | Some k \<Rightarrow> env_add k [] e))"
  using assms
proof (induction ps arbitrary: now_key e)
  case (Cons p ps)
  obtain k v where p: "p = (k, v)" by fastforce
  from Cons.prems p have k: "k \<noteq> []" and v: "\<And>x. v = Some x \<Longrightarrow> \<not> is_option x"
    and ps: "\<forall>(k, v) \<in> set ps. k \<noteq> [] \<and> (\<forall>x. v = Some x \<longrightarrow> \<not> is_option x)" by auto
  show ?case
  proof (cases v)
    case None
    with p k Cons.IH [OF ps, of "Some k"] show ?thesis by (simp add: option_value_def)
  next
    case (Some x)
    with v have x: "\<not> (x \<noteq> [] \<and> x ! 0 = CHR ''-'')" by (simp add: is_option_def)
    have "env_init_loop (x # concat (map option_args ps)) (Some k) e' = env_init_loop (concat (map option_args ps)) None (env_add k x e')" for e'
      using x by auto
    with p k Some Cons.IH [OF ps, of None] show ?thesis by (simp add: option_value_def)
  qed
qed (simp split: option.splits)

text \<open>Every option is found with the value that was given last, and nothing else is.\<close>

lemma env_get_add: "env_get k d (env_add j v e) = (if k = j then v else env_get k d e)"
  by (simp add: env_get_def env_add_def)

lemma env_has_add: "env_has k (env_add j v e) = (k = j \<or> env_has k e)"
  by (simp add: env_has_def env_add_def)

lemma env_init_options:
  assumes "\<forall>(k, v) \<in> set ps. k \<noteq> [] \<and> (\<forall>x. v = Some x \<longrightarrow> \<not> is_option x)" "m_args e = []"
  shows "fst (env_init exe (prog # concat (map option_args ps)) e)
    \<and> env_has k (snd (env_init exe (prog # concat (map option_args ps)) e)) = (k \<in> fst ` set ps)
    \<and> env_get k d (snd (env_init exe (prog # concat (map option_args ps)) e))
        = (case map_of (rev ps) k of None \<Rightarrow> d | Some v \<Rightarrow> option_value v)"
proof -
  have g: "env_get k d (fold (\<lambda>(k, v). env_add k (option_value v)) ps x)
    = (case map_of (rev ps) k of None \<Rightarrow> env_get k d x | Some v \<Rightarrow> option_value v)" for x
    by (induction ps arbitrary: x) (auto simp: env_get_add map_add_def split: option.splits)
  have h: "env_has k (fold (\<lambda>(k, v). env_add k (option_value v)) ps x) = (k \<in> fst ` set ps \<or> env_has k x)" for x
    by (induction ps arbitrary: x) (auto simp: env_has_add)
  have d: "env_get k d x = d" "\<not> env_has k x" if "m_args x = []" for x
    using that by (simp_all add: env_get_def env_has_def sm_at_def)
  show ?thesis using assms(2) by (simp add: env_init_def init_loop_options [OF assms(1)] g h d cong: option.case_cong)
qed

text \<open>A value that begins with a hyphen, such as a negative number, is taken for an option.\<close>

lemma negative_value_is_an_option:
  "env_init_loop [''-n'', ''-5''] None new_Env = (True, env_add ''5'' [] (env_add ''n'' [] new_Env))"
  by simp

text \<open>Every help text is there once, under the last key that was added.\<close>

lemma addHelp_distinct: "distinct (map fst (m_helps e)) \<Longrightarrow> distinct (map fst (m_helps (addHelp k d e)))"
  by (auto simp: addHelp_def removeHelp_def Let_def distinct_map_filter)

lemma addHelp_found: "map_of (m_helps (addHelp k d e)) j = (if j = k then Some d else map_of (m_helps e) j)"
proof -
  have "map_of (filter (\<lambda>h. fst h \<noteq> k) hs) j = (if j = k then None else map_of hs j)" for hs :: "(string \<times> string) list"
    by (induction hs) auto
  then show ?thesis by (simp add: addHelp_def removeHelp_def Let_def map_add_def split: option.splits)
qed

lemma absolute_path_is_absolute:
  "m_cwd e \<noteq> [] \<Longrightarrow> m_cwd e ! 0 = CHR ''/'' \<Longrightarrow> \<exists>p. getAbsolutePath path e = CHR ''/'' # p"
  by (cases path; cases "m_cwd e") (auto simp: getAbsolutePath_def)

end
