(* ===== verification/Module_Manager.thy ===== *)
theory Module_Manager
  imports String_Map "HOL-Library.AList" "HOL-Library.Multiset"
begin

text \<open>
  \<^verbatim>\<open>src/module.cc\<close>: the loaded modules, by name and by type.  An \<open>unordered_map\<close> is a list of
  entries; their order stands for the unspecified order of iteration.
\<close>

section \<open>State\<close>

record Module =
  md_name :: string
  md_version :: string
  md_filename :: string
  md_id :: string
  md_type :: u32

definition new_Module :: "string \<Rightarrow> string \<Rightarrow> string \<Rightarrow> u32 \<Rightarrow> Module" where
  "new_Module name version filename ty =
    \<lparr>md_name = name, md_version = version, md_filename = filename, md_id = name @ ''/'' @ version, md_type = ty\<rparr>"

text \<open>\<open>g_unloaded\<close> records the calls of \<open>onUnload\<close>.\<close>

record ModuleManager =
  m_modules :: "(string \<times> Module) list"
  m_type2Modules :: "(u32 \<times> (string \<times> Module) list) list"
  g_unloaded :: "Module list"

definition new_ModuleManager :: ModuleManager where
  "new_ModuleManager = \<lparr>m_modules = [], m_type2Modules = [], g_unloaded = []\<rparr>"

section \<open>Operations\<close>

text \<open>\<open>m_type2Modules[t]\<close>.\<close>

definition of_type :: "u32 \<Rightarrow> ModuleManager \<Rightarrow> (string \<times> Module) list" where
  "of_type t m = (case map_of (m_type2Modules m) t of None \<Rightarrow> [] | Some ms \<Rightarrow> ms)"

definition mm_get :: "string \<Rightarrow> ModuleManager \<Rightarrow> Module option" where
  "mm_get name m = map_of (m_modules m) name"

definition mm_del :: "string \<Rightarrow> ModuleManager \<Rightarrow> ModuleManager" where
  "mm_del name m = (case map_of (m_modules m) name of
       None \<Rightarrow> m
     | Some md \<Rightarrow>
         let ms = AList.delete (md_id md) (of_type (md_type md) m) in
         m\<lparr>m_modules := AList.delete name (m_modules m),
           m_type2Modules := (if ms = [] then AList.delete (md_type md) (m_type2Modules m)
              else AList.update (md_type md) ms (m_type2Modules m)),
           g_unloaded := g_unloaded m @ [md]\<rparr>)"

definition mm_add :: "Module \<Rightarrow> ModuleManager \<Rightarrow> ModuleManager" where
  "mm_add md m = (let m1 = mm_del (md_id md) m in
     m1\<lparr>m_modules := AList.update (md_id md) md (m_modules m1),
        m_type2Modules := AList.update (md_type md) (AList.update (md_id md) md (of_type (md_type md) m1)) (m_type2Modules m1)\<rparr>)"

definition mm_delAll :: "ModuleManager \<Rightarrow> ModuleManager" where
  "mm_delAll m = fold (\<lambda>(k, _). mm_del k) (m_modules m) m"

definition listByType :: "u32 \<Rightarrow> ModuleManager \<Rightarrow> Module list" where
  "listByType t m = map snd (of_type t m)"

definition listAll :: "ModuleManager \<Rightarrow> Module list" where
  "listAll m = map snd (m_modules m)"

text \<open>\<open>init\<close>: the libraries of a directory in the order of their names; \<open>GetModule\<close> loads one.\<close>

definition mm_init :: "(string \<Rightarrow> Module option) \<Rightarrow> string list \<Rightarrow> ModuleManager \<Rightarrow> ModuleManager" where
  "mm_init GetModule files m = fold (\<lambda>f m. case GetModule f of None \<Rightarrow> m | Some md \<Rightarrow> mm_add md m) (sort_key str_key files) m"

section \<open>The invariant\<close>

text \<open>
  Every module is entered under its identifier, once in each table, under its type and nowhere
  else, and no type is left without modules.
\<close>

definition mm_inv :: "ModuleManager \<Rightarrow> bool" where
  "mm_inv m \<longleftrightarrow> distinct (map fst (m_modules m)) \<and> distinct (map fst (m_type2Modules m))
     \<and> (\<forall>t ms. map_of (m_type2Modules m) t = Some ms \<longrightarrow> distinct (map fst ms) \<and> ms \<noteq> [])
     \<and> (\<forall>k md. map_of (m_modules m) k = Some md \<longrightarrow> md_id md = k)
     \<and> (\<forall>t k. map_of (of_type t m) k = (case map_of (m_modules m) k of Some md \<Rightarrow> if md_type md = t then Some md else None | None \<Rightarrow> None))"

lemma of_type_update: "of_type t (m\<lparr>m_type2Modules := AList.update u ms ts\<rparr>) = (if t = u then ms else of_type t (m\<lparr>m_type2Modules := ts\<rparr>))"
  by (simp add: of_type_def update_conv')

lemma of_type_delete: "of_type t (m\<lparr>m_type2Modules := AList.delete u ts\<rparr>) = (if t = u then [] else of_type t (m\<lparr>m_type2Modules := ts\<rparr>))"
  by (simp add: of_type_def delete_conv')

lemma of_type_same [simp]: "of_type t (m\<lparr>m_modules := ms\<rparr>) = of_type t m" "of_type t (m\<lparr>g_unloaded := us\<rparr>) = of_type t m"
  "of_type t (m\<lparr>m_type2Modules := m_type2Modules m\<rparr>) = of_type t m"
  by (simp_all add: of_type_def)

lemma of_type_distinct: "mm_inv m \<Longrightarrow> distinct (map fst (of_type t m))"
  by (auto simp: mm_inv_def of_type_def split: option.splits)

lemma mm_inv_new: "mm_inv new_ModuleManager"
  by (simp add: mm_inv_def new_ModuleManager_def of_type_def)

lemma map_of_delete_id [simp]: "map_of (AList.delete k xs) j = (if j = k then None else map_of xs j)"
  by (simp add: delete_conv')

lemma map_of_update_id [simp]: "map_of (AList.update k v xs) j = (if j = k then Some v else map_of xs j)"
  by (simp add: update_conv')

text \<open>The tables after a removal and an addition, entry by entry.\<close>

lemma del_modules: "map_of (m_modules (mm_del name m)) k = (if k = name then None else map_of (m_modules m) k)"
  by (auto simp: mm_del_def Let_def split: option.splits)

lemma delete_is_Nil: "AList.delete k xs = [] \<Longrightarrow> j \<noteq> k \<Longrightarrow> map_of xs j = None"
  using map_of_delete_id [of k xs j] by simp

lemma del_of_type:
  assumes "map_of (m_modules m) name = Some md" "md_id md = name"
  shows "map_of (of_type t (mm_del name m)) k = (if t = md_type md \<and> k = name then None else map_of (of_type t m) k)"
  using assms by (auto simp: mm_del_def Let_def of_type_delete of_type_update dest: delete_is_Nil)

lemma del_absent: "map_of (m_modules m) name = None \<Longrightarrow> mm_del name m = m"
  by (simp add: mm_del_def)

lemma add_modules: "map_of (m_modules (mm_add md m)) k = (if k = md_id md then Some md else map_of (m_modules m) k)"
  by (simp add: mm_add_def Let_def del_modules)

lemma add_of_type:
  "map_of (of_type t (mm_add md m)) k
    = (if t = md_type md \<and> k = md_id md then Some md else map_of (of_type t (mm_del (md_id md) m)) k)"
  by (simp add: mm_add_def Let_def of_type_update)

lemma update_not_Nil [simp]: "AList.update k v xs \<noteq> []"
  by (cases xs) (auto split: if_splits)

text \<open>The tables themselves stay tables.\<close>

definition tables :: "ModuleManager \<Rightarrow> bool" where
  "tables m \<longleftrightarrow> distinct (map fst (m_modules m)) \<and> distinct (map fst (m_type2Modules m))
     \<and> (\<forall>t ms. map_of (m_type2Modules m) t = Some ms \<longrightarrow> distinct (map fst ms) \<and> ms \<noteq> [])"

lemma tables_of_type: "tables m \<Longrightarrow> distinct (map fst (of_type t m))"
  by (auto simp: tables_def of_type_def split: option.splits)

lemma tables_del:
  assumes "tables m"
  shows "tables (mm_del name m)"
proof (cases "map_of (m_modules m) name")
  case None
  with assms show ?thesis by (simp add: del_absent)
next
  case (Some md)
  have "distinct (map fst (AList.delete (md_id md) (of_type (md_type md) m)))"
    using tables_of_type [OF assms] by (rule distinct_delete)
  with assms Some show ?thesis
    by (simp add: tables_def mm_del_def Let_def distinct_delete distinct_update del: map_of_eq_Some_iff)
qed

lemma tables_add:
  assumes "tables m"
  shows "tables (mm_add md m)"
proof -
  let ?m = "mm_del (md_id md) m"
  have "distinct (map fst (AList.update (md_id md) md (of_type (md_type md) ?m)))"
    using tables_of_type [OF tables_del [OF assms]] by (rule distinct_update)
  with tables_del [OF assms, of "md_id md"] show ?thesis
    by (simp add: tables_def mm_add_def Let_def distinct_update del: map_of_eq_Some_iff)
qed

lemma mm_inv_iff:
  "mm_inv m \<longleftrightarrow> tables m \<and> (\<forall>k md. map_of (m_modules m) k = Some md \<longrightarrow> md_id md = k)
     \<and> (\<forall>t k. map_of (of_type t m) k = (case map_of (m_modules m) k of Some md \<Rightarrow> if md_type md = t then Some md else None | None \<Rightarrow> None))"
  by (simp only: mm_inv_def tables_def conj_assoc)

lemma mm_inv_del:
  assumes "mm_inv m"
  shows "mm_inv (mm_del name m)"
proof (cases "map_of (m_modules m) name")
  case None
  with assms show ?thesis by (simp add: del_absent)
next
  case (Some md)
  with assms have "md_id md = name" unfolding mm_inv_iff by blast
  from del_of_type [OF Some this] assms Some show ?thesis
    by (simp add: mm_inv_iff tables_del del_modules del: map_of_eq_Some_iff)
qed

lemma mm_inv_add:
  assumes "mm_inv m"
  shows "mm_inv (mm_add md m)"
proof -
  let ?m = "mm_del (md_id md) m"
  have t: "tables (mm_add md m)" using assms by (simp add: mm_inv_iff tables_add)
  have i: "md_id x = k" if "map_of (m_modules m) k = Some x" for k x using assms that unfolding mm_inv_iff by blast
  have o: "map_of (of_type t ?m) k = (case map_of (m_modules ?m) k of Some md \<Rightarrow> if md_type md = t then Some md else None | None \<Rightarrow> None)" for t k
    using mm_inv_del [OF assms, of "md_id md"] unfolding mm_inv_iff by blast
  show ?thesis unfolding mm_inv_iff
  proof (intro conjI t allI impI)
    fix k x assume "map_of (m_modules (mm_add md m)) k = Some x"
    then show "md_id x = k" using i by (auto simp: add_modules simp del: map_of_eq_Some_iff split: if_splits)
  next
    fix t k
    show "map_of (of_type t (mm_add md m)) k = (case map_of (m_modules (mm_add md m)) k of Some md \<Rightarrow> if md_type md = t then Some md else None | None \<Rightarrow> None)"
      by (simp add: add_modules add_of_type o del_modules)
  qed
qed

text \<open>After any sequence of additions and removals the list of a type is the modules of that type.\<close>

datatype mm_op = MmAdd Module | MmDel string | MmDelAll

fun mm_do :: "mm_op \<Rightarrow> ModuleManager \<Rightarrow> ModuleManager" where
  "mm_do (MmAdd md) m = mm_add md m"
| "mm_do (MmDel k) m = mm_del k m"
| "mm_do MmDelAll m = mm_delAll m"

lemma mm_inv_delAll: "mm_inv m \<Longrightarrow> mm_inv (mm_delAll m)"
proof -
  have "mm_inv m \<Longrightarrow> mm_inv (fold (\<lambda>(k, _). mm_del k) ks m)" for ks :: "(string \<times> Module) list" and m
    by (induction ks arbitrary: m) (auto intro: mm_inv_del)
  then show "mm_inv m \<Longrightarrow> mm_inv (mm_delAll m)" by (simp add: mm_delAll_def)
qed

lemma mm_inv_run: "mm_inv m \<Longrightarrow> mm_inv (fold mm_do ops m)"
proof (induction ops arbitrary: m)
  case (Cons x ops)
  then show ?case by (cases x) (simp_all add: mm_inv_add mm_inv_del mm_inv_delAll)
qed simp

lemma module_tables_agree:
  "md \<in> set (listByType t (fold mm_do ops new_ModuleManager))
     \<longleftrightarrow> md \<in> set (listAll (fold mm_do ops new_ModuleManager)) \<and> md_type md = t"
proof -
  let ?m = "fold mm_do ops new_ModuleManager"
  have i: "mm_inv ?m" by (rule mm_inv_run [OF mm_inv_new])
  have "map_of (of_type t ?m) k = (case map_of (m_modules ?m) k of Some md \<Rightarrow> if md_type md = t then Some md else None | None \<Rightarrow> None)" for k
    using i unfolding mm_inv_iff by blast
  then have e: "(\<exists>k. map_of (of_type t ?m) k = Some md) \<longleftrightarrow> (\<exists>k. map_of (m_modules ?m) k = Some md) \<and> md_type md = t"
    by (simp split: option.splits) auto
  have r: "(\<exists>k. map_of xs k = Some v) \<longleftrightarrow> v \<in> set (map snd xs)" if "distinct (map fst xs)" for xs :: "(string \<times> Module) list" and v
    using that by (force simp: map_of_eq_Some_iff)
  have "distinct (map fst (m_modules ?m))" using i by (simp add: mm_inv_def)
  from e r [OF this] r [OF of_type_distinct [OF i]] show ?thesis by (simp add: listByType_def listAll_def)
qed

text \<open>A removed module is told so, once, and \<open>delAll\<close> leaves none.\<close>

lemma mm_del_unloads: "map_of (m_modules m) k = Some md \<Longrightarrow> g_unloaded (mm_del k m) = g_unloaded m @ [md]"
  by (simp add: mm_del_def Let_def)

lemma mm_delAll_empty: "m_modules (mm_delAll m) = []"
proof -
  have "map_of (m_modules (fold (\<lambda>(k, _). mm_del k) ks m)) k = (if k \<in> fst ` set ks then None else map_of (m_modules m) k)"
    for ks :: "(string \<times> Module) list" and k m
    by (induction ks arbitrary: m) (auto simp: del_modules)
  from this [of "m_modules m" m] have "map_of (m_modules (mm_delAll m)) k = None" for k
    using map_of_eq_None_iff [of "m_modules m" k] by (auto simp: mm_delAll_def)
  then show ?thesis by (metis map_of_eq_empty_iff ext)
qed

text \<open>Two modules of different names can have one identifier.\<close>

lemma identifiers_collide: "md_id (new_Module ''a/b'' ''c'' f t) = md_id (new_Module ''a'' ''b/c'' f' t')"
  by (simp add: new_Module_def)

end
