(* ===== verification/Library.thy ===== *)
theory Library
  imports Module_Manager
begin

text \<open>
  \<^verbatim>\<open>src/library.cc\<close> and the initialization of \<^verbatim>\<open>src/module.cc\<close>: loading modules from shared
  libraries.  The dynamic linker is an argument, and so is \<open>reload\<close>, which reads the configuration
  again after every module.
\<close>

section \<open>Loading\<close>

text \<open>
  \<open>dl_open\<close> is the result of \<open>dlopen\<close>; \<open>dl_create\<close> the module that the symbol \<open>CreateModule\<close> makes,
  \<open>None\<close> without the symbol; \<open>dl_destory\<close> that there is a symbol \<open>DestoryModule\<close>.
\<close>

record linker =
  dl_open :: "string \<Rightarrow> bool"
  dl_create :: "string \<Rightarrow> Module option"
  dl_destory :: "string \<Rightarrow> bool"

text \<open>\<open>ls_handles\<close> are the libraries that are open, \<open>ls_cfg\<close> the configuration.\<close>

record 'c lib_state =
  ls_handles :: "string list"
  ls_cfg :: 'c

definition Library_GetModule :: "linker \<Rightarrow> ('c \<Rightarrow> 'c) \<Rightarrow> string \<Rightarrow> 'c lib_state \<Rightarrow> Module option \<times> 'c lib_state" where
  "Library_GetModule D reload path s =
    (if \<not> dl_open D path then (None, s)
     else let s1 = s\<lparr>ls_handles := path # ls_handles s\<rparr> in
       (case dl_create D path of
          None \<Rightarrow> (None, s1\<lparr>ls_handles := remove1 path (ls_handles s1)\<rparr>)
        | Some create \<Rightarrow>
           if \<not> dl_destory D path then (None, s1\<lparr>ls_handles := remove1 path (ls_handles s1)\<rparr>)
           else (Some (create\<lparr>md_filename := path\<rparr>), s1\<lparr>ls_cfg := reload (ls_cfg s1)\<rparr>)))"

text \<open>The deleter of the module, run when nothing holds it any more.\<close>

definition ModuleCloser :: "Module \<Rightarrow> 'c lib_state \<Rightarrow> 'c lib_state" where
  "ModuleCloser md s = s\<lparr>ls_handles := remove1 (md_filename md) (ls_handles s)\<rparr>"

definition initModule :: "linker \<Rightarrow> ('c \<Rightarrow> 'c) \<Rightarrow> string \<Rightarrow> ModuleManager \<times> 'c lib_state \<Rightarrow> ModuleManager \<times> 'c lib_state" where
  "initModule D reload path ms = (case Library_GetModule D reload path (snd ms) of
     (None, s) \<Rightarrow> (fst ms, s)
   | (Some md, s) \<Rightarrow> (mm_add md (fst ms), s))"

definition init_modules :: "linker \<Rightarrow> ('c \<Rightarrow> 'c) \<Rightarrow> string list \<Rightarrow> ModuleManager \<times> 'c lib_state \<Rightarrow> ModuleManager \<times> 'c lib_state" where
  "init_modules D reload files ms = fold (initModule D reload) (sort_key str_key files) ms"

section \<open>Lemmas\<close>

text \<open>The module that a path gives, whatever the state.\<close>

definition module_at :: "linker \<Rightarrow> string \<Rightarrow> Module option" where
  "module_at D path = (if dl_open D path \<and> dl_destory D path then map_option (md_filename_update (\<lambda>_. path)) (dl_create D path) else None)"

lemma GetModule_module: "fst (Library_GetModule D reload path s) = module_at D path"
  by (simp add: Library_GetModule_def module_at_def Let_def split: option.splits)

text \<open>A library stays open exactly when it gave a module, and its deleter closes it.\<close>

lemma GetModule_handles:
  "ls_handles (snd (Library_GetModule D reload path s)) = (if module_at D path = None then ls_handles s else path # ls_handles s)"
  by (simp add: Library_GetModule_def module_at_def Let_def split: option.splits)

lemma ModuleCloser_closes:
  "Library_GetModule D reload path s = (Some md, s') \<Longrightarrow> ls_handles (ModuleCloser md s') = ls_handles s"
  by (auto simp: Library_GetModule_def ModuleCloser_def Let_def split: if_splits option.splits)

text \<open>Initialization: the table of the modules, the open libraries, and one reading of the configuration for each.\<close>

lemma initModule_add:
  "initModule D reload path (m, s) = (case module_at D path of
     None \<Rightarrow> (m, s)
   | Some md \<Rightarrow> (mm_add md m, \<lparr>ls_handles = path # ls_handles s, ls_cfg = reload (ls_cfg s)\<rparr>))"
  by (cases s) (auto simp: initModule_def Library_GetModule_def module_at_def Let_def split: option.splits)

lemma init_modules_table: "fst (init_modules D reload files (m, s)) = mm_init (module_at D) files m"
proof -
  have "fst (fold (initModule D reload) fs (m, s)) = fold (\<lambda>f m. case module_at D f of None \<Rightarrow> m | Some md \<Rightarrow> mm_add md m) fs m" for fs
    by (induction fs arbitrary: m s) (auto simp: initModule_add split: option.splits)
  then show ?thesis by (simp add: init_modules_def mm_init_def)
qed

lemma init_modules_reads: "ls_cfg (snd (init_modules D reload files (m, s)))
  = (reload ^^ length (filter (\<lambda>f. module_at D f \<noteq> None) files)) (ls_cfg s)"
proof -
  have "ls_cfg (snd (fold (initModule D reload) fs (m, s))) = (reload ^^ length (filter (\<lambda>f. module_at D f \<noteq> None) fs)) (ls_cfg s)" for fs
    by (induction fs arbitrary: m s) (auto simp: initModule_add funpow_swap1 split: option.splits)
  moreover have "length (filter P (sort_key str_key files)) = length (filter P files)" for P
    by (metis mset_filter mset_sort size_mset)
  ultimately show ?thesis by (simp add: init_modules_def)
qed

end
