(* ===== verification/Util.thy ===== *)
theory Util
  imports Cpp_Strings
begin

text \<open>
  \<^verbatim>\<open>src/util.cc\<close>: URL encoding, trimming, path names, number parsing and the directory
  helpers.  The calls of the operating system are arguments of the definitions that make
  them; a directory is the tree that \<open>readdir\<close> lists.
\<close>

section \<open>URL encoding\<close>

definition uri_chars :: "nat list" where
  "uri_chars = replicate 45 0 @ [1, 1, 0] @ replicate 10 1 @ [0, 0, 0, 1, 0, 0]
     @ [0] @ replicate 26 1 @ [0, 0, 0, 0, 1]
     @ [0] @ replicate 26 1 @ [0, 0, 0, 1, 0] @ replicate 128 0"

definition CHAR_IS_UNRESERVED :: "char \<Rightarrow> bool" where
  "CHAR_IS_UNRESERVED c \<longleftrightarrow> uri_chars ! code c \<noteq> 0"

definition xdigit_chars :: "nat list" where
  "xdigit_chars = replicate 48 0 @ [0, 1, 2, 3, 4, 5, 6, 7, 8, 9] @ replicate 7 0
     @ [10, 11, 12, 13, 14, 15] @ replicate 26 0 @ [10, 11, 12, 13, 14, 15] @ replicate 153 0"

definition hexdigits :: string where
  "hexdigits = ''0123456789ABCDEF''"

text \<open>
  \<open>ss\<close> is the buffer that is allocated when the first character has to be rewritten: it then
  takes the \<open>i\<close> characters that were passed unchanged.
\<close>

definition url_buffer :: "string \<Rightarrow> nat \<Rightarrow> string option \<Rightarrow> string" where
  "url_buffer str i ss = (case ss of None \<Rightarrow> take i str | Some s \<Rightarrow> s)"

fun UrlEncode_loop :: "bool \<Rightarrow> string \<Rightarrow> nat \<Rightarrow> string \<Rightarrow> string option \<Rightarrow> string option" where
  "UrlEncode_loop sp str i [] ss = ss"
| "UrlEncode_loop sp str i (c # cs) ss =
    (if \<not> CHAR_IS_UNRESERVED c
     then let s = url_buffer str i ss
          in UrlEncode_loop sp str (Suc i) cs
               (Some (if c = CHR '' '' \<and> sp then s @ ''+''
                      else s @ [CHR ''%'', hexdigits ! (code c div 16), hexdigits ! (code c mod 16)]))
     else UrlEncode_loop sp str (Suc i) cs (map_option (\<lambda>s. s @ [c]) ss))"

definition UrlEncode :: "string \<Rightarrow> bool \<Rightarrow> string" where
  "UrlEncode str space_as_plus = (case UrlEncode_loop space_as_plus str 0 str None of
     None \<Rightarrow> str | Some s \<Rightarrow> s)"

function UrlDecode_loop :: "bool \<Rightarrow> string \<Rightarrow> nat \<Rightarrow> string \<Rightarrow> string option \<Rightarrow> string option" where
  "UrlDecode_loop sp str i rest ss = (case rest of
     [] \<Rightarrow> ss
   | c # cs \<Rightarrow>
      (if c = CHR ''+'' \<and> sp
       then UrlDecode_loop sp str (i + 1) cs (Some (url_buffer str i ss @ '' ''))
       else if c = CHR ''%'' \<and> 2 \<le> length cs \<and> is_xdigit (cs ! 0) \<and> is_xdigit (cs ! 1)
       then UrlDecode_loop sp str (i + 3) (drop 2 cs)
              (Some (url_buffer str i ss
                 @ [char_of (xdigit_chars ! code (cs ! 0) * 16 + xdigit_chars ! code (cs ! 1))]))
       else UrlDecode_loop sp str (i + 1) cs (map_option (\<lambda>s. s @ [c]) ss)))"
  by pat_completeness auto
termination by (relation "measure (\<lambda>(sp, str, i, rest, ss). length rest)") auto

declare UrlDecode_loop.simps [simp del]

definition UrlDecode :: "string \<Rightarrow> bool \<Rightarrow> string" where
  "UrlDecode str space_as_plus = (case UrlDecode_loop space_as_plus str 0 str None of
     None \<Rightarrow> str | Some s \<Rightarrow> s)"

section \<open>Trimming\<close>

definition Trim :: "string \<Rightarrow> string \<Rightarrow> string" where
  "Trim str delimit = (case find_idx (\<lambda>c. c \<notin> set delimit) str of
       None \<Rightarrow> []
     | Some b \<Rightarrow> (case rfind_idx (\<lambda>c. c \<notin> set delimit) str of
           None \<Rightarrow> []
         | Some e \<Rightarrow> substr str b (e + 1 - b)))"

definition TrimLeft :: "string \<Rightarrow> string \<Rightarrow> string" where
  "TrimLeft str delimit = (case find_idx (\<lambda>c. c \<notin> set delimit) str of
     None \<Rightarrow> [] | Some b \<Rightarrow> drop b str)"

definition TrimRight :: "string \<Rightarrow> string \<Rightarrow> string" where
  "TrimRight str delimit = (case rfind_idx (\<lambda>c. c \<notin> set delimit) str of
     None \<Rightarrow> [] | Some e \<Rightarrow> take e str)"

section \<open>Path names\<close>

definition Dirname :: "string \<Rightarrow> string" where
  "Dirname filename = (if filename = [] then ''.''
     else case rfind_idx (\<lambda>c. c = CHR ''/'') filename of
       None \<Rightarrow> ''.''
     | Some pos \<Rightarrow> if pos = 0 then ''/'' else take pos filename)"

definition Basename :: "string \<Rightarrow> string" where
  "Basename filename = (if filename = [] then filename
     else case rfind_idx (\<lambda>c. c = CHR ''/'') filename of
       None \<Rightarrow> filename
     | Some pos \<Rightarrow> drop (pos + 1) filename)"

definition is_sep :: "char \<Rightarrow> bool" where
  "is_sep c \<longleftrightarrow> c = CHR ''/'' \<or> code c = 92"

definition File_path :: "string \<Rightarrow> string" where
  "File_path name = (if name = [] then ''.''
     else case rfind_idx is_sep name of None \<Rightarrow> ''.'' | Some pos \<Rightarrow> take (pos + 1) name)"

section \<open>Numbers\<close>

definition Atoi :: "string option \<Rightarrow> int" where
  "Atoi str = (case str of None \<Rightarrow> 0 | Some s \<Rightarrow>
     if s = [] then 0 else sint (word_of_nat (strtoull s) :: u64))"

definition ToChar :: "string option \<Rightarrow> int" where
  "ToChar str = (case str of None \<Rightarrow> 0 | Some s \<Rightarrow>
     if s = [] then 0 else sint (word_of_nat (code (s ! 0)) :: u8))"

section \<open>Directories\<close>

text \<open>
  \<open>ls p s\<close> is \<open>lstat(p) == 0\<close>, \<open>ex p s\<close> is \<open>access(p, F_OK) == 0\<close> (in \<open>class File\<close>:
  \<open>stat(p) == 0\<close>) and \<open>mk p s\<close> is \<open>mkdir(p, ...)\<close> on the state \<open>s\<close> of the
  file system: whether it returned 0, and the new state.
\<close>

definition mkdir_one ::
  "(string \<Rightarrow> 'fs \<Rightarrow> bool) \<Rightarrow> (string \<Rightarrow> 'fs \<Rightarrow> bool \<times> 'fs) \<Rightarrow> string \<Rightarrow> 'fs \<Rightarrow> bool \<times> 'fs" where
  "mkdir_one ex mk p s = (if ex p s then (True, s) else mk p s)"

text \<open>The loop over the slashes behind the first character, which cuts \<open>path\<close> at each of them.\<close>

fun Mkdir_loop ::
  "(string \<Rightarrow> 'fs \<Rightarrow> bool) \<Rightarrow> (string \<Rightarrow> 'fs \<Rightarrow> bool \<times> 'fs) \<Rightarrow> string list \<Rightarrow> 'fs \<Rightarrow> bool \<times> 'fs" where
  "Mkdir_loop ex mk [] s = (True, s)"
| "Mkdir_loop ex mk (p # ps) s = (case mkdir_one ex mk p s of
       (False, s') \<Rightarrow> (False, s')
     | (True, s') \<Rightarrow> Mkdir_loop ex mk ps s')"

definition dir_prefixes :: "string \<Rightarrow> string list" where
  "dir_prefixes path = map (\<lambda>i. take i path) (filter (\<lambda>i. path ! i = CHR ''/'') [1..<length path])"

definition Mkdir :: "(string \<Rightarrow> 'fs \<Rightarrow> bool) \<Rightarrow> (string \<Rightarrow> 'fs \<Rightarrow> bool) \<Rightarrow>
    (string \<Rightarrow> 'fs \<Rightarrow> bool \<times> 'fs) \<Rightarrow> string \<Rightarrow> 'fs \<Rightarrow> bool \<times> 'fs" where
  "Mkdir ls ex mk dirname s = (if ls dirname s then (True, s)
     else Mkdir_loop ex mk (dir_prefixes dirname @ [dirname]) s)"

text \<open>
  \<open>create_direction\<close> makes the parents of a file in the same way, but goes on whatever \<open>mkdir\<close>
  returns, and leaves out empty, \<open>.\<close> and \<open>..\<close> components; \<open>idx\<close> is where the search for the next
  separator starts.
\<close>

function create_direction_loop ::
  "(string \<Rightarrow> 'fs \<Rightarrow> bool) \<Rightarrow> (string \<Rightarrow> 'fs \<Rightarrow> bool \<times> 'fs) \<Rightarrow> string \<Rightarrow> nat \<Rightarrow> 'fs \<Rightarrow> 'fs" where
  "create_direction_loop ex mk path idx s =
    (if length path \<le> idx then s
     else case find_idx is_sep (drop idx path) of
       None \<Rightarrow> snd (mk path s)
     | Some k \<Rightarrow> let pos = idx + k; str = take pos path in
         if pos = idx \<or> str = ''.'' \<or> str = ''..'' \<or> ex str s
         then create_direction_loop ex mk path (pos + 1) s
         else create_direction_loop ex mk path (pos + 1) (snd (mk str s)))"
  by pat_completeness auto
termination by (relation "measure (\<lambda>(ex, mk, path, idx, s). length path - idx)") auto

definition create_direction ::
  "(string \<Rightarrow> 'fs \<Rightarrow> bool) \<Rightarrow> (string \<Rightarrow> 'fs \<Rightarrow> bool \<times> 'fs) \<Rightarrow> string \<Rightarrow> 'fs \<Rightarrow> 'fs" where
  "create_direction ex mk path s =
     (if path = [] \<or> ex path s then s else create_direction_loop ex mk path 0 s)"

text \<open>
  \<open>op f s\<close> opens the file for writing.  Both versions of \<open>OpenForWrite\<close> retry after making the
  directory.
\<close>

definition FSUtil_OpenForWrite :: "(string \<Rightarrow> 'fs \<Rightarrow> bool) \<Rightarrow> (string \<Rightarrow> 'fs \<Rightarrow> bool) \<Rightarrow> (string \<Rightarrow> 'fs \<Rightarrow> bool \<times> 'fs) \<Rightarrow>
    (string \<Rightarrow> 'fs \<Rightarrow> bool \<times> 'fs) \<Rightarrow> string \<Rightarrow> 'fs \<Rightarrow> bool \<times> 'fs" where
  "FSUtil_OpenForWrite ls ex mk op filename s = (case op filename s of
       (True, s') \<Rightarrow> (True, s')
     | (False, s') \<Rightarrow> op filename (snd (Mkdir ls ex mk (Dirname filename) s')))"

definition File_OpenForWrite :: "(string \<Rightarrow> 'fs \<Rightarrow> bool) \<Rightarrow> (string \<Rightarrow> 'fs \<Rightarrow> bool \<times> 'fs) \<Rightarrow>
    (string \<Rightarrow> 'fs \<Rightarrow> bool \<times> 'fs) \<Rightarrow> string \<Rightarrow> 'fs \<Rightarrow> bool \<times> 'fs" where
  "File_OpenForWrite ex mk op filename s = (case op filename s of
       (True, s') \<Rightarrow> (True, s')
     | (False, s') \<Rightarrow> op filename (create_direction ex mk (File_path filename) s'))"

text \<open>What \<open>readdir\<close> lists, with the type and the name of each entry.\<close>

datatype dirent = DT_DIR string "dirent list" | DT_REG string | DT_OTHER string

fun ListAllFile :: "string \<Rightarrow> string \<Rightarrow> dirent list \<Rightarrow> string list" where
  "ListAllFile path subfix [] = []"
| "ListAllFile path subfix (DT_DIR d sub # es) =
     (if d = ''.'' \<or> d = ''..'' then []
      else ListAllFile (path @ ''/'' @ d) subfix sub) @ ListAllFile path subfix es"
| "ListAllFile path subfix (DT_REG filename # es) =
     (if subfix = [] then [path @ ''/'' @ filename]
      else if length filename < length subfix then []
      else if drop (length filename - length subfix) filename = subfix
      then [path @ ''/'' @ filename] else []) @ ListAllFile path subfix es"
| "ListAllFile path subfix (DT_OTHER n # es) = ListAllFile path subfix es"

end
