(* ===== verification/File_Util.thy ===== *)
theory File_Util
  imports Util
begin

text \<open>
  The rest of \<^verbatim>\<open>src/util.cc\<close>: removing and moving files, the file with the number of the running
  process, and the clock.  The calls of the operating system are a record of functions on a state
  of type \<open>'k\<close>.
\<close>

section \<open>System calls\<close>

text \<open>
  \<open>fs_lstat\<close> gives \<open>st_mode\<close>; \<open>fs_opendir\<close> the names that \<open>readdir\<close> will list, \<open>None\<close> if the directory
  cannot be opened; \<open>fs_getline\<close> the first line of a file; \<open>fs_kill\<close> says that signal 0 could be sent.
\<close>

record 'k fsys =
  fs_lstat :: "string \<Rightarrow> 'k \<Rightarrow> u32 option"
  fs_unlink :: "string \<Rightarrow> 'k \<Rightarrow> bool \<times> 'k"
  fs_rmdir :: "string \<Rightarrow> 'k \<Rightarrow> bool \<times> 'k"
  fs_opendir :: "string \<Rightarrow> 'k \<Rightarrow> string list option"
  fs_rename :: "string \<Rightarrow> string \<Rightarrow> 'k \<Rightarrow> bool \<times> 'k"
  fs_symlink :: "string \<Rightarrow> string \<Rightarrow> 'k \<Rightarrow> bool \<times> 'k"
  fs_realpath :: "string \<Rightarrow> 'k \<Rightarrow> string option"
  fs_getline :: "string \<Rightarrow> 'k \<Rightarrow> string option"
  fs_kill :: "int \<Rightarrow> 'k \<Rightarrow> bool"

definition S_IFDIR :: u32 where "S_IFDIR = 0x4000"

definition Unlink :: "'k fsys \<Rightarrow> string \<Rightarrow> bool \<Rightarrow> 'k \<Rightarrow> bool \<times> 'k" where
  "Unlink F filename exist k = (if \<not> exist \<and> fs_lstat F filename k = None then (True, k) else fs_unlink F filename k)"

text \<open>
  Removing a path with everything in it.  \<open>fuel\<close> bounds the depth of directories; \<open>None\<close> is a tree
  that is deeper.
\<close>

function Rm :: "nat \<Rightarrow> 'k fsys \<Rightarrow> string \<Rightarrow> 'k \<Rightarrow> (bool \<times> 'k) option"
  and Rm_entries :: "nat \<Rightarrow> 'k fsys \<Rightarrow> string \<Rightarrow> string list \<Rightarrow> bool \<Rightarrow> 'k \<Rightarrow> (bool \<times> 'k) option" where
  "Rm fuel F path k = (case fuel of 0 \<Rightarrow> None | Suc fuel' \<Rightarrow>
     (case fs_lstat F path k of
        None \<Rightarrow> Some (True, k)
      | Some st_mode \<Rightarrow>
         if st_mode AND S_IFDIR = 0 then Some (Unlink F path False k)
         else (case fs_opendir F path k of
             None \<Rightarrow> Some (False, k)
           | Some names \<Rightarrow> (case Rm_entries fuel' F path names True k of
                 None \<Rightarrow> None
               | Some (ret, k1) \<Rightarrow> (case fs_rmdir F path k1 of (gone, k2) \<Rightarrow> Some (ret \<and> gone, k2))))))"
| "Rm_entries fuel F path [] ret k = Some (ret, k)"
| "Rm_entries fuel F path (d # ds) ret k = (if d = ''.'' \<or> d = ''..'' then Rm_entries fuel F path ds ret k
     else (case Rm fuel F (path @ ''/'' @ d) k of
         None \<Rightarrow> None
       | Some (ret', k1) \<Rightarrow> Rm_entries fuel F path ds ret' k1))"
  by pat_completeness auto
termination
  by (relation "measures [\<lambda>x. case x of Inl (n, _) \<Rightarrow> n | Inr (n, _) \<Rightarrow> n,
      \<lambda>x. case x of Inl _ \<Rightarrow> 0 | Inr (n, F, p, ds, _) \<Rightarrow> Suc (length ds)]") auto

declare Rm.simps [simp del]

definition Mv :: "nat \<Rightarrow> 'k fsys \<Rightarrow> string \<Rightarrow> string \<Rightarrow> 'k \<Rightarrow> (bool \<times> 'k) option" where
  "Mv fuel F src dst k = (case Rm fuel F dst k of
       None \<Rightarrow> None
     | Some (False, k1) \<Rightarrow> Some (False, k1)
     | Some (True, k1) \<Rightarrow> Some (fs_rename F src dst k1))"

definition Symlink :: "nat \<Rightarrow> 'k fsys \<Rightarrow> string \<Rightarrow> string \<Rightarrow> 'k \<Rightarrow> (bool \<times> 'k) option" where
  "Symlink fuel F src dst k = (case Rm fuel F dst k of
       None \<Rightarrow> None
     | Some (False, k1) \<Rightarrow> Some (False, k1)
     | Some (True, k1) \<Rightarrow> Some (fs_symlink F src dst k1))"

definition Realpath :: "'k fsys \<Rightarrow> string \<Rightarrow> 'k \<Rightarrow> string option" where
  "Realpath F path k = (if fs_lstat F path k = None then None else fs_realpath F path k)"

text \<open>\<open>atoi\<close> gives the number of the process, as an \<open>int\<close>.\<close>

definition IsRunningPidfile :: "'k fsys \<Rightarrow> (string \<Rightarrow> int) \<Rightarrow> string \<Rightarrow> 'k \<Rightarrow> bool" where
  "IsRunningPidfile F atoi pidfile k = (if fs_lstat F pidfile k = None then False
     else case fs_getline F pidfile k of
       None \<Rightarrow> False
     | Some line \<Rightarrow> if line = [] then False
         else let pid = atoi line in if pid \<le> 1 then False else fs_kill F pid k)"

text \<open>The clock, from the seconds and microseconds of \<open>gettimeofday\<close>.\<close>

definition getCurrentMS :: "u64 \<Rightarrow> u64 \<Rightarrow> u64" where
  "getCurrentMS tv_sec tv_usec = tv_sec * 1000 + tv_usec div 1000"

definition getCurrentUS :: "u64 \<Rightarrow> u64 \<Rightarrow> u64" where
  "getCurrentUS tv_sec tv_usec = tv_sec * 1000 * 1000 + tv_usec"

section \<open>Texts of times and files\<close>

text \<open>\<open>None\<close> is a text that does not fit into the 64 bytes: what the buffer then holds is not defined.\<close>

definition Time2Str :: "('t \<Rightarrow> 'tm) \<Rightarrow> (nat \<Rightarrow> string \<Rightarrow> 'tm \<Rightarrow> string option) \<Rightarrow> 't \<Rightarrow> string \<Rightarrow> string option" where
  "Time2Str localtime_r strftime ts format = strftime 64 (c_str format) (localtime_r ts)"

definition Str2Time :: "(string \<Rightarrow> string \<Rightarrow> 'tm option) \<Rightarrow> ('tm \<Rightarrow> int) \<Rightarrow> string \<Rightarrow> string \<Rightarrow> int" where
  "Str2Time strptime mktime str format = (case strptime str format of None \<Rightarrow> 0 | Some t \<Rightarrow> mktime t)"

definition Formatv :: "(string \<Rightarrow> 'a list \<Rightarrow> string option) \<Rightarrow> string \<Rightarrow> 'a list \<Rightarrow> string" where
  "Formatv vasprintf fmt ap = (case vasprintf fmt ap of None \<Rightarrow> [] | Some buf \<Rightarrow> buf)"

text \<open>
  \<open>File::getContent\<close>: \<open>open_file\<close> gives the position of the end and the bytes that can be read.  The
  position is taken as an \<open>int\<close>; a negative size makes \<open>resize\<close> throw (\<open>None\<close>).
\<close>

definition getContent :: "(string \<Rightarrow> 'k \<Rightarrow> (nat \<times> bytes) option) \<Rightarrow> string \<Rightarrow> 'k \<Rightarrow> bytes option" where
  "getContent open_file path k = (case open_file path k of
       None \<Rightarrow> Some []
     | Some (tellg, content) \<Rightarrow> let fileSize = sint (word_of_nat tellg :: u32) in
         if fileSize < 0 then None
         else Some (take (nat fileSize) content @ replicate (nat fileSize - length content) 0))"

section \<open>Lemmas\<close>

text \<open>
  The test of one bit takes a socket (0140000) and a block device (0060000) for directories: they
  cannot be opened, so they are never removed.
\<close>

lemma socket_is_taken_for_directory: "0xC000 AND S_IFDIR \<noteq> 0 \<and> 0x6000 AND S_IFDIR \<noteq> 0 \<and> 0x8000 AND S_IFDIR = 0"
  by (simp add: S_IFDIR_def)

lemma Rm_socket:
  assumes "fs_lstat F path k = Some 0xC1ED" "fs_opendir F path k = None"
  shows "Rm (Suc n) F path k = Some (False, k)"
  using assms by (simp add: Rm.simps S_IFDIR_def)

text \<open>
  What \<open>Rm\<close> reports: when it is true the path is gone, if \<open>unlink\<close> and \<open>rmdir\<close> do what they report.
\<close>

definition removes :: "'k fsys \<Rightarrow> bool" where
  "removes F \<longleftrightarrow> (\<forall>p k k'. fs_unlink F p k = (True, k') \<longrightarrow> fs_lstat F p k' = None)
     \<and> (\<forall>p k k'. fs_rmdir F p k = (True, k') \<longrightarrow> fs_lstat F p k' = None)"

lemma Rm_true_removed:
  assumes "removes F" "Rm n F path k = Some (True, k')"
  shows "fs_lstat F path k' = None"
  using assms by (cases n) (auto simp: Rm.simps removes_def Unlink_def split: option.splits if_splits prod.splits)

text \<open>A file below 2 GB is read as it is; one of up to 4 GB throws.\<close>

lemma getContent_whole:
  assumes "open_file path k = Some (length content, content)" "length content < 2 ^ 31"
  shows "getContent open_file path k = Some content"
proof -
  have "sint (word_of_nat (length content) :: u32) = int (length content)"
    using assms(2) by (simp add: signed_of_nat signed_take_bit_int_eq_self)
  then show ?thesis by (simp add: getContent_def assms(1))
qed

lemma getContent_throws:
  assumes "open_file path k = Some (n, content)" "2 ^ 31 \<le> n" "n < 2 ^ 32"
  shows "getContent open_file path k = None"
proof -
  have "int n div 2147483648 = 1"
    using int_div_pos_eq [of "int n" 2147483648 1 "int n - 2147483648"] assms(2,3) by simp
  then have "signed_take_bit 31 (int n) = int n - 2 ^ 32" using assms(2,3) by (simp add: signed_take_bit_eq_take_bit_minus bit_iff_odd take_bit_int_eq_self)
  then have "sint (word_of_nat n :: u32) < 0" using assms(3) by (simp add: signed_of_nat)
  then show ?thesis by (simp add: getContent_def assms(1))
qed

text \<open>More fuel gives the same result.\<close>

lemma Rm_fuel:
  "Rm n F path k = Some r \<Longrightarrow> n \<le> m \<Longrightarrow> Rm m F path k = Some r"
  "Rm_entries n F path ds b k = Some r \<Longrightarrow> n \<le> m \<Longrightarrow> Rm_entries m F path ds b k = Some r"
proof (induction n F path k and n F path ds b k arbitrary: m r and m r rule: Rm_Rm_entries.induct)
  case (1 fuel F path k)
  show ?case
  proof (cases fuel)
    case 0
    with 1 show ?thesis by (simp add: Rm.simps)
  next
    case (Suc n)
    with "1.prems"(2) obtain l where l: "m = Suc l" "n \<le> l" by (cases m) auto
    show ?thesis
    proof (cases "\<exists>st names. fs_lstat F path k = Some st \<and> st AND S_IFDIR \<noteq> 0 \<and> fs_opendir F path k = Some names")
      case True
      then obtain st names where s: "fs_lstat F path k = Some st" "st AND S_IFDIR \<noteq> 0" "fs_opendir F path k = Some names" by blast
      with "1.prems"(1) Suc obtain q where q: "Rm_entries n F path names True k = Some q" by (auto simp: Rm.simps split: option.splits)
      from "1.IH" [OF Suc s q l(2)] have "Rm_entries l F path names True k = Some q" .
      with "1.prems"(1) Suc s q l show ?thesis by (simp add: Rm.simps)
    next
      case False
      then consider "fs_lstat F path k = None" | st where "fs_lstat F path k = Some st" "st AND S_IFDIR = 0"
        | st where "fs_lstat F path k = Some st" "st AND S_IFDIR \<noteq> 0" "fs_opendir F path k = None"
        by (cases "fs_lstat F path k"; cases "fs_opendir F path k") auto
      then show ?thesis using "1.prems"(1) Suc l by cases (simp_all add: Rm.simps)
    qed
  qed
next
  case (3 fuel F path d ds ret k)
  show ?case
  proof (cases "d = ''.'' \<or> d = ''..''")
    case True
    then have "Rm_entries fuel F path ds ret k = Some r" using "3.prems"(1) by simp
    from "3.IH"(1) [OF True this "3.prems"(2)] True show ?thesis by simp
  next
    case False
    have "Rm fuel F (path @ ''/'' @ d) k \<noteq> None" using "3.prems"(1) False by (cases "Rm fuel F (path @ ''/'' @ d) k") simp_all
    then obtain r1 k1 where 1: "Rm fuel F (path @ ''/'' @ d) k = Some (r1, k1)" by (metis not_None_eq surj_pair)
    with "3.prems"(1) False have 2: "Rm_entries fuel F path ds r1 k1 = Some r" by simp
    from "3.IH"(2) [OF False 1 "3.prems"(2)] "3.IH"(3) [OF False 1 refl 2 "3.prems"(2)] False show ?thesis by simp
  qed
qed simp

end
