(* ===== verification/Daemon.thy ===== *)
theory Daemon
  imports Cpp_Strings
begin

text \<open>
  \<^verbatim>\<open>src/daemon.cc\<close>: the process that starts the program, as it is or under a supervisor that forks a
  child and forks it again when it crashes.  \<open>fork\<close> and \<open>waitpid\<close> are given by what they return,
  turn by turn; \<open>getpid\<close> and \<open>time\<close> by their values.
\<close>

section \<open>State\<close>

record ProcessInfo =
  parent_id :: int
  main_id :: int
  parent_start_time :: u64
  main_start_time :: u64
  restart_count :: u32

definition new_ProcessInfo :: ProcessInfo where
  "new_ProcessInfo = \<lparr>parent_id = 0, main_id = 0, parent_start_time = 0, main_start_time = 0, restart_count = 0\<rparr>"

definition ProcessInfo_toString :: "(u64 \<Rightarrow> string) \<Rightarrow> ProcessInfo \<Rightarrow> string" where
  "ProcessInfo_toString time2str p = ''[ProcessInfo parent_id='' @ dec_int (parent_id p) @ '' main_id='' @ dec_int (main_id p)
     @ '' parent_start_time='' @ time2str (parent_start_time p) @ '' main_start_time='' @ time2str (main_start_time p)
     @ '' restart_count='' @ dec (unat (restart_count p)) @ '']''"

section \<open>The loop\<close>

text \<open>
  One turn, as the process meets it that returns from \<open>fork\<close>: in the child, with its number and the
  time; in the parent when it fails; in the parent with the child and the status it waited for.
\<close>

datatype fork_turn = InChild int u64 | ForkFails | InParent int int

definition real_start :: "(ProcessInfo \<Rightarrow> int) \<Rightarrow> int \<Rightarrow> u64 \<Rightarrow> ProcessInfo \<Rightarrow> int \<times> ProcessInfo" where
  "real_start main_cb pid now p = (let p' = p\<lparr>main_id := pid, main_start_time := now\<rparr> in (main_cb p', p'))"

text \<open>
  The result of the process, \<open>None\<close> when it is still in the loop after these turns; the sleeps
  between the restarts.
\<close>

fun daemon_loop :: "(ProcessInfo \<Rightarrow> int) \<Rightarrow> u32 \<Rightarrow> fork_turn list \<Rightarrow> ProcessInfo \<Rightarrow> int option \<times> ProcessInfo \<times> u32 list" where
  "daemon_loop main_cb interval [] p = (None, p, [])"
| "daemon_loop main_cb interval (InChild pid now # _) p =
     (case real_start main_cb pid now (p\<lparr>main_id := pid, main_start_time := now\<rparr>) of (r, p') \<Rightarrow> (Some r, p', []))"
| "daemon_loop main_cb interval (ForkFails # _) p = (Some (-1), p, [])"
| "daemon_loop main_cb interval (InParent pid status # turns) p =
     (if status \<noteq> 0 then
        (if status = 9 then (Some 0, p, [])
         else (case daemon_loop main_cb interval turns (p\<lparr>restart_count := restart_count p + 1\<rparr>) of
             (r, p', sleeps) \<Rightarrow> (r, p', interval # sleeps)))
      else (Some 0, p, []))"

definition real_daemon :: "(ProcessInfo \<Rightarrow> int) \<Rightarrow> u32 \<Rightarrow> int \<Rightarrow> u64 \<Rightarrow> fork_turn list \<Rightarrow> ProcessInfo
    \<Rightarrow> int option \<times> ProcessInfo \<times> u32 list" where
  "real_daemon main_cb interval pid now turns p = daemon_loop main_cb interval turns (p\<lparr>parent_id := pid, parent_start_time := now\<rparr>)"

definition start_daemon :: "(ProcessInfo \<Rightarrow> int) \<Rightarrow> u32 \<Rightarrow> bool \<Rightarrow> int \<Rightarrow> u64 \<Rightarrow> fork_turn list \<Rightarrow> ProcessInfo
    \<Rightarrow> int option \<times> ProcessInfo \<times> u32 list" where
  "start_daemon main_cb interval is_daemon pid now turns p =
    (if \<not> is_daemon then
       (case real_start main_cb pid now (p\<lparr>parent_id := pid, parent_start_time := now\<rparr>) of (r, p') \<Rightarrow> (Some r, p', []))
     else real_daemon main_cb interval pid now turns p)"

section \<open>Restarts\<close>

text \<open>A child that crashed: any status but that of a clean end and of \<open>SIGKILL\<close>.\<close>

definition crashed :: "fork_turn \<Rightarrow> bool" where
  "crashed t \<longleftrightarrow> (\<exists>pid status. t = InParent pid status \<and> status \<noteq> 0 \<and> status \<noteq> 9)"

text \<open>The status of a process that ends with \<open>exit(code)\<close> and that of one a signal kills.\<close>

definition status_exit :: "int \<Rightarrow> int" where
  "status_exit rc = (rc mod 256) * 256"

definition status_signal :: "nat \<Rightarrow> bool \<Rightarrow> int" where
  "status_signal sig core = int sig + (if core then 128 else 0)"

text \<open>Every crash is answered by one restart, after one sleep, and nothing else changes.\<close>

lemma daemon_crashes:
  assumes "list_all crashed ts"
  shows "daemon_loop main_cb interval (ts @ turns) p
    = (case daemon_loop main_cb interval turns (p\<lparr>restart_count := restart_count p + word_of_nat (length ts)\<rparr>) of
        (r, p', sleeps) \<Rightarrow> (r, p', replicate (length ts) interval @ sleeps))"
  using assms
proof (induction ts arbitrary: p)
  case (Cons t ts)
  then obtain pid status where t: "t = InParent pid status" "status \<noteq> 0" "status \<noteq> 9" by (auto simp: crashed_def)
  show ?case using Cons.prems Cons.IH [of "p\<lparr>restart_count := restart_count p + 1\<rparr>"]
    by (simp add: t add.assoc split: prod.splits)
qed (simp split: prod.splits)

text \<open>The supervisor is still there exactly when all its children so far have crashed.\<close>

lemma daemon_goes_on: "fst (daemon_loop main_cb interval turns p) = None \<longleftrightarrow> list_all crashed turns"
  by (induction main_cb interval turns p rule: daemon_loop.induct)
    (auto simp: crashed_def real_start_def split: prod.splits)

text \<open>A child knows how often it was started again, and its supervisor's number and start.\<close>

lemma child_knows_restarts:
  assumes "list_all crashed ts" "length ts < 2 ^ 32"
  shows "\<exists>p'. real_daemon main_cb interval pid now (ts @ [InChild cpid cnow]) new_ProcessInfo
      = (Some (main_cb p'), p', replicate (length ts) interval)
    \<and> unat (restart_count p') = length ts \<and> main_id p' = cpid \<and> parent_id p' = pid"
proof -
  have "unat (word_of_nat (length ts) :: u32) = length ts" using assms(2) by (simp add: unat_of_nat)
  then show ?thesis by (simp add: real_daemon_def daemon_crashes [OF assms(1)] real_start_def Let_def new_ProcessInfo_def)
qed

text \<open>
  A program that reports its failure with \<open>exit(0)\<close>, or with a code that is 0 modulo 256, is not
  started again; any other code and any signal but \<open>SIGKILL\<close> is a crash.
\<close>

lemma exit_restarts: "crashed (InParent pid (status_exit rc)) \<longleftrightarrow> rc mod 256 \<noteq> 0"
proof -
  have "status_exit rc \<noteq> 9" unfolding status_exit_def by presburger
  then show ?thesis by (simp add: crashed_def status_exit_def)
qed

lemma signal_restarts:
  assumes "0 < sig" "sig < 128"
  shows "crashed (InParent pid (status_signal sig core)) \<longleftrightarrow> sig \<noteq> 9 \<or> core"
  using assms by (auto simp: crashed_def status_signal_def)

end
