(* ===== verification/Http_Message.thy ===== *)
theory Http_Message
  imports Util Ordered_Map
begin

text \<open>
  \<^verbatim>\<open>http/http.h\<close> and \<^verbatim>\<open>http/http.cc\<close>: methods and statuses, requests and responses with their
  case-insensitive header maps, the parsing of query, body and cookie parameters, and the
  text that is sent.
\<close>

section \<open>Methods and statuses\<close>

datatype HttpMethod = DELETE | GET | HEAD | POST | PUT | CONNECT | OPTIONS | TRACE | COPY | LOCK
  | MKCOL | MOVE | PROPFIND | PROPPATCH | SEARCH | UNLOCK | BIND | REBIND | UNBIND | ACL | REPORT
  | MKACTIVITY | CHECKOUT | MERGE | MSEARCH | NOTIFY | SUBSCRIBE | UNSUBSCRIBE | PATCH | PURGE
  | MKCALENDAR | LINK | UNLINK | SOURCE | INVALID_METHOD

definition HTTP_METHOD_MAP :: "(HttpMethod \<times> string) list" where
  "HTTP_METHOD_MAP = [(DELETE, ''DELETE''), (GET, ''GET''), (HEAD, ''HEAD''), (POST, ''POST''),
     (PUT, ''PUT''), (CONNECT, ''CONNECT''), (OPTIONS, ''OPTIONS''), (TRACE, ''TRACE''),
     (COPY, ''COPY''), (LOCK, ''LOCK''), (MKCOL, ''MKCOL''), (MOVE, ''MOVE''),
     (PROPFIND, ''PROPFIND''), (PROPPATCH, ''PROPPATCH''), (SEARCH, ''SEARCH''),
     (UNLOCK, ''UNLOCK''), (BIND, ''BIND''), (REBIND, ''REBIND''), (UNBIND, ''UNBIND''),
     (ACL, ''ACL''), (REPORT, ''REPORT''), (MKACTIVITY, ''MKACTIVITY''), (CHECKOUT, ''CHECKOUT''),
     (MERGE, ''MERGE''), (MSEARCH, ''M-SEARCH''), (NOTIFY, ''NOTIFY''), (SUBSCRIBE, ''SUBSCRIBE''),
     (UNSUBSCRIBE, ''UNSUBSCRIBE''), (PATCH, ''PATCH''), (PURGE, ''PURGE''),
     (MKCALENDAR, ''MKCALENDAR''), (LINK, ''LINK''), (UNLINK, ''UNLINK''), (SOURCE, ''SOURCE'')]"

fun first_match :: "('a \<Rightarrow> bool) \<Rightarrow> (HttpMethod \<times> 'a) list \<Rightarrow> HttpMethod" where
  "first_match P [] = INVALID_METHOD"
| "first_match P ((m, s) # rest) = (if P s then m else first_match P rest)"

definition StringToHttpMethod :: "string \<Rightarrow> HttpMethod" where
  "StringToHttpMethod m = first_match (\<lambda>s. s = c_str m) HTTP_METHOD_MAP"

definition CharsToHttpMethod :: "string \<Rightarrow> HttpMethod" where
  "CharsToHttpMethod m = first_match (\<lambda>s. take (length s) m = s) HTTP_METHOD_MAP"

text \<open>The enumerators have the numbers 0 to 33 in the order of the map.\<close>

definition HttpMethodToString :: "HttpMethod \<Rightarrow> string" where
  "HttpMethodToString m = (case map_of HTTP_METHOD_MAP m of Some s \<Rightarrow> s | None \<Rightarrow> ''<unknown>'')"

text \<open>A status is its code; \<open>(HttpStatus)atoi(...)\<close> can produce codes outside the enumeration.\<close>

type_synonym HttpStatus = nat

definition HTTP_STATUS_MAP :: "(HttpStatus \<times> string) list" where
  "HTTP_STATUS_MAP = [(100, ''Continue''), (101, ''Switching Protocols''), (102, ''Processing''),
     (200, ''OK''), (201, ''Created''), (202, ''Accepted''), (203, ''Non-Authoritative Information''),
     (204, ''No Content''), (205, ''Reset Content''), (206, ''Partial Content''),
     (207, ''Multi-Status''), (208, ''Already Reported''), (226, ''IM Used''),
     (300, ''Multiple Choices''), (301, ''Moved Permanently''), (302, ''Found''), (303, ''See Other''),
     (304, ''Not Modified''), (305, ''Use Proxy''), (307, ''Temporary Redirect''),
     (308, ''Permanent Redirect''), (400, ''Bad Request''), (401, ''Unauthorized''),
     (402, ''Payment Required''), (403, ''Forbidden''), (404, ''Not Found''),
     (405, ''Method Not Allowed''), (406, ''Not Acceptable''),
     (407, ''Proxy Authentication Required''), (408, ''Request Timeout''), (409, ''Conflict''),
     (410, ''Gone''), (411, ''Length Required''), (412, ''Precondition Failed''),
     (413, ''Payload Too Large''), (414, ''URI Too Long''), (415, ''Unsupported Media Type''),
     (416, ''Range Not Satisfiable''), (417, ''Expectation Failed''), (421, ''Misdirected Request''),
     (422, ''Unprocessable Entity''), (423, ''Locked''), (424, ''Failed Dependency''),
     (426, ''Upgrade Required''), (428, ''Precondition Required''), (429, ''Too Many Requests''),
     (431, ''Request Header Fields Too Large''), (451, ''Unavailable For Legal Reasons''),
     (500, ''Internal Server Error''), (501, ''Not Implemented''), (502, ''Bad Gateway''),
     (503, ''Service Unavailable''), (504, ''Gateway Timeout''), (505, ''HTTP Version Not Supported''),
     (506, ''Variant Also Negotiates''), (507, ''Insufficient Storage''), (508, ''Loop Detected''),
     (510, ''Not Extended''), (511, ''Network Authentication Required'')]"

definition HttpStatusToString :: "HttpStatus \<Rightarrow> string" where
  "HttpStatusToString s = (case map_of HTTP_STATUS_MAP s of Some t \<Rightarrow> t | None \<Rightarrow> ''<unknown>'')"

section \<open>Header maps\<close>

text \<open>\<open>strcasecmp\<close> compares the C strings in lower case.\<close>

definition ci_key :: "string \<Rightarrow> nat list" where
  "ci_key s = map (\<lambda>c. code (to_lower c)) (c_str s)"

definition CaseInsensitiveLess :: "string \<Rightarrow> string \<Rightarrow> bool" where
  "CaseInsensitiveLess lhs rhs \<longleftrightarrow> ci_key lhs < ci_key rhs"

definition strcaseeq :: "string \<Rightarrow> string \<Rightarrow> bool" where
  "strcaseeq a b \<longleftrightarrow> ci_key a = ci_key b"

type_synonym MapType = "(string \<times> string) list"

definition map_get :: "MapType \<Rightarrow> string \<Rightarrow> string \<Rightarrow> string" where
  "map_get m key def = (case om_find ci_key m key of None \<Rightarrow> def | Some v \<Rightarrow> v)"

text \<open>\<open>cast\<close> is \<open>boost::lexical_cast\<close>, \<open>None\<close> when it throws.\<close>

definition getAs :: "(string \<Rightarrow> 'a option) \<Rightarrow> MapType \<Rightarrow> string \<Rightarrow> 'a \<Rightarrow> 'a" where
  "getAs cast m key def = (case om_find ci_key m key of None \<Rightarrow> def
     | Some s \<Rightarrow> (case cast s of None \<Rightarrow> def | Some v \<Rightarrow> v))"

definition checkGetAs :: "(string \<Rightarrow> 'a option) \<Rightarrow> MapType \<Rightarrow> string \<Rightarrow> 'a \<Rightarrow> bool \<times> 'a" where
  "checkGetAs cast m key def = (case om_find ci_key m key of None \<Rightarrow> (False, def)
     | Some s \<Rightarrow> (case cast s of None \<Rightarrow> (False, def) | Some v \<Rightarrow> (True, v)))"

section \<open>Requests\<close>

record HttpRequest =
  q_method :: HttpMethod
  q_version :: nat
  q_close :: bool
  q_websocket :: bool
  q_parserParamFlag :: nat
  q_path :: string
  q_query :: string
  q_fragment :: string
  q_body :: string
  q_headers :: MapType
  q_params :: MapType
  q_cookies :: MapType

definition new_HttpRequest :: "nat \<Rightarrow> bool \<Rightarrow> HttpRequest" where
  "new_HttpRequest version close = \<lparr>q_method = GET, q_version = version, q_close = close,
     q_websocket = False, q_parserParamFlag = 0, q_path = ''/'', q_query = [], q_fragment = [],
     q_body = [], q_headers = [], q_params = [], q_cookies = []\<rparr>"

definition getHeader :: "HttpRequest \<Rightarrow> string \<Rightarrow> string \<Rightarrow> string" where
  "getHeader q key def = map_get (q_headers q) key def"

definition setHeader :: "string \<Rightarrow> string \<Rightarrow> HttpRequest \<Rightarrow> HttpRequest" where
  "setHeader key val q = q\<lparr>q_headers := om_assign ci_key (q_headers q) key val\<rparr>"

definition setParam :: "string \<Rightarrow> string \<Rightarrow> HttpRequest \<Rightarrow> HttpRequest" where
  "setParam key val q = q\<lparr>q_params := om_assign ci_key (q_params q) key val\<rparr>"

definition setCookie :: "string \<Rightarrow> string \<Rightarrow> HttpRequest \<Rightarrow> HttpRequest" where
  "setCookie key val q = q\<lparr>q_cookies := om_assign ci_key (q_cookies q) key val\<rparr>"

definition delHeader :: "string \<Rightarrow> HttpRequest \<Rightarrow> HttpRequest" where
  "delHeader key q = q\<lparr>q_headers := om_erase ci_key (q_headers q) key\<rparr>"

definition delParam :: "string \<Rightarrow> HttpRequest \<Rightarrow> HttpRequest" where
  "delParam key q = q\<lparr>q_params := om_erase ci_key (q_params q) key\<rparr>"

definition delCookie :: "string \<Rightarrow> HttpRequest \<Rightarrow> HttpRequest" where
  "delCookie key q = q\<lparr>q_cookies := om_erase ci_key (q_cookies q) key\<rparr>"

definition hasHeader :: "HttpRequest \<Rightarrow> string \<Rightarrow> string option" where
  "hasHeader q key = om_find ci_key (q_headers q) key"

section \<open>Parameters\<close>

text \<open>
  The loop of \<open>PARSE_PARAM\<close> on the rest of the text at \<open>pos\<close>: the key runs to the next equals
  sign, the value to the next \<open>flag\<close>; \<open>insert\<close> keeps the first value of a key.
\<close>

function PARSE_PARAM :: "char \<Rightarrow> (string \<Rightarrow> string) \<Rightarrow> string \<Rightarrow> MapType \<Rightarrow> MapType" where
  "PARSE_PARAM flag trim rest m = (case find_idx (\<lambda>c. c = CHR ''='') rest of
       None \<Rightarrow> m
     | Some key \<Rightarrow> (let name = trim (take key rest); after = drop (Suc key) rest in
         case find_idx (\<lambda>c. c = flag) after of
           None \<Rightarrow> om_insert ci_key m name (UrlDecode after True)
         | Some e \<Rightarrow> PARSE_PARAM flag trim (drop (Suc e) after)
                      (om_insert ci_key m name (UrlDecode (take e after) True))))"
  by pat_completeness auto
termination
proof (relation "measure (\<lambda>(flag, trim, rest, m). length rest)")
  fix flag :: char and trim :: "string \<Rightarrow> string" and rest m key name after e
  assume "find_idx (\<lambda>c. c = CHR ''='') rest = Some key" "after = drop (Suc key) rest"
  then show "((flag, trim, drop (Suc e) after, om_insert ci_key m name (UrlDecode (take e after) True)),
      (flag, trim, rest, m)) \<in> measure (\<lambda>(flag, trim, rest, m). length rest)"
    by (auto dest: find_idx_less)
qed simp

declare PARSE_PARAM.simps [simp del]

definition initQueryParam :: "HttpRequest \<Rightarrow> HttpRequest" where
  "initQueryParam q = (if odd (q_parserParamFlag q) then q
     else q\<lparr>q_params := PARSE_PARAM CHR ''&'' id (q_query q) (q_params q),
            q_parserParamFlag := q_parserParamFlag q + 1\<rparr>)"

text \<open>\<open>strcasestr\<close>\<close>

definition strcasestr :: "string \<Rightarrow> string \<Rightarrow> bool" where
  "strcasestr hay needle \<longleftrightarrow> find_sub (ci_key needle) (ci_key hay) \<noteq> None"

definition initBodyParam :: "HttpRequest \<Rightarrow> HttpRequest" where
  "initBodyParam q = (if odd (q_parserParamFlag q div 2) then q
     else if \<not> strcasestr (getHeader q ''content-type'' []) ''application/x-www-form-urlencoded''
     then q\<lparr>q_parserParamFlag := q_parserParamFlag q + 2\<rparr>
     else q\<lparr>q_params := PARSE_PARAM CHR ''&'' id (q_body q) (q_params q),
            q_parserParamFlag := q_parserParamFlag q + 2\<rparr>)"

definition initCookies :: "HttpRequest \<Rightarrow> HttpRequest" where
  "initCookies q = (if odd (q_parserParamFlag q div 4) then q
     else let cookie = getHeader q ''cookie'' [] in
       if cookie = [] then q\<lparr>q_parserParamFlag := q_parserParamFlag q + 4\<rparr>
       else q\<lparr>q_cookies := PARSE_PARAM CHR '';'' (\<lambda>s. Trim s [CHR '' '', char_of (9 :: nat), char_of (13 :: nat), char_of (10 :: nat)])
                 cookie (q_cookies q),
              q_parserParamFlag := q_parserParamFlag q + 4\<rparr>)"

definition initParam :: "HttpRequest \<Rightarrow> HttpRequest" where
  "initParam q = initCookies (initBodyParam (initQueryParam q))"

definition getParam :: "string \<Rightarrow> string \<Rightarrow> HttpRequest \<Rightarrow> string \<times> HttpRequest" where
  "getParam key def q = (let q' = initBodyParam (initQueryParam q) in (map_get (q_params q') key def, q'))"

definition getCookie :: "string \<Rightarrow> string \<Rightarrow> HttpRequest \<Rightarrow> string \<times> HttpRequest" where
  "getCookie key def q = (let q' = initCookies q in (map_get (q_cookies q') key def, q'))"

text \<open>The typed accessors; the parameters and cookies are parsed first.\<close>

definition checkGetHeaderAs :: "(string \<Rightarrow> 'a option) \<Rightarrow> string \<Rightarrow> 'a \<Rightarrow> HttpRequest \<Rightarrow> bool \<times> 'a" where
  "checkGetHeaderAs cast key def q = checkGetAs cast (q_headers q) key def"

definition getHeaderAs :: "(string \<Rightarrow> 'a option) \<Rightarrow> string \<Rightarrow> 'a \<Rightarrow> HttpRequest \<Rightarrow> 'a" where
  "getHeaderAs cast key def q = getAs cast (q_headers q) key def"

definition checkGetParamAs :: "(string \<Rightarrow> 'a option) \<Rightarrow> string \<Rightarrow> 'a \<Rightarrow> HttpRequest \<Rightarrow> (bool \<times> 'a) \<times> HttpRequest" where
  "checkGetParamAs cast key def q = (let q' = initBodyParam (initQueryParam q) in (checkGetAs cast (q_params q') key def, q'))"

definition getParamAs :: "(string \<Rightarrow> 'a option) \<Rightarrow> string \<Rightarrow> 'a \<Rightarrow> HttpRequest \<Rightarrow> 'a \<times> HttpRequest" where
  "getParamAs cast key def q = (let q' = initBodyParam (initQueryParam q) in (getAs cast (q_params q') key def, q'))"

definition checkGetCookieAs :: "(string \<Rightarrow> 'a option) \<Rightarrow> string \<Rightarrow> 'a \<Rightarrow> HttpRequest \<Rightarrow> (bool \<times> 'a) \<times> HttpRequest" where
  "checkGetCookieAs cast key def q = (let q' = initCookies q in (checkGetAs cast (q_cookies q') key def, q'))"

definition getCookieAs :: "(string \<Rightarrow> 'a option) \<Rightarrow> string \<Rightarrow> 'a \<Rightarrow> HttpRequest \<Rightarrow> 'a \<times> HttpRequest" where
  "getCookieAs cast key def q = (let q' = initCookies q in (getAs cast (q_cookies q') key def, q'))"

definition hasParam :: "string \<Rightarrow> HttpRequest \<Rightarrow> string option \<times> HttpRequest" where
  "hasParam key q = (let q' = initBodyParam (initQueryParam q) in (om_find ci_key (q_params q') key, q'))"

definition hasCookie :: "string \<Rightarrow> HttpRequest \<Rightarrow> string option \<times> HttpRequest" where
  "hasCookie key q = (let q' = initCookies q in (om_find ci_key (q_cookies q') key, q'))"

text \<open>The connection header decides whether the connection is closed after the exchange.\<close>

definition init_request :: "HttpRequest \<Rightarrow> HttpRequest" where
  "init_request q = (let conn = getHeader q ''connection'' [] in
     if conn = [] then q
     else if strcaseeq conn ''keep-alive'' then q\<lparr>q_close := False\<rparr> else q\<lparr>q_close := True\<rparr>)"

definition crlf :: string where
  "crlf = [char_of (13 :: nat), char_of (10 :: nat)]"

definition dump_headers :: "bool \<Rightarrow> MapType \<Rightarrow> string" where
  "dump_headers websocket hs = concat (map (\<lambda>(k, v). k @ '': '' @ v @ crlf)
     (filter (\<lambda>(k, v). \<not> (\<not> websocket \<and> strcaseeq k ''connection'')) hs))"

definition dump_body :: "string \<Rightarrow> string" where
  "dump_body body = (if body \<noteq> [] then ''content-length: '' @ dec (length body) @ crlf @ crlf @ body
     else crlf)"

definition dump_version :: "nat \<Rightarrow> string" where
  "dump_version v = ''HTTP/'' @ dec (v div 16) @ ''.'' @ dec (v mod 16)"

definition dump_connection :: "bool \<Rightarrow> bool \<Rightarrow> string" where
  "dump_connection websocket close = (if \<not> websocket
     then ''connection: '' @ (if close then ''close'' else ''keep-alive'') @ crlf else [])"

definition dump_request :: "HttpRequest \<Rightarrow> string" where
  "dump_request q = HttpMethodToString (q_method q) @ '' '' @ q_path q
     @ (if q_query q = [] then [] else ''?'') @ q_query q
     @ (if q_fragment q = [] then [] else ''#'') @ q_fragment q
     @ '' '' @ dump_version (q_version q) @ crlf
     @ dump_connection (q_websocket q) (q_close q)
     @ dump_headers (q_websocket q) (q_headers q)
     @ dump_body (q_body q)"

section \<open>Responses\<close>

record HttpResponse =
  p_status :: HttpStatus
  p_version :: nat
  p_close :: bool
  p_websocket :: bool
  p_body :: string
  p_reason :: string
  p_headers :: MapType
  p_cookies :: "string list"

definition new_HttpResponse :: "nat \<Rightarrow> bool \<Rightarrow> HttpResponse" where
  "new_HttpResponse version close = \<lparr>p_status = 200, p_version = version, p_close = close,
     p_websocket = False, p_body = [], p_reason = [], p_headers = [], p_cookies = []\<rparr>"

definition createResponse :: "HttpRequest \<Rightarrow> HttpResponse" where
  "createResponse q = new_HttpResponse (q_version q) (q_close q)"

definition rsp_getHeader :: "HttpResponse \<Rightarrow> string \<Rightarrow> string \<Rightarrow> string" where
  "rsp_getHeader p key def = map_get (p_headers p) key def"

definition rsp_checkGetHeaderAs :: "(string \<Rightarrow> 'a option) \<Rightarrow> string \<Rightarrow> 'a \<Rightarrow> HttpResponse \<Rightarrow> bool \<times> 'a" where
  "rsp_checkGetHeaderAs cast key def p = checkGetAs cast (p_headers p) key def"

definition rsp_getHeaderAs :: "(string \<Rightarrow> 'a option) \<Rightarrow> string \<Rightarrow> 'a \<Rightarrow> HttpResponse \<Rightarrow> 'a" where
  "rsp_getHeaderAs cast key def p = getAs cast (p_headers p) key def"

definition rsp_setHeader :: "string \<Rightarrow> string \<Rightarrow> HttpResponse \<Rightarrow> HttpResponse" where
  "rsp_setHeader key val p = p\<lparr>p_headers := om_assign ci_key (p_headers p) key val\<rparr>"

definition rsp_delHeader :: "string \<Rightarrow> HttpResponse \<Rightarrow> HttpResponse" where
  "rsp_delHeader key p = p\<lparr>p_headers := om_erase ci_key (p_headers p) key\<rparr>"

definition setRedirect :: "string \<Rightarrow> HttpResponse \<Rightarrow> HttpResponse" where
  "setRedirect uri p = rsp_setHeader ''Location'' uri (p\<lparr>p_status := 302\<rparr>)"

text \<open>\<open>time2str\<close> is \<open>Time2Str\<close> with the format of the code.\<close>

definition rsp_setCookie :: "(int \<Rightarrow> string) \<Rightarrow> string \<Rightarrow> string \<Rightarrow> int \<Rightarrow> string \<Rightarrow> string \<Rightarrow> bool
    \<Rightarrow> HttpResponse \<Rightarrow> HttpResponse" where
  "rsp_setCookie time2str key val expired path domain secure p =
     p\<lparr>p_cookies := p_cookies p @ [key @ ''='' @ val
        @ (if 0 < expired then '';expires='' @ time2str expired @ '' GMT'' else [])
        @ (if domain \<noteq> [] then '';domain='' @ domain else [])
        @ (if path \<noteq> [] then '';path='' @ path else [])
        @ (if secure then '';secure'' else [])]\<rparr>"

definition dump_response :: "HttpResponse \<Rightarrow> string" where
  "dump_response p = dump_version (p_version p) @ '' '' @ dec (p_status p) @ '' ''
     @ (if p_reason p = [] then HttpStatusToString (p_status p) else p_reason p) @ crlf
     @ dump_headers (p_websocket p) (p_headers p)
     @ concat (map (\<lambda>c. ''Set-Cookie: '' @ c @ crlf) (p_cookies p))
     @ dump_connection (p_websocket p) (p_close p)
     @ dump_body (p_body p)"

end
