(* ===== verification/Byte_Array.thy ===== *)
theory Byte_Array
  imports Prelude
begin

text \<open>
  \<^verbatim>\<open>src/bytearray.cc\<close> and \<^verbatim>\<open>include/bytearray.h\<close>: the growable block buffer that all
  binary input and output goes through.  The chain of nodes that starts at \<open>m_root\<close> is the
  list \<open>m_nodes\<close> of the nodes' blocks; a \<open>Node*\<close> into the chain is an index, and the null
  pointer behind the last node is the index \<open>length m_nodes\<close>.  Sizes and positions are
  natural numbers (\<open>size_t\<close> values of objects that exist in memory stay below
  \<open>2 ^ 64\<close>); where a subtraction of the code can wrap, the wrap is written out.
  \<open>m_fresh\<close> stands for the bytes that \<open>new char[s]\<close> leaves uninitialised.  A failing
  operation yields its error and the state it leaves behind.
\<close>

section \<open>State\<close>

record bytearray =
  m_baseSize :: nat
  m_position :: nat
  m_capacity :: nat
  m_size :: nat
  m_endian :: endian
  m_nodes :: "bytes list"
  m_cur :: nat
  m_fresh :: "nat \<Rightarrow> u8"

text \<open>
  \<open>OutOfRange\<close> is the exception the code throws, \<open>NullDeref\<close> the dereference of the null
  pointer at the end of the chain, \<open>AllocFail\<close> the exception of \<open>std::string::resize\<close>,
  \<open>NegativeCount\<close> a call of \<open>ofstream::write\<close> with a negative count, and
  \<open>SignedOverflow\<close> an arithmetic operation on signed integers whose result does not fit its
  type, which is undefined behaviour.
\<close>

datatype ba_error = OutOfRange | NullDeref | AllocFail | NegativeCount | SignedOverflow

type_synonym 'a ba = "(bytearray, ba_error, 'a) exc"

definition Node :: "(nat \<Rightarrow> u8) \<Rightarrow> nat \<Rightarrow> bytes" where
  "Node fresh s = map fresh [0..<s]"

definition ByteArray :: "(nat \<Rightarrow> u8) \<Rightarrow> nat \<Rightarrow> bytearray" where
  "ByteArray fresh base_size = \<lparr>m_baseSize = base_size, m_position = 0, m_capacity = base_size,
     m_size = 0, m_endian = BigEndian, m_nodes = [Node fresh base_size], m_cur = 0,
     m_fresh = fresh\<rparr>"

definition isLittleEndian :: "bytearray \<Rightarrow> bool" where
  "isLittleEndian b \<longleftrightarrow> m_endian b = LittleEndian"

definition setIsLittleEndian :: "bool \<Rightarrow> bytearray \<Rightarrow> bytearray" where
  "setIsLittleEndian val b = b\<lparr>m_endian := (if val then LittleEndian else BigEndian)\<rparr>"

definition getCapacity :: "bytearray \<Rightarrow> nat" where
  "getCapacity b = m_capacity b - m_position b"

definition getReadSize :: "bytearray \<Rightarrow> nat" where
  "getReadSize b = m_size b - m_position b"

section \<open>Capacity, positioning and clearing\<close>

text \<open>
  \<open>ceil(1.0 * size / m_baseSize)\<close> is computed in \<open>double\<close>; below \<open>2 ^ 53\<close> it is the exact
  quotient rounded up, which is what the model uses.
\<close>

definition addCapacity :: "nat \<Rightarrow> bytearray \<Rightarrow> bytearray" where
  "addCapacity sz b =
    (if sz = 0 then b
     else let old_cap = getCapacity b in
       if sz \<le> old_cap then b
       else let need = sz - old_cap;
                count = (need + m_baseSize b - 1) div m_baseSize b;
                first = length (m_nodes b)
            in b\<lparr>m_nodes := m_nodes b @ replicate count (Node (m_fresh b) (m_baseSize b)),
                 m_capacity := m_capacity b + count * m_baseSize b,
                 m_cur := (if old_cap = 0 then first else m_cur b)\<rparr>)"

text \<open>
  The loop of \<open>setPosition\<close> over the chain: \<open>c\<close> is the index of the first node of the
  remaining chain; \<open>None\<close> is the dereference of the null pointer.
\<close>

fun setPosition_walk :: "bytes list \<Rightarrow> nat \<Rightarrow> nat \<Rightarrow> nat option" where
  "setPosition_walk [] c v = None"
| "setPosition_walk (x # xs) c v =
     (if length x < v then setPosition_walk xs (Suc c) (v - length x)
      else if v = length x then Some (Suc c) else Some c)"

definition setPosition :: "nat \<Rightarrow> unit ba" where
  "setPosition v b =
    (if m_capacity b < v then (Inl OutOfRange, b)
     else let b1 = b\<lparr>m_position := v, m_size := (if m_size b < v then v else m_size b)\<rparr>
          in case setPosition_walk (m_nodes b1) 0 v of
               None \<Rightarrow> (Inl NullDeref, b1)
             | Some c \<Rightarrow> (Inr (), b1\<lparr>m_cur := c\<rparr>))"

definition ba_clear :: "bytearray \<Rightarrow> bytearray" where
  "ba_clear b = b\<lparr>m_position := 0, m_size := 0, m_capacity := m_baseSize b,
     m_nodes := take 1 (m_nodes b), m_cur := 0\<rparr>"

section \<open>Raw reads and writes\<close>

text \<open>
  The copy loops, over the chain that starts at the current node: \<open>npos\<close> is the offset in
  its first block.  The result also says by how many nodes \<open>m_cur\<close> moves.
\<close>

fun write_chain :: "bytes list \<Rightarrow> nat \<Rightarrow> bytes \<Rightarrow> (bytes list \<times> nat) option" where
  "write_chain [] npos d = None"
| "write_chain (x # xs) npos d =
     (let ncap = length x - npos in
      if length d \<le> ncap
      then Some (blit x npos d # xs, if length x = npos + length d then 1 else 0)
      else case write_chain xs 0 (drop ncap d) of
             None \<Rightarrow> None
           | Some (xs', k) \<Rightarrow> Some (blit x npos (take ncap d) # xs', Suc k))"

definition ba_write :: "bytes \<Rightarrow> unit ba" where
  "ba_write d b0 =
    (if d = [] then (Inr (), b0)
     else let b = addCapacity (length d) b0;
              npos = m_position b mod m_baseSize b
          in case write_chain (drop (m_cur b) (m_nodes b)) npos d of
               None \<Rightarrow> (Inl NullDeref, b)
             | Some (chain, k) \<Rightarrow>
                 let pos = m_position b + length d
                 in (Inr (), b\<lparr>m_nodes := take (m_cur b) (m_nodes b) @ chain,
                               m_cur := m_cur b + k, m_position := pos,
                               m_size := (if m_size b < pos then pos else m_size b)\<rparr>))"

fun read_chain :: "bytes list \<Rightarrow> nat \<Rightarrow> nat \<Rightarrow> (bytes \<times> nat) option" where
  "read_chain [] npos n = None"
| "read_chain (x # xs) npos n =
     (let ncap = length x - npos in
      if n \<le> ncap
      then Some (take n (drop npos x), if 0 < n \<and> length x = npos + n then 1 else 0)
      else case read_chain xs 0 (n - ncap) of
             None \<Rightarrow> None
           | Some (d, k) \<Rightarrow> Some (take ncap (drop npos x) @ d, Suc k))"

definition ba_read :: "nat \<Rightarrow> bytes ba" where
  "ba_read n b =
    (if getReadSize b < n then (Inl OutOfRange, b)
     else case read_chain (drop (m_cur b) (m_nodes b)) (m_position b mod m_baseSize b) n of
            None \<Rightarrow> (Inl NullDeref, b)
          | Some (d, k) \<Rightarrow> (Inr d, b\<lparr>m_position := m_position b + n, m_cur := m_cur b + k\<rparr>))"

text \<open>
  The overload that takes a position: the difference \<open>m_size - position\<close> is unsigned and
  wraps, and the walk starts at \<open>m_cur\<close>, whatever the position.
\<close>

definition ba_read_at :: "nat \<Rightarrow> nat \<Rightarrow> bytearray \<Rightarrow> ba_error + bytes" where
  "ba_read_at n pos b =
    (if (m_size b + 2 ^ 64 - pos) mod 2 ^ 64 < n then Inl OutOfRange
     else case read_chain (drop (m_cur b) (m_nodes b)) (pos mod m_baseSize b) n of
            None \<Rightarrow> Inl NullDeref
          | Some (d, _) \<Rightarrow> Inr d)"

section \<open>Fixed-width integers\<close>

text \<open>
  \<open>host\<close> is the byte order of the machine (\<open>FLZ_BYTE_ORDER\<close>).  A signed and an unsigned
  integer of one width have the same code and the same bits, so one definition per width
  models both members.
\<close>

definition swapped :: "endian \<Rightarrow> bytearray \<Rightarrow> 'a::len word \<Rightarrow> 'a word" where
  "swapped host b v = (if m_endian b \<noteq> host then byteswap v else v)"

definition writeFint8 :: "endian \<Rightarrow> u8 \<Rightarrow> unit ba" where
  "writeFint8 host v = ba_write (mem_image host v)"

definition writeFint16 :: "endian \<Rightarrow> u16 \<Rightarrow> unit ba" where
  "writeFint16 host v b = ba_write (mem_image host (swapped host b v)) b"

definition writeFint32 :: "endian \<Rightarrow> u32 \<Rightarrow> unit ba" where
  "writeFint32 host v b = ba_write (mem_image host (swapped host b v)) b"

definition writeFint64 :: "endian \<Rightarrow> u64 \<Rightarrow> unit ba" where
  "writeFint64 host v b = ba_write (mem_image host (swapped host b v)) b"

definition readFint8 :: "endian \<Rightarrow> u8 ba" where
  "readFint8 host = ex_bind (ba_read 1) (\<lambda>bs. ex_return (mem_load host bs))"

definition readFint16 :: "endian \<Rightarrow> u16 ba" where
  "readFint16 host = ex_bind (ba_read 2) (\<lambda>bs b. ex_return (swapped host b (mem_load host bs)) b)"

definition readFint32 :: "endian \<Rightarrow> u32 ba" where
  "readFint32 host = ex_bind (ba_read 4) (\<lambda>bs b. ex_return (swapped host b (mem_load host bs)) b)"

definition readFint64 :: "endian \<Rightarrow> u64 ba" where
  "readFint64 host = ex_bind (ba_read 8) (\<lambda>bs b. ex_return (swapped host b (mem_load host bs)) b)"

text \<open>\<open>float\<close> and \<open>double\<close> travel as the integers of the same width that \<open>memcpy\<close> yields.\<close>

definition writeFloat :: "endian \<Rightarrow> u32 \<Rightarrow> unit ba" where
  "writeFloat host fbits = writeFint32 host fbits"

definition writeDouble :: "endian \<Rightarrow> u64 \<Rightarrow> unit ba" where
  "writeDouble host dbits = writeFint64 host dbits"

definition readFloat :: "endian \<Rightarrow> u32 ba" where
  "readFloat host = readFint32 host"

definition readDouble :: "endian \<Rightarrow> u64 ba" where
  "readDouble host = readFint64 host"

section \<open>Variable-length integers\<close>

text \<open>
  The result of an arithmetic operation on signed integers of the width of the type:
  \<open>None\<close> when the value does not fit it.
\<close>

definition signed_result :: "int \<Rightarrow> 'a::len word option" where
  "signed_result r = (if - (2 ^ (LENGTH('a) - 1)) \<le> r \<and> r < 2 ^ (LENGTH('a) - 1)
     then Some (word_of_int r) else None)"

text \<open>
  The zigzag maps.  The negation and the doubling of a non-negative value are computed in the
  signed type; the doubling of the magnitude of a negative one is computed in the unsigned type
  and wraps.
\<close>

definition EncodeZigzag32 :: "u32 \<Rightarrow> u32 option" where
  "EncodeZigzag32 v =
     (if sint v < 0
      then (case signed_result (- sint v) of None \<Rightarrow> None | Some (m :: u32) \<Rightarrow> Some (m * 2 - 1))
      else signed_result (sint v * 2))"

definition EncodeZigzag64 :: "u64 \<Rightarrow> u64 option" where
  "EncodeZigzag64 v =
     (if sint v < 0
      then (case signed_result (- sint v) of None \<Rightarrow> None | Some (m :: u64) \<Rightarrow> Some (m * 2 - 1))
      else signed_result (sint v * 2))"

definition DecodeZigzag32 :: "u32 \<Rightarrow> u32" where
  "DecodeZigzag32 v = drop_bit 1 v XOR - (v AND 1)"

definition DecodeZigzag64 :: "u64 \<Rightarrow> u64" where
  "DecodeZigzag64 v = drop_bit 1 v XOR - (v AND 1)"

text \<open>The loops that fill \<open>tmp\<close>.\<close>

function varint32 :: "u32 \<Rightarrow> bytes" where
  "varint32 v = (if 0x80 \<le> v then ((ucast v AND 0x7F) OR 0x80) # varint32 (drop_bit 7 v)
                 else [ucast v])"
  by pat_completeness auto
termination
proof (relation "measure unat")
  fix v :: u32
  assume "0x80 \<le> v"
  then have "0 < unat v" by (simp add: word_le_nat_alt)
  then show "(drop_bit 7 v, v) \<in> measure unat" by (simp add: unat_drop_bit)
qed simp

function varint64 :: "u64 \<Rightarrow> bytes" where
  "varint64 v = (if 0x80 \<le> v then ((ucast v AND 0x7F) OR 0x80) # varint64 (drop_bit 7 v)
                 else [ucast v])"
  by pat_completeness auto
termination
proof (relation "measure unat")
  fix v :: u64
  assume "0x80 \<le> v"
  then have "0 < unat v" by (simp add: word_le_nat_alt)
  then show "(drop_bit 7 v, v) \<in> measure unat" by (simp add: unat_drop_bit)
qed simp

declare varint32.simps [simp del] varint64.simps [simp del]

definition writeUint32 :: "u32 \<Rightarrow> unit ba" where
  "writeUint32 v = ba_write (varint32 v)"

definition writeUint64 :: "u64 \<Rightarrow> unit ba" where
  "writeUint64 v = ba_write (varint64 v)"

definition writeInt32 :: "u32 \<Rightarrow> unit ba" where
  "writeInt32 v = (case EncodeZigzag32 v of
       None \<Rightarrow> ex_throw SignedOverflow | Some w \<Rightarrow> writeUint32 w)"

definition writeInt64 :: "u64 \<Rightarrow> unit ba" where
  "writeInt64 v = (case EncodeZigzag64 v of
       None \<Rightarrow> ex_throw SignedOverflow | Some w \<Rightarrow> writeUint64 w)"

function readUint32_loop :: "endian \<Rightarrow> nat \<Rightarrow> u32 \<Rightarrow> u32 ba" where
  "readUint32_loop host i result b =
    (if i < 32
     then (case readFint8 host b of
             (Inl e, b') \<Rightarrow> (Inl e, b')
           | (Inr x, b') \<Rightarrow>
               if x < 0x80 then (Inr (result OR push_bit i (ucast x)), b')
               else readUint32_loop host (i + 7) (result OR push_bit i (ucast (x AND 0x7F))) b')
     else (Inr result, b))"
  by pat_completeness auto
termination by (relation "measure (\<lambda>(h, i, r, b). 32 - i)") auto

function readUint64_loop :: "endian \<Rightarrow> nat \<Rightarrow> u64 \<Rightarrow> u64 ba" where
  "readUint64_loop host i result b =
    (if i < 64
     then (case readFint8 host b of
             (Inl e, b') \<Rightarrow> (Inl e, b')
           | (Inr x, b') \<Rightarrow>
               if x < 0x80 then (Inr (result OR push_bit i (ucast x)), b')
               else readUint64_loop host (i + 7) (result OR push_bit i (ucast (x AND 0x7F))) b')
     else (Inr result, b))"
  by pat_completeness auto
termination by (relation "measure (\<lambda>(h, i, r, b). 64 - i)") auto

declare readUint32_loop.simps [simp del] readUint64_loop.simps [simp del]

definition readUint32 :: "endian \<Rightarrow> u32 ba" where
  "readUint32 host = readUint32_loop host 0 0"

definition readUint64 :: "endian \<Rightarrow> u64 ba" where
  "readUint64 host = readUint64_loop host 0 0"

definition readInt32 :: "endian \<Rightarrow> u32 ba" where
  "readInt32 host = ex_bind (readUint32 host) (\<lambda>v. ex_return (DecodeZigzag32 v))"

definition readInt64 :: "endian \<Rightarrow> u64 ba" where
  "readInt64 host = ex_bind (readUint64 host) (\<lambda>v. ex_return (DecodeZigzag64 v))"

section \<open>Strings\<close>

text \<open>
  \<open>limit\<close> is the greatest length the allocator serves: \<open>std::string::resize\<close> beyond it
  throws, before any byte of the string is read.
\<close>

definition writeStringF16 :: "endian \<Rightarrow> bytes \<Rightarrow> unit ba" where
  "writeStringF16 host v =
     ex_bind (writeFint16 host (word_of_nat (length v))) (\<lambda>_. ba_write v)"

definition writeStringF32 :: "endian \<Rightarrow> bytes \<Rightarrow> unit ba" where
  "writeStringF32 host v =
     ex_bind (writeFint32 host (word_of_nat (length v))) (\<lambda>_. ba_write v)"

definition writeStringF64 :: "endian \<Rightarrow> bytes \<Rightarrow> unit ba" where
  "writeStringF64 host v =
     ex_bind (writeFint64 host (word_of_nat (length v))) (\<lambda>_. ba_write v)"

definition writeStringVint :: "bytes \<Rightarrow> unit ba" where
  "writeStringVint v = ex_bind (writeUint64 (word_of_nat (length v))) (\<lambda>_. ba_write v)"

definition writeStringWithoutLength :: "bytes \<Rightarrow> unit ba" where
  "writeStringWithoutLength v = ba_write v"

definition read_resized :: "nat \<Rightarrow> nat \<Rightarrow> bytes ba" where
  "read_resized limit len = (if limit < len then ex_throw AllocFail else ba_read len)"

definition readStringF16 :: "endian \<Rightarrow> nat \<Rightarrow> bytes ba" where
  "readStringF16 host limit = ex_bind (readFint16 host) (\<lambda>len. read_resized limit (unat len))"

definition readStringF32 :: "endian \<Rightarrow> nat \<Rightarrow> bytes ba" where
  "readStringF32 host limit = ex_bind (readFint32 host) (\<lambda>len. read_resized limit (unat len))"

definition readStringF64 :: "endian \<Rightarrow> nat \<Rightarrow> bytes ba" where
  "readStringF64 host limit = ex_bind (readFint64 host) (\<lambda>len. read_resized limit (unat len))"

definition readStringVint :: "endian \<Rightarrow> nat \<Rightarrow> bytes ba" where
  "readStringVint host limit = ex_bind (readUint64 host) (\<lambda>len. read_resized limit (unat len))"

definition ba_toString :: "bytearray \<Rightarrow> ba_error + bytes" where
  "ba_toString b =
     (if getReadSize b = 0 then Inr [] else ba_read_at (getReadSize b) (m_position b) b)"

text \<open>\<open>setw(2) << setfill('0') << hex\<close>, a blank after each byte, 32 bytes on a line.\<close>

definition hex_char :: "nat \<Rightarrow> u8" where
  "hex_char d = word_of_nat (if d < 10 then 48 + d else 87 + d)"

definition toHexString :: "bytearray \<Rightarrow> ba_error + bytes" where
  "toHexString b = (case ba_toString b of
       Inl e \<Rightarrow> Inl e
     | Inr str \<Rightarrow> Inr (concat (map (\<lambda>i.
          (if 0 < i \<and> i mod 32 = 0 then [10] else [])
          @ [hex_char (unat (str ! i) div 16), hex_char (unat (str ! i) mod 16), 32])
          [0..<length str])))"

section \<open>Buffers for scatter and gather input and output\<close>

text \<open>
  An \<open>iovec\<close> points into one block: the node's index, the offset in its block, the length.
\<close>

type_synonym iovec = "nat \<times> nat \<times> nat"

fun iov_chain :: "bytes list \<Rightarrow> nat \<Rightarrow> nat \<Rightarrow> nat \<Rightarrow> iovec list option" where
  "iov_chain [] c npos len = None"
| "iov_chain (x # xs) c npos len =
     (let ncap = length x - npos in
      if len \<le> ncap then Some [(c, npos, len)]
      else case iov_chain xs (Suc c) 0 (len - ncap) of
             None \<Rightarrow> None
           | Some iovs \<Rightarrow> Some ((c, npos, ncap) # iovs))"

definition getReadBuffers :: "nat \<Rightarrow> bytearray \<Rightarrow> ba_error + iovec list \<times> nat" where
  "getReadBuffers len0 b =
    (let len = (if getReadSize b < len0 then getReadSize b else len0) in
     if len = 0 then Inr ([], 0)
     else case iov_chain (drop (m_cur b) (m_nodes b)) (m_cur b) (m_position b mod m_baseSize b) len of
            None \<Rightarrow> Inl NullDeref
          | Some iovs \<Rightarrow> Inr (iovs, len))"

text \<open>
  The overload with a position finds the node of that position, but clamps the length by
  what is readable from \<open>m_position\<close>.
\<close>

definition getReadBuffers_at :: "nat \<Rightarrow> nat \<Rightarrow> bytearray \<Rightarrow> ba_error + iovec list \<times> nat" where
  "getReadBuffers_at len0 pos b =
    (let len = (if getReadSize b < len0 then getReadSize b else len0) in
     if len = 0 then Inr ([], 0)
     else let count = pos div m_baseSize b in
          case iov_chain (drop count (m_nodes b)) count (pos mod m_baseSize b) len of
            None \<Rightarrow> Inl NullDeref
          | Some iovs \<Rightarrow> Inr (iovs, len))"

definition getWriteBuffers :: "nat \<Rightarrow> (iovec list \<times> nat) ba" where
  "getWriteBuffers len b0 =
    (if len = 0 then (Inr ([], 0), b0)
     else let b = addCapacity len b0 in
          case iov_chain (drop (m_cur b) (m_nodes b)) (m_cur b) (m_position b mod m_baseSize b) len of
            None \<Rightarrow> (Inl NullDeref, b)
          | Some iovs \<Rightarrow> (Inr (iovs, len), b))"

section \<open>Files\<close>

text \<open>
  The loop of \<open>writeToFile\<close>: the bytes that reach the file, over the chain at the current
  node.  A negative \<open>len\<close> is the error \<open>NegativeCount\<close>.
\<close>

fun writeToFile_loop :: "nat \<Rightarrow> bytes list \<Rightarrow> nat \<Rightarrow> nat \<Rightarrow> ba_error + bytes" where
  "writeToFile_loop base [] pos read_size = (if read_size = 0 then Inr [] else Inl NullDeref)"
| "writeToFile_loop base (x # xs) pos read_size =
    (if read_size = 0 then Inr []
     else let diff = pos mod base;
              chunk = (if base < read_size then base else read_size)
          in if chunk < diff then Inl NegativeCount
             else let len = chunk - diff in
                  case writeToFile_loop base xs (pos + len) (read_size - len) of
                    Inl e \<Rightarrow> Inl e
                  | Inr d \<Rightarrow> Inr (take len (drop diff x) @ d))"

definition writeToFile :: "bytearray \<Rightarrow> ba_error + bytes" where
  "writeToFile b =
     writeToFile_loop (m_baseSize b) (drop (m_cur b) (m_nodes b)) (m_position b) (getReadSize b)"

text \<open>
  \<open>readFromFile\<close> reads chunks of \<open>m_baseSize\<close> bytes; \<open>eof\<close> is set by the first read that
  comes back short.
\<close>

function readFromFile_loop :: "nat \<Rightarrow> bytes \<Rightarrow> unit ba" where
  "readFromFile_loop base src =
    (if base = 0 \<or> length src < base then ba_write src
     else ex_bind (ba_write (take base src)) (\<lambda>_. readFromFile_loop base (drop base src)))"
  by pat_completeness auto
termination by (relation "measure (\<lambda>(base, src). length src)") auto

declare readFromFile_loop.simps [simp del]

definition readFromFile :: "bytes \<Rightarrow> unit ba" where
  "readFromFile src b = readFromFile_loop (m_baseSize b) src b"

end
