(* ===== verification/Byte_File.thy ===== *)
theory Byte_File
  imports Prelude
begin

text \<open>
  The interface between a byte buffer with a cursor and the codecs that run on it.  The
  provider promises what \<open>put\<close>, \<open>get\<close> and \<open>seek\<close> do to the content and the cursor; the
  client proves once that what an encoder puts is what the matching decoder gets.  The
  provider of the code is \<open>ByteArray\<close>; the interpretation is in \<open>Byte_Array_Laws\<close>.
\<close>

locale byte_file =
  fixes put :: "bytes \<Rightarrow> ('s, 'e, unit) exc"
    and get :: "nat \<Rightarrow> ('s, 'e, bytes) exc"
    and seek :: "nat \<Rightarrow> ('s, 'e, unit) exc"
    and content :: "'s \<Rightarrow> bytes"
    and cursor :: "'s \<Rightarrow> nat"
    and conf :: "'s \<Rightarrow> 'c"
    and inv :: "'s \<Rightarrow> bool"
  assumes cursor_le: "inv s \<Longrightarrow> cursor s \<le> length (content s)"
    and put_law: "inv s \<Longrightarrow> \<exists>s'. put d s = (Inr (), s') \<and> inv s' \<and> conf s' = conf s
      \<and> cursor s' = cursor s + length d
      \<and> content s' = blit (content s) (cursor s) d"
    and get_law: "inv s \<Longrightarrow> 0 < n \<Longrightarrow> cursor s + n \<le> length (content s) \<Longrightarrow>
      \<exists>s'. get n s = (Inr (take n (drop (cursor s) (content s))), s') \<and> inv s'
        \<and> conf s' = conf s \<and> cursor s' = cursor s + n \<and> content s' = content s"
    and seek_law: "inv s \<Longrightarrow> p \<le> length (content s) \<Longrightarrow>
      \<exists>s'. seek p s = (Inr (), s') \<and> inv s' \<and> conf s' = conf s \<and> cursor s' = p
        \<and> content s' = content s"

context byte_file
begin

text \<open>The bytes \<open>bs\<close> lie ahead of the cursor.\<close>

definition ahead :: "'s \<Rightarrow> bytes \<Rightarrow> bool" where
  "ahead s bs \<longleftrightarrow> inv s \<and> (\<exists>rest. drop (cursor s) (content s) = bs @ rest)"

text \<open>
  Under the configuration \<open>c\<close>, the reader \<open>r\<close> turns the bytes \<open>bs\<close> into \<open>v\<close>, whatever
  follows them, and stops right behind them.
\<close>

definition decodes :: "'c \<Rightarrow> ('s, 'e, 'v) exc \<Rightarrow> bytes \<Rightarrow> 'v \<Rightarrow> bool" where
  "decodes c r bs v \<longleftrightarrow> (\<forall>s rest. conf s = c \<longrightarrow> ahead s (bs @ rest) \<longrightarrow>
     (\<exists>s'. r s = (Inr v, s') \<and> ahead s' rest \<and> conf s' = c
        \<and> cursor s' = cursor s + length bs \<and> content s' = content s))"

lemma decodesI:
  assumes "\<And>s rest. conf s = c \<Longrightarrow> ahead s (bs @ rest) \<Longrightarrow>
     \<exists>s'. r s = (Inr v, s') \<and> ahead s' rest \<and> conf s' = c
        \<and> cursor s' = cursor s + length bs \<and> content s' = content s"
  shows "decodes c r bs v"
  using assms unfolding decodes_def by blast

lemma decodesE:
  assumes "decodes c r bs v" "conf s = c" "ahead s (bs @ rest)"
  obtains s' where "r s = (Inr v, s')" "ahead s' rest" "conf s' = c"
    "cursor s' = cursor s + length bs" "content s' = content s"
  using assms unfolding decodes_def by blast

lemma decodes_return: "decodes c (ex_return v) [] v"
  by (rule decodesI) simp

lemma decodes_get:
  assumes "bs \<noteq> []" "n = length bs"
  shows "decodes c (get n) bs bs"
proof (rule decodesI)
  fix s rest
  assume c: "conf s = c" and a: "ahead s (bs @ rest)"
  from a obtain more where inv: "inv s" and more: "drop (cursor s) (content s) = bs @ rest @ more"
    unfolding ahead_def by auto
  have "length (drop (cursor s) (content s)) = length bs + length (rest @ more)"
    by (simp add: more)
  with cursor_le [OF inv] have le: "cursor s + length bs \<le> length (content s)" by simp
  have "0 < n" using assms by simp
  with get_law [OF inv, of n] le assms(2) obtain s' where
    s': "get n s = (Inr (take n (drop (cursor s) (content s))), s')" "inv s'" "conf s' = conf s"
      "cursor s' = cursor s + n" "content s' = content s" by blast
  have "take n (drop (cursor s) (content s)) = bs" using more assms(2) by simp
  moreover have "drop (cursor s') (content s') = rest @ more"
  proof -
    have "drop (cursor s') (content s') = drop n (drop (cursor s) (content s))"
      by (simp add: s' add.commute)
    then show ?thesis using more assms(2) by simp
  qed
  ultimately show "\<exists>s'. get n s = (Inr bs, s') \<and> ahead s' rest \<and> conf s' = c
      \<and> cursor s' = cursor s + length bs \<and> content s' = content s"
    using s' c assms(2) unfolding ahead_def by auto
qed

lemma decodes_bind:
  assumes "decodes c r bs v" "decodes c (f v) cs w"
  shows "decodes c (ex_bind r f) (bs @ cs) w"
proof (rule decodesI)
  fix s rest
  assume c: "conf s = c" and a: "ahead s ((bs @ cs) @ rest)"
  from a have "ahead s (bs @ cs @ rest)" by simp
  with assms(1) c obtain s1 where s1: "r s = (Inr v, s1)" "ahead s1 (cs @ rest)" "conf s1 = c"
    "cursor s1 = cursor s + length bs" "content s1 = content s" by (rule decodesE)
  from assms(2) s1(3,2) obtain s2 where s2: "f v s1 = (Inr w, s2)" "ahead s2 rest" "conf s2 = c"
    "cursor s2 = cursor s1 + length cs" "content s2 = content s1" by (rule decodesE)
  from s1 s2 show "\<exists>s'. ex_bind r f s = (Inr w, s') \<and> ahead s' rest \<and> conf s' = c
      \<and> cursor s' = cursor s + length (bs @ cs) \<and> content s' = content s"
    by (auto simp: ex_bind_ok)
qed

lemma decodes_map:
  assumes "decodes c r bs v" "\<And>s. conf s = c \<Longrightarrow> f v s = (Inr w, s)"
  shows "decodes c (ex_bind r f) bs w"
proof -
  have "decodes c (f v) [] w"
    by (rule decodesI) (auto simp: assms(2))
  with assms(1) have "decodes c (ex_bind r f) (bs @ []) w" by (rule decodes_bind)
  then show ?thesis by simp
qed

text \<open>Writers that put a known sequence of bytes at the cursor.\<close>

definition encodes :: "'c \<Rightarrow> ('s, 'e, unit) exc \<Rightarrow> bytes \<Rightarrow> bool" where
  "encodes c w bs \<longleftrightarrow> (\<forall>s. inv s \<longrightarrow> conf s = c \<longrightarrow>
     (\<exists>s'. w s = (Inr (), s') \<and> inv s' \<and> conf s' = c \<and> cursor s' = cursor s + length bs
        \<and> content s' = blit (content s) (cursor s) bs))"

lemma encodesE:
  assumes "encodes c w bs" "inv s" "conf s = c"
  obtains s' where "w s = (Inr (), s')" "inv s'" "conf s' = c"
    "cursor s' = cursor s + length bs" "content s' = blit (content s) (cursor s) bs"
  using assms unfolding encodes_def by blast

lemma encodes_put: "encodes c (put bs) bs"
  unfolding encodes_def using put_law by blast

lemma encodes_cong:
  assumes "encodes c w bs" "\<And>s. conf s = c \<Longrightarrow> w' s = w s"
  shows "encodes c w' bs"
  using assms unfolding encodes_def by simp

lemma encodes_bind:
  assumes "encodes c w bs" "encodes c (w' ()) cs"
  shows "encodes c (ex_bind w w') (bs @ cs)"
  unfolding encodes_def
proof (intro allI impI)
  fix s
  assume s: "inv s" "conf s = c"
  from assms(1) s obtain s1 where s1: "w s = (Inr (), s1)" "inv s1" "conf s1 = c"
    "cursor s1 = cursor s + length bs" "content s1 = blit (content s) (cursor s) bs"
    by (rule encodesE)
  from assms(2) s1(2,3) obtain s2 where s2: "w' () s1 = (Inr (), s2)" "inv s2" "conf s2 = c"
    "cursor s2 = cursor s1 + length cs" "content s2 = blit (content s1) (cursor s1) cs"
    by (rule encodesE)
  have "content s2 = blit (content s) (cursor s) (bs @ cs)"
    using s1 s2 blit_blit [OF cursor_le [OF s(1)]] by simp
  with s1 s2 show "\<exists>s'. ex_bind w w' s = (Inr (), s') \<and> inv s' \<and> conf s' = c
      \<and> cursor s' = cursor s + length (bs @ cs)
      \<and> content s' = blit (content s) (cursor s) (bs @ cs)"
    by (auto simp: ex_bind_ok)
qed

text \<open>What was encoded at the cursor is decoded after seeking back to it.\<close>

lemma encode_seek_decode:
  assumes inv: "inv s" and enc: "encodes (conf s) w bs" and dec: "decodes (conf s) r bs v"
  shows "\<exists>s1 s2 s3. w s = (Inr (), s1) \<and> cursor s1 = cursor s + length bs
    \<and> content s1 = blit (content s) (cursor s) bs \<and> inv s1
    \<and> seek (cursor s) s1 = (Inr (), s2) \<and> r s2 = (Inr v, s3)
    \<and> cursor s3 = cursor s1 \<and> content s3 = content s1 \<and> inv s3"
proof -
  from enc inv refl obtain s1 where s1: "w s = (Inr (), s1)" "inv s1" "conf s1 = conf s"
    "cursor s1 = cursor s + length bs" "content s1 = blit (content s) (cursor s) bs"
    by (rule encodesE)
  have len: "length (take (cursor s) (content s)) = cursor s"
    using cursor_le [OF inv] by simp
  have "cursor s \<le> length (content s1)" using s1(5) len by (simp add: blit_def)
  with seek_law [OF s1(2)] obtain s2 where s2: "seek (cursor s) s1 = (Inr (), s2)" "inv s2"
    "conf s2 = conf s1" "cursor s2 = cursor s" "content s2 = content s1" by blast
  have "drop (cursor s2) (content s2) = bs @ drop (cursor s + length bs) (content s)"
    using len by (simp add: s2 s1(5) blit_def)
  with s2 have "ahead s2 (bs @ [])" unfolding ahead_def by auto
  with dec s1 s2 obtain s3 where "r s2 = (Inr v, s3)" "ahead s3 []" "conf s3 = conf s"
    "cursor s3 = cursor s2 + length bs" "content s3 = content s2"
    by (metis decodesE)
  with s1 s2 show ?thesis
    by (intro exI [of _ s1] exI [of _ s2] exI [of _ s3]) (auto simp: ahead_def)
qed

end

end
