(* ===== verification/Byte_Array_Laws.thy ===== *)
theory Byte_Array_Laws
  imports Byte_Array Byte_File
begin

text \<open>
  The representation invariant of \<open>ByteArray\<close>, what each raw operation does to the content
  that the blocks hold, and the interpretation of the \<open>byte_file\<close> interface: the chain of
  blocks with its current node implements one flat file with a cursor.
\<close>

section \<open>Invariant and abstraction\<close>

definition ba_inv :: "bytearray \<Rightarrow> bool" where
  "ba_inv b \<longleftrightarrow> 0 < m_baseSize b \<and> m_nodes b \<noteq> []
     \<and> (\<forall>x \<in> set (m_nodes b). length x = m_baseSize b)
     \<and> m_capacity b = m_baseSize b * length (m_nodes b)
     \<and> m_position b \<le> m_size b \<and> m_size b \<le> m_capacity b
     \<and> m_cur b = m_position b div m_baseSize b"

definition ba_flat :: "bytearray \<Rightarrow> bytes" where
  "ba_flat b = concat (m_nodes b)"

definition ba_content :: "bytearray \<Rightarrow> bytes" where
  "ba_content b = take (m_size b) (ba_flat b)"

text \<open>What no operation but \<open>setIsLittleEndian\<close> changes.\<close>

definition ba_conf :: "bytearray \<Rightarrow> endian \<times> nat \<times> (nat \<Rightarrow> u8)" where
  "ba_conf b = (m_endian b, m_baseSize b, m_fresh b)"

lemma length_Node [simp]: "length (Node f s) = s"
  by (simp add: Node_def)

lemma length_ba_flat: "ba_inv b \<Longrightarrow> length (ba_flat b) = m_capacity b"
  by (simp add: ba_inv_def ba_flat_def length_concat_uniform)

lemma length_ba_content [simp]: "ba_inv b \<Longrightarrow> length (ba_content b) = m_size b"
  by (simp add: ba_content_def length_ba_flat) (simp add: ba_inv_def)

lemma ba_inv_ByteArray: "0 < n \<Longrightarrow> ba_inv (ByteArray f n)"
  by (simp add: ba_inv_def ByteArray_def)

lemma ba_content_ByteArray: "ba_content (ByteArray f n) = []"
  by (simp add: ba_content_def ByteArray_def)

lemma ba_inv_setIsLittleEndian: "ba_inv b \<Longrightarrow> ba_inv (setIsLittleEndian v b)"
  by (simp add: ba_inv_def setIsLittleEndian_def)

lemma ba_inv_clear: "ba_inv b \<Longrightarrow> ba_inv (ba_clear b)"
  by (cases "m_nodes b") (auto simp: ba_inv_def ba_clear_def)

lemma ba_content_clear: "ba_content (ba_clear b) = []"
  by (simp add: ba_content_def ba_clear_def)

section \<open>Capacity\<close>

lemma ceil_div_enough:
  fixes need base :: nat
  assumes "0 < base"
  shows "need \<le> (need + base - 1) div base * base"
proof -
  have "need + base - 1 < (need + base - 1) div base * base + base"
    using assms by (metis div_mult_mod_eq mod_less_divisor nat_add_left_cancel_less)
  then show ?thesis using assms by simp
qed

lemma addCapacity_inv:
  assumes "ba_inv b"
  shows "ba_inv (addCapacity n b)"
    and "m_position b + n \<le> m_capacity (addCapacity n b)"
    and "ba_content (addCapacity n b) = ba_content b"
    and "m_position (addCapacity n b) = m_position b"
    and "m_size (addCapacity n b) = m_size b"
    and "ba_conf (addCapacity n b) = ba_conf b"
    and "take (m_capacity b) (ba_flat (addCapacity n b)) = ba_flat b"
    and "m_capacity b \<le> m_capacity (addCapacity n b)"
proof -
  let ?base = "m_baseSize b"
  let ?need = "n - getCapacity b"
  let ?k = "(?need + ?base - 1) div ?base"
  have base: "0 < ?base" and pos: "m_position b \<le> m_capacity b" and size: "m_size b \<le> m_capacity b"
    using assms by (auto simp: ba_inv_def)
  note enough = ceil_div_enough [OF base, of ?need]
  have full: "m_position b div ?base = length (m_nodes b)" if "getCapacity b = 0"
  proof -
    have "m_position b = ?base * length (m_nodes b)"
      using that assms by (simp add: ba_inv_def getCapacity_def)
    then show ?thesis using base by simp
  qed
  show inv: "ba_inv (addCapacity n b)"
    using assms enough pos full
    by (auto simp: ba_inv_def addCapacity_def getCapacity_def Let_def algebra_simps)
  show "m_position b + n \<le> m_capacity (addCapacity n b)"
    using enough pos by (auto simp: addCapacity_def getCapacity_def Let_def)
  show "take (m_capacity b) (ba_flat (addCapacity n b)) = ba_flat b"
    using length_ba_flat [OF assms] by (simp add: ba_flat_def addCapacity_def Let_def)
  show "ba_content (addCapacity n b) = ba_content b"
    using length_ba_flat [OF assms] size
    by (simp add: ba_content_def ba_flat_def addCapacity_def Let_def)
qed (simp_all add: addCapacity_def Let_def ba_conf_def)

section \<open>The copy loops\<close>

lemma write_chain_ok:
  assumes "\<forall>x \<in> set chain. length x = n" "0 < n" "npos < n" "d \<noteq> []"
    "npos + length d \<le> n * length chain"
  shows "\<exists>chain'. write_chain chain npos d = Some (chain', (npos + length d) div n)
    \<and> concat chain' = blit (concat chain) npos d \<and> length chain' = length chain
    \<and> (\<forall>x \<in> set chain'. length x = n)"
  using assms
proof (induction chain arbitrary: npos d)
  case Nil
  then show ?case by simp
next
  case (Cons x xs)
  show ?case
  proof (cases "length d \<le> length x - npos")
    case True
    then have fits: "npos + length d \<le> n" using Cons.prems by auto
    have "(npos + length d) div n = (if n = npos + length d then 1 else 0)"
      using fits Cons.prems(2) by (auto simp: le_less)
    then show ?thesis
      using True fits Cons.prems by (simp add: Let_def blit_append_left)
  next
    case False
    let ?ncap = "n - npos" and ?d' = "drop (n - npos) d"
    have x: "length x = n" and ncap: "?ncap < length d" using False Cons.prems by auto
    have "0 + length ?d' \<le> n * length xs" using Cons.prems ncap by (auto simp: algebra_simps)
    with Cons.prems ncap obtain xs' where xs':
      "write_chain xs 0 ?d' = Some (xs', (0 + length ?d') div n)"
      "concat xs' = blit (concat xs) 0 ?d'" "length xs' = length xs" "\<forall>y \<in> set xs'. length y = n"
      using Cons.IH [of 0 ?d'] by auto
    have adv: "Suc (length ?d' div n) = (npos + length d) div n"
      by (rule Suc_div_eq) (use ncap Cons.prems in simp_all)
    have len: "length (concat xs) = n * length xs"
      by (rule length_concat_uniform) (use Cons.prems in auto)
    have "blit x npos (take ?ncap d) @ blit (concat xs) 0 ?d' = blit (x @ concat xs) npos d"
      using x Cons.prems len by (subst blit_split) auto
    with False x xs' adv Cons.prems ncap show ?thesis
      by (auto simp: Let_def min_def)
  qed
qed

lemma read_chain_ok:
  assumes "\<forall>x \<in> set chain. length x = n" "0 < n" "npos < n" "chain \<noteq> []"
    "npos + k \<le> n * length chain"
  shows "read_chain chain npos k = Some (take k (drop npos (concat chain)), (npos + k) div n)"
  using assms
proof (induction chain arbitrary: npos k)
  case Nil
  then show ?case by simp
next
  case (Cons x xs)
  show ?case
  proof (cases "k \<le> length x - npos")
    case True
    then have fits: "npos + k \<le> n" using Cons.prems by auto
    have "(npos + k) div n = (if 0 < k \<and> n = npos + k then 1 else 0)"
      using fits Cons.prems(2,3) by (auto simp: le_less)
    then show ?thesis using True fits Cons.prems by (simp add: Let_def)
  next
    case False
    let ?k' = "k - (n - npos)"
    have x: "length x = n" and ncap: "n - npos < k" using False Cons.prems by auto
    have le: "0 + ?k' \<le> n * length xs" using Cons.prems ncap by (auto simp: algebra_simps)
    have "xs \<noteq> []" using ncap Cons.prems by auto
    with Cons le have IH: "read_chain xs 0 ?k' = Some (take ?k' (drop 0 (concat xs)), (0 + ?k') div n)"
      by (intro Cons.IH) auto
    have adv: "Suc (?k' div n) = (npos + k) div n"
      by (rule Suc_div_eq) (use ncap Cons.prems in simp_all)
    show ?thesis using False x IH adv ncap Cons.prems by (simp add: Let_def)
  qed
qed

lemma setPosition_walk_ok:
  assumes "\<forall>x \<in> set chain. length x = n" "0 < n" "chain \<noteq> []" "v \<le> n * length chain"
  shows "setPosition_walk chain c v = Some (c + v div n)"
  using assms
proof (induction chain arbitrary: c v)
  case Nil
  then show ?case by simp
next
  case (Cons x xs)
  show ?case
  proof (cases "n < v")
    case True
    then have "xs \<noteq> []" "v - n \<le> n * length xs" using Cons.prems by auto
    with Cons have "setPosition_walk xs (Suc c) (v - n) = Some (Suc c + (v - n) div n)"
      by (intro Cons.IH) auto
    moreover have "v div n = Suc ((v - n) div n)"
      using True Cons.prems(2) by (simp add: le_div_geq)
    ultimately show ?thesis using True Cons.prems by simp
  next
    case False
    then show ?thesis using Cons.prems by (auto simp: le_less)
  qed
qed

section \<open>The raw operations on the abstract content\<close>

lemma drop_cur:
  assumes "ba_inv b" "m_position b < m_capacity b"
  defines "chain \<equiv> drop (m_cur b) (m_nodes b)"
  shows "chain \<noteq> []"
    and "m_cur b < length (m_nodes b)"
    and "\<forall>x \<in> set chain. length x = m_baseSize b"
    and "m_baseSize b * m_cur b + m_position b mod m_baseSize b = m_position b"
    and "m_baseSize b * length chain = m_capacity b - m_baseSize b * m_cur b"
    and "length (concat (take (m_cur b) (m_nodes b))) = m_baseSize b * m_cur b"
    and "ba_flat b = concat (take (m_cur b) (m_nodes b)) @ concat chain"
proof -
  have base: "0 < m_baseSize b" using assms by (simp add: ba_inv_def)
  have cur: "m_cur b = m_position b div m_baseSize b" using assms by (simp add: ba_inv_def)
  show lt: "m_cur b < length (m_nodes b)"
    using assms(1,2) cur base by (simp add: ba_inv_def less_mult_imp_div_less mult.commute)
  then show "chain \<noteq> []" by (simp add: chain_def)
  show "\<forall>x \<in> set chain. length x = m_baseSize b"
    using assms(1) unfolding ba_inv_def chain_def by (meson in_set_dropD)
  show "m_baseSize b * m_cur b + m_position b mod m_baseSize b = m_position b"
    by (simp add: cur)
  show "m_baseSize b * length chain = m_capacity b - m_baseSize b * m_cur b"
    using assms(1) by (simp add: ba_inv_def chain_def diff_mult_distrib2)
  have "\<forall>x \<in> set (take (m_cur b) (m_nodes b)). length x = m_baseSize b"
    using assms(1) unfolding ba_inv_def by (meson in_set_takeD)
  from length_concat_uniform [OF this]
  show "length (concat (take (m_cur b) (m_nodes b))) = m_baseSize b * m_cur b"
    using lt by simp
  show "ba_flat b = concat (take (m_cur b) (m_nodes b)) @ concat chain"
    unfolding ba_flat_def chain_def by (metis append_take_drop_id concat_append)
qed

lemma ba_write_spec:
  assumes inv: "ba_inv b"
  shows "\<exists>b'. ba_write d b = (Inr (), b') \<and> ba_inv b' \<and> ba_conf b' = ba_conf b
    \<and> m_position b' = m_position b + length d
    \<and> m_size b' = max (m_size b) (m_position b + length d)
    \<and> ba_content b' = blit (ba_content b) (m_position b) d"
proof (cases "d = []")
  case True
  moreover have "m_position b \<le> length (ba_content b)"
    using inv by simp (simp add: ba_inv_def)
  ultimately show ?thesis using inv by (auto simp: ba_write_def ba_inv_def)
next
  case False
  define c where "c = addCapacity (length d) b"
  note cap = addCapacity_inv [OF inv, of "length d", folded c_def]
  note dc = drop_cur [OF cap(1)]
  let ?n = "m_baseSize c" and ?npos = "m_position c mod m_baseSize c"
  let ?chain = "drop (m_cur c) (m_nodes c)" and ?pre = "take (m_cur c) (m_nodes c)"
  have n: "0 < ?n" using cap(1) by (simp add: ba_inv_def)
  have room: "m_position c + length d \<le> m_capacity c" using cap by simp
  with False have lt: "m_position c < m_capacity c" by (cases d) auto
  have fit: "?npos + length d \<le> ?n * length ?chain"
    using room dc(4,5) [OF lt] by linarith
  obtain chain' where ch: "write_chain ?chain ?npos d = Some (chain', (?npos + length d) div ?n)"
    "concat chain' = blit (concat ?chain) ?npos d" "length chain' = length ?chain"
    "\<forall>x \<in> set chain'. length x = ?n"
    using write_chain_ok [OF dc(3) [OF lt] n _ False fit] n by auto
  define b' where "b' = c\<lparr>m_nodes := ?pre @ chain', m_cur := m_cur c + (?npos + length d) div ?n,
    m_position := m_position c + length d,
    m_size := (if m_size c < m_position c + length d then m_position c + length d else m_size c)\<rparr>"
  have w: "ba_write d b = (Inr (), b')"
    using False ch(1) by (simp add: ba_write_def Let_def b'_def flip: c_def)
  have "(m_position c + length d) div ?n = m_cur c + (?npos + length d) div ?n"
  proof -
    have "m_position c + length d = ?n * m_cur c + (?npos + length d)" using dc(4) [OF lt] by simp
    then show ?thesis using n by (metis div_mult_self4 less_not_refl add.commute mult.commute)
  qed
  moreover have "\<forall>x \<in> set (?pre @ chain'). length x = ?n"
    using cap(1) ch(4) unfolding ba_inv_def by (auto dest: in_set_takeD)
  ultimately have inv': "ba_inv b'"
    using cap(1) ch(3) room dc(2) [OF lt] by (auto simp: ba_inv_def b'_def)
  have offset: "m_position c - ?n * m_cur c = ?npos"
    using dc(4) [OF lt] by (metis add_diff_cancel_left')
  have "ba_flat b' = concat ?pre @ blit (concat ?chain) ?npos d"
    by (simp add: ba_flat_def b'_def ch(2))
  also have "\<dots> = blit (ba_flat c) (m_position c) d"
    unfolding dc(7) [OF lt] using dc(4,6) [OF lt]
    by (subst blit_append_right) (simp_all add: offset)
  finally have flat: "ba_flat b' = blit (ba_flat c) (m_position c) d" .
  have size: "m_size b' = max (m_size c) (m_position c + length d)" by (simp add: b'_def)
  have "ba_content b' = blit (ba_content c) (m_position c) d"
    unfolding ba_content_def flat size
    by (rule take_blit_max) (use cap(1) room length_ba_flat [OF cap(1)] in \<open>auto simp: ba_inv_def\<close>)
  with w inv' size cap show ?thesis by (auto simp: b'_def ba_conf_def)
qed

lemma ba_read_spec:
  assumes inv: "ba_inv b" and n: "n \<le> getReadSize b" and lt: "m_position b < m_capacity b"
  shows "\<exists>b'. ba_read n b = (Inr (take n (drop (m_position b) (ba_content b))), b') \<and> ba_inv b'
    \<and> ba_conf b' = ba_conf b \<and> m_position b' = m_position b + n \<and> m_size b' = m_size b
    \<and> ba_flat b' = ba_flat b"
proof -
  note dc = drop_cur [OF inv lt]
  let ?n = "m_baseSize b" and ?npos = "m_position b mod m_baseSize b"
  let ?chain = "drop (m_cur b) (m_nodes b)"
  have base: "0 < ?n" using inv by (simp add: ba_inv_def)
  have size: "m_position b + n \<le> m_size b" "m_size b \<le> m_capacity b"
    using n inv by (auto simp: getReadSize_def ba_inv_def)
  have "?npos + n \<le> ?n * length ?chain" using size dc(4,5) by linarith
  with dc(1,3) base have rd: "read_chain ?chain ?npos n
      = Some (take n (drop ?npos (concat ?chain)), (?npos + n) div ?n)"
    by (intro read_chain_ok) auto
  have offset: "m_position b - ?n * m_cur b = ?npos"
    using dc(4) by (metis add_diff_cancel_left')
  have "drop ?npos (concat ?chain) = drop (m_position b) (ba_flat b)"
    unfolding dc(7) using dc(4,6) by (simp add: offset)
  then have bytes: "take n (drop ?npos (concat ?chain)) = take n (drop (m_position b) (ba_content b))"
    using size by (simp add: ba_content_def drop_take min_def)
  have "(m_position b + n) div ?n = m_cur b + (?npos + n) div ?n"
  proof -
    have "m_position b + n = ?n * m_cur b + (?npos + n)" using dc(4) by simp
    then show ?thesis using base by (metis div_mult_self4 less_not_refl add.commute mult.commute)
  qed
  with inv size have "ba_inv (b\<lparr>m_position := m_position b + n, m_cur := m_cur b + (?npos + n) div ?n\<rparr>)"
    by (auto simp: ba_inv_def)
  with rd bytes n show ?thesis
    by (simp add: ba_read_def ba_conf_def ba_flat_def)
qed

lemma ba_read_out_of_range: "getReadSize b < n \<Longrightarrow> ba_read n b = (Inl OutOfRange, b)"
  by (simp add: ba_read_def)

text \<open>An empty read at the end of a full chain dereferences the null current node.\<close>

lemma ba_read_zero_at_end:
  assumes "ba_inv b" "m_position b = m_capacity b"
  shows "ba_read 0 b = (Inl NullDeref, b)"
  using assms by (simp add: ba_read_def ba_inv_def getReadSize_def)

lemma setPosition_spec:
  assumes "ba_inv b" "v \<le> m_capacity b"
  shows "\<exists>b'. setPosition v b = (Inr (), b') \<and> ba_inv b' \<and> ba_conf b' = ba_conf b
    \<and> m_position b' = v \<and> m_size b' = max (m_size b) v \<and> ba_flat b' = ba_flat b"
proof -
  have "setPosition_walk (m_nodes b) 0 v = Some (0 + v div m_baseSize b)"
    using assms by (intro setPosition_walk_ok) (auto simp: ba_inv_def)
  with assms show ?thesis
    by (auto simp: setPosition_def Let_def ba_inv_def ba_conf_def ba_flat_def)
qed

lemma setPosition_out_of_range: "m_capacity b < v \<Longrightarrow> setPosition v b = (Inl OutOfRange, b)"
  by (simp add: setPosition_def)

section \<open>The flat file\<close>

interpretation ba: byte_file ba_write ba_read setPosition ba_content m_position ba_conf ba_inv
proof unfold_locales
  fix b :: bytearray
  assume "ba_inv b"
  then show "m_position b \<le> length (ba_content b)" by (simp) (simp add: ba_inv_def)
next
  fix b d
  assume "ba_inv b"
  from ba_write_spec [OF this, of d] show "\<exists>s'. ba_write d b = (Inr (), s') \<and> ba_inv s'
      \<and> ba_conf s' = ba_conf b \<and> m_position s' = m_position b + length d
      \<and> ba_content s' = blit (ba_content b) (m_position b) d" by blast
next
  fix b n
  assume inv: "ba_inv b" and n: "0 < n" "m_position b + n \<le> length (ba_content b)"
  then have "n \<le> getReadSize b" "m_position b < m_capacity b"
    by (auto simp: getReadSize_def ba_inv_def)
  from ba_read_spec [OF inv this] show "\<exists>s'. ba_read n b
      = (Inr (take n (drop (m_position b) (ba_content b))), s') \<and> ba_inv s'
      \<and> ba_conf s' = ba_conf b \<and> m_position s' = m_position b + n \<and> ba_content s' = ba_content b"
    unfolding ba_content_def by metis
next
  fix b p
  assume inv: "ba_inv b" and p: "p \<le> length (ba_content b)"
  then have le: "p \<le> m_size b" by simp
  then have "p \<le> m_capacity b" using inv by (simp add: ba_inv_def)
  from setPosition_spec [OF inv this] le show "\<exists>s'. setPosition p b = (Inr (), s') \<and> ba_inv s'
      \<and> ba_conf s' = ba_conf b \<and> m_position s' = p \<and> ba_content s' = ba_content b"
    unfolding ba_content_def by (metis max_absorb1)
qed

end
