(* ===== verification/Byte_Codec.thy ===== *)
theory Byte_Codec
  imports Byte_Array_Laws
begin

text \<open>
  The codecs of \<open>ByteArray\<close>: what each typed writer puts on the wire, and that the matching
  reader decodes it.  Every reader is related to the \<open>byte_file\<close> interface by \<open>decodes\<close>, so
  that a round trip is one application of \<open>ba.put_seek_decodes\<close>.
\<close>

section \<open>Fixed width\<close>

lemma swapped_image [enc_simps]:
  assumes "whole_bytes TYPE('a::len word)"
  shows "mem_image host (swapped host b (v :: 'a word)) = mem_image (m_endian b) v"
  by (cases host; cases "m_endian b")
    (auto simp: swapped_def mem_image_byteswap [OF assms], auto simp: mem_image_def)

lemma swapped_load [enc_simps]:
  assumes "whole_bytes TYPE('a::len word)"
  shows "swapped host b (mem_load host (mem_image (m_endian b) (v :: 'a word))) = v"
proof -
  have "mem_load host (mem_image (m_endian b) v)
      = mem_load host (mem_image host (swapped host b v))"
    by (simp add: swapped_image assms)
  also have "\<dots> = swapped host b v" by (rule mem_load_image [OF assms])
  finally show ?thesis using assms by (auto simp: swapped_def)
qed

lemma decodes_fixed:
  assumes "whole_bytes TYPE('a::len word)" "n = nbytes (v :: 'a word)" "0 < n"
  shows "ba.decodes c (ex_bind (ba_read n) (\<lambda>bs b. ex_return (swapped host b (mem_load host bs)) b))
    (mem_image (fst c) v) v"
proof (rule ba.decodes_map)
  show "ba.decodes c (ba_read n) (mem_image (fst c) v) (mem_image (fst c) v)"
    using assms by (intro ba.decodes_get) (auto simp flip: length_greater_0_conv)
  fix b
  assume "ba_conf b = c"
  then have "fst c = m_endian b" by (auto simp: ba_conf_def)
  then show "ex_return (swapped host b (mem_load host (mem_image (fst c) v))) b = (Inr v, b)"
    by (simp add: swapped_load assms)
qed

lemma decodes_readFint8: "ba.decodes c (readFint8 host) [v] v"
proof -
  have "ba.decodes c (readFint8 host) (mem_image host v) v"
    unfolding readFint8_def
    by (rule ba.decodes_map [where v = "mem_image host v"])
      (auto intro!: ba.decodes_get simp: mem_load_image [of host v, simplified])
  then show ?thesis by simp
qed

lemma decodes_readFint16: "ba.decodes c (readFint16 host) (mem_image (fst c) v) v"
  unfolding readFint16_def by (rule decodes_fixed) simp_all

lemma decodes_readFint32: "ba.decodes c (readFint32 host) (mem_image (fst c) v) v"
  unfolding readFint32_def by (rule decodes_fixed) simp_all

lemma decodes_readFint64: "ba.decodes c (readFint64 host) (mem_image (fst c) v) v"
  unfolding readFint64_def by (rule decodes_fixed) simp_all

lemma writeFint_wire [enc_simps]:
  "writeFint8 host w8 b = ba_write [w8] b"
  "writeFint16 host w16 b = ba_write (mem_image (m_endian b) w16) b"
  "writeFint32 host w32 b = ba_write (mem_image (m_endian b) w32) b"
  "writeFint64 host w64 b = ba_write (mem_image (m_endian b) w64) b"
  by (simp_all add: writeFint8_def writeFint16_def writeFint32_def writeFint64_def swapped_image)

section \<open>Varints\<close>

text \<open>The reference: base 128, least significant digit first, a marker on all but the last.\<close>

fun leb128 :: "nat \<Rightarrow> nat list" where
  "leb128 n = (if n < 128 then [n] else (n mod 128 + 128) # leb128 (n div 128))"

declare leb128.simps [simp del]

lemma marked_and: "(((x :: u8) AND 0x7F) OR 0x80) AND 0x7F = x AND mask 7"
proof -
  have "(0x80 :: u8) AND 0x7F = 0" by simp
  moreover have "(0x7F :: u8) = mask 7" by (simp add: mask_eq_exp_minus_1)
  ultimately show ?thesis by (simp add: bit.conj_disj_distrib2 and.assoc)
qed
lemma marked_digit:
  fixes v :: "'a::len word"
  assumes "8 \<le> LENGTH('a)"
  shows "(ucast ((((ucast v :: u8) AND 0x7F) OR 0x80) AND 0x7F) :: 'a word) = v AND mask 7"
  unfolding marked_and using assms by (intro bit_word_eqI) (auto simp: bit_simps)
lemma marked_ge: "\<not> ((x AND 0x7F) OR 0x80) < (0x80 :: u8)"
  by (simp add: not_less le_word_or1)
lemma digit_split:
  fixes v :: "'a::len word"
  shows "push_bit i (v AND mask 7) OR push_bit (i + 7) (drop_bit 7 v) = push_bit i v"
proof (rule bit_word_eqI)
  fix n
  assume n: "n < LENGTH('a)"
  show "bit (push_bit i (v AND mask 7) OR push_bit (i + 7) (drop_bit 7 v)) n = bit (push_bit i v) n"
  proof (cases "i + 7 \<le> n")
    case True
    then have "7 + (n - (i + 7)) = n - i" by simp
    with True n show ?thesis by (auto simp: bit_simps)
  next
    case False
    then show ?thesis using n by (auto simp: bit_simps)
  qed
qed

lemma varint_digit:
  fixes v :: "'a::len word"
  shows "((ucast v :: u8) AND 0x7F) OR 0x80 = word_of_nat (unat v mod 128 + 128)"
proof -
  let ?a = "(ucast v :: u8) AND 0x7F"
  have "(0x7F :: u8) = mask 7" by (simp add: mask_eq_exp_minus_1)
  moreover have "(ucast v :: u8) = word_of_nat (unat v)" by simp
  ultimately have "?a = take_bit 7 (word_of_nat (unat v))" (is "_ = ?b")
    by (simp only: take_bit_eq_mask)
  also have "\<dots> = word_of_nat (take_bit 7 (unat v))" by (rule take_bit_of_nat)
  also have "take_bit 7 (unat v) = unat v mod 128" by (simp add: take_bit_eq_mod)
  finally have a: "?a = word_of_nat (unat v mod 128)" .
  have "(0x7F :: u8) AND 0x80 = 0" by simp
  then have "?a AND 0x80 = 0" by (simp only: and.assoc and_zero_eq)
  then have "?a OR 0x80 = ?a + 0x80" by (simp only: disjunctive_add_eq_or)
  then show ?thesis by (simp add: a)
qed

lemma unat_small_iff:
  assumes "8 \<le> LENGTH('a)"
  shows "(0x80 :: 'a::len word) \<le> v \<longleftrightarrow> 128 \<le> unat v"
proof -
  have "(2::nat) ^ 8 \<le> 2 ^ LENGTH('a)" by (rule power_increasing) (use assms in simp_all)
  then have "(128 :: nat) mod 2 ^ LENGTH('a) = 128" by simp
  then have "unat (word_of_nat 128 :: 'a word) = 128" by (simp only: unat_of_nat)
  then have "unat (0x80 :: 'a word) = 128" by (simp only: of_nat_numeral)
  then show ?thesis by (simp add: word_le_nat_alt)
qed

lemma varint32_leb128: "varint32 v = map word_of_nat (leb128 (unat v))"
proof (induction v rule: varint32.induct)
  case (1 v)
  show ?case
  proof (cases "0x80 \<le> v")
    case True
    with 1 have "varint32 (drop_bit 7 v) = map word_of_nat (leb128 (unat v div 128))"
      by (simp add: unat_drop_bit)
    with True show ?thesis
      using unat_small_iff [of v]
      by (subst varint32.simps, subst leb128.simps) (simp add: varint_digit)
  next
    case False
    then show ?thesis
      using unat_small_iff [of v] by (subst varint32.simps, subst leb128.simps) simp
  qed
qed

lemma varint64_leb128: "varint64 v = map word_of_nat (leb128 (unat v))"
proof (induction v rule: varint64.induct)
  case (1 v)
  show ?case
  proof (cases "0x80 \<le> v")
    case True
    with 1 have "varint64 (drop_bit 7 v) = map word_of_nat (leb128 (unat v div 128))"
      by (simp add: unat_drop_bit)
    with True show ?thesis
      using unat_small_iff [of v]
      by (subst varint64.simps, subst leb128.simps) (simp add: varint_digit)
  next
    case False
    then show ?thesis
      using unat_small_iff [of v] by (subst varint64.simps, subst leb128.simps) simp
  qed
qed

lemma length_leb128: "n < 128 ^ k \<Longrightarrow> 0 < k \<Longrightarrow> length (leb128 n) \<le> k"
proof (induction k arbitrary: n)
  case 0
  then show ?case by simp
next
  case (Suc k)
  show ?case
  proof (cases "n < 128")
    case True
    then show ?thesis by (subst leb128.simps) simp
  next
    case False
    with Suc.prems have "n div 128 < 128 ^ k" "0 < k"
      by (auto simp: less_mult_imp_div_less mult.commute intro: Nat.gr0I)
    with Suc.IH have "length (leb128 (n div 128)) \<le> k" by blast
    with False show ?thesis by (subst leb128.simps) simp
  qed
qed

lemma length_varint32: "length (varint32 v) \<le> 5"
proof -
  have "unat v < 128 ^ 5" using unsigned_less [of v, where 'a = nat] by simp
  then show ?thesis by (simp add: varint32_leb128 length_leb128)
qed

lemma length_varint64: "length (varint64 v) \<le> 10"
proof -
  have "unat v < 128 ^ 10" using unsigned_less [of v, where 'a = nat] by simp
  then show ?thesis by (simp add: varint64_leb128 length_leb128)
qed

lemma readUint32_loop_step:
  assumes "i < 32"
  shows "readUint32_loop host i r = ex_bind (readFint8 host) (\<lambda>x.
    if x < 0x80 then ex_return (r OR push_bit i (ucast x))
    else readUint32_loop host (i + 7) (r OR push_bit i (ucast (x AND 0x7F))))"
  using assms
  by (intro ext, subst readUint32_loop.simps) (auto simp: ex_bind_def split: prod.splits sum.splits)

lemma readUint64_loop_step:
  assumes "i < 64"
  shows "readUint64_loop host i r = ex_bind (readFint8 host) (\<lambda>x.
    if x < 0x80 then ex_return (r OR push_bit i (ucast x))
    else readUint64_loop host (i + 7) (r OR push_bit i (ucast (x AND 0x7F))))"
  using assms
  by (intro ext, subst readUint64_loop.simps) (auto simp: ex_bind_def split: prod.splits sum.splits)

lemma small_digit:
  assumes "\<not> (0x80 :: 'a::len word) \<le> v" "8 \<le> LENGTH('a)"
  shows "(ucast v :: u8) < 0x80" "ucast (ucast v :: u8) = v"
proof -
  have v: "unat v < 128" using assms unat_small_iff [of v] by simp
  then have u: "unat (ucast v :: u8) = unat v" by (simp add: unsigned_ucast_eq take_bit_nat_eq_self)
  show "(ucast v :: u8) < 0x80" using v u by (simp add: word_less_nat_alt)
  have "unat (ucast (ucast v :: u8) :: 'a word) = take_bit LENGTH('a) (unat v)"
    by (subst unsigned_ucast_eq) (simp only: u)
  also have "\<dots> = unat v" by (rule take_bit_nat_eq_self) (rule unsigned_less)
  finally show "ucast (ucast v :: u8) = v" by (simp only: word_unat_eq_iff)
qed

lemma next_digit_fits:
  assumes "128 \<le> n" "n * 2 ^ i < (2 :: nat) ^ w"
  shows "i + 7 < w" "n div 128 * 2 ^ (i + 7) < 2 ^ w"
proof -
  have "128 * 2 ^ i \<le> n * 2 ^ i" using assms(1) by (rule mult_le_mono1)
  then have "128 * 2 ^ i < (2 :: nat) ^ w" using assms(2) by (rule le_less_trans)
  moreover have "(2 :: nat) ^ (i + 7) = 128 * 2 ^ i" by (simp add: power_add)
  ultimately have "(2 :: nat) ^ (i + 7) < 2 ^ w" by simp
  then show "i + 7 < w" by simp
  have "n div 128 * 128 * 2 ^ i \<le> n * 2 ^ i" by (intro mult_le_mono1) simp
  then have "n div 128 * 128 * 2 ^ i < 2 ^ w" using assms(2) by (rule le_less_trans)
  moreover have "n div 128 * 2 ^ (i + 7) = n div 128 * 128 * 2 ^ i" by (simp add: power_add)
  ultimately show "n div 128 * 2 ^ (i + 7) < 2 ^ w" by (simp only:)
qed

lemma decodes_readUint32_loop:
  "i < 32 \<Longrightarrow> unat v * 2 ^ i < 2 ^ 32 \<Longrightarrow>
   ba.decodes c (readUint32_loop host i r) (varint32 v) (r OR push_bit i v)"
proof (induction v arbitrary: i r rule: varint32.induct)
  case (1 v)
  show ?case
  proof (cases "0x80 \<le> v")
    case True
    note fits = next_digit_fits [OF _ "1.prems"(2)]
    have big: "128 \<le> unat v" using True unat_small_iff [of v] by simp
    have digit: "ucast ((((ucast v :: u8) AND 0x7F) OR 0x80) AND 0x7F) = v AND mask 7"
      by (rule marked_digit) simp
    let ?r = "r OR push_bit i (v AND mask 7)"
    have "ba.decodes c (readUint32_loop host (i + 7) ?r) (varint32 (drop_bit 7 v))
        (?r OR push_bit (i + 7) (drop_bit 7 v))"
      using True fits [OF big] by (intro "1.IH") (simp_all add: unat_drop_bit)
    moreover have "?r OR push_bit (i + 7) (drop_bit 7 v) = r OR push_bit i v"
      by (simp only: or.assoc digit_split)
    ultimately have "ba.decodes c (readUint32_loop host i r)
        ([((ucast v) AND 0x7F) OR 0x80] @ varint32 (drop_bit 7 v)) (r OR push_bit i v)"
      unfolding readUint32_loop_step [OF "1.prems"(1)]
      by (intro ba.decodes_bind [OF decodes_readFint8]) (simp only: marked_ge digit if_False)
    then show ?thesis using True by (subst varint32.simps) simp
  next
    case False
    have "ba.decodes c (readUint32_loop host i r) ([ucast v] @ []) (r OR push_bit i v)"
      unfolding readUint32_loop_step [OF "1.prems"(1)]
      by (rule ba.decodes_bind [OF decodes_readFint8])
        (simp add: small_digit [OF False] ba.decodes_return)
    then show ?thesis using False by (subst varint32.simps) simp
  qed
qed

lemma decodes_readUint64_loop:
  "i < 64 \<Longrightarrow> unat v * 2 ^ i < 2 ^ 64 \<Longrightarrow>
   ba.decodes c (readUint64_loop host i r) (varint64 v) (r OR push_bit i v)"
proof (induction v arbitrary: i r rule: varint64.induct)
  case (1 v)
  show ?case
  proof (cases "0x80 \<le> v")
    case True
    note fits = next_digit_fits [OF _ "1.prems"(2)]
    have big: "128 \<le> unat v" using True unat_small_iff [of v] by simp
    have digit: "ucast ((((ucast v :: u8) AND 0x7F) OR 0x80) AND 0x7F) = v AND mask 7"
      by (rule marked_digit) simp
    let ?r = "r OR push_bit i (v AND mask 7)"
    have "ba.decodes c (readUint64_loop host (i + 7) ?r) (varint64 (drop_bit 7 v))
        (?r OR push_bit (i + 7) (drop_bit 7 v))"
      using True fits [OF big] by (intro "1.IH") (simp_all add: unat_drop_bit)
    moreover have "?r OR push_bit (i + 7) (drop_bit 7 v) = r OR push_bit i v"
      by (simp only: or.assoc digit_split)
    ultimately have "ba.decodes c (readUint64_loop host i r)
        ([((ucast v) AND 0x7F) OR 0x80] @ varint64 (drop_bit 7 v)) (r OR push_bit i v)"
      unfolding readUint64_loop_step [OF "1.prems"(1)]
      by (intro ba.decodes_bind [OF decodes_readFint8]) (simp only: marked_ge digit if_False)
    then show ?thesis using True by (subst varint64.simps) simp
  next
    case False
    have "ba.decodes c (readUint64_loop host i r) ([ucast v] @ []) (r OR push_bit i v)"
      unfolding readUint64_loop_step [OF "1.prems"(1)]
      by (rule ba.decodes_bind [OF decodes_readFint8])
        (simp add: small_digit [OF False] ba.decodes_return)
    then show ?thesis using False by (subst varint64.simps) simp
  qed
qed

lemma decodes_readUint32: "ba.decodes c (readUint32 host) (varint32 v) v"
  using decodes_readUint32_loop [of 0 v c host 0] unsigned_less [of v, where 'a = nat]
  by (simp add: readUint32_def)

lemma decodes_readUint64: "ba.decodes c (readUint64 host) (varint64 v) v"
  using decodes_readUint64_loop [of 0 v c host 0] unsigned_less [of v, where 'a = nat]
  by (simp add: readUint64_def)

section \<open>Zigzag\<close>

definition zigzag :: "'a::len word \<Rightarrow> 'a word" where
  "zigzag v = (if sint v < 0 then (- v) * 2 - 1 else v * 2)"
definition unzigzag :: "'a::len word \<Rightarrow> 'a word" where
  "unzigzag v = drop_bit 1 v XOR - (v AND 1)"
lemma sint_bounds: fixes v :: "'a::len word"
  shows "- (2 ^ (LENGTH('a) - 1)) \<le> sint v" "sint v < 2 ^ (LENGTH('a) - 1)"
  using sint_range_size [of v] by (simp_all add: word_size)

lemma uint_zigzag: fixes v :: "'a::len word"
  shows "uint (zigzag v) = (if sint v < 0 then - 2 * sint v - 1 else 2 * sint v)"
proof -
  let ?N = "LENGTH('a)"
  have N: "(2::int) ^ ?N = 2 * 2 ^ (?N - 1)" using power_Suc [of "2::int" "?N - 1"] by simp
  show ?thesis
  proof (cases "sint v < 0")
    case True
    have zigzag: "zigzag v = word_of_int (- sint v * 2 - 1)"
      using True by (simp add: zigzag_def)
    have "uint (zigzag v) = (- sint v * 2 - 1) mod 2 ^ ?N"
      unfolding zigzag by (rule uint_word_of_int)
    also have "\<dots> = - sint v * 2 - 1"
      using True sint_bounds [of v] N by (intro mod_pos_pos_trivial) linarith+
    finally show ?thesis using True by simp
  next
    case False
    have zigzag: "zigzag v = word_of_int (sint v * 2)"
      using False by (simp add: zigzag_def)
    have "uint (zigzag v) = (sint v * 2) mod 2 ^ ?N"
      unfolding zigzag by (rule uint_word_of_int)
    also have "\<dots> = sint v * 2"
      using False sint_bounds [of v] N by (intro mod_pos_pos_trivial) linarith+
    finally show ?thesis using False by simp
  qed
qed
lemma odd_uint: "odd (uint v) \<longleftrightarrow> odd v"
  by (simp flip: bit_0 add: bit_uint_iff)

lemma drop_bit_one: "drop_bit 1 v = word_of_int (uint v div 2)"
  for v :: "'a::len word"
proof -
  have le: "uint v div 2 < 2 ^ LENGTH('a)" "0 \<le> uint v div 2"
    using uint_lt2p [of v] uint_ge_0 [of v] by linarith+
  have "uint (drop_bit 1 v) = uint v div 2"
    unfolding unsigned_drop_bit_eq using le by (simp add: drop_bit_eq_div take_bit_int_eq_self)
  then show ?thesis by (metis word_of_int_uint)
qed

lemma unzigzag_parity: "unzigzag v = word_of_int (if odd (uint v) then - (uint v div 2) - 1 else uint v div 2)"
proof (cases "odd v")
  case True
  then have one: "v AND 1 = 1" by (simp only: and_one_eq odd_iff_mod_2_eq_one)
  have "unzigzag v = NOT (word_of_int (uint v div 2))"
    by (simp only: unzigzag_def drop_bit_one one bit.xor_one_right)
  then show ?thesis using True by (simp add: odd_uint not_eq_complement)
next
  case False
  then have zero: "v AND 1 = 0" by (simp only: and_one_eq even_iff_mod_2_eq_zero not_not)
  have "unzigzag v = word_of_int (uint v div 2)"
    by (simp only: unzigzag_def drop_bit_one zero minus_zero xor.right_neutral)
  then show ?thesis using False by (simp add: odd_uint)
qed

lemma unzigzag_zigzag: "unzigzag (zigzag v) = v"
proof (cases "sint v < 0")
  case True
  then have "odd (uint (zigzag v))" "uint (zigzag v) div 2 = - sint v - 1" by (simp_all add: uint_zigzag)
  then show ?thesis by (simp add: unzigzag_parity)
next
  case False
  then have "even (uint (zigzag v))" "uint (zigzag v) div 2 = sint v" by (simp_all add: uint_zigzag)
  then show ?thesis by (simp add: unzigzag_parity)
qed

lemma zigzag_unzigzag: "zigzag (unzigzag w) = (w :: 'a::len word)"
proof -
  have "inj (zigzag :: 'a word \<Rightarrow> 'a word)" by (metis unzigzag_zigzag injI)
  then have "surj (zigzag :: 'a word \<Rightarrow> 'a word)" by (simp add: finite_UNIV_inj_surj)
  then obtain v where "w = zigzag v" by blast
  then show ?thesis by (simp add: unzigzag_zigzag)
qed

text \<open>
  The code's encoder is \<open>zigzag\<close> where its signed arithmetic is defined: above the least
  integer and below half of the greatest magnitude.
\<close>

lemma EncodeZigzag32_value:
  "EncodeZigzag32 v = (if - (2 ^ 31) < sint v \<and> sint v < 2 ^ 30 then Some (zigzag v) else None)"
  using sint_bounds [of v]
  by (auto simp: EncodeZigzag32_def signed_result_def zigzag_def)

lemma EncodeZigzag64_value:
  "EncodeZigzag64 v = (if - (2 ^ 63) < sint v \<and> sint v < 2 ^ 62 then Some (zigzag v) else None)"
  using sint_bounds [of v]
  by (auto simp: EncodeZigzag64_def signed_result_def zigzag_def)

lemmas EncodeZigzag_value = EncodeZigzag32_value EncodeZigzag64_value

lemma DecodeZigzag_unzigzag: "DecodeZigzag32 v32 = unzigzag v32" "DecodeZigzag64 v64 = unzigzag v64"
  by (simp_all add: DecodeZigzag32_def DecodeZigzag64_def unzigzag_def)

lemma eq_zigzag_iff: "zigzag v = w \<longleftrightarrow> unzigzag w = v" for w :: "'a::len word"
  using unzigzag_zigzag [of v] zigzag_unzigzag [of w] by metis

text \<open>The doubling of a large value and the negation of the least integer overflow.\<close>

lemma zigzag_overflows:
  "EncodeZigzag32 0x40000000 = None" "EncodeZigzag32 0x80000000 = None"
  "EncodeZigzag64 0x4000000000000000 = None" "EncodeZigzag64 0x8000000000000000 = None"
  by (simp_all add: EncodeZigzag32_def EncodeZigzag64_def signed_result_def)

lemma decodes_readInt32: "ba.decodes c (readInt32 host) (varint32 (zigzag v)) v"
  unfolding readInt32_def
  by (rule ba.decodes_map [OF decodes_readUint32]) (simp add: DecodeZigzag_unzigzag unzigzag_zigzag)

lemma decodes_readInt64: "ba.decodes c (readInt64 host) (varint64 (zigzag v)) v"
  unfolding readInt64_def
  by (rule ba.decodes_map [OF decodes_readUint64]) (simp add: DecodeZigzag_unzigzag unzigzag_zigzag)

section \<open>Encoders\<close>

lemma encodes_fixed:
  "ba.encodes c (writeFint8 host w8) [w8]"
  "ba.encodes c (writeFint16 host w16) (mem_image (fst c) w16)"
  "ba.encodes c (writeFint32 host w32) (mem_image (fst c) w32)"
  "ba.encodes c (writeFint64 host w64) (mem_image (fst c) w64)"
  by (rule ba.encodes_cong [OF ba.encodes_put], auto simp: writeFint_wire ba_conf_def)+

lemma encodes_varint:
  "ba.encodes c (writeUint32 w32) (varint32 w32)"
  "ba.encodes c (writeUint64 w64) (varint64 w64)"
  "EncodeZigzag32 v32 = Some w32 \<Longrightarrow> ba.encodes c (writeInt32 v32) (varint32 w32)"
  "EncodeZigzag64 v64 = Some w64 \<Longrightarrow> ba.encodes c (writeInt64 v64) (varint64 w64)"
  by (simp_all add: writeUint32_def writeUint64_def writeInt32_def writeInt64_def ba.encodes_put)

section \<open>Strings\<close>

lemma decodes_string:
  assumes "ba.decodes c r hb (word_of_nat (length v) :: 'a::len word)"
    "length v < 2 ^ LENGTH('a)" "length v \<le> limit" "v \<noteq> []"
  shows "ba.decodes c (ex_bind r (\<lambda>len. read_resized limit (unat len))) (hb @ v) v"
proof -
  have len: "unat (word_of_nat (length v) :: 'a word) = length v"
    using assms(2) by (simp add: unat_of_nat)
  have "ba.decodes c (read_resized limit (length v)) v v"
    using assms(3,4) by (simp add: read_resized_def ba.decodes_get)
  then have "ba.decodes c (read_resized limit (unat (word_of_nat (length v) :: 'a word))) v v"
    by (simp only: len)
  with assms(1) show ?thesis by (rule ba.decodes_bind)
qed

lemma encodes_string:
  "ba.encodes c (writeStringF16 host v) (mem_image (fst c) (word_of_nat (length v) :: u16) @ v)"
  "ba.encodes c (writeStringF32 host v) (mem_image (fst c) (word_of_nat (length v) :: u32) @ v)"
  "ba.encodes c (writeStringF64 host v) (mem_image (fst c) (word_of_nat (length v) :: u64) @ v)"
  "ba.encodes c (writeStringVint v) (varint64 (word_of_nat (length v)) @ v)"
  unfolding writeStringF16_def writeStringF32_def writeStringF64_def writeStringVint_def
  by (intro ba.encodes_bind encodes_fixed encodes_varint ba.encodes_put)+

section \<open>The end of the chain\<close>

text \<open>
  Reading does not change the capacity, and a write ends at the end of the chain exactly when it
  reaches beyond the old capacity, or up to it, and ends at a block boundary.
\<close>

definition keeps_capacity :: "'v ba \<Rightarrow> bool" where
  "keeps_capacity r \<longleftrightarrow> (\<forall>b. m_capacity (snd (r b)) = m_capacity b)"

lemma keeps_capacityD: "keeps_capacity r \<Longrightarrow> m_capacity (snd (r b)) = m_capacity b"
  by (simp add: keeps_capacity_def)

lemma keeps_capacity_ba_read: "keeps_capacity (ba_read n)"
  by (auto simp: keeps_capacity_def ba_read_def split: option.splits)

lemma keeps_capacity_bind_read:
  "(\<And>x b. snd (f x b) = b) \<Longrightarrow> keeps_capacity (ex_bind (ba_read n) f)"
  using keeps_capacity_ba_read [of n]
  by (auto simp: keeps_capacity_def ex_bind_def split: prod.splits sum.splits) (metis snd_conv)+

lemma keeps_capacity_readFint8: "m_capacity (snd (readFint8 h b)) = m_capacity b"
  by (rule keeps_capacityD) (simp add: readFint8_def keeps_capacity_bind_read)

lemma keeps_capacity_readUint64_loop: "m_capacity (snd (readUint64_loop h i r b)) = m_capacity b"
proof (induction h i r b rule: readUint64_loop.induct)
  case (1 h i r b)
  show ?case
    using keeps_capacity_readFint8 [of h b] "1.IH"
    by (subst readUint64_loop.simps) (auto split: prod.splits sum.splits)
qed

lemma keeps_capacity_read:
  "keeps_capacity (readFint16 h)" "keeps_capacity (readFint32 h)" "keeps_capacity (readFint64 h)"
  "keeps_capacity (readUint64 h)"
  by (simp_all add: readFint16_def readFint32_def readFint64_def keeps_capacity_bind_read)
    (simp add: keeps_capacity_def readUint64_def keeps_capacity_readUint64_loop)

lemma setPosition_capacity: "m_capacity (snd (setPosition v b)) = m_capacity b"
  by (simp add: setPosition_def Let_def split: option.splits)

lemma ba_write_capacity:
  "d \<noteq> [] \<Longrightarrow> m_capacity (snd (ba_write d b)) = m_capacity (addCapacity (length d) b)"
  by (auto simp: ba_write_def Let_def split: option.splits)

lemma round_up_eq:
  fixes need base :: nat
  assumes "0 < base"
  shows "need = (need + base - 1) div base * base \<longleftrightarrow> need mod base = 0"
proof
  assume "need mod base = 0"
  then obtain k where k: "need = base * k" by blast
  have "need + base - 1 = base * k + (base - 1)" using assms k by simp
  also have "\<dots> div base = k + (base - 1) div base" using assms by (simp only: div_mult_self4)
  finally show "need = (need + base - 1) div base * base" using assms k by simp
qed (metis mod_mult_self2_is_0)

lemma written_to_end:
  assumes inv: "ba_inv b" and d: "d \<noteq> []" and w: "ba_write d b = (Inr (), b1)"
  shows "m_position b1 = m_capacity b1 \<longleftrightarrow>
    m_capacity b \<le> m_position b + length d \<and> (m_position b + length d) mod m_baseSize b = 0"
proof -
  let ?c = "addCapacity (length d) b" and ?base = "m_baseSize b"
  have base: "0 < ?base" and cap: "m_capacity b = ?base * length (m_nodes b)"
    and pos: "m_position b \<le> m_capacity b" using inv by (auto simp: ba_inv_def)
  have p: "m_position b1 = m_position b + length d"
    using ba_write_spec [OF inv, of d] w by auto
  have c: "m_capacity b1 = m_capacity ?c" using ba_write_capacity [OF d, of b] w by simp
  show ?thesis
  proof (cases "m_position b + length d \<le> m_capacity b")
    case True
    then have "m_capacity ?c = m_capacity b" by (simp add: addCapacity_def getCapacity_def Let_def)
    then show ?thesis using True p c cap by auto
  next
    case False
    define need where "need = m_position b + length d - m_capacity b"
    have len: "m_position b + length d = m_capacity b + need" "0 < need"
      using False by (simp_all add: need_def)
    have "m_capacity ?c = m_capacity b + (need + ?base - 1) div ?base * ?base"
    proof -
      have "length d - (m_capacity b - m_position b) = need" "\<not> length d \<le> m_capacity b - m_position b"
        using False pos by (simp_all add: need_def)
      then show ?thesis using d by (simp add: addCapacity_def getCapacity_def Let_def)
    qed
    moreover have "(m_position b + length d) mod ?base = need mod ?base" using len cap by simp
    ultimately show ?thesis using round_up_eq [OF base, of need] p c len by simp
  qed
qed

end
