(* ===== verification/Byte_Buffers.thy ===== *)
theory Byte_Buffers
  imports Byte_Codec
begin

text \<open>
  The bulk operations of \<open>ByteArray\<close>: \<open>toString\<close>, the \<open>iovec\<close> lists for \<open>readv\<close> and
  \<open>writev\<close>, and the file operations, each related to the flat content.
\<close>

section \<open>Scatter and gather lists\<close>

text \<open>What \<open>writev\<close> takes from, and \<open>readv\<close> stores into, the memory an \<open>iovec\<close> names.\<close>

definition iov_bytes :: "bytes list \<Rightarrow> iovec \<Rightarrow> bytes" where
  "iov_bytes nodes v = (case v of (c, off, len) \<Rightarrow> take len (drop off (nodes ! c)))"

lemma iov_bytes_append [simp]:
  "iov_bytes (pre @ x # xs) (length pre, off, len) = take len (drop off x)"
  by (simp add: iov_bytes_def)

fun scatter :: "bytes list \<Rightarrow> iovec list \<Rightarrow> bytes \<Rightarrow> bytes list" where
  "scatter nodes [] d = nodes"
| "scatter nodes ((c, off, len) # iovs) d =
     scatter (nodes[c := blit (nodes ! c) off (take len d)]) iovs (drop len d)"

lemma iov_gather_ok:
  assumes "\<forall>x \<in> set chain. length x = n" "0 < n" "npos < n" "0 < len"
    "npos + len \<le> n * length chain"
  shows "\<exists>iovs. iov_chain chain (length pre) npos len = Some iovs
    \<and> concat (map (iov_bytes (pre @ chain)) iovs) = take len (drop npos (concat chain))"
  using assms
proof (induction chain arbitrary: pre npos len)
  case Nil
  then show ?case by simp
next
  case (Cons x xs)
  show ?case
  proof (cases "len \<le> length x - npos")
    case True
    then show ?thesis using Cons.prems by (simp add: Let_def)
  next
    case False
    let ?len = "len - (n - npos)"
    have x: "length x = n" and ncap: "n - npos < len" using False Cons.prems by auto
    have "\<exists>iovs. iov_chain xs (length (pre @ [x])) 0 ?len = Some iovs
        \<and> concat (map (iov_bytes ((pre @ [x]) @ xs)) iovs) = take ?len (drop 0 (concat xs))"
      by (rule Cons.IH) (use Cons.prems ncap in \<open>auto simp: algebra_simps\<close>)
    then obtain iovs where "iov_chain xs (Suc (length pre)) 0 ?len = Some iovs"
      "concat (map (iov_bytes (pre @ x # xs)) iovs) = take ?len (concat xs)"
      by auto
    with False x ncap Cons.prems show ?thesis
      by (auto simp: Let_def)
  qed
qed

lemma iov_scatter_ok:
  assumes "\<forall>x \<in> set chain. length x = n" "0 < n" "npos < n" "0 < len" "length d \<le> len"
    "npos + len \<le> n * length chain"
  shows "\<exists>iovs chain'. iov_chain chain (length pre) npos len = Some iovs
    \<and> scatter (pre @ chain) iovs d = pre @ chain' \<and> concat chain' = blit (concat chain) npos d
    \<and> length chain' = length chain \<and> (\<forall>x \<in> set chain'. length x = n)"
  using assms
proof (induction chain arbitrary: pre npos len d)
  case Nil
  then show ?case by simp
next
  case (Cons x xs)
  show ?case
  proof (cases "len \<le> length x - npos")
    case True
    then show ?thesis
      using Cons.prems by (auto simp: Let_def blit_append_left intro!: exI [of _ "blit x npos d # xs"])
  next
    case False
    let ?k = "n - npos"
    let ?x = "blit x npos (take ?k d)"
    have x: "length x = n" and ncap: "?k < len" using False Cons.prems by auto
    have "\<exists>iovs chain'. iov_chain xs (length (pre @ [?x])) 0 (len - ?k) = Some iovs
        \<and> scatter ((pre @ [?x]) @ xs) iovs (drop ?k d) = (pre @ [?x]) @ chain'
        \<and> concat chain' = blit (concat xs) 0 (drop ?k d)
        \<and> length chain' = length xs \<and> (\<forall>x \<in> set chain'. length x = n)"
      by (rule Cons.IH) (use Cons.prems ncap in \<open>auto simp: algebra_simps\<close>)
    then obtain iovs chain' where ih: "iov_chain xs (Suc (length pre)) 0 (len - ?k) = Some iovs"
      "scatter (pre @ ?x # xs) iovs (drop ?k d) = pre @ ?x # chain'"
      "concat chain' = blit (concat xs) 0 (drop ?k d)" "length chain' = length xs"
      "\<forall>x \<in> set chain'. length x = n" by auto
    have "length (concat xs) = n * length xs"
      by (rule length_concat_uniform) (use Cons.prems in auto)
    then have "length d \<le> ?k + length (concat xs)"
      using Cons.prems by auto
    then have "blit (x @ concat xs) npos d = ?x @ blit (concat xs) 0 (drop ?k d)"
      using x Cons.prems by (subst blit_split) auto
    with ih False x ncap Cons.prems show ?thesis
      by (auto simp: Let_def intro!: exI [of _ "?x # chain'"])
  qed
qed

lemma getReadBuffers_spec:
  assumes inv: "ba_inv b" and k: "k = min len0 (getReadSize b)"
  shows "\<exists>iovs. getReadBuffers len0 b = Inr (iovs, k)
    \<and> concat (map (iov_bytes (m_nodes b)) iovs) = take k (drop (m_position b) (ba_content b))"
proof (cases "k = 0")
  case True
  then show ?thesis using k by (auto simp: getReadBuffers_def Let_def min_def split: if_splits)
next
  case False
  let ?chain = "drop (m_cur b) (m_nodes b)" and ?pre = "take (m_cur b) (m_nodes b)"
  let ?npos = "m_position b mod m_baseSize b"
  have size: "m_position b + k \<le> m_size b" "m_size b \<le> m_capacity b"
    using k inv False by (auto simp: getReadSize_def ba_inv_def min_def split: if_splits)
  then have lt: "m_position b < m_capacity b" using False by linarith
  note dc = drop_cur [OF inv lt]
  have pre: "length ?pre = m_cur b" using dc(2) by simp
  have base: "0 < m_baseSize b" using inv by (simp add: ba_inv_def)
  have "?npos + k \<le> m_baseSize b * length ?chain" using size dc(4,5) by linarith
  from iov_gather_ok [OF dc(3) base _ _ this, of ?pre] False base obtain iovs where iovs:
    "iov_chain ?chain (length ?pre) ?npos k = Some iovs"
    "concat (map (iov_bytes (?pre @ ?chain)) iovs) = take k (drop ?npos (concat ?chain))"
    by auto
  have "m_position b - m_baseSize b * m_cur b = ?npos"
    using dc(4) by (metis add_diff_cancel_left')
  then have "drop ?npos (concat ?chain) = drop (m_position b) (ba_flat b)"
    unfolding dc(7) using dc(4,6) by simp
  then have "take k (drop ?npos (concat ?chain)) = take k (drop (m_position b) (ba_content b))"
    using size by (simp add: ba_content_def drop_take min_def)
  with iovs k False pre show ?thesis
    by (auto simp: getReadBuffers_def Let_def min_def split: if_splits)
qed

text \<open>
  The write buffers of \<open>len\<close> bytes, filled with the \<open>d\<close> bytes that arrive, and the position
  moved behind them: the content is overwritten at the cursor, as \<open>write\<close> would have done.
\<close>

definition fill_buffers :: "iovec list \<Rightarrow> bytes \<Rightarrow> bytearray \<Rightarrow> bytearray" where
  "fill_buffers iovs d b = b\<lparr>m_nodes := scatter (m_nodes b) iovs d\<rparr>"

lemma getWriteBuffers_spec:
  assumes inv: "ba_inv b" and len: "0 < len" "length d \<le> len"
  shows "\<exists>iovs b1 b2. getWriteBuffers len b = (Inr (iovs, len), b1) \<and> ba_inv b1
    \<and> ba_content b1 = ba_content b \<and> m_position b1 = m_position b \<and> ba_conf b1 = ba_conf b
    \<and> setPosition (m_position b + length d) (fill_buffers iovs d b1) = (Inr (), b2) \<and> ba_inv b2
    \<and> ba_conf b2 = ba_conf b \<and> m_position b2 = m_position b + length d
    \<and> ba_content b2 = blit (ba_content b) (m_position b) d"
proof -
  define c where "c = addCapacity len b"
  note cap = addCapacity_inv [OF inv, of len, folded c_def]
  let ?n = "m_baseSize c" and ?npos = "m_position c mod m_baseSize c"
  let ?chain = "drop (m_cur c) (m_nodes c)" and ?pre = "take (m_cur c) (m_nodes c)"
  have room: "m_position c + len \<le> m_capacity c" using cap by simp
  with len have lt: "m_position c < m_capacity c" by linarith
  note dc = drop_cur [OF cap(1) lt]
  have pre: "length ?pre = m_cur c" using dc(2) by simp
  have base: "0 < ?n" using cap(1) by (simp add: ba_inv_def)
  have "?npos + len \<le> ?n * length ?chain" using room dc(4,5) by linarith
  from iov_scatter_ok [OF dc(3) base _ len this, of ?pre] base pre obtain iovs chain' where sc:
    "iov_chain ?chain (m_cur c) ?npos len = Some iovs" "scatter (m_nodes c) iovs d = ?pre @ chain'"
    "concat chain' = blit (concat ?chain) ?npos d" "length chain' = length ?chain"
    "\<forall>x \<in> set chain'. length x = ?n" by auto
  define f where "f = fill_buffers iovs d c"
  have "\<forall>x \<in> set (?pre @ chain'). length x = ?n"
    using cap(1) sc(5) unfolding ba_inv_def by (auto dest: in_set_takeD)
  then have f: "ba_inv f"
    using cap(1) sc(2,4) dc(2) by (auto simp: f_def fill_buffers_def ba_inv_def)
  have offset: "m_position c - ?n * m_cur c = ?npos"
    using dc(4) by (metis add_diff_cancel_left')
  have "ba_flat f = concat ?pre @ blit (concat ?chain) ?npos d"
    by (simp add: f_def fill_buffers_def ba_flat_def sc(2,3))
  also have "\<dots> = blit (ba_flat c) (m_position c) d"
    unfolding dc(7) using dc(4,6) by (subst blit_append_right) (simp_all add: offset)
  finally have flat: "ba_flat f = blit (ba_flat c) (m_position c) d" .
  have fits: "m_position b + length d \<le> m_capacity f"
    using room len cap(4) by (simp add: f_def fill_buffers_def)
  from setPosition_spec [OF f fits] obtain b2 where b2:
    "setPosition (m_position b + length d) f = (Inr (), b2)" "ba_inv b2" "ba_conf b2 = ba_conf f"
    "m_position b2 = m_position b + length d" "m_size b2 = max (m_size f) (m_position b + length d)"
    "ba_flat b2 = ba_flat f" by blast
  have size: "m_size b2 = max (m_size c) (m_position c + length d)"
    using b2(5) cap(4) by (simp add: f_def fill_buffers_def)
  have "ba_content b2 = blit (ba_content c) (m_position c) d"
    unfolding ba_content_def b2(6) flat size
    by (rule take_blit_max)
      (use cap(1) room len length_ba_flat [OF cap(1)] in \<open>auto simp: ba_inv_def\<close>)
  moreover have "getWriteBuffers len b = (Inr (iovs, len), c)"
    using len sc(1) by (simp add: getWriteBuffers_def Let_def flip: c_def)
  moreover have "ba_conf f = ba_conf c" by (simp add: f_def fill_buffers_def ba_conf_def)
  ultimately show ?thesis
    using b2 cap unfolding f_def by (intro exI [of _ iovs] exI [of _ c] exI [of _ b2]) simp
qed

section \<open>Strings and files\<close>

lemma ba_toString_spec:
  assumes inv: "ba_inv b" and size: "m_size b < 2 ^ 64"
  shows "ba_toString b = Inr (drop (m_position b) (ba_content b))"
proof (cases "getReadSize b = 0")
  case True
  then show ?thesis using inv by (simp add: ba_toString_def getReadSize_def)
next
  case False
  have le: "m_position b \<le> m_size b" "m_size b \<le> m_capacity b" using inv by (auto simp: ba_inv_def)
  with False have lt: "m_position b < m_capacity b" by (simp add: getReadSize_def)
  have "(m_size b + 2 ^ 64 - m_position b) mod 2 ^ 64 = getReadSize b"
  proof -
    have "m_size b + 2 ^ 64 - m_position b = getReadSize b + 2 ^ 64"
      using le by (simp add: getReadSize_def)
    moreover have "getReadSize b < 2 ^ 64"
      using size unfolding getReadSize_def by (rule less_imp_diff_less)
    ultimately show ?thesis by (simp only: mod_add_self2 mod_less)
  qed
  moreover obtain b' where "ba_read (getReadSize b) b
      = (Inr (take (getReadSize b) (drop (m_position b) (ba_content b))), b')"
    using ba_read_spec [OF inv _ lt, of "getReadSize b"] by auto
  ultimately show ?thesis
    using False inv by (auto simp: ba_toString_def ba_read_at_def ba_read_def getReadSize_def
        split: option.splits)
qed

lemma writeToFile_loop_ok:
  assumes "\<forall>x \<in> set chain. length x = n" "0 < n" "pos mod n = 0" "rs \<le> n * length chain"
  shows "writeToFile_loop n chain pos rs = Inr (take rs (concat chain))"
  using assms
proof (induction chain arbitrary: pos rs)
  case Nil
  then show ?case by simp
next
  case (Cons x xs)
  show ?case
  proof (cases "n < rs")
    case True
    then have "writeToFile_loop n xs (pos + n) (rs - n) = Inr (take (rs - n) (concat xs))"
      using Cons.prems by (intro Cons.IH) auto
    with True Cons.prems show ?thesis by (simp add: Let_def)
  next
    case False
    then have "writeToFile_loop n xs (pos + rs) 0 = Inr []" by (cases xs) simp_all
    with False Cons.prems show ?thesis by (simp add: Let_def)
  qed
qed

lemma writeToFile_spec:
  assumes inv: "ba_inv b" and aligned: "m_position b mod m_baseSize b = 0"
  shows "writeToFile b = Inr (drop (m_position b) (ba_content b))"
proof (cases "getReadSize b = 0")
  case True
  then have "writeToFile b = Inr []"
    by (cases "drop (m_cur b) (m_nodes b)") (simp_all add: writeToFile_def)
  then show ?thesis using True inv by (simp add: getReadSize_def)
next
  case False
  have le: "m_position b \<le> m_size b" "m_size b \<le> m_capacity b" using inv by (auto simp: ba_inv_def)
  with False have lt: "m_position b < m_capacity b" by (simp add: getReadSize_def)
  note dc = drop_cur [OF inv lt]
  let ?chain = "drop (m_cur b) (m_nodes b)"
  have pos: "m_baseSize b * m_cur b = m_position b" using dc(4) aligned by simp
  have "getReadSize b \<le> m_baseSize b * length ?chain"
    using dc(5) pos le by (simp add: getReadSize_def)
  then have "writeToFile b = Inr (take (getReadSize b) (concat ?chain))"
    using dc(3) aligned inv unfolding writeToFile_def by (intro writeToFile_loop_ok) (auto simp: ba_inv_def)
  moreover have "concat ?chain = drop (m_position b) (ba_flat b)"
    unfolding dc(7) using dc(6) pos by simp
  ultimately show ?thesis by (simp add: ba_content_def drop_take getReadSize_def)
qed

lemma encodes_readFromFile_loop: "ba.encodes c (readFromFile_loop n src) src"
proof (induction n src rule: readFromFile_loop.induct)
  case (1 n src)
  show ?case
  proof (cases "n = 0 \<or> length src < n")
    case True
    then have "readFromFile_loop n src = ba_write src"
      by (intro ext) (simp add: readFromFile_loop.simps [of n src])
    then show ?thesis by (simp add: ba.encodes_put)
  next
    case False
    then have "readFromFile_loop n src
        = ex_bind (ba_write (take n src)) (\<lambda>_. readFromFile_loop n (drop n src))"
      by (intro ext) (simp add: readFromFile_loop.simps [of n src])
    moreover have "ba.encodes c (ex_bind (ba_write (take n src))
        (\<lambda>_. readFromFile_loop n (drop n src))) (take n src @ drop n src)"
      by (intro ba.encodes_bind ba.encodes_put 1 [OF False])
    ultimately show ?thesis by simp
  qed
qed

lemma encodes_readFromFile: "ba.encodes c (readFromFile src) src"
proof (rule ba.encodes_cong)
  show "ba.encodes c (readFromFile_loop (fst (snd c)) src) src" by (rule encodes_readFromFile_loop)
  show "ba_conf b = c \<Longrightarrow> readFromFile src b = readFromFile_loop (fst (snd c)) src b" for b
    by (auto simp: readFromFile_def ba_conf_def)
qed

end
