(* ===== verification/Socket_Stream.thy ===== *)
theory Socket_Stream
  imports Byte_Buffers
begin

text \<open>
  \<^verbatim>\<open>src/stream.cc\<close> and \<^verbatim>\<open>streams/socket_stream.cc\<close>: the loops that read and write a fixed
  number of bytes over calls that may transfer fewer.  The connection is modelled by what its
  \<open>recv\<close> calls will deliver and what its \<open>send\<close> calls will accept, so that every pattern of
  partial transfers and errors is an instance.
\<close>

section \<open>The connection\<close>

datatype recv_event = RecvErr nat | RecvData bytes

text \<open>
  \<open>s_in\<close>: the outcomes of the coming \<open>recv\<close> calls (\<open>RecvErr e\<close> returns \<open>- e\<close>, or bytes that have arrived);
  \<open>s_accept\<close>: the outcomes of the coming \<open>send\<close> calls (an error code, or the most bytes it
  takes), everything being accepted when the list is used up; \<open>s_out\<close>: what was sent.
\<close>

record sock =
  s_in :: "recv_event list"
  s_accept :: "int list"
  s_out :: bytes
  s_open :: bool

definition sock_recv :: "nat \<Rightarrow> sock \<Rightarrow> (int \<times> bytes) \<times> sock" where
  "sock_recv n s = (case s_in s of
       [] \<Rightarrow> ((0, []), s)
     | RecvErr e # evs \<Rightarrow> ((- int e, []), s\<lparr>s_in := evs\<rparr>)
     | RecvData d # evs \<Rightarrow>
         ((int (min n (length d)), take n d),
          s\<lparr>s_in := (if length d \<le> n then evs else RecvData (drop n d) # evs)\<rparr>))"

definition sock_send :: "bytes \<Rightarrow> sock \<Rightarrow> int \<times> sock" where
  "sock_send d s = (case s_accept s of
       [] \<Rightarrow> (int (length d), s\<lparr>s_out := s_out s @ d\<rparr>)
     | k # ks \<Rightarrow>
         if k \<le> 0 then (k, s\<lparr>s_accept := ks\<rparr>)
         else (min k (int (length d)), s\<lparr>s_accept := ks, s_out := s_out s @ take (nat k) d\<rparr>))"

definition sock_close :: "sock \<Rightarrow> sock" where
  "sock_close s = s\<lparr>s_open := False\<rparr>"

definition ss_read :: "nat \<Rightarrow> sock \<Rightarrow> (int \<times> bytes) \<times> sock" where
  "ss_read n s = (if \<not> s_open s then ((-1, []), s) else sock_recv n s)"

definition ss_write :: "bytes \<Rightarrow> sock \<Rightarrow> int \<times> sock" where
  "ss_write d s = (if \<not> s_open s then (-1, s) else sock_send d s)"

section \<open>Fixed-size transfers\<close>

text \<open>\<open>return length\<close> in a function that returns \<open>int\<close>.\<close>

definition to_int32 :: "nat \<Rightarrow> int" where
  "to_int32 n = sint (word_of_nat n :: u32)"

lemma to_int32_small:
  assumes "n < 2 ^ 31"
  shows "to_int32 n = int n"
proof -
  have "(word_of_nat n :: u32) = word_of_int (int n)" by simp
  then have "to_int32 n = (int n + 2 ^ 31) mod 2 ^ 32 - 2 ^ 31"
    unfolding to_int32_def by (simp only: int_word_sint) simp
  moreover have "(int n + 2 ^ 31) mod 2 ^ 32 = int n + 2 ^ 31"
    using assms by (intro mod_pos_pos_trivial) simp_all
  ultimately show ?thesis by simp
qed

text \<open>\<open>int64_t left = length\<close>: the loop is skipped when the length is \<open>2 ^ 63\<close> or more.\<close>

definition left_of :: "nat \<Rightarrow> nat" where
  "left_of len = (if 2 ^ 63 \<le> len then 0 else len)"

text \<open>
  The loops, over the virtual \<open>read\<close> and \<open>write\<close>; \<open>Inl\<close> is the early return of the result of
  the call that failed.
\<close>

function readFixSize_loop :: "(nat \<Rightarrow> 's \<Rightarrow> (int \<times> bytes) \<times> 's) \<Rightarrow> nat \<Rightarrow> bytes \<Rightarrow> 's \<Rightarrow> (int + bytes) \<times> 's" where
  "readFixSize_loop rd left acc s =
    (if left = 0 then (Inr acc, s)
     else case rd left s of
       ((len, d), s') \<Rightarrow> if len \<le> 0 then (Inl len, s')
          else readFixSize_loop rd (left - nat len) (acc @ d) s')"
  by pat_completeness auto
termination by (relation "measure (\<lambda>(rd, left, acc, s). left)") auto

function writeFixSize_loop :: "(bytes \<Rightarrow> 's \<Rightarrow> int \<times> 's) \<Rightarrow> bytes \<Rightarrow> 's \<Rightarrow> int option \<times> 's" where
  "writeFixSize_loop wr d s =
    (if d = [] then (None, s)
     else case wr d s of
       (len, s') \<Rightarrow> if len \<le> 0 then (Some len, s') else writeFixSize_loop wr (drop (nat len) d) s')"
  by pat_completeness auto
termination by (relation "measure (\<lambda>(wr, d, s). length d)") auto

declare readFixSize_loop.simps [simp del] writeFixSize_loop.simps [simp del]

definition readFixSize :: "(nat \<Rightarrow> 's \<Rightarrow> (int \<times> bytes) \<times> 's) \<Rightarrow> nat \<Rightarrow> 's \<Rightarrow> (int \<times> bytes) \<times> 's" where
  "readFixSize rd len s = (case readFixSize_loop rd (left_of len) [] s of
       (Inl e, s') \<Rightarrow> ((e, []), s')
     | (Inr d, s') \<Rightarrow> ((to_int32 len, d), s'))"

definition writeFixSize :: "(bytes \<Rightarrow> 's \<Rightarrow> int \<times> 's) \<Rightarrow> bytes \<Rightarrow> 's \<Rightarrow> int \<times> 's" where
  "writeFixSize wr d s = (case writeFixSize_loop wr d s of
       (Some e, s') \<Rightarrow> (e, s')
     | (None, s') \<Rightarrow> (to_int32 (length d), s'))"

section \<open>Transfers from and to a ByteArray\<close>

text \<open>
  \<open>read(ba, n)\<close> receives into the write buffers of the array and moves its position;
  \<open>write(ba, n)\<close> sends its read buffers.  A failure inside the array is \<open>Inl\<close>.
\<close>

definition ss_read_ba :: "nat \<Rightarrow> bytearray \<times> sock \<Rightarrow> (ba_error + int) \<times> bytearray \<times> sock" where
  "ss_read_ba n bs = (case bs of (b, s) \<Rightarrow>
     if \<not> s_open s then (Inr (-1), b, s)
     else case getWriteBuffers n b of
       (Inl e, b1) \<Rightarrow> (Inl e, b1, s)
     | (Inr (iovs, _), b1) \<Rightarrow> (case sock_recv n s of
         ((rt, d), s') \<Rightarrow>
           if 0 < rt then (case setPosition (m_position b1 + nat rt) (fill_buffers iovs d b1) of
                  (Inl e, b2) \<Rightarrow> (Inl e, b2, s')
                | (Inr _, b2) \<Rightarrow> (Inr rt, b2, s'))
           else (Inr rt, b1, s')))"

definition ss_write_ba :: "nat \<Rightarrow> bytearray \<times> sock \<Rightarrow> (ba_error + int) \<times> bytearray \<times> sock" where
  "ss_write_ba n bs = (case bs of (b, s) \<Rightarrow>
     if \<not> s_open s then (Inr (-1), b, s)
     else case getReadBuffers n b of
       Inl e \<Rightarrow> (Inl e, b, s)
     | Inr (iovs, _) \<Rightarrow> (case sock_send (concat (map (iov_bytes (m_nodes b)) iovs)) s of
         (rt, s') \<Rightarrow>
           if 0 < rt then (case setPosition (m_position b + nat rt) b of
                  (Inl e, b2) \<Rightarrow> (Inl e, b2, s')
                | (Inr _, b2) \<Rightarrow> (Inr rt, b2, s'))
           else (Inr rt, b, s')))"

text \<open>Both loops over a \<open>ByteArray\<close> have this shape; \<open>io\<close> is the transfer.\<close>

function fixSize_ba_loop :: "(nat \<Rightarrow> 't \<Rightarrow> (ba_error + int) \<times> 't) \<Rightarrow> nat \<Rightarrow> 't \<Rightarrow> (ba_error + int option) \<times> 't" where
  "fixSize_ba_loop io left t =
    (if left = 0 then (Inr None, t)
     else case io left t of
       (Inl e, t') \<Rightarrow> (Inl e, t')
     | (Inr len, t') \<Rightarrow> if len \<le> 0 then (Inr (Some len), t') else fixSize_ba_loop io (left - nat len) t')"
  by pat_completeness auto
termination by (relation "measure (\<lambda>(io, left, t). left)") auto

declare fixSize_ba_loop.simps [simp del]

definition fixSize_ba :: "(nat \<Rightarrow> 't \<Rightarrow> (ba_error + int) \<times> 't) \<Rightarrow> nat \<Rightarrow> 't \<Rightarrow> (ba_error + int) \<times> 't" where
  "fixSize_ba io len t = (case fixSize_ba_loop io (left_of len) t of
       (Inl e, t') \<Rightarrow> (Inl e, t')
     | (Inr (Some e), t') \<Rightarrow> (Inr e, t')
     | (Inr None, t') \<Rightarrow> (Inr (to_int32 len), t'))"

definition readFixSize_ba :: "nat \<Rightarrow> bytearray \<times> sock \<Rightarrow> (ba_error + int) \<times> bytearray \<times> sock" where
  "readFixSize_ba len t = fixSize_ba ss_read_ba len t"

definition writeFixSize_ba :: "nat \<Rightarrow> bytearray \<times> sock \<Rightarrow> (ba_error + int) \<times> bytearray \<times> sock" where
  "writeFixSize_ba len t = fixSize_ba ss_write_ba len t"

section \<open>The interface of a stream that is up\<close>

text \<open>
  While bytes are pending, \<open>rd\<close> delivers at least one of them, in order; while the peer
  accepts, \<open>wr\<close> takes at least one byte, in order.
\<close>

locale byte_stream =
  fixes rd :: "nat \<Rightarrow> 's \<Rightarrow> (int \<times> bytes) \<times> 's"
    and wr :: "bytes \<Rightarrow> 's \<Rightarrow> int \<times> 's"
    and pending :: "'s \<Rightarrow> bytes"
    and sent :: "'s \<Rightarrow> bytes"
    and up :: "'s \<Rightarrow> bool"
  assumes rd_law: "up s \<Longrightarrow> pending s \<noteq> [] \<Longrightarrow> 0 < n \<Longrightarrow>
      \<exists>k s'. rd n s = ((int k, take k (pending s)), s') \<and> 0 < k \<and> k \<le> n \<and> k \<le> length (pending s)
        \<and> up s' \<and> pending s' = drop k (pending s) \<and> sent s' = sent s"
    and wr_law: "up s \<Longrightarrow> d \<noteq> [] \<Longrightarrow>
      \<exists>k s'. wr d s = (int k, s') \<and> 0 < k \<and> k \<le> length d
        \<and> up s' \<and> pending s' = pending s \<and> sent s' = sent s @ take k d"
begin

lemma readFixSize_loop_ok:
  "up s \<Longrightarrow> n \<le> length (pending s) \<Longrightarrow>
   \<exists>s'. readFixSize_loop rd n acc s = (Inr (acc @ take n (pending s)), s') \<and> up s'
     \<and> pending s' = drop n (pending s) \<and> sent s' = sent s"
proof (induction n arbitrary: acc s rule: less_induct)
  case (less n)
  show ?case
  proof (cases "n = 0")
    case True
    then show ?thesis using less.prems by (subst readFixSize_loop.simps) auto
  next
    case False
    with less.prems have "pending s \<noteq> []" "0 < n" by auto
    with rd_law [OF less.prems(1)] obtain k s1 where s1:
      "rd n s = ((int k, take k (pending s)), s1)" "0 < k" "k \<le> n" "k \<le> length (pending s)"
      "up s1" "pending s1 = drop k (pending s)" "sent s1 = sent s" by blast
    have "n - k < n" "n - k \<le> length (pending s1)"
      using s1 less.prems by (simp_all add: diff_le_mono)
    from less.IH [OF this(1) s1(5) this(2), of "acc @ take k (pending s)"]
    obtain s2 where s2: "readFixSize_loop rd (n - k) (acc @ take k (pending s)) s1
        = (Inr ((acc @ take k (pending s)) @ take (n - k) (pending s1)), s2)" "up s2"
      "pending s2 = drop (n - k) (pending s1)" "sent s2 = sent s1" by blast
    have "take k (pending s) @ take (n - k) (pending s1) = take n (pending s)"
      using s1(3,6) by (simp flip: take_add)
    moreover have "pending s2 = drop n (pending s)" using s2(3) s1(3,6) by simp
    ultimately show ?thesis
      using s1 s2 False by (subst readFixSize_loop.simps) simp
  qed
qed

lemma writeFixSize_loop_ok:
  "up s \<Longrightarrow> \<exists>s'. writeFixSize_loop wr d s = (None, s') \<and> up s'
     \<and> pending s' = pending s \<and> sent s' = sent s @ d"
proof (induction d arbitrary: s rule: length_induct)
  case (1 d)
  show ?case
  proof (cases "d = []")
    case True
    then show ?thesis using 1 by (subst writeFixSize_loop.simps) auto
  next
    case False
    with wr_law [OF "1.prems"] obtain k s1 where s1: "wr d s = (int k, s1)" "0 < k" "k \<le> length d"
      "up s1" "pending s1 = pending s" "sent s1 = sent s @ take k d" by blast
    have "length (drop k d) < length d" using s1 False by simp
    with "1.IH" s1(4) obtain s2 where s2: "writeFixSize_loop wr (drop k d) s1 = (None, s2)" "up s2"
      "pending s2 = pending s1" "sent s2 = sent s1 @ drop k d" by blast
    then show ?thesis using s1 False by (subst writeFixSize_loop.simps) simp
  qed
qed

lemma readFixSize_ok:
  assumes "up s" "n \<le> length (pending s)" "n < 2 ^ 31"
  shows "\<exists>s'. readFixSize rd n s = ((int n, take n (pending s)), s') \<and> up s'
     \<and> pending s' = drop n (pending s) \<and> sent s' = sent s"
proof -
  have "left_of n = n" using assms(3) by (simp add: left_of_def)
  moreover have "to_int32 n = int n" using assms(3) by (rule to_int32_small)
  ultimately show ?thesis
    using readFixSize_loop_ok [OF assms(1,2), of "[]"] by (auto simp: readFixSize_def)
qed

end

section \<open>The socket is such a stream\<close>

text \<open>A connected socket on which neither direction is about to report an error.\<close>

definition sock_up :: "sock \<Rightarrow> bool" where
  "sock_up s \<longleftrightarrow> s_open s \<and> (\<forall>k \<in> set (s_accept s). 0 < k)
     \<and> (\<forall>ev \<in> set (s_in s). case ev of RecvErr _ \<Rightarrow> False | RecvData d \<Rightarrow> d \<noteq> [])"

fun event_bytes :: "recv_event \<Rightarrow> bytes" where
  "event_bytes (RecvErr e) = []"
| "event_bytes (RecvData d) = d"

definition sock_pending :: "sock \<Rightarrow> bytes" where
  "sock_pending s = concat (map event_bytes (s_in s))"

lemma sock_recv_up:
  assumes "sock_up s" "sock_pending s \<noteq> []" "0 < n"
  shows "\<exists>k s'. sock_recv n s = ((int k, take k (sock_pending s)), s') \<and> 0 < k \<and> k \<le> n
    \<and> k \<le> length (sock_pending s) \<and> sock_up s' \<and> sock_pending s' = drop k (sock_pending s)
    \<and> s_out s' = s_out s \<and> s_open s' \<and> s_accept s' = s_accept s"
proof -
  from assms(2) obtain ev evs where evs: "s_in s = ev # evs"
    by (cases "s_in s") (auto simp: sock_pending_def)
  with assms(1) obtain d where d: "ev = RecvData d" "d \<noteq> []"
    by (cases ev) (auto simp: sock_up_def)
  let ?k = "min n (length d)"
  show ?thesis
    using assms evs d
    by (intro exI [of _ ?k] exI [of _ "snd (sock_recv n s)"])
      (auto simp: sock_recv_def sock_pending_def sock_up_def min_def)
qed

lemma ss_read_up:
  assumes "sock_up s" "sock_pending s \<noteq> []" "0 < n"
  shows "\<exists>k s'. ss_read n s = ((int k, take k (sock_pending s)), s') \<and> 0 < k \<and> k \<le> n
    \<and> k \<le> length (sock_pending s) \<and> sock_up s' \<and> sock_pending s' = drop k (sock_pending s)
    \<and> s_out s' = s_out s"
proof -
  have "ss_read n s = sock_recv n s" using assms(1) by (simp add: ss_read_def sock_up_def)
  then show ?thesis using sock_recv_up [OF assms] by auto
qed

lemma sock_send_up:
  assumes "sock_up s" "d \<noteq> []"
  shows "\<exists>k s'. sock_send d s = (int k, s') \<and> 0 < k \<and> k \<le> length d \<and> sock_up s'
    \<and> sock_pending s' = sock_pending s \<and> s_out s' = s_out s @ take k d \<and> s_in s' = s_in s"
proof (cases "s_accept s")
  case Nil
  then show ?thesis using assms
    by (intro exI [of _ "length d"] exI [of _ "snd (sock_send d s)"])
      (auto simp: sock_send_def sock_up_def sock_pending_def)
next
  case (Cons k ks)
  then have k: "0 < k" using assms(1) by (simp add: sock_up_def)
  show ?thesis
    using assms Cons k
    by (intro exI [of _ "min (nat k) (length d)"] exI [of _ "snd (sock_send d s)"])
      (auto simp: sock_send_def sock_up_def sock_pending_def min_def)
qed

lemma ss_write_up:
  assumes "sock_up s" "d \<noteq> []"
  shows "\<exists>k s'. ss_write d s = (int k, s') \<and> 0 < k \<and> k \<le> length d \<and> sock_up s'
    \<and> sock_pending s' = sock_pending s \<and> s_out s' = s_out s @ take k d"
proof -
  have "ss_write d s = sock_send d s" using assms(1) by (simp add: ss_write_def sock_up_def)
  then show ?thesis using sock_send_up [OF assms] by auto
qed

interpretation ss: byte_stream ss_read ss_write sock_pending s_out sock_up
  by unfold_locales (rule ss_read_up ss_write_up, assumption+)+

text \<open>A read that transfers data makes progress on what is pending, errors or not.\<close>

lemma readFixSize_progress_aux:
  "readFixSize_loop ss_read left acc s = (r, s') \<Longrightarrow> length (sock_pending s') \<le> length (sock_pending s)
   \<and> (case r of Inl e \<Rightarrow> e \<le> 0 | Inr d \<Rightarrow> length (sock_pending s') + left = length (sock_pending s))"
proof (induction "ss_read :: nat \<Rightarrow> sock \<Rightarrow> (int \<times> bytes) \<times> sock" left acc s
    arbitrary: r s' rule: readFixSize_loop.induct)
  case (1 left acc s)
  show ?case
  proof (cases "left = 0")
    case True
    with "1.prems" show ?thesis by (auto simp: readFixSize_loop.simps [of ss_read 0])
  next
    case False
    obtain len d s1 where s1: "ss_read left s = ((len, d), s1)" by (metis prod.exhaust)
    have step: "length (sock_pending s1) + nat len = length (sock_pending s) \<and> len \<le> int left
        \<or> len \<le> 0 \<and> length (sock_pending s1) \<le> length (sock_pending s)"
      using s1 by (auto simp: ss_read_def sock_recv_def sock_pending_def min_def
          split: if_splits list.splits recv_event.splits)
    show ?thesis
    proof (cases "len \<le> 0")
      case True
      with "1.prems" False s1 step show ?thesis
        by (auto simp: readFixSize_loop.simps [of ss_read left])
    next
      case pos: False
      with "1.prems" False s1
      have "readFixSize_loop ss_read (left - nat len) (acc @ d) s1 = (r, s')"
        by (simp add: readFixSize_loop.simps [of ss_read left])
      from "1.hyps" [OF False s1 [symmetric] refl _ this] pos step show ?thesis
        by (auto split: sum.splits)
    qed
  qed
qed

end
