(* ===== verification/WebSocket.thy ===== *)
theory WebSocket
  imports Socket_Stream
begin

text \<open>
  \<^verbatim>\<open>http/ws_session.cc\<close>: the frames of the websocket protocol on a stream.  The two bytes of
  \<open>WSFrameHead\<close> are the packed bit fields of the header file, lowest bits first.
\<close>

section \<open>The frame head\<close>

record WSFrameHead =
  opcode :: nat
  rsv3 :: bool
  rsv2 :: bool
  rsv1 :: bool
  fin :: bool
  payload :: nat
  mask_flag :: bool

definition CONTINUE :: nat where "CONTINUE = 0"
definition TEXT_FRAME :: nat where "TEXT_FRAME = 1"
definition BIN_FRAME :: nat where "BIN_FRAME = 2"
definition CLOSE :: nat where "CLOSE = 8"
definition PING :: nat where "PING = 9"
definition PONG :: nat where "PONG = 10"

lemmas opcode_defs = CONTINUE_def TEXT_FRAME_def BIN_FRAME_def CLOSE_def PING_def PONG_def

definition head_bytes :: "WSFrameHead \<Rightarrow> bytes" where
  "head_bytes h =
    [word_of_nat (opcode h mod 16 + 16 * of_bool (rsv3 h) + 32 * of_bool (rsv2 h)
        + 64 * of_bool (rsv1 h) + 128 * of_bool (fin h)),
     word_of_nat (payload h mod 128 + 128 * of_bool (mask_flag h))]"

definition head_of :: "bytes \<Rightarrow> WSFrameHead" where
  "head_of bs = (let a = unat (bs ! 0); b = unat (bs ! 1) in
    \<lparr>opcode = a mod 16, rsv3 = odd (a div 16), rsv2 = odd (a div 32), rsv1 = odd (a div 64),
     fin = odd (a div 128), payload = b mod 128, mask_flag = odd (b div 128)\<rparr>)"

record WSFrameMessage =
  m_opcode :: nat
  m_data :: bytes

section \<open>Sending\<close>

definition xor_mask :: "bytes \<Rightarrow> bytes \<Rightarrow> bytes" where
  "xor_mask msk d = map (\<lambda>i. d ! i XOR msk ! (i mod 4)) [0..<length d]"

definition zero_head :: WSFrameHead where
  "zero_head = \<lparr>opcode = 0, rsv3 = False, rsv2 = False, rsv1 = False, fin = False, payload = 0,
     mask_flag = False\<rparr>"

text \<open>Writing the pieces of a frame one by one; the first that fails ends the frame.\<close>

fun write_pieces :: "bytes list \<Rightarrow> sock \<Rightarrow> bool \<times> sock" where
  "write_pieces [] s = (True, s)"
| "write_pieces (d # ds) s = (case writeFixSize ss_write d s of
     (r, s') \<Rightarrow> if r \<le> 0 then (False, s') else write_pieces ds s')"

text \<open>
  \<open>rnd\<close> is the value of \<open>rand()\<close>.  A client masks the data of the message in place, so the
  message after the call is part of the result.
\<close>

definition WSSendMessage ::
  "endian \<Rightarrow> u32 \<Rightarrow> WSFrameMessage \<Rightarrow> bool \<Rightarrow> bool \<Rightarrow> sock \<Rightarrow> int \<times> WSFrameMessage \<times> sock" where
  "WSSendMessage host rnd msg client final s =
    (let sz = length (m_data msg);
         pl = (if sz < 126 then sz else if sz < 65536 then 126 else 127);
         head = zero_head\<lparr>fin := final, opcode := m_opcode msg mod 16, mask_flag := client, payload := pl\<rparr>;
         ext = (if pl = 126 then [mem_image host (byteswapOnLittleEndian host (word_of_nat sz :: u16))]
                else if pl = 127 then [mem_image host (byteswapOnLittleEndian host (word_of_nat sz :: u64))]
                else []);
         msk = mem_image host rnd
     in case write_pieces (head_bytes head # ext) s of
          (False, s1) \<Rightarrow> (-1, msg, sock_close s1)
        | (True, s1) \<Rightarrow>
            let msg' = (if client then msg\<lparr>m_data := xor_mask msk (m_data msg)\<rparr> else msg)
            in case write_pieces ((if client then [msk] else []) @ [m_data msg']) s1 of
                 (False, s2) \<Rightarrow> (-1, msg', sock_close s2)
               | (True, s2) \<Rightarrow> (to_int32 (sz + 2), msg', s2))"

definition send_control :: "nat \<Rightarrow> sock \<Rightarrow> int \<times> sock" where
  "send_control op s =
    (case writeFixSize ss_write (head_bytes (zero_head\<lparr>fin := True, opcode := op\<rparr>)) s of
       (v, s') \<Rightarrow> if v \<le> 0 then (v, sock_close s') else (v, s'))"

definition WSPing :: "sock \<Rightarrow> int \<times> sock" where
  "WSPing s = send_control PING s"

definition WSPong :: "sock \<Rightarrow> int \<times> sock" where
  "WSPong s = send_control PONG s"

section \<open>Receiving\<close>

text \<open>
  The length of the payload: \<open>None\<close> when reading the extended length failed.
\<close>

definition recv_length :: "endian \<Rightarrow> WSFrameHead \<Rightarrow> sock \<Rightarrow> nat option \<times> sock" where
  "recv_length host h s =
    (if payload h = 126 then (case readFixSize ss_read 2 s of
        ((r, d), s') \<Rightarrow> if r \<le> 0 then (None, s')
          else (Some (unat (byteswapOnLittleEndian host (mem_load host d :: u16))), s'))
     else if payload h = 127 then (case readFixSize ss_read 8 s of
        ((r, d), s') \<Rightarrow> if r \<le> 0 then (None, s')
          else (Some (unat (byteswapOnLittleEndian host (mem_load host d :: u64))), s'))
     else (Some (payload h), s))"

text \<open>
  One data frame: \<open>Inl\<close> is the break out of the loop, \<open>Inr\<close> the unmasked payload.  The sum of
  the lengths is computed in \<open>uint64_t\<close>.
\<close>

definition recv_data_frame ::
  "endian \<Rightarrow> bool \<Rightarrow> nat \<Rightarrow> nat \<Rightarrow> WSFrameHead \<Rightarrow> sock \<Rightarrow> (unit + bytes) \<times> sock" where
  "recv_data_frame host client max_size cur_len h s =
    (if \<not> client \<and> \<not> mask_flag h then (Inl (), s)
     else case recv_length host h s of
       (None, s1) \<Rightarrow> (Inl (), s1)
     | (Some len, s1) \<Rightarrow>
        if max_size \<le> (cur_len + len) mod 2 ^ 64 then (Inl (), s1)
        else case (if mask_flag h then readFixSize ss_read 4 s1 else ((1, [0, 0, 0, 0]), s1)) of
          ((r, msk), s2) \<Rightarrow>
            if r \<le> 0 then (Inl (), s2)
            else case readFixSize ss_read len s2 of
              ((r', d), s3) \<Rightarrow>
                if r' \<le> 0 then (Inl (), s3)
                else (Inr (if mask_flag h then xor_mask msk d else d), s3))"

text \<open>Each round consumes at least the two bytes of a frame head.\<close>

lemma readFixSize_progress:
  assumes "readFixSize ss_read n s = ((r, d), s')"
  shows "length (sock_pending s') \<le> length (sock_pending s)"
    and "0 < r \<Longrightarrow> 0 < n \<Longrightarrow> n < 2 ^ 63 \<Longrightarrow> length (sock_pending s') < length (sock_pending s)"
proof -
  obtain x where x: "readFixSize_loop ss_read (left_of n) [] s = (x, s')"
    using assms by (auto simp: readFixSize_def split: prod.splits sum.splits)
  note p = readFixSize_progress_aux [OF x]
  then show "length (sock_pending s') \<le> length (sock_pending s)" by blast
  assume "0 < r" "0 < n" "n < 2 ^ 63"
  then show "length (sock_pending s') < length (sock_pending s)"
    using p x assms by (auto simp: readFixSize_def left_of_def split: sum.splits)
qed

lemma ss_write_pending: "ss_write d s = (r, s') \<Longrightarrow> sock_pending s' = sock_pending s"
  by (auto simp: ss_write_def sock_send_def sock_pending_def split: if_splits list.splits)

lemma writeFixSize_loop_pending:
  "writeFixSize_loop ss_write d s = (r, s') \<Longrightarrow> sock_pending s' = sock_pending s"
proof (induction "ss_write :: bytes \<Rightarrow> sock \<Rightarrow> int \<times> sock" d s arbitrary: r s'
    rule: writeFixSize_loop.induct)
  case (1 d s)
  show ?case
  proof (cases "d = []")
    case True
    with "1.prems" show ?thesis by (auto simp: writeFixSize_loop.simps [of ss_write "[]"])
  next
    case False
    obtain len s1 where s1: "ss_write d s = (len, s1)" by fastforce
    note same = ss_write_pending [OF s1]
    show ?thesis
    proof (cases "len \<le> 0")
      case True
      with "1.prems" False s1 same show ?thesis by (auto simp: writeFixSize_loop.simps [of ss_write d])
    next
      case pos: False
      with "1.prems" False s1 have "writeFixSize_loop ss_write (drop (nat len) d) s1 = (r, s')"
        by (simp add: writeFixSize_loop.simps [of ss_write d])
      from "1.hyps" [OF False s1 [symmetric] _ this] pos same show ?thesis by simp
    qed
  qed
qed

lemma writeFixSize_pending: "writeFixSize ss_write d s = (r, s') \<Longrightarrow> sock_pending s' = sock_pending s"
  by (auto simp: writeFixSize_def dest: writeFixSize_loop_pending split: prod.splits option.splits)

lemma WSPong_pending: "WSPong s = (v, s') \<Longrightarrow> sock_pending s' = sock_pending s"
  by (auto simp: WSPong_def send_control_def sock_close_def sock_pending_def
      dest: writeFixSize_pending split: prod.splits if_splits)

lemma recv_length_pending:
  "recv_length host h s = (r, s') \<Longrightarrow> length (sock_pending s') \<le> length (sock_pending s)"
  by (auto simp: recv_length_def dest: readFixSize_progress(1) split: prod.splits if_splits)

lemma recv_data_frame_pending:
  "recv_data_frame host client m c h s = (r, s') \<Longrightarrow> length (sock_pending s') \<le> length (sock_pending s)"
  by (auto simp: recv_data_frame_def split: prod.splits if_splits option.splits
      dest!: readFixSize_progress(1) recv_length_pending)

lemma head_read_less:
  assumes "readFixSize ss_read 2 s = ((r, hb), s1)" "\<not> r \<le> 0"
  shows "length (sock_pending s1) < length (sock_pending s)"
    and "WSPong s1 = (v, s2) \<Longrightarrow> length (sock_pending s2) < length (sock_pending s)"
    and "recv_data_frame host client m c h s1 = (q, s2) \<Longrightarrow> length (sock_pending s2) < length (sock_pending s)"
  using readFixSize_progress(2) [OF assms(1)] assms(2) WSPong_pending [of s1 v s2]
    recv_data_frame_pending [of host client m c h s1 q s2] by auto

text \<open>
  The loop of \<open>WSRecvMessage\<close>.  The payload of a ping, pong, close or unknown frame is not
  consumed, and a close frame does not end the loop.
\<close>

function WSRecvMessage_loop :: "endian \<Rightarrow> bool \<Rightarrow> nat \<Rightarrow> nat \<Rightarrow> bytes \<Rightarrow> sock \<Rightarrow> WSFrameMessage option \<times> sock" where
  "WSRecvMessage_loop host client max_size op data s =
    (case readFixSize ss_read 2 s of
       ((r, hb), s1) \<Rightarrow>
        if r \<le> 0 then (None, sock_close s1)
        else let h = head_of hb in
          if opcode h = PING then (case WSPong s1 of
              (v, s2) \<Rightarrow> if v \<le> 0 then (None, sock_close s2)
                         else WSRecvMessage_loop host client max_size op data s2)
          else if opcode h = PONG then WSRecvMessage_loop host client max_size op data s1
          else if opcode h = CONTINUE \<or> opcode h = TEXT_FRAME \<or> opcode h = BIN_FRAME then
            (case recv_data_frame host client max_size (length data) h s1 of
               (Inl _, s2) \<Rightarrow> (None, sock_close s2)
             | (Inr d, s2) \<Rightarrow>
                 let op' = (if op = 0 \<and> opcode h \<noteq> CONTINUE then opcode h else op)
                 in if fin h then (Some \<lparr>m_opcode = op', m_data = data @ d\<rparr>, s2)
                    else WSRecvMessage_loop host client max_size op' (data @ d) s2)
          else WSRecvMessage_loop host client max_size op data s1)"
  by pat_completeness auto
termination
  by (relation "measure (\<lambda>(host, client, m, op, data, s). length (sock_pending s))")
    (auto dest: head_read_less
      dest!: sym [of _ "readFixSize _ _ _"] sym [of _ "WSPong _"] sym [of _ "recv_data_frame _ _ _ _ _ _"])

declare WSRecvMessage_loop.simps [simp del]

definition WSRecvMessage :: "endian \<Rightarrow> bool \<Rightarrow> nat \<Rightarrow> sock \<Rightarrow> WSFrameMessage option \<times> sock" where
  "WSRecvMessage host client max_size s = WSRecvMessage_loop host client max_size 0 [] s"

section \<open>The session\<close>

text \<open>The server's side of a connection: its frames are not masked.\<close>

definition wss_recvMessage :: "endian \<Rightarrow> nat \<Rightarrow> sock \<Rightarrow> WSFrameMessage option \<times> sock" where
  "wss_recvMessage host max_size s = WSRecvMessage host False max_size s"

definition wss_sendMessage :: "endian \<Rightarrow> u32 \<Rightarrow> WSFrameMessage \<Rightarrow> bool \<Rightarrow> sock \<Rightarrow> int \<times> WSFrameMessage \<times> sock" where
  "wss_sendMessage host rnd msg final s = WSSendMessage host rnd msg False final s"

definition wss_sendText :: "endian \<Rightarrow> u32 \<Rightarrow> bytes \<Rightarrow> nat \<Rightarrow> bool \<Rightarrow> sock \<Rightarrow> int \<times> WSFrameMessage \<times> sock" where
  "wss_sendText host rnd data op final s = wss_sendMessage host rnd \<lparr>m_opcode = op, m_data = data\<rparr> final s"

definition wss_ping :: "sock \<Rightarrow> int \<times> sock" where
  "wss_ping s = WSPing s"

definition wss_pong :: "sock \<Rightarrow> int \<times> sock" where
  "wss_pong s = WSPong s"

end
