(* ===== verification/Http_Server.thy ===== *)
theory Http_Server
  imports Http_Message Hash_Util WebSocket
begin

text \<open>
  The server side of HTTP: \<^verbatim>\<open>http/http_parser.cc\<close> (the callbacks around the generated
  parsers), \<^verbatim>\<open>http/http_session.cc\<close>, \<^verbatim>\<open>http/servlet.cc\<close>, \<^verbatim>\<open>http/http_server.cc\<close>, and the
  handshake and the dispatch of websockets (\<^verbatim>\<open>http/ws_session.cc\<close>, \<^verbatim>\<open>http/ws_servlet.cc\<close>,
  \<^verbatim>\<open>http/ws_server.cc\<close>).  The parser that Ragel generates is an argument: on its state and a
  text it returns how many characters it consumed, its new state and the callbacks it makes.
\<close>

section \<open>Parser callbacks\<close>

text \<open>\<open>at\<close> is the text from the token to the end of the buffer, the number its length.\<close>

datatype parser_event = EvMethod string nat | EvUri string nat | EvFragment string nat
  | EvPath string nat | EvQuery string nat | EvVersion string nat | EvHeaderDone string nat
  | EvField string nat string nat | EvReason string nat | EvStatus string nat
  | EvChunk string nat | EvLastChunk string nat

definition strncmp_eq :: "string \<Rightarrow> string \<Rightarrow> nat \<Rightarrow> bool" where
  "strncmp_eq a b n \<longleftrightarrow> take n (c_str a) = take n (c_str b)"

record 'p HttpRequestParser =
  rp_parser :: 'p
  rp_data :: HttpRequest
  rp_error :: nat

definition on_request_method :: "string \<Rightarrow> nat \<Rightarrow> 'p HttpRequestParser \<Rightarrow> 'p HttpRequestParser" where
  "on_request_method at len p = (let m = CharsToHttpMethod at in
     if m = INVALID_METHOD then p\<lparr>rp_error := 1000\<rparr>
     else p\<lparr>rp_data := (rp_data p)\<lparr>q_method := m\<rparr>\<rparr>)"

definition on_request_fragment :: "string \<Rightarrow> nat \<Rightarrow> 'p HttpRequestParser \<Rightarrow> 'p HttpRequestParser" where
  "on_request_fragment at len p = p\<lparr>rp_data := (rp_data p)\<lparr>q_fragment := take len at\<rparr>\<rparr>"

definition on_request_path :: "string \<Rightarrow> nat \<Rightarrow> 'p HttpRequestParser \<Rightarrow> 'p HttpRequestParser" where
  "on_request_path at len p = p\<lparr>rp_data := (rp_data p)\<lparr>q_path := take len at\<rparr>\<rparr>"

definition on_request_query :: "string \<Rightarrow> nat \<Rightarrow> 'p HttpRequestParser \<Rightarrow> 'p HttpRequestParser" where
  "on_request_query at len p = p\<lparr>rp_data := (rp_data p)\<lparr>q_query := take len at\<rparr>\<rparr>"

definition on_request_version :: "string \<Rightarrow> nat \<Rightarrow> 'p HttpRequestParser \<Rightarrow> 'p HttpRequestParser" where
  "on_request_version at len p =
    (if strncmp_eq at ''HTTP/1.1'' len then p\<lparr>rp_data := (rp_data p)\<lparr>q_version := 17\<rparr>\<rparr>
     else if strncmp_eq at ''HTTP/1.0'' len then p\<lparr>rp_data := (rp_data p)\<lparr>q_version := 16\<rparr>\<rparr>
     else p\<lparr>rp_error := 1001\<rparr>)"

definition on_request_http_field ::
  "string \<Rightarrow> nat \<Rightarrow> string \<Rightarrow> nat \<Rightarrow> 'p HttpRequestParser \<Rightarrow> 'p HttpRequestParser" where
  "on_request_http_field field flen val vlen p = (if flen = 0 then p
     else p\<lparr>rp_data := setHeader (take flen field) (take vlen val) (rp_data p)\<rparr>)"

fun on_request_event :: "parser_event \<Rightarrow> 'p HttpRequestParser \<Rightarrow> 'p HttpRequestParser" where
  "on_request_event (EvMethod at n) p = on_request_method at n p"
| "on_request_event (EvFragment at n) p = on_request_fragment at n p"
| "on_request_event (EvPath at n) p = on_request_path at n p"
| "on_request_event (EvQuery at n) p = on_request_query at n p"
| "on_request_event (EvVersion at n) p = on_request_version at n p"
| "on_request_event (EvField f m v n) p = on_request_http_field f m v n p"
| "on_request_event _ p = p"

definition new_HttpRequestParser :: "'p \<Rightarrow> 'p HttpRequestParser" where
  "new_HttpRequestParser p0 = \<lparr>rp_parser = p0, rp_data = new_HttpRequest 17 True, rp_error = 0\<rparr>"

type_synonym 'p ragel = "'p \<Rightarrow> string \<Rightarrow> nat \<times> 'p \<times> parser_event list"

definition execute :: "'p ragel \<Rightarrow> string \<Rightarrow> 'p HttpRequestParser \<Rightarrow> nat \<times> 'p HttpRequestParser" where
  "execute exec txt p = (case exec (rp_parser p) txt of
     (n, st, evs) \<Rightarrow> (n, fold on_request_event evs (p\<lparr>rp_parser := st\<rparr>)))"

definition hasError :: "('p \<Rightarrow> bool) \<Rightarrow> 'p HttpRequestParser \<Rightarrow> bool" where
  "hasError perr p \<longleftrightarrow> rp_error p \<noteq> 0 \<or> perr (rp_parser p)"

text \<open>The content length is cast by \<open>boost::lexical_cast<uint64_t>\<close>.\<close>

definition getContentLength :: "(string \<Rightarrow> nat option) \<Rightarrow> 'p HttpRequestParser \<Rightarrow> nat" where
  "getContentLength cast p = getAs cast (q_headers (rp_data p)) ''content-length'' 0"

record 'p HttpResponseParser =
  sp_parser :: 'p
  sp_data :: HttpResponse
  sp_error :: nat

definition on_response_reason :: "string \<Rightarrow> nat \<Rightarrow> 'p HttpResponseParser \<Rightarrow> 'p HttpResponseParser" where
  "on_response_reason at len p = p\<lparr>sp_data := (sp_data p)\<lparr>p_reason := take len at\<rparr>\<rparr>"

text \<open>
  \<open>atoi\<close> reads all the digits at \<open>at\<close>, whatever the length of the token; the result is an \<open>int\<close>
  that is printed as a \<open>uint32_t\<close>.
\<close>

definition on_response_status :: "string \<Rightarrow> nat \<Rightarrow> 'p HttpResponseParser \<Rightarrow> 'p HttpResponseParser" where
  "on_response_status at len p = p\<lparr>sp_data := (sp_data p)\<lparr>p_status := min (strtoull at) (2 ^ 63 - 1) mod 2 ^ 32\<rparr>\<rparr>"

definition on_response_version :: "string \<Rightarrow> nat \<Rightarrow> 'p HttpResponseParser \<Rightarrow> 'p HttpResponseParser" where
  "on_response_version at len p =
    (if strncmp_eq at ''HTTP/1.1'' len then p\<lparr>sp_data := (sp_data p)\<lparr>p_version := 17\<rparr>\<rparr>
     else if strncmp_eq at ''HTTP/1.0'' len then p\<lparr>sp_data := (sp_data p)\<lparr>p_version := 16\<rparr>\<rparr>
     else p\<lparr>sp_error := 1001\<rparr>)"

definition on_response_http_field ::
  "string \<Rightarrow> nat \<Rightarrow> string \<Rightarrow> nat \<Rightarrow> 'p HttpResponseParser \<Rightarrow> 'p HttpResponseParser" where
  "on_response_http_field field flen val vlen p = (if flen = 0 then p
     else p\<lparr>sp_data := rsp_setHeader (take flen field) (take vlen val) (sp_data p)\<rparr>)"

fun on_response_event :: "parser_event \<Rightarrow> 'p HttpResponseParser \<Rightarrow> 'p HttpResponseParser" where
  "on_response_event (EvReason at n) p = on_response_reason at n p"
| "on_response_event (EvStatus at n) p = on_response_status at n p"
| "on_response_event (EvVersion at n) p = on_response_version at n p"
| "on_response_event (EvField f m v n) p = on_response_http_field f m v n p"
| "on_response_event _ p = p"

text \<open>With \<open>chunck\<close> the parser is set up again before it runs on the text.\<close>

definition rsp_execute :: "'p ragel \<Rightarrow> ('p \<Rightarrow> 'p) \<Rightarrow> string \<Rightarrow> bool \<Rightarrow> 'p HttpResponseParser \<Rightarrow> nat \<times> 'p HttpResponseParser" where
  "rsp_execute exec init txt chunck p =
    (let p' = (if chunck then p\<lparr>sp_parser := init (sp_parser p)\<rparr> else p) in
     case exec (sp_parser p') txt of
       (n, st, evs) \<Rightarrow> (n, fold on_response_event evs (p'\<lparr>sp_parser := st\<rparr>)))"

section \<open>HttpSession\<close>

definition to_text :: "bytes \<Rightarrow> string" where
  "to_text bs = map (\<lambda>b. char_of (unat b)) bs"

definition to_bytes :: "string \<Rightarrow> bytes" where
  "to_bytes s = map (\<lambda>c. word_of_nat (code c)) s"

lemma ss_read_progress:
  "ss_read n s = ((len, d), s') \<Longrightarrow> \<not> len \<le> 0 \<Longrightarrow> length (sock_pending s') < length (sock_pending s)"
  by (auto simp: ss_read_def sock_recv_def sock_pending_def min_def
      split: if_splits list.splits recv_event.splits)

text \<open>
  The loop over the buffer of \<open>buff_size\<close> bytes: \<open>buf\<close> is what is left in it.  The result is the
  parser and the rest of the buffer when the head is complete, \<open>None\<close> after the session was
  closed.  The code counts in an \<open>int\<close>, here lengths are \<open>nat\<close>: a buffer is shorter than
  \<open>2 ^ 31\<close> bytes (4096 by default).
\<close>

function recvRequest_loop :: "'p ragel \<Rightarrow> ('p \<Rightarrow> bool) \<Rightarrow> ('p \<Rightarrow> bool) \<Rightarrow> nat \<Rightarrow> bytes
    \<Rightarrow> 'p HttpRequestParser \<Rightarrow> sock \<Rightarrow> ('p HttpRequestParser \<times> bytes) option \<times> sock" where
  "recvRequest_loop exec perr pfin buff_size buf p s =
    (case ss_read (buff_size - length buf) s of
       ((len, d), s1) \<Rightarrow>
         if len \<le> 0 then (None, sock_close s1)
         else (let txt = buf @ d in
           case execute exec (to_text txt) p of
             (nparse, p') \<Rightarrow>
               if hasError perr p' then (None, sock_close s1)
               else (let buf' = drop nparse txt in
                 if length buf' = buff_size then (None, sock_close s1)
                 else if pfin (rp_parser p') then (Some (p', buf'), s1)
                 else recvRequest_loop exec perr pfin buff_size buf' p' s1)))"
  by pat_completeness auto
termination
  by (relation "measure (\<lambda>(exec, perr, pfin, n, buf, p, s). length (sock_pending s))")
    (auto dest!: sym [of _ "ss_read _ _"] dest: ss_read_progress)

declare recvRequest_loop.simps [simp del]

text \<open>
  The body: what is in the buffer first, the rest from the stream.  \<open>len\<close> is the content length
  as an \<open>int64_t\<close>; what the buffer holds behind the body is dropped.
\<close>

definition recv_body :: "nat \<Rightarrow> bytes \<Rightarrow> sock \<Rightarrow> bytes option \<times> sock" where
  "recv_body len buf s =
    (if length buf \<le> len then
       (if 0 < len - length buf then
          (case readFixSize ss_read (len - length buf) s of
             ((r, d), s') \<Rightarrow> if r \<le> 0 then (None, sock_close s') else (Some (buf @ d), s'))
        else (Some buf, s))
     else (Some (take len buf), s))"

definition recvRequest :: "'p ragel \<Rightarrow> ('p \<Rightarrow> bool) \<Rightarrow> ('p \<Rightarrow> bool) \<Rightarrow> 'p \<Rightarrow> (string \<Rightarrow> nat option)
    \<Rightarrow> nat \<Rightarrow> sock \<Rightarrow> HttpRequest option \<times> sock" where
  "recvRequest exec perr pfin p0 cast buff_size s =
    (case recvRequest_loop exec perr pfin buff_size [] (new_HttpRequestParser p0) s of
       (None, s1) \<Rightarrow> (None, s1)
     | (Some (p, buf), s1) \<Rightarrow>
         (let len = left_of (getContentLength cast p) in
          if 0 < len then (case recv_body len buf s1 of
              (None, s2) \<Rightarrow> (None, s2)
            | (Some body, s2) \<Rightarrow> (Some (init_request ((rp_data p)\<lparr>q_body := to_text body\<rparr>)), s2))
          else (Some (init_request (rp_data p)), s1)))"

definition sendResponse :: "HttpResponse \<Rightarrow> sock \<Rightarrow> int \<times> sock" where
  "sendResponse rsp s = writeFixSize ss_write (to_bytes (dump_response rsp)) s"

section \<open>Servlets\<close>

text \<open>
  A servlet has a name and a handler on the request and the response; the creator that
  \<open>ServletCreator<T>\<close> is makes a new servlet on every call, so a creator is modelled by the
  servlet it yields.  \<open>m_datas\<close> is a hash map, \<open>m_globs\<close> a vector in order of registration;
  \<open>glob p u\<close> is \<open>fnmatch(p, u, 0) == 0\<close>.
\<close>

record servlet =
  sv_name :: string
  sv_handle :: "HttpRequest \<Rightarrow> HttpResponse \<Rightarrow> int \<times> HttpRequest \<times> HttpResponse"

definition NotFoundServlet_handle :: "string \<Rightarrow> HttpRequest \<Rightarrow> HttpResponse \<Rightarrow> int \<times> HttpRequest \<times> HttpResponse" where
  "NotFoundServlet_handle name q p = (0, q,
     (rsp_setHeader ''Content-Type'' ''text/html''
        (rsp_setHeader ''Server'' ''flz/1.0.0'' (p\<lparr>p_status := 404\<rparr>)))
     \<lparr>p_body := ''<html><head><title>404 Not Found</title></head><body><center><h1>404 Not Found</h1></center><hr><center>''
        @ name @ ''</center></body></html>''\<rparr>)"

definition NotFoundServlet :: "string \<Rightarrow> servlet" where
  "NotFoundServlet name = \<lparr>sv_name = ''NotFoundServlet'', sv_handle = NotFoundServlet_handle name\<rparr>"

definition FunctionServlet :: "(HttpRequest \<Rightarrow> HttpResponse \<Rightarrow> int \<times> HttpRequest \<times> HttpResponse) \<Rightarrow> servlet" where
  "FunctionServlet cb = \<lparr>sv_name = ''FunctionServlet'', sv_handle = cb\<rparr>"

record 'v ServletDispatch =
  m_datas :: "string \<Rightarrow> 'v option"
  m_globs :: "(string \<times> 'v) list"
  m_default :: 'v

definition new_ServletDispatch :: "servlet ServletDispatch" where
  "new_ServletDispatch = \<lparr>m_datas = Map.empty, m_globs = [], m_default = NotFoundServlet ''flz/1.0''\<rparr>"

definition addServlet :: "string \<Rightarrow> 'v \<Rightarrow> 'v ServletDispatch \<Rightarrow> 'v ServletDispatch" where
  "addServlet uri slt d = d\<lparr>m_datas := (m_datas d)(uri \<mapsto> slt)\<rparr>"

text \<open>The loop that erases the first entry of that uri.\<close>

fun erase_first :: "string \<Rightarrow> (string \<times> 'v) list \<Rightarrow> (string \<times> 'v) list" where
  "erase_first uri [] = []"
| "erase_first uri ((u, v) # gs) = (if u = uri then gs else (u, v) # erase_first uri gs)"

definition addGlobServlet :: "string \<Rightarrow> 'v \<Rightarrow> 'v ServletDispatch \<Rightarrow> 'v ServletDispatch" where
  "addGlobServlet uri slt d = d\<lparr>m_globs := erase_first uri (m_globs d) @ [(uri, slt)]\<rparr>"

definition delServlet :: "string \<Rightarrow> 'v ServletDispatch \<Rightarrow> 'v ServletDispatch" where
  "delServlet uri d = d\<lparr>m_datas := (m_datas d)(uri := None)\<rparr>"

definition delGlobServlet :: "string \<Rightarrow> 'v ServletDispatch \<Rightarrow> 'v ServletDispatch" where
  "delGlobServlet uri d = d\<lparr>m_globs := erase_first uri (m_globs d)\<rparr>"

definition getServlet :: "string \<Rightarrow> 'v ServletDispatch \<Rightarrow> 'v option" where
  "getServlet uri d = m_datas d uri"

fun find_glob :: "(string \<Rightarrow> bool) \<Rightarrow> (string \<times> 'v) list \<Rightarrow> 'v option" where
  "find_glob P [] = None"
| "find_glob P ((u, v) # gs) = (if P u then Some v else find_glob P gs)"

definition getGlobServlet :: "string \<Rightarrow> 'v ServletDispatch \<Rightarrow> 'v option" where
  "getGlobServlet uri d = find_glob (\<lambda>u. u = uri) (m_globs d)"

definition getMatchedServlet :: "(string \<Rightarrow> string \<Rightarrow> bool) \<Rightarrow> string \<Rightarrow> 'v ServletDispatch \<Rightarrow> 'v" where
  "getMatchedServlet glob uri d = (case m_datas d uri of
       Some slt \<Rightarrow> slt
     | None \<Rightarrow> (case find_glob (\<lambda>u. glob u uri) (m_globs d) of Some slt \<Rightarrow> slt | None \<Rightarrow> m_default d))"

definition dispatch_handle :: "(string \<Rightarrow> string \<Rightarrow> bool) \<Rightarrow> servlet ServletDispatch \<Rightarrow> HttpRequest
    \<Rightarrow> HttpResponse \<Rightarrow> int \<times> HttpRequest \<times> HttpResponse" where
  "dispatch_handle glob d q p = (case sv_handle (getMatchedServlet glob (q_path q) d) q p of
     (rc, q', p') \<Rightarrow> (0, q', p'))"

section \<open>HttpServer\<close>

record HttpServer =
  hs_name :: string
  hs_isKeepalive :: bool
  hs_dispatch :: "servlet ServletDispatch"

definition new_HttpServer :: "bool \<Rightarrow> string \<Rightarrow> HttpServer" where
  "new_HttpServer keepalive name = \<lparr>hs_name = name, hs_isKeepalive = keepalive,
     hs_dispatch = new_ServletDispatch\<rparr>"

definition setName :: "string \<Rightarrow> HttpServer \<Rightarrow> HttpServer" where
  "setName v srv = srv\<lparr>hs_name := v, hs_dispatch := (hs_dispatch srv)\<lparr>m_default := NotFoundServlet v\<rparr>\<rparr>"

lemma recvRequest_loop_progress:
  "recvRequest_loop exec perr pfin n buf p s = (Some r, s') \<Longrightarrow>
   length (sock_pending s') < length (sock_pending s)"
proof (induction exec perr pfin n buf p s arbitrary: s' rule: recvRequest_loop.induct)
  case (1 exec perr pfin n buf p s)
  obtain len d s1 where s1: "ss_read (n - length buf) s = ((len, d), s1)" by (metis prod.exhaust)
  obtain np p' where p': "execute exec (to_text (buf @ d)) p = (np, p')" by fastforce
  have pos: "\<not> len \<le> 0" and ok: "\<not> hasError perr p'" "length (drop np (buf @ d)) \<noteq> n"
    using "1.prems" s1 p' by (auto simp: recvRequest_loop.simps [of exec perr pfin n buf p s] Let_def
        split: if_splits)
  note less = ss_read_progress [OF s1 pos]
  show ?case
  proof (cases "pfin (rp_parser p')")
    case True
    with "1.prems" s1 p' pos ok less show ?thesis
      by (auto simp: recvRequest_loop.simps [of exec perr pfin n buf p s] Let_def split: if_splits)
  next
    case False
    with "1.prems" s1 p' pos ok
    have "recvRequest_loop exec perr pfin n (drop np (buf @ d)) p' s1 = (Some r, s')"
      by (simp add: recvRequest_loop.simps [of exec perr pfin n buf p s] Let_def)
    from "1.IH" [OF s1 [symmetric] refl pos refl p' [symmetric] ok(1) refl ok(2) False this] less
    show ?thesis by simp
  qed
qed

lemma recv_body_progress: "recv_body len buf s = (r, s') \<Longrightarrow> length (sock_pending s') \<le> length (sock_pending s)"
  by (auto simp: recv_body_def sock_close_def sock_pending_def split: if_splits prod.splits
      dest!: readFixSize_progress(1))

lemma recvRequest_progress:
  "recvRequest exec perr pfin p0 cast n s = (Some q, s') \<Longrightarrow> length (sock_pending s') < length (sock_pending s)"
  by (auto simp: recvRequest_def Let_def split: prod.splits option.splits if_splits
      dest!: recvRequest_loop_progress recv_body_progress)

lemma exchange_progress:
  "recvRequest exec perr pfin p0 cast n s = (Some q, s1) \<Longrightarrow> sendResponse rsp s1 = (r, s2) \<Longrightarrow>
   length (sock_pending s2) < length (sock_pending s)"
  by (auto simp: sendResponse_def dest!: recvRequest_progress writeFixSize_pending)

text \<open>
  The loop of \<open>handleClient\<close>.  The result also lists the responses in the order they were sent.
\<close>

function handleClient :: "'p ragel \<Rightarrow> ('p \<Rightarrow> bool) \<Rightarrow> ('p \<Rightarrow> bool) \<Rightarrow> 'p \<Rightarrow> (string \<Rightarrow> nat option)
    \<Rightarrow> nat \<Rightarrow> (string \<Rightarrow> string \<Rightarrow> bool) \<Rightarrow> HttpServer \<Rightarrow> sock \<Rightarrow> HttpResponse list \<times> sock" where
  "handleClient exec perr pfin p0 cast n glob srv s =
    (case recvRequest exec perr pfin p0 cast n s of
       (None, s1) \<Rightarrow> ([], sock_close s1)
     | (Some q, s1) \<Rightarrow>
         (let rsp = rsp_setHeader ''Server'' (hs_name srv)
                (new_HttpResponse (q_version q) (q_close q \<or> \<not> hs_isKeepalive srv)) in
          case dispatch_handle glob (hs_dispatch srv) q rsp of
            (_, q', rsp') \<Rightarrow>
              (case sendResponse rsp' s1 of
                 (_, s2) \<Rightarrow>
                   if \<not> hs_isKeepalive srv \<or> q_close q' then ([rsp'], sock_close s2)
                   else (case handleClient exec perr pfin p0 cast n glob srv s2 of
                           (rsps, s3) \<Rightarrow> (rsp' # rsps, s3)))))"
  by pat_completeness auto
termination
  by (relation "measure (\<lambda>(exec, perr, pfin, p0, cast, n, glob, srv, s). length (sock_pending s))")
    (auto dest!: sym [of _ "recvRequest _ _ _ _ _ _ _"] sym [of _ "sendResponse _ _"]
      intro: exchange_progress)

declare handleClient.simps [simp del]

section \<open>Websocket handshake and dispatch\<close>

text \<open>
  \<open>sha1\<close> and the cast of \<open>getHeaderAs<int>\<close> are arguments; the result is the request when the
  handshake was answered.
\<close>

definition handleShake :: "(bytes \<Rightarrow> bytes) \<Rightarrow> (string \<Rightarrow> int option) \<Rightarrow> HttpRequest option \<Rightarrow> sock
    \<Rightarrow> HttpRequest option \<times> sock" where
  "handleShake sha cast req s = (case req of
       None \<Rightarrow> (None, s)
     | Some q \<Rightarrow>
        if \<not> strcaseeq (getHeader q ''Upgrade'' []) ''websocket'' then (None, s)
        else if \<not> strcaseeq (getHeader q ''Connection'' []) ''Upgrade'' then (None, s)
        else if getAs cast (q_headers q) ''Sec-webSocket-Version'' 0 \<noteq> 13 then (None, s)
        else let key = getHeader q ''Sec-WebSocket-Key'' [] in
          if key = [] then (None, s)
          else let v = base64encode (sha (to_bytes (key @ ''258EAFA5-E914-47DA-95CA-C5AB0DC85B11'')));
                   q' = q\<lparr>q_websocket := True\<rparr>;
                   rsp = rsp_setHeader ''Sec-WebSocket-Accept'' v
                     (rsp_setHeader ''Connection'' ''Upgrade''
                       (rsp_setHeader ''Upgrade'' ''websocket''
                         ((createResponse q')\<lparr>p_status := 101, p_websocket := True,
                            p_reason := ''Web Socket Protocol Handshake''\<rparr>)))
               in (Some q', snd (sendResponse rsp s)))"

text \<open>
  A websocket servlet: its callbacks may be null.  The callbacks work on a state of their own.
\<close>

record 'u ws_servlet =
  ws_callback :: "(HttpRequest \<Rightarrow> WSFrameMessage \<Rightarrow> 'u \<times> sock \<Rightarrow> int \<times> 'u \<times> sock) option"
  ws_onConnect :: "(HttpRequest \<Rightarrow> 'u \<times> sock \<Rightarrow> int \<times> 'u \<times> sock) option"
  ws_onClose :: "(HttpRequest \<Rightarrow> 'u \<times> sock \<Rightarrow> int \<times> 'u \<times> sock) option"

definition onConnect :: "'u ws_servlet \<Rightarrow> HttpRequest \<Rightarrow> 'u \<times> sock \<Rightarrow> int \<times> 'u \<times> sock" where
  "onConnect sv q us = (case ws_onConnect sv of Some cb \<Rightarrow> cb q us | None \<Rightarrow> (0, us))"

definition onClose :: "'u ws_servlet \<Rightarrow> HttpRequest \<Rightarrow> 'u \<times> sock \<Rightarrow> int \<times> 'u \<times> sock" where
  "onClose sv q us = (case ws_onClose sv of Some cb \<Rightarrow> cb q us | None \<Rightarrow> (0, us))"

definition ws_handle :: "'u ws_servlet \<Rightarrow> HttpRequest \<Rightarrow> WSFrameMessage \<Rightarrow> 'u \<times> sock \<Rightarrow> int \<times> 'u \<times> sock" where
  "ws_handle sv q msg us = (case ws_callback sv of Some cb \<Rightarrow> cb q msg us | None \<Rightarrow> (0, us))"

text \<open>
  The message loop of \<open>WSServer::handleClient\<close>.  A callback has the session and may keep the
  connection busy for ever: \<open>None\<close> is a loop that does not end.
\<close>

partial_function (option) ws_message_loop :: "endian \<Rightarrow> nat \<Rightarrow> 'u ws_servlet \<Rightarrow> HttpRequest
    \<Rightarrow> 'u \<times> sock \<Rightarrow> ('u \<times> sock) option" where
  "ws_message_loop host max_size sv q us = (case WSRecvMessage host False max_size (snd us) of
       (None, s) \<Rightarrow> Some (fst us, s)
     | (Some msg, s) \<Rightarrow> (case ws_handle sv q msg (fst us, s) of
         (rt, us') \<Rightarrow> if rt \<noteq> 0 then Some us' else ws_message_loop host max_size sv q us'))"

text \<open>
  \<open>shake\<close> is the handshake; \<open>lookup\<close> the dispatch with the downcast to a websocket servlet.
\<close>

definition ws_handleClient :: "endian \<Rightarrow> nat \<Rightarrow> (sock \<Rightarrow> HttpRequest option \<times> sock)
    \<Rightarrow> (string \<Rightarrow> 'u ws_servlet option) \<Rightarrow> 'u \<times> sock \<Rightarrow> ('u \<times> sock) option" where
  "ws_handleClient host max_size shake lookup us = (case shake (snd us) of
       (None, s) \<Rightarrow> Some (fst us, sock_close s)
     | (Some q, s) \<Rightarrow> (case lookup (q_path q) of
         None \<Rightarrow> Some (fst us, sock_close s)
       | Some sv \<Rightarrow> (case onConnect sv q (fst us, s) of
           (rt, us1) \<Rightarrow>
             if rt \<noteq> 0 then Some (fst us1, sock_close (snd us1))
             else (case ws_message_loop host max_size sv q us1 of
                 None \<Rightarrow> None
               | Some us2 \<Rightarrow> (case onClose sv q us2 of (_, us3) \<Rightarrow> Some (fst us3, sock_close (snd us3)))))))"

end
