(* ===== verification/Application.thy ===== *)
theory Application
  imports Tcp_Server Worker Env Library File_Util Daemon Http_Server
begin

text \<open>
  \<^verbatim>\<open>src/application.cc\<close> and \<^verbatim>\<open>src/main.cc\<close>: from the command line to the running servers.  The command
  line, the configuration, the modules, the workers and the servers are those of the other
  theories; what the modules' own code does is recorded and not modelled.
\<close>

section \<open>Surroundings and state\<close>

text \<open>
  The program's path, the YAML library, the files by name with their times and contents, the
  directories, the dynamic linker and the file system; \<open>as_text\<close> is the value of a variable of type
  \<open>std::string\<close>, \<open>as_pidfile\<close> opens a file and writes the number of the process.
\<close>

record ('v, 'k) surroundings =
  as_exe :: string
  as_emit :: "YAML_Node \<Rightarrow> string"
  as_conv :: "string \<Rightarrow> string \<Rightarrow> 'v option"
  as_yaml :: "string \<Rightarrow> nat \<times> YAML_Node option"
  as_dir :: "string \<Rightarrow> dirent list"
  as_text :: "'v \<Rightarrow> string"
  as_linker :: linker
  as_fsys :: "'k fsys"
  as_access :: "string \<Rightarrow> 'k \<Rightarrow> bool"
  as_mkdir :: "string \<Rightarrow> 'k \<Rightarrow> bool \<times> 'k"
  as_atoi :: "string \<Rightarrow> int"
  as_pidfile :: "string \<Rightarrow> 'k \<Rightarrow> 'k option"

text \<open>What is seen from outside, in order.\<close>

datatype app_event = BeforeArgsParse Module | AfterArgsParse Module | PrintHelp string
  | NewMainIOManager | ScheduleRunFiber | AddTimer u64 bool | StopMainIOManager

record ('v, 'cb, 'k) Application =
  ap_env :: Env
  ap_cfg :: "(string \<Rightarrow> nat) \<times> ('v, 'cb) registry"
  ap_mods :: ModuleManager
  ap_handles :: "string list"
  ap_kern :: 'k
  ap_events :: "app_event list"

definition emit_event :: "app_event list \<Rightarrow> ('v, 'cb, 'k) Application \<Rightarrow> ('v, 'cb, 'k) Application" where
  "emit_event es A = A\<lparr>ap_events := ap_events A @ es\<rparr>"

text \<open>The value of a variable; the variables are registered with their defaults when the program is loaded.\<close>

definition conf_text :: "('v, 'k) surroundings \<Rightarrow> string \<Rightarrow> string \<Rightarrow> ('v, 'cb, 'k) Application \<Rightarrow> string" where
  "conf_text S name d A = (case snd (ap_cfg A) name of None \<Rightarrow> d | Some v \<Rightarrow> as_text S (cv_val v))"

definition work_path :: "('v, 'k) surroundings \<Rightarrow> ('v, 'cb, 'k) Application \<Rightarrow> string" where
  "work_path S A = conf_text S ''server.work_path'' ''/home/fang/Desktop/work/flz'' A"

definition pidfile_path :: "('v, 'k) surroundings \<Rightarrow> ('v, 'cb, 'k) Application \<Rightarrow> string" where
  "pidfile_path S A = work_path S A @ ''/'' @ conf_text S ''server.pid_file'' ''flz.pid'' A"

text \<open>\<open>Config::LoadFromConfDir\<close> on the files of the directory.\<close>

definition load_conf :: "('v, 'k) surroundings \<Rightarrow> bool \<Rightarrow> Env
    \<Rightarrow> (string \<Rightarrow> nat) \<times> ('v, 'cb) registry \<Rightarrow> (string \<Rightarrow> nat) \<times> ('v, 'cb) registry" where
  "load_conf S force e cfg = (let path = getAbsolutePath (getConfigPath e) e in
     LoadFromConfDir (as_emit S) (as_conv S) force (map (\<lambda>f. (f, as_yaml S f)) (ListAllFile path ''.yml'' (as_dir S path))) cfg)"

section \<open>Start\<close>

definition app_helps :: "Env \<Rightarrow> Env" where
  "app_helps e = addHelp ''p'' ''print help'' (addHelp ''c'' ''conf path default: ./conf''
     (addHelp ''d'' ''run as daemon'' (addHelp ''s'' ''start with the terminal'' e)))"

text \<open>\<open>ModuleManager::init\<close> on the libraries of the directory \<open>module.path\<close>.\<close>

definition app_modules :: "('v, 'k) surroundings \<Rightarrow> ('v, 'cb, 'k) Application \<Rightarrow> ('v, 'cb, 'k) Application" where
  "app_modules S A = (let path = getAbsolutePath (conf_text S ''module.path'' ''module'' A) (ap_env A);
       files = ListAllFile path ''.so'' (as_dir S path) in
     case init_modules (as_linker S) (load_conf S True (ap_env A)) files (ap_mods A, \<lparr>ls_handles = ap_handles A, ls_cfg = ap_cfg A\<rparr>) of
       (mods, s) \<Rightarrow> A\<lparr>ap_mods := mods, ap_handles := ls_handles s, ap_cfg := ls_cfg s\<rparr>)"

definition app_init :: "('v, 'k) surroundings \<Rightarrow> string list \<Rightarrow> ('v, 'cb, 'k) Application \<Rightarrow> bool \<times> ('v, 'cb, 'k) Application" where
  "app_init S argv A0 =
    (case env_init (as_exe S) argv (app_helps (ap_env A0)) of (ok, env) \<Rightarrow>
      let is_print_help = (\<not> ok \<or> env_has ''p'' env);
          A1 = A0\<lparr>ap_env := env, ap_cfg := load_conf S False env (ap_cfg A0)\<rparr>;
          A2 = app_modules S A1;
          modules = listAll (ap_mods A2);
          A3 = emit_event (map BeforeArgsParse modules) A2
      in if is_print_help then (False, emit_event [PrintHelp (printHelp env)] A3)
      else let A4 = emit_event (map AfterArgsParse modules) A3;
          run_type = (if env_has ''d'' env then 2 else if env_has ''s'' env then 1 else 0 :: nat)
      in if run_type = 0 then (False, emit_event [PrintHelp (printHelp env)] A4)
      else if IsRunningPidfile (as_fsys S) (as_atoi S) (pidfile_path S A4) (ap_kern A4) then (False, A4)
      else (case Mkdir (\<lambda>p k. fs_lstat (as_fsys S) p k \<noteq> None) (as_access S) (as_mkdir S) (work_path S A4) (ap_kern A4) of
          (made, k) \<Rightarrow> (made, A4\<lparr>ap_kern := k\<rparr>)))"

text \<open>The \<open>main\<close> of the application, in the process that is started: the value it returns.\<close>

definition app_main :: "('v, 'k) surroundings \<Rightarrow> ('v, 'cb, 'k) Application \<Rightarrow> int \<times> ('v, 'cb, 'k) Application" where
  "app_main S A = (let A1 = A\<lparr>ap_cfg := load_conf S True (ap_env A) (ap_cfg A)\<rparr> in
     case as_pidfile S (pidfile_path S A1) (ap_kern A1) of
       None \<Rightarrow> (0, A1)
     | Some k \<Rightarrow> (0, emit_event [NewMainIOManager, ScheduleRunFiber, AddTimer 2000 True, StopMainIOManager] (A1\<lparr>ap_kern := k\<rparr>)))"

text \<open>
  \<open>run\<close> turns the result of \<open>start_daemon\<close> into a \<open>bool\<close>, and \<open>main\<close> that into its status.  The
  process whose status it is may be the supervisor.
\<close>

definition app_run :: "('v, 'k) surroundings \<Rightarrow> u32 \<Rightarrow> int \<Rightarrow> u64 \<Rightarrow> fork_turn list \<Rightarrow> ('v, 'cb, 'k) Application \<Rightarrow> bool option" where
  "app_run S interval pid now turns A =
     map_option (\<lambda>r. r \<noteq> 0) (fst (start_daemon (\<lambda>_. fst (app_main S A)) interval (env_has ''d'' (ap_env A)) pid now turns new_ProcessInfo))"

definition program_status :: "('v, 'k) surroundings \<Rightarrow> u32 \<Rightarrow> int \<Rightarrow> u64 \<Rightarrow> fork_turn list \<Rightarrow> string list
    \<Rightarrow> ('v, 'cb, 'k) Application \<Rightarrow> int option" where
  "program_status S interval pid now turns argv A0 = (case app_init S argv A0 of
     (True, A) \<Rightarrow> map_option (\<lambda>b. if b then 1 else 0) (app_run S interval pid now turns A)
   | (False, _) \<Rightarrow> Some 0)"

section \<open>The servers\<close>

text \<open>
  The network: the sockets, the backlog \<open>SOMAXCONN\<close>, the resolver, and what \<open>rand\<close> returns.
\<close>

record 'k network =
  nw_sys :: "'k sys"
  nw_backlog :: int
  nw_endian :: endian
  nw_numeric :: "string \<Rightarrow> sockaddr list option"
  nw_interfaces :: "ifaddr list option"
  nw_resolver :: resolver
  nw_atoi :: "string \<Rightarrow> int"
  nw_rand :: nat
  nw_read_timeout :: u64

text \<open>How the fiber ends early: \<open>_exit\<close>, or an exception, which the fiber catches.\<close>

datatype run_stop = ExitProcess int | FiberThrows

definition resolve_address :: "'k network \<Rightarrow> string \<Rightarrow> run_stop + Address list" where
  "resolve_address N a = (case find_idx (\<lambda>c. c = CHR '':'') a of
      None \<Rightarrow> (case new_UnixAddress_path (to_bytes a) of None \<Rightarrow> Inl FiberThrows | Some u \<Rightarrow> Inr [UnixAddress u])
    | Some pos \<Rightarrow>
       let port = word_of_int (nw_atoi N (drop (pos + 1) a)) in
       (case IPAddress_Create (nw_endian N) (nw_numeric N) (take pos a) port of
          Some addr \<Rightarrow> Inr [addr]
        | None \<Rightarrow> (case GetInterfaceAddresses_of (nw_endian N) (nw_interfaces N) [] (take pos a) AF_INET of
              (True, result) \<Rightarrow> Inr (map (\<lambda>x. setPort (nw_endian N) port (fst x)) result)
            | (False, _) \<Rightarrow> (case LookupAny (nw_resolver N) a of
                  Some aaddr \<Rightarrow> Inr [aaddr]
                | None \<Rightarrow> Inl (ExitProcess 0)))))"

fun resolve_addresses :: "'k network \<Rightarrow> string list \<Rightarrow> run_stop + Address list" where
  "resolve_addresses N [] = Inr []"
| "resolve_addresses N (a # as) = (case resolve_address N a of
     Inl e \<Rightarrow> Inl e
   | Inr xs \<Rightarrow> (case resolve_addresses N as of Inl e \<Rightarrow> Inl e | Inr ys \<Rightarrow> Inr (xs @ ys)))"

text \<open>The worker of a name; without a name the scheduler that runs the fiber (\<open>None\<close>).\<close>

definition pick_worker :: "'k network \<Rightarrow> 'c WorkerManager \<Rightarrow> string \<Rightarrow> run_stop + 'c named_sched option" where
  "pick_worker N wm name = (if name = [] then Inr None
     else case wm_get (nw_rand N) name wm of None \<Rightarrow> Inl (ExitProcess 0) | Some s \<Rightarrow> Inr (Some s))"

datatype server_class = ServerHttp bool | ServerWS

record ('c, 'k) app_server =
  sv_class :: server_class
  sv_name :: string
  sv_conf :: TcpServerConf
  sv_process :: "'c named_sched option"
  sv_io :: "'c named_sched option"
  sv_accept :: "'c named_sched option"
  sv_tcp :: "'k TcpServer"

definition server_class_of :: "TcpServerConf \<Rightarrow> server_class option" where
  "server_class_of conf = (if cf_type conf = ''http'' then Some (ServerHttp (cf_keepalive conf \<noteq> 0))
     else if cf_type conf = ''ws'' then Some ServerWS else None)"

text \<open>One turn of the loop over the configuration: a server that is bound but not started.\<close>

definition make_server :: "'k network \<Rightarrow> 'c WorkerManager \<Rightarrow> TcpServerConf \<Rightarrow> ('k net, run_stop, ('c, 'k) app_server) exc" where
  "make_server N wm conf =
    ex_bind (Pair (resolve_addresses N (cf_address conf))) (\<lambda>address.
    ex_bind (Pair (pick_worker N wm (cf_accept_worker conf))) (\<lambda>accept_worker.
    ex_bind (Pair (pick_worker N wm (cf_io_worker conf))) (\<lambda>io_worker.
    ex_bind (Pair (pick_worker N wm (cf_process_worker conf))) (\<lambda>process_worker.
    case server_class_of conf of
      None \<Rightarrow> ex_throw (ExitProcess 0)
    | Some cls \<Rightarrow> (\<lambda>net.
        case tcp_bind (nw_sys N) (nw_backlog N) (cf_ssl conf \<noteq> 0) address (new_TcpServer (nw_read_timeout N) net) of
          (False, fails, t) \<Rightarrow> (Inl (ExitProcess 0), tc_net t)
        | (True, fails, t) \<Rightarrow> (Inr \<lparr>sv_class = cls, sv_name = (if cf_name conf \<noteq> [] then cf_name conf else ''flz/1.0.0''),
              sv_conf = conf, sv_process = process_worker, sv_io = io_worker, sv_accept = accept_worker, sv_tcp = t\<rparr>, tc_net t))))))"

text \<open>The loop; \<open>m_servers\<close> lists the servers of a type by their numbers in the vector \<open>svrs\<close>.\<close>

fun make_servers :: "'k network \<Rightarrow> 'c WorkerManager \<Rightarrow> TcpServerConf list \<Rightarrow> nat list smap \<Rightarrow> ('c, 'k) app_server list
    \<Rightarrow> ('k net, run_stop, nat list smap \<times> ('c, 'k) app_server list) exc" where
  "make_servers N wm [] m_servers svrs = ex_return (m_servers, svrs)"
| "make_servers N wm (i # confs) m_servers svrs = ex_bind (make_server N wm i) (\<lambda>server.
     make_servers N wm confs (sm_put (cf_type i) (sm_at [] (cf_type i) m_servers @ [length svrs]) m_servers) (svrs @ [server]))"

definition start_server :: "('c, 'k) app_server \<Rightarrow> ('c, 'k) app_server" where
  "start_server s = s\<lparr>sv_tcp := snd (tcp_start (sv_tcp s))\<rparr>"

text \<open>\<open>on_load\<close> is what the module's \<open>onLoad\<close> returns.  The calls of the modules, in order.\<close>

datatype module_call = OnLoad Module | OnServerReady Module | OnServerUp Module

definition run_fiber :: "'k network \<Rightarrow> (Module \<Rightarrow> bool) \<Rightarrow> Module list \<Rightarrow> 'c WorkerManager \<Rightarrow> TcpServerConf list
    \<Rightarrow> ('k net, run_stop, nat list smap \<times> ('c, 'k) app_server list \<times> module_call list) exc" where
  "run_fiber N on_load modules wm http_confs =
    (if \<not> list_all on_load modules then ex_throw (ExitProcess 0)
     else ex_bind (make_servers N wm http_confs [] []) (\<lambda>(m_servers, svrs).
       ex_return (m_servers, map start_server svrs, map OnLoad modules @ map OnServerReady modules @ map OnServerUp modules)))"

definition getServer :: "nat list smap \<Rightarrow> string \<Rightarrow> bool \<times> nat list option" where
  "getServer m_servers ty = (case sm_find m_servers ty of None \<Rightarrow> (False, None) | Some is \<Rightarrow> (True, Some is))"

definition listAllServer :: "nat list smap \<Rightarrow> nat list smap" where
  "listAllServer m_servers = m_servers"

end
