(* ===== verification/Socket_Correct.thy ===== *)
theory Socket_Correct
  imports Socket "HOL-Library.Multiset"
begin

text \<open>
  Who owns a descriptor: every operation keeps the balance between the descriptors that are open
  and those the objects hold, so that an object closes what it opened, once.
\<close>

section \<open>Balance\<close>

definition own :: "Socket \<Rightarrow> int multiset" where
  "own s = (if m_sock s = -1 then {#} else {#m_sock s#})"

text \<open>
  What is open and not lost belongs to the objects; \<open>rest\<close> are the descriptors of other objects.
\<close>

definition owned :: "int multiset \<Rightarrow> 'k sn \<Rightarrow> bool" where
  "owned rest sn \<longleftrightarrow> mset (g_open (snd sn)) = rest + own (fst sn) + mset (g_lost (snd sn))"

lemma owned_kern [simp]: "owned rest (s, n\<lparr>kern := k\<rparr>) = owned rest (s, n)"
  by (simp add: owned_def)

lemma setOption_same: "setOption c l j v (s, n) = (r, sn') \<Longrightarrow> \<exists>k. sn' = (s, n\<lparr>kern := k\<rparr>)"
  by (auto simp: setOption_def split: prod.splits)

lemma initSock_same: "\<exists>k. initSock c (s, n) = (s, n\<lparr>kern := k\<rparr>)"
proof -
  obtain r1 k1 where o1: "setOption c SOL_SOCKET SO_REUSEADDR [1] (s, n) = (r1, s, n\<lparr>kern := k1\<rparr>)"
    using setOption_same by (metis surj_pair)
  obtain r2 k2 where o2: "setOption c IPPROTO_TCP TCP_NODELAY [1] (s, n\<lparr>kern := k1\<rparr>) = (r2, s, n\<lparr>kern := k1, kern := k2\<rparr>)"
    using setOption_same by (metis surj_pair)
  show ?thesis by (auto simp: initSock_def Let_def o1 o2)
qed

lemma newSock_owned:
  assumes "owned rest (s, n)" "m_sock s = -1" "newSock c (s, n) = (s', n')"
  shows "owned rest (s', n') \<and> m_family s' = m_family s"
proof -
  obtain fd k where k: "sys_socket c (m_family s) (m_type s) (m_protocol s) (kern n) = (fd, k)" by fastforce
  let ?n1 = "n\<lparr>kern := k, g_open := (if fd = -1 then g_open n else fd # g_open n)\<rparr>"
  have d: "do_socket c (m_family s) (m_type s) (m_protocol s) n = (fd, ?n1)" by (simp add: do_socket_def k)
  have o: "owned rest (s\<lparr>m_sock := fd\<rparr>, ?n1)" using assms(1,2) by (auto simp: owned_def own_def)
  obtain k2 where "initSock c (s\<lparr>m_sock := fd\<rparr>, ?n1) = (s\<lparr>m_sock := fd\<rparr>, ?n1\<lparr>kern := k2\<rparr>)"
    using initSock_same [of c "s\<lparr>m_sock := fd\<rparr>" ?n1] by blast
  with assms(3) d have "s' = s\<lparr>m_sock := fd\<rparr>" "\<exists>k. n' = ?n1\<lparr>kern := k\<rparr>"
    by (auto simp: newSock_def Let_def split: if_splits)
  with o show ?thesis by (auto simp: owned_def own_def)
qed

lemma own_addr [simp]: "own (s\<lparr>m_remoteAddress := a\<rparr>) = own s" "own (s\<lparr>m_localAddress := a\<rparr>) = own s"
  "own (s\<lparr>m_isConnected := b\<rparr>) = own s"
  by (simp_all add: own_def)

lemma with_addr:
  "owned rest (with_local c sn) = owned rest sn" "owned rest (with_remote c sn) = owned rest sn"
  by (cases sn; simp add: with_local_def with_remote_def getLocalAddress_def getRemoteAddress_def owned_def split: option.splits)+

lemma with_addr_sock [simp]:
  "m_sock (fst (with_local c sn)) = m_sock (fst sn)" "m_sock (fst (with_remote c sn)) = m_sock (fst sn)"
  by (cases sn; simp add: with_local_def with_remote_def getLocalAddress_def getRemoteAddress_def split: option.splits)+

lemma init_sock_known:
  assumes "sys_fd_socket c fd (kern n)"
  obtains t n' where "init_sock c fd (s, n) = (True, t, n')" "m_sock t = fd"
proof -
  let ?w = "with_remote c (with_local c (initSock c (s\<lparr>m_sock := fd, m_isConnected := True\<rparr>, n)))"
  have "m_sock (fst ?w) = fd" using initSock_same [of c "s\<lparr>m_sock := fd, m_isConnected := True\<rparr>" n] by auto
  with assms that [of "fst ?w" "snd ?w"] show ?thesis by (simp add: init_sock_def)
qed

lemma close_owned:
  assumes "owned rest (s, n)" "socket_close c (s, n) = (r, s', n')"
  shows "owned rest (s', n') \<and> m_sock s' = -1 \<and> g_lost n' = g_lost n"
  using assms by (auto simp: socket_close_def owned_def own_def do_close_def split: if_splits)

lemma delete_owned:
  assumes "owned rest (s, n)"
  shows "mset (g_open (delete_Socket c (s, n))) = rest + mset (g_lost (delete_Socket c (s, n)))
    \<and> g_lost (delete_Socket c (s, n)) = g_lost n"
proof -
  obtain r s' n' where c: "socket_close c (s, n) = (r, s', n')" by (metis surj_pair)
  from close_owned [OF assms c] show ?thesis by (simp add: delete_Socket_def c owned_def own_def)
qed

lemma ensure_owned:
  assumes "owned rest (s, n)" "ensure_sock c (s, n) = (b, s', n')"
  shows "owned rest (s', n') \<and> (b \<longleftrightarrow> m_sock s' \<noteq> -1)"
  using assms newSock_owned [OF assms(1)]
  by (cases "newSock c (s, n)") (auto simp: ensure_sock_def isValid_def Let_def split: if_splits)

lemma connect_owned:
  assumes "owned rest (s, n)" "socket_connect c a t (s, n) = (r, s', n')"
  shows "owned rest (s', n')"
proof -
  let ?s = "s\<lparr>m_remoteAddress := Some a\<rparr>"
  obtain b s1 n1 where e: "ensure_sock c (?s, n) = (b, s1, n1)" by (metis surj_pair)
  have o: "owned rest (s1, n1)" using ensure_owned [OF _ e, of rest] assms(1) by (simp add: owned_def)
  show ?thesis
  proof (cases b)
    case False
    with assms(2) e o show ?thesis by (simp add: socket_connect_def)
  next
    case True
    show ?thesis
    proof (cases "getFamily a = m_family s1")
      case False
      with assms(2) e o True show ?thesis by (simp add: socket_connect_def)
    next
      case fam: True
      obtain q k where q: "sys_connect c (m_sock s1) a (if t = -1 then None else Some t) (kern n1) = (q, k)" by fastforce
      obtain x s2 n2 where cl: "socket_close c (s1, n1\<lparr>kern := k\<rparr>) = (x, s2, n2)" by (metis surj_pair)
      have "owned rest (s2, n2)" using close_owned [OF _ cl, of rest] o by simp
      moreover have "owned rest (s1\<lparr>m_isConnected := True\<rparr>, n1\<lparr>kern := k\<rparr>)" using o by (simp add: owned_def)
      then have "owned rest (with_local c (with_remote c (s1\<lparr>m_isConnected := True\<rparr>, n1\<lparr>kern := k\<rparr>)))" by (simp add: with_addr)
      ultimately show ?thesis using assms(2) e True fam q cl by (auto simp: socket_connect_def split: if_splits)
    qed
  qed
qed

lemma reconnect_owned:
  "owned rest (s, n) \<Longrightarrow> socket_reconnect c t (s, n) = (r, s', n') \<Longrightarrow> owned rest (s', n')"
  by (auto simp: socket_reconnect_def owned_def dest!: connect_owned [of rest "s\<lparr>m_localAddress := None\<rparr>" n, unfolded owned_def, simplified]
      split: option.splits)

lemma new_owned: "owned rest (s, n) \<Longrightarrow> owned (rest + own s) (new_Socket f t p, n)"
  by (simp add: owned_def own_def new_Socket_def)

lemma try_unix_owned:
  assumes "owned rest (s, n)" "try_unix c a n = (b, n')"
  shows "owned rest (s, n')"
proof -
  obtain ok t n1 where t: "socket_connect c a (-1) (CreateUnixTCPSocket, n) = (ok, t, n1)" by (metis surj_pair)
  have "owned (rest + own s) (CreateUnixTCPSocket, n)" using new_owned [OF assms(1)] by (simp add: CreateUnixTCPSocket_def)
  from connect_owned [OF this t] have o: "owned (rest + own s) (t, n1)" .
  have d: "owned rest (s, delete_Socket c (t, n1\<lparr>kern := k\<rparr>))" for k
    using delete_owned [of "rest + own s" t "n1\<lparr>kern := k\<rparr>" c] o by (simp add: owned_def)
  from d [of "kern n1"] have d0: "owned rest (s, delete_Socket c (t, n1))" by simp
  show ?thesis using assms(2) t d d0 by (auto simp: try_unix_def split: if_splits Address.splits)
qed

lemma bind_owned:
  assumes "owned rest (s, n)" "socket_bind c a (s, n) = (r, s', n')"
  shows "owned rest (s', n')"
proof -
  obtain b s1 n1 where e: "ensure_sock c (s, n) = (b, s1, n1)" by (metis surj_pair)
  from ensure_owned [OF assms(1) e] have o: "owned rest (s1, n1)" by simp
  obtain b2 n2 where u: "(case a of UnixAddress u \<Rightarrow> try_unix c a n1 | _ \<Rightarrow> (True, n1)) = (b2, n2)" by fastforce
  have o2: "owned rest (s1, n2)" using u o try_unix_owned [OF o] by (auto split: Address.splits)
  obtain q k where q: "sys_bind c (m_sock s1) a (kern n2) = (q, k)" by fastforce
  have "owned rest (s1\<lparr>g_bound := Some a\<rparr>, n2\<lparr>kern := k\<rparr>)" using o2 by (simp add: owned_def own_def)
  then have "owned rest (with_local c (s1\<lparr>g_bound := Some a\<rparr>, n2\<lparr>kern := k\<rparr>))" by (simp add: with_addr)
  then show ?thesis
    using assms(2) e o o2 q u by (cases b; cases b2) (auto simp: socket_bind_def split: if_splits)
qed

lemma listen_owned: "owned rest (s, n) \<Longrightarrow> socket_listen c k (s, n) = (r, s', n') \<Longrightarrow> owned rest (s', n')"
  by (auto simp: socket_listen_def owned_def own_def split: if_splits prod.splits)

lemma send_owned: "owned rest (s, n) \<Longrightarrow> socket_send c d f (s, n) = (r, s', n') \<Longrightarrow> owned rest (s', n')"
  by (auto simp: socket_send_def split: if_splits prod.splits)

lemma recv_owned: "owned rest (s, n) \<Longrightarrow> socket_recv c l f (s, n) = (r, s', n') \<Longrightarrow> owned rest (s', n')"
  by (auto simp: socket_recv_def split: if_splits prod.splits)

lemma accept_owned:
  assumes "owned rest (s, n)" "socket_accept c (s, n) = (r, n')"
  shows "case r of Some a \<Rightarrow> owned (rest + own a) (s, n') | None \<Rightarrow> owned rest (s, n')"
proof -
  obtain fd k where k: "sys_accept c (m_sock s) (kern n) = (fd, k)" by fastforce
  let ?n1 = "n\<lparr>kern := k, g_open := (if fd = -1 then g_open n else fd # g_open n)\<rparr>"
  have d: "do_accept c (m_sock s) n = (fd, ?n1)" by (simp add: do_accept_def k)
  show ?thesis
  proof (cases "fd = -1")
    case True
    with assms d show ?thesis by (auto simp: socket_accept_def owned_def)
  next
    case False
    let ?t = "new_Socket (m_family s) (m_type s) (m_protocol s)"
    obtain k2 where i: "initSock c (?t\<lparr>m_sock := fd, m_isConnected := True\<rparr>, ?n1)
        = (?t\<lparr>m_sock := fd, m_isConnected := True\<rparr>, ?n1\<lparr>kern := k2\<rparr>)"
      using initSock_same [of c "?t\<lparr>m_sock := fd, m_isConnected := True\<rparr>" ?n1] by blast
    let ?w = "with_remote c (with_local c (?t\<lparr>m_sock := fd, m_isConnected := True\<rparr>, ?n1\<lparr>kern := k2\<rparr>))"
    have "owned (rest + own s) ?w" unfolding with_addr using assms(1) False by (simp add: owned_def own_def add_ac)
    moreover have "\<exists>t'. ?w = (t', ?n1\<lparr>kern := k2\<rparr>)" by (simp add: with_local_def with_remote_def)
    ultimately show ?thesis using assms d False i
      by (auto simp: socket_accept_def init_sock_def owned_def add_ac split: if_splits)
  qed
qed

text \<open>Only \<open>accept\<close> loses a descriptor.\<close>

lemma newSock_lost: "newSock c (s, n) = (s', n') \<Longrightarrow> g_lost n' = g_lost n"
proof -
  assume h: "newSock c (s, n) = (s', n')"
  obtain fd n1 where d: "do_socket c (m_family s) (m_type s) (m_protocol s) n = (fd, n1)" by fastforce
  then have "g_lost n1 = g_lost n" by (auto simp: do_socket_def split: prod.splits)
  moreover obtain k where "initSock c (s\<lparr>m_sock := fd\<rparr>, n1) = (s\<lparr>m_sock := fd\<rparr>, n1\<lparr>kern := k\<rparr>)"
    using initSock_same [of c "s\<lparr>m_sock := fd\<rparr>" n1] by blast
  ultimately show ?thesis using h d by (auto simp: newSock_def Let_def split: if_splits)
qed

lemma ensure_lost: "ensure_sock c (s, n) = (b, s', n') \<Longrightarrow> g_lost n' = g_lost n"
  using newSock_lost [of c s n] by (cases "newSock c (s, n)") (auto simp: ensure_sock_def Let_def split: if_splits)

lemma close_lost: "socket_close c (s, n) = (b, s', n') \<Longrightarrow> g_lost n' = g_lost n"
  by (auto simp: socket_close_def do_close_def split: if_splits)

lemma connect_lost:
  assumes "socket_connect c a t (s, n) = (r, s', n')"
  shows "g_lost n' = g_lost n"
proof -
  obtain b s1 n1 where e: "ensure_sock c (s\<lparr>m_remoteAddress := Some a\<rparr>, n) = (b, s1, n1)" by (metis surj_pair)
  obtain q k where q: "sys_connect c (m_sock s1) a (if t = -1 then None else Some t) (kern n1) = (q, k)" by fastforce
  obtain x s2 n2 where cl: "socket_close c (s1, n1\<lparr>kern := k\<rparr>) = (x, s2, n2)" by (metis surj_pair)
  show ?thesis using assms e q cl ensure_lost [OF e] close_lost [OF cl]
    by (cases b) (auto simp: socket_connect_def with_local_def with_remote_def split: if_splits)
qed

lemma try_unix_lost: "try_unix c a n = (b, n') \<Longrightarrow> g_lost n' = g_lost n"
proof -
  assume h: "try_unix c a n = (b, n')"
  obtain ok s n1 where t: "socket_connect c a (-1) (CreateUnixTCPSocket, n) = (ok, s, n1)" by (metis surj_pair)
  have d: "g_lost (delete_Socket c (s, n1\<lparr>kern := k\<rparr>)) = g_lost n1" for k
    using close_lost by (cases "socket_close c (s, n1\<lparr>kern := k\<rparr>)") (fastforce simp: delete_Socket_def)
  from d [of "kern n1"] d h t connect_lost [OF t] show ?thesis
    by (auto simp: try_unix_def split: if_splits Address.splits)
qed

lemma bind_lost:
  assumes "socket_bind c a (s, n) = (r, s', n')"
  shows "g_lost n' = g_lost n"
proof -
  obtain b s1 n1 where e: "ensure_sock c (s, n) = (b, s1, n1)" by (metis surj_pair)
  obtain b2 n2 where u: "(case a of UnixAddress u \<Rightarrow> try_unix c a n1 | _ \<Rightarrow> (True, n1)) = (b2, n2)" by fastforce
  have l: "g_lost n2 = g_lost n1" using u try_unix_lost by (auto split: Address.splits)
  obtain q k where q: "sys_bind c (m_sock s1) a (kern n2) = (q, k)" by fastforce
  show ?thesis using assms e u q l ensure_lost [OF e]
    by (cases b; cases b2) (auto simp: socket_bind_def with_local_def split: if_splits)
qed

lemma listen_lost: "socket_listen c k (s, n) = (r, s', n') \<Longrightarrow> g_lost n' = g_lost n"
  by (auto simp: socket_listen_def split: if_splits prod.splits)

text \<open>
  A socket that was bound to \<open>a\<close> and then made to listen: it has a descriptor, on which the kernel
  has accepted both calls.
\<close>

definition listens_on :: "int \<Rightarrow> Address \<Rightarrow> Socket \<Rightarrow> bool" where
  "listens_on backlog a s \<longleftrightarrow> isValid s \<and> g_bound s = Some a \<and> g_listening s = Some backlog"

lemma with_local_same [simp]:
  "m_sock (fst (with_local c sn)) = m_sock (fst sn)" "g_bound (fst (with_local c sn)) = g_bound (fst sn)"
  "snd (with_local c sn) = snd sn"
  by (auto simp: with_local_def getLocalAddress_def split: prod.splits option.splits)

lemma bind_bound:
  assumes "socket_bind c a sn = (True, s', n')"
  shows "g_bound s' = Some a"
proof -
  from assms obtain s n k where "with_local c (s\<lparr>g_bound := Some a\<rparr>, n\<lparr>kern := k\<rparr>) = (s', n')"
    by (auto simp: socket_bind_def split: prod.splits bool.splits if_splits)
  with with_local_same(2) [of c "(s\<lparr>g_bound := Some a\<rparr>, n\<lparr>kern := k\<rparr>)"] show ?thesis by simp
qed

lemma listen_listens:
  "socket_listen c k (s, n) = (True, s', n') \<Longrightarrow> g_bound s = Some a \<Longrightarrow> listens_on k a s'"
  by (auto simp: socket_listen_def listens_on_def isValid_def split: if_splits prod.splits)

section \<open>Properties\<close>

text \<open>What may be done with a socket; an accepted one is kept until the end.\<close>

datatype sock_op = OpBind Address | OpConnect Address u64 | OpReconnect u64 | OpListen int | OpClose
  | OpSend bytes int | OpRecv nat int | OpAccept

fun sock_run :: "'k sys \<Rightarrow> sock_op list \<Rightarrow> Socket list \<Rightarrow> 'k sn \<Rightarrow> Socket list \<times> 'k sn" where
  "sock_run c [] acc sn = (acc, sn)"
| "sock_run c (OpBind a # ops) acc sn = sock_run c ops acc (snd (socket_bind c a sn))"
| "sock_run c (OpConnect a t # ops) acc sn = sock_run c ops acc (snd (socket_connect c a t sn))"
| "sock_run c (OpReconnect t # ops) acc sn = sock_run c ops acc (snd (socket_reconnect c t sn))"
| "sock_run c (OpListen b # ops) acc sn = sock_run c ops acc (snd (socket_listen c b sn))"
| "sock_run c (OpClose # ops) acc sn = sock_run c ops acc (snd (socket_close c sn))"
| "sock_run c (OpSend d f # ops) acc sn = sock_run c ops acc (snd (socket_send c d f sn))"
| "sock_run c (OpRecv l f # ops) acc sn = sock_run c ops acc (snd (socket_recv c l f sn))"
| "sock_run c (OpAccept # ops) acc sn = (case socket_accept c sn of
       (Some a, n) \<Rightarrow> sock_run c ops (a # acc) (fst sn, n) | (None, n) \<Rightarrow> sock_run c ops acc (fst sn, n))"

definition owns :: "Socket list \<Rightarrow> int multiset" where
  "owns ss = (\<Sum>s \<leftarrow> ss. own s)"

lemma owns_simps [simp]: "owns [] = {#}" "owns (s # ss) = own s + owns ss"
  by (simp_all add: owns_def)

lemma sock_run_owned:
  "owned (rest + owns acc) (s, n) \<Longrightarrow> sock_run c ops acc (s, n) = (acc', s', n') \<Longrightarrow> owned (rest + owns acc') (s', n')"
proof (induction ops arbitrary: acc s n)
  case (Cons op ops)
  show ?case
  proof (cases op)
    case (OpBind a)
    obtain r s1 n1 where f: "socket_bind c a (s, n) = (r, s1, n1)" by (metis surj_pair)
    with Cons.IH [OF bind_owned [OF Cons.prems(1) f]] Cons.prems(2) OpBind show ?thesis by simp
  next
    case (OpConnect a t)
    obtain r s1 n1 where f: "socket_connect c a t (s, n) = (r, s1, n1)" by (metis surj_pair)
    with Cons.IH [OF connect_owned [OF Cons.prems(1) f]] Cons.prems(2) OpConnect show ?thesis by simp
  next
    case (OpReconnect t)
    obtain r s1 n1 where f: "socket_reconnect c t (s, n) = (r, s1, n1)" by (metis surj_pair)
    with Cons.IH [OF reconnect_owned [OF Cons.prems(1) f]] Cons.prems(2) OpReconnect show ?thesis by simp
  next
    case (OpListen b)
    obtain r s1 n1 where f: "socket_listen c b (s, n) = (r, s1, n1)" by (metis surj_pair)
    with Cons.IH [OF listen_owned [OF Cons.prems(1) f]] Cons.prems(2) OpListen show ?thesis by simp
  next
    case OpClose
    obtain r s1 n1 where f: "socket_close c (s, n) = (r, s1, n1)" by (metis surj_pair)
    with Cons.IH [OF close_owned [OF Cons.prems(1) f, THEN conjunct1]] Cons.prems(2) OpClose show ?thesis by simp
  next
    case (OpSend d fl)
    obtain r s1 n1 where f: "socket_send c d fl (s, n) = (r, s1, n1)" by (metis surj_pair)
    with Cons.IH [OF send_owned [OF Cons.prems(1) f]] Cons.prems(2) OpSend show ?thesis by simp
  next
    case (OpRecv l fl)
    obtain r s1 n1 where f: "socket_recv c l fl (s, n) = (r, s1, n1)" by (metis surj_pair)
    with Cons.IH [OF recv_owned [OF Cons.prems(1) f]] Cons.prems(2) OpRecv show ?thesis by simp
  next
    case OpAccept
    obtain r n1 where f: "socket_accept c (s, n) = (r, n1)" by fastforce
    show ?thesis
    proof (cases r)
      case None
      from accept_owned [OF Cons.prems(1) f] None have "owned (rest + owns acc) (s, n1)" by simp
      from Cons.IH [OF this] Cons.prems(2) OpAccept f None show ?thesis by simp
    next
      case (Some a)
      from accept_owned [OF Cons.prems(1) f] Some have "owned (rest + owns (a # acc)) (s, n1)" by (simp add: add_ac)
      from Cons.IH [OF this] Cons.prems(2) OpAccept f Some show ?thesis by simp
    qed
  qed
qed simp

lemma delete_all_owned:
  "mset (g_open n) = rest + owns ss + mset (g_lost n) \<Longrightarrow>
    mset (g_open (fold (\<lambda>s n. delete_Socket c (s, n)) ss n)) = rest + mset (g_lost n)"
proof (induction ss arbitrary: n)
  case (Cons s ss)
  then have "owned (rest + owns ss) (s, n)" by (simp add: owned_def add_ac)
  from delete_owned [OF this, of c] Cons.IH [of "delete_Socket c (s, n)"] show ?case by simp
qed simp

text \<open>
  C24.  The life of a socket: from its construction through any operations, with whatever results
  of the system calls, to the destruction of it and of all sockets it has accepted, every
  descriptor that was opened is closed exactly once and none that it did not open, except for those it
  reports as lost.
\<close>

theorem socket_life:
  assumes "sock_run c ops [] (new_Socket f t p, n) = (acc, s, n1)" "g_lost n = []"
  shows "mset (g_open (fold (\<lambda>s n. delete_Socket c (s, n)) (s # acc) n1)) = mset (g_open n) + mset (g_lost n1)"
proof -
  have "owned (mset (g_open n) + owns []) (new_Socket f t p, n)"
    by (simp add: owned_def own_def new_Socket_def assms(2))
  from sock_run_owned [OF this assms(1)] have "owned (mset (g_open n) + owns acc) (s, n1)" .
  then have "mset (g_open n1) = mset (g_open n) + owns (s # acc) + mset (g_lost n1)" by (simp add: owned_def add_ac)
  from delete_all_owned [OF this] show ?thesis .
qed

text \<open>A listening socket on descriptor 3 that has accepted one on descriptor 4; another one, 9, is open.\<close>

definition demo_sys :: "unit sys" where
  "demo_sys = \<lparr>sys_socket = (\<lambda>f t p k. (3, k)), sys_close = (\<lambda>fd k. k), sys_bind = (\<lambda>fd a k. (0, k)),
     sys_listen = (\<lambda>fd b k. (0, k)), sys_accept = (\<lambda>fd k. (4, k)), sys_connect = (\<lambda>fd a t k. (-1, k)),
     sys_getpeername = (\<lambda>fd k. None), sys_getsockname = (\<lambda>fd k. None), sys_setsockopt = (\<lambda>fd l j v k. (0, k)),
     sys_sockerror = (\<lambda>fd k. Some 0), sys_errno = (\<lambda>k. 0), sys_fd_socket = (\<lambda>fd k. True),
     sys_fd_timeout = (\<lambda>fd w k. None), sys_unlink = (\<lambda>p k. k), sys_send = (\<lambda>fd d a f k. (int (length d), k)),
     sys_recv = (\<lambda>fd l f k. ((0, []), k)), sys_recvfrom = (\<lambda>fd l a f k. ((0, [], a), k))\<rparr>"

definition demo_addr :: Address where
  "demo_addr = UnknownAddress AF_INET []"

theorem socket_life_witness:
  "\<exists>acc s n1. sock_run demo_sys [OpBind demo_addr, OpListen 5, OpAccept] [] (new_Socket AF_INET SOCK_STREAM 0, \<lparr>kern = (), g_open = [9], g_lost = []\<rparr>)
      = (acc, s, n1) \<and> g_open n1 = [4, 3, 9]
    \<and> mset (g_open (fold (\<lambda>s n. delete_Socket demo_sys (s, n)) (s # acc) n1)) = {#9#}"
proof -
  let ?n = "\<lparr>kern = (), g_open = [9], g_lost = []\<rparr> :: unit net"
  let ?ops = "[OpBind demo_addr, OpListen 5, OpAccept]"
  obtain acc s n1 where r: "sock_run demo_sys ?ops [] (new_Socket AF_INET SOCK_STREAM 0, ?n) = (acc, s, n1)" by (metis surj_pair)
  then have "g_open n1 = [4, 3, 9] \<and> g_lost n1 = []"
    by (simp add: demo_sys_def socket_bind_def ensure_sock_def isValid_def new_Socket_def newSock_def do_socket_def initSock_def
        setOption_def demo_addr_def with_local_def with_remote_def getLocalAddress_def getRemoteAddress_def socket_listen_def socket_accept_def
        do_accept_def init_sock_def Let_def) auto
  with socket_life [OF r] r show ?thesis by auto
qed

section \<open>Single operations\<close>

text \<open>
  An accepted descriptor that the descriptor manager does not know as an open socket is neither
  kept nor closed.
\<close>

lemma failed_accept_leaks:
  assumes "sys_accept c (m_sock s) (kern n) = (fd, k)" "fd \<noteq> -1" "\<not> sys_fd_socket c fd k"
  shows "\<exists>n'. socket_accept c (s, n) = (None, n') \<and> fd \<in> set (g_open n') \<and> fd \<in> set (g_lost n')"
  using assms by (simp add: socket_accept_def do_accept_def init_sock_def)

text \<open>A closed socket neither sends nor receives, and can be connected again.\<close>

lemma closed_socket:
  assumes "socket_close c (s, n) = (r, s', n')"
  shows "socket_send c d f (s', n') = (-1, s', n') \<and> socket_recv c l f (s', n') = ((-1, []), s', n')
    \<and> socket_close c (s', n') = (True, s', n')"
  using assms by (auto simp: socket_close_def socket_send_def socket_recv_def split: if_splits)

text \<open>
  A socket for datagrams is usable at once, but not the one for a path: it is never marked as
  connected, so it cannot send to any address.
\<close>

lemma unix_datagram_cannot_send: "fst (socket_sendTo c d a f (CreateUnixUDPSocket, n)) = -1"
  by (simp add: CreateUnixUDPSocket_def new_Socket_def socket_sendTo_def)

lemma datagram_connected: "m_isConnected (fst (CreateUDPSocket c n))"
  by (simp add: CreateUDPSocket_def split: prod.splits)

lemma cast_int_small: "- (2 ^ 31) \<le> v \<Longrightarrow> v < 2 ^ 31 \<Longrightarrow> cast_int v = v"
  by (simp add: cast_int_def signed_of_int signed_take_bit_int_eq_self)

text \<open>
  The timeout that is set comes back as the descriptor manager keeps it, in milliseconds, as
  long as its seconds fit into an \<open>int\<close>.
\<close>

lemma timeout_round_trip:
  assumes "0 \<le> v" "v < 2 ^ 31 * 1000"
  shows "case timeval_of v of [sec, usec] \<Rightarrow> sec * 1000 + usec div 1000 = v"
proof -
  have q: "v sdiv 1000 = v div 1000" "v smod 1000 = v mod 1000"
    using assms(1) by (simp_all add: signed_divide_int_def signed_modulo_int_def sgn_if)
  have "0 \<le> v div 1000" "v div 1000 < 2 ^ 31" "0 \<le> v mod 1000" "v mod 1000 < 1000" using assms by simp_all
  then have "cast_int (v div 1000) = v div 1000" "cast_int (v mod 1000 * 1000) = v mod 1000 * 1000"
    by (simp_all add: cast_int_small)
  then show ?thesis by (simp add: timeval_of_def q)
qed

text \<open>A timeout of no limit, -1, is set as one that is over at once.\<close>

lemma timeout_minus_one: "timeval_of (-1) = [0, -1000]"
  by (simp add: timeval_of_def cast_int_def signed_divide_int_def signed_modulo_int_def signed_of_int signed_take_bit_int_eq_self)

section \<open>SSL\<close>

text \<open>A failed handshake closes what was accepted; without certificates the first client that is accepted is fatal.\<close>

lemma ssl_accept_owned:
  assumes "owned rest (s, n)" "ssl_accept c hs ctx (s, n) = Some (client, n')"
  shows "owned (rest + (case client of None \<Rightarrow> {#} | Some s' \<Rightarrow> own s')) (s, n')"
proof -
  obtain fd k where k: "sys_accept c (m_sock s) (kern n) = (fd, k)" by fastforce
  let ?n1 = "n\<lparr>kern := k, g_open := (if fd = -1 then g_open n else fd # g_open n)\<rparr>"
  let ?t = "new_Socket (m_family s) (m_type s) (m_protocol s)"
  have d: "do_accept c (m_sock s) n = (fd, ?n1)" by (simp add: do_accept_def k)
  show ?thesis
  proof (cases "fd = -1 \<or> \<not> sys_fd_socket c fd k")
    case True
    then show ?thesis
    proof (cases "fd = -1")
      case True
      with assms d show ?thesis by (auto simp: ssl_accept_def owned_def)
    next
      case fd: False
      with True have "ssl_init_sock c hs ctx fd (?t, ?n1) = Some (False, ?t, ?n1)" by (simp add: ssl_init_sock_def init_sock_def)
      with assms d fd show ?thesis by (auto simp: ssl_accept_def owned_def isValid_def new_Socket_def)
    qed
  next
    case False
    then have "sys_fd_socket c fd (kern ?n1)" by simp
    then obtain t' n2 where i: "init_sock c fd (?t, ?n1) = (True, t', n2)" "m_sock t' = fd" by (rule init_sock_known)
    have a: "socket_accept c (s, n) = (Some t', n2)" using False d i by (simp add: socket_accept_def)
    from accept_owned [OF assms(1) a] have o: "owned (rest + own t') (s, n2)" by simp
    then have "owned (rest + own s) (t', n2\<lparr>kern := q\<rparr>)" for q by (simp add: owned_def add_ac)
    from delete_owned [OF this] have "owned rest (s, delete_Socket c (t', n2\<lparr>kern := q\<rparr>))" for q by (simp add: owned_def)
    with assms(2) d i o False show ?thesis
      by (auto simp: ssl_accept_def ssl_init_sock_def isValid_def owned_def split: if_splits prod.splits bool.splits)
  qed
qed

lemma ssl_accept_without_certificates:
  assumes "sys_accept c (m_sock s) (kern n) = (fd, k)" "fd \<noteq> -1" "sys_fd_socket c fd k"
  shows "ssl_accept c hs False (s, n) = None"
  using assms by (simp add: ssl_accept_def ssl_init_sock_def do_accept_def init_sock_def with_local_def with_remote_def split: prod.splits)

text \<open>
  Over several buffers, what was written is counted until a buffer is written in part; but an
  error in a later buffer is returned in place of the count of those before it.
\<close>

lemma ssl_send_all:
  assumes "\<And>b s. b \<in> set bs \<Longrightarrow> fst (wr b s) = int (length b)" "\<forall>b \<in> set bs. b \<noteq> []"
  shows "fst (ssl_send_loop wr bs tot s) = tot + int (length (concat bs))"
  using assms
proof (induction bs arbitrary: tot s)
  case (Cons b bs)
  obtain r s1 where w: "wr b s = (r, s1)" by fastforce
  with Cons.prems(1) [of b s] have "r = int (length b)" by simp
  moreover have "b \<noteq> []" using Cons.prems(2) by simp
  ultimately show ?case using Cons.IH [of "tot + int (length b)" s1] Cons.prems w by simp
qed simp

lemma ssl_error_hides_count:
  assumes "wr b s = (int (length b), s1)" "b \<noteq> []" "wr b' s1 = (-1, s2)"
  shows "ssl_send wr True [b, b'] s = (-1, s2)"
  using assms by (simp add: ssl_send_def)

end
