(* ===== verification/Tcp_Server_Correct.thy ===== *)
theory Tcp_Server_Correct
  imports Tcp_Server Socket_Correct "HOL-Library.Sublist"
begin

text \<open>
  Binding a list of addresses succeeds as a whole or leaves nothing open; the server's descriptors
  are those of its listening sockets and its clients; a configuration comes back from its text,
  apart from its arguments.
\<close>

section \<open>Descriptors\<close>

text \<open>Everything open that is not of others belongs to a listening socket or a client, or is lost.\<close>

definition tcp_owned :: "int multiset \<Rightarrow> 'k TcpServer \<Rightarrow> bool" where
  "tcp_owned rest t \<longleftrightarrow> mset (g_open (tc_net t)) = rest + owns (tc_store t) + owns (tc_clients t) + mset (g_lost (tc_net t))"

lemma owns_append [simp]: "owns (xs @ ys) = owns xs + owns ys"
  by (simp add: owns_def)

lemma owns_split: "i < length ss \<Longrightarrow> owns ss = own (ss ! i) + owns (take i ss @ drop (Suc i) ss)"
  using arg_cong [OF id_take_nth_drop [of i ss], of owns] by (simp add: add_ac)

lemma owns_update: "i < length ss \<Longrightarrow> owns (ss[i := s]) = own s + owns (take i ss @ drop (Suc i) ss)"
  by (simp add: upd_conv_take_nth_drop add_ac)

text \<open>An operation on one socket that keeps its own balance keeps that of the server.\<close>

lemma on_sock_owned:
  assumes "tcp_owned rest t" "i < length (tc_store t)" "on_sock i f t = (b, t')"
    and "\<And>rest s n r s' n'. owned rest (s, n) \<Longrightarrow> f (s, n) = (r, s', n') \<Longrightarrow> owned rest (s', n')"
  shows "tcp_owned rest t' \<and> length (tc_store t') = length (tc_store t)"
proof -
  obtain s n where f: "f (tc_store t ! i, tc_net t) = (b, s, n)" and t': "t' = t\<lparr>tc_store := (tc_store t)[i := s], tc_net := n\<rparr>"
    using assms(3) by (auto simp: on_sock_def split: prod.splits)
  let ?r = "rest + owns (take i (tc_store t) @ drop (Suc i) (tc_store t)) + owns (tc_clients t)"
  have "owned ?r (tc_store t ! i, tc_net t)"
    using assms(1) owns_split [OF assms(2)] by (simp add: tcp_owned_def owned_def add_ac)
  from assms(4) [OF this f] show ?thesis
    using owns_update [OF assms(2), of s] by (simp add: t' tcp_owned_def owned_def add_ac)
qed

lemma close_sock_owned:
  assumes "tcp_owned rest t" "i < length (tc_store t)"
  shows "tcp_owned rest (close_sock c i t) \<and> length (tc_store (close_sock c i t)) = length (tc_store t)"
proof -
  obtain b t' where "on_sock i (socket_close c) t = (b, t')" by fastforce
  from on_sock_owned [OF assms this] close_owned this show ?thesis by (fastforce simp: close_sock_def)
qed

lemma close_sock_closed:
  assumes "i < length (tc_store t)"
  shows "m_sock (tc_store (close_sock c i t) ! i) = -1"
    and "j \<noteq> i \<Longrightarrow> tc_store (close_sock c i t) ! j = tc_store t ! j"
    and "m_socks (close_sock c i t) = m_socks t" "tc_held (close_sock c i t) = tc_held t"
proof -
  obtain b s n where f: "socket_close c (tc_store t ! i, tc_net t) = (b, s, n)" by (metis surj_pair)
  then have "m_sock s = -1" by (auto simp: socket_close_def split: if_splits)
  with f assms show "m_sock (tc_store (close_sock c i t) ! i) = -1"
    "j \<noteq> i \<Longrightarrow> tc_store (close_sock c i t) ! j = tc_store t ! j"
    "m_socks (close_sock c i t) = m_socks t" "tc_held (close_sock c i t) = tc_held t"
    by (simp_all add: close_sock_def on_sock_def)
qed

lemma fold_close:
  assumes "tcp_owned rest t" "\<forall>i \<in> set is. i < length (tc_store t)"
  shows "tcp_owned rest (fold (close_sock c) is t) \<and> length (tc_store (fold (close_sock c) is t)) = length (tc_store t)
    \<and> m_socks (fold (close_sock c) is t) = m_socks t \<and> tc_held (fold (close_sock c) is t) = tc_held t
    \<and> (\<forall>j < length (tc_store t). (j \<in> set is \<or> m_sock (tc_store t ! j) = -1) \<longrightarrow> m_sock (tc_store (fold (close_sock c) is t) ! j) = -1)"
  using assms
proof (induction "is" arbitrary: t)
  case (Cons i "is")
  then have i: "i < length (tc_store t)" by simp
  from close_sock_owned [OF Cons.prems(1) i] have c: "tcp_owned rest (close_sock c i t)" "length (tc_store (close_sock c i t)) = length (tc_store t)"
    by auto
  from Cons.IH [OF c(1)] Cons.prems(2) c(2) close_sock_closed [OF i]
  have IH: "tcp_owned rest (fold (close_sock c) is (close_sock c i t))"
    "length (tc_store (fold (close_sock c) is (close_sock c i t))) = length (tc_store t)"
    "m_socks (fold (close_sock c) is (close_sock c i t)) = m_socks t" "tc_held (fold (close_sock c) is (close_sock c i t)) = tc_held t"
    "\<forall>j < length (tc_store t). (j \<in> set is \<or> m_sock (tc_store (close_sock c i t) ! j) = -1)
        \<longrightarrow> m_sock (tc_store (fold (close_sock c) is (close_sock c i t)) ! j) = -1" by auto
  moreover have "m_sock (tc_store (close_sock c i t) ! j) = -1" if "j = i \<or> m_sock (tc_store t ! j) = -1" for j
    using that close_sock_closed(1) [OF i] close_sock_closed(2) [OF i, of j] by (cases "j = i") auto
  ultimately show ?case by auto
qed simp

section \<open>Binding\<close>

text \<open>What a step on socket \<open>i\<close> leaves alone.\<close>

definition kept :: "nat \<Rightarrow> 'k TcpServer \<Rightarrow> 'k TcpServer \<Rightarrow> bool" where
  "kept i t t' \<longleftrightarrow> length (tc_store t') = length (tc_store t) \<and> (\<forall>j. j \<noteq> i \<longrightarrow> tc_store t' ! j = tc_store t ! j)
     \<and> m_socks t' = m_socks t \<and> tc_held t' = tc_held t \<and> tc_clients t' = tc_clients t \<and> g_lost (tc_net t') = g_lost (tc_net t)"

lemma kept_trans: "kept i t t1 \<Longrightarrow> kept i t1 t2 \<Longrightarrow> kept i t t2"
  by (simp add: kept_def)

lemma on_sock_kept:
  assumes "on_sock i f t = (b, t')" "\<And>s n r s' n'. f (s, n) = (r, s', n') \<Longrightarrow> g_lost n' = g_lost n"
  shows "kept i t t'"
  using assms by (cases "f (tc_store t ! i, tc_net t)") (auto simp: on_sock_def kept_def split: prod.splits)

lemma close_sock_kept: "kept i t (close_sock c i t)"
  using on_sock_kept [of i "socket_close c" t] close_lost by (cases "on_sock i (socket_close c) t") (fastforce simp: close_sock_def)

lemma on_sock_binds:
  "on_sock i (socket_bind c a) t = (True, t') \<Longrightarrow> i < length (tc_store t) \<Longrightarrow> g_bound (tc_store t' ! i) = Some a"
  by (auto simp: on_sock_def bind_bound split: prod.splits)

lemma on_sock_listens:
  "on_sock i (socket_listen c k) t = (True, t') \<Longrightarrow> i < length (tc_store t) \<Longrightarrow> g_bound (tc_store t ! i) = Some a \<Longrightarrow>
    listens_on k a (tc_store t' ! i)"
  by (auto simp: on_sock_def listen_listens split: prod.splits)

lemma listens_valid: "listens_on k a s \<Longrightarrow> isValid s"
  by (simp add: listens_on_def)

text \<open>
  One address: either a new listening socket, the last of the store, or a socket that is closed
  again.
\<close>

lemma bind_loop_step:
  assumes "tcp_owned rest t"
  obtains (ok) t2 where "bind_loop c k (a # addrs) fails t = bind_loop c k addrs fails (t2\<lparr>m_socks := m_socks t2 @ [length (tc_store t)]\<rparr>)"
    "tcp_owned rest t2" "kept (length (tc_store t)) (t\<lparr>tc_store := tc_store t @ [CreateTCP a]\<rparr>) t2" "listens_on k a (tc_store t2 ! length (tc_store t))"
  | (failed) t2 where "bind_loop c k (a # addrs) fails t = bind_loop c k addrs (fails @ [a]) t2"
    "tcp_owned rest t2" "kept (length (tc_store t)) (t\<lparr>tc_store := tc_store t @ [CreateTCP a]\<rparr>) t2" "m_sock (tc_store t2 ! length (tc_store t)) = -1"
proof -
  let ?i = "length (tc_store t)" and ?t0 = "t\<lparr>tc_store := tc_store t @ [CreateTCP a]\<rparr>"
  have t0: "tcp_owned rest ?t0" "?i < length (tc_store ?t0)"
    using assms by (simp_all add: tcp_owned_def CreateTCP_def new_Socket_def own_def)
  obtain b1 t1 where b: "on_sock ?i (socket_bind c a) ?t0 = (b1, t1)" by fastforce
  from on_sock_owned [OF t0 b bind_owned] have t1: "tcp_owned rest t1" "length (tc_store t1) = length (tc_store ?t0)" by auto
  have k1: "kept ?i ?t0 t1" by (rule on_sock_kept [OF b bind_lost])
  obtain b2 t2 where l: "on_sock ?i (socket_listen c k) t1 = (b2, t2)" by fastforce
  from on_sock_owned [OF t1(1) _ l listen_owned] t0(2) t1(2) have t2: "tcp_owned rest t2" "length (tc_store t2) = length (tc_store ?t0)" by auto
  have k2: "kept ?i ?t0 t2" by (rule kept_trans [OF k1 on_sock_kept [OF l listen_lost]])
  show ?thesis
  proof (cases b1)
    case False
    have "?i < length (tc_store t1)" using t0(2) t1(2) by simp
    with False b failed [of "close_sock c ?i t1"] close_sock_owned [OF t1(1)] kept_trans [OF k1 close_sock_kept]
      close_sock_closed(1) [of ?i t1 c]
    show ?thesis by (simp add: Let_def)
  next
    case True
    have i: "?i < length (tc_store t2)" using t0(2) t2(2) by simp
    show ?thesis
    proof (cases b2)
      case False
      with True b l i failed [of "close_sock c ?i t2"] close_sock_owned [OF t2(1)] kept_trans [OF k2 close_sock_kept]
        close_sock_closed(1) [of ?i t2 c]
      show ?thesis by (simp add: Let_def)
    next
      case b2: True
      from on_sock_binds [of ?i c a ?t0 t1] b True t0(2) have "g_bound (tc_store t1 ! ?i) = Some a" by simp
      with on_sock_listens [of ?i c k t1 t2 a] l b2 t0(2) t1(2) have "listens_on k a (tc_store t2 ! ?i)" by simp
      with b2 True b l ok [of t2] t2(1) k2 show ?thesis by (simp add: Let_def)
    qed
  qed
qed

text \<open>The sockets that came to be, by number, with those that listen.\<close>

definition bind_outcome :: "int \<Rightarrow> Address \<Rightarrow> bool \<Rightarrow> Socket \<Rightarrow> bool" where
  "bind_outcome k a ok s \<longleftrightarrow> (if ok then listens_on k a s else m_sock s = -1)"

lemma bind_loop_result:
  assumes "bind_loop c k addrs fails t = (fails', t')" "tcp_owned rest t"
  shows "\<exists>oks. length oks = length addrs \<and> fails' = fails @ map fst (filter (\<lambda>(a, b). \<not> b) (zip addrs oks))
    \<and> m_socks t' = m_socks t @ map fst (filter snd (zip [length (tc_store t)..<length (tc_store t) + length addrs] oks))
    \<and> tcp_owned rest t' \<and> length (tc_store t') = length (tc_store t) + length addrs
    \<and> tc_held t' = tc_held t \<and> tc_clients t' = tc_clients t \<and> g_lost (tc_net t') = g_lost (tc_net t)
    \<and> (\<forall>j < length (tc_store t). tc_store t' ! j = tc_store t ! j)
    \<and> (\<forall>j < length addrs. bind_outcome k (addrs ! j) (oks ! j) (tc_store t' ! (length (tc_store t) + j)))"
  using assms
proof (induction addrs arbitrary: fails t)
  case Nil
  then show ?case by simp
next
  case (Cons a addrs)
  let ?N = "length (tc_store t)"
  have range: "[?N..<Suc (?N + length addrs)] = ?N # [Suc ?N..<Suc (?N + length addrs)]"
    by (simp add: upt_conv_Cons del: upt_Suc)
  from Cons.prems(2) show ?case
  proof (cases rule: bind_loop_step [of rest t c k a addrs fails])
    case (ok t2)
    let ?t2 = "t2\<lparr>m_socks := m_socks t2 @ [?N]\<rparr>"
    have "tcp_owned rest ?t2" using ok(2) by (simp add: tcp_owned_def)
    from Cons.IH [OF _ this, of fails] Cons.prems(1) ok(1) obtain oks where IH: "length oks = length addrs"
      "fails' = fails @ map fst (filter (\<lambda>(a, b). \<not> b) (zip addrs oks))"
      "m_socks t' = m_socks ?t2 @ map fst (filter snd (zip [length (tc_store ?t2)..<length (tc_store ?t2) + length addrs] oks))"
      "tcp_owned rest t'" "length (tc_store t') = length (tc_store ?t2) + length addrs"
      "tc_held t' = tc_held ?t2" "tc_clients t' = tc_clients ?t2" "g_lost (tc_net t') = g_lost (tc_net ?t2)"
      "\<forall>j < length (tc_store ?t2). tc_store t' ! j = tc_store ?t2 ! j"
      "\<forall>j < length addrs. bind_outcome k (addrs ! j) (oks ! j) (tc_store t' ! (length (tc_store ?t2) + j))" by auto
    from ok(3) have k: "length (tc_store t2) = Suc ?N" "m_socks t2 = m_socks t" "tc_held t2 = tc_held t" "tc_clients t2 = tc_clients t"
      "g_lost (tc_net t2) = g_lost (tc_net t)" "\<forall>j < ?N. tc_store t2 ! j = tc_store t ! j"
      by (auto simp: kept_def nth_append)
    show ?thesis
    proof (intro exI [of _ "True # oks"] conjI allI impI)
      fix j assume j: "j < length (a # addrs)"
      show "bind_outcome k ((a # addrs) ! j) ((True # oks) ! j) (tc_store t' ! (?N + j))"
      proof (cases j)
        case 0
        with IH(9) k(1) ok(4) show ?thesis by (simp add: bind_outcome_def)
      next
        case (Suc i)
        with IH(10) k(1) j show ?thesis by auto
      qed
    qed (use IH k in \<open>simp_all add: range del: upt_Suc\<close>)
  next
    case (failed t2)
    from Cons.IH [OF _ failed(2), of "fails @ [a]"] Cons.prems(1) failed(1) obtain oks where IH: "length oks = length addrs"
      "fails' = (fails @ [a]) @ map fst (filter (\<lambda>(a, b). \<not> b) (zip addrs oks))"
      "m_socks t' = m_socks t2 @ map fst (filter snd (zip [length (tc_store t2)..<length (tc_store t2) + length addrs] oks))"
      "tcp_owned rest t'" "length (tc_store t') = length (tc_store t2) + length addrs"
      "tc_held t' = tc_held t2" "tc_clients t' = tc_clients t2" "g_lost (tc_net t') = g_lost (tc_net t2)"
      "\<forall>j < length (tc_store t2). tc_store t' ! j = tc_store t2 ! j"
      "\<forall>j < length addrs. bind_outcome k (addrs ! j) (oks ! j) (tc_store t' ! (length (tc_store t2) + j))" by auto
    from failed(3) have k: "length (tc_store t2) = Suc ?N" "m_socks t2 = m_socks t" "tc_held t2 = tc_held t" "tc_clients t2 = tc_clients t"
      "g_lost (tc_net t2) = g_lost (tc_net t)" "\<forall>j < ?N. tc_store t2 ! j = tc_store t ! j"
      by (auto simp: kept_def nth_append)
    show ?thesis
    proof (intro exI [of _ "False # oks"] conjI allI impI)
      fix j assume j: "j < length (a # addrs)"
      show "bind_outcome k ((a # addrs) ! j) ((False # oks) ! j) (tc_store t' ! (?N + j))"
      proof (cases j)
        case 0
        with IH(9) k(1) failed(4) show ?thesis by (simp add: bind_outcome_def)
      next
        case (Suc i)
        with IH(10) k(1) j show ?thesis by auto
      qed
    qed (use IH k in \<open>simp_all add: range del: upt_Suc\<close>)
  qed
qed

section \<open>Properties\<close>

lemma owns_closed: "\<forall>s \<in> set ss. m_sock s = -1 \<Longrightarrow> owns ss = {#}"
  by (induction ss) (auto simp: own_def)

lemma fold_close_clients: "tc_clients (fold (close_sock c) is t) = tc_clients t"
  by (induction "is" arbitrary: t) (simp_all add: close_sock_def on_sock_def split: prod.splits)

lemma fold_close_lost: "g_lost (tc_net (fold (close_sock c) is t)) = g_lost (tc_net t)"
proof (induction "is" arbitrary: t)
  case (Cons i "is")
  then show ?case using close_sock_kept [of i t c] by (simp add: kept_def)
qed simp

lemma owns_valid: "list_all isValid ss \<Longrightarrow> owns ss = mset (map m_sock ss)"
  by (induction ss) (auto simp: own_def isValid_def)

lemma in_map_filter: "length xs = length ys \<Longrightarrow> j < length xs \<Longrightarrow> ys ! j \<Longrightarrow> xs ! j \<in> set (map fst (filter snd (zip xs ys)))"
  by (force simp: set_zip image_iff)

lemma fails_subseq: "length xs = length ys \<Longrightarrow> subseq (map fst (filter (\<lambda>(a, b). \<not> b) (zip xs ys))) xs"
  by (induction xs ys rule: list_induct2) auto

lemma filter_snd_all: "length xs = length ys \<Longrightarrow> \<forall>y \<in> set ys. y \<Longrightarrow> map fst (filter snd (zip xs ys)) = xs"
  by (induction xs ys rule: list_induct2) auto

lemma fails_none: "length xs = length ys \<Longrightarrow> (map fst (filter (\<lambda>(a, b). \<not> b) (zip xs ys)) = []) = (\<forall>y \<in> set ys. y)"
  by (induction xs ys rule: list_induct2) auto

text \<open>
  C25.  Binding a new server to a list of addresses: either no address failed, and then it has one
  socket for each address, in their order, with an open descriptor on which the kernel has accepted
  a \<open>bind\<close> to that address and a \<open>listen\<close> with the backlog; or the addresses that failed are
  reported, in order, and then it has no socket and every descriptor that was opened on the way is
  closed again.
\<close>

theorem tcp_bind_all_or_nothing:
  assumes "tcp_bind c backlog ssl addrs (new_TcpServer rt n) = (ok, fails, t)" "g_lost n = []"
  shows "(ok \<longleftrightarrow> fails = []) \<and> subseq fails addrs \<and>
    (if ok then m_socks t = [0..<length addrs] \<and> length (tc_store t) = length addrs \<and> list_all isValid (tc_store t)
       \<and> list_all2 (listens_on backlog) addrs (tc_store t)
       \<and> mset (g_open (tc_net t)) = mset (g_open n) + mset (map m_sock (tc_store t))
     else m_socks t = [] \<and> mset (g_open (tc_net t)) = mset (g_open n))"
proof -
  let ?t0 = "(new_TcpServer rt n)\<lparr>m_ssl := ssl\<rparr>" and ?rest = "mset (g_open n)"
  obtain fs t1 where b: "bind_loop c backlog addrs [] ?t0 = (fs, t1)" by fastforce
  have "tcp_owned ?rest ?t0" by (simp add: tcp_owned_def new_TcpServer_def assms(2))
  from bind_loop_result [OF b this] assms(2) obtain oks where
    l: "length oks = length addrs" and fs: "fs = map fst (filter (\<lambda>(a, b). \<not> b) (zip addrs oks))"
    and ms: "m_socks t1 = map fst (filter snd (zip [0..<length addrs] oks))" and o: "tcp_owned ?rest t1"
    and len: "length (tc_store t1) = length addrs" and k: "tc_held t1 = []" "tc_clients t1 = []" "g_lost (tc_net t1) = []"
    and v: "\<forall>j < length addrs. bind_outcome backlog (addrs ! j) (oks ! j) (tc_store t1 ! j)"
    by (auto simp: new_TcpServer_def)
  have sub: "subseq fs addrs" using fails_subseq [of addrs oks] l fs by simp
  show ?thesis
  proof (cases "fs = []")
    case True
    then have all: "\<forall>y \<in> set oks. y" using fails_none [of addrs oks] l fs by simp
    then have "\<forall>j < length addrs. oks ! j" using l by (metis nth_mem)
    with v len have L: "list_all2 (listens_on backlog) addrs (tc_store t1)" by (simp add: list_all2_conv_all_nth bind_outcome_def)
    with len have "list_all isValid (tc_store t1)" by (auto simp: list_all_length list_all2_conv_all_nth listens_valid)
    moreover have "m_socks t1 = [0..<length addrs]" using filter_snd_all [of "[0..<length addrs]" oks] all l ms by simp
    moreover have "ok = True \<and> fails = [] \<and> t = t1" using True b assms(1) by (simp add: tcp_bind_def)
    ultimately show ?thesis using o k len L by (simp add: tcp_owned_def owns_valid)
  next
    case False
    let ?is = "m_socks t1" and ?u = "t1\<lparr>m_socks := []\<rparr>"
    have "tcp_owned ?rest ?u" using o by (simp add: tcp_owned_def)
    moreover have "\<forall>i \<in> set ?is. i < length (tc_store ?u)" using ms len by (auto dest: set_zip_leftD)
    ultimately have f0: "tcp_owned ?rest (fold (close_sock c) ?is ?u) \<and> length (tc_store (fold (close_sock c) ?is ?u)) = length (tc_store ?u)
      \<and> m_socks (fold (close_sock c) ?is ?u) = m_socks ?u \<and> tc_held (fold (close_sock c) ?is ?u) = tc_held ?u
      \<and> (\<forall>j < length (tc_store ?u). (j \<in> set ?is \<or> m_sock (tc_store ?u ! j) = -1) \<longrightarrow> m_sock (tc_store (fold (close_sock c) ?is ?u) ! j) = -1)"
      by (rule fold_close)
    with len
    have f: "tcp_owned ?rest (fold (close_sock c) ?is ?u)" "m_socks (fold (close_sock c) ?is ?u) = []"
      "length (tc_store (fold (close_sock c) ?is ?u)) = length addrs"
      "\<forall>j < length addrs. (j \<in> set ?is \<or> m_sock (tc_store t1 ! j) = -1) \<longrightarrow> m_sock (tc_store (fold (close_sock c) ?is ?u) ! j) = -1"
      by simp_all
    have "j \<in> set ?is \<or> m_sock (tc_store t1 ! j) = -1" if "j < length addrs" for j
      using that v l ms in_map_filter [of "[0..<length addrs]" oks j] by (auto simp: bind_outcome_def split: if_splits)
    with f(4) have "\<forall>j < length addrs. m_sock (tc_store (fold (close_sock c) ?is ?u) ! j) = -1" by blast
    with f(3) have "owns (tc_store (fold (close_sock c) ?is ?u)) = {#}" by (intro owns_closed) (metis in_set_conv_nth)
    with f(1) k fold_close_clients [of c ?is ?u] fold_close_lost [of c ?is ?u]
    have "mset (g_open (tc_net (fold (close_sock c) ?is ?u))) = ?rest" by (simp add: tcp_owned_def)
    with False b f(2) k sub assms(1) show ?thesis by (auto simp: tcp_bind_def clear_socks_def)
  qed
qed

text \<open>Two addresses on the first of which nothing can be bound: what was opened for the second is closed again.\<close>

definition demo_busy :: "nat sys" where
  "demo_busy = \<lparr>sys_socket = (\<lambda>f t p k. (int k, k + 1)), sys_close = (\<lambda>fd k. k), sys_bind = (\<lambda>fd a k. (if fd = 3 then -1 else 0, k)),
     sys_listen = (\<lambda>fd b k. (0, k)), sys_accept = (\<lambda>fd k. (-1, k)), sys_connect = (\<lambda>fd a t k. (-1, k)),
     sys_getpeername = (\<lambda>fd k. None), sys_getsockname = (\<lambda>fd k. None), sys_setsockopt = (\<lambda>fd l j v k. (0, k)),
     sys_sockerror = (\<lambda>fd k. Some 0), sys_errno = (\<lambda>k. 0), sys_fd_socket = (\<lambda>fd k. True),
     sys_fd_timeout = (\<lambda>fd w k. None), sys_unlink = (\<lambda>p k. k), sys_send = (\<lambda>fd d a f k. (int (length d), k)),
     sys_recv = (\<lambda>fd l f k. ((0, []), k)), sys_recvfrom = (\<lambda>fd l a f k. ((0, [], a), k))\<rparr>"

theorem tcp_bind_all_or_nothing_witness:
  "\<exists>t. tcp_bind demo_busy 4096 False [demo_addr, UnknownAddress AF_INET [1]] (new_TcpServer 120000 \<lparr>kern = 3, g_open = [9], g_lost = []\<rparr>)
       = (False, [demo_addr], t) \<and> kern (tc_net t) = 5 \<and> m_socks t = [] \<and> mset (g_open (tc_net t)) = {#9#}"
proof -
  let ?n = "\<lparr>kern = 3, g_open = [9], g_lost = []\<rparr> :: nat net"
  let ?as = "[demo_addr, UnknownAddress AF_INET [1]]"
  obtain ok fails t where b: "tcp_bind demo_busy 4096 False ?as (new_TcpServer 120000 ?n) = (ok, fails, t)" by (metis surj_pair)
  then have "ok = False \<and> fails = [demo_addr] \<and> kern (tc_net t) = 5"
    by (simp add: demo_busy_def tcp_bind_def new_TcpServer_def on_sock_def CreateTCP_def socket_bind_def ensure_sock_def isValid_def
        new_Socket_def newSock_def do_socket_def initSock_def setOption_def demo_addr_def with_local_def getLocalAddress_def
        socket_listen_def clear_socks_def close_sock_def socket_close_def do_close_def Let_def) auto
  with tcp_bind_all_or_nothing [OF b] b show ?thesis by simp
qed

section \<open>Findings\<close>

text \<open>A failing call drops the sockets of an earlier one that succeeded, too.\<close>

lemma failed_bind_drops_all:
  assumes "tcp_bind c k ssl addrs t = (False, fails, t')"
  shows "m_socks t' = []"
proof -
  obtain fs t1 where b: "bind_loop c k addrs [] (t\<lparr>m_ssl := ssl\<rparr>) = (fs, t1)" by fastforce
  have "m_socks (fold (close_sock c) is u) = m_socks u" for "is" and u :: "'a TcpServer"
    by (induction "is" arbitrary: u) (simp_all add: close_sock_def on_sock_def split: prod.splits)
  with assms b show ?thesis by (auto simp: tcp_bind_def clear_socks_def split: if_splits)
qed

text \<open>The loop goes on after an error of \<open>accept\<close>, whatever it is.\<close>

lemma accept_error_goes_on:
  assumes "\<not> m_isStop t" "sys_accept c (m_sock (tc_store t ! i)) (kern (tc_net t)) = (-1, kern (tc_net t))"
  shows "accept_turn c i t = (True, t)"
  using assms by (simp add: accept_turn_def socket_accept_def do_accept_def)

text \<open>Without its three workers a configuration cannot be read.\<close>

lemma conf_needs_workers:
  assumes "load v = Some node" "k \<in> {''accept_worker'', ''io_worker'', ''process_worker''}" "yget k node = None"
  shows "conf_of_text load to_int map_cast v = None"
  using assms by (auto simp: conf_of_text_def yas_def Let_def split: bind_splits)

text \<open>A configuration comes back from its own text, but without its arguments: they are printed as a map and read as a scalar.\<close>

lemma those_some: "those (map (\<lambda>x. Some x) xs) = Some xs"
  by (induction xs) auto

lemma conf_round_trip_loses_args:
  assumes "load v = Some (conf_node int_text (\<lambda>as. Map (f as)) conf)" "\<And>x. to_int (int_text x) = Some x" "map_cast [] = Some []"
  shows "conf_of_text load to_int map_cast v = Some (conf\<lparr>cf_args := []\<rparr>)"
  using assms(1) by (auto simp: conf_of_text_def conf_node_def yget_def yas_or_def yas_def Let_def assms(2,3) comp_def those_some)

end
