(* ===== verification/Application_Correct.thy ===== *)
theory Application_Correct
  imports Application Tcp_Server_Correct
begin

text \<open>
  The servers of the configuration: when the fiber gets through, each is listening on all its
  addresses, started, and found under its type; and what the status of the program tells.
\<close>

section \<open>Binding a new server\<close>

lemma on_sock_same:
  "on_sock i f t = (b, t') \<Longrightarrow> m_isStop t' = m_isStop t \<and> tc_accept_q t' = tc_accept_q t \<and> tc_held t' = tc_held t"
  by (auto simp: on_sock_def split: prod.splits)

lemma close_sock_same:
  "m_isStop (close_sock c i t) = m_isStop t \<and> tc_accept_q (close_sock c i t) = tc_accept_q t \<and> tc_held (close_sock c i t) = tc_held t"
  using on_sock_same [of i "socket_close c" t] by (cases "on_sock i (socket_close c) t") (simp add: close_sock_def)

lemma bind_loop_same:
  "bind_loop c k addrs fails t = (fails', t') \<Longrightarrow> m_isStop t' = m_isStop t \<and> tc_accept_q t' = tc_accept_q t \<and> tc_held t' = tc_held t"
proof (induction addrs arbitrary: fails t)
  case (Cons addr addrs)
  let ?i = "length (tc_store t)" and ?t0 = "t\<lparr>tc_store := tc_store t @ [CreateTCP addr]\<rparr>"
  obtain b1 t1 where b: "on_sock ?i (socket_bind c addr) ?t0 = (b1, t1)" by fastforce
  obtain b2 t2 where l: "on_sock ?i (socket_listen c k) t1 = (b2, t2)" by fastforce
  note s = on_sock_same [OF b] on_sock_same [OF l] close_sock_same [of c ?i t1] close_sock_same [of c ?i t2]
  show ?case
  proof (cases b1)
    case False
    from Cons.prems b False Cons.IH [of "fails @ [addr]" "close_sock c ?i t1"] s show ?thesis by (simp add: Let_def)
  next
    case t: True
    show ?thesis
    proof (cases b2)
      case False
      from Cons.prems b l t False Cons.IH [of "fails @ [addr]" "close_sock c ?i t2"] s show ?thesis by (simp add: Let_def)
    next
      case True
      from Cons.prems b l t True Cons.IH [of fails "t2\<lparr>m_socks := m_socks t2 @ [?i]\<rparr>"] s show ?thesis by (simp add: Let_def)
    qed
  qed
qed simp

lemma tcp_bind_listens:
  assumes "tcp_bind c backlog ssl addrs (new_TcpServer rt n) = (True, fails, t)" "g_lost n = []"
  shows "m_socks t = [0..<length addrs] \<and> length (tc_store t) = length addrs \<and> list_all2 (listens_on backlog) addrs (tc_store t)
    \<and> g_lost (tc_net t) = [] \<and> m_isStop t \<and> tc_accept_q t = [] \<and> tc_held t = []"
proof -
  let ?t0 = "(new_TcpServer rt n)\<lparr>m_ssl := ssl\<rparr>"
  obtain fs t1 where b: "bind_loop c backlog addrs [] ?t0 = (fs, t1)" by fastforce
  with assms(1) have fs: "fs = []" and t: "t = t1" by (simp_all add: tcp_bind_def split: if_splits)
  have "tcp_owned (mset (g_open n)) ?t0" by (simp add: tcp_owned_def new_TcpServer_def assms(2))
  from bind_loop_result [OF b this] assms(2) obtain oks where
    l: "length oks = length addrs" and f: "fs = map fst (filter (\<lambda>(a, b). \<not> b) (zip addrs oks))"
    and ms: "m_socks t1 = map fst (filter snd (zip [0..<length addrs] oks))" and len: "length (tc_store t1) = length addrs"
    and g: "g_lost (tc_net t1) = []" and v: "\<forall>j < length addrs. bind_outcome backlog (addrs ! j) (oks ! j) (tc_store t1 ! j)"
    by (auto simp: new_TcpServer_def)
  from fails_none [of addrs oks] l f fs have all: "\<forall>y \<in> set oks. y" by simp
  then have "\<forall>j < length addrs. oks ! j" using l by (metis nth_mem)
  with v len have "list_all2 (listens_on backlog) addrs (tc_store t1)" by (simp add: list_all2_conv_all_nth bind_outcome_def)
  moreover have "m_socks t1 = [0..<length addrs]" using filter_snd_all [of "[0..<length addrs]" oks] all l ms by simp
  ultimately show ?thesis using bind_loop_same [OF b] len g t by (simp add: new_TcpServer_def)
qed

section \<open>The loop over the configuration\<close>

text \<open>
  A server as the configuration wants it: its sockets are, in their order, bound to the addresses
  that its texts stand for and listening.
\<close>

definition bound_as :: "'k network \<Rightarrow> TcpServerConf \<Rightarrow> ('c, 'k) app_server \<Rightarrow> bool" where
  "bound_as N conf s \<longleftrightarrow> sv_conf s = conf \<and> Some (sv_class s) = server_class_of conf
     \<and> (\<exists>addrs. resolve_addresses N (cf_address conf) = Inr addrs \<and> m_socks (sv_tcp s) = [0..<length addrs]
          \<and> list_all2 (listens_on (nw_backlog N)) addrs (tc_store (sv_tcp s)))"

definition not_started :: "('c, 'k) app_server \<Rightarrow> bool" where
  "not_started s \<longleftrightarrow> m_isStop (sv_tcp s) \<and> tc_accept_q (sv_tcp s) = [] \<and> tc_held (sv_tcp s) = []"

definition accepting :: "('c, 'k) app_server \<Rightarrow> bool" where
  "accepting s \<longleftrightarrow> \<not> m_isStop (sv_tcp s) \<and> tc_accept_q (sv_tcp s) = map StartAccept (m_socks (sv_tcp s))
     \<and> tc_held (sv_tcp s) = m_socks (sv_tcp s)"

lemma ex_bind_Pair: "ex_bind (Pair r) f s = (case r of Inl e \<Rightarrow> (Inl e, s) | Inr x \<Rightarrow> f x s)"
  by (cases r) (simp_all add: ex_bind_def)

lemma ex_bind_InrE:
  assumes "ex_bind m f s = (Inr y, s')"
  obtains x s1 where "m s = (Inr x, s1)" "f x s1 = (Inr y, s')"
  using assms by (auto simp: ex_bind_def split: prod.splits sum.splits)

lemma make_server_bound:
  assumes "make_server N wm conf net = (Inr s, net')" "g_lost net = []"
  shows "bound_as N conf s \<and> not_started s \<and> g_lost net' = []"
proof -
  from assms(1) obtain addrs aw iw pw where a: "resolve_addresses N (cf_address conf) = Inr addrs"
    "pick_worker N wm (cf_accept_worker conf) = Inr aw" "pick_worker N wm (cf_io_worker conf) = Inr iw"
    "pick_worker N wm (cf_process_worker conf) = Inr pw"
    by (auto simp: make_server_def ex_bind_Pair split: sum.splits)
  with assms(1) obtain cls where cls: "server_class_of conf = Some cls" by (auto simp: make_server_def ex_bind_Pair split: option.splits)
  obtain ok fails t where b: "tcp_bind (nw_sys N) (nw_backlog N) (cf_ssl conf \<noteq> 0) addrs (new_TcpServer (nw_read_timeout N) net) = (ok, fails, t)"
    by (metis surj_pair)
  have ok: ok using assms(1) a cls b by (cases ok) (simp_all add: make_server_def ex_bind_Pair)
  with assms(1) a cls b have s: "sv_class s = cls" "sv_conf s = conf" "sv_tcp s = t" "net' = tc_net t"
    by (auto simp: make_server_def ex_bind_Pair)
  from tcp_bind_listens [OF b [unfolded eqTrueI [OF ok]] assms(2)] a(1) cls s show ?thesis
    by (simp add: bound_as_def not_started_def)
qed

lemma make_servers_bound:
  assumes "make_servers N wm confs tbl svrs net = (Inr (tbl', svrs'), net')" "g_lost net = []"
  shows "(\<exists>new. svrs' = svrs @ new \<and> list_all2 (bound_as N) confs new \<and> list_all not_started new)
    \<and> (\<forall>ty. sm_at [] ty tbl' = sm_at [] ty tbl @ map (\<lambda>i. length svrs + i) (filter (\<lambda>i. cf_type (confs ! i) = ty) [0..<length confs]))"
  using assms
proof (induction confs arbitrary: tbl svrs net)
  case Nil
  then show ?case by simp
next
  case (Cons conf confs)
  from Cons.prems(1) obtain s n1 where s: "make_server N wm conf net = (Inr s, n1)"
    and r: "make_servers N wm confs (sm_put (cf_type conf) (sm_at [] (cf_type conf) tbl @ [length svrs]) tbl) (svrs @ [s]) n1 = (Inr (tbl', svrs'), net')"
    by (auto elim: ex_bind_InrE)
  from make_server_bound [OF s Cons.prems(2)] have b: "bound_as N conf s" "not_started s" "g_lost n1 = []" by simp_all
  note IH = Cons.IH [OF r b(3)]
  have split: "filter (\<lambda>i. cf_type ((conf # confs) ! i) = ty) [0..<length (conf # confs)]
      = (if cf_type conf = ty then [0] else []) @ map Suc (filter (\<lambda>i. cf_type (confs ! i) = ty) [0..<length confs])" for ty
    unfolding length_Cons upt_conv_Cons [OF zero_less_Suc] map_Suc_upt [symmetric] by (simp add: filter_map comp_def)
  show ?case
  proof (intro conjI allI)
    from IH obtain new where "svrs' = svrs @ [s] @ new" "list_all2 (bound_as N) confs new" "list_all not_started new" by auto
    with b show "\<exists>new. svrs' = svrs @ new \<and> list_all2 (bound_as N) (conf # confs) new \<and> list_all not_started new"
      by (intro exI [of _ "s # new"]) simp
    fix ty
    show "sm_at [] ty tbl' = sm_at [] ty tbl @ map (\<lambda>i. length svrs + i) (filter (\<lambda>i. cf_type ((conf # confs) ! i) = ty) [0..<length (conf # confs)])"
      unfolding split using conjunct2 [OF IH, rule_format, of ty] by (simp add: comp_def)
  qed
qed

lemma make_servers_nonempty:
  assumes "make_servers N wm confs tbl svrs net = (Inr (tbl', svrs'), net')" "\<forall>ty. sm_find tbl ty \<noteq> Some []"
  shows "sm_find tbl' ty \<noteq> Some []"
  using assms
proof (induction confs arbitrary: tbl svrs net)
  case (Cons conf confs)
  from Cons.prems(1) obtain s n1
    where "make_servers N wm confs (sm_put (cf_type conf) (sm_at [] (cf_type conf) tbl @ [length svrs]) tbl) (svrs @ [s]) n1 = (Inr (tbl', svrs'), net')"
    by (auto elim: ex_bind_InrE)
  from Cons.IH [OF this] Cons.prems(2) show ?case by simp
qed simp

lemma start_server_accepting:
  "not_started s \<Longrightarrow> bound_as N conf s \<Longrightarrow> accepting (start_server s) \<and> bound_as N conf (start_server s)"
  by (auto simp: not_started_def accepting_def bound_as_def start_server_def tcp_start_def)

text \<open>
  C16.  When the fiber that makes the servers gets through, there is one server for each
  configuration, in their order; each has the class its type names, a socket for each address that
  its texts stand for, in their order, with an open descriptor on which the kernel has accepted a
  \<open>bind\<close> to that address and a \<open>listen\<close> with the configured backlog, and runs; and \<open>getServer\<close> gives for every type the servers
  of that type, in their order, and reports whether there are any.
\<close>

theorem every_server_runs:
  assumes "run_fiber N on_load modules wm confs net = (Inr (m_servers, svrs, calls), net')" "g_lost net = []"
  shows "list_all2 (\<lambda>conf s. bound_as N conf s \<and> accepting s) confs svrs
    \<and> (\<forall>ty. getServer m_servers ty = (let is = filter (\<lambda>i. cf_type (confs ! i) = ty) [0..<length confs] in
         if is = [] then (False, None) else (True, Some is)))"
proof -
  from assms(1) obtain svrs0 where m: "make_servers N wm confs [] [] net = (Inr (m_servers, svrs0), net')" and svrs: "svrs = map start_server svrs0"
    by (auto simp: run_fiber_def split: if_splits elim!: ex_bind_InrE)
  from make_servers_bound [OF m assms(2)] have b: "list_all2 (bound_as N) confs svrs0" "list_all not_started svrs0"
    and tbl: "sm_at [] ty m_servers = filter (\<lambda>i. cf_type (confs ! i) = ty) [0..<length confs]" for ty
    by (simp_all add: sm_at_def)
  have "list_all2 (\<lambda>conf s. bound_as N conf s \<and> accepting s) confs svrs"
    using b unfolding svrs by (auto simp: list_all2_conv_all_nth list_all_length start_server_accepting)
  moreover have "getServer m_servers ty = (let is = filter (\<lambda>i. cf_type (confs ! i) = ty) [0..<length confs] in
      if is = [] then (False, None) else (True, Some is))" for ty
    using tbl [of ty] make_servers_nonempty [OF m, of ty] by (auto simp: getServer_def sm_at_def Let_def split: option.splits)
  ultimately show ?thesis by blast
qed

definition demo_network :: "nat network" where
  "demo_network = \<lparr>nw_sys = demo_busy, nw_backlog = 4096, nw_endian = LittleEndian,
     nw_numeric = (\<lambda>a. Some [SockIn (new_IPv4Address LittleEndian 0x7F000001 0)]), nw_interfaces = None,
     nw_resolver = (\<lambda>n s. None), nw_atoi = (\<lambda>s. 80), nw_rand = 0, nw_read_timeout = 120000\<rparr>"

theorem every_server_runs_witness:
  "\<exists>m_servers svrs calls net'. run_fiber demo_network (\<lambda>m. True) [] (new_WorkerManager :: unit WorkerManager)
       [default_conf\<lparr>cf_address := [''h:80'']\<rparr>, default_conf\<lparr>cf_type := ''ws''\<rparr>] \<lparr>kern = 4, g_open = [], g_lost = []\<rparr>
     = (Inr (m_servers, svrs, calls), net') \<and> list_all accepting svrs \<and> length svrs = 2
       \<and> list_all2 (listens_on 4096) [IPv4Address (new_IPv4Address LittleEndian 0x7F000001 80)] (tc_store (sv_tcp (hd svrs))) \<and> getServer m_servers ''ws'' = (True, Some [1])"
proof -
  let ?r = "run_fiber demo_network (\<lambda>m. True) [] (new_WorkerManager :: unit WorkerManager)
       [default_conf\<lparr>cf_address := [''h:80'']\<rparr>, default_conf\<lparr>cf_type := ''ws''\<rparr>] \<lparr>kern = 4, g_open = [], g_lost = []\<rparr>"
  let ?addr = "IPv4Address (new_IPv4Address LittleEndian 0x7F000001 80)"
  have one: "\<exists>t. tcp_bind demo_busy 4096 False [?addr] (new_TcpServer 120000 \<lparr>kern = 4, g_open = [], g_lost = []\<rparr>) = (True, [], t)"
    by (simp add: demo_busy_def tcp_bind_def new_TcpServer_def on_sock_def CreateTCP_def socket_bind_def ensure_sock_def isValid_def
      new_Socket_def newSock_def initSock_def setOption_def do_socket_def socket_listen_def getLocalAddress_def with_local_def new_IPv4Address_def Let_def)
  have none: "\<exists>t. tcp_bind demo_busy 4096 False [] (new_TcpServer 120000 n) = (True, [], t)" for n
    by (simp add: tcp_bind_def)
  have N: "nw_sys demo_network = demo_busy" "nw_backlog demo_network = 4096" "nw_read_timeout demo_network = 120000"
    by (simp_all add: demo_network_def)
  have r1: "resolve_address demo_network ''h:80'' = Inr [?addr]"
    by (simp add: resolve_address_def IPAddress_Create_def demo_network_def new_IPv4Address_def setPort4_def Let_def)
  have s1: "\<exists>s n. make_server demo_network new_WorkerManager (default_conf\<lparr>cf_address := [''h:80'']\<rparr>)
      \<lparr>kern = 4, g_open = [], g_lost = []\<rparr> = (Inr s, n)"
    using one by (auto simp: make_server_def ex_bind_Pair r1 default_conf_def pick_worker_def server_class_of_def N)
  have s2: "\<exists>s n'. make_server demo_network new_WorkerManager (default_conf\<lparr>cf_type := ''ws''\<rparr>) n = (Inr s, n')" for n
    using none [of n] by (auto simp: make_server_def ex_bind_Pair default_conf_def pick_worker_def server_class_of_def N)
  obtain s n where 1: "make_server demo_network (new_WorkerManager :: unit WorkerManager) (default_conf\<lparr>cf_address := [''h:80'']\<rparr>)
      \<lparr>kern = 4, g_open = [], g_lost = []\<rparr> = (Inr s, n)" using s1 by blast
  obtain s' n' where 2: "make_server demo_network (new_WorkerManager :: unit WorkerManager) (default_conf\<lparr>cf_type := ''ws''\<rparr>) n = (Inr s', n')"
    using s2 by blast
  have "\<exists>x. fst ?r = Inr x" by (simp add: run_fiber_def ex_bind_def 1 2)
  then obtain m_servers svrs calls net' where r: "?r = (Inr (m_servers, svrs, calls), net')" by (metis prod.collapse)
  from every_server_runs [OF r] have "list_all2 (\<lambda>conf s. bound_as demo_network conf s \<and> accepting s)
      [default_conf\<lparr>cf_address := [''h:80'']\<rparr>, default_conf\<lparr>cf_type := ''ws''\<rparr>] svrs" "getServer m_servers ''ws'' = (True, Some [1])"
    by (simp_all add: default_conf_def Let_def)
  moreover from this(1) have "list_all2 (listens_on 4096) [?addr] (tc_store (sv_tcp (hd svrs)))"
    by (auto simp: list_all2_Cons1 bound_as_def N r1 default_conf_def split: sum.splits)
  ultimately show ?thesis using r by (auto simp: list_all2_Cons1)
qed

section \<open>The status of the program\<close>

text \<open>A port is cut to 16 bits without a check.\<close>

lemma port_is_cut:
  assumes "find_idx (\<lambda>c. c = CHR '':'') a = Some pos" "nw_numeric N (take pos a) = Some [SockIn s]"
    and "nw_atoi N (drop (pos + 1) a) = 65536 + p"
  shows "resolve_address N a = Inr [IPv4Address (setPort4 (nw_endian N) (word_of_int p) s)]"
proof -
  have "word_of_int (65536 + p) = (65536 :: u16) + word_of_int p" by simp
  also have "(65536 :: u16) = 0" by simp
  finally have w: "word_of_int (65536 + p) = (word_of_int p :: u16)" by simp
  from assms show ?thesis by (simp add: resolve_address_def IPAddress_Create_def w del: of_int_add)
qed

text \<open>
  Whatever goes wrong, a process that runs the program itself ends with status 0: without the
  option that selects how to start, with a running instance, when the file with its number cannot
  be written, and, with \<open>_exit\<close>, when a module or a server fails.  Only a supervisor that cannot
  fork reports anything else.
\<close>

lemma app_main_zero: "fst (app_main S A) = 0"
  by (simp add: app_main_def Let_def split: option.splits)

lemma daemon_loop_value:
  "fst (daemon_loop main_cb interval turns p) = Some r \<Longrightarrow> (\<And>q. main_cb q = 0) \<Longrightarrow> r = 0 \<or> r = -1 \<and> ForkFails \<in> set turns"
  by (induction main_cb interval turns p rule: daemon_loop.induct) (auto simp: real_start_def Let_def split: if_splits prod.splits)

lemma status_is_zero:
  assumes "program_status S interval pid now turns argv A0 = Some st" "ForkFails \<notin> set turns"
  shows "st = 0"
proof -
  have "r = 0" if "fst (start_daemon (\<lambda>_. fst (app_main S A)) interval d pid now turns new_ProcessInfo) = Some r" for A d r
    using that daemon_loop_value [of "\<lambda>_. fst (app_main S A)" interval turns _ r] assms(2)
    by (auto simp: start_daemon_def real_daemon_def real_start_def Let_def app_main_zero split: if_splits)
  with assms(1) show ?thesis by (auto simp: program_status_def app_run_def split: prod.splits bool.splits)
qed

lemma failing_program_not_restarted: "\<not> crashed (InParent pid (status_exit (fst (app_main S A))))"
  by (simp add: exit_restarts app_main_zero)

text \<open>Initialization succeeds only with one of the two options and without another running instance.\<close>

lemma init_ok:
  assumes "app_init S argv A0 = (True, A)"
  shows "fst (env_init (as_exe S) argv (app_helps (ap_env A0))) \<and> ap_env A = snd (env_init (as_exe S) argv (app_helps (ap_env A0)))
    \<and> (env_has ''s'' (ap_env A) \<or> env_has ''d'' (ap_env A)) \<and> \<not> env_has ''p'' (ap_env A)"
  using assms by (auto simp: app_init_def app_modules_def emit_event_def Let_def split: prod.splits if_splits)

end
