(* ===== verification/Crypto_Util.thy ===== *)
theory Crypto_Util
  imports Cpp_Strings
begin

text \<open>
  \<^verbatim>\<open>src/crypto_util.cc\<close>: the AES and RSA wrappers.  OpenSSL and the files are arguments: the results
  of its functions and the bytes they write.
\<close>

section \<open>AES\<close>

datatype evp_cipher = AES_256_ECB | AES_128_ECB | AES_256_CBC | AES_128_CBC

text \<open>
  \<open>evp_init\<close> gives the value of \<open>EVP_CipherInit_ex\<close> and the context; \<open>evp_update\<close> and \<open>evp_final\<close> also
  the bytes written.
\<close>

record 'x evp =
  evp_ctx_new :: bool
  evp_init :: "evp_cipher \<Rightarrow> bool \<Rightarrow> bytes \<Rightarrow> bytes option \<Rightarrow> int \<times> 'x"
  evp_update :: "'x \<Rightarrow> bytes \<Rightarrow> int \<times> 'x \<times> bytes"
  evp_final :: "'x \<Rightarrow> int \<times> bytes"

text \<open>The value returned, and what has been written to the output.\<close>

definition Crypto :: "'x evp \<Rightarrow> evp_cipher \<Rightarrow> bool \<Rightarrow> bytes \<Rightarrow> bytes option \<Rightarrow> bytes \<Rightarrow> int \<times> bytes" where
  "Crypto E cipher enc key iv inp =
    (if \<not> evp_ctx_new E then (-1, [])
     else case evp_init E cipher enc key iv of (r, x) \<Rightarrow>
       if r \<noteq> -1 then (-1, [])
       else (case evp_update E x inp of (r, x1, out1) \<Rightarrow>
         if r \<noteq> 1 then (-1, out1)
         else (case evp_final E x1 of (r, out2) \<Rightarrow>
           if r \<noteq> 1 then (-1, out1 @ out2) else (int (length out1) + int (length out2), out1 @ out2))))"

definition AES256Ecb :: "'x evp \<Rightarrow> bytes \<Rightarrow> bytes \<Rightarrow> bool \<Rightarrow> int \<times> bytes" where
  "AES256Ecb E key inp encode = Crypto E AES_256_ECB encode key None inp"

definition AES128Ecb :: "'x evp \<Rightarrow> bytes \<Rightarrow> bytes \<Rightarrow> bool \<Rightarrow> int \<times> bytes" where
  "AES128Ecb E key inp encode = Crypto E AES_128_ECB encode key None inp"

definition AES256Cbc :: "'x evp \<Rightarrow> bytes \<Rightarrow> bytes \<Rightarrow> bytes \<Rightarrow> bool \<Rightarrow> int \<times> bytes" where
  "AES256Cbc E key iv inp encode = Crypto E AES_256_CBC encode key (Some iv) inp"

definition AES128Cbc :: "'x evp \<Rightarrow> bytes \<Rightarrow> bytes \<Rightarrow> bytes \<Rightarrow> bool \<Rightarrow> int \<times> bytes" where
  "AES128Cbc E key iv inp encode = Crypto E AES_128_CBC encode key (Some iv) inp"

text \<open>
  The functions of OpenSSL report success by 1 and failure by 0.  The first test takes both for
  a failure, so nothing is ever encrypted or decrypted.
\<close>

definition evp_documented :: "'x evp \<Rightarrow> bool" where
  "evp_documented E \<longleftrightarrow> (\<forall>c e k iv. fst (evp_init E c e k iv) \<in> {0, 1})"

lemma Crypto_always_fails:
  assumes "evp_documented E"
  shows "Crypto E cipher enc key iv inp = (-1, [])"
proof -
  obtain r x where i: "evp_init E cipher enc key iv = (r, x)" by fastforce
  with assms have "r \<in> {0, 1}" unfolding evp_documented_def by (metis fst_conv)
  with i show ?thesis by (auto simp: Crypto_def)
qed

section \<open>RSA\<close>

text \<open>
  The library and the files: a key that is generated, the encodings of its halves, the four
  operations with a padding, the size of a key; what can be opened to write, and the contents of
  what can be opened to read and write.
\<close>

record ('rsa, 'f) rsa_lib =
  rsa_generate :: "u32 \<Rightarrow> 'rsa option"
  pem_public :: "'rsa \<Rightarrow> bytes"
  pem_private :: "'rsa \<Rightarrow> bytes"
  pem_read_public :: "bytes \<Rightarrow> 'rsa option"
  pem_read_private :: "bytes \<Rightarrow> 'rsa option"
  rsa_private_encrypt :: "'rsa option \<Rightarrow> bytes \<Rightarrow> int \<Rightarrow> int \<times> bytes"
  rsa_public_encrypt :: "'rsa option \<Rightarrow> bytes \<Rightarrow> int \<Rightarrow> int \<times> bytes"
  rsa_private_decrypt :: "'rsa option \<Rightarrow> bytes \<Rightarrow> int \<Rightarrow> int \<times> bytes"
  rsa_public_decrypt :: "'rsa option \<Rightarrow> bytes \<Rightarrow> int \<Rightarrow> int \<times> bytes"
  rsa_size :: "'rsa \<Rightarrow> int"
  fopen_write :: "string \<Rightarrow> bytes \<Rightarrow> 'f \<Rightarrow> 'f option"
  fopen_read :: "string \<Rightarrow> 'f \<Rightarrow> bytes option"

record 'rsa RSACipher =
  m_pubkey :: "'rsa option"
  m_prikey :: "'rsa option"
  m_pubkeyStr :: bytes
  m_prikeyStr :: bytes

definition new_RSACipher :: "'rsa RSACipher" where
  "new_RSACipher = \<lparr>m_pubkey = None, m_prikey = None, m_pubkeyStr = [], m_prikeyStr = []\<rparr>"

text \<open>\<open>fopen_write\<close> opens a file, writes the bytes and closes it.\<close>

definition GenerateKey :: "('rsa, 'f) rsa_lib \<Rightarrow> string \<Rightarrow> string \<Rightarrow> u32 \<Rightarrow> 'f \<Rightarrow> int \<times> 'f" where
  "GenerateKey L pubkey_file prikey_file len f = (case rsa_generate L len of
       None \<Rightarrow> (-1, f)
     | Some rsa \<Rightarrow> (case fopen_write L pubkey_file (pem_public L rsa) f of
           None \<Rightarrow> (-2, f)
         | Some f1 \<Rightarrow> (case fopen_write L prikey_file (pem_private L rsa) f1 of
               None \<Rightarrow> (-3, f1)
             | Some f2 \<Rightarrow> (0, f2))))"

text \<open>The loop that reads a file from its start, 1024 bytes at a time.\<close>

function fread_loop :: "bytes \<Rightarrow> bytes \<Rightarrow> bytes" where
  "fread_loop acc rest = (if rest = [] then acc else fread_loop (acc @ take 1024 rest) (drop 1024 rest))"
  by pat_completeness auto
termination by (relation "measure (\<lambda>(acc, rest). length rest)") auto

declare fread_loop.simps [simp del]

definition RSA_Create :: "('rsa, 'f) rsa_lib \<Rightarrow> string \<Rightarrow> string \<Rightarrow> 'f \<Rightarrow> 'rsa RSACipher option" where
  "RSA_Create L pubkey_file prikey_file f = (case fopen_read L pubkey_file f of
       None \<Rightarrow> None
     | Some pub \<Rightarrow> (case pem_read_public L pub of
           None \<Rightarrow> None
         | Some k \<Rightarrow> (case fopen_read L prikey_file f of
               None \<Rightarrow> None
             | Some pri \<Rightarrow> (case pem_read_private L pri of
                   None \<Rightarrow> None
                 | Some p \<Rightarrow> Some (new_RSACipher\<lparr>m_pubkey := Some k, m_pubkeyStr := fread_loop [] pub,
                     m_prikey := Some p, m_prikeyStr := fread_loop [] pri\<rparr>)))))"

definition privateEncrypt :: "('rsa, 'f) rsa_lib \<Rightarrow> 'rsa RSACipher \<Rightarrow> bytes \<Rightarrow> int \<Rightarrow> int \<times> bytes" where
  "privateEncrypt L c from padding = rsa_private_encrypt L (m_prikey c) from padding"

definition publicEncrypt :: "('rsa, 'f) rsa_lib \<Rightarrow> 'rsa RSACipher \<Rightarrow> bytes \<Rightarrow> int \<Rightarrow> int \<times> bytes" where
  "publicEncrypt L c from padding = rsa_public_encrypt L (m_pubkey c) from padding"

definition privateDecrypt :: "('rsa, 'f) rsa_lib \<Rightarrow> 'rsa RSACipher \<Rightarrow> bytes \<Rightarrow> int \<Rightarrow> int \<times> bytes" where
  "privateDecrypt L c from padding = rsa_private_decrypt L (m_prikey c) from padding"

definition publicDecrypt :: "('rsa, 'f) rsa_lib \<Rightarrow> 'rsa RSACipher \<Rightarrow> bytes \<Rightarrow> int \<Rightarrow> int \<times> bytes" where
  "publicDecrypt L c from padding = rsa_public_decrypt L (m_pubkey c) from padding"

text \<open>
  The variants with a \<open>std::string\<close>: the bytes are written where the string already is, and it gets
  its size afterwards.  \<open>None\<close> is a write behind its end.
\<close>

definition to_string :: "int \<times> bytes \<Rightarrow> bytes \<Rightarrow> (int \<times> bytes) option" where
  "to_string r dest = (case r of (len, out) \<Rightarrow>
     if length dest < length out then None
     else let w = out @ drop (length out) dest in Some (len, if 0 \<le> len then take (nat len) w else w))"

definition privateEncrypt_string :: "('rsa, 'f) rsa_lib \<Rightarrow> 'rsa RSACipher \<Rightarrow> bytes \<Rightarrow> bytes \<Rightarrow> int \<Rightarrow> (int \<times> bytes) option" where
  "privateEncrypt_string L c from dest padding = to_string (privateEncrypt L c from padding) dest"

definition publicEncrypt_string :: "('rsa, 'f) rsa_lib \<Rightarrow> 'rsa RSACipher \<Rightarrow> bytes \<Rightarrow> bytes \<Rightarrow> int \<Rightarrow> (int \<times> bytes) option" where
  "publicEncrypt_string L c from dest padding = to_string (publicEncrypt L c from padding) dest"

definition privateDecrypt_string :: "('rsa, 'f) rsa_lib \<Rightarrow> 'rsa RSACipher \<Rightarrow> bytes \<Rightarrow> bytes \<Rightarrow> int \<Rightarrow> (int \<times> bytes) option" where
  "privateDecrypt_string L c from dest padding = to_string (privateDecrypt L c from padding) dest"

definition publicDecrypt_string :: "('rsa, 'f) rsa_lib \<Rightarrow> 'rsa RSACipher \<Rightarrow> bytes \<Rightarrow> bytes \<Rightarrow> int \<Rightarrow> (int \<times> bytes) option" where
  "publicDecrypt_string L c from dest padding = to_string (publicDecrypt L c from padding) dest"

definition getPubRSASize :: "('rsa, 'f) rsa_lib \<Rightarrow> 'rsa RSACipher \<Rightarrow> int" where
  "getPubRSASize L c = (case m_pubkey c of None \<Rightarrow> -1 | Some k \<Rightarrow> rsa_size L k)"

definition getPriRSASize :: "('rsa, 'f) rsa_lib \<Rightarrow> 'rsa RSACipher \<Rightarrow> int" where
  "getPriRSASize L c = (case m_prikey c of None \<Rightarrow> -1 | Some k \<Rightarrow> rsa_size L k)"

section \<open>Lemmas\<close>

lemma fread_loop_all: "fread_loop acc rest = acc @ rest"
proof (induction acc rest rule: fread_loop.induct)
  case (1 acc rest)
  then show ?case by (cases "rest = []") (simp_all add: fread_loop.simps [of acc])
qed

text \<open>
  What is written to a file is read back: a cipher made from generated key files has the two halves
  of one key, and the texts of its files.  The files of the second write are those of the first.
\<close>

lemma generated_keys_load:
  assumes gen: "GenerateKey L pub pri len f = (0, f')" and ne: "pub \<noteq> pri"
    and wr: "\<And>p bs f f'. fopen_write L p bs f = Some f' \<Longrightarrow> fopen_read L p f' = Some bs \<and> (\<forall>q. q \<noteq> p \<longrightarrow> fopen_read L q f' = fopen_read L q f)"
    and pem: "\<And>k. pem_read_public L (pem_public L k) = Some k" "\<And>k. pem_read_private L (pem_private L k) = Some k"
  shows "\<exists>k. RSA_Create L pub pri f' = Some \<lparr>m_pubkey = Some k, m_prikey = Some k,
    m_pubkeyStr = pem_public L k, m_prikeyStr = pem_private L k\<rparr>"
proof -
  obtain k f1 where k: "fopen_write L pub (pem_public L k) f = Some f1" "fopen_write L pri (pem_private L k) f1 = Some f'"
    using gen by (auto simp: GenerateKey_def split: option.splits)
  have "fopen_read L pub f' = Some (pem_public L k)" "fopen_read L pri f' = Some (pem_private L k)"
    using wr [OF k(1)] wr [OF k(2)] ne by simp_all
  then show ?thesis by (simp add: RSA_Create_def pem new_RSACipher_def fread_loop_all)
qed

text \<open>A key that writes anything overruns an empty string.\<close>

lemma empty_string_overrun: "snd r \<noteq> [] \<Longrightarrow> to_string r [] = None"
  by (cases r) (simp add: to_string_def)

end
