(* ===== verification/Thread_Pool.thy ===== *)
theory Thread_Pool
  imports Cpp_Strings "HOL-Library.Multiset"
begin

text \<open>
  \<^verbatim>\<open>src/threadpool.cc\<close> and \<^verbatim>\<open>include/threadpool.h\<close>: a pool of threads that take tasks from a queue.
  The steps of the callers, the workers and the destructor interleave; what lies between \<open>lock\<close> and
  \<open>unlock\<close> is one step.
\<close>

section \<open>State\<close>

datatype pool_state = POOL_STOP | POOL_RUNNING | POOL_STOPPING

text \<open>Where a worker is: before \<open>m_sem.wait()\<close>, behind it, in a task, or out of its loop.\<close>

datatype 'f pool_worker = Waiting | Awake | Working 'f | Left

text \<open>
  \<open>tp_passed\<close> are the tasks of calls of \<open>enqueue\<close> that have seen the pool running, \<open>tp_pushed\<close> counts
  those that have pushed theirs and not posted the semaphore; \<open>tp_notifies\<close> is what the destructor
  has still to post.  \<open>tp_added\<close>, \<open>tp_late\<close> and \<open>tp_ran\<close> record the tasks pushed, those pushed when the
  pool was stopping already, and those run; \<open>tp_broken\<close> is the \<open>pop\<close> of an empty queue.
\<close>

record 'f ThreadPool =
  tp_threads :: nat
  tp_state :: pool_state
  tp_workers :: "'f pool_worker list"
  tp_tasks :: "'f list"
  tp_sem :: nat
  tp_passed :: "'f list"
  tp_pushed :: nat
  tp_notifies :: nat
  tp_added :: "'f multiset"
  tp_late :: "'f multiset"
  tp_ran :: "'f multiset"
  tp_broken :: bool

definition new_ThreadPool :: "nat \<Rightarrow> 'f ThreadPool" where
  "new_ThreadPool threadNums = \<lparr>tp_threads = threadNums, tp_state = POOL_STOP, tp_workers = [], tp_tasks = [], tp_sem = 0,
     tp_passed = [], tp_pushed = 0, tp_notifies = 0, tp_added = {#}, tp_late = {#}, tp_ran = {#}, tp_broken = False\<rparr>"

section \<open>Operations\<close>

definition pool_init :: "'f ThreadPool \<Rightarrow> bool \<times> 'f ThreadPool" where
  "pool_init p = (if tp_state p \<noteq> POOL_STOP then (False, p)
     else (True, p\<lparr>tp_state := POOL_RUNNING, tp_workers := tp_workers p @ replicate (tp_threads p) Waiting\<rparr>))"

text \<open>The three parts of \<open>enqueue\<close>: the test, the push, and the post.\<close>

definition enqueue_test :: "'f \<Rightarrow> 'f ThreadPool \<Rightarrow> 'f ThreadPool" where
  "enqueue_test f p = (if tp_state p \<noteq> POOL_RUNNING then p else p\<lparr>tp_passed := f # tp_passed p\<rparr>)"

definition enqueue_push :: "'f \<Rightarrow> 'f ThreadPool \<Rightarrow> 'f ThreadPool" where
  "enqueue_push f p = p\<lparr>tp_passed := remove1 f (tp_passed p), tp_tasks := tp_tasks p @ [f], tp_pushed := Suc (tp_pushed p),
     tp_added := add_mset f (tp_added p), tp_late := (if tp_state p = POOL_RUNNING then tp_late p else add_mset f (tp_late p))\<rparr>"

definition enqueue_post :: "'f ThreadPool \<Rightarrow> 'f ThreadPool" where
  "enqueue_post p = p\<lparr>tp_pushed := tp_pushed p - 1, tp_sem := Suc (tp_sem p)\<rparr>"

definition worker_wait :: "nat \<Rightarrow> 'f ThreadPool \<Rightarrow> 'f ThreadPool" where
  "worker_wait i p = p\<lparr>tp_workers := (tp_workers p)[i := Awake], tp_sem := tp_sem p - 1\<rparr>"

text \<open>What \<open>m_loop\<close> does with the mutex, and after it with the task.\<close>

definition worker_take :: "nat \<Rightarrow> 'f ThreadPool \<Rightarrow> 'f ThreadPool" where
  "worker_take i p = (if tp_state p = POOL_STOPPING \<and> tp_tasks p = [] then p\<lparr>tp_workers := (tp_workers p)[i := Left]\<rparr>
     else if tp_state p = POOL_STOP then p\<lparr>tp_workers := (tp_workers p)[i := Left]\<rparr>
     else (case tp_tasks p of
         [] \<Rightarrow> p\<lparr>tp_broken := True\<rparr>
       | task # rest \<Rightarrow> p\<lparr>tp_workers := (tp_workers p)[i := Working task], tp_tasks := rest\<rparr>))"

definition worker_done :: "nat \<Rightarrow> 'f \<Rightarrow> 'f ThreadPool \<Rightarrow> 'f ThreadPool" where
  "worker_done i task p = p\<lparr>tp_workers := (tp_workers p)[i := Waiting], tp_ran := add_mset task (tp_ran p)\<rparr>"

text \<open>The destructor: the state, one post for each thread, and the end once all have been joined.\<close>

definition destroy_begin :: "'f ThreadPool \<Rightarrow> 'f ThreadPool" where
  "destroy_begin p = (if tp_state p \<noteq> POOL_RUNNING then p
     else p\<lparr>tp_state := POOL_STOPPING, tp_notifies := length (tp_workers p)\<rparr>)"

definition destroy_notify :: "'f ThreadPool \<Rightarrow> 'f ThreadPool" where
  "destroy_notify p = p\<lparr>tp_notifies := tp_notifies p - 1, tp_sem := Suc (tp_sem p)\<rparr>"

definition destroy_end :: "'f ThreadPool \<Rightarrow> 'f ThreadPool" where
  "destroy_end p = p\<lparr>tp_state := POOL_STOP\<rparr>"

definition can_end :: "'f ThreadPool \<Rightarrow> bool" where
  "can_end p \<longleftrightarrow> tp_state p = POOL_STOPPING \<and> tp_notifies p = 0 \<and> (\<forall>w \<in> set (tp_workers p). w = Left)"

text \<open>The pool is used once: \<open>init\<close>, then calls and workers, then the destructor.\<close>

inductive threads_step :: "'f ThreadPool \<Rightarrow> 'f ThreadPool \<Rightarrow> bool" where
  ps_test: "threads_step p (enqueue_test f p)"
| ps_push: "f \<in> set (tp_passed p) \<Longrightarrow> threads_step p (enqueue_push f p)"
| ps_post: "0 < tp_pushed p \<Longrightarrow> threads_step p (enqueue_post p)"
| ps_wait: "\<lbrakk>i < length (tp_workers p); tp_workers p ! i = Waiting; 0 < tp_sem p\<rbrakk> \<Longrightarrow> threads_step p (worker_wait i p)"
| ps_take: "\<lbrakk>i < length (tp_workers p); tp_workers p ! i = Awake\<rbrakk> \<Longrightarrow> threads_step p (worker_take i p)"
| ps_done: "\<lbrakk>i < length (tp_workers p); tp_workers p ! i = Working task\<rbrakk> \<Longrightarrow> threads_step p (worker_done i task p)"
| ps_destroy: "threads_step p (destroy_begin p)"
| ps_notify: "\<lbrakk>tp_state p = POOL_STOPPING; 0 < tp_notifies p\<rbrakk> \<Longrightarrow> threads_step p (destroy_notify p)"

inductive threads_reach :: "nat \<Rightarrow> 'f ThreadPool \<Rightarrow> bool" for n where
  pr_init: "threads_reach n (snd (pool_init (new_ThreadPool n)))"
| pr_step: "threads_reach n p \<Longrightarrow> threads_step p q \<Longrightarrow> threads_reach n q"

section \<open>The invariant\<close>

fun held_by :: "'f pool_worker \<Rightarrow> 'f multiset" where
  "held_by (Working f) = {#f#}" | "held_by _ = {#}"

definition in_state :: "'f pool_worker \<Rightarrow> 'f pool_worker \<Rightarrow> nat" where
  "in_state s w = (if w = s then 1 else 0)"

abbreviation n_of :: "'f pool_worker \<Rightarrow> 'f ThreadPool \<Rightarrow> nat" where
  "n_of s p \<equiv> sum_list (map (in_state s) (tp_workers p))"

text \<open>
  The posts of the semaphore, those on the way included, are as many as the tasks in the queue, and
  once the pool is stopping one more for each worker that has not left.  Every task pushed is in the queue,
  with a worker, or has run.  Behind a worker that has left only late tasks are in the queue.
\<close>

definition threads_inv :: "nat \<Rightarrow> 'f ThreadPool \<Rightarrow> bool" where
  "threads_inv n p \<longleftrightarrow> length (tp_workers p) = n \<and> \<not> tp_broken p
     \<and> (tp_state p = POOL_RUNNING \<and> n_of Left p = 0 \<and> tp_notifies p = 0 \<and> tp_late p = {#}
          \<and> tp_sem p + n_of Awake p + tp_pushed p = length (tp_tasks p)
        \<or> tp_state p = POOL_STOPPING \<and> n_of Left p \<le> n
          \<and> tp_sem p + n_of Awake p + tp_pushed p + tp_notifies p + n_of Left p = length (tp_tasks p) + n)
     \<and> tp_added p = mset (tp_tasks p) + sum_list (map held_by (tp_workers p)) + tp_ran p
     \<and> (0 < n_of Left p \<longrightarrow> mset (tp_tasks p) \<subseteq># tp_late p)"

declare sum_list_eq_0_iff [simp del]

lemma sum_list_update_add:
  "i < length ws \<Longrightarrow> sum_list (map g (ws[i := w])) + g (ws ! i) = (sum_list (map g ws) :: 'b::comm_monoid_add) + g w"
proof -
  assume i: "i < length ws"
  have "sum_list (map g ws) = sum_list (map g (take i ws)) + (g (ws ! i) + sum_list (map g (drop (Suc i) ws)))"
    by (subst id_take_nth_drop [OF i]) simp
  moreover have "sum_list (map g (ws[i := w])) = sum_list (map g (take i ws)) + (g w + sum_list (map g (drop (Suc i) ws)))"
    by (simp add: upd_conv_take_nth_drop [OF i])
  ultimately show ?thesis by (simp add: add_ac)
qed

lemma count_le: "sum_list (map (in_state s) ws) \<le> length ws"
  by (induction ws) (auto simp: in_state_def)

lemma count_in: "i < length ws \<Longrightarrow> ws ! i = s \<Longrightarrow> 0 < sum_list (map (in_state s) ws)"
  using sum_list_update_add [of i ws "in_state s" s] by (induction ws arbitrary: i) (auto simp: in_state_def nth_Cons split: nat.splits)

lemma count_all: "\<forall>w \<in> set ws. w = s \<Longrightarrow> sum_list (map (in_state s) ws) = length ws"
  by (induction ws) (auto simp: in_state_def)

lemma count_two: "s \<noteq> t \<Longrightarrow> sum_list (map (in_state s) ws) + sum_list (map (in_state t) ws) \<le> length ws"
  by (induction ws) (auto simp: in_state_def)

lemma threads_inv_init: "threads_inv n (snd (pool_init (new_ThreadPool n)))"
proof -
  have "sum_list (replicate n {#}) = {#}" by (induction n) simp_all
  then show ?thesis by (simp add: threads_inv_def pool_init_def new_ThreadPool_def map_replicate_const sum_list_replicate in_state_def)
qed

text \<open>The counts after the update of one worker.\<close>

lemmas worker_update = sum_list_update_add [where g = "in_state Awake"] sum_list_update_add [where g = "in_state Left"]
  sum_list_update_add [where g = held_by]

lemma threads_step_inv:
  assumes "threads_step p q" "threads_inv n p"
  shows "threads_inv n q"
  using assms
proof (induction rule: threads_step.induct)
  case (ps_test p f)
  then show ?case by (auto simp: enqueue_test_def threads_inv_def)
next
  case (ps_push f p)
  then show ?case by (auto simp: enqueue_push_def threads_inv_def)
next
  case (ps_post p)
  then show ?case by (auto simp: enqueue_post_def threads_inv_def)
next
  case (ps_wait i p)
  then show ?case using worker_update [of i "tp_workers p" Awake]
    by (auto simp: worker_wait_def threads_inv_def in_state_def)
next
  case (ps_take i p)
  note u = worker_update [OF ps_take(1)]
  have a: "0 < n_of Awake p" using count_in [OF ps_take(1,2)] .
  show ?case
  proof (cases "tp_tasks p")
    case Nil
    with ps_take a have s: "tp_state p = POOL_STOPPING" by (auto simp: threads_inv_def)
    have "n_of Left p + n_of Awake p \<le> length (tp_workers p)" by (rule count_two) simp
    with s Nil ps_take a u [of Left] show ?thesis
      by (auto simp: worker_take_def threads_inv_def in_state_def)
  next
    case (Cons task rest)
    with ps_take a u [of "Working task"] show ?thesis
      by (auto simp: worker_take_def threads_inv_def in_state_def add_ac intro: subset_mset.order_trans [of _ "add_mset task (mset rest)"])
  qed
next
  case (ps_done i p task)
  then show ?case using worker_update [of i "tp_workers p" Waiting]
    by (auto simp: worker_done_def threads_inv_def in_state_def)
next
  case (ps_destroy p)
  then show ?case by (auto simp: destroy_begin_def threads_inv_def)
next
  case (ps_notify p)
  then show ?case by (auto simp: destroy_notify_def threads_inv_def)
qed

lemma threads_reach_inv: "threads_reach n p \<Longrightarrow> threads_inv n p"
  by (induction rule: threads_reach.induct) (auto intro: threads_inv_init threads_step_inv)

section \<open>What the pool promises\<close>

text \<open>A worker that can go on, or a post that is due.\<close>

definition can_move :: "'f ThreadPool \<Rightarrow> bool" where
  "can_move p \<longleftrightarrow> 0 < tp_notifies p \<or> 0 < tp_pushed p
     \<or> (\<exists>w \<in> set (tp_workers p). w = Awake \<or> (\<exists>f. w = Working f) \<or> w = Waiting \<and> 0 < tp_sem p)"

lemma stopping_moves:
  assumes "threads_inv n p" "tp_state p = POOL_STOPPING" "\<not> can_end p"
  shows "can_move p"
proof (rule ccontr)
  assume no: "\<not> can_move p"
  then have z: "tp_notifies p = 0" "tp_pushed p = 0" and w: "\<forall>w \<in> set (tp_workers p). w = Left \<or> w = Waiting \<and> tp_sem p = 0"
    by (auto simp: can_move_def) (metis pool_worker.exhaust)+
  then have "n_of Awake p = 0" by (auto simp: in_state_def sum_list_eq_0_iff)
  moreover have "tp_sem p = 0" using w z assms(2,3) by (auto simp: can_end_def)
  ultimately have "n_of Left p = length (tp_tasks p) + n" "n_of Left p \<le> n" using assms(1,2) z unfolding threads_inv_def by auto
  then have "n_of Left p = length (tp_workers p)" using assms(1) by (simp add: threads_inv_def)
  moreover have "\<not> (\<forall>w \<in> set (tp_workers p). w = Left)" using z assms(2,3) by (simp add: can_end_def)
  then obtain i where i: "i < length (tp_workers p)" "tp_workers p ! i = Waiting" using w by (metis in_set_conv_nth)
  then have "0 < n_of Waiting p" by (rule count_in)
  moreover have "n_of Waiting p + n_of Left p \<le> length (tp_workers p)" by (rule count_two) simp
  ultimately show False by simp
qed

text \<open>
  C23.  In every state that the pool can get to, no worker has taken from an empty queue; a pool that
  is stopping can go on until all its threads have left, so the destructor comes to its end; and then every task
  that was given to the pool before has run exactly once, if it has threads.
\<close>

theorem pool_runs_every_task:
  assumes "threads_reach n p"
  shows "\<not> tp_broken p \<and> (tp_state p = POOL_STOPPING \<and> \<not> can_end p \<longrightarrow> can_move p)
    \<and> (0 < n \<and> can_end p \<longrightarrow> tp_added p = tp_ran p + mset (tp_tasks p) \<and> mset (tp_tasks p) \<subseteq># tp_late p)"
proof -
  have inv: "threads_inv n p" by (rule threads_reach_inv [OF assms])
  have "tp_added p = tp_ran p + mset (tp_tasks p) \<and> mset (tp_tasks p) \<subseteq># tp_late p" if "0 < n" "can_end p"
  proof -
    have l: "\<forall>w \<in> set (tp_workers p). w = Left" using that(2) by (simp add: can_end_def)
    have "sum_list (map held_by ws) = {#}" if "\<forall>w \<in> set ws. w = Left" for ws :: "'a pool_worker list"
      using that by (induction ws) auto
    moreover have "0 < n_of Left p" using count_all [OF l] inv that(1) by (simp add: threads_inv_def)
    ultimately show ?thesis using l inv unfolding threads_inv_def by (auto)
  qed
  with inv stopping_moves [OF inv] show ?thesis by (auto simp: threads_inv_def)
qed

lemmas pool_defs = pool_init_def new_ThreadPool_def enqueue_test_def enqueue_push_def enqueue_post_def worker_wait_def
  worker_take_def worker_done_def destroy_begin_def destroy_notify_def can_end_def

text \<open>A pool of one thread that is given a task and destroyed.\<close>

theorem pool_runs_every_task_witness:
  "let p = destroy_begin (enqueue_post (enqueue_push (7 :: nat) (enqueue_test 7 (snd (pool_init (new_ThreadPool 1))))))
   in threads_reach 1 p \<and> tp_state p = POOL_STOPPING \<and> \<not> can_end p \<and> can_move p"
proof -
  let ?p = "destroy_begin (enqueue_post (enqueue_push (7 :: nat) (enqueue_test 7 (snd (pool_init (new_ThreadPool 1))))))"
  have r: "threads_reach 1 ?p"
    by (intro pr_step [OF _ ps_destroy] pr_step [OF _ ps_post] pr_step [OF _ ps_push] pr_step [OF _ ps_test] pr_init)
      (simp_all add: pool_defs)
  moreover have "tp_state ?p = POOL_STOPPING \<and> \<not> can_end ?p" by (simp add: pool_defs)
  ultimately show ?thesis using pool_runs_every_task [OF r] by simp
qed

text \<open>A task whose call of \<open>enqueue\<close> has passed the test when the pool is destroyed can be lost.\<close>

lemma late_task_lost: "\<exists>p :: nat ThreadPool. threads_reach 1 p \<and> can_end p \<and> tp_tasks p = [7] \<and> tp_ran p = {#}"
proof -
  let ?p = "enqueue_push (7 :: nat) (worker_take 0 (worker_wait 0 (destroy_notify (destroy_begin
    (enqueue_test 7 (snd (pool_init (new_ThreadPool 1))))))))"
  have "threads_reach 1 ?p"
    by (intro pr_step [OF _ ps_push] pr_step [OF _ ps_take] pr_step [OF _ ps_wait] pr_step [OF _ ps_notify]
      pr_step [OF _ ps_destroy] pr_step [OF _ ps_test] pr_init) (simp_all add: pool_defs)
  moreover have "can_end ?p \<and> tp_tasks ?p = [7] \<and> tp_ran ?p = {#}" by (simp add: pool_defs)
  ultimately show ?thesis by blast
qed

text \<open>The default is a pool without threads: it takes tasks and runs none.\<close>

lemma pool_without_threads: "threads_reach 0 p \<Longrightarrow> tp_ran p = {#}"
proof (induction rule: threads_reach.induct)
  case pr_init
  then show ?case by (simp add: pool_defs)
next
  case (pr_step p q)
  from threads_reach_inv [OF pr_step.hyps(1)] have "tp_workers p = []" by (simp add: threads_inv_def)
  with pr_step show ?case by (auto simp: pool_defs elim!: threads_step.cases split: list.splits)
qed

end
