(* ===== verification/Thread_Start.thy ===== *)
theory Thread_Start
  imports Cpp_Strings
begin

text \<open>
  \<^verbatim>\<open>src/Thread.cc\<close>: a thread and what its creator sees of it.  The constructor and \<open>run\<close>, which the
  system starts in the new thread, go on side by side; \<open>th_pc\<close> is how far \<open>run\<close> has come.
\<close>

section \<open>State\<close>

datatype run_pc = NotStarted | NameSet | IdSet | Notified | InCallback | Ended

text \<open>\<open>th_id\<close> is \<open>None\<close> while the member is not initialized; \<open>th_sem\<close> counts the posts of the semaphore.\<close>

record 'cb Thread =
  th_name :: string
  th_id :: "int option"
  th_cb :: "'cb option"
  th_sem :: nat
  th_pc :: run_pc
  th_current :: "'cb option"
  t_thread_name :: string
  th_kernel_name :: string

text \<open>\<open>created\<close> is the result of \<open>pthread_create\<close>; \<open>None\<close> the exception.\<close>

definition new_Thread :: "bool \<Rightarrow> 'cb \<Rightarrow> string \<Rightarrow> 'cb Thread option" where
  "new_Thread created cb name = (if \<not> created then None
     else Some \<lparr>th_name = (if name = [] then ''UNKNOWN'' else name), th_id = None, th_cb = Some cb, th_sem = 0,
       th_pc = NotStarted, th_current = None, t_thread_name = ''UNKNOWN'', th_kernel_name = []\<rparr>)"

text \<open>The steps of \<open>run\<close> in the new thread, whose number is \<open>tid\<close>.\<close>

definition run_step :: "int \<Rightarrow> 'cb Thread \<Rightarrow> 'cb Thread" where
  "run_step tid t = (case th_pc t of
       NotStarted \<Rightarrow> t\<lparr>t_thread_name := th_name t, th_pc := NameSet\<rparr>
     | NameSet \<Rightarrow> t\<lparr>th_id := Some tid, th_kernel_name := take 15 (th_name t), th_pc := IdSet\<rparr>
     | IdSet \<Rightarrow> t\<lparr>th_current := th_cb t, th_cb := None, th_sem := Suc (th_sem t), th_pc := Notified\<rparr>
     | Notified \<Rightarrow> t\<lparr>th_pc := InCallback\<rparr>
     | InCallback \<Rightarrow> t\<lparr>th_pc := Ended\<rparr>
     | Ended \<Rightarrow> t)"

definition getId :: "'cb Thread \<Rightarrow> int option" where
  "getId t = th_id t"

definition SetName :: "string \<Rightarrow> 'cb Thread \<Rightarrow> 'cb Thread" where
  "SetName name t = t\<lparr>th_name := name, t_thread_name := name\<rparr>"

text \<open>\<open>join\<close> returns when \<open>run\<close> has ended.\<close>

definition can_join :: "'cb Thread \<Rightarrow> bool" where
  "can_join t \<longleftrightarrow> th_pc t = Ended"

section \<open>What the creator can rely on\<close>

text \<open>
  Nobody waits for the semaphore: when the constructor has returned the number of the thread may not
  be there yet, which is what \<open>Scheduler::start\<close> reads.  From the notification on it is there, so
  waiting for it in the constructor would do.
\<close>

lemma id_may_be_unset: "new_Thread True cb name = Some t \<Longrightarrow> getId t = None"
  by (auto simp: new_Thread_def getId_def)

definition th_inv :: "int \<Rightarrow> 'cb Thread \<Rightarrow> bool" where
  "th_inv tid t \<longleftrightarrow> (0 < th_sem t \<longrightarrow> th_id t = Some tid) \<and> (th_sem t = (if th_pc t \<in> {Notified, InCallback, Ended} then 1 else 0))
     \<and> (th_pc t \<notin> {NotStarted, NameSet} \<longrightarrow> th_id t = Some tid)
     \<and> (th_pc t \<in> {NotStarted, NameSet, IdSet} \<longleftrightarrow> th_cb t \<noteq> None)"

lemma new_Thread_inv: "new_Thread True cb name = Some t \<Longrightarrow> th_inv tid t"
  by (auto simp: new_Thread_def th_inv_def)

lemma run_step_inv: "th_inv tid t \<Longrightarrow> th_inv tid (run_step tid t)"
  by (cases "th_pc t") (auto simp: th_inv_def run_step_def)

lemma notified_has_id:
  assumes "new_Thread True cb name = Some t" "0 < th_sem ((run_step tid ^^ n) t)"
  shows "getId ((run_step tid ^^ n) t) = Some tid"
proof -
  have "th_inv tid ((run_step tid ^^ n) t)" by (induction n) (use assms(1) in \<open>auto intro: new_Thread_inv run_step_inv\<close>)
  with assms(2) show ?thesis by (simp add: th_inv_def getId_def)
qed

text \<open>The callback runs once, and the thread ends.\<close>

lemma run_ends:
  assumes "new_Thread True cb name = Some t"
  shows "th_current ((run_step tid ^^ 4) t) = Some cb \<and> can_join ((run_step tid ^^ 5) t)"
proof -
  let ?s = "\<lambda>n. (run_step tid ^^ n) t"
  have s: "?s (Suc n) = run_step tid (?s n)" for n by simp
  have "th_pc (?s 0) = NotStarted \<and> th_cb (?s 0) = Some cb" using assms by (auto simp: new_Thread_def)
  then have "th_pc (?s 1) = NameSet \<and> th_cb (?s 1) = Some cb" by (simp add: run_step_def)
  then have "th_pc (?s 2) = IdSet \<and> th_cb (?s 2) = Some cb" using s [of 1] by (simp add: run_step_def numeral_2_eq_2)
  then have "th_pc (?s 3) = Notified \<and> th_current (?s 3) = Some cb" using s [of 2] by (simp add: run_step_def numeral_3_eq_3)
  then have "th_pc (?s 4) = InCallback \<and> th_current (?s 4) = Some cb" using s [of 3] by (simp add: run_step_def)
  moreover from this have "th_pc (?s 5) = Ended" using s [of 4] by (simp add: run_step_def)
  ultimately show ?thesis by (simp add: can_join_def)
qed

end
