(* ===== verification/Json_Util.thy ===== *)
theory Json_Util
  imports Util
begin

text \<open>
  \<^verbatim>\<open>src/json_util.cc\<close>: escaping of texts, and the members of a JSON value with a default.  The
  value is one of a library; the calls on it are a record of functions.
\<close>

section \<open>Escaping\<close>

definition esc_of :: "char \<Rightarrow> char option" where
  "esc_of c = (if c = CHR 0x0C then Some (CHR ''f'') else if c = CHR 0x09 then Some (CHR ''t'')
     else if c = CHR 0x0D then Some (CHR ''r'') else if c = CHR 0x0A then Some (CHR ''n'')
     else if c = CHR 0x08 then Some (CHR ''b'') else if c = CHR 0x22 then Some (CHR 0x22)
     else if c = CHR 0x5C then Some (CHR 0x5C) else None)"

definition NeedEscape :: "string \<Rightarrow> bool" where
  "NeedEscape v \<longleftrightarrow> list_ex (\<lambda>c. esc_of c \<noteq> None) v"

definition escaped_size :: "string \<Rightarrow> nat" where
  "escaped_size v = sum_list (map (\<lambda>c. if esc_of c \<noteq> None then 2 else 1) v)"

definition escape_chars :: "string \<Rightarrow> string" where
  "escape_chars v = concat (map (\<lambda>c. case esc_of c of Some d \<Rightarrow> [CHR 0x5C, d] | None \<Rightarrow> [c]) v)"

text \<open>\<open>rt.resize(size)\<close> fills the string with that many zero characters; what is escaped is appended.\<close>

definition Escape :: "string \<Rightarrow> string" where
  "Escape v = (if escaped_size v = length v then v else replicate (escaped_size v) (CHR 0x00) @ escape_chars v)"

section \<open>Members\<close>

record 'j json_api =
  isMember :: "'j \<Rightarrow> string \<Rightarrow> bool"
  member_of :: "'j \<Rightarrow> string \<Rightarrow> 'j"
  asString :: "'j \<Rightarrow> string option"
  asInt :: "'j \<Rightarrow> u32 option"
  asUInt :: "'j \<Rightarrow> u32 option"
  asInt64 :: "'j \<Rightarrow> u64 option"
  asUInt64 :: "'j \<Rightarrow> u64 option"

definition GetString :: "'j json_api \<Rightarrow> 'j \<Rightarrow> string \<Rightarrow> string \<Rightarrow> string" where
  "GetString J json name d = (if \<not> isMember J json name then d
     else case asString J (member_of J json name) of Some s \<Rightarrow> s | None \<Rightarrow> d)"

text \<open>The four readers of integers: the value itself, or the number that its text begins with.\<close>

definition get_number :: "('j \<Rightarrow> 'n option) \<Rightarrow> (int \<Rightarrow> 'n) \<Rightarrow> 'j json_api \<Rightarrow> 'j \<Rightarrow> string \<Rightarrow> 'n \<Rightarrow> 'n" where
  "get_number as_num conv J json name d = (if \<not> isMember J json name then d
     else let v = member_of J json name in case as_num v of Some n \<Rightarrow> n
       | None \<Rightarrow> (case asString J v of Some s \<Rightarrow> conv (Atoi (Some s)) | None \<Rightarrow> d))"

definition GetInt32 :: "'j json_api \<Rightarrow> 'j \<Rightarrow> string \<Rightarrow> u32 \<Rightarrow> u32" where
  "GetInt32 J = get_number (asInt J) word_of_int J"

definition GetUint32 :: "'j json_api \<Rightarrow> 'j \<Rightarrow> string \<Rightarrow> u32 \<Rightarrow> u32" where
  "GetUint32 J = get_number (asUInt J) word_of_int J"

definition GetInt64 :: "'j json_api \<Rightarrow> 'j \<Rightarrow> string \<Rightarrow> u64 \<Rightarrow> u64" where
  "GetInt64 J = get_number (asInt64 J) word_of_int J"

definition GetUint64 :: "'j json_api \<Rightarrow> 'j \<Rightarrow> string \<Rightarrow> u64 \<Rightarrow> u64" where
  "GetUint64 J = get_number (asUInt64 J) word_of_int J"

section \<open>Lemmas\<close>

text \<open>The size that is counted is the length of what is escaped, and it differs from that of the text exactly if something needs it.\<close>

lemma escaped_size_length: "escaped_size v = length (escape_chars v)"
  by (induction v) (auto simp: escaped_size_def escape_chars_def)

lemma escaped_size_ge: "length v \<le> escaped_size v"
  by (induction v) (auto simp: escaped_size_def)

lemma NeedEscape_size: "NeedEscape v \<longleftrightarrow> escaped_size v \<noteq> length v"
proof (induction v)
  case (Cons c v)
  have "length v \<le> escaped_size v" by (rule escaped_size_ge)
  with Cons show ?case by (auto simp: NeedEscape_def escaped_size_def)
qed (simp add: NeedEscape_def escaped_size_def)

text \<open>What is escaped can be read back.\<close>

definition char_of_esc :: "char \<Rightarrow> char" where
  "char_of_esc d = (if d = CHR ''f'' then CHR 0x0C else if d = CHR ''t'' then CHR 0x09 else if d = CHR ''r'' then CHR 0x0D
     else if d = CHR ''n'' then CHR 0x0A else if d = CHR ''b'' then CHR 0x08 else d)"

fun unescape :: "string \<Rightarrow> string" where
  "unescape [] = []"
| "unescape [c] = [c]"
| "unescape (c # d # s) = (if c = CHR 0x5C then char_of_esc d # unescape s else c # unescape (d # s))"

lemma esc_of_back: "esc_of c = Some d \<Longrightarrow> char_of_esc d = c"
  by (auto simp: esc_of_def char_of_esc_def split: if_splits)

lemma esc_of_backslash: "esc_of c = None \<Longrightarrow> c \<noteq> CHR 0x5C"
  by (auto simp: esc_of_def split: if_splits)

lemma unescape_cons: "c \<noteq> CHR 0x5C \<Longrightarrow> unescape (c # s) = c # unescape s"
  by (cases s) simp_all

lemma unescape_escape: "unescape (escape_chars v) = v"
proof (induction v)
  case (Cons c v)
  show ?case
  proof (cases "esc_of c")
    case None
    with Cons show ?thesis by (simp add: escape_chars_def unescape_cons [OF esc_of_backslash [OF None]])
  next
    case (Some d)
    with Cons show ?thesis by (simp add: escape_chars_def esc_of_back [OF Some])
  qed
qed (simp add: escape_chars_def)

text \<open>
  A text without special characters is returned as it is; any other one is preceded by as many zero
  characters as it is long when it is escaped.
\<close>

lemma Escape_plain: "\<not> NeedEscape v \<Longrightarrow> Escape v = v"
  by (simp add: Escape_def NeedEscape_size)

lemma Escape_zeros:
  assumes "NeedEscape v"
  shows "Escape v = replicate (length (escape_chars v)) (CHR 0x00) @ escape_chars v \<and> length (Escape v) = 2 * length (escape_chars v)"
  using assms by (simp add: Escape_def NeedEscape_size escaped_size_length)

text \<open>A number that does not fit is cut when it is given as a text, but not when it is given as a number.\<close>

definition demo_json :: "string json_api" where
  "demo_json = \<lparr>isMember = (\<lambda>j n. True), member_of = (\<lambda>j n. j), asString = Some, asInt = (\<lambda>j. None), asUInt = (\<lambda>j. None),
     asInt64 = (\<lambda>j. None), asUInt64 = (\<lambda>j. None)\<rparr>"

lemma text_number_is_cut: "GetUint32 demo_json ''4294967297'' ''k'' 7 = 1"
  by (simp add: GetUint32_def get_number_def demo_json_def Atoi_def strtoull_def is_space_def is_digit_def code_def digits_val_def Let_def)

end
