(* ===== verification/Log.thy ===== *)
theory Log
  imports Ordered_Map Cpp_Strings
begin

text \<open>
  \<^verbatim>\<open>src/log.cc\<close> and \<^verbatim>\<open>include/log.h\<close>: levels, the pattern language of the formatter, appenders,
  loggers and the manager that holds them by name, and the listener that applies a changed
  configuration.  \<open>strftime\<close> is an argument.  Writing is modelled by the list of what is written
  where; an appender belongs to one logger and is told apart by its number.
\<close>

section \<open>Levels\<close>

datatype Level = UNKNOW | DEBUG | INFO | WARN | ERROR | FATAL

fun level_num :: "Level \<Rightarrow> nat" where
  "level_num UNKNOW = 0" | "level_num DEBUG = 1" | "level_num INFO = 2"
| "level_num WARN = 3" | "level_num ERROR = 4" | "level_num FATAL = 5"

text \<open>The levels are compared as their numbers.\<close>

instantiation Level :: linorder
begin

definition less_eq_Level :: "Level \<Rightarrow> Level \<Rightarrow> bool" where
  "less_eq_Level a b \<longleftrightarrow> level_num a \<le> level_num b"

definition less_Level :: "Level \<Rightarrow> Level \<Rightarrow> bool" where
  "less_Level a b \<longleftrightarrow> level_num a < level_num b"

instance
proof
  fix a b :: Level
  show "a \<le> b \<Longrightarrow> b \<le> a \<Longrightarrow> a = b" by (cases a; cases b) (simp_all add: less_eq_Level_def)
qed (auto simp: less_eq_Level_def less_Level_def)

end

declare less_eq_Level_def [simp] less_Level_def [simp]

fun LogLevel_toString :: "Level \<Rightarrow> string" where
  "LogLevel_toString DEBUG = ''DEBUG''" | "LogLevel_toString INFO = ''INFO''"
| "LogLevel_toString ERROR = ''ERROR''" | "LogLevel_toString WARN = ''WARN''"
| "LogLevel_toString FATAL = ''FATAL''" | "LogLevel_toString UNKNOW = ''UNKNOW''"

definition LogLevel_fromString :: "string \<Rightarrow> Level" where
  "LogLevel_fromString str =
    (if str = ''debug'' then DEBUG else if str = ''info'' then INFO else if str = ''warn'' then WARN
     else if str = ''error'' then ERROR else if str = ''fatal'' then FATAL
     else if str = ''DEBUG'' then DEBUG else if str = ''INFO'' then INFO else if str = ''WARN'' then WARN
     else if str = ''ERROR'' then ERROR else if str = ''FATAL'' then FATAL
     else UNKNOW)"

section \<open>The formatter\<close>

record LogEvent =
  ev_file :: string
  ev_line :: nat
  ev_elapse :: nat
  ev_threadId :: nat
  ev_fiberId :: nat
  ev_time :: nat
  ev_threadName :: string
  ev_content :: string

datatype FormatItem = MessageFormatItem | LevelFormatItem | ElapseFormatItem | NameFormatItem
  | ThreadIdFormatItem | NewLineFormatItem | DateTimeFormatItem string | FilenameFormatItem
  | LineFormatItem | TabFormatItem | FiberIdFormatItem | ThreadNameFormatItem
  | StringFormatItem string

fun item_format :: "(string \<Rightarrow> nat \<Rightarrow> string) \<Rightarrow> string \<Rightarrow> Level \<Rightarrow> LogEvent \<Rightarrow> FormatItem \<Rightarrow> string" where
  "item_format strftime name lv ev MessageFormatItem = ev_content ev"
| "item_format strftime name lv ev LevelFormatItem = LogLevel_toString lv"
| "item_format strftime name lv ev ElapseFormatItem = dec (ev_elapse ev)"
| "item_format strftime name lv ev NameFormatItem = name"
| "item_format strftime name lv ev ThreadIdFormatItem = dec (ev_threadId ev)"
| "item_format strftime name lv ev NewLineFormatItem = [char_of (10 :: nat)]"
| "item_format strftime name lv ev (DateTimeFormatItem fmt) = strftime fmt (ev_time ev)"
| "item_format strftime name lv ev FilenameFormatItem = ev_file ev"
| "item_format strftime name lv ev LineFormatItem = dec (ev_line ev)"
| "item_format strftime name lv ev TabFormatItem = [char_of (9 :: nat)]"
| "item_format strftime name lv ev FiberIdFormatItem = dec (ev_fiberId ev)"
| "item_format strftime name lv ev ThreadNameFormatItem = ev_threadName ev"
| "item_format strftime name lv ev (StringFormatItem s) = s"

record LogFormatter =
  m_pattern :: string
  m_items :: "FormatItem list"
  m_error :: bool

definition formatter_format ::
  "(string \<Rightarrow> nat \<Rightarrow> string) \<Rightarrow> LogFormatter \<Rightarrow> string \<Rightarrow> Level \<Rightarrow> LogEvent \<Rightarrow> string" where
  "formatter_format strftime f name lv ev = concat (map (item_format strftime name lv ev) (m_items f))"

definition is_alpha :: "char \<Rightarrow> bool" where
  "is_alpha c \<longleftrightarrow> is_upper c \<or> is_lower c"

text \<open>
  The inner loop from index \<open>n\<close>, for a percent sign at \<open>i\<close>: the result is the index behind the
  item, \<open>fmt_status\<close>, \<open>str\<close> and \<open>fmt\<close>.
\<close>

function scan_item :: "string \<Rightarrow> nat \<Rightarrow> nat \<Rightarrow> nat \<Rightarrow> nat \<Rightarrow> string \<Rightarrow> nat \<times> nat \<times> string \<times> string" where
  "scan_item pat i n fmt_status fmt_begin str =
    (if length pat \<le> n then (n, fmt_status, str, [])
     else if fmt_status = 0 \<and> \<not> is_alpha (pat ! n) \<and> pat ! n \<noteq> CHR ''{'' \<and> pat ! n \<noteq> CHR ''}'' then
       (n, fmt_status, substr pat (i + 1) (n - i - 1), [])
     else if fmt_status = 0 \<and> pat ! n = CHR ''{'' then
       scan_item pat i (n + 1) 1 n (substr pat (i + 1) (n - i - 1))
     else if fmt_status = 1 \<and> pat ! n = CHR ''}'' then
       (n + 1, 0, str, substr pat (fmt_begin + 1) (n - fmt_begin - 1))
     else scan_item pat i (n + 1) fmt_status fmt_begin
            (if n + 1 = length pat \<and> str = [] then drop (i + 1) pat else str))"
  by pat_completeness auto
termination by (relation "measure (\<lambda>(pat, i, n, st, fb, str). length pat - n)") auto

declare scan_item.simps [simp del]

text \<open>An entry of \<open>vec\<close>: the text, the format and whether it is an item.\<close>

type_synonym vec_entry = "string \<times> string \<times> bool"

lemma scan_item_ge: "scan_item pat i n st fb str = (n', r) \<Longrightarrow> n \<le> n'"
proof (induction pat i n st fb str rule: scan_item.induct)
  case (1 pat i n st fb str)
  let ?fin = "length pat \<le> n"
  let ?stop = "st = 0 \<and> \<not> is_alpha (pat ! n) \<and> pat ! n \<noteq> CHR ''{'' \<and> pat ! n \<noteq> CHR ''}''"
  let ?brace = "st = 0 \<and> pat ! n = CHR ''{''" and ?close = "st = 1 \<and> pat ! n = CHR ''}''"
  consider ?fin | "\<not> ?fin" ?stop | "\<not> ?fin" "\<not> ?stop" ?brace | "\<not> ?fin" "\<not> ?stop" "\<not> ?brace" ?close
    | "\<not> ?fin" "\<not> ?stop" "\<not> ?brace" "\<not> ?close" by blast
  then show ?case
  proof cases
    case 3
    with 1 show ?thesis by (simp add: scan_item.simps [of pat i n])
  next
    case 5
    with 1 show ?thesis by (auto simp: scan_item.simps [of pat i n] split: if_splits)
  qed (use "1.prems" in \<open>simp_all add: scan_item.simps [of pat i n]\<close>)
qed

function init_loop :: "string \<Rightarrow> nat \<Rightarrow> string \<Rightarrow> vec_entry list \<Rightarrow> bool \<Rightarrow> vec_entry list \<times> bool" where
  "init_loop pat i nstr vec err =
    (if length pat \<le> i then (if nstr \<noteq> [] then vec @ [(nstr, [], False)] else vec, err)
     else if pat ! i \<noteq> CHR ''%'' then init_loop pat (i + 1) (nstr @ [pat ! i]) vec err
     else if i + 1 < length pat \<and> pat ! (i + 1) = CHR ''%'' then init_loop pat (i + 1) (nstr @ ''%'') vec err
     else case scan_item pat i (i + 1) 0 0 [] of
       (n, fmt_status, str, fmt) \<Rightarrow>
         if fmt_status = 0 then
           init_loop pat n [] ((if nstr \<noteq> [] then vec @ [(nstr, [], False)] else vec) @ [(str, fmt, True)]) err
         else init_loop pat (i + 1) nstr (vec @ [(''<<pattern_error>>'', fmt, False)]) True)"
  by pat_completeness auto
termination
  by (relation "measure (\<lambda>(pat, i, nstr, vec, err). length pat - i)")
    (auto dest!: sym [of _ "scan_item _ _ _ _ _ _"] dest: scan_item_ge)

declare init_loop.simps [simp del]

definition format_items :: "string \<Rightarrow> string \<Rightarrow> FormatItem option" where
  "format_items key fmt = map_of [(''m'', MessageFormatItem), (''p'', LevelFormatItem),
     (''r'', ElapseFormatItem), (''c'', NameFormatItem), (''t'', ThreadIdFormatItem),
     (''n'', NewLineFormatItem), (''d'', DateTimeFormatItem fmt), (''f'', FilenameFormatItem),
     (''l'', LineFormatItem), (''T'', TabFormatItem), (''F'', FiberIdFormatItem),
     (''N'', ThreadNameFormatItem)] key"

fun make_item :: "vec_entry \<Rightarrow> FormatItem" where
  "make_item (str, fmt, False) = StringFormatItem str"
| "make_item (str, fmt, True) = (case format_items str fmt of
     None \<Rightarrow> StringFormatItem (''<<error_format %'' @ str) | Some it \<Rightarrow> it)"

definition new_LogFormatter :: "string \<Rightarrow> LogFormatter" where
  "new_LogFormatter pattern = (case init_loop pattern 0 [] [] False of
     (vec, err) \<Rightarrow> \<lparr>m_pattern = pattern, m_items = map make_item vec, m_error = err\<rparr>)"

section \<open>Appenders\<close>

datatype appender_kind = StdoutLogAppender | FileLogAppender string

record LogAppender =
  ap_id :: nat
  ap_kind :: appender_kind
  ap_level :: Level
  ap_formatter :: "LogFormatter option"
  ap_hasFormatter :: bool
  ap_lastTime :: nat

definition new_LogAppender :: "nat \<Rightarrow> appender_kind \<Rightarrow> LogAppender" where
  "new_LogAppender n k = \<lparr>ap_id = n, ap_kind = k, ap_level = DEBUG, ap_formatter = None,
     ap_hasFormatter = False, ap_lastTime = 0\<rparr>"

definition appender_setFormatter :: "LogFormatter option \<Rightarrow> LogAppender \<Rightarrow> LogAppender" where
  "appender_setFormatter f a = a\<lparr>ap_formatter := f, ap_hasFormatter := (f \<noteq> None)\<rparr>"

text \<open>
  What happens to the outside: a text for the standard output or a file, or a file opened again.
  Using the null formatter is not defined (\<open>None\<close>).
\<close>

datatype log_out = OutStd string | OutFile string string | Reopen string

definition appender_log :: "(string \<Rightarrow> nat \<Rightarrow> string) \<Rightarrow> string \<Rightarrow> Level \<Rightarrow> LogEvent \<Rightarrow> LogAppender
    \<Rightarrow> (log_out list \<times> LogAppender) option" where
  "appender_log strftime name lv ev a =
    (if lv < ap_level a then Some ([], a)
     else case ap_formatter a of
       None \<Rightarrow> None
     | Some f \<Rightarrow> let s = formatter_format strftime f name lv ev in
         (case ap_kind a of
            StdoutLogAppender \<Rightarrow> Some ([OutStd s], a)
          | FileLogAppender fn \<Rightarrow>
              if ap_lastTime a + 3 \<le> ev_time ev
              then Some ([Reopen fn, OutFile fn s], a\<lparr>ap_lastTime := ev_time ev\<rparr>)
              else Some ([OutFile fn s], a)))"

section \<open>Loggers\<close>

record Logger =
  lg_name :: string
  lg_appenders :: "LogAppender list"
  lg_has_root :: bool
  lg_level :: Level
  lg_formatter :: "LogFormatter option"

definition default_pattern :: string where
  "default_pattern = ''%d{%Y-%m-%d %H:%M:%S}%T%t%T%N%T%F%T[%p]%T[%c]%T%f:%l%T%m%n''"

definition new_Logger :: "string \<Rightarrow> Logger" where
  "new_Logger name = \<lparr>lg_name = name, lg_appenders = [], lg_has_root = False, lg_level = DEBUG,
     lg_formatter = Some (new_LogFormatter default_pattern)\<rparr>"

definition logger_setFormatter :: "LogFormatter option \<Rightarrow> Logger \<Rightarrow> Logger" where
  "logger_setFormatter f l = l\<lparr>lg_formatter := f,
     lg_appenders := map (\<lambda>a. if ap_hasFormatter a then a else appender_setFormatter f a) (lg_appenders l)\<rparr>"

definition logger_setPattern :: "string \<Rightarrow> Logger \<Rightarrow> Logger" where
  "logger_setPattern val l = (let f = new_LogFormatter val in
     if m_error f then l else logger_setFormatter (Some f) l)"

definition addAppender :: "LogAppender \<Rightarrow> Logger \<Rightarrow> Logger" where
  "addAppender a l = l\<lparr>lg_appenders := lg_appenders l
     @ [if ap_hasFormatter a then a else appender_setFormatter (lg_formatter l) a]\<rparr>"

fun remove_appender :: "nat \<Rightarrow> LogAppender list \<Rightarrow> LogAppender list" where
  "remove_appender n [] = []"
| "remove_appender n (a # as) = (if ap_id a = n then as else a # remove_appender n as)"

definition delAppender :: "nat \<Rightarrow> Logger \<Rightarrow> Logger" where
  "delAppender n l = l\<lparr>lg_appenders := remove_appender n (lg_appenders l)\<rparr>"

definition clearAppenders :: "Logger \<Rightarrow> Logger" where
  "clearAppenders l = l\<lparr>lg_appenders := []\<rparr>"

definition setLevel :: "Level \<Rightarrow> Logger \<Rightarrow> Logger" where
  "setLevel lv l = l\<lparr>lg_level := lv\<rparr>"

fun appenders_log :: "(string \<Rightarrow> nat \<Rightarrow> string) \<Rightarrow> string \<Rightarrow> Level \<Rightarrow> LogEvent \<Rightarrow> LogAppender list
    \<Rightarrow> (log_out list \<times> LogAppender list) option" where
  "appenders_log strftime name lv ev [] = Some ([], [])"
| "appenders_log strftime name lv ev (a # as) = (case appender_log strftime name lv ev a of
     None \<Rightarrow> None
   | Some (o1, a') \<Rightarrow> (case appenders_log strftime name lv ev as of
       None \<Rightarrow> None | Some (o2, as') \<Rightarrow> Some (o1 @ o2, a' # as')))"

section \<open>The manager\<close>

record LoggerManager =
  m_loggers :: "string \<Rightarrow> Logger option"
  next_appender :: nat

definition new_LoggerManager :: LoggerManager where
  "new_LoggerManager = \<lparr>m_loggers = [''root'' \<mapsto>
     addAppender (new_LogAppender 0 StdoutLogAppender) (new_Logger ''root'')], next_appender = 1\<rparr>"

definition getLogger :: "string \<Rightarrow> LoggerManager \<Rightarrow> Logger \<times> LoggerManager" where
  "getLogger name m = (case m_loggers m name of
     Some l \<Rightarrow> (l, m)
   | None \<Rightarrow> let l = (new_Logger name)\<lparr>lg_has_root := True\<rparr>
       in (l, m\<lparr>m_loggers := (m_loggers m)(name \<mapsto> l)\<rparr>))"

text \<open>
  \<open>Logger::log\<close> on the logger of that name: a logger without appenders hands the event to the
  root logger, which has no root of its own (\<open>None\<close> is the null pointer).
\<close>

definition log_here :: "(string \<Rightarrow> nat \<Rightarrow> string) \<Rightarrow> string \<Rightarrow> Level \<Rightarrow> LogEvent \<Rightarrow> LoggerManager
    \<Rightarrow> (log_out list \<times> LoggerManager) option" where
  "log_here strftime name lv ev m = (case m_loggers m name of
     None \<Rightarrow> None
   | Some l \<Rightarrow> (case appenders_log strftime (lg_name l) lv ev (lg_appenders l) of
       None \<Rightarrow> None
     | Some (out, as) \<Rightarrow> Some (out, m\<lparr>m_loggers := (m_loggers m)(name \<mapsto> l\<lparr>lg_appenders := as\<rparr>)\<rparr>)))"

definition Logger_log :: "(string \<Rightarrow> nat \<Rightarrow> string) \<Rightarrow> string \<Rightarrow> Level \<Rightarrow> LogEvent \<Rightarrow> LoggerManager
    \<Rightarrow> (log_out list \<times> LoggerManager) option" where
  "Logger_log strftime name lv ev m = (case m_loggers m name of
     None \<Rightarrow> None
   | Some l \<Rightarrow>
      if lv < lg_level l then Some ([], m)
      else if lg_appenders l \<noteq> [] then log_here strftime name lv ev m
      else if \<not> lg_has_root l then None
      else (case m_loggers m ''root'' of
          None \<Rightarrow> None
        | Some r \<Rightarrow>
           if lv < lg_level r then Some ([], m)
           else if lg_appenders r \<noteq> [] then log_here strftime ''root'' lv ev m
           else None))"

definition Logger_debug :: "(string \<Rightarrow> nat \<Rightarrow> string) \<Rightarrow> string \<Rightarrow> LogEvent \<Rightarrow> LoggerManager
    \<Rightarrow> (log_out list \<times> LoggerManager) option" where
  "Logger_debug strftime name ev m = Logger_log strftime name DEBUG ev m"

definition Logger_info :: "(string \<Rightarrow> nat \<Rightarrow> string) \<Rightarrow> string \<Rightarrow> LogEvent \<Rightarrow> LoggerManager
    \<Rightarrow> (log_out list \<times> LoggerManager) option" where
  "Logger_info strftime name ev m = Logger_log strftime name INFO ev m"

definition Logger_warn :: "(string \<Rightarrow> nat \<Rightarrow> string) \<Rightarrow> string \<Rightarrow> LogEvent \<Rightarrow> LoggerManager
    \<Rightarrow> (log_out list \<times> LoggerManager) option" where
  "Logger_warn strftime name ev m = Logger_log strftime name WARN ev m"

definition Logger_error :: "(string \<Rightarrow> nat \<Rightarrow> string) \<Rightarrow> string \<Rightarrow> LogEvent \<Rightarrow> LoggerManager
    \<Rightarrow> (log_out list \<times> LoggerManager) option" where
  "Logger_error strftime name ev m = Logger_log strftime name ERROR ev m"

definition Logger_fatal :: "(string \<Rightarrow> nat \<Rightarrow> string) \<Rightarrow> string \<Rightarrow> LogEvent \<Rightarrow> LoggerManager
    \<Rightarrow> (log_out list \<times> LoggerManager) option" where
  "Logger_fatal strftime name ev m = Logger_log strftime name FATAL ev m"

section \<open>Configuration\<close>

record LogAppenderDefine =
  ad_type :: nat
  ad_level :: Level
  ad_formatter :: string
  ad_file :: string

record LogDefine =
  ld_name :: string
  ld_level :: Level
  ld_formatter :: string
  ld_appenders :: "LogAppenderDefine list"

text \<open>The comparison of the definitions: it compares the appenders of one with themselves.\<close>

definition LogDefine_eq :: "LogDefine \<Rightarrow> LogDefine \<Rightarrow> bool" where
  "LogDefine_eq a oth \<longleftrightarrow> ld_name a = ld_name oth \<and> ld_level a = ld_level oth
     \<and> ld_formatter a = ld_formatter oth \<and> ld_appenders a = ld_appenders a"

text \<open>
  An appender of a definition; \<open>daemon\<close> is the option \<open>d\<close> of the environment.  \<open>None\<close> is the
  \<open>continue\<close> that leaves it out; a type other than 1 and 2 uses a null pointer and is not
  produced by the cast.
\<close>

definition make_appender :: "bool \<Rightarrow> nat \<Rightarrow> LogAppenderDefine \<Rightarrow> LogAppender option" where
  "make_appender daemon n a =
    (let base = (if ad_type a = 1 then Some (new_LogAppender n (FileLogAppender (ad_file a)))
                 else if daemon then None else Some (new_LogAppender n StdoutLogAppender))
     in map_option (\<lambda>ap. let ap1 = ap\<lparr>ap_level := ad_level a\<rparr>; f = new_LogFormatter (ad_formatter a)
          in if ad_formatter a \<noteq> [] \<and> \<not> m_error f then appender_setFormatter (Some f) ap1 else ap1) base)"

fun add_defined :: "bool \<Rightarrow> LogAppenderDefine list \<Rightarrow> Logger \<times> nat \<Rightarrow> Logger \<times> nat" where
  "add_defined daemon [] ln = ln"
| "add_defined daemon (a # as) (l, n) = (case make_appender daemon n a of
     None \<Rightarrow> add_defined daemon as (l, n)
   | Some ap \<Rightarrow> add_defined daemon as (addAppender ap l, Suc n))"

definition configure_logger :: "bool \<Rightarrow> LogDefine \<Rightarrow> LoggerManager \<Rightarrow> LoggerManager" where
  "configure_logger daemon i m = (case getLogger (ld_name i) m of (l, m1) \<Rightarrow>
     (let l1 = setLevel (ld_level i) l;
          l2 = (if ld_formatter i \<noteq> [] then logger_setPattern (ld_formatter i) l1 else l1)
      in case add_defined daemon (ld_appenders i) (clearAppenders l2, next_appender m1) of
           (l3, n) \<Rightarrow> m1\<lparr>m_loggers := (m_loggers m1)(ld_name i \<mapsto> l3), next_appender := n\<rparr>))"

definition remove_logger :: "LogDefine \<Rightarrow> LoggerManager \<Rightarrow> LoggerManager" where
  "remove_logger i m = (case getLogger (ld_name i) m of (l, m1) \<Rightarrow>
     m1\<lparr>m_loggers := (m_loggers m1)(ld_name i \<mapsto> clearAppenders (setLevel UNKNOW l))\<rparr>)"

text \<open>
  The listener: the sets of definitions, ordered by name, as lists; \<open>find\<close> compares the names.
\<close>

definition on_logger_conf_changed :: "bool \<Rightarrow> LogDefine list \<Rightarrow> LogDefine list \<Rightarrow> LoggerManager \<Rightarrow> LoggerManager" where
  "on_logger_conf_changed daemon old new m =
    (let m1 = fold (\<lambda>i m. case find (\<lambda>j. ld_name j = ld_name i) old of
                 None \<Rightarrow> configure_logger daemon i m
               | Some j \<Rightarrow> if \<not> LogDefine_eq i j then configure_logger daemon i m else m) new m
     in fold (\<lambda>i m. if find (\<lambda>j. ld_name j = ld_name i) new = None then remove_logger i m else m) old m1)"

end
