(* ===== verification/Log_Config.thy ===== *)
theory Log_Config
  imports Log Config
begin

text \<open>
  \<^verbatim>\<open>src/log.cc\<close>: the definitions of loggers in the configuration, \<open>LexicalCast\<close> between \<open>LogDefine\<close> and
  YAML.  Parsing the text is the argument \<open>load\<close>; an exception is \<open>None\<close>.
\<close>

section \<open>From YAML\<close>

text \<open>\<open>n[k].as<std::string>()\<close> where there is such a node, and a value to fall back on.\<close>

definition text_or :: "string \<Rightarrow> string \<Rightarrow> YAML_Node \<Rightarrow> string option" where
  "text_or k d node = (case yget k node of None \<Rightarrow> Some d | Some x \<Rightarrow> yas Some (Some x))"

text \<open>
  One element of the appenders: the inner \<open>None\<close> is left out with a message.  The subscript of a
  scalar throws.
\<close>

definition appender_of_node :: "YAML_Node \<Rightarrow> LogAppenderDefine option option" where
  "appender_of_node a = (if IsScalar a then None
     else if yget ''type'' a = None then Some None
     else Option.bind (yas Some (yget ''type'' a)) (\<lambda>type.
       if type = ''FileLogAppender'' then
         (if yget ''file'' a = None then Some None
          else Option.bind (yas Some (yget ''file'' a)) (\<lambda>file. Option.bind (text_or ''formatter'' [] a) (\<lambda>fmt.
            Some (Some \<lparr>ad_type = 1, ad_level = UNKNOW, ad_formatter = fmt, ad_file = file\<rparr>))))
       else if type = ''StdoutLogAppender'' then
         Option.bind (text_or ''formatter'' [] a) (\<lambda>fmt.
           Some (Some \<lparr>ad_type = 2, ad_level = UNKNOW, ad_formatter = fmt, ad_file = []\<rparr>))
       else Some None))"

definition appenders_of_node :: "YAML_Node \<Rightarrow> LogAppenderDefine list option" where
  "appenders_of_node n = (case yget ''appenders'' n of
     None \<Rightarrow> Some []
   | Some as \<Rightarrow> Option.bind (node_items as) (\<lambda>xs.
       map_option (\<lambda>ls. concat (map (\<lambda>x. case x of None \<Rightarrow> [] | Some a \<Rightarrow> [a]) ls)) (those (map appender_of_node xs))))"

definition logdefine_of_text :: "(string \<Rightarrow> YAML_Node option) \<Rightarrow> string \<Rightarrow> LogDefine option" where
  "logdefine_of_text load v = Option.bind (load v) (\<lambda>n.
     Option.bind (yas Some (yget ''name'' n)) (\<lambda>name.
     Option.bind (text_or ''level'' [] n) (\<lambda>level.
     Option.bind (text_or ''formatter'' [] n) (\<lambda>fmt.
     Option.bind (appenders_of_node n) (\<lambda>as.
     Some \<lparr>ld_name = name, ld_level = LogLevel_fromString level, ld_formatter = fmt, ld_appenders = as\<rparr>)))))"

section \<open>To YAML\<close>

definition node_of_appender :: "LogAppenderDefine \<Rightarrow> YAML_Node" where
  "node_of_appender a = (let es =
       (if ad_type a = 1 then [(''type'', Scalar ''FileLogAppender''), (''file'', Scalar (ad_file a))]
        else if ad_type a = 2 then [(''type'', Scalar ''StdoutLogAppender'')] else [])
       @ (if ad_level a \<noteq> UNKNOW then [(''level'', Scalar (LogLevel_toString (ad_level a)))] else [])
       @ (if ad_formatter a \<noteq> [] then [(''formatter'', Scalar (ad_formatter a))] else [])
     in if es = [] then Null else Map es)"

definition node_of_logdefine :: "LogDefine \<Rightarrow> YAML_Node" where
  "node_of_logdefine i = Map ([(''name'', Scalar (ld_name i))]
     @ (if ld_level i \<noteq> UNKNOW then [(''level'', Scalar (LogLevel_toString (ld_level i)))] else [])
     @ (if ld_formatter i \<noteq> [] then [(''formatter'', Scalar (ld_formatter i))] else [])
     @ (if ld_appenders i = [] then [] else [(''appenders'', Seq (map node_of_appender (ld_appenders i)))]))"

section \<open>The round trip\<close>

text \<open>
  A definition comes back from its own text, but the levels of its appenders are written and never
  read, and the name of a file is kept for file appenders only.
\<close>

definition reread :: "LogAppenderDefine \<Rightarrow> LogAppenderDefine" where
  "reread a = a\<lparr>ad_level := UNKNOW, ad_file := (if ad_type a = 1 then ad_file a else [])\<rparr>"

lemma appender_reread: "ad_type a \<in> {1, 2} \<Longrightarrow> appender_of_node (node_of_appender a) = Some (Some (reread a))"
  by (cases a) (auto simp: appender_of_node_def node_of_appender_def reread_def yget_def yas_def text_or_def Let_def)

lemma those_map_some: "\<forall>x \<in> set xs. f x = Some (g x) \<Longrightarrow> those (map f xs) = Some (map g xs)"
  by (induction xs) auto

lemma level_text: "LogLevel_fromString [] = UNKNOW" "LogLevel_fromString (LogLevel_toString lv) = lv"
  by (simp add: LogLevel_fromString_def) (cases lv; simp add: LogLevel_fromString_def)

lemma logdefine_reread:
  assumes "load v = Some (node_of_logdefine d)" "\<forall>a \<in> set (ld_appenders d). ad_type a \<in> {1, 2}"
  shows "logdefine_of_text load v = Some (d\<lparr>ld_appenders := map reread (ld_appenders d)\<rparr>)"
proof -
  have "those (map (appender_of_node \<circ> node_of_appender) (ld_appenders d)) = Some (map (\<lambda>a. Some (reread a)) (ld_appenders d))"
    by (rule those_map_some) (use assms(2) appender_reread in auto)
  then have "appenders_of_node (node_of_logdefine d) = Some (map reread (ld_appenders d))"
    by (auto simp: appenders_of_node_def node_of_logdefine_def yget_def comp_def)
  then show ?thesis
    by (cases d) (simp add: logdefine_of_text_def assms(1) node_of_logdefine_def yget_def yas_def text_or_def level_text)
qed

lemma appender_level_lost:
  "appender_of_node (Map [(''type'', Scalar ''StdoutLogAppender''), (''level'', Scalar ''ERROR'')])
    = Some (Some \<lparr>ad_type = 2, ad_level = UNKNOW, ad_formatter = [], ad_file = []\<rparr>)"
  by (simp add: appender_of_node_def yget_def yas_def text_or_def)

end
