(* ===== verification/MySQL.thy ===== *)
theory MySQL
  imports String_Map Util
begin

text \<open>
  \<^verbatim>\<open>db/mysql.cc\<close>: a connection to a database, the transaction on it, the results of a query,
  and \<open>MySQLManager\<close>, which keeps idle connections by name.  The client library is a parameter: a
  record of its functions on a state of type \<open>'w\<close>, which stands for the library and the server.
  A text is handed to the library as a C string.
\<close>

section \<open>The client library\<close>

type_synonym hnd = nat
type_synonym row = "string option list"

record 'w mysql_api =
  api_init :: "'w \<Rightarrow> hnd option \<times> 'w"
  api_real_connect :: "hnd \<Rightarrow> string \<Rightarrow> string \<Rightarrow> string \<Rightarrow> string \<Rightarrow> int \<Rightarrow> 'w \<Rightarrow> bool \<times> 'w"
  api_close :: "hnd \<Rightarrow> 'w \<Rightarrow> 'w"
  api_query :: "hnd \<Rightarrow> string \<Rightarrow> 'w \<Rightarrow> int \<times> 'w"
  api_store_result :: "hnd \<Rightarrow> 'w \<Rightarrow> (nat \<times> row list) option \<times> 'w"
  api_ping :: "hnd \<Rightarrow> 'w \<Rightarrow> int \<times> 'w"
  api_select_db :: "hnd \<Rightarrow> string \<Rightarrow> 'w \<Rightarrow> int \<times> 'w"
  api_errno :: "hnd \<Rightarrow> 'w \<Rightarrow> int"
  api_error :: "hnd \<Rightarrow> 'w \<Rightarrow> string option"
  api_insert_id :: "hnd \<Rightarrow> 'w \<Rightarrow> u64"
  api_affected_rows :: "hnd \<Rightarrow> 'w \<Rightarrow> u64"

section \<open>A connection\<close>

text \<open>\<open>g_sent\<close> records the commands that were given to the library, with what it returned.\<close>

record MySQL =
  m_params :: "string smap"
  m_mysql :: "hnd option"
  m_cmd :: string
  m_dbname :: string
  m_lastUsedTime :: u64
  m_hasError :: bool
  m_poolSize :: int
  g_sent :: "(string \<times> int) list"

definition new_MySQL :: "string smap \<Rightarrow> MySQL" where
  "new_MySQL args = \<lparr>m_params = args, m_mysql = None, m_cmd = [], m_dbname = [], m_lastUsedTime = 0,
     m_hasError = False, m_poolSize = 10, g_sent = []\<rparr>"

text \<open>\<open>cast\<close> is \<open>boost::lexical_cast<int>\<close>; the options set before the connection are left out.\<close>

definition mysql_init :: "'w mysql_api \<Rightarrow> (string \<Rightarrow> int option) \<Rightarrow> string smap \<Rightarrow> 'w \<Rightarrow> hnd option \<times> 'w" where
  "mysql_init api cast params w = (case api_init api w of
       (None, w1) \<Rightarrow> (None, w1)
     | (Some h, w1) \<Rightarrow>
        let port = GetParamValue cast params ''port'' 0;
            str = (\<lambda>k. c_str (GetParamValue Some params k []))
        in (case api_real_connect api h (str ''host'') (str ''user'') (str ''passwd'') (str ''dbname'') port w1 of
              (False, w2) \<Rightarrow> (None, api_close api h w2)
            | (True, w2) \<Rightarrow> (Some h, w2)))"

text \<open>The old handle is closed when \<open>m_mysql\<close> is set to the new one.\<close>

definition close_handle :: "'w mysql_api \<Rightarrow> hnd option \<Rightarrow> 'w \<Rightarrow> 'w" where
  "close_handle api m w = (case m of None \<Rightarrow> w | Some h \<Rightarrow> api_close api h w)"

definition connect :: "'w mysql_api \<Rightarrow> (string \<Rightarrow> int option) \<Rightarrow> MySQL \<times> 'w \<Rightarrow> bool \<times> MySQL \<times> 'w" where
  "connect api cast s = (case s of (m, w) \<Rightarrow>
     if m_mysql m \<noteq> None \<and> \<not> m_hasError m then (True, m, w)
     else (case mysql_init api cast (m_params m) w of
         (None, w1) \<Rightarrow> (False, m\<lparr>m_hasError := True\<rparr>, w1)
       | (Some h, w1) \<Rightarrow> (True, m\<lparr>m_hasError := False, m_poolSize := GetParamValue cast (m_params m) ''pool'' 5,
            m_mysql := Some h\<rparr>, close_handle api (m_mysql m) w1)))"

definition isNeedCheck :: "u64 \<Rightarrow> MySQL \<Rightarrow> bool" where
  "isNeedCheck now m \<longleftrightarrow> \<not> (now - m_lastUsedTime m < 5 \<and> \<not> m_hasError m)"

definition ping :: "'w mysql_api \<Rightarrow> MySQL \<times> 'w \<Rightarrow> bool \<times> MySQL \<times> 'w" where
  "ping api s = (case s of (m, w) \<Rightarrow> (case m_mysql m of
       None \<Rightarrow> (False, m, w)
     | Some h \<Rightarrow> (case api_ping api h w of (r, w1) \<Rightarrow>
         if r \<noteq> 0 then (False, m\<lparr>m_hasError := True\<rparr>, w1) else (True, m\<lparr>m_hasError := False\<rparr>, w1))))"

text \<open>
  \<open>execute\<close>, for a text or for what \<open>Formatv\<close> made of a format: \<open>None\<close> where the library
  would be called with a null pointer.
\<close>

definition sql_execute :: "'w mysql_api \<Rightarrow> string \<Rightarrow> MySQL \<times> 'w \<Rightarrow> (int \<times> MySQL \<times> 'w) option" where
  "sql_execute api sql s = (case s of (m, w) \<Rightarrow> (case m_mysql m of
       None \<Rightarrow> None
     | Some h \<Rightarrow> (case api_query api h (c_str sql) w of (r, w1) \<Rightarrow>
         Some (r, m\<lparr>m_cmd := sql, m_hasError := r \<noteq> 0, g_sent := g_sent m @ [(c_str sql, r)]\<rparr>, w1))))"

definition cmd :: "MySQL \<Rightarrow> string" where
  "cmd m = c_str (m_cmd m)"

definition use_db :: "'w mysql_api \<Rightarrow> string \<Rightarrow> MySQL \<times> 'w \<Rightarrow> bool \<times> MySQL \<times> 'w" where
  "use_db api dbname s = (case s of (m, w) \<Rightarrow> (case m_mysql m of
       None \<Rightarrow> (False, m, w)
     | Some h \<Rightarrow> if m_dbname m = dbname then (True, m, w)
         else (case api_select_db api h (c_str dbname) w of (r, w1) \<Rightarrow>
           if r = 0 then (True, m\<lparr>m_dbname := dbname, m_hasError := False\<rparr>, w1)
           else (False, m\<lparr>m_dbname := [], m_hasError := True\<rparr>, w1))))"

definition getErrStr :: "'w mysql_api \<Rightarrow> MySQL \<times> 'w \<Rightarrow> string" where
  "getErrStr api s = (case s of (m, w) \<Rightarrow> (case m_mysql m of
       None \<Rightarrow> ''mysql is null''
     | Some h \<Rightarrow> (case api_error api h w of Some e \<Rightarrow> e | None \<Rightarrow> [])))"

definition getErrno :: "'w mysql_api \<Rightarrow> MySQL \<times> 'w \<Rightarrow> int" where
  "getErrno api s = (case s of (m, w) \<Rightarrow> (case m_mysql m of None \<Rightarrow> -1 | Some h \<Rightarrow> api_errno api h w))"

definition getInsertId :: "'w mysql_api \<Rightarrow> MySQL \<times> 'w \<Rightarrow> u64" where
  "getInsertId api s = (case s of (m, w) \<Rightarrow> (case m_mysql m of None \<Rightarrow> 0 | Some h \<Rightarrow> api_insert_id api h w))"

definition getAffectedRows :: "'w mysql_api \<Rightarrow> MySQL \<times> 'w \<Rightarrow> u64" where
  "getAffectedRows api s = (case s of (m, w) \<Rightarrow> (case m_mysql m of None \<Rightarrow> 0 | Some h \<Rightarrow> api_affected_rows api h w))"

section \<open>Query results\<close>

text \<open>
  \<open>r_cur\<close> is the row \<open>m_cur\<close> points to and \<open>r_rest\<close> what \<open>mysql_fetch_row\<close> will still return.  A
  getter without a row, or of a column there is not, reads through an invalid pointer: \<open>None\<close>.
\<close>

record MySQLRes =
  r_errno :: int
  r_errstr :: "string option"
  r_fields :: nat
  r_all :: "row list"
  r_cur :: "row option"
  r_rest :: "row list"

definition my_mysql_query :: "'w mysql_api \<Rightarrow> hnd option \<Rightarrow> string \<Rightarrow> 'w \<Rightarrow> (nat \<times> row list) option \<times> int option \<times> 'w" where
  "my_mysql_query api mysql sql w = (case mysql of
       None \<Rightarrow> (None, None, w)
     | Some h \<Rightarrow> (case api_query api h sql w of (r, w1) \<Rightarrow>
         if r \<noteq> 0 then (None, Some r, w1)
         else (case api_store_result api h w1 of (res, w2) \<Rightarrow> (res, Some r, w2))))"

definition sql_query :: "'w mysql_api \<Rightarrow> string \<Rightarrow> MySQL \<times> 'w \<Rightarrow> MySQLRes option \<times> MySQL \<times> 'w" where
  "sql_query api sql s = (case s of (m, w) \<Rightarrow>
     (case my_mysql_query api (m_mysql m) (c_str sql) w of (res, r, w1) \<Rightarrow>
       let m1 = m\<lparr>m_cmd := sql, g_sent := g_sent m @ (case r of None \<Rightarrow> [] | Some k \<Rightarrow> [(c_str sql, k)])\<rparr> in
       (case res of
          None \<Rightarrow> (None, m1\<lparr>m_hasError := True\<rparr>, w1)
        | Some (n, rows) \<Rightarrow> let m2 = m1\<lparr>m_hasError := False\<rparr> in
            (Some \<lparr>r_errno = api_errno api (the (m_mysql m)) w1, r_errstr = api_error api (the (m_mysql m)) w1,
               r_fields = n, r_all = rows, r_cur = None, r_rest = rows\<rparr>, m2, w1))))"

definition res_next :: "MySQLRes \<Rightarrow> bool \<times> MySQLRes" where
  "res_next r = (case r_rest r of
       [] \<Rightarrow> (False, r\<lparr>r_cur := None\<rparr>)
     | x # xs \<Rightarrow> (True, r\<lparr>r_cur := Some x, r_rest := xs\<rparr>))"

text \<open>\<open>foreach\<close> with the callback's state: the rows until it returns \<open>false\<close>.\<close>

fun foreach_loop :: "(row \<Rightarrow> nat \<Rightarrow> nat \<Rightarrow> 's \<Rightarrow> bool \<times> 's) \<Rightarrow> nat \<Rightarrow> nat \<Rightarrow> row list \<Rightarrow> 's \<Rightarrow> row list \<times> 's" where
  "foreach_loop cb nf i [] s = ([], s)"
| "foreach_loop cb nf i (x # xs) s = (case cb x nf i s of
       (False, s') \<Rightarrow> (xs, s')
     | (True, s') \<Rightarrow> foreach_loop cb nf (Suc i) xs s')"

definition foreach :: "(row \<Rightarrow> nat \<Rightarrow> nat \<Rightarrow> 's \<Rightarrow> bool \<times> 's) \<Rightarrow> MySQLRes \<Rightarrow> 's \<Rightarrow> bool \<times> MySQLRes \<times> 's" where
  "foreach cb r s = (case foreach_loop cb (r_fields r) 0 (r_rest r) s of (rest, s') \<Rightarrow> (True, r\<lparr>r_rest := rest\<rparr>, s'))"

definition getDataCount :: "MySQLRes \<Rightarrow> nat" where
  "getDataCount r = length (r_all r)"

definition getColumnCount :: "MySQLRes \<Rightarrow> nat" where
  "getColumnCount r = r_fields r"

definition col :: "nat \<Rightarrow> MySQLRes \<Rightarrow> string option option" where
  "col idx r = (case r_cur r of None \<Rightarrow> None | Some x \<Rightarrow> if idx < length x then Some (x ! idx) else None)"

definition res_isNull :: "nat \<Rightarrow> MySQLRes \<Rightarrow> bool option" where
  "res_isNull idx r = map_option (\<lambda>v. v = None) (col idx r)"

definition getColumnBytes :: "nat \<Rightarrow> MySQLRes \<Rightarrow> nat option" where
  "getColumnBytes idx r = map_option (\<lambda>v. case v of None \<Rightarrow> 0 | Some t \<Rightarrow> length t) (col idx r)"

text \<open>\<open>getInt64\<close> reads the text with \<open>Atoi\<close>; the narrower ones and the unsigned ones convert its result.\<close>

definition res_getInt64 :: "nat \<Rightarrow> MySQLRes \<Rightarrow> int option" where
  "res_getInt64 idx r = map_option (\<lambda>v. Atoi (map_option c_str v)) (col idx r)"

definition res_getInt :: "nat \<Rightarrow> MySQLRes \<Rightarrow> 'a::len word option" where
  "res_getInt idx r = map_option word_of_int (res_getInt64 idx r)"

definition res_getString :: "nat \<Rightarrow> MySQLRes \<Rightarrow> string option" where
  "res_getString idx r = map_option (\<lambda>v. case v of None \<Rightarrow> [] | Some t \<Rightarrow> t) (col idx r)"

text \<open>\<open>str2time\<close> is \<open>Str2Time\<close>, which goes through \<open>strptime\<close> and \<open>mktime\<close>.\<close>

definition res_getTime :: "(string \<Rightarrow> int) \<Rightarrow> nat \<Rightarrow> MySQLRes \<Rightarrow> int option" where
  "res_getTime str2time idx r = map_option (\<lambda>v. case v of None \<Rightarrow> 0 | Some t \<Rightarrow> str2time (c_str t)) (col idx r)"

section \<open>Time\<close>

record tm =
  tm_sec :: int
  tm_min :: int
  tm_hour :: int
  tm_mday :: int
  tm_mon :: int
  tm_year :: int
  tm_isdst :: int

record MYSQL_TIME =
  mt_year :: int
  mt_month :: int
  mt_day :: int
  mt_hour :: int
  mt_minute :: int
  mt_second :: int

definition mysql_time_to_time_t :: "(int \<Rightarrow> tm) \<Rightarrow> (tm \<Rightarrow> int) \<Rightarrow> MYSQL_TIME \<Rightarrow> int" where
  "mysql_time_to_time_t localtime mktime mt =
    (let ts = mktime ((localtime 0)\<lparr>tm_year := mt_year mt - 1900, tm_mon := mt_month mt - 1, tm_mday := mt_day mt,
         tm_hour := mt_hour mt, tm_min := mt_minute mt, tm_sec := mt_second mt\<rparr>)
     in if ts < 0 then 0 else ts)"

definition time_t_to_mysql_time :: "(int \<Rightarrow> tm) \<Rightarrow> int \<Rightarrow> MYSQL_TIME" where
  "time_t_to_mysql_time localtime ts = (let t = localtime ts in
     \<lparr>mt_year = tm_year t + 1900, mt_month = tm_mon t + 1, mt_day = tm_mday t, mt_hour = tm_hour t,
      mt_minute = tm_min t, mt_second = tm_sec t\<rparr>)"

section \<open>Transactions\<close>

record MySQLTransaction =
  t_autoCommit :: bool
  t_isFinished :: bool
  t_hasError :: bool

type_synonym 'w tx = "MySQLTransaction \<times> MySQL \<times> 'w"

definition tx_execute :: "'w mysql_api \<Rightarrow> string \<Rightarrow> 'w tx \<Rightarrow> (int \<times> 'w tx) option" where
  "tx_execute api sql s = (case s of (t, mw) \<Rightarrow>
     if t_isFinished t then Some (-1, s)
     else (case sql_execute api sql mw of
         None \<Rightarrow> None
       | Some (r, mw1) \<Rightarrow> Some (r, (if r \<noteq> 0 then t\<lparr>t_hasError := True\<rparr> else t), mw1)))"

definition tx_begin :: "'w mysql_api \<Rightarrow> 'w tx \<Rightarrow> (bool \<times> 'w tx) option" where
  "tx_begin api s = map_option (\<lambda>(r, s'). (r = 0, s')) (tx_execute api ''BEGIN'' s)"

definition tx_close :: "int \<times> 'w tx \<Rightarrow> bool \<times> 'w tx" where
  "tx_close p = (case p of (r, t, mw) \<Rightarrow>
     (r = 0, (if r = 0 then t\<lparr>t_isFinished := True\<rparr> else t\<lparr>t_hasError := True\<rparr>), mw))"

definition tx_commit :: "'w mysql_api \<Rightarrow> 'w tx \<Rightarrow> (bool \<times> 'w tx) option" where
  "tx_commit api s = (case s of (t, mw) \<Rightarrow>
     if t_isFinished t \<or> t_hasError t then Some (\<not> t_hasError t, s)
     else map_option tx_close (tx_execute api ''COMMIT'' s))"

definition tx_rollback :: "'w mysql_api \<Rightarrow> 'w tx \<Rightarrow> (bool \<times> 'w tx) option" where
  "tx_rollback api s = (case s of (t, mw) \<Rightarrow>
     if t_isFinished t then Some (True, s)
     else map_option tx_close (tx_execute api ''ROLLBACK'' s))"

definition tx_destroy :: "'w mysql_api \<Rightarrow> 'w tx \<Rightarrow> 'w tx option" where
  "tx_destroy api s = map_option snd (if t_autoCommit (fst s) then tx_commit api s else tx_rollback api s)"

definition tx_new :: "bool \<Rightarrow> MySQLTransaction" where
  "tx_new auto_commit = \<lparr>t_autoCommit = auto_commit, t_isFinished = False, t_hasError = False\<rparr>"

text \<open>When \<open>BEGIN\<close> fails, the object is destroyed at once.\<close>

definition tx_Create :: "'w mysql_api \<Rightarrow> bool \<Rightarrow> MySQL \<times> 'w \<Rightarrow> (MySQLTransaction option \<times> MySQL \<times> 'w) option" where
  "tx_Create api auto_commit mw = (case tx_begin api (tx_new auto_commit, mw) of
       None \<Rightarrow> None
     | Some (True, t, mw1) \<Rightarrow> Some (Some t, mw1)
     | Some (False, t, mw1) \<Rightarrow> map_option (\<lambda>(_, mw2). (None, mw2)) (tx_destroy api (t, mw1)))"

definition openTransaction :: "'w mysql_api \<Rightarrow> bool \<Rightarrow> MySQL \<times> 'w \<Rightarrow> (MySQLTransaction option \<times> MySQL \<times> 'w) option" where
  "openTransaction api auto_commit mw = tx_Create api auto_commit mw"

end
