(* ===== verification/MySQL_Manager.thy ===== *)
theory MySQL_Manager
  imports MySQL
begin

text \<open>
  \<^verbatim>\<open>db/mysql.cc\<close>: \<open>MySQLManager\<close> and \<open>MySQLUtil\<close>.  A connection object is known by its
  address; a pointer that \<open>get\<close> returns comes back through \<open>freeMySQL\<close> when it is dropped.
\<close>

section \<open>State\<close>

text \<open>
  \<open>m_conns\<close> are the idle connections by name.  \<open>g_out\<close> records which are in use, under which
  name, and \<open>g_lost\<close> those that are neither in use nor idle but still there.
\<close>

type_synonym addr = nat

record 'w MySQLManager =
  m_maxConn :: u32
  m_conns :: "addr list smap"
  m_dbDefines :: "string smap smap"
  objs :: "addr \<Rightarrow> MySQL option"
  world :: 'w
  g_out :: "(string \<times> addr) list"
  g_lost :: "addr list"

text \<open>The client library, \<open>lexical_cast<int>\<close>, and the value of \<open>mysql.dbs\<close> in the configuration.\<close>

record 'w db_cfg =
  db_api :: "'w mysql_api"
  db_cast :: "string \<Rightarrow> int option"
  db_config :: "string smap smap"

definition new_MySQLManager :: "'w \<Rightarrow> 'w MySQLManager" where
  "new_MySQLManager w = \<lparr>m_maxConn = 10, m_conns = [], m_dbDefines = [], objs = Map.empty, world = w,
     g_out = [], g_lost = []\<rparr>"

definition registerMySQL :: "string \<Rightarrow> string smap \<Rightarrow> 'w MySQLManager \<Rightarrow> 'w MySQLManager" where
  "registerMySQL name params s = s\<lparr>m_dbDefines := sm_put name params (m_dbDefines s)\<rparr>"

section \<open>Taking and giving back\<close>

text \<open>\<open>on_conn a f\<close> runs \<open>f\<close> on the object at \<open>a\<close> and the state of the library.\<close>

definition put_obj :: "addr \<Rightarrow> MySQL \<times> 'w \<Rightarrow> 'w MySQLManager \<Rightarrow> 'w MySQLManager" where
  "put_obj a mw s = s\<lparr>objs := (objs s)(a \<mapsto> fst mw), world := snd mw\<rparr>"

definition delete_MySQL :: "'w db_cfg \<Rightarrow> addr \<Rightarrow> 'w MySQLManager \<Rightarrow> 'w MySQLManager" where
  "delete_MySQL c a s = (case objs s a of
       None \<Rightarrow> s
     | Some m \<Rightarrow> s\<lparr>objs := (objs s)(a := None), world := close_handle (db_api c) (m_mysql m) (world s)\<rparr>)"

definition hand_out :: "u64 \<Rightarrow> string \<Rightarrow> addr \<Rightarrow> MySQL \<times> 'w \<Rightarrow> 'w MySQLManager \<Rightarrow> addr option \<times> 'w MySQLManager" where
  "hand_out now name a mw s =
    (Some a, put_obj a ((fst mw)\<lparr>m_lastUsedTime := now\<rparr>, snd mw) (s\<lparr>g_out := (name, a) # g_out s\<rparr>))"

text \<open>An idle connection was taken: use it, or test it, or connect it again.\<close>

definition check_taken :: "'w db_cfg \<Rightarrow> u64 \<Rightarrow> string \<Rightarrow> addr \<Rightarrow> MySQL \<Rightarrow> 'w MySQLManager \<Rightarrow> addr option \<times> 'w MySQLManager" where
  "check_taken c now name rt m s =
    (if \<not> isNeedCheck now m then hand_out now name rt (m, world s) s
     else (case ping (db_api c) (m, world s) of
         (True, mw) \<Rightarrow> hand_out now name rt mw s
       | (False, mw) \<Rightarrow> (case connect (db_api c) (db_cast c) mw of
             (True, mw1) \<Rightarrow> hand_out now name rt mw1 s
           | (False, mw1) \<Rightarrow> (None, put_obj rt mw1 (s\<lparr>g_lost := rt # g_lost s\<rparr>)))))"

definition make_new :: "'w db_cfg \<Rightarrow> u64 \<Rightarrow> string \<Rightarrow> addr \<Rightarrow> 'w MySQLManager \<Rightarrow> addr option \<times> 'w MySQLManager" where
  "make_new c now name a s =
    (case (case sm_find (db_config c) name of Some args \<Rightarrow> Some args | None \<Rightarrow> sm_find (m_dbDefines s) name) of
       None \<Rightarrow> (None, s)
     | Some args \<Rightarrow> (case connect (db_api c) (db_cast c) (new_MySQL args, world s) of
           (True, mw) \<Rightarrow> hand_out now name a mw s
         | (False, m, w) \<Rightarrow> (None, s\<lparr>world := close_handle (db_api c) (m_mysql m) w\<rparr>)))"

text \<open>
  \<open>get\<close> at the time \<open>now\<close>; \<open>a\<close> is the address a new connection would get.  An address in the
  list of a name at which there is no object would be a dangling pointer: \<open>None\<close> outside.
\<close>

definition get :: "'w db_cfg \<Rightarrow> u64 \<Rightarrow> addr \<Rightarrow> string \<Rightarrow> 'w MySQLManager \<Rightarrow> (addr option \<times> 'w MySQLManager) option" where
  "get c now a name s = (case sm_find (m_conns s) name of
       Some (rt # rest) \<Rightarrow> (case objs s rt of
           None \<Rightarrow> None
         | Some m \<Rightarrow> Some (check_taken c now name rt m (s\<lparr>m_conns := sm_put name rest (m_conns s)\<rparr>)))
     | _ \<Rightarrow> Some (make_new c now name a s))"

text \<open>\<open>(size_t)m->m_poolSize\<close>: a negative size is a huge one.\<close>

definition pool_limit :: "MySQL \<Rightarrow> nat" where
  "pool_limit m = nat (m_poolSize m mod 2 ^ 64)"

definition freeMySQL :: "'w db_cfg \<Rightarrow> string \<Rightarrow> addr \<Rightarrow> 'w MySQLManager \<Rightarrow> 'w MySQLManager" where
  "freeMySQL c name a s0 = (let s = s0\<lparr>g_out := remove1 (name, a) (g_out s0)\<rparr> in
     case objs s a of
       None \<Rightarrow> s
     | Some m \<Rightarrow>
        if m_mysql m \<noteq> None then
          let s1 = s\<lparr>m_conns := sm_put name (sm_at [] name (m_conns s)) (m_conns s)\<rparr> in
          if length (sm_at [] name (m_conns s1)) < pool_limit m
          then s1\<lparr>m_conns := sm_put name (sm_at [] name (m_conns s1) @ [a]) (m_conns s1)\<rparr>
          else delete_MySQL c a s1
        else delete_MySQL c a s)"

text \<open>\<open>checkConnection\<close>: the age is taken as an \<open>int\<close>.\<close>

definition too_old :: "u64 \<Rightarrow> int \<Rightarrow> MySQL \<Rightarrow> bool" where
  "too_old now sec m \<longleftrightarrow> sec \<le> sint (ucast (now - m_lastUsedTime m) :: u32)"

definition old_at :: "u64 \<Rightarrow> int \<Rightarrow> 'w MySQLManager \<Rightarrow> addr \<Rightarrow> bool" where
  "old_at now sec s a = (case objs s a of None \<Rightarrow> False | Some m \<Rightarrow> too_old now sec m)"

definition checkConnection :: "'w db_cfg \<Rightarrow> u64 \<Rightarrow> int \<Rightarrow> 'w MySQLManager \<Rightarrow> 'w MySQLManager" where
  "checkConnection c now sec s =
    (let conns = concat (map (\<lambda>(_, l). filter (old_at now sec s) l) (m_conns s));
         s1 = s\<lparr>m_conns := map (\<lambda>(n, l). (n, filter (\<lambda>a. \<not> old_at now sec s a) l)) (m_conns s)\<rparr>
     in fold (delete_MySQL c) conns s1)"

section \<open>Commands by name\<close>

text \<open>
  Run something on a connection of that name and give it back: \<open>None\<close> is undefined behaviour, an
  inner \<open>None\<close> that there was no connection.
\<close>

definition with_conn :: "'w db_cfg \<Rightarrow> u64 \<Rightarrow> addr \<Rightarrow> string \<Rightarrow> (MySQL \<times> 'w \<Rightarrow> ('r \<times> MySQL \<times> 'w) option)
    \<Rightarrow> 'w MySQLManager \<Rightarrow> ('r option \<times> 'w MySQLManager) option" where
  "with_conn c now a name f s = (case get c now a name s of
       None \<Rightarrow> None
     | Some (None, s1) \<Rightarrow> Some (None, s1)
     | Some (Some p, s1) \<Rightarrow> (case objs s1 p of
           None \<Rightarrow> None
         | Some m \<Rightarrow> (case f (m, world s1) of
               None \<Rightarrow> None
             | Some (r, mw) \<Rightarrow> Some (Some r, freeMySQL c name p (put_obj p mw s1)))))"

definition mgr_execute :: "'w db_cfg \<Rightarrow> u64 \<Rightarrow> addr \<Rightarrow> string \<Rightarrow> string \<Rightarrow> 'w MySQLManager \<Rightarrow> (int \<times> 'w MySQLManager) option" where
  "mgr_execute c now a name sql s =
    map_option (\<lambda>(r, s'). (case r of None \<Rightarrow> -1 | Some k \<Rightarrow> k, s')) (with_conn c now a name (sql_execute (db_api c) sql) s)"

definition mgr_query :: "'w db_cfg \<Rightarrow> u64 \<Rightarrow> addr \<Rightarrow> string \<Rightarrow> string \<Rightarrow> 'w MySQLManager \<Rightarrow> (MySQLRes option \<times> 'w MySQLManager) option" where
  "mgr_query c now a name sql s =
    map_option (\<lambda>(r, s'). (case r of None \<Rightarrow> None | Some q \<Rightarrow> q, s')) (with_conn c now a name (\<lambda>mw. Some (sql_query (db_api c) sql mw)) s)"

text \<open>A transaction keeps its connection; when it could not be begun, the connection goes back.\<close>

definition mgr_openTransaction :: "'w db_cfg \<Rightarrow> u64 \<Rightarrow> addr \<Rightarrow> string \<Rightarrow> bool \<Rightarrow> 'w MySQLManager
    \<Rightarrow> ((addr \<times> MySQLTransaction) option \<times> 'w MySQLManager) option" where
  "mgr_openTransaction c now a name auto_commit s = (case get c now a name s of
       None \<Rightarrow> None
     | Some (None, s1) \<Rightarrow> Some (None, s1)
     | Some (Some p, s1) \<Rightarrow> (case objs s1 p of
           None \<Rightarrow> None
         | Some m \<Rightarrow> (case tx_Create (db_api c) auto_commit (m, world s1) of
               None \<Rightarrow> None
             | Some (Some t, mw) \<Rightarrow> Some (Some (p, t), put_obj p mw s1)
             | Some (None, mw) \<Rightarrow> Some (None, freeMySQL c name p (put_obj p mw s1)))))"

text \<open>
  \<open>MySQLUtil::TryQuery\<close> and \<open>TryExecute\<close>: up to \<open>count\<close> attempts, each with its own time and
  address for a new connection; the list is as long as \<open>count\<close> says.
\<close>

fun TryQuery :: "'w db_cfg \<Rightarrow> string \<Rightarrow> string \<Rightarrow> (u64 \<times> addr) list \<Rightarrow> 'w MySQLManager
    \<Rightarrow> (MySQLRes option \<times> 'w MySQLManager) option" where
  "TryQuery c name sql [] s = Some (None, s)"
| "TryQuery c name sql ((now, a) # tries) s = (case mgr_query c now a name sql s of
       None \<Rightarrow> None
     | Some (Some q, s1) \<Rightarrow> Some (Some q, s1)
     | Some (None, s1) \<Rightarrow> TryQuery c name sql tries s1)"

fun TryExecute_loop :: "'w db_cfg \<Rightarrow> string \<Rightarrow> string \<Rightarrow> (u64 \<times> addr) list \<Rightarrow> int \<Rightarrow> 'w MySQLManager
    \<Rightarrow> (int \<times> 'w MySQLManager) option" where
  "TryExecute_loop c name sql [] rpy s = Some (rpy, s)"
| "TryExecute_loop c name sql ((now, a) # tries) rpy s = (case mgr_execute c now a name sql s of
       None \<Rightarrow> None
     | Some (r, s1) \<Rightarrow> if r = 0 then Some (r, s1) else TryExecute_loop c name sql tries r s1)"

definition TryExecute :: "'w db_cfg \<Rightarrow> string \<Rightarrow> string \<Rightarrow> (u64 \<times> addr) list \<Rightarrow> 'w MySQLManager \<Rightarrow> (int \<times> 'w MySQLManager) option" where
  "TryExecute c name sql tries s = TryExecute_loop c name sql tries 0 s"

end
