(* ===== verification/MySQL_Format.thy ===== *)
theory MySQL_Format
  imports MySQL_Manager File_Util
begin

text \<open>
  \<^verbatim>\<open>db/mysql.cc\<close>: the commands that are given by a format and its arguments, and the functions of
  \<open>MySQLUtil\<close>, which run a command on a connection that the manager of the program hands out.
  \<open>vasprintf\<close> is the function of the C library.
\<close>

section \<open>On a connection\<close>

definition execute_fmt :: "(string \<Rightarrow> 'a list \<Rightarrow> string option) \<Rightarrow> 'w mysql_api \<Rightarrow> string \<Rightarrow> 'a list \<Rightarrow> MySQL \<times> 'w
    \<Rightarrow> (int \<times> MySQL \<times> 'w) option" where
  "execute_fmt vasprintf api format ap s = sql_execute api (Formatv vasprintf format ap) s"

definition query_fmt :: "(string \<Rightarrow> 'a list \<Rightarrow> string option) \<Rightarrow> 'w mysql_api \<Rightarrow> string \<Rightarrow> 'a list \<Rightarrow> MySQL \<times> 'w
    \<Rightarrow> MySQLRes option \<times> MySQL \<times> 'w" where
  "query_fmt vasprintf api format ap s = sql_query api (Formatv vasprintf format ap) s"

definition tx_execute_fmt :: "(string \<Rightarrow> 'a list \<Rightarrow> string option) \<Rightarrow> 'w mysql_api \<Rightarrow> string \<Rightarrow> 'a list \<Rightarrow> 'w tx
    \<Rightarrow> (int \<times> 'w tx) option" where
  "tx_execute_fmt vasprintf api format ap s = (case s of (t, mw) \<Rightarrow>
     if t_isFinished t then Some (-1, s)
     else (case execute_fmt vasprintf api format ap mw of
         None \<Rightarrow> None
       | Some (r, mw1) \<Rightarrow> Some (r, (if r \<noteq> 0 then t\<lparr>t_hasError := True\<rparr> else t), mw1)))"

section \<open>By name\<close>

definition mgr_execute_fmt :: "(string \<Rightarrow> 'a list \<Rightarrow> string option) \<Rightarrow> 'w db_cfg \<Rightarrow> u64 \<Rightarrow> addr \<Rightarrow> string \<Rightarrow> string \<Rightarrow> 'a list
    \<Rightarrow> 'w MySQLManager \<Rightarrow> (int \<times> 'w MySQLManager) option" where
  "mgr_execute_fmt vasprintf c now a name format ap s =
    map_option (\<lambda>(r, s'). (case r of None \<Rightarrow> -1 | Some k \<Rightarrow> k, s'))
      (with_conn c now a name (execute_fmt vasprintf (db_api c) format ap) s)"

definition mgr_query_fmt :: "(string \<Rightarrow> 'a list \<Rightarrow> string option) \<Rightarrow> 'w db_cfg \<Rightarrow> u64 \<Rightarrow> addr \<Rightarrow> string \<Rightarrow> string \<Rightarrow> 'a list
    \<Rightarrow> 'w MySQLManager \<Rightarrow> (MySQLRes option \<times> 'w MySQLManager) option" where
  "mgr_query_fmt vasprintf c now a name format ap s =
    map_option (\<lambda>(r, s'). (case r of None \<Rightarrow> None | Some q \<Rightarrow> q, s'))
      (with_conn c now a name (\<lambda>mw. Some (query_fmt vasprintf (db_api c) format ap mw)) s)"

text \<open>\<open>MySQLUtil\<close> does with the manager of the program what the manager does.\<close>

definition Util_Execute :: "'w db_cfg \<Rightarrow> u64 \<Rightarrow> addr \<Rightarrow> string \<Rightarrow> string \<Rightarrow> 'w MySQLManager \<Rightarrow> (int \<times> 'w MySQLManager) option" where
  "Util_Execute c now a name sql s =
    map_option (\<lambda>(r, s'). (case r of None \<Rightarrow> -1 | Some k \<Rightarrow> k, s')) (with_conn c now a name (sql_execute (db_api c) sql) s)"

definition Util_Execute_fmt :: "(string \<Rightarrow> 'a list \<Rightarrow> string option) \<Rightarrow> 'w db_cfg \<Rightarrow> u64 \<Rightarrow> addr \<Rightarrow> string \<Rightarrow> string \<Rightarrow> 'a list
    \<Rightarrow> 'w MySQLManager \<Rightarrow> (int \<times> 'w MySQLManager) option" where
  "Util_Execute_fmt vasprintf c now a name format ap s =
    map_option (\<lambda>(r, s'). (case r of None \<Rightarrow> -1 | Some k \<Rightarrow> k, s'))
      (with_conn c now a name (execute_fmt vasprintf (db_api c) format ap) s)"

definition Util_Query_fmt :: "(string \<Rightarrow> 'a list \<Rightarrow> string option) \<Rightarrow> 'w db_cfg \<Rightarrow> u64 \<Rightarrow> addr \<Rightarrow> string \<Rightarrow> string \<Rightarrow> 'a list
    \<Rightarrow> 'w MySQLManager \<Rightarrow> (MySQLRes option \<times> 'w MySQLManager) option" where
  "Util_Query_fmt vasprintf c now a name format ap s =
    map_option (\<lambda>(r, s'). (case r of None \<Rightarrow> None | Some q \<Rightarrow> q, s'))
      (with_conn c now a name (\<lambda>mw. Some (query_fmt vasprintf (db_api c) format ap mw)) s)"

fun TryQuery_fmt :: "(string \<Rightarrow> 'a list \<Rightarrow> string option) \<Rightarrow> 'w db_cfg \<Rightarrow> string \<Rightarrow> string \<Rightarrow> 'a list \<Rightarrow> (u64 \<times> addr) list
    \<Rightarrow> 'w MySQLManager \<Rightarrow> (MySQLRes option \<times> 'w MySQLManager) option" where
  "TryQuery_fmt vasprintf c name format ap [] s = Some (None, s)"
| "TryQuery_fmt vasprintf c name format ap ((now, a) # tries) s = (case Util_Query_fmt vasprintf c now a name format ap s of
       None \<Rightarrow> None
     | Some (Some q, s1) \<Rightarrow> Some (Some q, s1)
     | Some (None, s1) \<Rightarrow> TryQuery_fmt vasprintf c name format ap tries s1)"

fun TryExecute_fmt_loop :: "(string \<Rightarrow> 'a list \<Rightarrow> string option) \<Rightarrow> 'w db_cfg \<Rightarrow> string \<Rightarrow> string \<Rightarrow> 'a list \<Rightarrow> (u64 \<times> addr) list
    \<Rightarrow> int \<Rightarrow> 'w MySQLManager \<Rightarrow> (int \<times> 'w MySQLManager) option" where
  "TryExecute_fmt_loop vasprintf c name format ap [] rpy s = Some (rpy, s)"
| "TryExecute_fmt_loop vasprintf c name format ap ((now, a) # tries) rpy s =
     (case Util_Execute_fmt vasprintf c now a name format ap s of
       None \<Rightarrow> None
     | Some (r, s1) \<Rightarrow> if r = 0 then Some (r, s1) else TryExecute_fmt_loop vasprintf c name format ap tries r s1)"

definition TryExecute_fmt :: "(string \<Rightarrow> 'a list \<Rightarrow> string option) \<Rightarrow> 'w db_cfg \<Rightarrow> string \<Rightarrow> string \<Rightarrow> 'a list \<Rightarrow> (u64 \<times> addr) list
    \<Rightarrow> 'w MySQLManager \<Rightarrow> (int \<times> 'w MySQLManager) option" where
  "TryExecute_fmt vasprintf c name format ap tries s = TryExecute_fmt_loop vasprintf c name format ap tries 0 s"

section \<open>The formatted commands are those of the text\<close>

text \<open>So everything that is shown of the commands by text holds of the formatted ones.\<close>

lemma tx_execute_fmt_text: "tx_execute_fmt vasprintf api format ap s = tx_execute api (Formatv vasprintf format ap) s"
  by (cases s) (simp add: tx_execute_fmt_def tx_execute_def execute_fmt_def)

lemma mgr_fmt_text:
  "mgr_execute_fmt vasprintf c now a name format ap s = mgr_execute c now a name (Formatv vasprintf format ap) s"
  "mgr_query_fmt vasprintf c now a name format ap s = mgr_query c now a name (Formatv vasprintf format ap) s"
  by (simp_all add: mgr_execute_fmt_def mgr_execute_def mgr_query_fmt_def mgr_query_def execute_fmt_def [abs_def] query_fmt_def [abs_def])

lemma TryQuery_fmt_text: "TryQuery_fmt vasprintf c name format ap tries s = TryQuery c name (Formatv vasprintf format ap) tries s"
  by (induction vasprintf c name format ap tries s rule: TryQuery_fmt.induct)
    (auto simp: Util_Query_fmt_def mgr_query_fmt_def mgr_fmt_text(2) [symmetric] split: option.splits)

lemma TryExecute_fmt_text: "TryExecute_fmt vasprintf c name format ap tries s = TryExecute c name (Formatv vasprintf format ap) tries s"
proof -
  have "TryExecute_fmt_loop vasprintf c name format ap tries r s = TryExecute_loop c name (Formatv vasprintf format ap) tries r s" for r
    by (induction vasprintf c name format ap tries r s rule: TryExecute_fmt_loop.induct)
      (auto simp: Util_Execute_fmt_def mgr_execute_fmt_def mgr_fmt_text(1) [symmetric] split: option.splits)
  then show ?thesis by (simp add: TryExecute_fmt_def TryExecute_def)
qed

text \<open>A format that fails to be expanded is sent as an empty command.\<close>

lemma failed_format_sent: "vasprintf format ap = None \<Longrightarrow> execute_fmt vasprintf api format ap s = sql_execute api [] s"
  by (simp add: execute_fmt_def Formatv_def)

end
