(* ===== verification/Http_Client.thy ===== *)
theory Http_Client
  imports Http_Server Address
begin

text \<open>
  The client side of HTTP, \<^verbatim>\<open>http/http_connection.cc\<close>: reading a response with its chunked or
  counted body, \<open>DoRequest\<close> with its error codes, and the pool of connections; and the parts of
  \<^verbatim>\<open>src/uri.rl\<close> around the generated parser of URIs.
\<close>

section \<open>Reading a response\<close>

text \<open>The generated parser with the fields of its struct that the client reads.\<close>

record 'p rsp_machine =
  rm_exec :: "'p ragel"
  rm_init :: "'p \<Rightarrow> 'p"
  rm_error :: "'p \<Rightarrow> bool"
  rm_finished :: "'p \<Rightarrow> bool"
  rm_chunked :: "'p \<Rightarrow> bool"
  rm_content_len :: "'p \<Rightarrow> int"
  rm_chunks_done :: "'p \<Rightarrow> bool"

definition rsp_hasError :: "'p rsp_machine \<Rightarrow> 'p HttpResponseParser \<Rightarrow> bool" where
  "rsp_hasError M p \<longleftrightarrow> sp_error p \<noteq> 0 \<or> rm_error M (sp_parser p)"

definition new_HttpResponseParser :: "'p \<Rightarrow> 'p HttpResponseParser" where
  "new_HttpResponseParser p0 = \<lparr>sp_parser = p0, sp_data = new_HttpResponse 17 True, sp_error = 0\<rparr>"

definition rsp_getContentLength :: "(string \<Rightarrow> nat option) \<Rightarrow> 'p HttpResponseParser \<Rightarrow> nat" where
  "rsp_getContentLength cast p = getAs cast (p_headers (sp_data p)) ''content-length'' 0"

text \<open>
  The loop over the head; \<open>n\<close> is the size of the buffer and \<open>buf\<close> what is left in it.  \<open>None\<close>: the
  connection was closed and the null pointer returned.
\<close>

function recvResponse_loop :: "'p rsp_machine \<Rightarrow> nat \<Rightarrow> bytes \<Rightarrow> 'p HttpResponseParser \<Rightarrow> sock
    \<Rightarrow> ('p HttpResponseParser \<times> bytes) option \<times> sock" where
  "recvResponse_loop M n buf p s =
    (case ss_read (n - length buf) s of
       ((len, d), s1) \<Rightarrow>
         if len \<le> 0 then (None, sock_close s1)
         else (let tx = buf @ d in
           case rsp_execute (rm_exec M) (rm_init M) (to_text tx) False p of
             (nparse, p') \<Rightarrow>
               if rsp_hasError M p' then (None, sock_close s1)
               else (let buf' = drop nparse tx in
                 if length buf' = n then (None, sock_close s1)
                 else if rm_finished M (sp_parser p') then (Some (p', buf'), s1)
                 else recvResponse_loop M n buf' p' s1)))"
  by pat_completeness auto
termination
  by (relation "measure (\<lambda>(M, n, buf, p, s). length (sock_pending s))")
    (auto dest!: sym [of _ "ss_read _ _"] dest: ss_read_progress)

declare recvResponse_loop.simps [simp del]

text \<open>
  The head of a chunk.  The first turn parses what is in the buffer without reading, unless the
  buffer is empty; every turn sets the parser up anew.
\<close>

definition chunk_fill :: "nat \<Rightarrow> bool \<Rightarrow> bytes \<Rightarrow> sock \<Rightarrow> bytes option \<times> sock" where
  "chunk_fill n first buf s =
    (if \<not> first \<or> buf = [] then
       (case ss_read (n - length buf) s of
          ((rt, d), s1) \<Rightarrow> if rt \<le> 0 then (None, sock_close s1) else (Some (buf @ d), s1))
     else (Some buf, s))"

lemma ss_read_length:
  assumes "ss_read n s = ((rt, d), s1)" "\<not> rt \<le> 0"
  shows "length (sock_pending s) = length d + length (sock_pending s1)"
    and "d \<noteq> []" and "rt = int (length d)"
  using assms by (auto simp: ss_read_def sock_recv_def sock_pending_def min_def
      split: if_splits list.splits recv_event.splits)

lemma chunk_fill_pending:
  "chunk_fill n b buf s = (Some tx, s1) \<Longrightarrow>
   length (sock_pending s1) + length tx = length (sock_pending s) + length buf"
  by (auto simp: chunk_fill_def dest: ss_read_length split: if_splits prod.splits)

lemma chunk_fill_turn:
  "(Some tx, s1) = chunk_fill n b buf s \<Longrightarrow> length (sock_pending s1) < length (sock_pending s)
   \<or> b \<and> s1 = s"
  by (auto simp: chunk_fill_def dest: ss_read_progress split: if_splits prod.splits)

function chunk_head :: "'p rsp_machine \<Rightarrow> nat \<Rightarrow> bool \<Rightarrow> bytes \<Rightarrow> 'p HttpResponseParser \<Rightarrow> sock
    \<Rightarrow> ('p HttpResponseParser \<times> bytes) option \<times> sock" where
  "chunk_head M n first buf p s =
    (case chunk_fill n first buf s of
       (None, s1) \<Rightarrow> (None, s1)
     | (Some tx, s1) \<Rightarrow>
         (case rsp_execute (rm_exec M) (rm_init M) (to_text tx) True p of
            (nparse, p') \<Rightarrow>
              if rsp_hasError M p' then (None, sock_close s1)
              else (let buf' = drop nparse tx in
                if length buf' = n then (None, sock_close s1)
                else if rm_finished M (sp_parser p') then (Some (p', buf'), s1)
                else chunk_head M n False buf' p' s1)))"
  by pat_completeness auto
termination
  by (relation "measures [\<lambda>(M, n, b, buf, p, s). length (sock_pending s), \<lambda>(M, n, b, buf, p, s). if b then 1 else 0]")
    (auto dest!: chunk_fill_turn)

declare chunk_head.simps [simp del]

lemma chunk_head_pending:
  "chunk_head M n b buf p s = (Some (p', buf'), s') \<Longrightarrow>
   length (sock_pending s') + length buf' \<le> length (sock_pending s) + length buf"
proof (induction M n b buf p s arbitrary: p' buf' s' rule: chunk_head.induct)
  case (1 M n b buf p s)
  obtain o1 s1 where f: "chunk_fill n b buf s = (o1, s1)" by fastforce
  obtain tx where o1: "o1 = Some tx"
    using "1.prems" f by (cases o1) (auto simp: chunk_head.simps [of M n b buf p s])
  obtain np q where q: "rsp_execute (rm_exec M) (rm_init M) (to_text tx) True p = (np, q)" by fastforce
  have ok: "\<not> rsp_hasError M q" "length (drop np tx) \<noteq> n"
    using "1.prems" f o1 q by (auto simp: chunk_head.simps [of M n b buf p s] Let_def split: if_splits)
  have len: "length (sock_pending s1) + length (drop np tx) \<le> length (sock_pending s) + length buf"
    using chunk_fill_pending [of n b buf s tx s1] f o1 by simp
  show ?case
  proof (cases "rm_finished M (sp_parser q)")
    case True
    with "1.prems" f o1 q ok len show ?thesis
      by (auto simp: chunk_head.simps [of M n b buf p s] Let_def split: if_splits)
  next
    case False
    with "1.prems" f o1 q ok have "chunk_head M n False (drop np tx) q s1 = (Some (p', buf'), s')"
      by (simp add: chunk_head.simps [of M n b buf p s] Let_def)
    from "1.IH" [OF f [symmetric] o1 q [symmetric] ok(1) refl ok(2) False this] len show ?thesis
      by simp
  qed
qed

text \<open>The rest of a chunk that is not in the buffer, with its line end.\<close>

function read_rest :: "nat \<Rightarrow> nat \<Rightarrow> bytes \<Rightarrow> sock \<Rightarrow> bytes option \<times> sock" where
  "read_rest n left body s =
    (if left = 0 then (Some body, s)
     else (case ss_read (if n < left then n else left) s of
       ((rt, d), s1) \<Rightarrow> if rt \<le> 0 then (None, sock_close s1)
         else read_rest n (left - length d) (body @ d) s1))"
  by pat_completeness auto
termination
  by (relation "measure (\<lambda>(n, left, body, s). left)") (auto dest!: sym [of _ "ss_read _ _"] dest: ss_read_length)

declare read_rest.simps [simp del]

lemma read_rest_pending:
  "read_rest n left body s = (Some body', s') \<Longrightarrow> 
   length (sock_pending s') \<le> length (sock_pending s) \<and> (0 < left \<longrightarrow> length (sock_pending s') < length (sock_pending s))"
proof (induction n left body s arbitrary: s' rule: read_rest.induct)
  case (1 n left body s)
  show ?case
  proof (cases "left = 0")
    case True
    then show ?thesis using "1.prems" by (simp add: read_rest.simps)
  next
    case False
    obtain rt d s1 where r: "ss_read (if n < left then n else left) s = ((rt, d), s1)" by (metis prod.exhaust)
    then have pos: "\<not> rt \<le> 0" and "read_rest n (left - length d) (body @ d) s1 = (Some body', s')"
      using "1.prems" False by (auto simp: read_rest.simps [of n left] split: if_splits)
    from "1.IH" [OF False r [symmetric] refl pos this(2)] ss_read_progress [OF r pos] show ?thesis
      by simp
  qed
qed

text \<open>
  The length of a chunk is an \<open>int\<close> that comes from the peer.  A negative one is converted by
  \<open>append\<close> to a huge size, which makes it throw; \<open>content_len + 2\<close> of one next to the largest
  \<open>int\<close> overflows.  \<open>RecvThrow\<close> stands for both.
\<close>

datatype 'a received = RecvClosed | RecvThrow | Received 'a

definition chunk_body :: "nat \<Rightarrow> int \<Rightarrow> bytes \<Rightarrow> bytes \<Rightarrow> sock \<Rightarrow> (bytes \<times> bytes) received \<times> sock" where
  "chunk_body n content_len buf body s =
    (if content_len < 0 \<or> 2 ^ 31 \<le> content_len + 2 then (RecvThrow, s)
     else let c = nat content_len in
       if c + 2 \<le> length buf then (Received (body @ take c buf, drop (c + 2) buf), s)
       else (case read_rest n (c + 2 - length buf) (body @ buf) s of
           (None, s1) \<Rightarrow> (RecvClosed, s1)
         | (Some body', s1) \<Rightarrow> (Received (take (length body' - 2) body', []), s1)))"

lemma chunk_body_pending:
  "chunk_body n c buf body s = (Received (body', buf'), s') \<Longrightarrow>
   length (sock_pending s') + length buf' < length (sock_pending s) + length buf"
  by (auto simp: chunk_body_def Let_def split: if_splits prod.splits option.splits dest!: read_rest_pending)

function recv_chunks :: "'p rsp_machine \<Rightarrow> nat \<Rightarrow> bytes \<Rightarrow> bytes \<Rightarrow> 'p HttpResponseParser \<Rightarrow> sock
    \<Rightarrow> ('p HttpResponseParser \<times> bytes) received \<times> sock" where
  "recv_chunks M n buf body p s =
    (case chunk_head M n True buf p s of
       (None, s1) \<Rightarrow> (RecvClosed, s1)
     | (Some (p', buf1), s1) \<Rightarrow>
         (case chunk_body n (rm_content_len M (sp_parser p')) buf1 body s1 of
            (Received (body', buf2), s2) \<Rightarrow>
              if rm_chunks_done M (sp_parser p') then (Received (p', body'), s2)
              else recv_chunks M n buf2 body' p' s2
          | (RecvClosed, s2) \<Rightarrow> (RecvClosed, s2)
          | (RecvThrow, s2) \<Rightarrow> (RecvThrow, s2)))"
  by pat_completeness auto
termination
  by (relation "measure (\<lambda>(M, n, buf, body, p, s). length (sock_pending s) + length buf)")
    (auto dest!: sym [of _ "chunk_head _ _ _ _ _ _"] sym [of _ "chunk_body _ _ _ _ _"]
      dest!: chunk_head_pending chunk_body_pending)

declare recv_chunks.simps [simp del]

text \<open>The whole of it; \<open>p0\<close> is the struct of the generated parser before it is set up.  The parsed response gets the body when there is one.\<close>

definition with_body :: "bytes \<Rightarrow> HttpResponse \<Rightarrow> HttpResponse" where
  "with_body body r = (if body = [] then r else r\<lparr>p_body := to_text body\<rparr>)"

definition recvResponse :: "'p rsp_machine \<Rightarrow> 'p \<Rightarrow> (string \<Rightarrow> nat option) \<Rightarrow> nat \<Rightarrow> sock
    \<Rightarrow> HttpResponse received \<times> sock" where
  "recvResponse M p0 cast n s =
    (case recvResponse_loop M n [] (new_HttpResponseParser (rm_init M p0)) s of
       (None, s1) \<Rightarrow> (RecvClosed, s1)
     | (Some (p, buf), s1) \<Rightarrow>
         if rm_chunked M (sp_parser p) then
           (case recv_chunks M n buf [] p s1 of
              (Received (p', body), s2) \<Rightarrow> (Received (with_body body (sp_data p')), s2)
            | (RecvClosed, s2) \<Rightarrow> (RecvClosed, s2)
            | (RecvThrow, s2) \<Rightarrow> (RecvThrow, s2))
         else
           (let len = left_of (rsp_getContentLength cast p) in
            if 0 < len then (case recv_body len buf s1 of
                (None, s2) \<Rightarrow> (RecvClosed, s2)
              | (Some body, s2) \<Rightarrow> (Received (with_body body (sp_data p)), s2))
            else (Received (sp_data p), s1)))"

definition sendRequest :: "HttpRequest \<Rightarrow> sock \<Rightarrow> int \<times> sock" where
  "sendRequest req s = writeFixSize ss_write (to_bytes (dump_request req)) s"

end
