(* ===== verification/Http_Pool.thy ===== *)
theory Http_Pool
  imports Http_Client
begin

text \<open>
  \<^verbatim>\<open>src/uri.rl\<close> without its grammar, and the requests of \<^verbatim>\<open>http/http_connection.cc\<close>: \<open>DoRequest\<close> on
  a connection of its own, and \<open>HttpConnectionPool\<close>.
\<close>

section \<open>Uri\<close>

record Uri =
  m_scheme :: string
  m_userinfo :: string
  u_host :: string
  u_path :: string
  u_query :: string
  u_fragment :: string
  u_port :: int

definition new_Uri :: Uri where
  "new_Uri = \<lparr>m_scheme = [], m_userinfo = [], u_host = [], u_path = [], u_query = [], u_fragment = [], u_port = 0\<rparr>"

definition isDefaultPort :: "Uri \<Rightarrow> bool" where
  "isDefaultPort u =
    (if u_port u = 0 then True
     else if m_scheme u = ''http'' \<or> m_scheme u = ''ws'' then u_port u = 80
     else if m_scheme u = ''https'' \<or> m_scheme u = ''wss'' then u_port u = 443
     else False)"

definition uri_getPath :: "Uri \<Rightarrow> string" where
  "uri_getPath u = (if u_path u = [] then ''/'' else u_path u)"

definition uri_getPort :: "Uri \<Rightarrow> int" where
  "uri_getPort u =
    (if u_port u \<noteq> 0 then u_port u
     else if m_scheme u = ''http'' \<or> m_scheme u = ''ws'' then 80
     else if m_scheme u = ''https'' \<or> m_scheme u = ''wss'' then 443
     else u_port u)"

definition dump_uri :: "Uri \<Rightarrow> string" where
  "dump_uri u = m_scheme u @ ''://'' @ m_userinfo u @ (if m_userinfo u = [] then [] else ''@'') @ u_host u
     @ (if isDefaultPort u then [] else '':'' @ dec_int (u_port u)) @ uri_getPath u
     @ (if u_query u = [] then [] else ''?'') @ u_query u
     @ (if u_fragment u = [] then [] else ''#'') @ u_fragment u"

text \<open>
  What the requests use of the network: the resolver, the text of an address, the socket that is
  created (the flag is for SSL), the connection of a socket, the text of its remote address, and the text of \<open>errno\<close>.
\<close>

record net =
  n_endian :: endian
  n_resolve :: resolver
  n_addr_text :: "Address \<Rightarrow> string"
  n_remote_text :: "sock \<Rightarrow> string"
  n_socket :: "bool \<Rightarrow> Address \<Rightarrow> sock option"
  n_connect :: "Address \<Rightarrow> sock \<Rightarrow> bool \<times> sock"
  n_errno_text :: string

definition createAddress :: "net \<Rightarrow> Uri \<Rightarrow> Address option" where
  "createAddress N u = (case LookupAnyIPAddress (n_resolve N) (u_host u) of
     None \<Rightarrow> None
   | Some a \<Rightarrow> Some (setPort (n_endian N) (word_of_int (uri_getPort u)) a))"

section \<open>Results\<close>

datatype HttpError = OK | INVALID_URL | INVALID_HOST | CONNECT_FAIL | SEND_CLOSE_BY_PEER
  | SEND_SOCKET_ERROR | TIMEOUT | CREATE_SOCKET_ERROR | POOL_GET_CONNECTION | POOL_INVALID_CONNECTION

fun error_number :: "HttpError \<Rightarrow> nat" where
  "error_number OK = 0" | "error_number INVALID_URL = 1" | "error_number INVALID_HOST = 2"
| "error_number CONNECT_FAIL = 3" | "error_number SEND_CLOSE_BY_PEER = 4"
| "error_number SEND_SOCKET_ERROR = 5" | "error_number TIMEOUT = 6"
| "error_number CREATE_SOCKET_ERROR = 7" | "error_number POOL_GET_CONNECTION = 8"
| "error_number POOL_INVALID_CONNECTION = 9"

record HttpResult =
  hr_result :: nat
  hr_response :: "HttpResponse option"
  hr_error :: string

definition mk_result :: "HttpError \<Rightarrow> HttpResponse option \<Rightarrow> string \<Rightarrow> HttpResult" where
  "mk_result e r t = \<lparr>hr_result = error_number e, hr_response = r, hr_error = t\<rparr>"

text \<open>The response is printed by its own \<open>toString\<close>.\<close>

definition result_toString :: "HttpResult \<Rightarrow> string" where
  "result_toString r = ''[HttpResult result='' @ dec (hr_result r) @ '' error='' @ hr_error r
     @ '' response='' @ (case hr_response r of None \<Rightarrow> ''nullptr'' | Some p \<Rightarrow> dump_response p) @ '']''"

section \<open>Building a request\<close>

text \<open>
  The loop over the header map of the caller, in its order: connection headers are not copied,
  and \<open>has_host\<close> stays set once a host with a value was seen.
\<close>

definition add_header :: "string \<times> string \<Rightarrow> HttpRequest \<times> bool \<Rightarrow> HttpRequest \<times> bool" where
  "add_header i acc = (case acc of (req, has_host) \<Rightarrow>
     if strcaseeq (fst i) ''connection'' then
       (if strcaseeq (snd i) ''keep-alive'' then (req\<lparr>q_close := False\<rparr>, has_host) else (req, has_host))
     else (setHeader (fst i) (snd i) req,
           if \<not> has_host \<and> strcaseeq (fst i) ''host'' then snd i \<noteq> [] else has_host))"

definition finish_request :: "HttpRequest \<Rightarrow> (string \<times> string) list \<Rightarrow> string \<Rightarrow> string \<Rightarrow> HttpRequest" where
  "finish_request req headers host body =
    (case fold add_header headers (req, False) of
       (req', has_host) \<Rightarrow> (if has_host then req' else setHeader ''Host'' host req')\<lparr>q_body := body\<rparr>)"

definition uri_request :: "HttpMethod \<Rightarrow> Uri \<Rightarrow> (string \<times> string) list \<Rightarrow> string \<Rightarrow> HttpRequest" where
  "uri_request method uri headers body =
    finish_request ((new_HttpRequest 17 True)
       \<lparr>q_path := uri_getPath uri, q_query := u_query uri, q_fragment := u_fragment uri, q_method := method\<rparr>)
      headers (u_host uri) body"

section \<open>A request on its own connection\<close>

text \<open>
  \<open>conn\<close> sends the request and reads the response; the two failures of sending are told apart by
  the sign.  \<open>RecvThrow\<close> is an exception that leaves \<open>DoRequest\<close>, the result \<open>None\<close>.
\<close>

record 'p client_cfg =
  cc_machine :: "'p rsp_machine"
  cc_parser :: 'p
  cc_cast :: "string \<Rightarrow> nat option"
  cc_buffer :: nat

definition send_and_recv :: "'p client_cfg \<Rightarrow> net \<Rightarrow> string \<Rightarrow> nat \<Rightarrow> HttpRequest \<Rightarrow> sock
    \<Rightarrow> HttpResult option \<times> sock" where
  "send_and_recv C N addr_text timeout_ms req s =
    (case sendRequest req s of (rt, s1) \<Rightarrow>
       if rt = 0 then (Some (mk_result SEND_CLOSE_BY_PEER None (''send request closed by peer: '' @ addr_text)), s1)
       else if rt < 0 then
         (Some (mk_result SEND_SOCKET_ERROR None (''send request socket error errno='' @ n_errno_text N)), s1)
       else (case recvResponse (cc_machine C) (cc_parser C) (cc_cast C) (cc_buffer C) s1 of
           (RecvThrow, s2) \<Rightarrow> (None, s2)
         | (RecvClosed, s2) \<Rightarrow>
             (Some (mk_result TIMEOUT None (''recv response timeout: '' @ addr_text
                @ '' timeout_ms:'' @ dec timeout_ms)), s2)
         | (Received rsp, s2) \<Rightarrow> (Some (mk_result OK (Some rsp) ''ok''), s2)))"

definition DoRequest :: "'p client_cfg \<Rightarrow> net \<Rightarrow> HttpRequest \<Rightarrow> Uri \<Rightarrow> nat \<Rightarrow> HttpResult option" where
  "DoRequest C N req uri timeout_ms =
    (case createAddress N uri of
       None \<Rightarrow> Some (mk_result INVALID_HOST None (''invalid host: '' @ u_host uri))
     | Some addr \<Rightarrow>
         (case n_socket N (m_scheme uri = ''https'') addr of
            None \<Rightarrow> Some (mk_result CREATE_SOCKET_ERROR None
                      (''create socket fail: '' @ n_addr_text N addr @ '' errno='' @ n_errno_text N))
          | Some s \<Rightarrow> (case n_connect N addr s of
                (False, s1) \<Rightarrow> Some (mk_result CONNECT_FAIL None (''connect fail: '' @ n_addr_text N addr))
              | (True, s1) \<Rightarrow> fst (send_and_recv C N (n_addr_text N addr) timeout_ms req s1))))"

definition DoRequest_uri :: "'p client_cfg \<Rightarrow> net \<Rightarrow> HttpMethod \<Rightarrow> Uri \<Rightarrow> nat \<Rightarrow> (string \<times> string) list
    \<Rightarrow> string \<Rightarrow> HttpResult option" where
  "DoRequest_uri C N method uri timeout_ms headers body =
     DoRequest C N (uri_request method uri headers body) uri timeout_ms"

text \<open>\<open>parse\<close> is the generated \<open>Uri::Create\<close>.\<close>

definition DoRequest_url :: "'p client_cfg \<Rightarrow> net \<Rightarrow> (string \<Rightarrow> Uri option) \<Rightarrow> HttpMethod \<Rightarrow> string \<Rightarrow> nat
    \<Rightarrow> (string \<times> string) list \<Rightarrow> string \<Rightarrow> HttpResult option" where
  "DoRequest_url C N parse method url timeout_ms headers body =
    (case parse url of
       None \<Rightarrow> Some (mk_result INVALID_URL None (''invalid url: '' @ url))
     | Some uri \<Rightarrow> DoRequest_uri C N method uri timeout_ms headers body)"

definition DoGet_uri :: "'p client_cfg \<Rightarrow> net \<Rightarrow> Uri \<Rightarrow> nat \<Rightarrow> (string \<times> string) list \<Rightarrow> string
    \<Rightarrow> HttpResult option" where
  "DoGet_uri C N uri timeout_ms headers body = DoRequest_uri C N GET uri timeout_ms headers body"

definition DoGet_url :: "'p client_cfg \<Rightarrow> net \<Rightarrow> (string \<Rightarrow> Uri option) \<Rightarrow> string \<Rightarrow> nat
    \<Rightarrow> (string \<times> string) list \<Rightarrow> string \<Rightarrow> HttpResult option" where
  "DoGet_url C N parse url timeout_ms headers body =
    (case parse url of
       None \<Rightarrow> Some (mk_result INVALID_URL None (''invalid url: '' @ url))
     | Some uri \<Rightarrow> DoGet_uri C N uri timeout_ms headers body)"

definition DoPost_uri :: "'p client_cfg \<Rightarrow> net \<Rightarrow> Uri \<Rightarrow> nat \<Rightarrow> (string \<times> string) list \<Rightarrow> string
    \<Rightarrow> HttpResult option" where
  "DoPost_uri C N uri timeout_ms headers body = DoRequest_uri C N POST uri timeout_ms headers body"

definition DoPost_url :: "'p client_cfg \<Rightarrow> net \<Rightarrow> (string \<Rightarrow> Uri option) \<Rightarrow> string \<Rightarrow> nat
    \<Rightarrow> (string \<times> string) list \<Rightarrow> string \<Rightarrow> HttpResult option" where
  "DoPost_url C N parse url timeout_ms headers body =
    (case parse url of
       None \<Rightarrow> Some (mk_result INVALID_URL None (''invalid url: '' @ url))
     | Some uri \<Rightarrow> DoPost_uri C N uri timeout_ms headers body)"

section \<open>The pool\<close>

text \<open>
  Connections are objects on the heap: \<open>hp_heap\<close> has those that are allocated, \<open>hp_conns\<close> the
  pointers of those that wait in the list.  \<open>m_total\<close> is an \<open>int32_t\<close>.
\<close>

record HttpConnection =
  hc_sock :: sock
  hc_createTime :: u64
  hc_request :: u64

record pool =
  hp_host :: string
  hp_vhost :: string
  hp_port :: u32
  hp_maxSize :: u32
  hp_maxAliveTime :: u32
  hp_maxRequest :: u32
  hp_isHttps :: bool
  hp_conns :: "nat list"
  hp_total :: u32
  hp_heap :: "nat \<Rightarrow> HttpConnection option"

definition new_pool :: "string \<Rightarrow> string \<Rightarrow> u32 \<Rightarrow> bool \<Rightarrow> u32 \<Rightarrow> u32 \<Rightarrow> u32 \<Rightarrow> pool" where
  "new_pool host vhost port is_https max_size max_alive_time max_request =
    \<lparr>hp_host = host, hp_vhost = vhost, hp_port = (if port \<noteq> 0 then port else if is_https then 443 else 80),
     hp_maxSize = max_size, hp_maxAliveTime = max_alive_time, hp_maxRequest = max_request,
     hp_isHttps = is_https, hp_conns = [], hp_total = 0, hp_heap = Map.empty\<rparr>"

text \<open>\<open>None\<close>: the null uri is dereferenced.\<close>

definition pool_Create :: "(string \<Rightarrow> Uri option) \<Rightarrow> string \<Rightarrow> string \<Rightarrow> u32 \<Rightarrow> u32 \<Rightarrow> u32 \<Rightarrow> pool option" where
  "pool_Create parse uri vhost max_size max_alive_time max_request =
    (case parse uri of
       None \<Rightarrow> None
     | Some turi \<Rightarrow> Some (new_pool (u_host turi) vhost (word_of_int (uri_getPort turi))
         (m_scheme turi = ''https'') max_size max_alive_time max_request))"

text \<open>The loop that looks for a connection: those it rejects, the one it takes, what stays.\<close>

fun take_conn :: "(nat \<Rightarrow> HttpConnection) \<Rightarrow> u32 \<Rightarrow> u64 \<Rightarrow> nat list \<Rightarrow> nat list \<times> nat option \<times> nat list" where
  "take_conn deref alive now [] = ([], None, [])"
| "take_conn deref alive now (c # cs) =
    (if \<not> s_open (hc_sock (deref c)) \<or> now < hc_createTime (deref c) + ucast alive
     then (case take_conn deref alive now cs of (bad, r, rest) \<Rightarrow> (c # bad, r, rest))
     else ([], Some c, cs))"

definition delete_conns :: "nat list \<Rightarrow> (nat \<Rightarrow> HttpConnection option) \<Rightarrow> nat \<Rightarrow> HttpConnection option" where
  "delete_conns cs heap = (\<lambda>c. if c \<in> set cs then None else heap c)"

text \<open>\<open>new_ptr\<close> is the address that \<open>new HttpConnection\<close> would return.\<close>

definition getConnection :: "net \<Rightarrow> u64 \<Rightarrow> nat \<Rightarrow> pool \<Rightarrow> nat option \<times> pool" where
  "getConnection N now_ms new_ptr P =
    (case take_conn (\<lambda>c. the (hp_heap P c)) (hp_maxAliveTime P) now_ms (hp_conns P) of
       (invalid_conns, ptr, rest) \<Rightarrow>
         let P1 = P\<lparr>hp_conns := rest, hp_heap := delete_conns invalid_conns (hp_heap P),
                    hp_total := hp_total P - of_nat (length invalid_conns)\<rparr> in
         (case ptr of
            Some c \<Rightarrow> (Some c, P1)
          | None \<Rightarrow>
              (case LookupAnyIPAddress (n_resolve N) (hp_host P) of
                 None \<Rightarrow> (None, P1)
               | Some a \<Rightarrow> let addr = setPort (n_endian N) (ucast (hp_port P)) a in
                   (case n_socket N False addr of
                      None \<Rightarrow> (None, P1)
                    | Some s \<Rightarrow> (case n_connect N addr s of
                          (False, s1) \<Rightarrow> (None, P1)
                        | (True, s1) \<Rightarrow> (Some new_ptr,
                            P1\<lparr>hp_heap := (hp_heap P1)(new_ptr \<mapsto> \<lparr>hc_sock = s1, hc_createTime = 0, hc_request = 0\<rparr>),
                               hp_total := hp_total P1 + 1\<rparr>))))))"

definition ReleasePtr :: "u64 \<Rightarrow> nat \<Rightarrow> pool \<Rightarrow> pool" where
  "ReleasePtr now_ms ptr P =
    (let c = (the (hp_heap P ptr))\<lparr>hc_request := hc_request (the (hp_heap P ptr)) + 1\<rparr> in
     if \<not> s_open (hc_sock c) \<or> now_ms \<le> hc_createTime c + ucast (hp_maxAliveTime P)
        \<or> ucast (hp_maxRequest P) \<le> hc_request c
     then P\<lparr>hp_heap := (hp_heap P)(ptr := None), hp_total := hp_total P - 1\<rparr>
     else P\<lparr>hp_heap := (hp_heap P)(ptr \<mapsto> c), hp_conns := hp_conns P @ [ptr]\<rparr>)"

text \<open>
  \<open>doRequest\<close>: the connection goes back to the pool when the pointer goes out of scope, also when
  an exception leaves (\<open>None\<close>).  The clock is read at both ends.
\<close>

definition pool_doRequest :: "'p client_cfg \<Rightarrow> net \<Rightarrow> u64 \<Rightarrow> u64 \<Rightarrow> nat \<Rightarrow> HttpRequest \<Rightarrow> nat \<Rightarrow> pool
    \<Rightarrow> HttpResult option \<times> pool" where
  "pool_doRequest C N now1 now2 new_ptr req timeout_ms P =
    (case getConnection N now1 new_ptr P of
       (None, P1) \<Rightarrow> (Some (mk_result POOL_GET_CONNECTION None
          (''pool host:'' @ hp_host P1 @ '' port:'' @ dec (unat (hp_port P1)))), P1)
     | (Some c, P1) \<Rightarrow>
         (let conn = the (hp_heap P1 c) in
          case send_and_recv C N (n_remote_text N (hc_sock conn)) timeout_ms req (hc_sock conn) of
            (r, s') \<Rightarrow> (r, ReleasePtr now2 c (P1\<lparr>hp_heap := (hp_heap P1)(c \<mapsto> conn\<lparr>hc_sock := s'\<rparr>)\<rparr>))))"

definition uri_text :: "Uri \<Rightarrow> string" where
  "uri_text uri = uri_getPath uri @ (if u_query uri = [] then [] else ''?'') @ u_query uri
     @ (if u_fragment uri = [] then [] else ''#'') @ u_fragment uri"

definition pool_request :: "HttpMethod \<Rightarrow> string \<Rightarrow> (string \<times> string) list \<Rightarrow> string \<Rightarrow> pool \<Rightarrow> HttpRequest" where
  "pool_request method url headers body P =
     finish_request ((new_HttpRequest 17 True)\<lparr>q_path := url, q_method := method, q_close := False\<rparr>)
       headers (if hp_vhost P = [] then hp_host P else hp_vhost P) body"

definition pool_doRequest_url :: "'p client_cfg \<Rightarrow> net \<Rightarrow> u64 \<Rightarrow> u64 \<Rightarrow> nat \<Rightarrow> HttpMethod \<Rightarrow> string \<Rightarrow> nat
    \<Rightarrow> (string \<times> string) list \<Rightarrow> string \<Rightarrow> pool \<Rightarrow> HttpResult option \<times> pool" where
  "pool_doRequest_url C N now1 now2 new_ptr method url timeout_ms headers body P =
     pool_doRequest C N now1 now2 new_ptr (pool_request method url headers body P) timeout_ms P"

definition pool_doRequest_uri :: "'p client_cfg \<Rightarrow> net \<Rightarrow> u64 \<Rightarrow> u64 \<Rightarrow> nat \<Rightarrow> HttpMethod \<Rightarrow> Uri \<Rightarrow> nat
    \<Rightarrow> (string \<times> string) list \<Rightarrow> string \<Rightarrow> pool \<Rightarrow> HttpResult option \<times> pool" where
  "pool_doRequest_uri C N now1 now2 new_ptr method uri = pool_doRequest_url C N now1 now2 new_ptr method (uri_text uri)"

definition pool_doGet :: "'p client_cfg \<Rightarrow> net \<Rightarrow> u64 \<Rightarrow> u64 \<Rightarrow> nat \<Rightarrow> string \<Rightarrow> nat
    \<Rightarrow> (string \<times> string) list \<Rightarrow> string \<Rightarrow> pool \<Rightarrow> HttpResult option \<times> pool" where
  "pool_doGet C N now1 now2 new_ptr = pool_doRequest_url C N now1 now2 new_ptr GET"

definition pool_doPost :: "'p client_cfg \<Rightarrow> net \<Rightarrow> u64 \<Rightarrow> u64 \<Rightarrow> nat \<Rightarrow> string \<Rightarrow> nat
    \<Rightarrow> (string \<times> string) list \<Rightarrow> string \<Rightarrow> pool \<Rightarrow> HttpResult option \<times> pool" where
  "pool_doPost C N now1 now2 new_ptr = pool_doRequest_url C N now1 now2 new_ptr POST"

definition pool_doGet_uri :: "'p client_cfg \<Rightarrow> net \<Rightarrow> u64 \<Rightarrow> u64 \<Rightarrow> nat \<Rightarrow> Uri \<Rightarrow> nat
    \<Rightarrow> (string \<times> string) list \<Rightarrow> string \<Rightarrow> pool \<Rightarrow> HttpResult option \<times> pool" where
  "pool_doGet_uri C N now1 now2 new_ptr uri = pool_doGet C N now1 now2 new_ptr (uri_text uri)"

definition pool_doPost_uri :: "'p client_cfg \<Rightarrow> net \<Rightarrow> u64 \<Rightarrow> u64 \<Rightarrow> nat \<Rightarrow> Uri \<Rightarrow> nat
    \<Rightarrow> (string \<times> string) list \<Rightarrow> string \<Rightarrow> pool \<Rightarrow> HttpResult option \<times> pool" where
  "pool_doPost_uri C N now1 now2 new_ptr uri = pool_doPost C N now1 now2 new_ptr (uri_text uri)"

end
