(* ===== verification/WS_Connection.thy ===== *)
theory WS_Connection
  imports Http_Pool WebSocket
begin

text \<open>
  \<^verbatim>\<open>http/ws_connection.cc\<close>: the client of a websocket.  It sends a request that asks for the change of
  the protocol and expects its confirmation; after that it exchanges messages as
  \<^verbatim>\<open>http/ws_session.cc\<close> does, with masked frames.
\<close>

section \<open>The request\<close>

text \<open>
  The loop over the headers of the caller.  All are copied; the accumulator is the request with
  \<open>has_host\<close> and \<open>has_conn\<close>.
\<close>

definition ws_add_header :: "string \<times> string \<Rightarrow> HttpRequest \<times> bool \<times> bool \<Rightarrow> HttpRequest \<times> bool \<times> bool" where
  "ws_add_header i acc = (case acc of (req, has_host, has_conn) \<Rightarrow>
     let req' = setHeader (fst i) (snd i) req in
     if strcaseeq (fst i) ''connection'' then (req', has_host, True)
     else if \<not> has_host \<and> strcaseeq (fst i) ''host'' then (req', snd i \<noteq> [], has_conn)
     else (req', has_host, has_conn))"

definition ws_request :: "Uri \<Rightarrow> (string \<times> string) list \<Rightarrow> string \<Rightarrow> HttpRequest" where
  "ws_request uri headers key =
    (case fold ws_add_header headers
        ((new_HttpRequest 17 True)\<lparr>q_path := uri_getPath uri, q_query := u_query uri, q_fragment := u_fragment uri, q_method := GET\<rparr>,
         False, False) of (req, has_host, has_conn) \<Rightarrow>
      let req1 = req\<lparr>q_websocket := True\<rparr>;
          req2 = (if has_conn then req1 else setHeader ''connection'' ''Upgrade'' req1);
          req3 = setHeader ''Sec-webSocket-Key'' key (setHeader ''Sec-webSocket-Version'' ''13'' (setHeader ''Upgrade'' ''websocket'' req2))
      in if has_host then req3 else setHeader ''Host'' (u_host uri) req3)"

section \<open>Connecting\<close>

text \<open>The characters that \<open>random_string\<close> takes by default.\<close>

definition random_chars :: string where
  "random_chars = ''0123456789abcdefghijklmnopqrstuvwxyzABCDEFGHIJKLMNOPQRSTUVWXYZ''"

definition ws_key :: "(nat \<Rightarrow> nat) \<Rightarrow> string" where
  "ws_key rnd = base64encode (to_bytes (random_string rnd 16 random_chars))"

text \<open>
  \<open>Create\<close>: the result and the connection, if there is one.  Without one the socket is destroyed,
  which closes it; the socket is always a plain one.
\<close>

definition WS_Create :: "'p client_cfg \<Rightarrow> net \<Rightarrow> (nat \<Rightarrow> nat) \<Rightarrow> Uri \<Rightarrow> nat \<Rightarrow> (string \<times> string) list
    \<Rightarrow> (HttpResult \<times> sock option) option" where
  "WS_Create C N rnd uri timeout_ms headers =
    (case createAddress N uri of
       None \<Rightarrow> Some (mk_result INVALID_HOST None (''invalid host: '' @ u_host uri), None)
     | Some addr \<Rightarrow>
         (case n_socket N False addr of
            None \<Rightarrow> Some (mk_result CREATE_SOCKET_ERROR None
                      (''create socket fail: '' @ n_addr_text N addr @ '' errno='' @ n_errno_text N), None)
          | Some s \<Rightarrow> (case n_connect N addr s of
                (False, s1) \<Rightarrow> Some (mk_result CONNECT_FAIL None (''connect fail: '' @ n_addr_text N addr), None)
              | (True, s1) \<Rightarrow>
                 (case send_and_recv C N (n_addr_text N addr) timeout_ms (ws_request uri headers (ws_key rnd)) s1 of
                    (None, s2) \<Rightarrow> None
                  | (Some r, s2) \<Rightarrow> (case hr_response r of
                        None \<Rightarrow> Some (r, None)
                      | Some rsp \<Rightarrow>
                          if p_status rsp \<noteq> 101 then Some (\<lparr>hr_result = 50, hr_response = Some rsp,
                             hr_error = ''not websocket server '' @ n_addr_text N addr\<rparr>, None)
                          else Some (r, Some s2))))))"

definition WS_Create_url :: "'p client_cfg \<Rightarrow> net \<Rightarrow> (string \<Rightarrow> Uri option) \<Rightarrow> (nat \<Rightarrow> nat) \<Rightarrow> string \<Rightarrow> nat
    \<Rightarrow> (string \<times> string) list \<Rightarrow> (HttpResult \<times> sock option) option" where
  "WS_Create_url C N parse rnd url timeout_ms headers =
    (case parse url of
       None \<Rightarrow> Some (mk_result INVALID_URL None (''invalid url:'' @ url), None)
     | Some uri \<Rightarrow> WS_Create C N rnd uri timeout_ms headers)"

section \<open>Messages\<close>

definition wsc_recvMessage :: "endian \<Rightarrow> nat \<Rightarrow> sock \<Rightarrow> WSFrameMessage option \<times> sock" where
  "wsc_recvMessage host max_size s = WSRecvMessage host True max_size s"

definition wsc_sendMessage :: "endian \<Rightarrow> u32 \<Rightarrow> WSFrameMessage \<Rightarrow> bool \<Rightarrow> sock \<Rightarrow> int \<times> WSFrameMessage \<times> sock" where
  "wsc_sendMessage host rnd msg final s = WSSendMessage host rnd msg True final s"

definition wsc_sendText :: "endian \<Rightarrow> u32 \<Rightarrow> bytes \<Rightarrow> nat \<Rightarrow> bool \<Rightarrow> sock \<Rightarrow> int \<times> WSFrameMessage \<times> sock" where
  "wsc_sendText host rnd data op final s = wsc_sendMessage host rnd \<lparr>m_opcode = op, m_data = data\<rparr> final s"

definition wsc_ping :: "sock \<Rightarrow> int \<times> sock" where
  "wsc_ping s = WSPing s"

definition wsc_pong :: "sock \<Rightarrow> int \<times> sock" where
  "wsc_pong s = WSPong s"

end
