(* ===== verification/Ragel_Machine.thy ===== *)
theory Ragel_Machine
  imports Socket_Stream Cpp_Strings
begin

text \<open>
  The loop that Ragel generates around a table of transitions (style \<open>-G2\<close>): \<open>p\<close> walks through
  the buffer, a transition runs its actions at \<open>p\<close> and enters a state, \<open>fbreak\<close> leaves the loop
  after the character, \<open>goto st0\<close> leaves it at the character.
\<close>

section \<open>Transitions\<close>

datatype 'a edge = Goto "'a list" nat | Stop "'a list" nat | Fail

text \<open>\<open>(*p)\<close> is a signed \<open>char\<close>.\<close>

definition schar :: "char \<Rightarrow> int" where
  "schar c = (if code c < 128 then int (code c) else int (code c) - 256)"

text \<open>
  \<open>step\<close> is the switch over state and character, \<open>act a p\<close> what an action does at position \<open>p\<close>.  The
  result is where \<open>p\<close> stands, the state of the machine, and the state of the actions.
\<close>

fun ragel_run :: "(nat \<Rightarrow> int \<Rightarrow> 'a edge) \<Rightarrow> ('a \<Rightarrow> nat \<Rightarrow> 's \<Rightarrow> 's) \<Rightarrow> string \<Rightarrow> nat \<Rightarrow> nat \<Rightarrow> 's
    \<Rightarrow> nat \<times> nat \<times> 's" where
  "ragel_run step act [] p cs s = (p, cs, s)"
| "ragel_run step act (c # rest) p cs s = (case step cs (schar c) of
     Goto as cs' \<Rightarrow> ragel_run step act rest (p + 1) cs' (fold (\<lambda>a. act a p) as s)
   | Stop as cs' \<Rightarrow> (p + 1, cs', fold (\<lambda>a. act a p) as s)
   | Fail \<Rightarrow> (p, 0, s))"

text \<open>\<open>LEN(AT, FPC)\<close>, a \<open>size_t\<close>.\<close>

definition len_of :: "nat \<Rightarrow> nat \<Rightarrow> nat" where
  "len_of p at = (if at \<le> p then p - at else 2 ^ 64 - (at - p))"

text \<open>\<open>int x = strtol(at, NULL, 10)\<close>, and with base 16; the text starts with a digit.\<close>

definition strtol10 :: "string \<Rightarrow> int" where
  "strtol10 s = to_int32 (min (strtoull s) (2 ^ 63 - 1))"

definition xdigit_val :: "char \<Rightarrow> nat" where
  "xdigit_val c = (if is_digit c then code c - 48 else if 97 \<le> code c then code c - 87 else code c - 55)"

definition hex_number :: "string \<Rightarrow> nat" where
  "hex_number s = foldl (\<lambda>a c. 16 * a + xdigit_val c) 0 s"

definition strtol16 :: "string \<Rightarrow> int" where
  "strtol16 s = to_int32 (min (hex_number (takeWhile is_xdigit s)) (2 ^ 63 - 1))"

section \<open>Facts on every machine\<close>

lemma ragel_run_range:
  "ragel_run step act t p cs s = (p', cs', s') \<Longrightarrow> p \<le> p' \<and> p' \<le> p + length t"
  by (induction step act t p cs s rule: ragel_run.induct) (force split: edge.splits)+

text \<open>An invariant of the state of the actions that may mention the position.\<close>

lemma ragel_run_pos:
  assumes "ragel_run step act t p cs s = (p', cs', s')" "I p s"
    and "\<And>a q x. q < p + length t \<Longrightarrow> I q x \<Longrightarrow> I q (act a q x)"
    and "\<And>q x. I q x \<Longrightarrow> I (q + 1) x"
  shows "I p' s'"
  using assms
proof (induction step act t p cs s rule: ragel_run.induct)
  case (2 step act c rest p cs s)
  have f: "I p (fold (\<lambda>a. act a p) as s)" for as
    using "2.prems"(2) by (induction as arbitrary: s) (simp_all add: "2.prems"(3))
  have g: "I (p + 1) (fold (\<lambda>a. act a p) as s)" for as
    by (rule "2.prems"(4) [OF f])
  have later: "\<And>a q x. q < p + 1 + length rest \<Longrightarrow> I q x \<Longrightarrow> I q (act a q x)"
    using "2.prems"(3) by simp
  show ?case
    using "2.prems"(1,2) g "2.IH" [OF _ _ g later "2.prems"(4)]
    by (auto split: edge.splits)
qed simp

text \<open>Running over text on which the machine neither stops nor fails.\<close>

lemma ragel_run_Goto:
  "step cs (schar c) = Goto as cs' \<Longrightarrow> ragel_run step act (c # rest) p cs s
     = ragel_run step act rest (p + 1) cs' (fold (\<lambda>a. act a p) as s)"
  by simp

lemma ragel_run_stay:
  assumes "\<And>c. c \<in> set w \<Longrightarrow> step cs (schar c) = Goto [] cs"
  shows "ragel_run step act (w @ rest) p cs s = ragel_run step act rest (p + length w) cs s"
  using assms by (induction w arbitrary: p) simp_all

end
