(* ===== verification/Http11_Table.thy ===== *)
theory Http11_Table
  imports Ragel_Machine
begin

text \<open>
  The transitions of the request parser that Ragel generated, \<^verbatim>\<open>http/http11_parser.cc\<close>, label for
  label: \<open>hp_trN\<close> is what stands at the label \<open>trN\<close> (the actions, then the state that is entered),
  \<open>hp_case_N\<close> is \<open>case N\<close> of the switch over the character, \<open>hp_switch\<close> the switch over the state.
  \<open>goto stN\<close> is \<open>Goto [] N\<close>, and \<open>goto st0\<close> is \<open>Fail\<close>.
\<close>

datatype hp_action = HMark | HStartField | HWriteField | HWriteValue | HRequestMethod | HRequestUri
  | HFragment | HStartQuery | HQueryString | HHttpVersion | HRequestPath | HXml | HJson | HDone

section \<open>The labels \<open>tr\<close>\<close>

definition hp_tr0 :: "hp_action edge" where
  "hp_tr0 = Goto [HMark] 2"

definition hp_tr2 :: "hp_action edge" where
  "hp_tr2 = Goto [HMark] 194"

definition hp_tr3 :: "hp_action edge" where
  "hp_tr3 = Goto [HMark] 198"

definition hp_tr4 :: "hp_action edge" where
  "hp_tr4 = Goto [HRequestMethod] 3"

definition hp_tr6 :: "hp_action edge" where
  "hp_tr6 = Goto [HMark, HRequestPath, HRequestUri] 4"

definition hp_tr7 :: "hp_action edge" where
  "hp_tr7 = Goto [HMark] 19"

definition hp_tr8 :: "hp_action edge" where
  "hp_tr8 = Goto [HMark, HRequestPath, HRequestUri] 20"

definition hp_tr9 :: "hp_action edge" where
  "hp_tr9 = Goto [HMark] 24"

definition hp_tr10 :: "hp_action edge" where
  "hp_tr10 = Goto [HMark] 33"

definition hp_tr11 :: "hp_action edge" where
  "hp_tr11 = Goto [HMark, HRequestPath] 29"

definition hp_tr12 :: "hp_action edge" where
  "hp_tr12 = Goto [HMark] 173"

definition hp_tr13 :: "hp_action edge" where
  "hp_tr13 = Goto [HMark] 5"

definition hp_tr21 :: "hp_action edge" where
  "hp_tr21 = Goto [HHttpVersion] 13"

definition hp_tr22 :: "hp_action edge" where
  "hp_tr22 = Goto [HHttpVersion] 17"

definition hp_tr23 :: "hp_action edge" where
  "hp_tr23 = Goto [HStartField] 14"

definition hp_tr24 :: "hp_action edge" where
  "hp_tr24 = Stop [HStartField, HDone] 348"

definition hp_tr25 :: "hp_action edge" where
  "hp_tr25 = Goto [HStartField] 18"

definition hp_tr27 :: "hp_action edge" where
  "hp_tr27 = Goto [HWriteField] 15"

definition hp_tr28 :: "hp_action edge" where
  "hp_tr28 = Goto [HMark] 16"

definition hp_tr29 :: "hp_action edge" where
  "hp_tr29 = Goto [HMark] 15"

definition hp_tr30 :: "hp_action edge" where
  "hp_tr30 = Goto [HMark, HWriteValue] 13"

definition hp_tr31 :: "hp_action edge" where
  "hp_tr31 = Goto [HMark, HWriteValue] 17"

definition hp_tr33 :: "hp_action edge" where
  "hp_tr33 = Goto [HWriteValue] 13"

definition hp_tr34 :: "hp_action edge" where
  "hp_tr34 = Goto [HWriteValue] 17"

definition hp_tr36 :: "hp_action edge" where
  "hp_tr36 = Stop [HDone] 348"

definition hp_tr37 :: "hp_action edge" where
  "hp_tr37 = Goto [HRequestPath, HRequestUri] 4"

definition hp_tr39 :: "hp_action edge" where
  "hp_tr39 = Goto [HRequestPath, HRequestUri] 20"

definition hp_tr42 :: "hp_action edge" where
  "hp_tr42 = Goto [HRequestPath] 29"

definition hp_tr43 :: "hp_action edge" where
  "hp_tr43 = Goto [HMark] 21"

definition hp_tr44 :: "hp_action edge" where
  "hp_tr44 = Goto [HMark, HFragment] 4"

definition hp_tr45 :: "hp_action edge" where
  "hp_tr45 = Goto [HMark] 22"

definition hp_tr47 :: "hp_action edge" where
  "hp_tr47 = Goto [HFragment] 4"

definition hp_tr53 :: "hp_action edge" where
  "hp_tr53 = Goto [HStartQuery] 30"

definition hp_tr54 :: "hp_action edge" where
  "hp_tr54 = Goto [HStartQuery, HQueryString, HRequestUri] 4"

definition hp_tr55 :: "hp_action edge" where
  "hp_tr55 = Goto [HStartQuery, HQueryString, HRequestUri] 20"

definition hp_tr56 :: "hp_action edge" where
  "hp_tr56 = Goto [HStartQuery] 31"

definition hp_tr58 :: "hp_action edge" where
  "hp_tr58 = Goto [HQueryString, HRequestUri] 4"

definition hp_tr59 :: "hp_action edge" where
  "hp_tr59 = Goto [HQueryString, HRequestUri] 20"

definition hp_tr203 :: "hp_action edge" where
  "hp_tr203 = Goto [HMark] 26"

definition hp_tr204 :: "hp_action edge" where
  "hp_tr204 = Goto [HMark] 27"

definition hp_tr224 :: "hp_action edge" where
  "hp_tr224 = Goto [HRequestPath] 196"

definition hp_tr227 :: "hp_action edge" where
  "hp_tr227 = Stop [HXml, HDone] 349"

definition hp_tr228 :: "hp_action edge" where
  "hp_tr228 = Goto [HRequestPath] 199"

definition hp_tr232 :: "hp_action edge" where
  "hp_tr232 = Goto [HMark] 200"

definition hp_tr235 :: "hp_action edge" where
  "hp_tr235 = Stop [HJson, HDone] 349"

section \<open>The cases of the switch\<close>

text \<open>The character as it is widened where the grammar has a condition.\<close>

definition hp_widec :: "bool \<Rightarrow> int \<Rightarrow> int" where
  "hp_widec relaxed c =
     (if c < 123 then (if 94 \<le> c \<and> c \<le> 94 then 128 + (c + 128) + (if relaxed then 256 else 0) else c)
      else if 123 < c then (if 125 \<le> c \<and> c \<le> 125 then 128 + (c + 128) + (if relaxed then 256 else 0) else c)
      else 128 + (c + 128) + (if relaxed then 256 else 0))"

definition hp_case_1 :: "bool \<Rightarrow> int \<Rightarrow> hp_action edge" where
  "hp_case_1 relaxed c =
     (if c = 60 then hp_tr2
       else if c = 64 then hp_tr3
       else if 57 < c then (if 65 \<le> c \<and> c \<le> 90 then hp_tr0
         else Fail)
       else if 48 \<le> c then hp_tr0
       else Fail)"

definition hp_case_2 :: "bool \<Rightarrow> int \<Rightarrow> hp_action edge" where
  "hp_case_2 relaxed c =
     (if c = 32 then hp_tr4
       else if 57 < c then (if 65 \<le> c \<and> c \<le> 90 then Goto [] 175
         else Fail)
       else if 48 \<le> c then Goto [] 175
       else Fail)"

definition hp_case_3 :: "bool \<Rightarrow> int \<Rightarrow> hp_action edge" where
  "hp_case_3 relaxed c =
     (let w = hp_widec relaxed c
       in if w = 32 then hp_tr6
       else if w = 33 \<or> w = 59 \<or> w = 61 \<or> w = 64 \<or> w = 95 \<or> w = 126 \<or> w =
           606 \<or> w = 635 \<or> w = 637 then hp_tr7
       else if w = 35 then hp_tr8
       else if w = 37 then hp_tr9
       else if w = 47 then hp_tr10
       else if w = 63 then hp_tr11
       else if w < 65 then (if 36 \<le> w \<and> w \<le> 57 then hp_tr7
         else Fail)
       else if 90 < w then (if 97 \<le> w \<and> w \<le> 122 then hp_tr12
         else Fail)
       else hp_tr12)"

definition hp_case_4 :: "bool \<Rightarrow> int \<Rightarrow> hp_action edge" where
  "hp_case_4 relaxed c = (if c = 72 then hp_tr13 else Fail)"

definition hp_case_5 :: "bool \<Rightarrow> int \<Rightarrow> hp_action edge" where
  "hp_case_5 relaxed c = (if c = 84 then Goto [] 6 else Fail)"

definition hp_case_6 :: "bool \<Rightarrow> int \<Rightarrow> hp_action edge" where
  "hp_case_6 relaxed c = (if c = 84 then Goto [] 7 else Fail)"

definition hp_case_7 :: "bool \<Rightarrow> int \<Rightarrow> hp_action edge" where
  "hp_case_7 relaxed c = (if c = 80 then Goto [] 8 else Fail)"

definition hp_case_8 :: "bool \<Rightarrow> int \<Rightarrow> hp_action edge" where
  "hp_case_8 relaxed c = (if c = 47 then Goto [] 9 else Fail)"

definition hp_case_9 :: "bool \<Rightarrow> int \<Rightarrow> hp_action edge" where
  "hp_case_9 relaxed c = (if c = 49 then Goto [] 10 else Fail)"

definition hp_case_10 :: "bool \<Rightarrow> int \<Rightarrow> hp_action edge" where
  "hp_case_10 relaxed c = (if c = 46 then Goto [] 11 else Fail)"

definition hp_case_11 :: "bool \<Rightarrow> int \<Rightarrow> hp_action edge" where
  "hp_case_11 relaxed c = (if 48 \<le> c \<and> c \<le> 49 then Goto [] 12 else Fail)"

definition hp_case_12 :: "bool \<Rightarrow> int \<Rightarrow> hp_action edge" where
  "hp_case_12 relaxed c = (if c = 10 then hp_tr21 else if c = 13 then hp_tr22 else Fail)"

definition hp_case_13 :: "bool \<Rightarrow> int \<Rightarrow> hp_action edge" where
  "hp_case_13 relaxed c =
     (if c = 10 then hp_tr24
       else if c = 13 then hp_tr25
       else if c = 33 \<or> c = 124 \<or> c = 126 then hp_tr23
       else if c < 42 then (if c < 11 then (if 1 \<le> c \<and> c \<le> 8 then hp_tr23
           else Fail)
         else if 31 < c then (if 35 \<le> c \<and> c \<le> 39 then hp_tr23
           else Fail)
         else hp_tr23)
       else if 43 < c then (if c < 48 then (if 45 \<le> c \<and> c \<le> 46 then hp_tr23
           else Fail)
         else if 57 < c then (if 90 < c then (if 94 \<le> c \<and> c \<le> 122 then hp_tr23
             else Fail)
           else if 65 \<le> c then hp_tr23
           else Fail)
         else hp_tr23)
       else hp_tr23)"

definition hp_case_14 :: "bool \<Rightarrow> int \<Rightarrow> hp_action edge" where
  "hp_case_14 relaxed c =
     (if c = 33 \<or> c = 124 \<or> c = 126 then Goto [] 14
       else if c = 58 then hp_tr27
       else if c < 42 then (if c < 10 then (if 1 \<le> c \<and> c \<le> 8 then Goto [] 14
           else Fail)
         else if 31 < c then (if 35 \<le> c \<and> c \<le> 39 then Goto [] 14
           else Fail)
         else Goto [] 14)
       else if 43 < c then (if c < 48 then (if 45 \<le> c \<and> c \<le> 46 then Goto [] 14
           else Fail)
         else if 57 < c then (if 90 < c then (if 94 \<le> c \<and> c \<le> 122 then Goto [] 14
             else Fail)
           else if 65 \<le> c then Goto [] 14
           else Fail)
         else Goto [] 14)
       else Goto [] 14)"

definition hp_case_15 :: "bool \<Rightarrow> int \<Rightarrow> hp_action edge" where
  "hp_case_15 relaxed c =
     (if c = 0 \<or> c = 127 then Fail
       else if c = 9 \<or> c = 32 then hp_tr29
       else if c = 10 then hp_tr30
       else if c = 13 then hp_tr31
       else hp_tr28)"

definition hp_case_16 :: "bool \<Rightarrow> int \<Rightarrow> hp_action edge" where
  "hp_case_16 relaxed c =
     (if c = 0 \<or> c = 127 then Fail
       else if c = 10 then hp_tr33
       else if c = 13 then hp_tr34
       else Goto [] 16)"

definition hp_case_17 :: "bool \<Rightarrow> int \<Rightarrow> hp_action edge" where
  "hp_case_17 relaxed c = (if c = 10 then Goto [] 13 else Fail)"

definition hp_case_18 :: "bool \<Rightarrow> int \<Rightarrow> hp_action edge" where
  "hp_case_18 relaxed c =
     (if c = 10 then hp_tr36
       else if c = 33 \<or> c = 124 \<or> c = 126 then Goto [] 14
       else if c = 58 then hp_tr27
       else if c < 42 then (if c < 11 then (if 1 \<le> c \<and> c \<le> 8 then Goto [] 14
           else Fail)
         else if 31 < c then (if 35 \<le> c \<and> c \<le> 39 then Goto [] 14
           else Fail)
         else Goto [] 14)
       else if 43 < c then (if c < 48 then (if 45 \<le> c \<and> c \<le> 46 then Goto [] 14
           else Fail)
         else if 57 < c then (if 90 < c then (if 94 \<le> c \<and> c \<le> 122 then Goto [] 14
             else Fail)
           else if 65 \<le> c then Goto [] 14
           else Fail)
         else Goto [] 14)
       else Goto [] 14)"

definition hp_case_19 :: "bool \<Rightarrow> int \<Rightarrow> hp_action edge" where
  "hp_case_19 relaxed c =
     (let w = hp_widec relaxed c
       in if w = 32 then hp_tr37
       else if w = 33 \<or> w = 59 \<or> w = 61 \<or> w = 95 \<or> w = 126 \<or> w = 606 \<or> w
           = 635 \<or> w = 637 then Goto [] 19
       else if w = 35 then hp_tr39
       else if w = 37 then Goto [] 24
       else if w = 47 then Goto [] 26
       else if w = 63 then hp_tr42
       else if w < 64 then (if 36 \<le> w \<and> w \<le> 57 then Goto [] 19
         else Fail)
       else if 90 < w then (if 97 \<le> w \<and> w \<le> 122 then Goto [] 19
         else Fail)
       else Goto [] 19)"

definition hp_case_20 :: "bool \<Rightarrow> int \<Rightarrow> hp_action edge" where
  "hp_case_20 relaxed c =
     (let w = hp_widec relaxed c
       in if w = 32 then hp_tr44
       else if w = 33 \<or> w = 61 \<or> w = 95 \<or> w = 126 \<or> w = 606 \<or> w = 635 \<or> w
           = 637 then hp_tr43
       else if w = 37 then hp_tr45
       else if w < 36 then (if w \<le> - 1 then hp_tr43
         else Fail)
       else if 59 < w then (if 90 < w then (if 97 \<le> w \<and> w \<le> 122 then hp_tr43
           else Fail)
         else if 63 \<le> w then hp_tr43
         else Fail)
       else hp_tr43)"

definition hp_case_21 :: "bool \<Rightarrow> int \<Rightarrow> hp_action edge" where
  "hp_case_21 relaxed c =
     (let w = hp_widec relaxed c
       in if w = 32 then hp_tr47
       else if w = 33 \<or> w = 61 \<or> w = 95 \<or> w = 126 \<or> w = 606 \<or> w = 635 \<or> w
           = 637 then Goto [] 21
       else if w = 37 then Goto [] 22
       else if w < 36 then (if w \<le> - 1 then Goto [] 21
         else Fail)
       else if 59 < w then (if 90 < w then (if 97 \<le> w \<and> w \<le> 122 then Goto [] 21
           else Fail)
         else if 63 \<le> w then Goto [] 21
         else Fail)
       else Goto [] 21)"

definition hp_case_22 :: "bool \<Rightarrow> int \<Rightarrow> hp_action edge" where
  "hp_case_22 relaxed c =
     (if c < 65 then (if 48 \<le> c \<and> c \<le> 57 then Goto [] 23
         else Fail)
       else if 70 < c then (if 97 \<le> c \<and> c \<le> 102 then Goto [] 23
         else Fail)
       else Goto [] 23)"

definition hp_case_23 :: "bool \<Rightarrow> int \<Rightarrow> hp_action edge" where
  "hp_case_23 relaxed c =
     (if c < 65 then (if 48 \<le> c \<and> c \<le> 57 then Goto [] 21
         else Fail)
       else if 70 < c then (if 97 \<le> c \<and> c \<le> 102 then Goto [] 21
         else Fail)
       else Goto [] 21)"

definition hp_case_24 :: "bool \<Rightarrow> int \<Rightarrow> hp_action edge" where
  "hp_case_24 relaxed c =
     (if c < 65 then (if 48 \<le> c \<and> c \<le> 57 then Goto [] 25
         else Fail)
       else if 70 < c then (if 97 \<le> c \<and> c \<le> 102 then Goto [] 25
         else Fail)
       else Goto [] 25)"

definition hp_case_25 :: "bool \<Rightarrow> int \<Rightarrow> hp_action edge" where
  "hp_case_25 relaxed c =
     (if c < 65 then (if 48 \<le> c \<and> c \<le> 57 then Goto [] 19
         else Fail)
       else if 70 < c then (if 97 \<le> c \<and> c \<le> 102 then Goto [] 19
         else Fail)
       else Goto [] 19)"

definition hp_case_26 :: "bool \<Rightarrow> int \<Rightarrow> hp_action edge" where
  "hp_case_26 relaxed c =
     (let w = hp_widec relaxed c
       in if w = 32 then hp_tr37
       else if w = 33 \<or> w = 61 \<or> w = 95 \<or> w = 126 \<or> w = 606 \<or> w = 635 \<or> w
           = 637 then Goto [] 26
       else if w = 35 then hp_tr39
       else if w = 37 then Goto [] 27
       else if w = 63 then hp_tr42
       else if w < 36 then (if w \<le> - 1 then Goto [] 26
         else Fail)
       else if 59 < w then (if 90 < w then (if 97 \<le> w \<and> w \<le> 122 then Goto [] 26
           else Fail)
         else if 64 \<le> w then Goto [] 26
         else Fail)
       else Goto [] 26)"

definition hp_case_27 :: "bool \<Rightarrow> int \<Rightarrow> hp_action edge" where
  "hp_case_27 relaxed c =
     (if c < 65 then (if 48 \<le> c \<and> c \<le> 57 then Goto [] 28
         else Fail)
       else if 70 < c then (if 97 \<le> c \<and> c \<le> 102 then Goto [] 28
         else Fail)
       else Goto [] 28)"

definition hp_case_28 :: "bool \<Rightarrow> int \<Rightarrow> hp_action edge" where
  "hp_case_28 relaxed c =
     (if c < 65 then (if 48 \<le> c \<and> c \<le> 57 then Goto [] 26
         else Fail)
       else if 70 < c then (if 97 \<le> c \<and> c \<le> 102 then Goto [] 26
         else Fail)
       else Goto [] 26)"

definition hp_case_29 :: "bool \<Rightarrow> int \<Rightarrow> hp_action edge" where
  "hp_case_29 relaxed c =
     (let w = hp_widec relaxed c
       in if w = 32 then hp_tr54
       else if w = 33 \<or> w = 61 \<or> w = 95 \<or> w = 126 \<or> w = 606 \<or> w = 635 \<or> w
           = 637 then hp_tr53
       else if w = 35 then hp_tr55
       else if w = 37 then hp_tr56
       else if w < 36 then (if w \<le> - 1 then hp_tr53
         else Fail)
       else if 59 < w then (if 90 < w then (if 97 \<le> w \<and> w \<le> 122 then hp_tr53
           else Fail)
         else if 63 \<le> w then hp_tr53
         else Fail)
       else hp_tr53)"

definition hp_case_30 :: "bool \<Rightarrow> int \<Rightarrow> hp_action edge" where
  "hp_case_30 relaxed c =
     (let w = hp_widec relaxed c
       in if w = 32 then hp_tr58
       else if w = 33 \<or> w = 61 \<or> w = 95 \<or> w = 126 \<or> w = 606 \<or> w = 635 \<or> w
           = 637 then Goto [] 30
       else if w = 35 then hp_tr59
       else if w = 37 then Goto [] 31
       else if w < 36 then (if w \<le> - 1 then Goto [] 30
         else Fail)
       else if 59 < w then (if 90 < w then (if 97 \<le> w \<and> w \<le> 122 then Goto [] 30
           else Fail)
         else if 63 \<le> w then Goto [] 30
         else Fail)
       else Goto [] 30)"

definition hp_case_31 :: "bool \<Rightarrow> int \<Rightarrow> hp_action edge" where
  "hp_case_31 relaxed c =
     (if c < 65 then (if 48 \<le> c \<and> c \<le> 57 then Goto [] 32
         else Fail)
       else if 70 < c then (if 97 \<le> c \<and> c \<le> 102 then Goto [] 32
         else Fail)
       else Goto [] 32)"

definition hp_case_32 :: "bool \<Rightarrow> int \<Rightarrow> hp_action edge" where
  "hp_case_32 relaxed c =
     (if c < 65 then (if 48 \<le> c \<and> c \<le> 57 then Goto [] 30
         else Fail)
       else if 70 < c then (if 97 \<le> c \<and> c \<le> 102 then Goto [] 30
         else Fail)
       else Goto [] 30)"

definition hp_case_33 :: "bool \<Rightarrow> int \<Rightarrow> hp_action edge" where
  "hp_case_33 relaxed c =
     (let w = hp_widec relaxed c
       in if w = 32 then hp_tr37
       else if w = 33 \<or> w = 61 \<or> w = 95 \<or> w = 126 \<or> w = 606 \<or> w = 635 \<or> w
           = 637 then Goto [] 26
       else if w = 35 then hp_tr39
       else if w = 37 then Goto [] 27
       else if w = 47 then Goto [] 34
       else if w = 63 then hp_tr42
       else if w < 36 then (if w \<le> - 1 then Goto [] 26
         else Fail)
       else if 59 < w then (if 90 < w then (if 97 \<le> w \<and> w \<le> 122 then Goto [] 26
           else Fail)
         else if 64 \<le> w then Goto [] 26
         else Fail)
       else Goto [] 26)"

definition hp_case_34 :: "bool \<Rightarrow> int \<Rightarrow> hp_action edge" where
  "hp_case_34 relaxed c =
     (let w = hp_widec relaxed c
       in if w = 32 then hp_tr37
       else if w = 33 \<or> w = 61 \<or> w = 95 \<or> w = 126 \<or> w = 606 \<or> w = 635 \<or> w
           = 637 then Goto [] 35
       else if w = 35 then hp_tr39
       else if w = 37 then Goto [] 36
       else if w = 47 then Goto [] 26
       else if w = 58 then Goto [] 38
       else if w = 63 then hp_tr42
       else if w = 64 then Goto [] 42
       else if w = 91 then Goto [] 47
       else if w < 65 then (if 36 \<le> w \<and> w \<le> 59 then Goto [] 35
         else Fail)
       else if 90 < w then (if 97 \<le> w \<and> w \<le> 122 then Goto [] 35
         else Fail)
       else Goto [] 35)"

definition hp_case_35 :: "bool \<Rightarrow> int \<Rightarrow> hp_action edge" where
  "hp_case_35 relaxed c =
     (let w = hp_widec relaxed c
       in if w = 32 then hp_tr37
       else if w = 33 \<or> w = 61 \<or> w = 95 \<or> w = 126 \<or> w = 606 \<or> w = 635 \<or> w
           = 637 then Goto [] 35
       else if w = 35 then hp_tr39
       else if w = 37 then Goto [] 36
       else if w = 47 then Goto [] 26
       else if w = 58 then Goto [] 38
       else if w = 63 then hp_tr42
       else if w = 64 then Goto [] 42
       else if w < 65 then (if 36 \<le> w \<and> w \<le> 59 then Goto [] 35
         else Fail)
       else if 90 < w then (if 97 \<le> w \<and> w \<le> 122 then Goto [] 35
         else Fail)
       else Goto [] 35)"

definition hp_case_36 :: "bool \<Rightarrow> int \<Rightarrow> hp_action edge" where
  "hp_case_36 relaxed c =
     (if c < 65 then (if 48 \<le> c \<and> c \<le> 57 then Goto [] 37
         else Fail)
       else if 70 < c then (if 97 \<le> c \<and> c \<le> 102 then Goto [] 37
         else Fail)
       else Goto [] 37)"

definition hp_case_37 :: "bool \<Rightarrow> int \<Rightarrow> hp_action edge" where
  "hp_case_37 relaxed c =
     (if c < 65 then (if 48 \<le> c \<and> c \<le> 57 then Goto [] 35
         else Fail)
       else if 70 < c then (if 97 \<le> c \<and> c \<le> 102 then Goto [] 35
         else Fail)
       else Goto [] 35)"

definition hp_case_38 :: "bool \<Rightarrow> int \<Rightarrow> hp_action edge" where
  "hp_case_38 relaxed c =
     (let w = hp_widec relaxed c
       in if w = 32 then hp_tr37
       else if w = 33 \<or> w = 61 \<or> w = 95 \<or> w = 126 \<or> w = 606 \<or> w = 635 \<or> w
           = 637 then Goto [] 39
       else if w = 35 then hp_tr39
       else if w = 37 then Goto [] 40
       else if w = 47 then Goto [] 26
       else if w = 63 then hp_tr42
       else if w = 64 then Goto [] 42
       else if w < 58 then (if 46 < w then (if 48 \<le> w \<and> w \<le> 57 then Goto [] 38
           else Fail)
         else if 36 \<le> w then Goto [] 39
         else Fail)
       else if 59 < w then (if 90 < w then (if 97 \<le> w \<and> w \<le> 122 then Goto [] 39
           else Fail)
         else if 65 \<le> w then Goto [] 39
         else Fail)
       else Goto [] 39)"

definition hp_case_39 :: "bool \<Rightarrow> int \<Rightarrow> hp_action edge" where
  "hp_case_39 relaxed c =
     (let w = hp_widec relaxed c
       in if w = 33 \<or> w = 61 \<or> w = 95 \<or> w = 126 \<or> w = 606 \<or> w = 635 \<or> w =
           637 then Goto [] 39
       else if w = 37 then Goto [] 40
       else if w = 64 then Goto [] 42
       else if w < 48 then (if 36 \<le> w \<and> w \<le> 46 then Goto [] 39
         else Fail)
       else if 59 < w then (if 90 < w then (if 97 \<le> w \<and> w \<le> 122 then Goto [] 39
           else Fail)
         else if 65 \<le> w then Goto [] 39
         else Fail)
       else Goto [] 39)"

definition hp_case_40 :: "bool \<Rightarrow> int \<Rightarrow> hp_action edge" where
  "hp_case_40 relaxed c =
     (if c < 65 then (if 48 \<le> c \<and> c \<le> 57 then Goto [] 41
         else Fail)
       else if 70 < c then (if 97 \<le> c \<and> c \<le> 102 then Goto [] 41
         else Fail)
       else Goto [] 41)"

definition hp_case_41 :: "bool \<Rightarrow> int \<Rightarrow> hp_action edge" where
  "hp_case_41 relaxed c =
     (if c < 65 then (if 48 \<le> c \<and> c \<le> 57 then Goto [] 39
         else Fail)
       else if 70 < c then (if 97 \<le> c \<and> c \<le> 102 then Goto [] 39
         else Fail)
       else Goto [] 39)"

definition hp_case_42 :: "bool \<Rightarrow> int \<Rightarrow> hp_action edge" where
  "hp_case_42 relaxed c =
     (let w = hp_widec relaxed c
       in if w = 32 then hp_tr37
       else if w = 33 \<or> w = 61 \<or> w = 95 \<or> w = 126 \<or> w = 606 \<or> w = 635 \<or> w
           = 637 then Goto [] 43
       else if w = 35 then hp_tr39
       else if w = 37 then Goto [] 44
       else if w = 47 then Goto [] 26
       else if w = 58 then Goto [] 46
       else if w = 63 then hp_tr42
       else if w = 91 then Goto [] 47
       else if w < 65 then (if 36 \<le> w \<and> w \<le> 59 then Goto [] 43
         else Fail)
       else if 90 < w then (if 97 \<le> w \<and> w \<le> 122 then Goto [] 43
         else Fail)
       else Goto [] 43)"

definition hp_case_43 :: "bool \<Rightarrow> int \<Rightarrow> hp_action edge" where
  "hp_case_43 relaxed c =
     (let w = hp_widec relaxed c
       in if w = 32 then hp_tr37
       else if w = 33 \<or> w = 61 \<or> w = 95 \<or> w = 126 \<or> w = 606 \<or> w = 635 \<or> w
           = 637 then Goto [] 43
       else if w = 35 then hp_tr39
       else if w = 37 then Goto [] 44
       else if w = 47 then Goto [] 26
       else if w = 58 then Goto [] 46
       else if w = 63 then hp_tr42
       else if w < 65 then (if 36 \<le> w \<and> w \<le> 59 then Goto [] 43
         else Fail)
       else if 90 < w then (if 97 \<le> w \<and> w \<le> 122 then Goto [] 43
         else Fail)
       else Goto [] 43)"

definition hp_case_44 :: "bool \<Rightarrow> int \<Rightarrow> hp_action edge" where
  "hp_case_44 relaxed c =
     (if c < 65 then (if 48 \<le> c \<and> c \<le> 57 then Goto [] 45
         else Fail)
       else if 70 < c then (if 97 \<le> c \<and> c \<le> 102 then Goto [] 45
         else Fail)
       else Goto [] 45)"

definition hp_case_45 :: "bool \<Rightarrow> int \<Rightarrow> hp_action edge" where
  "hp_case_45 relaxed c =
     (if c < 65 then (if 48 \<le> c \<and> c \<le> 57 then Goto [] 43
         else Fail)
       else if 70 < c then (if 97 \<le> c \<and> c \<le> 102 then Goto [] 43
         else Fail)
       else Goto [] 43)"

definition hp_case_46 :: "bool \<Rightarrow> int \<Rightarrow> hp_action edge" where
  "hp_case_46 relaxed c =
     (if c = 32 then hp_tr37
       else if c = 35 then hp_tr39
       else if c = 47 then Goto [] 26
       else if c = 63 then hp_tr42
       else if 48 \<le> c \<and> c \<le> 57 then Goto [] 46
       else Fail)"

definition hp_case_47 :: "bool \<Rightarrow> int \<Rightarrow> hp_action edge" where
  "hp_case_47 relaxed c =
     (if c = 6 then Goto [] 48
       else if c = 58 then Goto [] 167
       else if c = 118 then Goto [] 169
       else if c < 65 then (if 48 \<le> c \<and> c \<le> 57 then Goto [] 91
         else Fail)
       else if 70 < c then (if 97 \<le> c \<and> c \<le> 102 then Goto [] 91
         else Fail)
       else Goto [] 91)"

definition hp_case_48 :: "bool \<Rightarrow> int \<Rightarrow> hp_action edge" where
  "hp_case_48 relaxed c =
     (if c < 65 then (if 48 \<le> c \<and> c \<le> 57 then Goto [] 49
         else Fail)
       else if 70 < c then (if 97 \<le> c \<and> c \<le> 102 then Goto [] 49
         else Fail)
       else Goto [] 49)"

definition hp_case_49 :: "bool \<Rightarrow> int \<Rightarrow> hp_action edge" where
  "hp_case_49 relaxed c =
     (if c = 58 then Goto [] 53
       else if c < 65 then (if 48 \<le> c \<and> c \<le> 57 then Goto [] 50
         else Fail)
       else if 70 < c then (if 97 \<le> c \<and> c \<le> 102 then Goto [] 50
         else Fail)
       else Goto [] 50)"

definition hp_case_50 :: "bool \<Rightarrow> int \<Rightarrow> hp_action edge" where
  "hp_case_50 relaxed c =
     (if c = 58 then Goto [] 53
       else if c < 65 then (if 48 \<le> c \<and> c \<le> 57 then Goto [] 51
         else Fail)
       else if 70 < c then (if 97 \<le> c \<and> c \<le> 102 then Goto [] 51
         else Fail)
       else Goto [] 51)"

definition hp_case_51 :: "bool \<Rightarrow> int \<Rightarrow> hp_action edge" where
  "hp_case_51 relaxed c =
     (if c = 58 then Goto [] 53
       else if c < 65 then (if 48 \<le> c \<and> c \<le> 57 then Goto [] 52
         else Fail)
       else if 70 < c then (if 97 \<le> c \<and> c \<le> 102 then Goto [] 52
         else Fail)
       else Goto [] 52)"

definition hp_case_52 :: "bool \<Rightarrow> int \<Rightarrow> hp_action edge" where
  "hp_case_52 relaxed c = (if c = 58 then Goto [] 53 else Fail)"

definition hp_case_53 :: "bool \<Rightarrow> int \<Rightarrow> hp_action edge" where
  "hp_case_53 relaxed c =
     (if c = 49 then Goto [] 84
       else if c = 50 then Goto [] 87
       else if c < 65 then (if 48 \<le> c \<and> c \<le> 57 then Goto [] 54
         else Fail)
       else if 70 < c then (if 97 \<le> c \<and> c \<le> 102 then Goto [] 90
         else Fail)
       else Goto [] 90)"

definition hp_case_54 :: "bool \<Rightarrow> int \<Rightarrow> hp_action edge" where
  "hp_case_54 relaxed c =
     (if c = 46 then Goto [] 55
       else if c = 58 then Goto [] 80
       else if c < 65 then (if 48 \<le> c \<and> c \<le> 57 then Goto [] 77
         else Fail)
       else if 70 < c then (if 97 \<le> c \<and> c \<le> 102 then Goto [] 77
         else Fail)
       else Goto [] 77)"

definition hp_case_55 :: "bool \<Rightarrow> int \<Rightarrow> hp_action edge" where
  "hp_case_55 relaxed c =
     (if c = 49 then Goto [] 72
       else if c = 50 then Goto [] 74
       else if 48 \<le> c \<and> c \<le> 57 then Goto [] 56
       else Fail)"

definition hp_case_56 :: "bool \<Rightarrow> int \<Rightarrow> hp_action edge" where
  "hp_case_56 relaxed c = (if c = 46 then Goto [] 57 else Fail)"

definition hp_case_57 :: "bool \<Rightarrow> int \<Rightarrow> hp_action edge" where
  "hp_case_57 relaxed c =
     (if c = 49 then Goto [] 67
       else if c = 50 then Goto [] 69
       else if 48 \<le> c \<and> c \<le> 57 then Goto [] 58
       else Fail)"

definition hp_case_58 :: "bool \<Rightarrow> int \<Rightarrow> hp_action edge" where
  "hp_case_58 relaxed c = (if c = 46 then Goto [] 59 else Fail)"

definition hp_case_59 :: "bool \<Rightarrow> int \<Rightarrow> hp_action edge" where
  "hp_case_59 relaxed c =
     (if c = 49 then Goto [] 62
       else if c = 50 then Goto [] 64
       else if 48 \<le> c \<and> c \<le> 57 then Goto [] 60
       else Fail)"

definition hp_case_60 :: "bool \<Rightarrow> int \<Rightarrow> hp_action edge" where
  "hp_case_60 relaxed c = (if c = 93 then Goto [] 61 else Fail)"

definition hp_case_61 :: "bool \<Rightarrow> int \<Rightarrow> hp_action edge" where
  "hp_case_61 relaxed c =
     (if c = 32 then hp_tr37
       else if c = 35 then hp_tr39
       else if c = 47 then Goto [] 26
       else if c = 58 then Goto [] 46
       else if c = 63 then hp_tr42
       else Fail)"

definition hp_case_62 :: "bool \<Rightarrow> int \<Rightarrow> hp_action edge" where
  "hp_case_62 relaxed c =
     (if c = 93 then Goto [] 61
       else if 48 \<le> c \<and> c \<le> 57 then Goto [] 63
       else Fail)"

definition hp_case_63 :: "bool \<Rightarrow> int \<Rightarrow> hp_action edge" where
  "hp_case_63 relaxed c =
     (if c = 93 then Goto [] 61
       else if 48 \<le> c \<and> c \<le> 57 then Goto [] 60
       else Fail)"

definition hp_case_64 :: "bool \<Rightarrow> int \<Rightarrow> hp_action edge" where
  "hp_case_64 relaxed c =
     (if c = 48 then Goto [] 65
       else if c = 53 then Goto [] 66
       else if c = 93 then Goto [] 61
       else Fail)"

definition hp_case_65 :: "bool \<Rightarrow> int \<Rightarrow> hp_action edge" where
  "hp_case_65 relaxed c = (if 48 \<le> c \<and> c \<le> 57 then Goto [] 60 else Fail)"

definition hp_case_66 :: "bool \<Rightarrow> int \<Rightarrow> hp_action edge" where
  "hp_case_66 relaxed c = (if c = 48 then Goto [] 60 else Fail)"

definition hp_case_67 :: "bool \<Rightarrow> int \<Rightarrow> hp_action edge" where
  "hp_case_67 relaxed c =
     (if c = 46 then Goto [] 59
       else if 48 \<le> c \<and> c \<le> 57 then Goto [] 68
       else Fail)"

definition hp_case_68 :: "bool \<Rightarrow> int \<Rightarrow> hp_action edge" where
  "hp_case_68 relaxed c =
     (if c = 46 then Goto [] 59
       else if 48 \<le> c \<and> c \<le> 57 then Goto [] 58
       else Fail)"

definition hp_case_69 :: "bool \<Rightarrow> int \<Rightarrow> hp_action edge" where
  "hp_case_69 relaxed c =
     (if c = 46 then Goto [] 59
       else if c = 48 then Goto [] 70
       else if c = 53 then Goto [] 71
       else Fail)"

definition hp_case_70 :: "bool \<Rightarrow> int \<Rightarrow> hp_action edge" where
  "hp_case_70 relaxed c = (if 48 \<le> c \<and> c \<le> 57 then Goto [] 58 else Fail)"

definition hp_case_71 :: "bool \<Rightarrow> int \<Rightarrow> hp_action edge" where
  "hp_case_71 relaxed c = (if c = 48 then Goto [] 58 else Fail)"

definition hp_case_72 :: "bool \<Rightarrow> int \<Rightarrow> hp_action edge" where
  "hp_case_72 relaxed c =
     (if c = 46 then Goto [] 57
       else if 48 \<le> c \<and> c \<le> 57 then Goto [] 73
       else Fail)"

definition hp_case_73 :: "bool \<Rightarrow> int \<Rightarrow> hp_action edge" where
  "hp_case_73 relaxed c =
     (if c = 46 then Goto [] 57
       else if 48 \<le> c \<and> c \<le> 57 then Goto [] 56
       else Fail)"

definition hp_case_74 :: "bool \<Rightarrow> int \<Rightarrow> hp_action edge" where
  "hp_case_74 relaxed c =
     (if c = 46 then Goto [] 57
       else if c = 48 then Goto [] 75
       else if c = 53 then Goto [] 76
       else Fail)"

definition hp_case_75 :: "bool \<Rightarrow> int \<Rightarrow> hp_action edge" where
  "hp_case_75 relaxed c = (if 48 \<le> c \<and> c \<le> 57 then Goto [] 56 else Fail)"

definition hp_case_76 :: "bool \<Rightarrow> int \<Rightarrow> hp_action edge" where
  "hp_case_76 relaxed c = (if c = 48 then Goto [] 56 else Fail)"

definition hp_case_77 :: "bool \<Rightarrow> int \<Rightarrow> hp_action edge" where
  "hp_case_77 relaxed c =
     (if c = 58 then Goto [] 80
       else if c < 65 then (if 48 \<le> c \<and> c \<le> 57 then Goto [] 78
         else Fail)
       else if 70 < c then (if 97 \<le> c \<and> c \<le> 102 then Goto [] 78
         else Fail)
       else Goto [] 78)"

definition hp_case_78 :: "bool \<Rightarrow> int \<Rightarrow> hp_action edge" where
  "hp_case_78 relaxed c =
     (if c = 58 then Goto [] 80
       else if c < 65 then (if 48 \<le> c \<and> c \<le> 57 then Goto [] 79
         else Fail)
       else if 70 < c then (if 97 \<le> c \<and> c \<le> 102 then Goto [] 79
         else Fail)
       else Goto [] 79)"

definition hp_case_79 :: "bool \<Rightarrow> int \<Rightarrow> hp_action edge" where
  "hp_case_79 relaxed c = (if c = 58 then Goto [] 80 else Fail)"

definition hp_case_80 :: "bool \<Rightarrow> int \<Rightarrow> hp_action edge" where
  "hp_case_80 relaxed c =
     (if c < 65 then (if 48 \<le> c \<and> c \<le> 57 then Goto [] 81
         else Fail)
       else if 70 < c then (if 97 \<le> c \<and> c \<le> 102 then Goto [] 81
         else Fail)
       else Goto [] 81)"

definition hp_case_81 :: "bool \<Rightarrow> int \<Rightarrow> hp_action edge" where
  "hp_case_81 relaxed c =
     (if c = 93 then Goto [] 61
       else if c < 65 then (if 48 \<le> c \<and> c \<le> 57 then Goto [] 82
         else Fail)
       else if 70 < c then (if 97 \<le> c \<and> c \<le> 102 then Goto [] 82
         else Fail)
       else Goto [] 82)"

definition hp_case_82 :: "bool \<Rightarrow> int \<Rightarrow> hp_action edge" where
  "hp_case_82 relaxed c =
     (if c = 93 then Goto [] 61
       else if c < 65 then (if 48 \<le> c \<and> c \<le> 57 then Goto [] 83
         else Fail)
       else if 70 < c then (if 97 \<le> c \<and> c \<le> 102 then Goto [] 83
         else Fail)
       else Goto [] 83)"

definition hp_case_83 :: "bool \<Rightarrow> int \<Rightarrow> hp_action edge" where
  "hp_case_83 relaxed c =
     (if c = 93 then Goto [] 61
       else if c < 65 then (if 48 \<le> c \<and> c \<le> 57 then Goto [] 60
         else Fail)
       else if 70 < c then (if 97 \<le> c \<and> c \<le> 102 then Goto [] 60
         else Fail)
       else Goto [] 60)"

definition hp_case_84 :: "bool \<Rightarrow> int \<Rightarrow> hp_action edge" where
  "hp_case_84 relaxed c =
     (if c = 46 then Goto [] 55
       else if c = 58 then Goto [] 80
       else if c < 65 then (if 48 \<le> c \<and> c \<le> 57 then Goto [] 85
         else Fail)
       else if 70 < c then (if 97 \<le> c \<and> c \<le> 102 then Goto [] 77
         else Fail)
       else Goto [] 77)"

definition hp_case_85 :: "bool \<Rightarrow> int \<Rightarrow> hp_action edge" where
  "hp_case_85 relaxed c =
     (if c = 46 then Goto [] 55
       else if c = 58 then Goto [] 80
       else if c < 65 then (if 48 \<le> c \<and> c \<le> 57 then Goto [] 86
         else Fail)
       else if 70 < c then (if 97 \<le> c \<and> c \<le> 102 then Goto [] 78
         else Fail)
       else Goto [] 78)"

definition hp_case_86 :: "bool \<Rightarrow> int \<Rightarrow> hp_action edge" where
  "hp_case_86 relaxed c =
     (if c = 46 then Goto [] 55
       else if c = 58 then Goto [] 80
       else if c < 65 then (if 48 \<le> c \<and> c \<le> 57 then Goto [] 79
         else Fail)
       else if 70 < c then (if 97 \<le> c \<and> c \<le> 102 then Goto [] 79
         else Fail)
       else Goto [] 79)"

definition hp_case_87 :: "bool \<Rightarrow> int \<Rightarrow> hp_action edge" where
  "hp_case_87 relaxed c =
     (if c = 46 then Goto [] 55
       else if c = 48 then Goto [] 88
       else if c = 53 then Goto [] 89
       else if c = 58 then Goto [] 80
       else if c < 65 then (if 49 \<le> c \<and> c \<le> 57 then Goto [] 77
         else Fail)
       else if 70 < c then (if 97 \<le> c \<and> c \<le> 102 then Goto [] 77
         else Fail)
       else Goto [] 77)"

definition hp_case_88 :: "bool \<Rightarrow> int \<Rightarrow> hp_action edge" where
  "hp_case_88 relaxed c =
     (if c = 58 then Goto [] 80
       else if c < 65 then (if 48 \<le> c \<and> c \<le> 57 then Goto [] 86
         else Fail)
       else if 70 < c then (if 97 \<le> c \<and> c \<le> 102 then Goto [] 78
         else Fail)
       else Goto [] 78)"

definition hp_case_89 :: "bool \<Rightarrow> int \<Rightarrow> hp_action edge" where
  "hp_case_89 relaxed c =
     (if c = 48 then Goto [] 86
       else if c = 58 then Goto [] 80
       else if c < 65 then (if 49 \<le> c \<and> c \<le> 57 then Goto [] 78
         else Fail)
       else if 70 < c then (if 97 \<le> c \<and> c \<le> 102 then Goto [] 78
         else Fail)
       else Goto [] 78)"

definition hp_case_90 :: "bool \<Rightarrow> int \<Rightarrow> hp_action edge" where
  "hp_case_90 relaxed c =
     (if c = 58 then Goto [] 80
       else if c < 65 then (if 48 \<le> c \<and> c \<le> 57 then Goto [] 77
         else Fail)
       else if 70 < c then (if 97 \<le> c \<and> c \<le> 102 then Goto [] 77
         else Fail)
       else Goto [] 77)"

definition hp_case_91 :: "bool \<Rightarrow> int \<Rightarrow> hp_action edge" where
  "hp_case_91 relaxed c =
     (if c = 58 then Goto [] 95
       else if c < 65 then (if 48 \<le> c \<and> c \<le> 57 then Goto [] 92
         else Fail)
       else if 70 < c then (if 97 \<le> c \<and> c \<le> 102 then Goto [] 92
         else Fail)
       else Goto [] 92)"

definition hp_case_92 :: "bool \<Rightarrow> int \<Rightarrow> hp_action edge" where
  "hp_case_92 relaxed c =
     (if c = 58 then Goto [] 95
       else if c < 65 then (if 48 \<le> c \<and> c \<le> 57 then Goto [] 93
         else Fail)
       else if 70 < c then (if 97 \<le> c \<and> c \<le> 102 then Goto [] 93
         else Fail)
       else Goto [] 93)"

definition hp_case_93 :: "bool \<Rightarrow> int \<Rightarrow> hp_action edge" where
  "hp_case_93 relaxed c =
     (if c = 58 then Goto [] 95
       else if c < 65 then (if 48 \<le> c \<and> c \<le> 57 then Goto [] 94
         else Fail)
       else if 70 < c then (if 97 \<le> c \<and> c \<le> 102 then Goto [] 94
         else Fail)
       else Goto [] 94)"

definition hp_case_94 :: "bool \<Rightarrow> int \<Rightarrow> hp_action edge" where
  "hp_case_94 relaxed c = (if c = 58 then Goto [] 95 else Fail)"

definition hp_case_95 :: "bool \<Rightarrow> int \<Rightarrow> hp_action edge" where
  "hp_case_95 relaxed c =
     (if c = 58 then Goto [] 166
       else if c < 65 then (if 48 \<le> c \<and> c \<le> 57 then Goto [] 96
         else Fail)
       else if 70 < c then (if 97 \<le> c \<and> c \<le> 102 then Goto [] 96
         else Fail)
       else Goto [] 96)"

definition hp_case_96 :: "bool \<Rightarrow> int \<Rightarrow> hp_action edge" where
  "hp_case_96 relaxed c =
     (if c = 58 then Goto [] 100
       else if c < 65 then (if 48 \<le> c \<and> c \<le> 57 then Goto [] 97
         else Fail)
       else if 70 < c then (if 97 \<le> c \<and> c \<le> 102 then Goto [] 97
         else Fail)
       else Goto [] 97)"

definition hp_case_97 :: "bool \<Rightarrow> int \<Rightarrow> hp_action edge" where
  "hp_case_97 relaxed c =
     (if c = 58 then Goto [] 100
       else if c < 65 then (if 48 \<le> c \<and> c \<le> 57 then Goto [] 98
         else Fail)
       else if 70 < c then (if 97 \<le> c \<and> c \<le> 102 then Goto [] 98
         else Fail)
       else Goto [] 98)"

definition hp_case_98 :: "bool \<Rightarrow> int \<Rightarrow> hp_action edge" where
  "hp_case_98 relaxed c =
     (if c = 58 then Goto [] 100
       else if c < 65 then (if 48 \<le> c \<and> c \<le> 57 then Goto [] 99
         else Fail)
       else if 70 < c then (if 97 \<le> c \<and> c \<le> 102 then Goto [] 99
         else Fail)
       else Goto [] 99)"

definition hp_case_99 :: "bool \<Rightarrow> int \<Rightarrow> hp_action edge" where
  "hp_case_99 relaxed c = (if c = 58 then Goto [] 100 else Fail)"

definition hp_case_100 :: "bool \<Rightarrow> int \<Rightarrow> hp_action edge" where
  "hp_case_100 relaxed c =
     (if c = 58 then Goto [] 165
       else if c < 65 then (if 48 \<le> c \<and> c \<le> 57 then Goto [] 101
         else Fail)
       else if 70 < c then (if 97 \<le> c \<and> c \<le> 102 then Goto [] 101
         else Fail)
       else Goto [] 101)"

definition hp_case_101 :: "bool \<Rightarrow> int \<Rightarrow> hp_action edge" where
  "hp_case_101 relaxed c =
     (if c = 58 then Goto [] 105
       else if c < 65 then (if 48 \<le> c \<and> c \<le> 57 then Goto [] 102
         else Fail)
       else if 70 < c then (if 97 \<le> c \<and> c \<le> 102 then Goto [] 102
         else Fail)
       else Goto [] 102)"

definition hp_case_102 :: "bool \<Rightarrow> int \<Rightarrow> hp_action edge" where
  "hp_case_102 relaxed c =
     (if c = 58 then Goto [] 105
       else if c < 65 then (if 48 \<le> c \<and> c \<le> 57 then Goto [] 103
         else Fail)
       else if 70 < c then (if 97 \<le> c \<and> c \<le> 102 then Goto [] 103
         else Fail)
       else Goto [] 103)"

definition hp_case_103 :: "bool \<Rightarrow> int \<Rightarrow> hp_action edge" where
  "hp_case_103 relaxed c =
     (if c = 58 then Goto [] 105
       else if c < 65 then (if 48 \<le> c \<and> c \<le> 57 then Goto [] 104
         else Fail)
       else if 70 < c then (if 97 \<le> c \<and> c \<le> 102 then Goto [] 104
         else Fail)
       else Goto [] 104)"

definition hp_case_104 :: "bool \<Rightarrow> int \<Rightarrow> hp_action edge" where
  "hp_case_104 relaxed c = (if c = 58 then Goto [] 105 else Fail)"

definition hp_case_105 :: "bool \<Rightarrow> int \<Rightarrow> hp_action edge" where
  "hp_case_105 relaxed c =
     (if c = 58 then Goto [] 164
       else if c < 65 then (if 48 \<le> c \<and> c \<le> 57 then Goto [] 106
         else Fail)
       else if 70 < c then (if 97 \<le> c \<and> c \<le> 102 then Goto [] 106
         else Fail)
       else Goto [] 106)"

definition hp_case_106 :: "bool \<Rightarrow> int \<Rightarrow> hp_action edge" where
  "hp_case_106 relaxed c =
     (if c = 58 then Goto [] 110
       else if c < 65 then (if 48 \<le> c \<and> c \<le> 57 then Goto [] 107
         else Fail)
       else if 70 < c then (if 97 \<le> c \<and> c \<le> 102 then Goto [] 107
         else Fail)
       else Goto [] 107)"

definition hp_case_107 :: "bool \<Rightarrow> int \<Rightarrow> hp_action edge" where
  "hp_case_107 relaxed c =
     (if c = 58 then Goto [] 110
       else if c < 65 then (if 48 \<le> c \<and> c \<le> 57 then Goto [] 108
         else Fail)
       else if 70 < c then (if 97 \<le> c \<and> c \<le> 102 then Goto [] 108
         else Fail)
       else Goto [] 108)"

definition hp_case_108 :: "bool \<Rightarrow> int \<Rightarrow> hp_action edge" where
  "hp_case_108 relaxed c =
     (if c = 58 then Goto [] 110
       else if c < 65 then (if 48 \<le> c \<and> c \<le> 57 then Goto [] 109
         else Fail)
       else if 70 < c then (if 97 \<le> c \<and> c \<le> 102 then Goto [] 109
         else Fail)
       else Goto [] 109)"

definition hp_case_109 :: "bool \<Rightarrow> int \<Rightarrow> hp_action edge" where
  "hp_case_109 relaxed c = (if c = 58 then Goto [] 110 else Fail)"

definition hp_case_110 :: "bool \<Rightarrow> int \<Rightarrow> hp_action edge" where
  "hp_case_110 relaxed c =
     (if c = 58 then Goto [] 163
       else if c < 65 then (if 48 \<le> c \<and> c \<le> 57 then Goto [] 111
         else Fail)
       else if 70 < c then (if 97 \<le> c \<and> c \<le> 102 then Goto [] 111
         else Fail)
       else Goto [] 111)"

definition hp_case_111 :: "bool \<Rightarrow> int \<Rightarrow> hp_action edge" where
  "hp_case_111 relaxed c =
     (if c = 58 then Goto [] 115
       else if c < 65 then (if 48 \<le> c \<and> c \<le> 57 then Goto [] 112
         else Fail)
       else if 70 < c then (if 97 \<le> c \<and> c \<le> 102 then Goto [] 112
         else Fail)
       else Goto [] 112)"

definition hp_case_112 :: "bool \<Rightarrow> int \<Rightarrow> hp_action edge" where
  "hp_case_112 relaxed c =
     (if c = 58 then Goto [] 115
       else if c < 65 then (if 48 \<le> c \<and> c \<le> 57 then Goto [] 113
         else Fail)
       else if 70 < c then (if 97 \<le> c \<and> c \<le> 102 then Goto [] 113
         else Fail)
       else Goto [] 113)"

definition hp_case_113 :: "bool \<Rightarrow> int \<Rightarrow> hp_action edge" where
  "hp_case_113 relaxed c =
     (if c = 58 then Goto [] 115
       else if c < 65 then (if 48 \<le> c \<and> c \<le> 57 then Goto [] 114
         else Fail)
       else if 70 < c then (if 97 \<le> c \<and> c \<le> 102 then Goto [] 114
         else Fail)
       else Goto [] 114)"

definition hp_case_114 :: "bool \<Rightarrow> int \<Rightarrow> hp_action edge" where
  "hp_case_114 relaxed c = (if c = 58 then Goto [] 115 else Fail)"

definition hp_case_115 :: "bool \<Rightarrow> int \<Rightarrow> hp_action edge" where
  "hp_case_115 relaxed c =
     (if c = 58 then Goto [] 151
       else if c < 65 then (if 48 \<le> c \<and> c \<le> 57 then Goto [] 116
         else Fail)
       else if 70 < c then (if 97 \<le> c \<and> c \<le> 102 then Goto [] 116
         else Fail)
       else Goto [] 116)"

definition hp_case_116 :: "bool \<Rightarrow> int \<Rightarrow> hp_action edge" where
  "hp_case_116 relaxed c =
     (if c = 58 then Goto [] 120
       else if c < 65 then (if 48 \<le> c \<and> c \<le> 57 then Goto [] 117
         else Fail)
       else if 70 < c then (if 97 \<le> c \<and> c \<le> 102 then Goto [] 117
         else Fail)
       else Goto [] 117)"

definition hp_case_117 :: "bool \<Rightarrow> int \<Rightarrow> hp_action edge" where
  "hp_case_117 relaxed c =
     (if c = 58 then Goto [] 120
       else if c < 65 then (if 48 \<le> c \<and> c \<le> 57 then Goto [] 118
         else Fail)
       else if 70 < c then (if 97 \<le> c \<and> c \<le> 102 then Goto [] 118
         else Fail)
       else Goto [] 118)"

definition hp_case_118 :: "bool \<Rightarrow> int \<Rightarrow> hp_action edge" where
  "hp_case_118 relaxed c =
     (if c = 58 then Goto [] 120
       else if c < 65 then (if 48 \<le> c \<and> c \<le> 57 then Goto [] 119
         else Fail)
       else if 70 < c then (if 97 \<le> c \<and> c \<le> 102 then Goto [] 119
         else Fail)
       else Goto [] 119)"

definition hp_case_119 :: "bool \<Rightarrow> int \<Rightarrow> hp_action edge" where
  "hp_case_119 relaxed c = (if c = 58 then Goto [] 120 else Fail)"

definition hp_case_120 :: "bool \<Rightarrow> int \<Rightarrow> hp_action edge" where
  "hp_case_120 relaxed c =
     (if c = 58 then Goto [] 150
       else if c < 65 then (if 48 \<le> c \<and> c \<le> 57 then Goto [] 121
         else Fail)
       else if 70 < c then (if 97 \<le> c \<and> c \<le> 102 then Goto [] 121
         else Fail)
       else Goto [] 121)"

definition hp_case_121 :: "bool \<Rightarrow> int \<Rightarrow> hp_action edge" where
  "hp_case_121 relaxed c =
     (if c = 58 then Goto [] 125
       else if c < 65 then (if 48 \<le> c \<and> c \<le> 57 then Goto [] 122
         else Fail)
       else if 70 < c then (if 97 \<le> c \<and> c \<le> 102 then Goto [] 122
         else Fail)
       else Goto [] 122)"

definition hp_case_122 :: "bool \<Rightarrow> int \<Rightarrow> hp_action edge" where
  "hp_case_122 relaxed c =
     (if c = 58 then Goto [] 125
       else if c < 65 then (if 48 \<le> c \<and> c \<le> 57 then Goto [] 123
         else Fail)
       else if 70 < c then (if 97 \<le> c \<and> c \<le> 102 then Goto [] 123
         else Fail)
       else Goto [] 123)"

definition hp_case_123 :: "bool \<Rightarrow> int \<Rightarrow> hp_action edge" where
  "hp_case_123 relaxed c =
     (if c = 58 then Goto [] 125
       else if c < 65 then (if 48 \<le> c \<and> c \<le> 57 then Goto [] 124
         else Fail)
       else if 70 < c then (if 97 \<le> c \<and> c \<le> 102 then Goto [] 124
         else Fail)
       else Goto [] 124)"

definition hp_case_124 :: "bool \<Rightarrow> int \<Rightarrow> hp_action edge" where
  "hp_case_124 relaxed c = (if c = 58 then Goto [] 125 else Fail)"

definition hp_case_125 :: "bool \<Rightarrow> int \<Rightarrow> hp_action edge" where
  "hp_case_125 relaxed c =
     (if c = 58 then Goto [] 126
       else if c < 65 then (if 48 \<le> c \<and> c \<le> 57 then Goto [] 121
         else Fail)
       else if 70 < c then (if 97 \<le> c \<and> c \<le> 102 then Goto [] 121
         else Fail)
       else Goto [] 121)"

definition hp_case_126 :: "bool \<Rightarrow> int \<Rightarrow> hp_action edge" where
  "hp_case_126 relaxed c =
     (if c = 49 then Goto [] 143
       else if c = 50 then Goto [] 146
       else if c = 93 then Goto [] 61
       else if c < 48 then (if 2 \<le> c \<and> c \<le> 3 then Goto [] 48
         else Fail)
       else if 57 < c then (if 70 < c then (if 97 \<le> c \<and> c \<le> 102 then Goto [] 149
           else Fail)
         else if 65 \<le> c then Goto [] 149
         else Fail)
       else Goto [] 127)"

definition hp_case_127 :: "bool \<Rightarrow> int \<Rightarrow> hp_action edge" where
  "hp_case_127 relaxed c =
     (if c = 46 then Goto [] 55
       else if c = 58 then Goto [] 131
       else if c = 93 then Goto [] 61
       else if c < 65 then (if 48 \<le> c \<and> c \<le> 57 then Goto [] 128
         else Fail)
       else if 70 < c then (if 97 \<le> c \<and> c \<le> 102 then Goto [] 128
         else Fail)
       else Goto [] 128)"

definition hp_case_128 :: "bool \<Rightarrow> int \<Rightarrow> hp_action edge" where
  "hp_case_128 relaxed c =
     (if c = 58 then Goto [] 131
       else if c = 93 then Goto [] 61
       else if c < 65 then (if 48 \<le> c \<and> c \<le> 57 then Goto [] 129
         else Fail)
       else if 70 < c then (if 97 \<le> c \<and> c \<le> 102 then Goto [] 129
         else Fail)
       else Goto [] 129)"

definition hp_case_129 :: "bool \<Rightarrow> int \<Rightarrow> hp_action edge" where
  "hp_case_129 relaxed c =
     (if c = 58 then Goto [] 131
       else if c = 93 then Goto [] 61
       else if c < 65 then (if 48 \<le> c \<and> c \<le> 57 then Goto [] 130
         else Fail)
       else if 70 < c then (if 97 \<le> c \<and> c \<le> 102 then Goto [] 130
         else Fail)
       else Goto [] 130)"

definition hp_case_130 :: "bool \<Rightarrow> int \<Rightarrow> hp_action edge" where
  "hp_case_130 relaxed c = (if c = 58 then Goto [] 131 else if c = 93 then Goto [] 61 else Fail)"

definition hp_case_131 :: "bool \<Rightarrow> int \<Rightarrow> hp_action edge" where
  "hp_case_131 relaxed c =
     (if c = 49 then Goto [] 136
       else if c = 50 then Goto [] 139
       else if c < 65 then (if 48 \<le> c \<and> c \<le> 57 then Goto [] 132
         else Fail)
       else if 70 < c then (if 97 \<le> c \<and> c \<le> 102 then Goto [] 142
         else Fail)
       else Goto [] 142)"

definition hp_case_132 :: "bool \<Rightarrow> int \<Rightarrow> hp_action edge" where
  "hp_case_132 relaxed c =
     (if c = 46 then Goto [] 55
       else if c = 58 then Goto [] 80
       else if c = 93 then Goto [] 61
       else if c < 65 then (if 48 \<le> c \<and> c \<le> 57 then Goto [] 133
         else Fail)
       else if 70 < c then (if 97 \<le> c \<and> c \<le> 102 then Goto [] 133
         else Fail)
       else Goto [] 133)"

definition hp_case_133 :: "bool \<Rightarrow> int \<Rightarrow> hp_action edge" where
  "hp_case_133 relaxed c =
     (if c = 58 then Goto [] 80
       else if c = 93 then Goto [] 61
       else if c < 65 then (if 48 \<le> c \<and> c \<le> 57 then Goto [] 134
         else Fail)
       else if 70 < c then (if 97 \<le> c \<and> c \<le> 102 then Goto [] 134
         else Fail)
       else Goto [] 134)"

definition hp_case_134 :: "bool \<Rightarrow> int \<Rightarrow> hp_action edge" where
  "hp_case_134 relaxed c =
     (if c = 58 then Goto [] 80
       else if c = 93 then Goto [] 61
       else if c < 65 then (if 48 \<le> c \<and> c \<le> 57 then Goto [] 135
         else Fail)
       else if 70 < c then (if 97 \<le> c \<and> c \<le> 102 then Goto [] 135
         else Fail)
       else Goto [] 135)"

definition hp_case_135 :: "bool \<Rightarrow> int \<Rightarrow> hp_action edge" where
  "hp_case_135 relaxed c = (if c = 58 then Goto [] 80 else if c = 93 then Goto [] 61 else Fail)"

definition hp_case_136 :: "bool \<Rightarrow> int \<Rightarrow> hp_action edge" where
  "hp_case_136 relaxed c =
     (if c = 46 then Goto [] 55
       else if c = 58 then Goto [] 80
       else if c = 93 then Goto [] 61
       else if c < 65 then (if 48 \<le> c \<and> c \<le> 57 then Goto [] 137
         else Fail)
       else if 70 < c then (if 97 \<le> c \<and> c \<le> 102 then Goto [] 133
         else Fail)
       else Goto [] 133)"

definition hp_case_137 :: "bool \<Rightarrow> int \<Rightarrow> hp_action edge" where
  "hp_case_137 relaxed c =
     (if c = 46 then Goto [] 55
       else if c = 58 then Goto [] 80
       else if c = 93 then Goto [] 61
       else if c < 65 then (if 48 \<le> c \<and> c \<le> 57 then Goto [] 138
         else Fail)
       else if 70 < c then (if 97 \<le> c \<and> c \<le> 102 then Goto [] 134
         else Fail)
       else Goto [] 134)"

definition hp_case_138 :: "bool \<Rightarrow> int \<Rightarrow> hp_action edge" where
  "hp_case_138 relaxed c =
     (if c = 46 then Goto [] 55
       else if c = 58 then Goto [] 80
       else if c = 93 then Goto [] 61
       else if c < 65 then (if 48 \<le> c \<and> c \<le> 57 then Goto [] 135
         else Fail)
       else if 70 < c then (if 97 \<le> c \<and> c \<le> 102 then Goto [] 135
         else Fail)
       else Goto [] 135)"

definition hp_case_139 :: "bool \<Rightarrow> int \<Rightarrow> hp_action edge" where
  "hp_case_139 relaxed c =
     (if c = 46 then Goto [] 55
       else if c = 48 then Goto [] 140
       else if c = 53 then Goto [] 141
       else if c = 58 then Goto [] 80
       else if c = 93 then Goto [] 61
       else if c < 65 then (if 49 \<le> c \<and> c \<le> 57 then Goto [] 133
         else Fail)
       else if 70 < c then (if 97 \<le> c \<and> c \<le> 102 then Goto [] 133
         else Fail)
       else Goto [] 133)"

definition hp_case_140 :: "bool \<Rightarrow> int \<Rightarrow> hp_action edge" where
  "hp_case_140 relaxed c =
     (if c = 58 then Goto [] 80
       else if c = 93 then Goto [] 61
       else if c < 65 then (if 48 \<le> c \<and> c \<le> 57 then Goto [] 138
         else Fail)
       else if 70 < c then (if 97 \<le> c \<and> c \<le> 102 then Goto [] 134
         else Fail)
       else Goto [] 134)"

definition hp_case_141 :: "bool \<Rightarrow> int \<Rightarrow> hp_action edge" where
  "hp_case_141 relaxed c =
     (if c = 48 then Goto [] 138
       else if c = 58 then Goto [] 80
       else if c = 93 then Goto [] 61
       else if c < 65 then (if 49 \<le> c \<and> c \<le> 57 then Goto [] 134
         else Fail)
       else if 70 < c then (if 97 \<le> c \<and> c \<le> 102 then Goto [] 134
         else Fail)
       else Goto [] 134)"

definition hp_case_142 :: "bool \<Rightarrow> int \<Rightarrow> hp_action edge" where
  "hp_case_142 relaxed c =
     (if c = 58 then Goto [] 80
       else if c = 93 then Goto [] 61
       else if c < 65 then (if 48 \<le> c \<and> c \<le> 57 then Goto [] 133
         else Fail)
       else if 70 < c then (if 97 \<le> c \<and> c \<le> 102 then Goto [] 133
         else Fail)
       else Goto [] 133)"

definition hp_case_143 :: "bool \<Rightarrow> int \<Rightarrow> hp_action edge" where
  "hp_case_143 relaxed c =
     (if c = 46 then Goto [] 55
       else if c = 58 then Goto [] 131
       else if c = 93 then Goto [] 61
       else if c < 65 then (if 48 \<le> c \<and> c \<le> 57 then Goto [] 144
         else Fail)
       else if 70 < c then (if 97 \<le> c \<and> c \<le> 102 then Goto [] 128
         else Fail)
       else Goto [] 128)"

definition hp_case_144 :: "bool \<Rightarrow> int \<Rightarrow> hp_action edge" where
  "hp_case_144 relaxed c =
     (if c = 46 then Goto [] 55
       else if c = 58 then Goto [] 131
       else if c = 93 then Goto [] 61
       else if c < 65 then (if 48 \<le> c \<and> c \<le> 57 then Goto [] 145
         else Fail)
       else if 70 < c then (if 97 \<le> c \<and> c \<le> 102 then Goto [] 129
         else Fail)
       else Goto [] 129)"

definition hp_case_145 :: "bool \<Rightarrow> int \<Rightarrow> hp_action edge" where
  "hp_case_145 relaxed c =
     (if c = 46 then Goto [] 55
       else if c = 58 then Goto [] 131
       else if c = 93 then Goto [] 61
       else if c < 65 then (if 48 \<le> c \<and> c \<le> 57 then Goto [] 130
         else Fail)
       else if 70 < c then (if 97 \<le> c \<and> c \<le> 102 then Goto [] 130
         else Fail)
       else Goto [] 130)"

definition hp_case_146 :: "bool \<Rightarrow> int \<Rightarrow> hp_action edge" where
  "hp_case_146 relaxed c =
     (if c = 46 then Goto [] 55
       else if c = 48 then Goto [] 147
       else if c = 53 then Goto [] 148
       else if c = 58 then Goto [] 131
       else if c = 93 then Goto [] 61
       else if c < 65 then (if 49 \<le> c \<and> c \<le> 57 then Goto [] 128
         else Fail)
       else if 70 < c then (if 97 \<le> c \<and> c \<le> 102 then Goto [] 128
         else Fail)
       else Goto [] 128)"

definition hp_case_147 :: "bool \<Rightarrow> int \<Rightarrow> hp_action edge" where
  "hp_case_147 relaxed c =
     (if c = 58 then Goto [] 131
       else if c = 93 then Goto [] 61
       else if c < 65 then (if 48 \<le> c \<and> c \<le> 57 then Goto [] 145
         else Fail)
       else if 70 < c then (if 97 \<le> c \<and> c \<le> 102 then Goto [] 129
         else Fail)
       else Goto [] 129)"

definition hp_case_148 :: "bool \<Rightarrow> int \<Rightarrow> hp_action edge" where
  "hp_case_148 relaxed c =
     (if c = 48 then Goto [] 145
       else if c = 58 then Goto [] 131
       else if c = 93 then Goto [] 61
       else if c < 65 then (if 49 \<le> c \<and> c \<le> 57 then Goto [] 129
         else Fail)
       else if 70 < c then (if 97 \<le> c \<and> c \<le> 102 then Goto [] 129
         else Fail)
       else Goto [] 129)"

definition hp_case_149 :: "bool \<Rightarrow> int \<Rightarrow> hp_action edge" where
  "hp_case_149 relaxed c =
     (if c = 58 then Goto [] 131
       else if c = 93 then Goto [] 61
       else if c < 65 then (if 48 \<le> c \<and> c \<le> 57 then Goto [] 128
         else Fail)
       else if 70 < c then (if 97 \<le> c \<and> c \<le> 102 then Goto [] 128
         else Fail)
       else Goto [] 128)"

definition hp_case_150 :: "bool \<Rightarrow> int \<Rightarrow> hp_action edge" where
  "hp_case_150 relaxed c =
     (if c = 49 then Goto [] 143
       else if c = 50 then Goto [] 146
       else if c < 48 then (if 2 \<le> c \<and> c \<le> 3 then Goto [] 48
         else Fail)
       else if 57 < c then (if 70 < c then (if 97 \<le> c \<and> c \<le> 102 then Goto [] 149
           else Fail)
         else if 65 \<le> c then Goto [] 149
         else Fail)
       else Goto [] 127)"

definition hp_case_151 :: "bool \<Rightarrow> int \<Rightarrow> hp_action edge" where
  "hp_case_151 relaxed c =
     (if c = 49 then Goto [] 156
       else if c = 50 then Goto [] 159
       else if c < 48 then (if 2 \<le> c \<and> c \<le> 3 then Goto [] 48
         else Fail)
       else if 57 < c then (if 70 < c then (if 97 \<le> c \<and> c \<le> 102 then Goto [] 162
           else Fail)
         else if 65 \<le> c then Goto [] 162
         else Fail)
       else Goto [] 152)"

definition hp_case_152 :: "bool \<Rightarrow> int \<Rightarrow> hp_action edge" where
  "hp_case_152 relaxed c =
     (if c = 46 then Goto [] 55
       else if c = 58 then Goto [] 131
       else if c < 65 then (if 48 \<le> c \<and> c \<le> 57 then Goto [] 153
         else Fail)
       else if 70 < c then (if 97 \<le> c \<and> c \<le> 102 then Goto [] 153
         else Fail)
       else Goto [] 153)"

definition hp_case_153 :: "bool \<Rightarrow> int \<Rightarrow> hp_action edge" where
  "hp_case_153 relaxed c =
     (if c = 58 then Goto [] 131
       else if c < 65 then (if 48 \<le> c \<and> c \<le> 57 then Goto [] 154
         else Fail)
       else if 70 < c then (if 97 \<le> c \<and> c \<le> 102 then Goto [] 154
         else Fail)
       else Goto [] 154)"

definition hp_case_154 :: "bool \<Rightarrow> int \<Rightarrow> hp_action edge" where
  "hp_case_154 relaxed c =
     (if c = 58 then Goto [] 131
       else if c < 65 then (if 48 \<le> c \<and> c \<le> 57 then Goto [] 155
         else Fail)
       else if 70 < c then (if 97 \<le> c \<and> c \<le> 102 then Goto [] 155
         else Fail)
       else Goto [] 155)"

definition hp_case_155 :: "bool \<Rightarrow> int \<Rightarrow> hp_action edge" where
  "hp_case_155 relaxed c = (if c = 58 then Goto [] 131 else Fail)"

definition hp_case_156 :: "bool \<Rightarrow> int \<Rightarrow> hp_action edge" where
  "hp_case_156 relaxed c =
     (if c = 46 then Goto [] 55
       else if c = 58 then Goto [] 131
       else if c < 65 then (if 48 \<le> c \<and> c \<le> 57 then Goto [] 157
         else Fail)
       else if 70 < c then (if 97 \<le> c \<and> c \<le> 102 then Goto [] 153
         else Fail)
       else Goto [] 153)"

definition hp_case_157 :: "bool \<Rightarrow> int \<Rightarrow> hp_action edge" where
  "hp_case_157 relaxed c =
     (if c = 46 then Goto [] 55
       else if c = 58 then Goto [] 131
       else if c < 65 then (if 48 \<le> c \<and> c \<le> 57 then Goto [] 158
         else Fail)
       else if 70 < c then (if 97 \<le> c \<and> c \<le> 102 then Goto [] 154
         else Fail)
       else Goto [] 154)"

definition hp_case_158 :: "bool \<Rightarrow> int \<Rightarrow> hp_action edge" where
  "hp_case_158 relaxed c =
     (if c = 46 then Goto [] 55
       else if c = 58 then Goto [] 131
       else if c < 65 then (if 48 \<le> c \<and> c \<le> 57 then Goto [] 155
         else Fail)
       else if 70 < c then (if 97 \<le> c \<and> c \<le> 102 then Goto [] 155
         else Fail)
       else Goto [] 155)"

definition hp_case_159 :: "bool \<Rightarrow> int \<Rightarrow> hp_action edge" where
  "hp_case_159 relaxed c =
     (if c = 46 then Goto [] 55
       else if c = 48 then Goto [] 160
       else if c = 53 then Goto [] 161
       else if c = 58 then Goto [] 131
       else if c < 65 then (if 49 \<le> c \<and> c \<le> 57 then Goto [] 153
         else Fail)
       else if 70 < c then (if 97 \<le> c \<and> c \<le> 102 then Goto [] 153
         else Fail)
       else Goto [] 153)"

definition hp_case_160 :: "bool \<Rightarrow> int \<Rightarrow> hp_action edge" where
  "hp_case_160 relaxed c =
     (if c = 58 then Goto [] 131
       else if c < 65 then (if 48 \<le> c \<and> c \<le> 57 then Goto [] 158
         else Fail)
       else if 70 < c then (if 97 \<le> c \<and> c \<le> 102 then Goto [] 154
         else Fail)
       else Goto [] 154)"

definition hp_case_161 :: "bool \<Rightarrow> int \<Rightarrow> hp_action edge" where
  "hp_case_161 relaxed c =
     (if c = 48 then Goto [] 158
       else if c = 58 then Goto [] 131
       else if c < 65 then (if 49 \<le> c \<and> c \<le> 57 then Goto [] 154
         else Fail)
       else if 70 < c then (if 97 \<le> c \<and> c \<le> 102 then Goto [] 154
         else Fail)
       else Goto [] 154)"

definition hp_case_162 :: "bool \<Rightarrow> int \<Rightarrow> hp_action edge" where
  "hp_case_162 relaxed c =
     (if c = 58 then Goto [] 131
       else if c < 65 then (if 48 \<le> c \<and> c \<le> 57 then Goto [] 153
         else Fail)
       else if 70 < c then (if 97 \<le> c \<and> c \<le> 102 then Goto [] 153
         else Fail)
       else Goto [] 153)"

definition hp_case_163 :: "bool \<Rightarrow> int \<Rightarrow> hp_action edge" where
  "hp_case_163 relaxed c =
     (if c < 48 then (if 2 \<le> c \<and> c \<le> 3 then Goto [] 48
         else Fail)
       else if 57 < c then (if 70 < c then (if 97 \<le> c \<and> c \<le> 102 then Goto [] 49
           else Fail)
         else if 65 \<le> c then Goto [] 49
         else Fail)
       else Goto [] 49)"

definition hp_case_164 :: "bool \<Rightarrow> int \<Rightarrow> hp_action edge" where
  "hp_case_164 relaxed c = (if 2 \<le> c \<and> c \<le> 3 then Goto [] 48 else Fail)"

definition hp_case_165 :: "bool \<Rightarrow> int \<Rightarrow> hp_action edge" where
  "hp_case_165 relaxed c = (if c = 3 then Goto [] 48 else Fail)"

definition hp_case_166 :: "bool \<Rightarrow> int \<Rightarrow> hp_action edge" where
  "hp_case_166 relaxed c = (if c = 4 then Goto [] 48 else Fail)"

definition hp_case_167 :: "bool \<Rightarrow> int \<Rightarrow> hp_action edge" where
  "hp_case_167 relaxed c = (if c = 58 then Goto [] 168 else Fail)"

definition hp_case_168 :: "bool \<Rightarrow> int \<Rightarrow> hp_action edge" where
  "hp_case_168 relaxed c =
     (if c = 49 then Goto [] 143
       else if c = 50 then Goto [] 146
       else if c = 93 then Goto [] 61
       else if c < 48 then (if 2 \<le> c \<and> c \<le> 5 then Goto [] 48
         else Fail)
       else if 57 < c then (if 70 < c then (if 97 \<le> c \<and> c \<le> 102 then Goto [] 149
           else Fail)
         else if 65 \<le> c then Goto [] 149
         else Fail)
       else Goto [] 127)"

definition hp_case_169 :: "bool \<Rightarrow> int \<Rightarrow> hp_action edge" where
  "hp_case_169 relaxed c =
     (if c < 65 then (if 48 \<le> c \<and> c \<le> 57 then Goto [] 170
         else Fail)
       else if 70 < c then (if 97 \<le> c \<and> c \<le> 102 then Goto [] 170
         else Fail)
       else Goto [] 170)"

definition hp_case_170 :: "bool \<Rightarrow> int \<Rightarrow> hp_action edge" where
  "hp_case_170 relaxed c =
     (if c = 46 then Goto [] 171
       else if c < 65 then (if 48 \<le> c \<and> c \<le> 57 then Goto [] 170
         else Fail)
       else if 70 < c then (if 97 \<le> c \<and> c \<le> 102 then Goto [] 170
         else Fail)
       else Goto [] 170)"

definition hp_case_171 :: "bool \<Rightarrow> int \<Rightarrow> hp_action edge" where
  "hp_case_171 relaxed c =
     (let w = hp_widec relaxed c
       in if w = 33 \<or> w = 36 \<or> w = 61 \<or> w = 95 \<or> w = 126 \<or> w = 606 \<or> w =
           635 \<or> w = 637 then Goto [] 172
       else if w < 48 then (if 38 \<le> w \<and> w \<le> 46 then Goto [] 172
         else Fail)
       else if 59 < w then (if 90 < w then (if 97 \<le> w \<and> w \<le> 122 then Goto [] 172
           else Fail)
         else if 65 \<le> w then Goto [] 172
         else Fail)
       else Goto [] 172)"

definition hp_case_172 :: "bool \<Rightarrow> int \<Rightarrow> hp_action edge" where
  "hp_case_172 relaxed c =
     (let w = hp_widec relaxed c
       in if w = 33 \<or> w = 36 \<or> w = 61 \<or> w = 95 \<or> w = 126 \<or> w = 606 \<or> w =
           635 \<or> w = 637 then Goto [] 172
       else if w = 93 then Goto [] 61
       else if w < 48 then (if 38 \<le> w \<and> w \<le> 46 then Goto [] 172
         else Fail)
       else if 59 < w then (if 90 < w then (if 97 \<le> w \<and> w \<le> 122 then Goto [] 172
           else Fail)
         else if 65 \<le> w then Goto [] 172
         else Fail)
       else Goto [] 172)"

definition hp_case_173 :: "bool \<Rightarrow> int \<Rightarrow> hp_action edge" where
  "hp_case_173 relaxed c =
     (let w = hp_widec relaxed c
       in if w = 32 then hp_tr37
       else if w = 33 \<or> w = 59 \<or> w = 61 \<or> w = 64 \<or> w = 95 \<or> w = 126 \<or> w =
           606 \<or> w = 635 \<or> w = 637 then Goto [] 19
       else if w = 35 then hp_tr39
       else if w = 37 then Goto [] 24
       else if w = 43 then Goto [] 173
       else if w = 47 then Goto [] 26
       else if w = 58 then Goto [] 174
       else if w = 63 then hp_tr42
       else if w < 45 then (if 36 \<le> w \<and> w \<le> 44 then Goto [] 19
         else Fail)
       else if 57 < w then (if 90 < w then (if 97 \<le> w \<and> w \<le> 122 then Goto [] 173
           else Fail)
         else if 65 \<le> w then Goto [] 173
         else Fail)
       else Goto [] 173)"

definition hp_case_174 :: "bool \<Rightarrow> int \<Rightarrow> hp_action edge" where
  "hp_case_174 relaxed c =
     (let w = hp_widec relaxed c
       in if w = 32 then hp_tr6
       else if w = 33 \<or> w = 61 \<or> w = 95 \<or> w = 126 \<or> w = 606 \<or> w = 635 \<or> w
           = 637 then hp_tr203
       else if w = 35 then hp_tr8
       else if w = 37 then hp_tr204
       else if w = 47 then hp_tr10
       else if w = 63 then hp_tr11
       else if w < 36 then (if w \<le> - 1 then hp_tr203
         else Fail)
       else if 59 < w then (if 90 < w then (if 97 \<le> w \<and> w \<le> 122 then hp_tr203
           else Fail)
         else if 64 \<le> w then hp_tr203
         else Fail)
       else hp_tr203)"

definition hp_case_175 :: "bool \<Rightarrow> int \<Rightarrow> hp_action edge" where
  "hp_case_175 relaxed c =
     (if c = 32 then hp_tr4
       else if 57 < c then (if 65 \<le> c \<and> c \<le> 90 then Goto [] 176
         else Fail)
       else if 48 \<le> c then Goto [] 176
       else Fail)"

definition hp_case_176 :: "bool \<Rightarrow> int \<Rightarrow> hp_action edge" where
  "hp_case_176 relaxed c =
     (if c = 32 then hp_tr4
       else if 57 < c then (if 65 \<le> c \<and> c \<le> 90 then Goto [] 177
         else Fail)
       else if 48 \<le> c then Goto [] 177
       else Fail)"

definition hp_case_177 :: "bool \<Rightarrow> int \<Rightarrow> hp_action edge" where
  "hp_case_177 relaxed c =
     (if c = 32 then hp_tr4
       else if 57 < c then (if 65 \<le> c \<and> c \<le> 90 then Goto [] 178
         else Fail)
       else if 48 \<le> c then Goto [] 178
       else Fail)"

definition hp_case_178 :: "bool \<Rightarrow> int \<Rightarrow> hp_action edge" where
  "hp_case_178 relaxed c =
     (if c = 32 then hp_tr4
       else if 57 < c then (if 65 \<le> c \<and> c \<le> 90 then Goto [] 179
         else Fail)
       else if 48 \<le> c then Goto [] 179
       else Fail)"

definition hp_case_179 :: "bool \<Rightarrow> int \<Rightarrow> hp_action edge" where
  "hp_case_179 relaxed c =
     (if c = 32 then hp_tr4
       else if 57 < c then (if 65 \<le> c \<and> c \<le> 90 then Goto [] 180
         else Fail)
       else if 48 \<le> c then Goto [] 180
       else Fail)"

definition hp_case_180 :: "bool \<Rightarrow> int \<Rightarrow> hp_action edge" where
  "hp_case_180 relaxed c =
     (if c = 32 then hp_tr4
       else if 57 < c then (if 65 \<le> c \<and> c \<le> 90 then Goto [] 181
         else Fail)
       else if 48 \<le> c then Goto [] 181
       else Fail)"

definition hp_case_181 :: "bool \<Rightarrow> int \<Rightarrow> hp_action edge" where
  "hp_case_181 relaxed c =
     (if c = 32 then hp_tr4
       else if 57 < c then (if 65 \<le> c \<and> c \<le> 90 then Goto [] 182
         else Fail)
       else if 48 \<le> c then Goto [] 182
       else Fail)"

definition hp_case_182 :: "bool \<Rightarrow> int \<Rightarrow> hp_action edge" where
  "hp_case_182 relaxed c =
     (if c = 32 then hp_tr4
       else if 57 < c then (if 65 \<le> c \<and> c \<le> 90 then Goto [] 183
         else Fail)
       else if 48 \<le> c then Goto [] 183
       else Fail)"

definition hp_case_183 :: "bool \<Rightarrow> int \<Rightarrow> hp_action edge" where
  "hp_case_183 relaxed c =
     (if c = 32 then hp_tr4
       else if 57 < c then (if 65 \<le> c \<and> c \<le> 90 then Goto [] 184
         else Fail)
       else if 48 \<le> c then Goto [] 184
       else Fail)"

definition hp_case_184 :: "bool \<Rightarrow> int \<Rightarrow> hp_action edge" where
  "hp_case_184 relaxed c =
     (if c = 32 then hp_tr4
       else if 57 < c then (if 65 \<le> c \<and> c \<le> 90 then Goto [] 185
         else Fail)
       else if 48 \<le> c then Goto [] 185
       else Fail)"

definition hp_case_185 :: "bool \<Rightarrow> int \<Rightarrow> hp_action edge" where
  "hp_case_185 relaxed c =
     (if c = 32 then hp_tr4
       else if 57 < c then (if 65 \<le> c \<and> c \<le> 90 then Goto [] 186
         else Fail)
       else if 48 \<le> c then Goto [] 186
       else Fail)"

definition hp_case_186 :: "bool \<Rightarrow> int \<Rightarrow> hp_action edge" where
  "hp_case_186 relaxed c =
     (if c = 32 then hp_tr4
       else if 57 < c then (if 65 \<le> c \<and> c \<le> 90 then Goto [] 187
         else Fail)
       else if 48 \<le> c then Goto [] 187
       else Fail)"

definition hp_case_187 :: "bool \<Rightarrow> int \<Rightarrow> hp_action edge" where
  "hp_case_187 relaxed c =
     (if c = 32 then hp_tr4
       else if 57 < c then (if 65 \<le> c \<and> c \<le> 90 then Goto [] 188
         else Fail)
       else if 48 \<le> c then Goto [] 188
       else Fail)"

definition hp_case_188 :: "bool \<Rightarrow> int \<Rightarrow> hp_action edge" where
  "hp_case_188 relaxed c =
     (if c = 32 then hp_tr4
       else if 57 < c then (if 65 \<le> c \<and> c \<le> 90 then Goto [] 189
         else Fail)
       else if 48 \<le> c then Goto [] 189
       else Fail)"

definition hp_case_189 :: "bool \<Rightarrow> int \<Rightarrow> hp_action edge" where
  "hp_case_189 relaxed c =
     (if c = 32 then hp_tr4
       else if 57 < c then (if 65 \<le> c \<and> c \<le> 90 then Goto [] 190
         else Fail)
       else if 48 \<le> c then Goto [] 190
       else Fail)"

definition hp_case_190 :: "bool \<Rightarrow> int \<Rightarrow> hp_action edge" where
  "hp_case_190 relaxed c =
     (if c = 32 then hp_tr4
       else if 57 < c then (if 65 \<le> c \<and> c \<le> 90 then Goto [] 191
         else Fail)
       else if 48 \<le> c then Goto [] 191
       else Fail)"

definition hp_case_191 :: "bool \<Rightarrow> int \<Rightarrow> hp_action edge" where
  "hp_case_191 relaxed c =
     (if c = 32 then hp_tr4
       else if 57 < c then (if 65 \<le> c \<and> c \<le> 90 then Goto [] 192
         else Fail)
       else if 48 \<le> c then Goto [] 192
       else Fail)"

definition hp_case_192 :: "bool \<Rightarrow> int \<Rightarrow> hp_action edge" where
  "hp_case_192 relaxed c =
     (if c = 32 then hp_tr4
       else if 57 < c then (if 65 \<le> c \<and> c \<le> 90 then Goto [] 193
         else Fail)
       else if 48 \<le> c then Goto [] 193
       else Fail)"

definition hp_case_193 :: "bool \<Rightarrow> int \<Rightarrow> hp_action edge" where
  "hp_case_193 relaxed c = (if c = 32 then hp_tr4 else Fail)"

definition hp_case_194 :: "bool \<Rightarrow> int \<Rightarrow> hp_action edge" where
  "hp_case_194 relaxed c =
     (if c < 48 then (if 45 \<le> c \<and> c \<le> 46 then Goto [] 195
         else Fail)
       else if 57 < c then (if 90 < c then (if 97 \<le> c \<and> c \<le> 122 then Goto [] 195
           else Fail)
         else if 65 \<le> c then Goto [] 195
         else Fail)
       else Goto [] 195)"

definition hp_case_195 :: "bool \<Rightarrow> int \<Rightarrow> hp_action edge" where
  "hp_case_195 relaxed c =
     (if c = 32 \<or> c = 47 \<or> c = 62 then hp_tr224
       else if c < 45 then (if 9 \<le> c \<and> c \<le> 13 then hp_tr224
         else Fail)
       else if 57 < c then (if 90 < c then (if 97 \<le> c \<and> c \<le> 122 then Goto [] 195
           else Fail)
         else if 65 \<le> c then Goto [] 195
         else Fail)
       else Goto [] 195)"

definition hp_case_196 :: "bool \<Rightarrow> int \<Rightarrow> hp_action edge" where
  "hp_case_196 relaxed c = (if c = 62 then Goto [] 197 else Goto [] 196)"

definition hp_case_197 :: "bool \<Rightarrow> int \<Rightarrow> hp_action edge" where
  "hp_case_197 relaxed c =
     (if c = 0 then hp_tr227
       else if c = 62 then Goto [] 197
       else Goto [] 196)"

definition hp_case_198 :: "bool \<Rightarrow> int \<Rightarrow> hp_action edge" where
  "hp_case_198 relaxed c =
     (let w = hp_widec relaxed c
       in if w = 32 then hp_tr228
       else if w = 33 \<or> w = 59 \<or> w = 61 \<or> w = 95 \<or> w = 126 \<or> w = 606 \<or> w
           = 635 \<or> w = 637 then Goto [] 202
       else if w = 37 then Goto [] 203
       else if w = 47 then Goto [] 208
       else if w < 64 then (if 36 \<le> w \<and> w \<le> 57 then Goto [] 202
         else Fail)
       else if 90 < w then (if 97 \<le> w \<and> w \<le> 122 then Goto [] 202
         else Fail)
       else Goto [] 202)"

definition hp_case_199 :: "bool \<Rightarrow> int \<Rightarrow> hp_action edge" where
  "hp_case_199 relaxed c = (if c = 123 then hp_tr232 else Fail)"

definition hp_case_200 :: "bool \<Rightarrow> int \<Rightarrow> hp_action edge" where
  "hp_case_200 relaxed c = (if c = 125 then Goto [] 201 else Goto [] 200)"

definition hp_case_201 :: "bool \<Rightarrow> int \<Rightarrow> hp_action edge" where
  "hp_case_201 relaxed c =
     (if c = 0 then hp_tr235
       else if c = 125 then Goto [] 201
       else Goto [] 200)"

definition hp_case_202 :: "bool \<Rightarrow> int \<Rightarrow> hp_action edge" where
  "hp_case_202 relaxed c =
     (let w = hp_widec relaxed c
       in if w = 32 then hp_tr228
       else if w = 33 \<or> w = 59 \<or> w = 61 \<or> w = 95 \<or> w = 126 \<or> w = 606 \<or> w
           = 635 \<or> w = 637 then Goto [] 202
       else if w = 37 then Goto [] 203
       else if w = 47 then Goto [] 205
       else if w < 64 then (if 36 \<le> w \<and> w \<le> 57 then Goto [] 202
         else Fail)
       else if 90 < w then (if 97 \<le> w \<and> w \<le> 122 then Goto [] 202
         else Fail)
       else Goto [] 202)"

definition hp_case_203 :: "bool \<Rightarrow> int \<Rightarrow> hp_action edge" where
  "hp_case_203 relaxed c =
     (if c < 65 then (if 48 \<le> c \<and> c \<le> 57 then Goto [] 204
         else Fail)
       else if 70 < c then (if 97 \<le> c \<and> c \<le> 102 then Goto [] 204
         else Fail)
       else Goto [] 204)"

definition hp_case_204 :: "bool \<Rightarrow> int \<Rightarrow> hp_action edge" where
  "hp_case_204 relaxed c =
     (if c < 65 then (if 48 \<le> c \<and> c \<le> 57 then Goto [] 202
         else Fail)
       else if 70 < c then (if 97 \<le> c \<and> c \<le> 102 then Goto [] 202
         else Fail)
       else Goto [] 202)"

definition hp_case_205 :: "bool \<Rightarrow> int \<Rightarrow> hp_action edge" where
  "hp_case_205 relaxed c =
     (let w = hp_widec relaxed c
       in if w = 32 then hp_tr228
       else if w = 33 \<or> w = 61 \<or> w = 95 \<or> w = 126 \<or> w = 606 \<or> w = 635 \<or> w
           = 637 then Goto [] 205
       else if w = 37 then Goto [] 206
       else if w < 36 then (if w \<le> - 1 then Goto [] 205
         else Fail)
       else if 59 < w then (if 90 < w then (if 97 \<le> w \<and> w \<le> 122 then Goto [] 205
           else Fail)
         else if 64 \<le> w then Goto [] 205
         else Fail)
       else Goto [] 205)"

definition hp_case_206 :: "bool \<Rightarrow> int \<Rightarrow> hp_action edge" where
  "hp_case_206 relaxed c =
     (if c < 65 then (if 48 \<le> c \<and> c \<le> 57 then Goto [] 207
         else Fail)
       else if 70 < c then (if 97 \<le> c \<and> c \<le> 102 then Goto [] 207
         else Fail)
       else Goto [] 207)"

definition hp_case_207 :: "bool \<Rightarrow> int \<Rightarrow> hp_action edge" where
  "hp_case_207 relaxed c =
     (if c < 65 then (if 48 \<le> c \<and> c \<le> 57 then Goto [] 205
         else Fail)
       else if 70 < c then (if 97 \<le> c \<and> c \<le> 102 then Goto [] 205
         else Fail)
       else Goto [] 205)"

definition hp_case_208 :: "bool \<Rightarrow> int \<Rightarrow> hp_action edge" where
  "hp_case_208 relaxed c =
     (let w = hp_widec relaxed c
       in if w = 32 then hp_tr228
       else if w = 33 \<or> w = 61 \<or> w = 95 \<or> w = 126 \<or> w = 606 \<or> w = 635 \<or> w
           = 637 then Goto [] 205
       else if w = 37 then Goto [] 206
       else if w = 47 then Goto [] 209
       else if w < 36 then (if w \<le> - 1 then Goto [] 205
         else Fail)
       else if 59 < w then (if 90 < w then (if 97 \<le> w \<and> w \<le> 122 then Goto [] 205
           else Fail)
         else if 64 \<le> w then Goto [] 205
         else Fail)
       else Goto [] 205)"

definition hp_case_209 :: "bool \<Rightarrow> int \<Rightarrow> hp_action edge" where
  "hp_case_209 relaxed c =
     (let w = hp_widec relaxed c
       in if w = 32 then hp_tr228
       else if w = 33 \<or> w = 61 \<or> w = 95 \<or> w = 126 \<or> w = 606 \<or> w = 635 \<or> w
           = 637 then Goto [] 210
       else if w = 37 then Goto [] 211
       else if w = 47 then Goto [] 205
       else if w = 58 then Goto [] 213
       else if w = 64 then Goto [] 217
       else if w = 91 then Goto [] 222
       else if w < 65 then (if 36 \<le> w \<and> w \<le> 59 then Goto [] 210
         else Fail)
       else if 90 < w then (if 97 \<le> w \<and> w \<le> 122 then Goto [] 210
         else Fail)
       else Goto [] 210)"

definition hp_case_210 :: "bool \<Rightarrow> int \<Rightarrow> hp_action edge" where
  "hp_case_210 relaxed c =
     (let w = hp_widec relaxed c
       in if w = 32 then hp_tr228
       else if w = 33 \<or> w = 61 \<or> w = 95 \<or> w = 126 \<or> w = 606 \<or> w = 635 \<or> w
           = 637 then Goto [] 210
       else if w = 37 then Goto [] 211
       else if w = 47 then Goto [] 205
       else if w = 58 then Goto [] 213
       else if w = 64 then Goto [] 217
       else if w < 65 then (if 36 \<le> w \<and> w \<le> 59 then Goto [] 210
         else Fail)
       else if 90 < w then (if 97 \<le> w \<and> w \<le> 122 then Goto [] 210
         else Fail)
       else Goto [] 210)"

definition hp_case_211 :: "bool \<Rightarrow> int \<Rightarrow> hp_action edge" where
  "hp_case_211 relaxed c =
     (if c < 65 then (if 48 \<le> c \<and> c \<le> 57 then Goto [] 212
         else Fail)
       else if 70 < c then (if 97 \<le> c \<and> c \<le> 102 then Goto [] 212
         else Fail)
       else Goto [] 212)"

definition hp_case_212 :: "bool \<Rightarrow> int \<Rightarrow> hp_action edge" where
  "hp_case_212 relaxed c =
     (if c < 65 then (if 48 \<le> c \<and> c \<le> 57 then Goto [] 210
         else Fail)
       else if 70 < c then (if 97 \<le> c \<and> c \<le> 102 then Goto [] 210
         else Fail)
       else Goto [] 210)"

definition hp_case_213 :: "bool \<Rightarrow> int \<Rightarrow> hp_action edge" where
  "hp_case_213 relaxed c =
     (let w = hp_widec relaxed c
       in if w = 32 then hp_tr228
       else if w = 33 \<or> w = 61 \<or> w = 95 \<or> w = 126 \<or> w = 606 \<or> w = 635 \<or> w
           = 637 then Goto [] 214
       else if w = 37 then Goto [] 215
       else if w = 47 then Goto [] 205
       else if w = 64 then Goto [] 217
       else if w < 58 then (if 46 < w then (if 48 \<le> w \<and> w \<le> 57 then Goto [] 213
           else Fail)
         else if 36 \<le> w then Goto [] 214
         else Fail)
       else if 59 < w then (if 90 < w then (if 97 \<le> w \<and> w \<le> 122 then Goto [] 214
           else Fail)
         else if 65 \<le> w then Goto [] 214
         else Fail)
       else Goto [] 214)"

definition hp_case_214 :: "bool \<Rightarrow> int \<Rightarrow> hp_action edge" where
  "hp_case_214 relaxed c =
     (let w = hp_widec relaxed c
       in if w = 33 \<or> w = 61 \<or> w = 95 \<or> w = 126 \<or> w = 606 \<or> w = 635 \<or> w =
           637 then Goto [] 214
       else if w = 37 then Goto [] 215
       else if w = 64 then Goto [] 217
       else if w < 48 then (if 36 \<le> w \<and> w \<le> 46 then Goto [] 214
         else Fail)
       else if 59 < w then (if 90 < w then (if 97 \<le> w \<and> w \<le> 122 then Goto [] 214
           else Fail)
         else if 65 \<le> w then Goto [] 214
         else Fail)
       else Goto [] 214)"

definition hp_case_215 :: "bool \<Rightarrow> int \<Rightarrow> hp_action edge" where
  "hp_case_215 relaxed c =
     (if c < 65 then (if 48 \<le> c \<and> c \<le> 57 then Goto [] 216
         else Fail)
       else if 70 < c then (if 97 \<le> c \<and> c \<le> 102 then Goto [] 216
         else Fail)
       else Goto [] 216)"

definition hp_case_216 :: "bool \<Rightarrow> int \<Rightarrow> hp_action edge" where
  "hp_case_216 relaxed c =
     (if c < 65 then (if 48 \<le> c \<and> c \<le> 57 then Goto [] 214
         else Fail)
       else if 70 < c then (if 97 \<le> c \<and> c \<le> 102 then Goto [] 214
         else Fail)
       else Goto [] 214)"

definition hp_case_217 :: "bool \<Rightarrow> int \<Rightarrow> hp_action edge" where
  "hp_case_217 relaxed c =
     (let w = hp_widec relaxed c
       in if w = 32 then hp_tr228
       else if w = 33 \<or> w = 61 \<or> w = 95 \<or> w = 126 \<or> w = 606 \<or> w = 635 \<or> w
           = 637 then Goto [] 218
       else if w = 37 then Goto [] 219
       else if w = 47 then Goto [] 205
       else if w = 58 then Goto [] 221
       else if w = 91 then Goto [] 222
       else if w < 65 then (if 36 \<le> w \<and> w \<le> 59 then Goto [] 218
         else Fail)
       else if 90 < w then (if 97 \<le> w \<and> w \<le> 122 then Goto [] 218
         else Fail)
       else Goto [] 218)"

definition hp_case_218 :: "bool \<Rightarrow> int \<Rightarrow> hp_action edge" where
  "hp_case_218 relaxed c =
     (let w = hp_widec relaxed c
       in if w = 32 then hp_tr228
       else if w = 33 \<or> w = 61 \<or> w = 95 \<or> w = 126 \<or> w = 606 \<or> w = 635 \<or> w
           = 637 then Goto [] 218
       else if w = 37 then Goto [] 219
       else if w = 47 then Goto [] 205
       else if w = 58 then Goto [] 221
       else if w < 65 then (if 36 \<le> w \<and> w \<le> 59 then Goto [] 218
         else Fail)
       else if 90 < w then (if 97 \<le> w \<and> w \<le> 122 then Goto [] 218
         else Fail)
       else Goto [] 218)"

definition hp_case_219 :: "bool \<Rightarrow> int \<Rightarrow> hp_action edge" where
  "hp_case_219 relaxed c =
     (if c < 65 then (if 48 \<le> c \<and> c \<le> 57 then Goto [] 220
         else Fail)
       else if 70 < c then (if 97 \<le> c \<and> c \<le> 102 then Goto [] 220
         else Fail)
       else Goto [] 220)"

definition hp_case_220 :: "bool \<Rightarrow> int \<Rightarrow> hp_action edge" where
  "hp_case_220 relaxed c =
     (if c < 65 then (if 48 \<le> c \<and> c \<le> 57 then Goto [] 218
         else Fail)
       else if 70 < c then (if 97 \<le> c \<and> c \<le> 102 then Goto [] 218
         else Fail)
       else Goto [] 218)"

definition hp_case_221 :: "bool \<Rightarrow> int \<Rightarrow> hp_action edge" where
  "hp_case_221 relaxed c =
     (if c = 32 then hp_tr228
       else if c = 47 then Goto [] 205
       else if 48 \<le> c \<and> c \<le> 57 then Goto [] 221
       else Fail)"

definition hp_case_222 :: "bool \<Rightarrow> int \<Rightarrow> hp_action edge" where
  "hp_case_222 relaxed c =
     (if c = 6 then Goto [] 223
       else if c = 58 then Goto [] 342
       else if c = 118 then Goto [] 344
       else if c < 65 then (if 48 \<le> c \<and> c \<le> 57 then Goto [] 266
         else Fail)
       else if 70 < c then (if 97 \<le> c \<and> c \<le> 102 then Goto [] 266
         else Fail)
       else Goto [] 266)"

definition hp_case_223 :: "bool \<Rightarrow> int \<Rightarrow> hp_action edge" where
  "hp_case_223 relaxed c =
     (if c < 65 then (if 48 \<le> c \<and> c \<le> 57 then Goto [] 224
         else Fail)
       else if 70 < c then (if 97 \<le> c \<and> c \<le> 102 then Goto [] 224
         else Fail)
       else Goto [] 224)"

definition hp_case_224 :: "bool \<Rightarrow> int \<Rightarrow> hp_action edge" where
  "hp_case_224 relaxed c =
     (if c = 58 then Goto [] 228
       else if c < 65 then (if 48 \<le> c \<and> c \<le> 57 then Goto [] 225
         else Fail)
       else if 70 < c then (if 97 \<le> c \<and> c \<le> 102 then Goto [] 225
         else Fail)
       else Goto [] 225)"

definition hp_case_225 :: "bool \<Rightarrow> int \<Rightarrow> hp_action edge" where
  "hp_case_225 relaxed c =
     (if c = 58 then Goto [] 228
       else if c < 65 then (if 48 \<le> c \<and> c \<le> 57 then Goto [] 226
         else Fail)
       else if 70 < c then (if 97 \<le> c \<and> c \<le> 102 then Goto [] 226
         else Fail)
       else Goto [] 226)"

definition hp_case_226 :: "bool \<Rightarrow> int \<Rightarrow> hp_action edge" where
  "hp_case_226 relaxed c =
     (if c = 58 then Goto [] 228
       else if c < 65 then (if 48 \<le> c \<and> c \<le> 57 then Goto [] 227
         else Fail)
       else if 70 < c then (if 97 \<le> c \<and> c \<le> 102 then Goto [] 227
         else Fail)
       else Goto [] 227)"

definition hp_case_227 :: "bool \<Rightarrow> int \<Rightarrow> hp_action edge" where
  "hp_case_227 relaxed c = (if c = 58 then Goto [] 228 else Fail)"

definition hp_case_228 :: "bool \<Rightarrow> int \<Rightarrow> hp_action edge" where
  "hp_case_228 relaxed c =
     (if c = 49 then Goto [] 259
       else if c = 50 then Goto [] 262
       else if c < 65 then (if 48 \<le> c \<and> c \<le> 57 then Goto [] 229
         else Fail)
       else if 70 < c then (if 97 \<le> c \<and> c \<le> 102 then Goto [] 265
         else Fail)
       else Goto [] 265)"

definition hp_case_229 :: "bool \<Rightarrow> int \<Rightarrow> hp_action edge" where
  "hp_case_229 relaxed c =
     (if c = 46 then Goto [] 230
       else if c = 58 then Goto [] 255
       else if c < 65 then (if 48 \<le> c \<and> c \<le> 57 then Goto [] 252
         else Fail)
       else if 70 < c then (if 97 \<le> c \<and> c \<le> 102 then Goto [] 252
         else Fail)
       else Goto [] 252)"

definition hp_case_230 :: "bool \<Rightarrow> int \<Rightarrow> hp_action edge" where
  "hp_case_230 relaxed c =
     (if c = 49 then Goto [] 247
       else if c = 50 then Goto [] 249
       else if 48 \<le> c \<and> c \<le> 57 then Goto [] 231
       else Fail)"

definition hp_case_231 :: "bool \<Rightarrow> int \<Rightarrow> hp_action edge" where
  "hp_case_231 relaxed c = (if c = 46 then Goto [] 232 else Fail)"

definition hp_case_232 :: "bool \<Rightarrow> int \<Rightarrow> hp_action edge" where
  "hp_case_232 relaxed c =
     (if c = 49 then Goto [] 242
       else if c = 50 then Goto [] 244
       else if 48 \<le> c \<and> c \<le> 57 then Goto [] 233
       else Fail)"

definition hp_case_233 :: "bool \<Rightarrow> int \<Rightarrow> hp_action edge" where
  "hp_case_233 relaxed c = (if c = 46 then Goto [] 234 else Fail)"

definition hp_case_234 :: "bool \<Rightarrow> int \<Rightarrow> hp_action edge" where
  "hp_case_234 relaxed c =
     (if c = 49 then Goto [] 237
       else if c = 50 then Goto [] 239
       else if 48 \<le> c \<and> c \<le> 57 then Goto [] 235
       else Fail)"

definition hp_case_235 :: "bool \<Rightarrow> int \<Rightarrow> hp_action edge" where
  "hp_case_235 relaxed c = (if c = 93 then Goto [] 236 else Fail)"

definition hp_case_236 :: "bool \<Rightarrow> int \<Rightarrow> hp_action edge" where
  "hp_case_236 relaxed c =
     (if c = 32 then hp_tr228
       else if c = 47 then Goto [] 205
       else if c = 58 then Goto [] 221
       else Fail)"

definition hp_case_237 :: "bool \<Rightarrow> int \<Rightarrow> hp_action edge" where
  "hp_case_237 relaxed c =
     (if c = 93 then Goto [] 236
       else if 48 \<le> c \<and> c \<le> 57 then Goto [] 238
       else Fail)"

definition hp_case_238 :: "bool \<Rightarrow> int \<Rightarrow> hp_action edge" where
  "hp_case_238 relaxed c =
     (if c = 93 then Goto [] 236
       else if 48 \<le> c \<and> c \<le> 57 then Goto [] 235
       else Fail)"

definition hp_case_239 :: "bool \<Rightarrow> int \<Rightarrow> hp_action edge" where
  "hp_case_239 relaxed c =
     (if c = 48 then Goto [] 240
       else if c = 53 then Goto [] 241
       else if c = 93 then Goto [] 236
       else Fail)"

definition hp_case_240 :: "bool \<Rightarrow> int \<Rightarrow> hp_action edge" where
  "hp_case_240 relaxed c = (if 48 \<le> c \<and> c \<le> 57 then Goto [] 235 else Fail)"

definition hp_case_241 :: "bool \<Rightarrow> int \<Rightarrow> hp_action edge" where
  "hp_case_241 relaxed c = (if c = 48 then Goto [] 235 else Fail)"

definition hp_case_242 :: "bool \<Rightarrow> int \<Rightarrow> hp_action edge" where
  "hp_case_242 relaxed c =
     (if c = 46 then Goto [] 234
       else if 48 \<le> c \<and> c \<le> 57 then Goto [] 243
       else Fail)"

definition hp_case_243 :: "bool \<Rightarrow> int \<Rightarrow> hp_action edge" where
  "hp_case_243 relaxed c =
     (if c = 46 then Goto [] 234
       else if 48 \<le> c \<and> c \<le> 57 then Goto [] 233
       else Fail)"

definition hp_case_244 :: "bool \<Rightarrow> int \<Rightarrow> hp_action edge" where
  "hp_case_244 relaxed c =
     (if c = 46 then Goto [] 234
       else if c = 48 then Goto [] 245
       else if c = 53 then Goto [] 246
       else Fail)"

definition hp_case_245 :: "bool \<Rightarrow> int \<Rightarrow> hp_action edge" where
  "hp_case_245 relaxed c = (if 48 \<le> c \<and> c \<le> 57 then Goto [] 233 else Fail)"

definition hp_case_246 :: "bool \<Rightarrow> int \<Rightarrow> hp_action edge" where
  "hp_case_246 relaxed c = (if c = 48 then Goto [] 233 else Fail)"

definition hp_case_247 :: "bool \<Rightarrow> int \<Rightarrow> hp_action edge" where
  "hp_case_247 relaxed c =
     (if c = 46 then Goto [] 232
       else if 48 \<le> c \<and> c \<le> 57 then Goto [] 248
       else Fail)"

definition hp_case_248 :: "bool \<Rightarrow> int \<Rightarrow> hp_action edge" where
  "hp_case_248 relaxed c =
     (if c = 46 then Goto [] 232
       else if 48 \<le> c \<and> c \<le> 57 then Goto [] 231
       else Fail)"

definition hp_case_249 :: "bool \<Rightarrow> int \<Rightarrow> hp_action edge" where
  "hp_case_249 relaxed c =
     (if c = 46 then Goto [] 232
       else if c = 48 then Goto [] 250
       else if c = 53 then Goto [] 251
       else Fail)"

definition hp_case_250 :: "bool \<Rightarrow> int \<Rightarrow> hp_action edge" where
  "hp_case_250 relaxed c = (if 48 \<le> c \<and> c \<le> 57 then Goto [] 231 else Fail)"

definition hp_case_251 :: "bool \<Rightarrow> int \<Rightarrow> hp_action edge" where
  "hp_case_251 relaxed c = (if c = 48 then Goto [] 231 else Fail)"

definition hp_case_252 :: "bool \<Rightarrow> int \<Rightarrow> hp_action edge" where
  "hp_case_252 relaxed c =
     (if c = 58 then Goto [] 255
       else if c < 65 then (if 48 \<le> c \<and> c \<le> 57 then Goto [] 253
         else Fail)
       else if 70 < c then (if 97 \<le> c \<and> c \<le> 102 then Goto [] 253
         else Fail)
       else Goto [] 253)"

definition hp_case_253 :: "bool \<Rightarrow> int \<Rightarrow> hp_action edge" where
  "hp_case_253 relaxed c =
     (if c = 58 then Goto [] 255
       else if c < 65 then (if 48 \<le> c \<and> c \<le> 57 then Goto [] 254
         else Fail)
       else if 70 < c then (if 97 \<le> c \<and> c \<le> 102 then Goto [] 254
         else Fail)
       else Goto [] 254)"

definition hp_case_254 :: "bool \<Rightarrow> int \<Rightarrow> hp_action edge" where
  "hp_case_254 relaxed c = (if c = 58 then Goto [] 255 else Fail)"

definition hp_case_255 :: "bool \<Rightarrow> int \<Rightarrow> hp_action edge" where
  "hp_case_255 relaxed c =
     (if c < 65 then (if 48 \<le> c \<and> c \<le> 57 then Goto [] 256
         else Fail)
       else if 70 < c then (if 97 \<le> c \<and> c \<le> 102 then Goto [] 256
         else Fail)
       else Goto [] 256)"

definition hp_case_256 :: "bool \<Rightarrow> int \<Rightarrow> hp_action edge" where
  "hp_case_256 relaxed c =
     (if c = 93 then Goto [] 236
       else if c < 65 then (if 48 \<le> c \<and> c \<le> 57 then Goto [] 257
         else Fail)
       else if 70 < c then (if 97 \<le> c \<and> c \<le> 102 then Goto [] 257
         else Fail)
       else Goto [] 257)"

definition hp_case_257 :: "bool \<Rightarrow> int \<Rightarrow> hp_action edge" where
  "hp_case_257 relaxed c =
     (if c = 93 then Goto [] 236
       else if c < 65 then (if 48 \<le> c \<and> c \<le> 57 then Goto [] 258
         else Fail)
       else if 70 < c then (if 97 \<le> c \<and> c \<le> 102 then Goto [] 258
         else Fail)
       else Goto [] 258)"

definition hp_case_258 :: "bool \<Rightarrow> int \<Rightarrow> hp_action edge" where
  "hp_case_258 relaxed c =
     (if c = 93 then Goto [] 236
       else if c < 65 then (if 48 \<le> c \<and> c \<le> 57 then Goto [] 235
         else Fail)
       else if 70 < c then (if 97 \<le> c \<and> c \<le> 102 then Goto [] 235
         else Fail)
       else Goto [] 235)"

definition hp_case_259 :: "bool \<Rightarrow> int \<Rightarrow> hp_action edge" where
  "hp_case_259 relaxed c =
     (if c = 46 then Goto [] 230
       else if c = 58 then Goto [] 255
       else if c < 65 then (if 48 \<le> c \<and> c \<le> 57 then Goto [] 260
         else Fail)
       else if 70 < c then (if 97 \<le> c \<and> c \<le> 102 then Goto [] 252
         else Fail)
       else Goto [] 252)"

definition hp_case_260 :: "bool \<Rightarrow> int \<Rightarrow> hp_action edge" where
  "hp_case_260 relaxed c =
     (if c = 46 then Goto [] 230
       else if c = 58 then Goto [] 255
       else if c < 65 then (if 48 \<le> c \<and> c \<le> 57 then Goto [] 261
         else Fail)
       else if 70 < c then (if 97 \<le> c \<and> c \<le> 102 then Goto [] 253
         else Fail)
       else Goto [] 253)"

definition hp_case_261 :: "bool \<Rightarrow> int \<Rightarrow> hp_action edge" where
  "hp_case_261 relaxed c =
     (if c = 46 then Goto [] 230
       else if c = 58 then Goto [] 255
       else if c < 65 then (if 48 \<le> c \<and> c \<le> 57 then Goto [] 254
         else Fail)
       else if 70 < c then (if 97 \<le> c \<and> c \<le> 102 then Goto [] 254
         else Fail)
       else Goto [] 254)"

definition hp_case_262 :: "bool \<Rightarrow> int \<Rightarrow> hp_action edge" where
  "hp_case_262 relaxed c =
     (if c = 46 then Goto [] 230
       else if c = 48 then Goto [] 263
       else if c = 53 then Goto [] 264
       else if c = 58 then Goto [] 255
       else if c < 65 then (if 49 \<le> c \<and> c \<le> 57 then Goto [] 252
         else Fail)
       else if 70 < c then (if 97 \<le> c \<and> c \<le> 102 then Goto [] 252
         else Fail)
       else Goto [] 252)"

definition hp_case_263 :: "bool \<Rightarrow> int \<Rightarrow> hp_action edge" where
  "hp_case_263 relaxed c =
     (if c = 58 then Goto [] 255
       else if c < 65 then (if 48 \<le> c \<and> c \<le> 57 then Goto [] 261
         else Fail)
       else if 70 < c then (if 97 \<le> c \<and> c \<le> 102 then Goto [] 253
         else Fail)
       else Goto [] 253)"

definition hp_case_264 :: "bool \<Rightarrow> int \<Rightarrow> hp_action edge" where
  "hp_case_264 relaxed c =
     (if c = 48 then Goto [] 261
       else if c = 58 then Goto [] 255
       else if c < 65 then (if 49 \<le> c \<and> c \<le> 57 then Goto [] 253
         else Fail)
       else if 70 < c then (if 97 \<le> c \<and> c \<le> 102 then Goto [] 253
         else Fail)
       else Goto [] 253)"

definition hp_case_265 :: "bool \<Rightarrow> int \<Rightarrow> hp_action edge" where
  "hp_case_265 relaxed c =
     (if c = 58 then Goto [] 255
       else if c < 65 then (if 48 \<le> c \<and> c \<le> 57 then Goto [] 252
         else Fail)
       else if 70 < c then (if 97 \<le> c \<and> c \<le> 102 then Goto [] 252
         else Fail)
       else Goto [] 252)"

definition hp_case_266 :: "bool \<Rightarrow> int \<Rightarrow> hp_action edge" where
  "hp_case_266 relaxed c =
     (if c = 58 then Goto [] 270
       else if c < 65 then (if 48 \<le> c \<and> c \<le> 57 then Goto [] 267
         else Fail)
       else if 70 < c then (if 97 \<le> c \<and> c \<le> 102 then Goto [] 267
         else Fail)
       else Goto [] 267)"

definition hp_case_267 :: "bool \<Rightarrow> int \<Rightarrow> hp_action edge" where
  "hp_case_267 relaxed c =
     (if c = 58 then Goto [] 270
       else if c < 65 then (if 48 \<le> c \<and> c \<le> 57 then Goto [] 268
         else Fail)
       else if 70 < c then (if 97 \<le> c \<and> c \<le> 102 then Goto [] 268
         else Fail)
       else Goto [] 268)"

definition hp_case_268 :: "bool \<Rightarrow> int \<Rightarrow> hp_action edge" where
  "hp_case_268 relaxed c =
     (if c = 58 then Goto [] 270
       else if c < 65 then (if 48 \<le> c \<and> c \<le> 57 then Goto [] 269
         else Fail)
       else if 70 < c then (if 97 \<le> c \<and> c \<le> 102 then Goto [] 269
         else Fail)
       else Goto [] 269)"

definition hp_case_269 :: "bool \<Rightarrow> int \<Rightarrow> hp_action edge" where
  "hp_case_269 relaxed c = (if c = 58 then Goto [] 270 else Fail)"

definition hp_case_270 :: "bool \<Rightarrow> int \<Rightarrow> hp_action edge" where
  "hp_case_270 relaxed c =
     (if c = 58 then Goto [] 341
       else if c < 65 then (if 48 \<le> c \<and> c \<le> 57 then Goto [] 271
         else Fail)
       else if 70 < c then (if 97 \<le> c \<and> c \<le> 102 then Goto [] 271
         else Fail)
       else Goto [] 271)"

definition hp_case_271 :: "bool \<Rightarrow> int \<Rightarrow> hp_action edge" where
  "hp_case_271 relaxed c =
     (if c = 58 then Goto [] 275
       else if c < 65 then (if 48 \<le> c \<and> c \<le> 57 then Goto [] 272
         else Fail)
       else if 70 < c then (if 97 \<le> c \<and> c \<le> 102 then Goto [] 272
         else Fail)
       else Goto [] 272)"

definition hp_case_272 :: "bool \<Rightarrow> int \<Rightarrow> hp_action edge" where
  "hp_case_272 relaxed c =
     (if c = 58 then Goto [] 275
       else if c < 65 then (if 48 \<le> c \<and> c \<le> 57 then Goto [] 273
         else Fail)
       else if 70 < c then (if 97 \<le> c \<and> c \<le> 102 then Goto [] 273
         else Fail)
       else Goto [] 273)"

definition hp_case_273 :: "bool \<Rightarrow> int \<Rightarrow> hp_action edge" where
  "hp_case_273 relaxed c =
     (if c = 58 then Goto [] 275
       else if c < 65 then (if 48 \<le> c \<and> c \<le> 57 then Goto [] 274
         else Fail)
       else if 70 < c then (if 97 \<le> c \<and> c \<le> 102 then Goto [] 274
         else Fail)
       else Goto [] 274)"

definition hp_case_274 :: "bool \<Rightarrow> int \<Rightarrow> hp_action edge" where
  "hp_case_274 relaxed c = (if c = 58 then Goto [] 275 else Fail)"

definition hp_case_275 :: "bool \<Rightarrow> int \<Rightarrow> hp_action edge" where
  "hp_case_275 relaxed c =
     (if c = 58 then Goto [] 340
       else if c < 65 then (if 48 \<le> c \<and> c \<le> 57 then Goto [] 276
         else Fail)
       else if 70 < c then (if 97 \<le> c \<and> c \<le> 102 then Goto [] 276
         else Fail)
       else Goto [] 276)"

definition hp_case_276 :: "bool \<Rightarrow> int \<Rightarrow> hp_action edge" where
  "hp_case_276 relaxed c =
     (if c = 58 then Goto [] 280
       else if c < 65 then (if 48 \<le> c \<and> c \<le> 57 then Goto [] 277
         else Fail)
       else if 70 < c then (if 97 \<le> c \<and> c \<le> 102 then Goto [] 277
         else Fail)
       else Goto [] 277)"

definition hp_case_277 :: "bool \<Rightarrow> int \<Rightarrow> hp_action edge" where
  "hp_case_277 relaxed c =
     (if c = 58 then Goto [] 280
       else if c < 65 then (if 48 \<le> c \<and> c \<le> 57 then Goto [] 278
         else Fail)
       else if 70 < c then (if 97 \<le> c \<and> c \<le> 102 then Goto [] 278
         else Fail)
       else Goto [] 278)"

definition hp_case_278 :: "bool \<Rightarrow> int \<Rightarrow> hp_action edge" where
  "hp_case_278 relaxed c =
     (if c = 58 then Goto [] 280
       else if c < 65 then (if 48 \<le> c \<and> c \<le> 57 then Goto [] 279
         else Fail)
       else if 70 < c then (if 97 \<le> c \<and> c \<le> 102 then Goto [] 279
         else Fail)
       else Goto [] 279)"

definition hp_case_279 :: "bool \<Rightarrow> int \<Rightarrow> hp_action edge" where
  "hp_case_279 relaxed c = (if c = 58 then Goto [] 280 else Fail)"

definition hp_case_280 :: "bool \<Rightarrow> int \<Rightarrow> hp_action edge" where
  "hp_case_280 relaxed c =
     (if c = 58 then Goto [] 339
       else if c < 65 then (if 48 \<le> c \<and> c \<le> 57 then Goto [] 281
         else Fail)
       else if 70 < c then (if 97 \<le> c \<and> c \<le> 102 then Goto [] 281
         else Fail)
       else Goto [] 281)"

definition hp_case_281 :: "bool \<Rightarrow> int \<Rightarrow> hp_action edge" where
  "hp_case_281 relaxed c =
     (if c = 58 then Goto [] 285
       else if c < 65 then (if 48 \<le> c \<and> c \<le> 57 then Goto [] 282
         else Fail)
       else if 70 < c then (if 97 \<le> c \<and> c \<le> 102 then Goto [] 282
         else Fail)
       else Goto [] 282)"

definition hp_case_282 :: "bool \<Rightarrow> int \<Rightarrow> hp_action edge" where
  "hp_case_282 relaxed c =
     (if c = 58 then Goto [] 285
       else if c < 65 then (if 48 \<le> c \<and> c \<le> 57 then Goto [] 283
         else Fail)
       else if 70 < c then (if 97 \<le> c \<and> c \<le> 102 then Goto [] 283
         else Fail)
       else Goto [] 283)"

definition hp_case_283 :: "bool \<Rightarrow> int \<Rightarrow> hp_action edge" where
  "hp_case_283 relaxed c =
     (if c = 58 then Goto [] 285
       else if c < 65 then (if 48 \<le> c \<and> c \<le> 57 then Goto [] 284
         else Fail)
       else if 70 < c then (if 97 \<le> c \<and> c \<le> 102 then Goto [] 284
         else Fail)
       else Goto [] 284)"

definition hp_case_284 :: "bool \<Rightarrow> int \<Rightarrow> hp_action edge" where
  "hp_case_284 relaxed c = (if c = 58 then Goto [] 285 else Fail)"

definition hp_case_285 :: "bool \<Rightarrow> int \<Rightarrow> hp_action edge" where
  "hp_case_285 relaxed c =
     (if c = 58 then Goto [] 338
       else if c < 65 then (if 48 \<le> c \<and> c \<le> 57 then Goto [] 286
         else Fail)
       else if 70 < c then (if 97 \<le> c \<and> c \<le> 102 then Goto [] 286
         else Fail)
       else Goto [] 286)"

definition hp_case_286 :: "bool \<Rightarrow> int \<Rightarrow> hp_action edge" where
  "hp_case_286 relaxed c =
     (if c = 58 then Goto [] 290
       else if c < 65 then (if 48 \<le> c \<and> c \<le> 57 then Goto [] 287
         else Fail)
       else if 70 < c then (if 97 \<le> c \<and> c \<le> 102 then Goto [] 287
         else Fail)
       else Goto [] 287)"

definition hp_case_287 :: "bool \<Rightarrow> int \<Rightarrow> hp_action edge" where
  "hp_case_287 relaxed c =
     (if c = 58 then Goto [] 290
       else if c < 65 then (if 48 \<le> c \<and> c \<le> 57 then Goto [] 288
         else Fail)
       else if 70 < c then (if 97 \<le> c \<and> c \<le> 102 then Goto [] 288
         else Fail)
       else Goto [] 288)"

definition hp_case_288 :: "bool \<Rightarrow> int \<Rightarrow> hp_action edge" where
  "hp_case_288 relaxed c =
     (if c = 58 then Goto [] 290
       else if c < 65 then (if 48 \<le> c \<and> c \<le> 57 then Goto [] 289
         else Fail)
       else if 70 < c then (if 97 \<le> c \<and> c \<le> 102 then Goto [] 289
         else Fail)
       else Goto [] 289)"

definition hp_case_289 :: "bool \<Rightarrow> int \<Rightarrow> hp_action edge" where
  "hp_case_289 relaxed c = (if c = 58 then Goto [] 290 else Fail)"

definition hp_case_290 :: "bool \<Rightarrow> int \<Rightarrow> hp_action edge" where
  "hp_case_290 relaxed c =
     (if c = 58 then Goto [] 326
       else if c < 65 then (if 48 \<le> c \<and> c \<le> 57 then Goto [] 291
         else Fail)
       else if 70 < c then (if 97 \<le> c \<and> c \<le> 102 then Goto [] 291
         else Fail)
       else Goto [] 291)"

definition hp_case_291 :: "bool \<Rightarrow> int \<Rightarrow> hp_action edge" where
  "hp_case_291 relaxed c =
     (if c = 58 then Goto [] 295
       else if c < 65 then (if 48 \<le> c \<and> c \<le> 57 then Goto [] 292
         else Fail)
       else if 70 < c then (if 97 \<le> c \<and> c \<le> 102 then Goto [] 292
         else Fail)
       else Goto [] 292)"

definition hp_case_292 :: "bool \<Rightarrow> int \<Rightarrow> hp_action edge" where
  "hp_case_292 relaxed c =
     (if c = 58 then Goto [] 295
       else if c < 65 then (if 48 \<le> c \<and> c \<le> 57 then Goto [] 293
         else Fail)
       else if 70 < c then (if 97 \<le> c \<and> c \<le> 102 then Goto [] 293
         else Fail)
       else Goto [] 293)"

definition hp_case_293 :: "bool \<Rightarrow> int \<Rightarrow> hp_action edge" where
  "hp_case_293 relaxed c =
     (if c = 58 then Goto [] 295
       else if c < 65 then (if 48 \<le> c \<and> c \<le> 57 then Goto [] 294
         else Fail)
       else if 70 < c then (if 97 \<le> c \<and> c \<le> 102 then Goto [] 294
         else Fail)
       else Goto [] 294)"

definition hp_case_294 :: "bool \<Rightarrow> int \<Rightarrow> hp_action edge" where
  "hp_case_294 relaxed c = (if c = 58 then Goto [] 295 else Fail)"

definition hp_case_295 :: "bool \<Rightarrow> int \<Rightarrow> hp_action edge" where
  "hp_case_295 relaxed c =
     (if c = 58 then Goto [] 325
       else if c < 65 then (if 48 \<le> c \<and> c \<le> 57 then Goto [] 296
         else Fail)
       else if 70 < c then (if 97 \<le> c \<and> c \<le> 102 then Goto [] 296
         else Fail)
       else Goto [] 296)"

definition hp_case_296 :: "bool \<Rightarrow> int \<Rightarrow> hp_action edge" where
  "hp_case_296 relaxed c =
     (if c = 58 then Goto [] 300
       else if c < 65 then (if 48 \<le> c \<and> c \<le> 57 then Goto [] 297
         else Fail)
       else if 70 < c then (if 97 \<le> c \<and> c \<le> 102 then Goto [] 297
         else Fail)
       else Goto [] 297)"

definition hp_case_297 :: "bool \<Rightarrow> int \<Rightarrow> hp_action edge" where
  "hp_case_297 relaxed c =
     (if c = 58 then Goto [] 300
       else if c < 65 then (if 48 \<le> c \<and> c \<le> 57 then Goto [] 298
         else Fail)
       else if 70 < c then (if 97 \<le> c \<and> c \<le> 102 then Goto [] 298
         else Fail)
       else Goto [] 298)"

definition hp_case_298 :: "bool \<Rightarrow> int \<Rightarrow> hp_action edge" where
  "hp_case_298 relaxed c =
     (if c = 58 then Goto [] 300
       else if c < 65 then (if 48 \<le> c \<and> c \<le> 57 then Goto [] 299
         else Fail)
       else if 70 < c then (if 97 \<le> c \<and> c \<le> 102 then Goto [] 299
         else Fail)
       else Goto [] 299)"

definition hp_case_299 :: "bool \<Rightarrow> int \<Rightarrow> hp_action edge" where
  "hp_case_299 relaxed c = (if c = 58 then Goto [] 300 else Fail)"

definition hp_case_300 :: "bool \<Rightarrow> int \<Rightarrow> hp_action edge" where
  "hp_case_300 relaxed c =
     (if c = 58 then Goto [] 301
       else if c < 65 then (if 48 \<le> c \<and> c \<le> 57 then Goto [] 296
         else Fail)
       else if 70 < c then (if 97 \<le> c \<and> c \<le> 102 then Goto [] 296
         else Fail)
       else Goto [] 296)"

definition hp_case_301 :: "bool \<Rightarrow> int \<Rightarrow> hp_action edge" where
  "hp_case_301 relaxed c =
     (if c = 49 then Goto [] 318
       else if c = 50 then Goto [] 321
       else if c = 93 then Goto [] 236
       else if c < 48 then (if 2 \<le> c \<and> c \<le> 3 then Goto [] 223
         else Fail)
       else if 57 < c then (if 70 < c then (if 97 \<le> c \<and> c \<le> 102 then Goto [] 324
           else Fail)
         else if 65 \<le> c then Goto [] 324
         else Fail)
       else Goto [] 302)"

definition hp_case_302 :: "bool \<Rightarrow> int \<Rightarrow> hp_action edge" where
  "hp_case_302 relaxed c =
     (if c = 46 then Goto [] 230
       else if c = 58 then Goto [] 306
       else if c = 93 then Goto [] 236
       else if c < 65 then (if 48 \<le> c \<and> c \<le> 57 then Goto [] 303
         else Fail)
       else if 70 < c then (if 97 \<le> c \<and> c \<le> 102 then Goto [] 303
         else Fail)
       else Goto [] 303)"

definition hp_case_303 :: "bool \<Rightarrow> int \<Rightarrow> hp_action edge" where
  "hp_case_303 relaxed c =
     (if c = 58 then Goto [] 306
       else if c = 93 then Goto [] 236
       else if c < 65 then (if 48 \<le> c \<and> c \<le> 57 then Goto [] 304
         else Fail)
       else if 70 < c then (if 97 \<le> c \<and> c \<le> 102 then Goto [] 304
         else Fail)
       else Goto [] 304)"

definition hp_case_304 :: "bool \<Rightarrow> int \<Rightarrow> hp_action edge" where
  "hp_case_304 relaxed c =
     (if c = 58 then Goto [] 306
       else if c = 93 then Goto [] 236
       else if c < 65 then (if 48 \<le> c \<and> c \<le> 57 then Goto [] 305
         else Fail)
       else if 70 < c then (if 97 \<le> c \<and> c \<le> 102 then Goto [] 305
         else Fail)
       else Goto [] 305)"

definition hp_case_305 :: "bool \<Rightarrow> int \<Rightarrow> hp_action edge" where
  "hp_case_305 relaxed c = (if c = 58 then Goto [] 306 else if c = 93 then Goto [] 236 else Fail)"

definition hp_case_306 :: "bool \<Rightarrow> int \<Rightarrow> hp_action edge" where
  "hp_case_306 relaxed c =
     (if c = 49 then Goto [] 311
       else if c = 50 then Goto [] 314
       else if c < 65 then (if 48 \<le> c \<and> c \<le> 57 then Goto [] 307
         else Fail)
       else if 70 < c then (if 97 \<le> c \<and> c \<le> 102 then Goto [] 317
         else Fail)
       else Goto [] 317)"

definition hp_case_307 :: "bool \<Rightarrow> int \<Rightarrow> hp_action edge" where
  "hp_case_307 relaxed c =
     (if c = 46 then Goto [] 230
       else if c = 58 then Goto [] 255
       else if c = 93 then Goto [] 236
       else if c < 65 then (if 48 \<le> c \<and> c \<le> 57 then Goto [] 308
         else Fail)
       else if 70 < c then (if 97 \<le> c \<and> c \<le> 102 then Goto [] 308
         else Fail)
       else Goto [] 308)"

definition hp_case_308 :: "bool \<Rightarrow> int \<Rightarrow> hp_action edge" where
  "hp_case_308 relaxed c =
     (if c = 58 then Goto [] 255
       else if c = 93 then Goto [] 236
       else if c < 65 then (if 48 \<le> c \<and> c \<le> 57 then Goto [] 309
         else Fail)
       else if 70 < c then (if 97 \<le> c \<and> c \<le> 102 then Goto [] 309
         else Fail)
       else Goto [] 309)"

definition hp_case_309 :: "bool \<Rightarrow> int \<Rightarrow> hp_action edge" where
  "hp_case_309 relaxed c =
     (if c = 58 then Goto [] 255
       else if c = 93 then Goto [] 236
       else if c < 65 then (if 48 \<le> c \<and> c \<le> 57 then Goto [] 310
         else Fail)
       else if 70 < c then (if 97 \<le> c \<and> c \<le> 102 then Goto [] 310
         else Fail)
       else Goto [] 310)"

definition hp_case_310 :: "bool \<Rightarrow> int \<Rightarrow> hp_action edge" where
  "hp_case_310 relaxed c = (if c = 58 then Goto [] 255 else if c = 93 then Goto [] 236 else Fail)"

definition hp_case_311 :: "bool \<Rightarrow> int \<Rightarrow> hp_action edge" where
  "hp_case_311 relaxed c =
     (if c = 46 then Goto [] 230
       else if c = 58 then Goto [] 255
       else if c = 93 then Goto [] 236
       else if c < 65 then (if 48 \<le> c \<and> c \<le> 57 then Goto [] 312
         else Fail)
       else if 70 < c then (if 97 \<le> c \<and> c \<le> 102 then Goto [] 308
         else Fail)
       else Goto [] 308)"

definition hp_case_312 :: "bool \<Rightarrow> int \<Rightarrow> hp_action edge" where
  "hp_case_312 relaxed c =
     (if c = 46 then Goto [] 230
       else if c = 58 then Goto [] 255
       else if c = 93 then Goto [] 236
       else if c < 65 then (if 48 \<le> c \<and> c \<le> 57 then Goto [] 313
         else Fail)
       else if 70 < c then (if 97 \<le> c \<and> c \<le> 102 then Goto [] 309
         else Fail)
       else Goto [] 309)"

definition hp_case_313 :: "bool \<Rightarrow> int \<Rightarrow> hp_action edge" where
  "hp_case_313 relaxed c =
     (if c = 46 then Goto [] 230
       else if c = 58 then Goto [] 255
       else if c = 93 then Goto [] 236
       else if c < 65 then (if 48 \<le> c \<and> c \<le> 57 then Goto [] 310
         else Fail)
       else if 70 < c then (if 97 \<le> c \<and> c \<le> 102 then Goto [] 310
         else Fail)
       else Goto [] 310)"

definition hp_case_314 :: "bool \<Rightarrow> int \<Rightarrow> hp_action edge" where
  "hp_case_314 relaxed c =
     (if c = 46 then Goto [] 230
       else if c = 48 then Goto [] 315
       else if c = 53 then Goto [] 316
       else if c = 58 then Goto [] 255
       else if c = 93 then Goto [] 236
       else if c < 65 then (if 49 \<le> c \<and> c \<le> 57 then Goto [] 308
         else Fail)
       else if 70 < c then (if 97 \<le> c \<and> c \<le> 102 then Goto [] 308
         else Fail)
       else Goto [] 308)"

definition hp_case_315 :: "bool \<Rightarrow> int \<Rightarrow> hp_action edge" where
  "hp_case_315 relaxed c =
     (if c = 58 then Goto [] 255
       else if c = 93 then Goto [] 236
       else if c < 65 then (if 48 \<le> c \<and> c \<le> 57 then Goto [] 313
         else Fail)
       else if 70 < c then (if 97 \<le> c \<and> c \<le> 102 then Goto [] 309
         else Fail)
       else Goto [] 309)"

definition hp_case_316 :: "bool \<Rightarrow> int \<Rightarrow> hp_action edge" where
  "hp_case_316 relaxed c =
     (if c = 48 then Goto [] 313
       else if c = 58 then Goto [] 255
       else if c = 93 then Goto [] 236
       else if c < 65 then (if 49 \<le> c \<and> c \<le> 57 then Goto [] 309
         else Fail)
       else if 70 < c then (if 97 \<le> c \<and> c \<le> 102 then Goto [] 309
         else Fail)
       else Goto [] 309)"

definition hp_case_317 :: "bool \<Rightarrow> int \<Rightarrow> hp_action edge" where
  "hp_case_317 relaxed c =
     (if c = 58 then Goto [] 255
       else if c = 93 then Goto [] 236
       else if c < 65 then (if 48 \<le> c \<and> c \<le> 57 then Goto [] 308
         else Fail)
       else if 70 < c then (if 97 \<le> c \<and> c \<le> 102 then Goto [] 308
         else Fail)
       else Goto [] 308)"

definition hp_case_318 :: "bool \<Rightarrow> int \<Rightarrow> hp_action edge" where
  "hp_case_318 relaxed c =
     (if c = 46 then Goto [] 230
       else if c = 58 then Goto [] 306
       else if c = 93 then Goto [] 236
       else if c < 65 then (if 48 \<le> c \<and> c \<le> 57 then Goto [] 319
         else Fail)
       else if 70 < c then (if 97 \<le> c \<and> c \<le> 102 then Goto [] 303
         else Fail)
       else Goto [] 303)"

definition hp_case_319 :: "bool \<Rightarrow> int \<Rightarrow> hp_action edge" where
  "hp_case_319 relaxed c =
     (if c = 46 then Goto [] 230
       else if c = 58 then Goto [] 306
       else if c = 93 then Goto [] 236
       else if c < 65 then (if 48 \<le> c \<and> c \<le> 57 then Goto [] 320
         else Fail)
       else if 70 < c then (if 97 \<le> c \<and> c \<le> 102 then Goto [] 304
         else Fail)
       else Goto [] 304)"

definition hp_case_320 :: "bool \<Rightarrow> int \<Rightarrow> hp_action edge" where
  "hp_case_320 relaxed c =
     (if c = 46 then Goto [] 230
       else if c = 58 then Goto [] 306
       else if c = 93 then Goto [] 236
       else if c < 65 then (if 48 \<le> c \<and> c \<le> 57 then Goto [] 305
         else Fail)
       else if 70 < c then (if 97 \<le> c \<and> c \<le> 102 then Goto [] 305
         else Fail)
       else Goto [] 305)"

definition hp_case_321 :: "bool \<Rightarrow> int \<Rightarrow> hp_action edge" where
  "hp_case_321 relaxed c =
     (if c = 46 then Goto [] 230
       else if c = 48 then Goto [] 322
       else if c = 53 then Goto [] 323
       else if c = 58 then Goto [] 306
       else if c = 93 then Goto [] 236
       else if c < 65 then (if 49 \<le> c \<and> c \<le> 57 then Goto [] 303
         else Fail)
       else if 70 < c then (if 97 \<le> c \<and> c \<le> 102 then Goto [] 303
         else Fail)
       else Goto [] 303)"

definition hp_case_322 :: "bool \<Rightarrow> int \<Rightarrow> hp_action edge" where
  "hp_case_322 relaxed c =
     (if c = 58 then Goto [] 306
       else if c = 93 then Goto [] 236
       else if c < 65 then (if 48 \<le> c \<and> c \<le> 57 then Goto [] 320
         else Fail)
       else if 70 < c then (if 97 \<le> c \<and> c \<le> 102 then Goto [] 304
         else Fail)
       else Goto [] 304)"

definition hp_case_323 :: "bool \<Rightarrow> int \<Rightarrow> hp_action edge" where
  "hp_case_323 relaxed c =
     (if c = 48 then Goto [] 320
       else if c = 58 then Goto [] 306
       else if c = 93 then Goto [] 236
       else if c < 65 then (if 49 \<le> c \<and> c \<le> 57 then Goto [] 304
         else Fail)
       else if 70 < c then (if 97 \<le> c \<and> c \<le> 102 then Goto [] 304
         else Fail)
       else Goto [] 304)"

definition hp_case_324 :: "bool \<Rightarrow> int \<Rightarrow> hp_action edge" where
  "hp_case_324 relaxed c =
     (if c = 58 then Goto [] 306
       else if c = 93 then Goto [] 236
       else if c < 65 then (if 48 \<le> c \<and> c \<le> 57 then Goto [] 303
         else Fail)
       else if 70 < c then (if 97 \<le> c \<and> c \<le> 102 then Goto [] 303
         else Fail)
       else Goto [] 303)"

definition hp_case_325 :: "bool \<Rightarrow> int \<Rightarrow> hp_action edge" where
  "hp_case_325 relaxed c =
     (if c = 49 then Goto [] 318
       else if c = 50 then Goto [] 321
       else if c < 48 then (if 2 \<le> c \<and> c \<le> 3 then Goto [] 223
         else Fail)
       else if 57 < c then (if 70 < c then (if 97 \<le> c \<and> c \<le> 102 then Goto [] 324
           else Fail)
         else if 65 \<le> c then Goto [] 324
         else Fail)
       else Goto [] 302)"

definition hp_case_326 :: "bool \<Rightarrow> int \<Rightarrow> hp_action edge" where
  "hp_case_326 relaxed c =
     (if c = 49 then Goto [] 331
       else if c = 50 then Goto [] 334
       else if c < 48 then (if 2 \<le> c \<and> c \<le> 3 then Goto [] 223
         else Fail)
       else if 57 < c then (if 70 < c then (if 97 \<le> c \<and> c \<le> 102 then Goto [] 337
           else Fail)
         else if 65 \<le> c then Goto [] 337
         else Fail)
       else Goto [] 327)"

definition hp_case_327 :: "bool \<Rightarrow> int \<Rightarrow> hp_action edge" where
  "hp_case_327 relaxed c =
     (if c = 46 then Goto [] 230
       else if c = 58 then Goto [] 306
       else if c < 65 then (if 48 \<le> c \<and> c \<le> 57 then Goto [] 328
         else Fail)
       else if 70 < c then (if 97 \<le> c \<and> c \<le> 102 then Goto [] 328
         else Fail)
       else Goto [] 328)"

definition hp_case_328 :: "bool \<Rightarrow> int \<Rightarrow> hp_action edge" where
  "hp_case_328 relaxed c =
     (if c = 58 then Goto [] 306
       else if c < 65 then (if 48 \<le> c \<and> c \<le> 57 then Goto [] 329
         else Fail)
       else if 70 < c then (if 97 \<le> c \<and> c \<le> 102 then Goto [] 329
         else Fail)
       else Goto [] 329)"

definition hp_case_329 :: "bool \<Rightarrow> int \<Rightarrow> hp_action edge" where
  "hp_case_329 relaxed c =
     (if c = 58 then Goto [] 306
       else if c < 65 then (if 48 \<le> c \<and> c \<le> 57 then Goto [] 330
         else Fail)
       else if 70 < c then (if 97 \<le> c \<and> c \<le> 102 then Goto [] 330
         else Fail)
       else Goto [] 330)"

definition hp_case_330 :: "bool \<Rightarrow> int \<Rightarrow> hp_action edge" where
  "hp_case_330 relaxed c = (if c = 58 then Goto [] 306 else Fail)"

definition hp_case_331 :: "bool \<Rightarrow> int \<Rightarrow> hp_action edge" where
  "hp_case_331 relaxed c =
     (if c = 46 then Goto [] 230
       else if c = 58 then Goto [] 306
       else if c < 65 then (if 48 \<le> c \<and> c \<le> 57 then Goto [] 332
         else Fail)
       else if 70 < c then (if 97 \<le> c \<and> c \<le> 102 then Goto [] 328
         else Fail)
       else Goto [] 328)"

definition hp_case_332 :: "bool \<Rightarrow> int \<Rightarrow> hp_action edge" where
  "hp_case_332 relaxed c =
     (if c = 46 then Goto [] 230
       else if c = 58 then Goto [] 306
       else if c < 65 then (if 48 \<le> c \<and> c \<le> 57 then Goto [] 333
         else Fail)
       else if 70 < c then (if 97 \<le> c \<and> c \<le> 102 then Goto [] 329
         else Fail)
       else Goto [] 329)"

definition hp_case_333 :: "bool \<Rightarrow> int \<Rightarrow> hp_action edge" where
  "hp_case_333 relaxed c =
     (if c = 46 then Goto [] 230
       else if c = 58 then Goto [] 306
       else if c < 65 then (if 48 \<le> c \<and> c \<le> 57 then Goto [] 330
         else Fail)
       else if 70 < c then (if 97 \<le> c \<and> c \<le> 102 then Goto [] 330
         else Fail)
       else Goto [] 330)"

definition hp_case_334 :: "bool \<Rightarrow> int \<Rightarrow> hp_action edge" where
  "hp_case_334 relaxed c =
     (if c = 46 then Goto [] 230
       else if c = 48 then Goto [] 335
       else if c = 53 then Goto [] 336
       else if c = 58 then Goto [] 306
       else if c < 65 then (if 49 \<le> c \<and> c \<le> 57 then Goto [] 328
         else Fail)
       else if 70 < c then (if 97 \<le> c \<and> c \<le> 102 then Goto [] 328
         else Fail)
       else Goto [] 328)"

definition hp_case_335 :: "bool \<Rightarrow> int \<Rightarrow> hp_action edge" where
  "hp_case_335 relaxed c =
     (if c = 58 then Goto [] 306
       else if c < 65 then (if 48 \<le> c \<and> c \<le> 57 then Goto [] 333
         else Fail)
       else if 70 < c then (if 97 \<le> c \<and> c \<le> 102 then Goto [] 329
         else Fail)
       else Goto [] 329)"

definition hp_case_336 :: "bool \<Rightarrow> int \<Rightarrow> hp_action edge" where
  "hp_case_336 relaxed c =
     (if c = 48 then Goto [] 333
       else if c = 58 then Goto [] 306
       else if c < 65 then (if 49 \<le> c \<and> c \<le> 57 then Goto [] 329
         else Fail)
       else if 70 < c then (if 97 \<le> c \<and> c \<le> 102 then Goto [] 329
         else Fail)
       else Goto [] 329)"

definition hp_case_337 :: "bool \<Rightarrow> int \<Rightarrow> hp_action edge" where
  "hp_case_337 relaxed c =
     (if c = 58 then Goto [] 306
       else if c < 65 then (if 48 \<le> c \<and> c \<le> 57 then Goto [] 328
         else Fail)
       else if 70 < c then (if 97 \<le> c \<and> c \<le> 102 then Goto [] 328
         else Fail)
       else Goto [] 328)"

definition hp_case_338 :: "bool \<Rightarrow> int \<Rightarrow> hp_action edge" where
  "hp_case_338 relaxed c =
     (if c < 48 then (if 2 \<le> c \<and> c \<le> 3 then Goto [] 223
         else Fail)
       else if 57 < c then (if 70 < c then (if 97 \<le> c \<and> c \<le> 102 then Goto [] 224
           else Fail)
         else if 65 \<le> c then Goto [] 224
         else Fail)
       else Goto [] 224)"

definition hp_case_339 :: "bool \<Rightarrow> int \<Rightarrow> hp_action edge" where
  "hp_case_339 relaxed c = (if 2 \<le> c \<and> c \<le> 3 then Goto [] 223 else Fail)"

definition hp_case_340 :: "bool \<Rightarrow> int \<Rightarrow> hp_action edge" where
  "hp_case_340 relaxed c = (if c = 3 then Goto [] 223 else Fail)"

definition hp_case_341 :: "bool \<Rightarrow> int \<Rightarrow> hp_action edge" where
  "hp_case_341 relaxed c = (if c = 4 then Goto [] 223 else Fail)"

definition hp_case_342 :: "bool \<Rightarrow> int \<Rightarrow> hp_action edge" where
  "hp_case_342 relaxed c = (if c = 58 then Goto [] 343 else Fail)"

definition hp_case_343 :: "bool \<Rightarrow> int \<Rightarrow> hp_action edge" where
  "hp_case_343 relaxed c =
     (if c = 49 then Goto [] 318
       else if c = 50 then Goto [] 321
       else if c = 93 then Goto [] 236
       else if c < 48 then (if 2 \<le> c \<and> c \<le> 5 then Goto [] 223
         else Fail)
       else if 57 < c then (if 70 < c then (if 97 \<le> c \<and> c \<le> 102 then Goto [] 324
           else Fail)
         else if 65 \<le> c then Goto [] 324
         else Fail)
       else Goto [] 302)"

definition hp_case_344 :: "bool \<Rightarrow> int \<Rightarrow> hp_action edge" where
  "hp_case_344 relaxed c =
     (if c < 65 then (if 48 \<le> c \<and> c \<le> 57 then Goto [] 345
         else Fail)
       else if 70 < c then (if 97 \<le> c \<and> c \<le> 102 then Goto [] 345
         else Fail)
       else Goto [] 345)"

definition hp_case_345 :: "bool \<Rightarrow> int \<Rightarrow> hp_action edge" where
  "hp_case_345 relaxed c =
     (if c = 46 then Goto [] 346
       else if c < 65 then (if 48 \<le> c \<and> c \<le> 57 then Goto [] 345
         else Fail)
       else if 70 < c then (if 97 \<le> c \<and> c \<le> 102 then Goto [] 345
         else Fail)
       else Goto [] 345)"

definition hp_case_346 :: "bool \<Rightarrow> int \<Rightarrow> hp_action edge" where
  "hp_case_346 relaxed c =
     (let w = hp_widec relaxed c
       in if w = 33 \<or> w = 36 \<or> w = 61 \<or> w = 95 \<or> w = 126 \<or> w = 606 \<or> w =
           635 \<or> w = 637 then Goto [] 347
       else if w < 48 then (if 38 \<le> w \<and> w \<le> 46 then Goto [] 347
         else Fail)
       else if 59 < w then (if 90 < w then (if 97 \<le> w \<and> w \<le> 122 then Goto [] 347
           else Fail)
         else if 65 \<le> w then Goto [] 347
         else Fail)
       else Goto [] 347)"

definition hp_case_347 :: "bool \<Rightarrow> int \<Rightarrow> hp_action edge" where
  "hp_case_347 relaxed c =
     (let w = hp_widec relaxed c
       in if w = 33 \<or> w = 36 \<or> w = 61 \<or> w = 95 \<or> w = 126 \<or> w = 606 \<or> w =
           635 \<or> w = 637 then Goto [] 347
       else if w = 93 then Goto [] 236
       else if w < 48 then (if 38 \<le> w \<and> w \<le> 46 then Goto [] 347
         else Fail)
       else if 59 < w then (if 90 < w then (if 97 \<le> w \<and> w \<le> 122 then Goto [] 347
           else Fail)
         else if 65 \<le> w then Goto [] 347
         else Fail)
       else Goto [] 347)"

definition hp_case_348 :: "bool \<Rightarrow> int \<Rightarrow> hp_action edge" where
  "hp_case_348 relaxed c =
     (if c = 33 \<or> c = 124 \<or> c = 126 then Goto [] 14
       else if c = 58 then hp_tr27
       else if c < 42 then (if c < 10 then (if 1 \<le> c \<and> c \<le> 8 then Goto [] 14
           else Fail)
         else if 31 < c then (if 35 \<le> c \<and> c \<le> 39 then Goto [] 14
           else Fail)
         else Goto [] 14)
       else if 43 < c then (if c < 48 then (if 45 \<le> c \<and> c \<le> 46 then Goto [] 14
           else Fail)
         else if 57 < c then (if 90 < c then (if 94 \<le> c \<and> c \<le> 122 then Goto [] 14
             else Fail)
           else if 65 \<le> c then Goto [] 14
           else Fail)
         else Goto [] 14)
       else Goto [] 14)"

definition hp_case_349 :: "bool \<Rightarrow> int \<Rightarrow> hp_action edge" where
  "hp_case_349 relaxed c = Fail"

section \<open>The switch\<close>

definition hp_switch :: "nat \<Rightarrow> bool \<Rightarrow> int \<Rightarrow> hp_action edge" where
  "hp_switch cs = (if cs < 175 then (if cs < 88 then (if cs < 44 then (if cs < 22 then (if cs < 11 then (if cs
    < 6 then (if cs < 3 then (if cs < 2 then (if cs = 1 then hp_case_1 else (\<lambda>_ _.
    Fail)) else (if cs = 2 then hp_case_2 else (\<lambda>_ _. Fail))) else (if cs < 4 then (if
    cs = 3 then hp_case_3 else (\<lambda>_ _. Fail)) else (if cs < 5 then (if cs = 4 then
    hp_case_4 else (\<lambda>_ _. Fail)) else (if cs = 5 then hp_case_5 else (\<lambda>_ _.
    Fail))))) else (if cs < 8 then (if cs < 7 then (if cs = 6 then hp_case_6 else (\<lambda>_ _.
    Fail)) else (if cs = 7 then hp_case_7 else (\<lambda>_ _. Fail))) else (if cs < 9 then (if
    cs = 8 then hp_case_8 else (\<lambda>_ _. Fail)) else (if cs < 10 then (if cs = 9 then
    hp_case_9 else (\<lambda>_ _. Fail)) else (if cs = 10 then hp_case_10 else (\<lambda>_ _.
    Fail)))))) else (if cs < 16 then (if cs < 13 then (if cs < 12 then (if cs = 11 then
    hp_case_11 else (\<lambda>_ _. Fail)) else (if cs = 12 then hp_case_12 else (\<lambda>_ _.
    Fail))) else (if cs < 14 then (if cs = 13 then hp_case_13 else (\<lambda>_ _. Fail)) else
    (if cs < 15 then (if cs = 14 then hp_case_14 else (\<lambda>_ _. Fail)) else (if cs = 15
    then hp_case_15 else (\<lambda>_ _. Fail))))) else (if cs < 19 then (if cs < 17 then (if cs
    = 16 then hp_case_16 else (\<lambda>_ _. Fail)) else (if cs < 18 then (if cs = 17 then
    hp_case_17 else (\<lambda>_ _. Fail)) else (if cs = 18 then hp_case_18 else (\<lambda>_ _.
    Fail)))) else (if cs < 20 then (if cs = 19 then hp_case_19 else (\<lambda>_ _. Fail)) else
    (if cs < 21 then (if cs = 20 then hp_case_20 else (\<lambda>_ _. Fail)) else (if cs = 21
    then hp_case_21 else (\<lambda>_ _. Fail))))))) else (if cs < 33 then (if cs < 27 then (if
    cs < 24 then (if cs < 23 then (if cs = 22 then hp_case_22 else (\<lambda>_ _. Fail)) else
    (if cs = 23 then hp_case_23 else (\<lambda>_ _. Fail))) else (if cs < 25 then (if cs = 24
    then hp_case_24 else (\<lambda>_ _. Fail)) else (if cs < 26 then (if cs = 25 then hp_case_25
    else (\<lambda>_ _. Fail)) else (if cs = 26 then hp_case_26 else (\<lambda>_ _. Fail)))))
    else (if cs < 30 then (if cs < 28 then (if cs = 27 then hp_case_27 else (\<lambda>_ _.
    Fail)) else (if cs < 29 then (if cs = 28 then hp_case_28 else (\<lambda>_ _. Fail)) else (if
    cs = 29 then hp_case_29 else (\<lambda>_ _. Fail)))) else (if cs < 31 then (if cs = 30 then
    hp_case_30 else (\<lambda>_ _. Fail)) else (if cs < 32 then (if cs = 31 then hp_case_31 else
    (\<lambda>_ _. Fail)) else (if cs = 32 then hp_case_32 else (\<lambda>_ _. Fail)))))) else
    (if cs < 38 then (if cs < 35 then (if cs < 34 then (if cs = 33 then hp_case_33 else
    (\<lambda>_ _. Fail)) else (if cs = 34 then hp_case_34 else (\<lambda>_ _. Fail))) else (if
    cs < 36 then (if cs = 35 then hp_case_35 else (\<lambda>_ _. Fail)) else (if cs < 37 then
    (if cs = 36 then hp_case_36 else (\<lambda>_ _. Fail)) else (if cs = 37 then hp_case_37 else
    (\<lambda>_ _. Fail))))) else (if cs < 41 then (if cs < 39 then (if cs = 38 then hp_case_38
    else (\<lambda>_ _. Fail)) else (if cs < 40 then (if cs = 39 then hp_case_39 else
    (\<lambda>_ _. Fail)) else (if cs = 40 then hp_case_40 else (\<lambda>_ _. Fail)))) else (if
    cs < 42 then (if cs = 41 then hp_case_41 else (\<lambda>_ _. Fail)) else (if cs < 43 then
    (if cs = 42 then hp_case_42 else (\<lambda>_ _. Fail)) else (if cs = 43 then hp_case_43 else
    (\<lambda>_ _. Fail)))))))) else (if cs < 66 then (if cs < 55 then (if cs < 49 then (if cs <
    46 then (if cs < 45 then (if cs = 44 then hp_case_44 else (\<lambda>_ _. Fail)) else (if cs
    = 45 then hp_case_45 else (\<lambda>_ _. Fail))) else (if cs < 47 then (if cs = 46 then
    hp_case_46 else (\<lambda>_ _. Fail)) else (if cs < 48 then (if cs = 47 then hp_case_47 else
    (\<lambda>_ _. Fail)) else (if cs = 48 then hp_case_48 else (\<lambda>_ _. Fail))))) else
    (if cs < 52 then (if cs < 50 then (if cs = 49 then hp_case_49 else (\<lambda>_ _. Fail))
    else (if cs < 51 then (if cs = 50 then hp_case_50 else (\<lambda>_ _. Fail)) else (if cs =
    51 then hp_case_51 else (\<lambda>_ _. Fail)))) else (if cs < 53 then (if cs = 52 then
    hp_case_52 else (\<lambda>_ _. Fail)) else (if cs < 54 then (if cs = 53 then hp_case_53 else
    (\<lambda>_ _. Fail)) else (if cs = 54 then hp_case_54 else (\<lambda>_ _. Fail)))))) else
    (if cs < 60 then (if cs < 57 then (if cs < 56 then (if cs = 55 then hp_case_55 else
    (\<lambda>_ _. Fail)) else (if cs = 56 then hp_case_56 else (\<lambda>_ _. Fail))) else (if
    cs < 58 then (if cs = 57 then hp_case_57 else (\<lambda>_ _. Fail)) else (if cs < 59 then
    (if cs = 58 then hp_case_58 else (\<lambda>_ _. Fail)) else (if cs = 59 then hp_case_59 else
    (\<lambda>_ _. Fail))))) else (if cs < 63 then (if cs < 61 then (if cs = 60 then hp_case_60
    else (\<lambda>_ _. Fail)) else (if cs < 62 then (if cs = 61 then hp_case_61 else
    (\<lambda>_ _. Fail)) else (if cs = 62 then hp_case_62 else (\<lambda>_ _. Fail)))) else (if
    cs < 64 then (if cs = 63 then hp_case_63 else (\<lambda>_ _. Fail)) else (if cs < 65 then
    (if cs = 64 then hp_case_64 else (\<lambda>_ _. Fail)) else (if cs = 65 then hp_case_65 else
    (\<lambda>_ _. Fail))))))) else (if cs < 77 then (if cs < 71 then (if cs < 68 then (if cs <
    67 then (if cs = 66 then hp_case_66 else (\<lambda>_ _. Fail)) else (if cs = 67 then
    hp_case_67 else (\<lambda>_ _. Fail))) else (if cs < 69 then (if cs = 68 then hp_case_68
    else (\<lambda>_ _. Fail)) else (if cs < 70 then (if cs = 69 then hp_case_69 else
    (\<lambda>_ _. Fail)) else (if cs = 70 then hp_case_70 else (\<lambda>_ _. Fail))))) else
    (if cs < 74 then (if cs < 72 then (if cs = 71 then hp_case_71 else (\<lambda>_ _. Fail))
    else (if cs < 73 then (if cs = 72 then hp_case_72 else (\<lambda>_ _. Fail)) else (if cs =
    73 then hp_case_73 else (\<lambda>_ _. Fail)))) else (if cs < 75 then (if cs = 74 then
    hp_case_74 else (\<lambda>_ _. Fail)) else (if cs < 76 then (if cs = 75 then hp_case_75 else
    (\<lambda>_ _. Fail)) else (if cs = 76 then hp_case_76 else (\<lambda>_ _. Fail)))))) else
    (if cs < 82 then (if cs < 79 then (if cs < 78 then (if cs = 77 then hp_case_77 else
    (\<lambda>_ _. Fail)) else (if cs = 78 then hp_case_78 else (\<lambda>_ _. Fail))) else (if
    cs < 80 then (if cs = 79 then hp_case_79 else (\<lambda>_ _. Fail)) else (if cs < 81 then
    (if cs = 80 then hp_case_80 else (\<lambda>_ _. Fail)) else (if cs = 81 then hp_case_81 else
    (\<lambda>_ _. Fail))))) else (if cs < 85 then (if cs < 83 then (if cs = 82 then hp_case_82
    else (\<lambda>_ _. Fail)) else (if cs < 84 then (if cs = 83 then hp_case_83 else
    (\<lambda>_ _. Fail)) else (if cs = 84 then hp_case_84 else (\<lambda>_ _. Fail)))) else (if
    cs < 86 then (if cs = 85 then hp_case_85 else (\<lambda>_ _. Fail)) else (if cs < 87 then
    (if cs = 86 then hp_case_86 else (\<lambda>_ _. Fail)) else (if cs = 87 then hp_case_87 else
    (\<lambda>_ _. Fail))))))))) else (if cs < 131 then (if cs < 109 then (if cs < 98 then (if
    cs < 93 then (if cs < 90 then (if cs < 89 then (if cs = 88 then hp_case_88 else (\<lambda>_
    _. Fail)) else (if cs = 89 then hp_case_89 else (\<lambda>_ _. Fail))) else (if cs < 91 then
    (if cs = 90 then hp_case_90 else (\<lambda>_ _. Fail)) else (if cs < 92 then (if cs = 91
    then hp_case_91 else (\<lambda>_ _. Fail)) else (if cs = 92 then hp_case_92 else (\<lambda>_
    _. Fail))))) else (if cs < 95 then (if cs < 94 then (if cs = 93 then hp_case_93 else
    (\<lambda>_ _. Fail)) else (if cs = 94 then hp_case_94 else (\<lambda>_ _. Fail))) else (if
    cs < 96 then (if cs = 95 then hp_case_95 else (\<lambda>_ _. Fail)) else (if cs < 97 then
    (if cs = 96 then hp_case_96 else (\<lambda>_ _. Fail)) else (if cs = 97 then hp_case_97 else
    (\<lambda>_ _. Fail)))))) else (if cs < 103 then (if cs < 100 then (if cs < 99 then (if cs =
    98 then hp_case_98 else (\<lambda>_ _. Fail)) else (if cs = 99 then hp_case_99 else
    (\<lambda>_ _. Fail))) else (if cs < 101 then (if cs = 100 then hp_case_100 else (\<lambda>_
    _. Fail)) else (if cs < 102 then (if cs = 101 then hp_case_101 else (\<lambda>_ _. Fail))
    else (if cs = 102 then hp_case_102 else (\<lambda>_ _. Fail))))) else (if cs < 106 then (if
    cs < 104 then (if cs = 103 then hp_case_103 else (\<lambda>_ _. Fail)) else (if cs < 105
    then (if cs = 104 then hp_case_104 else (\<lambda>_ _. Fail)) else (if cs = 105 then
    hp_case_105 else (\<lambda>_ _. Fail)))) else (if cs < 107 then (if cs = 106 then
    hp_case_106 else (\<lambda>_ _. Fail)) else (if cs < 108 then (if cs = 107 then hp_case_107
    else (\<lambda>_ _. Fail)) else (if cs = 108 then hp_case_108 else (\<lambda>_ _.
    Fail))))))) else (if cs < 120 then (if cs < 114 then (if cs < 111 then (if cs < 110 then (if
    cs = 109 then hp_case_109 else (\<lambda>_ _. Fail)) else (if cs = 110 then hp_case_110 else
    (\<lambda>_ _. Fail))) else (if cs < 112 then (if cs = 111 then hp_case_111 else (\<lambda>_
    _. Fail)) else (if cs < 113 then (if cs = 112 then hp_case_112 else (\<lambda>_ _. Fail))
    else (if cs = 113 then hp_case_113 else (\<lambda>_ _. Fail))))) else (if cs < 117 then (if
    cs < 115 then (if cs = 114 then hp_case_114 else (\<lambda>_ _. Fail)) else (if cs < 116
    then (if cs = 115 then hp_case_115 else (\<lambda>_ _. Fail)) else (if cs = 116 then
    hp_case_116 else (\<lambda>_ _. Fail)))) else (if cs < 118 then (if cs = 117 then
    hp_case_117 else (\<lambda>_ _. Fail)) else (if cs < 119 then (if cs = 118 then hp_case_118
    else (\<lambda>_ _. Fail)) else (if cs = 119 then hp_case_119 else (\<lambda>_ _. Fail))))))
    else (if cs < 125 then (if cs < 122 then (if cs < 121 then (if cs = 120 then hp_case_120
    else (\<lambda>_ _. Fail)) else (if cs = 121 then hp_case_121 else (\<lambda>_ _. Fail)))
    else (if cs < 123 then (if cs = 122 then hp_case_122 else (\<lambda>_ _. Fail)) else (if cs
    < 124 then (if cs = 123 then hp_case_123 else (\<lambda>_ _. Fail)) else (if cs = 124 then
    hp_case_124 else (\<lambda>_ _. Fail))))) else (if cs < 128 then (if cs < 126 then (if cs =
    125 then hp_case_125 else (\<lambda>_ _. Fail)) else (if cs < 127 then (if cs = 126 then
    hp_case_126 else (\<lambda>_ _. Fail)) else (if cs = 127 then hp_case_127 else (\<lambda>_
    _. Fail)))) else (if cs < 129 then (if cs = 128 then hp_case_128 else (\<lambda>_ _. Fail))
    else (if cs < 130 then (if cs = 129 then hp_case_129 else (\<lambda>_ _. Fail)) else (if cs
    = 130 then hp_case_130 else (\<lambda>_ _. Fail)))))))) else (if cs < 153 then (if cs < 142
    then (if cs < 136 then (if cs < 133 then (if cs < 132 then (if cs = 131 then hp_case_131
    else (\<lambda>_ _. Fail)) else (if cs = 132 then hp_case_132 else (\<lambda>_ _. Fail)))
    else (if cs < 134 then (if cs = 133 then hp_case_133 else (\<lambda>_ _. Fail)) else (if cs
    < 135 then (if cs = 134 then hp_case_134 else (\<lambda>_ _. Fail)) else (if cs = 135 then
    hp_case_135 else (\<lambda>_ _. Fail))))) else (if cs < 139 then (if cs < 137 then (if cs =
    136 then hp_case_136 else (\<lambda>_ _. Fail)) else (if cs < 138 then (if cs = 137 then
    hp_case_137 else (\<lambda>_ _. Fail)) else (if cs = 138 then hp_case_138 else (\<lambda>_
    _. Fail)))) else (if cs < 140 then (if cs = 139 then hp_case_139 else (\<lambda>_ _. Fail))
    else (if cs < 141 then (if cs = 140 then hp_case_140 else (\<lambda>_ _. Fail)) else (if cs
    = 141 then hp_case_141 else (\<lambda>_ _. Fail)))))) else (if cs < 147 then (if cs < 144
    then (if cs < 143 then (if cs = 142 then hp_case_142 else (\<lambda>_ _. Fail)) else (if cs
    = 143 then hp_case_143 else (\<lambda>_ _. Fail))) else (if cs < 145 then (if cs = 144 then
    hp_case_144 else (\<lambda>_ _. Fail)) else (if cs < 146 then (if cs = 145 then hp_case_145
    else (\<lambda>_ _. Fail)) else (if cs = 146 then hp_case_146 else (\<lambda>_ _. Fail)))))
    else (if cs < 150 then (if cs < 148 then (if cs = 147 then hp_case_147 else (\<lambda>_ _.
    Fail)) else (if cs < 149 then (if cs = 148 then hp_case_148 else (\<lambda>_ _. Fail)) else
    (if cs = 149 then hp_case_149 else (\<lambda>_ _. Fail)))) else (if cs < 151 then (if cs =
    150 then hp_case_150 else (\<lambda>_ _. Fail)) else (if cs < 152 then (if cs = 151 then
    hp_case_151 else (\<lambda>_ _. Fail)) else (if cs = 152 then hp_case_152 else (\<lambda>_
    _. Fail))))))) else (if cs < 164 then (if cs < 158 then (if cs < 155 then (if cs < 154 then
    (if cs = 153 then hp_case_153 else (\<lambda>_ _. Fail)) else (if cs = 154 then hp_case_154
    else (\<lambda>_ _. Fail))) else (if cs < 156 then (if cs = 155 then hp_case_155 else
    (\<lambda>_ _. Fail)) else (if cs < 157 then (if cs = 156 then hp_case_156 else (\<lambda>_
    _. Fail)) else (if cs = 157 then hp_case_157 else (\<lambda>_ _. Fail))))) else (if cs < 161
    then (if cs < 159 then (if cs = 158 then hp_case_158 else (\<lambda>_ _. Fail)) else (if cs
    < 160 then (if cs = 159 then hp_case_159 else (\<lambda>_ _. Fail)) else (if cs = 160 then
    hp_case_160 else (\<lambda>_ _. Fail)))) else (if cs < 162 then (if cs = 161 then
    hp_case_161 else (\<lambda>_ _. Fail)) else (if cs < 163 then (if cs = 162 then hp_case_162
    else (\<lambda>_ _. Fail)) else (if cs = 163 then hp_case_163 else (\<lambda>_ _. Fail))))))
    else (if cs < 169 then (if cs < 166 then (if cs < 165 then (if cs = 164 then hp_case_164
    else (\<lambda>_ _. Fail)) else (if cs = 165 then hp_case_165 else (\<lambda>_ _. Fail)))
    else (if cs < 167 then (if cs = 166 then hp_case_166 else (\<lambda>_ _. Fail)) else (if cs
    < 168 then (if cs = 167 then hp_case_167 else (\<lambda>_ _. Fail)) else (if cs = 168 then
    hp_case_168 else (\<lambda>_ _. Fail))))) else (if cs < 172 then (if cs < 170 then (if cs =
    169 then hp_case_169 else (\<lambda>_ _. Fail)) else (if cs < 171 then (if cs = 170 then
    hp_case_170 else (\<lambda>_ _. Fail)) else (if cs = 171 then hp_case_171 else (\<lambda>_
    _. Fail)))) else (if cs < 173 then (if cs = 172 then hp_case_172 else (\<lambda>_ _. Fail))
    else (if cs < 174 then (if cs = 173 then hp_case_173 else (\<lambda>_ _. Fail)) else (if cs
    = 174 then hp_case_174 else (\<lambda>_ _. Fail)))))))))) else (if cs < 262 then (if cs <
    218 then (if cs < 196 then (if cs < 185 then (if cs < 180 then (if cs < 177 then (if cs <
    176 then (if cs = 175 then hp_case_175 else (\<lambda>_ _. Fail)) else (if cs = 176 then
    hp_case_176 else (\<lambda>_ _. Fail))) else (if cs < 178 then (if cs = 177 then hp_case_177
    else (\<lambda>_ _. Fail)) else (if cs < 179 then (if cs = 178 then hp_case_178 else
    (\<lambda>_ _. Fail)) else (if cs = 179 then hp_case_179 else (\<lambda>_ _. Fail))))) else
    (if cs < 182 then (if cs < 181 then (if cs = 180 then hp_case_180 else (\<lambda>_ _. Fail))
    else (if cs = 181 then hp_case_181 else (\<lambda>_ _. Fail))) else (if cs < 183 then (if cs
    = 182 then hp_case_182 else (\<lambda>_ _. Fail)) else (if cs < 184 then (if cs = 183 then
    hp_case_183 else (\<lambda>_ _. Fail)) else (if cs = 184 then hp_case_184 else (\<lambda>_
    _. Fail)))))) else (if cs < 190 then (if cs < 187 then (if cs < 186 then (if cs = 185 then
    hp_case_185 else (\<lambda>_ _. Fail)) else (if cs = 186 then hp_case_186 else (\<lambda>_
    _. Fail))) else (if cs < 188 then (if cs = 187 then hp_case_187 else (\<lambda>_ _. Fail))
    else (if cs < 189 then (if cs = 188 then hp_case_188 else (\<lambda>_ _. Fail)) else (if cs
    = 189 then hp_case_189 else (\<lambda>_ _. Fail))))) else (if cs < 193 then (if cs < 191
    then (if cs = 190 then hp_case_190 else (\<lambda>_ _. Fail)) else (if cs < 192 then (if cs
    = 191 then hp_case_191 else (\<lambda>_ _. Fail)) else (if cs = 192 then hp_case_192 else
    (\<lambda>_ _. Fail)))) else (if cs < 194 then (if cs = 193 then hp_case_193 else
    (\<lambda>_ _. Fail)) else (if cs < 195 then (if cs = 194 then hp_case_194 else (\<lambda>_
    _. Fail)) else (if cs = 195 then hp_case_195 else (\<lambda>_ _. Fail))))))) else (if cs <
    207 then (if cs < 201 then (if cs < 198 then (if cs < 197 then (if cs = 196 then hp_case_196
    else (\<lambda>_ _. Fail)) else (if cs = 197 then hp_case_197 else (\<lambda>_ _. Fail)))
    else (if cs < 199 then (if cs = 198 then hp_case_198 else (\<lambda>_ _. Fail)) else (if cs
    < 200 then (if cs = 199 then hp_case_199 else (\<lambda>_ _. Fail)) else (if cs = 200 then
    hp_case_200 else (\<lambda>_ _. Fail))))) else (if cs < 204 then (if cs < 202 then (if cs =
    201 then hp_case_201 else (\<lambda>_ _. Fail)) else (if cs < 203 then (if cs = 202 then
    hp_case_202 else (\<lambda>_ _. Fail)) else (if cs = 203 then hp_case_203 else (\<lambda>_
    _. Fail)))) else (if cs < 205 then (if cs = 204 then hp_case_204 else (\<lambda>_ _. Fail))
    else (if cs < 206 then (if cs = 205 then hp_case_205 else (\<lambda>_ _. Fail)) else (if cs
    = 206 then hp_case_206 else (\<lambda>_ _. Fail)))))) else (if cs < 212 then (if cs < 209
    then (if cs < 208 then (if cs = 207 then hp_case_207 else (\<lambda>_ _. Fail)) else (if cs
    = 208 then hp_case_208 else (\<lambda>_ _. Fail))) else (if cs < 210 then (if cs = 209 then
    hp_case_209 else (\<lambda>_ _. Fail)) else (if cs < 211 then (if cs = 210 then hp_case_210
    else (\<lambda>_ _. Fail)) else (if cs = 211 then hp_case_211 else (\<lambda>_ _. Fail)))))
    else (if cs < 215 then (if cs < 213 then (if cs = 212 then hp_case_212 else (\<lambda>_ _.
    Fail)) else (if cs < 214 then (if cs = 213 then hp_case_213 else (\<lambda>_ _. Fail)) else
    (if cs = 214 then hp_case_214 else (\<lambda>_ _. Fail)))) else (if cs < 216 then (if cs =
    215 then hp_case_215 else (\<lambda>_ _. Fail)) else (if cs < 217 then (if cs = 216 then
    hp_case_216 else (\<lambda>_ _. Fail)) else (if cs = 217 then hp_case_217 else (\<lambda>_
    _. Fail)))))))) else (if cs < 240 then (if cs < 229 then (if cs < 223 then (if cs < 220 then
    (if cs < 219 then (if cs = 218 then hp_case_218 else (\<lambda>_ _. Fail)) else (if cs = 219
    then hp_case_219 else (\<lambda>_ _. Fail))) else (if cs < 221 then (if cs = 220 then
    hp_case_220 else (\<lambda>_ _. Fail)) else (if cs < 222 then (if cs = 221 then hp_case_221
    else (\<lambda>_ _. Fail)) else (if cs = 222 then hp_case_222 else (\<lambda>_ _. Fail)))))
    else (if cs < 226 then (if cs < 224 then (if cs = 223 then hp_case_223 else (\<lambda>_ _.
    Fail)) else (if cs < 225 then (if cs = 224 then hp_case_224 else (\<lambda>_ _. Fail)) else
    (if cs = 225 then hp_case_225 else (\<lambda>_ _. Fail)))) else (if cs < 227 then (if cs =
    226 then hp_case_226 else (\<lambda>_ _. Fail)) else (if cs < 228 then (if cs = 227 then
    hp_case_227 else (\<lambda>_ _. Fail)) else (if cs = 228 then hp_case_228 else (\<lambda>_
    _. Fail)))))) else (if cs < 234 then (if cs < 231 then (if cs < 230 then (if cs = 229 then
    hp_case_229 else (\<lambda>_ _. Fail)) else (if cs = 230 then hp_case_230 else (\<lambda>_
    _. Fail))) else (if cs < 232 then (if cs = 231 then hp_case_231 else (\<lambda>_ _. Fail))
    else (if cs < 233 then (if cs = 232 then hp_case_232 else (\<lambda>_ _. Fail)) else (if cs
    = 233 then hp_case_233 else (\<lambda>_ _. Fail))))) else (if cs < 237 then (if cs < 235
    then (if cs = 234 then hp_case_234 else (\<lambda>_ _. Fail)) else (if cs < 236 then (if cs
    = 235 then hp_case_235 else (\<lambda>_ _. Fail)) else (if cs = 236 then hp_case_236 else
    (\<lambda>_ _. Fail)))) else (if cs < 238 then (if cs = 237 then hp_case_237 else
    (\<lambda>_ _. Fail)) else (if cs < 239 then (if cs = 238 then hp_case_238 else (\<lambda>_
    _. Fail)) else (if cs = 239 then hp_case_239 else (\<lambda>_ _. Fail))))))) else (if cs <
    251 then (if cs < 245 then (if cs < 242 then (if cs < 241 then (if cs = 240 then hp_case_240
    else (\<lambda>_ _. Fail)) else (if cs = 241 then hp_case_241 else (\<lambda>_ _. Fail)))
    else (if cs < 243 then (if cs = 242 then hp_case_242 else (\<lambda>_ _. Fail)) else (if cs
    < 244 then (if cs = 243 then hp_case_243 else (\<lambda>_ _. Fail)) else (if cs = 244 then
    hp_case_244 else (\<lambda>_ _. Fail))))) else (if cs < 248 then (if cs < 246 then (if cs =
    245 then hp_case_245 else (\<lambda>_ _. Fail)) else (if cs < 247 then (if cs = 246 then
    hp_case_246 else (\<lambda>_ _. Fail)) else (if cs = 247 then hp_case_247 else (\<lambda>_
    _. Fail)))) else (if cs < 249 then (if cs = 248 then hp_case_248 else (\<lambda>_ _. Fail))
    else (if cs < 250 then (if cs = 249 then hp_case_249 else (\<lambda>_ _. Fail)) else (if cs
    = 250 then hp_case_250 else (\<lambda>_ _. Fail)))))) else (if cs < 256 then (if cs < 253
    then (if cs < 252 then (if cs = 251 then hp_case_251 else (\<lambda>_ _. Fail)) else (if cs
    = 252 then hp_case_252 else (\<lambda>_ _. Fail))) else (if cs < 254 then (if cs = 253 then
    hp_case_253 else (\<lambda>_ _. Fail)) else (if cs < 255 then (if cs = 254 then hp_case_254
    else (\<lambda>_ _. Fail)) else (if cs = 255 then hp_case_255 else (\<lambda>_ _. Fail)))))
    else (if cs < 259 then (if cs < 257 then (if cs = 256 then hp_case_256 else (\<lambda>_ _.
    Fail)) else (if cs < 258 then (if cs = 257 then hp_case_257 else (\<lambda>_ _. Fail)) else
    (if cs = 258 then hp_case_258 else (\<lambda>_ _. Fail)))) else (if cs < 260 then (if cs =
    259 then hp_case_259 else (\<lambda>_ _. Fail)) else (if cs < 261 then (if cs = 260 then
    hp_case_260 else (\<lambda>_ _. Fail)) else (if cs = 261 then hp_case_261 else (\<lambda>_
    _. Fail))))))))) else (if cs < 306 then (if cs < 284 then (if cs < 273 then (if cs < 267
    then (if cs < 264 then (if cs < 263 then (if cs = 262 then hp_case_262 else (\<lambda>_ _.
    Fail)) else (if cs = 263 then hp_case_263 else (\<lambda>_ _. Fail))) else (if cs < 265 then
    (if cs = 264 then hp_case_264 else (\<lambda>_ _. Fail)) else (if cs < 266 then (if cs = 265
    then hp_case_265 else (\<lambda>_ _. Fail)) else (if cs = 266 then hp_case_266 else
    (\<lambda>_ _. Fail))))) else (if cs < 270 then (if cs < 268 then (if cs = 267 then
    hp_case_267 else (\<lambda>_ _. Fail)) else (if cs < 269 then (if cs = 268 then hp_case_268
    else (\<lambda>_ _. Fail)) else (if cs = 269 then hp_case_269 else (\<lambda>_ _. Fail))))
    else (if cs < 271 then (if cs = 270 then hp_case_270 else (\<lambda>_ _. Fail)) else (if cs
    < 272 then (if cs = 271 then hp_case_271 else (\<lambda>_ _. Fail)) else (if cs = 272 then
    hp_case_272 else (\<lambda>_ _. Fail)))))) else (if cs < 278 then (if cs < 275 then (if cs <
    274 then (if cs = 273 then hp_case_273 else (\<lambda>_ _. Fail)) else (if cs = 274 then
    hp_case_274 else (\<lambda>_ _. Fail))) else (if cs < 276 then (if cs = 275 then hp_case_275
    else (\<lambda>_ _. Fail)) else (if cs < 277 then (if cs = 276 then hp_case_276 else
    (\<lambda>_ _. Fail)) else (if cs = 277 then hp_case_277 else (\<lambda>_ _. Fail))))) else
    (if cs < 281 then (if cs < 279 then (if cs = 278 then hp_case_278 else (\<lambda>_ _. Fail))
    else (if cs < 280 then (if cs = 279 then hp_case_279 else (\<lambda>_ _. Fail)) else (if cs
    = 280 then hp_case_280 else (\<lambda>_ _. Fail)))) else (if cs < 282 then (if cs = 281 then
    hp_case_281 else (\<lambda>_ _. Fail)) else (if cs < 283 then (if cs = 282 then hp_case_282
    else (\<lambda>_ _. Fail)) else (if cs = 283 then hp_case_283 else (\<lambda>_ _.
    Fail))))))) else (if cs < 295 then (if cs < 289 then (if cs < 286 then (if cs < 285 then (if
    cs = 284 then hp_case_284 else (\<lambda>_ _. Fail)) else (if cs = 285 then hp_case_285 else
    (\<lambda>_ _. Fail))) else (if cs < 287 then (if cs = 286 then hp_case_286 else (\<lambda>_
    _. Fail)) else (if cs < 288 then (if cs = 287 then hp_case_287 else (\<lambda>_ _. Fail))
    else (if cs = 288 then hp_case_288 else (\<lambda>_ _. Fail))))) else (if cs < 292 then (if
    cs < 290 then (if cs = 289 then hp_case_289 else (\<lambda>_ _. Fail)) else (if cs < 291
    then (if cs = 290 then hp_case_290 else (\<lambda>_ _. Fail)) else (if cs = 291 then
    hp_case_291 else (\<lambda>_ _. Fail)))) else (if cs < 293 then (if cs = 292 then
    hp_case_292 else (\<lambda>_ _. Fail)) else (if cs < 294 then (if cs = 293 then hp_case_293
    else (\<lambda>_ _. Fail)) else (if cs = 294 then hp_case_294 else (\<lambda>_ _. Fail))))))
    else (if cs < 300 then (if cs < 297 then (if cs < 296 then (if cs = 295 then hp_case_295
    else (\<lambda>_ _. Fail)) else (if cs = 296 then hp_case_296 else (\<lambda>_ _. Fail)))
    else (if cs < 298 then (if cs = 297 then hp_case_297 else (\<lambda>_ _. Fail)) else (if cs
    < 299 then (if cs = 298 then hp_case_298 else (\<lambda>_ _. Fail)) else (if cs = 299 then
    hp_case_299 else (\<lambda>_ _. Fail))))) else (if cs < 303 then (if cs < 301 then (if cs =
    300 then hp_case_300 else (\<lambda>_ _. Fail)) else (if cs < 302 then (if cs = 301 then
    hp_case_301 else (\<lambda>_ _. Fail)) else (if cs = 302 then hp_case_302 else (\<lambda>_
    _. Fail)))) else (if cs < 304 then (if cs = 303 then hp_case_303 else (\<lambda>_ _. Fail))
    else (if cs < 305 then (if cs = 304 then hp_case_304 else (\<lambda>_ _. Fail)) else (if cs
    = 305 then hp_case_305 else (\<lambda>_ _. Fail)))))))) else (if cs < 328 then (if cs < 317
    then (if cs < 311 then (if cs < 308 then (if cs < 307 then (if cs = 306 then hp_case_306
    else (\<lambda>_ _. Fail)) else (if cs = 307 then hp_case_307 else (\<lambda>_ _. Fail)))
    else (if cs < 309 then (if cs = 308 then hp_case_308 else (\<lambda>_ _. Fail)) else (if cs
    < 310 then (if cs = 309 then hp_case_309 else (\<lambda>_ _. Fail)) else (if cs = 310 then
    hp_case_310 else (\<lambda>_ _. Fail))))) else (if cs < 314 then (if cs < 312 then (if cs =
    311 then hp_case_311 else (\<lambda>_ _. Fail)) else (if cs < 313 then (if cs = 312 then
    hp_case_312 else (\<lambda>_ _. Fail)) else (if cs = 313 then hp_case_313 else (\<lambda>_
    _. Fail)))) else (if cs < 315 then (if cs = 314 then hp_case_314 else (\<lambda>_ _. Fail))
    else (if cs < 316 then (if cs = 315 then hp_case_315 else (\<lambda>_ _. Fail)) else (if cs
    = 316 then hp_case_316 else (\<lambda>_ _. Fail)))))) else (if cs < 322 then (if cs < 319
    then (if cs < 318 then (if cs = 317 then hp_case_317 else (\<lambda>_ _. Fail)) else (if cs
    = 318 then hp_case_318 else (\<lambda>_ _. Fail))) else (if cs < 320 then (if cs = 319 then
    hp_case_319 else (\<lambda>_ _. Fail)) else (if cs < 321 then (if cs = 320 then hp_case_320
    else (\<lambda>_ _. Fail)) else (if cs = 321 then hp_case_321 else (\<lambda>_ _. Fail)))))
    else (if cs < 325 then (if cs < 323 then (if cs = 322 then hp_case_322 else (\<lambda>_ _.
    Fail)) else (if cs < 324 then (if cs = 323 then hp_case_323 else (\<lambda>_ _. Fail)) else
    (if cs = 324 then hp_case_324 else (\<lambda>_ _. Fail)))) else (if cs < 326 then (if cs =
    325 then hp_case_325 else (\<lambda>_ _. Fail)) else (if cs < 327 then (if cs = 326 then
    hp_case_326 else (\<lambda>_ _. Fail)) else (if cs = 327 then hp_case_327 else (\<lambda>_
    _. Fail))))))) else (if cs < 339 then (if cs < 333 then (if cs < 330 then (if cs < 329 then
    (if cs = 328 then hp_case_328 else (\<lambda>_ _. Fail)) else (if cs = 329 then hp_case_329
    else (\<lambda>_ _. Fail))) else (if cs < 331 then (if cs = 330 then hp_case_330 else
    (\<lambda>_ _. Fail)) else (if cs < 332 then (if cs = 331 then hp_case_331 else (\<lambda>_
    _. Fail)) else (if cs = 332 then hp_case_332 else (\<lambda>_ _. Fail))))) else (if cs < 336
    then (if cs < 334 then (if cs = 333 then hp_case_333 else (\<lambda>_ _. Fail)) else (if cs
    < 335 then (if cs = 334 then hp_case_334 else (\<lambda>_ _. Fail)) else (if cs = 335 then
    hp_case_335 else (\<lambda>_ _. Fail)))) else (if cs < 337 then (if cs = 336 then
    hp_case_336 else (\<lambda>_ _. Fail)) else (if cs < 338 then (if cs = 337 then hp_case_337
    else (\<lambda>_ _. Fail)) else (if cs = 338 then hp_case_338 else (\<lambda>_ _. Fail))))))
    else (if cs < 344 then (if cs < 341 then (if cs < 340 then (if cs = 339 then hp_case_339
    else (\<lambda>_ _. Fail)) else (if cs = 340 then hp_case_340 else (\<lambda>_ _. Fail)))
    else (if cs < 342 then (if cs = 341 then hp_case_341 else (\<lambda>_ _. Fail)) else (if cs
    < 343 then (if cs = 342 then hp_case_342 else (\<lambda>_ _. Fail)) else (if cs = 343 then
    hp_case_343 else (\<lambda>_ _. Fail))))) else (if cs < 347 then (if cs < 345 then (if cs =
    344 then hp_case_344 else (\<lambda>_ _. Fail)) else (if cs < 346 then (if cs = 345 then
    hp_case_345 else (\<lambda>_ _. Fail)) else (if cs = 346 then hp_case_346 else (\<lambda>_
    _. Fail)))) else (if cs < 348 then (if cs = 347 then hp_case_347 else (\<lambda>_ _. Fail))
    else (if cs < 349 then (if cs = 348 then hp_case_348 else (\<lambda>_ _. Fail)) else (if cs
    = 349 then hp_case_349 else (\<lambda>_ _. Fail)))))))))))"

end
