(* ===== verification/Httpclient_Table.thy ===== *)
theory Httpclient_Table
  imports Ragel_Machine
begin

text \<open>
  The transitions of the response parser that Ragel generated, \<^verbatim>\<open>http/httpclient_parser.cc\<close>, label
  for label: \<open>hc_trN\<close> is what stands at the label \<open>trN\<close>, \<open>hc_case_N\<close> is \<open>case N\<close> of the switch over
  the character, \<open>hc_switch\<close> the switch over the state.
\<close>

datatype hc_action = CMark | CStartField | CWriteField | CWriteValue | CWriteContentLen
  | CWriteConnectionClose | CReasonPhrase | CStatusCode | CHttpVersion | CChunkSize | CTransChunked | CDone

section \<open>The labels \<open>tr\<close>\<close>

definition hc_tr0 :: "hc_action edge" where
  "hc_tr0 = Goto [CMark] 2"

definition hc_tr2 :: "hc_action edge" where
  "hc_tr2 = Goto [CMark] 8"

definition hc_tr3 :: "hc_action edge" where
  "hc_tr3 = Stop [CChunkSize, CDone] 120"

definition hc_tr4 :: "hc_action edge" where
  "hc_tr4 = Goto [CChunkSize] 3"

definition hc_tr6 :: "hc_action edge" where
  "hc_tr6 = Goto [CChunkSize] 4"

definition hc_tr7 :: "hc_action edge" where
  "hc_tr7 = Stop [CDone] 120"

definition hc_tr8 :: "hc_action edge" where
  "hc_tr8 = Goto [CStartField] 5"

definition hc_tr9 :: "hc_action edge" where
  "hc_tr9 = Stop [CWriteField, CMark, CWriteValue, CDone] 120"

definition hc_tr10 :: "hc_action edge" where
  "hc_tr10 = Goto [CWriteField, CMark, CWriteValue] 3"

definition hc_tr12 :: "hc_action edge" where
  "hc_tr12 = Goto [CWriteField, CMark, CWriteValue] 4"

definition hc_tr13 :: "hc_action edge" where
  "hc_tr13 = Goto [CWriteField, CMark] 6"

definition hc_tr14 :: "hc_action edge" where
  "hc_tr14 = Goto [CMark] 7"

definition hc_tr15 :: "hc_action edge" where
  "hc_tr15 = Stop [CWriteValue, CDone] 120"

definition hc_tr16 :: "hc_action edge" where
  "hc_tr16 = Goto [CWriteValue] 3"

definition hc_tr18 :: "hc_action edge" where
  "hc_tr18 = Goto [CWriteValue] 4"

definition hc_tr26 :: "hc_action edge" where
  "hc_tr26 = Goto [CHttpVersion] 16"

definition hc_tr27 :: "hc_action edge" where
  "hc_tr27 = Goto [CMark] 17"

definition hc_tr28 :: "hc_action edge" where
  "hc_tr28 = Goto [CStatusCode] 18"

definition hc_tr30 :: "hc_action edge" where
  "hc_tr30 = Goto [CMark] 19"

definition hc_tr32 :: "hc_action edge" where
  "hc_tr32 = Goto [CReasonPhrase] 20"

definition hc_tr33 :: "hc_action edge" where
  "hc_tr33 = Goto [CReasonPhrase] 24"

definition hc_tr35 :: "hc_action edge" where
  "hc_tr35 = Goto [CStartField] 21"

definition hc_tr36 :: "hc_action edge" where
  "hc_tr36 = Goto [CStartField] 25"

definition hc_tr37 :: "hc_action edge" where
  "hc_tr37 = Goto [CStartField] 44"

definition hc_tr39 :: "hc_action edge" where
  "hc_tr39 = Goto [CWriteField] 22"

definition hc_tr40 :: "hc_action edge" where
  "hc_tr40 = Goto [CMark] 23"

definition hc_tr41 :: "hc_action edge" where
  "hc_tr41 = Goto [CMark] 22"

definition hc_tr42 :: "hc_action edge" where
  "hc_tr42 = Goto [CMark, CWriteValue] 20"

definition hc_tr43 :: "hc_action edge" where
  "hc_tr43 = Goto [CMark, CWriteValue] 24"

definition hc_tr45 :: "hc_action edge" where
  "hc_tr45 = Goto [CWriteValue] 20"

definition hc_tr46 :: "hc_action edge" where
  "hc_tr46 = Goto [CWriteValue] 24"

definition hc_tr58 :: "hc_action edge" where
  "hc_tr58 = Goto [CWriteField] 35"

definition hc_tr59 :: "hc_action edge" where
  "hc_tr59 = Goto [CMark] 35"

definition hc_tr60 :: "hc_action edge" where
  "hc_tr60 = Goto [CMark, CWriteValue] 36"

definition hc_tr61 :: "hc_action edge" where
  "hc_tr61 = Goto [CMark, CWriteValue] 95"

definition hc_tr62 :: "hc_action edge" where
  "hc_tr62 = Goto [CMark] 96"

definition hc_tr64 :: "hc_action edge" where
  "hc_tr64 = Stop [CDone] 122"

definition hc_tr66 :: "hc_action edge" where
  "hc_tr66 = Goto [CStartField] 90"

definition hc_tr74 :: "hc_action edge" where
  "hc_tr74 = Stop [CWriteConnectionClose, CDone] 120"

definition hc_tr75 :: "hc_action edge" where
  "hc_tr75 = Goto [CWriteConnectionClose] 3"

definition hc_tr76 :: "hc_action edge" where
  "hc_tr76 = Goto [CWriteConnectionClose, CStartField] 21"

definition hc_tr77 :: "hc_action edge" where
  "hc_tr77 = Goto [CWriteConnectionClose, CStartField] 25"

definition hc_tr78 :: "hc_action edge" where
  "hc_tr78 = Goto [CWriteConnectionClose, CStartField] 44"

definition hc_tr95 :: "hc_action edge" where
  "hc_tr95 = Goto [CWriteField] 61"

definition hc_tr96 :: "hc_action edge" where
  "hc_tr96 = Goto [CMark] 61"

definition hc_tr97 :: "hc_action edge" where
  "hc_tr97 = Goto [CMark, CWriteValue] 62"

definition hc_tr98 :: "hc_action edge" where
  "hc_tr98 = Goto [CMark, CWriteValue] 80"

definition hc_tr99 :: "hc_action edge" where
  "hc_tr99 = Goto [CMark] 81"

definition hc_tr101 :: "hc_action edge" where
  "hc_tr101 = Stop [CDone] 121"

definition hc_tr103 :: "hc_action edge" where
  "hc_tr103 = Goto [CMark, CStartField] 73"

definition hc_tr104 :: "hc_action edge" where
  "hc_tr104 = Goto [CMark] 64"

definition hc_tr111 :: "hc_action edge" where
  "hc_tr111 = Goto [CWriteValue, CTransChunked] 20"

definition hc_tr112 :: "hc_action edge" where
  "hc_tr112 = Goto [CWriteValue] 71"

definition hc_tr113 :: "hc_action edge" where
  "hc_tr113 = Goto [CTransChunked] 20"

definition hc_tr136 :: "hc_action edge" where
  "hc_tr136 = Goto [CWriteValue] 43"

definition hc_tr137 :: "hc_action edge" where
  "hc_tr137 = Goto [CWriteValue] 88"

definition hc_tr148 :: "hc_action edge" where
  "hc_tr148 = Goto [CWriteField] 112"

definition hc_tr149 :: "hc_action edge" where
  "hc_tr149 = Goto [CMark] 112"

definition hc_tr150 :: "hc_action edge" where
  "hc_tr150 = Goto [CMark, CWriteValue] 113"

definition hc_tr151 :: "hc_action edge" where
  "hc_tr151 = Goto [CMark, CWriteValue] 118"

definition hc_tr152 :: "hc_action edge" where
  "hc_tr152 = Goto [CMark] 119"

definition hc_tr154 :: "hc_action edge" where
  "hc_tr154 = Stop [CDone] 123"

definition hc_tr156 :: "hc_action edge" where
  "hc_tr156 = Goto [CMark, CStartField] 117"

definition hc_tr157 :: "hc_action edge" where
  "hc_tr157 = Goto [CMark] 115"

definition hc_tr158 :: "hc_action edge" where
  "hc_tr158 = Goto [CWriteContentLen, CWriteValue] 20"

definition hc_tr159 :: "hc_action edge" where
  "hc_tr159 = Goto [CWriteContentLen, CWriteValue] 24"

section \<open>The cases of the switch\<close>

definition hc_case_1 :: "int \<Rightarrow> hc_action edge" where
  "hc_case_1 c =
     (if c = 72 then hc_tr2
       else if c < 65 then (if 48 \<le> c \<and> c \<le> 57 then hc_tr0
         else Fail)
       else if 70 < c then (if 97 \<le> c \<and> c \<le> 102 then hc_tr0
         else Fail)
       else hc_tr0)"

definition hc_case_2 :: "int \<Rightarrow> hc_action edge" where
  "hc_case_2 c =
     (if c = 10 then hc_tr3
       else if c = 13 then hc_tr4
       else if c = 59 then hc_tr6
       else if c < 65 then (if 48 \<le> c \<and> c \<le> 57 then Goto [] 2
         else Fail)
       else if 70 < c then (if 97 \<le> c \<and> c \<le> 102 then Goto [] 2
         else Fail)
       else Goto [] 2)"

definition hc_case_3 :: "int \<Rightarrow> hc_action edge" where
  "hc_case_3 c = (if c = 10 then hc_tr7 else Fail)"

definition hc_case_4 :: "int \<Rightarrow> hc_action edge" where
  "hc_case_4 c =
     (if c = 33 \<or> c = 124 \<or> c = 126 then hc_tr8
       else if c < 45 then (if 39 < c then (if 42 \<le> c \<and> c \<le> 43 then hc_tr8
           else Fail)
         else if 35 \<le> c then hc_tr8
         else Fail)
       else if 46 < c then (if c < 65 then (if 48 \<le> c \<and> c \<le> 57 then hc_tr8
           else Fail)
         else if 90 < c then (if 94 \<le> c \<and> c \<le> 122 then hc_tr8
           else Fail)
         else hc_tr8)
       else hc_tr8)"

definition hc_case_5 :: "int \<Rightarrow> hc_action edge" where
  "hc_case_5 c =
     (if c = 10 then hc_tr9
       else if c = 13 then hc_tr10
       else if c = 33 \<or> c = 124 \<or> c = 126 then Goto [] 5
       else if c = 59 then hc_tr12
       else if c = 61 then hc_tr13
       else if c < 45 then (if 39 < c then (if 42 \<le> c \<and> c \<le> 43 then Goto [] 5
           else Fail)
         else if 35 \<le> c then Goto [] 5
         else Fail)
       else if 46 < c then (if c < 65 then (if 48 \<le> c \<and> c \<le> 57 then Goto [] 5
           else Fail)
         else if 90 < c then (if 94 \<le> c \<and> c \<le> 122 then Goto [] 5
           else Fail)
         else Goto [] 5)
       else Goto [] 5)"

definition hc_case_6 :: "int \<Rightarrow> hc_action edge" where
  "hc_case_6 c =
     (if c = 33 \<or> c = 124 \<or> c = 126 then hc_tr14
       else if c < 45 then (if 39 < c then (if 42 \<le> c \<and> c \<le> 43 then hc_tr14
           else Fail)
         else if 35 \<le> c then hc_tr14
         else Fail)
       else if 46 < c then (if c < 65 then (if 48 \<le> c \<and> c \<le> 57 then hc_tr14
           else Fail)
         else if 90 < c then (if 94 \<le> c \<and> c \<le> 122 then hc_tr14
           else Fail)
         else hc_tr14)
       else hc_tr14)"

definition hc_case_7 :: "int \<Rightarrow> hc_action edge" where
  "hc_case_7 c =
     (if c = 10 then hc_tr15
       else if c = 13 then hc_tr16
       else if c = 33 \<or> c = 124 \<or> c = 126 then Goto [] 7
       else if c = 59 then hc_tr18
       else if c < 45 then (if 39 < c then (if 42 \<le> c \<and> c \<le> 43 then Goto [] 7
           else Fail)
         else if 35 \<le> c then Goto [] 7
         else Fail)
       else if 46 < c then (if c < 65 then (if 48 \<le> c \<and> c \<le> 57 then Goto [] 7
           else Fail)
         else if 90 < c then (if 94 \<le> c \<and> c \<le> 122 then Goto [] 7
           else Fail)
         else Goto [] 7)
       else Goto [] 7)"

definition hc_case_8 :: "int \<Rightarrow> hc_action edge" where
  "hc_case_8 c = (if c = 84 then Goto [] 9 else Fail)"

definition hc_case_9 :: "int \<Rightarrow> hc_action edge" where
  "hc_case_9 c = (if c = 84 then Goto [] 10 else Fail)"

definition hc_case_10 :: "int \<Rightarrow> hc_action edge" where
  "hc_case_10 c = (if c = 80 then Goto [] 11 else Fail)"

definition hc_case_11 :: "int \<Rightarrow> hc_action edge" where
  "hc_case_11 c = (if c = 47 then Goto [] 12 else Fail)"

definition hc_case_12 :: "int \<Rightarrow> hc_action edge" where
  "hc_case_12 c = (if 48 \<le> c \<and> c \<le> 57 then Goto [] 13 else Fail)"

definition hc_case_13 :: "int \<Rightarrow> hc_action edge" where
  "hc_case_13 c =
     (if c = 46 then Goto [] 14
       else if 48 \<le> c \<and> c \<le> 57 then Goto [] 13
       else Fail)"

definition hc_case_14 :: "int \<Rightarrow> hc_action edge" where
  "hc_case_14 c = (if 48 \<le> c \<and> c \<le> 57 then Goto [] 15 else Fail)"

definition hc_case_15 :: "int \<Rightarrow> hc_action edge" where
  "hc_case_15 c =
     (if c = 32 then hc_tr26
       else if 48 \<le> c \<and> c \<le> 57 then Goto [] 15
       else Fail)"

definition hc_case_16 :: "int \<Rightarrow> hc_action edge" where
  "hc_case_16 c = (if 48 \<le> c \<and> c \<le> 57 then hc_tr27 else Fail)"

definition hc_case_17 :: "int \<Rightarrow> hc_action edge" where
  "hc_case_17 c =
     (if c = 32 then hc_tr28
       else if 48 \<le> c \<and> c \<le> 57 then Goto [] 17
       else Fail)"

definition hc_case_18 :: "int \<Rightarrow> hc_action edge" where
  "hc_case_18 c = (if c = 10 then Fail else hc_tr30)"

definition hc_case_19 :: "int \<Rightarrow> hc_action edge" where
  "hc_case_19 c = (if c = 10 then hc_tr32 else if c = 13 then hc_tr33 else Goto [] 19)"

definition hc_case_20 :: "int \<Rightarrow> hc_action edge" where
  "hc_case_20 c =
     (if c = 10 then hc_tr7
       else if c = 13 then Goto [] 3
       else if c = 33 \<or> c = 124 \<or> c = 126 then hc_tr35
       else if c = 67 \<or> c = 99 then hc_tr36
       else if c = 84 \<or> c = 116 then hc_tr37
       else if c < 45 then (if 39 < c then (if 42 \<le> c \<and> c \<le> 43 then hc_tr35
           else Fail)
         else if 35 \<le> c then hc_tr35
         else Fail)
       else if 46 < c then (if c < 65 then (if 48 \<le> c \<and> c \<le> 57 then hc_tr35
           else Fail)
         else if 90 < c then (if 94 \<le> c \<and> c \<le> 122 then hc_tr35
           else Fail)
         else hc_tr35)
       else hc_tr35)"

definition hc_case_21 :: "int \<Rightarrow> hc_action edge" where
  "hc_case_21 c =
     (if c = 33 \<or> c = 124 \<or> c = 126 then Goto [] 21
       else if c = 58 then hc_tr39
       else if c < 45 then (if 39 < c then (if 42 \<le> c \<and> c \<le> 43 then Goto [] 21
           else Fail)
         else if 35 \<le> c then Goto [] 21
         else Fail)
       else if 46 < c then (if c < 65 then (if 48 \<le> c \<and> c \<le> 57 then Goto [] 21
           else Fail)
         else if 90 < c then (if 94 \<le> c \<and> c \<le> 122 then Goto [] 21
           else Fail)
         else Goto [] 21)
       else Goto [] 21)"

definition hc_case_22 :: "int \<Rightarrow> hc_action edge" where
  "hc_case_22 c =
     (if c = 10 then hc_tr42
       else if c = 13 then hc_tr43
       else if c = 32 then hc_tr41
       else if 9 \<le> c \<and> c \<le> 12 then hc_tr41
       else hc_tr40)"

definition hc_case_23 :: "int \<Rightarrow> hc_action edge" where
  "hc_case_23 c = (if c = 10 then hc_tr45 else if c = 13 then hc_tr46 else Goto [] 23)"

definition hc_case_24 :: "int \<Rightarrow> hc_action edge" where
  "hc_case_24 c = (if c = 10 then Goto [] 20 else Fail)"

definition hc_case_25 :: "int \<Rightarrow> hc_action edge" where
  "hc_case_25 c =
     (if c = 33 \<or> c = 124 \<or> c = 126 then Goto [] 21
       else if c = 58 then hc_tr39
       else if c = 79 \<or> c = 111 then Goto [] 26
       else if c < 45 then (if 39 < c then (if 42 \<le> c \<and> c \<le> 43 then Goto [] 21
           else Fail)
         else if 35 \<le> c then Goto [] 21
         else Fail)
       else if 46 < c then (if c < 65 then (if 48 \<le> c \<and> c \<le> 57 then Goto [] 21
           else Fail)
         else if 90 < c then (if 94 \<le> c \<and> c \<le> 122 then Goto [] 21
           else Fail)
         else Goto [] 21)
       else Goto [] 21)"

definition hc_case_26 :: "int \<Rightarrow> hc_action edge" where
  "hc_case_26 c =
     (if c = 33 \<or> c = 124 \<or> c = 126 then Goto [] 21
       else if c = 58 then hc_tr39
       else if c = 78 \<or> c = 110 then Goto [] 27
       else if c < 45 then (if 39 < c then (if 42 \<le> c \<and> c \<le> 43 then Goto [] 21
           else Fail)
         else if 35 \<le> c then Goto [] 21
         else Fail)
       else if 46 < c then (if c < 65 then (if 48 \<le> c \<and> c \<le> 57 then Goto [] 21
           else Fail)
         else if 90 < c then (if 94 \<le> c \<and> c \<le> 122 then Goto [] 21
           else Fail)
         else Goto [] 21)
       else Goto [] 21)"

definition hc_case_27 :: "int \<Rightarrow> hc_action edge" where
  "hc_case_27 c =
     (if c = 33 \<or> c = 124 \<or> c = 126 then Goto [] 21
       else if c = 58 then hc_tr39
       else if c = 78 \<or> c = 110 then Goto [] 28
       else if c = 84 \<or> c = 116 then Goto [] 101
       else if c < 45 then (if 39 < c then (if 42 \<le> c \<and> c \<le> 43 then Goto [] 21
           else Fail)
         else if 35 \<le> c then Goto [] 21
         else Fail)
       else if 46 < c then (if c < 65 then (if 48 \<le> c \<and> c \<le> 57 then Goto [] 21
           else Fail)
         else if 90 < c then (if 94 \<le> c \<and> c \<le> 122 then Goto [] 21
           else Fail)
         else Goto [] 21)
       else Goto [] 21)"

definition hc_case_28 :: "int \<Rightarrow> hc_action edge" where
  "hc_case_28 c =
     (if c = 33 \<or> c = 124 \<or> c = 126 then Goto [] 21
       else if c = 58 then hc_tr39
       else if c = 69 \<or> c = 101 then Goto [] 29
       else if c < 45 then (if 39 < c then (if 42 \<le> c \<and> c \<le> 43 then Goto [] 21
           else Fail)
         else if 35 \<le> c then Goto [] 21
         else Fail)
       else if 46 < c then (if c < 65 then (if 48 \<le> c \<and> c \<le> 57 then Goto [] 21
           else Fail)
         else if 90 < c then (if 94 \<le> c \<and> c \<le> 122 then Goto [] 21
           else Fail)
         else Goto [] 21)
       else Goto [] 21)"

definition hc_case_29 :: "int \<Rightarrow> hc_action edge" where
  "hc_case_29 c =
     (if c = 33 \<or> c = 124 \<or> c = 126 then Goto [] 21
       else if c = 58 then hc_tr39
       else if c = 67 \<or> c = 99 then Goto [] 30
       else if c < 45 then (if 39 < c then (if 42 \<le> c \<and> c \<le> 43 then Goto [] 21
           else Fail)
         else if 35 \<le> c then Goto [] 21
         else Fail)
       else if 46 < c then (if c < 65 then (if 48 \<le> c \<and> c \<le> 57 then Goto [] 21
           else Fail)
         else if 90 < c then (if 94 \<le> c \<and> c \<le> 122 then Goto [] 21
           else Fail)
         else Goto [] 21)
       else Goto [] 21)"

definition hc_case_30 :: "int \<Rightarrow> hc_action edge" where
  "hc_case_30 c =
     (if c = 33 \<or> c = 124 \<or> c = 126 then Goto [] 21
       else if c = 58 then hc_tr39
       else if c = 84 \<or> c = 116 then Goto [] 31
       else if c < 45 then (if 39 < c then (if 42 \<le> c \<and> c \<le> 43 then Goto [] 21
           else Fail)
         else if 35 \<le> c then Goto [] 21
         else Fail)
       else if 46 < c then (if c < 65 then (if 48 \<le> c \<and> c \<le> 57 then Goto [] 21
           else Fail)
         else if 90 < c then (if 94 \<le> c \<and> c \<le> 122 then Goto [] 21
           else Fail)
         else Goto [] 21)
       else Goto [] 21)"

definition hc_case_31 :: "int \<Rightarrow> hc_action edge" where
  "hc_case_31 c =
     (if c = 33 \<or> c = 124 \<or> c = 126 then Goto [] 21
       else if c = 58 then hc_tr39
       else if c = 73 \<or> c = 105 then Goto [] 32
       else if c < 45 then (if 39 < c then (if 42 \<le> c \<and> c \<le> 43 then Goto [] 21
           else Fail)
         else if 35 \<le> c then Goto [] 21
         else Fail)
       else if 46 < c then (if c < 65 then (if 48 \<le> c \<and> c \<le> 57 then Goto [] 21
           else Fail)
         else if 90 < c then (if 94 \<le> c \<and> c \<le> 122 then Goto [] 21
           else Fail)
         else Goto [] 21)
       else Goto [] 21)"

definition hc_case_32 :: "int \<Rightarrow> hc_action edge" where
  "hc_case_32 c =
     (if c = 33 \<or> c = 124 \<or> c = 126 then Goto [] 21
       else if c = 58 then hc_tr39
       else if c = 79 \<or> c = 111 then Goto [] 33
       else if c < 45 then (if 39 < c then (if 42 \<le> c \<and> c \<le> 43 then Goto [] 21
           else Fail)
         else if 35 \<le> c then Goto [] 21
         else Fail)
       else if 46 < c then (if c < 65 then (if 48 \<le> c \<and> c \<le> 57 then Goto [] 21
           else Fail)
         else if 90 < c then (if 94 \<le> c \<and> c \<le> 122 then Goto [] 21
           else Fail)
         else Goto [] 21)
       else Goto [] 21)"

definition hc_case_33 :: "int \<Rightarrow> hc_action edge" where
  "hc_case_33 c =
     (if c = 33 \<or> c = 124 \<or> c = 126 then Goto [] 21
       else if c = 58 then hc_tr39
       else if c = 78 \<or> c = 110 then Goto [] 34
       else if c < 45 then (if 39 < c then (if 42 \<le> c \<and> c \<le> 43 then Goto [] 21
           else Fail)
         else if 35 \<le> c then Goto [] 21
         else Fail)
       else if 46 < c then (if c < 65 then (if 48 \<le> c \<and> c \<le> 57 then Goto [] 21
           else Fail)
         else if 90 < c then (if 94 \<le> c \<and> c \<le> 122 then Goto [] 21
           else Fail)
         else Goto [] 21)
       else Goto [] 21)"

definition hc_case_34 :: "int \<Rightarrow> hc_action edge" where
  "hc_case_34 c =
     (if c = 33 \<or> c = 124 \<or> c = 126 then Goto [] 21
       else if c = 58 then hc_tr58
       else if c < 45 then (if 39 < c then (if 42 \<le> c \<and> c \<le> 43 then Goto [] 21
           else Fail)
         else if 35 \<le> c then Goto [] 21
         else Fail)
       else if 46 < c then (if c < 65 then (if 48 \<le> c \<and> c \<le> 57 then Goto [] 21
           else Fail)
         else if 90 < c then (if 94 \<le> c \<and> c \<le> 122 then Goto [] 21
           else Fail)
         else Goto [] 21)
       else Goto [] 21)"

definition hc_case_35 :: "int \<Rightarrow> hc_action edge" where
  "hc_case_35 c =
     (if c = 10 then hc_tr60
       else if c = 13 then hc_tr61
       else if c = 32 then hc_tr59
       else if c = 67 \<or> c = 99 then hc_tr62
       else if 9 \<le> c \<and> c \<le> 12 then hc_tr59
       else hc_tr40)"

definition hc_case_36 :: "int \<Rightarrow> hc_action edge" where
  "hc_case_36 c =
     (if c = 10 then hc_tr64
       else if c = 13 then Goto [] 89
       else if c = 32 then Goto [] 37
       else if c = 33 \<or> c = 124 \<or> c = 126 then hc_tr35
       else if c = 67 \<or> c = 99 then hc_tr66
       else if c = 84 \<or> c = 116 then hc_tr37
       else if c < 45 then (if c < 35 then (if 9 \<le> c \<and> c \<le> 12 then Goto [] 37
           else Fail)
         else if 39 < c then (if 42 \<le> c \<and> c \<le> 43 then hc_tr35
           else Fail)
         else hc_tr35)
       else if 46 < c then (if c < 65 then (if 48 \<le> c \<and> c \<le> 57 then hc_tr35
           else Fail)
         else if 90 < c then (if 94 \<le> c \<and> c \<le> 122 then hc_tr35
           else Fail)
         else hc_tr35)
       else hc_tr35)"

definition hc_case_37 :: "int \<Rightarrow> hc_action edge" where
  "hc_case_37 c =
     (if c = 32 then Goto [] 37
       else if c = 67 \<or> c = 99 then Goto [] 38
       else if 9 \<le> c \<and> c \<le> 13 then Goto [] 37
       else Fail)"

definition hc_case_38 :: "int \<Rightarrow> hc_action edge" where
  "hc_case_38 c = (if c = 76 \<or> c = 108 then Goto [] 39 else Fail)"

definition hc_case_39 :: "int \<Rightarrow> hc_action edge" where
  "hc_case_39 c = (if c = 79 \<or> c = 111 then Goto [] 40 else Fail)"

definition hc_case_40 :: "int \<Rightarrow> hc_action edge" where
  "hc_case_40 c = (if c = 83 \<or> c = 115 then Goto [] 41 else Fail)"

definition hc_case_41 :: "int \<Rightarrow> hc_action edge" where
  "hc_case_41 c = (if c = 69 \<or> c = 101 then Goto [] 42 else Fail)"

definition hc_case_42 :: "int \<Rightarrow> hc_action edge" where
  "hc_case_42 c = (if c = 10 then Goto [] 43 else if c = 13 then Goto [] 88 else Fail)"

definition hc_case_43 :: "int \<Rightarrow> hc_action edge" where
  "hc_case_43 c =
     (if c = 10 then hc_tr74
       else if c = 13 then hc_tr75
       else if c = 33 \<or> c = 124 \<or> c = 126 then hc_tr76
       else if c = 67 \<or> c = 99 then hc_tr77
       else if c = 84 \<or> c = 116 then hc_tr78
       else if c < 45 then (if 39 < c then (if 42 \<le> c \<and> c \<le> 43 then hc_tr76
           else Fail)
         else if 35 \<le> c then hc_tr76
         else Fail)
       else if 46 < c then (if c < 65 then (if 48 \<le> c \<and> c \<le> 57 then hc_tr76
           else Fail)
         else if 90 < c then (if 94 \<le> c \<and> c \<le> 122 then hc_tr76
           else Fail)
         else hc_tr76)
       else hc_tr76)"

definition hc_case_44 :: "int \<Rightarrow> hc_action edge" where
  "hc_case_44 c =
     (if c = 33 \<or> c = 124 \<or> c = 126 then Goto [] 21
       else if c = 58 then hc_tr39
       else if c = 82 \<or> c = 114 then Goto [] 45
       else if c < 45 then (if 39 < c then (if 42 \<le> c \<and> c \<le> 43 then Goto [] 21
           else Fail)
         else if 35 \<le> c then Goto [] 21
         else Fail)
       else if 46 < c then (if c < 65 then (if 48 \<le> c \<and> c \<le> 57 then Goto [] 21
           else Fail)
         else if 90 < c then (if 94 \<le> c \<and> c \<le> 122 then Goto [] 21
           else Fail)
         else Goto [] 21)
       else Goto [] 21)"

definition hc_case_45 :: "int \<Rightarrow> hc_action edge" where
  "hc_case_45 c =
     (if c = 33 \<or> c = 124 \<or> c = 126 then Goto [] 21
       else if c = 58 then hc_tr39
       else if c = 65 \<or> c = 97 then Goto [] 46
       else if c < 45 then (if 39 < c then (if 42 \<le> c \<and> c \<le> 43 then Goto [] 21
           else Fail)
         else if 35 \<le> c then Goto [] 21
         else Fail)
       else if 46 < c then (if c < 66 then (if 48 \<le> c \<and> c \<le> 57 then Goto [] 21
           else Fail)
         else if 90 < c then (if 94 \<le> c \<and> c \<le> 122 then Goto [] 21
           else Fail)
         else Goto [] 21)
       else Goto [] 21)"

definition hc_case_46 :: "int \<Rightarrow> hc_action edge" where
  "hc_case_46 c =
     (if c = 33 \<or> c = 124 \<or> c = 126 then Goto [] 21
       else if c = 58 then hc_tr39
       else if c = 78 \<or> c = 110 then Goto [] 47
       else if c < 45 then (if 39 < c then (if 42 \<le> c \<and> c \<le> 43 then Goto [] 21
           else Fail)
         else if 35 \<le> c then Goto [] 21
         else Fail)
       else if 46 < c then (if c < 65 then (if 48 \<le> c \<and> c \<le> 57 then Goto [] 21
           else Fail)
         else if 90 < c then (if 94 \<le> c \<and> c \<le> 122 then Goto [] 21
           else Fail)
         else Goto [] 21)
       else Goto [] 21)"

definition hc_case_47 :: "int \<Rightarrow> hc_action edge" where
  "hc_case_47 c =
     (if c = 33 \<or> c = 124 \<or> c = 126 then Goto [] 21
       else if c = 58 then hc_tr39
       else if c = 83 \<or> c = 115 then Goto [] 48
       else if c < 45 then (if 39 < c then (if 42 \<le> c \<and> c \<le> 43 then Goto [] 21
           else Fail)
         else if 35 \<le> c then Goto [] 21
         else Fail)
       else if 46 < c then (if c < 65 then (if 48 \<le> c \<and> c \<le> 57 then Goto [] 21
           else Fail)
         else if 90 < c then (if 94 \<le> c \<and> c \<le> 122 then Goto [] 21
           else Fail)
         else Goto [] 21)
       else Goto [] 21)"

definition hc_case_48 :: "int \<Rightarrow> hc_action edge" where
  "hc_case_48 c =
     (if c = 33 \<or> c = 124 \<or> c = 126 then Goto [] 21
       else if c = 58 then hc_tr39
       else if c = 70 \<or> c = 102 then Goto [] 49
       else if c < 45 then (if 39 < c then (if 42 \<le> c \<and> c \<le> 43 then Goto [] 21
           else Fail)
         else if 35 \<le> c then Goto [] 21
         else Fail)
       else if 46 < c then (if c < 65 then (if 48 \<le> c \<and> c \<le> 57 then Goto [] 21
           else Fail)
         else if 90 < c then (if 94 \<le> c \<and> c \<le> 122 then Goto [] 21
           else Fail)
         else Goto [] 21)
       else Goto [] 21)"

definition hc_case_49 :: "int \<Rightarrow> hc_action edge" where
  "hc_case_49 c =
     (if c = 33 \<or> c = 124 \<or> c = 126 then Goto [] 21
       else if c = 58 then hc_tr39
       else if c = 69 \<or> c = 101 then Goto [] 50
       else if c < 45 then (if 39 < c then (if 42 \<le> c \<and> c \<le> 43 then Goto [] 21
           else Fail)
         else if 35 \<le> c then Goto [] 21
         else Fail)
       else if 46 < c then (if c < 65 then (if 48 \<le> c \<and> c \<le> 57 then Goto [] 21
           else Fail)
         else if 90 < c then (if 94 \<le> c \<and> c \<le> 122 then Goto [] 21
           else Fail)
         else Goto [] 21)
       else Goto [] 21)"

definition hc_case_50 :: "int \<Rightarrow> hc_action edge" where
  "hc_case_50 c =
     (if c = 33 \<or> c = 124 \<or> c = 126 then Goto [] 21
       else if c = 58 then hc_tr39
       else if c = 82 \<or> c = 114 then Goto [] 51
       else if c < 45 then (if 39 < c then (if 42 \<le> c \<and> c \<le> 43 then Goto [] 21
           else Fail)
         else if 35 \<le> c then Goto [] 21
         else Fail)
       else if 46 < c then (if c < 65 then (if 48 \<le> c \<and> c \<le> 57 then Goto [] 21
           else Fail)
         else if 90 < c then (if 94 \<le> c \<and> c \<le> 122 then Goto [] 21
           else Fail)
         else Goto [] 21)
       else Goto [] 21)"

definition hc_case_51 :: "int \<Rightarrow> hc_action edge" where
  "hc_case_51 c =
     (if c = 33 \<or> c = 46 \<or> c = 124 \<or> c = 126 then Goto [] 21
       else if c = 45 then Goto [] 52
       else if c = 58 then hc_tr39
       else if c < 48 then (if 39 < c then (if 42 \<le> c \<and> c \<le> 43 then Goto [] 21
           else Fail)
         else if 35 \<le> c then Goto [] 21
         else Fail)
       else if 57 < c then (if 90 < c then (if 94 \<le> c \<and> c \<le> 122 then Goto [] 21
           else Fail)
         else if 65 \<le> c then Goto [] 21
         else Fail)
       else Goto [] 21)"

definition hc_case_52 :: "int \<Rightarrow> hc_action edge" where
  "hc_case_52 c =
     (if c = 33 \<or> c = 124 \<or> c = 126 then Goto [] 21
       else if c = 58 then hc_tr39
       else if c = 69 \<or> c = 101 then Goto [] 53
       else if c < 45 then (if 39 < c then (if 42 \<le> c \<and> c \<le> 43 then Goto [] 21
           else Fail)
         else if 35 \<le> c then Goto [] 21
         else Fail)
       else if 46 < c then (if c < 65 then (if 48 \<le> c \<and> c \<le> 57 then Goto [] 21
           else Fail)
         else if 90 < c then (if 94 \<le> c \<and> c \<le> 122 then Goto [] 21
           else Fail)
         else Goto [] 21)
       else Goto [] 21)"

definition hc_case_53 :: "int \<Rightarrow> hc_action edge" where
  "hc_case_53 c =
     (if c = 33 \<or> c = 124 \<or> c = 126 then Goto [] 21
       else if c = 58 then hc_tr39
       else if c = 78 \<or> c = 110 then Goto [] 54
       else if c < 45 then (if 39 < c then (if 42 \<le> c \<and> c \<le> 43 then Goto [] 21
           else Fail)
         else if 35 \<le> c then Goto [] 21
         else Fail)
       else if 46 < c then (if c < 65 then (if 48 \<le> c \<and> c \<le> 57 then Goto [] 21
           else Fail)
         else if 90 < c then (if 94 \<le> c \<and> c \<le> 122 then Goto [] 21
           else Fail)
         else Goto [] 21)
       else Goto [] 21)"

definition hc_case_54 :: "int \<Rightarrow> hc_action edge" where
  "hc_case_54 c =
     (if c = 33 \<or> c = 124 \<or> c = 126 then Goto [] 21
       else if c = 58 then hc_tr39
       else if c = 67 \<or> c = 99 then Goto [] 55
       else if c < 45 then (if 39 < c then (if 42 \<le> c \<and> c \<le> 43 then Goto [] 21
           else Fail)
         else if 35 \<le> c then Goto [] 21
         else Fail)
       else if 46 < c then (if c < 65 then (if 48 \<le> c \<and> c \<le> 57 then Goto [] 21
           else Fail)
         else if 90 < c then (if 94 \<le> c \<and> c \<le> 122 then Goto [] 21
           else Fail)
         else Goto [] 21)
       else Goto [] 21)"

definition hc_case_55 :: "int \<Rightarrow> hc_action edge" where
  "hc_case_55 c =
     (if c = 33 \<or> c = 124 \<or> c = 126 then Goto [] 21
       else if c = 58 then hc_tr39
       else if c = 79 \<or> c = 111 then Goto [] 56
       else if c < 45 then (if 39 < c then (if 42 \<le> c \<and> c \<le> 43 then Goto [] 21
           else Fail)
         else if 35 \<le> c then Goto [] 21
         else Fail)
       else if 46 < c then (if c < 65 then (if 48 \<le> c \<and> c \<le> 57 then Goto [] 21
           else Fail)
         else if 90 < c then (if 94 \<le> c \<and> c \<le> 122 then Goto [] 21
           else Fail)
         else Goto [] 21)
       else Goto [] 21)"

definition hc_case_56 :: "int \<Rightarrow> hc_action edge" where
  "hc_case_56 c =
     (if c = 33 \<or> c = 124 \<or> c = 126 then Goto [] 21
       else if c = 58 then hc_tr39
       else if c = 68 \<or> c = 100 then Goto [] 57
       else if c < 45 then (if 39 < c then (if 42 \<le> c \<and> c \<le> 43 then Goto [] 21
           else Fail)
         else if 35 \<le> c then Goto [] 21
         else Fail)
       else if 46 < c then (if c < 65 then (if 48 \<le> c \<and> c \<le> 57 then Goto [] 21
           else Fail)
         else if 90 < c then (if 94 \<le> c \<and> c \<le> 122 then Goto [] 21
           else Fail)
         else Goto [] 21)
       else Goto [] 21)"

definition hc_case_57 :: "int \<Rightarrow> hc_action edge" where
  "hc_case_57 c =
     (if c = 33 \<or> c = 124 \<or> c = 126 then Goto [] 21
       else if c = 58 then hc_tr39
       else if c = 73 \<or> c = 105 then Goto [] 58
       else if c < 45 then (if 39 < c then (if 42 \<le> c \<and> c \<le> 43 then Goto [] 21
           else Fail)
         else if 35 \<le> c then Goto [] 21
         else Fail)
       else if 46 < c then (if c < 65 then (if 48 \<le> c \<and> c \<le> 57 then Goto [] 21
           else Fail)
         else if 90 < c then (if 94 \<le> c \<and> c \<le> 122 then Goto [] 21
           else Fail)
         else Goto [] 21)
       else Goto [] 21)"

definition hc_case_58 :: "int \<Rightarrow> hc_action edge" where
  "hc_case_58 c =
     (if c = 33 \<or> c = 124 \<or> c = 126 then Goto [] 21
       else if c = 58 then hc_tr39
       else if c = 78 \<or> c = 110 then Goto [] 59
       else if c < 45 then (if 39 < c then (if 42 \<le> c \<and> c \<le> 43 then Goto [] 21
           else Fail)
         else if 35 \<le> c then Goto [] 21
         else Fail)
       else if 46 < c then (if c < 65 then (if 48 \<le> c \<and> c \<le> 57 then Goto [] 21
           else Fail)
         else if 90 < c then (if 94 \<le> c \<and> c \<le> 122 then Goto [] 21
           else Fail)
         else Goto [] 21)
       else Goto [] 21)"

definition hc_case_59 :: "int \<Rightarrow> hc_action edge" where
  "hc_case_59 c =
     (if c = 33 \<or> c = 124 \<or> c = 126 then Goto [] 21
       else if c = 58 then hc_tr39
       else if c = 71 \<or> c = 103 then Goto [] 60
       else if c < 45 then (if 39 < c then (if 42 \<le> c \<and> c \<le> 43 then Goto [] 21
           else Fail)
         else if 35 \<le> c then Goto [] 21
         else Fail)
       else if 46 < c then (if c < 65 then (if 48 \<le> c \<and> c \<le> 57 then Goto [] 21
           else Fail)
         else if 90 < c then (if 94 \<le> c \<and> c \<le> 122 then Goto [] 21
           else Fail)
         else Goto [] 21)
       else Goto [] 21)"

definition hc_case_60 :: "int \<Rightarrow> hc_action edge" where
  "hc_case_60 c =
     (if c = 33 \<or> c = 124 \<or> c = 126 then Goto [] 21
       else if c = 58 then hc_tr95
       else if c < 45 then (if 39 < c then (if 42 \<le> c \<and> c \<le> 43 then Goto [] 21
           else Fail)
         else if 35 \<le> c then Goto [] 21
         else Fail)
       else if 46 < c then (if c < 65 then (if 48 \<le> c \<and> c \<le> 57 then Goto [] 21
           else Fail)
         else if 90 < c then (if 94 \<le> c \<and> c \<le> 122 then Goto [] 21
           else Fail)
         else Goto [] 21)
       else Goto [] 21)"

definition hc_case_61 :: "int \<Rightarrow> hc_action edge" where
  "hc_case_61 c =
     (if c = 10 then hc_tr97
       else if c = 13 then hc_tr98
       else if c = 32 then hc_tr96
       else if c = 67 \<or> c = 99 then hc_tr99
       else if 9 \<le> c \<and> c \<le> 12 then hc_tr96
       else hc_tr40)"

definition hc_case_62 :: "int \<Rightarrow> hc_action edge" where
  "hc_case_62 c =
     (if c = 10 then hc_tr101
       else if c = 13 then Goto [] 72
       else if c = 32 then Goto [] 63
       else if c = 33 \<or> c = 124 \<or> c = 126 then hc_tr35
       else if c = 67 \<or> c = 99 then hc_tr103
       else if c = 84 \<or> c = 116 then hc_tr37
       else if c < 45 then (if c < 35 then (if 9 \<le> c \<and> c \<le> 12 then Goto [] 63
           else Fail)
         else if 39 < c then (if 42 \<le> c \<and> c \<le> 43 then hc_tr35
           else Fail)
         else hc_tr35)
       else if 46 < c then (if c < 65 then (if 48 \<le> c \<and> c \<le> 57 then hc_tr35
           else Fail)
         else if 90 < c then (if 94 \<le> c \<and> c \<le> 122 then hc_tr35
           else Fail)
         else hc_tr35)
       else hc_tr35)"

definition hc_case_63 :: "int \<Rightarrow> hc_action edge" where
  "hc_case_63 c =
     (if c = 32 then Goto [] 63
       else if c = 67 \<or> c = 99 then hc_tr104
       else if 9 \<le> c \<and> c \<le> 13 then Goto [] 63
       else Fail)"

definition hc_case_64 :: "int \<Rightarrow> hc_action edge" where
  "hc_case_64 c = (if c = 72 \<or> c = 104 then Goto [] 65 else Fail)"

definition hc_case_65 :: "int \<Rightarrow> hc_action edge" where
  "hc_case_65 c = (if c = 85 \<or> c = 117 then Goto [] 66 else Fail)"

definition hc_case_66 :: "int \<Rightarrow> hc_action edge" where
  "hc_case_66 c = (if c = 78 \<or> c = 110 then Goto [] 67 else Fail)"

definition hc_case_67 :: "int \<Rightarrow> hc_action edge" where
  "hc_case_67 c = (if c = 75 \<or> c = 107 then Goto [] 68 else Fail)"

definition hc_case_68 :: "int \<Rightarrow> hc_action edge" where
  "hc_case_68 c = (if c = 69 \<or> c = 101 then Goto [] 69 else Fail)"

definition hc_case_69 :: "int \<Rightarrow> hc_action edge" where
  "hc_case_69 c = (if c = 68 \<or> c = 100 then Goto [] 70 else Fail)"

definition hc_case_70 :: "int \<Rightarrow> hc_action edge" where
  "hc_case_70 c = (if c = 10 then hc_tr111 else if c = 13 then hc_tr112 else Fail)"

definition hc_case_71 :: "int \<Rightarrow> hc_action edge" where
  "hc_case_71 c = (if c = 10 then hc_tr113 else Fail)"

definition hc_case_72 :: "int \<Rightarrow> hc_action edge" where
  "hc_case_72 c =
     (if c = 10 then hc_tr101
       else if c = 32 then Goto [] 63
       else if c = 67 \<or> c = 99 then hc_tr104
       else if 9 \<le> c \<and> c \<le> 13 then Goto [] 63
       else Fail)"

definition hc_case_73 :: "int \<Rightarrow> hc_action edge" where
  "hc_case_73 c =
     (if c = 33 \<or> c = 124 \<or> c = 126 then Goto [] 21
       else if c = 58 then hc_tr39
       else if c = 72 \<or> c = 104 then Goto [] 74
       else if c = 79 \<or> c = 111 then Goto [] 26
       else if c < 45 then (if 39 < c then (if 42 \<le> c \<and> c \<le> 43 then Goto [] 21
           else Fail)
         else if 35 \<le> c then Goto [] 21
         else Fail)
       else if 46 < c then (if c < 65 then (if 48 \<le> c \<and> c \<le> 57 then Goto [] 21
           else Fail)
         else if 90 < c then (if 94 \<le> c \<and> c \<le> 122 then Goto [] 21
           else Fail)
         else Goto [] 21)
       else Goto [] 21)"

definition hc_case_74 :: "int \<Rightarrow> hc_action edge" where
  "hc_case_74 c =
     (if c = 33 \<or> c = 124 \<or> c = 126 then Goto [] 21
       else if c = 58 then hc_tr39
       else if c = 85 \<or> c = 117 then Goto [] 75
       else if c < 45 then (if 39 < c then (if 42 \<le> c \<and> c \<le> 43 then Goto [] 21
           else Fail)
         else if 35 \<le> c then Goto [] 21
         else Fail)
       else if 46 < c then (if c < 65 then (if 48 \<le> c \<and> c \<le> 57 then Goto [] 21
           else Fail)
         else if 90 < c then (if 94 \<le> c \<and> c \<le> 122 then Goto [] 21
           else Fail)
         else Goto [] 21)
       else Goto [] 21)"

definition hc_case_75 :: "int \<Rightarrow> hc_action edge" where
  "hc_case_75 c =
     (if c = 33 \<or> c = 124 \<or> c = 126 then Goto [] 21
       else if c = 58 then hc_tr39
       else if c = 78 \<or> c = 110 then Goto [] 76
       else if c < 45 then (if 39 < c then (if 42 \<le> c \<and> c \<le> 43 then Goto [] 21
           else Fail)
         else if 35 \<le> c then Goto [] 21
         else Fail)
       else if 46 < c then (if c < 65 then (if 48 \<le> c \<and> c \<le> 57 then Goto [] 21
           else Fail)
         else if 90 < c then (if 94 \<le> c \<and> c \<le> 122 then Goto [] 21
           else Fail)
         else Goto [] 21)
       else Goto [] 21)"

definition hc_case_76 :: "int \<Rightarrow> hc_action edge" where
  "hc_case_76 c =
     (if c = 33 \<or> c = 124 \<or> c = 126 then Goto [] 21
       else if c = 58 then hc_tr39
       else if c = 75 \<or> c = 107 then Goto [] 77
       else if c < 45 then (if 39 < c then (if 42 \<le> c \<and> c \<le> 43 then Goto [] 21
           else Fail)
         else if 35 \<le> c then Goto [] 21
         else Fail)
       else if 46 < c then (if c < 65 then (if 48 \<le> c \<and> c \<le> 57 then Goto [] 21
           else Fail)
         else if 90 < c then (if 94 \<le> c \<and> c \<le> 122 then Goto [] 21
           else Fail)
         else Goto [] 21)
       else Goto [] 21)"

definition hc_case_77 :: "int \<Rightarrow> hc_action edge" where
  "hc_case_77 c =
     (if c = 33 \<or> c = 124 \<or> c = 126 then Goto [] 21
       else if c = 58 then hc_tr39
       else if c = 69 \<or> c = 101 then Goto [] 78
       else if c < 45 then (if 39 < c then (if 42 \<le> c \<and> c \<le> 43 then Goto [] 21
           else Fail)
         else if 35 \<le> c then Goto [] 21
         else Fail)
       else if 46 < c then (if c < 65 then (if 48 \<le> c \<and> c \<le> 57 then Goto [] 21
           else Fail)
         else if 90 < c then (if 94 \<le> c \<and> c \<le> 122 then Goto [] 21
           else Fail)
         else Goto [] 21)
       else Goto [] 21)"

definition hc_case_78 :: "int \<Rightarrow> hc_action edge" where
  "hc_case_78 c =
     (if c = 33 \<or> c = 124 \<or> c = 126 then Goto [] 21
       else if c = 58 then hc_tr39
       else if c = 68 \<or> c = 100 then Goto [] 79
       else if c < 45 then (if 39 < c then (if 42 \<le> c \<and> c \<le> 43 then Goto [] 21
           else Fail)
         else if 35 \<le> c then Goto [] 21
         else Fail)
       else if 46 < c then (if c < 65 then (if 48 \<le> c \<and> c \<le> 57 then Goto [] 21
           else Fail)
         else if 90 < c then (if 94 \<le> c \<and> c \<le> 122 then Goto [] 21
           else Fail)
         else Goto [] 21)
       else Goto [] 21)"

definition hc_case_79 :: "int \<Rightarrow> hc_action edge" where
  "hc_case_79 c =
     (if c = 10 then hc_tr111
       else if c = 13 then hc_tr112
       else if c = 33 \<or> c = 124 \<or> c = 126 then Goto [] 21
       else if c = 58 then hc_tr39
       else if c < 45 then (if 39 < c then (if 42 \<le> c \<and> c \<le> 43 then Goto [] 21
           else Fail)
         else if 35 \<le> c then Goto [] 21
         else Fail)
       else if 46 < c then (if c < 65 then (if 48 \<le> c \<and> c \<le> 57 then Goto [] 21
           else Fail)
         else if 90 < c then (if 94 \<le> c \<and> c \<le> 122 then Goto [] 21
           else Fail)
         else Goto [] 21)
       else Goto [] 21)"

definition hc_case_80 :: "int \<Rightarrow> hc_action edge" where
  "hc_case_80 c =
     (if c = 10 then Goto [] 62
       else if c = 32 then Goto [] 63
       else if c = 67 \<or> c = 99 then hc_tr104
       else if 9 \<le> c \<and> c \<le> 13 then Goto [] 63
       else Fail)"

definition hc_case_81 :: "int \<Rightarrow> hc_action edge" where
  "hc_case_81 c =
     (if c = 10 then hc_tr45
       else if c = 13 then hc_tr46
       else if c = 72 \<or> c = 104 then Goto [] 82
       else Goto [] 23)"

definition hc_case_82 :: "int \<Rightarrow> hc_action edge" where
  "hc_case_82 c =
     (if c = 10 then hc_tr45
       else if c = 13 then hc_tr46
       else if c = 85 \<or> c = 117 then Goto [] 83
       else Goto [] 23)"

definition hc_case_83 :: "int \<Rightarrow> hc_action edge" where
  "hc_case_83 c =
     (if c = 10 then hc_tr45
       else if c = 13 then hc_tr46
       else if c = 78 \<or> c = 110 then Goto [] 84
       else Goto [] 23)"

definition hc_case_84 :: "int \<Rightarrow> hc_action edge" where
  "hc_case_84 c =
     (if c = 10 then hc_tr45
       else if c = 13 then hc_tr46
       else if c = 75 \<or> c = 107 then Goto [] 85
       else Goto [] 23)"

definition hc_case_85 :: "int \<Rightarrow> hc_action edge" where
  "hc_case_85 c =
     (if c = 10 then hc_tr45
       else if c = 13 then hc_tr46
       else if c = 69 \<or> c = 101 then Goto [] 86
       else Goto [] 23)"

definition hc_case_86 :: "int \<Rightarrow> hc_action edge" where
  "hc_case_86 c =
     (if c = 10 then hc_tr45
       else if c = 13 then hc_tr46
       else if c = 68 \<or> c = 100 then Goto [] 87
       else Goto [] 23)"

definition hc_case_87 :: "int \<Rightarrow> hc_action edge" where
  "hc_case_87 c = (if c = 10 then hc_tr111 else if c = 13 then hc_tr112 else Goto [] 23)"

definition hc_case_88 :: "int \<Rightarrow> hc_action edge" where
  "hc_case_88 c = (if c = 10 then Goto [] 43 else Fail)"

definition hc_case_89 :: "int \<Rightarrow> hc_action edge" where
  "hc_case_89 c =
     (if c = 10 then hc_tr64
       else if c = 32 then Goto [] 37
       else if c = 67 \<or> c = 99 then Goto [] 38
       else if 9 \<le> c \<and> c \<le> 13 then Goto [] 37
       else Fail)"

definition hc_case_90 :: "int \<Rightarrow> hc_action edge" where
  "hc_case_90 c =
     (if c = 33 \<or> c = 124 \<or> c = 126 then Goto [] 21
       else if c = 58 then hc_tr39
       else if c = 76 \<or> c = 108 then Goto [] 91
       else if c = 79 \<or> c = 111 then Goto [] 26
       else if c < 45 then (if 39 < c then (if 42 \<le> c \<and> c \<le> 43 then Goto [] 21
           else Fail)
         else if 35 \<le> c then Goto [] 21
         else Fail)
       else if 46 < c then (if c < 65 then (if 48 \<le> c \<and> c \<le> 57 then Goto [] 21
           else Fail)
         else if 90 < c then (if 94 \<le> c \<and> c \<le> 122 then Goto [] 21
           else Fail)
         else Goto [] 21)
       else Goto [] 21)"

definition hc_case_91 :: "int \<Rightarrow> hc_action edge" where
  "hc_case_91 c =
     (if c = 33 \<or> c = 124 \<or> c = 126 then Goto [] 21
       else if c = 58 then hc_tr39
       else if c = 79 \<or> c = 111 then Goto [] 92
       else if c < 45 then (if 39 < c then (if 42 \<le> c \<and> c \<le> 43 then Goto [] 21
           else Fail)
         else if 35 \<le> c then Goto [] 21
         else Fail)
       else if 46 < c then (if c < 65 then (if 48 \<le> c \<and> c \<le> 57 then Goto [] 21
           else Fail)
         else if 90 < c then (if 94 \<le> c \<and> c \<le> 122 then Goto [] 21
           else Fail)
         else Goto [] 21)
       else Goto [] 21)"

definition hc_case_92 :: "int \<Rightarrow> hc_action edge" where
  "hc_case_92 c =
     (if c = 33 \<or> c = 124 \<or> c = 126 then Goto [] 21
       else if c = 58 then hc_tr39
       else if c = 83 \<or> c = 115 then Goto [] 93
       else if c < 45 then (if 39 < c then (if 42 \<le> c \<and> c \<le> 43 then Goto [] 21
           else Fail)
         else if 35 \<le> c then Goto [] 21
         else Fail)
       else if 46 < c then (if c < 65 then (if 48 \<le> c \<and> c \<le> 57 then Goto [] 21
           else Fail)
         else if 90 < c then (if 94 \<le> c \<and> c \<le> 122 then Goto [] 21
           else Fail)
         else Goto [] 21)
       else Goto [] 21)"

definition hc_case_93 :: "int \<Rightarrow> hc_action edge" where
  "hc_case_93 c =
     (if c = 33 \<or> c = 124 \<or> c = 126 then Goto [] 21
       else if c = 58 then hc_tr39
       else if c = 69 \<or> c = 101 then Goto [] 94
       else if c < 45 then (if 39 < c then (if 42 \<le> c \<and> c \<le> 43 then Goto [] 21
           else Fail)
         else if 35 \<le> c then Goto [] 21
         else Fail)
       else if 46 < c then (if c < 65 then (if 48 \<le> c \<and> c \<le> 57 then Goto [] 21
           else Fail)
         else if 90 < c then (if 94 \<le> c \<and> c \<le> 122 then Goto [] 21
           else Fail)
         else Goto [] 21)
       else Goto [] 21)"

definition hc_case_94 :: "int \<Rightarrow> hc_action edge" where
  "hc_case_94 c =
     (if c = 10 then Goto [] 43
       else if c = 13 then Goto [] 88
       else if c = 33 \<or> c = 124 \<or> c = 126 then Goto [] 21
       else if c = 58 then hc_tr39
       else if c < 45 then (if 39 < c then (if 42 \<le> c \<and> c \<le> 43 then Goto [] 21
           else Fail)
         else if 35 \<le> c then Goto [] 21
         else Fail)
       else if 46 < c then (if c < 65 then (if 48 \<le> c \<and> c \<le> 57 then Goto [] 21
           else Fail)
         else if 90 < c then (if 94 \<le> c \<and> c \<le> 122 then Goto [] 21
           else Fail)
         else Goto [] 21)
       else Goto [] 21)"

definition hc_case_95 :: "int \<Rightarrow> hc_action edge" where
  "hc_case_95 c =
     (if c = 10 then Goto [] 36
       else if c = 32 then Goto [] 37
       else if c = 67 \<or> c = 99 then Goto [] 38
       else if 9 \<le> c \<and> c \<le> 13 then Goto [] 37
       else Fail)"

definition hc_case_96 :: "int \<Rightarrow> hc_action edge" where
  "hc_case_96 c =
     (if c = 10 then hc_tr45
       else if c = 13 then hc_tr46
       else if c = 76 \<or> c = 108 then Goto [] 97
       else Goto [] 23)"

definition hc_case_97 :: "int \<Rightarrow> hc_action edge" where
  "hc_case_97 c =
     (if c = 10 then hc_tr45
       else if c = 13 then hc_tr46
       else if c = 79 \<or> c = 111 then Goto [] 98
       else Goto [] 23)"

definition hc_case_98 :: "int \<Rightarrow> hc_action edge" where
  "hc_case_98 c =
     (if c = 10 then hc_tr45
       else if c = 13 then hc_tr46
       else if c = 83 \<or> c = 115 then Goto [] 99
       else Goto [] 23)"

definition hc_case_99 :: "int \<Rightarrow> hc_action edge" where
  "hc_case_99 c =
     (if c = 10 then hc_tr45
       else if c = 13 then hc_tr46
       else if c = 69 \<or> c = 101 then Goto [] 100
       else Goto [] 23)"

definition hc_case_100 :: "int \<Rightarrow> hc_action edge" where
  "hc_case_100 c = (if c = 10 then hc_tr136 else if c = 13 then hc_tr137 else Goto [] 23)"

definition hc_case_101 :: "int \<Rightarrow> hc_action edge" where
  "hc_case_101 c =
     (if c = 33 \<or> c = 124 \<or> c = 126 then Goto [] 21
       else if c = 58 then hc_tr39
       else if c = 69 \<or> c = 101 then Goto [] 102
       else if c < 45 then (if 39 < c then (if 42 \<le> c \<and> c \<le> 43 then Goto [] 21
           else Fail)
         else if 35 \<le> c then Goto [] 21
         else Fail)
       else if 46 < c then (if c < 65 then (if 48 \<le> c \<and> c \<le> 57 then Goto [] 21
           else Fail)
         else if 90 < c then (if 94 \<le> c \<and> c \<le> 122 then Goto [] 21
           else Fail)
         else Goto [] 21)
       else Goto [] 21)"

definition hc_case_102 :: "int \<Rightarrow> hc_action edge" where
  "hc_case_102 c =
     (if c = 33 \<or> c = 124 \<or> c = 126 then Goto [] 21
       else if c = 58 then hc_tr39
       else if c = 78 \<or> c = 110 then Goto [] 103
       else if c < 45 then (if 39 < c then (if 42 \<le> c \<and> c \<le> 43 then Goto [] 21
           else Fail)
         else if 35 \<le> c then Goto [] 21
         else Fail)
       else if 46 < c then (if c < 65 then (if 48 \<le> c \<and> c \<le> 57 then Goto [] 21
           else Fail)
         else if 90 < c then (if 94 \<le> c \<and> c \<le> 122 then Goto [] 21
           else Fail)
         else Goto [] 21)
       else Goto [] 21)"

definition hc_case_103 :: "int \<Rightarrow> hc_action edge" where
  "hc_case_103 c =
     (if c = 33 \<or> c = 124 \<or> c = 126 then Goto [] 21
       else if c = 58 then hc_tr39
       else if c = 84 \<or> c = 116 then Goto [] 104
       else if c < 45 then (if 39 < c then (if 42 \<le> c \<and> c \<le> 43 then Goto [] 21
           else Fail)
         else if 35 \<le> c then Goto [] 21
         else Fail)
       else if 46 < c then (if c < 65 then (if 48 \<le> c \<and> c \<le> 57 then Goto [] 21
           else Fail)
         else if 90 < c then (if 94 \<le> c \<and> c \<le> 122 then Goto [] 21
           else Fail)
         else Goto [] 21)
       else Goto [] 21)"

definition hc_case_104 :: "int \<Rightarrow> hc_action edge" where
  "hc_case_104 c =
     (if c = 33 \<or> c = 46 \<or> c = 124 \<or> c = 126 then Goto [] 21
       else if c = 45 then Goto [] 105
       else if c = 58 then hc_tr39
       else if c < 48 then (if 39 < c then (if 42 \<le> c \<and> c \<le> 43 then Goto [] 21
           else Fail)
         else if 35 \<le> c then Goto [] 21
         else Fail)
       else if 57 < c then (if 90 < c then (if 94 \<le> c \<and> c \<le> 122 then Goto [] 21
           else Fail)
         else if 65 \<le> c then Goto [] 21
         else Fail)
       else Goto [] 21)"

definition hc_case_105 :: "int \<Rightarrow> hc_action edge" where
  "hc_case_105 c =
     (if c = 33 \<or> c = 124 \<or> c = 126 then Goto [] 21
       else if c = 58 then hc_tr39
       else if c = 76 \<or> c = 108 then Goto [] 106
       else if c < 45 then (if 39 < c then (if 42 \<le> c \<and> c \<le> 43 then Goto [] 21
           else Fail)
         else if 35 \<le> c then Goto [] 21
         else Fail)
       else if 46 < c then (if c < 65 then (if 48 \<le> c \<and> c \<le> 57 then Goto [] 21
           else Fail)
         else if 90 < c then (if 94 \<le> c \<and> c \<le> 122 then Goto [] 21
           else Fail)
         else Goto [] 21)
       else Goto [] 21)"

definition hc_case_106 :: "int \<Rightarrow> hc_action edge" where
  "hc_case_106 c =
     (if c = 33 \<or> c = 124 \<or> c = 126 then Goto [] 21
       else if c = 58 then hc_tr39
       else if c = 69 \<or> c = 101 then Goto [] 107
       else if c < 45 then (if 39 < c then (if 42 \<le> c \<and> c \<le> 43 then Goto [] 21
           else Fail)
         else if 35 \<le> c then Goto [] 21
         else Fail)
       else if 46 < c then (if c < 65 then (if 48 \<le> c \<and> c \<le> 57 then Goto [] 21
           else Fail)
         else if 90 < c then (if 94 \<le> c \<and> c \<le> 122 then Goto [] 21
           else Fail)
         else Goto [] 21)
       else Goto [] 21)"

definition hc_case_107 :: "int \<Rightarrow> hc_action edge" where
  "hc_case_107 c =
     (if c = 33 \<or> c = 124 \<or> c = 126 then Goto [] 21
       else if c = 58 then hc_tr39
       else if c = 78 \<or> c = 110 then Goto [] 108
       else if c < 45 then (if 39 < c then (if 42 \<le> c \<and> c \<le> 43 then Goto [] 21
           else Fail)
         else if 35 \<le> c then Goto [] 21
         else Fail)
       else if 46 < c then (if c < 65 then (if 48 \<le> c \<and> c \<le> 57 then Goto [] 21
           else Fail)
         else if 90 < c then (if 94 \<le> c \<and> c \<le> 122 then Goto [] 21
           else Fail)
         else Goto [] 21)
       else Goto [] 21)"

definition hc_case_108 :: "int \<Rightarrow> hc_action edge" where
  "hc_case_108 c =
     (if c = 33 \<or> c = 124 \<or> c = 126 then Goto [] 21
       else if c = 58 then hc_tr39
       else if c = 71 \<or> c = 103 then Goto [] 109
       else if c < 45 then (if 39 < c then (if 42 \<le> c \<and> c \<le> 43 then Goto [] 21
           else Fail)
         else if 35 \<le> c then Goto [] 21
         else Fail)
       else if 46 < c then (if c < 65 then (if 48 \<le> c \<and> c \<le> 57 then Goto [] 21
           else Fail)
         else if 90 < c then (if 94 \<le> c \<and> c \<le> 122 then Goto [] 21
           else Fail)
         else Goto [] 21)
       else Goto [] 21)"

definition hc_case_109 :: "int \<Rightarrow> hc_action edge" where
  "hc_case_109 c =
     (if c = 33 \<or> c = 124 \<or> c = 126 then Goto [] 21
       else if c = 58 then hc_tr39
       else if c = 84 \<or> c = 116 then Goto [] 110
       else if c < 45 then (if 39 < c then (if 42 \<le> c \<and> c \<le> 43 then Goto [] 21
           else Fail)
         else if 35 \<le> c then Goto [] 21
         else Fail)
       else if 46 < c then (if c < 65 then (if 48 \<le> c \<and> c \<le> 57 then Goto [] 21
           else Fail)
         else if 90 < c then (if 94 \<le> c \<and> c \<le> 122 then Goto [] 21
           else Fail)
         else Goto [] 21)
       else Goto [] 21)"

definition hc_case_110 :: "int \<Rightarrow> hc_action edge" where
  "hc_case_110 c =
     (if c = 33 \<or> c = 124 \<or> c = 126 then Goto [] 21
       else if c = 58 then hc_tr39
       else if c = 72 \<or> c = 104 then Goto [] 111
       else if c < 45 then (if 39 < c then (if 42 \<le> c \<and> c \<le> 43 then Goto [] 21
           else Fail)
         else if 35 \<le> c then Goto [] 21
         else Fail)
       else if 46 < c then (if c < 65 then (if 48 \<le> c \<and> c \<le> 57 then Goto [] 21
           else Fail)
         else if 90 < c then (if 94 \<le> c \<and> c \<le> 122 then Goto [] 21
           else Fail)
         else Goto [] 21)
       else Goto [] 21)"

definition hc_case_111 :: "int \<Rightarrow> hc_action edge" where
  "hc_case_111 c =
     (if c = 33 \<or> c = 124 \<or> c = 126 then Goto [] 21
       else if c = 58 then hc_tr148
       else if c < 45 then (if 39 < c then (if 42 \<le> c \<and> c \<le> 43 then Goto [] 21
           else Fail)
         else if 35 \<le> c then Goto [] 21
         else Fail)
       else if 46 < c then (if c < 65 then (if 48 \<le> c \<and> c \<le> 57 then Goto [] 21
           else Fail)
         else if 90 < c then (if 94 \<le> c \<and> c \<le> 122 then Goto [] 21
           else Fail)
         else Goto [] 21)
       else Goto [] 21)"

definition hc_case_112 :: "int \<Rightarrow> hc_action edge" where
  "hc_case_112 c =
     (if c = 10 then hc_tr150
       else if c = 13 then hc_tr151
       else if c = 32 then hc_tr149
       else if 12 < c then (if 48 \<le> c \<and> c \<le> 57 then hc_tr152
         else hc_tr40)
       else if 9 \<le> c then hc_tr149
       else hc_tr40)"

definition hc_case_113 :: "int \<Rightarrow> hc_action edge" where
  "hc_case_113 c =
     (if c = 10 then hc_tr154
       else if c = 13 then Goto [] 116
       else if c = 32 then Goto [] 114
       else if c = 33 \<or> c = 124 \<or> c = 126 then hc_tr35
       else if c = 67 \<or> c = 99 then hc_tr36
       else if c = 84 \<or> c = 116 then hc_tr37
       else if c < 45 then (if c < 35 then (if 9 \<le> c \<and> c \<le> 12 then Goto [] 114
           else Fail)
         else if 39 < c then (if 42 \<le> c \<and> c \<le> 43 then hc_tr35
           else Fail)
         else hc_tr35)
       else if 46 < c then (if c < 65 then (if 48 \<le> c \<and> c \<le> 57 then hc_tr156
           else Fail)
         else if 90 < c then (if 94 \<le> c \<and> c \<le> 122 then hc_tr35
           else Fail)
         else hc_tr35)
       else hc_tr35)"

definition hc_case_114 :: "int \<Rightarrow> hc_action edge" where
  "hc_case_114 c =
     (if c = 32 then Goto [] 114
       else if 13 < c then (if 48 \<le> c \<and> c \<le> 57 then hc_tr157
         else Fail)
       else if 9 \<le> c then Goto [] 114
       else Fail)"

definition hc_case_115 :: "int \<Rightarrow> hc_action edge" where
  "hc_case_115 c =
     (if c = 10 then hc_tr158
       else if c = 13 then hc_tr159
       else if 48 \<le> c \<and> c \<le> 57 then Goto [] 115
       else Fail)"

definition hc_case_116 :: "int \<Rightarrow> hc_action edge" where
  "hc_case_116 c =
     (if c = 10 then hc_tr154
       else if c = 32 then Goto [] 114
       else if 13 < c then (if 48 \<le> c \<and> c \<le> 57 then hc_tr157
         else Fail)
       else if 9 \<le> c then Goto [] 114
       else Fail)"

definition hc_case_117 :: "int \<Rightarrow> hc_action edge" where
  "hc_case_117 c =
     (if c = 10 then hc_tr158
       else if c = 13 then hc_tr159
       else if c = 33 \<or> c = 124 \<or> c = 126 then Goto [] 21
       else if c = 58 then hc_tr39
       else if c < 45 then (if 39 < c then (if 42 \<le> c \<and> c \<le> 43 then Goto [] 21
           else Fail)
         else if 35 \<le> c then Goto [] 21
         else Fail)
       else if 46 < c then (if c < 65 then (if 48 \<le> c \<and> c \<le> 57 then Goto [] 117
           else Fail)
         else if 90 < c then (if 94 \<le> c \<and> c \<le> 122 then Goto [] 21
           else Fail)
         else Goto [] 21)
       else Goto [] 21)"

definition hc_case_118 :: "int \<Rightarrow> hc_action edge" where
  "hc_case_118 c =
     (if c = 10 then Goto [] 113
       else if c = 32 then Goto [] 114
       else if 13 < c then (if 48 \<le> c \<and> c \<le> 57 then hc_tr157
         else Fail)
       else if 9 \<le> c then Goto [] 114
       else Fail)"

definition hc_case_119 :: "int \<Rightarrow> hc_action edge" where
  "hc_case_119 c =
     (if c = 10 then hc_tr158
       else if c = 13 then hc_tr159
       else if 48 \<le> c \<and> c \<le> 57 then Goto [] 119
       else Goto [] 23)"

definition hc_case_120 :: "int \<Rightarrow> hc_action edge" where
  "hc_case_120 c = Fail"

definition hc_case_121 :: "int \<Rightarrow> hc_action edge" where
  "hc_case_121 c =
     (if c = 32 then Goto [] 63
       else if c = 67 \<or> c = 99 then hc_tr104
       else if 9 \<le> c \<and> c \<le> 13 then Goto [] 63
       else Fail)"

definition hc_case_122 :: "int \<Rightarrow> hc_action edge" where
  "hc_case_122 c =
     (if c = 32 then Goto [] 37
       else if c = 67 \<or> c = 99 then Goto [] 38
       else if 9 \<le> c \<and> c \<le> 13 then Goto [] 37
       else Fail)"

definition hc_case_123 :: "int \<Rightarrow> hc_action edge" where
  "hc_case_123 c =
     (if c = 32 then Goto [] 114
       else if 13 < c then (if 48 \<le> c \<and> c \<le> 57 then hc_tr157
         else Fail)
       else if 9 \<le> c then Goto [] 114
       else Fail)"

section \<open>The switch\<close>

definition hc_switch :: "nat \<Rightarrow> int \<Rightarrow> hc_action edge" where
  "hc_switch cs = (if cs < 62 then (if cs < 31 then (if cs < 16 then (if cs < 8 then (if cs < 4 then (if cs < 2
    then (if cs = 1 then hc_case_1 else (\<lambda>_. Fail)) else (if cs < 3 then (if cs = 2
    then hc_case_2 else (\<lambda>_. Fail)) else (if cs = 3 then hc_case_3 else (\<lambda>_.
    Fail)))) else (if cs < 6 then (if cs < 5 then (if cs = 4 then hc_case_4 else (\<lambda>_.
    Fail)) else (if cs = 5 then hc_case_5 else (\<lambda>_. Fail))) else (if cs < 7 then (if
    cs = 6 then hc_case_6 else (\<lambda>_. Fail)) else (if cs = 7 then hc_case_7 else
    (\<lambda>_. Fail))))) else (if cs < 12 then (if cs < 10 then (if cs < 9 then (if cs = 8
    then hc_case_8 else (\<lambda>_. Fail)) else (if cs = 9 then hc_case_9 else (\<lambda>_.
    Fail))) else (if cs < 11 then (if cs = 10 then hc_case_10 else (\<lambda>_. Fail)) else
    (if cs = 11 then hc_case_11 else (\<lambda>_. Fail)))) else (if cs < 14 then (if cs < 13
    then (if cs = 12 then hc_case_12 else (\<lambda>_. Fail)) else (if cs = 13 then hc_case_13
    else (\<lambda>_. Fail))) else (if cs < 15 then (if cs = 14 then hc_case_14 else
    (\<lambda>_. Fail)) else (if cs = 15 then hc_case_15 else (\<lambda>_. Fail)))))) else
    (if cs < 23 then (if cs < 19 then (if cs < 17 then (if cs = 16 then hc_case_16 else
    (\<lambda>_. Fail)) else (if cs < 18 then (if cs = 17 then hc_case_17 else (\<lambda>_.
    Fail)) else (if cs = 18 then hc_case_18 else (\<lambda>_. Fail)))) else (if cs < 21 then
    (if cs < 20 then (if cs = 19 then hc_case_19 else (\<lambda>_. Fail)) else (if cs = 20
    then hc_case_20 else (\<lambda>_. Fail))) else (if cs < 22 then (if cs = 21 then
    hc_case_21 else (\<lambda>_. Fail)) else (if cs = 22 then hc_case_22 else (\<lambda>_.
    Fail))))) else (if cs < 27 then (if cs < 25 then (if cs < 24 then (if cs = 23 then
    hc_case_23 else (\<lambda>_. Fail)) else (if cs = 24 then hc_case_24 else (\<lambda>_.
    Fail))) else (if cs < 26 then (if cs = 25 then hc_case_25 else (\<lambda>_. Fail)) else
    (if cs = 26 then hc_case_26 else (\<lambda>_. Fail)))) else (if cs < 29 then (if cs < 28
    then (if cs = 27 then hc_case_27 else (\<lambda>_. Fail)) else (if cs = 28 then hc_case_28
    else (\<lambda>_. Fail))) else (if cs < 30 then (if cs = 29 then hc_case_29 else
    (\<lambda>_. Fail)) else (if cs = 30 then hc_case_30 else (\<lambda>_. Fail))))))) else
    (if cs < 46 then (if cs < 38 then (if cs < 34 then (if cs < 32 then (if cs = 31 then
    hc_case_31 else (\<lambda>_. Fail)) else (if cs < 33 then (if cs = 32 then hc_case_32 else
    (\<lambda>_. Fail)) else (if cs = 33 then hc_case_33 else (\<lambda>_. Fail)))) else (if
    cs < 36 then (if cs < 35 then (if cs = 34 then hc_case_34 else (\<lambda>_. Fail)) else
    (if cs = 35 then hc_case_35 else (\<lambda>_. Fail))) else (if cs < 37 then (if cs = 36
    then hc_case_36 else (\<lambda>_. Fail)) else (if cs = 37 then hc_case_37 else (\<lambda>_. Fail))))) else (if cs < 42 then (if cs < 40 then (if cs < 39 then (if cs = 38 then
    hc_case_38 else (\<lambda>_. Fail)) else (if cs = 39 then hc_case_39 else (\<lambda>_.
    Fail))) else (if cs < 41 then (if cs = 40 then hc_case_40 else (\<lambda>_. Fail)) else
    (if cs = 41 then hc_case_41 else (\<lambda>_. Fail)))) else (if cs < 44 then (if cs < 43
    then (if cs = 42 then hc_case_42 else (\<lambda>_. Fail)) else (if cs = 43 then hc_case_43
    else (\<lambda>_. Fail))) else (if cs < 45 then (if cs = 44 then hc_case_44 else
    (\<lambda>_. Fail)) else (if cs = 45 then hc_case_45 else (\<lambda>_. Fail)))))) else
    (if cs < 54 then (if cs < 50 then (if cs < 48 then (if cs < 47 then (if cs = 46 then
    hc_case_46 else (\<lambda>_. Fail)) else (if cs = 47 then hc_case_47 else (\<lambda>_.
    Fail))) else (if cs < 49 then (if cs = 48 then hc_case_48 else (\<lambda>_. Fail)) else
    (if cs = 49 then hc_case_49 else (\<lambda>_. Fail)))) else (if cs < 52 then (if cs < 51
    then (if cs = 50 then hc_case_50 else (\<lambda>_. Fail)) else (if cs = 51 then hc_case_51
    else (\<lambda>_. Fail))) else (if cs < 53 then (if cs = 52 then hc_case_52 else
    (\<lambda>_. Fail)) else (if cs = 53 then hc_case_53 else (\<lambda>_. Fail))))) else
    (if cs < 58 then (if cs < 56 then (if cs < 55 then (if cs = 54 then hc_case_54 else
    (\<lambda>_. Fail)) else (if cs = 55 then hc_case_55 else (\<lambda>_. Fail))) else (if
    cs < 57 then (if cs = 56 then hc_case_56 else (\<lambda>_. Fail)) else (if cs = 57 then
    hc_case_57 else (\<lambda>_. Fail)))) else (if cs < 60 then (if cs < 59 then (if cs = 58
    then hc_case_58 else (\<lambda>_. Fail)) else (if cs = 59 then hc_case_59 else (\<lambda>_. Fail))) else (if cs < 61 then (if cs = 60 then hc_case_60 else (\<lambda>_. Fail)) else
    (if cs = 61 then hc_case_61 else (\<lambda>_. Fail)))))))) else (if cs < 93 then (if cs <
    77 then (if cs < 69 then (if cs < 65 then (if cs < 63 then (if cs = 62 then hc_case_62 else
    (\<lambda>_. Fail)) else (if cs < 64 then (if cs = 63 then hc_case_63 else (\<lambda>_.
    Fail)) else (if cs = 64 then hc_case_64 else (\<lambda>_. Fail)))) else (if cs < 67 then
    (if cs < 66 then (if cs = 65 then hc_case_65 else (\<lambda>_. Fail)) else (if cs = 66
    then hc_case_66 else (\<lambda>_. Fail))) else (if cs < 68 then (if cs = 67 then
    hc_case_67 else (\<lambda>_. Fail)) else (if cs = 68 then hc_case_68 else (\<lambda>_.
    Fail))))) else (if cs < 73 then (if cs < 71 then (if cs < 70 then (if cs = 69 then
    hc_case_69 else (\<lambda>_. Fail)) else (if cs = 70 then hc_case_70 else (\<lambda>_.
    Fail))) else (if cs < 72 then (if cs = 71 then hc_case_71 else (\<lambda>_. Fail)) else
    (if cs = 72 then hc_case_72 else (\<lambda>_. Fail)))) else (if cs < 75 then (if cs < 74
    then (if cs = 73 then hc_case_73 else (\<lambda>_. Fail)) else (if cs = 74 then hc_case_74
    else (\<lambda>_. Fail))) else (if cs < 76 then (if cs = 75 then hc_case_75 else
    (\<lambda>_. Fail)) else (if cs = 76 then hc_case_76 else (\<lambda>_. Fail)))))) else
    (if cs < 85 then (if cs < 81 then (if cs < 79 then (if cs < 78 then (if cs = 77 then
    hc_case_77 else (\<lambda>_. Fail)) else (if cs = 78 then hc_case_78 else (\<lambda>_.
    Fail))) else (if cs < 80 then (if cs = 79 then hc_case_79 else (\<lambda>_. Fail)) else
    (if cs = 80 then hc_case_80 else (\<lambda>_. Fail)))) else (if cs < 83 then (if cs < 82
    then (if cs = 81 then hc_case_81 else (\<lambda>_. Fail)) else (if cs = 82 then hc_case_82
    else (\<lambda>_. Fail))) else (if cs < 84 then (if cs = 83 then hc_case_83 else
    (\<lambda>_. Fail)) else (if cs = 84 then hc_case_84 else (\<lambda>_. Fail))))) else
    (if cs < 89 then (if cs < 87 then (if cs < 86 then (if cs = 85 then hc_case_85 else
    (\<lambda>_. Fail)) else (if cs = 86 then hc_case_86 else (\<lambda>_. Fail))) else (if
    cs < 88 then (if cs = 87 then hc_case_87 else (\<lambda>_. Fail)) else (if cs = 88 then
    hc_case_88 else (\<lambda>_. Fail)))) else (if cs < 91 then (if cs < 90 then (if cs = 89
    then hc_case_89 else (\<lambda>_. Fail)) else (if cs = 90 then hc_case_90 else (\<lambda>_. Fail))) else (if cs < 92 then (if cs = 91 then hc_case_91 else (\<lambda>_. Fail)) else
    (if cs = 92 then hc_case_92 else (\<lambda>_. Fail))))))) else (if cs < 108 then (if cs <
    100 then (if cs < 96 then (if cs < 94 then (if cs = 93 then hc_case_93 else (\<lambda>_.
    Fail)) else (if cs < 95 then (if cs = 94 then hc_case_94 else (\<lambda>_. Fail)) else (if
    cs = 95 then hc_case_95 else (\<lambda>_. Fail)))) else (if cs < 98 then (if cs < 97 then
    (if cs = 96 then hc_case_96 else (\<lambda>_. Fail)) else (if cs = 97 then hc_case_97 else
    (\<lambda>_. Fail))) else (if cs < 99 then (if cs = 98 then hc_case_98 else (\<lambda>_.
    Fail)) else (if cs = 99 then hc_case_99 else (\<lambda>_. Fail))))) else (if cs < 104 then
    (if cs < 102 then (if cs < 101 then (if cs = 100 then hc_case_100 else (\<lambda>_. Fail))
    else (if cs = 101 then hc_case_101 else (\<lambda>_. Fail))) else (if cs < 103 then (if cs
    = 102 then hc_case_102 else (\<lambda>_. Fail)) else (if cs = 103 then hc_case_103 else
    (\<lambda>_. Fail)))) else (if cs < 106 then (if cs < 105 then (if cs = 104 then
    hc_case_104 else (\<lambda>_. Fail)) else (if cs = 105 then hc_case_105 else (\<lambda>_. Fail))) else (if cs < 107 then (if cs = 106 then hc_case_106 else (\<lambda>_. Fail))
    else (if cs = 107 then hc_case_107 else (\<lambda>_. Fail)))))) else (if cs < 116 then (if
    cs < 112 then (if cs < 110 then (if cs < 109 then (if cs = 108 then hc_case_108 else
    (\<lambda>_. Fail)) else (if cs = 109 then hc_case_109 else (\<lambda>_. Fail))) else
    (if cs < 111 then (if cs = 110 then hc_case_110 else (\<lambda>_. Fail)) else (if cs = 111
    then hc_case_111 else (\<lambda>_. Fail)))) else (if cs < 114 then (if cs < 113 then (if
    cs = 112 then hc_case_112 else (\<lambda>_. Fail)) else (if cs = 113 then hc_case_113 else
    (\<lambda>_. Fail))) else (if cs < 115 then (if cs = 114 then hc_case_114 else (\<lambda>_. Fail)) else (if cs = 115 then hc_case_115 else (\<lambda>_. Fail))))) else (if cs < 120
    then (if cs < 118 then (if cs < 117 then (if cs = 116 then hc_case_116 else (\<lambda>_.
    Fail)) else (if cs = 117 then hc_case_117 else (\<lambda>_. Fail))) else (if cs < 119 then
    (if cs = 118 then hc_case_118 else (\<lambda>_. Fail)) else (if cs = 119 then hc_case_119
    else (\<lambda>_. Fail)))) else (if cs < 122 then (if cs < 121 then (if cs = 120 then
    hc_case_120 else (\<lambda>_. Fail)) else (if cs = 121 then hc_case_121 else (\<lambda>_. Fail))) else (if cs < 123 then (if cs = 122 then hc_case_122 else (\<lambda>_. Fail))
    else (if cs = 123 then hc_case_123 else (\<lambda>_. Fail)))))))))"

end
