(* ===== verification/Http_Parser.thy ===== *)
theory Http_Parser
  imports Http11_Table Httpclient_Table Http_Client
begin

text \<open>
  The generated parsers around their tables: the structs, the actions of \<^verbatim>\<open>http11_parser.rl\<close> and
  \<^verbatim>\<open>httpclient_parser.rl\<close>, and \<open>init\<close>, \<open>execute\<close> and \<open>finish\<close>.  The assertions of \<open>execute\<close> are
  part of the model, \<open>None\<close> is an abort.
\<close>

section \<open>Requests: http11_parser\<close>

record http_parser =
  hp_cs :: nat
  hp_body_start :: nat
  hp_content_len :: int
  hp_nread :: nat
  hp_mark :: nat
  hp_field_start :: nat
  hp_field_len :: nat
  hp_query_start :: nat
  hp_xml_sent :: bool
  hp_json_sent :: bool
  hp_uri_relaxed :: bool

text \<open>\<open>query_start\<close> and \<open>uri_relaxed\<close> are not initialised: they keep what they are given.\<close>

definition http_parser_init :: "http_parser \<Rightarrow> http_parser" where
  "http_parser_init P = P\<lparr>hp_cs := 1, hp_body_start := 0, hp_content_len := 0, hp_mark := 0, hp_nread := 0,
     hp_field_len := 0, hp_field_start := 0, hp_xml_sent := False, hp_json_sent := False\<rparr>"

text \<open>
  The actions, on the parser and the callbacks made so far; \<open>buf\<close> is the buffer up to \<open>pe\<close> and \<open>p\<close>
  the position in it.
\<close>

fun hp_act :: "string \<Rightarrow> hp_action \<Rightarrow> nat \<Rightarrow> http_parser \<times> parser_event list
    \<Rightarrow> http_parser \<times> parser_event list" where
  "hp_act buf HMark p (P, evs) = (P\<lparr>hp_mark := p\<rparr>, evs)"
| "hp_act buf HStartField p (P, evs) = (P\<lparr>hp_field_start := p\<rparr>, evs)"
| "hp_act buf HWriteField p (P, evs) = (P\<lparr>hp_field_len := len_of p (hp_field_start P)\<rparr>, evs)"
| "hp_act buf HWriteValue p (P, evs) = (P, evs @ [EvField (drop (hp_field_start P) buf) (hp_field_len P)
     (drop (hp_mark P) buf) (len_of p (hp_mark P))])"
| "hp_act buf HRequestMethod p (P, evs) = (P, evs @ [EvMethod (drop (hp_mark P) buf) (len_of p (hp_mark P))])"
| "hp_act buf HRequestUri p (P, evs) = (P, evs @ [EvUri (drop (hp_mark P) buf) (len_of p (hp_mark P))])"
| "hp_act buf HFragment p (P, evs) = (P, evs @ [EvFragment (drop (hp_mark P) buf) (len_of p (hp_mark P))])"
| "hp_act buf HStartQuery p (P, evs) = (P\<lparr>hp_query_start := p\<rparr>, evs)"
| "hp_act buf HQueryString p (P, evs) =
     (P, evs @ [EvQuery (drop (hp_query_start P) buf) (len_of p (hp_query_start P))])"
| "hp_act buf HHttpVersion p (P, evs) = (P, evs @ [EvVersion (drop (hp_mark P) buf) (len_of p (hp_mark P))])"
| "hp_act buf HRequestPath p (P, evs) = (P, evs @ [EvPath (drop (hp_mark P) buf) (len_of p (hp_mark P))])"
| "hp_act buf HXml p (P, evs) = (P\<lparr>hp_xml_sent := True\<rparr>, evs)"
| "hp_act buf HJson p (P, evs) = (P\<lparr>hp_json_sent := True\<rparr>, evs)"
| "hp_act buf HDone p (P, evs) =
     (if hp_xml_sent P \<or> hp_json_sent P
      then (P\<lparr>hp_body_start := hp_mark P, hp_content_len := to_int32 (len_of p (hp_mark P) + 1)\<rparr>, evs)
      else (P\<lparr>hp_body_start := p + 1\<rparr>, evs @ [EvHeaderDone (drop (p + 1) buf) (length buf - p - 1)]))"

definition http_parser_has_error :: "http_parser \<Rightarrow> bool" where
  "http_parser_has_error P \<longleftrightarrow> hp_cs P = 0"

definition http_parser_is_finished :: "http_parser \<Rightarrow> bool" where
  "http_parser_is_finished P \<longleftrightarrow> 348 \<le> hp_cs P"

definition http_parser_finish :: "http_parser \<Rightarrow> int" where
  "http_parser_finish P = (if http_parser_has_error P then -1 else if http_parser_is_finished P then 1 else 0)"

text \<open>Before the machine runs, and the machine on the buffer.\<close>

definition hp_reset :: "http_parser \<Rightarrow> http_parser" where
  "hp_reset P = P\<lparr>hp_nread := 0, hp_mark := 0, hp_field_len := 0, hp_field_start := 0\<rparr>"

definition hp_run :: "http_parser \<Rightarrow> string \<Rightarrow> nat \<times> nat \<times> http_parser \<times> parser_event list" where
  "hp_run P buf = ragel_run (\<lambda>cs. hp_switch cs (hp_uri_relaxed P)) (hp_act buf) buf 0 (hp_cs P) (hp_reset P, [])"

text \<open>
  \<open>off\<close> is 0 in every call, so the assertions before the machine starts say that the distance of
  \<open>pe\<close> and \<open>p\<close> is the length cut to an \<open>int\<close>.
\<close>

definition hp_entry_ok :: "string \<Rightarrow> bool" where
  "hp_entry_ok buf \<longleftrightarrow> 0 \<le> length buf \<and> int (length buf) - 0 = to_int32 (length buf) - to_int32 0"

text \<open>The machine, and the assertions behind it.\<close>

definition hp_parse :: "http_parser \<Rightarrow> string \<Rightarrow> (nat \<times> http_parser \<times> parser_event list) option" where
  "hp_parse P buf =
    (let len = length buf in
     case hp_run P buf of (p, cs, P', evs) \<Rightarrow>
       let P1 = (if \<not> http_parser_has_error P' then P'\<lparr>hp_cs := cs\<rparr> else P')\<lparr>hp_nread := p\<rparr> in
       if p \<le> len \<and> hp_nread P1 \<le> len \<and> hp_body_start P1 \<le> len \<and> hp_mark P1 < len
          \<and> hp_field_len P1 \<le> len \<and> hp_field_start P1 < len
       then Some (hp_nread P1, P1, evs) else None)"

definition http_parser_execute :: "http_parser \<Rightarrow> string \<Rightarrow> (nat \<times> http_parser \<times> parser_event list) option" where
  "http_parser_execute P buf =
    (if length buf = 0 then Some (0, P, []) else if hp_entry_ok buf then hp_parse P buf else None)"

section \<open>Responses: httpclient_parser\<close>

record httpclient_parser =
  hc_cs :: nat
  hc_body_start :: nat
  hc_content_len :: int
  hc_status :: int
  hc_chunked :: bool
  hc_chunks_done :: bool
  hc_close :: bool
  hc_nread :: nat
  hc_mark :: nat
  hc_field_start :: nat
  hc_field_len :: nat

definition httpclient_parser_init :: "httpclient_parser \<Rightarrow> httpclient_parser" where
  "httpclient_parser_init P = P\<lparr>hc_cs := 1, hc_body_start := 0, hc_content_len := -1, hc_chunked := False,
     hc_chunks_done := False, hc_mark := 0, hc_nread := 0, hc_field_len := 0, hc_field_start := 0,
     hc_close := False\<rparr>"

fun hc_act :: "string \<Rightarrow> hc_action \<Rightarrow> nat \<Rightarrow> httpclient_parser \<times> parser_event list
    \<Rightarrow> httpclient_parser \<times> parser_event list" where
  "hc_act buf CMark p (P, evs) = (P\<lparr>hc_mark := p\<rparr>, evs)"
| "hc_act buf CStartField p (P, evs) = (P\<lparr>hc_field_start := p\<rparr>, evs)"
| "hc_act buf CWriteField p (P, evs) = (P\<lparr>hc_field_len := len_of p (hc_field_start P)\<rparr>, evs)"
| "hc_act buf CWriteContentLen p (P, evs) = (P\<lparr>hc_content_len := strtol10 (drop (hc_mark P) buf)\<rparr>, evs)"
| "hc_act buf CWriteConnectionClose p (P, evs) = (P\<lparr>hc_close := True\<rparr>, evs)"
| "hc_act buf CWriteValue p (P, evs) = (P, evs @ [EvField (drop (hc_field_start P) buf) (hc_field_len P)
     (drop (hc_mark P) buf) (len_of p (hc_mark P))])"
| "hc_act buf CReasonPhrase p (P, evs) = (P, evs @ [EvReason (drop (hc_mark P) buf) (len_of p (hc_mark P))])"
| "hc_act buf CStatusCode p (P, evs) = (P\<lparr>hc_status := strtol10 (drop (hc_mark P) buf)\<rparr>,
     evs @ [EvStatus (drop (hc_mark P) buf) (len_of p (hc_mark P))])"
| "hc_act buf CHttpVersion p (P, evs) = (P, evs @ [EvVersion (drop (hc_mark P) buf) (len_of p (hc_mark P))])"
| "hc_act buf CChunkSize p (P, evs) =
     (let n = strtol16 (drop (hc_mark P) buf) in
      (P\<lparr>hc_chunked := True, hc_content_len := n, hc_chunks_done := (n \<le> 0)\<rparr>,
       evs @ [if n \<le> 0 then EvLastChunk (drop (hc_mark P) buf) (len_of p (hc_mark P))
              else EvChunk (drop (hc_mark P) buf) (len_of p (hc_mark P))]))"
| "hc_act buf CTransChunked p (P, evs) = (P\<lparr>hc_chunked := True\<rparr>, evs)"
| "hc_act buf CDone p (P, evs) =
     (P\<lparr>hc_body_start := p + 1\<rparr>, evs @ [EvHeaderDone (drop (p + 1) buf) (length buf - p - 1)])"

definition httpclient_parser_has_error :: "httpclient_parser \<Rightarrow> bool" where
  "httpclient_parser_has_error P \<longleftrightarrow> hc_cs P = 0"

definition httpclient_parser_is_finished :: "httpclient_parser \<Rightarrow> bool" where
  "httpclient_parser_is_finished P \<longleftrightarrow> hc_cs P = 120"

definition httpclient_parser_finish :: "httpclient_parser \<Rightarrow> int" where
  "httpclient_parser_finish P =
    (if httpclient_parser_has_error P then -1 else if httpclient_parser_is_finished P then 1 else 0)"

definition hc_reset :: "httpclient_parser \<Rightarrow> httpclient_parser" where
  "hc_reset P = P\<lparr>hc_nread := 0, hc_mark := 0, hc_field_len := 0, hc_field_start := 0\<rparr>"

definition hc_run :: "httpclient_parser \<Rightarrow> string \<Rightarrow> nat \<times> nat \<times> httpclient_parser \<times> parser_event list" where
  "hc_run P buf = ragel_run hc_switch (hc_act buf) buf 0 (hc_cs P) (hc_reset P, [])"

text \<open>\<open>z\<close> is the character behind the buffer, at \<open>pe\<close>; it has to be a NUL.\<close>

definition hc_entry_ok :: "string \<Rightarrow> char \<Rightarrow> bool" where
  "hc_entry_ok buf z \<longleftrightarrow> 0 \<le> length buf \<and> z = CHR 0x00
     \<and> int (length buf) - 0 = to_int32 (length buf) - to_int32 0"

text \<open>\<open>check\<close> makes the function return -1, \<open>assert\<close> aborts.\<close>

definition httpclient_parser_execute ::
    "httpclient_parser \<Rightarrow> string \<Rightarrow> char \<Rightarrow> (int \<times> httpclient_parser \<times> parser_event list) option" where
  "httpclient_parser_execute P buf z =
    (let len = length buf in
     if \<not> hc_entry_ok buf z then None
     else case hc_run P buf of (p, cs, P', evs) \<Rightarrow>
       let P1 = P'\<lparr>hc_cs := cs, hc_nread := p\<rparr> in
       if p \<le> len \<and> hc_nread P1 \<le> len \<and> hc_body_start P1 \<le> len
       then Some (if hc_mark P1 < len \<and> hc_field_len P1 \<le> len \<and> hc_field_start P1 < len
                  then to_int32 (hc_nread P1) else -1, P1, evs)
       else None)"

section \<open>The parsers as the classes use them\<close>

text \<open>
  The session counts in an \<open>int\<close> and calls \<open>execute\<close> with a positive one, so the length it passes
  satisfies the assertion at the entry: \<open>request_ragel\<close> is the call of \<open>http_parser_execute\<close> behind
  that assertion, for any such length (lemma \<open>request_ragel_execute\<close>).  The connection writes a NUL
  behind what it has received before it calls \<open>execute\<close>.  The lemmas of the theory
  \<^verbatim>\<open>Http_Parser_Correct\<close> show that in these calls the parsers neither abort nor return -1.
\<close>

definition request_ragel :: "http_parser ragel" where
  "request_ragel P buf = (if buf = [] then (0, P, [])
     else case hp_parse P buf of Some r \<Rightarrow> r | None \<Rightarrow> (0, P, []))"

definition response_ragel :: "httpclient_parser ragel" where
  "response_ragel P buf = (case httpclient_parser_execute P buf (CHR 0x00) of
     Some (n, P', evs) \<Rightarrow> (nat (n mod 2 ^ 64), P', evs) | None \<Rightarrow> (0, P, []))"

definition response_machine :: "httpclient_parser rsp_machine" where
  "response_machine = \<lparr>rm_exec = response_ragel, rm_init = httpclient_parser_init,
     rm_error = httpclient_parser_has_error, rm_finished = (\<lambda>Q. httpclient_parser_finish Q \<noteq> 0),
     rm_chunked = hc_chunked, rm_content_len = hc_content_len, rm_chunks_done = hc_chunks_done\<rparr>"

end
