(* ===== verification/Socket_Stream_Correct.thy ===== *)
theory Socket_Stream_Correct
  imports Socket_Stream
begin

text \<open>
  The fixed-size transfers on a socket are independent of how the kernel cuts the data, into
  plain buffers and into a \<open>ByteArray\<close>.
\<close>

lemma sock_upD: "sock_up s \<Longrightarrow> s_open s"
  by (simp add: sock_up_def)

lemma ss_read_ba_up:
  assumes "ba_inv b" "sock_up s" "sock_pending s \<noteq> []" "0 < n"
  shows "\<exists>k b' s'. ss_read_ba n (b, s) = (Inr (int k), b', s') \<and> 0 < k \<and> k \<le> n
    \<and> k \<le> length (sock_pending s) \<and> ba_inv b' \<and> sock_up s' \<and> sock_pending s' = drop k (sock_pending s)
    \<and> m_position b' = m_position b + k
    \<and> ba_content b' = blit (ba_content b) (m_position b) (take k (sock_pending s))"
proof -
  obtain k s' where s': "sock_recv n s = ((int k, take k (sock_pending s)), s')" "0 < k" "k \<le> n"
    "k \<le> length (sock_pending s)" "sock_up s'" "sock_pending s' = drop k (sock_pending s)"
    using sock_recv_up [OF assms(2-4)] by blast
  have len: "length (take k (sock_pending s)) = k" "length (take k (sock_pending s)) \<le> n"
    using s' by simp_all
  from getWriteBuffers_spec [OF assms(1,4) len(2)] obtain iovs b1 b2 where
    "getWriteBuffers n b = (Inr (iovs, n), b1)" "m_position b1 = m_position b"
    "setPosition (m_position b + k) (fill_buffers iovs (take k (sock_pending s)) b1) = (Inr (), b2)"
    "ba_inv b2" "m_position b2 = m_position b + k"
    "ba_content b2 = blit (ba_content b) (m_position b) (take k (sock_pending s))"
    unfolding len(1) by blast
  then show ?thesis using s' sock_upD [OF assms(2)] by (auto simp: ss_read_ba_def)
qed

lemma readFixSize_ba_loop_ok:
  "ba_inv b \<Longrightarrow> sock_up s \<Longrightarrow> n \<le> length (sock_pending s) \<Longrightarrow>
   \<exists>b' s'. fixSize_ba_loop ss_read_ba n (b, s) = (Inr None, b', s') \<and> ba_inv b' \<and> sock_up s'
     \<and> sock_pending s' = drop n (sock_pending s) \<and> m_position b' = m_position b + n
     \<and> ba_content b' = blit (ba_content b) (m_position b) (take n (sock_pending s))"
proof (induction n arbitrary: b s rule: less_induct)
  case (less n)
  have pos: "m_position b \<le> length (ba_content b)"
    using less.prems(1) by simp (simp add: ba_inv_def)
  show ?case
  proof (cases "n = 0")
    case True
    then show ?thesis using less.prems pos by (subst fixSize_ba_loop.simps) auto
  next
    case False
    with less.prems have "sock_pending s \<noteq> []" "0 < n" by auto
    from ss_read_ba_up [OF less.prems(1,2) this] obtain k b1 s1 where s1:
      "ss_read_ba n (b, s) = (Inr (int k), b1, s1)" "0 < k" "k \<le> n" "k \<le> length (sock_pending s)"
      "ba_inv b1" "sock_up s1" "sock_pending s1 = drop k (sock_pending s)"
      "m_position b1 = m_position b + k"
      "ba_content b1 = blit (ba_content b) (m_position b) (take k (sock_pending s))" by blast
    have "n - k < n" "n - k \<le> length (sock_pending s1)"
      using s1 less.prems by (simp_all add: diff_le_mono)
    from less.IH [OF this(1) s1(5,6) this(2)] obtain b2 s2 where s2:
      "fixSize_ba_loop ss_read_ba (n - k) (b1, s1) = (Inr None, b2, s2)" "ba_inv b2" "sock_up s2"
      "sock_pending s2 = drop (n - k) (sock_pending s1)" "m_position b2 = m_position b1 + (n - k)"
      "ba_content b2 = blit (ba_content b1) (m_position b1) (take (n - k) (sock_pending s1))" by blast
    have "take k (sock_pending s) @ take (n - k) (sock_pending s1) = take n (sock_pending s)"
      using s1(3,7) by (simp flip: take_add)
    moreover have "length (take k (sock_pending s)) = k" using s1(4) by simp
    ultimately have "ba_content b2 = blit (ba_content b) (m_position b) (take n (sock_pending s))"
      using s2(6) s1(8,9) blit_blit [OF pos] by metis
    then show ?thesis
      using s1 s2 False by (subst fixSize_ba_loop.simps) simp
  qed
qed

text \<open>
  C28.  Reading \<open>n\<close> bytes over a socket on which that many arrive, in whatever pieces, returns
  \<open>n\<close> with exactly the next \<open>n\<close> bytes in order, in a buffer and in a \<open>ByteArray\<close> at its
  position, and leaves exactly the rest of the stream.
\<close>

theorem readFixSize_exact:
  assumes "sock_up s" "n \<le> length (sock_pending s)" "n < 2 ^ 31" "ba_inv b"
  shows "(\<exists>s'. readFixSize ss_read n s = ((int n, take n (sock_pending s)), s')
      \<and> sock_up s' \<and> sock_pending s' = drop n (sock_pending s))
    \<and> (\<exists>b' s'. readFixSize_ba n (b, s) = (Inr (int n), b', s') \<and> ba_inv b'
      \<and> m_position b' = m_position b + n
      \<and> ba_content b' = take (m_position b) (ba_content b) @ take n (sock_pending s)
          @ drop (m_position b + n) (ba_content b)
      \<and> sock_pending s' = drop n (sock_pending s))"
proof (intro conjI)
  show "\<exists>s'. readFixSize ss_read n s = ((int n, take n (sock_pending s)), s')
      \<and> sock_up s' \<and> sock_pending s' = drop n (sock_pending s)"
    using ss.readFixSize_ok [OF assms(1-3)] by blast
  have "left_of n = n" using assms(3) by (simp add: left_of_def)
  then show "\<exists>b' s'. readFixSize_ba n (b, s) = (Inr (int n), b', s') \<and> ba_inv b'
      \<and> m_position b' = m_position b + n
      \<and> ba_content b' = take (m_position b) (ba_content b) @ take n (sock_pending s)
          @ drop (m_position b + n) (ba_content b)
      \<and> sock_pending s' = drop n (sock_pending s)"
    using readFixSize_ba_loop_ok [OF assms(4,1,2)] assms(2,3)
    by (auto simp: readFixSize_ba_def fixSize_ba_def to_int32_small blit_def)
qed

theorem readFixSize_exact_witness:
  "fst (readFixSize ss_read 3 \<lparr>s_in = [RecvData [1], RecvData [2, 3, 4]], s_accept = [], s_out = [],
     s_open = True\<rparr>) = (3, [1, 2, 3])"
proof -
  let ?s = "\<lparr>s_in = [RecvData [1], RecvData [2, 3, 4]], s_accept = [], s_out = [], s_open = True\<rparr>"
  have "sock_up ?s" by (simp add: sock_up_def)
  moreover have p: "sock_pending ?s = [1, 2, 3, 4]" by (simp add: sock_pending_def)
  ultimately show ?thesis
    using readFixSize_exact [of ?s 3 "ByteArray (\<lambda>_. 0) 3"] ba_inv_ByteArray [of 3 "\<lambda>_. 0"]
    by auto
qed

lemma ss_write_ba_up:
  assumes "ba_inv b" "sock_up s" "0 < n" "n \<le> getReadSize b"
  shows "\<exists>k b' s'. ss_write_ba n (b, s) = (Inr (int k), b', s') \<and> 0 < k \<and> k \<le> n
    \<and> ba_inv b' \<and> sock_up s' \<and> s_out s' = s_out s @ take k (drop (m_position b) (ba_content b))
    \<and> m_position b' = m_position b + k \<and> ba_content b' = ba_content b
    \<and> getReadSize b' = getReadSize b - k"
proof -
  let ?d = "take n (drop (m_position b) (ba_content b))"
  have "min n (getReadSize b) = n" using assms(4) by simp
  with getReadBuffers_spec [OF assms(1) refl, of n] obtain iovs where iovs:
    "getReadBuffers n b = Inr (iovs, n)" "concat (map (iov_bytes (m_nodes b)) iovs) = ?d" by auto
  have len: "length ?d = n" using assms(1,4) by (simp add: getReadSize_def)
  then have "?d \<noteq> []" using assms(3) by auto
  from sock_send_up [OF assms(2) this] obtain k s' where s': "sock_send ?d s = (int k, s')" "0 < k"
    "k \<le> n" "sock_up s'" "s_out s' = s_out s @ take k ?d" unfolding len by blast
  have fits: "m_position b + k \<le> m_capacity b" "m_position b + k \<le> m_size b"
    using assms s'(3) by (auto simp: ba_inv_def getReadSize_def)
  from setPosition_spec [OF assms(1) fits(1)] obtain b' where b':
    "setPosition (m_position b + k) b = (Inr (), b')" "ba_inv b'" "m_position b' = m_position b + k"
    "m_size b' = max (m_size b) (m_position b + k)" "ba_flat b' = ba_flat b" by blast
  then have "ba_content b' = ba_content b" "getReadSize b' = getReadSize b - k"
    using fits(2) by (simp_all add: ba_content_def getReadSize_def)
  moreover have "take k ?d = take k (drop (m_position b) (ba_content b))" using s'(3) by simp
  ultimately show ?thesis
    using b' s' iovs sock_upD [OF assms(2)] by (auto simp: ss_write_ba_def)
qed

lemma writeFixSize_ba_loop_ok:
  "ba_inv b \<Longrightarrow> sock_up s \<Longrightarrow> n \<le> getReadSize b \<Longrightarrow>
   \<exists>b' s'. fixSize_ba_loop ss_write_ba n (b, s) = (Inr None, b', s') \<and> ba_inv b'
     \<and> s_out s' = s_out s @ take n (drop (m_position b) (ba_content b))
     \<and> m_position b' = m_position b + n \<and> ba_content b' = ba_content b"
proof (induction n arbitrary: b s rule: less_induct)
  case (less n)
  show ?case
  proof (cases "n = 0")
    case True
    then show ?thesis using less.prems by (subst fixSize_ba_loop.simps) auto
  next
    case False
    then have "0 < n" by simp
    from ss_write_ba_up [OF less.prems(1,2) this less.prems(3)] obtain k b1 s1 where s1:
      "ss_write_ba n (b, s) = (Inr (int k), b1, s1)" "0 < k" "k \<le> n" "ba_inv b1" "sock_up s1"
      "s_out s1 = s_out s @ take k (drop (m_position b) (ba_content b))"
      "m_position b1 = m_position b + k" "ba_content b1 = ba_content b"
      "getReadSize b1 = getReadSize b - k" by blast
    have "n - k < n" "n - k \<le> getReadSize b1" using s1 less.prems by (simp_all add: diff_le_mono)
    from less.IH [OF this(1) s1(4,5) this(2)] obtain b2 s2 where s2:
      "fixSize_ba_loop ss_write_ba (n - k) (b1, s1) = (Inr None, b2, s2)" "ba_inv b2"
      "s_out s2 = s_out s1 @ take (n - k) (drop (m_position b1) (ba_content b1))"
      "m_position b2 = m_position b1 + (n - k)" "ba_content b2 = ba_content b1" by blast
    have "take k (drop (m_position b) (ba_content b)) @ take (n - k) (drop (m_position b1) (ba_content b1))
        = take n (drop (m_position b) (ba_content b))"
      using s1(3,7,8) take_add [of k "n - k" "drop (m_position b) (ba_content b)"]
      by (simp add: add.commute)
    then show ?thesis using s1 s2 False by (subst fixSize_ba_loop.simps) simp
  qed
qed

text \<open>
  Writing a buffer, or the next \<open>n\<close> readable bytes of a \<open>ByteArray\<close>, over a socket that
  takes at least one byte a time returns the length after exactly those bytes were sent, in
  order; the array's position moves behind them and its content is unchanged.
\<close>

theorem writeFixSize_exact:
  assumes "sock_up s" "length d < 2 ^ 31" "ba_inv b" "n \<le> getReadSize b" "n < 2 ^ 31"
  shows "(\<exists>s'. writeFixSize ss_write d s = (int (length d), s') \<and> s_out s' = s_out s @ d)
    \<and> (\<exists>b' s'. writeFixSize_ba n (b, s) = (Inr (int n), b', s') \<and> ba_inv b'
      \<and> s_out s' = s_out s @ take n (drop (m_position b) (ba_content b))
      \<and> m_position b' = m_position b + n \<and> ba_content b' = ba_content b)"
proof (intro conjI)
  show "\<exists>s'. writeFixSize ss_write d s = (int (length d), s') \<and> s_out s' = s_out s @ d"
    using ss.writeFixSize_loop_ok [OF assms(1), of d] assms(2)
    by (auto simp: writeFixSize_def to_int32_small)
  have "left_of n = n" using assms(5) by (simp add: left_of_def)
  then show "\<exists>b' s'. writeFixSize_ba n (b, s) = (Inr (int n), b', s') \<and> ba_inv b'
      \<and> s_out s' = s_out s @ take n (drop (m_position b) (ba_content b))
      \<and> m_position b' = m_position b + n \<and> ba_content b' = ba_content b"
    using writeFixSize_ba_loop_ok [OF assms(3,1,4)] assms(5)
    by (auto simp: writeFixSize_ba_def fixSize_ba_def to_int32_small)
qed

theorem writeFixSize_exact_witness:
  "s_out (snd (writeFixSize ss_write [7, 8, 9] \<lparr>s_in = [], s_accept = [1, 1], s_out = [],
     s_open = True\<rparr>)) = [7, 8, 9]"
proof -
  let ?s = "\<lparr>s_in = [], s_accept = [1, 1], s_out = [], s_open = True\<rparr>"
  have "sock_up ?s" by (simp add: sock_up_def)
  then show ?thesis
    using writeFixSize_exact [of ?s "[7, 8, 9]" "ByteArray (\<lambda>_. 0) 3" 0] ba_inv_ByteArray [of 3 "\<lambda>_. 0"]
    by auto
qed

end
