(* ===== verification/Http_Server_Correct.thy ===== *)
theory Http_Server_Correct
  imports Http_Server Socket_Stream_Correct
begin

text \<open>
  The properties of the HTTP server: a request gets exactly the bytes that follow its head as
  its body however the connection cuts them, the dispatch finds exact paths before patterns and
  patterns in order of registration, and a connection is answered in order and closed.
\<close>

section \<open>The body of a request\<close>

lemma recv_body_ok:
  assumes "sock_up s" "len \<le> length buf + length (sock_pending s)" "len < 2 ^ 31"
  shows "\<exists>s'. recv_body len buf s = (Some (take len (buf @ sock_pending s)), s') \<and> sock_up s'
    \<and> sock_pending s' = drop (len - length buf) (sock_pending s)"
proof (cases "length buf < len")
  case True
  let ?n = "len - length buf"
  have "?n \<le> length (sock_pending s)" "?n < 2 ^ 31" "0 < ?n" using assms True by auto
  from ss.readFixSize_ok [OF assms(1) this(1,2)] this(3) True show ?thesis
    by (auto simp: recv_body_def)
next
  case False
  with assms(1) show ?thesis by (simp add: recv_body_def)
qed

text \<open>
  A parser that keeps the text it has consumed, beside its own state: what the loop of
  \<open>recvRequest\<close> hands it can be compared with what arrived.
\<close>

definition logs_text :: "('p \<times> string) ragel \<Rightarrow> bool" where
  "logs_text exec \<longleftrightarrow> (\<forall>st txt. case exec st txt of (n, st', evs) \<Rightarrow> snd st' = snd st @ take n txt)"

lemma rp_parser_fold: "rp_parser (fold on_request_event evs p) = rp_parser p"
proof -
  have "rp_parser (on_request_event e p) = rp_parser p" for e and p :: "'a HttpRequestParser"
    by (cases e) (simp_all add: on_request_method_def on_request_fragment_def on_request_path_def
        on_request_query_def on_request_version_def on_request_http_field_def Let_def)
  then show ?thesis by (induction evs arbitrary: p) simp_all
qed

lemma execute_logs:
  assumes "logs_text exec" "execute exec txt p = (n, p')"
  shows "snd (rp_parser p') @ drop n txt = snd (rp_parser p) @ txt"
proof -
  obtain k st evs where e: "exec (rp_parser p) txt = (k, st, evs)" by (metis prod_cases3)
  have "snd st = snd (rp_parser p) @ take k txt"
    using assms(1) e unfolding logs_text_def by (metis (mono_tags, lifting) case_prod_conv)
  with e assms(2) show ?thesis by (auto simp: execute_def rp_parser_fold)
qed

lemma ss_read_stream:
  assumes "sock_up s" "ss_read n s = ((len, d), s1)" "\<not> len \<le> 0"
  shows "sock_up s1 \<and> sock_pending s = d @ sock_pending s1"
proof (cases "sock_pending s = [] \<or> n = 0")
  case True
  then show ?thesis using assms
    by (auto simp: sock_up_def ss_read_def sock_recv_def sock_pending_def
        split: list.splits recv_event.splits if_splits)
next
  case False
  then obtain k s' where "ss_read n s = ((int k, take k (sock_pending s)), s')" "sock_up s'"
      "sock_pending s' = drop k (sock_pending s)"
    using sock_recv_up [of s n] assms(1) by (auto simp: ss_read_def sock_up_def)
  then have "len = int k" "d = take k (sock_pending s)" "s1 = s'" using assms(2) by auto
  then show ?thesis using \<open>sock_up s'\<close> \<open>sock_pending s' = _\<close> by (metis append_take_drop_id)
qed

lemma to_text_append: "to_text (a @ b) = to_text a @ to_text b"
  by (simp add: to_text_def)

lemma to_text_drop: "to_text (drop n a) = drop n (to_text a)"
  by (simp add: to_text_def drop_map)

lemma to_text_take: "to_text (take n a) = take n (to_text a)"
  by (simp add: to_text_def take_map)

lemma length_to_text [simp]: "length (to_text a) = length a"
  by (simp add: to_text_def)

lemma recvRequest_loop_stream:
  "logs_text exec \<Longrightarrow> sock_up s \<Longrightarrow> recvRequest_loop exec perr pfin n buf p s = (Some (p', buf'), s') \<Longrightarrow>
   sock_up s' \<and> snd (rp_parser p') @ to_text (buf' @ sock_pending s')
     = snd (rp_parser p) @ to_text (buf @ sock_pending s)"
proof (induction exec perr pfin n buf p s arbitrary: s' rule: recvRequest_loop.induct)
  case (1 exec perr pfin n buf p s)
  obtain len d s1 where s1: "ss_read (n - length buf) s = ((len, d), s1)" by (metis prod.exhaust)
  obtain np q where q: "execute exec (to_text (buf @ d)) p = (np, q)" by fastforce
  have pos: "\<not> len \<le> 0" and ok: "\<not> hasError perr q" "length (drop np (buf @ d)) \<noteq> n"
    using "1.prems" s1 q by (auto simp: recvRequest_loop.simps [of exec perr pfin n buf p s] Let_def
        split: if_splits)
  from ss_read_stream [OF "1.prems"(2) s1 pos] have up: "sock_up s1" "sock_pending s = d @ sock_pending s1"
    by auto
  from execute_logs [OF "1.prems"(1) q]
  have step: "snd (rp_parser q) @ to_text (drop np (buf @ d) @ sock_pending s1)
      = snd (rp_parser p) @ to_text (buf @ sock_pending s)"
    using up(2) by (metis append.assoc to_text_append to_text_drop)
  show ?case
  proof (cases "pfin (rp_parser q)")
    case True
    with "1.prems"(3) s1 q pos ok
    have "p' = q" "buf' = drop np (buf @ d)" "s' = s1"
      by (auto simp: recvRequest_loop.simps [of exec perr pfin n buf p s] Let_def split: if_splits)
    with step up(1) show ?thesis by metis
  next
    case False
    with "1.prems"(3) s1 q pos ok
    have rec: "recvRequest_loop exec perr pfin n (drop np (buf @ d)) q s1 = (Some (p', buf'), s')"
      by (simp add: recvRequest_loop.simps [of exec perr pfin n buf p s] Let_def)
    from "1.IH" [OF s1 [symmetric] refl pos refl q [symmetric] ok(1) refl ok(2) False
        "1.prems"(1) up(1) rec] step
    show ?thesis by metis
  qed
qed

lemma q_body_init_request: "q_body (init_request q) = q_body q"
  by (simp add: init_request_def Let_def split: if_splits option.splits)

text \<open>
  Once the head is complete, the request carries exactly the content-length bytes that
  follow the head in the stream, however head and body are cut into reads and whatever share of
  the body came in with the head.
\<close>

theorem recvRequest_body:
  assumes "logs_text exec" "sock_up s"
    and "recvRequest_loop exec perr pfin n [] (new_HttpRequestParser (p0, [])) s = (Some (p, buf), s1)"
    and "0 < getContentLength cast p" "getContentLength cast p < 2 ^ 31"
    and "getContentLength cast p \<le> length buf + length (sock_pending s1)"
  shows "\<exists>q s2. recvRequest exec perr pfin (p0, []) cast n s = (Some q, s2)
    \<and> snd (rp_parser p) @ q_body q
        = take (length (snd (rp_parser p)) + getContentLength cast p) (to_text (sock_pending s))"
proof -
  let ?len = "getContentLength cast p"
  have stream: "sock_up s1" "snd (rp_parser p) @ to_text (buf @ sock_pending s1) = to_text (sock_pending s)"
    using recvRequest_loop_stream [OF assms(1,2,3)] by (simp_all add: new_HttpRequestParser_def)
  have len: "left_of ?len = ?len" using assms(5) by (simp add: left_of_def)
  from recv_body_ok [OF stream(1) assms(6,5)] obtain s2 where
    s2: "recv_body ?len buf s1 = (Some (take ?len (buf @ sock_pending s1)), s2)" by blast
  let ?q = "init_request ((rp_data p)\<lparr>q_body := to_text (take ?len (buf @ sock_pending s1))\<rparr>)"
  have "recvRequest exec perr pfin (p0, []) cast n s = (Some ?q, s2)"
    using assms(3,4) len s2 by (simp add: recvRequest_def Let_def)
  moreover have "snd (rp_parser p) @ q_body ?q
      = take (length (snd (rp_parser p)) + ?len) (to_text (sock_pending s))"
    by (simp add: q_body_init_request to_text_take del: take_append flip: stream(2))
      (simp add: to_text_append)
  ultimately show ?thesis by blast
qed

theorem recvRequest_body_witness:
  "\<exists>q s2. recvRequest (\<lambda>st txt. (2, (fst st, snd st @ take 2 txt), [EvField ''content-length'' 14 ''2'' 1]))
      (\<lambda>_. False) (\<lambda>_. True) ((), []) (\<lambda>_. Some 2) 100
      \<lparr>s_in = [RecvData [65, 66, 67], RecvData [68, 69]], s_accept = [], s_out = [], s_open = True\<rparr> = (Some q, s2)
    \<and> q_body q = ''CD''"
proof -
  let ?exec = "(\<lambda>st txt. (2, (fst st, snd st @ take 2 txt), [EvField ''content-length'' 14 ''2'' 1]))
      :: unit \<times> string \<Rightarrow> string \<Rightarrow> nat \<times> (unit \<times> string) \<times> parser_event list"
  let ?s = "\<lparr>s_in = [RecvData [65, 66, 67], RecvData [68, 69]], s_accept = [], s_out = [], s_open = True\<rparr>"
  let ?s1 = "?s\<lparr>s_in := [RecvData [68, 69]]\<rparr>"
  let ?p = "snd (execute ?exec ''ABC'' (new_HttpRequestParser ((), [])))"
  have texts: "to_text [65, 66, 67] = ''ABC''" "to_text [65, 66, 67, 68, 69] = ''ABCDE''"
    by (simp_all add: to_text_def char_of_def bit_0)
  have p: "execute ?exec ''ABC'' (new_HttpRequestParser ((), [])) = (2, ?p)" "rp_parser ?p = ((), ''AB'')"
    by (simp_all add: execute_def on_request_http_field_def new_HttpRequestParser_def)
  have len: "getContentLength (\<lambda>_. Some 2) ?p = 2"
    by (simp add: getContentLength_def execute_def on_request_http_field_def new_HttpRequestParser_def
        new_HttpRequest_def setHeader_def getAs_def)
  have logs: "logs_text ?exec" by (simp add: logs_text_def)
  have up: "sock_up ?s" by (simp add: sock_up_def)
  have pend: "sock_pending ?s = [65, 66, 67, 68, 69]" "sock_pending ?s1 = [68, 69]"
    by (simp_all add: sock_pending_def)
  have loop: "recvRequest_loop ?exec (\<lambda>_. False) (\<lambda>_. True) 100 [] (new_HttpRequestParser ((), [])) ?s
      = (Some (?p, [67]), ?s1)"
    by (subst recvRequest_loop.simps) (simp add: ss_read_def sock_recv_def texts hasError_def
        execute_def on_request_http_field_def new_HttpRequestParser_def)
  from recvRequest_body [OF logs up loop, of "\<lambda>_. Some 2"] obtain q s2 where
    "recvRequest ?exec (\<lambda>_. False) (\<lambda>_. True) ((), []) (\<lambda>_. Some 2) 100 ?s = (Some q, s2)"
    "''AB'' @ q_body q = take 4 ''ABCDE''"
    unfolding len p(2) pend texts by auto
  then show ?thesis by auto
qed

section \<open>Dispatch\<close>

definition dispatch_ok :: "'v ServletDispatch \<Rightarrow> bool" where
  "dispatch_ok d \<longleftrightarrow> distinct (map fst (m_globs d))"

lemma set_erase_first: "distinct (map fst gs) \<Longrightarrow> fst ` set (erase_first u gs) = fst ` set gs - {u}"
  by (induction u gs rule: erase_first.induct) (auto simp: image_iff)

lemma distinct_erase_first: "distinct (map fst gs) \<Longrightarrow> distinct (map fst (erase_first u gs))"
proof (induction u gs rule: erase_first.induct)
  case (2 uri u v gs)
  then have "distinct (map fst gs)" "u \<notin> fst ` set gs" by simp_all
  with 2 set_erase_first [of gs uri] show ?case by auto
qed simp

lemma find_glob_append:
  "find_glob P (gs @ hs) = (case find_glob P gs of Some v \<Rightarrow> Some v | None \<Rightarrow> find_glob P hs)"
  by (induction P gs rule: find_glob.induct) auto

lemma find_glob_None: "find_glob P gs = None \<longleftrightarrow> (\<forall>u \<in> fst ` set gs. \<not> P u)"
  by (induction P gs rule: find_glob.induct) auto

lemma find_glob_erase: "\<not> P u \<Longrightarrow> find_glob P (erase_first u gs) = find_glob P gs"
  by (induction u gs rule: erase_first.induct) auto

lemma find_glob_first:
  "find_glob P gs = Some v \<longleftrightarrow> (\<exists>as u bs. gs = as @ (u, v) # bs \<and> P u \<and> (\<forall>w \<in> fst ` set as. \<not> P w))"
proof (induction P gs rule: find_glob.induct)
  case (2 P u w gs)
  show ?case
  proof (cases "P u")
    case True
    then show ?thesis by (fastforce simp: Cons_eq_append_conv)
  next
    case False
    have "(\<exists>as u' bs. (u, w) # gs = as @ (u', v) # bs \<and> P u' \<and> (\<forall>w \<in> fst ` set as. \<not> P w))
        \<longleftrightarrow> (\<exists>as u' bs. gs = as @ (u', v) # bs \<and> P u' \<and> (\<forall>w \<in> fst ` set as. \<not> P w))" (is "?l = ?r")
    proof
      show "?l \<Longrightarrow> ?r" using False by (force simp: Cons_eq_append_conv)
      assume ?r
      then obtain as u' bs where "gs = as @ (u', v) # bs" "P u'" "\<forall>w \<in> fst ` set as. \<not> P w" by blast
      with False show ?l by (intro exI [of _ "(u, w) # as"]) auto
    qed
    with False 2 show ?thesis by simp
  qed
qed simp

lemma dispatch_ok_ops:
  "dispatch_ok new_ServletDispatch" "dispatch_ok d \<Longrightarrow> dispatch_ok (addServlet u v d)"
  "dispatch_ok d \<Longrightarrow> dispatch_ok (delServlet u d)" "dispatch_ok d \<Longrightarrow> dispatch_ok (delGlobServlet u d)"
  "dispatch_ok d \<Longrightarrow> dispatch_ok (addGlobServlet u v d)"
  by (auto simp: dispatch_ok_def new_ServletDispatch_def addServlet_def delServlet_def
      delGlobServlet_def addGlobServlet_def distinct_erase_first set_erase_first)

text \<open>
  The registration of servlets keeps one entry per pattern, and each operation has its
  effect on the lookups and no other: a registered path or pattern is found with its last
  servlet, a deleted one is not found, and every other path and pattern is as before.
\<close>

theorem servlet_registration:
  assumes "dispatch_ok d"
  shows "dispatch_ok (addServlet u v d) \<and> dispatch_ok (addGlobServlet u v d)
    \<and> dispatch_ok (delServlet u d) \<and> dispatch_ok (delGlobServlet u d)
    \<and> getServlet w (addServlet u v d) = (if w = u then Some v else getServlet w d)
    \<and> getServlet w (delServlet u d) = (if w = u then None else getServlet w d)
    \<and> getGlobServlet w (addGlobServlet u v d) = (if w = u then Some v else getGlobServlet w d)
    \<and> getGlobServlet w (delGlobServlet u d) = (if w = u then None else getGlobServlet w d)"
proof -
  have gone: "find_glob (\<lambda>x. x = u) (erase_first u (m_globs d)) = None"
    using assms set_erase_first [of "m_globs d" u] by (auto simp: find_glob_None dispatch_ok_def)
  have other: "w \<noteq> u \<Longrightarrow> find_glob (\<lambda>x. x = w) (erase_first u (m_globs d)) = find_glob (\<lambda>x. x = w) (m_globs d)"
    by (rule find_glob_erase) simp
  show ?thesis
    using dispatch_ok_ops(2-5) [OF assms] gone other
    by (auto simp: getServlet_def addServlet_def delServlet_def getGlobServlet_def
        addGlobServlet_def delGlobServlet_def find_glob_append split: option.splits)
qed

theorem servlet_registration_witness:
  "getGlobServlet ''/a*'' (addGlobServlet ''/a*'' (NotFoundServlet ''x'') new_ServletDispatch)
    = Some (NotFoundServlet ''x'')"
  using servlet_registration [OF dispatch_ok_ops(1), of "''/a*''" "NotFoundServlet ''x''" "''/a*''"]
  by simp

text \<open>
  A request goes to the servlet registered for exactly its path; failing that, to the
  pattern that matches it and was registered before every other that matches; failing that, to
  the default servlet.
\<close>

theorem getMatchedServlet_choice:
  "getMatchedServlet glob uri d = v \<longleftrightarrow>
     (m_datas d uri = Some v
      \<or> m_datas d uri = None \<and> (\<exists>as u bs. m_globs d = as @ (u, v) # bs \<and> glob u uri
            \<and> (\<forall>w \<in> fst ` set as. \<not> glob w uri))
      \<or> m_datas d uri = None \<and> (\<forall>w \<in> fst ` set (m_globs d). \<not> glob w uri) \<and> v = m_default d)"
proof (cases "find_glob (\<lambda>u. glob u uri) (m_globs d)")
  case None
  then have "\<forall>w \<in> fst ` set (m_globs d). \<not> glob w uri" by (simp add: find_glob_None)
  with None show ?thesis
    by (auto simp: getMatchedServlet_def split: option.splits)
next
  case (Some x)
  then have first: "(\<exists>as u bs. m_globs d = as @ (u, v) # bs \<and> glob u uri
      \<and> (\<forall>w \<in> fst ` set as. \<not> glob w uri)) \<longleftrightarrow> v = x"
    using find_glob_first [of "\<lambda>u. glob u uri" "m_globs d" v] by auto
  have some: "\<not> (\<forall>w \<in> fst ` set (m_globs d). \<not> glob w uri)"
    using Some find_glob_None [of "\<lambda>u. glob u uri" "m_globs d"] by simp
  show ?thesis
    unfolding first using some Some by (auto simp: getMatchedServlet_def split: option.splits)
qed

theorem getMatchedServlet_choice_witness:
  "getMatchedServlet (\<lambda>p u. True) ''/a'' (addGlobServlet ''*'' 1 \<lparr>m_datas = Map.empty, m_globs = [], m_default = (0::nat)\<rparr>) = 1"
  by (subst getMatchedServlet_choice) (auto simp: addGlobServlet_def)

section \<open>The connection\<close>

lemma readFixSize_loop_out:
  "readFixSize_loop ss_read n acc s = (r, s') \<Longrightarrow>
   s_out s' = s_out s \<and> s_accept s' = s_accept s \<and> s_open s' = s_open s"
proof (induction "ss_read :: nat \<Rightarrow> sock \<Rightarrow> _" n acc s rule: readFixSize_loop.induct)
  case (1 n acc s)
  obtain len d s1 where s1: "ss_read n s = ((len, d), s1)" by (metis prod.exhaust)
  have keep: "s_out s1 = s_out s \<and> s_accept s1 = s_accept s \<and> s_open s1 = s_open s"
    using s1 by (auto simp: ss_read_def sock_recv_def split: if_splits list.splits recv_event.splits)
  show ?case
  proof (cases "n = 0 \<or> len \<le> 0")
    case True
    with "1.prems" s1 keep show ?thesis
      by (auto simp: readFixSize_loop.simps [of ss_read n] split: if_splits)
  next
    case False
    with "1.prems" s1 have "readFixSize_loop ss_read (n - nat len) (acc @ d) s1 = (r, s')"
      by (simp add: readFixSize_loop.simps [of ss_read n])
    with "1.hyps" [OF _ s1 [symmetric] refl _ this] False keep show ?thesis by simp
  qed
qed

lemma recv_body_out:
  "recv_body len buf s = (r, s') \<Longrightarrow> s_out s' = s_out s \<and> s_accept s' = s_accept s
     \<and> (r \<noteq> None \<longrightarrow> s_open s' = s_open s)"
  by (auto simp: recv_body_def readFixSize_def sock_close_def split: if_splits prod.splits sum.splits
      dest: readFixSize_loop_out)

lemma recvRequest_loop_out:
  "recvRequest_loop exec perr pfin n buf p s = (r, s') \<Longrightarrow> s_out s' = s_out s \<and> s_accept s' = s_accept s
     \<and> (r \<noteq> None \<longrightarrow> s_open s' = s_open s)"
proof (induction exec perr pfin n buf p s arbitrary: s' rule: recvRequest_loop.induct)
  case (1 exec perr pfin n buf p s)
  obtain len d s1 where s1: "ss_read (n - length buf) s = ((len, d), s1)" by (metis prod.exhaust)
  obtain np q where q: "execute exec (to_text (buf @ d)) p = (np, q)" by fastforce
  have keep: "s_out s1 = s_out s \<and> s_accept s1 = s_accept s \<and> s_open s1 = s_open s"
    using s1 by (auto simp: ss_read_def sock_recv_def split: if_splits list.splits recv_event.splits)
  let ?stop = "len \<le> 0 \<or> hasError perr q \<or> length (drop np (buf @ d)) = n"
  show ?case
  proof (cases "?stop \<or> pfin (rp_parser q)")
    case True
    with "1.prems" s1 q keep show ?thesis
      by (auto simp: recvRequest_loop.simps [of exec perr pfin n buf p s] Let_def sock_close_def
          split: if_splits)
  next
    case False
    then have no: "\<not> len \<le> 0" "\<not> hasError perr q" "length (drop np (buf @ d)) \<noteq> n"
      "\<not> pfin (rp_parser q)" by auto
    with "1.prems" s1 q have "recvRequest_loop exec perr pfin n (drop np (buf @ d)) q s1 = (r, s')"
      by (simp add: recvRequest_loop.simps [of exec perr pfin n buf p s] Let_def)
    from "1.IH" [OF s1 [symmetric] refl no(1) refl q [symmetric] no(2) refl no(3,4) this] keep
    show ?thesis by simp
  qed
qed

lemma recvRequest_out:
  "recvRequest exec perr pfin p0 cast n s = (r, s') \<Longrightarrow> s_out s' = s_out s \<and> s_accept s' = s_accept s
     \<and> (r \<noteq> None \<longrightarrow> s_open s' = s_open s)"
  by (auto simp: recvRequest_def Let_def split: prod.splits option.splits if_splits
      dest!: recvRequest_loop_out recv_body_out)

lemma sendResponse_out:
  assumes "s_accept s = []" "s_open s" "sendResponse rsp s = (r, s')"
  shows "s_out s' = s_out s @ to_bytes (dump_response rsp)" "s_accept s' = []" "s_open s'"
  using assms
  by (auto simp: sendResponse_def writeFixSize_def ss_write_def sock_send_def writeFixSize_loop.simps
      split: option.splits prod.splits if_splits)

text \<open>
  A connection that takes everything sent to it receives exactly the dumps of the
  responses, in the order of the requests, and is closed at the end; without keep-alive it gets
  at most one response.
\<close>

theorem handleClient_answers:
  assumes "s_accept s = []" "s_open s" "handleClient exec perr pfin p0 cast n glob srv s = (rsps, s')"
  shows "s_out s' = s_out s @ concat (map (\<lambda>r. to_bytes (dump_response r)) rsps)
    \<and> \<not> s_open s' \<and> (\<not> hs_isKeepalive srv \<longrightarrow> length rsps \<le> 1)"
  using assms
proof (induction exec perr pfin p0 cast n glob srv s arbitrary: rsps s' rule: handleClient.induct)
  case (1 exec perr pfin p0 cast n glob srv s)
  note step = handleClient.simps [of exec perr pfin p0 cast n glob srv s]
  show ?case
  proof (cases "recvRequest exec perr pfin p0 cast n s")
    case (Pair rq s1)
    note out = recvRequest_out [OF Pair]
    show ?thesis
    proof (cases rq)
      case None
      with Pair "1.prems"(3) out show ?thesis by (auto simp: step sock_close_def)
    next
      case (Some q)
      let ?rsp = "rsp_setHeader ''Server'' (hs_name srv)
         (new_HttpResponse (q_version q) (q_close q \<or> \<not> hs_isKeepalive srv))"
      obtain rc q' rsp' where h: "dispatch_handle glob (hs_dispatch srv) q ?rsp = (rc, q', rsp')"
        by (metis prod_cases3)
      obtain w s2 where s2: "sendResponse rsp' s1 = (w, s2)" by fastforce
      from out Some "1.prems"(1,2) have "s_accept s1 = []" "s_open s1" by auto
      note sent = sendResponse_out [OF this s2]
      show ?thesis
      proof (cases "\<not> hs_isKeepalive srv \<or> q_close q'")
        case True
        with "1.prems"(3) Pair Some h s2 sent out show ?thesis
          by (auto simp: step sock_close_def Let_def)
      next
        case False
        obtain rsps1 s3 where r: "handleClient exec perr pfin p0 cast n glob srv s2 = (rsps1, s3)"
          by fastforce
        from "1.IH" [OF Pair [symmetric] Some refl h [symmetric] refl s2 [symmetric] False
            sent(2,3) r]
        have "s_out s3 = s_out s2 @ concat (map (\<lambda>r. to_bytes (dump_response r)) rsps1) \<and> \<not> s_open s3"
          by simp
        with "1.prems"(3) Pair Some h s2 sent out False r show ?thesis
          by (auto simp: step Let_def)
      qed
    qed
  qed
qed

theorem handleClient_answers_witness:
  "\<not> s_open (snd (handleClient (\<lambda>st txt. (0, st, [])) (\<lambda>_. False) (\<lambda>_. False) () (\<lambda>_. None) 100
      (\<lambda>_ _. False) (new_HttpServer True ''flz'')
      \<lparr>s_in = [], s_accept = [], s_out = [], s_open = True\<rparr>))"
proof -
  let ?s = "\<lparr>s_in = [], s_accept = [], s_out = [], s_open = True\<rparr>"
  let ?r = "handleClient (\<lambda>st txt. (0, st, [])) (\<lambda>_. False) (\<lambda>_. False) () (\<lambda>_. None) 100
      (\<lambda>_ _. False) (new_HttpServer True ''flz'') ?s"
  have "s_accept ?s = []" "s_open ?s" by simp_all
  from handleClient_answers [OF this prod.collapse [symmetric, of ?r]] show ?thesis by blast
qed

section \<open>WebSocket connections end\<close>

text \<open>A message that is received takes at least the head of its last frame from the input.\<close>

lemma WSRecvMessage_loop_less:
  "WSRecvMessage_loop host client m op data s = (Some msg, s') \<Longrightarrow> length (sock_pending s') < length (sock_pending s)"
proof (induction host client m op data s rule: WSRecvMessage_loop.induct)
  case (1 host client m op data s)
  obtain r hb s1 where r: "readFixSize ss_read 2 s = ((r, hb), s1)" by (metis surj_pair)
  have pos: "\<not> r \<le> 0" using "1.prems" r by (subst (asm) WSRecvMessage_loop.simps) (auto split: if_splits)
  let ?h = "head_of hb"
  note less = head_read_less [OF r pos]
  show ?case
  proof (cases "opcode ?h = PING")
    case True
    obtain v s2 where v: "WSPong s1 = (v, s2)" by fastforce
    have vp: "\<not> v \<le> 0" using "1.prems" r pos True v by (subst (asm) WSRecvMessage_loop.simps) (auto simp: Let_def split: if_splits)
    then have "WSRecvMessage_loop host client m op data s2 = (Some msg, s')"
      using "1.prems" r pos True v by (subst (asm) WSRecvMessage_loop.simps) (simp add: Let_def)
    from "1.IH"(1) [OF r [symmetric] refl pos refl True v [symmetric] vp this] less(2) [OF v] show ?thesis by simp
  next
    case ping: False
    show ?thesis
    proof (cases "opcode ?h = CONTINUE \<or> opcode ?h = TEXT_FRAME \<or> opcode ?h = BIN_FRAME")
      case True
      then have pong: "opcode ?h \<noteq> PONG" by (auto simp: CONTINUE_def TEXT_FRAME_def BIN_FRAME_def PONG_def)
      obtain q s2 where q: "recv_data_frame host client m (length data) ?h s1 = (q, s2)" by fastforce
      obtain d where d: "q = Inr d"
        using "1.prems" r pos ping pong True q by (cases q) (subst (asm) WSRecvMessage_loop.simps, simp add: Let_def)+
      let ?op = "if op = 0 \<and> opcode ?h \<noteq> CONTINUE then opcode ?h else op"
      show ?thesis
      proof (cases "fin ?h")
        case fin: True
        have "s' = s2" using "1.prems" r pos ping pong True q d fin by (subst (asm) WSRecvMessage_loop.simps) (simp add: Let_def)
        with less(3) [OF q] show ?thesis by simp
      next
        case fin: False
        have "WSRecvMessage_loop host client m ?op (data @ d) s2 = (Some msg, s')"
          using "1.prems" r pos ping pong True q d fin by (subst (asm) WSRecvMessage_loop.simps) (simp add: Let_def)
        from "1.IH"(3) [OF r [symmetric] refl pos refl ping pong True q [symmetric] d refl fin this] less(3) [OF q] show ?thesis by simp
      qed
    next
      case other: False
      have "WSRecvMessage_loop host client m op data s1 = (Some msg, s')"
        using "1.prems" r pos ping other by (subst (asm) WSRecvMessage_loop.simps) (auto simp: Let_def split: if_splits)
      with "1.IH"(2) [OF r [symmetric] refl pos refl ping] "1.IH"(4) [OF r [symmetric] refl pos refl ping _ other] less(1)
      show ?thesis by fastforce
    qed
  qed
qed

text \<open>A callback that only reads and writes leaves no more input than it found.\<close>

definition leaves_input :: "'u ws_servlet \<Rightarrow> bool" where
  "leaves_input sv \<longleftrightarrow> (\<forall>q msg us. length (sock_pending (snd (snd (ws_handle sv q msg us)))) \<le> length (sock_pending (snd us)))"

lemma ws_message_loop_returns:
  assumes "leaves_input sv"
  shows "\<exists>us'. ws_message_loop host m sv q us = Some us'"
proof (induction "length (sock_pending (snd us))" arbitrary: us rule: less_induct)
  case less
  obtain r s where r: "WSRecvMessage host False m (snd us) = (r, s)" by fastforce
  show ?case
  proof (cases r)
    case None
    with r show ?thesis by (subst ws_message_loop.simps) simp
  next
    case (Some msg)
    obtain rt us1 where h: "ws_handle sv q msg (fst us, s) = (rt, us1)" by (metis surj_pair)
    have "length (sock_pending (snd us1)) \<le> length (sock_pending s)"
      using assms [unfolded leaves_input_def, rule_format, of q msg "(fst us, s)"] h by simp
    also have "\<dots> < length (sock_pending (snd us))"
      using WSRecvMessage_loop_less r Some by (fastforce simp: WSRecvMessage_def)
    finally obtain us' where "ws_message_loop host m sv q us1 = Some us'" using less by blast
    with r Some h show ?thesis by (subst ws_message_loop.simps) simp
  qed
qed

text \<open>
  C26.  \<open>WSServer::handleClient\<close> returns on every connection whose input is finite, with whatever
  frames and errors, and with the socket closed, if no message callback adds to the input.
\<close>

theorem ws_handleClient_returns:
  assumes "\<And>path sv. lookup path = Some sv \<Longrightarrow> leaves_input sv"
  shows "\<exists>u s. ws_handleClient host m shake lookup us = Some (u, s) \<and> \<not> s_open s"
proof -
  obtain q0 s where q0: "shake (snd us) = (q0, s)" by fastforce
  have close: "\<not> s_open (sock_close x)" for x by (simp add: sock_close_def)
  show ?thesis
  proof (cases "Option.bind q0 (\<lambda>q. lookup (q_path q))")
    case None
    with q0 close show ?thesis by (cases q0) (auto simp: ws_handleClient_def)
  next
    case (Some sv)
    then obtain q where q: "q0 = Some q" "lookup (q_path q) = Some sv" by (auto simp: bind_eq_Some_conv)
    obtain rt us1 where c: "onConnect sv q (fst us, s) = (rt, us1)" by (metis surj_pair)
    from ws_message_loop_returns [OF assms [OF q(2)]] obtain us2 where l: "ws_message_loop host m sv q us1 = Some us2" by blast
    from q0 q c l close show ?thesis by (auto simp: ws_handleClient_def split: prod.splits)
  qed
qed

text \<open>Two pings and a text message, answered by a callback that echoes it and goes on.\<close>

definition demo_echo :: "nat ws_servlet" where
  "demo_echo = \<lparr>ws_callback = Some (\<lambda>q msg us. case ss_write (m_data msg) (snd us) of (r, s) \<Rightarrow> (0, fst us + 1, s)),
     ws_onConnect = None, ws_onClose = None\<rparr>"

theorem ws_handleClient_returns_witness:
  "\<exists>u s. ws_handleClient LittleEndian 1000 (\<lambda>s. (Some (new_HttpRequest 17 True), s)) (\<lambda>p. Some demo_echo)
      (0, \<lparr>s_in = [RecvData [137, 0, 137], RecvData [0, 129, 130, 0, 0, 0, 0, 72, 105]], s_accept = [], s_out = [], s_open = True\<rparr>) = Some (u, s)
    \<and> \<not> s_open s"
proof (rule ws_handleClient_returns)
  show "leaves_input sv" if "Some demo_echo = Some sv" for sv
    using that by (auto simp: leaves_input_def demo_echo_def ws_handle_def ss_write_pending split: prod.splits)
qed

end
