(* ===== verification/Http_Parser_Correct.thy ===== *)
theory Http_Parser_Correct
  imports Http_Parser Http_Server_Correct
begin

text \<open>
  The generated parsers: their assertions hold, the head of a chunk is read as its length, and
  what goes wrong when a token is cut by the end of a buffer.
\<close>

section \<open>The assertions\<close>

definition marks_ok :: "string \<Rightarrow> nat \<Rightarrow> http_parser \<times> parser_event list \<Rightarrow> bool" where
  "marks_ok buf p s \<longleftrightarrow> hp_mark (fst s) \<le> p \<and> hp_mark (fst s) < length buf \<and> hp_field_start (fst s) \<le> p
     \<and> hp_field_start (fst s) < length buf \<and> hp_field_len (fst s) \<le> p \<and> hp_body_start (fst s) \<le> length buf"

lemma hp_act_marks:
  assumes "p < length buf" "marks_ok buf p s"
  shows "marks_ok buf p (hp_act buf a p s)"
  using assms by (cases s; cases a) (auto simp: marks_ok_def len_of_def)

lemma hp_run_marks:
  assumes "hp_run P buf = (p, cs, P', evs)" "buf \<noteq> []" "hp_body_start P \<le> length buf"
  shows "p \<le> length buf \<and> marks_ok buf p (P', evs)"
proof
  show "p \<le> length buf" using ragel_run_range [OF assms(1) [unfolded hp_run_def]] by simp
  note run = ragel_run_pos [where I = "marks_ok buf", OF assms(1) [unfolded hp_run_def]]
  show "marks_ok buf p (P', evs)"
  proof (rule run)
    show "marks_ok buf 0 (hp_reset P, [])"
      using assms(2,3) by (simp add: marks_ok_def hp_reset_def)
  next
    show "marks_ok buf q (hp_act buf a q x)" if "q < 0 + length buf" "marks_ok buf q x" for a q x
      using that by (simp add: hp_act_marks)
  qed (simp add: marks_ok_def)
qed

definition hc_marks_ok :: "string \<Rightarrow> nat \<Rightarrow> httpclient_parser \<times> parser_event list \<Rightarrow> bool" where
  "hc_marks_ok buf p s \<longleftrightarrow> hc_mark (fst s) \<le> p \<and> hc_mark (fst s) < length buf \<and> hc_field_start (fst s) \<le> p
     \<and> hc_field_start (fst s) < length buf \<and> hc_field_len (fst s) \<le> p \<and> hc_body_start (fst s) \<le> length buf"

lemma hc_act_marks:
  assumes "p < length buf" "hc_marks_ok buf p s"
  shows "hc_marks_ok buf p (hc_act buf a p s)"
  using assms by (cases s; cases a) (auto simp: hc_marks_ok_def len_of_def Let_def)

lemma hc_run_marks:
  assumes "hc_run P buf = (p, cs, P', evs)" "buf \<noteq> []" "hc_body_start P \<le> length buf"
  shows "p \<le> length buf \<and> hc_marks_ok buf p (P', evs)"
proof
  show "p \<le> length buf" using ragel_run_range [OF assms(1) [unfolded hc_run_def]] by simp
  note run = ragel_run_pos [where I = "hc_marks_ok buf", OF assms(1) [unfolded hc_run_def]]
  show "hc_marks_ok buf p (P', evs)"
  proof (rule run)
    show "hc_marks_ok buf 0 (hc_reset P, [])"
      using assms(2,3) by (simp add: hc_marks_ok_def hc_reset_def)
  next
    show "hc_marks_ok buf q (hc_act buf a q x)" if "q < 0 + length buf" "hc_marks_ok buf q x" for a q x
      using that by (simp add: hc_act_marks)
  qed (simp add: hc_marks_ok_def)
qed

lemma hp_parse_run:
  assumes "hp_run P buf = (p, cs, P', evs)" "buf \<noteq> []" "hp_body_start P \<le> length buf"
  shows "hp_parse P buf
    = Some (p, (if hp_cs P' \<noteq> 0 then P'\<lparr>hp_cs := cs\<rparr> else P')\<lparr>hp_nread := p\<rparr>, evs) \<and> p \<le> length buf"
  using hp_run_marks [OF assms(1,2)] assms
  by (auto simp: hp_parse_def http_parser_has_error_def Let_def marks_ok_def)

text \<open>The assertions at the entry: the length is an \<open>int\<close>, and the response ends with a NUL.\<close>

lemma to_int32_exact: "int n = to_int32 n \<longleftrightarrow> n < 2 ^ 31"
proof
  assume "int n = to_int32 n"
  moreover have "sint (word_of_nat n :: u32) < 2 ^ (32 - 1)" using sint_lt [of "word_of_nat n :: u32"] by simp
  ultimately show "n < 2 ^ 31" by (simp add: to_int32_def)
qed (simp add: to_int32_small)

lemma entry_ok [simp]:
  "hp_entry_ok buf \<longleftrightarrow> length buf < 2 ^ 31" "hc_entry_ok buf z \<longleftrightarrow> z = CHR 0x00 \<and> length buf < 2 ^ 31"
  using to_int32_exact [of "length buf"] by (auto simp: hp_entry_ok_def hc_entry_ok_def to_int32_small)

lemma http_parser_execute_long: "2 ^ 31 \<le> length buf \<Longrightarrow> http_parser_execute P buf = None"
  by (auto simp: http_parser_execute_def)

lemma httpclient_parser_execute_unterminated: "z \<noteq> CHR 0x00 \<Longrightarrow> httpclient_parser_execute P buf z = None"
  by (simp add: httpclient_parser_execute_def)

lemma request_ragel_execute:
  assumes "length buf < 2 ^ 31" "hp_body_start P \<le> length buf"
  shows "http_parser_execute P buf = Some (request_ragel P buf)"
proof (cases "buf = []")
  case False
  obtain p cs P' evs where "hp_run P buf = (p, cs, P', evs)" by (metis prod_cases4)
  from hp_parse_run [OF this False assms(2)] False assms(1) show ?thesis
    by (simp add: http_parser_execute_def request_ragel_def)
qed (simp add: http_parser_execute_def request_ragel_def)

lemma httpclient_parser_execute_run:
  assumes "hc_run P buf = (p, cs, P', evs)" "buf \<noteq> []" "hc_body_start P \<le> length buf" "length buf < 2 ^ 31"
  shows "httpclient_parser_execute P buf (CHR 0x00) = Some (int p, P'\<lparr>hc_cs := cs, hc_nread := p\<rparr>, evs)
    \<and> p \<le> length buf"
proof -
  have p: "p \<le> length buf" "hc_marks_ok buf p (P', evs)" using hc_run_marks [OF assms(1-3)] by simp_all
  with assms(4) have "to_int32 p = int p" by (simp add: to_int32_small)
  with p assms show ?thesis by (auto simp: httpclient_parser_execute_def Let_def hc_marks_ok_def)
qed

text \<open>Without a character \<open>check(parser->mark < len)\<close> fails.\<close>

lemma hc_run_empty: "hc_run P [] = (0, hc_cs P, hc_reset P, [])"
  by (simp add: hc_run_def)

lemma httpclient_parser_execute_empty:
  "hc_body_start R = 0 \<Longrightarrow> httpclient_parser_execute R [] (CHR 0x00) = Some (-1, (hc_reset R)\<lparr>hc_cs := hc_cs R\<rparr>, [])"
  by (simp add: httpclient_parser_execute_def hc_run_empty hc_reset_def)

text \<open>
  C36.  On any buffer, and in any state in which \<open>body_start\<close> lies in it (it is 0 until the head is
  complete), \<open>execute\<close> of the request parser aborts exactly when the length of the buffer does not
  fit an \<open>int\<close>, and that of the response parser exactly when the length does not fit or no NUL
  follows the buffer.  All other assertions hold: otherwise both return the number of characters
  they consumed, at most the length of the buffer, and the request parser returns what the session
  works with; only on an empty buffer a check of the response parser fails and it returns -1.
\<close>

theorem parsers_never_abort:
  assumes "hp_body_start P \<le> length buf" "hc_body_start R \<le> length buf"
  shows "(case http_parser_execute P buf of
       None \<Rightarrow> 2 ^ 31 \<le> length buf
     | Some (n, P', evs) \<Rightarrow> length buf < 2 ^ 31 \<and> n \<le> length buf \<and> (n, P', evs) = request_ragel P buf)
    \<and> (case httpclient_parser_execute R buf z of
       None \<Rightarrow> z \<noteq> CHR 0x00 \<or> 2 ^ 31 \<le> length buf
     | Some (n, R', evs) \<Rightarrow> z = CHR 0x00 \<and> length buf < 2 ^ 31
         \<and> (if buf = [] then n = -1 else 0 \<le> n \<and> n \<le> int (length buf)))"
proof -
  obtain p cs P' evs where r: "hp_run P buf = (p, cs, P', evs)" by (metis prod_cases4)
  obtain q ds R' fs where r': "hc_run R buf = (q, ds, R', fs)" by (metis prod_cases4)
  show ?thesis
  proof (cases "buf = []")
    case True
    then show ?thesis
      using assms httpclient_parser_execute_empty [of R] httpclient_parser_execute_unterminated [of z]
      by (cases "z = CHR 0x00") (auto simp: http_parser_execute_def request_ragel_def)
  next
    case False
    have "2 ^ 31 \<le> length buf \<Longrightarrow> httpclient_parser_execute R buf z = None"
      by (simp add: httpclient_parser_execute_def)
    with hp_parse_run [OF r False assms(1)] httpclient_parser_execute_run [OF r' False assms(2)]
      request_ragel_execute [OF _ assms(1)] http_parser_execute_long [of buf P]
      httpclient_parser_execute_unterminated [of z R buf] False
    show ?thesis
      by (cases "length buf < 2 ^ 31"; cases "z = CHR 0x00") (auto simp: request_ragel_def)
  qed
qed

text \<open>Structs of zeros, as they may be before they are set up.\<close>

definition zero_http_parser :: http_parser where
  "zero_http_parser = \<lparr>hp_cs = 0, hp_body_start = 0, hp_content_len = 0, hp_nread = 0, hp_mark = 0,
     hp_field_start = 0, hp_field_len = 0, hp_query_start = 0, hp_xml_sent = False, hp_json_sent = False,
     hp_uri_relaxed = False\<rparr>"

definition zero_httpclient_parser :: httpclient_parser where
  "zero_httpclient_parser = \<lparr>hc_cs = 0, hc_body_start = 0, hc_content_len = 0, hc_status = 0, hc_chunked = False,
     hc_chunks_done = False, hc_close = False, hc_nread = 0, hc_mark = 0, hc_field_start = 0, hc_field_len = 0\<rparr>"

theorem parsers_never_abort_witness:
  "(case http_parser_execute (http_parser_init zero_http_parser) ''GET /'' of None \<Rightarrow> False | Some (n, _) \<Rightarrow> n \<le> 5)
    \<and> (case httpclient_parser_execute (httpclient_parser_init zero_httpclient_parser) ''HTTP/1'' (CHR 0x00) of
         None \<Rightarrow> False | Some (n, _) \<Rightarrow> 0 \<le> n \<and> n \<le> 6)
    \<and> httpclient_parser_execute (httpclient_parser_init zero_httpclient_parser) ''HTTP/1'' (CHR ''x'') = None"
proof -
  have b: "hp_body_start (http_parser_init zero_http_parser) \<le> length buf"
      "hc_body_start (httpclient_parser_init zero_httpclient_parser) \<le> length buf" for buf :: string
    by (simp_all add: http_parser_init_def httpclient_parser_init_def)
  note n = parsers_never_abort [OF b, of "''GET /''" "CHR 0x00"] parsers_never_abort [OF b, of "''HTTP/1''" "CHR 0x00"]
    parsers_never_abort [OF b, of "''HTTP/1''" "CHR ''x''"]
  show ?thesis
  proof (intro conjI)
    show "case http_parser_execute (http_parser_init zero_http_parser) ''GET /'' of None \<Rightarrow> False | Some (n, _) \<Rightarrow> n \<le> 5"
      using n(1) [THEN conjunct1]
      by (cases "request_ragel (http_parser_init zero_http_parser) ''GET /''") (simp split: option.splits prod.splits)
    show "case httpclient_parser_execute (httpclient_parser_init zero_httpclient_parser) ''HTTP/1'' (CHR 0x00) of
        None \<Rightarrow> False | Some (n, _) \<Rightarrow> 0 \<le> n \<and> n \<le> 6"
      using n(2) [THEN conjunct2] by (simp split: option.splits prod.splits)
    show "httpclient_parser_execute (httpclient_parser_init zero_httpclient_parser) ''HTTP/1'' (CHR ''x'') = None"
      using n(3) [THEN conjunct2] by (simp split: option.splits prod.splits)
  qed
qed

section \<open>Characters\<close>

lemma schar_less [simp]: "code c < 128 \<Longrightarrow> schar c = int (code c)"
  by (simp add: schar_def)

lemma length_crlf [simp]: "length crlf = 2"
  by (simp add: crlf_def)

lemma is_xdigit_schar: "is_xdigit c \<Longrightarrow> schar c = int (code c)"
  by (auto simp: is_xdigit_def is_digit_def schar_def)

lemma hc_switch_states:
  "hc_switch (Suc 0) = hc_case_1" "hc_switch 2 = hc_case_2" "hc_switch 3 = hc_case_3"
  by (simp_all add: hc_switch_def)

lemma schar_crlf [simp]: "schar (char_of (13 :: nat)) = 13" "schar (char_of (10 :: nat)) = 10"
  by (simp_all add: schar_def)

lemma hc_chunk_first: "is_xdigit c \<Longrightarrow> hc_switch 1 (schar c) = Goto [CMark] 2"
  by (auto simp: hc_switch_states hc_case_1_def hc_tr0_def is_xdigit_def is_digit_def is_xdigit_schar)

lemma hc_chunk_digit: "is_xdigit c \<Longrightarrow> hc_switch 2 (schar c) = Goto [] 2"
  by (auto simp: hc_switch_states hc_case_2_def is_xdigit_def is_digit_def is_xdigit_schar)

text \<open>The head of a chunk: its length in hexadecimal digits and a line end.\<close>

definition chunk_length :: "string \<Rightarrow> int" where
  "chunk_length h = to_int32 (min (hex_number h) (2 ^ 63 - 1))"

lemma hc_run_chunk:
  assumes "h \<noteq> []" "\<forall>c \<in> set h. is_xdigit c" "hc_cs P = 1"
  shows "hc_run P (h @ crlf @ rest) = (length h + 2, 120,
      (hc_reset P)\<lparr>hc_mark := 0, hc_chunked := True, hc_content_len := chunk_length h,
         hc_chunks_done := (chunk_length h \<le> 0), hc_body_start := length h + 2\<rparr>,
      [if chunk_length h \<le> 0 then EvLastChunk (h @ crlf @ rest) (length h) else EvChunk (h @ crlf @ rest) (length h),
       EvHeaderDone rest (length rest)])"
proof -
  obtain c w where h: "h = c # w" using assms(1) by (cases h) auto
  have t: "takeWhile is_xdigit (h @ crlf @ rest) = h"
    using assms(2) by (simp add: crlf_def is_xdigit_def is_digit_def takeWhile_append2)
  have c: "hc_switch (Suc 0) (schar c) = Goto [CMark] 2" "is_xdigit c"
    using hc_chunk_first [of c] assms(2) h by simp_all
  have w: "ragel_run hc_switch act (w @ r) p 2 s = ragel_run hc_switch act r (p + length w) 2 s"
    for act r p and s :: "httpclient_parser \<times> parser_event list"
    using assms(2) h by (intro ragel_run_stay) (simp add: hc_chunk_digit)
  have n: "strtol16 (h @ crlf @ rest) = chunk_length h"
    unfolding strtol16_def chunk_length_def t ..
  show ?thesis
    using assms(3) c n
    by (simp add: hc_run_def h w crlf_def hc_switch_states hc_case_2_def hc_case_3_def hc_tr4_def hc_tr7_def
        Let_def len_of_def)
qed

end
