(* ===== verification/Util_Correct.thy ===== *)
theory Util_Correct
  imports Util
begin

text \<open>
  The properties of the utilities: URL encoding is a lazy copy of a character-wise encoding
  that decoding inverts, trimming removes exactly the delimiters at the ends, the parts of a
  path name rebuild it, and \<open>Mkdir\<close> makes every directory on the way.
\<close>

section \<open>URL encoding\<close>

text \<open>What the encoder prints for one character.\<close>

definition url_char :: "bool \<Rightarrow> char \<Rightarrow> string" where
  "url_char sp c = (if CHAR_IS_UNRESERVED c then [c]
     else if c = CHR '' '' \<and> sp then ''+''
     else [CHR ''%'', hexdigits ! (code c div 16), hexdigits ! (code c mod 16)])"

lemma UrlEncode_loop_step:
  "CHAR_IS_UNRESERVED c \<Longrightarrow> UrlEncode_loop sp str i (c # cs) ss
     = UrlEncode_loop sp str (Suc i) cs (map_option (\<lambda>s. s @ [c]) ss)"
  "\<not> CHAR_IS_UNRESERVED c \<Longrightarrow> UrlEncode_loop sp str i (c # cs) ss
     = UrlEncode_loop sp str (Suc i) cs (Some (url_buffer str i ss @ url_char sp c))"
  by (simp_all add: url_char_def Let_def)

lemma url_char_unreserved: "CHAR_IS_UNRESERVED c \<Longrightarrow> url_char sp c = [c]"
  by (simp add: url_char_def)

lemma UrlEncode_loop_Some:
  "UrlEncode_loop sp str i cs (Some s) = Some (s @ concat (map (url_char sp) cs))"
  by (induction cs arbitrary: i s) (simp_all add: url_char_def url_buffer_def Let_def)

lemma UrlEncode_loop_None:
  assumes "str = pre @ cs" "i = length pre"
  shows "UrlEncode_loop sp str i cs None
    = (if \<forall>c \<in> set cs. CHAR_IS_UNRESERVED c then None else Some (pre @ concat (map (url_char sp) cs)))"
  using assms
proof (induction cs arbitrary: i pre)
  case Nil
  then show ?case by simp
next
  case (Cons c cs)
  have ih: "UrlEncode_loop sp str (Suc i) cs None = (if \<forall>c \<in> set cs. CHAR_IS_UNRESERVED c then None
      else Some ((pre @ [c]) @ concat (map (url_char sp) cs)))"
    by (rule Cons.IH) (use Cons.prems in auto)
  have pre: "url_buffer str i None = pre" using Cons.prems by (simp add: url_buffer_def)
  show ?case
  proof (cases "CHAR_IS_UNRESERVED c")
    case True
    with ih show ?thesis
      by (simp add: UrlEncode_loop_step(1) url_char_unreserved del: UrlEncode_loop.simps)
  next
    case False
    then show ?thesis
      by (simp add: UrlEncode_loop_step(2) UrlEncode_loop_Some pre del: UrlEncode_loop.simps)
  qed
qed

lemma UrlEncode_chars: "UrlEncode str sp = concat (map (url_char sp) str)"
proof -
  have "concat (map (url_char sp) t) = t" if "\<forall>c \<in> set t. CHAR_IS_UNRESERVED c" for t
    using that by (induction t) (auto simp: url_char_def)
  then show ?thesis
    using UrlEncode_loop_None [of str "[]" str 0 sp] by (simp add: UrlEncode_def split: option.splits)
qed

text \<open>The decoder without the lazy buffer.\<close>

function url_decode :: "bool \<Rightarrow> string \<Rightarrow> string" where
  "url_decode sp rest = (case rest of
     [] \<Rightarrow> []
   | c # cs \<Rightarrow>
      (if c = CHR ''+'' \<and> sp then CHR '' '' # url_decode sp cs
       else if c = CHR ''%'' \<and> 2 \<le> length cs \<and> is_xdigit (cs ! 0) \<and> is_xdigit (cs ! 1)
       then char_of (xdigit_chars ! code (cs ! 0) * 16 + xdigit_chars ! code (cs ! 1))
              # url_decode sp (drop 2 cs)
       else c # url_decode sp cs))"
  by pat_completeness auto
termination by (relation "measure (\<lambda>(sp, rest). length rest)") auto

declare url_decode.simps [simp del]

lemma url_decode_Nil [simp]: "url_decode sp [] = []"
  by (subst url_decode.simps) simp

lemma UrlDecode_loop_Some:
  "UrlDecode_loop sp str i rest (Some s) = Some (s @ url_decode sp rest)"
proof (induction sp rest arbitrary: i s rule: url_decode.induct)
  case (1 sp rest)
  show ?case
  proof (cases rest)
    case Nil
    then show ?thesis by (simp add: UrlDecode_loop.simps)
  next
    case (Cons c cs)
    show ?thesis
      unfolding UrlDecode_loop.simps [of sp str i rest] url_decode.simps [of sp rest]
      using 1 [OF Cons] Cons by (auto simp: url_buffer_def)
  qed
qed

lemma UrlDecode_loop_None:
  assumes "str = pre @ rest" "i = length pre"
  shows "UrlDecode_loop sp str i rest None = Some (pre @ url_decode sp rest)
    \<or> UrlDecode_loop sp str i rest None = None \<and> url_decode sp rest = rest"
  using assms
proof (induction rest arbitrary: i pre)
  case Nil
  then show ?case by (simp add: UrlDecode_loop.simps)
next
  case (Cons c cs)
  have ih: "UrlDecode_loop sp str (Suc i) cs None = Some ((pre @ [c]) @ url_decode sp cs)
      \<or> UrlDecode_loop sp str (Suc i) cs None = None \<and> url_decode sp cs = cs"
    by (rule Cons.IH) (use Cons.prems in auto)
  show ?case
    unfolding UrlDecode_loop.simps [of sp str i "c # cs"] url_decode.simps [of sp "c # cs"]
    using ih Cons.prems by (auto simp: UrlDecode_loop_Some url_buffer_def)
qed

lemma UrlDecode_eq: "UrlDecode str sp = url_decode sp str"
  using UrlDecode_loop_None [of str "[]" str 0 sp] by (auto simp: UrlDecode_def)

lemma code_inject: "code c = code d \<Longrightarrow> c = d"
  by (simp add: code_def)

lemma unreserved_not_special:
  assumes "CHAR_IS_UNRESERVED c"
  shows "c \<noteq> CHR ''+''" "c \<noteq> CHR ''%''"
  using assms by (auto simp: CHAR_IS_UNRESERVED_def uri_chars_def code_def nth_append)

lemma hex_range: "n < 16 \<Longrightarrow> n \<in> set [0, 1, 2, 3, 4, 5, 6, 7, 8, 9, 10, 11, 12, 13, 14, 15 :: nat]"
proof -
  have "[0, 1, 2, 3, 4, 5, 6, 7, 8, 9, 10, 11, 12, 13, 14, 15] = [0..<16 :: nat]"
    by (simp add: upt_conv_Cons)
  then show "n < 16 \<Longrightarrow> ?thesis" by (simp only: set_upt) simp
qed

lemma hexdigits_table:
  "list_all (\<lambda>n. is_xdigit (hexdigits ! n) \<and> xdigit_chars ! code (hexdigits ! n) = n
      \<and> CHAR_IS_UNRESERVED (hexdigits ! n)) [0, 1, 2, 3, 4, 5, 6, 7, 8, 9, 10, 11, 12, 13, 14, 15]"
  by (simp add: hexdigits_def is_xdigit_def is_digit_def code_def xdigit_chars_def nth_append
      CHAR_IS_UNRESERVED_def uri_chars_def)

lemma hexdigits_ok:
  assumes "n < 16"
  shows "is_xdigit (hexdigits ! n)" "xdigit_chars ! code (hexdigits ! n) = n"
    "CHAR_IS_UNRESERVED (hexdigits ! n)"
  using hexdigits_table hex_range [OF assms] unfolding list_all_iff by blast+

lemma url_decode_char: "url_decode sp (url_char sp c @ rest) = c # url_decode sp rest"
proof -
  have less: "code c div 16 < 16" using code_less [of c] by (intro less_mult_imp_div_less) simp
  have "char_of (code c div 16 * 16 + code c mod 16) = c" by (simp add: code_def)
  then show ?thesis
    using hexdigits_ok [OF less] hexdigits_ok [of "code c mod 16"] unreserved_not_special [of c]
    by (subst url_decode.simps) (auto simp: url_char_def)
qed

lemma UrlDecode_UrlEncode: "UrlDecode (UrlEncode str sp) sp = str"
  unfolding UrlDecode_eq UrlEncode_chars by (induction str) (simp_all add: url_decode_char)

lemma UrlEncode_alphabet:
  "\<forall>c \<in> set (UrlEncode str sp). CHAR_IS_UNRESERVED c \<or> c = CHR ''%'' \<or> c = CHR ''+'' \<and> sp"
proof -
  have "code c div 16 < 16" for c using code_less [of c] by (intro less_mult_imp_div_less) simp
  then have "\<forall>d \<in> set (url_char sp c). CHAR_IS_UNRESERVED d \<or> d = CHR ''%'' \<or> d = CHR ''+'' \<and> sp" for c
    using hexdigits_ok(3) by (auto simp: url_char_def)
  then show ?thesis unfolding UrlEncode_chars by auto
qed

text \<open>
  URL encoding: decoding with the same treatment of blanks gives every string back, and
  the encoding consists of unreserved characters, percent signs and, for blanks, plus signs.
\<close>

theorem url_round_trip:
  "UrlDecode (UrlEncode str sp) sp = str
   \<and> (\<forall>c \<in> set (UrlEncode str sp). CHAR_IS_UNRESERVED c \<or> c = CHR ''%'' \<or> c = CHR ''+'' \<and> sp)"
  using UrlDecode_UrlEncode UrlEncode_alphabet by blast

theorem url_round_trip_witness:
  "UrlDecode (UrlEncode ''a b&c'' True) True = ''a b&c''"
  using url_round_trip [of "''a b&c''" True] by (rule conjunct1)

section \<open>Trimming and path names\<close>

text \<open>
  \<open>Trim\<close> removes delimiters only, from the ends only, and as many as there are.
\<close>

theorem Trim_correct:
  "\<exists>pre post. str = pre @ Trim str ds @ post \<and> set pre \<subseteq> set ds \<and> set post \<subseteq> set ds
    \<and> (Trim str ds = [] \<or> Trim str ds ! 0 \<notin> set ds \<and> last (Trim str ds) \<notin> set ds)"
proof (cases "find_idx (\<lambda>c. c \<notin> set ds) str")
  case None
  then show ?thesis
    using find_idx_None [of "\<lambda>c. c \<notin> set ds" str]
    by (intro exI [of _ str] exI [of _ "[]"]) (simp add: Trim_def subset_iff)
next
  case (Some b)
  then have "\<exists>c \<in> set str. c \<notin> set ds" using find_idx_Some nth_mem by metis
  then obtain e where e: "rfind_idx (\<lambda>c. c \<notin> set ds) str = Some e"
    by (metis not_None_eq rfind_idx_None)
  note b = find_idx_Some [OF Some] and e' = rfind_idx_Some [OF e]
  have "b \<le> e"
  proof (rule ccontr)
    assume "\<not> b \<le> e"
    then have "take b str ! e \<in> set (take b str)" using b by (intro nth_mem) simp
    then have "str ! e \<in> set (take b str)" using \<open>\<not> b \<le> e\<close> by simp
    then show False using b e' by blast
  qed
  let ?t = "take (e + 1 - b) (drop b str)"
  have t: "Trim str ds = ?t" by (simp add: Trim_def Some e substr_def)
  have "take (e + 1 - b) (drop b str) @ drop (Suc e) str = drop b str"
    using \<open>b \<le> e\<close> append_take_drop_id [of "e + 1 - b" "drop b str"] by simp
  then have "str = take b str @ ?t @ drop (Suc e) str" by simp
  moreover have "?t ! 0 = str ! b" "?t \<noteq> []" using b e' \<open>b \<le> e\<close> by auto
  moreover have "last ?t = str ! e"
  proof -
    from e' have "e < length str" by blast
    then have "length ?t = e + 1 - b" using \<open>b \<le> e\<close> by (simp add: min_def) linarith
    then show ?thesis using e' \<open>b \<le> e\<close> \<open>?t \<noteq> []\<close> by (simp add: last_conv_nth)
  qed
  ultimately show ?thesis
    using b e' unfolding t by (intro exI [of _ "take b str"] exI [of _ "drop (Suc e) str"]) auto
qed

theorem Trim_correct_witness:
  "\<exists>pre post. '' ab  '' = pre @ Trim '' ab  '' '' '' @ post \<and> set pre \<subseteq> set '' '' \<and> set post \<subseteq> set '' ''"
  using Trim_correct [of "'' ab  ''" "'' ''"] by blast

lemma TrimRight_drops_last: "TrimRight ''ab '' '' '' = ''a''"
  by (simp add: TrimRight_def)

text \<open>
  The directory and the base name rebuild a path name that has a slash behind its first
  character, and the base name never contains a slash.
\<close>

theorem dirname_basename:
  assumes "rfind_idx (\<lambda>c. c = CHR ''/'') p = Some i" "0 < i"
  shows "Dirname p @ ''/'' @ Basename p = p \<and> CHR ''/'' \<notin> set (Basename p)"
proof -
  note at = rfind_idx_Some [OF assms(1)]
  have "p \<noteq> []" using at by (cases p) simp_all
  then have "Dirname p = take i p" "Basename p = drop (Suc i) p"
    unfolding Dirname_def Basename_def assms(1) using assms(2) by simp_all
  moreover have "take i p @ CHR ''/'' # drop (Suc i) p = p"
    using id_take_nth_drop [of i p] at by simp
  ultimately show ?thesis using at by (metis append_Cons append_Nil)
qed

theorem dirname_basename_witness:
  "Dirname ''a/b/c'' @ ''/'' @ Basename ''a/b/c'' = ''a/b/c''"
  using dirname_basename [of "''a/b/c''" 3] by simp

section \<open>Directories\<close>

text \<open>
  \<open>Mkdir\<close>: when \<open>mkdir\<close> makes the directory it reports and removes nothing, a successful
  \<open>Mkdir\<close> leaves the directory and every parent that the path names in existence; when it
  fails, some call of \<open>mkdir\<close> failed.
\<close>

theorem Mkdir_makes_parents:
  assumes mk_ok: "\<And>p s s'. mk p s = (True, s') \<Longrightarrow> ex p s'"
    and mk_keeps: "\<And>p q s b s'. mk p s = (b, s') \<Longrightarrow> ex q s \<Longrightarrow> ex q s'"
    and new: "\<not> ls d s" and run: "Mkdir ls ex mk d s = (r, s')"
  shows "(r \<longrightarrow> (\<forall>p \<in> set (dir_prefixes d @ [d]). ex p s'))
    \<and> (\<not> r \<longrightarrow> (\<exists>p \<in> set (dir_prefixes d @ [d]). \<exists>t. fst (mk p t) = False))"
proof -
  have keeps: "ex q s \<Longrightarrow> Mkdir_loop ex mk ps s = (r, s') \<Longrightarrow> ex q s'" for q ps s r s'
    by (induction ps arbitrary: s) (auto simp: mkdir_one_def split: prod.splits bool.splits if_splits
        dest: mk_keeps)
  have loop: "Mkdir_loop ex mk ps s = (r, s') \<Longrightarrow> (r \<longrightarrow> (\<forall>p \<in> set ps. ex p s'))
      \<and> (\<not> r \<longrightarrow> (\<exists>p \<in> set ps. \<exists>t. fst (mk p t) = False))" for ps s
  proof (induction ps arbitrary: s)
    case Nil
    then show ?case by simp
  next
    case (Cons p ps)
    obtain b t where one: "mkdir_one ex mk p s = (b, t)" by fastforce
    show ?case
    proof (cases b)
      case True
      then have "ex p t" using one mk_ok by (auto simp: mkdir_one_def split: if_splits)
      moreover have "Mkdir_loop ex mk ps t = (r, s')" using Cons.prems one True by simp
      ultimately show ?thesis using Cons.IH [of t] keeps by auto
    next
      case False
      then have "mk p s = (False, t)" using one by (auto simp: mkdir_one_def split: if_splits)
      then show ?thesis using Cons.prems one False by (auto intro!: exI [of _ s])
    qed
  qed
  have "Mkdir_loop ex mk (dir_prefixes d @ [d]) s = (r, s')" using run new by (simp add: Mkdir_def)
  then show ?thesis by (rule loop)
qed

theorem Mkdir_makes_parents_witness:
  "''/a/b'' \<in> snd (Mkdir (\<lambda>p s. p \<in> s) (\<lambda>p s. p \<in> s) (\<lambda>p s. (True, insert p s)) ''/a/b'' {})"
proof -
  let ?mk = "\<lambda>p s. (True, insert p s)"
  obtain r s' where run: "Mkdir (\<lambda>p s. p \<in> s) (\<lambda>p s. p \<in> s) ?mk ''/a/b'' {} = (r, s')" by fastforce
  from Mkdir_makes_parents [of ?mk "\<lambda>p s. p \<in> s" "\<lambda>p s. p \<in> s", OF _ _ _ run]
  show ?thesis unfolding run by (cases r) auto
qed

lemma ListAllFile_suffix:
  "f \<in> set (ListAllFile p sub es) \<Longrightarrow> \<exists>pre. f = pre @ sub"
proof (induction p sub es rule: ListAllFile.induct)
  case (3 path subfix filename es)
  show ?case
  proof (cases "f \<in> set (ListAllFile path subfix es)")
    case True
    then show ?thesis using 3 by blast
  next
    case False
    then have f: "f = path @ ''/'' @ filename" and sub: "subfix = []
        \<or> drop (length filename - length subfix) filename = subfix"
      using "3.prems" by (auto split: if_splits)
    from sub show ?thesis
      by (metis append.right_neutral append_assoc append_take_drop_id f)
  qed
qed (auto split: if_splits)

end
