(* ===== verification/Http_Message_Correct.thy ===== *)
theory Http_Message_Correct
  imports Http_Message Util_Correct
begin

text \<open>
  The properties of the HTTP messages: the method tables are inverse, header maps ignore case,
  and the parameters of a query are read back as they were encoded.
\<close>

section \<open>Methods\<close>

lemma first_match_only:
  assumes "(m, s) \<in> set ms" "P s" "\<And>m' s'. (m', s') \<in> set ms \<Longrightarrow> P s' \<Longrightarrow> m' = m"
  shows "first_match P ms = m"
proof -
  have "\<forall>(m', s') \<in> set ms. P s' \<longrightarrow> m' = m" using assms(3) by blast
  with assms(1,2) show ?thesis by (induction ms) auto
qed

text \<open>No name is the prefix of another, none has a null character, and every method has one.\<close>

lemma names_apart_check: "list_all (\<lambda>(m, s). list_all (\<lambda>(m', s'). take (length s) s' = s \<longrightarrow> m = m') HTTP_METHOD_MAP) HTTP_METHOD_MAP"
  by code_simp

lemma names_apart: "(m, s) \<in> set HTTP_METHOD_MAP \<Longrightarrow> (m', s @ t) \<in> set HTTP_METHOD_MAP \<Longrightarrow> m = m'"
  using names_apart_check by (fastforce simp: list_all_iff)

lemma names_no_null: "list_all (\<lambda>(m, s). c_str s = s) HTTP_METHOD_MAP"
  by code_simp

lemma named: "m \<noteq> INVALID_METHOD \<Longrightarrow> (m, HttpMethodToString m) \<in> set HTTP_METHOD_MAP"
  by (cases m) (simp_all add: HttpMethodToString_def HTTP_METHOD_MAP_def)

lemma CharsToHttpMethod_name:
  assumes "m \<noteq> INVALID_METHOD"
  shows "CharsToHttpMethod (HttpMethodToString m @ rest) = m"
  unfolding CharsToHttpMethod_def
proof (rule first_match_only [OF named [OF assms]])
  let ?s = "HttpMethodToString m"
  show "take (length ?s) (?s @ rest) = ?s" by simp
  fix m' s' assume h: "(m', s') \<in> set HTTP_METHOD_MAP" "take (length s') (?s @ rest) = s'"
  show "m' = m"
  proof (cases "length s' \<le> length ?s")
    case True
    with h(2) have "?s = s' @ drop (length s') ?s" by (metis append_take_drop_id take_append diff_is_0_eq' take_0 append_Nil2)
    with names_apart [OF h(1), of m "drop (length s') ?s"] named [OF assms] show ?thesis by metis
  next
    case False
    with h(2) have "s' = ?s @ take (length s' - length ?s) rest" by simp
    with names_apart [OF named [OF assms], of m' "take (length s' - length ?s) rest"] h(1) show ?thesis by simp
  qed
qed

lemma StringToHttpMethod_name:
  assumes "m \<noteq> INVALID_METHOD"
  shows "StringToHttpMethod (HttpMethodToString m) = m"
  unfolding StringToHttpMethod_def
proof (rule first_match_only [OF named [OF assms]])
  show c: "HttpMethodToString m = c_str (HttpMethodToString m)"
    using names_no_null named [OF assms] by (fastforce simp: list_all_iff)
  fix m' s' assume "(m', s') \<in> set HTTP_METHOD_MAP" "s' = c_str (HttpMethodToString m)"
  with c names_apart [of m' s' m "[]"] named [OF assms] show "m' = m" by simp
qed

text \<open>
  The method tables: every method is recognised from its name, also in front of the rest
  of a request line (no name is the prefix of another), and what is recognised has that name.
\<close>

theorem method_round_trip:
  "(m \<noteq> INVALID_METHOD \<longrightarrow> StringToHttpMethod (HttpMethodToString m) = m
      \<and> CharsToHttpMethod (HttpMethodToString m @ rest) = m)
   \<and> (StringToHttpMethod s = m \<longrightarrow> m \<noteq> INVALID_METHOD \<longrightarrow> c_str s = HttpMethodToString m)"
proof (intro conjI impI)
  show "StringToHttpMethod (HttpMethodToString m) = m" if "m \<noteq> INVALID_METHOD"
    using that by (rule StringToHttpMethod_name)
  show "CharsToHttpMethod (HttpMethodToString m @ rest) = m" if "m \<noteq> INVALID_METHOD"
    using that by (rule CharsToHttpMethod_name)
  have found: "first_match P ms = m \<Longrightarrow> m \<noteq> INVALID_METHOD \<Longrightarrow> \<exists>s. (m, s) \<in> set ms \<and> P s"
    for P and ms :: "(HttpMethod \<times> string) list"
    by (induction ms) (auto split: if_splits)
  have "distinct (map fst HTTP_METHOD_MAP)" by (simp add: HTTP_METHOD_MAP_def)
  then show "c_str s = HttpMethodToString m" if "StringToHttpMethod s = m" "m \<noteq> INVALID_METHOD"
    using found [of "\<lambda>t. t = c_str s" HTTP_METHOD_MAP] that
    by (auto simp: StringToHttpMethod_def HttpMethodToString_def)
qed

theorem method_round_trip_witness:
  "CharsToHttpMethod ''GET /index.html'' = GET"
  using method_round_trip [of GET "'' /index.html''" "[]"]
  by (simp add: HttpMethodToString_def HTTP_METHOD_MAP_def)

section \<open>Headers\<close>

definition headers_ok :: "HttpRequest \<Rightarrow> bool" where
  "headers_ok q \<longleftrightarrow> om_sorted ci_key (q_headers q)"

lemma getHeader_set:
  "headers_ok q \<Longrightarrow> getHeader (setHeader k v q) k' d = (if strcaseeq k' k then v else getHeader q k' d)"
  using om.find_assign [of ci_key "q_headers q" k v k']
  by (simp add: headers_ok_def getHeader_def setHeader_def map_get_def strcaseeq_def)

lemma getHeader_del:
  "headers_ok q \<Longrightarrow> getHeader (delHeader k q) k' d = (if strcaseeq k' k then d else getHeader q k' d)"
  using om.find_erase [of ci_key "q_headers q" k k']
  by (simp add: headers_ok_def getHeader_def delHeader_def map_get_def strcaseeq_def)

text \<open>
  Headers are one case-insensitive map: a header is found under any spelling of its name
  with the value last set, setting or deleting one leaves the others alone, and the order of
  the map is kept, so that each name is sent once.
\<close>

theorem header_map:
  assumes "headers_ok q"
  shows "headers_ok (setHeader k v q) \<and> headers_ok (delHeader k q)
    \<and> getHeader (setHeader k v q) k' d = (if strcaseeq k' k then v else getHeader q k' d)
    \<and> getHeader (delHeader k q) k' d = (if strcaseeq k' k then d else getHeader q k' d)
    \<and> (hasHeader (setHeader k v q) k' = (if strcaseeq k' k then Some v else hasHeader q k'))"
  using assms getHeader_set [OF assms] getHeader_del [OF assms]
    om.find_assign [of ci_key "q_headers q" k v k']
  by (simp add: headers_ok_def setHeader_def delHeader_def hasHeader_def om_assign_sorted
      om_erase_sorted strcaseeq_def)

theorem header_map_witness:
  "getHeader (setHeader ''Connection'' ''close'' (new_HttpRequest 17 True)) ''CONNECTION'' [] = ''close''"
proof -
  have "headers_ok (new_HttpRequest 17 True)" by (simp add: headers_ok_def new_HttpRequest_def)
  moreover have "strcaseeq ''CONNECTION'' ''Connection''"
    by (simp add: strcaseeq_def ci_key_def c_str_def to_lower_def is_upper_def code_def)
  ultimately show ?thesis
    using header_map [of "new_HttpRequest 17 True" "''Connection''" "''close''" "''CONNECTION''"] by simp
qed

section \<open>Parameters\<close>

text \<open>The query text of a list of parameters.\<close>

fun query_of :: "(string \<times> string) list \<Rightarrow> string" where
  "query_of [] = []"
| "query_of [(k, v)] = k @ ''='' @ UrlEncode v True"
| "query_of ((k, v) # kv # kvs) = k @ ''='' @ UrlEncode v True @ ''&'' @ query_of (kv # kvs)"

lemma ampersand_reserved: "\<not> CHAR_IS_UNRESERVED CHR ''&''"
  by (simp add: CHAR_IS_UNRESERVED_def uri_chars_def code_def nth_append)

lemma no_ampersand: "CHR ''&'' \<notin> set (UrlEncode v True)"
proof
  assume "CHR ''&'' \<in> set (UrlEncode v True)"
  then have "CHAR_IS_UNRESERVED CHR ''&'' \<or> CHR ''&'' = CHR ''%'' \<or> CHR ''&'' = CHR ''+''"
    using UrlEncode_alphabet [of v True] by blast
  then show False using ampersand_reserved by simp
qed

lemma find_idx_append_hit:
  "\<forall>x \<in> set xs. \<not> P x \<Longrightarrow> P y \<Longrightarrow> find_idx P (xs @ y # ys) = Some (length xs)"
  by (induction xs) auto

lemma PARSE_PARAM_query:
  "\<forall>(k, v) \<in> set kvs. CHR ''='' \<notin> set k \<Longrightarrow>
   PARSE_PARAM CHR ''&'' id (query_of kvs) m = fold (\<lambda>(k, v) m. om_insert ci_key m k v) kvs m"
proof (induction kvs arbitrary: m rule: query_of.induct)
  case 1
  show ?case by (subst PARSE_PARAM.simps) simp
next
  case (2 k v)
  then have key: "find_idx (\<lambda>c. c = CHR ''='') (k @ ''='' @ UrlEncode v True) = Some (length k)"
    by (auto intro!: find_idx_append_hit)
  have none: "find_idx (\<lambda>c. c = CHR ''&'') (UrlEncode v True) = None"
    using no_ampersand [of v] by (auto simp: find_idx_None)
  have "PARSE_PARAM CHR ''&'' id (k @ ''='' @ UrlEncode v True) m = om_insert ci_key m k v"
    by (subst PARSE_PARAM.simps, subst key) (simp add: none UrlDecode_UrlEncode)
  then show ?case by (simp add: id_def)
next
  case (3 k v kv kvs)
  let ?rest = "query_of (kv # kvs)"
  have key: "find_idx (\<lambda>c. c = CHR ''='') (k @ ''='' @ UrlEncode v True @ ''&'' @ ?rest) = Some (length k)"
    using 3 by (auto intro!: find_idx_append_hit)
  have amp: "find_idx (\<lambda>c. c = CHR ''&'') (UrlEncode v True @ ''&'' @ ?rest)
      = Some (length (UrlEncode v True))"
    using no_ampersand [of v] find_idx_append_hit [of "UrlEncode v True" "\<lambda>c. c = CHR ''&''"] by auto
  have "PARSE_PARAM CHR ''&'' id (k @ ''='' @ UrlEncode v True @ ''&'' @ ?rest) m
      = PARSE_PARAM CHR ''&'' id ?rest (om_insert ci_key m k v)"
    using amp by (subst PARSE_PARAM.simps, subst key) (simp add: UrlDecode_UrlEncode)
  also have "\<dots> = fold (\<lambda>(k, v) m. om_insert ci_key m k v) (kv # kvs) (om_insert ci_key m k v)"
    using 3 by (intro "3.IH") auto
  finally show ?case by (simp add: id_def)
qed

text \<open>The first value of a key in a list of parameters.\<close>

fun first_value :: "(string \<times> string) list \<Rightarrow> string \<Rightarrow> string option" where
  "first_value [] k = None"
| "first_value ((k', v) # kvs) k = (if strcaseeq k' k then Some v else first_value kvs k)"

lemma fold_insert_find:
  "om_find ci_key (fold (\<lambda>(k, v) m. om_insert ci_key m k v) kvs m) k
   = (case om_find ci_key m k of Some v \<Rightarrow> Some v | None \<Rightarrow> first_value kvs k)"
proof (induction kvs arbitrary: m)
  case Nil
  then show ?case by (simp split: option.splits)
next
  case (Cons kv kvs)
  obtain k' v where kv: "kv = (k', v)" by fastforce
  show ?case
    using Cons by (auto simp: kv om_find_abs om_insert_law strcaseeq_def split: option.splits)
qed

text \<open>
  The parameters of a query are read back: in a request whose query text lists names and
  URL-encoded values, \<open>getParam\<close> returns for a name, in any spelling of its case, the first of
  its values as it was before the encoding, and parsing again changes nothing.
\<close>

theorem getParam_of_query:
  assumes "q_query q = query_of kvs" "\<forall>(k, v) \<in> set kvs. CHR ''='' \<notin> set k"
    "q_parserParamFlag q = 0" "q_params q = []"
    "\<not> strcasestr (getHeader q ''content-type'' []) ''application/x-www-form-urlencoded''"
  shows "fst (getParam k d q) = (case first_value kvs k of None \<Rightarrow> d | Some v \<Rightarrow> v)
    \<and> getParam k d (snd (getParam k d q)) = getParam k d q"
proof -
  let ?q = "q\<lparr>q_params := fold (\<lambda>(k, v) m. om_insert ci_key m k v) kvs [], q_parserParamFlag := 3\<rparr>"
  have parse: "initBodyParam (initQueryParam q) = ?q"
    using assms PARSE_PARAM_query [OF assms(2)]
    by (simp add: initQueryParam_def initBodyParam_def getHeader_def)
  have again: "initBodyParam (initQueryParam ?q) = ?q"
    by (simp add: initQueryParam_def initBodyParam_def)
  have "getParam k d q = (map_get (q_params ?q) k d, ?q)"
    by (simp only: getParam_def parse Let_def)
  moreover have "getParam k d ?q = (map_get (q_params ?q) k d, ?q)"
    by (simp only: getParam_def again Let_def)
  moreover have "map_get (q_params ?q) k d = (case first_value kvs k of None \<Rightarrow> d | Some v \<Rightarrow> v)"
    by (simp add: map_get_def fold_insert_find)
  ultimately show ?thesis by (simp only: fst_conv snd_conv)
qed

theorem getParam_of_query_witness:
  "fst (getParam ''B'' [] ((new_HttpRequest 17 True)\<lparr>q_query := ''a=1&b=x%26y''\<rparr>)) = ''x&y''"
proof -
  let ?q = "(new_HttpRequest 17 True)\<lparr>q_query := ''a=1&b=x%26y''\<rparr>"
  let ?kvs = "[(''a'', ''1''), (''b'', ''x&y'')]"
  have enc: "UrlEncode ''1'' True = ''1''" "UrlEncode ''x&y'' True = ''x%26y''"
    by (simp_all add: UrlEncode_chars url_char_def CHAR_IS_UNRESERVED_def uri_chars_def code_def
        nth_append hexdigits_def)
  have "q_query ?q = query_of ?kvs" by (simp add: enc)
  moreover have "\<not> strcasestr (getHeader ?q ''content-type'' []) ''application/x-www-form-urlencoded''"
    by (simp add: getHeader_def map_get_def new_HttpRequest_def strcasestr_def ci_key_def c_str_def code_def)
  moreover have "\<not> strcaseeq ''a'' ''B''" "strcaseeq ''b'' ''B''"
    by (simp_all add: strcaseeq_def ci_key_def c_str_def to_lower_def is_upper_def code_def)
  ultimately show ?thesis
    using getParam_of_query [of ?q ?kvs "''B''" "[]"] by (simp add: new_HttpRequest_def)
qed

text \<open>Names are not decoded, unlike values.\<close>

lemma parameter_names_not_decoded:
  "PARSE_PARAM CHR ''&'' id ''a%20b=c'' [] = [(''a%20b'', ''c'')]"
  by (subst PARSE_PARAM.simps) (simp add: UrlDecode_def UrlDecode_loop.simps om_insert_def)

end
