(* ===== verification/Http_Request_Correct.thy ===== *)
theory Http_Request_Correct
  imports Http_Parser_Correct Http_Message_Correct
begin

text \<open>
  The generated request parser on the head of a request, and the way of a request from
  \<open>sendRequest\<close> to \<open>recvRequest\<close>.
\<close>

section \<open>The states a request goes through\<close>

lemmas hp_cases = hp_case_1_def hp_case_2_def hp_case_3_def hp_case_4_def hp_case_5_def hp_case_6_def
  hp_case_7_def hp_case_8_def hp_case_9_def hp_case_10_def hp_case_11_def hp_case_12_def hp_case_13_def
  hp_case_14_def hp_case_15_def hp_case_16_def hp_case_17_def hp_case_18_def hp_case_20_def hp_case_21_def
  hp_case_22_def hp_case_23_def hp_case_26_def hp_case_27_def hp_case_28_def hp_case_29_def hp_case_30_def
  hp_case_31_def hp_case_32_def hp_case_33_def

lemmas hp_edges = hp_tr0_def hp_tr4_def hp_tr10_def hp_tr13_def hp_tr21_def hp_tr22_def hp_tr23_def
  hp_tr25_def hp_tr27_def hp_tr28_def hp_tr29_def hp_tr31_def hp_tr34_def hp_tr36_def hp_tr37_def hp_tr39_def
  hp_tr42_def hp_tr43_def hp_tr45_def hp_tr47_def hp_tr53_def hp_tr56_def hp_tr58_def hp_tr59_def

lemma hp_switch_states:
  "hp_switch (Suc 0) = hp_case_1" "hp_switch 2 = hp_case_2" "hp_switch 3 = hp_case_3" "hp_switch 4 = hp_case_4"
  "hp_switch 5 = hp_case_5" "hp_switch 6 = hp_case_6" "hp_switch 7 = hp_case_7" "hp_switch 8 = hp_case_8"
  "hp_switch 9 = hp_case_9" "hp_switch 10 = hp_case_10" "hp_switch 11 = hp_case_11" "hp_switch 12 = hp_case_12"
  "hp_switch 13 = hp_case_13" "hp_switch 14 = hp_case_14" "hp_switch 15 = hp_case_15" "hp_switch 16 = hp_case_16"
  "hp_switch 17 = hp_case_17" "hp_switch 18 = hp_case_18" "hp_switch 20 = hp_case_20" "hp_switch 21 = hp_case_21"
  "hp_switch 22 = hp_case_22" "hp_switch 23 = hp_case_23" "hp_switch 26 = hp_case_26" "hp_switch 27 = hp_case_27"
  "hp_switch 28 = hp_case_28" "hp_switch 29 = hp_case_29" "hp_switch 30 = hp_case_30" "hp_switch 31 = hp_case_31"
  "hp_switch 32 = hp_case_32" "hp_switch 33 = hp_case_33"
  by (simp_all add: hp_switch_def)

text \<open>Characters of a path; queries and fragments may also hold question marks.\<close>

definition path_char :: "char \<Rightarrow> bool" where
  "path_char c \<longleftrightarrow> 128 \<le> code c \<or> code c \<in> {33, 36, 61, 95, 126} \<or> 38 \<le> code c \<and> code c \<le> 59
     \<or> 64 \<le> code c \<and> code c \<le> 90 \<or> 97 \<le> code c \<and> code c \<le> 122"

definition query_char :: "char \<Rightarrow> bool" where
  "query_char c \<longleftrightarrow> path_char c \<or> code c = 63"

text \<open>A percent sign is followed by two hexadecimal digits.\<close>

fun uri_ok :: "(char \<Rightarrow> bool) \<Rightarrow> string \<Rightarrow> bool" where
  "uri_ok P [] = True"
| "uri_ok P (c # s) = (if code c = 37 then
     (case s of a # b # t \<Rightarrow> is_xdigit a \<and> is_xdigit b \<and> uri_ok P t | _ \<Rightarrow> False) else P c \<and> uri_ok P s)"

lemma schar_neg: "\<not> code c < 128 \<Longrightarrow> schar c \<le> -1"
proof -
  have "code c < 256" by (rule code_less)
  moreover assume "\<not> code c < 128"
  then have "schar c = int (code c) - 256" by (simp add: schar_def)
  ultimately show "schar c \<le> -1" by linarith
qed

lemma path_char_schar:
  "path_char c \<Longrightarrow> schar c \<le> -1 \<or> schar c = 33 \<or> schar c = 36 \<or> 38 \<le> schar c \<and> schar c \<le> 59
     \<or> schar c = 61 \<or> 64 \<le> schar c \<and> schar c \<le> 90 \<or> schar c = 95 \<or> 97 \<le> schar c \<and> schar c \<le> 122
     \<or> schar c = 126"
proof (cases "code c < 128")
  case True
  then have "schar c = int (code c)" by simp
  moreover assume "path_char c"
  ultimately show ?thesis using True unfolding path_char_def insert_iff empty_iff by presburger
next
  case False
  then have "schar c \<le> -1" using schar_neg by simp
  then show ?thesis ..
qed

lemma path_char_47: "code c \<noteq> 47 \<Longrightarrow> schar c \<noteq> 47"
  using schar_neg [of c] by (cases "code c < 128") simp_all

lemma step_26: "path_char c \<Longrightarrow> hp_switch 26 r (schar c) = Goto [] 26"
  by (drule path_char_schar) (elim disjE; simp add: hp_switch_states hp_case_26_def hp_widec_def)

lemma step_33: "path_char c \<Longrightarrow> code c \<noteq> 47 \<Longrightarrow> hp_switch 33 r (schar c) = Goto [] 26"
  by (drule path_char_schar, drule path_char_47) (elim disjE; simp add: hp_switch_states hp_case_33_def hp_widec_def)

lemma query_char_schar: "query_char c \<Longrightarrow> path_char c \<or> schar c = 63"
  by (auto simp: query_char_def)

lemma step_query:
  assumes "query_char c"
  shows "hp_switch 30 r (schar c) = Goto [] 30" "hp_switch 29 r (schar c) = Goto [HStartQuery] 30"
    and "hp_switch 21 r (schar c) = Goto [] 21" "hp_switch 20 r (schar c) = Goto [HMark] 21"
proof -
  from query_char_schar [OF assms] path_char_schar [of c]
  have c: "schar c \<le> -1 \<or> schar c = 33 \<or> schar c = 36 \<or> 38 \<le> schar c \<and> schar c \<le> 59
     \<or> schar c = 61 \<or> 63 \<le> schar c \<and> schar c \<le> 90 \<or> schar c = 95 \<or> 97 \<le> schar c \<and> schar c \<le> 122
     \<or> schar c = 126" by linarith
  then show "hp_switch 30 r (schar c) = Goto [] 30"
    by (elim disjE) (simp_all add: hp_switch_states hp_case_30_def hp_widec_def)
  from c show "hp_switch 29 r (schar c) = Goto [HStartQuery] 30"
    by (elim disjE) (simp_all add: hp_switch_states hp_case_29_def hp_tr53_def hp_widec_def)
  from c show "hp_switch 21 r (schar c) = Goto [] 21"
    by (elim disjE) (simp_all add: hp_switch_states hp_case_21_def hp_widec_def)
  from c show "hp_switch 20 r (schar c) = Goto [HMark] 21"
    by (elim disjE) (simp_all add: hp_switch_states hp_case_20_def hp_tr43_def hp_widec_def)
qed

lemma xdigit_schar:
  "is_xdigit c \<Longrightarrow> 48 \<le> schar c \<and> schar c \<le> 57 \<or> 65 \<le> schar c \<and> schar c \<le> 70 \<or> 97 \<le> schar c \<and> schar c \<le> 102"
  by (auto simp: is_xdigit_def is_digit_def schar_def)

lemma step_xdigit:
  assumes "is_xdigit c"
  shows "hp_switch 27 r (schar c) = Goto [] 28" "hp_switch 28 r (schar c) = Goto [] 26"
    and "hp_switch 31 r (schar c) = Goto [] 32" "hp_switch 32 r (schar c) = Goto [] 30"
    and "hp_switch 22 r (schar c) = Goto [] 23" "hp_switch 23 r (schar c) = Goto [] 21"
  using xdigit_schar [OF assms]
  by (elim disjE; simp add: hp_switch_states hp_case_27_def hp_case_28_def hp_case_31_def hp_case_32_def
      hp_case_22_def hp_case_23_def)+

lemma step_percent:
  "hp_switch 26 r 37 = Goto [] 27" "hp_switch 33 r 37 = Goto [] 27" "hp_switch 30 r 37 = Goto [] 31"
  "hp_switch 29 r 37 = Goto [HStartQuery] 31" "hp_switch 21 r 37 = Goto [] 22" "hp_switch 20 r 37 = Goto [HMark] 22"
  by (simp_all add: hp_switch_states hp_case_26_def hp_case_33_def hp_case_30_def hp_case_29_def hp_case_21_def
      hp_case_20_def hp_tr56_def hp_tr45_def hp_widec_def)

text \<open>The characters that end a path, a query or a fragment: blank, question mark, hash.\<close>

lemma step_delimiters:
  "hp_switch 33 r 32 = hp_tr37" "hp_switch 26 r 32 = hp_tr37" "hp_switch 33 r 63 = hp_tr42" "hp_switch 26 r 63 = hp_tr42"
  "hp_switch 33 r 35 = hp_tr39" "hp_switch 26 r 35 = hp_tr39" "hp_switch 30 r 32 = hp_tr58" "hp_switch 30 r 35 = hp_tr59"
  "hp_switch 21 r 32 = hp_tr47" "hp_switch 3 r 47 = hp_tr10"
  by (simp_all add: hp_switch_states hp_case_26_def hp_case_33_def hp_case_30_def hp_case_21_def hp_case_3_def
      hp_widec_def)

text \<open>A run of such characters stays in its state.\<close>

lemma ragel_run_uri:
  assumes "\<And>c. P c \<Longrightarrow> step k (schar c) = Goto [] k" "step k 37 = Goto [] k1"
    and "\<And>c. is_xdigit c \<Longrightarrow> step k1 (schar c) = Goto [] k2 \<and> step k2 (schar c) = Goto [] k"
    and "uri_ok P w"
  shows "ragel_run step act (w @ rest) p k s = ragel_run step act rest (p + length w) k s"
  using assms
proof (induction P w arbitrary: p rule: uri_ok.induct)
  case (2 P c w)
  show ?case
  proof (cases "code c = 37")
    case True
    then obtain a b t where w: "w = a # b # t" "is_xdigit a" "is_xdigit b" "uri_ok P t"
      using "2.prems"(4) by (auto split: list.splits)
    have "schar c = 37" using True by simp
    then show ?thesis using "2.IH"(1) [OF True w(1) refl "2.prems"(1-3) w(4)] w "2.prems"(2,3) by simp
  next
    case False
    then have "P c" "uri_ok P w" using "2.prems"(4) by simp_all
    then show ?thesis using "2.IH"(2) [OF False "2.prems"(1-3)] "2.prems"(1) [OF \<open>P c\<close>] by simp
  qed
qed simp

text \<open>Entering such a run: the first character, or percent sign, has an action.\<close>

lemma ragel_run_enter:
  assumes "\<And>c. P c \<Longrightarrow> step k (schar c) = Goto [] k" "step k 37 = Goto [] k1"
    and "\<And>c. is_xdigit c \<Longrightarrow> step k1 (schar c) = Goto [] k2 \<and> step k2 (schar c) = Goto [] k"
    and "uri_ok P w" "w \<noteq> []" "step e 37 = Goto as k1"
    and "P (List.hd w) \<Longrightarrow> step e (schar (List.hd w)) = Goto as k"
  shows "ragel_run step act (w @ rest) p e s = ragel_run step act rest (p + length w) k (fold (\<lambda>a. act a p) as s)"
proof -
  obtain c v where w: "w = c # v" using assms(5) by (cases w) auto
  show ?thesis
  proof (cases "code c = 37")
    case True
    then obtain a b t where v: "v = a # b # t" "is_xdigit a" "is_xdigit b" "uri_ok P t"
      using assms(4) w by (auto split: list.splits)
    have "schar c = 37" using True by simp
    then show ?thesis
      using ragel_run_uri [of P step k, where act = act, OF assms(1,2,3) v(4)] v w assms(3,6) by simp
  next
    case False
    then have "P c" "uri_ok P v" using assms(4) w by simp_all
    then show ?thesis
      using ragel_run_uri [of P step k, where act = act, OF assms(1,2,3) \<open>uri_ok P v\<close>] assms(7) w by simp
  qed
qed

section \<open>The request line\<close>

definition method_char :: "char \<Rightarrow> bool" where
  "method_char c \<longleftrightarrow> is_upper c \<or> is_digit c"

definition method_state :: "nat \<Rightarrow> nat" where
  "method_state i = (if i = 1 then 2 else 173 + i)"

lemma method_char_schar: "method_char c \<Longrightarrow> 48 \<le> schar c \<and> schar c \<le> 57 \<or> 65 \<le> schar c \<and> schar c \<le> 90"
  by (auto simp: method_char_def is_upper_def is_digit_def schar_def)

lemma method_states: "1 \<le> i \<Longrightarrow> i < 20 \<Longrightarrow> i = 1 \<or> i = 2 \<or> i = 3 \<or> i = 4 \<or> i = 5 \<or> i = 6 \<or> i = 7 \<or> i = 8
    \<or> i = 9 \<or> i = 10 \<or> i = 11 \<or> i = 12 \<or> i = 13 \<or> i = 14 \<or> i = 15 \<or> i = 16 \<or> i = 17 \<or> i = 18 \<or> i = (19 :: nat)"
  by presburger

lemmas hp_method_cases = hp_case_2_def hp_case_175_def hp_case_176_def hp_case_177_def hp_case_178_def
  hp_case_179_def hp_case_180_def hp_case_181_def hp_case_182_def hp_case_183_def hp_case_184_def hp_case_185_def
  hp_case_186_def hp_case_187_def hp_case_188_def hp_case_189_def hp_case_190_def hp_case_191_def hp_case_192_def
  hp_case_193_def

lemma step_method:
  assumes "method_char c" "1 \<le> i" "i < 20"
  shows "hp_switch (method_state i) r (schar c) = Goto [] (method_state (i + 1))"
  using method_states [OF assms(2,3)] method_char_schar [OF assms(1)]
  by (elim disjE; simp add: method_state_def hp_switch_def hp_method_cases)

lemma step_method_end:
  assumes "1 \<le> i" "i \<le> 20"
  shows "hp_switch (method_state i) r 32 = hp_tr4"
proof (cases "i = 20")
  case True
  then show ?thesis by (simp add: method_state_def hp_switch_def hp_case_193_def)
next
  case False
  then have "i < 20" using assms(2) by simp
  from method_states [OF assms(1) this] show ?thesis
    by (elim disjE; simp add: method_state_def hp_switch_def hp_method_cases)
qed

text \<open>The machine on the text \<open>t\<close> at position \<open>p\<close> of the buffer.\<close>

abbreviation hp_go :: "bool \<Rightarrow> string \<Rightarrow> string \<Rightarrow> nat \<Rightarrow> nat \<Rightarrow> http_parser \<times> parser_event list
    \<Rightarrow> nat \<times> nat \<times> http_parser \<times> parser_event list" where
  "hp_go r buf \<equiv> ragel_run (\<lambda>cs. hp_switch cs r) (hp_act buf)"

lemma schar_lits [simp]:
  "schar (CHR '' '') = 32" "schar (CHR ''/'') = 47" "schar (CHR ''?'') = 63" "schar (CHR ''#'') = 35"
  "schar (CHR '':'') = 58" "schar (CHR ''H'') = 72" "schar (CHR ''T'') = 84" "schar (CHR ''P'') = 80"
  "schar (CHR ''.'') = 46" "schar (CHR ''0'') = 48" "schar (CHR ''1'') = 49"
  by (simp_all add: schar_def code_def)

lemma go_method_rest:
  "\<forall>c \<in> set w. method_char c \<Longrightarrow> 1 \<le> i \<Longrightarrow> i + length w \<le> 20 \<Longrightarrow>
   hp_go r buf (w @ CHR '' '' # rest) p (method_state i) s
     = hp_go r buf rest (p + length w + 1) 3 (hp_act buf HRequestMethod (p + length w) s)"
proof (induction w arbitrary: i p)
  case Nil
  then show ?case by (simp add: step_method_end hp_tr4_def)
next
  case (Cons c w)
  have "i < 20" using Cons.prems by simp
  with Cons.prems step_method [of c i r] Cons.IH [of "i + 1"] show ?case by simp
qed

lemma go_method:
  assumes "m \<noteq> []" "\<forall>c \<in> set m. method_char c" "length m \<le> 20"
  shows "hp_go r buf (m @ CHR '' '' # rest) 0 1 (P, evs)
    = hp_go r buf rest (length m + 1) 3 (P\<lparr>hp_mark := 0\<rparr>, evs @ [EvMethod buf (length m)])"
proof -
  obtain c w where m: "m = c # w" using assms(1) by (cases m) auto
  have "method_char c" using assms(2) m by simp
  from method_char_schar [OF this] have "hp_switch (Suc 0) r (schar c) = Goto [HMark] (method_state 1)"
    by (elim disjE) (simp_all add: hp_switch_states hp_case_1_def hp_tr0_def method_state_def)
  with go_method_rest [of w 1 r buf rest 1] assms m show ?thesis
    by (simp add: len_of_def)
qed

lemma go_path:
  assumes "uri_ok path_char w" "w = [] \<or> code (List.hd w) \<noteq> 47"
  shows "\<exists>k. (k = 26 \<or> k = 33) \<and> hp_go r buf (CHR ''/'' # w @ rest) p 3 (P, evs)
    = hp_go r buf rest (p + 1 + length w) k (P\<lparr>hp_mark := p\<rparr>, evs)"
proof (cases "w = []")
  case True
  then show ?thesis by (intro exI [of _ 33]) (simp add: step_delimiters hp_tr10_def)
next
  case False
  have "hp_go r buf (w @ rest) (p + 1) 33 (P\<lparr>hp_mark := p\<rparr>, evs)
      = hp_go r buf rest (p + 1 + length w) 26 (fold (\<lambda>a. hp_act buf a (p + 1)) [] (P\<lparr>hp_mark := p\<rparr>, evs))"
    by (rule ragel_run_enter [where P = path_char and ?k1.0 = 27 and ?k2.0 = 28])
      (use assms False in \<open>auto simp: step_26 step_33 step_percent step_xdigit\<close>)
  then show ?thesis by (intro exI [of _ 26]) (simp add: step_delimiters hp_tr10_def)
qed

text \<open>An optional part of the target: its sign and its text.\<close>

definition opt_part :: "char \<Rightarrow> string \<Rightarrow> string" where
  "opt_part c t = (if t = [] then [] else c # t)"

text \<open>The callbacks for the target, where the path ends at \<open>p\<close>.\<close>

definition target_events :: "string \<Rightarrow> nat \<Rightarrow> nat \<Rightarrow> string \<Rightarrow> string \<Rightarrow> parser_event list" where
  "target_events buf m p q f =
    (let p1 = p + length (opt_part (CHR ''?'') q) in
     [EvPath (drop m buf) (p - m)]
     @ (if q = [] then [] else [EvQuery (drop (p + 1) buf) (length q)])
     @ [EvUri (drop m buf) (p1 - m)]
     @ (if f = [] then [] else [EvFragment (drop (p1 + 1) buf) (length f)]))"

lemma go_query:
  assumes "k = 26 \<or> k = 33" "uri_ok query_char q" "hp_mark P \<le> p" "d = 32 \<or> d = 35" "schar c = d"
  shows "\<exists>P'. hp_mark P' = hp_mark P \<and> hp_xml_sent P' = hp_xml_sent P \<and> hp_json_sent P' = hp_json_sent P
    \<and> hp_go r buf (opt_part (CHR ''?'') q @ c # rest) p k (P, evs)
      = hp_go r buf rest (p + length (opt_part (CHR ''?'') q) + 1) (if d = 32 then 4 else 20)
         (P', evs @ [EvPath (drop (hp_mark P) buf) (p - hp_mark P)]
            @ (if q = [] then [] else [EvQuery (drop (p + 1) buf) (length q)])
            @ [EvUri (drop (hp_mark P) buf) (p + length (opt_part (CHR ''?'') q) - hp_mark P)])"
proof (cases "q = []")
  case True
  then show ?thesis using assms(1,3,4,5)
    by (intro exI [of _ P]) (auto simp: opt_part_def step_delimiters hp_tr37_def hp_tr39_def len_of_def)
next
  case False
  let ?P = "P\<lparr>hp_query_start := p + 1\<rparr>"
  let ?evs = "evs @ [EvPath (drop (hp_mark P) buf) (p - hp_mark P)]"
  have q: "hp_go r buf (q @ c # rest) (p + 1) 29 (P, ?evs) = hp_go r buf (c # rest) (p + 1 + length q) 30
      (fold (\<lambda>a. hp_act buf a (p + 1)) [HStartQuery] (P, ?evs))"
    by (rule ragel_run_enter [where P = query_char and ?k1.0 = 31 and ?k2.0 = 32])
      (use assms(2) False in \<open>auto simp: step_query step_percent step_xdigit\<close>)
  show ?thesis using assms(1,3,4,5) False q
    by (intro exI [of _ ?P]) (auto simp: opt_part_def step_delimiters hp_tr42_def hp_tr58_def hp_tr59_def len_of_def)
qed

lemma go_target:
  assumes "k = 26 \<or> k = 33" "uri_ok query_char q" "uri_ok query_char f" "hp_mark P \<le> p"
  shows "\<exists>P'. hp_xml_sent P' = hp_xml_sent P \<and> hp_json_sent P' = hp_json_sent P
    \<and> hp_go r buf (opt_part (CHR ''?'') q @ opt_part (CHR ''#'') f @ CHR '' '' # rest) p k (P, evs)
      = hp_go r buf rest (p + length (opt_part (CHR ''?'') q) + length (opt_part (CHR ''#'') f) + 1) 4
         (P', evs @ target_events buf (hp_mark P) p q f)"
proof (cases "f = []")
  case True
  then show ?thesis
    using go_query [OF assms(1,2,4), of 32 "CHR '' ''" r buf rest evs]
    by (auto simp: opt_part_def [of "CHR ''#''"] target_events_def Let_def)
next
  case False
  let ?p1 = "p + length (opt_part (CHR ''?'') q)"
  obtain P1 where P1: "hp_xml_sent P1 = hp_xml_sent P" "hp_json_sent P1 = hp_json_sent P"
      "hp_go r buf (opt_part (CHR ''?'') q @ CHR ''#'' # f @ CHR '' '' # rest) p k (P, evs)
      = hp_go r buf (f @ CHR '' '' # rest) (?p1 + 1) 20
         (P1, evs @ [EvPath (drop (hp_mark P) buf) (p - hp_mark P)]
            @ (if q = [] then [] else [EvQuery (drop (p + 1) buf) (length q)])
            @ [EvUri (drop (hp_mark P) buf) (?p1 - hp_mark P)])" (is "_ = hp_go _ _ _ _ _ (_, ?evs)")
    using go_query [OF assms(1,2,4), of 35 "CHR ''#''" r buf "f @ CHR '' '' # rest" evs] by auto
  have "hp_go r buf (f @ CHR '' '' # rest) (?p1 + 1) 20 (P1, ?evs)
      = hp_go r buf (CHR '' '' # rest) (?p1 + 1 + length f) 21 (fold (\<lambda>a. hp_act buf a (?p1 + 1)) [HMark] (P1, ?evs))"
    by (rule ragel_run_enter [where P = query_char and ?k1.0 = 22 and ?k2.0 = 23])
      (use assms(3) False in \<open>auto simp: step_query step_percent step_xdigit\<close>)
  with P1 False show ?thesis
    by (intro exI [of _ "P1\<lparr>hp_mark := ?p1 + 1\<rparr>"])
      (auto simp: opt_part_def [of "CHR ''#''"] target_events_def Let_def step_delimiters hp_tr47_def len_of_def)
qed

lemma go_version:
  assumes "d = CHR ''0'' \<or> d = CHR ''1''"
  shows "hp_go r buf (''HTTP/1.'' @ d # crlf @ rest) p 4 (P, evs)
    = hp_go r buf rest (p + 10) 13 (P\<lparr>hp_mark := p\<rparr>, evs @ [EvVersion (drop p buf) 8])"
proof -
  have d: "schar d = 48 \<or> schar d = 49" using assms by auto
  have ten: "p + 10 = Suc (Suc (Suc (Suc (Suc (Suc (Suc (Suc (Suc (Suc p)))))))))" by simp
  show ?thesis
    unfolding ten using d by (elim disjE) (simp_all add: crlf_def hp_switch_states hp_case_4_def hp_case_5_def hp_case_6_def
        hp_case_7_def hp_case_8_def hp_case_9_def hp_case_10_def hp_case_11_def hp_case_12_def hp_case_17_def
        hp_tr13_def hp_tr22_def len_of_def)
qed

section \<open>Headers\<close>

definition token_char :: "char \<Rightarrow> bool" where
  "token_char c \<longleftrightarrow> is_upper c \<or> is_lower c \<or> is_digit c \<or> code c \<in> {33, 42, 43, 45, 46, 94, 95, 96, 124, 126}
     \<or> 35 \<le> code c \<and> code c \<le> 39"

definition value_char :: "char \<Rightarrow> bool" where
  "value_char c \<longleftrightarrow> code c \<notin> {0, 10, 13, 127}"

definition name_ok :: "string \<Rightarrow> bool" where
  "name_ok k \<longleftrightarrow> k \<noteq> [] \<and> (\<forall>c \<in> set k. token_char c)"

definition value_ok :: "string \<Rightarrow> bool" where
  "value_ok v \<longleftrightarrow> (\<forall>c \<in> set v. value_char c) \<and> (v \<noteq> [] \<longrightarrow> code (List.hd v) \<notin> {9, 32})"

lemma token_schar:
  "token_char c \<Longrightarrow> schar c = 33 \<or> schar c = 124 \<or> schar c = 126 \<or> 35 \<le> schar c \<and> schar c \<le> 39 \<or> schar c = 42
     \<or> schar c = 43 \<or> schar c = 45 \<or> schar c = 46 \<or> 48 \<le> schar c \<and> schar c \<le> 57 \<or> 65 \<le> schar c \<and> schar c \<le> 90
     \<or> 94 \<le> schar c \<and> schar c \<le> 122"
proof -
  assume t: "token_char c"
  then have "code c < 128" by (auto simp: token_char_def is_upper_def is_lower_def is_digit_def)
  then have "schar c = int (code c)" by simp
  with t show ?thesis
    unfolding token_char_def is_upper_def is_lower_def is_digit_def insert_iff empty_iff by presburger
qed

lemma step_token:
  assumes "token_char c"
  shows "hp_switch 13 r (schar c) = Goto [HStartField] 14" "hp_switch 14 r (schar c) = Goto [] 14"
proof -
  from token_schar [OF assms] show "hp_switch 13 r (schar c) = Goto [HStartField] 14"
    by (elim disjE) (simp_all add: hp_switch_states hp_case_13_def hp_tr23_def)
  from token_schar [OF assms] show "hp_switch 14 r (schar c) = Goto [] 14"
    by (elim disjE) (simp_all add: hp_switch_states hp_case_14_def)
qed

lemma schar_eq: "n < 128 \<Longrightarrow> schar c = int n \<longleftrightarrow> code c = n"
  using schar_neg [of c] by (cases "code c < 128") auto

lemma step_value:
  assumes "value_char c"
  shows "hp_switch 16 r (schar c) = Goto [] 16"
    and "code c \<notin> {9, 32} \<Longrightarrow> hp_switch 15 r (schar c) = Goto [HMark] 16"
proof -
  have c: "schar c \<noteq> 0" "schar c \<noteq> 10" "schar c \<noteq> 13" "schar c \<noteq> 127"
    using schar_eq [of 0 c] schar_eq [of 10 c] schar_eq [of 13 c] schar_eq [of 127 c] assms
    by (auto simp: value_char_def)
  then show "hp_switch 16 r (schar c) = Goto [] 16" by (simp add: hp_switch_states hp_case_16_def)
  assume "code c \<notin> {9, 32}"
  then have "schar c \<noteq> 9" "schar c \<noteq> 32" using schar_eq [of 9 c] schar_eq [of 32 c] by auto
  with c show "hp_switch 15 r (schar c) = Goto [HMark] 16"
    by (simp add: hp_switch_states hp_case_15_def hp_tr28_def)
qed

lemma step_13_14:
  "hp_switch 13 r 13 = hp_tr25" "hp_switch 14 r 58 = hp_tr27" "hp_switch 15 r 32 = hp_tr29"
  "hp_switch 15 r 13 = hp_tr31" "hp_switch 16 r 13 = hp_tr34" "hp_switch 17 r 10 = Goto [] 13" "hp_switch 18 r 10 = hp_tr36"
  by (simp_all add: hp_switch_states hp_case_13_def hp_case_14_def hp_case_15_def hp_case_16_def hp_case_17_def
      hp_case_18_def)

definition header_line :: "string \<times> string \<Rightarrow> string" where
  "header_line h = fst h @ '': '' @ snd h @ crlf"

definition header_event :: "string \<Rightarrow> nat \<Rightarrow> string \<times> string \<Rightarrow> parser_event" where
  "header_event buf p h = EvField (drop p buf) (length (fst h))
     (drop (p + length (fst h) + 2) buf) (length (snd h))"

lemma go_name:
  assumes "name_ok k"
  shows "hp_go r buf (k @ '': '' @ rest) p 13 (P, evs) = hp_go r buf rest (p + length k + 2) 15
    (P\<lparr>hp_field_start := p, hp_field_len := length k, hp_mark := p + length k + 1\<rparr>, evs)"
proof -
  obtain c w where k: "k = c # w" using assms by (cases k) (auto simp: name_ok_def)
  have "token_char c" "\<forall>c \<in> set w. token_char c" using assms k by (simp_all add: name_ok_def)
  moreover from this(2) have "hp_go r buf (w @ t) q 14 s = hp_go r buf t (q + length w) 14 s" for t q s
    by (intro ragel_run_stay) (simp add: step_token)
  ultimately show ?thesis
    by (simp add: k step_token step_13_14 hp_tr27_def hp_tr29_def len_of_def)
qed

lemma go_value:
  assumes "value_ok v" "hp_mark P \<le> p"
  shows "\<exists>P'. hp_xml_sent P' = hp_xml_sent P \<and> hp_json_sent P' = hp_json_sent P
    \<and> hp_go r buf (v @ crlf @ rest) p 15 (P, evs) = hp_go r buf rest (p + length v + 2) 13
      (P', evs @ [EvField (drop (hp_field_start P) buf) (hp_field_len P) (drop p buf) (length v)])"
proof (cases v)
  case Nil
  then show ?thesis
    by (intro exI [of _ "P\<lparr>hp_mark := p\<rparr>"]) (simp add: crlf_def step_13_14 hp_tr31_def len_of_def)
next
  case (Cons c w)
  have c: "value_char c" "code c \<notin> {9, 32}" "\<forall>c \<in> set w. value_char c"
    using assms(1) Cons by (simp_all add: value_ok_def)
  moreover from this(3) have "hp_go r buf (w @ t) q 16 s = hp_go r buf t (q + length w) 16 s" for t q s
    by (intro ragel_run_stay) (simp add: step_value)
  ultimately show ?thesis using Cons step_value(2) [OF c(1,2)]
    by (intro exI [of _ "P\<lparr>hp_mark := p\<rparr>"]) (simp add: crlf_def step_13_14 hp_tr34_def len_of_def)
qed

lemma go_header:
  assumes "name_ok (fst h)" "value_ok (snd h)"
  shows "\<exists>P'. hp_xml_sent P' = hp_xml_sent P \<and> hp_json_sent P' = hp_json_sent P
    \<and> hp_go r buf (header_line h @ rest) p 13 (P, evs)
      = hp_go r buf rest (p + length (header_line h)) 13 (P', evs @ [header_event buf p h])"
proof -
  let ?P = "P\<lparr>hp_field_start := p, hp_field_len := length (fst h), hp_mark := p + length (fst h) + 1\<rparr>"
  have n: "hp_go r buf (header_line h @ rest) p 13 (P, evs)
      = hp_go r buf (snd h @ crlf @ rest) (p + length (fst h) + 2) 15 (?P, evs)"
    using go_name [OF assms(1), of r buf "snd h @ crlf @ rest" p P evs] by (simp add: header_line_def)
  obtain P' where "hp_xml_sent P' = hp_xml_sent ?P" "hp_json_sent P' = hp_json_sent ?P"
      "hp_go r buf (snd h @ crlf @ rest) (p + length (fst h) + 2) 15 (?P, evs)
       = hp_go r buf rest (p + length (fst h) + 2 + length (snd h) + 2) 13 (P', evs @ [EvField (drop (hp_field_start ?P) buf)
           (hp_field_len ?P) (drop (p + length (fst h) + 2) buf) (length (snd h))])"
    using go_value [OF assms(2), of ?P "p + length (fst h) + 2" r buf rest evs] by auto
  with n show ?thesis
    by (intro exI [of _ P']) (simp add: header_event_def header_line_def crlf_def add.assoc)
qed

fun header_events :: "string \<Rightarrow> nat \<Rightarrow> (string \<times> string) list \<Rightarrow> parser_event list" where
  "header_events buf p [] = []"
| "header_events buf p (h # hs) = header_event buf p h # header_events buf (p + length (header_line h)) hs"

abbreviation header_lines :: "(string \<times> string) list \<Rightarrow> string" where
  "header_lines hs \<equiv> concat (map header_line hs)"

lemma go_headers:
  assumes "\<forall>h \<in> set hs. name_ok (fst h) \<and> value_ok (snd h)"
  shows "\<exists>P'. hp_xml_sent P' = hp_xml_sent P \<and> hp_json_sent P' = hp_json_sent P
    \<and> hp_go r buf (header_lines hs @ rest) p 13 (P, evs)
      = hp_go r buf rest (p + length (header_lines hs)) 13 (P', evs @ header_events buf p hs)"
  using assms
proof (induction hs arbitrary: p P evs)
  case (Cons h hs)
  obtain P1 where P1: "hp_xml_sent P1 = hp_xml_sent P" "hp_json_sent P1 = hp_json_sent P"
      "hp_go r buf (header_line h @ header_lines hs @ rest) p 13 (P, evs)
        = hp_go r buf (header_lines hs @ rest) (p + length (header_line h)) 13 (P1, evs @ [header_event buf p h])"
    using go_header [of h P r buf "header_lines hs @ rest" p evs] Cons.prems by auto
  from Cons.IH [of P1 "p + length (header_line h)" "evs @ [header_event buf p h]"] Cons.prems P1
  show ?case by (auto simp: add.assoc)
qed auto

lemma go_end:
  assumes "\<not> hp_xml_sent P" "\<not> hp_json_sent P"
  shows "\<exists>P'. hp_xml_sent P' = hp_xml_sent P \<and> hp_go r buf (crlf @ rest) p 13 (P, evs)
    = (p + 2, 348, P', evs @ [EvHeaderDone (drop (p + 2) buf) (length buf - p - 2)])"
  using assms by (simp add: crlf_def step_13_14 hp_tr25_def hp_tr36_def)

section \<open>A whole head\<close>

text \<open>The head of a request: method, target, version digit, headers.\<close>

definition request_head :: "string \<Rightarrow> string \<Rightarrow> string \<Rightarrow> string \<Rightarrow> char \<Rightarrow> (string \<times> string) list \<Rightarrow> string" where
  "request_head m w q f d hs = m @ CHR '' '' # (CHR ''/'' # w) @ opt_part (CHR ''?'') q @ opt_part (CHR ''#'') f
     @ CHR '' '' # ''HTTP/1.'' @ d # crlf @ header_lines hs @ crlf"

definition head_ok :: "string \<Rightarrow> string \<Rightarrow> string \<Rightarrow> string \<Rightarrow> char \<Rightarrow> (string \<times> string) list \<Rightarrow> bool" where
  "head_ok m w q f d hs \<longleftrightarrow> m \<noteq> [] \<and> (\<forall>c \<in> set m. method_char c) \<and> length m \<le> 20
     \<and> uri_ok path_char w \<and> (w = [] \<or> code (List.hd w) \<noteq> 47) \<and> uri_ok query_char q \<and> uri_ok query_char f
     \<and> (d = CHR ''0'' \<or> d = CHR ''1'') \<and> (\<forall>h \<in> set hs. name_ok (fst h) \<and> value_ok (snd h))"

text \<open>The positions at which the path, the version and the headers begin.\<close>

abbreviation pos_path :: "string \<Rightarrow> nat" where
  "pos_path m \<equiv> length m + 1"

abbreviation pos_version :: "string \<Rightarrow> string \<Rightarrow> string \<Rightarrow> string \<Rightarrow> nat" where
  "pos_version m w q f \<equiv> pos_path m + 1 + length w + length (opt_part (CHR ''?'') q)
     + length (opt_part (CHR ''#'') f) + 1"

definition head_events :: "string \<Rightarrow> string \<Rightarrow> string \<Rightarrow> string \<Rightarrow> string \<Rightarrow> (string \<times> string) list \<Rightarrow> parser_event list" where
  "head_events buf m w q f hs = EvMethod buf (length m)
     # target_events buf (pos_path m) (pos_path m + 1 + length w) q f
     @ EvVersion (drop (pos_version m w q f) buf) 8 # header_events buf (pos_version m w q f + 10) hs"

lemma length_request_head:
  "length (request_head m w q f d hs) = pos_version m w q f + 10 + length (header_lines hs) + 2"
  by (simp add: request_head_def)

lemma hp_run_head:
  assumes "head_ok m w q f d hs" "hp_cs P = 1" "\<not> hp_xml_sent P" "\<not> hp_json_sent P"
    and "buf = request_head m w q f d hs @ body"
  shows "\<exists>P' at n. \<not> hp_xml_sent P' \<and> hp_run P buf = (length (request_head m w q f d hs), 348, P',
    head_events buf m w q f hs @ [EvHeaderDone at n])"
proof -
  note ok = assms(1) [unfolded head_ok_def]
  let ?r = "hp_uri_relaxed P"
  let ?P0 = "(hp_reset P)\<lparr>hp_mark := 0\<rparr>"
  let ?rest = "''HTTP/1.'' @ d # crlf @ header_lines hs @ crlf @ body"
  let ?tail = "opt_part (CHR ''?'') q @ opt_part (CHR ''#'') f @ CHR '' '' # ?rest"
  let ?p = "pos_path m + 1 + length w"
  have "hp_run P buf = hp_go ?r buf (m @ CHR '' '' # CHR ''/'' # w @ ?tail) 0 1 (hp_reset P, [])"
    by (simp add: hp_run_def assms(2,5) request_head_def)
  also have "\<dots> = hp_go ?r buf (CHR ''/'' # w @ ?tail) (pos_path m) 3 (?P0, [EvMethod buf (length m)])"
    using go_method [of m ?r buf _ "hp_reset P" "[]"] ok by simp
  finally have run1: "hp_run P buf = \<dots>" .
  obtain k where k: "k = 26 \<or> k = 33" "hp_go ?r buf (CHR ''/'' # w @ ?tail) (pos_path m) 3 (?P0, [EvMethod buf (length m)])
      = hp_go ?r buf ?tail ?p k (?P0\<lparr>hp_mark := pos_path m\<rparr>, [EvMethod buf (length m)])"
    using go_path [of w ?r buf ?tail "pos_path m" ?P0 "[EvMethod buf (length m)]"] ok by blast
  obtain P2 where P2: "hp_xml_sent P2 = hp_xml_sent P" "hp_json_sent P2 = hp_json_sent P"
      "hp_go ?r buf ?tail ?p k (?P0\<lparr>hp_mark := pos_path m\<rparr>, [EvMethod buf (length m)])
        = hp_go ?r buf ?rest (pos_version m w q f) 4
            (P2, [EvMethod buf (length m)] @ target_events buf (pos_path m) ?p q f)"
    using go_target [OF k(1), of q f "?P0\<lparr>hp_mark := pos_path m\<rparr>" ?p ?r buf ?rest "[EvMethod buf (length m)]"] ok
    by (auto simp: hp_reset_def)
  let ?ev = "([EvMethod buf (length m)] @ target_events buf (pos_path m) ?p q f)
    @ [EvVersion (drop (pos_version m w q f) buf) 8]"
  have v: "hp_go ?r buf ?rest (pos_version m w q f) 4
        (P2, [EvMethod buf (length m)] @ target_events buf (pos_path m) ?p q f)
      = hp_go ?r buf (header_lines hs @ crlf @ body) (pos_version m w q f + 10) 13
          (P2\<lparr>hp_mark := pos_version m w q f\<rparr>, ?ev)"
    by (rule go_version) (use ok in blast)
  have hok: "\<forall>h \<in> set hs. name_ok (fst h) \<and> value_ok (snd h)" using ok by blast
  obtain P3 where P3: "hp_xml_sent P3 = hp_xml_sent P" "hp_json_sent P3 = hp_json_sent P"
      "hp_go ?r buf (header_lines hs @ crlf @ body) (pos_version m w q f + 10) 13 (P2\<lparr>hp_mark := pos_version m w q f\<rparr>, ?ev)
       = hp_go ?r buf (crlf @ body) (pos_version m w q f + 10 + length (header_lines hs)) 13
           (P3, ?ev @ header_events buf (pos_version m w q f + 10) hs)"
    using go_headers [OF hok, of "P2\<lparr>hp_mark := pos_version m w q f\<rparr>" ?r buf "crlf @ body"
        "pos_version m w q f + 10" ?ev] P2(1,2) by auto
  obtain P4 where "\<not> hp_xml_sent P4"
      "hp_go ?r buf (crlf @ body) (pos_version m w q f + 10 + length (header_lines hs)) 13
           (P3, ?ev @ header_events buf (pos_version m w q f + 10) hs)
       = (pos_version m w q f + 10 + length (header_lines hs) + 2, 348, P4,
          (?ev @ header_events buf (pos_version m w q f + 10) hs) @ [EvHeaderDone
            (drop (pos_version m w q f + 10 + length (header_lines hs) + 2) buf)
            (length buf - (pos_version m w q f + 10 + length (header_lines hs)) - 2)])"
    using go_end [of P3 ?r buf body "pos_version m w q f + 10 + length (header_lines hs)"
        "?ev @ header_events buf (pos_version m w q f + 10) hs"] P3(1,2) assms(3,4) by auto
  with run1 k(2) P2(3) v P3(3) show ?thesis
    by (auto simp: head_events_def length_request_head)
qed

lemma hp_run_cs: "hp_run P buf = (p, cs, P', evs) \<Longrightarrow> hp_cs P' = hp_cs P"
proof -
  assume r: "hp_run P buf = (p, cs, P', evs)"
  have act: "hp_cs (fst (hp_act buf a q x)) = hp_cs (fst x)" for a q x
    by (cases x; cases a) simp_all
  note inv = ragel_run_pos [where I = "\<lambda>q x. hp_cs (fst x) = hp_cs P", OF r [unfolded hp_run_def]]
  have "hp_cs (fst (P', evs)) = hp_cs P" by (rule inv) (simp_all add: act hp_reset_def)
  then show "hp_cs P' = hp_cs P" by simp
qed

lemma request_ragel_head:
  assumes "head_ok m w q f d hs" "hp_cs P = 1" "\<not> hp_xml_sent P" "\<not> hp_json_sent P" "hp_body_start P = 0"
    and "buf = request_head m w q f d hs @ body"
  shows "\<exists>P' at n. hp_cs P' = 348 \<and> request_ragel P buf = (length (request_head m w q f d hs), P',
    head_events buf m w q f hs @ [EvHeaderDone at n])"
proof -
  obtain P' at n where r: "hp_run P buf = (length (request_head m w q f d hs), 348, P',
      head_events buf m w q f hs @ [EvHeaderDone at n])"
    using hp_run_head [OF assms(1-4,6)] by blast
  have ne: "buf \<noteq> []" using assms(6) by (simp add: request_head_def)
  have "hp_cs P' \<noteq> 0" using hp_run_cs [OF r] assms(2) by simp
  with hp_parse_run [OF r ne] assms(5) ne show ?thesis
    by (auto simp: request_ragel_def)
qed

text \<open>The callbacks of the head, run on the request that is being built.\<close>

abbreviation set_headers :: "(string \<times> string) list \<Rightarrow> HttpRequest \<Rightarrow> HttpRequest" where
  "set_headers hs \<equiv> fold (\<lambda>h. setHeader (fst h) (snd h)) hs"

lemma drop_past: "drop p buf = x @ y \<Longrightarrow> drop (p + length x) buf = y"
  by (metis append_eq_conv_conj drop_drop add.commute)

lemma fold_header_events:
  "drop p buf = header_lines hs @ rest \<Longrightarrow> \<forall>h \<in> set hs. name_ok (fst h) \<Longrightarrow>
   fold on_request_event (header_events buf p hs) rp = rp\<lparr>rp_data := set_headers hs (rp_data rp)\<rparr>"
proof (induction hs arbitrary: p rp)
  case (Cons h hs)
  have d: "drop p buf = fst h @ '': '' @ snd h @ crlf @ header_lines hs @ rest"
    using Cons.prems(1) by (simp add: header_line_def [of h])
  have "drop p buf = (fst h @ '': '') @ snd h @ crlf @ header_lines hs @ rest" using d by simp
  from drop_past [OF this] have d2: "drop (p + length (fst h) + 2) buf = snd h @ crlf @ header_lines hs @ rest"
    by simp
  have "drop p buf = header_line h @ header_lines hs @ rest" using Cons.prems(1) by simp
  note d3 = drop_past [OF this]
  have e: "on_request_event (header_event buf p h) rp = rp\<lparr>rp_data := setHeader (fst h) (snd h) (rp_data rp)\<rparr>"
    using Cons.prems(2) by (simp add: header_event_def d d2 on_request_http_field_def name_ok_def del: add_2_eq_Suc')
  show ?case using Cons.IH [OF d3] Cons.prems(2) e by simp
qed simp

text \<open>The request that the callbacks of a head make of a new one.\<close>

definition parsed_request :: "HttpMethod \<Rightarrow> string \<Rightarrow> string \<Rightarrow> string \<Rightarrow> char \<Rightarrow> (string \<times> string) list \<Rightarrow> HttpRequest" where
  "parsed_request mt w q f d hs = set_headers hs ((new_HttpRequest 17 True)\<lparr>q_method := mt,
     q_path := CHR ''/'' # w, q_query := q, q_fragment := f,
     q_version := (if d = CHR ''1'' then 17 else 16)\<rparr>)"

lemma fold_target_events:
  assumes "drop m buf = path @ opt_part (CHR ''?'') q @ opt_part (CHR ''#'') f @ rest" "m + length path = p"
    "q_query (rp_data rp) = []" "q_fragment (rp_data rp) = []"
  shows "fold on_request_event (target_events buf m p q f) rp
    = rp\<lparr>rp_data := (rp_data rp)\<lparr>q_path := path, q_query := q, q_fragment := f\<rparr>\<rparr>"
proof -
  have pm: "p - m = length path" using assms(2) by simp
  have d: "drop p buf = opt_part (CHR ''?'') q @ opt_part (CHR ''#'') f @ rest"
    using drop_past [OF assms(1)] assms(2) by simp
  have q: "drop (p + 1) buf = q @ opt_part (CHR ''#'') f @ rest" if "q \<noteq> []"
    using drop_past [of p buf "''?''"] d that by (simp add: opt_part_def)
  have "drop (p + length (opt_part (CHR ''?'') q)) buf = opt_part (CHR ''#'') f @ rest"
    using drop_past [OF d] .
  then have f: "drop (p + length (opt_part (CHR ''?'') q) + 1) buf = f @ rest" if "f \<noteq> []"
    using drop_past [of "p + length (opt_part (CHR ''?'') q)" buf "''#''"] that by (simp add: opt_part_def)
  show ?thesis
    using assms(3,4) q f
    by (cases "q = []"; cases "f = []")
      (simp_all add: assms(1) pm target_events_def Let_def on_request_path_def on_request_query_def
        on_request_fragment_def del: Suc_eq_plus1 add_Suc_right One_nat_def)
qed

lemma method_names_ok:
  "list_all (\<lambda>(m, s). m = MSEARCH \<or> s \<noteq> [] \<and> list_all method_char s \<and> length s \<le> 20) HTTP_METHOD_MAP"
  by code_simp

lemma method_name_ok:
  assumes "mt \<noteq> INVALID_METHOD" "mt \<noteq> MSEARCH"
  shows "HttpMethodToString mt \<noteq> [] \<and> (\<forall>c \<in> set (HttpMethodToString mt). method_char c)
    \<and> length (HttpMethodToString mt) \<le> 20"
  using method_names_ok named [OF assms(1)] assms(2) by (fastforce simp: list_all_iff)

lemma on_version:
  assumes "d = CHR ''0'' \<or> d = CHR ''1''"
  shows "on_request_version (''HTTP/1.'' @ d # rest) 8 rp
    = rp\<lparr>rp_data := (rp_data rp)\<lparr>q_version := (if d = CHR ''1'' then 17 else 16)\<rparr>\<rparr>"
  using assms by (auto simp: on_request_version_def strncmp_eq_def c_str_def code_def)

lemma execute_head:
  assumes "head_ok (HttpMethodToString mt) w q f d hs" "mt \<noteq> INVALID_METHOD"
    and "buf = request_head (HttpMethodToString mt) w q f d hs @ body"
  shows "\<exists>rp. execute request_ragel buf (new_HttpRequestParser (http_parser_init P0))
      = (length (request_head (HttpMethodToString mt) w q f d hs), rp)
    \<and> rp_error rp = 0 \<and> hp_cs (rp_parser rp) = 348 \<and> rp_data rp = parsed_request mt w q f d hs"
proof -
  let ?m = "HttpMethodToString mt"
  let ?P = "http_parser_init P0"
  obtain P' at n where r: "hp_cs P' = 348" "request_ragel ?P buf = (length (request_head ?m w q f d hs), P',
      head_events buf ?m w q f hs @ [EvHeaderDone at n])"
    using request_ragel_head [OF assms(1) _ _ _ _ assms(3), of ?P] by (auto simp: http_parser_init_def)
  define rp0 where "rp0 = (new_HttpRequestParser ?P)\<lparr>rp_parser := P', rp_data := (new_HttpRequest 17 True)\<lparr>q_method := mt\<rparr>\<rparr>"
  define rp1 where "rp1 = rp0\<lparr>rp_data := (rp_data rp0)\<lparr>q_path := CHR ''/'' # w, q_query := q, q_fragment := f\<rparr>\<rparr>"
  define rp2 where "rp2 = rp1\<lparr>rp_data := (rp_data rp1)\<lparr>q_version := (if d = CHR ''1'' then 17 else 16)\<rparr>\<rparr>"
  let ?path = "CHR ''/'' # w"
  let ?ver = "''HTTP/1.'' @ d # crlf @ header_lines hs @ crlf @ body"
  have b: "buf = ?m @ CHR '' '' # ?path @ opt_part (CHR ''?'') q @ opt_part (CHR ''#'') f @ CHR '' '' # ?ver"
    by (simp add: assms(3) request_head_def)
  have m: "on_request_event (EvMethod buf (length ?m)) ((new_HttpRequestParser ?P)\<lparr>rp_parser := P'\<rparr>) = rp0"
    using CharsToHttpMethod_name [OF assms(2)] assms(2)
    by (simp add: b on_request_method_def Let_def rp0_def new_HttpRequestParser_def)
  have dp: "drop (pos_path ?m) buf = ?path @ opt_part (CHR ''?'') q @ opt_part (CHR ''#'') f @ CHR '' '' # ?ver"
    using drop_past [of 0 buf "?m @ '' ''"] b by simp
  have t: "fold on_request_event (target_events buf (pos_path ?m) (pos_path ?m + 1 + length w) q f) rp0 = rp1"
    using fold_target_events [OF dp, of "pos_path ?m + 1 + length w" rp0]
    by (simp add: rp1_def rp0_def new_HttpRequestParser_def new_HttpRequest_def)
  have dv: "drop (pos_version ?m w q f) buf = ?ver"
    using drop_past [of 0 buf "?m @ '' '' @ ?path @ opt_part (CHR ''?'') q @ opt_part (CHR ''#'') f @ '' ''"] b
    by simp
  have v: "on_request_event (EvVersion (drop (pos_version ?m w q f) buf) 8) rp1 = rp2"
    unfolding dv using assms(1) by (simp only: on_request_event.simps) (subst on_version, auto simp: head_ok_def rp2_def)
  have dh: "drop (pos_version ?m w q f + 10) buf = header_lines hs @ crlf @ body"
    using drop_past [of "pos_version ?m w q f" buf "''HTTP/1.'' @ d # crlf"] dv by simp
  have h: "fold on_request_event (header_events buf (pos_version ?m w q f + 10) hs) rp2
      = rp2\<lparr>rp_data := set_headers hs (rp_data rp2)\<rparr>"
    using assms(1) by (intro fold_header_events [OF dh]) (auto simp: head_ok_def)
  have last: "on_request_event (EvHeaderDone at n) x = x" for x :: "http_parser HttpRequestParser" by simp
  have "fold on_request_event (head_events buf ?m w q f hs @ [EvHeaderDone at n])
      ((new_HttpRequestParser ?P)\<lparr>rp_parser := P'\<rparr>) = rp2\<lparr>rp_data := set_headers hs (rp_data rp2)\<rparr>"
    by (simp only: head_events_def fold_append fold_simps comp_apply m t v h append.append_Cons last)
  then show ?thesis
    using r by (intro exI [of _ "rp2\<lparr>rp_data := set_headers hs (rp_data rp2)\<rparr>"])
      (simp add: execute_def new_HttpRequestParser_def rp2_def rp1_def rp0_def parsed_request_def)
qed

end
