(* ===== verification/Http_Client_Correct.thy ===== *)
theory Http_Client_Correct
  imports Http_Parser_Correct
begin

text \<open>
  The HTTP client over the generated parser: a chunked body is the concatenation of its chunks.
\<close>

section \<open>A chunk\<close>

text \<open>A chunk is written as its length in hexadecimal digits, and its bytes; the last has none.\<close>

fun chunk_ok :: "string \<times> bytes \<Rightarrow> bool" where
  "chunk_ok (h, d) \<longleftrightarrow> h \<noteq> [] \<and> (\<forall>c \<in> set h. is_xdigit c) \<and> hex_number h = length d \<and> length d + 2 < 2 ^ 31"

fun chunk_frame :: "string \<times> bytes \<Rightarrow> bytes" where
  "chunk_frame (h, d) = to_bytes (h @ crlf) @ d @ to_bytes crlf"

lemma to_text_to_bytes [simp]: "to_text (to_bytes s) = s"
proof -
  have "char_of (unat (word_of_nat (code c) :: u8)) = c" for c
    by (simp add: unat_of_nat code_def)
  then show ?thesis by (induction s) (simp_all add: to_text_def to_bytes_def)
qed

lemma length_to_bytes [simp]: "length (to_bytes s) = length s"
  by (simp add: to_bytes_def)

lemma to_bytes_append: "to_bytes (a @ b) = to_bytes a @ to_bytes b"
  by (simp add: to_bytes_def)

lemma chunk_length_ok: "chunk_ok (h, d) \<Longrightarrow> chunk_length h = int (length d)"
  by (simp add: chunk_length_def to_int32_small)

text \<open>The parser on the head of a chunk, as the response parser runs it.\<close>

lemma rsp_execute_chunk:
  assumes "chunk_ok (h, d)" "sp_error p = 0" "to_text buf = h @ crlf @ rest"
    and "length buf < 2 ^ 31"
  shows "\<exists>q. rsp_execute response_ragel httpclient_parser_init (to_text buf) True p = (length h + 2, q)
    \<and> \<not> rsp_hasError response_machine q \<and> sp_error q = 0 \<and> sp_data q = sp_data p
    \<and> rm_finished response_machine (sp_parser q)
    \<and> rm_content_len response_machine (sp_parser q) = int (length d)
    \<and> rm_chunks_done response_machine (sp_parser q) = (d = [])"
proof -
  let ?I = "httpclient_parser_init (sp_parser p)"
  have run: "hc_run ?I (h @ crlf @ rest) = (length h + 2, 120,
      (hc_reset ?I)\<lparr>hc_mark := 0, hc_chunked := True, hc_content_len := chunk_length h,
         hc_chunks_done := (chunk_length h \<le> 0), hc_body_start := length h + 2\<rparr>,
      [if chunk_length h \<le> 0 then EvLastChunk (h @ crlf @ rest) (length h) else EvChunk (h @ crlf @ rest) (length h),
       EvHeaderDone rest (length rest)])"
    using assms(1) by (intro hc_run_chunk) (simp_all add: httpclient_parser_init_def)
  have "length h + 2 \<le> length (to_text buf)" by (simp add: assms(3))
  then have n: "nat (int (length h + 2) mod 2 ^ 64) = length h + 2"
    using assms(4) by simp
  have small: "length (h @ crlf @ rest) < 2 ^ 31" using assms(4) unfolding assms(3) [symmetric] by simp
  have I: "h @ crlf @ rest \<noteq> []" "hc_body_start ?I \<le> length (h @ crlf @ rest)"
    by (simp_all add: crlf_def httpclient_parser_init_def)
  note exec = httpclient_parser_execute_run [OF run I small]
  show ?thesis
    using assms(2) chunk_length_ok [OF assms(1)] exec n
    by (simp add: rsp_execute_def assms(3) response_ragel_def Let_def
      response_machine_def rsp_hasError_def httpclient_parser_finish_def httpclient_parser_has_error_def
      httpclient_parser_is_finished_def hc_reset_def)
qed

lemma response_machine_exec:
  "rm_exec response_machine = response_ragel" "rm_init response_machine = httpclient_parser_init"
  by (simp_all add: response_machine_def)

text \<open>The head of a chunk that is in the buffer: no read, and what follows it stays.\<close>

lemma chunk_head_buffered:
  assumes "chunk_ok (h, d)" "sp_error p = 0" "length (to_bytes (h @ crlf) @ t) \<le> n" "n < 2 ^ 31"
  shows "\<exists>q. chunk_head response_machine n True (to_bytes (h @ crlf) @ t) p s = (Some (q, t), s)
    \<and> sp_error q = 0 \<and> sp_data q = sp_data p
    \<and> rm_content_len response_machine (sp_parser q) = int (length d)
    \<and> rm_chunks_done response_machine (sp_parser q) = (d = [])"
proof -
  let ?buf = "to_bytes (h @ crlf) @ t"
  have tx: "to_text ?buf = h @ crlf @ to_text t" by (simp add: to_text_append)
  have small: "length ?buf < 2 ^ 31" using assms(3,4) by simp
  obtain q where q: "rsp_execute response_ragel httpclient_parser_init (to_text ?buf) True p = (length h + 2, q)"
      "\<not> rsp_hasError response_machine q" "sp_error q = 0" "sp_data q = sp_data p"
      "rm_finished response_machine (sp_parser q)"
      "rm_content_len response_machine (sp_parser q) = int (length d)"
      "rm_chunks_done response_machine (sp_parser q) = (d = [])"
    using rsp_execute_chunk [OF assms(1,2) tx small] by blast
  have "?buf \<noteq> []" by (simp add: to_bytes_def crlf_def)
  then have fill: "chunk_fill n True ?buf s = (Some ?buf, s)" by (simp only: chunk_fill_def) simp
  have "length t \<noteq> n" using assms(3) by simp
  moreover have "drop (length h + 2) ?buf = t" by simp
  ultimately have "chunk_head response_machine n True ?buf p s = (Some (q, t), s)"
    by (simp only: chunk_head.simps [of _ _ True] fill prod.case option.case response_machine_exec q(1,2,5)
        Let_def if_False if_True)
  with q(3-) show ?thesis by blast
qed

lemma read_rest_event:
  "0 < n \<Longrightarrow> s_open s \<Longrightarrow> s_in s = RecvData e # evs \<Longrightarrow> e \<noteq> [] \<Longrightarrow>
   read_rest n (length e) body s = (Some (body @ e), s\<lparr>s_in := evs\<rparr>)"
proof (induction "length e" arbitrary: e body s rule: less_induct)
  case less
  show ?case
  proof (cases "n < length e")
    case True
    have s1: "ss_read n s = ((int n, take n e), s\<lparr>s_in := RecvData (drop n e) # evs\<rparr>)"
      using less.prems True by (simp add: ss_read_def sock_recv_def)
    have "read_rest n (length (drop n e)) (body @ take n e) (s\<lparr>s_in := RecvData (drop n e) # evs\<rparr>)
        = (Some ((body @ take n e) @ drop n e), s\<lparr>s_in := evs\<rparr>)"
      using less.hyps [of "drop n e" "s\<lparr>s_in := RecvData (drop n e) # evs\<rparr>" "body @ take n e"] less.prems True
      by simp
    then show ?thesis using True s1 less.prems by (subst read_rest.simps) simp
  next
    case False
    then have s1: "ss_read (length e) s = ((int (length e), e), s\<lparr>s_in := evs\<rparr>)"
      using less.prems by (simp add: ss_read_def sock_recv_def)
    then show ?thesis using False less.prems
      by (subst read_rest.simps) (simp add: read_rest.simps [of n 0])
  qed
qed

text \<open>
  One turn of the loop.  In the first case the chunk is in the buffer; in the second a share of
  it is, and the next read event has the rest.
\<close>

lemma recv_chunks_buffered:
  assumes "chunk_ok (h, d)" "sp_error p = 0" "length (chunk_frame (h, d) @ t) \<le> n" "n < 2 ^ 31"
  shows "\<exists>q. sp_error q = 0 \<and> sp_data q = sp_data p
    \<and> recv_chunks response_machine n (chunk_frame (h, d) @ t) body p s
      = (if d = [] then (Received (q, body), s) else recv_chunks response_machine n t (body @ d) q s)"
proof -
  have len: "length (to_bytes (h @ crlf) @ d @ to_bytes crlf @ t) \<le> n" using assms(3) by simp
  obtain q where q: "chunk_head response_machine n True (to_bytes (h @ crlf) @ d @ to_bytes crlf @ t) p s
        = (Some (q, d @ to_bytes crlf @ t), s)"
      "sp_error q = 0" "sp_data q = sp_data p"
      "rm_content_len response_machine (sp_parser q) = int (length d)"
      "rm_chunks_done response_machine (sp_parser q) = (d = [])"
    using chunk_head_buffered [OF assms(1,2) len assms(4)] by blast
  have body: "chunk_body n (int (length d)) (d @ to_bytes crlf @ t) body s = (Received (body @ d, t), s)"
    using assms(1) by (simp add: chunk_body_def Let_def)
  from q body show ?thesis
    by (intro exI [of _ q]) (subst recv_chunks.simps, simp)
qed

lemma recv_chunks_cut:
  assumes "chunk_ok (h, d)" "sp_error p = 0" "d @ to_bytes crlf = t @ e" "e \<noteq> []"
    and "length (to_bytes (h @ crlf) @ t) \<le> n" "n < 2 ^ 31" "s_open s" "s_in s = RecvData e # evs"
  shows "\<exists>q. sp_error q = 0 \<and> sp_data q = sp_data p
    \<and> recv_chunks response_machine n (to_bytes (h @ crlf) @ t) body p s
      = (if d = [] then (Received (q, body), s\<lparr>s_in := evs\<rparr>)
         else recv_chunks response_machine n [] (body @ d) q (s\<lparr>s_in := evs\<rparr>))"
proof -
  obtain q where q: "chunk_head response_machine n True (to_bytes (h @ crlf) @ t) p s = (Some (q, t), s)"
      "sp_error q = 0" "sp_data q = sp_data p"
      "rm_content_len response_machine (sp_parser q) = int (length d)"
      "rm_chunks_done response_machine (sp_parser q) = (d = [])"
    using chunk_head_buffered [OF assms(1,2,5,6)] by blast
  have l: "length d + 2 = length t + length e" using arg_cong [OF assms(3), of length] by simp
  have "0 < n" using assms(5) by (cases n) simp_all
  then have r: "read_rest n (length d + 2 - length t) (body @ t) s = (Some ((body @ t) @ e), s\<lparr>s_in := evs\<rparr>)"
    using read_rest_event [OF _ assms(7,8,4), of n "body @ t"] l by simp
  have "take (length ((body @ t) @ e) - 2) ((body @ t) @ e) = body @ d"
    using l by (simp add: assms(3) [symmetric])
  with r l assms(1,4) have body: "chunk_body n (int (length d)) t body s
      = (Received (body @ d, []), s\<lparr>s_in := evs\<rparr>)"
    by (simp add: chunk_body_def Let_def nat_add_distrib)
  from q body show ?thesis
    by (intro exI [of _ q]) (subst recv_chunks.simps, simp)
qed

section \<open>A chunked body\<close>

definition frames :: "(string \<times> bytes) list \<Rightarrow> bytes" where
  "frames cs = concat (map chunk_frame cs)"

lemma frames_simps [simp]: "frames [] = []" "frames (c # cs) = chunk_frame c @ frames cs"
    "frames (as @ bs) = frames as @ frames bs"
  by (simp_all add: frames_def)

lemma recv_chunks_frames:
  assumes "\<forall>c \<in> set cs. chunk_ok c \<and> snd c \<noteq> []" "sp_error p = 0" "length (frames cs @ t) \<le> n" "n < 2 ^ 31"
  shows "\<exists>q. sp_error q = 0 \<and> sp_data q = sp_data p
    \<and> recv_chunks response_machine n (frames cs @ t) body p s
      = recv_chunks response_machine n t (body @ concat (map snd cs)) q s"
  using assms
proof (induction cs arbitrary: p body)
  case (Cons c cs)
  obtain h d where c: "c = (h, d)" by fastforce
  have ok: "chunk_ok (h, d)" "d \<noteq> []" using Cons.prems(1) c by auto
  have len: "length (chunk_frame (h, d) @ frames cs @ t) \<le> n" using Cons.prems(3) c by simp
  obtain q where q: "sp_error q = 0" "sp_data q = sp_data p"
      "recv_chunks response_machine n (chunk_frame (h, d) @ frames cs @ t) body p s
        = recv_chunks response_machine n (frames cs @ t) (body @ d) q s"
    using recv_chunks_buffered [OF ok(1) Cons.prems(2) len Cons.prems(4)] ok(2) by (metis (full_types))
  obtain q' where "sp_error q' = 0" "sp_data q' = sp_data q"
      "recv_chunks response_machine n (frames cs @ t) (body @ d) q s
        = recv_chunks response_machine n t ((body @ d) @ concat (map snd cs)) q' s"
    using Cons.IH [of q "body @ d"] Cons.prems q(1) by auto
  with q c show ?case by (auto intro!: exI [of _ q'])
qed auto

lemma recv_chunks_refill:
  assumes "ss_read n s = ((int (length e), e), s1)" "e \<noteq> []"
  shows "recv_chunks M n [] body p s = recv_chunks M n e body p s1"
proof -
  have "chunk_fill n True [] s = chunk_fill n True e s1"
    using assms by (simp add: chunk_fill_def)
  then have "chunk_head M n True [] p s = chunk_head M n True e p s1"
    by (simp add: chunk_head.simps [of M n True])
  then show ?thesis by (simp add: recv_chunks.simps [of M n])
qed

text \<open>
  What one read event may bring: whole chunks that fit in the buffer, or one chunk of any size
  whose head fits.
\<close>

definition event_ok :: "nat \<Rightarrow> (string \<times> bytes) list \<Rightarrow> bool" where
  "event_ok n g \<longleftrightarrow> g \<noteq> [] \<and> (length (frames g) \<le> n \<or> (\<exists>h d. g = [(h, d)] \<and> length h + 2 \<le> n))"

lemma chunk_frame_ne [simp]: "chunk_frame c \<noteq> []"
  by (cases c) (simp add: to_bytes_def crlf_def)

lemma frames_eq_Nil [simp]: "frames g = [] \<longleftrightarrow> g = []"
  by (cases g) simp_all

text \<open>A long chunk, cut by the end of the buffer.\<close>

lemma recv_chunks_long:
  assumes "chunk_ok (h, d)" "sp_error p = 0" "length h + 2 \<le> n" "n < length (chunk_frame (h, d))" "n < 2 ^ 31"
    and "s_open s" "s_in s = RecvData (chunk_frame (h, d)) # evs"
  shows "\<exists>q. sp_error q = 0 \<and> sp_data q = sp_data p
    \<and> recv_chunks response_machine n [] body p s
      = (if d = [] then (Received (q, body), s\<lparr>s_in := evs\<rparr>)
         else recv_chunks response_machine n [] (body @ d) q (s\<lparr>s_in := evs\<rparr>))"
proof -
  define m where "m = n - (length h + 2)"
  define s1 where "s1 = s\<lparr>s_in := RecvData (drop n (chunk_frame (h, d))) # evs\<rparr>"
  let ?t = "take m (d @ to_bytes crlf)" and ?e = "drop m (d @ to_bytes crlf)"
  have buf: "take n (chunk_frame (h, d)) = to_bytes (h @ crlf) @ ?t" "drop n (chunk_frame (h, d)) = ?e"
    using assms(3) by (simp_all add: m_def)
  have "ss_read n s = ((int (length (take n (chunk_frame (h, d)))), take n (chunk_frame (h, d))), s1)"
    using assms(4,6,7) by (simp add: ss_read_def sock_recv_def s1_def del: chunk_frame.simps)
  from recv_chunks_refill [OF this, of response_machine body p] have refill: "recv_chunks response_machine n [] body p s
      = recv_chunks response_machine n (to_bytes (h @ crlf) @ ?t) body p s1"
    using assms(3) by (simp add: buf(1) del: take_append chunk_frame.simps) (simp add: to_bytes_def crlf_def)
  have "m < length (d @ to_bytes crlf)" using assms(3,4) by (simp add: m_def)
  then have ne: "?e \<noteq> []" by (metis drop_eq_Nil not_le)
  have le: "length (to_bytes (h @ crlf) @ ?t) \<le> n" using assms(3) by (simp add: m_def)
  have s1: "s_open s1" "s_in s1 = RecvData ?e # evs" "s1\<lparr>s_in := evs\<rparr> = s\<lparr>s_in := evs\<rparr>"
    using assms(6) by (simp_all add: s1_def buf(2) del: drop_append chunk_frame.simps)
  have parts: "d @ to_bytes crlf = ?t @ ?e" by (simp only: append_take_drop_id)
  show ?thesis
    unfolding refill using recv_chunks_cut [OF assms(1,2) parts ne le assms(5) s1(1,2)] s1(3) by metis
qed

lemma recv_chunks_events:
  assumes "\<forall>g \<in> set gs. event_ok n g" "concat gs = cs @ [(h0, [])]"
    and "\<forall>c \<in> set cs. chunk_ok c \<and> snd c \<noteq> []" "chunk_ok (h0, [])"
    and "sp_error p = 0" "n < 2 ^ 31" "s_open s" "s_in s = map (\<lambda>g. RecvData (frames g)) gs @ evs"
  shows "\<exists>q. sp_data q = sp_data p
    \<and> recv_chunks response_machine n [] body p s
      = (Received (q, body @ concat (map snd cs)), s\<lparr>s_in := evs\<rparr>)"
  using assms
proof (induction gs arbitrary: cs p s body)
  case (Cons g gs)
  let ?s1 = "s\<lparr>s_in := map (\<lambda>g. RecvData (frames g)) gs @ evs\<rparr>"
  have g: "event_ok n g" "g \<noteq> []" using Cons.prems(1) by (auto simp: event_ok_def)
  show ?case
  proof (cases "gs = []")
    case True
    then have eq: "g = cs @ [(h0, [])]" using Cons.prems(2) by simp
    show ?thesis
    proof (cases "length (frames g) \<le> n")
      case fits: True
      have "ss_read n s = ((int (length (frames g)), frames g), ?s1)"
        using Cons.prems(7,8) fits by (simp add: ss_read_def sock_recv_def)
      from recv_chunks_refill [OF this, of response_machine body p] g(2)
      have r: "recv_chunks response_machine n [] body p s = recv_chunks response_machine n (frames g) body p ?s1"
        by simp
      obtain q where q: "sp_error q = 0" "sp_data q = sp_data p"
          "recv_chunks response_machine n (frames g) body p ?s1
            = recv_chunks response_machine n (chunk_frame (h0, []) @ []) (body @ concat (map snd cs)) q ?s1"
        using recv_chunks_frames [OF Cons.prems(3,5), of "chunk_frame (h0, [])" n body ?s1] fits Cons.prems(6) eq
        by (auto simp del: chunk_frame.simps)
      have l: "length (chunk_frame (h0, []) @ []) \<le> n" using fits eq by simp
      from recv_chunks_buffered [OF Cons.prems(4) q(1) l Cons.prems(6)] r q(2,3) True show ?thesis by auto
    next
      case long: False
      then have "cs = []" "length h0 + 2 \<le> n" using g(1) eq by (auto simp: event_ok_def Cons_eq_append_conv)
      with recv_chunks_long [OF Cons.prems(4,5), of n s evs body] long eq Cons.prems(6-8) True
      show ?thesis by (auto simp del: chunk_frame.simps)
    qed
  next
    case False
    then have "concat gs \<noteq> []" using Cons.prems(1) by (auto simp: event_ok_def neq_Nil_conv)
    then obtain cs' where cs: "cs = g @ cs'" "concat gs = cs' @ [(h0, [])]"
      using Cons.prems(2) by (auto simp: append_eq_append_conv2 append_eq_Cons_conv Cons_eq_append_conv)
    have gok: "\<forall>c \<in> set g. chunk_ok c \<and> snd c \<noteq> []" using Cons.prems(3) cs(1) by auto
    have "\<exists>q. sp_error q = 0 \<and> sp_data q = sp_data p \<and> recv_chunks response_machine n [] body p s
        = recv_chunks response_machine n [] (body @ concat (map snd g)) q ?s1"
    proof (cases "length (frames g) \<le> n")
      case fits: True
      have "ss_read n s = ((int (length (frames g)), frames g), ?s1)"
        using Cons.prems(7,8) fits by (simp add: ss_read_def sock_recv_def)
      from recv_chunks_refill [OF this, of response_machine body p] g(2) recv_chunks_frames [OF gok Cons.prems(5), of "[]" n body ?s1]
        fits Cons.prems(6)
      show ?thesis by simp
    next
      case long: False
      then obtain h d where hd: "g = [(h, d)]" "length h + 2 \<le> n" using g(1) by (auto simp: event_ok_def)
      then have ok: "chunk_ok (h, d)" "d \<noteq> []" using gok by simp_all
      from recv_chunks_long [OF ok(1) Cons.prems(5) hd(2), of s _ body] long hd(1) ok(2) Cons.prems(6-8)
      show ?thesis by (simp del: chunk_frame.simps)
    qed
    then obtain q where q: "sp_error q = 0" "sp_data q = sp_data p" "recv_chunks response_machine n [] body p s
        = recv_chunks response_machine n [] (body @ concat (map snd g)) q ?s1" by blast
    have "\<exists>q'. sp_data q' = sp_data q \<and> recv_chunks response_machine n [] (body @ concat (map snd g)) q ?s1
        = (Received (q', (body @ concat (map snd g)) @ concat (map snd cs')), ?s1\<lparr>s_in := evs\<rparr>)"
      using Cons.prems cs by (intro Cons.IH) (simp_all add: q(1))
    with q cs(1) show ?thesis by auto
  qed
qed simp

text \<open>
  C29.  A chunked body is read as the concatenation of its chunks: the buffer may hold any whole
  chunks behind the head of the response, and every further read may bring whole chunks that fit
  in the buffer or one chunk of any length; the loop ends with the empty chunk and leaves what
  follows it on the connection.
\<close>

theorem chunked_body:
  assumes "length (frames g0) \<le> n" "n < 2 ^ 31" "\<forall>g \<in> set gs. event_ok n g"
    and "g0 @ concat gs = cs @ [(h0, [])]"
    and "\<forall>c \<in> set cs. chunk_ok c \<and> snd c \<noteq> []" "chunk_ok (h0, [])"
    and "sp_error p = 0" "s_open s" "s_in s = map (\<lambda>g. RecvData (frames g)) gs @ evs"
  shows "\<exists>q. sp_data q = sp_data p
    \<and> recv_chunks response_machine n (frames g0) [] p s
      = (Received (q, concat (map snd cs)), s\<lparr>s_in := evs\<rparr>)"
proof (cases "gs = []")
  case True
  then have eq: "g0 = cs @ [(h0, [])]" using assms(4) by simp
  obtain q where q: "sp_error q = 0" "sp_data q = sp_data p"
      "recv_chunks response_machine n (frames g0) [] p s
        = recv_chunks response_machine n (chunk_frame (h0, []) @ []) (concat (map snd cs)) q s"
    using recv_chunks_frames [OF assms(5,7), of "chunk_frame (h0, [])" n "[]" s] assms(1,2) eq
    by (auto simp del: chunk_frame.simps)
  have l: "length (chunk_frame (h0, []) @ []) \<le> n" using assms(1) eq by simp
  have "s\<lparr>s_in := evs\<rparr> = s" using assms(9) True by simp
  with recv_chunks_buffered [OF assms(6) q(1) l assms(2)] q(2,3) show ?thesis by auto
next
  case False
  then have "concat gs \<noteq> []" using assms(3) by (auto simp: event_ok_def neq_Nil_conv)
  then obtain cs' where cs: "cs = g0 @ cs'" "concat gs = cs' @ [(h0, [])]"
    using assms(4) by (auto simp: append_eq_append_conv2 append_eq_Cons_conv Cons_eq_append_conv)
  have "\<forall>c \<in> set g0. chunk_ok c \<and> snd c \<noteq> []" using assms(5) cs(1) by auto
  from recv_chunks_frames [OF this assms(7), of "[]" n "[]" s] assms(1,2)
  obtain q where q: "sp_error q = 0" "sp_data q = sp_data p" "recv_chunks response_machine n (frames g0) [] p s
      = recv_chunks response_machine n [] (concat (map snd g0)) q s" by auto
  have "\<forall>c \<in> set cs'. chunk_ok c \<and> snd c \<noteq> []" using assms(5) cs(1) by auto
  from recv_chunks_events [OF assms(3) cs(2) this assms(6) q(1) assms(2,8,9)] q(2,3) cs(1)
  show ?thesis by auto
qed

lemma demo_chunks:
  "chunk_ok (''5'', to_bytes ''hello'')" "chunk_ok (''07'', to_bytes '', world'')" "chunk_ok (''0'', [])"
  by (auto simp: hex_number_def xdigit_val_def is_xdigit_def is_digit_def code_def to_bytes_def)

theorem chunked_body_witness:
  "\<exists>p s q. recv_chunks response_machine 4096 (frames [(''5'', to_bytes ''hello'')]) [] p s
     = (Received (q, to_bytes ''hello, world''), s\<lparr>s_in := []\<rparr>)"
proof -
  define p :: "httpclient_parser HttpResponseParser" where
    "p = \<lparr>sp_parser = undefined, sp_data = new_HttpResponse 17 True, sp_error = 0\<rparr>"
  define s where "s = \<lparr>s_in = [RecvData (frames [(''07'', to_bytes '', world''), (''0'', [])])],
      s_accept = [], s_out = [], s_open = True\<rparr>"
  have "concat (map snd [(''5'', to_bytes ''hello''), (''07'', to_bytes '', world'')]) = to_bytes ''hello, world''"
    by (simp add: to_bytes_def)
  moreover have "\<exists>q. sp_data q = sp_data p
    \<and> recv_chunks response_machine 4096 (frames [(''5'', to_bytes ''hello'')]) [] p s
      = (Received (q, concat (map snd [(''5'', to_bytes ''hello''), (''07'', to_bytes '', world'')])), s\<lparr>s_in := []\<rparr>)"
    by (rule chunked_body [where gs = "[[(''07'', to_bytes '', world''), (''0'', [])]]" and ?h0.0 = "''0''"])
      (use demo_chunks in \<open>simp_all add: p_def s_def event_ok_def to_bytes_def\<close>)
  ultimately show ?thesis by metis
qed

end
