(* ===== verification/Http_Exchange_Correct.thy ===== *)
theory Http_Exchange_Correct
  imports Http_Request_Correct Http_Client_Correct
begin

text \<open>
  From the client to the server: what \<open>sendRequest\<close> writes for a request, \<open>recvRequest\<close> reads back
  as the same request.
\<close>

section \<open>The text of a request\<close>

text \<open>The header lines that the text of a request has.\<close>

definition sent_headers :: "HttpRequest \<Rightarrow> (string \<times> string) list" where
  "sent_headers q =
     (if q_websocket q then [] else [(''connection'', if q_close q then ''close'' else ''keep-alive'')])
     @ filter (\<lambda>(k, v). \<not> (\<not> q_websocket q \<and> strcaseeq k ''connection'')) (q_headers q)
     @ (if q_body q = [] then [] else [(''content-length'', dec (length (q_body q)))])"

definition request_ok :: "HttpRequest \<Rightarrow> bool" where
  "request_ok q \<longleftrightarrow> q_method q \<noteq> INVALID_METHOD \<and> q_method q \<noteq> MSEARCH
     \<and> (\<exists>w. q_path q = CHR ''/'' # w \<and> uri_ok path_char w \<and> (w = [] \<or> code (List.hd w) \<noteq> 47))
     \<and> uri_ok query_char (q_query q) \<and> uri_ok query_char (q_fragment q)
     \<and> (q_version q = 16 \<or> q_version q = 17)
     \<and> (\<forall>h \<in> set (q_headers q). name_ok (fst h) \<and> value_ok (snd h))"

lemma dec_value_ok: "value_ok (dec n)"
proof -
  have d: "\<forall>c \<in> set (dec n). is_digit c" "dec n \<noteq> []" using dec_digits [of n] by auto
  then obtain c cs where "dec n = c # cs" by (cases "dec n") auto
  with d(1) show ?thesis by (auto simp: value_ok_def value_char_def is_digit_def)
qed

lemma sent_headers_ok:
  assumes "request_ok q"
  shows "\<forall>h \<in> set (sent_headers q). name_ok (fst h) \<and> value_ok (snd h)"
proof -
  have "name_ok ''connection''" "name_ok ''content-length''" "value_ok ''close''" "value_ok ''keep-alive''"
    by (simp_all add: name_ok_def token_char_def is_lower_def is_upper_def is_digit_def value_ok_def
        value_char_def code_def)
  then show ?thesis using assms dec_value_ok
    by (auto simp: sent_headers_def request_ok_def split: if_splits)
qed

lemma dump_request_text:
  assumes "q_path q = CHR ''/'' # w" "q_version q = 16 \<or> q_version q = 17"
  shows "dump_request q = request_head (HttpMethodToString (q_method q)) w (q_query q) (q_fragment q)
    (if q_version q = 17 then CHR ''1'' else CHR ''0'') (sent_headers q) @ q_body q"
proof -
  have hl: "header_line = (\<lambda>(k, v). k @ '': '' @ v @ crlf)" by (auto simp: header_line_def fun_eq_iff)
  have hs: "dump_headers ws hs = header_lines (filter (\<lambda>(k, v). \<not> (\<not> ws \<and> strcaseeq k ''connection'')) hs)"
    for ws hs
    by (simp add: dump_headers_def hl)
  have conn: "dump_connection ws cl
      = header_lines (if ws then [] else [(''connection'', if cl then ''close'' else ''keep-alive'')])" for ws cl
    by (simp add: dump_connection_def header_line_def)
  have body: "dump_body b = header_lines (if b = [] then [] else [(''content-length'', dec (length b))]) @ crlf @ b"
    for b
    by (simp add: dump_body_def header_line_def)
  have digits01: "char_of (49 :: nat) = CHR ''1''" "char_of (48 :: nat) = CHR ''0''" by code_simp+
  have ver: "dump_version v = ''HTTP/1.'' @ [if v = 17 then CHR ''1'' else CHR ''0'']" if "v = 16 \<or> v = 17" for v
    using that digits01 by (auto simp: dump_version_def dec.simps)
  show ?thesis
    by (simp add: dump_request_def request_head_def sent_headers_def hs conn body ver [OF assms(2)] assms(1)
        opt_part_def)
qed

section \<open>The round trip\<close>

text \<open>The header lines as a map; of lines with the same name the last one counts.\<close>

definition line_map :: "(string \<times> string) list \<Rightarrow> nat list \<Rightarrow> string option" where
  "line_map hs = map_of (rev (map (\<lambda>h. (ci_key (fst h), snd h)) hs))"

lemma line_map_append: "line_map (as @ bs) = line_map as ++ line_map bs"
  by (simp add: line_map_def)

lemma line_map_Nil [simp]: "line_map [] = Map.empty"
  by (simp add: line_map_def)

lemma line_map_one [simp]: "line_map [(k, v)] = [ci_key k \<mapsto> v]"
  by (simp add: line_map_def)

lemma om_abs_set_headers:
  "om_abs ci_key (q_headers (set_headers hs q)) = om_abs ci_key (q_headers q) ++ line_map hs"
proof (induction hs arbitrary: q)
  case (Cons h hs)
  let ?m = "om_abs ci_key (q_headers q)" and ?u = "[ci_key (fst h) \<mapsto> snd h] :: nat list \<Rightarrow> string option"
  have h: "q_headers (setHeader (fst h) (snd h) q) = om_assign ci_key (q_headers q) (fst h) (snd h)"
    by (simp add: setHeader_def)
  have u: "?m(ci_key (fst h) \<mapsto> snd h) = ?m ++ ?u" by simp
  have "om_abs ci_key (q_headers (set_headers (h # hs) q)) = (?m ++ ?u) ++ line_map hs"
    by (simp only: fold_simps comp_apply Cons.IH h om_assign_abs u)
  also have "\<dots> = ?m ++ (?u ++ line_map hs)" by (rule map_add_assoc [symmetric])
  also have "?u ++ line_map hs = line_map (h # hs)"
    using line_map_append [of "[h]" hs] by (cases h) simp
  finally show ?case .
qed simp

text \<open>The lines of a sorted map are that map.\<close>

lemma om_abs_Cons_fst: "om_abs f (h # hs) = (om_abs f hs)(f (fst h) \<mapsto> snd h)"
  by (cases h) (simp add: om_abs_Cons)

lemma line_map_sorted: "om_sorted ci_key hs \<Longrightarrow> line_map hs = om_abs ci_key hs"
proof (induction hs)
  case (Cons h hs)
  obtain a v where h: "h = (a, v)" by fastforce
  have less: "\<forall>(b, w) \<in> set hs. ci_key a < ci_key b" and s: "om_sorted ci_key hs"
    using Cons.prems by (simp_all add: h om_sorted_Cons)
  have "om_abs ci_key hs (ci_key a) = None"
    using less by (force simp: om_abs_def map_of_eq_None_iff)
  then have "[ci_key a \<mapsto> v] ++ om_abs ci_key hs = (om_abs ci_key hs)(ci_key a \<mapsto> v)"
    by (auto simp: fun_eq_iff map_add_def split: option.splits)
  then show ?case
    using line_map_append [of "[(a, v)]" hs] Cons.IH [OF s] by (simp add: h om_abs_Cons)
qed simp

lemma om_sorted_filter: "om_sorted f m \<Longrightarrow> om_sorted f (filter P m)"
  by (induction m) (auto simp: om_sorted_Cons)

lemma om_abs_filter:
  assumes "om_sorted ci_key m"
  shows "om_abs ci_key (filter (\<lambda>(k, v). \<not> strcaseeq k n) m) = (om_abs ci_key m)(ci_key n := None)"
  using assms
  by (induction m) (auto simp: om_abs_Cons om_sorted_Cons strcaseeq_def fun_eq_iff)

lemma set_headers_other:
  "q_method (set_headers hs q) = q_method q" "q_path (set_headers hs q) = q_path q"
  "q_query (set_headers hs q) = q_query q" "q_fragment (set_headers hs q) = q_fragment q"
  "q_version (set_headers hs q) = q_version q" "q_body (set_headers hs q) = q_body q"
  "q_close (set_headers hs q) = q_close q"
  by (induction hs arbitrary: q) (simp_all add: setHeader_def)

lemma sent_headers_map:
  assumes "om_sorted ci_key (q_headers q)"
  shows "line_map (sent_headers q) = (if q_websocket q then om_abs ci_key (q_headers q)
      else (om_abs ci_key (q_headers q))(ci_key ''connection'' \<mapsto> (if q_close q then ''close'' else ''keep-alive'')))
    ++ (if q_body q = [] then Map.empty else [ci_key ''content-length'' \<mapsto> dec (length (q_body q))])"
proof -
  have "line_map (filter (\<lambda>(k, v). \<not> strcaseeq k ''connection'') (q_headers q))
      = (om_abs ci_key (q_headers q))(ci_key ''connection'' := None)"
    using line_map_sorted [OF om_sorted_filter [OF assms]] om_abs_filter [OF assms] by simp
  moreover have "[k \<mapsto> v] ++ m(k := None) = m(k \<mapsto> v)" for m :: "nat list \<Rightarrow> string option" and k v
    by (auto simp: fun_eq_iff map_add_def split: option.splits)
  ultimately show ?thesis
    by (auto simp: sent_headers_def line_map_append line_map_sorted [OF assms])
qed

lemma ci_keys_differ: "ci_key ''connection'' \<noteq> ci_key ''content-length''"
  by (simp add: ci_key_def c_str_def code_def to_lower_def is_upper_def)

definition request_finished :: "http_parser \<Rightarrow> bool" where
  "request_finished P \<longleftrightarrow> http_parser_finish P \<noteq> 0"

lemma recvRequest_loop_head:
  assumes "request_ok q" "s_open s" "s_in s = RecvData (to_bytes (dump_request q)) # evs"
    and "length (dump_request q) \<le> n"
  shows "\<exists>rp w. recvRequest_loop request_ragel http_parser_has_error request_finished n []
      (new_HttpRequestParser (http_parser_init P0)) s = (Some (rp, to_bytes (q_body q)), s\<lparr>s_in := evs\<rparr>)
    \<and> q_path q = CHR ''/'' # w
    \<and> rp_data rp = parsed_request (q_method q) w (q_query q) (q_fragment q)
        (if q_version q = 17 then CHR ''1'' else CHR ''0'') (sent_headers q)"
proof -
  obtain w where w: "q_path q = CHR ''/'' # w" "uri_ok path_char w" "w = [] \<or> code (List.hd w) \<noteq> 47"
    using assms(1) by (auto simp: request_ok_def)
  let ?m = "HttpMethodToString (q_method q)" and ?d = "if q_version q = 17 then CHR ''1'' else CHR ''0''"
  let ?head = "request_head ?m w (q_query q) (q_fragment q) ?d (sent_headers q)"
  have mt: "q_method q \<noteq> INVALID_METHOD" "q_method q \<noteq> MSEARCH" and v: "q_version q = 16 \<or> q_version q = 17"
    using assms(1) by (simp_all add: request_ok_def)
  define H where "H = ?head"
  have tx: "dump_request q = H @ q_body q" unfolding H_def by (rule dump_request_text [OF w(1) v])
  have "head_ok ?m w (q_query q) (q_fragment q) ?d (sent_headers q)"
    using method_name_ok [OF mt] sent_headers_ok [OF assms(1)] assms(1) w(2,3) by (auto simp: head_ok_def request_ok_def)
  from execute_head [OF this mt(1) tx [unfolded H_def], of P0, folded H_def] obtain rp where
    rp: "execute request_ragel (dump_request q) (new_HttpRequestParser (http_parser_init P0)) = (length H, rp)"
      "rp_error rp = 0" "hp_cs (rp_parser rp) = 348"
      "rp_data rp = parsed_request (q_method q) w (q_query q) (q_fragment q) ?d (sent_headers q)" by blast
  have read: "ss_read (n - length ([] :: bytes)) s
      = ((int (length (dump_request q)), to_bytes (dump_request q)), s\<lparr>s_in := evs\<rparr>)"
    using assms(2-4) by (simp add: ss_read_def sock_recv_def)
  have pos: "0 < length H" by (simp add: H_def request_head_def)
  have rest: "drop (length H) (to_bytes (dump_request q)) = to_bytes (q_body q)"
    by (simp add: tx to_bytes_append)
  have "length (q_body q) \<noteq> n" using assms(4) pos unfolding tx length_append by linarith
  then have "recvRequest_loop request_ragel http_parser_has_error request_finished n []
      (new_HttpRequestParser (http_parser_init P0)) s = (Some (rp, to_bytes (q_body q)), s\<lparr>s_in := evs\<rparr>)"
    using read rp(1-3) rest pos
    by (subst recvRequest_loop.simps) (simp add: Let_def hasError_def http_parser_has_error_def request_finished_def
        http_parser_finish_def http_parser_is_finished_def tx del: length_0_conv length_greater_0_conv)
  with w(1) rp(4) show ?thesis by blast
qed

text \<open>
  What the server has after it has received the text of a request; the text of a websocket request
  leaves the connection header to the caller, and then it is equal, too.
\<close>

lemma request_received:
  assumes "request_ok q" "om_sorted ci_key (q_headers q)"
    and "om_find ci_key (q_headers q) ''content-length'' = None"
    and "s_open s" "s_in s = RecvData (to_bytes (dump_request q)) # evs"
    and "length (dump_request q) \<le> n" "length (q_body q) < 2 ^ 63"
    and "cast (dec (length (q_body q))) = Some (length (q_body q))"
  shows "\<exists>q'. recvRequest request_ragel http_parser_has_error request_finished (http_parser_init P0) cast n s
      = (Some q', s\<lparr>s_in := evs\<rparr>)
    \<and> q_method q' = q_method q \<and> q_path q' = q_path q \<and> q_query q' = q_query q \<and> q_fragment q' = q_fragment q
    \<and> q_version q' = q_version q \<and> q_body q' = q_body q
    \<and> (\<forall>k d. q_websocket q \<or> \<not> strcaseeq k ''connection'' \<longrightarrow> \<not> strcaseeq k ''content-length'' \<longrightarrow> getHeader q' k d = getHeader q k d)
    \<and> (\<not> q_websocket q \<longrightarrow> q_close q' = q_close q)"
proof -
  obtain rp w where rp: "recvRequest_loop request_ragel http_parser_has_error request_finished n []
      (new_HttpRequestParser (http_parser_init P0)) s = (Some (rp, to_bytes (q_body q)), s\<lparr>s_in := evs\<rparr>)"
      "q_path q = CHR ''/'' # w"
      "rp_data rp = parsed_request (q_method q) w (q_query q) (q_fragment q)
        (if q_version q = 17 then CHR ''1'' else CHR ''0'') (sent_headers q)"
    using recvRequest_loop_head [OF assms(1,4,5,6)] by blast
  let ?D = "rp_data rp"
  have v: "q_version q = 16 \<or> q_version q = 17" using assms(1) by (simp add: request_ok_def)
  have D: "q_method ?D = q_method q" "q_path ?D = q_path q" "q_query ?D = q_query q" "q_fragment ?D = q_fragment q"
      "q_version ?D = q_version q" "q_body ?D = []"
    using v by (auto simp: rp(2,3) parsed_request_def set_headers_other new_HttpRequest_def)
  have map: "om_abs ci_key (q_headers ?D) = line_map (sent_headers q)"
    by (simp add: rp(3) parsed_request_def om_abs_set_headers new_HttpRequest_def)
  note map = map [unfolded sent_headers_map [OF assms(2)]]
  have none: "om_abs ci_key (q_headers q) (ci_key ''content-length'') = None"
    using assms(3) by (simp add: om_find_abs)
  have len: "left_of (getContentLength cast rp) = length (q_body q)"
    using assms(7,8) none ci_keys_differ
    by (auto simp: getContentLength_def getAs_def om_find_abs map left_of_def)
  have recv: "recvRequest request_ragel http_parser_has_error request_finished (http_parser_init P0) cast n s
      = (Some (init_request (?D\<lparr>q_body := q_body q\<rparr>)), s\<lparr>s_in := evs\<rparr>)"
  proof (cases "q_body q = []")
    case True
    have "?D\<lparr>q_body := []\<rparr> = ?D" using D(6) by (cases ?D) simp
    then show ?thesis using True by (simp add: recvRequest_def rp(1) len)
  next
    case False
    then show ?thesis by (simp add: recvRequest_def rp(1) len recv_body_def)
  qed
  have hdr: "getHeader (init_request (?D\<lparr>q_body := q_body q\<rparr>)) k d = getHeader q k d"
    if "q_websocket q \<or> \<not> strcaseeq k ''connection''" "\<not> strcaseeq k ''content-length''" for k d
    using that by (auto simp add: init_request_def Let_def getHeader_def map_get_def om_find_abs map strcaseeq_def)
  have close: "q_close (init_request (?D\<lparr>q_body := q_body q\<rparr>)) = q_close q" if "\<not> q_websocket q"
    using that ci_keys_differ
    by (simp add: init_request_def Let_def getHeader_def map_get_def om_find_abs map strcaseeq_def ci_key_def c_str_def
        code_def to_lower_def is_upper_def)
  show ?thesis
    using recv D hdr close by (auto simp: init_request_def Let_def)
qed

text \<open>
  C8.  A request that the client sends and that arrives in one piece which fits in the buffer is
  received as the same request: method, path, query, fragment, version and body are equal, so is
  every header but the two that the text adds, and the connection is kept or closed as it said.
\<close>

theorem request_round_trip:
  assumes "request_ok q" "om_sorted ci_key (q_headers q)"
    and "om_find ci_key (q_headers q) ''content-length'' = None"
    and "s_open s" "s_in s = RecvData (to_bytes (dump_request q)) # evs"
    and "length (dump_request q) \<le> n" "length (q_body q) < 2 ^ 63"
    and "cast (dec (length (q_body q))) = Some (length (q_body q))"
  shows "\<exists>q'. recvRequest request_ragel http_parser_has_error request_finished (http_parser_init P0) cast n s
      = (Some q', s\<lparr>s_in := evs\<rparr>)
    \<and> q_method q' = q_method q \<and> q_path q' = q_path q \<and> q_query q' = q_query q \<and> q_fragment q' = q_fragment q
    \<and> q_version q' = q_version q \<and> q_body q' = q_body q
    \<and> (\<forall>k d. \<not> strcaseeq k ''connection'' \<longrightarrow> \<not> strcaseeq k ''content-length'' \<longrightarrow> getHeader q' k d = getHeader q k d)
    \<and> (\<not> q_websocket q \<longrightarrow> q_close q' = q_close q)"
  using request_received [where cast = cast, OF assms] by fastforce

definition demo_request :: HttpRequest where
  "demo_request = (new_HttpRequest 17 False)\<lparr>q_method := POST, q_path := ''/a%20b'', q_query := ''x=1'',
     q_headers := [(''Host'', ''flz'')], q_body := ''hello''\<rparr>"

lemma demo_request_ok: "request_ok demo_request"
  by (auto simp: request_ok_def demo_request_def new_HttpRequest_def path_char_def query_char_def is_xdigit_def
      is_digit_def name_ok_def token_char_def is_upper_def is_lower_def value_ok_def value_char_def code_def)

theorem request_round_trip_witness:
  "\<exists>q'. recvRequest request_ragel http_parser_has_error request_finished (http_parser_init zero_http_parser)
      (\<lambda>t. Some (strtoull t)) 4096
      \<lparr>s_in = [RecvData (to_bytes (dump_request demo_request))], s_accept = [], s_out = [], s_open = True\<rparr>
      = (Some q', \<lparr>s_in = [], s_accept = [], s_out = [], s_open = True\<rparr>)
    \<and> q_path q' = ''/a%20b'' \<and> q_body q' = ''hello'' \<and> getHeader q' ''host'' [] = ''flz''"
proof -
  let ?s = "\<lparr>s_in = [RecvData (to_bytes (dump_request demo_request))], s_accept = [], s_out = [], s_open = True\<rparr>"
  have q: "om_sorted ci_key (q_headers demo_request)" "length (q_body demo_request) < 2 ^ 63"
      "om_find ci_key (q_headers demo_request) ''content-length'' = None"
    by (simp_all add: demo_request_def om_sorted_def ci_key_def c_str_def code_def to_lower_def is_upper_def)
  have len: "length (dump_request demo_request) \<le> 4096"
    by (simp add: dump_request_def demo_request_def new_HttpRequest_def HttpMethodToString_def HTTP_METHOD_MAP_def
        dump_version_def dump_connection_def dump_headers_def dump_body_def dec.simps strcaseeq_def ci_key_def
        c_str_def code_def to_lower_def is_upper_def)
  have cast: "(\<lambda>t. Some (strtoull t)) (dec (length (q_body demo_request))) = Some (length (q_body demo_request))"
    using q(2) by (simp add: strtoull_dec)
  have h: "getHeader demo_request ''host'' [] = ''flz''" "\<not> strcaseeq ''host'' ''connection''"
      "\<not> strcaseeq ''host'' ''content-length''"
    by (simp_all add: demo_request_def getHeader_def map_get_def strcaseeq_def ci_key_def c_str_def code_def
        to_lower_def is_upper_def)
  have "s_open ?s" "s_in ?s = RecvData (to_bytes (dump_request demo_request)) # []" by simp_all
  note rt = request_round_trip [OF demo_request_ok q(1,3) this len q(2), where cast = "\<lambda>t. Some (strtoull t)", OF cast,
      of zero_http_parser]
  have d: "q_path demo_request = ''/a%20b''" "q_body demo_request = ''hello''" by (simp_all add: demo_request_def)
  from rt obtain q' where q': "recvRequest request_ragel http_parser_has_error request_finished
        (http_parser_init zero_http_parser) (\<lambda>t. Some (strtoull t)) 4096 ?s = (Some q', ?s\<lparr>s_in := []\<rparr>)"
      "q_path q' = q_path demo_request" "q_body q' = q_body demo_request"
      "\<forall>k d. \<not> strcaseeq k ''connection'' \<longrightarrow> \<not> strcaseeq k ''content-length''
        \<longrightarrow> getHeader q' k d = getHeader demo_request k d" by (elim exE conjE)
  have "getHeader q' ''host'' [] = ''flz''" using q'(4) h by simp
  moreover have "?s\<lparr>s_in := []\<rparr> = \<lparr>s_in = [], s_accept = [], s_out = [], s_open = True\<rparr>" by simp
  ultimately show ?thesis using q'(1) q'(2,3) [unfolded d] by (intro exI [of _ q'] conjI) simp_all
qed

end
