(* ===== verification/Hash_Util_Correct.thy ===== *)
theory Hash_Util_Correct
  imports Hash_Util
begin

text \<open>
  The properties of the hash and text helpers: murmur3 never merges two buffers that differ in
  one aligned block, the base64 and hexadecimal codecs invert each other, and the string
  helpers meet their specifications.
\<close>

section \<open>murmur3 is built of bijections\<close>

lemma mult_inverse_inj:
  fixes c :: u32
  assumes "c * c' = 1"
  shows "inj (\<lambda>x. x * c)"
proof (rule injI)
  fix x y
  assume "x * c = y * c"
  then have "x * (c * c') = y * (c * c')" by (simp only: mult.assoc [symmetric])
  then show "x = y" by (simp only: assms mult_1_right)
qed

lemma ROTL_inj:
  assumes "0 < r" "r < 32"
  shows "inj (\<lambda>x. ROTL x r)"
proof (rule inj_on_inverseI)
  fix x :: u32
  show "(\<lambda>y. drop_bit r y OR push_bit (32 - r) y) (ROTL x r) = x"
  proof (rule bit_word_eqI)
    fix n
    assume "n < LENGTH(32)"
    then have n: "n < 32" by simp
    show "bit (drop_bit r (ROTL x r) OR push_bit (32 - r) (ROTL x r)) n = bit x n"
    proof (cases "n < 32 - r")
      case True
      then have "\<not> bit x (32 - r + (r + n))" "r + n < 32"
        using bit_imp_le_length [of x "32 - r + (r + n)"] assms by auto
      with True n assms show ?thesis by (auto simp: ROTL_def bit_simps)
    next
      case False
      then have "\<not> bit x (n + r - r) \<or> bit x n" "32 - r + (n - (32 - r)) = n" "n - (32 - r) < r"
        using n assms by auto
      with False n assms show ?thesis
        using bit_imp_le_length [of "ROTL x r" "r + n"] by (auto simp: ROTL_def bit_simps)
    qed
  qed
qed

lemma xorshift_inj:
  assumes "s = 13 \<or> s = 16"
  shows "inj (\<lambda>h :: u32. h XOR drop_bit s h)"
proof (rule inj_on_inverseI)
  fix h :: u32
  let ?g = "h XOR drop_bit s h"
  show "(\<lambda>g. g XOR drop_bit s g XOR drop_bit (2 * s) g) ?g = h"
  proof (rule bit_word_eqI)
    fix n
    have far: "\<not> bit h (39 + n)" "\<not> bit h (48 + n)"
      using bit_imp_le_length [of h "39 + n"] bit_imp_le_length [of h "48 + n"] by auto
    show "bit (?g XOR drop_bit s ?g XOR drop_bit (2 * s) ?g) n = bit h n"
      using assms by (elim disjE) (auto simp: bit_simps far)
  qed
qed

lemma mix_s_inj: "inj mix_s"
proof -
  have "inj ((\<lambda>x :: u32. x * 0x1b873593) \<circ> (\<lambda>x. ROTL x 15) \<circ> (\<lambda>x. x * 0xcc9e2d51))"
    by (intro inj_compose mult_inverse_inj [where c' = "0xdee13bb1"] ROTL_inj
        mult_inverse_inj [where c' = "0x56ed309b"]) simp_all
  moreover have "mix_s = (\<lambda>x. x * 0x1b873593) \<circ> (\<lambda>x. ROTL x 15) \<circ> (\<lambda>x. x * 0xcc9e2d51)"
    by (rule ext) (simp add: mix_s_def)
  ultimately show ?thesis by simp
qed

lemma xor_inj: "inj (\<lambda>h :: u32. h XOR s)" "inj (\<lambda>s :: u32. h XOR s)"
  by (rule inj_on_inverseI [where g = "\<lambda>x. x XOR s"], simp add: xor.assoc)
    (rule inj_on_inverseI [where g = "\<lambda>x. h XOR x"], simp flip: xor.assoc)

lemma mix_tail_inj: "inj (\<lambda>x. ROTL x 13 * 5 + 0xe6546b64)"
proof -
  have "inj ((\<lambda>x :: u32. x + 0xe6546b64) \<circ> (\<lambda>x. x * 5) \<circ> (\<lambda>x. ROTL x 13))"
    by (intro inj_compose mult_inverse_inj [where c' = "0xcccccccd"] ROTL_inj)
      (simp_all add: inj_def)
  then show ?thesis by (simp add: comp_def)
qed

lemma mix_block_inj: "inj (mix_block s)"
proof -
  have "inj ((\<lambda>x. ROTL x 13 * 5 + 0xe6546b64) \<circ> (\<lambda>h. h XOR mix_s s))"
    by (intro inj_compose mix_tail_inj xor_inj)
  moreover have "mix_block s = (\<lambda>x. ROTL x 13 * 5 + 0xe6546b64) \<circ> (\<lambda>h. h XOR mix_s s)"
    by (rule ext) (simp add: mix_block_def)
  ultimately show ?thesis by simp
qed

lemma mix_block_inj_s:
  assumes "mix_block s h = mix_block s' h"
  shows "s = s'"
proof -
  have "ROTL (h XOR mix_s s) 13 * 5 + 0xe6546b64 = ROTL (h XOR mix_s s') 13 * 5 + 0xe6546b64"
    using assms unfolding mix_block_def .
  then have "h XOR mix_s s = h XOR mix_s s'" by (rule injD [OF mix_tail_inj])
  then have "mix_s s = mix_s s'" by (rule injD [OF xor_inj(2)])
  then show ?thesis by (rule injD [OF mix_s_inj])
qed

lemma fmix32_inj: "inj fmix32"
proof -
  have "inj ((\<lambda>h :: u32. h XOR drop_bit 16 h) \<circ> (\<lambda>x. x * 0xc2b2ae35)
      \<circ> (\<lambda>h. h XOR drop_bit 13 h) \<circ> (\<lambda>x. x * 0x85ebca6b) \<circ> (\<lambda>h. h XOR drop_bit 16 h))"
    by (intro inj_compose mult_inverse_inj [where c' = "0x7ed1b41d"]
        mult_inverse_inj [where c' = "0xa5cb9243"] xorshift_inj) simp_all
  moreover have "fmix32 = (\<lambda>h :: u32. h XOR drop_bit 16 h) \<circ> (\<lambda>x. x * 0xc2b2ae35)
      \<circ> (\<lambda>h. h XOR drop_bit 13 h) \<circ> (\<lambda>x. x * 0x85ebca6b) \<circ> (\<lambda>h. h XOR drop_bit 16 h)"
    by (rule ext) (simp add: fmix32_def Let_def)
  ultimately show ?thesis by simp
qed

lemma fold_mix_inj: "inj (fold mix_block ss)"
proof (induction ss)
  case Nil
  show ?case by simp
next
  case (Cons s ss)
  then have "inj (fold mix_block ss \<circ> mix_block s)" by (intro inj_compose mix_block_inj)
  then show ?case by (simp only: fold.simps)
qed

lemma blocks_append:
  "length pre mod 4 = 0 \<Longrightarrow> blocks h (pre @ bs) = blocks h pre @ blocks h bs"
proof (induction h pre rule: blocks.induct)
  case (1 h a b c d bs')
  then show ?case by simp
qed auto

lemma mem_load_inj:
  assumes "length xs = 4" "length ys = 4" "mem_load h xs = (mem_load h ys :: u32)"
  shows "xs = ys"
proof -
  have inj: "x = y" if "length x = 4" "length y = 4"
    "(word_of_nat (le_nat x) :: u32) = word_of_nat (le_nat y)" for x y
  proof -
    have "le_nat x = le_nat y"
      using that unat_word_of_le_nat [where 'a = 32, of x] unat_word_of_le_nat [where 'a = 32, of y]
      by (metis nbytes_simps(3) whole_bytes_simps(3))
    then show ?thesis using that le_bytes_le_nat [of x] le_bytes_le_nat [of y] by simp
  qed
  show ?thesis
    using assms inj [of xs ys] inj [of "rev xs" "rev ys"] by (cases h) (auto simp: mem_load_def)
qed

lemma finish_inj: "inj (\<lambda>x. fmix32 ((if T then x else x XOR t) XOR l))"
proof (rule injI)
  fix x y
  assume "fmix32 ((if T then x else x XOR t) XOR l) = fmix32 ((if T then y else y XOR t) XOR l)"
  then have "(if T then x else x XOR t) XOR l = (if T then y else y XOR t) XOR l"
    by (rule injD [OF fmix32_inj])
  then have "(if T then x else x XOR t) = (if T then y else y XOR t)"
    by (rule injD [OF xor_inj(1)])
  then show "x = y" by (cases T) (auto dest: injD [OF xor_inj(1)])
qed

text \<open>
  murmur3 separates any two buffers that differ in exactly one aligned 4-byte block: the
  mixing of a block is injective in the block and in the running hash, and the tail and the
  finaliser are injective, so the difference is never lost.
\<close>

theorem murmur3_block_injective:
  assumes "length pre mod 4 = 0" "length b1 = 4" "length b2 = 4" "b1 \<noteq> b2"
  shows "murmur3_hash h (Some (pre @ b1 @ post)) seed \<noteq> murmur3_hash h (Some (pre @ b2 @ post)) seed"
proof
  assume eq: "murmur3_hash h (Some (pre @ b1 @ post)) seed = murmur3_hash h (Some (pre @ b2 @ post)) seed"
  let ?k = "length (pre @ b1 @ post) div 4 * 4"
  obtain m where m: "length pre = 4 * m" using assms(1) by auto
  have "length (pre @ b1 @ post) div 4 = m + (4 + length post) div 4"
    using m assms(2) by simp
  then have "length pre + 4 \<le> ?k" using m by simp
  then have tails: "drop ?k (pre @ b1 @ post) = drop ?k (pre @ b2 @ post)"
    using assms(2,3) by simp
  define bl where "bl b = fold mix_block (blocks h (pre @ b @ post)) seed" for b
  define T where "T = drop ?k (pre @ b1 @ post)"
  define fin where "fin x = fmix32 ((if T = [] then x else x XOR mix_s (tail_word T))
      XOR word_of_nat (length (pre @ b1 @ post)))" for x
  have "inj fin" unfolding fin_def by (rule finish_inj)
  moreover have "murmur3_hash h (Some (pre @ b1 @ post)) seed = fin (bl b1)"
    unfolding murmur3_hash_def fin_def bl_def Let_def T_def by (simp only: option.case)
  moreover have "murmur3_hash h (Some (pre @ b2 @ post)) seed = fin (bl b2)"
  proof -
    have "length (pre @ b2 @ post) = length (pre @ b1 @ post)" using assms by simp
    then show ?thesis
      unfolding murmur3_hash_def fin_def bl_def Let_def T_def by (simp only: option.case tails)
  qed
  ultimately have "bl b1 = bl b2" using eq by (metis injD)
  moreover have "bl b = fold mix_block (blocks h post)
      (mix_block (mem_load h b) (fold mix_block (blocks h pre) seed))" if "length b = 4" for b
  proof -
    have "length b = Suc (Suc (Suc (Suc 0)))" using that by simp
    then obtain w x y z where b: "b = [w, x, y, z]" by (auto simp: length_Suc_conv)
    show ?thesis using assms(1) by (simp add: bl_def blocks_append b)
  qed
  ultimately have "mem_load h b1 = (mem_load h b2 :: u32)"
    using assms(2,3) injD [OF fold_mix_inj] mix_block_inj_s by metis
  then show False using mem_load_inj assms(2-4) by blast
qed

theorem murmur3_block_injective_witness:
  "murmur3_hash LittleEndian (Some [1, 2, 3, 4, 5]) 7 \<noteq> murmur3_hash LittleEndian (Some [1, 2, 3, 9, 5]) 7"
  using murmur3_block_injective [of "[]" "[1, 2, 3, 4]" "[1, 2, 3, 9]" LittleEndian "[5]" 7] by simp

section \<open>base64\<close>

lemma b64_table: "map b64_val base64_chars = map Some [0..<64] \<and> CHR ''='' \<notin> set base64_chars"
  by (simp add: base64_chars_def b64_val_def is_upper_def is_lower_def is_digit_def code_def
      upt_conv_Cons)

lemma b64_inverse:
  assumes "v < 64"
  shows "b64_val (b64 v) = Some v" "b64 v \<noteq> CHR ''=''"
proof -
  have len: "length base64_chars = 64" by (simp add: base64_chars_def)
  have "map b64_val base64_chars ! v = map Some [0..<64] ! v" using b64_table by simp
  then show "b64_val (b64 v) = Some v" using assms len by (simp add: b64_def)
  show "b64 v \<noteq> CHR ''=''" using b64_table assms len unfolding b64_def by (metis nth_mem)
qed

lemma b64_pack_digit:
  "v < 64 \<Longrightarrow> b64_pack (b64 v # cs) packed 0 = b64_pack cs (packed * 64 + v) 0"
  by (simp add: b64_inverse)

lemma digits64:
  fixes p :: nat
  shows "((p div 262144 * 64 + p div 4096 mod 64) * 64 + p div 64 mod 64) * 64 + p mod 64 = p"
    and "p div 262144 * 64 + p div 4096 mod 64 = p div 4096"
    and "(p div 262144 * 64 + p div 4096 mod 64) * 64 + p div 64 mod 64 = p div 64"
proof -
  have a: "p div 262144 = p div 4096 div 64" by (simp add: div_mult2_eq [symmetric])
  show 2: "p div 262144 * 64 + p div 4096 mod 64 = p div 4096" unfolding a by simp
  have b: "p div 4096 = p div 64 div 64" by (simp add: div_mult2_eq [symmetric])
  show 3: "(p div 262144 * 64 + p div 4096 mod 64) * 64 + p div 64 mod 64 = p div 64"
    unfolding 2 unfolding b by simp
  show "((p div 262144 * 64 + p div 4096 mod 64) * 64 + p div 64 mod 64) * 64 + p mod 64 = p"
    unfolding 3 by simp
qed

lemma base64decode_quad:
  assumes "p < 16777216"
  shows "base64decode_loop ([b64 (p div 262144), b64 (p div 4096 mod 64), b64 (p div 64 mod 64),
      b64 (p mod 64)] @ rest)
    = map_option (\<lambda>out. word_of_nat (p div 65536) # word_of_nat (p div 256) # word_of_nat p # out)
        (base64decode_loop rest)"
proof -
  have "p div 262144 < 64" by (rule less_mult_imp_div_less) (use assms in simp)
  then have "b64_pack [b64 (p div 262144), b64 (p div 4096 mod 64), b64 (p div 64 mod 64),
      b64 (p mod 64)] 0 0 = Some (p, 0)"
    using digits64(1) [of p] by (simp add: b64_pack_digit del: b64_pack.simps(2))
  then show ?thesis by (subst base64decode_loop.simps) simp
qed

lemma pack_bounds:
  fixes x y z :: nat
  shows "x < 256 \<Longrightarrow> y < 256 \<Longrightarrow> (x * 256 + y) * 256 < 64 * 262144"
    and "x < 256 \<Longrightarrow> y < 256 \<Longrightarrow> z < 256 \<Longrightarrow> (x * 256 + y) * 256 + z < 16777216"
  by simp_all

lemma u8_low_byte: "(word_of_nat (x * 256 + unat b) :: u8) = b"
proof (rule word_unat_eq_iff [THEN iffD2])
  show "unat (word_of_nat (x * 256 + unat b) :: u8) = unat b"
    by (simp only: unat_u8_of_nat mod_mult_self3 mod_less u8_less)
qed

lemma base64decode_pad1:
  assumes "p < 64 * 262144" "p div 64 * 64 = p"
  shows "base64decode_loop [b64 (p div 262144), b64 (p div 4096 mod 64), b64 (p div 64 mod 64), CHR ''='']
    = Some [word_of_nat (p div 65536), word_of_nat (p div 256)]"
proof -
  have "p div 262144 < 64" using assms(1) by (rule less_mult_imp_div_less)
  then have "b64_pack [b64 (p div 262144), b64 (p div 4096 mod 64), b64 (p div 64 mod 64), CHR ''=''] 0 0
      = Some (p, 1)"
    using digits64(3) [of p] assms(2) by (simp add: b64_inverse)
  then show ?thesis by (subst base64decode_loop.simps) (simp add: base64decode_loop.simps)
qed

lemma base64decode_pad2:
  assumes "p < 64 * 262144" "p div 4096 * 4096 = p"
  shows "base64decode_loop [b64 (p div 262144), b64 (p div 4096 mod 64), CHR ''='', CHR ''='']
    = Some [word_of_nat (p div 65536)]"
proof -
  have "p div 262144 < 64" using assms(1) by (rule less_mult_imp_div_less)
  then have "b64_pack [b64 (p div 262144), b64 (p div 4096 mod 64), CHR ''='', CHR ''=''] 0 0
      = Some (p, 2)"
    using digits64(2) [of p] assms(2) by (simp add: b64_inverse)
  then show ?thesis by (subst base64decode_loop.simps) (simp add: base64decode_loop.simps)
qed

lemma pack_bytes:
  fixes x y z :: nat
  assumes "x < 256" "y < 256" "z < 256"
  shows "((x * 256 + y) * 256 + z) div 65536 = x" "((x * 256 + y) * 256 + z) div 256 = x * 256 + y"
    "(x * 256 + y) * 256 div 65536 = x" "(x * 256 + y) * 256 div 256 = x * 256 + y"
    "(x * 256 + y) * 256 div 64 * 64 = (x * 256 + y) * 256"
    "x * 65536 div 65536 = x" "x * 65536 div 4096 * 4096 = x * 65536" "x * 65536 < 64 * 262144"
  using assms by simp_all

lemma base64decode_encode_loop: "base64decode_loop (base64encode d) = Some d"
proof (induction d rule: base64encode.induct)
  case 1
  show ?case by (simp add: base64decode_loop.simps)
next
  case (2 a)
  note k = pack_bytes [OF u8_less u8_less u8_less]
  show ?case
    unfolding base64encode.simps Let_def base64decode_pad2 [OF k(8) [of a] k(7) [of a]] k(6) by simp
next
  case (3 a b)
  note k = pack_bytes [OF u8_less [of a] u8_less [of b] u8_less [of b]]
  show ?case
    unfolding base64encode.simps Let_def
      base64decode_pad1 [OF pack_bounds(1) [OF u8_less u8_less] k(5)] k(3,4) u8_low_byte by simp
next
  case (4 a b c rest)
  note k = pack_bytes [OF u8_less [of a] u8_less [of b] u8_less [of c]]
  show ?case
    unfolding base64encode.simps Let_def
      base64decode_quad [OF pack_bounds(2) [OF u8_less u8_less u8_less]] k(1,2) u8_low_byte 4
    by simp
qed

text \<open>
  base64: decoding what was encoded gives the data back, and the encoding has four
  characters for every three bytes, rounded up.
\<close>

theorem base64_round_trip:
  "base64decode (base64encode d) = d \<and> length (base64encode d) = 4 * ((length d + 2) div 3)"
proof
  show "base64decode (base64encode d) = d"
    by (simp add: base64decode_def base64decode_encode_loop)
  show "length (base64encode d) = 4 * ((length d + 2) div 3)"
  proof (induction d rule: base64encode.induct)
    case (4 a b c rest)
    have "(length (a # b # c # rest) + 2) div 3 = Suc ((length rest + 2) div 3)"
      using Suc_div_eq [of 3 "length rest + 5" "length rest + 2"] by (simp add: add.commute)
    moreover have "length (base64encode (a # b # c # rest)) = 4 + length (base64encode rest)"
      by (simp add: Let_def)
    ultimately show ?case using 4 by linarith
  qed (simp_all add: Let_def)
qed

section \<open>Hexadecimal text\<close>

lemma hex_val_bound: "hex_val c = Some v \<Longrightarrow> v < 16"
  by (auto simp: hex_val_def split: if_splits)

lemma hex_val_digit:
  assumes "unat x < 16"
  shows "hex_val (hex_digit x) = Some (unat x)"
  using assms by (simp add: hex_val_def hex_digit_def)

lemma nibbles:
  fixes b :: u8
  shows "unat (drop_bit 4 b AND 0xf) < 16" "unat (b AND 0xf) < 16"
    "push_bit 4 (drop_bit 4 b AND 0xf) OR (b AND 0xf) = b"
proof -
  have m: "(0xf :: u8) = mask 4" by (simp add: mask_eq_exp_minus_1)
  have "unat (x AND 0xf) < 16" for x :: u8
  proof -
    have "x AND 0xf \<le> 0xf" by (rule word_and_le1)
    then show ?thesis by (simp add: word_le_nat_alt)
  qed
  then show "unat (drop_bit 4 b AND 0xf) < 16" "unat (b AND 0xf) < 16" by blast+
  show "push_bit 4 (drop_bit 4 b AND 0xf) OR (b AND 0xf) = b"
    unfolding m by (rule bit_word_eqI) (auto simp: bit_simps not_less)
qed

lemma data_from_hexstring_loop_data: "data_from_hexstring_loop (hexstring_from_data d) = Inr d"
proof (induction d)
  case Nil
  show ?case by (simp add: hexstring_from_data_def)
next
  case (Cons b d)
  have "hexstring_from_data (b # d)
      = hex_digit (drop_bit 4 b AND 0xf) # hex_digit (b AND 0xf) # hexstring_from_data d"
    by (simp add: hexstring_from_data_def)
  then show ?case
    using Cons nibbles [of b] by (simp add: hex_val_digit del: word_of_nat_eq_iff)
qed

lemma even_length_hexstring: "length (hexstring_from_data d) = 2 * length d"
  by (induction d) (simp_all add: hexstring_from_data_def)

lemma data_from_hexstring_loop_total:
  "even (length s) \<Longrightarrow> (\<exists>d. data_from_hexstring_loop s = Inr d) = (\<forall>c \<in> set s. hex_val c \<noteq> None)"
  by (induction s rule: data_from_hexstring_loop.induct) (auto split: option.splits sum.splits)

text \<open>
  Hexadecimal text: parsing what was printed gives the data back; an odd length is
  reported as such, and otherwise parsing succeeds exactly when every character is a
  hexadecimal digit.
\<close>

theorem hexstring_correct:
  "data_from_hexstring (hexstring_from_data d) = Inr d
   \<and> length (hexstring_from_data d) = 2 * length d
   \<and> data_from_hexstring s = (if odd (length s) then Inl OddLength
       else if \<forall>c \<in> set s. hex_val c \<noteq> None then data_from_hexstring_loop s else Inl InvalidHex)"
proof (intro conjI)
  show "data_from_hexstring (hexstring_from_data d) = Inr d"
    by (simp add: data_from_hexstring_def even_length_hexstring data_from_hexstring_loop_data)
  show "length (hexstring_from_data d) = 2 * length d" by (rule even_length_hexstring)
  have err: "data_from_hexstring_loop s = Inl e \<Longrightarrow> e = InvalidHex" for s e
    by (induction s rule: data_from_hexstring_loop.induct) (auto split: option.splits sum.splits)
  show "data_from_hexstring s = (if odd (length s) then Inl OddLength
      else if \<forall>c \<in> set s. hex_val c \<noteq> None then data_from_hexstring_loop s else Inl InvalidHex)"
  proof (cases "even (length s)")
    case False
    then show ?thesis by (simp add: data_from_hexstring_def odd_iff_mod_2_eq_one)
  next
    case True
    then show ?thesis
      using data_from_hexstring_loop_total [OF True] err
      by (cases "data_from_hexstring_loop s") (auto simp: data_from_hexstring_def)
  qed
qed

theorem hexstring_correct_witness:
  "data_from_hexstring ''zz'' = Inl InvalidHex \<and> data_from_hexstring (hexstring_from_data [7]) = Inr [7]"
  using hexstring_correct [of "[7]" "''zz''"] by (auto simp: hex_val_def code_def)

section \<open>Splitting and replacing\<close>

lemma split_loop_nonempty: "split_loop P s m \<noteq> []"
  by (subst split_loop.simps) (simp split: option.splits)

text \<open>The parts, each but the last followed by the delimiter that ended it.\<close>

fun glue :: "char \<Rightarrow> string list \<Rightarrow> string" where
  "glue c [] = []"
| "glue c [p] = p"
| "glue c (p # q # ps) = p @ c # glue c (q # ps)"

lemma glue_split_loop: "glue c (split_loop (\<lambda>x. x = c) s m) = s"
proof (induction "\<lambda>x. x = c" s m rule: split_loop.induct)
  case (1 s m)
  show ?case
  proof (cases "find_idx (\<lambda>x. x = c) s")
    case None
    then show ?thesis by (subst split_loop.simps) simp
  next
    case (Some p)
    have whole: "take p s @ c # drop (Suc p) s = s"
      using find_idx_split [OF Some] find_idx_Some [OF Some] by simp
    have gl: "glue c (take p s # ps) = take p s @ c # glue c ps" if "ps \<noteq> []" for ps
      using that by (cases ps) simp_all
    show ?thesis
    proof (cases "m - 1 = 1")
      case True
      then show ?thesis using Some by (subst split_loop.simps) (simp add: whole)
    next
      case False
      then show ?thesis
        using Some 1 [OF Some False]
        by (subst split_loop.simps) (simp add: gl split_loop_nonempty whole)
    qed
  qed
qed

lemma split_loop_parts:
  "\<forall>p \<in> set (butlast (split_loop P s m)). \<forall>x \<in> set p. \<not> P x"
proof (induction P s m rule: split_loop.induct)
  case (1 P s m)
  show ?case
  proof (cases "find_idx P s")
    case None
    then show ?thesis by (subst split_loop.simps) simp
  next
    case (Some p)
    have free: "\<forall>x \<in> set (take p s). \<not> P x" using find_idx_Some [OF Some] by simp
    show ?thesis
    proof (cases "m - 1 = 1")
      case True
      then have "split_loop P s m = [take p s, drop (Suc p) s]"
        using Some by (subst split_loop.simps) simp
      then show ?thesis using free by simp
    next
      case False
      then have "split_loop P s m = take p s # split_loop P (drop (Suc p) s) (m - 1)"
        using Some by (subst split_loop.simps) simp
      then show ?thesis using free 1 [OF Some False] by (simp add: split_loop_nonempty)
    qed
  qed
qed

lemma split_loop_limit: "2 \<le> unat m \<Longrightarrow> length (split_loop P s m) \<le> unat m"
proof (induction P s m rule: split_loop.induct)
  case (1 P s m)
  have m: "unat (m - 1) = unat m - 1"
    using "1.prems" by (intro unat_minus_one) auto
  show ?case
  proof (cases "find_idx P s")
    case None
    then show ?thesis using "1.prems" by (subst split_loop.simps) simp
  next
    case (Some p)
    show ?thesis
    proof (cases "m - 1 = 1")
      case True
      then show ?thesis using Some "1.prems" by (subst split_loop.simps) simp
    next
      case False
      then have "unat (m - 1) \<noteq> 1" by (metis unat_1 word_unat_eq_iff)
      with "1.prems" m have "2 \<le> unat (m - 1)" by linarith
      with 1(1) [OF Some False] m show ?thesis
        using Some False "1.prems" by (subst split_loop.simps) simp
    qed
  qed
qed

text \<open>
  \<open>split\<close>: joining the parts with the delimiter gives the string back, no part but the
  last contains the delimiter, and a limit of at least two bounds the number of parts.
\<close>

theorem split_correct:
  assumes "s \<noteq> []"
  shows "glue c (split s c m) = s \<and> (\<forall>p \<in> set (butlast (split s c m)). c \<notin> set p)
    \<and> (2 \<le> unat m \<longrightarrow> length (split s c m) \<le> unat m)"
  using assms glue_split_loop [of c s m] split_loop_parts [of "\<lambda>x. x = c" s m]
    split_loop_limit [of m "\<lambda>x. x = c" s]
  by (auto simp: split_def)

theorem split_correct_witness:
  "glue CHR '','' (split ''a,b,c'' CHR '','' 2) = ''a,b,c''"
  using split_correct [of "''a,b,c''" "CHR '',''" 2] by simp

text \<open>A limit of one does not limit: the decrement wraps.\<close>

lemma split_one: "split ''a,b,c'' CHR '','' 1 = [''a'', ''b'', ''c'']"
  by (simp add: split_def split_loop.simps)

lemma replace_char_map: "replace_char s f r = map (\<lambda>c. if c = f then r else c) s"
proof (induction s f r rule: replace_char.induct)
  case (1 s f r)
  show ?case
  proof (cases "find_idx (\<lambda>c. c = f) s")
    case None
    then have "map (\<lambda>c. if c = f then r else c) s = s"
      by (intro map_idI) (auto simp: find_idx_None)
    then show ?thesis using None by (subst replace_char.simps) simp
  next
    case (Some i)
    note at = find_idx_Some [OF Some]
    have "map (\<lambda>c. if c = f then r else c) (take i s) = take i s"
      using at by (intro map_idI) auto
    then have "map (\<lambda>c. if c = f then r else c) (take i s @ s ! i # drop (Suc i) s)
        = take i s @ r # replace_char (drop (Suc i) s) f r"
      using at 1 [OF Some] by simp
    then show ?thesis
      using Some find_idx_split [OF Some, symmetric] by (subst replace_char.simps) simp
  qed
qed

lemma replace_char_str_concat:
  "replace_char_str s f r = concat (map (\<lambda>c. if c = f then r else [c]) s)"
proof (induction s f r rule: replace_char_str.induct)
  case (1 s f r)
  have keep: "concat (map (\<lambda>c. if c = f then r else [c]) t) = t" if "\<forall>c \<in> set t. c \<noteq> f" for t
    using that by (induction t) auto
  show ?case
  proof (cases "find_idx (\<lambda>c. c = f) s")
    case None
    then have "concat (map (\<lambda>c. if c = f then r else [c]) s) = s"
      by (intro keep) (auto simp: find_idx_None)
    then show ?thesis using None by (subst replace_char_str.simps) simp
  next
    case (Some i)
    note at = find_idx_Some [OF Some]
    have "concat (map (\<lambda>c. if c = f then r else [c]) (take i s @ s ! i # drop (Suc i) s))
        = take i s @ r @ replace_char_str (drop (Suc i) s) f r"
      using at 1 [OF Some] by (simp add: keep)
    then show ?thesis
      using Some find_idx_split [OF Some, symmetric] by (subst replace_char_str.simps) simp
  qed
qed

lemma replace_str_terminates: "f \<noteq> [] \<Longrightarrow> \<exists>out. replace_str s f r = Some out"
proof (induction s rule: length_induct)
  case (1 s)
  show ?case
  proof (cases "find_sub f s")
    case None
    then show ?thesis by (subst replace_str.simps) simp
  next
    case (Some i)
    from find_sub_Some [OF Some] have "length (drop (i + length f) s) < length s"
      using 1(2) by (cases s) (auto simp: Suc_diff_le)
    with 1 obtain out where "replace_str (drop (i + length f) s) f r = Some out" by blast
    with Some show ?thesis by (subst replace_str.simps) simp
  qed
qed

end
