(* ===== verification/WS_Connection_Correct.thy ===== *)
theory WS_Connection_Correct
  imports WS_Connection Http_Exchange_Correct Hash_Util_Correct
begin

text \<open>
  The handshake of the two sides: what the client sends, the server takes for the request of a
  websocket and answers with the value that belongs to the key.
\<close>

section \<open>The headers of the request\<close>












section \<open>The request is one that the parser takes\<close>











section \<open>The handshake\<close>








end
