(* ===== verification/Simple_Http.thy ===== *)
theory Simple_Http
  imports Http_Message "HOL-Library.AList"
begin

text \<open>
  \<^verbatim>\<open>src/httpService_x.cc\<close>: a small HTTP server of its own, from the text of a request to the text of
  the response.  An \<open>unordered_map\<close> is a list of entries in the unspecified order of iteration;
  the contents of a file are a function of its path.
\<close>

section \<open>Requests\<close>

record SimpleRequest =
  sq_req_line :: string
  sq_req_headers :: "string list"
  sq_body_text :: string
  sq_method :: string
  sq_url :: string
  sq_path :: string
  sq_suffix :: string
  sq_version :: string
  sq_headers_kv :: "(string \<times> string) list"

definition new_SimpleRequest :: SimpleRequest where
  "new_SimpleRequest = \<lparr>sq_req_line = [], sq_req_headers = [], sq_body_text = [], sq_method = [], sq_url = [], sq_path = [],
     sq_suffix = [], sq_version = [], sq_headers_kv = []\<rparr>"

definition getLine :: "string \<Rightarrow> string \<times> string" where
  "getLine req = (case find_sub crlf req of
       None \<Rightarrow> ([], req)
     | Some pos \<Rightarrow> let line = take pos req in (if line = [] then crlf else line, drop (length line + 2) req))"

text \<open>The header lines, up to an empty one or the end of the complete lines, with what is left.\<close>

lemma crlf_length [simp]: "length crlf = 2"
  by (simp add: crlf_def)

lemma getLine_shorter: "getLine req = (l, rest) \<Longrightarrow> l \<noteq> [] \<Longrightarrow> length rest < length req"
proof -
  assume h: "getLine req = (l, rest)" "l \<noteq> []"
  then obtain pos where p: "find_sub crlf req = Some pos" by (cases "find_sub crlf req") (auto simp: getLine_def)
  then have "req \<noteq> []" by (auto simp: crlf_def)
  then show ?thesis using h p by (auto simp: getLine_def Let_def)
qed

function header_loop :: "string \<Rightarrow> string list \<times> string" where
  "header_loop req = (case getLine req of (h, rest) \<Rightarrow>
     if h = [] \<or> h = crlf then ([], rest)
     else (case header_loop rest of (hs, rest') \<Rightarrow> (h # hs, rest')))"
  by pat_completeness auto
termination
  by (relation "measure length") (simp, metis getLine_shorter in_measure)

declare header_loop.simps [simp del]

text \<open>\<open>ss >> word\<close>: the next word, empty when there is none.\<close>

definition next_word :: "string \<Rightarrow> string \<times> string" where
  "next_word s = (let t = dropWhile is_space s in (takeWhile (\<lambda>c. \<not> is_space c) t, dropWhile (\<lambda>c. \<not> is_space c) t))"

definition parseReqLine :: "SimpleRequest \<Rightarrow> SimpleRequest" where
  "parseReqLine q = (case next_word (sq_req_line q) of (method, s1) \<Rightarrow> (case next_word s1 of (url, s2) \<Rightarrow>
     (case next_word s2 of (version, s3) \<Rightarrow>
       let cut = (if strcaseeq method ''GET'' then find_idx (\<lambda>c. c = CHR ''?'') url else None);
           url' = (case cut of None \<Rightarrow> url | Some pos \<Rightarrow> take pos url);
           path = (if url' \<noteq> [] \<and> last url' = CHR ''/'' then url' @ ''index.html'' else url')
       in q\<lparr>sq_method := method, sq_url := url', sq_version := version,
            sq_body_text := (case cut of None \<Rightarrow> sq_body_text q | Some pos \<Rightarrow> drop (pos + 1) url),
            sq_path := path,
            sq_suffix := (case rfind_idx (\<lambda>c. c = CHR ''.'') path of None \<Rightarrow> ''.default'' | Some pos \<Rightarrow> drop pos path)\<rparr>)))"

definition header_entry :: "string \<Rightarrow> (string \<times> string) list \<Rightarrow> (string \<times> string) list" where
  "header_entry h kv = (case find_sub '': '' h of
       None \<Rightarrow> kv
     | Some pos \<Rightarrow> if take pos h = [] \<or> drop (pos + 2) h = [] then kv else AList.update (take pos h) (drop (pos + 2) h) kv)"

definition parseReqHeader :: "SimpleRequest \<Rightarrow> SimpleRequest" where
  "parseReqHeader q = q\<lparr>sq_headers_kv := fold header_entry (sq_req_headers q) (sq_headers_kv q)\<rparr>"

definition deserialize :: "string \<Rightarrow> SimpleRequest" where
  "deserialize reqstr = (case getLine reqstr of (line, s1) \<Rightarrow> (case header_loop s1 of (hs, rest) \<Rightarrow>
     parseReqHeader (parseReqLine (new_SimpleRequest\<lparr>sq_req_line := line, sq_req_headers := hs, sq_body_text := rest\<rparr>))))"

section \<open>Responses\<close>

text \<open>The status code is not initialised: \<open>None\<close> until \<open>addCode\<close>.\<close>

record SimpleResponse =
  sr_version :: string
  sr_status_code :: "int option"
  sr_desc :: string
  sr_headers_kv :: "(string \<times> string) list"
  sr_body_text :: string

definition new_SimpleResponse :: SimpleResponse where
  "new_SimpleResponse = \<lparr>sr_version = ''HTTP/1.0'', sr_status_code = None, sr_desc = [], sr_headers_kv = [], sr_body_text = []\<rparr>"

definition addCode :: "int \<Rightarrow> string \<Rightarrow> SimpleResponse \<Rightarrow> SimpleResponse" where
  "addCode n desc p = p\<lparr>sr_status_code := Some n, sr_desc := desc\<rparr>"

definition addHeader :: "string \<Rightarrow> string \<Rightarrow> SimpleResponse \<Rightarrow> SimpleResponse" where
  "addHeader k v p = p\<lparr>sr_headers_kv := AList.update k v (sr_headers_kv p)\<rparr>"

definition addBodyText :: "string \<Rightarrow> SimpleResponse \<Rightarrow> SimpleResponse" where
  "addBodyText t p = p\<lparr>sr_body_text := t\<rparr>"

text \<open>\<open>None\<close> is a text with a number that was never set.\<close>

definition serialize :: "SimpleResponse \<Rightarrow> string option" where
  "serialize p = (case sr_status_code p of None \<Rightarrow> None | Some n \<Rightarrow>
     Some (sr_version p @ '' '' @ dec_int n @ '' '' @ sr_desc p @ crlf
       @ concat (map (\<lambda>(k, v). k @ '': '' @ v @ crlf) (sr_headers_kv p)) @ crlf @ sr_body_text p))"

section \<open>The server\<close>

definition mime_type :: "string \<Rightarrow> string" where
  "mime_type suffix = (if suffix = ''.html'' \<or> suffix = ''.default'' then ''text/html'' else if suffix = ''.jpg'' then ''image/jpeg''
     else if suffix = ''.png'' then ''image/png'' else [])"

type_synonym services = "(string \<times> (SimpleRequest \<Rightarrow> SimpleResponse)) list"

definition insertService :: "string \<Rightarrow> (SimpleRequest \<Rightarrow> SimpleResponse) \<Rightarrow> services \<Rightarrow> services" where
  "insertService name f sv = AList.update name f sv"

definition handlerHttpRequest :: "(string \<Rightarrow> string) \<Rightarrow> services \<Rightarrow> string \<Rightarrow> string option" where
  "handlerHttpRequest getFileContent sv reqstr = (let request = deserialize reqstr in serialize (
     if sq_path request = ''wwwroot/redir'' then
       addHeader ''Location'' ''https://www.baidu.com'' (addCode 301 ''Moved Permanently'' new_SimpleResponse)
     else if sq_body_text request \<noteq> [] then
       (case map_of sv (sq_path request) of Some f \<Rightarrow> f request | None \<Rightarrow> new_SimpleResponse)
     else let content = getFileContent (sq_path request) in
       if content = [] then let content = getFileContent ''wwwroot/404.html'' in
         addBodyText content (addHeader ''Content-Type'' (mime_type ''.html'')
           (addHeader ''Content-Length'' (dec (length content)) (addCode 404 ''Not Found'' new_SimpleResponse)))
       else addBodyText content (addHeader ''Set-Cookie'' ''username=admin''
         (addHeader ''Content-Type'' (mime_type (sq_suffix request))
           (addHeader ''Content-Length'' (dec (length content)) (addCode 200 ''Ok'' new_SimpleResponse))))))"

section \<open>Lemmas\<close>

text \<open>A text without a line end in front of one.\<close>

definition no_line_end :: "string \<Rightarrow> bool" where
  "no_line_end s \<longleftrightarrow> CHR 0x0D \<notin> set s"

lemma find_crlf:
  assumes "no_line_end s"
  shows "find_sub crlf (s @ crlf @ rest) = Some (length s)"
proof -
  have c: "crlf = [CHR 0x0D, CHR 0x0A]" by code_simp
  show ?thesis using assms by (induction s) (auto simp: c no_line_end_def)
qed

lemma getLine_line: "no_line_end s \<Longrightarrow> getLine (s @ crlf @ rest) = (if s = [] then crlf else s, rest)"
  by (simp add: getLine_def find_crlf Let_def)

lemma header_loop_lines:
  assumes "\<forall>h \<in> set hs. h \<noteq> [] \<and> no_line_end h"
  shows "header_loop (concat (map (\<lambda>h. h @ crlf) hs) @ crlf @ body) = (hs, body)"
  using assms
proof (induction hs)
  case Nil
  have "getLine (crlf @ body) = (crlf, body)" using getLine_line [of "[]" body] by (simp add: no_line_end_def)
  then show ?case by (subst header_loop.simps) simp
next
  case (Cons h hs)
  have "CHR 0x0D \<in> set crlf" by code_simp
  then have "h \<noteq> crlf" "h \<noteq> []" using Cons.prems by (auto simp: no_line_end_def)
  moreover have "getLine (concat (map (\<lambda>h. h @ crlf) (h # hs)) @ crlf @ body) = (h, concat (map (\<lambda>h. h @ crlf) hs) @ crlf @ body)"
    using getLine_line [of h] Cons.prems by simp
  ultimately show ?case using Cons by (subst header_loop.simps) simp
qed

text \<open>Every request that is complete is taken apart: its line, its headers and its body.\<close>

lemma deserialize_lines:
  assumes "line \<noteq> []" "no_line_end line" "\<forall>h \<in> set hs. h \<noteq> [] \<and> no_line_end h"
  shows "deserialize (line @ crlf @ concat (map (\<lambda>h. h @ crlf) hs) @ crlf @ body)
    = parseReqHeader (parseReqLine (new_SimpleRequest\<lparr>sq_req_line := line, sq_req_headers := hs, sq_body_text := body\<rparr>))"
  using assms by (simp add: deserialize_def getLine_line header_loop_lines)

definition plain_word :: "string \<Rightarrow> bool" where
  "plain_word w \<longleftrightarrow> w \<noteq> [] \<and> (\<forall>c \<in> set w. \<not> is_space c)"

lemma space [simp]: "is_space (CHR '' '')"
  by (simp add: is_space_def code_def)

lemma word_then: "plain_word w \<Longrightarrow> takeWhile (\<lambda>c. \<not> is_space c) (w @ CHR '' '' # s) = w"
  "plain_word w \<Longrightarrow> dropWhile (\<lambda>c. \<not> is_space c) (w @ CHR '' '' # s) = CHR '' '' # s"
  by (simp_all add: plain_word_def takeWhile_append2 dropWhile_append2)

lemma word_last: "plain_word w \<Longrightarrow> takeWhile (\<lambda>c. \<not> is_space c) w = w" "plain_word w \<Longrightarrow> dropWhile (\<lambda>c. \<not> is_space c) w = []"
  by (simp_all add: plain_word_def)

lemma word_first: "plain_word w \<Longrightarrow> dropWhile is_space (w @ s) = w @ s"
  by (cases w) (auto simp: plain_word_def)

lemma next_word_more: "plain_word w \<Longrightarrow> next_word (w @ CHR '' '' # s) = (w, CHR '' '' # s)"
  by (simp add: next_word_def word_first word_then)

lemma next_word_space: "plain_word w \<Longrightarrow> next_word (CHR '' '' # w @ CHR '' '' # s) = (w, CHR '' '' # s)"
  by (simp add: next_word_def word_first word_then)

lemma next_word_last: "plain_word w \<Longrightarrow> next_word (CHR '' '' # w) = (w, [])"
  using word_first [of w "[]"] by (simp add: next_word_def word_last)

lemma parse_line:
  assumes "plain_word m" "plain_word u" "plain_word v"
  shows "parseReqLine (q\<lparr>sq_req_line := m @ CHR '' '' # u @ CHR '' '' # v\<rparr>) =
    (let cut = (if strcaseeq m ''GET'' then find_idx (\<lambda>c. c = CHR ''?'') u else None);
         url' = (case cut of None \<Rightarrow> u | Some pos \<Rightarrow> take pos u);
         path = (if url' \<noteq> [] \<and> last url' = CHR ''/'' then url' @ ''index.html'' else url')
     in q\<lparr>sq_req_line := m @ CHR '' '' # u @ CHR '' '' # v, sq_method := m, sq_url := url', sq_version := v,
            sq_body_text := (case cut of None \<Rightarrow> sq_body_text q | Some pos \<Rightarrow> drop (pos + 1) u), sq_path := path,
            sq_suffix := (case rfind_idx (\<lambda>c. c = CHR ''.'') path of None \<Rightarrow> ''.default'' | Some pos \<Rightarrow> drop pos path)\<rparr>)"
  by (simp add: parseReqLine_def next_word_more [OF assms(1)] next_word_space [OF assms(2)] next_word_last [OF assms(3)] Let_def
      cong: option.case_cong)

text \<open>
  The path of the request is the path of the file: there is no directory in front of it, so every
  file that the process may read is served.
\<close>

lemma serves_any_file:
  assumes "plain_word p" "CHR ''?'' \<notin> set p" "last p \<noteq> CHR ''/''" "p \<noteq> ''wwwroot/redir''" "files p \<noteq> []"
  shows "\<exists>head. handlerHttpRequest files sv ((''GET'' @ CHR '' '' # p @ CHR '' '' # ''HTTP/1.1'') @ crlf @ crlf) = Some (head @ files p)"
proof -
  let ?line = "''GET'' @ CHR '' '' # p @ CHR '' '' # ''HTTP/1.1''"
  have w: "plain_word ''GET''" "plain_word ''HTTP/1.1''" by (simp_all add: plain_word_def is_space_def code_def)
  have sp: "\<forall>c \<in> set p. \<not> is_space c" using assms(1) by (auto simp: plain_word_def)
  have "\<not> is_space c \<Longrightarrow> c \<noteq> CHR 0x0D" for c by (auto simp: is_space_def code_def)
  with sp have "no_line_end ?line" by (auto simp: no_line_end_def)
  from deserialize_lines [OF _ this, of "[]" "[]"]
  have d: "deserialize (?line @ crlf @ crlf) = parseReqHeader (parseReqLine (new_SimpleRequest\<lparr>sq_req_line := ?line\<rparr>))"
    by (simp add: new_SimpleRequest_def)
  have f: "find_idx (\<lambda>c. c = CHR ''?'') p = None" using assms(2) by (auto simp: find_idx_None)
  have r: "sq_path (deserialize (?line @ crlf @ crlf)) = p \<and> sq_body_text (deserialize (?line @ crlf @ crlf)) = []"
    unfolding d parse_line [OF w(1) assms(1) w(2)] using assms(3) f
    by (simp add: parseReqHeader_def new_SimpleRequest_def Let_def)
  have "\<exists>head. serialize (addBodyText t (addHeader a b (addHeader c' e (addHeader g h (addCode n i new_SimpleResponse))))) = Some (head @ t)"
    for t a b c' e g h n i
    by (intro exI) (simp add: serialize_def addCode_def addHeader_def addBodyText_def new_SimpleResponse_def flip: append_assoc append_Cons)
  with r assms(4,5) show ?thesis unfolding handlerHttpRequest_def Let_def by simp
qed

text \<open>A request with a body for a service that is not there is answered with a status that was never set.\<close>

lemma unknown_service_status:
  assumes "sq_path (deserialize reqstr) \<noteq> ''wwwroot/redir''" "sq_body_text (deserialize reqstr) \<noteq> []"
    and "map_of sv (sq_path (deserialize reqstr)) = None"
  shows "handlerHttpRequest files sv reqstr = None"
  using assms by (simp add: handlerHttpRequest_def serialize_def new_SimpleResponse_def Let_def)

text \<open>The query of a GET request takes the place of its body.\<close>

lemma query_replaces_body:
  assumes "plain_word u" "plain_word v" "find_idx (\<lambda>c. c = CHR ''?'') u = Some i"
  shows "sq_body_text (parseReqLine (q\<lparr>sq_req_line := ''GET'' @ CHR '' '' # u @ CHR '' '' # v\<rparr>)) = drop (i + 1) u"
proof -
  have "plain_word ''GET''" by (simp add: plain_word_def is_space_def code_def)
  from parse_line [OF this assms(1,2), of q] assms(3) show ?thesis by (simp add: Let_def strcaseeq_def)
qed

end
