(* ===== verification/MySQL_Correct.thy ===== *)
theory MySQL_Correct
  imports MySQL_Manager "HOL-Library.Multiset"
begin

text \<open>
  What is sent to the server by a transaction, where every connection of the manager is, and in
  which order a result is read.
\<close>

section \<open>Transactions\<close>

datatype tx_op = TxExecute string | TxCommit | TxRollback

fun tx_run :: "'w mysql_api \<Rightarrow> tx_op list \<Rightarrow> 'w tx \<Rightarrow> 'w tx option" where
  "tx_run api [] s = Some s"
| "tx_run api (TxExecute sql # ops) s = (case tx_execute api sql s of None \<Rightarrow> None | Some (_, s') \<Rightarrow> tx_run api ops s')"
| "tx_run api (TxCommit # ops) s = (case tx_commit api s of None \<Rightarrow> None | Some (_, s') \<Rightarrow> tx_run api ops s')"
| "tx_run api (TxRollback # ops) s = (case tx_rollback api s of None \<Rightarrow> None | Some (_, s') \<Rightarrow> tx_run api ops s')"

definition closing :: "string \<times> int \<Rightarrow> bool" where
  "closing e \<longleftrightarrow> e = (''COMMIT'', 0) \<or> e = (''ROLLBACK'', 0)"

text \<open>
  The state of a transaction goes with what was sent since \<open>BEGIN\<close>: it is finished only if the last
  command was a successful end, and without an error only if all of them succeeded.
\<close>

definition tx_inv :: "(string \<times> int) list \<Rightarrow> 'w tx \<Rightarrow> bool" where
  "tx_inv sent0 s \<longleftrightarrow> (case s of (t, m, w) \<Rightarrow> \<exists>log. g_sent m = sent0 @ (''BEGIN'', 0) # log
     \<and> (t_isFinished t \<longrightarrow> log \<noteq> [] \<and> closing (last log))
     \<and> (\<not> t_hasError t \<longrightarrow> (\<forall>e \<in> set log. snd e = 0)))"

lemma c_str_words [simp]: "c_str ''BEGIN'' = ''BEGIN''" "c_str ''COMMIT'' = ''COMMIT''" "c_str ''ROLLBACK'' = ''ROLLBACK''"
  by code_simp+

lemma sql_execute_sent:
  assumes "sql_execute api sql (m, w) = Some (r, m', w')"
  shows "g_sent m' = g_sent m @ [(c_str sql, r)] \<and> m_mysql m' = m_mysql m \<and> m_poolSize m' = m_poolSize m"
  using assms by (auto simp: sql_execute_def split: option.splits prod.splits)

lemma tx_executeE:
  assumes "tx_execute api sql (t, m, w) = Some (r, t', m', w')"
  obtains "t_isFinished t" "r = -1" "t' = t" "m' = m" "w' = w"
  | "\<not> t_isFinished t" "sql_execute api sql (m, w) = Some (r, m', w')" "t' = (if r \<noteq> 0 then t\<lparr>t_hasError := True\<rparr> else t)"
  using assms by (auto simp: tx_execute_def split: if_splits option.splits)

definition ended :: "int \<Rightarrow> MySQLTransaction \<Rightarrow> MySQLTransaction" where
  "ended r t = (if r = 0 then t\<lparr>t_isFinished := True\<rparr> else t\<lparr>t_hasError := True\<rparr>)"

lemma ended_simps [simp]:
  "t_isFinished (ended r t) \<longleftrightarrow> t_isFinished t \<or> r = 0" "t_hasError (ended r t) \<longleftrightarrow> t_hasError t \<or> r \<noteq> 0"
  "t_autoCommit (ended r t) = t_autoCommit t"
  by (auto simp: ended_def)

lemma tx_close_execute:
  assumes "tx_execute api sql (t, m, w) = Some p" "\<not> t_isFinished t"
  shows "\<exists>r m' w'. sql_execute api sql (m, w) = Some (r, m', w') \<and> tx_close p = (r = 0, ended r t, m', w')"
  using assms by (auto simp: tx_execute_def tx_close_def ended_def split: option.splits)

lemma tx_commitE:
  assumes "tx_commit api (t, m, w) = Some (b, t', m', w')"
  obtains "t_isFinished t \<or> t_hasError t" "t' = t" "m' = m" "w' = w"
  | r where "\<not> t_isFinished t" "\<not> t_hasError t" "sql_execute api ''COMMIT'' (m, w) = Some (r, m', w')" "t' = ended r t"
proof (cases "t_isFinished t \<or> t_hasError t")
  case True
  with assms have "t' = t \<and> m' = m \<and> w' = w" by (simp add: tx_commit_def)
  with True that(1) show ?thesis by blast
next
  case False
  with assms obtain p where p: "tx_execute api ''COMMIT'' (t, m, w) = Some p" "tx_close p = (b, t', m', w')"
    by (auto simp: tx_commit_def)
  from tx_close_execute [OF p(1)] False obtain r m2 w2 where
    "sql_execute api ''COMMIT'' (m, w) = Some (r, m2, w2)" "tx_close p = (r = 0, ended r t, m2, w2)" by blast
  with p(2) have "sql_execute api ''COMMIT'' (m, w) = Some (r, m', w')" "t' = ended r t" by simp_all
  with False that(2) show ?thesis by blast
qed

lemma tx_rollbackE:
  assumes "tx_rollback api (t, m, w) = Some (b, t', m', w')"
  obtains "t_isFinished t" "t' = t" "m' = m" "w' = w"
  | r where "\<not> t_isFinished t" "sql_execute api ''ROLLBACK'' (m, w) = Some (r, m', w')" "t' = ended r t"
proof (cases "t_isFinished t")
  case True
  with assms have "t' = t \<and> m' = m \<and> w' = w" by (simp add: tx_rollback_def)
  with True that(1) show ?thesis by blast
next
  case False
  with assms obtain p where p: "tx_execute api ''ROLLBACK'' (t, m, w) = Some p" "tx_close p = (b, t', m', w')"
    by (auto simp: tx_rollback_def)
  from tx_close_execute [OF p(1)] False obtain r m2 w2 where
    "sql_execute api ''ROLLBACK'' (m, w) = Some (r, m2, w2)" "tx_close p = (r = 0, ended r t, m2, w2)" by blast
  with p(2) have "sql_execute api ''ROLLBACK'' (m, w) = Some (r, m', w')" "t' = ended r t" by simp_all
  with False that(2) show ?thesis by blast
qed

text \<open>One more command was sent, and the flags were set by its result.\<close>

lemma tx_inv_sent:
  assumes "tx_inv sent0 (t, m, w)" "\<not> t_isFinished t" "sql_execute api sql (m, w) = Some (r, m', w')"
    and "\<not> t_hasError t' \<longrightarrow> \<not> t_hasError t \<and> r = 0" "t_isFinished t' \<longrightarrow> r = 0 \<and> (sql = ''COMMIT'' \<or> sql = ''ROLLBACK'')"
  shows "tx_inv sent0 (t', m', w')"
proof -
  from assms(1) obtain log where l: "g_sent m = sent0 @ (''BEGIN'', 0) # log" "\<not> t_hasError t \<longrightarrow> (\<forall>e \<in> set log. snd e = 0)"
    by (auto simp: tx_inv_def)
  have "\<exists>log'. g_sent m' = sent0 @ (''BEGIN'', 0) # log' \<and> (t_isFinished t' \<longrightarrow> log' \<noteq> [] \<and> closing (last log'))
      \<and> (\<not> t_hasError t' \<longrightarrow> (\<forall>e \<in> set log'. snd e = 0))"
    by (rule exI [of _ "log @ [(c_str sql, r)]"]) (use assms l sql_execute_sent [OF assms(3)] in \<open>auto simp: closing_def\<close>)
  then show ?thesis by (simp add: tx_inv_def)
qed

lemma tx_execute_inv:
  "tx_execute api sql (t, m, w) = Some (r, t', m', w') \<Longrightarrow> tx_inv sent0 (t, m, w)
    \<Longrightarrow> tx_inv sent0 (t', m', w') \<and> t_autoCommit t' = t_autoCommit t"
  by (elim tx_executeE) (auto elim!: tx_inv_sent)

lemma tx_commit_inv:
  "tx_commit api (t, m, w) = Some (b, t', m', w') \<Longrightarrow> tx_inv sent0 (t, m, w)
    \<Longrightarrow> tx_inv sent0 (t', m', w') \<and> t_autoCommit t' = t_autoCommit t"
  by (elim tx_commitE) (auto elim!: tx_inv_sent)

lemma tx_rollback_inv:
  "tx_rollback api (t, m, w) = Some (b, t', m', w') \<Longrightarrow> tx_inv sent0 (t, m, w)
    \<Longrightarrow> tx_inv sent0 (t', m', w') \<and> t_autoCommit t' = t_autoCommit t"
  by (elim tx_rollbackE) (auto elim!: tx_inv_sent)

lemma tx_run_inv:
  "tx_run api ops s = Some s' \<Longrightarrow> tx_inv sent0 s \<Longrightarrow> tx_inv sent0 s' \<and> t_autoCommit (fst s') = t_autoCommit (fst s)"
proof (induction ops arbitrary: s)
  case (Cons op ops)
  obtain t m w where s: "s = (t, m, w)" by (cases s) auto
  have i: "tx_inv sent0 (t, m, w)" using Cons.prems(2) s by simp
  obtain t1 m1 w1 where s1: "tx_run api ops (t1, m1, w1) = Some s'"
    "tx_inv sent0 (t1, m1, w1) \<and> t_autoCommit t1 = t_autoCommit t"
  proof (cases op)
    case (TxExecute sql)
    with Cons.prems s obtain r t1 m1 w1 where "tx_execute api sql (t, m, w) = Some (r, t1, m1, w1)"
      "tx_run api ops (t1, m1, w1) = Some s'" by (auto split: option.splits)
    with tx_execute_inv [OF _ i] that show ?thesis by blast
  next
    case TxCommit
    with Cons.prems s obtain b t1 m1 w1 where "tx_commit api (t, m, w) = Some (b, t1, m1, w1)"
      "tx_run api ops (t1, m1, w1) = Some s'" by (auto split: option.splits)
    with tx_commit_inv [OF _ i] that show ?thesis by blast
  next
    case TxRollback
    with Cons.prems s obtain b t1 m1 w1 where "tx_rollback api (t, m, w) = Some (b, t1, m1, w1)"
      "tx_run api ops (t1, m1, w1) = Some s'" by (auto split: option.splits)
    with tx_rollback_inv [OF _ i] that show ?thesis by blast
  qed
  from Cons.IH [OF s1(1)] s1(2) show ?case by (simp add: s)
qed simp

text \<open>The end of the object: without auto-commit the last word is a rollback, unless it was finished before.\<close>

lemma tx_destroy_result:
  assumes "tx_destroy api (t, m, w) = Some (t', m', w')"
  shows "if t_isFinished t \<or> (t_autoCommit t \<and> t_hasError t) then t' = t \<and> m' = m
    else \<exists>r. g_sent m' = g_sent m @ [(if t_autoCommit t then ''COMMIT'' else ''ROLLBACK'', r)] \<and> t' = ended r t"
proof (cases "t_autoCommit t")
  case True
  with assms obtain b where "tx_commit api (t, m, w) = Some (b, t', m', w')" by (auto simp: tx_destroy_def)
  then show ?thesis using True by (elim tx_commitE) (auto dest!: sql_execute_sent)
next
  case False
  with assms obtain b where "tx_rollback api (t, m, w) = Some (b, t', m', w')" by (auto simp: tx_destroy_def)
  then show ?thesis using False by (elim tx_rollbackE) (auto dest!: sql_execute_sent)
qed

text \<open>
  C19.  The life of a transaction, from a successful \<open>Create\<close> through any operations to its
  destruction: the server gets \<open>BEGIN\<close> first, and nothing more after a commit or rollback that
  succeeded; a transaction that saw no error is finished and all its commands succeeded; and one
  without auto-commit that is not finished at the end has had a rollback as its last command.
\<close>

theorem transaction_life:
  assumes "tx_Create api auto (m, w) = Some (Some t, mw)" "tx_run api ops (t, mw) = Some s"
    and "tx_destroy api s = Some (t', m', w')"
  shows "\<exists>log. g_sent m' = g_sent m @ (''BEGIN'', 0) # log
    \<and> (t_isFinished t' \<longrightarrow> log \<noteq> [] \<and> closing (last log))
    \<and> (\<not> t_hasError t' \<longrightarrow> t_isFinished t' \<and> (\<forall>e \<in> set log. snd e = 0))
    \<and> (\<not> auto \<longrightarrow> log \<noteq> [] \<and> (closing (last log) \<or> fst (last log) = ''ROLLBACK''))"
proof -
  from assms(1) obtain m1 w1 where c: "tx_begin api (tx_new auto, m, w) = Some (True, t, m1, w1)" "mw = (m1, w1)"
    by (cases mw) (auto simp: tx_Create_def split: option.splits bool.splits)
  then have t: "t = tx_new auto" and b: "sql_execute api ''BEGIN'' (m, w) = Some (0, m1, w1)"
    by (auto simp: tx_begin_def tx_execute_def tx_new_def split: option.splits if_splits)
  have "tx_inv (g_sent m) (t, mw)" using sql_execute_sent [OF b] by (simp add: tx_inv_def c(2) t tx_new_def)
  from tx_run_inv [OF assms(2) this] have i: "tx_inv (g_sent m) s" "t_autoCommit (fst s) = auto"
    by (simp_all add: t tx_new_def)
  obtain t1 m1 w1 where s: "s = (t1, m1, w1)" by (cases s) auto
  have auto: "t_autoCommit t1 = auto" using i(2) by (simp add: s)
  from assms(3) s obtain b where "tx_commit api (t1, m1, w1) = Some (b, t', m', w') \<or> tx_rollback api (t1, m1, w1) = Some (b, t', m', w')"
    by (auto simp: tx_destroy_def split: if_splits)
  then have i': "tx_inv (g_sent m) (t', m', w')" 
    using tx_commit_inv [OF _ i(1) [unfolded s]] tx_rollback_inv [OF _ i(1) [unfolded s]] by blast
  then obtain log where l: "g_sent m' = g_sent m @ (''BEGIN'', 0) # log" "t_isFinished t' \<longrightarrow> log \<noteq> [] \<and> closing (last log)"
    "\<not> t_hasError t' \<longrightarrow> (\<forall>e \<in> set log. snd e = 0)" by (auto simp: tx_inv_def)
  note d = tx_destroy_result [OF assms(3) [unfolded s]]
  have fin: "\<not> t_hasError t' \<longrightarrow> t_isFinished t'" using d by (auto split: if_splits)
  have "\<not> auto \<longrightarrow> log \<noteq> [] \<and> (closing (last log) \<or> fst (last log) = ''ROLLBACK'')"
  proof (cases "t_isFinished t1")
    case True
    with d l(2) show ?thesis by auto
  next
    case False
    from i(1) s obtain log1 where l1: "g_sent m1 = g_sent m @ (''BEGIN'', 0) # log1" by (auto simp: tx_inv_def)
    { assume "\<not> auto"
      with d False auto obtain r where "g_sent m' = g_sent m1 @ [(''ROLLBACK'', r)]" by auto
      with l1 l(1) have "log = log1 @ [(''ROLLBACK'', r)]" by simp
      then have ?thesis by simp }
    then show ?thesis by blast
  qed
  with l fin show ?thesis by blast
qed

text \<open>A library that accepts everything but the command \<open>X\<close>.\<close>

definition demo_api :: "unit mysql_api" where
  "demo_api = \<lparr>api_init = (\<lambda>w. (Some 1, w)), api_real_connect = (\<lambda>h a b c d p w. (True, w)), api_close = (\<lambda>h w. w),
     api_query = (\<lambda>h q w. (if q = ''X'' then 1 else 0, w)), api_store_result = (\<lambda>h w. (Some (1, [[Some ''7'']]), w)),
     api_ping = (\<lambda>h w. (0, w)), api_select_db = (\<lambda>h d w. (0, w)), api_errno = (\<lambda>h w. 0), api_error = (\<lambda>h w. Some []),
     api_insert_id = (\<lambda>h w. 0), api_affected_rows = (\<lambda>h w. 0)\<rparr>"

definition demo_conn :: MySQL where
  "demo_conn = (new_MySQL [])\<lparr>m_mysql := Some 1\<rparr>"

lemma demo_execute:
  "m_mysql m = Some 1 \<Longrightarrow> sql_execute demo_api sql (m, w) = (let r = (if c_str sql = ''X'' then 1 else 0) in
     Some (r, m\<lparr>m_cmd := sql, m_hasError := r \<noteq> 0, g_sent := g_sent m @ [(c_str sql, r)]\<rparr>, w))"
  by (simp add: sql_execute_def demo_api_def Let_def)

lemma demo_create:
  "tx_Create demo_api auto (demo_conn, ()) = Some (Some (tx_new auto),
     demo_conn\<lparr>m_cmd := ''BEGIN'', g_sent := [(''BEGIN'', 0)]\<rparr>, ())"
  by (simp add: tx_Create_def tx_begin_def tx_execute_def tx_new_def demo_execute demo_conn_def new_MySQL_def)

lemma c_str_Y: "c_str ''Y'' = ''Y''" by code_simp

theorem transaction_life_witness:
  "\<exists>s t' m'. tx_run demo_api [TxExecute ''Y'', TxCommit] (tx_new False, demo_conn\<lparr>m_cmd := ''BEGIN'', g_sent := [(''BEGIN'', 0)]\<rparr>, ()) = Some s
    \<and> tx_destroy demo_api s = Some (t', m', ()) \<and> t_isFinished t' \<and> g_sent m' = [(''BEGIN'', 0), (''Y'', 0), (''COMMIT'', 0)]
    \<and> (\<exists>log. g_sent m' = (''BEGIN'', 0) # log \<and> closing (last log))"
proof -
  let ?m = "demo_conn\<lparr>m_cmd := ''BEGIN'', g_sent := [(''BEGIN'', 0)]\<rparr>"
  let ?m2 = "?m\<lparr>m_cmd := ''COMMIT'', g_sent := [(''BEGIN'', 0), (''Y'', 0), (''COMMIT'', 0)]\<rparr>"
  let ?t = "(tx_new False)\<lparr>t_isFinished := True\<rparr>"
  have run: "tx_run demo_api [TxExecute ''Y'', TxCommit] (tx_new False, ?m, ()) = Some (?t, ?m2, ())"
    by (simp add: tx_execute_def tx_commit_def tx_close_def tx_new_def demo_execute demo_conn_def new_MySQL_def c_str_Y)
  have d: "tx_destroy demo_api (?t, ?m2, ()) = Some (?t, ?m2, ())"
    by (simp add: tx_destroy_def tx_rollback_def tx_new_def)
  from transaction_life [OF demo_create run d] run d show ?thesis
    by (fastforce simp: demo_conn_def new_MySQL_def)
qed

text \<open>
  With auto-commit, a statement that fails leaves the transaction open: its end sends neither a
  commit nor a rollback, and the connection goes back as it is.
\<close>

lemma auto_commit_left_open:
  assumes "sql_execute api sql (m, w) = Some (r, m1, w1)" "r \<noteq> 0"
  shows "\<exists>t1. tx_run api [TxExecute sql] (tx_new True, m, w) = Some (t1, m1, w1) \<and> \<not> t_isFinished t1
    \<and> tx_destroy api (t1, m1, w1) = Some (t1, m1, w1)"
  by (rule exI [of _ "(tx_new True)\<lparr>t_hasError := True\<rparr>"])
    (use assms in \<open>simp add: tx_execute_def tx_new_def tx_destroy_def tx_commit_def\<close>)

section \<open>Where the connections are\<close>

abbreviation ends :: "'v list smap \<Rightarrow> 'v multiset" where
  "ends m \<equiv> mset (concat (map snd m))"

lemma ends_put:
  "om_sorted str_key m \<Longrightarrow> ends (sm_put k l m) + mset (sm_at [] k m) = ends m + mset l"
proof (induction m)
  case (Cons a m)
  obtain j v where a: "a = (j, v)" by fastforce
  with Cons.prems have s: "om_sorted str_key m" "\<forall>(b, w) \<in> set m. str_key j < str_key b" by (auto simp: om_sorted_Cons)
  have none: "sm_find m k = None" if "str_key k < str_key j"
  proof (cases "sm_find m k")
    case (Some w)
    with s(2) have "str_key j < str_key k" by (auto dest: sm_find_in_set)
    with that show ?thesis by simp
  qed
  from Cons.IH [OF s(1)] none show ?case
    by (auto simp: a sm_at_def add_ac split: option.splits)
qed (simp add: sm_at_def)

text \<open>
  Every connection object is idle, in use or lost, at exactly one place; those that are idle or in
  use have a handle.
\<close>

definition used :: "'w MySQLManager \<Rightarrow> addr multiset" where
  "used s = ends (m_conns s) + mset (map snd (g_out s))"

definition has_handle :: "'w MySQLManager \<Rightarrow> addr \<Rightarrow> bool" where
  "has_handle s a \<longleftrightarrow> (\<exists>m. objs s a = Some m \<and> m_mysql m \<noteq> None)"

definition db_inv :: "'w MySQLManager \<Rightarrow> bool" where
  "db_inv s \<longleftrightarrow> om_sorted str_key (m_conns s) \<and> finite (dom (objs s))
     \<and> used s + mset (g_lost s) = mset_set (dom (objs s)) \<and> (\<forall>a. a \<in># used s \<longrightarrow> has_handle s a)"

lemma connect_handle:
  "connect api cast (m, w) = (True, m', w') \<Longrightarrow> m_mysql m' \<noteq> None"
  by (auto simp: connect_def split: if_splits option.splits prod.splits)

lemma ping_handle:
  "ping api (m, w) = (b, m', w') \<Longrightarrow> m_mysql m' = m_mysql m"
  by (auto simp: ping_def split: if_splits option.splits prod.splits)

lemma db_inv_world [simp]: "db_inv (s\<lparr>world := w\<rparr>) = db_inv s"
  by (simp add: db_inv_def used_def has_handle_def)

text \<open>A new object comes into use.\<close>

lemma hand_out_new:
  assumes "db_inv s" "objs s a = None" "m_mysql m \<noteq> None" "hand_out now name a (m, w) s = (r, s')"
  shows "db_inv s'"
proof -
  have s': "s' = put_obj a (m\<lparr>m_lastUsedTime := now\<rparr>, w) (s\<lparr>g_out := (name, a) # g_out s\<rparr>)"
    using assms(4) by (simp add: hand_out_def)
  have u: "used s' = add_mset a (used s)" "m_conns s' = m_conns s" "g_lost s' = g_lost s"
    by (simp_all add: s' used_def put_obj_def)
  have d: "dom (objs s') = insert a (dom (objs s))" "a \<notin> dom (objs s)"
    using assms(2) by (auto simp: s' put_obj_def)
  have h: "has_handle s' b \<longleftrightarrow> b = a \<or> has_handle s b" for b
    using assms(2,3) by (auto simp: has_handle_def s' put_obj_def)
  show ?thesis using assms(1) by (auto simp: db_inv_def u d h)
qed

text \<open>An object that was idle or in use comes into use, or is lost, with what was done to it.\<close>

lemma hand_out_old:
  assumes "om_sorted str_key (m_conns s)" "finite (dom (objs s))"
    "add_mset a (used s) + mset (g_lost s) = mset_set (dom (objs s))" "\<forall>b. b \<in># used s \<longrightarrow> has_handle s b"
    and "m_mysql m \<noteq> None" "hand_out now name a (m, w) s = (r, s')"
  shows "db_inv s'"
proof -
  have s': "s' = put_obj a (m\<lparr>m_lastUsedTime := now\<rparr>, w) (s\<lparr>g_out := (name, a) # g_out s\<rparr>)"
    using assms(6) by (simp add: hand_out_def)
  have u: "used s' = add_mset a (used s)" "m_conns s' = m_conns s" "g_lost s' = g_lost s"
    by (simp_all add: s' used_def put_obj_def)
  have "a \<in># mset_set (dom (objs s))" using assms(3) by (metis union_single_eq_member union_mset_add_mset_left)
  then have d: "dom (objs s') = dom (objs s)" using assms(2) by (auto simp: s' put_obj_def)
  have h: "has_handle s' b \<longleftrightarrow> b = a \<or> has_handle s b" for b
    using assms(5) by (auto simp: has_handle_def s' put_obj_def)
  show ?thesis using assms(1-4) by (auto simp: db_inv_def u d h)
qed

lemma take_idle:
  assumes "db_inv s" "sm_find (m_conns s) name = Some (rt # rest)"
  defines "s1 \<equiv> s\<lparr>m_conns := sm_put name rest (m_conns s)\<rparr>"
  shows "om_sorted str_key (m_conns s1) \<and> objs s1 = objs s \<and> add_mset rt (used s1) = used s \<and> g_lost s1 = g_lost s
    \<and> has_handle s rt \<and> (\<forall>b. b \<in># used s1 \<longrightarrow> has_handle s1 b)"
proof -
  have i: "om_sorted str_key (m_conns s)" "\<forall>b. b \<in># used s \<longrightarrow> has_handle s b" using assms(1) by (auto simp: db_inv_def)
  have "ends (sm_put name rest (m_conns s)) + mset (rt # rest) = ends (m_conns s) + mset rest"
    using ends_put [OF i(1), of name rest] assms(2) by (simp add: sm_at_def)
  then have "add_mset rt (ends (sm_put name rest (m_conns s))) = ends (m_conns s)" by simp
  then have u: "add_mset rt (used s1) = used s" unfolding used_def s1_def by (simp flip: union_mset_add_mset_left)
  then have "rt \<in># used s" "\<forall>b. b \<in># used s1 \<longrightarrow> b \<in># used s" by (metis union_single_eq_member add_mset_add_single, metis insert_iff set_mset_add_mset_insert)
  with i u show ?thesis by (auto simp: s1_def om_assign_sorted has_handle_def)
qed

lemma get_inv:
  assumes "db_inv s" "objs s a = None"
  obtains r s' where "get c now a name s = Some (r, s')" "db_inv s'"
    "\<forall>p. r = Some p \<longrightarrow> g_out s' = (name, p) # g_out s"
proof (cases "\<exists>rt rest. sm_find (m_conns s) name = Some (rt # rest)")
  case True
  then obtain rt rest where f: "sm_find (m_conns s) name = Some (rt # rest)" by blast
  let ?s1 = "s\<lparr>m_conns := sm_put name rest (m_conns s)\<rparr>"
  from take_idle [OF assms(1) f] have t: "om_sorted str_key (m_conns ?s1)" "add_mset rt (used ?s1) = used s"
    "g_lost ?s1 = g_lost s" "has_handle s rt" "\<forall>b. b \<in># used ?s1 \<longrightarrow> has_handle ?s1 b" by auto
  from t(4) obtain m where m: "objs s rt = Some m" "m_mysql m \<noteq> None" by (auto simp: has_handle_def)
  have i: "finite (dom (objs ?s1))" "add_mset rt (used ?s1) + mset (g_lost ?s1) = mset_set (dom (objs ?s1))"
    using assms(1) t(2) by (auto simp: db_inv_def)
  note old = hand_out_old [OF t(1) i t(5)]
  obtain r s' where g: "check_taken c now name rt m ?s1 = (r, s')" by fastforce
  have "db_inv s' \<and> (\<forall>p. r = Some p \<longrightarrow> g_out s' = (name, p) # g_out s)"
  proof -
    consider (fresh) "\<not> isNeedCheck now m"
      | (pinged) mw where "isNeedCheck now m" "ping (db_api c) (m, world s) = (True, mw)"
      | (joined) m1 w1 mw where "isNeedCheck now m" "ping (db_api c) (m, world s) = (False, m1, w1)"
          "connect (db_api c) (db_cast c) (m1, w1) = (True, mw)"
      | (gone) m1 w1 mw where "isNeedCheck now m" "ping (db_api c) (m, world s) = (False, m1, w1)"
          "connect (db_api c) (db_cast c) (m1, w1) = (False, mw)"
      by (metis (full_types) prod.exhaust)
    then show ?thesis
    proof cases
      case fresh
      with g have h: "hand_out now name rt (m, world s) ?s1 = (r, s')" by (simp add: check_taken_def)
      with old [OF m(2) h] show ?thesis by (auto simp: hand_out_def put_obj_def)
    next
      case pinged
      obtain m1 w1 where mw: "mw = (m1, w1)" by fastforce
      from pinged g have h: "hand_out now name rt (m1, w1) ?s1 = (r, s')" by (simp add: check_taken_def mw)
      have "m_mysql m1 \<noteq> None" using ping_handle pinged(2) m(2) mw by metis
      from old [OF this h] h show ?thesis by (auto simp: hand_out_def put_obj_def)
    next
      case joined
      obtain m2 w2 where mw: "mw = (m2, w2)" by fastforce
      from joined g have h: "hand_out now name rt (m2, w2) ?s1 = (r, s')" by (simp add: check_taken_def mw)
      have "m_mysql m2 \<noteq> None" using connect_handle joined(3) mw by metis
      from old [OF this h] h show ?thesis by (auto simp: hand_out_def put_obj_def)
    next
      case gone
      with g have s': "r = None" "s' = put_obj rt mw (?s1\<lparr>g_lost := rt # g_lost ?s1\<rparr>)" by (simp_all add: check_taken_def)
      have u: "used s' = used ?s1" "g_lost s' = rt # g_lost s" "m_conns s' = m_conns ?s1"
        by (simp_all add: s' put_obj_def used_def)
      have d: "dom (objs s') = dom (objs s)" using m(1) by (auto simp: s' put_obj_def)
      have "count (add_mset rt (used ?s1) + mset (g_lost ?s1)) rt \<le> 1" unfolding i(2) by (simp add: count_mset_set')
      then have nrt: "rt \<notin># used ?s1" by (simp add: not_in_iff)
      then have "\<forall>b. b \<in># used ?s1 \<longrightarrow> has_handle s' b" using t(5) by (auto simp: has_handle_def s' put_obj_def)
      then show ?thesis using t(1) i s'(1) by (simp add: db_inv_def u d)
    qed
  qed
  moreover have "get c now a name s = Some (r, s')" using f m(1) g by (simp add: get_def)
  ultimately show ?thesis using that by blast
next
  case False
  obtain r s' where g: "make_new c now name a s = (r, s')" by fastforce
  with False have "get c now a name s = Some (r, s')" by (auto simp: get_def split: option.splits list.splits)
  moreover have "db_inv s' \<and> (\<forall>p. r = Some p \<longrightarrow> g_out s' = (name, p) # g_out s)"
  proof (cases "r")
    case None
    with g have "\<exists>w. s' = s\<lparr>world := w\<rparr>"
      by (auto simp: make_new_def hand_out_def intro: exI [of _ "world s"] split: option.splits prod.splits bool.splits)
    with assms(1) None show ?thesis by auto
  next
    case (Some p)
    with g obtain args m w where "connect (db_api c) (db_cast c) (new_MySQL args, world s) = (True, m, w)"
      and h: "hand_out now name a (m, w) s = (r, s')"
      by (auto simp: make_new_def split: option.splits prod.splits bool.splits)
    from connect_handle [OF this(1)] hand_out_new [OF assms _ h] h show ?thesis by (auto simp: hand_out_def put_obj_def)
  qed
  ultimately show ?thesis using that by blast
qed

text \<open>An object in use that was worked on keeps its handle, and its place.\<close>

lemma put_obj_inv:
  assumes "db_inv s" "objs s p = Some m" "m_mysql m' = m_mysql m"
  shows "db_inv (put_obj p (m', w) s)"
proof -
  have "has_handle (put_obj p (m', w) s) b \<longleftrightarrow> has_handle s b" for b
    using assms(2,3) by (auto simp: has_handle_def put_obj_def)
  moreover have "dom (objs (put_obj p (m', w) s)) = dom (objs s)" using assms(2) by (auto simp: put_obj_def)
  ultimately show ?thesis using assms(1) by (simp add: db_inv_def used_def put_obj_def)
qed

lemma query_handle: "sql_query api sql (m, w) = (r, m', w') \<Longrightarrow> m_mysql m' = m_mysql m"
  by (auto simp: sql_query_def Let_def split: option.splits prod.splits)

lemma use_db_handle: "use_db api d (m, w) = (r, m', w') \<Longrightarrow> m_mysql m' = m_mysql m"
  by (auto simp: use_db_def split: option.splits prod.splits if_splits)

lemma free_inv:
  assumes "db_inv s" "(name, p) \<in> set (g_out s)"
  shows "db_inv (freeMySQL c name p s)"
proof -
  let ?s = "s\<lparr>g_out := remove1 (name, p) (g_out s)\<rparr>" and ?l = "sm_at [] name (m_conns s)"
  from assms have i: "om_sorted str_key (m_conns s)" "finite (dom (objs s))"
    "used s + mset (g_lost s) = mset_set (dom (objs s))" "\<forall>a. a \<in># used s \<longrightarrow> has_handle s a"
    by (auto simp: db_inv_def)
  have "mset (map snd (g_out s)) = add_mset p (mset (map snd (remove1 (name, p) (g_out s))))"
  proof -
    have "mset (g_out s) = add_mset (name, p) (mset (remove1 (name, p) (g_out s)))" using assms(2) by simp
    then have "image_mset snd (mset (g_out s)) = image_mset snd (add_mset (name, p) (mset (remove1 (name, p) (g_out s))))"
      by (rule arg_cong)
    then show ?thesis by simp
  qed
  then have u: "used s = add_mset p (used ?s)" by (simp add: used_def)
  then have "has_handle s p" using i(4) by simp
  then obtain m where m: "objs s p = Some m" "m_mysql m \<noteq> None" by (auto simp: has_handle_def)
  let ?c1 = "sm_put name ?l (m_conns s)"
  have c1: "om_sorted str_key ?c1" "ends ?c1 = ends (m_conns s)"
    using i(1) ends_put [OF i(1), of name ?l] by (simp_all add: om_assign_sorted)
  show ?thesis
  proof (cases "length ?l < pool_limit m")
    case True
    let ?s' = "?s\<lparr>m_conns := sm_put name (?l @ [p]) ?c1\<rparr>"
    have "ends (sm_put name (?l @ [p]) ?c1) + mset ?l = ends ?c1 + mset (?l @ [p])"
      using ends_put [OF c1(1), of name "?l @ [p]"] by simp
    then have "ends (sm_put name (?l @ [p]) ?c1) = add_mset p (ends (m_conns s))" using c1(2) by simp
    then have "used ?s' = used s" using u by (simp add: used_def)
    moreover have "freeMySQL c name p s = ?s'" using m True by (simp add: freeMySQL_def Let_def)
    moreover have "has_handle ?s' b = has_handle s b" for b by (simp add: has_handle_def)
    ultimately show ?thesis using i c1(1) by (simp add: db_inv_def om_assign_sorted)
  next
    case False
    have f: "freeMySQL c name p s = delete_MySQL c p (?s\<lparr>m_conns := ?c1\<rparr>)" (is "_ = ?s'")
      using m False by (simp add: freeMySQL_def Let_def)
    have d: "dom (objs ?s') = dom (objs s) - {p}" "p \<in> dom (objs s)" using m(1) by (auto simp: delete_MySQL_def)
    have s': "used ?s' = used ?s" "g_lost ?s' = g_lost s" "m_conns ?s' = ?c1"
      using m(1) c1(2) by (simp_all add: delete_MySQL_def used_def)
    have rest: "used ?s + mset (g_lost s) = mset_set (dom (objs s) - {p})"
      using i(3) mset_set.remove [OF i(2) d(2)] by (simp add: u)
    moreover have "p \<notin># used ?s"
    proof
      assume "p \<in># used ?s"
      then have "p \<in># mset_set (dom (objs s) - {p})" by (simp flip: rest)
      then show False using i(2) by simp
    qed
    then have "\<forall>b. b \<in># used ?s \<longrightarrow> has_handle ?s' b"
      using i(4) m(1) by (auto simp: u has_handle_def delete_MySQL_def)
    ultimately show ?thesis using i(2) c1(1) by (simp add: f db_inv_def s' d(1))
  qed
qed

lemma fold_delete:
  "m_conns (fold (delete_MySQL c) ps s) = m_conns s \<and> g_out (fold (delete_MySQL c) ps s) = g_out s
   \<and> g_lost (fold (delete_MySQL c) ps s) = g_lost s
   \<and> objs (fold (delete_MySQL c) ps s) = (\<lambda>a. if a \<in> set ps then None else objs s a)"
proof (induction ps arbitrary: s)
  case (Cons p ps)
  then show ?case by (auto simp: delete_MySQL_def fun_eq_iff split: option.splits)
qed simp

lemma ends_filter: "ends m = mset (concat (map (\<lambda>(_, l). filter P l) m)) + ends (map (\<lambda>(n, l). (n, filter (\<lambda>a. \<not> P a) l)) m)"
proof (induction m)
  case (Cons a m)
  obtain j l where a: "a = (j, l)" by fastforce
  have "mset l = mset (filter P l) + mset (filter (\<lambda>a. \<not> P a) l)" by (simp add: multiset_partition)
  with Cons show ?case by (simp add: a)
qed simp

lemma check_inv:
  assumes "db_inv s"
  shows "db_inv (checkConnection c now sec s)"
proof -
  let ?P = "old_at now sec s" let ?m = "map (\<lambda>(n, l). (n, filter (\<lambda>a. \<not> ?P a) l)) (m_conns s)" let ?s' = "checkConnection c now sec s"
  define del where "del = concat (map (\<lambda>(_, l). filter ?P l) (m_conns s))"
  from assms have i: "om_sorted str_key (m_conns s)" "finite (dom (objs s))"
    "used s + mset (g_lost s) = mset_set (dom (objs s))" "\<forall>a. a \<in># used s \<longrightarrow> has_handle s a"
    by (auto simp: db_inv_def)
  have f: "m_conns ?s' = ?m" "g_out ?s' = g_out s" "g_lost ?s' = g_lost s"
    "objs ?s' = (\<lambda>a. if a \<in> set del then None else objs s a)"
    unfolding del_def by (simp_all add: checkConnection_def Let_def fold_delete cong: if_cong)
  have u: "used s = mset del + used ?s'" using ends_filter [of "m_conns s" ?P] by (simp add: used_def f del_def)
  have sorted: "om_sorted str_key ?m"
  proof -
    have "map (\<lambda>(a, v). str_key a) ?m = map (\<lambda>(a, v). str_key a) (m_conns s)" by auto
    with i(1) show ?thesis by (simp only: om_sorted_def)
  qed
  have d: "dom (objs ?s') = dom (objs s) - set del" by (auto simp: f(4) split: if_splits)
  have all: "mset del + (used ?s' + mset (g_lost s)) = mset_set (dom (objs s))" using i(3) by (simp add: u add_ac)
  have sub: "set del \<subseteq> dom (objs s)"
  proof
    fix x assume "x \<in> set del"
    then have "x \<in># mset_set (dom (objs s))" unfolding all [symmetric] by simp
    then show "x \<in> dom (objs s)" using i(2) by simp
  qed
  have "count (mset del) x \<le> 1" for x
  proof -
    have "count (mset del) x \<le> count (mset_set (dom (objs s))) x" unfolding all [symmetric] by simp
    also have "\<dots> \<le> 1" by (simp add: count_mset_set')
    finally show ?thesis .
  qed
  then have "mset del = mset_set (set del)"
    by (intro multiset_eqI) (metis count_mset_set(1,3) List.finite_set count_greater_eq_one_iff count_inI le_antisym set_mset_mset)
  with all have rest: "used ?s' + mset (g_lost s) = mset_set (dom (objs s) - set del)"
    using sub i(2) by (metis add_diff_cancel_left' mset_set_Diff)
  have "\<forall>b. b \<in># used ?s' \<longrightarrow> has_handle ?s' b"
  proof (intro allI impI)
    fix b assume b: "b \<in># used ?s'"
    then have "b \<in># mset_set (dom (objs s) - set del)" by (simp flip: rest)
    then have "b \<notin> set del" using i(2) by simp
    moreover have "has_handle s b" using b i(4) by (simp add: u)
    ultimately show "has_handle ?s' b" by (simp add: has_handle_def f(4))
  qed
  with sorted rest i(2) show ?thesis by (simp add: db_inv_def f(1,3) d)
qed

section \<open>Reachable states\<close>

inductive db_step :: "'w db_cfg \<Rightarrow> 'w MySQLManager \<Rightarrow> 'w MySQLManager \<Rightarrow> bool" for c where
  ds_register: "db_step c s (registerMySQL name params s)"
| ds_get: "objs s a = None \<Longrightarrow> get c now a name s = Some (r, s') \<Longrightarrow> db_step c s s'"
| ds_free: "(name, p) \<in> set (g_out s) \<Longrightarrow> db_step c s (freeMySQL c name p s)"
| ds_check: "db_step c s (checkConnection c now sec s)"
| ds_execute: "\<lbrakk>(name, p) \<in> set (g_out s); objs s p = Some m; sql_execute (db_api c) sql (m, world s) = Some (r, mw)\<rbrakk>
    \<Longrightarrow> db_step c s (put_obj p mw s)"
| ds_query: "\<lbrakk>(name, p) \<in> set (g_out s); objs s p = Some m; sql_query (db_api c) sql (m, world s) = (q, mw)\<rbrakk>
    \<Longrightarrow> db_step c s (put_obj p mw s)"
| ds_use: "\<lbrakk>(name, p) \<in> set (g_out s); objs s p = Some m; use_db (db_api c) d (m, world s) = (b, mw)\<rbrakk>
    \<Longrightarrow> db_step c s (put_obj p mw s)"

inductive db_reach :: "'w db_cfg \<Rightarrow> 'w MySQLManager \<Rightarrow> 'w MySQLManager \<Rightarrow> bool" for c s0 where
  dr_start: "db_reach c s0 s0"
| dr_step: "db_reach c s0 s \<Longrightarrow> db_step c s s' \<Longrightarrow> db_reach c s0 s'"

lemma db_step_inv: "db_step c s s' \<Longrightarrow> db_inv s \<Longrightarrow> db_inv s'"
proof (induction rule: db_step.induct)
  case (ds_register s name params)
  then show ?case by (simp add: registerMySQL_def db_inv_def used_def has_handle_def)
next
  case (ds_get s a now name r s')
  then show ?case by (metis get_inv option.inject prod.inject)
next
  case (ds_execute name p s m sql r mw)
  obtain m' w' where mw: "mw = (m', w')" by fastforce
  have "m_mysql m' = m_mysql m" using sql_execute_sent [OF ds_execute(3) [unfolded mw]] by simp
  then show ?case unfolding mw using ds_execute by (intro put_obj_inv)
next
  case (ds_query name p s m sql q mw)
  obtain m' w' where mw: "mw = (m', w')" by fastforce
  have "m_mysql m' = m_mysql m" using query_handle [OF ds_query(3) [unfolded mw]] by simp
  then show ?case unfolding mw using ds_query by (intro put_obj_inv)
next
  case (ds_use name p s m d b mw)
  obtain m' w' where mw: "mw = (m', w')" by fastforce
  have "m_mysql m' = m_mysql m" using use_db_handle [OF ds_use(3) [unfolded mw]] by simp
  then show ?case unfolding mw using ds_use by (intro put_obj_inv)
qed (simp_all add: free_inv check_inv)

lemma db_reach_inv: "db_reach c s0 s \<Longrightarrow> db_inv s0 \<Longrightarrow> db_inv s"
  by (induction rule: db_reach.induct) (auto intro: db_step_inv)

lemma new_inv: "db_inv (new_MySQLManager w)"
  by (simp add: db_inv_def new_MySQLManager_def used_def)

text \<open>
  C21.  Every connection the manager has made and not deleted is in exactly one place: in one list
  of idle connections, in use by one caller, or lost; there is no other entry anywhere, those that
  are idle or in use have a handle of the library, and \<open>get\<close> never finds a dangling pointer.
\<close>

theorem connections_accounted:
  assumes "db_reach c (new_MySQLManager w) s"
  shows "ends (m_conns s) + mset (map snd (g_out s)) + mset (g_lost s) = mset_set (dom (objs s))
    \<and> (\<forall>a. a \<in># ends (m_conns s) + mset (map snd (g_out s)) \<longrightarrow> (\<exists>m. objs s a = Some m \<and> m_mysql m \<noteq> None))
    \<and> (objs s a = None \<longrightarrow> get c now a name s \<noteq> None)"
proof -
  have i: "db_inv s" by (rule db_reach_inv [OF assms new_inv])
  then have "objs s a = None \<longrightarrow> get c now a name s \<noteq> None" by (metis get_inv option.distinct(1))
  with i show ?thesis unfolding db_inv_def used_def has_handle_def by blast
qed

text \<open>A connection is made, used and given back, and stays as the only one.\<close>

definition demo_db :: "unit db_cfg" where
  "demo_db = \<lparr>db_api = demo_api, db_cast = (\<lambda>_. None), db_config = [(''a'', [])]\<rparr>"

theorem connections_accounted_witness:
  "\<exists>s. db_reach demo_db (new_MySQLManager ()) s \<and> m_conns s = [(''a'', [0])]
    \<and> ends (m_conns s) + mset (map snd (g_out s)) + mset (g_lost s) = mset_set (dom (objs s))"
proof -
  let ?m = "(new_MySQL [])\<lparr>m_mysql := Some 1, m_poolSize := 5, m_lastUsedTime := 9\<rparr>"
  let ?s0 = "new_MySQLManager ()"
  let ?s1 = "?s0\<lparr>g_out := [(''a'', 0)], objs := [0 \<mapsto> ?m]\<rparr>"
  let ?s2 = "?s0\<lparr>m_conns := [(''a'', [0])], objs := [0 \<mapsto> ?m]\<rparr>"
  have "get demo_db 9 0 ''a'' ?s0 = Some (Some 0, ?s1)"
    by (simp add: get_def make_new_def new_MySQLManager_def demo_db_def demo_api_def connect_def mysql_init_def new_MySQL_def
        GetParamValue_def Let_def close_handle_def hand_out_def put_obj_def)
  then have "db_step demo_db ?s0 ?s1" by (intro ds_get) (simp_all add: new_MySQLManager_def)
  moreover have "freeMySQL demo_db ''a'' 0 ?s1 = ?s2"
    by (simp add: freeMySQL_def new_MySQLManager_def Let_def sm_at_def pool_limit_def)
  then have "db_step demo_db ?s1 ?s2" using ds_free [of "''a''" 0 ?s1 demo_db] by simp
  ultimately have r: "db_reach demo_db ?s0 ?s2" by (blast intro: dr_start dr_step)
  from connections_accounted [OF r] r show ?thesis by (intro exI [of _ ?s2]) simp
qed

text \<open>
  A connection that can be neither tested nor made again is taken out of its list and forgotten: it is not
  deleted, and no call will ever reach it.
\<close>

lemma failed_reconnect_is_lost:
  assumes "sm_find (m_conns s) name = Some (rt # rest)" "objs s rt = Some m" "isNeedCheck now m"
    and "ping (db_api c) (m, world s) = (False, m1, w1)" "connect (db_api c) (db_cast c) (m1, w1) = (False, mw)"
  shows "\<exists>s'. get c now a name s = Some (None, s') \<and> g_lost s' = rt # g_lost s \<and> objs s' rt \<noteq> None"
  using assms by (simp add: get_def check_taken_def put_obj_def)

text \<open>No attempts at all count as a success.\<close>

lemma TryExecute_none: "TryExecute c name sql [] s = Some (0, s)"
  by (simp add: TryExecute_def)

text \<open>The number of idle connections of a name grows only up to the pool size of the one given back.\<close>

lemma freeMySQL_limit:
  assumes "objs s p = Some m"
  shows "length (sm_at [] n (m_conns (freeMySQL c name p s)))
    \<le> max (length (sm_at [] n (m_conns s))) (if n = name then pool_limit m else 0)"
  using assms by (auto simp: freeMySQL_def delete_MySQL_def Let_def)

section \<open>Reading a result\<close>

text \<open>\<open>next\<close> goes through the rows in the order in which the server sent them, each once.\<close>

fun all_rows :: "nat \<Rightarrow> MySQLRes \<Rightarrow> row list" where
  "all_rows 0 r = []"
| "all_rows (Suc n) r = (case res_next r of (False, r') \<Rightarrow> [] | (True, r') \<Rightarrow> the (r_cur r') # all_rows n r')"

lemma all_rows_rest: "length (r_rest r) \<le> n \<Longrightarrow> all_rows n r = r_rest r"
proof (induction n arbitrary: r)
  case (Suc n)
  then show ?case by (cases "r_rest r") (simp_all add: res_next_def)
qed simp

lemma query_rows:
  "sql_query api sql (m, w) = (Some r, m', w') \<Longrightarrow> all_rows (getDataCount r) r = r_all r \<and> r_cur r = None"
  by (auto simp: sql_query_def Let_def getDataCount_def all_rows_rest split: option.splits prod.splits)

text \<open>An \<open>int64\<close> in decimal is read back.\<close>

lemma res_getInt64_dec:
  assumes "col idx r = Some (Some (dec n))" "n < 2 ^ 63"
  shows "res_getInt64 idx r = Some (int n)"
proof -
  have c: "c_str (dec n) = dec n"
    using dec_digits [of n] by (auto simp: c_str_def is_digit_def takeWhile_eq_all_conv)
  have "sint (word_of_nat n :: u64) = int n"
    using assms(2) by (simp add: signed_of_nat signed_take_bit_int_eq_self)
  moreover have "strtoull (dec n) = n" using assms(2) by (intro strtoull_dec) simp
  ultimately show ?thesis
    using assms(1) dec_digits [of n] by (simp add: res_getInt64_def Atoi_def c)
qed

end
