(* ===== verification/MySQL_Stmt.thy ===== *)
theory MySQL_Stmt
  imports MySQL
begin

text \<open>
  \<^verbatim>\<open>db/mysql.cc\<close> and \<^verbatim>\<open>db/mysql.h\<close>: the parameters of a prepared statement and the columns of its
  result, with the blocks of memory behind them.  A write or read outside of a block or a
  vector is an error value.
\<close>

section \<open>Memory\<close>

datatype mem_error = Invalid_Index | Buffer_Overflow | Buffer_Overread

datatype enum_field_types = MYSQL_TYPE_DECIMAL | MYSQL_TYPE_TINY | MYSQL_TYPE_SHORT | MYSQL_TYPE_LONG
  | MYSQL_TYPE_FLOAT | MYSQL_TYPE_DOUBLE | MYSQL_TYPE_NULL | MYSQL_TYPE_TIMESTAMP | MYSQL_TYPE_LONGLONG
  | MYSQL_TYPE_DATE | MYSQL_TYPE_TIME | MYSQL_TYPE_DATETIME | MYSQL_TYPE_STRING | MYSQL_TYPE_BLOB
  | MYSQL_TYPE_OTHER nat

text \<open>\<open>memcpy\<close> to the start of a block.\<close>

definition copy_to :: "bytes \<Rightarrow> bytes \<Rightarrow> mem_error + bytes" where
  "copy_to block d = (if length d \<le> length block then Inr (blit block 0 d) else Inl Buffer_Overflow)"

definition text_bytes :: "string \<Rightarrow> bytes" where
  "text_bytes s = map (\<lambda>c. word_of_nat (code c)) s"

section \<open>Parameters\<close>

text \<open>\<open>b_buffer\<close> is the block that \<open>malloc\<close> gave, of its full size; \<open>b_length\<close> is \<open>buffer_length\<close>.\<close>

record MYSQL_BIND =
  b_type :: enum_field_types
  b_buffer :: "bytes option"
  b_length :: nat
  b_unsigned :: bool

definition zero_bind :: MYSQL_BIND where
  "zero_bind = \<lparr>b_type = MYSQL_TYPE_DECIMAL, b_buffer = None, b_length = 0, b_unsigned = False\<rparr>"

text \<open>\<open>param_count\<close> is what the library counts in the statement, \<open>None\<close> when it cannot be prepared.\<close>

definition stmt_Create :: "(string \<Rightarrow> nat option) \<Rightarrow> string \<Rightarrow> MYSQL_BIND list option" where
  "stmt_Create param_count stmt = map_option (\<lambda>n. replicate n zero_bind) (param_count stmt)"

definition BIND_COPY :: "bytes \<Rightarrow> bytes option \<Rightarrow> mem_error + bytes" where
  "BIND_COPY d buffer = (case buffer of None \<Rightarrow> Inr d | Some b \<Rightarrow> copy_to b d)"

definition BIND_COPY_LEN :: "bytes \<Rightarrow> nat \<Rightarrow> bytes option \<Rightarrow> mem_error + bytes" where
  "BIND_COPY_LEN d buffer_length buffer = (case buffer of
       None \<Rightarrow> Inr d
     | Some b \<Rightarrow> if buffer_length < length d then Inr d else copy_to b d)"

text \<open>\<open>at_param idx f binds\<close> is \<open>f\<close> on \<open>m_binds[idx - 1]\<close>.\<close>

definition at_param :: "int \<Rightarrow> (MYSQL_BIND \<Rightarrow> mem_error + MYSQL_BIND) \<Rightarrow> MYSQL_BIND list \<Rightarrow> mem_error + MYSQL_BIND list" where
  "at_param idx f binds = (let i = idx - 1 in
     if i < 0 \<or> int (length binds) \<le> i then Inl Invalid_Index
     else map_sum id (\<lambda>b. binds[nat i := b]) (f (binds ! nat i)))"

definition bind_fixed :: "enum_field_types \<Rightarrow> bool option \<Rightarrow> bytes \<Rightarrow> MYSQL_BIND \<Rightarrow> mem_error + MYSQL_BIND" where
  "bind_fixed ty uns d b = map_sum id (\<lambda>buf. b\<lparr>b_type := ty, b_buffer := Some buf,
       b_unsigned := (case uns of None \<Rightarrow> b_unsigned b | Some u \<Rightarrow> u), b_length := length d\<rparr>) (BIND_COPY d (b_buffer b))"

definition bind_sized :: "enum_field_types \<Rightarrow> bytes \<Rightarrow> MYSQL_BIND \<Rightarrow> mem_error + MYSQL_BIND" where
  "bind_sized ty d b = map_sum id (\<lambda>buf. b\<lparr>b_type := ty, b_buffer := Some buf, b_length := length d\<rparr>)
     (BIND_COPY_LEN d (b_length b) (b_buffer b))"

definition bindNull :: "int \<Rightarrow> MYSQL_BIND list \<Rightarrow> mem_error + MYSQL_BIND list" where
  "bindNull idx = at_param idx (\<lambda>b. Inr (b\<lparr>b_type := MYSQL_TYPE_NULL\<rparr>))"

definition bindInt8 :: "endian \<Rightarrow> int \<Rightarrow> u8 \<Rightarrow> MYSQL_BIND list \<Rightarrow> mem_error + MYSQL_BIND list" where
  "bindInt8 h idx v = at_param idx (bind_fixed MYSQL_TYPE_TINY (Some False) (mem_image h v))"

definition bindUint8 :: "endian \<Rightarrow> int \<Rightarrow> u8 \<Rightarrow> MYSQL_BIND list \<Rightarrow> mem_error + MYSQL_BIND list" where
  "bindUint8 h idx v = at_param idx (bind_fixed MYSQL_TYPE_TINY (Some True) (mem_image h v))"

definition bindInt16 :: "endian \<Rightarrow> int \<Rightarrow> u16 \<Rightarrow> MYSQL_BIND list \<Rightarrow> mem_error + MYSQL_BIND list" where
  "bindInt16 h idx v = at_param idx (bind_fixed MYSQL_TYPE_SHORT (Some False) (mem_image h v))"

definition bindUint16 :: "endian \<Rightarrow> int \<Rightarrow> u16 \<Rightarrow> MYSQL_BIND list \<Rightarrow> mem_error + MYSQL_BIND list" where
  "bindUint16 h idx v = at_param idx (bind_fixed MYSQL_TYPE_SHORT (Some True) (mem_image h v))"

definition bindInt32 :: "endian \<Rightarrow> int \<Rightarrow> u32 \<Rightarrow> MYSQL_BIND list \<Rightarrow> mem_error + MYSQL_BIND list" where
  "bindInt32 h idx v = at_param idx (bind_fixed MYSQL_TYPE_LONG (Some False) (mem_image h v))"

definition bindUint32 :: "endian \<Rightarrow> int \<Rightarrow> u32 \<Rightarrow> MYSQL_BIND list \<Rightarrow> mem_error + MYSQL_BIND list" where
  "bindUint32 h idx v = at_param idx (bind_fixed MYSQL_TYPE_LONG (Some True) (mem_image h v))"

definition bindInt64 :: "endian \<Rightarrow> int \<Rightarrow> u64 \<Rightarrow> MYSQL_BIND list \<Rightarrow> mem_error + MYSQL_BIND list" where
  "bindInt64 h idx v = at_param idx (bind_fixed MYSQL_TYPE_LONGLONG (Some False) (mem_image h v))"

definition bindUint64 :: "endian \<Rightarrow> int \<Rightarrow> u64 \<Rightarrow> MYSQL_BIND list \<Rightarrow> mem_error + MYSQL_BIND list" where
  "bindUint64 h idx v = at_param idx (bind_fixed MYSQL_TYPE_LONGLONG (Some True) (mem_image h v))"

text \<open>A \<open>float\<close> and a \<open>double\<close> are given by their bits.\<close>

definition bindFloat :: "endian \<Rightarrow> int \<Rightarrow> u32 \<Rightarrow> MYSQL_BIND list \<Rightarrow> mem_error + MYSQL_BIND list" where
  "bindFloat h idx v = at_param idx (bind_fixed MYSQL_TYPE_FLOAT None (mem_image h v))"

definition bindDouble :: "endian \<Rightarrow> int \<Rightarrow> u64 \<Rightarrow> MYSQL_BIND list \<Rightarrow> mem_error + MYSQL_BIND list" where
  "bindDouble h idx v = at_param idx (bind_fixed MYSQL_TYPE_DOUBLE None (mem_image h v))"

definition bindString :: "int \<Rightarrow> string \<Rightarrow> MYSQL_BIND list \<Rightarrow> mem_error + MYSQL_BIND list" where
  "bindString idx v = at_param idx (bind_sized MYSQL_TYPE_STRING (text_bytes v))"

definition bindBlob :: "int \<Rightarrow> bytes \<Rightarrow> MYSQL_BIND list \<Rightarrow> mem_error + MYSQL_BIND list" where
  "bindBlob idx v = at_param idx (bind_sized MYSQL_TYPE_BLOB v)"

definition bindTime :: "(int \<Rightarrow> string) \<Rightarrow> int \<Rightarrow> int \<Rightarrow> MYSQL_BIND list \<Rightarrow> mem_error + MYSQL_BIND list" where
  "bindTime time2str idx v = bindString idx (time2str v)"

text \<open>
  The arguments of \<open>execStmt\<close> and \<open>queryStmt\<close>, which the templates \<open>bindX\<close> and \<open>MySQLBinder\<close> bind
  one after the other from index 1; each \<open>bind\<close> returns 0.
\<close>

datatype sql_arg = AText string | AInt8 u8 | AUint8 u8 | AInt16 u16 | AUint16 u16 | AInt32 u32 | AUint32 u32
  | AInt64 u64 | AUint64 u64 | AFloat u32 | ADouble u64

fun bind :: "endian \<Rightarrow> int \<Rightarrow> sql_arg \<Rightarrow> MYSQL_BIND list \<Rightarrow> mem_error + MYSQL_BIND list" where
  "bind h idx (AText v) = bindString idx v"
| "bind h idx (AInt8 v) = bindInt8 h idx v"
| "bind h idx (AUint8 v) = bindUint8 h idx v"
| "bind h idx (AInt16 v) = bindInt16 h idx v"
| "bind h idx (AUint16 v) = bindUint16 h idx v"
| "bind h idx (AInt32 v) = bindInt32 h idx v"
| "bind h idx (AUint32 v) = bindUint32 h idx v"
| "bind h idx (AInt64 v) = bindInt64 h idx v"
| "bind h idx (AUint64 v) = bindUint64 h idx v"
| "bind h idx (AFloat v) = bindFloat h idx v"
| "bind h idx (ADouble v) = bindDouble h idx v"

fun bindX :: "endian \<Rightarrow> int \<Rightarrow> sql_arg list \<Rightarrow> MYSQL_BIND list \<Rightarrow> mem_error + MYSQL_BIND list" where
  "bindX h n [] binds = Inr binds"
| "bindX h n (a # args) binds = (case bind h n a binds of Inl e \<Rightarrow> Inl e | Inr b \<Rightarrow> bindX h (n + 1) args b)"

text \<open>What the library reads of a parameter.\<close>

definition sent_param :: "MYSQL_BIND \<Rightarrow> enum_field_types \<times> bool \<times> bytes" where
  "sent_param b = (if b_type b = MYSQL_TYPE_NULL then (MYSQL_TYPE_NULL, False, [])
     else (b_type b, b_unsigned b, case b_buffer b of None \<Rightarrow> [] | Some d \<Rightarrow> take (b_length b) d))"

definition stmt_execute :: "((enum_field_types \<times> bool \<times> bytes) list \<Rightarrow> 'w \<Rightarrow> int \<times> 'w) \<Rightarrow> MYSQL_BIND list \<Rightarrow> 'w \<Rightarrow> int \<times> 'w" where
  "stmt_execute ex binds w = ex (map sent_param binds) w"

definition execStmt :: "(string \<Rightarrow> nat option) \<Rightarrow> ((enum_field_types \<times> bool \<times> bytes) list \<Rightarrow> 'w \<Rightarrow> int \<times> 'w)
    \<Rightarrow> endian \<Rightarrow> string \<Rightarrow> sql_arg list \<Rightarrow> 'w \<Rightarrow> mem_error + int \<times> 'w" where
  "execStmt param_count ex h stmt args w = (case stmt_Create param_count stmt of
       None \<Rightarrow> Inr (-1, w)
     | Some binds \<Rightarrow> (case bindX h 1 args binds of Inl e \<Rightarrow> Inl e | Inr b \<Rightarrow> Inr (stmt_execute ex b w)))"

section \<open>Columns\<close>

text \<open>
  \<open>MySQLStmtRes::Data\<close>; the block \<open>c_data\<close> is of its full size.  \<open>time_size\<close> is
  \<open>sizeof(MYSQL_TIME)\<close>.
\<close>

record Data =
  c_is_null :: bool
  c_error :: bool
  c_type :: enum_field_types
  c_length :: nat
  c_data_length :: int
  c_data :: bytes

definition type_size :: "nat \<Rightarrow> enum_field_types \<Rightarrow> nat \<Rightarrow> nat" where
  "type_size time_size ty len = (case ty of
       MYSQL_TYPE_TINY \<Rightarrow> 1 | MYSQL_TYPE_SHORT \<Rightarrow> 2 | MYSQL_TYPE_LONG \<Rightarrow> 4 | MYSQL_TYPE_LONGLONG \<Rightarrow> 8
     | MYSQL_TYPE_FLOAT \<Rightarrow> 4 | MYSQL_TYPE_DOUBLE \<Rightarrow> 8
     | MYSQL_TYPE_TIMESTAMP \<Rightarrow> time_size | MYSQL_TYPE_DATETIME \<Rightarrow> time_size | MYSQL_TYPE_DATE \<Rightarrow> time_size
     | MYSQL_TYPE_TIME \<Rightarrow> time_size | _ \<Rightarrow> len)"

definition alloc :: "nat \<Rightarrow> Data \<Rightarrow> Data" where
  "alloc sz c = c\<lparr>c_data := replicate sz 0, c_length := sz, c_data_length := sint (word_of_nat sz :: u32)\<rparr>"

definition new_Data :: "nat \<Rightarrow> enum_field_types \<times> nat \<Rightarrow> Data" where
  "new_Data time_size f = (case f of (ty, len) \<Rightarrow>
     alloc (type_size time_size ty len) \<lparr>c_is_null = False, c_error = False, c_type = ty, c_length = 0, c_data_length = 0, c_data = []\<rparr>)"

text \<open>
  What the library is told of a column by its \<open>MYSQL_BIND\<close>: the type and the \<open>buffer_length\<close>, to which
  the \<open>int32_t\<close> is converted.
\<close>

definition col_bind :: "Data \<Rightarrow> enum_field_types \<times> nat" where
  "col_bind c = (c_type c, nat (c_data_length c mod 2 ^ 64))"

text \<open>
  What the library writes for a column, through the pointers of the bind: the flags, the length and
  bytes from the start of the block.
\<close>

record fetched =
  f_is_null :: bool
  f_error :: bool
  f_length :: nat
  f_bytes :: bytes

definition write_cell :: "fetched \<Rightarrow> Data \<Rightarrow> mem_error + Data" where
  "write_cell x c = map_sum id
     (\<lambda>b. c\<lparr>c_is_null := f_is_null x, c_error := f_error x, c_length := f_length x, c_data := b\<rparr>)
     (copy_to (c_data c) (f_bytes x))"

fun write_row :: "fetched list \<Rightarrow> Data list \<Rightarrow> mem_error + Data list" where
  "write_row (x # xs) (c # cs) = (case write_cell x c of Inl e \<Rightarrow> Inl e | Inr c' \<Rightarrow>
     map_sum id ((#) c') (write_row xs cs))"
| "write_row _ cs = Inr cs"

text \<open>
  \<open>next\<close>: \<open>fetch\<close> is \<open>mysql_stmt_fetch\<close>.  It sees the binds and the state of the statement, and gives
  its result, what it writes, and the new state.
\<close>

type_synonym 'w fetch = "(enum_field_types \<times> nat) list \<Rightarrow> 'w \<Rightarrow> int \<times> fetched list \<times> 'w"

definition stmt_next :: "'w fetch \<Rightarrow> Data list \<times> 'w \<Rightarrow> mem_error + bool \<times> Data list \<times> 'w" where
  "stmt_next fetch s = (case s of (cs, w) \<Rightarrow>
     (case fetch (map col_bind cs) w of (rc, row, w') \<Rightarrow>
        map_sum id (\<lambda>cs'. (rc = 0, cs', w')) (write_row row cs)))"

text \<open>The getters of the fixed types read as many bytes as the type has, those of text \<open>length\<close> bytes.\<close>

definition get_fixed :: "endian \<Rightarrow> Data \<Rightarrow> mem_error + 'a::len word" where
  "get_fixed h c = (let n = LENGTH('a) div 8 in
     if n \<le> length (c_data c) then Inr (mem_load h (take n (c_data c))) else Inl Buffer_Overread)"

definition stmt_getString :: "Data \<Rightarrow> mem_error + bytes" where
  "stmt_getString c = (if c_length c \<le> length (c_data c) then Inr (take (c_length c) (c_data c)) else Inl Buffer_Overread)"

definition stmt_isNull :: "Data \<Rightarrow> bool" where
  "stmt_isNull c = c_is_null c"

definition stmt_getColumnBytes :: "Data \<Rightarrow> nat" where
  "stmt_getColumnBytes c = c_length c"

definition stmt_getColumnType :: "Data \<Rightarrow> enum_field_types" where
  "stmt_getColumnType c = c_type c"

text \<open>\<open>load_time\<close> reads the fields of a \<open>MYSQL_TIME\<close> from its bytes.\<close>

definition stmt_getTime :: "(bytes \<Rightarrow> MYSQL_TIME) \<Rightarrow> nat \<Rightarrow> (int \<Rightarrow> tm) \<Rightarrow> (tm \<Rightarrow> int) \<Rightarrow> Data \<Rightarrow> mem_error + int" where
  "stmt_getTime load_time time_size localtime mktime c =
     (if time_size \<le> length (c_data c)
      then Inr (mysql_time_to_time_t localtime mktime (load_time (take time_size (c_data c)))) else Inl Buffer_Overread)"

section \<open>The result of a statement\<close>

text \<open>
  The library's calls on the statement: the error number and text, the types and lengths of the columns (none
  for a statement without a result), and whether binding, storing and executing succeed.
\<close>

record 'w stmt_api =
  sa_errno :: "'w \<Rightarrow> int"
  sa_error :: "'w \<Rightarrow> string"
  sa_metadata :: "'w \<Rightarrow> (enum_field_types \<times> nat) list option"
  sa_bind_result :: "(enum_field_types \<times> nat) list \<Rightarrow> 'w \<Rightarrow> int \<times> 'w"
  sa_execute :: "(enum_field_types \<times> bool \<times> bytes) list \<Rightarrow> 'w \<Rightarrow> int \<times> 'w"
  sa_store_result :: "'w \<Rightarrow> int \<times> 'w"

record MySQLStmtRes =
  sr_errno :: int
  sr_errstr :: string
  sr_datas :: "Data list"

definition failed_res :: "'w stmt_api \<Rightarrow> 'w \<Rightarrow> MySQLStmtRes" where
  "failed_res api w = \<lparr>sr_errno = sa_errno api w, sr_errstr = sa_error api w, sr_datas = []\<rparr>"

definition stmt_query :: "'w stmt_api \<Rightarrow> nat \<Rightarrow> MYSQL_BIND list \<Rightarrow> 'w \<Rightarrow> MySQLStmtRes \<times> 'w" where
  "stmt_query api time_size binds w =
    (if sa_errno api w \<noteq> 0 then (failed_res api w, w)
     else (case sa_metadata api w of
         None \<Rightarrow> (failed_res api w, w)
       | Some fs \<Rightarrow> let datas = map (new_Data time_size) fs in
          (case sa_bind_result api (map col_bind datas) w of (r1, w1) \<Rightarrow>
             if r1 \<noteq> 0 then (failed_res api w1, w1)
             else (case stmt_execute (sa_execute api) binds w1 of (_, w2) \<Rightarrow>
               (case sa_store_result api w2 of (r3, w3) \<Rightarrow>
                 if r3 \<noteq> 0 then (failed_res api w3, w3)
                 else (\<lparr>sr_errno = sa_errno api w, sr_errstr = sa_error api w, sr_datas = datas\<rparr>, w3))))))"

end
