(* ===== verification/MySQL_Stmt_Correct.thy ===== *)
theory MySQL_Stmt_Correct
  imports MySQL_Stmt
begin

text \<open>
  Parameters reach the server as they were bound, columns are read as they were declared; and the
  two ways in which the code leaves its blocks of memory.
\<close>

section \<open>Parameters\<close>

text \<open>The recorded length is within the block; then a bind of variable length never overflows.\<close>

definition bind_ok :: "MYSQL_BIND \<Rightarrow> bool" where
  "bind_ok b \<longleftrightarrow> (case b_buffer b of None \<Rightarrow> True | Some d \<Rightarrow> b_length b \<le> length d)"

fun arg_type :: "sql_arg \<Rightarrow> enum_field_types" where
  "arg_type (AText v) = MYSQL_TYPE_STRING"
| "arg_type (AInt8 v) = MYSQL_TYPE_TINY" | "arg_type (AUint8 v) = MYSQL_TYPE_TINY"
| "arg_type (AInt16 v) = MYSQL_TYPE_SHORT" | "arg_type (AUint16 v) = MYSQL_TYPE_SHORT"
| "arg_type (AInt32 v) = MYSQL_TYPE_LONG" | "arg_type (AUint32 v) = MYSQL_TYPE_LONG"
| "arg_type (AInt64 v) = MYSQL_TYPE_LONGLONG" | "arg_type (AUint64 v) = MYSQL_TYPE_LONGLONG"
| "arg_type (AFloat v) = MYSQL_TYPE_FLOAT" | "arg_type (ADouble v) = MYSQL_TYPE_DOUBLE"

fun arg_unsigned :: "sql_arg \<Rightarrow> bool option" where
  "arg_unsigned (AInt8 v) = Some False" | "arg_unsigned (AUint8 v) = Some True"
| "arg_unsigned (AInt16 v) = Some False" | "arg_unsigned (AUint16 v) = Some True"
| "arg_unsigned (AInt32 v) = Some False" | "arg_unsigned (AUint32 v) = Some True"
| "arg_unsigned (AInt64 v) = Some False" | "arg_unsigned (AUint64 v) = Some True"
| "arg_unsigned _ = None"

fun arg_bytes :: "endian \<Rightarrow> sql_arg \<Rightarrow> bytes" where
  "arg_bytes h (AText v) = text_bytes v"
| "arg_bytes h (AInt8 v) = mem_image h v" | "arg_bytes h (AUint8 v) = mem_image h v"
| "arg_bytes h (AInt16 v) = mem_image h v" | "arg_bytes h (AUint16 v) = mem_image h v"
| "arg_bytes h (AInt32 v) = mem_image h v" | "arg_bytes h (AUint32 v) = mem_image h v"
| "arg_bytes h (AInt64 v) = mem_image h v" | "arg_bytes h (AUint64 v) = mem_image h v"
| "arg_bytes h (AFloat v) = mem_image h v" | "arg_bytes h (ADouble v) = mem_image h v"

definition is_text :: "sql_arg \<Rightarrow> bool" where
  "is_text a \<longleftrightarrow> (\<exists>v. a = AText v)"

text \<open>A value of fixed size needs a block that is not there yet or is large enough.\<close>

definition fits :: "endian \<Rightarrow> sql_arg \<Rightarrow> MYSQL_BIND \<Rightarrow> bool" where
  "fits h a b \<longleftrightarrow> is_text a \<or> (case b_buffer b of None \<Rightarrow> True | Some d \<Rightarrow> length (arg_bytes h a) \<le> length d)"

definition bound :: "endian \<Rightarrow> sql_arg \<Rightarrow> MYSQL_BIND \<Rightarrow> bytes \<Rightarrow> MYSQL_BIND" where
  "bound h a b buf = b\<lparr>b_type := arg_type a, b_buffer := Some buf,
     b_unsigned := (case arg_unsigned a of None \<Rightarrow> b_unsigned b | Some u \<Rightarrow> u), b_length := length (arg_bytes h a)\<rparr>"

definition bind_one :: "endian \<Rightarrow> sql_arg \<Rightarrow> MYSQL_BIND \<Rightarrow> mem_error + MYSQL_BIND" where
  "bind_one h a b = map_sum id (bound h a b) (if is_text a then BIND_COPY_LEN (arg_bytes h a) (b_length b) (b_buffer b)
     else BIND_COPY (arg_bytes h a) (b_buffer b))"

lemma bind_at: "bind h idx a = at_param idx (bind_one h a)"
  by (cases a; simp only: bind.simps bindString_def bindInt8_def bindUint8_def bindInt16_def
      bindUint16_def bindInt32_def bindUint32_def bindInt64_def bindUint64_def bindFloat_def bindDouble_def;
      rule arg_cong [where f = "at_param idx"]; rule ext;
      simp add: bind_one_def bound_def [abs_def] is_text_def bind_fixed_def bind_sized_def)

lemma copy_to_take: "length d \<le> length b \<Longrightarrow> \<exists>b'. copy_to b d = Inr b' \<and> take (length d) b' = d \<and> length b' = length b"
  by (simp add: copy_to_def blit_def)

lemma bind_one_ok:
  assumes "bind_ok b" "fits h a b"
  shows "\<exists>buf. bind_one h a b = Inr (bound h a b buf) \<and> take (length (arg_bytes h a)) buf = arg_bytes h a
    \<and> length (arg_bytes h a) \<le> length buf"
proof (cases "b_buffer b")
  case None
  then show ?thesis by (auto simp: bind_one_def BIND_COPY_def BIND_COPY_LEN_def)
next
  case (Some d)
  show ?thesis
  proof (cases "is_text a \<and> b_length b < length (arg_bytes h a)")
    case True
    then show ?thesis by (auto simp: bind_one_def BIND_COPY_LEN_def Some)
  next
    case False
    with assms Some have "length (arg_bytes h a) \<le> length d" by (auto simp: bind_ok_def fits_def)
    from copy_to_take [OF this] False this show ?thesis
      by (auto simp: bind_one_def BIND_COPY_def BIND_COPY_LEN_def Some)
  qed
qed

lemma bound_sent:
  assumes "take (length (arg_bytes h a)) buf = arg_bytes h a"
  shows "sent_param (bound h a b buf)
    = (arg_type a, case arg_unsigned a of None \<Rightarrow> b_unsigned b | Some u \<Rightarrow> u, arg_bytes h a)"
proof -
  have "arg_type a \<noteq> MYSQL_TYPE_NULL" by (cases a) auto
  with assms show ?thesis by (simp add: sent_param_def bound_def)
qed

text \<open>
  A bind changes its own parameter and no other: the server will read the type, the
  signedness and exactly the bytes of the value, whatever was bound there before, provided a
  value of fixed size finds no smaller block; text never overflows.
\<close>

theorem bind_delivers:
  assumes "0 < idx" "idx \<le> int (length binds)" "\<forall>b \<in> set binds. bind_ok b" "fits h a (binds ! nat (idx - 1))"
  shows "\<exists>binds'. bind h idx a binds = Inr binds' \<and> length binds' = length binds \<and> (\<forall>b \<in> set binds'. bind_ok b)
    \<and> sent_param (binds' ! nat (idx - 1)) = (arg_type a,
        case arg_unsigned a of None \<Rightarrow> b_unsigned (binds ! nat (idx - 1)) | Some u \<Rightarrow> u, arg_bytes h a)
    \<and> (\<forall>j < length binds. j \<noteq> nat (idx - 1) \<longrightarrow> binds' ! j = binds ! j)"
proof -
  let ?i = "nat (idx - 1)"
  have i: "?i < length binds" "\<not> idx - 1 < 0" "\<not> int (length binds) \<le> idx - 1" using assms(1,2) by auto
  then have "bind_ok (binds ! ?i)" using assms(3) by simp
  from bind_one_ok [OF this assms(4)] obtain buf where b: "bind_one h a (binds ! ?i) = Inr (bound h a (binds ! ?i) buf)"
    "take (length (arg_bytes h a)) buf = arg_bytes h a" "length (arg_bytes h a) \<le> length buf" by blast
  have ok: "bind_ok (bound h a (binds ! ?i) buf)" using b(3) by (simp add: bind_ok_def bound_def)
  let ?b' = "binds[?i := bound h a (binds ! ?i) buf]"
  have "bind h idx a binds = Inr ?b'" using i b(1) by (simp add: bind_at at_param_def Let_def)
  moreover have "\<forall>b \<in> set ?b'. bind_ok b" using assms(3) ok set_update_subset_insert [of binds ?i] by blast
  ultimately show ?thesis using i(1) bound_sent [OF b(2), of "binds ! ?i"] by auto
qed

text \<open>A text is bound over a longer one and over an integer.\<close>

theorem bind_delivers_witness:
  "\<exists>binds'. bind LittleEndian 1 (AText ''ab'') [\<lparr>b_type = MYSQL_TYPE_LONG, b_buffer = Some [1, 2, 3, 4], b_length = 4, b_unsigned = True\<rparr>] = Inr binds'
     \<and> sent_param (binds' ! 0) = (MYSQL_TYPE_STRING, True, [97, 98])"
proof -
  let ?b = "[\<lparr>b_type = MYSQL_TYPE_LONG, b_buffer = Some [1, 2, 3, 4], b_length = 4, b_unsigned = True\<rparr>]"
  have "(0 :: int) < 1" "(1 :: int) \<le> int (length ?b)" "\<forall>b \<in> set ?b. bind_ok b" "fits LittleEndian (AText ''ab'') (?b ! nat (1 - 1))"
    by (simp_all add: bind_ok_def fits_def is_text_def)
  from bind_delivers [OF this] show ?thesis by (auto simp: text_bytes_def code_def)
qed

text \<open>What \<open>execStmt\<close> sends, when the statement has as many parameters as arguments were given.\<close>

lemma bindX_prefix:
  assumes "length binds = length pre + length args" "take (length pre) binds = pre" "drop (length pre) binds = replicate (length args) zero_bind"
    "\<forall>b \<in> set pre. bind_ok b"
  shows "\<exists>binds'. bindX h (int (length pre) + 1) args binds = Inr (pre @ binds')
    \<and> map sent_param binds' = map (\<lambda>a. (arg_type a, arg_unsigned a = Some True, arg_bytes h a)) args"
  using assms
proof (induction args arbitrary: pre binds)
  case Nil
  then show ?case by auto
next
  case (Cons a args)
  let ?i = "length pre"
  have z: "binds = pre @ zero_bind # replicate (length args) zero_bind"
    using Cons.prems append_take_drop_id [of ?i binds] by simp
  have "fits h a zero_bind" "bind_ok zero_bind" by (simp_all add: fits_def bind_ok_def zero_bind_def)
  from bind_one_ok [OF this(2,1)] obtain buf where b: "bind_one h a zero_bind = Inr (bound h a zero_bind buf)"
    "take (length (arg_bytes h a)) buf = arg_bytes h a" "length (arg_bytes h a) \<le> length buf" by blast
  let ?b = "bound h a zero_bind buf"
  have step: "bind h (int ?i + 1) a binds = Inr ((pre @ [?b]) @ replicate (length args) zero_bind)"
    using b(1) by (simp add: bind_at at_param_def Let_def z list_update_append)
  have "\<forall>b \<in> set (pre @ [?b]). bind_ok b" using Cons.prems(4) b(3) by (auto simp: bind_ok_def bound_def)
  from Cons.IH [of "(pre @ [?b]) @ replicate (length args) zero_bind" "pre @ [?b]", OF _ _ _ this]
  obtain binds' where "bindX h (int ?i + 1 + 1) args ((pre @ [?b]) @ replicate (length args) zero_bind) = Inr ((pre @ [?b]) @ binds')"
    "map sent_param binds' = map (\<lambda>a. (arg_type a, arg_unsigned a = Some True, arg_bytes h a)) args" by auto
  moreover have "sent_param ?b = (arg_type a, arg_unsigned a = Some True, arg_bytes h a)"
    using bound_sent [OF b(2), of zero_bind] by (auto simp: zero_bind_def split: option.splits)
  ultimately show ?case using step by (intro exI [of _ "?b # binds'"]) simp
qed

text \<open>
  A statement that takes as many parameters as there are arguments is executed with exactly
  these, in their order, each with its type, signedness and bytes.
\<close>

theorem execStmt_sends:
  assumes "param_count stmt = Some (length args)"
  shows "execStmt param_count ex h stmt args w
    = Inr (ex (map (\<lambda>a. (arg_type a, arg_unsigned a = Some True, arg_bytes h a)) args) w)"
proof -
  from bindX_prefix [of "replicate (length args) zero_bind" "[]" args h]
  obtain binds' where "bindX h 1 args (replicate (length args) zero_bind) = Inr binds'"
    "map sent_param binds' = map (\<lambda>a. (arg_type a, arg_unsigned a = Some True, arg_bytes h a)) args" by auto
  then show ?thesis using assms by (simp add: execStmt_def stmt_Create_def stmt_execute_def)
qed

theorem execStmt_sends_witness:
  "execStmt (\<lambda>_. Some 2) (\<lambda>ps w. (0, ps)) LittleEndian ''q'' [AUint16 258, AText ''a''] []
    = Inr (0, [(MYSQL_TYPE_SHORT, True, [2, 1]), (MYSQL_TYPE_STRING, False, [97])])"
proof -
  have "mem_image LittleEndian (258 :: u16) = [2, 1]" by code_simp
  moreover have "text_bytes ''a'' = [97]" by (simp add: text_bytes_def code_def)
  ultimately show ?thesis
    using execStmt_sends [of "\<lambda>_. Some 2" "''q''" "[AUint16 258, AText ''a'']" "\<lambda>ps w. (0, ps)" LittleEndian "[]"]
    by simp
qed

text \<open>
  A wider value bound over a narrower one is copied past the end of the block, which is only
  replaced for texts; and one argument too many is bound past the end of the vector.
\<close>

lemma rebind_wider_overflows:
  "\<exists>b1. bind h 1 (AInt8 x) [zero_bind] = Inr b1 \<and> bind h 1 (AInt64 y) b1 = Inl Buffer_Overflow"
  by (simp add: bind_at at_param_def bind_one_def BIND_COPY_def zero_bind_def is_text_def bound_def copy_to_def)

lemma too_many_arguments:
  "param_count stmt = Some 0 \<Longrightarrow> execStmt param_count ex h stmt (a # args) w = Inl Invalid_Index"
  by (simp add: execStmt_def stmt_Create_def bind_at at_param_def)

section \<open>Columns\<close>

definition col_ok :: "nat \<Rightarrow> enum_field_types \<times> nat \<Rightarrow> Data \<Rightarrow> bool" where
  "col_ok ts f c \<longleftrightarrow> c_type c = fst f \<and> length (c_data c) = type_size ts (fst f) (snd f)
     \<and> c_data_length c = sint (word_of_nat (type_size ts (fst f) (snd f)) :: u32)"

lemma new_Data_ok: "col_ok ts f (new_Data ts f)"
  by (cases f) (simp add: col_ok_def new_Data_def alloc_def)

text \<open>
  What the library documents of \<open>mysql_stmt_fetch\<close>.  The size of the C type that it writes for a
  type of fixed size: 9 is \<open>MYSQL_TYPE_INT24\<close>, an \<open>int\<close>, and 13 is \<open>MYSQL_TYPE_YEAR\<close>, a \<open>short\<close>.
\<close>

definition c_width :: "nat \<Rightarrow> enum_field_types \<Rightarrow> nat option" where
  "c_width time_size ty = (case ty of
     MYSQL_TYPE_TINY \<Rightarrow> Some 1 | MYSQL_TYPE_SHORT \<Rightarrow> Some 2 | MYSQL_TYPE_LONG \<Rightarrow> Some 4
   | MYSQL_TYPE_LONGLONG \<Rightarrow> Some 8 | MYSQL_TYPE_FLOAT \<Rightarrow> Some 4 | MYSQL_TYPE_DOUBLE \<Rightarrow> Some 8
   | MYSQL_TYPE_TIMESTAMP \<Rightarrow> Some time_size | MYSQL_TYPE_DATE \<Rightarrow> Some time_size
   | MYSQL_TYPE_TIME \<Rightarrow> Some time_size | MYSQL_TYPE_DATETIME \<Rightarrow> Some time_size
   | MYSQL_TYPE_OTHER n \<Rightarrow> if n = 9 then Some 4 else if n = 13 then Some 2 else None
   | _ \<Rightarrow> None)"

text \<open>
  A column of the row is \<open>NULL\<close>, and then no byte is written, or a value.  A value of fixed size is
  written whole, whatever \<open>buffer_length\<close> is; of any other as much as \<open>buffer_length\<close> allows, and
  its full length is given.
\<close>

definition stores :: "nat \<Rightarrow> enum_field_types \<times> nat \<Rightarrow> bytes option \<Rightarrow> fetched \<Rightarrow> bool" where
  "stores time_size b v x \<longleftrightarrow> (case v of
     None \<Rightarrow> f_is_null x \<and> f_bytes x = []
   | Some d \<Rightarrow> \<not> f_is_null x \<and> (case c_width time_size (fst b) of
         Some n \<Rightarrow> length d = n \<and> f_bytes x = d
       | None \<Rightarrow> f_bytes x = take (snd b) d \<and> f_length x = length d))"

text \<open>
  A call stores the next row, \<open>vals w\<close>, and returns 0, or 101 when some of it did not fit; it
  returns another value, 100 behind the last row or 1 on an error, and stores nothing.
\<close>

definition documented_fetch :: "nat \<Rightarrow> 'w fetch \<Rightarrow> ('w \<Rightarrow> bytes option list) \<Rightarrow> bool" where
  "documented_fetch time_size fetch vals \<longleftrightarrow> (\<forall>binds w. case fetch binds w of (rc, row, _) \<Rightarrow>
     if rc = 0 \<or> rc = 101
     then length (vals w) = length binds \<and> length row = length binds
       \<and> (\<forall>i < length binds. stores time_size (binds ! i) (vals w ! i) (row ! i))
     else row = [])"

text \<open>The length of a field of the result, which the code takes for the size of most types.\<close>

definition roomy :: "enum_field_types \<times> nat \<Rightarrow> bool" where
  "roomy f \<longleftrightarrow> snd f < 2 ^ 31 \<and> (fst f = MYSQL_TYPE_OTHER 9 \<longrightarrow> 4 \<le> snd f) \<and> (fst f = MYSQL_TYPE_OTHER 13 \<longrightarrow> 2 \<le> snd f)"

text \<open>What the getters of the type of a column give for the value \<open>v\<close>.\<close>

definition reads_as :: "endian \<Rightarrow> nat \<Rightarrow> enum_field_types \<times> nat \<Rightarrow> bytes option \<Rightarrow> Data \<Rightarrow> bool" where
  "reads_as h time_size f v c \<longleftrightarrow> (stmt_isNull c \<longleftrightarrow> v = None) \<and> (case v of None \<Rightarrow> True | Some d \<Rightarrow> (case fst f of
     MYSQL_TYPE_TINY \<Rightarrow> (\<forall>x. d = mem_image h x \<longrightarrow> get_fixed h c = Inr (x :: u8))
   | MYSQL_TYPE_SHORT \<Rightarrow> (\<forall>x. d = mem_image h x \<longrightarrow> get_fixed h c = Inr (x :: u16))
   | MYSQL_TYPE_LONG \<Rightarrow> (\<forall>x. d = mem_image h x \<longrightarrow> get_fixed h c = Inr (x :: u32))
   | MYSQL_TYPE_LONGLONG \<Rightarrow> (\<forall>x. d = mem_image h x \<longrightarrow> get_fixed h c = Inr (x :: u64))
   | MYSQL_TYPE_FLOAT \<Rightarrow> (\<forall>x. d = mem_image h x \<longrightarrow> get_fixed h c = Inr (x :: u32))
   | MYSQL_TYPE_DOUBLE \<Rightarrow> (\<forall>x. d = mem_image h x \<longrightarrow> get_fixed h c = Inr (x :: u64))
   | _ \<Rightarrow> if fst f \<in> {MYSQL_TYPE_TIMESTAMP, MYSQL_TYPE_DATE, MYSQL_TYPE_TIME, MYSQL_TYPE_DATETIME}
       then \<forall>load lt mk. stmt_getTime load time_size lt mk c = Inr (mysql_time_to_time_t lt mk (load d))
       else c_width time_size (fst f) = None \<and> length d \<le> snd f \<longrightarrow> stmt_getString c = Inr d))"

text \<open>\<open>next\<close> again and again, whatever it returns.\<close>

fun nexts :: "'w fetch \<Rightarrow> nat \<Rightarrow> Data list \<times> 'w \<Rightarrow> mem_error + Data list \<times> 'w" where
  "nexts fetch 0 s = Inr s"
| "nexts fetch (Suc n) s = (case stmt_next fetch s of Inl e \<Rightarrow> Inl e | Inr (_, s') \<Rightarrow> nexts fetch n s')"

lemma buf_len:
  "n < 2 ^ 31 \<Longrightarrow> nat (sint (word_of_nat n :: u32) mod 2 ^ 64) = n"
  by (simp add: signed_of_nat signed_take_bit_int_eq_self)

lemma col_bind_ok:
  assumes "col_ok ts f c" "roomy f" "ts < 2 ^ 31"
  shows "col_bind c = (fst f, type_size ts (fst f) (snd f))" "length (c_data c) = type_size ts (fst f) (snd f)"
proof -
  have "type_size ts (fst f) (snd f) < 2 ^ 31"
    using assms(2,3) by (auto simp: type_size_def roomy_def split: enum_field_types.splits)
  from buf_len [OF this] assms(1)
  show "col_bind c = (fst f, type_size ts (fst f) (snd f))" "length (c_data c) = type_size ts (fst f) (snd f)"
    by (simp_all add: col_bind_def col_ok_def)
qed

text \<open>The blocks are as large as what is written to them.\<close>

lemma stored_fits:
  assumes "stores ts (fst f, type_size ts (fst f) (snd f)) v x" "roomy f"
  shows "length (f_bytes x) \<le> type_size ts (fst f) (snd f)"
  using assms
  by (cases "fst f") (auto simp: stores_def c_width_def type_size_def roomy_def split: option.splits if_splits)

lemma get_fixed_block:
  "c_data c = mem_image h x \<Longrightarrow> whole_bytes TYPE('a::len word) \<Longrightarrow> get_fixed h c = Inr (x :: 'a word)"
  by (simp add: get_fixed_def Let_def mem_load_image flip: nbytes_def [of x])

lemma write_cell_ok:
  assumes c: "col_ok ts f c" and f: "roomy f" "ts < 2 ^ 31" and x: "stores ts (col_bind c) v x"
  shows "\<exists>c'. write_cell x c = Inr c' \<and> col_ok ts f c' \<and> reads_as h ts f v c'"
proof -
  note b = col_bind_ok [OF c f]
  let ?block = "f_bytes x @ drop (length (f_bytes x)) (c_data c)"
  let ?c = "c\<lparr>c_is_null := f_is_null x, c_error := f_error x, c_length := f_length x, c_data := ?block\<rparr>"
  have len: "length (f_bytes x) \<le> length (c_data c)" using stored_fits x f(1) b by metis
  then have w: "write_cell x c = Inr ?c" by (simp add: write_cell_def copy_to_def blit_def)
  have "col_ok ts f ?c" using c len by (simp add: col_ok_def)
  moreover have "reads_as h ts f v ?c"
  proof (cases v)
    case None
    with x show ?thesis by (simp add: reads_as_def stores_def stmt_isNull_def)
  next
    case (Some d)
    show ?thesis
    proof (cases "c_width ts (fst f)")
      case (Some n)
      with x b(1) \<open>v = Some d\<close> have d: "f_bytes x = d" "length d = n" "\<not> f_is_null x" by (simp_all add: stores_def)
      have "(\<forall>k. fst f \<noteq> MYSQL_TYPE_OTHER k) \<Longrightarrow> length (c_data c) = n"
        using Some b(2) by (auto simp: c_width_def type_size_def split: enum_field_types.splits if_splits)
      with d show ?thesis using \<open>v = Some d\<close> Some
        by (cases "fst f") (auto simp: reads_as_def stmt_isNull_def stmt_getTime_def c_width_def get_fixed_block)
    next
      case None
      with x b(1) \<open>v = Some d\<close> have d: "f_bytes x = take (type_size ts (fst f) (snd f)) d" "f_length x = length d" "\<not> f_is_null x"
        by (simp_all add: stores_def)
      have "type_size ts (fst f) (snd f) = snd f"
        using None by (auto simp: c_width_def type_size_def split: enum_field_types.splits)
      with d b(2) None \<open>v = Some d\<close> show ?thesis
        by (cases "fst f") (auto simp: reads_as_def stmt_isNull_def stmt_getString_def c_width_def)
    qed
  qed
  ultimately show ?thesis using w by blast
qed

lemma write_row_ok:
  assumes "list_all2 (col_ok ts) fs cs" "\<forall>f \<in> set fs. roomy f" "ts < 2 ^ 31" "length vs = length fs" "length row = length fs"
    "\<forall>i < length fs. stores ts (col_bind (cs ! i)) (vs ! i) (row ! i)"
  shows "\<exists>cs'. write_row row cs = Inr cs' \<and> list_all2 (col_ok ts) fs cs'
    \<and> (\<forall>i < length fs. reads_as h ts (fs ! i) (vs ! i) (cs' ! i))"
  using assms
proof (induction fs cs arbitrary: vs row rule: list_all2_induct)
  case (Cons f fs c cs)
  obtain v vs' x row' where e: "vs = v # vs'" "row = x # row'"
    using Cons.prems by (metis length_Suc_conv list.size(4) add.right_neutral add_Suc_right)
  from Cons.prems(5) e have x: "stores ts (col_bind c) v x" by auto
  from write_cell_ok [OF Cons.hyps(1) _ Cons.prems(2) x, of h] Cons.prems(1) obtain c' where
    c': "write_cell x c = Inr c'" "col_ok ts f c'" "reads_as h ts f v c'" by auto
  have "\<forall>i < length fs. stores ts (col_bind (cs ! i)) (vs' ! i) (row' ! i)" using Cons.prems(5) e by auto
  from Cons.IH [OF _ Cons.prems(2) _ _ this] Cons.prems(1,3,4) e obtain cs' where
    cs': "write_row row' cs = Inr cs'" "list_all2 (col_ok ts) fs cs'"
      "\<forall>i < length fs. reads_as h ts (fs ! i) (vs' ! i) (cs' ! i)" by auto
  with c' e have "\<forall>i < length (f # fs). reads_as h ts ((f # fs) ! i) (vs ! i) ((c' # cs') ! i)"
    by (auto simp: nth_Cons split: nat.splits)
  with c' cs' e show ?case by auto
qed simp

lemma next_ok:
  assumes doc: "documented_fetch ts fetch vals" and ts: "ts < 2 ^ 31" and fs: "\<forall>f \<in> set fs. roomy f"
    and cs: "list_all2 (col_ok ts) fs cs"
  shows "\<exists>ok cs' w'. stmt_next fetch (cs, w) = Inr (ok, cs', w') \<and> list_all2 (col_ok ts) fs cs'
    \<and> (ok \<longrightarrow> (\<forall>i < length fs. reads_as h ts (fs ! i) (vals w ! i) (cs' ! i)))"
proof -
  obtain rc row w' where f: "fetch (map col_bind cs) w = (rc, row, w')" by (metis surj_pair)
  have len: "length cs = length fs" using cs by (simp add: list_all2_lengthD)
  show ?thesis
  proof (cases "rc = 0 \<or> rc = 101")
    case True
    with doc f len have "length (vals w) = length fs" "length row = length fs"
      "\<forall>i < length fs. stores ts (col_bind (cs ! i)) (vals w ! i) (row ! i)"
      unfolding documented_fetch_def by (auto dest!: spec [of _ "map col_bind cs"] spec [of _ w])
    from write_row_ok [OF cs fs ts this, of h] show ?thesis using f by (auto simp: stmt_next_def)
  next
    case False
    with doc f have "row = []"
      unfolding documented_fetch_def by (auto dest!: spec [of _ "map col_bind cs"] spec [of _ w])
    with False cs f show ?thesis by (auto simp: stmt_next_def)
  qed
qed

lemma nexts_ok:
  assumes "documented_fetch ts fetch vals" "ts < 2 ^ 31" "\<forall>f \<in> set fs. roomy f" "list_all2 (col_ok ts) fs cs"
  shows "\<exists>cs' w'. nexts fetch n (cs, w) = Inr (cs', w') \<and> list_all2 (col_ok ts) fs cs'"
  using assms(4)
proof (induction n arbitrary: cs w)
  case (Suc n)
  from next_ok [OF assms(1-3) Suc.prems, of w] obtain ok cs' w' where
    s: "stmt_next fetch (cs, w) = Inr (ok, cs', w')" "list_all2 (col_ok ts) fs cs'" by blast
  from Suc.IH [OF s(2), of w'] s(1) show ?case by simp
qed simp

text \<open>
  C22.  The columns of a result, with a library whose \<open>mysql_stmt_fetch\<close> does what it documents:
  however often \<open>next\<close> was called, the library writes within the blocks that were allocated for the
  types of the columns; and when \<open>next\<close> has returned true, \<open>isNull\<close> and the getter for the type of
  each column (8, 16, 32 or 64 bits for \<open>TINY\<close>, \<open>SHORT\<close>, \<open>LONG\<close> and \<open>LONGLONG\<close>, the bits of a \<open>float\<close>
  or \<open>double\<close>, a time, and text that is not longer than its column) give the value of the row.  A
  \<open>MEDIUMINT\<close> or \<open>YEAR\<close> column must be declared wide enough.
\<close>

theorem column_is_typed:
  assumes "documented_fetch ts fetch vals" "ts < 2 ^ 31" "\<forall>f \<in> set fs. roomy f"
  shows "\<exists>cs w1 ok cs' w2. nexts fetch n (map (new_Data ts) fs, w) = Inr (cs, w1)
    \<and> stmt_next fetch (cs, w1) = Inr (ok, cs', w2) \<and> length cs' = length fs
    \<and> (ok \<longrightarrow> (\<forall>i < length fs. reads_as h ts (fs ! i) (vals w1 ! i) (cs' ! i)))"
proof -
  have "list_all2 (col_ok ts) fs (map (new_Data ts) fs)" by (simp add: list_all2_conv_all_nth new_Data_ok)
  from nexts_ok [OF assms this, of n w] obtain cs w1 where
    cs: "nexts fetch n (map (new_Data ts) fs, w) = Inr (cs, w1)" "list_all2 (col_ok ts) fs cs" by blast
  from next_ok [OF assms cs(2), of w1 h] obtain ok cs' w2 where "stmt_next fetch (cs, w1) = Inr (ok, cs', w2)"
    "list_all2 (col_ok ts) fs cs'" "ok \<longrightarrow> (\<forall>i < length fs. reads_as h ts (fs ! i) (vals w1 ! i) (cs' ! i))" by blast
  with cs(1) show ?thesis by (auto dest: list_all2_lengthD)
qed

text \<open>
  A statement with the rows that are left, each fetched if it has the columns of the binds, and
  their sizes; in it, two rows of an \<open>INT\<close> and a text.
\<close>

definition demo_cell :: "enum_field_types \<times> nat \<Rightarrow> bytes option \<Rightarrow> fetched" where
  "demo_cell b v = (case v of
     None \<Rightarrow> \<lparr>f_is_null = True, f_error = False, f_length = 0, f_bytes = []\<rparr>
   | Some d \<Rightarrow> \<lparr>f_is_null = False, f_error = False, f_length = length d,
       f_bytes = (if c_width 40 (fst b) = None then take (snd b) d else d)\<rparr>)"

definition demo_fetch :: "bytes option list list fetch" where
  "demo_fetch binds rows = (case rows of
     [] \<Rightarrow> (100, [], [])
   | r # rs \<Rightarrow> if list_all2 (\<lambda>b v. stores 40 b v (demo_cell b v)) binds r
       then (0, map2 demo_cell binds r, rs) else (1, [], rs))"

definition demo_vals :: "bytes option list list \<Rightarrow> bytes option list" where
  "demo_vals rows = (case rows of [] \<Rightarrow> [] | r # _ \<Rightarrow> r)"

lemma demo_fetch_documented: "documented_fetch 40 demo_fetch demo_vals"
  by (auto simp: documented_fetch_def demo_fetch_def demo_vals_def list_all2_conv_all_nth split: list.splits)

theorem column_is_typed_witness:
  defines "r1 \<equiv> [Some [1, 2, 3, 4], None]" and "r2 \<equiv> [Some [0, 0, 0, 7], Some [104, 105]]"
  shows "\<exists>cs w1 cs' w2. nexts demo_fetch 1 (map (new_Data 40) [(MYSQL_TYPE_LONG, 11), (MYSQL_TYPE_STRING, 3)], [r1, r2]) = Inr (cs, w1)
    \<and> stmt_next demo_fetch (cs, w1) = Inr (True, cs', w2)
    \<and> get_fixed BigEndian (cs' ! 0) = (Inr 7 :: mem_error + u32) \<and> stmt_getString (cs' ! 1) = Inr [104, 105]"
proof -
  let ?fs = "[(MYSQL_TYPE_LONG, 11), (MYSQL_TYPE_STRING, 3)]"
  have "\<forall>f \<in> set ?fs. roomy f" by (simp add: roomy_def)
  from column_is_typed [OF demo_fetch_documented _ this, of 1 "[r1, r2]" BigEndian]
  obtain cs w1 ok cs' w2 where s: "nexts demo_fetch 1 (map (new_Data 40) ?fs, [r1, r2]) = Inr (cs, w1)"
    "stmt_next demo_fetch (cs, w1) = Inr (ok, cs', w2)"
    "ok \<longrightarrow> (\<forall>i < length ?fs. reads_as BigEndian 40 (?fs ! i) (demo_vals w1 ! i) (cs' ! i))" by auto
  have "case nexts demo_fetch 1 (map (new_Data 40) ?fs, [r1, r2]) of Inl _ \<Rightarrow> False
      | Inr s \<Rightarrow> snd s = [r2] \<and> (case stmt_next demo_fetch s of Inl _ \<Rightarrow> False | Inr (ok, _) \<Rightarrow> ok)"
    unfolding r1_def r2_def by code_simp
  with s(1,2) have "w1 = [r2] \<and> ok" by simp
  with s(3) have "\<forall>i < length ?fs. reads_as BigEndian 40 (?fs ! i) (r2 ! i) (cs' ! i)" by (simp add: demo_vals_def)
  from this [rule_format, of 0] this [rule_format, of 1]
  have r: "reads_as BigEndian 40 (?fs ! 0) (r2 ! 0) (cs' ! 0)" "reads_as BigEndian 40 (?fs ! 1) (r2 ! 1) (cs' ! 1)"
    by simp_all
  have "mem_image BigEndian (7 :: u32) = [0, 0, 0, 7]" by code_simp
  with r have "get_fixed BigEndian (cs' ! 0) = (Inr 7 :: mem_error + u32)" "stmt_getString (cs' ! 1) = Inr [104, 105]"
    by (simp_all add: reads_as_def r2_def c_width_def)
  with s(1,2) \<open>w1 = [r2] \<and> ok\<close> show ?thesis by auto
qed

text \<open>
  A \<open>MEDIUMINT\<close> that is declared with fewer than four digits has a block of so many bytes, to which
  the library writes an \<open>int\<close>.
\<close>

lemma mediumint_overflow:
  assumes "stores ts (col_bind (new_Data ts (MYSQL_TYPE_OTHER 9, 3))) (Some d) x"
  shows "write_cell x (new_Data ts (MYSQL_TYPE_OTHER 9, 3)) = Inl Buffer_Overflow"
  using assms by (simp add: stores_def col_bind_def new_Data_def alloc_def type_size_def c_width_def write_cell_def copy_to_def)

text \<open>A getter wider than the column reads past the end of its block, as \<open>getInt64\<close> of an \<open>INT\<close> does.\<close>

lemma wide_getter_overread:
  "type_size ts ty len < LENGTH('a::len) div 8 \<Longrightarrow> get_fixed h (new_Data ts (ty, len)) = (Inl Buffer_Overread :: mem_error + 'a word)"
  using new_Data_ok [of ts "(ty, len)"] by (simp add: get_fixed_def Let_def col_ok_def)

text \<open>A text that was cut has a length beyond its block, which \<open>getString\<close> copies.\<close>

lemma truncated_text_overread:
  assumes "sz < 2 ^ 31" "sz < length d" "ts < 2 ^ 31"
    "stores ts (col_bind (new_Data ts (MYSQL_TYPE_STRING, sz))) (Some d) x"
  shows "\<exists>c. write_cell x (new_Data ts (MYSQL_TYPE_STRING, sz)) = Inr c \<and> stmt_getString c = Inl Buffer_Overread"
proof -
  let ?f = "(MYSQL_TYPE_STRING, sz)"
  have f: "roomy ?f" using assms(1) by (simp add: roomy_def)
  have "f_length x = length d" using assms(4) by (simp add: stores_def col_bind_def new_Data_def alloc_def c_width_def)
  moreover from write_cell_ok [OF new_Data_ok f assms(3,4)] obtain c where
    "write_cell x (new_Data ts ?f) = Inr c" "col_ok ts ?f c" by blast
  moreover from this(1) have "c_length c = f_length x" by (auto simp: write_cell_def map_sum_def split: sum.splits)
  ultimately show ?thesis using assms(2) by (auto simp: stmt_getString_def col_ok_def type_size_def)
qed

section \<open>Time\<close>

text \<open>
  The way back from a broken-down time takes the flag for summer time from the start of 1970: it
  is the time it came from if \<open>mktime\<close> gives it for that flag.
\<close>

lemma mysql_time_back:
  assumes "mktime ((localtime ts)\<lparr>tm_isdst := tm_isdst (localtime 0)\<rparr>) = ts" "0 \<le> ts"
  shows "mysql_time_to_time_t localtime mktime (time_t_to_mysql_time localtime ts) = ts"
proof -
  let ?t = "localtime ts"
  have e: "(localtime 0)\<lparr>tm_year := tm_year ?t, tm_mon := tm_mon ?t, tm_mday := tm_mday ?t, tm_hour := tm_hour ?t,
      tm_min := tm_min ?t, tm_sec := tm_sec ?t\<rparr> = ?t\<lparr>tm_isdst := tm_isdst (localtime 0)\<rparr>" by simp
  have "mktime ((localtime 0)\<lparr>tm_year := tm_year ?t, tm_mon := tm_mon ?t, tm_mday := tm_mday ?t, tm_hour := tm_hour ?t,
      tm_min := tm_min ?t, tm_sec := tm_sec ?t\<rparr>) = ts" unfolding e by (rule assms(1))
  with assms(2) show ?thesis by (simp add: mysql_time_to_time_t_def time_t_to_mysql_time_def Let_def)
qed

end
