(* ===== verification/Scheduler_Correct.thy ===== *)
theory Scheduler_Correct
  imports Scheduler "HOL-Library.Multiset"
begin

text \<open>
  What every interleaving of the workers keeps: the counters, the tasks, the threads they were
  scheduled for; what the search through the queue takes; and behaviours of the loop that are
  not what it means to do.
\<close>

section \<open>The search through the queue\<close>

text \<open>A task that thread \<open>tid\<close> may take, and one that holds nothing.\<close>

definition takeable :: "(addr \<Rightarrow> State) \<Rightarrow> int \<Rightarrow> 'c FiberAndThread \<Rightarrow> bool" where
  "takeable st tid t \<longleftrightarrow> (ft_thread t = -1 \<or> ft_thread t = tid)
     \<and> \<not> (case ft_fiber t of Some f \<Rightarrow> st f = RUNNING | None \<Rightarrow> False)"

definition holds_work :: "'c FiberAndThread \<Rightarrow> bool" where
  "holds_work t \<longleftrightarrow> ft_fiber t \<noteq> None \<or> ft_cb t \<noteq> None"

definition other_thread :: "int \<Rightarrow> 'c FiberAndThread \<Rightarrow> bool" where
  "other_thread tid t \<longleftrightarrow> ft_thread t \<noteq> -1 \<and> ft_thread t \<noteq> tid"

text \<open>
  The first task the thread may take, the others in their order, and whether another thread
  has to be woken: for a task that was passed over for it, or for any task that follows.
\<close>

definition picked :: "(addr \<Rightarrow> State) \<Rightarrow> int \<Rightarrow> 'c FiberAndThread list
    \<Rightarrow> 'c FiberAndThread option \<Rightarrow> 'c FiberAndThread list \<Rightarrow> bool \<Rightarrow> bool" where
  "picked st tid fs ft rest tk \<longleftrightarrow> (case ft of
     None \<Rightarrow> rest = fs \<and> (\<forall>t \<in> set fs. \<not> takeable st tid t) \<and> (tk \<longleftrightarrow> (\<exists>t \<in> set fs. other_thread tid t))
   | Some t \<Rightarrow> (\<exists>us vs. fs = us @ t # vs \<and> rest = us @ vs \<and> takeable st tid t
       \<and> (\<forall>u \<in> set us. \<not> takeable st tid u) \<and> (tk \<longleftrightarrow> vs \<noteq> [] \<or> (\<exists>u \<in> set us. other_thread tid u))))"

lemma picked_skip:
  assumes "picked st tid fs ft rest tk" "\<not> takeable st tid it"
  shows "picked st tid (it # fs) ft (it # rest) (other_thread tid it \<or> tk)"
proof (cases ft)
  case None
  with assms show ?thesis by (auto simp: picked_def)
next
  case (Some t)
  with assms(1) obtain us vs where "fs = us @ t # vs \<and> rest = us @ vs \<and> takeable st tid t
      \<and> (\<forall>u \<in> set us. \<not> takeable st tid u) \<and> (tk \<longleftrightarrow> vs \<noteq> [] \<or> (\<exists>u \<in> set us. other_thread tid u))"
    by (auto simp: picked_def)
  with assms(2) have "it # fs = (it # us) @ t # vs \<and> it # rest = (it # us) @ vs \<and> takeable st tid t
      \<and> (\<forall>u \<in> set (it # us). \<not> takeable st tid u)
      \<and> (other_thread tid it \<or> tk \<longleftrightarrow> vs \<noteq> [] \<or> (\<exists>u \<in> set (it # us). other_thread tid u))" by auto
  then show ?thesis unfolding picked_def Some option.case by blast
qed

lemma pick_spec:
  "\<forall>t \<in> set fs. holds_work t \<Longrightarrow> \<exists>ft rest tk. pick st tid fs = Some (ft, rest, tk) \<and> picked st tid fs ft rest tk"
proof (induction fs)
  case Nil
  then show ?case by (auto simp: picked_def)
next
  case (Cons it fs)
  then obtain ft rest tk where IH: "pick st tid fs = Some (ft, rest, tk)" "picked st tid fs ft rest tk" by auto
  show ?case
  proof (cases "takeable st tid it")
    case True
    with Cons.prems have "pick st tid (it # fs) = Some (Some it, fs, fs \<noteq> [])"
      by (auto simp: takeable_def holds_work_def)
    moreover have "it # fs = [] @ it # fs" by simp
    with True have "picked st tid (it # fs) (Some it) fs (fs \<noteq> [])"
      unfolding picked_def option.case by (metis append_Nil empty_iff empty_set)
    ultimately show ?thesis by blast
  next
    case False
    with Cons.prems have "pick st tid (it # fs) = Some (ft, it # rest, other_thread tid it \<or> tk)"
      by (auto simp: takeable_def other_thread_def holds_work_def IH(1) split: option.splits)
    with picked_skip [OF IH(2) False] show ?thesis by blast
  qed
qed

section \<open>Counting workers\<close>

fun workers_in :: "('c worker \<Rightarrow> bool) \<Rightarrow> 'c worker list \<Rightarrow> int" where
  "workers_in P [] = 0"
| "workers_in P (w # ws) = (if P w then 1 else 0) + workers_in P ws"

lemma workers_in_update:
  "i < length ws \<Longrightarrow> workers_in P (ws[i := w])
    = workers_in P ws - (if P (ws ! i) then 1 else 0) + (if P w then 1 else 0)"
proof (induction ws arbitrary: i)
  case (Cons x ws)
  then show ?case by (cases i) simp_all
qed simp

fun active_pc :: "'c pc \<Rightarrow> bool" where
  "active_pc (Taken _) = True" | "active_pc (InTask _) = True" | "active_pc (InCb _) = True"
| "active_pc (AfterTask _) = True" | "active_pc (AfterCb _) = True" | "active_pc _ = False"

fun idle_pc :: "'c pc \<Rightarrow> bool" where
  "idle_pc InIdle = True" | "idle_pc AfterIdle = True" | "idle_pc _ = False"

definition sched_inv :: "'c Scheduler \<Rightarrow> bool" where
  "sched_inv s \<longleftrightarrow>
     m_activeThreadCount s = workers_in (\<lambda>w. active_pc (w_pc w)) (workers s)
   \<and> m_idleThreadCount s = workers_in (\<lambda>w. idle_pc (w_pc w)) (workers s)
   \<and> mset (g_scheduled s) = mset (m_fibers s) + mset (map snd (g_taken s))
   \<and> (\<forall>(tid, t) \<in> set (g_taken s). ft_thread t = -1 \<or> ft_thread t = tid)
   \<and> (\<forall>t \<in> set (g_scheduled s). holds_work t)"

lemma queue_holds_work:
  assumes "sched_inv s"
  shows "\<forall>t \<in> set (m_fibers s). holds_work t"
proof -
  have "set_mset (mset (g_scheduled s)) = set_mset (mset (m_fibers s) + mset (map snd (g_taken s)))"
    using assms by (simp only: sched_inv_def)
  then have "set (m_fibers s) \<subseteq> set (g_scheduled s)" by auto
  with assms show ?thesis by (auto simp: sched_inv_def)
qed

lemma scheduleNoLock_inv: "sched_inv s \<Longrightarrow> sched_inv (snd (scheduleNoLock ft s))"
  by (simp add: sched_inv_def scheduleNoLock_def holds_work_def)

lemma schedule_range_loop_inv: "sched_inv s \<Longrightarrow> sched_inv (snd (schedule_range_loop fts n s))"
proof (induction fts arbitrary: n s)
  case (Cons ft fts)
  then show ?case using scheduleNoLock_inv [of s ft] by (simp add: case_prod_beta)
qed simp

lemma tickle_inv [simp]: "sched_inv (tickle s) \<longleftrightarrow> sched_inv s"
  by (simp add: sched_inv_def tickle_def)

lemma schedule_inv: "sched_inv s \<Longrightarrow> sched_inv (schedule ft s)"
  using scheduleNoLock_inv [of s ft] by (simp add: schedule_def case_prod_beta)

lemma schedule_range_inv: "sched_inv s \<Longrightarrow> sched_inv (schedule_range fts s)"
  using schedule_range_loop_inv [of s "map (ft_thread_update (\<lambda>_. -1)) fts" False]
  by (simp add: schedule_range_def case_prod_beta)

lemma stop_inv: "sched_inv s \<Longrightarrow> sched_inv (stop s)"
proof -
  have "sched_inv ((tickle ^^ n) s) \<longleftrightarrow> sched_inv s" for n and s :: "'a Scheduler"
    by (induction n) auto
  then show "sched_inv s \<Longrightarrow> sched_inv (stop s)" by (simp add: stop_def sched_inv_def)
qed

lemma sched_inv_heap [simp]: "sched_inv (s\<lparr>heap := h\<rparr>) \<longleftrightarrow> sched_inv s"
  by (simp add: sched_inv_def)

lemma sched_inv_set_worker:
  assumes "sched_inv s" "i < length (workers s)"
    "active_pc (w_pc w) = active_pc (w_pc (workers s ! i))" "idle_pc (w_pc w) = idle_pc (w_pc (workers s ! i))"
  shows "sched_inv (set_worker i w s)"
  using assms by (simp add: sched_inv_def workers_in_update)

lemma take_task_inv:
  assumes "sched_inv s" "i < length (workers s)" "w_pc (workers s ! i) = Head"
  shows "\<exists>s'. take_task i s = Some s' \<and> sched_inv s'"
proof -
  let ?w = "workers s ! i"
  from pick_spec [OF queue_holds_work [OF assms(1)], of "getState (heap s)" "w_id ?w"]
  obtain ft rest tk where p: "pick (getState (heap s)) (w_id ?w) (m_fibers s) = Some (ft, rest, tk)"
    and q: "picked (getState (heap s)) (w_id ?w) (m_fibers s) ft rest tk" by blast
  show ?thesis
  proof (cases ft)
    case None
    with q have "rest = m_fibers s" by (simp add: picked_def)
    with None p assms show ?thesis by (simp add: take_task_def Let_def sched_inv_def tickle_def workers_in_update)
  next
    case (Some t)
    with q have "mset (m_fibers s) = add_mset t (mset rest)" "ft_thread t = -1 \<or> ft_thread t = w_id ?w"
      by (auto simp: picked_def takeable_def)
    with Some p assms show ?thesis by (simp add: take_task_def Let_def sched_inv_def tickle_def workers_in_update)
  qed
qed

lemma enter_inv:
  assumes "enter f inside bh i s = Some s'" "i < length (workers s)"
    "sched_inv (set_worker i ((workers s ! i)\<lparr>w_pc := inside\<rparr>) s)"
    "active_pc bh = active_pc inside" "idle_pc bh = idle_pc inside"
  shows "sched_inv s'"
proof -
  obtain h t where "swapIn f (heap s) (w_local (workers s ! i)) = Some (h, t)"
    using assms(1) by (auto simp: enter_def Let_def split: option.splits)
  with assms show ?thesis by (auto simp: enter_def Let_def sched_inv_def workers_in_update)
qed

lemma start_task_inv:
  assumes "sched_inv s" "i < length (workers s)" "w_pc (workers s ! i) = Taken ft" "start_task a i ft s = Some s'"
  shows "sched_inv s'"
proof -
  have e: "sched_inv (set_worker i (w\<lparr>w_pc := InCb f\<rparr>) s)" "sched_inv (set_worker i (w\<lparr>w_pc := InTask f\<rparr>) s)" for w f
    using assms(1-3) by (auto intro!: sched_inv_set_worker)
  let ?live = "case ft_fiber ft of Some f \<Rightarrow> getState (heap s) f \<noteq> END \<and> getState (heap s) f \<noteq> EXCEPT | None \<Rightarrow> False"
  consider ?live | c f where "\<not> ?live" "ft_cb ft = Some c" "w_cb_fiber (workers s ! i) = Some f"
    | c where "\<not> ?live" "ft_cb ft = Some c" "w_cb_fiber (workers s ! i) = None" | "\<not> ?live" "ft_cb ft = None"
    by (cases "ft_cb ft"; cases "w_cb_fiber (workers s ! i)") auto
  then show ?thesis
  proof cases
    case 1
    with assms(4) have "enter (the (ft_fiber ft)) (InTask (the (ft_fiber ft))) (AfterTask (the (ft_fiber ft))) i s = Some s'"
      by (simp add: start_task_def Let_def)
    then show ?thesis by (rule enter_inv) (use assms(2) e in simp_all)
  next
    case 2
    with assms(4) have "enter f (InCb f) (AfterCb f) i (s\<lparr>heap := reset_cb f (Some c) (heap s)\<rparr>) = Some s'"
      by (simp add: start_task_def Let_def)
    then show ?thesis by (rule enter_inv) (use assms(2) e in \<open>simp_all add: sched_inv_def\<close>)
  next
    case 3
    with assms(4) have "enter a (InCb a) (AfterCb a) i (set_worker i ((workers s ! i)\<lparr>w_cb_fiber := Some a\<rparr>)
        (s\<lparr>heap := new_Fiber a (Some c) 0 (heap s)\<rparr>)) = Some s'"
      by (simp add: start_task_def Let_def)
    then show ?thesis by (rule enter_inv) (use assms(2) e in \<open>simp_all add: sched_inv_def\<close>)
  next
    case 4
    with assms show ?thesis by (auto simp: start_task_def Let_def sched_inv_def workers_in_update)
  qed
qed

lemma start_idle_inv:
  assumes "sched_inv s" "i < length (workers s)" "w_pc (workers s ! i) = Nothing" "start_idle i s = Some s'"
  shows "sched_inv s'"
proof (cases "getState (heap s) (w_idle_fiber (workers s ! i)) = END")
  case True
  with assms show ?thesis by (auto simp: start_idle_def Let_def intro!: sched_inv_set_worker)
next
  case False
  with assms(4) have "enter (w_idle_fiber (workers s ! i)) InIdle AfterIdle i
      (s\<lparr>m_idleThreadCount := m_idleThreadCount s + 1\<rparr>) = Some s'" by (simp add: start_idle_def Let_def)
  then show ?thesis by (rule enter_inv) (use assms(1-3) in \<open>simp_all add: sched_inv_def workers_in_update\<close>)
qed

lemma after_task_inv:
  assumes "sched_inv s" "i < length (workers s)" "w_pc (workers s ! i) = AfterTask f"
  shows "sched_inv (after_task i f s)"
proof -
  have "sched_inv (set_worker i ((workers s ! i)\<lparr>w_pc := Head\<rparr>) (s\<lparr>m_activeThreadCount := m_activeThreadCount s - 1\<rparr>))"
    using assms by (simp add: sched_inv_def workers_in_update)
  then show ?thesis by (simp add: after_task_def Let_def schedule_inv)
qed

lemma after_cb_inv:
  assumes "sched_inv s" "i < length (workers s)" "w_pc (workers s ! i) = AfterCb f"
  shows "sched_inv (after_cb i f s)"
proof -
  have w: "sched_inv (set_worker i w (s\<lparr>m_activeThreadCount := m_activeThreadCount s - 1\<rparr>))" if "w_pc w = Head" for w
    using assms that by (simp add: sched_inv_def workers_in_update)
  have "sched_inv (set_worker i w (s\<lparr>m_activeThreadCount := m_activeThreadCount s - 1, heap := h\<rparr>))"
    if "w_pc w = Head" for w h
    using w [OF that] by (simp add: sched_inv_def)
  with w show ?thesis by (simp add: after_cb_def Let_def schedule_inv)
qed

lemma after_idle_inv:
  assumes "sched_inv s" "i < length (workers s)" "w_pc (workers s ! i) = AfterIdle"
  shows "sched_inv (after_idle i s)"
  using assms by (simp add: after_idle_def Let_def sched_inv_def workers_in_update)

lemma behind_pcs:
  assumes "behind p = Some q"
  shows "active_pc q = active_pc p" "idle_pc q = idle_pc p"
  using assms by (induction p rule: behind.induct) auto

lemma leave_inv:
  assumes "sched_inv s" "i < length (workers s)" "active_pc p = active_pc (w_pc (workers s ! i))"
    "idle_pc p = idle_pc (w_pc (workers s ! i))"
  shows "sched_inv (leave i p ht s)"
  using assms by (cases ht) (simp add: leave_def sched_inv_def workers_in_update)

lemma yield_pc_cases: "yield_pc a s i p = p \<or> yield_pc a s i p = w_pc (workers s ! i)"
  by (auto simp: yield_pc_def split: prod.splits)

lemma sched_step_inv: "sched_step s s' \<Longrightarrow> sched_inv s \<Longrightarrow> sched_inv s'"
proof (induction rule: sched_step.induct)
  case (st_take i s s')
  then show ?case using take_task_inv [of s i] by auto
next
  case (st_ready i s p a ht)
  then show ?case using yield_pc_cases [of a s i p] behind_pcs [of _ p]
    by (intro leave_inv) (auto simp: behind_pcs)
next
  case (st_hold i s p a ht)
  then show ?case using yield_pc_cases [of a s i p]
    by (intro leave_inv) (auto simp: behind_pcs)
next
  case (st_end i s p ok ht)
  then show ?case by (intro leave_inv) (auto simp: behind_pcs)
qed (auto intro: start_task_inv start_idle_inv after_task_inv after_cb_inv after_idle_inv schedule_inv
    schedule_range_inv stop_inv)

lemma reachable_inv: "reachable s0 s \<Longrightarrow> sched_inv s0 \<Longrightarrow> sched_inv s"
  by (induction rule: reachable.induct) (auto intro: sched_step_inv)

lemma new_workers_Head: "\<forall>w \<in> set (fst (new_workers ts idle h)). w_pc w = Head"
proof (induction ts idle h rule: new_workers.induct)
  case (2 tid a b ts idle h)
  have "w_pc (fst (new_worker tid a b idle h)) = Head" by (simp add: new_worker_def case_prod_beta)
  with 2 show ?case by (simp add: case_prod_beta prod_eq_iff)
qed simp

lemma workers_in_none: "\<forall>w \<in> set ws. \<not> P w \<Longrightarrow> workers_in P ws = 0"
  by (induction ws) auto

lemma started_inv: "sched_inv (start_threads ts idle (new_Scheduler n h))"
proof -
  obtain ws h' where w: "new_workers (take n ts) idle h = (ws, h')" by fastforce
  with new_workers_Head [of "take n ts" idle h] have "\<forall>w \<in> set ws. w_pc w = Head" by simp
  then have "workers_in (\<lambda>w. active_pc (w_pc w)) ws = 0" "workers_in (\<lambda>w. idle_pc (w_pc w)) ws = 0"
    by (auto intro!: workers_in_none)
  then show ?thesis by (simp add: start_threads_def new_Scheduler_def w sched_inv_def)
qed

lemma workers_in_bounds: "0 \<le> workers_in P ws" "workers_in P ws \<le> int (length ws)"
  by (induction ws) auto

section \<open>The queue and the tasks over one step\<close>

text \<open>
  How one step changes the queue: it appends entries, or one worker at the head of its loop takes
  the first entry that it may take, and now holds it.
\<close>

definition takes :: "'c Scheduler \<Rightarrow> 'c Scheduler \<Rightarrow> nat \<Rightarrow> 'c FiberAndThread \<Rightarrow> bool" where
  "takes s s' i t \<longleftrightarrow> i < length (workers s) \<and> w_pc (workers s ! i) = Head \<and> w_pc (workers s' ! i) = Taken t
     \<and> takeable (getState (heap s)) (w_id (workers s ! i)) t
     \<and> (\<exists>us vs. m_fibers s = us @ t # vs \<and> m_fibers s' = us @ vs
          \<and> (\<forall>u \<in> set us. \<not> takeable (getState (heap s)) (w_id (workers s ! i)) u))"

definition queue_step :: "'c Scheduler \<Rightarrow> 'c Scheduler \<Rightarrow> bool" where
  "queue_step s s' \<longleftrightarrow> (\<exists>new. m_fibers s' = m_fibers s @ new) \<or> (\<exists>i t. takes s s' i t)"

text \<open>
  What worker \<open>i\<close> does with the entry it holds: it executes its fiber, unless that has ended or
  another worker has marked it running since; without a live fiber it executes its callback in a
  fiber of its own; with neither it drops it.
\<close>

definition executes :: "'c worker \<Rightarrow> 'c Scheduler \<Rightarrow> addr \<Rightarrow> bool" where
  "executes w s f \<longleftrightarrow> t_fiber (w_local w) = Some f \<and> exec_context (w_local w) = Some f \<and> getState (heap s) f = RUNNING"

definition live_fiber :: "'c fiber_heap \<Rightarrow> 'c FiberAndThread \<Rightarrow> addr option" where
  "live_fiber h t = (case ft_fiber t of
     Some f \<Rightarrow> if getState h f \<noteq> END \<and> getState h f \<noteq> EXCEPT then Some f else None | None \<Rightarrow> None)"

definition started :: "nat \<Rightarrow> 'c FiberAndThread \<Rightarrow> 'c Scheduler \<Rightarrow> 'c Scheduler \<Rightarrow> bool" where
  "started i t s s' \<longleftrightarrow> (let w = workers s' ! i in
     case live_fiber (heap s) t of
       Some f \<Rightarrow> if getState (heap s) f = RUNNING then w_pc w = AfterTask f
                 else w_pc w = InTask f \<and> executes w s' f
     | None \<Rightarrow> (case ft_cb t of
         Some c \<Rightarrow> (\<exists>f x. w_pc w = InCb f \<and> executes w s' f \<and> fibers (heap s') f = Some x \<and> m_cb x = Some c)
       | None \<Rightarrow> w_pc w = Head \<and> heap s' = heap s))"

text \<open>The fiber that a worker keeps for its callbacks is there: no step deletes a fiber.\<close>

definition cb_fibers_live :: "'c Scheduler \<Rightarrow> bool" where
  "cb_fibers_live s \<longleftrightarrow> (\<forall>w \<in> set (workers s). \<forall>f. w_cb_fiber w = Some f \<longrightarrow> fibers (heap s) f \<noteq> None)"

lemma cb_liveI:
  assumes "cb_fibers_live s" "i < length (workers s)" "workers s' = (workers s)[i := w]"
    "\<And>f. fibers (heap s') f = None \<Longrightarrow> fibers (heap s) f = None"
    "w_cb_fiber w = None \<or> w_cb_fiber w = w_cb_fiber (workers s ! i)
       \<or> (\<exists>f. w_cb_fiber w = Some f \<and> fibers (heap s') f \<noteq> None)"
  shows "cb_fibers_live s'"
  unfolding cb_fibers_live_def
proof (intro ballI allI impI)
  fix v f
  assume v: "v \<in> set (workers s')" "w_cb_fiber v = Some f"
  have old: "u \<in> set (workers s) \<Longrightarrow> w_cb_fiber u = Some f \<Longrightarrow> fibers (heap s') f \<noteq> None" for u
    using assms(1,4) unfolding cb_fibers_live_def by blast
  from v(1) consider "v = w" | "v \<in> set (workers s)"
    using set_update_subset_insert assms(3) by fastforce
  then show "fibers (heap s') f \<noteq> None"
  proof cases
    case 1
    with v(2) assms(2,5) old [of "workers s ! i"] show ?thesis by auto
  next
    case 2
    then show ?thesis using old v(2) by blast
  qed
qed

lemma fibers_stay [simp]:
  "fibers (reset_cb f cb h) g = None \<longleftrightarrow> fibers h g = None"
  "fibers (new_Fiber a cb n h) g = None \<longleftrightarrow> fibers h g = None \<and> g \<noteq> a"
  by (auto simp: reset_cb_def new_Fiber_def)

lemma swapIn_fibers: "swapIn f h t = Some (h', t') \<Longrightarrow> fibers h' g = None \<longleftrightarrow> fibers h g = None"
  by (auto simp: swapIn_def swapcontext_def Let_def split: if_splits)

lemma GetThis_fibers: "GetThis a h t = (f, h', t') \<Longrightarrow> fibers h' g = None \<Longrightarrow> fibers h g = None"
  by (auto simp: GetThis_def new_main_fiber_def split: option.splits if_splits)

lemma leave_fibers:
  "YieldToReady a h t = Some (h', t') \<Longrightarrow> fibers h' g = None \<Longrightarrow> fibers h g = None"
  "YieldToHold a h t = Some (h', t') \<Longrightarrow> fibers h' g = None \<Longrightarrow> fibers h g = None"
  "MainFunc_end ok h t = Some (h', t') \<Longrightarrow> fibers h' g = None \<Longrightarrow> fibers h g = None"
  by (auto simp: YieldToReady_def YieldToHold_def MainFunc_end_def Let_def intro: GetThis_fibers
      split: prod.splits if_splits option.splits)

lemma enter_cb_live:
  assumes "enter f inside bh i s = Some s'" "cb_fibers_live s" "i < length (workers s)"
  shows "cb_fibers_live s'"
proof -
  obtain h t where "swapIn f (heap s) (w_local (workers s ! i)) = Some (h, t)"
    "s' = set_worker i ((workers s ! i)\<lparr>w_local := t,
       w_pc := (if getState (heap s) f = RUNNING then bh else inside)\<rparr>) (s\<lparr>heap := h\<rparr>)"
    using assms(1) by (auto simp: enter_def Let_def split: option.splits)
  then show ?thesis by (intro cb_liveI [OF assms(2,3)]) (simp, simp_all add: swapIn_fibers)
qed

lemma cb_live_heap:
  "\<lbrakk>cb_fibers_live s; \<And>f. fibers (heap s) f \<noteq> None \<Longrightarrow> fibers (heap s') f \<noteq> None; workers s' = workers s\<rbrakk>
    \<Longrightarrow> cb_fibers_live s'"
  by (auto simp: cb_fibers_live_def)

lemma schedule_same [simp]:
  "workers (schedule ft s) = workers s" "heap (schedule ft s) = heap s"
  by (simp_all add: schedule_def scheduleNoLock_def tickle_def)

lemma schedule_range_loop_same:
  "workers (snd (schedule_range_loop fts n s)) = workers s \<and> heap (snd (schedule_range_loop fts n s)) = heap s
    \<and> (\<exists>new. m_fibers (snd (schedule_range_loop fts n s)) = m_fibers s @ new)"
proof (induction fts arbitrary: n s)
  case (Cons ft fts)
  have "workers (snd (scheduleNoLock ft s)) = workers s" "heap (snd (scheduleNoLock ft s)) = heap s"
    "\<exists>new. m_fibers (snd (scheduleNoLock ft s)) = m_fibers s @ new" by (auto simp: scheduleNoLock_def)
  then show ?case
    using Cons [of "fst (scheduleNoLock ft s) \<or> n" "snd (scheduleNoLock ft s)"] by (auto simp: case_prod_beta)
qed simp

lemma schedule_range_same [simp]:
  "workers (schedule_range fts s) = workers s" "heap (schedule_range fts s) = heap s"
  using schedule_range_loop_same [of "map (ft_thread_update (\<lambda>_. -1)) fts" False s]
  by (auto simp: schedule_range_def tickle_def case_prod_beta)

lemma stop_same [simp]:
  "workers (stop s) = workers s" "heap (stop s) = heap s" "m_fibers (stop s) = m_fibers s"
proof -
  have "workers ((tickle ^^ n) t) = workers t \<and> heap ((tickle ^^ n) t) = heap t
      \<and> m_fibers ((tickle ^^ n) t) = m_fibers t" for n and t :: "'a Scheduler"
    by (induction n) (simp_all add: tickle_def)
  then show "workers (stop s) = workers s" "heap (stop s) = heap s" "m_fibers (stop s) = m_fibers s"
    by (simp_all add: stop_def)
qed

lemma schedule_queue: "\<exists>new. m_fibers (schedule ft s) = m_fibers s @ new"
  by (auto simp: schedule_def scheduleNoLock_def tickle_def)

lemma schedule_range_queue: "\<exists>new. m_fibers (schedule_range fts s) = m_fibers s @ new"
  using schedule_range_loop_same [of "map (ft_thread_update (\<lambda>_. -1)) fts" False s]
  by (auto simp: schedule_range_def tickle_def case_prod_beta)

text \<open>The three ways in which a worker starts a task.\<close>

lemma start_task_cases:
  assumes "start_task a i ft s = Some s'"
  obtains (live) f where "live_fiber (heap s) ft = Some f" "enter f (InTask f) (AfterTask f) i s = Some s'"
  | (again) c f where "live_fiber (heap s) ft = None" "ft_cb ft = Some c" "w_cb_fiber (workers s ! i) = Some f"
      "enter f (InCb f) (AfterCb f) i (s\<lparr>heap := reset_cb f (Some c) (heap s)\<rparr>) = Some s'"
  | (first) c where "live_fiber (heap s) ft = None" "ft_cb ft = Some c" "w_cb_fiber (workers s ! i) = None"
      "enter a (InCb a) (AfterCb a) i (set_worker i ((workers s ! i)\<lparr>w_cb_fiber := Some a\<rparr>)
        (s\<lparr>heap := new_Fiber a (Some c) 0 (heap s)\<rparr>)) = Some s'"
  | (empty) "live_fiber (heap s) ft = None" "ft_cb ft = None"
      "s' = set_worker i ((workers s ! i)\<lparr>w_pc := Head\<rparr>) (s\<lparr>m_activeThreadCount := m_activeThreadCount s - 1\<rparr>)"
  using assms
  by (auto simp: start_task_def live_fiber_def Let_def split: option.splits if_splits)

lemma start_task_cb_live:
  assumes "start_task a i ft s = Some s'" "cb_fibers_live s" "i < length (workers s)"
  shows "cb_fibers_live s'"
  using assms(1)
proof (cases rule: start_task_cases)
  case (live f)
  from live(2) assms(2,3) show ?thesis by (rule enter_cb_live)
next
  case (again c f)
  have "cb_fibers_live (s\<lparr>heap := reset_cb f (Some c) (heap s)\<rparr>)"
    using assms(2) by (simp add: cb_fibers_live_def)
  with again(4) show ?thesis by (rule enter_cb_live) (use assms(3) in simp)
next
  case (first c)
  have "cb_fibers_live (set_worker i ((workers s ! i)\<lparr>w_cb_fiber := Some a\<rparr>)
      (s\<lparr>heap := new_Fiber a (Some c) 0 (heap s)\<rparr>))"
    by (rule cb_liveI [OF assms(2,3)]) (simp, simp_all)
  with first(4) show ?thesis by (rule enter_cb_live) (use assms(3) in simp)
next
  case empty
  show ?thesis by (rule cb_liveI [OF assms(2,3)]) (simp add: empty(3), simp_all add: empty(3))
qed

lemma leave_cb_live:
  assumes "cb_fibers_live s" "i < length (workers s)" "\<And>g. fibers (fst ht) g = None \<Longrightarrow> fibers (heap s) g = None"
  shows "cb_fibers_live (leave i p ht s)"
  by (rule cb_liveI [OF assms(1,2)]) (simp add: leave_def case_prod_beta, simp_all add: leave_def case_prod_beta assms(3))

lemma take_task_step:
  assumes "i < length (workers s)" "w_pc (workers s ! i) = Head" "take_task i s = Some s'"
  obtains p where "workers s' = (workers s)[i := (workers s ! i)\<lparr>w_pc := p\<rparr>]" "heap s' = heap s"
  using assms by (auto simp: take_task_def Let_def tickle_def split: option.splits if_splits)

lemma start_idle_cb_live:
  assumes "start_idle i s = Some s'" "cb_fibers_live s" "i < length (workers s)"
  shows "cb_fibers_live s'"
proof (cases "getState (heap s) (w_idle_fiber (workers s ! i)) = END")
  case True
  then have "s' = set_worker i ((workers s ! i)\<lparr>w_pc := Finished\<rparr>) s"
    using assms(1) by (simp add: start_idle_def Let_def)
  then show ?thesis by (intro cb_liveI [OF assms(2,3)]) (simp, simp_all)
next
  case False
  with assms(1) have "enter (w_idle_fiber (workers s ! i)) InIdle AfterIdle i
      (s\<lparr>m_idleThreadCount := m_idleThreadCount s + 1\<rparr>) = Some s'" by (simp add: start_idle_def Let_def)
  then show ?thesis by (rule enter_cb_live) (use assms in \<open>simp_all add: cb_fibers_live_def\<close>)
qed

lemma after_worker:
  "\<exists>w. workers (after_task i f s) = (workers s)[i := w] \<and> w_cb_fiber w = w_cb_fiber (workers s ! i)"
  "\<exists>w. workers (after_cb i f s) = (workers s)[i := w] \<and> (w_cb_fiber w = None \<or> w_cb_fiber w = w_cb_fiber (workers s ! i))"
  "\<exists>w. workers (after_idle i s) = (workers s)[i := w] \<and> w_cb_fiber w = w_cb_fiber (workers s ! i)"
  by (auto simp: after_task_def after_cb_def after_idle_def Let_def)

lemma after_fibers:
  "fibers (heap (after_task i f s)) g = None \<longleftrightarrow> fibers (heap s) g = None"
  "fibers (heap (after_cb i f s)) g = None \<longleftrightarrow> fibers (heap s) g = None"
  "fibers (heap (after_idle i s)) g = None \<longleftrightarrow> fibers (heap s) g = None"
  by (simp_all add: after_task_def after_cb_def after_idle_def Let_def)

lemma after_queue:
  "\<exists>new. m_fibers (after_task i f s) = m_fibers s @ new"
  "\<exists>new. m_fibers (after_cb i f s) = m_fibers s @ new"
  "m_fibers (after_idle i s) = m_fibers s"
  by (auto simp: after_task_def after_cb_def after_idle_def Let_def schedule_def scheduleNoLock_def tickle_def)

lemma step_cb_live: "sched_step s s' \<Longrightarrow> cb_fibers_live s \<Longrightarrow> cb_fibers_live s'"
proof (induction rule: sched_step.induct)
  case (st_take i s s')
  from st_take(1-3) obtain p where "workers s' = (workers s)[i := (workers s ! i)\<lparr>w_pc := p\<rparr>]" "heap s' = heap s"
    by (rule take_task_step)
  then show ?case by (intro cb_liveI [OF st_take(4,1)]) (simp, simp_all)
next
  case (st_start i s ft a s')
  show ?case by (rule start_task_cb_live [OF st_start(4,5,1)])
next
  case (st_idle i s s')
  show ?case by (rule start_idle_cb_live [OF st_idle(3,4,1)])
next
  case (st_ready i s p a ht)
  from st_ready(3) have "fibers (fst ht) g = None \<Longrightarrow> fibers (heap s) g = None" for g
    by (cases ht) (simp add: leave_fibers(1))
  then show ?case by (rule leave_cb_live [OF st_ready(4,1)])
next
  case (st_hold i s p a ht)
  from st_hold(3) have "fibers (fst ht) g = None \<Longrightarrow> fibers (heap s) g = None" for g
    by (cases ht) (simp add: leave_fibers(2))
  then show ?case by (rule leave_cb_live [OF st_hold(4,1)])
next
  case (st_end i s p ok ht)
  from st_end(4) have "fibers (fst ht) g = None \<Longrightarrow> fibers (heap s) g = None" for g
    by (cases ht) (simp add: leave_fibers(3))
  then show ?case by (rule leave_cb_live [OF st_end(5,1)])
next
  case (st_after_task i s f)
  from after_worker(1) [of i f s] obtain w where "workers (after_task i f s) = (workers s)[i := w]"
    "w_cb_fiber w = None \<or> w_cb_fiber w = w_cb_fiber (workers s ! i)" by blast
  then show ?case by (intro cb_liveI [OF st_after_task(3,1)]) (auto simp: after_fibers)
next
  case (st_after_cb i s f)
  from after_worker(2) [of i f s] obtain w where "workers (after_cb i f s) = (workers s)[i := w]"
    "w_cb_fiber w = None \<or> w_cb_fiber w = w_cb_fiber (workers s ! i)" by blast
  then show ?case by (intro cb_liveI [OF st_after_cb(3,1)]) (auto simp: after_fibers)
next
  case (st_after_idle i s)
  from after_worker(3) [of i s] obtain w where "workers (after_idle i s) = (workers s)[i := w]"
    "w_cb_fiber w = None \<or> w_cb_fiber w = w_cb_fiber (workers s ! i)" by blast
  then show ?case by (intro cb_liveI [OF st_after_idle(3,1)]) (auto simp: after_fibers)
qed (auto intro: cb_live_heap)

text \<open>The queue and the entry a worker holds, over one step.\<close>

lemma take_task_takes:
  assumes inv: "sched_inv s" and i: "i < length (workers s)" "w_pc (workers s ! i) = Head"
    and t: "take_task i s = Some s'"
  shows "queue_step s s'"
proof -
  let ?w = "workers s ! i"
  from pick_spec [OF queue_holds_work [OF inv], of "getState (heap s)" "w_id ?w"]
  obtain ft rest tk where p: "pick (getState (heap s)) (w_id ?w) (m_fibers s) = Some (ft, rest, tk)"
    and q: "picked (getState (heap s)) (w_id ?w) (m_fibers s) ft rest tk" by blast
  have rest: "m_fibers s' = rest" using t p by (auto simp: take_task_def Let_def tickle_def split: option.splits)
  show ?thesis
  proof (cases ft)
    case None
    with q rest show ?thesis by (simp add: picked_def queue_step_def)
  next
    case (Some x)
    with t p i have "w_pc (workers s' ! i) = Taken x"
      by (auto simp: take_task_def Let_def tickle_def)
    with q Some i rest have "takes s s' i x" by (auto simp: picked_def takes_def)
    then show ?thesis by (auto simp: queue_step_def)
  qed
qed

lemma enter_queue: "enter f inside bh i s = Some s' \<Longrightarrow> m_fibers s' = m_fibers s"
  by (auto simp: enter_def Let_def split: option.splits)

lemma start_queue:
  "start_task a i ft s = Some s' \<Longrightarrow> m_fibers s' = m_fibers s"
  "start_idle i s = Some s' \<Longrightarrow> m_fibers s' = m_fibers s"
  by (auto elim!: start_task_cases dest: enter_queue simp: start_idle_def Let_def split: if_splits)

lemma step_queue: "sched_step s s' \<Longrightarrow> sched_inv s \<Longrightarrow> queue_step s s'"
proof (induction rule: sched_step.induct)
  case (st_take i s s')
  then show ?case by (intro take_task_takes)
next
  case (st_start i s ft a s')
  then show ?case by (simp add: queue_step_def start_queue(1))
next
  case (st_idle i s s')
  then show ?case by (simp add: queue_step_def start_queue(2))
qed (simp_all add: queue_step_def leave_def case_prod_beta after_queue schedule_queue schedule_range_queue)

lemma enter_executes:
  assumes "enter f inside bh i s = Some s'" "i < length (workers s)" "getState (heap s) f \<noteq> RUNNING"
    "fibers (heap s) f \<noteq> None"
  shows "w_pc (workers s' ! i) = inside \<and> executes (workers s' ! i) s' f \<and> heap s' = setState f RUNNING (heap s)"
  using assms by (auto simp: enter_def swapIn_def swapcontext_def SetThis_def executes_def Let_def split: option.splits if_splits)

lemma start_task_started:
  assumes t: "start_task a i ft s = Some s'" and i: "i < length (workers s)" and live: "cb_fibers_live s"
  shows "started i ft s s'"
  using t
proof (cases rule: start_task_cases)
  case (live f)
  show ?thesis
  proof (cases "getState (heap s) f = RUNNING")
    case True
    with live i show ?thesis by (auto simp: started_def enter_def Let_def split: option.splits)
  next
    case False
    have "fibers (heap s) f \<noteq> None"
      using live(1) by (auto simp: live_fiber_def getState_def split: option.splits if_splits)
    with enter_executes [OF live(2) i False] live(1) False show ?thesis by (simp add: started_def Let_def)
  qed
next
  case (again c f)
  let ?s = "s\<lparr>heap := reset_cb f (Some c) (heap s)\<rparr>"
  have f: "fibers (heap s) f \<noteq> None" using live again(3) i by (auto simp: cb_fibers_live_def)
  then obtain x where x: "fibers (reset_cb f (Some c) (heap s)) f = Some x" "m_cb x = Some c"
    by (auto simp: reset_cb_def)
  have "getState (heap ?s) f \<noteq> RUNNING" "fibers (heap ?s) f \<noteq> None" using f by simp_all
  from enter_executes [OF again(4) _ this] i again(1,2) x show ?thesis
    by (auto simp: started_def Let_def setState_def)
next
  case (first c)
  let ?s = "set_worker i ((workers s ! i)\<lparr>w_cb_fiber := Some a\<rparr>) (s\<lparr>heap := new_Fiber a (Some c) 0 (heap s)\<rparr>)"
  have "getState (heap ?s) a \<noteq> RUNNING" "fibers (heap ?s) a \<noteq> None" by simp_all
  from enter_executes [OF first(4) _ this] i first(1,2) show ?thesis
    by (auto simp: started_def Let_def setState_def new_Fiber_def)
next
  case empty
  with i show ?thesis by (simp add: started_def Let_def)
qed

lemma step_started:
  "sched_step s s' \<Longrightarrow> cb_fibers_live s \<Longrightarrow> j < length (workers s) \<Longrightarrow> w_pc (workers s ! j) = Taken t \<Longrightarrow>
    workers s' ! j = workers s ! j \<or> started j t s s'"
proof (induction rule: sched_step.induct)
  case (st_take i s s')
  from st_take(1-3) obtain p where "workers s' = (workers s)[i := (workers s ! i)\<lparr>w_pc := p\<rparr>]"
    by (rule take_task_step)
  with st_take show ?case by (cases "i = j") auto
next
  case (st_start i s ft a s')
  show ?case
  proof (cases "i = j")
    case True
    with st_start start_task_started [of a i ft s s'] show ?thesis by simp
  next
    case False
    with st_start(4) show ?thesis
      by (auto elim!: start_task_cases simp: enter_def Let_def split: option.splits)
  qed
next
  case (st_idle i s s')
  then show ?case
    by (cases "i = j") (auto simp: start_idle_def enter_def Let_def split: option.splits if_splits)
next
  case (st_ready i s p a ht)
  then show ?case by (cases "i = j") (auto simp: leave_def case_prod_beta)
next
  case (st_hold i s p a ht)
  then show ?case by (cases "i = j") (auto simp: leave_def case_prod_beta)
next
  case (st_end i s p ok ht)
  then show ?case by (cases "i = j") (auto simp: leave_def case_prod_beta)
next
  case (st_after_task i s f)
  with after_worker(1) [of i f s] show ?case by (cases "i = j") auto
next
  case (st_after_cb i s f)
  with after_worker(2) [of i f s] show ?case by (cases "i = j") auto
next
  case (st_after_idle i s)
  with after_worker(3) [of i s] show ?case by (cases "i = j") auto
qed simp_all

lemma started_cb_live: "cb_fibers_live (start_threads ts idle (new_Scheduler n h))"
proof -
  have "\<forall>w \<in> set (fst (new_workers us idle h)). w_cb_fiber w = None" for us
  proof (induction us idle h rule: new_workers.induct)
    case (2 tid a b us idle h)
    have "w_cb_fiber (fst (new_worker tid a b idle h)) = None" by (simp add: new_worker_def case_prod_beta)
    with 2 show ?case by (simp add: case_prod_beta prod_eq_iff)
  qed simp
  then show ?thesis
    by (auto simp: cb_fibers_live_def start_threads_def new_Scheduler_def case_prod_beta)
qed

lemma reachable_cb_live: "reachable s0 s \<Longrightarrow> cb_fibers_live s0 \<Longrightarrow> cb_fibers_live s"
  by (induction rule: reachable.induct) (auto intro: step_cb_live)

section \<open>Properties\<close>

text \<open>
  C10.  In every interleaving of the workers with each other and with whatever the tasks do, the
  two counters are the numbers of workers inside a task and inside \<open>idle\<close>, so they never pass
  below zero, and the assertion in the search never fails.  The entries that were ever queued are
  those in the queue and those that were taken, each as often as it was queued, and an entry with
  a thread was taken by that thread.  A step leaves the queue as it is, appends to it, or lets
  one worker take the first entry that is for any thread or for its own and whose fiber is not
  running.  The worker that holds an entry keeps it until it executes the entry's fiber, goes on
  because another worker has marked that fiber as running in between, executes the callback of an
  entry without a live fiber, or drops an entry that has neither.  This is about entries, not about
  fibers: a fiber that yields as ready is queued again by a new entry for any thread
  (\<open>ready_loses_affinity\<close>), and two entries of one fiber can be held by two workers at a time
  (\<open>scheduled_twice\<close>).
\<close>

theorem scheduler_keeps_tasks:
  assumes "reachable (start_threads ts idle (new_Scheduler n h)) s"
  shows "m_activeThreadCount s = workers_in (\<lambda>w. active_pc (w_pc w)) (workers s) \<and> 0 \<le> m_activeThreadCount s
    \<and> m_idleThreadCount s = workers_in (\<lambda>w. idle_pc (w_pc w)) (workers s) \<and> 0 \<le> m_idleThreadCount s
    \<and> mset (g_scheduled s) = mset (m_fibers s) + mset (map snd (g_taken s))
    \<and> (\<forall>(tid, t) \<in> set (g_taken s). ft_thread t = -1 \<or> ft_thread t = tid)
    \<and> (\<forall>i < length (workers s). w_pc (workers s ! i) = Head \<longrightarrow> take_task i s \<noteq> None)
    \<and> (\<forall>s'. sched_step s s' \<longrightarrow> queue_step s s'
        \<and> (\<forall>i < length (workers s). \<forall>t. w_pc (workers s ! i) = Taken t \<longrightarrow>
              workers s' ! i = workers s ! i \<or> started i t s s'))"
proof -
  have inv: "sched_inv s" by (rule reachable_inv [OF assms started_inv])
  have live: "cb_fibers_live s" by (rule reachable_cb_live [OF assms started_cb_live])
  have "\<forall>i < length (workers s). w_pc (workers s ! i) = Head \<longrightarrow> take_task i s \<noteq> None"
    using take_task_inv [OF inv] by fastforce
  moreover have "\<forall>s'. sched_step s s' \<longrightarrow> queue_step s s'
      \<and> (\<forall>i < length (workers s). \<forall>t. w_pc (workers s ! i) = Taken t \<longrightarrow>
            workers s' ! i = workers s ! i \<or> started i t s s')"
    using step_queue [OF _ inv] step_started [OF _ live] by blast
  ultimately show ?thesis using inv by (simp add: sched_inv_def workers_in_bounds)
qed

text \<open>One worker, thread 7, and a callback bound to it, which it takes.\<close>

theorem scheduler_keeps_tasks_witness:
  defines "s0 \<equiv> start_threads [(7, 0, 1)] ''idle'' (new_Scheduler 1 \<lparr>fibers = Map.empty, s_fiber_id = 0, s_fiber_count = 0\<rparr>)"
  shows "\<exists>s. reachable s0 s \<and> g_taken s = [(7, \<lparr>ft_fiber = None, ft_cb = Some ''cb'', ft_thread = 7\<rparr>)]
    \<and> m_activeThreadCount s = workers_in (\<lambda>w. active_pc (w_pc w)) (workers s)"
proof -
  let ?t = "\<lparr>ft_fiber = None, ft_cb = Some ''cb'', ft_thread = 7\<rparr>"
  let ?s1 = "schedule ?t s0"
  obtain w h' where w: "workers s0 = [w]" "w_id w = 7" "w_pc w = Head"
    by (simp add: s0_def start_threads_def new_Scheduler_def new_worker_def GetThis_def new_main_fiber_def)
  have s0: "m_fibers s0 = []" "g_taken s0 = []"
    by (simp_all add: s0_def start_threads_def new_Scheduler_def split: prod.splits)
  then obtain s2 where s2: "take_task 0 ?s1 = Some s2" "g_taken s2 = [(7, ?t)]"
    using w by (simp add: take_task_def schedule_def scheduleNoLock_def tickle_def Let_def)
  have "reachable s0 ?s1" by (rule r_step [OF r_start st_schedule])
  moreover have "sched_step ?s1 s2"
    by (rule st_take [OF _ _ s2(1)]) (use w in \<open>simp_all add: schedule_def scheduleNoLock_def tickle_def\<close>)
  ultimately have "reachable s0 s2" by (rule r_step)
  with s2(2) scheduler_keeps_tasks [of "[(7, 0, 1)]" "''idle''" 1 "\<lparr>fibers = Map.empty, s_fiber_id = 0, s_fiber_count = 0\<rparr>" s2] show ?thesis unfolding s0_def by blast
qed

text \<open>
  The search of a worker through the queue, when every entry holds a fiber or a callback:
  it takes the first task that is bound to no thread or to its own and whose fiber is not
  running at the moment, and leaves the others in their order; it takes none only if there is
  no such task; and it asks to wake another worker exactly when it passed over a task of another
  thread or left tasks behind the one it took.
\<close>

theorem pick_takes_first:
  assumes "\<forall>t \<in> set fs. ft_fiber t \<noteq> None \<or> ft_cb t \<noteq> None"
  shows "\<exists>ft rest tk. pick st tid fs = Some (ft, rest, tk) \<and> (case ft of
     None \<Rightarrow> rest = fs \<and> (\<forall>t \<in> set fs. \<not> takeable st tid t) \<and> (tk \<longleftrightarrow> (\<exists>t \<in> set fs. other_thread tid t))
   | Some t \<Rightarrow> (\<exists>us vs. fs = us @ t # vs \<and> rest = us @ vs \<and> takeable st tid t
       \<and> (\<forall>u \<in> set us. \<not> takeable st tid u) \<and> (tk \<longleftrightarrow> vs \<noteq> [] \<or> (\<exists>u \<in> set us. other_thread tid u))))"
  using pick_spec [of fs st tid] assms unfolding picked_def holds_work_def by blast

text \<open>A task of thread 8 is passed over, one of any thread is taken.\<close>

theorem pick_takes_first_witness:
  defines "a \<equiv> \<lparr>ft_fiber = None, ft_cb = Some ''cb'', ft_thread = 8\<rparr>" and "b \<equiv> \<lparr>ft_fiber = None, ft_cb = Some ''cb'', ft_thread = -1\<rparr>"
  shows "pick (\<lambda>_. HOLD) 7 [a, b] = Some (Some b, [a], True)
    \<and> (\<exists>ft rest tk. pick (\<lambda>_. HOLD) 7 [a, b] = Some (ft, rest, tk) \<and> (ft = None \<longrightarrow> rest = [a, b]))"
proof -
  have "\<forall>t \<in> set [a, b]. ft_fiber t \<noteq> None \<or> ft_cb t \<noteq> None" by (simp add: a_def b_def)
  from pick_takes_first [OF this, of "\<lambda>_. HOLD" 7] show ?thesis by (auto simp: a_def b_def)
qed

section \<open>Behaviours that are not what the loop means to do\<close>

text \<open>
  The number of threads is never lowered, and \<open>stopping\<close> asks for it to be zero: as soon as there
  is a worker thread, \<open>idle\<close> never ends, and \<open>stop\<close> waits for its threads for ever.
\<close>

lemma tickles_threadCount [simp]: "m_threadCount ((tickle ^^ k) s) = m_threadCount s"
  by (induction k) (simp_all add: tickle_def)

lemma schedule_threadCount [simp]:
  "m_threadCount (schedule ft s) = m_threadCount s" "m_threadCount (schedule_range fts s) = m_threadCount s"
proof -
  have n: "m_threadCount (snd (scheduleNoLock ft s)) = m_threadCount s" for ft and s :: "'a Scheduler"
    by (simp add: scheduleNoLock_def)
  have "m_threadCount (snd (schedule_range_loop fts b s)) = m_threadCount s" for fts b and s :: "'a Scheduler"
  proof (induction fts arbitrary: b s)
    case (Cons ft fts)
    then show ?case using n [of ft s] by (simp add: case_prod_beta)
  qed simp
  with n show "m_threadCount (schedule ft s) = m_threadCount s" "m_threadCount (schedule_range fts s) = m_threadCount s"
    by (simp_all add: schedule_def schedule_range_def case_prod_beta tickle_def)
qed

lemma step_threadCount: "sched_step s s' \<Longrightarrow> m_threadCount s' = m_threadCount s"
  by (induction rule: sched_step.induct)
    (auto simp: take_task_def start_task_def start_idle_def enter_def leave_def after_task_def after_cb_def
      after_idle_def stop_def Let_def tickle_def split: option.splits prod.splits if_splits)

lemma workers_never_stop:
  assumes "reachable (start_threads ts idle (new_Scheduler n h)) s" "0 < n"
  shows "\<not> stopping s"
proof -
  from assms(1) have "m_threadCount s = m_threadCount (start_threads ts idle (new_Scheduler n h))"
    by (induction rule: reachable.induct) (simp_all add: step_threadCount)
  with assms(2) show ?thesis
    by (simp add: stopping_def start_threads_def new_Scheduler_def split: prod.splits)
qed

text \<open>A task bound to a thread that yields as ready may go on anywhere.\<close>

lemma ready_loses_affinity:
  "getState (heap s) f = READY \<Longrightarrow> last (m_fibers (after_task i f s)) = ft_of_fiber f (-1)"
  by (simp add: after_task_def Let_def schedule_def scheduleNoLock_def tickle_def ft_of_fiber_def)

text \<open>
  A fiber that was scheduled twice can be taken by two workers before either marks it running:
  the second finds it running, goes on behind \<open>swapIn\<close>, and marks it as on hold while the first
  is still inside; a third worker may then enter the same stack.
\<close>

lemma scheduled_twice:
  assumes "i < length (workers s)" "j < length (workers s)" "i \<noteq> j"
    and "fibers (heap s) f \<noteq> None" "getState (heap s) f = HOLD"
    and "t_thread_fiber (w_local (workers s ! i)) \<noteq> None"
  shows "\<exists>s1 s2. start_task a i (ft_of_fiber f (-1)) s = Some s1 \<and> start_task a j (ft_of_fiber f (-1)) s1 = Some s2
    \<and> w_pc (workers (after_task j f s2) ! i) = InTask f \<and> getState (heap (after_task j f s2)) f = HOLD"
  using assms
  by (auto simp: start_task_def ft_of_fiber_def enter_def swapIn_def swapcontext_def SetThis_def after_task_def Let_def)

end
