(* ===== verification/Mutex_Correct.thy ===== *)
theory Mutex_Correct
  imports Mutex Scheduler_Correct "HOL-Library.Sublist"
begin

text \<open>
  \<open>FiberSemaphore\<close> among any steps of the schedulers: it counts exactly, wakes its waiters in the
  order they came, and a wake-up that falls between the entry in the list and the switch away from
  the fiber is not lost.
\<close>

section \<open>The record of what was scheduled only grows\<close>

lemma scheduleNoLock_grows: "prefix (g_scheduled s) (g_scheduled (snd (scheduleNoLock ft s)))"
  by (simp add: scheduleNoLock_def)

lemma schedule_scheduled [simp]:
  "g_scheduled (schedule ft s) = g_scheduled (snd (scheduleNoLock ft s))"
  by (simp add: schedule_def tickle_def split: prod.splits)

lemma schedule_range_loop_grows: "prefix (g_scheduled s) (g_scheduled (snd (schedule_range_loop fts b s)))"
proof (induction fts arbitrary: b s)
  case (Cons ft fts)
  show ?case using scheduleNoLock_grows [of s ft] Cons.IH [of "snd (scheduleNoLock ft s)"]
    by (auto simp: case_prod_beta intro: prefix_order.trans)
qed simp

lemma tickles_scheduled [simp]: "g_scheduled ((tickle ^^ k) s) = g_scheduled s"
  by (induction k) (simp_all add: tickle_def)

lemma sched_step_grows: "sched_step s t \<Longrightarrow> prefix (g_scheduled s) (g_scheduled t)"
proof (induction rule: sched_step.induct)
  case (st_schedule s ft)
  then show ?case by (simp add: scheduleNoLock_grows)
next
  case (st_schedule_range s fts)
  then show ?case using schedule_range_loop_grows [of s]
    by (simp add: schedule_range_def case_prod_beta tickle_def)
next
  case (st_after_task i s f)
  then show ?case by (simp add: after_task_def Let_def scheduleNoLock_def)
next
  case (st_after_cb i s f)
  then show ?case by (simp add: after_cb_def Let_def scheduleNoLock_def)
qed (auto simp: take_task_def start_task_def start_idle_def enter_def leave_def after_idle_def stop_def
      Let_def tickle_def split: option.splits prod.splits if_splits)

section \<open>The queue of waiters\<close>

definition sem_inv :: "FiberSemaphore \<Rightarrow> bool" where
  "sem_inv m \<longleftrightarrow> (m_concurrency m > 0 \<longrightarrow> m_waiters m = [])"

definition notifies :: "sem_call list \<Rightarrow> nat" where
  "notifies cs = length (filter (\<lambda>c. c = Notify) cs)"

lemma notifies_snoc [simp]: "notifies (cs @ [c]) = notifies cs + (if c = Notify then 1 else 0)"
  by (simp add: notifies_def)

lemma notifies_Nil [simp]: "notifies [] = 0"
  by (simp add: notifies_def)

lemma sem_do_inv: "sem_inv (sem s) \<Longrightarrow> sem_inv (sem (sem_do c s))"
  by (cases c) (auto simp: sem_inv_def fs_tryWait_def fs_wait_def fs_notify_def split: list.splits)

lemma sem_reach_inv: "sem_reach s0 cs s \<Longrightarrow> sem_inv (sem s0) \<Longrightarrow> sem_inv (sem s)"
  by (induction rule: sem_reach.induct) (auto intro: sem_do_inv)

text \<open>The woken waiters, and those that still wait behind them, in the order in which they came.\<close>

definition lined_up :: "'c sem_system \<Rightarrow> waiter list" where
  "lined_up s = g_woken s @ m_waiters (sem s)"

lemma sem_do_lined_up: "prefix (lined_up s) (lined_up (sem_do c s))"
  by (cases c) (auto simp: lined_up_def fs_tryWait_def fs_wait_def fs_notify_def split: list.splits)

lemma sem_reach_lined_up: "sem_reach s cs t \<Longrightarrow> prefix (lined_up s) (lined_up t)"
proof (induction rule: sem_reach.induct)
  case (sr_call cs t c)
  then show ?case using sem_do_lined_up [of t c] by (auto intro: prefix_order.trans)
next
  case (sr_sched cs t k u)
  then show ?case by (simp add: lined_up_def)
qed simp

text \<open>Every notify wakes a waiter while there is one.\<close>

lemma sem_do_woken:
  "length (g_woken (sem_do c s)) = length (g_woken s) + (if c = Notify \<and> m_waiters (sem s) \<noteq> [] then 1 else 0)"
  by (cases c) (auto simp: fs_tryWait_def fs_wait_def fs_notify_def split: list.splits)

lemma sem_reach_woken:
  "sem_reach s cs t \<Longrightarrow> min (length (lined_up s)) (length (g_woken s) + notifies cs) \<le> length (g_woken t)"
proof (induction rule: sem_reach.induct)
  case (sr_call cs t c)
  have p: "length (lined_up s) \<le> length (lined_up t)"
    using sem_reach_lined_up [OF sr_call.hyps(1)] by (rule prefix_length_le)
  show ?case using sr_call.IH p by (auto simp: sem_do_woken lined_up_def)
qed auto

text \<open>Each wake-up put one entry into the queue of the waiter's scheduler.\<close>

definition entries_for :: "sched_id \<Rightarrow> waiter list \<Rightarrow> 'c FiberAndThread list" where
  "entries_for k ws = map (\<lambda>(_, f). ft_of_fiber f (-1)) (filter (\<lambda>w. fst w = k) ws)"

lemma sem_do_entries:
  "\<exists>new. g_woken (sem_do c s) = g_woken s @ new
     \<and> g_scheduled (scheds (sem_do c s) k) = g_scheduled (scheds s k) @ entries_for k new"
proof (cases "c = Notify \<and> m_waiters (sem s) \<noteq> []")
  case True
  then obtain j f rest where "m_waiters (sem s) = (j, f) # rest" by (cases "m_waiters (sem s)") auto
  with True show ?thesis
    by (intro exI [of _ "[(j, f)]"]) (simp add: fs_notify_def entries_for_def scheduleNoLock_def ft_of_fiber_def)
next
  case False
  then show ?thesis
    by (cases c; cases "m_waiters (sem s)")
      (simp_all add: fs_tryWait_def fs_wait_def fs_notify_def entries_for_def)
qed

lemma sem_reach_entries:
  "sem_reach s cs t \<Longrightarrow> \<exists>new add. g_woken t = g_woken s @ new
     \<and> g_scheduled (scheds t k) = g_scheduled (scheds s k) @ add \<and> subseq (entries_for k new) add"
proof (induction rule: sem_reach.induct)
  case sr_start
  then show ?case by (auto simp: entries_for_def)
next
  case (sr_call cs t c)
  then obtain new add where n: "g_woken t = g_woken s @ new" "subseq (entries_for k new) add"
    "g_scheduled (scheds t k) = g_scheduled (scheds s k) @ add" by blast
  obtain new' where "g_woken (sem_do c t) = g_woken t @ new'"
    "g_scheduled (scheds (sem_do c t) k) = g_scheduled (scheds t k) @ entries_for k new'"
    using sem_do_entries by blast
  moreover have "subseq (entries_for k (new @ new')) (add @ entries_for k new')"
    using n(2) by (simp add: entries_for_def)
  ultimately show ?case using n(1,3) by (metis append.assoc)
next
  case (sr_sched cs t j u)
  then obtain new add where n: "g_woken t = g_woken s @ new" "subseq (entries_for k new) add"
    "g_scheduled (scheds t k) = g_scheduled (scheds s k) @ add" by blast
  from sched_step_grows [OF sr_sched.hyps(2)] obtain ex where "g_scheduled u = g_scheduled (scheds t j) @ ex"
    by (auto simp: prefix_def)
  with n have "g_scheduled (((scheds t)(j := u)) k) = g_scheduled (scheds s k) @ add @ (if k = j then ex else [])"
    by (cases "k = j") auto
  moreover have "subseq (entries_for k new) (add @ (if k = j then ex else []))"
    using n(2) by (rule list_emb_prefix)
  ultimately show ?case using n(1) by (simp del: fun_upd_apply)
qed

section \<open>Properties\<close>

text \<open>
  The semaphore counts exactly: whatever the calls and whatever the schedulers do between
  them, the permits it started with and those that were given by a notify are the ones that
  passed a caller, woke a waiter, or are left; and permits are left only while nobody waits.
\<close>

theorem semaphore_counts:
  assumes "sem_reach s0 cs s" "sem s0 = new_FiberSemaphore n" "g_passed s0 = []" "g_woken s0 = []"
    and "unat n + notifies cs < 2 ^ 64"
  shows "unat n + notifies cs = length (g_passed s) + length (g_woken s) + unat (m_concurrency (sem s))
    \<and> (m_concurrency (sem s) > 0 \<longrightarrow> m_waiters (sem s) = [])"
  using assms
proof (induction rule: sem_reach.induct)
  case sr_start
  then show ?case by (simp add: new_FiberSemaphore_def)
next
  case (sr_call cs s c)
  let ?c = "m_concurrency (sem s)"
  have IH: "unat n + notifies cs = length (g_passed s) + length (g_woken s) + unat ?c
      \<and> (?c > 0 \<longrightarrow> m_waiters (sem s) = [])"
    using sr_call by (auto split: if_splits)
  have dec: "?c > 0 \<Longrightarrow> Suc (unat (?c - 1)) = unat ?c"
    by (simp add: unat_minus_one word_neq_0_conv unat_gt_0)
  have inc: "c = Notify \<Longrightarrow> unat (?c + 1) = unat ?c + 1"
    using IH sr_call.prems(4) unat_add_lem [of ?c 1] by (auto split: if_splits)
  show ?case
    using IH dec inc by (cases c) (auto simp: fs_tryWait_def fs_wait_def fs_notify_def split: list.splits)
qed auto

text \<open>
  C11.  No waiter is forgotten or overtaken: a fiber that waits with \<open>j\<close> others before it is
  scheduled again once \<open>j + 1\<close> notifies have been made, after exactly those before it, on the
  scheduler it waited on, whatever other calls and steps come between.
\<close>

theorem waiter_is_woken:
  assumes "sem_reach s cs t" "j < length (m_waiters (sem s))" "j < notifies cs"
    and "m_waiters (sem s) ! j = (k, f)"
  shows "length (g_woken s) + j < length (g_woken t) \<and> g_woken t ! (length (g_woken s) + j) = (k, f)
    \<and> take (length (g_woken s) + j) (g_woken t) = g_woken s @ take j (m_waiters (sem s))
    \<and> ft_of_fiber f (-1) \<in> set (drop (length (g_scheduled (scheds s k))) (g_scheduled (scheds t k)))"
proof -
  have l: "length (g_woken s) + j < length (g_woken t)"
    using sem_reach_woken [OF assms(1)] assms(2,3) by (auto simp: lined_up_def)
  from sem_reach_lined_up [OF assms(1)] obtain more where
    p: "g_woken t @ m_waiters (sem t) = (g_woken s @ m_waiters (sem s)) @ more"
    by (auto simp: lined_up_def prefix_def)
  have at: "g_woken t ! (length (g_woken s) + j) = (k, f)"
    using arg_cong [OF p, of "\<lambda>l. l ! (length (g_woken s) + j)"] l assms(2,4) by (simp add: nth_append)
  have before: "take (length (g_woken s) + j) (g_woken t) = g_woken s @ take j (m_waiters (sem s))"
    using arg_cong [OF p, of "take (length (g_woken s) + j)"] l assms(2) by simp
  from sem_reach_entries [OF assms(1), of k] obtain new add where
    n: "g_woken t = g_woken s @ new" "subseq (entries_for k new) add"
      "g_scheduled (scheds t k) = g_scheduled (scheds s k) @ add" by blast
  have "(k, f) \<in> set new" using at l by (auto simp: n(1) in_set_conv_nth)
  then have "ft_of_fiber f (-1) \<in> set (entries_for k new)" by (force simp: entries_for_def)
  then have "ft_of_fiber f (-1) \<in> set add" using n(2) by (auto dest: list_emb_set)
  with l at before n(3) show ?thesis by simp
qed

text \<open>One permit and two waits: the second waits, and one notify wakes it on scheduler 0.\<close>

definition two_waits :: "sem_call list" where
  "two_waits = [Wait (0, 5), Wait (0, 6)]"

definition sem_example :: "string sem_system" where
  "sem_example = \<lparr>sem = new_FiberSemaphore 1,
     scheds = (\<lambda>_. new_Scheduler 1 \<lparr>fibers = Map.empty, s_fiber_id = 0, s_fiber_count = 0\<rparr>),
     g_passed = [], g_woken = []\<rparr>"

lemma sem_example_run:
  "\<exists>s t. sem_reach sem_example two_waits s \<and> sem_reach sem_example (two_waits @ [Notify]) t \<and> sem_reach s [Notify] t
    \<and> m_waiters (sem s) = [(0, 6)] \<and> g_woken s = [] \<and> g_passed t = [(0, 5)]"
proof -
  let ?s1 = "sem_do (Wait (0, 5)) sem_example"
  let ?s = "sem_do (Wait (0, 6)) ?s1"
  have r: "sem_reach sem_example two_waits ?s" unfolding two_waits_def
    using sr_call [OF sr_call [OF sr_start, of sem_example "Wait (0, 5)"], of "Wait (0, 6)"] by simp
  moreover note sr_call [OF r, of Notify]
  moreover have "sem_reach ?s [Notify] (sem_do Notify ?s)" using sr_call [OF sr_start, of ?s Notify] by simp
  moreover have "m_waiters (sem ?s) = [(0, 6)]" "g_woken ?s = []" "g_passed (sem_do Notify ?s) = [(0, 5)]"
    by (simp_all add: sem_example_def new_FiberSemaphore_def fs_wait_def fs_notify_def)
  ultimately show ?thesis by blast
qed

theorem semaphore_counts_witness:
  "\<exists>s. sem_reach sem_example (two_waits @ [Notify]) s
    \<and> 2 = length (g_passed s) + length (g_woken s) + unat (m_concurrency (sem s))"
proof -
  from sem_example_run obtain s where s: "sem_reach sem_example (two_waits @ [Notify]) s" by blast
  have "sem sem_example = new_FiberSemaphore 1" "g_passed sem_example = []" "g_woken sem_example = []"
    "unat (1 :: u64) + notifies (two_waits @ [Notify]) < 2 ^ 64" "notifies (two_waits @ [Notify]) = 1"
    by (simp_all add: sem_example_def two_waits_def notifies_def)
  from semaphore_counts [OF s this(1-4)] this(5) s show ?thesis by auto
qed

theorem waiter_is_woken_witness:
  "\<exists>(s :: string sem_system) t. sem_reach s [Notify] t \<and> m_waiters (sem s) = [(0, 6)] \<and> g_woken t ! 0 = (0, 6)
    \<and> ft_of_fiber 6 (-1) \<in> set (g_scheduled (scheds t 0))"
proof -
  from sem_example_run obtain s t :: "string sem_system" where s: "sem_reach s [Notify] t" "m_waiters (sem s) = [(0, 6)]" "g_woken s = []"
    by blast
  then have "0 < length (m_waiters (sem s))" "0 < notifies [Notify]" "m_waiters (sem s) ! 0 = (0, 6)"
    by (simp_all add: notifies_def)
  from waiter_is_woken [OF s(1) this] s show ?thesis by (auto dest: in_set_dropD)
qed

section \<open>A wake-up before the switch\<close>

text \<open>
  \<open>wait\<close> gives up its lock before it yields.  When the notify falls between, the fiber is in the
  queue while it still runs: no worker may take it then, and once it has left and its worker has
  marked it as on hold, any worker may.
\<close>

lemma wake_before_yield:
  fixes s :: "'c Scheduler" and f :: addr
  defines "e \<equiv> ft_of_fiber f (-1)" and "s1 \<equiv> schedule (ft_of_fiber f (-1)) s"
  assumes w: "i < length (workers s)" "w_pc (workers s ! i) = InTask f"
    and t: "thread_ok (heap s) (w_local (workers s ! i))" "exec_context (w_local (workers s ! i)) = Some f"
  shows "\<exists>s2. sched_step s1 s2 \<and> sched_step s2 (after_task i f s2) \<and> \<not> takeable (getState (heap s1)) tid e
    \<and> e \<in> set (m_fibers (after_task i f s2)) \<and> takeable (getState (heap (after_task i f s2))) tid e"
proof -
  from t obtain m where f: "t_fiber (w_local (workers s ! i)) = Some f" "fibers (heap s) f \<noteq> None"
    "getState (heap s) f = RUNNING" "t_thread_fiber (w_local (workers s ! i)) = Some m"
    by (elim thread_okE) auto
  have s1: "workers s1 = workers s" "heap s1 = heap s" "m_fibers s1 = m_fibers s @ [e]"
    by (simp_all add: s1_def e_def schedule_def scheduleNoLock_def tickle_def ft_of_fiber_def)
  let ?t = "(w_local (workers s ! i))\<lparr>t_fiber := Some m, exec_context := Some m\<rparr>"
  let ?s2 = "leave i (AfterTask f) (heap s, ?t) s1"
  have y: "YieldToHold a (heap s1) (w_local (workers s1 ! i)) = Some (heap s, ?t)" for a
    using f by (simp add: s1 YieldToHold_def GetThis_current [of _ f] swapOut_main [of _ m])
  have "yield_pc 0 s1 i (AfterTask f) = AfterTask f"
    using f by (simp add: yield_pc_def s1 GetThis_current [of _ f])
  with st_hold [of i s1 "AfterTask f" 0 "(heap s, ?t)"] w y have "sched_step s1 ?s2" by (simp add: s1)
  moreover have "sched_step ?s2 (after_task i f ?s2)"
    using w by (intro st_after_task) (simp_all add: leave_def s1)
  moreover have "e \<in> set (m_fibers (after_task i f ?s2)) \<and> takeable (getState (heap (after_task i f ?s2))) tid e
      \<and> \<not> takeable (getState (heap s1)) tid e"
    using f by (simp add: after_task_def leave_def s1 takeable_def e_def ft_of_fiber_def Let_def)
  ultimately show ?thesis by blast
qed

end
