(* ===== verification/Http_Cut_Tokens.thy ===== *)
theory Http_Cut_Tokens
  imports Http_Parser_Correct
begin

text \<open>
  What the generated parsers do with a token that the end of a read cuts.  Every call of \<open>execute\<close>
  sets \<open>mark\<close>, \<open>field_start\<close> and \<open>field_len\<close> to 0, and what was consumed is moved out of the buffer;
  the state of the machine goes on in the middle of the token.
\<close>

text \<open>Two reads, one after the other, into a new parser.\<close>

definition two_reads :: "string \<Rightarrow> string \<Rightarrow> http_parser HttpRequestParser" where
  "two_reads a b = snd (execute request_ragel b
     (snd (execute request_ragel a (new_HttpRequestParser (http_parser_init zero_http_parser)))))"

abbreviation version_line :: string where
  "version_line \<equiv> '' HTTP/1.1'' @ crlf @ crlf"

text \<open>A method that is cut is an invalid method.\<close>

lemma cut_method:
  "rp_error (two_reads ''GET /'' version_line) = 0"
  "rp_error (two_reads ''G'' (''ET /'' @ version_line)) = 1000"
  by code_simp+

text \<open>Of a path that is cut only the end is kept.\<close>

lemma cut_path: "q_path (rp_data (two_reads ''GET /ab'' (''cd'' @ version_line))) = ''cd''"
  by code_simp

text \<open>A header whose value is cut is dropped: its name has length 0 in the second buffer.\<close>

lemma cut_header:
  "q_headers (rp_data (two_reads (''GET / HTTP/1.1'' @ crlf @ ''Host: fl'') (''z'' @ crlf @ crlf))) = []"
  by code_simp

text \<open>
  \<open>query_start\<close> is not set back: the query that is cut begins at position 7 of the first buffer, and
  when it ends at position 4 of the second its length is 4 - 7 as a \<open>size_t\<close>.
\<close>

lemma cut_query_start:
  "hp_query_start (fst (snd (request_ragel (http_parser_init zero_http_parser) ''GET /a?b=1''))) = 7"
  by code_simp

lemma cut_query:
  "hp_query_start P = 7 \<Longrightarrow> hp_act buf HQueryString 4 (hp_reset P, [])
     = (hp_reset P, [EvQuery (drop 7 buf) (2 ^ 64 - 3)])"
  by (simp add: hp_reset_def len_of_def)

text \<open>
  In the grammar \<open>0 - 31\<close> is a difference of sets, not the range of control characters: they are
  accepted in the names of headers.
\<close>

lemma control_character_in_name:
  "q_headers (rp_data (snd (execute request_ragel (''GET / HTTP/1.1'' @ crlf @ [CHR ''A'', CHR 0x01, CHR 0x02] @ '': x'' @ crlf @ crlf)
      (new_HttpRequestParser (http_parser_init zero_http_parser))))) = [([CHR ''A'', CHR 0x01, CHR 0x02], ''x'')]"
  by code_simp

text \<open>The method that is written with a hyphen is in the table of methods but not in the grammar.\<close>

lemma msearch_rejected:
  "hasError http_parser_has_error (snd (execute request_ragel (''M-SEARCH / HTTP/1.1'' @ crlf @ crlf)
      (new_HttpRequestParser (http_parser_init zero_http_parser))))"
  by code_simp

text \<open>
  The client sets its parser up again for every read of the head of a chunk: of a length that is
  cut, here 10 in hexadecimal digits, only the part in the second read counts.
\<close>

lemma cut_chunk_length:
  "fst (hc_run (httpclient_parser_init P) ''1'') = 1"
  "hc_content_len (fst (snd (snd (hc_run (httpclient_parser_init Q) (''0'' @ crlf @ rest))))) = 0"
proof -
  have "is_xdigit (CHR ''1'')" by (simp add: is_xdigit_def is_digit_def code_def)
  then have "hc_switch (Suc 0) (schar (CHR ''1'')) = Goto [CMark] 2" using hc_chunk_first [of "CHR ''1''"] by simp
  then show "fst (hc_run (httpclient_parser_init P) ''1'') = 1"
    by (simp add: hc_run_def httpclient_parser_init_def)
  have "chunk_length ''0'' = 0"
    by (simp add: chunk_length_def hex_number_def xdigit_val_def is_digit_def code_def to_int32_small)
  moreover have "\<forall>c \<in> set ''0''. is_xdigit c" by (simp add: is_xdigit_def is_digit_def code_def)
  ultimately show "hc_content_len (fst (snd (snd (hc_run (httpclient_parser_init Q) (''0'' @ crlf @ rest))))) = 0"
    using hc_run_chunk [of "''0''" "httpclient_parser_init Q" rest] by (simp add: httpclient_parser_init_def)
qed

end
