(* ===== verification/Http_Pool_Correct.thy ===== *)
theory Http_Pool_Correct
  imports Http_Pool
begin

text \<open>
  The pool of connections: \<open>m_total\<close> counts the connections that are alive, none is lent twice, and
  \<open>DoRequest\<close> reports a response exactly when it has one.
\<close>

section \<open>Accounting\<close>

text \<open>\<open>L\<close> lists the connections that are lent.\<close>

definition pool_inv :: "pool \<Rightarrow> nat list \<Rightarrow> bool" where
  "pool_inv P L \<longleftrightarrow> distinct (hp_conns P @ L) \<and> dom (hp_heap P) = set (hp_conns P @ L)
     \<and> hp_total P = of_nat (length (hp_conns P @ L))
     \<and> (\<forall>c \<in> set (hp_conns P). hc_request (the (hp_heap P c)) < ucast (hp_maxRequest P))
     \<and> (\<forall>c x. hp_heap P c = Some x \<longrightarrow> hc_createTime x = 0)"

abbreviation look :: "u64 \<Rightarrow> pool \<Rightarrow> nat list \<times> nat option \<times> nat list" where
  "look now P \<equiv> take_conn (\<lambda>c. the (hp_heap P c)) (hp_maxAliveTime P) now (hp_conns P)"

text \<open>\<open>new\<close> returns an address that is not in use after the rejected connections were deleted.\<close>

definition fresh_ptr :: "u64 \<Rightarrow> pool \<Rightarrow> nat \<Rightarrow> bool" where
  "fresh_ptr now P ptr \<longleftrightarrow> delete_conns (fst (look now P)) (hp_heap P) ptr = None"

lemma take_conn_parts:
  "take_conn deref alive now cs = (bad, r, rest) \<Longrightarrow>
   cs = bad @ (case r of None \<Rightarrow> [] | Some c \<Rightarrow> [c]) @ rest"
  by (induction cs arbitrary: bad) (auto split: if_splits prod.splits)

lemma take_conn_usable:
  "take_conn deref alive now cs = (bad, Some c, rest) \<Longrightarrow>
   s_open (hc_sock (deref c)) \<and> \<not> now < hc_createTime (deref c) + ucast alive"
  by (induction cs arbitrary: bad) (auto split: if_splits prod.splits)

text \<open>After the loop, with the rejected connections deleted.\<close>

definition looked :: "u64 \<Rightarrow> pool \<Rightarrow> pool" where
  "looked now P = (case look now P of (bad, r, rest) \<Rightarrow>
     P\<lparr>hp_conns := rest, hp_heap := delete_conns bad (hp_heap P), hp_total := hp_total P - of_nat (length bad)\<rparr>)"

lemma looked_inv:
  assumes "pool_inv P L" "look now P = (bad, r, rest)"
  shows "pool_inv (looked now P) ((case r of None \<Rightarrow> [] | Some c \<Rightarrow> [c]) @ L)"
proof -
  have cs: "hp_conns P = bad @ (case r of None \<Rightarrow> [] | Some c \<Rightarrow> [c]) @ rest"
    by (rule take_conn_parts [OF assms(2)])
  show ?thesis
  proof (cases r)
    case None
    with assms cs show ?thesis
      by (auto simp: pool_inv_def looked_def delete_conns_def dom_def split: if_splits)
  next
    case (Some c)
    with assms cs show ?thesis
      by (auto simp: pool_inv_def looked_def delete_conns_def dom_def split: if_splits)
  qed
qed

lemma hp_looked [simp]:
  "hp_maxRequest (looked now P) = hp_maxRequest P" "hp_host (looked now P) = hp_host P"
  "hp_port (looked now P) = hp_port P"
  by (simp_all add: looked_def split: prod.splits)

lemma getConnection_cases:
  assumes "getConnection N now ptr P = (r, P')"
  obtains (reused) c where "r = Some c" "P' = looked now P" "fst (snd (look now P)) = Some c"
  | (none) "r = None" "P' = looked now P" "fst (snd (look now P)) = None"
  | (new) s where "r = Some ptr" "fst (snd (look now P)) = None"
      "P' = (looked now P)\<lparr>hp_heap := (hp_heap (looked now P))(ptr \<mapsto> \<lparr>hc_sock = s, hc_createTime = 0, hc_request = 0\<rparr>),
         hp_total := hp_total (looked now P) + 1\<rparr>"
  using assms
  by (auto simp: getConnection_def looked_def Let_def split: prod.splits option.splits bool.splits)

lemma pool_inv_new:
  assumes "pool_inv P L" "hp_heap P ptr = None"
  shows "pool_inv (P\<lparr>hp_heap := (hp_heap P)(ptr \<mapsto> \<lparr>hc_sock = s, hc_createTime = 0, hc_request = 0\<rparr>),
    hp_total := hp_total P + 1\<rparr>) (ptr # L)"
proof -
  have "ptr \<notin> set (hp_conns P @ L)" using assms unfolding pool_inv_def by (metis domIff)
  with assms(1) show ?thesis by (auto simp: pool_inv_def)
qed

lemma getConnection_inv:
  assumes "pool_inv P L" "fresh_ptr now P ptr" "getConnection N now ptr P = (r, P')"
  shows "pool_inv P' ((case r of None \<Rightarrow> [] | Some c \<Rightarrow> [c]) @ L)"
proof -
  obtain bad q rest where look: "look now P = (bad, q, rest)" by (metis prod_cases3)
  note inv = looked_inv [OF assms(1) look]
  have f: "hp_heap (looked now P) ptr = None"
    using assms(2) look by (simp add: fresh_ptr_def looked_def)
  from assms(3) show ?thesis
  proof (cases rule: getConnection_cases)
    case (new s)
    then have "q = None" using look by simp
    with inv pool_inv_new [OF _ f] new show ?thesis by simp
  qed (use inv look in auto)
qed

lemma pool_inv_sock:
  "pool_inv P L \<Longrightarrow> hp_heap P c = Some x \<Longrightarrow> pool_inv (P\<lparr>hp_heap := (hp_heap P)(c \<mapsto> x\<lparr>hc_sock := s\<rparr>)\<rparr>) L"
  by (auto simp: pool_inv_def)

lemma ReleasePtr_inv:
  assumes "pool_inv P (c # L)"
  shows "pool_inv (ReleasePtr now c P) L"
proof -
  have "c \<in> dom (hp_heap P)" using assms by (simp add: pool_inv_def)
  then obtain x where x: "hp_heap P c = Some x" by blast
  with assms show ?thesis
    by (auto simp: pool_inv_def ReleasePtr_def Let_def)
qed

text \<open>
  The pool in use: connections are taken and given back in any order, in between their sockets
  change in any way (they are used, or the peer closes them).
\<close>

inductive pool_reach :: "pool \<Rightarrow> nat list \<Rightarrow> bool" where
  pr_init: "pool_reach (new_pool host vhost port is_https max_size max_alive_time max_request) []"
| pr_get: "pool_reach P L \<Longrightarrow> fresh_ptr now P ptr \<Longrightarrow> getConnection N now ptr P = (Some c, P') \<Longrightarrow>
    pool_reach P' (c # L)"
| pr_none: "pool_reach P L \<Longrightarrow> fresh_ptr now P ptr \<Longrightarrow> getConnection N now ptr P = (None, P') \<Longrightarrow>
    pool_reach P' L"
| pr_sock: "pool_reach P L \<Longrightarrow> hp_heap P c = Some x \<Longrightarrow>
    pool_reach (P\<lparr>hp_heap := (hp_heap P)(c \<mapsto> x\<lparr>hc_sock := s\<rparr>)\<rparr>) L"
| pr_release: "pool_reach P (as @ c # bs) \<Longrightarrow> pool_reach (ReleasePtr now c P) (as @ bs)"

lemma pool_inv_lent: "pool_inv P (as @ c # bs) \<longleftrightarrow> pool_inv P (c # as @ bs)"
  by (auto simp: pool_inv_def)

lemma pool_reach_inv: "pool_reach P L \<Longrightarrow> pool_inv P L"
proof (induction rule: pool_reach.induct)
  case (pr_init host vhost port is_https max_size max_alive_time max_request)
  show ?case by (simp add: pool_inv_def new_pool_def)
next
  case (pr_get P L now ptr N c P')
  then show ?case using getConnection_inv [of P L now ptr N "Some c" P'] by simp
next
  case (pr_none P L now ptr N P')
  then show ?case using getConnection_inv [of P L now ptr N None P'] by simp
next
  case (pr_sock P L c x s)
  then show ?case by (simp add: pool_inv_sock)
next
  case (pr_release P as c bs now)
  then show ?case using ReleasePtr_inv [of P c "as @ bs"] pool_inv_lent by blast
qed

text \<open>
  C30.  However the pool is used, \<open>m_total\<close> is the number of connections that are alive: those that
  wait and those that are lent, none of which is both or lent twice; and a connection that waits has
  served fewer requests than the maximum.
\<close>

theorem pool_accounting:
  assumes "pool_reach P L"
  shows "distinct (hp_conns P @ L) \<and> dom (hp_heap P) = set (hp_conns P @ L)
    \<and> hp_total P = of_nat (length (hp_conns P @ L))
    \<and> (\<forall>c \<in> set (hp_conns P). hc_request (the (hp_heap P c)) < ucast (hp_maxRequest P))"
  using pool_reach_inv [OF assms] unfolding pool_inv_def by blast

definition demo_net :: net where
  "demo_net = \<lparr>n_endian = LittleEndian, n_resolve = (\<lambda>_ _. Some [SockIn (new_IPv4Address LittleEndian 1 80)]),
     n_addr_text = (\<lambda>_. []), n_remote_text = (\<lambda>_. []),
     n_socket = (\<lambda>_ _. Some \<lparr>s_in = [], s_accept = [], s_out = [], s_open = True\<rparr>),
     n_connect = (\<lambda>_ s. (True, s)), n_errno_text = []\<rparr>"

theorem pool_accounting_witness:
  "\<exists>P. pool_reach P [5] \<and> hp_total P = 1"
proof -
  let ?P = "new_pool ''h'' [] 0 False 10 1000 5"
  let ?r = "getConnection demo_net 99 5 ?P"
  have f: "fresh_ptr 99 ?P 5" by (simp add: fresh_ptr_def new_pool_def delete_conns_def)
  have r: "fst ?r = Some 5" "hp_conns (snd ?r) = []"
    by (simp_all add: getConnection_def new_pool_def demo_net_def LookupAnyIPAddress_def Lookup_def split_host_def
        split_bracket_def Let_def)
  then have "?r = (Some 5, snd ?r)" by (metis prod.collapse)
  from pool_reach.pr_get [OF pool_reach.pr_init f this] have reach: "pool_reach (snd ?r) [5]" .
  from pool_accounting [OF reach] r(2) have "hp_total (snd ?r) = 1" by simp
  with reach show ?thesis by blast
qed

section \<open>Results\<close>

lemma send_and_recv_result:
  assumes "send_and_recv C N a t req s = (Some res, s')"
  shows "(hr_result res = 0 \<longleftrightarrow> hr_response res \<noteq> None) \<and> hr_result res \<in> {0, 4, 5, 6}"
  using assms
  by (auto simp: send_and_recv_def mk_result_def split: prod.splits if_splits received.splits)

text \<open>
  C38.  A request over the pool leaves the pool in order: the connection it took is given back or
  freed, also when the request fails, and the result has a response exactly when its code is
  \<open>OK\<close>; the other codes are the four of the pool, of sending and of waiting for the response.
\<close>

theorem pool_request:
  assumes "pool_reach P L" "fresh_ptr now1 P ptr"
    and "pool_doRequest C N now1 now2 ptr req timeout_ms P = (r, P')"
  shows "pool_reach P' L \<and> (\<forall>res. r = Some res \<longrightarrow>
    (hr_result res = 0 \<longleftrightarrow> hr_response res \<noteq> None) \<and> hr_result res \<in> {0, 4, 5, 6, 8})"
proof -
  obtain o1 P1 where g: "getConnection N now1 ptr P = (o1, P1)" by fastforce
  show ?thesis
  proof (cases o1)
    case None
    with assms(3) g have "P' = P1" "\<exists>e. r = Some (mk_result POOL_GET_CONNECTION None e)"
      by (auto simp: pool_doRequest_def)
    moreover have "pool_reach P1 L" using pool_reach.pr_none [OF assms(1,2)] g None by simp
    ultimately show ?thesis by (auto simp: mk_result_def)
  next
    case (Some c)
    have P1: "pool_reach P1 (c # L)" using pool_reach.pr_get [OF assms(1,2)] g Some by simp
    have "c \<in> dom (hp_heap P1)" using pool_reach_inv [OF P1] by (simp add: pool_inv_def)
    then obtain x where x: "hp_heap P1 c = Some x" by blast
    obtain s' where sr: "send_and_recv C N (n_remote_text N (hc_sock x)) timeout_ms req (hc_sock x) = (r, s')"
        "P' = ReleasePtr now2 c (P1\<lparr>hp_heap := (hp_heap P1)(c \<mapsto> x\<lparr>hc_sock := s'\<rparr>)\<rparr>)"
      using assms(3) g Some x by (auto simp: pool_doRequest_def Let_def split: prod.splits)
    have "pool_reach (P1\<lparr>hp_heap := (hp_heap P1)(c \<mapsto> x\<lparr>hc_sock := s'\<rparr>)\<rparr>) ([] @ c # L)"
      using pool_reach.pr_sock [OF P1 x] by simp
    from pool_reach.pr_release [OF this] sr(2) have "pool_reach P' L" by simp
    moreover have "(hr_result res = 0 \<longleftrightarrow> hr_response res \<noteq> None) \<and> hr_result res \<in> {0, 4, 5, 6, 8}"
      if "r = Some res" for res
      using send_and_recv_result sr(1) that by fastforce
    ultimately show ?thesis by blast
  qed
qed

definition demo_client :: "unit client_cfg" where
  "demo_client = \<lparr>cc_machine = \<lparr>rm_exec = (\<lambda>_ _. (0, (), [])), rm_init = id, rm_error = (\<lambda>_. False),
     rm_finished = (\<lambda>_. True), rm_chunked = (\<lambda>_. False), rm_content_len = (\<lambda>_. 0), rm_chunks_done = (\<lambda>_. True)\<rparr>,
     cc_parser = (), cc_cast = Map.empty, cc_buffer = 100\<rparr>"

definition demo_pool_run :: "HttpResult option \<times> pool" where
  "demo_pool_run = pool_doRequest demo_client (demo_net\<lparr>n_connect := (\<lambda>_ s. (False, s))\<rparr>) 99 99 5
     (new_HttpRequest 17 False) 1000 (new_pool ''h'' [] 0 False 10 1000 5)"

theorem pool_request_witness:
  "pool_reach (snd demo_pool_run) [] \<and> hr_result (the (fst demo_pool_run)) = 8"
proof -
  have "fresh_ptr 99 (new_pool ''h'' [] 0 False 10 1000 5) 5"
    by (simp add: fresh_ptr_def new_pool_def delete_conns_def)
  from pool_request [OF pool_reach.pr_init this prod.collapse [symmetric]]
  have "pool_reach (snd demo_pool_run) []" unfolding demo_pool_run_def by blast
  moreover have "hr_result (the (fst demo_pool_run)) = 8"
    by (simp add: demo_pool_run_def pool_doRequest_def getConnection_def new_pool_def demo_net_def
        LookupAnyIPAddress_def Lookup_def split_host_def split_bracket_def Let_def mk_result_def)
  ultimately show ?thesis ..
qed

text \<open>
  The time of creation of a connection is never set, so the age of a connection is not limited: once
  the clock is beyond the maximal age, only closed connections are rejected.
\<close>

lemma age_not_limited:
  assumes "pool_reach P L" "ucast (hp_maxAliveTime P) \<le> now" "look now P = (bad, r, rest)"
  shows "\<forall>c \<in> set bad. \<not> s_open (hc_sock (the (hp_heap P c)))"
proof -
  have ct: "\<forall>c \<in> set (hp_conns P). hc_createTime (the (hp_heap P c)) = 0"
    using pool_reach_inv [OF assms(1)] unfolding pool_inv_def
    by (metis (no_types, lifting) Un_iff domD option.sel set_append)
  have "take_conn (\<lambda>c. the (hp_heap P c)) (hp_maxAliveTime P) now cs = (bad, r, rest) \<Longrightarrow> set cs \<subseteq> set (hp_conns P) \<Longrightarrow>
      \<forall>c \<in> set bad. \<not> s_open (hc_sock (the (hp_heap P c)))" for cs
  proof (induction cs arbitrary: bad)
    case (Cons c cs)
    then show ?case using ct assms(2) by (auto split: if_splits prod.splits)
  qed simp
  then show ?thesis using assms(3) by blast
qed

end
