(* ===== verification/Config_Correct.thy ===== *)
theory Config_Correct
  imports Config
begin

text \<open>
  Loading sets exactly the variables that the file names, the container conversions are inverse
  to each other, and where the registry differs from its description.
\<close>

section \<open>Names and paths\<close>

definition join_name :: "string \<Rightarrow> string \<Rightarrow> string" where
  "join_name prefix k = (if prefix = [] then k else prefix @ ''.'' @ k)"

fun leads :: "YAML_Node \<Rightarrow> string list \<Rightarrow> YAML_Node \<Rightarrow> bool" where
  "leads n [] m \<longleftrightarrow> n = m"
| "leads n (k # ks) m \<longleftrightarrow> (\<exists>c. (k, c) \<in> set (node_entries n) \<and> leads c ks m)"

lemma valid_join: "valid_name (join_name p k) \<longleftrightarrow> valid_name p \<and> valid_name k"
  by (auto simp: valid_name_def join_name_def name_chars_def)

lemma valid_dotted: "valid_name (foldl join_name p ks) \<Longrightarrow> valid_name p"
proof (induction ks arbitrary: p)
  case (Cons k ks)
  then have "valid_name (join_name p k)" by simp
  then show ?case by (simp add: valid_join)
qed simp

lemma ListAllMember_paths:
  "(x, m) \<in> set (ListAllMember p n) \<longleftrightarrow> (\<exists>ks. leads n ks m \<and> x = foldl join_name p ks \<and> valid_name x)"
  "(x, m) \<in> set (ListAllMembers p es)
     \<longleftrightarrow> (\<exists>k c ks. (k, c) \<in> set es \<and> leads c ks m \<and> x = foldl join_name (join_name p k) ks \<and> valid_name x)"
proof (induction p n and p es arbitrary: x m and x m rule: ListAllMember_ListAllMembers.induct)
  case (1 p n)
  show ?case
  proof (cases "valid_name p")
    case False
    then show ?thesis using valid_dotted by auto
  next
    case True
    have "(x, m) \<in> set (case n of Map es \<Rightarrow> ListAllMembers p es | _ \<Rightarrow> [])
        \<longleftrightarrow> (\<exists>k c ks. (k, c) \<in> set (node_entries n) \<and> leads c ks m \<and> x = foldl join_name (join_name p k) ks \<and> valid_name x)"
      using 1 True by (cases n) auto
    moreover have "(\<exists>ks. leads n ks m \<and> x = foldl join_name p ks \<and> valid_name x) \<longleftrightarrow> (n = m \<and> x = p)
        \<or> (\<exists>k c ks. (k, c) \<in> set (node_entries n) \<and> leads c ks m \<and> x = foldl join_name (join_name p k) ks \<and> valid_name x)"
      (is "?L \<longleftrightarrow> ?R")
    proof
      assume ?L
      then obtain ks where ks: "leads n ks m" "x = foldl join_name p ks" "valid_name x" by blast
      then show ?R by (cases ks) auto
    next
      assume ?R
      then show ?L
      proof
        assume "n = m \<and> x = p"
        with True show ?L by (intro exI [of _ "[]"]) simp
      next
        assume "\<exists>k c ks. (k, c) \<in> set (node_entries n) \<and> leads c ks m \<and> x = foldl join_name (join_name p k) ks \<and> valid_name x"
        then obtain k c ks where "(k, c) \<in> set (node_entries n)" "leads c ks m" "x = foldl join_name (join_name p k) ks" "valid_name x"
          by blast
        then show ?L by (intro exI [of _ "k # ks"]) auto
      qed
    qed
    ultimately show ?thesis using True by auto
  qed
next
  case (3 p k n es)
  have "(if p = [] then k else p @ ''.'' @ k) = join_name p k" by (simp add: join_name_def)
  with 3 show ?case by auto blast+
qed simp

lemma lower_valid: "valid_name n \<Longrightarrow> lower_str n = n"
proof -
  have "\<not> is_upper c" if "c \<in> name_chars" for c
    using that by (auto simp: name_chars_def is_upper_def code_def)
  then show "valid_name n \<Longrightarrow> lower_str n = n"
    by (induction n) (simp_all add: valid_name_def to_lower_def)
qed

section \<open>Loading\<close>

text \<open>A variable that is given a text.\<close>

definition given :: "(string \<Rightarrow> string \<Rightarrow> 'v option) \<Rightarrow> string \<Rightarrow> ('v, 'cb) ConfigVar \<Rightarrow> ('v, 'cb) ConfigVar" where
  "given conv s v = (case conv (cv_type v) s of Some x \<Rightarrow> v\<lparr>cv_val := x\<rparr> | None \<Rightarrow> v)"

definition node_text :: "(YAML_Node \<Rightarrow> string) \<Rightarrow> YAML_Node \<Rightarrow> string" where
  "node_text emit n = (case n of Scalar s \<Rightarrow> s | _ \<Rightarrow> emit n)"

lemma var_fromString_given: "fst (snd (var_fromString (conv (cv_type v)) s v)) = given conv s v"
  by (auto simp: var_fromString_def setValue_def given_def split: option.splits)

lemma load_node_reg:
  assumes "valid_name key"
  shows "fst (load_node emit conv (key, node) (reg, calls)) n
    = (if n = key \<and> key \<noteq> [] then map_option (given conv (node_text emit node)) (reg n) else reg n)"
  using var_fromString_given [of conv] lower_valid [OF assms]
  by (auto simp: load_node_def LookupBase_def node_text_def Let_def case_prod_beta split: option.splits)

lemma fold_load_other:
  assumes "\<forall>(k, x) \<in> set ms. valid_name k \<and> k \<noteq> n"
  shows "fst (fold (load_node emit conv) ms rl) n = fst rl n"
  using assms
proof (induction ms arbitrary: rl)
  case (Cons m ms)
  obtain k x reg calls where m: "m = (k, x)" "rl = (reg, calls)" by (cases m; cases rl) blast
  with Cons.prems have "fst (load_node emit conv m rl) n = fst rl n" by (auto simp: load_node_reg)
  with Cons show ?case by simp
qed simp

lemma fold_load_one:
  assumes "distinct (map fst ms)" "\<forall>(k, x) \<in> set ms. valid_name k" "(n, node) \<in> set ms" "n \<noteq> []"
  shows "fst (fold (load_node emit conv) ms rl) n = map_option (given conv (node_text emit node)) (fst rl n)"
  using assms(1-3)
proof (induction ms arbitrary: rl)
  case (Cons m ms)
  obtain k x reg calls where m: "m = (k, x)" "rl = (reg, calls)" by (cases m; cases rl) blast
  show ?case
  proof (cases "k = n")
    case True
    with Cons.prems m have "x = node" by (auto simp: rev_image_eqI)
    moreover have "\<forall>(k', x') \<in> set ms. valid_name k' \<and> k' \<noteq> n"
      using Cons.prems m True by (auto simp: rev_image_eqI)
    ultimately show ?thesis
      using Cons.prems m True assms(4) by (simp add: fold_load_other load_node_reg)
  next
    case False
    with Cons m have "fst (fold (load_node emit conv) ms (load_node emit conv m rl)) n
        = map_option (given conv (node_text emit node)) (fst (load_node emit conv m rl) n)" by simp
    with False Cons.prems m show ?thesis by (simp add: load_node_reg)
  qed
qed simp

text \<open>
  C34.  Loading a YAML document in which no name occurs twice: a registered variable takes the
  value of the node that its dotted name leads to, if the text of the node converts to its type;
  otherwise, and when its name leads nowhere, it keeps its value; nothing is registered; and the
  names are spelled with the characters of the registry.
\<close>

theorem LoadFromYaml_sets:
  assumes "distinct (map fst (ListAllMember [] root))" "n \<noteq> []"
  shows "(leads root ks node \<and> n = foldl join_name [] ks \<and> valid_name n
      \<longrightarrow> fst (LoadFromYaml emit conv root reg) n = map_option (given conv (node_text emit node)) (reg n))
    \<and> ((\<nexists>ks node. leads root ks node \<and> n = foldl join_name [] ks \<and> valid_name n)
      \<longrightarrow> fst (LoadFromYaml emit conv root reg) n = reg n)"
proof (intro conjI impI)
  assume "leads root ks node \<and> n = foldl join_name [] ks \<and> valid_name n"
  then have "(n, node) \<in> set (ListAllMember [] root)" unfolding ListAllMember_paths by blast
  moreover have "\<forall>(k, x) \<in> set (ListAllMember [] root). valid_name k" unfolding Ball_def ListAllMember_paths split_paired_All by auto
  ultimately show "fst (LoadFromYaml emit conv root reg) n = map_option (given conv (node_text emit node)) (reg n)"
    using fold_load_one [OF assms(1) _ _ assms(2), of node emit conv "(reg, [])"] by (simp add: LoadFromYaml_def)
next
  assume "\<nexists>ks node. leads root ks node \<and> n = foldl join_name [] ks \<and> valid_name n"
  then have "\<forall>(k, x) \<in> set (ListAllMember [] root). valid_name k \<and> k \<noteq> n"
    unfolding Ball_def split_paired_All ListAllMember_paths by auto
  from fold_load_other [OF this, of emit conv "(reg, [])"]
  show "fst (LoadFromYaml emit conv root reg) n = reg n" by (simp add: LoadFromYaml_def)
qed

text \<open>A document that sets \<open>tcp.port\<close> to 80 in a registry where it is a text.\<close>

theorem LoadFromYaml_sets_witness:
  "map_option cv_val (fst (LoadFromYaml (\<lambda>_. []) (\<lambda>_. Some) (Map [(''tcp'', Map [(''port'', Scalar ''80'')])])
     [''tcp.port'' \<mapsto> new_ConfigVar ''s'' ''tcp.port'' ''1'' [] :: (string, nat) ConfigVar]) ''tcp.port'') = Some ''80''"
proof -
  let ?root = "Map [(''tcp'', Map [(''port'', Scalar ''80'')])]"
  have d: "distinct (map fst (ListAllMember [] ?root))" by (simp add: valid_name_def name_chars_def)
  let ?reg = "[''tcp.port'' \<mapsto> new_ConfigVar ''s'' ''tcp.port'' ''1'' [] :: (string, nat) ConfigVar]"
  have "leads ?root [''tcp'', ''port''] (Scalar ''80'')" "''tcp.port'' = foldl join_name [] [''tcp'', ''port'']"
    "valid_name ''tcp.port''"
    by (simp_all add: join_name_def valid_name_def name_chars_def)
  then have "fst (LoadFromYaml (\<lambda>_. []) (\<lambda>_. Some) ?root ?reg) ''tcp.port''
      = map_option (given (\<lambda>_. Some) (node_text (\<lambda>_. []) (Scalar ''80''))) (?reg ''tcp.port'')"
    using LoadFromYaml_sets [OF d, of "''tcp.port''" "[''tcp'', ''port'']" "Scalar ''80''" "\<lambda>_. []" "\<lambda>_. Some" ?reg]
    by blast
  then show ?thesis by (simp add: given_def node_text_def new_ConfigVar_def)
qed

section \<open>Conversions\<close>

lemma those_map:
  "(\<forall>x \<in> set xs. f x = Some (g x)) \<Longrightarrow> those (map f xs) = Some (map g xs)"
  by (induction xs) auto

lemma seq_round_trip:
  assumes "\<And>x. x \<in> set xs \<Longrightarrow> to x = Some (txt_of x) \<and> load (txt_of x) = Some (node x) \<and> conv (emit (node x)) = Some x"
    and "load (emit (Seq (map node xs))) = Some (Seq (map node xs))"
  shows "Option.bind (cast_to_seq load emit to xs) (cast_from_seq load emit conv) = Some xs"
proof -
  have "those (map (\<lambda>x. Option.bind (to x) load) xs) = Some (map node xs)"
    using assms(1) by (intro those_map) auto
  moreover have "those (map (\<lambda>x. conv (emit x)) (map node xs)) = Some xs"
    using those_map [of xs "\<lambda>x. conv (emit (node x))" id] assms(1) by (simp add: comp_def)
  ultimately show ?thesis using assms(2) by (simp add: cast_to_seq_def cast_from_seq_def)
qed

lemma map_round_trip:
  assumes "\<And>x. x \<in> snd ` set es \<Longrightarrow> to x = Some (txt_of x) \<and> load (txt_of x) = Some (node x) \<and> conv (emit (node x)) = Some x"
    and "load (emit (Map (map (apsnd node) es))) = Some (Map (map (apsnd node) es))"
  shows "Option.bind (cast_to_map load emit to es) (cast_from_map load emit conv) = Some es"
proof -
  have "those (map (\<lambda>(k, x). map_option (Pair k) (Option.bind (to x) load)) es) = Some (map (apsnd node) es)"
    using assms(1) by (intro those_map) force
  moreover have "those (map (\<lambda>(k, x). map_option (Pair k) (conv (emit x))) (map (apsnd node) es)) = Some es"
    using those_map [of es "(\<lambda>(k, x). map_option (Pair k) (conv (emit x))) \<circ> apsnd node" id] assms(1) by force
  ultimately show ?thesis using assms(2) by (simp add: cast_to_map_def cast_from_map_def)
qed

text \<open>
  Containers survive the way through their text: if the text of each element loads to a node
  whose own text converts back to the element, and the node of the container loads back from its
  text, then a vector, a set, a map and a truth value are read back as they were written.
\<close>

theorem container_round_trip:
  assumes "\<And>x. x \<in> set xs \<or> x \<in> ran m \<Longrightarrow> to x = Some (txt_of x) \<and> load (txt_of x) = Some (node x)
      \<and> conv (emit (node x)) = Some x"
    and "load (emit (Seq (map node xs))) = Some (Seq (map node xs))"
    and "load (emit (Map (map (apsnd node) (entries m)))) = Some (Map (map (apsnd node) (entries m)))"
    and "order (set xs) = xs" "map_of (entries m) = m" "distinct (map fst (entries m))"
  shows "Option.bind (cast_to_vector load emit to xs) (cast_from_vector load emit conv) = Some xs
    \<and> Option.bind (cast_to_set order load emit to (set xs)) (cast_from_set load emit conv) = Some (set xs)
    \<and> Option.bind (cast_to_std_map entries load emit to m) (cast_from_std_map load emit conv) = Some m
    \<and> cast_to_bool boost (cast_of_bool b) = Some b"
proof -
  have q: "Option.bind (cast_to_seq load emit to xs) (cast_from_seq load emit conv) = Some xs"
    using assms(1,2) by (intro seq_round_trip) auto
  have "ran m = snd ` set (entries m)" using ran_distinct [OF assms(6)] assms(5) by simp
  then have p: "Option.bind (cast_to_map load emit to (entries m)) (cast_from_map load emit conv) = Some (entries m)"
    using assms(1,3) by (intro map_round_trip) auto
  have "cast_to_bool boost (cast_of_bool b) = Some b"
    by (simp add: cast_to_bool_def cast_of_bool_def Let_def to_lower_def is_upper_def code_def)
  with q p show ?thesis
    by (auto simp: cast_to_vector_def cast_from_vector_def cast_to_set_def cast_from_set_def cast_to_std_map_def
        cast_from_std_map_def assms(4,5) bind_eq_Some_conv)
qed

theorem container_round_trip_witness:
  "let emit = (\<lambda>n. case n of Scalar s \<Rightarrow> s | Seq _ \<Rightarrow> ''- a'' | _ \<Rightarrow> ''k: a'');
       load = (\<lambda>s. Some (if s = ''- a'' then Seq [Scalar ''a''] else if s = ''k: a'' then Map [(''k'', Scalar ''a'')] else Scalar s))
   in Option.bind (cast_to_std_map (\<lambda>_. [(''k'', ''a'')]) load emit Some [''k'' \<mapsto> ''a'']) (cast_from_std_map load emit Some)
     = Some [''k'' \<mapsto> ''a'']"
  using container_round_trip [of "[''a'']" "[''k'' \<mapsto> ''a'']" Some id
      "\<lambda>s. Some (if s = ''- a'' then Seq [Scalar ''a''] else if s = ''k: a'' then Map [(''k'', Scalar ''a'')] else Scalar s)"
      Scalar Some "\<lambda>n. case n of Scalar s \<Rightarrow> s | Seq _ \<Rightarrow> ''- a'' | _ \<Rightarrow> ''k: a''" "\<lambda>_. [(''k'', ''a'')]" "\<lambda>_. [''a'']"]
  by auto

section \<open>Where the registry differs from its description\<close>

text \<open>The names may hold digits, but 9 is missing in the list of characters.\<close>

lemma nine_is_rejected: "\<not> valid_name ''a9'' \<and> valid_name ''a8''"
  by (simp add: valid_name_def name_chars_def)

lemma Config_Lookup_nine: "fst (Config_Lookup ty ''a9'' x d Map.empty) = Inl (invalid_argument ''a9'')"
  using nine_is_rejected by (simp add: Config_Lookup_def)

text \<open>\<open>fromString\<close> answers false also when it has set the value.\<close>

lemma fromString_never_true: "\<not> fst (var_fromString conv s v)"
  by (simp add: var_fromString_def)

text \<open>A name with a capital letter is dropped before it is made lower case.\<close>

lemma capital_names_dropped: "ListAllMember [] (Map [(''Port'', n)]) = [([], Map [(''Port'', n)])]"
  by (simp add: valid_name_def name_chars_def)

end
