(* ===== verification/Hook_Correct.thy ===== *)
theory Hook_Correct
  imports Hook
begin

text \<open>
  What the hooked calls return and leave behind, the user's view of the status flags of a managed
  socket, the descriptor table as a map, and behaviours that differ from the calls they replace.
\<close>

section \<open>Blocking calls\<close>

definition would_block :: "int \<times> int \<Rightarrow> bool" where
  "would_block r \<longleftrightarrow> fst r = -1 \<and> (snd r = EINTR \<or> snd r = EAGAIN)"

fun makes_timer :: "io_action \<Rightarrow> bool" where
  "makes_timer (AddConditionTimer _) = True" | "makes_timer _ = False"

text \<open>As many timers are cancelled as made, and no wait is without an event.\<close>

definition balanced :: "io_action list \<Rightarrow> bool" where
  "balanced acts \<longleftrightarrow> length (filter makes_timer acts) = count_list acts CancelTimer
     \<and> count_list acts Yield \<le> count_list acts AddEvent"

lemma balanced_append: "balanced xs \<Longrightarrow> balanced ys \<Longrightarrow> balanced (xs @ ys)"
  by (simp add: balanced_def)

lemma balanced_pieces:
  "balanced [CallFun]" "balanced ([CallFun] @ timer_action to @ [AddEvent] @ cancel_action to)"
  "balanced ([CallFun] @ timer_action to @ [AddEvent, Yield] @ cancel_action to)"
  by (simp_all add: balanced_def timer_action_def cancel_action_def)

definition do_io_outcome :: "u64 \<Rightarrow> (int \<times> int) list \<Rightarrow> (int \<times> int) list \<Rightarrow> bool list \<Rightarrow> int \<times> int \<Rightarrow> bool" where
  "do_io_outcome to calls adds wakes r \<longleftrightarrow> (r \<in> set calls \<and> \<not> would_block r)
     \<or> (r = (-1, ETIMEDOUT) \<and> True \<in> set wakes \<and> to \<noteq> -1) \<or> (\<exists>rt. (rt, snd r) \<in> set adds \<and> rt \<noteq> 0 \<and> fst r = -1)"

lemma do_io_outcome_mono:
  "do_io_outcome to calls adds wakes r \<Longrightarrow> set calls \<subseteq> set calls' \<Longrightarrow> set adds \<subseteq> set adds' \<Longrightarrow> set wakes \<subseteq> set wakes'
    \<Longrightarrow> do_io_outcome to calls' adds' wakes' r"
  by (auto simp: do_io_outcome_def)

lemma do_io_loop_done:
  "do_io_loop to calls adds wakes = (Some r, acts) \<Longrightarrow> balanced acts \<and> do_io_outcome to calls adds wakes r"
proof (induction to calls adds wakes arbitrary: acts rule: do_io_loop.induct)
  case (2 to n e calls adds wakes)
  consider (intr) "n = -1" "e = EINTR" | (again) "n = -1" "e = EAGAIN" "e \<noteq> EINTR" | (ok) "\<not> would_block (n, e)"
    by (auto simp: would_block_def)
  then show ?case
  proof cases
    case intr
    with 2 obtain acts1 where a: "do_io_loop to calls adds wakes = (Some r, acts1)" "acts = [CallFun] @ acts1"
      by (cases "do_io_loop to calls adds wakes") auto
    have IH: "balanced acts1 \<and> do_io_outcome to calls adds wakes r" by (rule 2(1) [OF _ a(1)]) (use intr in simp)
    have "balanced acts" unfolding a(2) using IH by (blast intro: balanced_append balanced_pieces(1))
    with IH show ?thesis by (auto simp: do_io_outcome_def)
  next
    case again
    with 2(3) obtain rt e1 adds1 where adds: "adds = (rt, e1) # adds1" by (cases adds) auto
    show ?thesis
    proof (cases "rt = 0")
      case False
      with 2(3) again adds show ?thesis by (auto simp: do_io_outcome_def balanced_pieces [simplified])
    next
      case rt: True
      with 2(3) again adds obtain fired wakes1 where w: "wakes = fired # wakes1" by (cases wakes) auto
      show ?thesis
      proof (cases "fired \<and> to \<noteq> -1")
        case True
        with 2(3) again adds rt w show ?thesis
          by (auto simp: do_io_outcome_def on_timeout_def Let_def balanced_pieces [simplified])
      next
        case False
        with 2(3) again adds rt w obtain acts1 where a: "do_io_loop to calls adds1 wakes1 = (Some r, acts1)"
          "acts = ([CallFun] @ timer_action to @ [AddEvent, Yield] @ cancel_action to) @ acts1"
          by (cases "do_io_loop to calls adds1 wakes1") (auto simp: Let_def)
        have IH: "balanced acts1 \<and> do_io_outcome to calls adds1 wakes1 r"
          by (rule 2(2) [OF _ _ adds refl _ w refl _ a(1)]) (use again rt False in auto)
        have "balanced acts" unfolding a(2) using IH by (blast intro: balanced_append balanced_pieces(3))
        with IH show ?thesis unfolding adds w by (auto simp: do_io_outcome_def)
      qed
    qed
  next
    case ok
    with 2(3) have "Some (n, e) = Some r" "acts = [CallFun]" by (auto simp: would_block_def split: if_splits)
    with ok show ?thesis by (auto simp: do_io_outcome_def balanced_pieces)
  qed
qed simp

lemma do_io_loop_returns:
  assumes "\<forall>b \<in> set bs. would_block b" "\<not> would_block r" "\<forall>a \<in> set adds. fst a = 0" "\<not> (\<exists>w \<in> set wakes. w)"
    "length bs \<le> length adds" "length bs \<le> length wakes"
  shows "fst (do_io_loop to (bs @ r # rest) adds wakes) = Some r"
  using assms
proof (induction bs arbitrary: adds wakes)
  case Nil
  then show ?case by (cases r) (auto simp: would_block_def)
next
  case (Cons b bs)
  obtain n e where b: "b = (n, e)" by fastforce
  from Cons.prems obtain a adds1 w wakes1 where aw: "adds = a # adds1" "wakes = w # wakes1"
    by (cases adds; cases wakes) auto
  have "fst (do_io_loop to (bs @ r # rest) adds wakes) = Some r" "fst (do_io_loop to (bs @ r # rest) adds1 wakes1) = Some r"
    using Cons.prems aw by (auto intro!: Cons.IH)
  with Cons.prems aw b show ?case by (auto simp: would_block_def Let_def case_prod_beta)
qed

text \<open>
  C15.  A hooked call on a managed socket.  Whenever it returns, it has cancelled every timer it
  made and has not yielded without an event to wait for; what it returns is a result of the
  system call that is neither an interruption nor a would-block, or a timeout after its timer
  fired, or the failure of \<open>addEvent\<close>.  And it does return, with the first result that would not
  block, when \<open>addEvent\<close> succeeds and no timer fires.
\<close>

theorem do_io_result:
  assumes "\<forall>b \<in> set bs. would_block b" "\<not> would_block r" "\<forall>a \<in> set adds. fst a = 0" "\<not> (\<exists>w \<in> set wakes. w)"
    "length bs \<le> length adds" "length bs \<le> length wakes"
  shows "fst (do_io_loop to (bs @ r # rest) adds wakes) = Some r
    \<and> (do_io_loop to' calls' adds' wakes' = (Some r', acts) \<longrightarrow> balanced acts
        \<and> ((r' \<in> set calls' \<and> \<not> would_block r') \<or> (r' = (-1, ETIMEDOUT) \<and> True \<in> set wakes' \<and> to' \<noteq> -1)
           \<or> (\<exists>rt. (rt, snd r') \<in> set adds' \<and> rt \<noteq> 0 \<and> fst r' = -1)))"
  using do_io_loop_returns [OF assms] do_io_loop_done [of to' calls' adds' wakes' r' acts]
  by (simp add: do_io_outcome_def)

text \<open>An interrupted read, one that waits 100 milliseconds at most, and 5 bytes.\<close>

theorem do_io_result_witness:
  "fst (do_io_loop 100 [(-1, EINTR), (-1, EAGAIN), (5, 0)] [(0, 0), (0, 0)] [False, False]) = Some (5, 0)"
  using do_io_result [of "[(-1, EINTR), (-1, EAGAIN)]" "(5, 0)" "[(0, 0), (0, 0)]" "[False, False]" 100 "[]"]
  by (simp add: would_block_def)

section \<open>Status flags\<close>

lemma bit_O_NONBLOCK: "bit O_NONBLOCK n \<longleftrightarrow> n = 11"
proof -
  have "O_NONBLOCK = 2 ^ 11" by (simp add: O_NONBLOCK_def)
  with bit_exp_iff [of 11 n, where 'a = int] show ?thesis by simp
qed

lemma nonblock_bit: "(a AND O_NONBLOCK \<noteq> 0) \<longleftrightarrow> bit a 11" for a :: int
proof -
  have "a AND O_NONBLOCK = (if bit a 11 then O_NONBLOCK else 0)"
    by (rule bit_eqI) (auto simp: bit_and_iff bit_O_NONBLOCK)
  then show ?thesis by (simp add: O_NONBLOCK_def)
qed

text \<open>
  What is documented of a call of \<open>fcntl\<close> with \<open>F_SETFL\<close> that succeeds: of its argument only the
  status flags that can be changed count, \<open>settable\<close>; the access mode and the creation flags in it
  are ignored, and \<open>F_GETFL\<close> then gives the new flags with the old access mode.
\<close>

definition flags_after :: "int \<Rightarrow> int \<Rightarrow> int \<Rightarrow> int" where
  "flags_after settable old arg = (arg AND settable) OR (old AND NOT settable)"

definition setfl_works :: "int \<Rightarrow> ('k \<Rightarrow> int \<Rightarrow> int) \<Rightarrow> ('k \<Rightarrow> int \<Rightarrow> int \<Rightarrow> 'k) \<Rightarrow> int \<Rightarrow> int \<Rightarrow> 'k \<Rightarrow> bool" where
  "setfl_works settable getfl setfl fd arg k \<longleftrightarrow>
     bit settable 11 \<and> getfl (setfl k fd arg) fd = flags_after settable (getfl k fd) arg"

lemma bit_flags_after:
  "bit (flags_after settable old arg) n \<longleftrightarrow> (if bit settable n then bit arg n else bit old n)"
  by (auto simp: flags_after_def bit_or_iff bit_and_iff bit_not_iff)

lemma flags_after_nonblock:
  fixes arg :: int
  assumes "bit settable 11"
  shows "bit (flags_after settable old (arg OR O_NONBLOCK)) 11"
    and "bit arg 11 \<Longrightarrow> flags_after settable old (arg OR O_NONBLOCK) OR O_NONBLOCK = flags_after settable old arg"
    and "\<not> bit arg 11 \<Longrightarrow> flags_after settable old (arg OR O_NONBLOCK) AND NOT O_NONBLOCK = flags_after settable old arg"
  using assms
  by (auto intro!: bit_eqI simp: bit_flags_after bit_or_iff bit_and_iff bit_not_iff bit_O_NONBLOCK)

text \<open>
  C37.  The flags of a managed socket whose descriptor does not block: when the program sets any
  flags, and the system accepts those that the hook passes on, the program reads back what it
  would have read from a system without the hook, so with \<open>O_NONBLOCK\<close> as it has set it, which is
  what the hook remembers, while the descriptor of the system keeps not blocking.
\<close>

theorem user_view_of_flags:
  assumes "setfl_works settable getfl setfl fd (arg OR O_NONBLOCK) k"
    and "0 \<le> fd" "nat fd < length ds" "ds ! nat fd = Some ctx" "m_isSocket ctx" "\<not> m_isClosed ctx" "m_sysNonblock ctx"
  shows "\<exists>ds' k' ctx'. hook_setfl setfl fd arg ds k = Some (ds', k') \<and> ds' ! nat fd = Some ctx'
    \<and> hook_getfl getfl fd ds' k' = Some (flags_after settable (getfl k fd) arg)
    \<and> m_userNonblock ctx' = bit arg 11 \<and> bit (getfl k' fd) 11"
proof -
  let ?ctx = "ctx\<lparr>m_userNonblock := (arg AND O_NONBLOCK \<noteq> 0)\<rparr>"
  let ?ds = "ds[nat fd := Some ?ctx]" and ?k = "setfl k fd (arg OR O_NONBLOCK)"
  have s: "bit settable 11" and g: "getfl ?k fd = flags_after settable (getfl k fd) (arg OR O_NONBLOCK)"
    using assms(1) by (simp_all add: setfl_works_def)
  note f = flags_after_nonblock [OF s, where old = "getfl k fd" and arg = arg]
  have get: "fd_get fd ds = Some (Some ctx)" "fd_get fd ?ds = Some (Some ?ctx)"
    using assms(2-4) by (auto simp: fd_get_def)
  then have "hook_setfl setfl fd arg ds k = Some (?ds, ?k)" using assms(5-7) by (simp add: hook_setfl_def)
  moreover have "hook_getfl getfl fd ?ds ?k = Some (flags_after settable (getfl k fd) arg)"
    using get(2) assms(5,6) f(2,3) by (simp add: hook_getfl_def g nonblock_bit)
  ultimately show ?thesis using assms(3) f(1) by (auto simp: g nonblock_bit)
qed

text \<open>
  A socket that is open for reading and writing and does not block, on Linux: the access mode in
  the argument is ignored.
\<close>

theorem user_view_of_flags_witness:
  defines "S \<equiv> 0x46C00"
  shows "\<exists>ds' k' ctx'. hook_setfl (\<lambda>k _ a. flags_after S k a) 3 (O_NONBLOCK + 1) (replicate 3 None @ [Some
      \<lparr>fx_fd = 3, m_isInit = True, m_isSocket = True, m_sysNonblock = True, m_userNonblock = False,
       m_isClosed = False, m_recvTimeout = -1, m_sendTimeout = -1\<rparr>]) (O_NONBLOCK + 2) = Some (ds', k')
    \<and> ds' ! nat 3 = Some ctx' \<and> hook_getfl (\<lambda>k _. k) 3 ds' k' = Some (O_NONBLOCK + 2)"
proof -
  let ?c = "\<lparr>fx_fd = 3, m_isInit = True, m_isSocket = True, m_sysNonblock = True, m_userNonblock = False,
       m_isClosed = False, m_recvTimeout = -1, m_sendTimeout = -1\<rparr>"
  let ?ds = "replicate 3 None @ [Some ?c]"
  have d: "nat 3 < length ?ds" "?ds ! nat 3 = Some ?c" by (simp_all add: nth_append)
  have "bit (0x46C00 :: int) 11" by code_simp
  then have w: "setfl_works S (\<lambda>k _. k) (\<lambda>k _ a. flags_after S k a) 3 ((O_NONBLOCK + 1) OR O_NONBLOCK) (O_NONBLOCK + 2)"
    by (simp add: setfl_works_def S_def)
  have "flags_after S (O_NONBLOCK + 2) (O_NONBLOCK + 1) = O_NONBLOCK + 2" unfolding S_def by code_simp
  with user_view_of_flags [OF w _ d] show ?thesis by auto
qed

section \<open>The table\<close>

text \<open>
  The descriptor table is a map: looking up never changes it; asking for an entry that is
  missing makes a fresh one for that descriptor only and keeps one that is there; deleting
  removes that one only; and the table never shrinks below its first size.
\<close>

theorem fd_table_map:
  assumes "0 \<le> fd" "64 \<le> length ds" "new_FdCtx fstat getfl setfl fd k = (c, k1)"
  shows "fd_get fd ds = Some (fd_abs ds fd)
    \<and> (\<exists>ds'. fd_get_create fstat getfl setfl fd ds k
          = Some (case fd_abs ds fd of Some x \<Rightarrow> (Some x, ds', k) | None \<Rightarrow> (Some c, ds', k1))
        \<and> fd_abs ds' = (case fd_abs ds fd of Some x \<Rightarrow> fd_abs ds | None \<Rightarrow> (fd_abs ds)(fd \<mapsto> c)) \<and> 64 \<le> length ds')
    \<and> (\<exists>ds'. fd_del fd ds = Some ds' \<and> fd_abs ds' = (fd_abs ds)(fd := None) \<and> 64 \<le> length ds')"
proof (intro conjI)
  show "fd_get fd ds = Some (fd_abs ds fd)" using fd_get_abs [of fd ds] assms(1) by simp
  show "\<exists>ds'. fd_get_create fstat getfl setfl fd ds k
          = Some (case fd_abs ds fd of Some x \<Rightarrow> (Some x, ds', k) | None \<Rightarrow> (Some c, ds', k1))
        \<and> fd_abs ds' = (case fd_abs ds fd of Some x \<Rightarrow> fd_abs ds | None \<Rightarrow> (fd_abs ds)(fd \<mapsto> c)) \<and> 64 \<le> length ds'"
    using fd_get_create_abs [OF assms] assms(2) by (meson order.trans)
  show "\<exists>ds'. fd_del fd ds = Some ds' \<and> fd_abs ds' = (fd_abs ds)(fd := None) \<and> 64 \<le> length ds'"
    using fd_del_abs [OF assms(1), of ds] assms(2) by auto
qed

theorem fd_table_map_witness:
  "\<exists>c ds' k'. fd_get_create (\<lambda>_. Some True) (\<lambda>k _. k) (\<lambda>_ _ a. a) 100 new_FdManager (0 :: int) = Some (Some c, ds', k')
    \<and> fd_abs ds' 100 = Some c"
proof -
  obtain c k1 where n: "new_FdCtx (\<lambda>_. Some True) (\<lambda>k _. k) (\<lambda>_ _ a. a) 100 (0 :: int) = (c, k1)" by fastforce
  have "64 \<le> length new_FdManager" "fd_abs new_FdManager 100 = None" by (simp_all add: new_FdManager_def fd_abs_def)
  with fd_table_map [of 100 new_FdManager, OF _ _ n] show ?thesis by auto
qed

section \<open>Differences from the calls that are replaced\<close>

text \<open>\<open>ioctl\<close> passes a request to block on to the system, which then blocks the whole thread.\<close>

lemma fionbio_blocks_the_thread:
  assumes "setfl_works settable getfl setfl fd (getfl k fd AND NOT O_NONBLOCK) k" "0 \<le> fd" "nat fd < length ds"
    "ds ! nat fd = Some ctx" "m_isSocket ctx" "\<not> m_isClosed ctx"
  shows "\<exists>ds' k'. hook_fionbio getfl setfl fd 0 ds k = Some (ds', k') \<and> \<not> bit (getfl k' fd) 11"
proof -
  have "fd_get fd ds = Some (Some ctx)" using assms(2-4) by (auto simp: fd_get_def)
  moreover have "\<not> bit (flags_after settable (getfl k fd) (getfl k fd AND NOT O_NONBLOCK)) 11"
    by (simp add: bit_flags_after bit_and_iff bit_not_iff bit_O_NONBLOCK) (use assms(1) in \<open>simp add: setfl_works_def\<close>)
  ultimately show ?thesis using assms(1,5,6) by (simp add: hook_fionbio_def Let_def setfl_works_def)
qed

text \<open>A \<open>connect\<close> that fails at once is not reported: it waits for the socket to become writable.\<close>

lemma refused_connect_waits:
  assumes "fd_get fd ds = Some (Some ctx)" "m_isSocket ctx" "\<not> m_isClosed ctx" "\<not> m_userNonblock ctx" "e \<noteq> EINPROGRESS"
  shows "connect_with_timeout True ds fd (-1) (-1, e) 0 False (0, 0, 0) = Some ((0, 0), [CallFun, AddEvent, Yield])"
  using assms by (simp add: connect_with_timeout_def Let_def timer_action_def cancel_action_def)

text \<open>The times of \<open>sleep\<close> and \<open>nanosleep\<close> wrap around.\<close>

lemma sleep_wraps: "sleep_ms 4294968 = 704" "sleep_ms 4294967 = 4294967000"
  by (simp_all add: sleep_ms_def)

lemma nanosleep_wraps: "nanosleep_ms 2147484 0 = - 2147483296"
  by (simp add: nanosleep_ms_def)

text \<open>A timeout of zero, which means none, is stored as one that has passed.\<close>

lemma zero_timeout_expires:
  assumes "fd_get fd ds = Some (Some ctx)" "0 \<le> fd" "nat fd < length ds"
  shows "\<exists>ds' ctx'. hook_setsockopt True fd SOL_SOCKET SO_RCVTIMEO 0 0 ds = Some ds' \<and> ds' ! nat fd = Some ctx'
    \<and> timer_action (getTimeout SO_RCVTIMEO ctx') = [AddConditionTimer 0]"
  using assms by (auto simp: hook_setsockopt_def setTimeout_def getTimeout_def timer_action_def)

end
