(* ===== verification/Timer_Manager.thy ===== *)
theory Timer_Manager
  imports Prelude
begin

text \<open>
  \<^verbatim>\<open>src/timer.cc\<close>: timers and the ordered set that holds the armed ones.  A timer object lives as
  long as a pointer to it, so the model has a heap of timer objects by address; \<open>m_timers\<close> is the
  set as the list of addresses in its order.  Times are \<open>uint64_t\<close> milliseconds; the clock
  \<open>getCurrentMS\<close> is an argument of every operation that reads it.
\<close>

section \<open>Timers\<close>

type_synonym addr = nat

record 'c Timer =
  t_recurring :: bool
  t_ms :: u64
  t_next :: u64
  t_cb :: "'c option"

record 'c TimerManager =
  heap :: "addr \<Rightarrow> 'c Timer option"
  m_timers :: "addr list"
  m_tickled :: bool
  m_previouseTime :: u64

definition new_TimerManager :: "u64 \<Rightarrow> 'c TimerManager" where
  "new_TimerManager now = \<lparr>heap = Map.empty, m_timers = [], m_tickled = False, m_previouseTime = now\<rparr>"

text \<open>A \<open>std::function\<close> may be empty.\<close>

definition new_Timer :: "u64 \<Rightarrow> u64 \<Rightarrow> 'c option \<Rightarrow> bool \<Rightarrow> 'c Timer" where
  "new_Timer now ms cb recurring = \<lparr>t_recurring = recurring, t_ms = ms, t_next = now + ms, t_cb = cb\<rparr>"

text \<open>The comparator on two pointers that are not null: the time, then the address.\<close>

definition Comparator :: "u64 \<Rightarrow> addr \<Rightarrow> u64 \<Rightarrow> addr \<Rightarrow> bool" where
  "Comparator n1 a1 n2 a2 = (if n1 < n2 then True else if n2 < n1 then False else a1 < a2)"

definition next_of :: "'c TimerManager \<Rightarrow> addr \<Rightarrow> u64" where
  "next_of m a = (case heap m a of Some t \<Rightarrow> t_next t | None \<Rightarrow> 0)"

text \<open>\<open>std::set\<close>: insertion before the first greater element, unless an equivalent one is there.\<close>

fun set_insert :: "(addr \<Rightarrow> u64) \<Rightarrow> addr \<Rightarrow> addr list \<Rightarrow> addr list" where
  "set_insert nx a [] = [a]"
| "set_insert nx a (b # bs) =
    (if Comparator (nx a) a (nx b) b then a # b # bs
     else if Comparator (nx b) b (nx a) a then b # set_insert nx a bs
     else b # bs)"

section \<open>Operations\<close>

text \<open>
  The result of the protected \<open>addTimer\<close> says whether \<open>onTimerInsertedAtFront\<close> is called.
\<close>

definition insert_timer :: "addr \<Rightarrow> 'c TimerManager \<Rightarrow> bool \<times> 'c TimerManager" where
  "insert_timer a m =
    (let ts = set_insert (next_of m) a (m_timers m);
         at_front = (ts \<noteq> [] \<and> ts ! 0 = a \<and> \<not> m_tickled m)
     in (at_front, m\<lparr>m_timers := ts, m_tickled := (if at_front then True else m_tickled m)\<rparr>))"

text \<open>\<open>a\<close> is the address of the new object.\<close>

definition addTimer :: "u64 \<Rightarrow> addr \<Rightarrow> u64 \<Rightarrow> 'c option \<Rightarrow> bool \<Rightarrow> 'c TimerManager \<Rightarrow> bool \<times> 'c TimerManager" where
  "addTimer now a ms cb recurring m =
     insert_timer a (m\<lparr>heap := (heap m)(a \<mapsto> new_Timer now ms cb recurring)\<rparr>)"

text \<open>The callback that \<open>addConditionTimer\<close> binds: it runs only while the condition is alive.\<close>

definition OnTimer :: "('w \<Rightarrow> bool) \<Rightarrow> 'w \<Rightarrow> ('s \<Rightarrow> 's) \<Rightarrow> 's \<Rightarrow> 's" where
  "OnTimer alive weak_cond cb s = (if alive weak_cond then cb s else s)"

definition addConditionTimer ::
  "u64 \<Rightarrow> addr \<Rightarrow> u64 \<Rightarrow> ('s \<Rightarrow> 's) \<Rightarrow> ('w \<Rightarrow> bool) \<Rightarrow> 'w \<Rightarrow> bool
    \<Rightarrow> ('s \<Rightarrow> 's) TimerManager \<Rightarrow> bool \<times> ('s \<Rightarrow> 's) TimerManager" where
  "addConditionTimer now a ms cb alive cond recurring m = addTimer now a ms (Some (OnTimer alive cond cb)) recurring m"

definition set_erase :: "addr \<Rightarrow> addr list \<Rightarrow> addr list" where
  "set_erase a ts = filter (\<lambda>b. b \<noteq> a) ts"

definition cancel :: "addr \<Rightarrow> 'c TimerManager \<Rightarrow> bool \<times> 'c TimerManager" where
  "cancel a m = (case heap m a of
       None \<Rightarrow> (False, m)
     | Some t \<Rightarrow> if t_cb t \<noteq> None
         then (True, m\<lparr>heap := (heap m)(a \<mapsto> t\<lparr>t_cb := None\<rparr>), m_timers := set_erase a (m_timers m)\<rparr>)
         else (False, m))"

definition refresh :: "u64 \<Rightarrow> addr \<Rightarrow> 'c TimerManager \<Rightarrow> bool \<times> 'c TimerManager" where
  "refresh now a m = (case heap m a of
       None \<Rightarrow> (False, m)
     | Some t \<Rightarrow>
         if t_cb t = None then (False, m)
         else if a \<notin> set (m_timers m) then (False, m)
         else let m' = m\<lparr>heap := (heap m)(a \<mapsto> t\<lparr>t_next := now + t_ms t\<rparr>)\<rparr>
              in (True, m'\<lparr>m_timers := set_insert (next_of m') a (set_erase a (m_timers m))\<rparr>))"

text \<open>The second component of the result says whether \<open>onTimerInsertedAtFront\<close> is called.\<close>

definition reset :: "u64 \<Rightarrow> addr \<Rightarrow> u64 \<Rightarrow> bool \<Rightarrow> 'c TimerManager \<Rightarrow> (bool \<times> bool) \<times> 'c TimerManager" where
  "reset now a ms from_now m = (case heap m a of
       None \<Rightarrow> ((False, False), m)
     | Some t \<Rightarrow>
         if ms = t_ms t \<and> \<not> from_now then ((True, False), m)
         else if t_cb t = None then ((False, False), m)
         else if a \<notin> set (m_timers m) then ((False, False), m)
         else let start = (if from_now then now else t_next t - t_ms t);
                  m' = m\<lparr>heap := (heap m)(a \<mapsto> t\<lparr>t_ms := ms, t_next := start + ms\<rparr>),
                         m_timers := set_erase a (m_timers m)\<rparr>
              in (case insert_timer a m' of (front, m'') \<Rightarrow> ((True, front), m'')))"

definition getNextTimer :: "u64 \<Rightarrow> 'c TimerManager \<Rightarrow> u64 \<times> 'c TimerManager" where
  "getNextTimer now m = (case m_timers m of
       [] \<Rightarrow> (NOT 0, m\<lparr>m_tickled := False\<rparr>)
     | a # _ \<Rightarrow> (if next_of m a \<le> now then 0 else next_of m a - now, m\<lparr>m_tickled := False\<rparr>))"

definition hasTimer :: "'c TimerManager \<Rightarrow> bool" where
  "hasTimer m \<longleftrightarrow> m_timers m \<noteq> []"

definition detectClockRollover :: "u64 \<Rightarrow> 'c TimerManager \<Rightarrow> bool \<times> 'c TimerManager" where
  "detectClockRollover now m =
    (now < m_previouseTime m \<and> now < m_previouseTime m - 60 * 60 * 1000, m\<lparr>m_previouseTime := now\<rparr>)"

text \<open>
  The loop over the expired timers: the callback is collected, a recurring timer is armed again,
  the callback of another is dropped.
\<close>

fun fire :: "u64 \<Rightarrow> addr list \<Rightarrow> 'c TimerManager \<Rightarrow> 'c option list \<times> 'c TimerManager" where
  "fire now [] m = ([], m)"
| "fire now (a # as) m = (case heap m a of
       None \<Rightarrow> fire now as m
     | Some t \<Rightarrow>
        let m1 = (if t_recurring t
                  then (let m' = m\<lparr>heap := (heap m)(a \<mapsto> t\<lparr>t_next := now + t_ms t\<rparr>)\<rparr>
                        in m'\<lparr>m_timers := set_insert (next_of m') a (m_timers m)\<rparr>)
                  else m\<lparr>heap := (heap m)(a \<mapsto> t\<lparr>t_cb := None\<rparr>)\<rparr>)
        in (case fire now as m1 of (cbs, m2) \<Rightarrow> (t_cb t # cbs, m2)))"

text \<open>
  \<open>lower_bound\<close> of a temporary timer at address \<open>na\<close> with the time \<open>now\<close>, then past the elements
  that have exactly that time; all elements after a rollover of the clock.
\<close>

definition expired_count :: "u64 \<Rightarrow> addr \<Rightarrow> bool \<Rightarrow> 'c TimerManager \<Rightarrow> nat" where
  "expired_count now na rollover m =
    (let ts = m_timers m;
         lb = (if rollover then length ts
               else length (takeWhile (\<lambda>a. Comparator (next_of m a) a now na) ts))
     in lb + length (takeWhile (\<lambda>a. next_of m a = now) (drop lb ts)))"

definition listExpiredCb :: "u64 \<Rightarrow> addr \<Rightarrow> 'c TimerManager \<Rightarrow> 'c option list \<times> 'c TimerManager" where
  "listExpiredCb now na m =
    (if m_timers m = [] then ([], m)
     else case detectClockRollover now m of
       (rollover, m1) \<Rightarrow>
         if \<not> rollover \<and> now < next_of m1 (m_timers m1 ! 0) then ([], m1)
         else let k = expired_count now na rollover m1
              in fire now (take k (m_timers m1)) (m1\<lparr>m_timers := drop k (m_timers m1)\<rparr>))"

end
