(* ===== verification/IO_Manager.thy ===== *)
theory IO_Manager
  imports Scheduler Timer_Manager
begin

text \<open>
  \<^verbatim>\<open>src/iomanager.cc\<close>: the events that fibers and callbacks wait for on file descriptors, and the
  idle loop that hands them to their schedulers.  The kernel's \<open>epoll_ctl\<close> is the argument \<open>ctl\<close>,
  which answers from and changes a kernel state; the outcomes of \<open>epoll_wait\<close> and the clock are
  arguments of the idle loop.  A failed assertion, a null scheduler and an index outside an array
  are errors.  Every operation is one step; the locks are not modelled.
\<close>

section \<open>State\<close>

definition NONE :: u32 where "NONE = 0"
definition READ :: u32 where "READ = 1"
definition WRITE :: u32 where "WRITE = 4"
definition EPOLLIN :: u32 where "EPOLLIN = 1"
definition EPOLLOUT :: u32 where "EPOLLOUT = 4"
definition EPOLLERR :: u32 where "EPOLLERR = 8"
definition EPOLLHUP :: u32 where "EPOLLHUP = 16"
definition EPOLLET :: u32 where "EPOLLET = 0x80000000"

datatype EpollCtlOp = EPOLL_CTL_ADD | EPOLL_CTL_MOD | EPOLL_CTL_DEL

datatype io_error = AssertionFailed | NullScheduler | BadIndex

record 'c EventContext =
  ec_scheduler :: "nat option"
  ec_fiber :: "addr option"
  ec_cb :: "'c option"

definition new_EventContext :: "'c EventContext" where
  "new_EventContext = \<lparr>ec_scheduler = None, ec_fiber = None, ec_cb = None\<rparr>"

record 'c FdContext =
  fc_read :: "'c EventContext"
  fc_write :: "'c EventContext"
  fc_fd :: nat
  fc_events :: u32

definition new_FdContext :: "nat \<Rightarrow> 'c FdContext" where
  "new_FdContext i = \<lparr>fc_read = new_EventContext, fc_write = new_EventContext, fc_fd = i, fc_events = NONE\<rparr>"

text \<open>
  \<open>schedulers\<close> are the schedulers of the program by number, \<open>io_self\<close> the number of this one.
\<close>

record ('c, 'k) IOManager =
  m_fdContexts :: "'c FdContext list"
  m_pendingEventCount :: int
  io_epoll :: 'k
  m_tickleFd :: int
  io_timers :: "'c TimerManager"
  io_self :: nat
  schedulers :: "nat \<Rightarrow> 'c Scheduler"

definition contextResize :: "nat \<Rightarrow> 'c FdContext list \<Rightarrow> 'c FdContext list" where
  "contextResize n cs = take n cs @ map new_FdContext [length cs..<n]"

definition new_IOManager :: "'k \<Rightarrow> int \<Rightarrow> u64 \<Rightarrow> nat \<Rightarrow> (nat \<Rightarrow> 'c Scheduler) \<Rightarrow> ('c, 'k) IOManager" where
  "new_IOManager k tickle_fd now self ss = \<lparr>m_fdContexts = contextResize 32 [], m_pendingEventCount = 0, io_epoll = k, m_tickleFd = tickle_fd,
     io_timers = new_TimerManager now, io_self = self, schedulers = ss\<rparr>"

section \<open>Event contexts\<close>

definition getContext :: "u32 \<Rightarrow> 'c FdContext \<Rightarrow> io_error + 'c EventContext" where
  "getContext event c = (if event = READ then Inr (fc_read c) else if event = WRITE then Inr (fc_write c)
     else Inl AssertionFailed)"

definition setContext :: "u32 \<Rightarrow> 'c EventContext \<Rightarrow> 'c FdContext \<Rightarrow> 'c FdContext" where
  "setContext event x c = (if event = READ then c\<lparr>fc_read := x\<rparr> else c\<lparr>fc_write := x\<rparr>)"

definition resetContext :: "'c EventContext \<Rightarrow> 'c EventContext" where
  "resetContext x = x\<lparr>ec_cb := None, ec_fiber := None, ec_scheduler := None\<rparr>"

text \<open>Scheduling through a pointer to the callback or fiber takes it out of the context.\<close>

definition triggerEvent :: "u32 \<Rightarrow> 'c FdContext \<Rightarrow> (nat \<Rightarrow> 'c Scheduler)
    \<Rightarrow> io_error + ('c FdContext \<times> (nat \<Rightarrow> 'c Scheduler))" where
  "triggerEvent event c ss =
    (if fc_events c AND event = 0 then Inl AssertionFailed
     else let c1 = c\<lparr>fc_events := fc_events c AND NOT event\<rparr> in
       (case getContext event c1 of
          Inl e \<Rightarrow> Inl e
        | Inr x \<Rightarrow> (case ec_scheduler x of
            None \<Rightarrow> Inl NullScheduler
          | Some n \<Rightarrow>
             if ec_cb x \<noteq> None
             then Inr (setContext event (x\<lparr>ec_cb := None, ec_scheduler := None\<rparr>) c1,
                ss(n := schedule \<lparr>ft_fiber = None, ft_cb = ec_cb x, ft_thread = -1\<rparr> (ss n)))
             else Inr (setContext event (x\<lparr>ec_fiber := None, ec_scheduler := None\<rparr>) c1,
                ss(n := schedule \<lparr>ft_fiber = ec_fiber x, ft_cb = None, ft_thread = -1\<rparr> (ss n))))))"

section \<open>Operations\<close>

text \<open>
  Entry \<open>fd\<close> of \<open>m_fdContexts\<close>: the index is an \<open>int\<close>, so the code can leave the array at both ends.
\<close>

definition ctx_at :: "'c FdContext list \<Rightarrow> int \<Rightarrow> io_error + 'c FdContext" where
  "ctx_at cs fd = (if 0 \<le> fd \<and> nat fd < length cs then Inr (cs ! nat fd) else Inl BadIndex)"

abbreviation put_ctx :: "int \<Rightarrow> 'c FdContext \<Rightarrow> ('c, 'k) IOManager \<Rightarrow> ('c, 'k) IOManager" where
  "put_ctx fd c m \<equiv> m\<lparr>m_fdContexts := (m_fdContexts m)[nat fd := c]\<rparr>"

text \<open>
  \<open>this_sched\<close> and \<open>this_fiber\<close> are \<open>Scheduler::GetThis()\<close> and \<open>Fiber::GetThis()\<close>, the latter with its
  state.
\<close>

definition addEvent :: "('k \<Rightarrow> EpollCtlOp \<Rightarrow> int \<Rightarrow> u32 \<Rightarrow> int \<times> 'k) \<Rightarrow> nat option \<Rightarrow> addr \<times> State
    \<Rightarrow> int \<Rightarrow> u32 \<Rightarrow> 'c option \<Rightarrow> ('c, 'k) IOManager \<Rightarrow> io_error + (int \<times> ('c, 'k) IOManager)" where
  "addEvent ctl this_sched this_fiber fd event cb m =
    (let m1 = (if fd < int (length (m_fdContexts m)) then m
               else m\<lparr>m_fdContexts := contextResize (nat (fd * 3 div 2)) (m_fdContexts m)\<rparr>)
     in case ctx_at (m_fdContexts m1) fd of
       Inl e \<Rightarrow> Inl e
     | Inr c \<Rightarrow>
        if fc_events c AND event \<noteq> 0 then Inl AssertionFailed
        else let op = (if fc_events c \<noteq> 0 then EPOLL_CTL_MOD else EPOLL_CTL_ADD) in
          (case ctl (io_epoll m1) op fd (EPOLLET OR fc_events c OR event) of (rt, k) \<Rightarrow>
             let m2 = m1\<lparr>io_epoll := k\<rparr> in
             if rt \<noteq> 0 then Inr (-1, m2)
             else let c1 = c\<lparr>fc_events := fc_events c OR event\<rparr>;
                      m3 = m2\<lparr>m_pendingEventCount := m_pendingEventCount m2 + 1\<rparr>
               in (case getContext event c1 of
                     Inl e \<Rightarrow> Inl e
                   | Inr x \<Rightarrow>
                      if ec_scheduler x \<noteq> None \<or> ec_fiber x \<noteq> None \<or> ec_cb x \<noteq> None then Inl AssertionFailed
                      else if cb \<noteq> None
                      then Inr (0, put_ctx fd (setContext event (x\<lparr>ec_scheduler := this_sched, ec_cb := cb\<rparr>) c1) m3)
                      else if snd this_fiber \<noteq> RUNNING then Inl AssertionFailed
                      else Inr (0, put_ctx fd (setContext event
                             (x\<lparr>ec_scheduler := this_sched, ec_fiber := Some (fst this_fiber)\<rparr>) c1) m3))))"

text \<open>The size is compared with \<open>fd\<close> as unsigned: a negative descriptor is never below it.\<close>

definition delEvent :: "('k \<Rightarrow> EpollCtlOp \<Rightarrow> int \<Rightarrow> u32 \<Rightarrow> int \<times> 'k) \<Rightarrow> int \<Rightarrow> u32
    \<Rightarrow> ('c, 'k) IOManager \<Rightarrow> io_error + (bool \<times> ('c, 'k) IOManager)" where
  "delEvent ctl fd event m =
    (if int (length (m_fdContexts m)) \<le> fd mod 2 ^ 64 then Inr (False, m)
     else case ctx_at (m_fdContexts m) fd of
       Inl e \<Rightarrow> Inl e
     | Inr c \<Rightarrow>
        if fc_events c AND event = 0 then Inr (False, m)
        else let new_event = fc_events c AND NOT event;
                 op = (if new_event \<noteq> 0 then EPOLL_CTL_MOD else EPOLL_CTL_DEL)
          in (case ctl (io_epoll m) op fd (new_event OR EPOLLET) of (rt, k) \<Rightarrow>
               let m1 = m\<lparr>io_epoll := k\<rparr> in
               if rt \<noteq> 0 then Inr (False, m1)
               else (case getContext event c of
                   Inl e \<Rightarrow> Inl e
                 | Inr x \<Rightarrow> Inr (True, put_ctx fd (setContext event (resetContext x) (c\<lparr>fc_events := new_event\<rparr>))
                     (m1\<lparr>m_pendingEventCount := m_pendingEventCount m1 - 1\<rparr>)))))"

text \<open>\<open>triggerEvent\<close> on entry \<open>fd\<close>, with the count.\<close>

definition trigger_at :: "int \<Rightarrow> u32 \<Rightarrow> ('c, 'k) IOManager \<Rightarrow> io_error + ('c, 'k) IOManager" where
  "trigger_at fd event m = (case ctx_at (m_fdContexts m) fd of
     Inl e \<Rightarrow> Inl e
   | Inr c \<Rightarrow> (case triggerEvent event c (schedulers m) of
       Inl e \<Rightarrow> Inl e
     | Inr (c1, ss) \<Rightarrow> Inr (put_ctx fd c1 (m\<lparr>schedulers := ss, m_pendingEventCount := m_pendingEventCount m - 1\<rparr>))))"

definition cancelEvent :: "('k \<Rightarrow> EpollCtlOp \<Rightarrow> int \<Rightarrow> u32 \<Rightarrow> int \<times> 'k) \<Rightarrow> int \<Rightarrow> u32
    \<Rightarrow> ('c, 'k) IOManager \<Rightarrow> io_error + (bool \<times> ('c, 'k) IOManager)" where
  "cancelEvent ctl fd event m =
    (if int (length (m_fdContexts m)) \<le> fd then Inr (False, m)
     else case ctx_at (m_fdContexts m) fd of
       Inl e \<Rightarrow> Inl e
     | Inr c \<Rightarrow>
        if fc_events c AND event = 0 then Inr (False, m)
        else let new_event = fc_events c AND NOT event;
                 op = (if new_event \<noteq> 0 then EPOLL_CTL_MOD else EPOLL_CTL_DEL)
          in (case ctl (io_epoll m) op fd (new_event OR EPOLLET) of (rt, k) \<Rightarrow>
               let m1 = m\<lparr>io_epoll := k\<rparr> in
               if rt \<noteq> 0 then Inr (False, m1) else map_sum id (Pair True) (trigger_at fd event m1)))"

definition trigger_if :: "bool \<Rightarrow> int \<Rightarrow> u32 \<Rightarrow> ('c, 'k) IOManager \<Rightarrow> io_error + ('c, 'k) IOManager" where
  "trigger_if b fd event m = (if b then trigger_at fd event m else Inr m)"

definition cancelAll :: "('k \<Rightarrow> EpollCtlOp \<Rightarrow> int \<Rightarrow> u32 \<Rightarrow> int \<times> 'k) \<Rightarrow> int
    \<Rightarrow> ('c, 'k) IOManager \<Rightarrow> io_error + (bool \<times> ('c, 'k) IOManager)" where
  "cancelAll ctl fd m =
    (if int (length (m_fdContexts m)) \<le> fd then Inr (False, m)
     else case ctx_at (m_fdContexts m) fd of
       Inl e \<Rightarrow> Inl e
     | Inr c \<Rightarrow>
        if fc_events c = 0 then Inr (False, m)
        else (case ctl (io_epoll m) EPOLL_CTL_DEL fd 0 of (rt, k) \<Rightarrow>
          let m1 = m\<lparr>io_epoll := k\<rparr> in
          if rt \<noteq> 0 then Inr (False, m1)
          else (case trigger_if (fc_events c AND READ \<noteq> 0) fd READ m1 of
              Inl e \<Rightarrow> Inl e
            | Inr m2 \<Rightarrow> (case trigger_if (fc_events c AND WRITE \<noteq> 0) fd WRITE m2 of
                Inl e \<Rightarrow> Inl e
              | Inr m3 \<Rightarrow> if fc_events (m_fdContexts m3 ! nat fd) = 0 then Inr (True, m3) else Inl AssertionFailed))))"

section \<open>The idle loop\<close>

text \<open>Whether \<open>tickle\<close> writes a byte into the pipe.\<close>

definition io_tickle :: "('c, 'k) IOManager \<Rightarrow> bool" where
  "io_tickle m \<longleftrightarrow> 0 < m_idleThreadCount (schedulers m (io_self m))"

definition io_stopping :: "u64 \<Rightarrow> ('c, 'k) IOManager \<Rightarrow> bool \<times> u64 \<times> ('c, 'k) IOManager" where
  "io_stopping now m = (case getNextTimer now (io_timers m) of (timeout, tm) \<Rightarrow>
     (timeout = -1 \<and> m_pendingEventCount m = 0 \<and> stopping (schedulers m (io_self m)), timeout, m\<lparr>io_timers := tm\<rparr>))"

text \<open>The timeout handed to \<open>epoll_wait\<close>: the casts to \<open>int\<close> are those of the code.\<close>

definition clamp_timeout :: "u64 \<Rightarrow> u64" where
  "clamp_timeout next_timeout =
    (if next_timeout \<noteq> -1
     then (if 3000 < sint (ucast next_timeout :: 32 word) then 3000 else next_timeout)
     else 3000)"

definition wait_timeout :: "u64 \<Rightarrow> int" where
  "wait_timeout next_timeout = sint (ucast (clamp_timeout next_timeout) :: 32 word)"

text \<open>
  The outcomes of \<open>epoll_wait\<close>: events, an interrupted call or another failure.  The loop
  repeats an interrupted call; \<open>None\<close> means that all the given outcomes were interruptions.
\<close>

datatype ev_data = TickleFd | FdPtr nat

datatype wait_result = Events "(ev_data \<times> u32) list" | Interrupted | WaitFailed

fun wait_loop :: "wait_result list \<Rightarrow> wait_result option" where
  "wait_loop [] = None"
| "wait_loop (Interrupted # rs) = wait_loop rs"
| "wait_loop (r # rs) = Some r"

definition real_events :: "u32 \<Rightarrow> u32 \<Rightarrow> u32" where
  "real_events ev registered =
    (let ev1 = (if ev AND (EPOLLERR OR EPOLLHUP) \<noteq> 0 then ev OR ((EPOLLIN OR EPOLLOUT) AND registered) else ev)
     in (if ev1 AND EPOLLIN \<noteq> 0 then READ else 0) OR (if ev1 AND EPOLLOUT \<noteq> 0 then WRITE else 0))"

definition process_event :: "('k \<Rightarrow> EpollCtlOp \<Rightarrow> int \<Rightarrow> u32 \<Rightarrow> int \<times> 'k) \<Rightarrow> ev_data \<times> u32
    \<Rightarrow> ('c, 'k) IOManager \<Rightarrow> io_error + ('c, 'k) IOManager" where
  "process_event ctl e m = (case fst e of
     TickleFd \<Rightarrow> Inr m
   | FdPtr i \<Rightarrow> (case ctx_at (m_fdContexts m) (int i) of
       Inl x \<Rightarrow> Inl x
     | Inr c \<Rightarrow>
        (let re = real_events (snd e) (fc_events c) in
         if fc_events c AND re = NONE then Inr m
         else let left_events = fc_events c AND NOT re;
                  op = (if left_events \<noteq> 0 then EPOLL_CTL_MOD else EPOLL_CTL_DEL)
           in (case ctl (io_epoll m) op (int (fc_fd c)) (EPOLLET OR left_events) of (rt, k) \<Rightarrow>
                let m1 = m\<lparr>io_epoll := k\<rparr> in
                if rt \<noteq> 0 then Inr m1
                else (case trigger_if (re AND READ \<noteq> 0) (int i) READ m1 of
                    Inl x \<Rightarrow> Inl x
                  | Inr m2 \<Rightarrow> trigger_if (re AND WRITE \<noteq> 0) (int i) WRITE m2)))))"

fun process_events :: "('k \<Rightarrow> EpollCtlOp \<Rightarrow> int \<Rightarrow> u32 \<Rightarrow> int \<times> 'k) \<Rightarrow> (ev_data \<times> u32) list
    \<Rightarrow> ('c, 'k) IOManager \<Rightarrow> io_error + ('c, 'k) IOManager" where
  "process_events ctl [] m = Inr m"
| "process_events ctl (e # es) m = (case process_event ctl e m of
     Inl x \<Rightarrow> Inl x | Inr m' \<Rightarrow> process_events ctl es m')"

text \<open>
  One turn of the loop: \<open>None\<close> if it ends, otherwise the timeout it waits with and the state after
  the turn.  A failed \<open>epoll_wait\<close> returns \<open>-1\<close>, which the loop over the events takes for the
  greatest unsigned number: it leaves the array of 256 events.  \<open>na\<close> is the address of the timer
  that \<open>listExpiredCb\<close> makes for its search.
\<close>

definition idle_turn :: "('k \<Rightarrow> EpollCtlOp \<Rightarrow> int \<Rightarrow> u32 \<Rightarrow> int \<times> 'k) \<Rightarrow> u64 \<Rightarrow> u64 \<Rightarrow> addr \<Rightarrow> wait_result
    \<Rightarrow> ('c, 'k) IOManager \<Rightarrow> (int \<times> (io_error + ('c, 'k) IOManager)) option" where
  "idle_turn ctl now1 now2 na res m = (case io_stopping now1 m of (stop_now, next_timeout, m1) \<Rightarrow>
     if stop_now then None
     else Some (wait_timeout next_timeout,
       (case listExpiredCb now2 na (io_timers m1) of (cbs, tm) \<Rightarrow>
          let m2 = m1\<lparr>io_timers := tm\<rparr>;
              tasks = map (\<lambda>cb. \<lparr>ft_fiber = None, ft_cb = cb, ft_thread = -1\<rparr>) cbs;
              m3 = (if cbs \<noteq> [] then m2\<lparr>schedulers := (schedulers m2)(io_self m2 :=
                       schedule_range tasks (schedulers m2 (io_self m2)))\<rparr> else m2)
          in case res of
               Events evs \<Rightarrow> process_events ctl evs m3
             | _ \<Rightarrow> Inl BadIndex)))"

end
