(* ===== verification/IO_Manager_Correct.thy ===== *)
theory IO_Manager_Correct
  imports IO_Manager
begin

text \<open>
  The invariant of the event contexts, their agreement with the kernel's interest list, what the
  operations deliver, and behaviours of the idle loop that are not what it means to do.
\<close>

section \<open>Bits of events\<close>

lemmas ev_defs = NONE_def READ_def WRITE_def EPOLLIN_def EPOLLOUT_def EPOLLERR_def EPOLLHUP_def

definition ev_sets :: "u32 set" where
  "ev_sets = {0, 1, 4, 5}"

lemma ev_bits:
  "(0 :: u32) AND NOT 1 = 0" "(1 :: u32) AND NOT 1 = 0" "(4 :: u32) AND NOT 1 = 4" "(5 :: u32) AND NOT 1 = 4"
  "(0 :: u32) AND NOT 4 = 0" "(1 :: u32) AND NOT 4 = 1" "(4 :: u32) AND NOT 4 = 0" "(5 :: u32) AND NOT 4 = 1"
  "(0 :: u32) AND NOT 5 = 0" "(1 :: u32) AND NOT 5 = 0" "(4 :: u32) AND NOT 5 = 0" "(5 :: u32) AND NOT 5 = 0"
  by simp_all

lemma ev_set_ops:
  assumes "e \<in> ev_sets" "r \<in> ev_sets"
  shows "e AND NOT r \<in> ev_sets" "e OR r \<in> ev_sets" "e AND r \<in> ev_sets"
  using assms by (auto simp: ev_sets_def ev_bits)

lemma real_events_set: "real_events ev reg \<in> ev_sets"
  by (auto simp: real_events_def ev_sets_def ev_defs Let_def)

section \<open>Invariant\<close>

definition slot_ok :: "bool \<Rightarrow> 'c EventContext \<Rightarrow> bool" where
  "slot_ok b x \<longleftrightarrow> (if b then ec_scheduler x \<noteq> None \<and> (ec_fiber x = None) \<noteq> (ec_cb x = None)
     else x = new_EventContext)"

definition ctx_inv :: "'c FdContext \<Rightarrow> bool" where
  "ctx_inv c \<longleftrightarrow> fc_events c \<in> ev_sets \<and> slot_ok (fc_events c AND READ \<noteq> 0) (fc_read c)
     \<and> slot_ok (fc_events c AND WRITE \<noteq> 0) (fc_write c)"

definition ev_count :: "'c FdContext \<Rightarrow> int" where
  "ev_count c = (if fc_events c AND READ \<noteq> 0 then 1 else 0) + (if fc_events c AND WRITE \<noteq> 0 then 1 else 0)"

definition io_inv :: "('c, 'k) IOManager \<Rightarrow> bool" where
  "io_inv m \<longleftrightarrow> 32 \<le> length (m_fdContexts m)
     \<and> (\<forall>i < length (m_fdContexts m). ctx_inv (m_fdContexts m ! i) \<and> fc_fd (m_fdContexts m ! i) = i)
     \<and> m_pendingEventCount m = sum_list (map ev_count (m_fdContexts m))"

lemma sum_list_map_update:
  fixes f :: "'a \<Rightarrow> int"
  shows "i < length xs \<Longrightarrow> sum_list (map f (xs[i := y])) = sum_list (map f xs) - f (xs ! i) + f y"
proof (induction xs arbitrary: i)
  case (Cons x xs)
  then show ?case by (cases i) simp_all
qed simp

lemma io_inv_ctx:
  assumes "io_inv m" "0 \<le> fd" "nat fd < length (m_fdContexts m)"
  shows "ctx_at (m_fdContexts m) fd = Inr (m_fdContexts m ! nat fd)" "ctx_inv (m_fdContexts m ! nat fd)"
    "fc_fd (m_fdContexts m ! nat fd) = nat fd"
  using assms by (auto simp: io_inv_def ctx_at_def)

lemma io_inv_put:
  assumes "io_inv m" "0 \<le> fd" "nat fd < length (m_fdContexts m)" "ctx_inv c" "fc_fd c = nat fd"
    "n = m_pendingEventCount m + ev_count c - ev_count (m_fdContexts m ! nat fd)"
  shows "io_inv (put_ctx fd c (m\<lparr>m_pendingEventCount := n, io_epoll := k, schedulers := ss\<rparr>))"
  using assms by (auto simp: io_inv_def sum_list_map_update nth_list_update)

lemma io_inv_resize:
  assumes "io_inv m" "length (m_fdContexts m) \<le> n"
  shows "io_inv (m\<lparr>m_fdContexts := contextResize n (m_fdContexts m)\<rparr>)"
proof -
  have new: "ctx_inv (new_FdContext i)" "ev_count (new_FdContext i) = 0" "fc_fd (new_FdContext i) = i" for i
    by (simp_all add: ctx_inv_def new_FdContext_def ev_defs slot_ok_def ev_count_def ev_sets_def)
  have "sum_list (map ev_count (map new_FdContext js)) = 0" for js by (induction js) (simp_all add: new)
  then show ?thesis using assms
    by (auto simp: io_inv_def contextResize_def nth_append new simp del: map_map)
qed

lemma io_inv_epoll [simp]: "io_inv (m\<lparr>io_epoll := k\<rparr>) \<longleftrightarrow> io_inv m"
  "io_inv (m\<lparr>schedulers := ss\<rparr>) \<longleftrightarrow> io_inv m" "io_inv (m\<lparr>io_timers := t\<rparr>) \<longleftrightarrow> io_inv m"
  by (simp_all add: io_inv_def)

lemma io_inv_new: "io_inv (new_IOManager k tfd now self ss)"
proof -
  have new: "ctx_inv (new_FdContext i)" "ev_count (new_FdContext i) = 0" "fc_fd (new_FdContext i) = i" for i
    by (simp_all add: ctx_inv_def new_FdContext_def ev_defs slot_ok_def ev_count_def ev_sets_def)
  have "sum_list (map ev_count (map new_FdContext js)) = 0" for js by (induction js) (simp_all add: new)
  then show ?thesis by (simp add: io_inv_def new_IOManager_def contextResize_def new del: map_map upt_rec_numeral)
qed

section \<open>Triggering\<close>

definition slot :: "u32 \<Rightarrow> 'c FdContext \<Rightarrow> 'c EventContext" where
  "slot event c = (if event = READ then fc_read c else fc_write c)"

definition task_of :: "'c EventContext \<Rightarrow> 'c FiberAndThread" where
  "task_of x = \<lparr>ft_fiber = ec_fiber x, ft_cb = ec_cb x, ft_thread = -1\<rparr>"

definition clear_event :: "u32 \<Rightarrow> 'c FdContext \<Rightarrow> 'c FdContext" where
  "clear_event event c = setContext event new_EventContext (c\<lparr>fc_events := fc_events c AND NOT event\<rparr>)"

text \<open>The scheduler a registered event belongs to gets its fiber or callback.\<close>

definition deliver :: "'c EventContext \<Rightarrow> (nat \<Rightarrow> 'c Scheduler) \<Rightarrow> nat \<Rightarrow> 'c Scheduler" where
  "deliver x ss = ss(the (ec_scheduler x) := schedule (task_of x) (ss (the (ec_scheduler x))))"

lemma fc_events_clear [simp]: "fc_events (clear_event event c) = fc_events c AND NOT event"
  by (simp add: clear_event_def setContext_def)

lemma clear_event_inv:
  assumes "ctx_inv c" "event \<in> {READ, WRITE}"
  shows "ctx_inv (clear_event event c)" "fc_fd (clear_event event c) = fc_fd c"
    "fc_events c AND event \<noteq> 0 \<Longrightarrow> ev_count (clear_event event c) = ev_count c - 1"
    "fc_events (clear_event event c) = fc_events c AND NOT event"
    "slot (READ + WRITE - event) (clear_event event c) = slot (READ + WRITE - event) c"
proof -
  have e: "fc_events c = 0 \<or> fc_events c = 1 \<or> fc_events c = 4 \<or> fc_events c = 5" "event = 1 \<or> event = 4"
    using assms by (auto simp: ctx_inv_def ev_sets_def ev_defs)
  have new: "slot_ok False new_EventContext" by (simp add: slot_ok_def)
  from e assms(1) new show "ctx_inv (clear_event event c)"
    by (elim disjE) (simp_all add: ctx_inv_def clear_event_def setContext_def ev_sets_def ev_defs ev_bits)
  from e show "fc_events c AND event \<noteq> 0 \<Longrightarrow> ev_count (clear_event event c) = ev_count c - 1"
    by (elim disjE) (simp_all add: ev_count_def clear_event_def setContext_def ev_defs ev_bits)
  from e(2) show "slot (READ + WRITE - event) (clear_event event c) = slot (READ + WRITE - event) c"
    by (elim disjE) (simp_all add: slot_def clear_event_def setContext_def ev_defs)
qed (simp_all add: clear_event_def setContext_def)

lemma slot_ok_registered:
  assumes "ctx_inv c" "event \<in> {READ, WRITE}" "fc_events c AND event \<noteq> 0"
  shows "slot_ok True (slot event c)"
  using assms by (auto simp: ctx_inv_def slot_def ev_defs)

lemma slot_ok_free:
  assumes "ctx_inv c" "event \<in> {READ, WRITE}" "fc_events c AND event = 0"
  shows "slot event c = new_EventContext"
  using assms by (auto simp: ctx_inv_def slot_def ev_defs slot_ok_def)

lemma getContext_slot: "event \<in> {READ, WRITE} \<Longrightarrow> getContext event (c\<lparr>fc_events := e\<rparr>) = Inr (slot event c)"
  by (auto simp: getContext_def slot_def ev_defs)

lemma triggerEvent_ok:
  assumes "ctx_inv c" "event \<in> {READ, WRITE}" "fc_events c AND event \<noteq> 0"
  shows "triggerEvent event c ss = Inr (clear_event event c, deliver (slot event c) ss)"
proof -
  from slot_ok_registered [OF assms] obtain n where
    x: "ec_scheduler (slot event c) = Some n" "(ec_fiber (slot event c) = None) \<noteq> (ec_cb (slot event c) = None)"
    by (auto simp: slot_ok_def)
  let ?x = "slot event c"
  have "?x\<lparr>ec_cb := None, ec_scheduler := None\<rparr> = new_EventContext" if "ec_fiber ?x = None"
    using that by (simp add: new_EventContext_def)
  moreover have "?x\<lparr>ec_fiber := None, ec_scheduler := None\<rparr> = new_EventContext" if "ec_cb ?x = None"
    using that by (simp add: new_EventContext_def)
  ultimately show ?thesis
    using assms(2,3) x by (auto simp: triggerEvent_def getContext_slot Let_def clear_event_def deliver_def task_of_def)
qed

lemma trigger_at_ok:
  assumes "io_inv m" "0 \<le> fd" "nat fd < length (m_fdContexts m)" "event \<in> {READ, WRITE}"
    "fc_events (m_fdContexts m ! nat fd) AND event \<noteq> 0"
  defines "c \<equiv> m_fdContexts m ! nat fd"
  shows "trigger_at fd event m = Inr (put_ctx fd (clear_event event c)
      (m\<lparr>m_pendingEventCount := m_pendingEventCount m - 1, schedulers := deliver (slot event c) (schedulers m)\<rparr>))"
    "io_inv (put_ctx fd (clear_event event c)
      (m\<lparr>m_pendingEventCount := m_pendingEventCount m - 1, schedulers := deliver (slot event c) (schedulers m)\<rparr>))"
proof -
  note ctx = io_inv_ctx [OF assms(1-3), folded c_def]
  show "trigger_at fd event m = Inr (put_ctx fd (clear_event event c)
      (m\<lparr>m_pendingEventCount := m_pendingEventCount m - 1, schedulers := deliver (slot event c) (schedulers m)\<rparr>))"
    using ctx assms(5) triggerEvent_ok [OF ctx(2) assms(4)] by (simp add: trigger_at_def c_def)
  have "io_inv (put_ctx fd (clear_event event c) (m\<lparr>m_pendingEventCount := m_pendingEventCount m - 1,
      io_epoll := io_epoll m, schedulers := deliver (slot event c) (schedulers m)\<rparr>))"
    by (rule io_inv_put)
      (use assms(1-5) ctx clear_event_inv [OF ctx(2) assms(4)] in \<open>simp_all add: c_def\<close>)
  then show "io_inv (put_ctx fd (clear_event event c)
      (m\<lparr>m_pendingEventCount := m_pendingEventCount m - 1, schedulers := deliver (slot event c) (schedulers m)\<rparr>))"
    by simp
qed

lemma trigger_if_ok:
  assumes "io_inv m" "0 \<le> fd" "nat fd < length (m_fdContexts m)" "event \<in> {READ, WRITE}"
    "b \<Longrightarrow> fc_events (m_fdContexts m ! nat fd) AND event \<noteq> 0"
  obtains m' where "trigger_if b fd event m = Inr m'" "io_inv m'" "io_epoll m' = io_epoll m"
    "m_tickleFd m' = m_tickleFd m" "length (m_fdContexts m') = length (m_fdContexts m)"
    "\<And>j. j \<noteq> nat fd \<Longrightarrow> m_fdContexts m' ! j = m_fdContexts m ! j"
    "m_fdContexts m' ! nat fd = (if b then clear_event event (m_fdContexts m ! nat fd) else m_fdContexts m ! nat fd)"
    "schedulers m' = (if b then deliver (slot event (m_fdContexts m ! nat fd)) (schedulers m) else schedulers m)"
proof (cases b)
  case True
  note t = trigger_at_ok [OF assms(1-4) assms(5) [OF True]]
  show ?thesis
    by (rule that [OF _ t(2)]) (use True t(1) assms(3) in \<open>simp_all add: trigger_if_def\<close>)
next
  case False
  with that [of m] assms(1) show ?thesis by (simp add: trigger_if_def)
qed

section \<open>The kernel\<close>

text \<open>
  The documented effect of \<open>epoll_ctl\<close> on the interest list: a call that fails leaves it alone, one
  that succeeds enters the events of the descriptor or removes it.
\<close>

definition epoll_spec :: "('k \<Rightarrow> EpollCtlOp \<Rightarrow> int \<Rightarrow> u32 \<Rightarrow> int \<times> 'k) \<Rightarrow> ('k \<Rightarrow> int \<Rightarrow> u32 option) \<Rightarrow> bool" where
  "epoll_spec ctl interest \<longleftrightarrow> (\<forall>k op fd ev. interest (snd (ctl k op fd ev)) =
     (if fst (ctl k op fd ev) \<noteq> 0 then interest k
      else (interest k)(fd := if op = EPOLL_CTL_DEL then None else Some ev)))"

lemma epoll_specD:
  assumes "epoll_spec ctl interest" "ctl k op fd ev = (rt, k')"
  shows "interest k' = (if rt \<noteq> 0 then interest k
      else (interest k)(fd := if op = EPOLL_CTL_DEL then None else Some ev))"
  using assms unfolding epoll_spec_def by (metis fst_conv snd_conv)

text \<open>The interest list holds exactly the descriptors with registered events, edge-triggered.\<close>

definition wanted :: "u32 \<Rightarrow> u32 option" where
  "wanted e = (if e \<noteq> 0 then Some (EPOLLET OR e) else None)"

definition agrees :: "('k \<Rightarrow> int \<Rightarrow> u32 option) \<Rightarrow> ('c, 'k) IOManager \<Rightarrow> bool" where
  "agrees interest m \<longleftrightarrow> (\<forall>i. int i \<noteq> m_tickleFd m \<longrightarrow> interest (io_epoll m) (int i)
     = (if i < length (m_fdContexts m) then wanted (fc_events (m_fdContexts m ! i)) else None))"

lemma epoll_after:
  assumes "epoll_spec ctl interest" "ctl k (if e \<noteq> 0 then EPOLL_CTL_MOD else EPOLL_CTL_DEL) fd ev = (0, k')"
    "ev = EPOLLET OR e"
  shows "interest k' = (interest k)(fd := wanted e)"
  using epoll_specD [OF assms(1,2)] assms(3) by (simp add: wanted_def)

lemma agreesI:
  assumes "agrees interest m" "0 \<le> fd" "nat fd < length (m_fdContexts m)" "m_tickleFd m' = m_tickleFd m"
    "length (m_fdContexts m') = length (m_fdContexts m)"
    "\<And>j. j \<noteq> nat fd \<Longrightarrow> fc_events (m_fdContexts m' ! j) = fc_events (m_fdContexts m ! j)"
    "interest (io_epoll m') = (interest (io_epoll m))(fd := wanted (fc_events (m_fdContexts m' ! nat fd)))"
  shows "agrees interest m'"
  unfolding agrees_def
proof (intro allI impI)
  fix i assume i: "int i \<noteq> m_tickleFd m'"
  show "interest (io_epoll m') (int i)
     = (if i < length (m_fdContexts m') then wanted (fc_events (m_fdContexts m' ! i)) else None)"
    using assms i by (cases "i = nat fd") (auto simp: agrees_def)
qed

lemma agrees_same:
  "\<lbrakk>agrees interest m; m_tickleFd m' = m_tickleFd m; m_fdContexts m' = m_fdContexts m;
    interest (io_epoll m') = interest (io_epoll m)\<rbrakk> \<Longrightarrow> agrees interest m'"
  by (simp add: agrees_def)

lemma agrees_resize:
  assumes "agrees interest m" "length (m_fdContexts m) \<le> n"
  shows "agrees interest (m\<lparr>m_fdContexts := contextResize n (m_fdContexts m)\<rparr>)"
  using assms by (auto simp: agrees_def contextResize_def nth_append new_FdContext_def wanted_def NONE_def)

definition io_good :: "('k \<Rightarrow> int \<Rightarrow> u32 option) \<Rightarrow> ('c, 'k) IOManager \<Rightarrow> bool" where
  "io_good interest m \<longleftrightarrow> io_inv m \<and> agrees interest m"

lemma io_good_failed:
  assumes "io_good interest m" "epoll_spec ctl interest" "ctl (io_epoll m) op fd ev = (rt, k)" "rt \<noteq> 0"
  shows "io_good interest (m\<lparr>io_epoll := k\<rparr>)"
  using assms epoll_specD [OF assms(2,3)] by (auto simp: io_good_def agrees_def)

section \<open>Every operation\<close>

lemma ev_nonzero: "e \<in> ev_sets \<Longrightarrow> event \<in> {READ, WRITE} \<Longrightarrow> e OR event \<noteq> 0"
  by (auto simp: ev_sets_def ev_defs)

lemma addEvent_ok:
  assumes "io_good interest m" "epoll_spec ctl interest" "0 \<le> fd" "event \<in> {READ, WRITE}"
    "\<not> (nat fd < length (m_fdContexts m) \<and> fc_events (m_fdContexts m ! nat fd) AND event \<noteq> 0)"
    "cb \<noteq> None \<or> st = RUNNING"
  shows "\<exists>rt m'. addEvent ctl (Some n) (f, st) fd event cb m = Inr (rt, m') \<and> io_good interest m'
    \<and> schedulers m' = schedulers m \<and> nat fd < length (m_fdContexts m')
    \<and> (rt = 0 \<longrightarrow> fc_events (m_fdContexts m' ! nat fd) AND event \<noteq> 0
        \<and> slot event (m_fdContexts m' ! nat fd)
          = \<lparr>ec_scheduler = Some n, ec_fiber = (if cb = None then Some f else None), ec_cb = cb\<rparr>)"
proof -
  define m1 where "m1 = (if fd < int (length (m_fdContexts m)) then m
      else m\<lparr>m_fdContexts := contextResize (nat (fd * 3 div 2)) (m_fdContexts m)\<rparr>)"
  have len: "32 \<le> length (m_fdContexts m)" using assms(1) by (simp add: io_good_def io_inv_def)
  have sm: "schedulers m1 = schedulers m" by (simp add: m1_def)
  have m1: "io_good interest m1"
    using assms(1,3) len by (auto simp: m1_def io_good_def intro!: io_inv_resize agrees_resize)
  have inr: "nat fd < length (m_fdContexts m1)"
    using assms(3) len by (auto simp: m1_def contextResize_def)
  let ?c = "m_fdContexts m1 ! nat fd"
  have io: "io_inv m1" using m1 by (simp add: io_good_def)
  note ctx = io_inv_ctx [OF io assms(3) inr]
  have free: "fc_events ?c AND event = 0"
    using assms(3,5) inr len
    by (auto simp: m1_def contextResize_def nth_append new_FdContext_def NONE_def split: if_splits)
  note sl = slot_ok_free [OF ctx(2) assms(4) free]
  obtain rt k where k: "ctl (io_epoll m1) (if fc_events ?c \<noteq> 0 then EPOLL_CTL_MOD else EPOLL_CTL_ADD) fd
      (EPOLLET OR fc_events ?c OR event) = (rt, k)" by fastforce
  show ?thesis
  proof (cases "rt = 0")
    case False
    with k have "addEvent ctl (Some n) (f, st) fd event cb m = Inr (-1, m1\<lparr>io_epoll := k\<rparr>)"
      by (simp add: addEvent_def m1_def [symmetric] ctx(1) free Let_def)
    with io_good_failed [OF m1 assms(2) k False] inr sm show ?thesis by simp
  next
    case True
    let ?x = "\<lparr>ec_scheduler = Some n, ec_fiber = (if cb = None then Some f else None), ec_cb = cb\<rparr>"
    let ?c1 = "setContext event ?x (?c\<lparr>fc_events := fc_events ?c OR event\<rparr>)"
    let ?m' = "put_ctx fd ?c1 (m1\<lparr>m_pendingEventCount := m_pendingEventCount m1 + 1, io_epoll := k, schedulers := schedulers m1\<rparr>)"
    have add: "addEvent ctl (Some n) (f, st) fd event cb m = Inr (0, ?m')"
      using True k assms(6)
      by (auto simp: addEvent_def m1_def [symmetric] ctx(1) free Let_def getContext_slot [OF assms(4)] sl new_EventContext_def)
    have e: "fc_events ?c = 0 \<or> fc_events ?c = 1 \<or> fc_events ?c = 4 \<or> fc_events ?c = 5" "event = 1 \<or> event = 4"
      using ctx(2) assms(4) by (auto simp: ctx_inv_def ev_sets_def ev_defs)
    have x: "slot_ok True ?x" by (simp add: slot_ok_def)
    from e ctx(2) x free have "ctx_inv ?c1"
      by (elim disjE) (simp_all add: ctx_inv_def setContext_def ev_sets_def ev_defs)
    moreover from e free have "ev_count ?c1 = ev_count ?c + 1"
      by (elim disjE) (simp_all add: ev_count_def setContext_def ev_defs)
    moreover have "fc_fd ?c1 = nat fd" using ctx(3) by (simp add: setContext_def)
    ultimately have "io_inv ?m'" using io assms(3) inr by (intro io_inv_put) simp_all
    moreover have "agrees interest ?m'"
    proof (rule agreesI [of interest m1 fd])
      show "interest (io_epoll ?m') = (interest (io_epoll m1))(fd := wanted (fc_events (m_fdContexts ?m' ! nat fd)))"
      proof -
        have "fc_events ?c1 = fc_events ?c OR event" by (simp add: setContext_def)
        moreover have "fc_events ?c OR event \<noteq> 0" using ev_nonzero assms(4) ctx(2) by (auto simp: ctx_inv_def)
        ultimately have "wanted (fc_events ?c1) = Some (EPOLLET OR fc_events ?c OR event)"
          by (simp add: wanted_def or.assoc)
        with epoll_specD [OF assms(2) k] True inr show ?thesis by simp
      qed
    qed (use m1 assms(3) inr in \<open>simp_all add: io_good_def\<close>)
    moreover have "slot event ?c1 = ?x" using assms(4) by (auto simp: slot_def setContext_def ev_defs)
    moreover have "fc_events ?c1 AND event \<noteq> 0" using e by (elim disjE) (simp_all add: setContext_def ev_defs)
    ultimately show ?thesis using sm inr unfolding add by (simp add: io_good_def)
  qed
qed

lemma left_events:
  assumes "e \<in> ev_sets" "r \<in> ev_sets" "r AND NOT e = 0"
  defines "e1 \<equiv> (if r AND READ \<noteq> 0 then e AND NOT READ else e)"
  shows "(if r AND WRITE \<noteq> 0 then e1 AND NOT WRITE else e1) = e AND NOT r"
    "r AND READ \<noteq> 0 \<Longrightarrow> e AND READ \<noteq> 0" "r AND WRITE \<noteq> 0 \<Longrightarrow> e1 AND WRITE \<noteq> 0"
proof -
  have "e = 0 \<or> e = 1 \<or> e = 4 \<or> e = 5" "r = 0 \<or> r = 1 \<or> r = 4 \<or> r = 5"
    using assms(1,2) by (auto simp: ev_sets_def)
  then show "(if r AND WRITE \<noteq> 0 then e1 AND NOT WRITE else e1) = e AND NOT r"
    "r AND READ \<noteq> 0 \<Longrightarrow> e AND READ \<noteq> 0" "r AND WRITE \<noteq> 0 \<Longrightarrow> e1 AND WRITE \<noteq> 0"
    unfolding e1_def using assms(3) by (elim disjE; simp add: ev_defs ev_bits)+
qed

text \<open>What is handed out when the events \<open>r\<close> of a descriptor are triggered: reading, then writing.\<close>

definition deliver_all :: "u32 \<Rightarrow> 'c FdContext \<Rightarrow> (nat \<Rightarrow> 'c Scheduler) \<Rightarrow> nat \<Rightarrow> 'c Scheduler" where
  "deliver_all r c ss =
    (let ss1 = (if r AND READ \<noteq> 0 then deliver (fc_read c) ss else ss)
     in if r AND WRITE \<noteq> 0 then deliver (fc_write c) ss1 else ss1)"

lemma trigger_both:
  assumes "io_inv m" "0 \<le> fd" "nat fd < length (m_fdContexts m)" "r \<in> ev_sets"
    "r AND NOT (fc_events (m_fdContexts m ! nat fd)) = 0"
  obtains m2 m3 where "trigger_if (r AND READ \<noteq> 0) fd READ m = Inr m2" "trigger_if (r AND WRITE \<noteq> 0) fd WRITE m2 = Inr m3"
    "io_inv m3" "io_epoll m3 = io_epoll m" "m_tickleFd m3 = m_tickleFd m"
    "length (m_fdContexts m3) = length (m_fdContexts m)"
    "\<And>j. j \<noteq> nat fd \<Longrightarrow> m_fdContexts m3 ! j = m_fdContexts m ! j"
    "fc_events (m_fdContexts m3 ! nat fd) = fc_events (m_fdContexts m ! nat fd) AND NOT r"
    "schedulers m3 = deliver_all r (m_fdContexts m ! nat fd) (schedulers m)"
proof -
  let ?c = "m_fdContexts m ! nat fd"
  note ctx = io_inv_ctx [OF assms(1-3)]
  have e: "fc_events ?c \<in> ev_sets" using ctx(2) by (simp add: ctx_inv_def)
  note left = left_events [OF e assms(4,5)]
  have ne: "READ \<in> {READ, WRITE}" "WRITE \<in> {READ, WRITE}" "WRITE \<noteq> READ" by (simp_all add: ev_defs)
  obtain m2 where m2: "trigger_if (r AND READ \<noteq> 0) fd READ m = Inr m2" "io_inv m2" "io_epoll m2 = io_epoll m"
    "m_tickleFd m2 = m_tickleFd m" "length (m_fdContexts m2) = length (m_fdContexts m)"
    "\<And>j. j \<noteq> nat fd \<Longrightarrow> m_fdContexts m2 ! j = m_fdContexts m ! j"
    "m_fdContexts m2 ! nat fd = (if r AND READ \<noteq> 0 then clear_event READ ?c else ?c)"
    "schedulers m2 = (if r AND READ \<noteq> 0 then deliver (slot READ ?c) (schedulers m) else schedulers m)"
    by (rule trigger_if_ok [OF assms(1-3) ne(1), of "r AND READ \<noteq> 0"], rule left(2), assumption, rule that)
  let ?c2 = "m_fdContexts m2 ! nat fd"
  have c2: "fc_events ?c2 = (if r AND READ \<noteq> 0 then fc_events ?c AND NOT READ else fc_events ?c)"
    "fc_write ?c2 = fc_write ?c"
    unfolding m2(7) by (simp_all add: clear_event_def setContext_def)
  have w: "r AND WRITE \<noteq> 0 \<Longrightarrow> fc_events ?c2 AND WRITE \<noteq> 0" using left(3) c2 by simp
  have len2: "nat fd < length (m_fdContexts m2)" using m2(5) assms(3) by simp
  obtain m3 where m3: "trigger_if (r AND WRITE \<noteq> 0) fd WRITE m2 = Inr m3" "io_inv m3" "io_epoll m3 = io_epoll m2"
    "m_tickleFd m3 = m_tickleFd m2" "length (m_fdContexts m3) = length (m_fdContexts m2)"
    "\<And>j. j \<noteq> nat fd \<Longrightarrow> m_fdContexts m3 ! j = m_fdContexts m2 ! j"
    "m_fdContexts m3 ! nat fd = (if r AND WRITE \<noteq> 0 then clear_event WRITE ?c2 else ?c2)"
    "schedulers m3 = (if r AND WRITE \<noteq> 0 then deliver (slot WRITE ?c2) (schedulers m2) else schedulers m2)"
    by (rule trigger_if_ok [OF m2(2) assms(2) len2 ne(2), of "r AND WRITE \<noteq> 0"], rule w, assumption, rule that)
  have "fc_events (m_fdContexts m3 ! nat fd) = fc_events ?c AND NOT r"
    using left(1) c2(1) m3(7) by (cases "r AND WRITE \<noteq> 0"; cases "r AND READ \<noteq> 0") simp_all
  moreover have "schedulers m3 = deliver_all r ?c (schedulers m)"
    using m3(8) m2(8) c2(2) ne(3) by (simp add: deliver_all_def slot_def)
  ultimately show ?thesis using m2 m3 by (intro that) simp_all
qed

lemma cancelEvent_ok:
  assumes "io_good interest m" "epoll_spec ctl interest" "0 \<le> fd" "event \<in> {READ, WRITE}"
  shows "\<exists>b m'. cancelEvent ctl fd event m = Inr (b, m') \<and> io_good interest m'
    \<and> schedulers m' = (if b then deliver (slot event (m_fdContexts m ! nat fd)) (schedulers m) else schedulers m)"
proof (cases "nat fd < length (m_fdContexts m) \<and> fc_events (m_fdContexts m ! nat fd) AND event \<noteq> 0")
  case False
  have "cancelEvent ctl fd event m = Inr (False, m)"
    using False assms(3) by (auto simp: cancelEvent_def ctx_at_def)
  with assms(1) show ?thesis by auto
next
  case True
  let ?c = "m_fdContexts m ! nat fd"
  have io: "io_inv m" using assms(1) by (simp add: io_good_def)
  note ctx = io_inv_ctx [OF io assms(3) conjunct1 [OF True]]
  have fd: "fd < int (length (m_fdContexts m))" using True assms(3) by linarith
  obtain rt k where k: "ctl (io_epoll m) (if fc_events ?c AND NOT event \<noteq> 0 then EPOLL_CTL_MOD else EPOLL_CTL_DEL) fd
      ((fc_events ?c AND NOT event) OR EPOLLET) = (rt, k)" by fastforce
  let ?m1 = "m\<lparr>io_epoll := k\<rparr>"
  show ?thesis
  proof (cases "rt = 0")
    case False
    with k True fd have "cancelEvent ctl fd event m = Inr (False, ?m1)"
      by (simp add: cancelEvent_def ctx(1) Let_def not_le)
    with io_good_failed [OF assms(1,2) k False] show ?thesis by auto
  next
    case rt: True
    have c: "cancelEvent ctl fd event m = map_sum id (Pair True) (trigger_at fd event ?m1)"
      using k True fd rt by (simp add: cancelEvent_def ctx(1) Let_def not_le)
    let ?m' = "put_ctx fd (clear_event event ?c)
      (?m1\<lparr>m_pendingEventCount := m_pendingEventCount m - 1, schedulers := deliver (slot event ?c) (schedulers m)\<rparr>)"
    have t: "trigger_at fd event ?m1 = Inr ?m'" "io_inv ?m'"
      using trigger_at_ok [of ?m1 fd event] io True assms(3,4) by simp_all
    have "agrees interest ?m'"
      by (rule agreesI [of interest m fd])
        (use assms(1,3) True epoll_after [OF assms(2) k [unfolded rt] or.commute] in \<open>simp_all add: io_good_def\<close>)
    with c t show ?thesis by (auto simp: io_good_def)
  qed
qed

lemma delEvent_ok:
  assumes "io_good interest m" "epoll_spec ctl interest" "0 \<le> fd" "fd < 2 ^ 31" "event \<in> {READ, WRITE}"
  shows "\<exists>b m'. delEvent ctl fd event m = Inr (b, m') \<and> io_good interest m' \<and> schedulers m' = schedulers m"
proof (cases "nat fd < length (m_fdContexts m) \<and> fc_events (m_fdContexts m ! nat fd) AND event \<noteq> 0")
  case False
  have "delEvent ctl fd event m = Inr (False, m)"
    using False assms(3,4) by (auto simp: delEvent_def ctx_at_def)
  with assms(1) show ?thesis by auto
next
  case True
  let ?c = "m_fdContexts m ! nat fd"
  have io: "io_inv m" using assms(1) by (simp add: io_good_def)
  note ctx = io_inv_ctx [OF io assms(3) conjunct1 [OF True]]
  have fd: "\<not> int (length (m_fdContexts m)) \<le> fd mod 2 ^ 64"
  proof -
    have "fd mod 2 ^ 64 = fd" using assms(3,4) by (intro mod_pos_pos_trivial) simp_all
    then show ?thesis using True assms(3) by linarith
  qed
  obtain rt k where k: "ctl (io_epoll m) (if fc_events ?c AND NOT event \<noteq> 0 then EPOLL_CTL_MOD else EPOLL_CTL_DEL) fd
      ((fc_events ?c AND NOT event) OR EPOLLET) = (rt, k)" by fastforce
  show ?thesis
  proof (cases "rt = 0")
    case False
    with k True fd have "delEvent ctl fd event m = Inr (False, m\<lparr>io_epoll := k\<rparr>)"
      by (simp add: delEvent_def ctx(1) Let_def)
    with io_good_failed [OF assms(1,2) k False] show ?thesis by auto
  next
    case rt: True
    let ?m' = "put_ctx fd (clear_event event ?c)
      (m\<lparr>m_pendingEventCount := m_pendingEventCount m - 1, io_epoll := k, schedulers := schedulers m\<rparr>)"
    have "getContext event ?c = Inr (slot event ?c)" using getContext_slot [OF assms(5), where c = ?c and e = "fc_events ?c"] by simp
    moreover have "resetContext (slot event ?c) = new_EventContext" by (simp add: resetContext_def new_EventContext_def)
    ultimately have "delEvent ctl fd event m = Inr (True, ?m')"
      using k True fd rt by (simp add: delEvent_def ctx(1) Let_def clear_event_def)
    moreover have "io_inv ?m'"
      by (rule io_inv_put) (use io True assms(3) ctx clear_event_inv [OF ctx(2) assms(5)] in simp_all)
    moreover have "agrees interest ?m'"
      by (rule agreesI [of interest m fd])
        (use assms(1,3) True epoll_after [OF assms(2) k [unfolded rt] or.commute] in \<open>simp_all add: io_good_def\<close>)
    ultimately show ?thesis by (auto simp: io_good_def)
  qed
qed

lemma cancelAll_ok:
  assumes "io_good interest m" "epoll_spec ctl interest" "0 \<le> fd"
  shows "\<exists>b m'. cancelAll ctl fd m = Inr (b, m') \<and> io_good interest m'
    \<and> schedulers m' = (if b then deliver_all (fc_events (m_fdContexts m ! nat fd)) (m_fdContexts m ! nat fd) (schedulers m)
        else schedulers m)"
proof (cases "nat fd < length (m_fdContexts m) \<and> fc_events (m_fdContexts m ! nat fd) \<noteq> 0")
  case False
  have "cancelAll ctl fd m = Inr (False, m)"
    using False assms(3) by (auto simp: cancelAll_def ctx_at_def)
  with assms(1) show ?thesis by auto
next
  case True
  let ?c = "m_fdContexts m ! nat fd"
  have io: "io_inv m" using assms(1) by (simp add: io_good_def)
  note ctx = io_inv_ctx [OF io assms(3) conjunct1 [OF True]]
  have fd: "fd < int (length (m_fdContexts m))" using True assms(3) by linarith
  obtain rt k where k: "ctl (io_epoll m) EPOLL_CTL_DEL fd 0 = (rt, k)" by fastforce
  show ?thesis
  proof (cases "rt = 0")
    case False
    with k True fd have "cancelAll ctl fd m = Inr (False, m\<lparr>io_epoll := k\<rparr>)"
      by (simp add: cancelAll_def ctx(1) Let_def not_le)
    with io_good_failed [OF assms(1,2) k False] show ?thesis by auto
  next
    case rt: True
    let ?m1 = "m\<lparr>io_epoll := k\<rparr>"
    have e: "fc_events ?c \<in> ev_sets" using ctx(2) by (simp add: ctx_inv_def)
    obtain m2 m3 where m: "trigger_if (fc_events ?c AND READ \<noteq> 0) fd READ ?m1 = Inr m2"
      "trigger_if (fc_events ?c AND WRITE \<noteq> 0) fd WRITE m2 = Inr m3"
      "io_inv m3" "io_epoll m3 = k" "m_tickleFd m3 = m_tickleFd m"
      "length (m_fdContexts m3) = length (m_fdContexts m)"
      "\<And>j. j \<noteq> nat fd \<Longrightarrow> m_fdContexts m3 ! j = m_fdContexts m ! j"
      "fc_events (m_fdContexts m3 ! nat fd) = 0"
      "schedulers m3 = deliver_all (fc_events ?c) ?c (schedulers m)"
      using io True assms(3) e by (auto intro: trigger_both [of ?m1 fd "fc_events ?c"])
    then have "cancelAll ctl fd m = Inr (True, m3)"
      using k True fd rt by (simp add: cancelAll_def ctx(1) Let_def not_le)
    moreover have "agrees interest m3"
      by (rule agreesI [of interest m fd])
        (use assms(1,3) True rt epoll_specD [OF assms(2) k] m in \<open>simp_all add: io_good_def wanted_def\<close>)
    ultimately show ?thesis using m(3,9) by (auto simp: io_good_def)
  qed
qed

lemma process_event_ok:
  fixes ev :: u32
  assumes "io_good interest m" "epoll_spec ctl interest" "i < length (m_fdContexts m)"
  defines "c \<equiv> m_fdContexts m ! i"
  defines "r \<equiv> real_events ev (fc_events c)"
  assumes "r AND NOT (fc_events c) = 0 \<or> fc_events c AND r = 0"
  shows "\<exists>m'. process_event ctl (FdPtr i, ev) m = Inr m' \<and> io_good interest m'
    \<and> schedulers m' = (if fc_events c AND r \<noteq> 0
        \<and> fst (ctl (io_epoll m) (if fc_events c AND NOT r \<noteq> 0 then EPOLL_CTL_MOD else EPOLL_CTL_DEL) (int i)
             (EPOLLET OR (fc_events c AND NOT r))) = 0
        then deliver_all r c (schedulers m) else schedulers m)"
proof (cases "fc_events c AND r = 0")
  case True
  then have "process_event ctl (FdPtr i, ev) m = Inr m"
    using assms(3) by (simp add: process_event_def ctx_at_def c_def [symmetric] r_def [symmetric] NONE_def)
  with assms(1) True show ?thesis by simp
next
  case False
  have io: "io_inv m" using assms(1) by (simp add: io_good_def)
  have ctx: "ctx_at (m_fdContexts m) (int i) = Inr c" "ctx_inv c" "fc_fd c = i"
    using io_inv_ctx [OF io, of "int i"] assms(3) by (simp_all add: c_def)
  obtain rt k where k: "ctl (io_epoll m) (if fc_events c AND NOT r \<noteq> 0 then EPOLL_CTL_MOD else EPOLL_CTL_DEL) (int i)
      (EPOLLET OR (fc_events c AND NOT r)) = (rt, k)" by fastforce
  show ?thesis
  proof (cases "rt = 0")
    case rt: False
    with k False have "process_event ctl (FdPtr i, ev) m = Inr (m\<lparr>io_epoll := k\<rparr>)"
      by (simp add: process_event_def ctx r_def [symmetric] NONE_def Let_def)
    with io_good_failed [OF assms(1,2) k rt] k rt show ?thesis by simp
  next
    case rt: True
    let ?m1 = "m\<lparr>io_epoll := k\<rparr>"
    have r: "r \<in> ev_sets" "r AND NOT (fc_events c) = 0"
      using real_events_set assms(6) False by (auto simp: r_def)
    obtain m2 m3 where m: "trigger_if (r AND READ \<noteq> 0) (int i) READ ?m1 = Inr m2"
      "trigger_if (r AND WRITE \<noteq> 0) (int i) WRITE m2 = Inr m3"
      "io_inv m3" "io_epoll m3 = k" "m_tickleFd m3 = m_tickleFd m"
      "length (m_fdContexts m3) = length (m_fdContexts m)"
      "\<And>j. j \<noteq> i \<Longrightarrow> m_fdContexts m3 ! j = m_fdContexts m ! j"
      "fc_events (m_fdContexts m3 ! i) = fc_events c AND NOT r"
      "schedulers m3 = deliver_all r c (schedulers m)"
      using io assms(3) r by (auto simp: c_def intro: trigger_both [of ?m1 "int i" r])
    then have "process_event ctl (FdPtr i, ev) m = Inr m3"
      using k rt False by (simp add: process_event_def ctx r_def [symmetric] NONE_def Let_def)
    moreover have "agrees interest m3"
      by (rule agreesI [of interest m "int i"])
        (use assms(1,3) epoll_after [OF assms(2) k [unfolded rt] refl] m in \<open>simp_all add: io_good_def\<close>)
    ultimately show ?thesis using m(3,9) False k rt by (simp add: io_good_def)
  qed
qed

section \<open>Properties\<close>

text \<open>
  C12.  With the documented \<open>epoll_ctl\<close>, and a descriptor that is not negative: every operation of
  the manager succeeds and leaves the contexts consistent.  An event is registered exactly when
  its slot holds a scheduler and a fiber or a callback; the pending count is the number of
  registered events; and the kernel's interest list holds exactly the registered events.  An
  event may be added when it is not registered yet, by a running fiber or with a callback; what
  \<open>epoll_wait\<close> reports may be processed when it names registered events only, or none.
\<close>

theorem io_contexts_invariant:
  assumes "epoll_spec ctl interest" "io_inv m" "agrees interest m" "event \<in> {READ, WRITE}" "0 \<le> fd" "fd < 2 ^ 31"
  shows "(\<not> (nat fd < length (m_fdContexts m) \<and> fc_events (m_fdContexts m ! nat fd) AND event \<noteq> 0) \<and> (cb \<noteq> None \<or> st = RUNNING)
      \<longrightarrow> (\<exists>rt m'. addEvent ctl (Some n) (f, st) fd event cb m = Inr (rt, m') \<and> io_inv m' \<and> agrees interest m'))
    \<and> (\<exists>b m'. delEvent ctl fd event m = Inr (b, m') \<and> io_inv m' \<and> agrees interest m')
    \<and> (\<exists>b m'. cancelEvent ctl fd event m = Inr (b, m') \<and> io_inv m' \<and> agrees interest m')
    \<and> (\<exists>b m'. cancelAll ctl fd m = Inr (b, m') \<and> io_inv m' \<and> agrees interest m')
    \<and> (i < length (m_fdContexts m)
         \<and> (let e = fc_events (m_fdContexts m ! i); r = real_events ev e in r AND NOT e = 0 \<or> e AND r = 0)
      \<longrightarrow> (\<exists>m'. process_event ctl (FdPtr i, ev) m = Inr m' \<and> io_inv m' \<and> agrees interest m'))"
proof (intro conjI)
  have good: "io_good interest m" using assms(2,3) by (simp add: io_good_def)
  show "\<not> (nat fd < length (m_fdContexts m) \<and> fc_events (m_fdContexts m ! nat fd) AND event \<noteq> 0) \<and> (cb \<noteq> None \<or> st = RUNNING)
      \<longrightarrow> (\<exists>rt m'. addEvent ctl (Some n) (f, st) fd event cb m = Inr (rt, m') \<and> io_inv m' \<and> agrees interest m')"
    using addEvent_ok [OF good assms(1,5,4), of cb st n f] by (auto simp: io_good_def)
  show "\<exists>b m'. delEvent ctl fd event m = Inr (b, m') \<and> io_inv m' \<and> agrees interest m'"
    using delEvent_ok [OF good assms(1,5,6,4)] by (auto simp: io_good_def)
  show "\<exists>b m'. cancelEvent ctl fd event m = Inr (b, m') \<and> io_inv m' \<and> agrees interest m'"
    using cancelEvent_ok [OF good assms(1,5,4)] by (auto simp: io_good_def)
  show "\<exists>b m'. cancelAll ctl fd m = Inr (b, m') \<and> io_inv m' \<and> agrees interest m'"
    using cancelAll_ok [OF good assms(1,5)] by (auto simp: io_good_def)
  show "i < length (m_fdContexts m) \<and> (let e = fc_events (m_fdContexts m ! i); r = real_events ev e in r AND NOT e = 0 \<or> e AND r = 0)
      \<longrightarrow> (\<exists>m'. process_event ctl (FdPtr i, ev) m = Inr m' \<and> io_inv m' \<and> agrees interest m')"
    using process_event_ok [OF good assms(1), of i ev] by (auto simp: io_good_def Let_def)
qed

text \<open>A kernel that keeps the interest list as a function and never fails.\<close>

definition table_ctl :: "(int \<Rightarrow> u32 option) \<Rightarrow> EpollCtlOp \<Rightarrow> int \<Rightarrow> u32 \<Rightarrow> int \<times> (int \<Rightarrow> u32 option)" where
  "table_ctl k op fd ev = (0, k(fd := if op = EPOLL_CTL_DEL then None else Some ev))"

lemma table_ctl_spec: "epoll_spec table_ctl id"
  by (simp add: epoll_spec_def table_ctl_def)

lemma agrees_new: "agrees id (new_IOManager (Map.empty(tfd \<mapsto> e)) tfd now self ss)"
  by (auto simp: agrees_def new_IOManager_def contextResize_def new_FdContext_def wanted_def NONE_def)

theorem io_contexts_invariant_witness:
  defines "ss \<equiv> \<lambda>_. new_Scheduler 1 \<lparr>fibers = Map.empty, s_fiber_id = 0, s_fiber_count = 0\<rparr> :: string Scheduler"
  defines "m \<equiv> new_IOManager (Map.empty(4 \<mapsto> EPOLLET OR EPOLLIN)) 4 0 0 ss"
  shows "\<exists>rt m'. addEvent table_ctl (Some 0) (7, RUNNING) 9 READ None m = Inr (rt, m')
    \<and> io_inv m' \<and> agrees id m'"
proof -
  have "\<not> (nat 9 < length (m_fdContexts m) \<and> fc_events (m_fdContexts m ! nat 9) AND READ \<noteq> 0)"
    by (simp add: m_def new_IOManager_def contextResize_def new_FdContext_def NONE_def)
  moreover have "io_inv m" "agrees id m" unfolding m_def by (rule io_inv_new, rule agrees_new)
  ultimately show ?thesis using io_contexts_invariant [OF table_ctl_spec, of m READ 9 None RUNNING 0 7] by simp
qed

text \<open>
  C14.  What is waited for is handed to the scheduler it was registered with, once: after
  \<open>addEvent\<close> has succeeded, \<open>cancelEvent\<close> schedules exactly the callback, or the fiber if there was
  none, on the scheduler of the caller; so does the report of the event by the kernel, when only
  that event is registered, unless \<open>epoll_ctl\<close> fails; and \<open>delEvent\<close> schedules nothing.
\<close>

theorem registered_event_delivered:
  assumes "epoll_spec ctl interest" "io_inv m" "agrees interest m" "event \<in> {READ, WRITE}" "0 \<le> fd" "fd < 2 ^ 31"
    and "\<not> (nat fd < length (m_fdContexts m) \<and> fc_events (m_fdContexts m ! nat fd) AND event \<noteq> 0)"
    and "cb \<noteq> None \<or> st = RUNNING"
    and "addEvent ctl (Some n) (f, st) fd event cb m = Inr (0, m1)"
  defines "task \<equiv> \<lparr>ft_fiber = (if cb = None then Some f else None), ft_cb = cb, ft_thread = -1\<rparr>"
  shows "(cancelEvent ctl fd event m1 = Inr (True, m2) \<longrightarrow> schedulers m2 = (schedulers m)(n := schedule task (schedulers m n)))
    \<and> (delEvent ctl fd event m1 = Inr (b, m2) \<longrightarrow> schedulers m2 = schedulers m)
    \<and> (fc_events (m_fdContexts m1 ! nat fd) = event \<and> real_events ev event = event
        \<and> process_event ctl (FdPtr (nat fd), ev) m1 = Inr m2
      \<longrightarrow> schedulers m2 = (if fst (ctl (io_epoll m1) EPOLL_CTL_DEL fd EPOLLET) = 0
            then (schedulers m)(n := schedule task (schedulers m n)) else schedulers m))"
proof (intro conjI)
  have good: "io_good interest m" using assms(2,3) by (simp add: io_good_def)
  let ?c = "m_fdContexts m1 ! nat fd"
  have m1: "io_good interest m1" "schedulers m1 = schedulers m" "nat fd < length (m_fdContexts m1)"
    "fc_events ?c AND event \<noteq> 0"
    "slot event ?c = \<lparr>ec_scheduler = Some n, ec_fiber = (if cb = None then Some f else None), ec_cb = cb\<rparr>"
    using addEvent_ok [OF good assms(1,5,4,7,8), of n f] assms(9) by auto
  have d: "deliver (slot event ?c) ss = ss(n := schedule task (ss n))" for ss
    by (simp add: deliver_def m1(5) task_of_def task_def)
  show "cancelEvent ctl fd event m1 = Inr (True, m2) \<longrightarrow> schedulers m2 = (schedulers m)(n := schedule task (schedulers m n))"
    using cancelEvent_ok [OF m1(1) assms(1,5,4)] m1(2) d by auto
  show "delEvent ctl fd event m1 = Inr (b, m2) \<longrightarrow> schedulers m2 = schedulers m"
    using delEvent_ok [OF m1(1) assms(1,5,6,4)] m1(2) by auto
  have da: "deliver_all event ?c ss = deliver (slot event ?c) ss" for ss
    using assms(4) by (auto simp: deliver_all_def slot_def ev_defs)
  have "event AND NOT event = 0" by simp
  moreover have "event \<noteq> 0" using assms(4) by (auto simp: ev_defs)
  ultimately show "fc_events ?c = event \<and> real_events ev event = event
        \<and> process_event ctl (FdPtr (nat fd), ev) m1 = Inr m2
      \<longrightarrow> schedulers m2 = (if fst (ctl (io_epoll m1) EPOLL_CTL_DEL fd EPOLLET) = 0
            then (schedulers m)(n := schedule task (schedulers m n)) else schedulers m)"
    using process_event_ok [OF m1(1) assms(1) m1(3), of ev] m1(2) d da assms(5) by auto
qed

text \<open>Fiber 7 waits to read from descriptor 9, and the wait is cancelled.\<close>

theorem registered_event_delivered_witness:
  defines "ss \<equiv> \<lambda>_. new_Scheduler 1 \<lparr>fibers = Map.empty, s_fiber_id = 0, s_fiber_count = 0\<rparr> :: string Scheduler"
  defines "m \<equiv> new_IOManager (Map.empty(4 \<mapsto> EPOLLET OR EPOLLIN)) 4 0 0 ss"
  shows "\<exists>m1 m2. addEvent table_ctl (Some 0) (7, RUNNING) 9 READ None m = Inr (0, m1)
    \<and> cancelEvent table_ctl 9 READ m1 = Inr (True, m2)
    \<and> schedulers m2 = ss(0 := schedule \<lparr>ft_fiber = Some 7, ft_cb = None, ft_thread = -1\<rparr> (ss 0))"
proof -
  have free: "\<not> (nat 9 < length (m_fdContexts m) \<and> fc_events (m_fdContexts m ! nat 9) AND READ \<noteq> 0)"
    by (simp add: m_def new_IOManager_def contextResize_def new_FdContext_def NONE_def)
  have len: "length (m_fdContexts m) = 32" "m_fdContexts m ! 9 = new_FdContext 9"
    by (simp_all add: m_def new_IOManager_def contextResize_def)
  obtain m1 where m1: "addEvent table_ctl (Some 0) (7, RUNNING) 9 READ None m = Inr (0, m1)"
    by (simp add: addEvent_def ctx_at_def len new_FdContext_def NONE_def table_ctl_def getContext_def new_EventContext_def)
  have "\<exists>m2. cancelEvent table_ctl 9 READ m1 = Inr (True, m2)"
    using m1 by (auto simp: addEvent_def ctx_at_def len new_FdContext_def ev_defs table_ctl_def getContext_def
        new_EventContext_def setContext_def cancelEvent_def trigger_at_def triggerEvent_def Let_def)
  then obtain m2 where m2: "cancelEvent table_ctl 9 READ m1 = Inr (True, m2)" ..
  have "schedulers m = ss" by (simp add: m_def new_IOManager_def)
  moreover have "io_inv m" "agrees id m" unfolding m_def by (rule io_inv_new, rule agrees_new)
  ultimately have "schedulers m2 = ss(0 := schedule \<lparr>ft_fiber = Some 7, ft_cb = None, ft_thread = -1\<rparr> (ss 0))"
    using registered_event_delivered [OF table_ctl_spec _ _ _ _ _ free _ m1, of m2] m2 by simp
  with m1 m2 show ?thesis by blast
qed

section \<open>Behaviours of the idle loop that are not what it means to do\<close>

text \<open>
  The idle loop sleeps at most three seconds and no longer than the next timer wants, as long
  as that timer is less than \<open>2 ^ 31\<close> milliseconds away.
\<close>

theorem wait_timeout_bounds:
  assumes "t < 2 ^ 31 \<or> t = -1"
  shows "0 \<le> wait_timeout t \<and> wait_timeout t \<le> 3000 \<and> (t \<noteq> -1 \<longrightarrow> wait_timeout t = min (uint t) 3000)"
proof (cases "t = -1")
  case True
  then show ?thesis by (simp add: wait_timeout_def clamp_timeout_def)
next
  case False
  with assms have "uint t < 2 ^ 31" by (simp add: word_less_def)
  then have u: "sint (ucast t :: 32 word) = uint t"
    using signed_take_bit_int_eq_self [of 31 "uint t"] order.trans [of _ 0 "uint t"]
    by (simp add: sint_uint unsigned_ucast_eq take_bit_int_eq_self)
  show ?thesis
  proof (cases "3000 < uint t")
    case True
    with False u show ?thesis by (simp add: wait_timeout_def clamp_timeout_def)
  next
    case small: False
    with False u show ?thesis by (simp add: wait_timeout_def clamp_timeout_def)
  qed
qed

theorem wait_timeout_bounds_witness: "wait_timeout 5000 = 3000 \<and> wait_timeout 20 = 20"
  using wait_timeout_bounds [of 5000] wait_timeout_bounds [of 20] by simp

text \<open>A timer that is further away makes it wait without a limit: the timeout is negative.\<close>

lemma far_timer_waits_forever: "wait_timeout (2 ^ 31) < 0"
  by (simp add: wait_timeout_def clamp_timeout_def)

text \<open>
  A report that names an event which was taken back since \<open>epoll_wait\<close> aborts the program, when
  another event is still registered: reading is registered, the report says reading and writing.
\<close>

lemma stale_event_aborts:
  assumes "io_inv m" "i < length (m_fdContexts m)" "fc_events (m_fdContexts m ! i) = READ"
    and "\<And>k op fd ev. fst (ctl k op fd ev) = 0"
  shows "process_event ctl (FdPtr i, EPOLLIN OR EPOLLOUT) m = Inl AssertionFailed"
proof -
  let ?c = "m_fdContexts m ! i"
  have r: "real_events (EPOLLIN OR EPOLLOUT) READ = READ OR WRITE" by (simp add: real_events_def ev_defs)
  obtain k where k: "ctl (io_epoll m) EPOLL_CTL_DEL (int (fc_fd ?c)) EPOLLET = (0, k)"
    using assms(4) by (metis prod.collapse)
  let ?m1 = "m\<lparr>io_epoll := k\<rparr>"
  have t: "trigger_at (int i) READ ?m1 = Inr (put_ctx (int i) (clear_event READ ?c)
      (?m1\<lparr>m_pendingEventCount := m_pendingEventCount m - 1, schedulers := deliver (slot READ ?c) (schedulers m)\<rparr>))"
    using trigger_at_ok(1) [of ?m1 "int i" READ] assms(1-3) by (simp add: ev_defs)
  have "READ AND NOT (READ OR WRITE) = 0" "READ AND (READ OR WRITE) \<noteq> 0" "(READ OR WRITE) AND READ \<noteq> 0"
    "(READ OR WRITE) AND WRITE \<noteq> 0" "(READ AND NOT READ) AND WRITE = 0"
    by (simp_all add: ev_defs)
  with k t r assms(2,3) show ?thesis
    by (simp add: process_event_def ctx_at_def NONE_def Let_def trigger_if_def) (simp add: trigger_at_def ctx_at_def triggerEvent_def)
qed

text \<open>A negative descriptor indexes before the array, except for \<open>delEvent\<close>.\<close>

lemma negative_descriptor:
  "cancelEvent ctl (-1) event m = Inl BadIndex" "cancelAll ctl (-1) m = Inl BadIndex"
  "addEvent ctl t f (-1) event cb m = Inl BadIndex"
  by (simp_all add: cancelEvent_def cancelAll_def addEvent_def ctx_at_def)

end
