(* ===== verification/Log_Correct.thy ===== *)
theory Log_Correct
  imports Log
begin

text \<open>
  The properties of logging: patterns are parsed into the items they are written for, and no
  sequence of operations on the manager makes a later log call use a null pointer.
\<close>

section \<open>Patterns\<close>

text \<open>The pieces a pattern is written with, their text, and the entries they stand for.\<close>

datatype piece = Lit string | Item char | ItemFmt char string

fun piece_text :: "piece \<Rightarrow> string" where
  "piece_text (Lit s) = s"
| "piece_text (Item c) = [CHR ''%'', c]"
| "piece_text (ItemFmt c f) = CHR ''%'' # c # CHR ''{'' # f @ ''}''"

fun piece_entry :: "piece \<Rightarrow> vec_entry" where
  "piece_entry (Lit s) = (s, [], False)"
| "piece_entry (Item c) = ([c], [], True)"
| "piece_entry (ItemFmt c f) = ([c], f, True)"

definition pattern_text :: "piece list \<Rightarrow> string" where
  "pattern_text ps = concat (map piece_text ps)"

fun is_lit :: "piece \<Rightarrow> bool" where
  "is_lit (Lit s) = True" | "is_lit _ = False"

definition ends_item :: "string \<Rightarrow> bool" where
  "ends_item t \<longleftrightarrow> t = [] \<or> \<not> is_alpha (t ! 0) \<and> t ! 0 \<noteq> CHR ''{'' \<and> t ! 0 \<noteq> CHR ''}''"

fun wf_pieces :: "piece list \<Rightarrow> bool" where
  "wf_pieces [] = True"
| "wf_pieces (Lit s # ps) = (s \<noteq> [] \<and> CHR ''%'' \<notin> set s \<and> (ps = [] \<or> \<not> is_lit (ps ! 0)) \<and> wf_pieces ps)"
| "wf_pieces (Item c # ps) = (is_alpha c \<and> ends_item (pattern_text ps) \<and> wf_pieces ps)"
| "wf_pieces (ItemFmt c f # ps) = (is_alpha c \<and> CHR ''}'' \<notin> set f \<and> wf_pieces ps)"

lemma alpha_not_special: "is_alpha c \<Longrightarrow> c \<noteq> CHR ''%'' \<and> c \<noteq> CHR ''{'' \<and> c \<noteq> CHR ''}''"
  by (auto simp: is_alpha_def is_upper_def is_lower_def code_def)

lemma init_loop_literal:
  "CHR ''%'' \<notin> set s \<Longrightarrow>
   init_loop (pre @ s @ rest) (length pre) nstr vec err
     = init_loop (pre @ s @ rest) (length pre + length s) (nstr @ s) vec err"
proof (induction s arbitrary: pre nstr)
  case (Cons c s)
  have "init_loop (pre @ (c # s) @ rest) (length pre) nstr vec err
      = init_loop (pre @ (c # s) @ rest) (length pre + 1) (nstr @ [c]) vec err"
  proof -
    have "c \<noteq> CHR ''%''" using Cons.prems by auto
    then show ?thesis by (subst init_loop.simps) simp
  qed
  also have "\<dots> = init_loop ((pre @ [c]) @ s @ rest) (length (pre @ [c])) (nstr @ [c]) vec err" by simp
  also have "\<dots> = init_loop ((pre @ [c]) @ s @ rest) (length (pre @ [c]) + length s) ((nstr @ [c]) @ s) vec err"
    using Cons.prems by (intro Cons.IH) simp
  finally show ?case by simp
qed simp

lemma scan_letter:
  assumes "pat = pre @ CHR ''%'' # c # rest" "is_alpha c"
  shows "scan_item pat (length pre) (length pre + 1) 0 0 []
    = scan_item pat (length pre) (length pre + 2) 0 0 (if rest = [] then [c] else [])"
proof -
  have "pat ! (length pre + 1) = c" "length pat = length pre + 2 + length rest"
    "drop (length pre + 1) pat = c # rest"
    using assms(1) by (simp_all add: nth_append)
  then show ?thesis
    using assms(2) alpha_not_special [OF assms(2)]
    by (subst scan_item.simps) simp
qed

lemma scan_item_plain:
  assumes "pat = pre @ CHR ''%'' # c # rest" "is_alpha c" "ends_item rest"
  shows "scan_item pat (length pre) (length pre + 1) 0 0 [] = (length pre + 2, 0, [c], [])"
proof -
  have len: "length pat = length pre + 2 + length rest" using assms(1) by simp
  have sub: "substr pat (length pre + 1) 1 = [c]" using assms(1) by (simp add: substr_def)
  have "scan_item pat (length pre) (length pre + 2) 0 0 (if rest = [] then [c] else [])
      = (length pre + 2, 0, [c], [])"
  proof (cases rest)
    case Nil
    then show ?thesis using len by (subst scan_item.simps) simp
  next
    case (Cons d ds)
    then have "pat ! (length pre + 2) = d" using assms(1) by (simp add: nth_append)
    then show ?thesis
      using Cons assms(3) len sub
      by (subst scan_item.simps) (auto simp: ends_item_def)
  qed
  with scan_letter [OF assms(1,2)] show ?thesis by simp
qed

lemma scan_item_fmt:
  assumes "pat = pre @ CHR ''%'' # c # CHR ''{'' # f @ CHR ''}'' # rest" "is_alpha c" "CHR ''}'' \<notin> set f"
  shows "scan_item pat (length pre) (length pre + 1) 0 0 [] = (length pre + 4 + length f, 0, [c], f)"
proof -
  let ?i = "length pre"
  have len: "length pat = ?i + 4 + length f + length rest" using assms(1) by simp
  have brace: "pat ! (?i + 2) = CHR ''{''" using assms(1) by (simp add: nth_append)
  have fc: "pat ! (?i + 3 + k) = (f @ ''}'') ! k" if "k \<le> length f" for k
    using assms(1) that by (simp add: nth_append)
  have sub: "substr pat (?i + 1) 1 = [c]" "substr pat (?i + 3) (length f) = f"
    using assms(1) by (simp_all add: substr_def)
  have close: "scan_item pat ?i (?i + 3 + k) 1 (?i + 2) [c] = (?i + 4 + length f, 0, [c], f)"
    if "k \<le> length f" for k
    using that
  proof (induction rule: inc_induct)
    case base
    have "pat ! (?i + 3 + length f) = CHR ''}''" using fc [of "length f"] by simp
    then show ?case
      using len sub(2) by (subst scan_item.simps) (simp add: add.commute eval_nat_numeral)
  next
    case (step k)
    have "pat ! (?i + 3 + k) = f ! k" using fc [of k] step.hyps by (simp add: nth_append)
    moreover have "f ! k \<in> set f" using step.hyps by simp
    ultimately have "pat ! (?i + 3 + k) \<noteq> CHR ''}''" using assms(3) by metis
    then have "scan_item pat ?i (?i + 3 + k) 1 (?i + 2) [c] = scan_item pat ?i (?i + 3 + Suc k) 1 (?i + 2) [c]"
      using len step.hyps by (subst scan_item.simps) simp
    then show ?case using step.IH by simp
  qed
  have "scan_item pat ?i (?i + 2) 0 0 [] = scan_item pat ?i (?i + 3) 1 (?i + 2) [c]"
    using brace len sub(1) by (subst scan_item.simps) (simp add: numeral_3_eq_3)
  then show ?thesis using scan_letter [OF assms(1,2)] close [of 0] by simp
qed

lemma init_loop_pieces:
  assumes "wf_pieces ps" "pat = pre @ pattern_text ps" "nstr \<noteq> [] \<Longrightarrow> ps = [] \<or> \<not> is_lit (ps ! 0)"
  shows "init_loop pat (length pre) nstr vec err
    = (vec @ (if nstr \<noteq> [] then [(nstr, [], False)] else []) @ map piece_entry ps, err)"
  using assms
proof (induction ps arbitrary: pre nstr vec)
  case Nil
  then show ?case by (subst init_loop.simps) (simp add: pattern_text_def)
next
  case (Cons p ps)
  let ?flush = "vec @ (if nstr \<noteq> [] then [(nstr, [], False)] else [])"
  have pat: "pat = pre @ piece_text p @ pattern_text ps" using Cons.prems(2) by (simp add: pattern_text_def)
  have item: ?case
    if "is_alpha c" "piece_text p = CHR ''%'' # c # r"
      "scan_item pat (length pre) (length pre + 1) 0 0 [] = (length pre + length (piece_text p), 0, [c], f)"
      "piece_entry p = ([c], f, True)" "wf_pieces ps" for c r f
  proof -
    have at: "pat ! length pre = CHR ''%''" "length pre < length pat" "pat ! (length pre + 1) = c"
      using pat that(2) by (simp_all add: nth_append)
    have "init_loop pat (length pre) nstr vec err
        = init_loop pat (length pre + length (piece_text p)) [] (?flush @ [([c], f, True)]) err"
      using at that(3) alpha_not_special [OF that(1)] by (subst init_loop.simps) simp
    also have "\<dots> = init_loop pat (length (pre @ piece_text p)) [] (?flush @ [([c], f, True)]) err" by simp
    also have "\<dots> = ((?flush @ [([c], f, True)]) @ [] @ map piece_entry ps, err)"
      using Cons.IH [of "pre @ piece_text p" "[]"] that(5) pat by simp
    finally show ?thesis using that(4) by simp
  qed
  show ?case
  proof (cases p)
    case (Lit s)
    then have "nstr = []" using Cons.prems(3) by auto
    have "init_loop pat (length pre) nstr vec err = init_loop pat (length (pre @ s)) s vec err"
      using init_loop_literal [of s pre "pattern_text ps" "[]"] Cons.prems(1) Lit pat \<open>nstr = []\<close> by simp
    also have "\<dots> = (vec @ [(s, [], False)] @ map piece_entry ps, err)"
      using Cons.IH [of "pre @ s" s] Cons.prems(1) Lit pat by simp
    finally show ?thesis using Lit \<open>nstr = []\<close> by simp
  next
    case (Item c)
    show ?thesis
      by (rule item [of c "[]" "[]"])
        (use Item Cons.prems(1) pat scan_item_plain [of pat pre c "pattern_text ps"] in simp_all)
  next
    case (ItemFmt c f)
    show ?thesis
      by (rule item [of c "CHR ''{'' # f @ ''}''" f])
        (use ItemFmt Cons.prems(1) pat scan_item_fmt [of pat pre c f "pattern_text ps"] in simp_all)
  qed
qed

text \<open>
  C32.  A pattern written from literals without percent signs, items \<open>%c\<close> whose letter is not
  followed by a letter or a brace, and items \<open>%c{fmt}\<close> is parsed without error into exactly the
  items it is written for, in order, with literals and formats kept letter for letter.
\<close>

theorem pattern_parsed:
  assumes "wf_pieces ps"
  shows "m_items (new_LogFormatter (pattern_text ps)) = map (\<lambda>p. make_item (piece_entry p)) ps
    \<and> \<not> m_error (new_LogFormatter (pattern_text ps))"
  using init_loop_pieces [OF assms, of "pattern_text ps" "[]" "[]" "[]" False]
  by (simp add: new_LogFormatter_def)

theorem pattern_parsed_witness:
  "m_items (new_LogFormatter ''%d{%Y}[%p] %m%n'') = [DateTimeFormatItem ''%Y'', StringFormatItem ''['',
     LevelFormatItem, StringFormatItem ''] '', MessageFormatItem, NewLineFormatItem]"
proof -
  let ?ps = "[ItemFmt CHR ''d'' ''%Y'', Lit ''['', Item CHR ''p'', Lit ''] '', Item CHR ''m'', Item CHR ''n'']"
  have "wf_pieces ?ps"
    by (simp add: pattern_text_def ends_item_def is_alpha_def is_upper_def is_lower_def code_def)
  from pattern_parsed [OF this] show ?thesis by (simp add: pattern_text_def format_items_def)
qed

lemma percent_not_escaped:
  "m_items (new_LogFormatter ''%%'') = [StringFormatItem ''%'', StringFormatItem ''<<error_format %'']"
  by (simp add: new_LogFormatter_def init_loop.simps scan_item.simps format_items_def)

section \<open>Null pointers\<close>

definition logger_ok :: "string \<Rightarrow> Logger \<Rightarrow> bool" where
  "logger_ok n l \<longleftrightarrow> lg_formatter l \<noteq> None \<and> (\<forall>a \<in> set (lg_appenders l). ap_formatter a \<noteq> None)
     \<and> (n \<noteq> ''root'' \<longrightarrow> lg_has_root l)"

definition manager_ok :: "LoggerManager \<Rightarrow> bool" where
  "manager_ok m \<longleftrightarrow> (\<forall>n l. m_loggers m n = Some l \<longrightarrow> logger_ok n l)
     \<and> (\<exists>r. m_loggers m ''root'' = Some r \<and> lg_appenders r \<noteq> [])"

lemma manager_okD: "manager_ok m \<Longrightarrow> m_loggers m n = Some l \<Longrightarrow> logger_ok n l"
  by (simp add: manager_ok_def)

lemma manager_ok_upd:
  assumes "manager_ok m" "logger_ok n l" "n = ''root'' \<Longrightarrow> lg_appenders l \<noteq> []"
  shows "manager_ok (m\<lparr>m_loggers := (m_loggers m)(n \<mapsto> l)\<rparr>)"
  using assms by (auto simp: manager_ok_def)

lemma manager_ok_next [simp]: "manager_ok (m\<lparr>next_appender := k\<rparr>) = manager_ok m"
  by (simp add: manager_ok_def)

lemma getLogger_ok:
  assumes "manager_ok m" "getLogger n m = (l, m')"
  shows "manager_ok m'" "m_loggers m' n = Some l" "logger_ok n l"
proof -
  have new: "logger_ok n ((new_Logger n)\<lparr>lg_has_root := True\<rparr>)"
    by (simp add: logger_ok_def new_Logger_def)
  have "m_loggers m n = None \<Longrightarrow> n \<noteq> ''root''" using assms(1) by (auto simp: manager_ok_def)
  then show "manager_ok m'"
    using assms manager_ok_upd [OF assms(1) new] by (cases "m_loggers m n") (auto simp: getLogger_def Let_def)
  then show "m_loggers m' n = Some l" "logger_ok n l"
    using assms new by (auto simp: getLogger_def Let_def manager_ok_def split: option.splits)
qed

lemma appender_log_ok: "ap_formatter a \<noteq> None \<Longrightarrow>
   \<exists>o1 a'. appender_log strftime n lv ev a = Some (o1, a') \<and> ap_formatter a' = ap_formatter a"
  by (auto simp: appender_log_def Let_def split: appender_kind.splits)

lemma appenders_log_ok: "\<forall>a \<in> set as. ap_formatter a \<noteq> None \<Longrightarrow>
   \<exists>o1 as'. appenders_log strftime n lv ev as = Some (o1, as') \<and> map ap_formatter as' = map ap_formatter as"
proof (induction as)
  case (Cons a as)
  then obtain o1 a' o2 as' where "appender_log strftime n lv ev a = Some (o1, a')"
    "ap_formatter a' = ap_formatter a" "appenders_log strftime n lv ev as = Some (o2, as')"
    "map ap_formatter as' = map ap_formatter as"
    using appender_log_ok [of a strftime n lv ev] by auto
  then show ?case by simp
qed simp

lemma log_here_ok:
  assumes "manager_ok m" "m_loggers m n = Some l"
  shows "\<exists>out m'. log_here strftime n lv ev m = Some (out, m') \<and> manager_ok m'"
proof -
  note l = manager_okD [OF assms]
  then obtain out as where as: "appenders_log strftime (lg_name l) lv ev (lg_appenders l) = Some (out, as)"
    "map ap_formatter as = map ap_formatter (lg_appenders l)"
    using appenders_log_ok [of "lg_appenders l" strftime "lg_name l" lv ev] by (auto simp: logger_ok_def)
  have "None \<notin> set (map ap_formatter (lg_appenders l))" using l by (auto simp: logger_ok_def)
  then have "None \<notin> set (map ap_formatter as)" by (simp only: as(2) not_False_eq_True)
  then have "ap_formatter a \<noteq> None" if "a \<in> set as" for a using that by (metis image_eqI list.set_map)
  then have "logger_ok n (l\<lparr>lg_appenders := as\<rparr>)" using l by (simp add: logger_ok_def)
  moreover have "as = [] \<longleftrightarrow> lg_appenders l = []" by (metis as(2) map_is_Nil_conv)
  ultimately have "manager_ok (m\<lparr>m_loggers := (m_loggers m)(n \<mapsto> l\<lparr>lg_appenders := as\<rparr>)\<rparr>)"
    using manager_ok_upd [OF assms(1)] assms by (auto simp: manager_ok_def)
  then show ?thesis using assms(2) as(1) by (simp add: log_here_def)
qed

lemma Logger_log_ok:
  assumes "manager_ok m" "m_loggers m n = Some l"
  shows "\<exists>out m'. Logger_log strftime n lv ev m = Some (out, m') \<and> manager_ok m'"
proof -
  obtain r where r: "m_loggers m ''root'' = Some r" "lg_appenders r \<noteq> []"
    using assms(1) by (auto simp: manager_ok_def)
  have "lg_appenders l \<noteq> [] \<or> lg_has_root l"
    using manager_okD [OF assms] r assms(2) by (cases "n = ''root''") (auto simp: logger_ok_def)
  then show ?thesis
    using log_here_ok [OF assms] log_here_ok [OF assms(1) r(1)] assms r by (auto simp: Logger_log_def)
qed

lemma logger_ok_ops:
  assumes "logger_ok n l" "ap_hasFormatter a \<longleftrightarrow> ap_formatter a \<noteq> None"
  shows "logger_ok n (setLevel lv l)" "logger_ok n (clearAppenders l)" "logger_ok n (addAppender a l)"
    "logger_ok n (logger_setFormatter (Some f) l)" "logger_ok n (logger_setPattern p l)"
  using assms
  by (auto simp: logger_ok_def setLevel_def clearAppenders_def addAppender_def logger_setFormatter_def
      logger_setPattern_def appender_setFormatter_def Let_def)

lemma make_appender_has: "make_appender d n a = Some ap \<Longrightarrow> ap_hasFormatter ap \<longleftrightarrow> ap_formatter ap \<noteq> None"
  by (auto simp: make_appender_def new_LogAppender_def appender_setFormatter_def Let_def split: if_splits)

lemma add_defined_ok: "logger_ok n l \<Longrightarrow> logger_ok n (fst (add_defined d as (l, k)))"
proof (induction d as "(l, k)" arbitrary: l k rule: add_defined.induct)
  case (2 d a as l k)
  show ?case
  proof (cases "make_appender d k a")
    case None
    with 2 show ?thesis by simp
  next
    case (Some ap)
    with 2 logger_ok_ops(3) [OF 2(3) make_appender_has [OF Some]] show ?thesis by simp
  qed
qed simp

lemma configure_logger_ok:
  assumes "manager_ok m" "ld_name i \<noteq> ''root''"
  shows "manager_ok (configure_logger d i m)"
proof -
  obtain l m1 where l: "getLogger (ld_name i) m = (l, m1)" by fastforce
  note ok = getLogger_ok [OF assms(1) l]
  let ?l1 = "setLevel (ld_level i) l"
  let ?l2 = "if ld_formatter i \<noteq> [] then logger_setPattern (ld_formatter i) ?l1 else ?l1"
  have any: "ap_hasFormatter (new_LogAppender 0 StdoutLogAppender)
      \<longleftrightarrow> ap_formatter (new_LogAppender 0 StdoutLogAppender) \<noteq> None"
    by (simp add: new_LogAppender_def)
  have "logger_ok (ld_name i) ?l2" using ok(3) logger_ok_ops [OF _ any] by simp
  then have l2: "logger_ok (ld_name i) (clearAppenders ?l2)" using logger_ok_ops(2) [OF _ any] by blast
  obtain l3 k where l3: "add_defined d (ld_appenders i) (clearAppenders ?l2, next_appender m1) = (l3, k)"
    by fastforce
  have "logger_ok (ld_name i) l3"
    using add_defined_ok [OF l2, of d "ld_appenders i" "next_appender m1"] unfolding l3 by simp
  from manager_ok_upd [OF ok(1) this] assms(2) show ?thesis
    by (simp add: configure_logger_def l Let_def l3 del: if_image_distrib)
qed

lemma remove_logger_ok:
  assumes "manager_ok m" "ld_name i \<noteq> ''root''"
  shows "manager_ok (remove_logger i m)"
proof -
  obtain l m1 where l: "getLogger (ld_name i) m = (l, m1)" by fastforce
  note ok = getLogger_ok [OF assms(1) l]
  have "logger_ok (ld_name i) (clearAppenders (setLevel UNKNOW l))"
    using ok(3) by (simp add: logger_ok_def clearAppenders_def setLevel_def)
  from manager_ok_upd [OF ok(1) this] assms(2) show ?thesis by (simp add: remove_logger_def l)
qed

lemma fold_ok:
  "(\<And>i m. i \<in> set is \<Longrightarrow> P m \<Longrightarrow> P (f i m)) \<Longrightarrow> P m \<Longrightarrow> P (fold f is m)"
  by (induction "is" arbitrary: m) auto

lemma manager_ok_new: "manager_ok new_LoggerManager"
  by (auto simp: manager_ok_def logger_ok_def new_LoggerManager_def addAppender_def new_Logger_def
      new_LogAppender_def appender_setFormatter_def)

text \<open>
  C33.  No log call uses a null pointer: the manager starts in a state in which every appender and
  logger has a formatter and the root logger an appender; obtaining loggers, logging, and any
  change of the configuration that does not concern the root logger keep it; and in such a state
  every log call on a known logger succeeds.
\<close>

theorem logging_never_null:
  assumes "manager_ok m" "m_loggers m n = Some l"
  shows "manager_ok new_LoggerManager \<and> manager_ok (snd (getLogger k m))
    \<and> (\<exists>out m'. Logger_log strftime n lv ev m = Some (out, m') \<and> manager_ok m')
    \<and> (''root'' \<notin> ld_name ` set (old @ new) \<longrightarrow> manager_ok (on_logger_conf_changed d old new m))"
proof -
  have "manager_ok (on_logger_conf_changed d old new m)" if nr: "''root'' \<notin> ld_name ` set (old @ new)"
  proof -
    have ne: "ld_name i \<noteq> ''root''" if "i \<in> set (old @ new)" for i
      using nr that by (metis image_eqI)
    show ?thesis
      unfolding on_logger_conf_changed_def Let_def
      using assms(1) configure_logger_ok [OF _ ne] remove_logger_ok [OF _ ne]
      by (intro fold_ok [where P = manager_ok]) (auto split: option.splits)
  qed
  then show ?thesis
    using manager_ok_new getLogger_ok(1) [OF assms(1) prod.collapse [symmetric]] Logger_log_ok [OF assms]
    by blast
qed

theorem logging_never_null_witness:
  "\<exists>out m'. Logger_log (\<lambda>_ _. []) ''root'' INFO
     \<lparr>ev_file = ''a.cc'', ev_line = 1, ev_elapse = 0, ev_threadId = 1, ev_fiberId = 0, ev_time = 0,
      ev_threadName = ''t'', ev_content = ''hi''\<rparr> new_LoggerManager = Some (out, m')"
proof -
  have "m_loggers new_LoggerManager ''root'' = Some (addAppender (new_LogAppender 0 StdoutLogAppender) (new_Logger ''root''))"
    by (simp add: new_LoggerManager_def)
  from logging_never_null [OF manager_ok_new this] show ?thesis by blast
qed

lemma root_without_appenders:
  "Logger_log strftime ''root'' FATAL ev (remove_logger \<lparr>ld_name = ''root'', ld_level = DEBUG, ld_formatter = [],
     ld_appenders = []\<rparr> new_LoggerManager) = None"
  by (simp add: remove_logger_def getLogger_def new_LoggerManager_def Logger_log_def clearAppenders_def
      setLevel_def addAppender_def new_Logger_def)

lemma changed_appenders_ignored:
  "on_logger_conf_changed d [x] [x\<lparr>ld_appenders := as\<rparr>] m = m"
  by (simp add: on_logger_conf_changed_def LogDefine_eq_def)

lemma added_appender_pinned:
  assumes "lg_formatter l = Some f"
  shows "lg_appenders (logger_setFormatter (Some g) (addAppender (new_LogAppender k kd) (l\<lparr>lg_appenders := []\<rparr>)))
    = [appender_setFormatter (Some f) (new_LogAppender k kd)]"
  using assms by (simp add: logger_setFormatter_def addAppender_def new_LogAppender_def appender_setFormatter_def)

text \<open>An appender writes exactly the events at its level or above, so also those at any higher level.\<close>

lemma appender_threshold:
  "appender_log strftime name lv ev a = Some (out, a') \<Longrightarrow> (out \<noteq> []) = (ap_level a \<le> lv)"
  by (cases "ap_kind a") (auto simp: appender_log_def Let_def split: if_splits option.splits)

lemma higher_level_written:
  assumes "appender_log strftime name lv ev a = Some (out, a1)" "out \<noteq> []" "lv \<le> lv'"
  shows "\<exists>out' a2. appender_log strftime name lv' ev a = Some (out', a2) \<and> out' \<noteq> []"
proof -
  have "ap_level a \<le> lv'" using assms appender_threshold [OF assms(1)] by (metis order_trans)
  moreover have "ap_formatter a \<noteq> None" using assms(1,2) by (auto simp: appender_log_def split: if_splits option.splits)
  ultimately have "appender_log strftime name lv' ev a \<noteq> None"
    by (cases "ap_kind a") (auto simp: appender_log_def Let_def)
  then obtain out' a2 where "appender_log strftime name lv' ev a = Some (out', a2)" by (metis not_None_eq surj_pair)
  with appender_threshold [OF this] \<open>ap_level a \<le> lv'\<close> show ?thesis by blast
qed

lemma level_names: "LogLevel_fromString (LogLevel_toString lv) = lv"
  by (cases lv) (simp_all add: LogLevel_fromString_def)

end
