(* ===== verification/Byte_Array_Correct.thy ===== *)
theory Byte_Array_Correct
  imports Byte_Buffers
begin

text \<open>
  The properties of \<open>ByteArray\<close>: the raw operations refine a flat file with a cursor, every
  typed write is read back, and the bulk operations deliver exactly the content.
\<close>

section \<open>Raw operations\<close>

text \<open>
  C1.  \<open>write\<close> never fails on a well-formed \<open>ByteArray\<close>: it overwrites the content at the
  position and extends it, moves the position behind the data, and keeps the invariant
  (capacity, block sizes, current node) and the configuration.
\<close>

theorem ba_write_refines:
  assumes "ba_inv b"
  shows "\<exists>b'. ba_write d b = (Inr (), b') \<and> ba_inv b' \<and> ba_conf b' = ba_conf b
    \<and> m_position b' = m_position b + length d
    \<and> m_size b' = max (m_size b) (m_position b + length d)
    \<and> ba_content b' = take (m_position b) (ba_content b) @ d
        @ drop (m_position b + length d) (ba_content b)"
  using ba_write_spec [OF assms, of d] by (simp add: blit_def)

theorem ba_write_refines_witness:
  "\<exists>b'. ba_write [1, 2, 3, 4, 5, 6, 7] (ByteArray (\<lambda>_. 0) 3) = (Inr (), b') \<and> ba_inv b'
     \<and> m_position b' = 7 \<and> ba_content b' = [1, 2, 3, 4, 5, 6, 7]"
  using ba_write_refines [OF ba_inv_ByteArray [of 3 "\<lambda>_. 0"], of "[1, 2, 3, 4, 5, 6, 7]"]
  by (auto simp: ba_content_ByteArray) (simp add: ByteArray_def)

text \<open>
  C2.  \<open>read\<close>, for every well-formed \<open>ByteArray\<close> and every size: it throws when more is asked for
  than is readable, and then changes nothing.  A read of no bytes when the position is the end
  of the chain dereferences the current node, which is null there.  Every other read returns
  the bytes of the content at the position and moves behind them, with the content unchanged.
\<close>

theorem ba_read_refines:
  assumes "ba_inv b"
  shows "if getReadSize b < n then ba_read n b = (Inl OutOfRange, b)
    else if n = 0 \<and> m_position b = m_capacity b then ba_read n b = (Inl NullDeref, b)
    else \<exists>b'. ba_read n b = (Inr (take n (drop (m_position b) (ba_content b))), b') \<and> ba_inv b'
           \<and> m_position b' = m_position b + n \<and> ba_content b' = ba_content b"
proof -
  have "\<exists>b'. ba_read n b = (Inr (take n (drop (m_position b) (ba_content b))), b') \<and> ba_inv b'
      \<and> m_position b' = m_position b + n \<and> ba_content b' = ba_content b"
    if n: "n \<le> getReadSize b" and room: "0 < n \<or> m_position b \<noteq> m_capacity b"
  proof -
    have "m_position b < m_capacity b" using assms n room by (auto simp: getReadSize_def ba_inv_def)
    from ba_read_spec [OF assms n this] show ?thesis unfolding ba_content_def by metis
  qed
  then show ?thesis using assms by (auto simp: ba_read_out_of_range ba_read_zero_at_end)
qed

theorem ba_read_refines_witness:
  "ba_read 1 (ByteArray (\<lambda>_. 0) 3) = (Inl OutOfRange, ByteArray (\<lambda>_. 0) 3)"
  using ba_read_refines [OF ba_inv_ByteArray [of 3 "\<lambda>_. 0"], of 1]
  by (simp add: getReadSize_def) (simp add: ByteArray_def)

section \<open>Typed round trips\<close>

text \<open>
  Writing with \<open>w\<close> puts the bytes \<open>bs\<close> at the position, and after setting the position back
  the reader \<open>r\<close> returns \<open>v\<close> and stands behind them, the content being unchanged.
\<close>

definition round_trip :: "unit ba \<Rightarrow> 'v ba \<Rightarrow> bytes \<Rightarrow> 'v \<Rightarrow> bytearray \<Rightarrow> bool" where
  "round_trip w r bs v b \<longleftrightarrow>
     (case w b of (Inl _, _) \<Rightarrow> False | (Inr _, b1) \<Rightarrow>
        ba_inv b1 \<and> m_position b1 = m_position b + length bs
        \<and> ba_content b1 = blit (ba_content b) (m_position b) bs
        \<and> (case setPosition (m_position b) b1 of (Inl _, _) \<Rightarrow> False | (Inr _, b2) \<Rightarrow>
             case r b2 of (Inl _, _) \<Rightarrow> False | (Inr v', b3) \<Rightarrow>
               v' = v \<and> m_position b3 = m_position b1 \<and> ba_content b3 = ba_content b1))"

lemma round_tripI:
  assumes "ba_inv b" "ba.encodes (ba_conf b) w bs" "ba.decodes (ba_conf b) r bs v"
  shows "round_trip w r bs v b"
  using ba.encode_seek_decode [OF assms] by (auto simp: round_trip_def)

text \<open>
  An empty string is read with a read of no bytes behind its prefix.  \<open>chain_ends b k\<close>: after
  writing \<open>k\<close> bytes the position is the end of the chain.  In this case the read back crashes.
\<close>

definition chain_ends :: "bytearray \<Rightarrow> nat \<Rightarrow> bool" where
  "chain_ends b k \<longleftrightarrow> m_capacity b \<le> m_position b + k \<and> (m_position b + k) mod m_baseSize b = 0"

definition read_back_crashes :: "unit ba \<Rightarrow> 'v ba \<Rightarrow> bytearray \<Rightarrow> bool" where
  "read_back_crashes w r b \<longleftrightarrow>
     (case w b of (Inl _, _) \<Rightarrow> False | (Inr _, b1) \<Rightarrow>
        case setPosition (m_position b) b1 of (Inl _, _) \<Rightarrow> False | (Inr _, b2) \<Rightarrow>
          fst (r b2) = Inl NullDeref)"

definition string_trip :: "unit ba \<Rightarrow> bytes ba \<Rightarrow> bytes \<Rightarrow> bytes \<Rightarrow> bytearray \<Rightarrow> bool" where
  "string_trip w r prefix v b \<longleftrightarrow>
     (if v = [] \<and> chain_ends b (length prefix) then read_back_crashes w r b
      else round_trip w r (prefix @ v) v b)"

lemma string_tripI:
  assumes inv: "ba_inv b" and w: "w b = ba_write hb b" and hb: "hb \<noteq> []"
    and dec: "ba.decodes (ba_conf b) r hb (word_of_nat (length v) :: 'a::len word)"
    and cap: "keeps_capacity r"
    and fits: "length v < 2 ^ LENGTH('a)" "length v \<le> limit"
  shows "string_trip (ex_bind w (\<lambda>_. ba_write v)) (ex_bind r (\<lambda>len. read_resized limit (unat len))) hb v b"
proof (cases "v = []")
  case False
  have enc: "ba.encodes (ba_conf b) (ex_bind (ba_write hb) (\<lambda>_. ba_write v)) (hb @ v)"
    by (intro ba.encodes_bind ba.encodes_put)
  have "round_trip (ex_bind (ba_write hb) (\<lambda>_. ba_write v))
      (ex_bind r (\<lambda>len. read_resized limit (unat len))) (hb @ v) v b"
    by (rule round_tripI [OF inv enc decodes_string [OF dec fits False]])
  then show ?thesis using False w by (simp add: string_trip_def round_trip_def ex_bind_def)
next
  case True
  from ba.encode_seek_decode [OF inv ba.encodes_put dec] obtain b1 b2 b3 where
    s: "ba_write hb b = (Inr (), b1)" "m_position b1 = m_position b + length hb"
      "ba_content b1 = blit (ba_content b) (m_position b) hb" "ba_inv b1"
      "setPosition (m_position b) b1 = (Inr (), b2)" "r b2 = (Inr (word_of_nat (length v)), b3)"
      "m_position b3 = m_position b1" "ba_content b3 = ba_content b1" "ba_inv b3" by blast
  have c3: "m_capacity b3 = m_capacity b1"
    using keeps_capacityD [OF cap, of b2] s(5,6) setPosition_capacity [of "m_position b" b1] by simp
  have e: "m_position b3 = m_capacity b3 \<longleftrightarrow> chain_ends b (length hb)"
    using written_to_end [OF inv hb s(1)] s(7) c3 by (simp add: chain_ends_def)
  have wr: "ex_bind w (\<lambda>_. ba_write v) b = (Inr (), b1)"
    using True s(1) w by (simp add: ex_bind_ok ba_write_def)
  have rd: "ex_bind r (\<lambda>len. read_resized limit (unat len)) b2 = ba_read 0 b3"
    using True s(6) by (simp add: ex_bind_ok read_resized_def)
  show ?thesis
  proof (cases "chain_ends b (length hb)")
    case at_end: True
    with e s(9) have "ba_read 0 b3 = (Inl NullDeref, b3)" by (simp add: ba_read_zero_at_end)
    with True at_end wr rd s(5) show ?thesis by (simp add: string_trip_def read_back_crashes_def)
  next
    case not_end: False
    with e s(9) have "m_position b3 < m_capacity b3" by (auto simp: ba_inv_def)
    from ba_read_spec [OF s(9) _ this, of 0] obtain b4 where b4: "ba_read 0 b3 = (Inr [], b4)"
      "m_position b4 = m_position b3" "m_size b4 = m_size b3" "ba_flat b4 = ba_flat b3" by auto
    then have "ba_content b4 = ba_content b3" by (simp add: ba_content_def)
    with True not_end wr rd s b4 show ?thesis by (simp add: string_trip_def round_trip_def)
  qed
qed

lemma fst_ba_conf [simp]: "fst (ba_conf b) = m_endian b"
  by (simp add: ba_conf_def)

text \<open>
  C3.  Fixed-width integers: the bytes on the wire are those of the array's byte order, most
  significant first when it is big endian, whatever the byte order \<open>h\<close> of the writing host;
  a host of any byte order \<open>h'\<close> reads the value back.
\<close>

theorem fixed_width_round_trip:
  assumes "ba_inv b"
  shows "round_trip (writeFint16 h w16) (readFint16 h') (mem_image (m_endian b) w16) w16 b
    \<and> round_trip (writeFint32 h w32) (readFint32 h') (mem_image (m_endian b) w32) w32 b
    \<and> round_trip (writeFint64 h w64) (readFint64 h') (mem_image (m_endian b) w64) w64 b"
proof -
  note enc = encodes_fixed [of "ba_conf b" h, simplified fst_ba_conf]
  note dec = decodes_readFint16 [of "ba_conf b" h', simplified fst_ba_conf]
    decodes_readFint32 [of "ba_conf b" h', simplified fst_ba_conf]
    decodes_readFint64 [of "ba_conf b" h', simplified fst_ba_conf]
  show ?thesis
    using round_tripI [OF assms enc(2) dec(1)] round_tripI [OF assms enc(3) dec(2)]
      round_tripI [OF assms enc(4) dec(3)] by blast
qed

theorem fixed_width_round_trip_witness:
  "round_trip (writeFint32 LittleEndian 0x01020304) (readFint32 BigEndian) [1, 2, 3, 4] 0x01020304
     (ByteArray (\<lambda>_. 0) 3)"
proof -
  have "mem_image (m_endian (ByteArray (\<lambda>_. 0) 3)) (0x01020304 :: u32) = [1, 2, 3, 4]"
    by (simp add: ByteArray_def mem_image_def)
  with fixed_width_round_trip [OF ba_inv_ByteArray [of 3 "\<lambda>_. 0"], of LittleEndian _ BigEndian
      "0x01020304"]
  show ?thesis by simp
qed

text \<open>
  C4.  Unsigned variable-length integers: \<open>writeUint32\<close> and \<open>writeUint64\<close> put the base-128
  representation of the value, at most 5 and 10 bytes (the size of the code's \<open>tmp\<close>
  buffers), and the readers return the value from it.
\<close>

theorem varint_round_trip:
  assumes "ba_inv b"
  shows "round_trip (writeUint32 w32) (readUint32 h) (map word_of_nat (leb128 (unat w32))) w32 b
    \<and> round_trip (writeUint64 w64) (readUint64 h) (map word_of_nat (leb128 (unat w64))) w64 b
    \<and> length (varint32 w32) \<le> 5 \<and> length (varint64 w64) \<le> 10"
  using round_tripI [OF assms encodes_varint(1) decodes_readUint32]
    round_tripI [OF assms encodes_varint(2) decodes_readUint64] length_varint32 length_varint64
  by (auto simp: varint32_leb128 varint64_leb128)

theorem varint_round_trip_witness:
  "round_trip (writeUint32 300) (readUint32 BigEndian) [172, 2] 300 (ByteArray (\<lambda>_. 0) 1)"
  using varint_round_trip [OF ba_inv_ByteArray [of 1 "\<lambda>_. 0"], of 300 BigEndian]
  by (simp add: leb128.simps)

text \<open>
  C5.  Zigzag.  The signed arithmetic of the encoders is defined exactly above the least integer
  and below \<open>2 ^ 30\<close> (\<open>2 ^ 62\<close>): outside it overflows, which is undefined behaviour.  Where it is
  defined the encoding is twice the magnitude, minus one for a negative value, and it is the
  one code word that decodes to the value.
\<close>

theorem zigzag_correct:
  "(EncodeZigzag32 v32 = None \<longleftrightarrow> sint v32 = - (2 ^ 31) \<or> 2 ^ 30 \<le> sint v32)
   \<and> (EncodeZigzag64 v64 = None \<longleftrightarrow> sint v64 = - (2 ^ 63) \<or> 2 ^ 62 \<le> sint v64)
   \<and> (EncodeZigzag32 v32 = Some w32 \<longleftrightarrow> - (2 ^ 31) < sint v32 \<and> sint v32 < 2 ^ 30
        \<and> uint w32 = (if sint v32 < 0 then - 2 * sint v32 - 1 else 2 * sint v32))
   \<and> (EncodeZigzag64 v64 = Some w64 \<longleftrightarrow> - (2 ^ 63) < sint v64 \<and> sint v64 < 2 ^ 62
        \<and> uint w64 = (if sint v64 < 0 then - 2 * sint v64 - 1 else 2 * sint v64))
   \<and> (EncodeZigzag32 v32 = Some w32 \<longleftrightarrow> - (2 ^ 31) < sint v32 \<and> sint v32 < 2 ^ 30
        \<and> DecodeZigzag32 w32 = v32)
   \<and> (EncodeZigzag64 v64 = Some w64 \<longleftrightarrow> - (2 ^ 63) < sint v64 \<and> sint v64 < 2 ^ 62
        \<and> DecodeZigzag64 w64 = v64)"
proof -
  have "zigzag v32 = w32 \<longleftrightarrow> uint w32 = uint (zigzag v32)" by (metis word_uint_eq_iff)
  moreover have "zigzag v64 = w64 \<longleftrightarrow> uint w64 = uint (zigzag v64)" by (metis word_uint_eq_iff)
  ultimately show ?thesis
    using sint_bounds [of v32] sint_bounds [of v64]
    by (auto simp: EncodeZigzag_value DecodeZigzag_unzigzag uint_zigzag simp flip: eq_zigzag_iff)
qed

text \<open>Signed variable-length integers are read back wherever the encoder is defined.\<close>

lemma signed_varint_round_trip:
  assumes "ba_inv b" "- (2 ^ 31) < sint v32" "sint v32 < 2 ^ 30"
    "- (2 ^ 63) < sint v64" "sint v64 < 2 ^ 62"
  shows "round_trip (writeInt32 v32) (readInt32 h) (varint32 (zigzag v32)) v32 b"
    and "round_trip (writeInt64 v64) (readInt64 h) (varint64 (zigzag v64)) v64 b"
  using round_tripI [OF assms(1) encodes_varint(3) decodes_readInt32]
    round_tripI [OF assms(1) encodes_varint(4) decodes_readInt64] assms
  by (simp_all add: EncodeZigzag_value)

text \<open>
  C6.  Strings with a length prefix \<open>w\<close> are read back by the matching reader, as long as the
  length fits the prefix and the allocator serves it, with one exception: the empty string
  whose prefix ends exactly at the end of the chain.  It is written, but reading it back
  dereferences the null current node.
\<close>

theorem string_round_trip:
  assumes "ba_inv b" "length v \<le> limit" "length v < 2 ^ 64"
  shows "(length v < 2 ^ 16 \<longrightarrow> string_trip (writeStringF16 h v) (readStringF16 h' limit)
        (mem_image (m_endian b) (word_of_nat (length v) :: u16)) v b)
    \<and> (length v < 2 ^ 32 \<longrightarrow> string_trip (writeStringF32 h v) (readStringF32 h' limit)
        (mem_image (m_endian b) (word_of_nat (length v) :: u32)) v b)
    \<and> string_trip (writeStringF64 h v) (readStringF64 h' limit)
        (mem_image (m_endian b) (word_of_nat (length v) :: u64)) v b
    \<and> string_trip (writeStringVint v) (readStringVint h' limit)
        (map word_of_nat (leb128 (length v))) v b"
proof -
  let ?c = "ba_conf b"
  note dec = decodes_readFint16 [of ?c h', simplified fst_ba_conf]
    decodes_readFint32 [of ?c h', simplified fst_ba_conf]
    decodes_readFint64 [of ?c h', simplified fst_ba_conf]
  have vint: "map word_of_nat (leb128 (length v)) = varint64 (word_of_nat (length v))"
    using assms(3) by (simp add: varint64_leb128 unat_of_nat)
  have "varint64 (word_of_nat (length v)) \<noteq> []" by (subst varint64.simps) simp
  with assms show ?thesis
    unfolding readStringF16_def readStringF32_def readStringF64_def readStringVint_def
      writeStringF16_def writeStringF32_def writeStringF64_def writeStringVint_def vint
    by (intro conjI impI string_tripI keeps_capacity_read dec decodes_readUint64)
      (simp_all add: writeFint_wire writeUint64_def flip: length_greater_0_conv)
qed

theorem string_round_trip_witness:
  "round_trip (writeStringVint [104, 105]) (readStringVint BigEndian 2) [2, 104, 105] [104, 105]
     (ByteArray (\<lambda>_. 0) 1)
   \<and> read_back_crashes (writeStringVint []) (readStringVint BigEndian 2) (ByteArray (\<lambda>_. 0) 1)"
  using string_round_trip [OF ba_inv_ByteArray [of 1 "\<lambda>_. 0"], of "[104, 105]" 2 LittleEndian BigEndian]
    string_round_trip [OF ba_inv_ByteArray [of 1 "\<lambda>_. 0"], of "[]" 2 LittleEndian BigEndian]
  by (simp add: leb128.simps string_trip_def chain_ends_def ByteArray_def)

section \<open>Bulk operations\<close>

text \<open>
  C7.  The buffers that \<open>getReadBuffers\<close> hands to \<open>writev\<close> or \<open>sendmsg\<close> hold, in order, exactly
  the next bytes of the content, as many as asked for or as are readable.
\<close>

theorem getReadBuffers_gather:
  assumes "ba_inv b"
  shows "\<exists>iovs. getReadBuffers len b = Inr (iovs, min len (getReadSize b))
    \<and> concat (map (iov_bytes (m_nodes b)) iovs)
        = take (min len (getReadSize b)) (drop (m_position b) (ba_content b))"
  using getReadBuffers_spec [OF assms refl] .

theorem getReadBuffers_gather_witness:
  "\<exists>iovs. getReadBuffers 9 (ByteArray (\<lambda>_. 0) 3) = Inr (iovs, 0)"
  using getReadBuffers_gather [OF ba_inv_ByteArray [of 3 "\<lambda>_. 0"], of 9]
  by (auto simp: getReadSize_def ByteArray_def)

text \<open>
  C9.  Receiving: when the buffers of \<open>getWriteBuffers\<close> are filled with the \<open>d\<close> bytes that
  arrive, no more than asked for, and the position is moved behind them, the content is
  overwritten at the old position as \<open>write\<close> would have done; taking the buffers alone
  changes neither content nor position.
\<close>

theorem getWriteBuffers_receive:
  assumes "ba_inv b" "0 < len" "length d \<le> len"
  shows "\<exists>iovs b1 b2. getWriteBuffers len b = (Inr (iovs, len), b1)
    \<and> ba_content b1 = ba_content b \<and> m_position b1 = m_position b
    \<and> setPosition (m_position b + length d) (fill_buffers iovs d b1) = (Inr (), b2)
    \<and> ba_inv b2 \<and> m_position b2 = m_position b + length d
    \<and> ba_content b2 = take (m_position b) (ba_content b) @ d
        @ drop (m_position b + length d) (ba_content b)"
  using getWriteBuffers_spec [OF assms] by (auto simp: blit_def)

theorem getWriteBuffers_receive_witness:
  "\<exists>iovs b1 b2. getWriteBuffers 9 (ByteArray (\<lambda>_. 0) 3) = (Inr (iovs, 9), b1)
     \<and> setPosition 4 (fill_buffers iovs [1, 2, 3, 4] b1) = (Inr (), b2)
     \<and> ba_content b2 = [1, 2, 3, 4]"
  using getWriteBuffers_receive [OF ba_inv_ByteArray [of 3 "\<lambda>_. 0"], of 9 "[1, 2, 3, 4]"]
  by (auto simp: ba_content_ByteArray) (auto simp: ByteArray_def numeral_eq_Suc)

text \<open>
  C17.  Files: from a position at the start of a block \<open>writeToFile\<close> writes exactly the readable
  content, and reading that file into a fresh \<open>ByteArray\<close> of any block size restores it.
\<close>

theorem file_round_trip:
  assumes "ba_inv b" "m_position b mod m_baseSize b = 0" "0 < n"
  shows "writeToFile b = Inr (drop (m_position b) (ba_content b))
    \<and> (\<exists>b'. readFromFile (drop (m_position b) (ba_content b)) (ByteArray f n) = (Inr (), b')
         \<and> ba_inv b' \<and> ba_content b' = drop (m_position b) (ba_content b))"
proof
  show "writeToFile b = Inr (drop (m_position b) (ba_content b))"
    by (rule writeToFile_spec [OF assms(1,2)])
  let ?d = "drop (m_position b) (ba_content b)"
  have pos: "m_position (ByteArray f n) = 0" by (simp add: ByteArray_def)
  from ba.encodesE [OF encodes_readFromFile ba_inv_ByteArray [OF assms(3)] refl, of ?d f]
  obtain b' where "readFromFile ?d (ByteArray f n) = (Inr (), b')" "ba_inv b'"
    "ba_content b' = blit (ba_content (ByteArray f n)) (m_position (ByteArray f n)) ?d" by blast
  then show "\<exists>b'. readFromFile ?d (ByteArray f n) = (Inr (), b') \<and> ba_inv b' \<and> ba_content b' = ?d"
    by (auto simp: ba_content_ByteArray pos blit_def)
qed

theorem file_round_trip_witness:
  "writeToFile (ByteArray (\<lambda>_. 0) 3) = Inr []"
  using file_round_trip [OF ba_inv_ByteArray [of 3 "\<lambda>_. 0"], of 2 "\<lambda>_. 0"]
  by (simp add: ba_content_ByteArray) (simp add: ByteArray_def)

text \<open>From inside a block the byte count of the first \<open>ofstream::write\<close> can be negative.\<close>

lemma writeToFile_unaligned:
  "(case ba_write [1, 2, 3, 4, 5] (ByteArray (\<lambda>_. 0) 4) of (_, b1) \<Rightarrow>
      case setPosition 3 b1 of (_, b2) \<Rightarrow> writeToFile b2) = Inl NegativeCount"
  by code_simp

end
