(* ===== verification/WebSocket_Correct.thy ===== *)
theory WebSocket_Correct
  imports WebSocket
begin

text \<open>
  The websocket sender and receiver against the frame format: what is sent is the frame of the
  message, the receiver reassembles fragmented messages from any cutting of the stream, answers
  pings, and a message that was sent is received unchanged.
\<close>

section \<open>The frame format\<close>

definition ws_ext :: "nat \<Rightarrow> nat \<times> bytes" where
  "ws_ext n = (if n < 126 then (n, []) else if n < 65536 then (126, rev (le_bytes 2 n))
     else (127, rev (le_bytes 8 n)))"

text \<open>
  A frame of opcode \<open>op\<close> with the payload \<open>d\<close>; the length is in network byte order.
\<close>

definition ws_frame :: "nat \<Rightarrow> bool \<Rightarrow> bool \<Rightarrow> bytes \<Rightarrow> bytes \<Rightarrow> bytes" where
  "ws_frame op final masked msk d =
     head_bytes (zero_head\<lparr>opcode := op, fin := final, mask_flag := masked, payload := fst (ws_ext (length d))\<rparr>)
     @ snd (ws_ext (length d)) @ (if masked then msk @ xor_mask msk d else d)"

lemma length_xor_mask [simp]: "length (xor_mask m d) = length d"
  by (simp add: xor_mask_def)

lemma xor_mask_twice: "xor_mask m (xor_mask m d) = d"
  by (rule nth_equalityI) (simp_all add: xor_mask_def xor.assoc)

lemma byteswap_image:
  "whole_bytes TYPE('a::len word) \<Longrightarrow>
   mem_image host (byteswapOnLittleEndian host (w :: 'a word)) = mem_image BigEndian w"
  by (cases host) (simp_all add: byteswapOnLittleEndian_def mem_image_byteswap mem_image_other_host)

lemma byteswap_load:
  assumes "whole_bytes TYPE('a::len word)"
  shows "byteswapOnLittleEndian host (mem_load host (mem_image BigEndian (w :: 'a word))) = w"
proof -
  have "mem_load host (mem_image BigEndian w) = byteswapOnLittleEndian host w"
    using mem_load_image [OF assms, of host "byteswapOnLittleEndian host w"]
    by (simp add: byteswap_image assms)
  then show ?thesis using assms by (cases host) (simp_all add: byteswapOnLittleEndian_def)
qed

lemma ext_image:
  "n < 2 ^ 16 \<Longrightarrow> mem_image host (byteswapOnLittleEndian host (word_of_nat n :: u16)) = rev (le_bytes 2 n)"
  "n < 2 ^ 64 \<Longrightarrow> mem_image host (byteswapOnLittleEndian host (word_of_nat n :: u64)) = rev (le_bytes 8 n)"
proof -
  assume "n < 2 ^ 16"
  then have "unat (word_of_nat n :: u16) = n" by (simp add: unat_of_nat)
  then show "mem_image host (byteswapOnLittleEndian host (word_of_nat n :: u16)) = rev (le_bytes 2 n)"
    by (simp only: byteswap_image [OF whole_bytes_simps(2)] mem_image_def [of BigEndian] Let_def
        endian.case nbytes_simps)
next
  assume "n < 2 ^ 64"
  then have "unat (word_of_nat n :: u64) = n" by (simp add: unat_of_nat)
  then show "mem_image host (byteswapOnLittleEndian host (word_of_nat n :: u64)) = rev (le_bytes 8 n)"
    by (simp only: byteswap_image [OF whole_bytes_simps(4)] mem_image_def [of BigEndian] Let_def
        endian.case nbytes_simps)
qed

lemma split128:
  fixes p :: nat
  assumes "p < 128"
  shows "(p + 128 * of_bool b) div 128 = of_bool b" "(p + 128 * of_bool b) mod 128 = p"
  using assms by (cases b; simp)+

lemma head_of_bytes:
  assumes "opcode h < 16" "payload h < 128"
  shows "head_of (head_bytes h) = h"
proof -
  define k where "k = of_bool (rsv3 h) + 2 * of_bool (rsv2 h) + 4 * of_bool (rsv1 h)
    + 8 * (of_bool (fin h) :: nat)"
  define a where "a = opcode h + 16 * k"
  have k: "k < 16" by (simp add: k_def of_bool_def)
  have a: "a < 256" "a mod 16 = opcode h" "a div 16 = k" using assms(1) k by (simp_all add: a_def)
  have d: "a div 32 = k div 2" "a div 64 = k div 4" "a div 128 = k div 8"
    using a(3) by (simp_all flip: a(3) div_mult2_eq)
  have "unat (word_of_nat a :: u8) = a" using a(1) by (simp add: unat_u8_of_nat)
  moreover have "opcode h mod 16 + 16 * of_bool (rsv3 h) + 32 * of_bool (rsv2 h)
        + 64 * of_bool (rsv1 h) + 128 * of_bool (fin h) = a"
    using assms(1) by (simp add: a_def k_def)
  ultimately have 0: "unat (head_bytes h ! 0) = a" by (simp add: head_bytes_def)
  have "payload h + 128 * of_bool (mask_flag h) < 256" using assms(2) by (simp add: of_bool_def)
  then have "unat (word_of_nat (payload h + 128 * of_bool (mask_flag h)) :: u8)
      = payload h + 128 * of_bool (mask_flag h)" by (simp only: unat_u8_of_nat mod_less)
  moreover have "payload h mod 128 = payload h" using assms(2) by simp
  ultimately have 1: "unat (head_bytes h ! 1) = payload h + 128 * of_bool (mask_flag h)"
    by (simp only: head_bytes_def nth_Cons_Suc One_nat_def nth_Cons_0)
  have "odd k = rsv3 h" "odd (k div 2) = rsv2 h" "odd (k div 4) = rsv1 h" "odd (k div 8) = fin h"
    by (cases "rsv3 h"; cases "rsv2 h"; cases "rsv1 h"; cases "fin h"; simp add: k_def)+
  note bits = this
  have pl: "odd ((payload h + 128 * of_bool (mask_flag h)) div 128) = mask_flag h"
    "(payload h + 128 * of_bool (mask_flag h)) mod 128 = payload h"
    by (simp_all only: split128 [OF assms(2)] odd_of_bool_self)
  show ?thesis
    unfolding head_of_def Let_def 0 1 a(2,3) d bits pl by simp
qed

lemma length_head_bytes [simp]: "length (head_bytes h) = 2"
  by (simp add: head_bytes_def)

lemma ws_ext_payload: "fst (ws_ext n) < 128"
  by (simp add: ws_ext_def)

section \<open>Sending\<close>

lemma write_pieces_ok:
  assumes "sock_up s" "\<forall>d \<in> set ds. d \<noteq> [] \<and> length d < 2 ^ 31"
  shows "\<exists>s'. write_pieces ds s = (True, s') \<and> sock_up s' \<and> s_out s' = s_out s @ concat ds
    \<and> sock_pending s' = sock_pending s"
  using assms
proof (induction ds arbitrary: s)
  case Nil
  then show ?case by simp
next
  case (Cons d ds)
  obtain s1 where s1: "writeFixSize_loop ss_write d s = (None, s1)" "sock_up s1"
    "sock_pending s1 = sock_pending s" "s_out s1 = s_out s @ d"
    using ss.writeFixSize_loop_ok [OF Cons.prems(1)] by blast
  then have w: "writeFixSize ss_write d s = (int (length d), s1)"
    using Cons.prems(2) by (simp add: writeFixSize_def to_int32_small)
  obtain s2 where "write_pieces ds s1 = (True, s2)" "sock_up s2" "s_out s2 = s_out s1 @ concat ds"
    "sock_pending s2 = sock_pending s1"
    using Cons.IH [OF s1(2)] Cons.prems(2) by auto
  with s1 w Cons.prems(2) show ?case by simp
qed

lemma WSSendMessage_sends:
  assumes "sock_up s" "m_data msg \<noteq> []" "length (m_data msg) + 2 < 2 ^ 31" "m_opcode msg < 16"
  shows "\<exists>msg' s'. WSSendMessage host rnd msg client final s = (int (length (m_data msg) + 2), msg', s')
    \<and> sock_up s'
    \<and> s_out s' = s_out s @ ws_frame (m_opcode msg) final client (mem_image host rnd) (m_data msg)
    \<and> m_data msg' = (if client then xor_mask (mem_image host rnd) (m_data msg) else m_data msg)"
proof -
  let ?n = "length (m_data msg)" and ?mask = "mem_image host rnd"
  define ext where "ext = (if ?n < 126 then [] else if ?n < 65536
      then [mem_image host (byteswapOnLittleEndian host (word_of_nat ?n :: u16))]
      else [mem_image host (byteswapOnLittleEndian host (word_of_nat ?n :: u64))])"
  define hb where "hb = head_bytes (zero_head\<lparr>opcode := m_opcode msg, fin := final,
      mask_flag := client, payload := fst (ws_ext ?n)\<rparr>)"
  define msg' where "msg' = (if client then msg\<lparr>m_data := xor_mask ?mask (m_data msg)\<rparr> else msg)"
  have "?n < 65536 \<Longrightarrow> ?n < 2 ^ 16" "?n < 2 ^ 64" using assms(3) by simp_all
  then have "concat ext = snd (ws_ext ?n)"
    unfolding ext_def ws_ext_def
    by (simp only: ext_image if_distrib [of concat] if_distrib [of snd] snd_conv concat.simps
        append_Nil2 cong: if_cong)
  moreover have "\<forall>d \<in> set ext. length d = 2 \<or> length d = 8"
    by (simp add: ext_def)
  ultimately have ext: "concat ext = snd (ws_ext ?n)" "\<forall>d \<in> set ext. d \<noteq> [] \<and> length d < 2 ^ 31"
    by auto
  have "\<forall>d \<in> set (hb # ext). d \<noteq> [] \<and> length d < 2 ^ 31"
    using ext(2) by (simp add: hb_def head_bytes_def)
  from write_pieces_ok [OF assms(1) this] obtain s1 where s1: "write_pieces (hb # ext) s = (True, s1)"
    "sock_up s1" "s_out s1 = s_out s @ concat (hb # ext)" by blast
  have "\<forall>d \<in> set ((if client then [?mask] else []) @ [m_data msg']). d \<noteq> [] \<and> length d < 2 ^ 31"
    using assms(2,3) length_mem_image [of host rnd] length_xor_mask [of ?mask "m_data msg"]
    by (auto simp: msg'_def simp del: length_mem_image length_xor_mask)
  from write_pieces_ok [OF s1(2) this] obtain s2 where s2:
    "write_pieces ((if client then [?mask] else []) @ [m_data msg']) s1 = (True, s2)" "sock_up s2"
    "s_out s2 = s_out s1 @ concat ((if client then [?mask] else []) @ [m_data msg'])" by blast
  have pl: "(if ?n < 126 then ?n else if ?n < 65536 then 126 else 127) = fst (ws_ext ?n)"
    by (simp add: ws_ext_def)
  have e: "ext = (if fst (ws_ext ?n) = 126 then [mem_image host (byteswapOnLittleEndian host (word_of_nat ?n :: u16))]
      else if fst (ws_ext ?n) = 127 then [mem_image host (byteswapOnLittleEndian host (word_of_nat ?n :: u64))]
      else [])"
    by (simp add: ext_def ws_ext_def)
  have hd: "hb = head_bytes (zero_head\<lparr>fin := final, opcode := m_opcode msg mod 16, mask_flag := client,
      payload := fst (ws_ext ?n)\<rparr>)"
    using assms(4) by (simp add: hb_def zero_head_def)
  have "WSSendMessage host rnd msg client final s = (to_int32 (?n + 2), msg', s2)"
    unfolding WSSendMessage_def Let_def pl e [symmetric] hd [symmetric] s1(1)
    by (simp add: s2(1) flip: msg'_def)
  moreover have "to_int32 (?n + 2) = int (?n + 2)" using assms(3) by (rule to_int32_small)
  moreover have "s_out s2 = s_out s @ ws_frame (m_opcode msg) final client ?mask (m_data msg)"
    using s1(3) s2(3) ext(1) by (simp add: ws_frame_def hb_def msg'_def)
  ultimately show ?thesis using s2(2) by (auto simp: msg'_def)
qed

text \<open>
  An empty message is written whole, but the fixed-size write of its payload of no bytes counts
  as a failure: the result is -1, and the stream is closed.
\<close>

lemma write_empty_piece: "write_pieces [[]] t = (False, t)"
  by (simp add: writeFixSize_def writeFixSize_loop.simps to_int32_small)

lemma WSSendMessage_empty:
  assumes "sock_up s" "m_data msg = []" "m_opcode msg < 16"
  shows "\<exists>s'. WSSendMessage host rnd msg client final s = (-1, msg, s') \<and> \<not> s_open s'
    \<and> s_out s' = s_out s @ ws_frame (m_opcode msg) final client (mem_image host rnd) []"
proof -
  let ?mask = "mem_image host rnd"
  define hb where "hb = head_bytes (zero_head\<lparr>fin := final, opcode := m_opcode msg mod 16, mask_flag := client, payload := 0\<rparr>)"
  have pieces: "\<forall>d \<in> set (hb # (if client then [?mask] else [])). d \<noteq> [] \<and> length d < 2 ^ 31"
    using length_mem_image [of host rnd]
    by (auto simp: hb_def head_bytes_def simp del: length_mem_image)
  have split: "write_pieces (xs @ ys) t = (case write_pieces xs t of (False, t1) \<Rightarrow> (False, t1) | (True, t1) \<Rightarrow> write_pieces ys t1)"
    for xs ys t by (induction xs arbitrary: t) (auto split: prod.splits)
  from write_pieces_ok [OF assms(1), of "[hb]"] pieces obtain s1 where s1:
    "write_pieces [hb] s = (True, s1)" "sock_up s1" "s_out s1 = s_out s @ hb" by auto
  from write_pieces_ok [OF s1(2), of "if client then [?mask] else []"] pieces obtain s2 where s2:
    "write_pieces (if client then [?mask] else []) s1 = (True, s2)"
    "s_out s2 = s_out s1 @ concat (if client then [?mask] else [])" by auto
  have same: "(if client then msg\<lparr>m_data := xor_mask ?mask (m_data msg)\<rparr> else msg) = msg"
    using assms(2) by (cases msg) (simp add: xor_mask_def)
  have "WSSendMessage host rnd msg client final s = (-1, msg, sock_close s2)"
    unfolding WSSendMessage_def Let_def same
    using assms(2) s1(1) by (simp add: split s2(1) write_empty_piece del: write_pieces.simps flip: hb_def)
  moreover have "s_out (sock_close s2) = s_out s @ ws_frame (m_opcode msg) final client ?mask []"
    using s1(3) s2(2) assms(3) by (simp add: sock_close_def ws_frame_def ws_ext_def hb_def zero_head_def xor_mask_def)
  ultimately show ?thesis by (auto simp: sock_close_def)
qed

text \<open>
  C31.  \<open>WSSendMessage\<close> puts exactly one frame on the wire, for every message: opcode, final flag,
  the shortest length form in network byte order on every host, for a client the mask and the
  masked payload.  It returns the payload length plus two and leaves the stream open, except for
  an empty message, of which the frame is sent, too, but -1 is returned and the stream is closed.
\<close>

theorem WSSendMessage_frame:
  assumes "sock_up s" "length (m_data msg) + 2 < 2 ^ 31" "m_opcode msg < 16"
  shows "\<exists>msg' s'. WSSendMessage host rnd msg client final s
      = (if m_data msg = [] then -1 else int (length (m_data msg) + 2), msg', s')
    \<and> (if m_data msg = [] then \<not> s_open s' else sock_up s')
    \<and> s_out s' = s_out s @ ws_frame (m_opcode msg) final client (mem_image host rnd) (m_data msg)
    \<and> m_data msg' = (if client then xor_mask (mem_image host rnd) (m_data msg) else m_data msg)"
proof (cases "m_data msg = []")
  case True
  with WSSendMessage_empty [OF assms(1) True assms(3), of host rnd client final] show ?thesis
    by (auto simp: xor_mask_def)
next
  case False
  with WSSendMessage_sends [OF assms(1) False assms(2,3), of host rnd client final] show ?thesis by simp
qed

theorem WSSendMessage_frame_witness:
  "\<exists>s'. WSSendMessage LittleEndian 0 \<lparr>m_opcode = TEXT_FRAME, m_data = [104, 105]\<rparr> False True
      \<lparr>s_in = [], s_accept = [1], s_out = [], s_open = True\<rparr>
    = (4, \<lparr>m_opcode = TEXT_FRAME, m_data = [104, 105]\<rparr>, s') \<and> s_out s' = [129, 2, 104, 105]"
proof -
  let ?s = "\<lparr>s_in = [], s_accept = [1], s_out = [], s_open = True\<rparr>"
  let ?m = "\<lparr>m_opcode = TEXT_FRAME, m_data = [104, 105]\<rparr>"
  have "sock_up ?s" by (simp add: sock_up_def)
  from WSSendMessage_frame [OF this, of ?m LittleEndian 0 False True] obtain msg' s' where
    "WSSendMessage LittleEndian 0 ?m False True ?s = (4, msg', s')"
    "s_out s' = ws_frame 1 True False (mem_image LittleEndian (0 :: u32)) [104, 105]"
    by (auto simp: TEXT_FRAME_def)
  moreover from this have "msg' = ?m"
    by (auto simp: WSSendMessage_def Let_def split: prod.splits bool.splits)
  ultimately show ?thesis by (auto simp: ws_frame_def ws_ext_def head_bytes_def zero_head_def)
qed

section \<open>Receiving\<close>

lemma two_lt: "(2 :: nat) < 2 ^ 31" "(4 :: nat) < 2 ^ 31" "(8 :: nat) < 2 ^ 31"
  by simp_all

lemma read_pending:
  assumes "sock_up s" "sock_pending s = xs @ ys" "length xs = n" "n < 2 ^ 31"
  obtains s' where "readFixSize ss_read n s = ((int n, xs), s')" "sock_up s'"
    "sock_pending s' = ys" "s_out s' = s_out s"
  using ss.readFixSize_ok [OF assms(1), of n] assms(2-4) by auto

lemma recv_length_ok:
  assumes "sock_up s" "payload h = fst (ws_ext n)" "sock_pending s = snd (ws_ext n) @ rest" "n < 2 ^ 64"
  shows "\<exists>s'. recv_length host h s = (Some n, s') \<and> sock_up s' \<and> sock_pending s' = rest
    \<and> s_out s' = s_out s"
proof -
  consider (small) "n < 126" | (mid) "126 \<le> n" "n < 2 ^ 16" | (big) "2 ^ 16 \<le> n" by linarith
  then show ?thesis
  proof cases
    case small
    then show ?thesis using assms by (simp add: recv_length_def ws_ext_def)
  next
    case mid
    let ?bs = "rev (le_bytes 2 n)"
    have pend: "sock_pending s = ?bs @ rest" and pl: "payload h = 126"
      using assms mid by (simp_all only: ws_ext_def) auto
    from read_pending [OF assms(1) pend, of 2] obtain s' where
      s': "readFixSize ss_read 2 s = ((int 2, ?bs), s')" "sock_up s'" "sock_pending s' = rest"
        "s_out s' = s_out s" by (metis length_rev length_le_bytes two_lt)
    have u: "unat (word_of_nat n :: u16) = n" using mid by (simp add: unat_of_nat)
    have "?bs = mem_image BigEndian (word_of_nat n :: u16)"
      by (simp only: mem_image_def Let_def endian.case nbytes_simps u)
    then have "unat (byteswapOnLittleEndian host (mem_load host ?bs :: u16)) = n"
      by (simp only: byteswap_load [OF whole_bytes_simps(2)] u)
    moreover have "(126 = (126 :: nat)) = True" "(int 2 \<le> 0) = False" by simp_all
    ultimately have "recv_length host h s = (Some n, s')"
      by (simp only: recv_length_def pl s'(1) prod.case if_True if_False)
    then show ?thesis using s'(2-4) by blast
  next
    case big
    let ?bs = "rev (le_bytes 8 n)"
    have pend: "sock_pending s = ?bs @ rest" and pl: "payload h = 127"
      using assms big by (simp_all only: ws_ext_def) auto
    from read_pending [OF assms(1) pend, of 8] obtain s' where
      s': "readFixSize ss_read 8 s = ((int 8, ?bs), s')" "sock_up s'" "sock_pending s' = rest"
        "s_out s' = s_out s" by (metis length_rev length_le_bytes two_lt)
    have u: "unat (word_of_nat n :: u64) = n" using assms(4) by (simp add: unat_of_nat)
    have "?bs = mem_image BigEndian (word_of_nat n :: u64)"
      by (simp only: mem_image_def Let_def endian.case nbytes_simps u)
    then have "unat (byteswapOnLittleEndian host (mem_load host ?bs :: u64)) = n"
      by (simp only: byteswap_load [OF whole_bytes_simps(4)] u)
    moreover have "(127 = (126 :: nat)) = False" "(127 = (127 :: nat)) = True" "(int 8 \<le> 0) = False"
      by simp_all
    ultimately have "recv_length host h s = (Some n, s')"
      by (simp only: recv_length_def pl s'(1) prod.case if_True if_False)
    then show ?thesis using s'(2-4) by blast
  qed
qed

lemma recv_data_frame_run:
  assumes "client \<or> mask_flag h" "recv_length host h s = (Some n, s1)"
    "\<not> max_size \<le> (cur + n) mod 2 ^ 64"
    "(if mask_flag h then readFixSize ss_read 4 s1 else ((1, [0, 0, 0, 0]), s1)) = ((r, m), s2)" "0 < r"
    "readFixSize ss_read n s2 = ((r', dd), s3)" "0 < r'"
  shows "recv_data_frame host client max_size cur h s = (Inr (if mask_flag h then xor_mask m dd else dd), s3)"
  using assms by (simp add: recv_data_frame_def)

lemma recv_data_frame_ok:
  assumes up: "sock_up s" and acc: "client \<or> masked" and msk: "length msk = 4"
    and d: "d \<noteq> []" "cur + length d < max_size" "max_size \<le> 2 ^ 31"
    and h: "payload h = fst (ws_ext (length d))" "mask_flag h = masked"
    and pend: "sock_pending s = snd (ws_ext (length d)) @ (if masked then msk @ xor_mask msk d else d) @ rest"
  shows "\<exists>s'. recv_data_frame host client max_size cur h s = (Inr d, s') \<and> sock_up s'
    \<and> sock_pending s' = rest \<and> s_out s' = s_out s"
proof -
  have n: "length d < 2 ^ 64" "length d < 2 ^ 31" using d by simp_all
  obtain s1 where s1: "recv_length host h s = (Some (length d), s1)" "sock_up s1"
    "sock_pending s1 = (if masked then msk @ xor_mask msk d else d) @ rest" "s_out s1 = s_out s"
    using recv_length_ok [OF up h(1) pend n(1)] by blast
  have lim: "\<not> max_size \<le> (cur + length d) mod 2 ^ 64" using d(2,3) by simp
  let ?d = "if masked then xor_mask msk d else d"
  obtain r m s2 where s2: "(if mask_flag h then readFixSize ss_read 4 s1 else ((1, [0, 0, 0, 0]), s1))
      = ((r, m), s2)" "0 < r" "masked \<longrightarrow> m = msk" "sock_up s2" "sock_pending s2 = ?d @ rest"
    "s_out s2 = s_out s"
  proof (cases masked)
    case True
    then have "sock_pending s1 = msk @ xor_mask msk d @ rest" using s1(3) by simp
    from read_pending [OF s1(2) this msk two_lt(2)] obtain t where
      "readFixSize ss_read 4 s1 = ((int 4, msk), t)" "sock_up t"
      "sock_pending t = xor_mask msk d @ rest" "s_out t = s_out s1" .
    then show ?thesis using h(2) True s1(4) by (intro that [of "int 4" msk t]) simp_all
  next
    case False
    then show ?thesis using h(2) s1 by (intro that [of 1 "[0, 0, 0, 0]" s1]) simp_all
  qed
  have len: "length ?d = length d" by simp
  from read_pending [OF s2(4,5) len n(2)] obtain s3 where s3:
    "readFixSize ss_read (length d) s2 = ((int (length d), ?d), s3)" "sock_up s3"
    "sock_pending s3 = rest" "s_out s3 = s_out s2" .
  have unmask: "(if mask_flag h then xor_mask m ?d else ?d) = d"
    using h(2) s2(3) by (simp add: xor_mask_twice)
  have "client \<or> mask_flag h" "0 < int (length d)" using acc h(2) d(1) by auto
  from recv_data_frame_run [OF this(1) s1(1) lim s2(1,2) s3(1) this(2)]
  have "recv_data_frame host client max_size cur h s = (Inr d, s3)" unfolding unmask .
  then show ?thesis using s3(2-4) s2(6) by (intro exI [of _ s3]) simp
qed

lemma WSRecv_frame_step:
  assumes up: "sock_up s" and acc: "client \<or> masked" and msk: "length msk = 4"
    and d: "d \<noteq> []" "length data + length d < max_size" "max_size \<le> 2 ^ 31"
    and op: "op' = CONTINUE \<or> op' = TEXT_FRAME \<or> op' = BIN_FRAME"
    and pend: "sock_pending s = ws_frame op' final masked msk d @ rest"
  shows "\<exists>s'. sock_up s' \<and> sock_pending s' = rest \<and> s_out s' = s_out s
    \<and> WSRecvMessage_loop host client max_size op data s
      = (let nop = (if op = 0 \<and> op' \<noteq> CONTINUE then op' else op) in
         if final then (Some \<lparr>m_opcode = nop, m_data = data @ d\<rparr>, s')
         else WSRecvMessage_loop host client max_size nop (data @ d) s')"
proof -
  define h where "h = zero_head\<lparr>opcode := op', fin := final, mask_flag := masked,
    payload := fst (ws_ext (length d))\<rparr>"
  have fields: "opcode h = op'" "fin h = final" "mask_flag h = masked"
    "payload h = fst (ws_ext (length d))" by (simp_all add: h_def)
  have h: "head_of (head_bytes h) = h"
    using op by (intro head_of_bytes) (auto simp: opcode_defs ws_ext_payload fields)
  have "sock_pending s = head_bytes h @ snd (ws_ext (length d))
      @ (if masked then msk @ xor_mask msk d else d) @ rest"
    using pend by (simp add: ws_frame_def h_def)
  from read_pending [OF up this length_head_bytes two_lt(1)] obtain s1 where s1:
    "readFixSize ss_read 2 s = ((int 2, head_bytes h), s1)" "sock_up s1"
    "sock_pending s1 = snd (ws_ext (length d)) @ (if masked then msk @ xor_mask msk d else d) @ rest"
    "s_out s1 = s_out s" .
  from recv_data_frame_ok [OF s1(2) acc msk d fields(4,3) s1(3)] obtain s2 where s2:
    "recv_data_frame host client max_size (length data) h s1 = (Inr d, s2)" "sock_up s2"
    "sock_pending s2 = rest" "s_out s2 = s_out s1" by blast
  have flags: "(int 2 \<le> 0) = False" "(op' = PING) = False" "(op' = PONG) = False"
    "(op' = CONTINUE \<or> op' = TEXT_FRAME \<or> op' = BIN_FRAME) = True"
    using op by (auto simp: opcode_defs)
  have "WSRecvMessage_loop host client max_size op data s
      = (let nop = (if op = 0 \<and> op' \<noteq> CONTINUE then op' else op) in
         if final then (Some \<lparr>m_opcode = nop, m_data = data @ d\<rparr>, s2)
         else WSRecvMessage_loop host client max_size nop (data @ d) s2)"
    by (subst WSRecvMessage_loop.simps)
      (simp only: s1(1) prod.case h Let_def flags fields s2(1) if_False if_True sum.case)
  then show ?thesis using s2 s1(4) by auto
qed

text \<open>A message cut into fragments: the first frame has the opcode, the last the final flag.\<close>

fun ws_frames :: "nat \<Rightarrow> bool \<Rightarrow> (bytes \<times> bytes) list \<Rightarrow> bytes" where
  "ws_frames op masked [] = []"
| "ws_frames op masked [(m, d)] = ws_frame op True masked m d"
| "ws_frames op masked ((m, d) # f # fs) = ws_frame op False masked m d @ ws_frames CONTINUE masked (f # fs)"

lemma WSRecv_frames:
  assumes "sock_up s" "client \<or> masked" "fs \<noteq> []" "\<forall>(m, d) \<in> set fs. length m = 4 \<and> d \<noteq> []"
    "length data + length (concat (map snd fs)) < max_size" "max_size \<le> 2 ^ 31"
    "op' = CONTINUE \<or> op' = TEXT_FRAME \<or> op' = BIN_FRAME"
    "sock_pending s = ws_frames op' masked fs @ rest"
  shows "\<exists>s'. WSRecvMessage_loop host client max_size op data s
      = (Some \<lparr>m_opcode = (if op = 0 then op' else op), m_data = data @ concat (map snd fs)\<rparr>, s')
    \<and> sock_up s' \<and> sock_pending s' = rest \<and> s_out s' = s_out s"
  using assms
proof (induction fs arbitrary: s op op' data)
  case Nil
  then show ?case by simp
next
  case (Cons f fs)
  obtain m d where f: "f = (m, d)" by fastforce
  have md: "length m = 4" "d \<noteq> []" "length data + length d < max_size" using Cons.prems f by auto
  have zero: "CONTINUE = 0" by (simp add: CONTINUE_def)
  show ?case
  proof (cases fs)
    case Nil
    then have "sock_pending s = ws_frame op' True masked m d @ rest" using Cons.prems f by simp
    from WSRecv_frame_step [OF Cons.prems(1,2) md Cons.prems(6,7) this, of host op] obtain s1 where
      "sock_up s1" "sock_pending s1 = rest" "s_out s1 = s_out s"
      "WSRecvMessage_loop host client max_size op data s
       = (Some \<lparr>m_opcode = (if op = 0 \<and> op' \<noteq> CONTINUE then op' else op), m_data = data @ d\<rparr>, s1)"
      by (auto simp: Let_def)
    then show ?thesis using Nil f zero by auto
  next
    case (Cons g gs)
    then have "sock_pending s = ws_frame op' False masked m d @ ws_frames CONTINUE masked fs @ rest"
      using Cons.prems f by simp
    from WSRecv_frame_step [OF Cons.prems(1,2) md Cons.prems(6,7) this, of host op] obtain s1 where s1:
      "sock_up s1" "sock_pending s1 = ws_frames CONTINUE masked fs @ rest" "s_out s1 = s_out s"
      "WSRecvMessage_loop host client max_size op data s = WSRecvMessage_loop host client max_size
         (if op = 0 \<and> op' \<noteq> CONTINUE then op' else op) (data @ d) s1"
      by (auto simp: Let_def)
    have "fs \<noteq> []" "\<forall>(m, d) \<in> set fs. length m = 4 \<and> d \<noteq> []"
      "length (data @ d) + length (concat (map snd fs)) < max_size"
      using Cons Cons.prems f by auto
    from Cons.IH [OF s1(1) Cons.prems(2) this Cons.prems(6) _ s1(2),
        of "if op = 0 \<and> op' \<noteq> CONTINUE then op' else op"] obtain s2 where
      "WSRecvMessage_loop host client max_size (if op = 0 \<and> op' \<noteq> CONTINUE then op' else op) (data @ d) s1
       = (Some \<lparr>m_opcode = (if (if op = 0 \<and> op' \<noteq> CONTINUE then op' else op) = 0 then CONTINUE
            else (if op = 0 \<and> op' \<noteq> CONTINUE then op' else op)),
          m_data = (data @ d) @ concat (map snd fs)\<rparr>, s2)"
      "sock_up s2" "sock_pending s2 = rest" "s_out s2 = s_out s1" by auto
    then show ?thesis using s1 f zero by auto
  qed
qed

lemma WSRecvMessage_receives:
  assumes "sock_up s" "client \<or> masked" "fs \<noteq> []" "\<forall>(m, d) \<in> set fs. length m = 4 \<and> d \<noteq> []"
    "length (concat (map snd fs)) < max_size" "max_size \<le> 2 ^ 31"
    "op = TEXT_FRAME \<or> op = BIN_FRAME" "sock_pending s = ws_frames op masked fs @ rest"
  shows "\<exists>s'. WSRecvMessage host client max_size s
      = (Some \<lparr>m_opcode = op, m_data = concat (map snd fs)\<rparr>, s')
    \<and> sock_up s' \<and> sock_pending s' = rest \<and> s_out s' = s_out s"
  using WSRecv_frames [of s client masked fs "[]" max_size op rest host 0] assms
  by (auto simp: WSRecvMessage_def)

text \<open>
  C35.  \<open>WSRecvMessage\<close> reassembles a text or binary message from any sequence of non-empty
  fragments, masked (or unmasked, at a client), however the stream is cut into reads: opcode of
  the first frame, payloads unmasked and in order, nothing consumed behind the final frame.
\<close>

theorem WSRecvMessage_fragments:
  assumes "sock_up s" "client \<or> masked" "fs \<noteq> []" "\<forall>(m, d) \<in> set fs. length m = 4 \<and> d \<noteq> []"
    "length (concat (map snd fs)) < max_size" "max_size \<le> 2 ^ 31"
    "op = TEXT_FRAME \<or> op = BIN_FRAME" "sock_pending s = ws_frames op masked fs @ rest"
  shows "\<exists>s'. WSRecvMessage host client max_size s
      = (Some \<lparr>m_opcode = op, m_data = concat (map snd fs)\<rparr>, s')
    \<and> sock_up s' \<and> sock_pending s' = rest \<and> s_out s' = s_out s"
  using assms by (rule WSRecvMessage_receives)

theorem WSRecvMessage_fragments_witness:
  "\<exists>s'. WSRecvMessage LittleEndian True 100 \<lparr>s_in = [RecvData [1, 1, 104, 128], RecvData [1, 105]],
      s_accept = [], s_out = [], s_open = True\<rparr>
    = (Some \<lparr>m_opcode = 1, m_data = [104, 105]\<rparr>, s')"
proof -
  let ?s = "\<lparr>s_in = [RecvData [1, 1, 104, 128], RecvData [1, 105]], s_accept = [], s_out = [],
    s_open = True\<rparr>"
  let ?fs = "[([0, 0, 0, 0], [104]), ([0, 0, 0, 0], [105])]"
  have "sock_up ?s" by (simp add: sock_up_def)
  moreover have "sock_pending ?s = ws_frames TEXT_FRAME False ?fs @ []"
    by (simp add: sock_pending_def ws_frame_def ws_ext_def head_bytes_def zero_head_def opcode_defs)
  ultimately show ?thesis
    using WSRecvMessage_fragments [of ?s True False ?fs 100 TEXT_FRAME "[]" LittleEndian]
    by (auto simp: TEXT_FRAME_def)
qed

text \<open>The frame of an empty message is not received: the read of no payload bytes counts as a failure.\<close>

lemma WSRecvMessage_empty:
  assumes "sock_up s" "client \<or> masked" "length msk = 4" "0 < max_size" "max_size \<le> 2 ^ 31" "op = TEXT_FRAME \<or> op = BIN_FRAME"
    "sock_pending s = ws_frame op True masked msk [] @ rest"
  shows "\<exists>s'. WSRecvMessage host client max_size s = (None, s') \<and> \<not> s_open s'"
proof -
  define h where "h = zero_head\<lparr>opcode := op, fin := True, mask_flag := masked, payload := 0\<rparr>"
  have fields: "opcode h = op" "mask_flag h = masked" "payload h = 0" by (simp_all add: h_def)
  have h: "head_of (head_bytes h) = h"
    using assms(6) by (intro head_of_bytes) (auto simp: opcode_defs fields)
  have "sock_pending s = head_bytes h @ (if masked then msk else []) @ rest"
    using assms(7) by (simp add: ws_frame_def ws_ext_def h_def xor_mask_def)
  from read_pending [OF assms(1) this length_head_bytes two_lt(1)] obtain s1 where s1:
    "readFixSize ss_read 2 s = ((int 2, head_bytes h), s1)" "sock_up s1"
    "sock_pending s1 = (if masked then msk else []) @ rest" .
  obtain r m s2 where s2: "(if masked then readFixSize ss_read 4 s1 else ((1, [0, 0, 0, 0]), s1)) = ((r, m), s2)"
    "0 < r" "sock_up s2"
  proof (cases masked)
    case True
    then have "sock_pending s1 = msk @ rest" using s1(3) by simp
    from read_pending [OF s1(2) this assms(3) two_lt(2)] obtain t where
      "readFixSize ss_read 4 s1 = ((int 4, msk), t)" "sock_up t" .
    then show ?thesis using True by (intro that [of "int 4" msk t]) simp_all
  next
    case False
    then show ?thesis using s1 by (intro that [of 1 "[0, 0, 0, 0]" s1]) simp_all
  qed
  from read_pending [OF s2(3), of "[]" _ 0] obtain s3 where s3: "readFixSize ss_read 0 s2 = ((int 0, []), s3)" by auto
  have len: "recv_length host h s1 = (Some 0, s1)" by (simp add: recv_length_def fields)
  have "recv_data_frame host client max_size 0 h s1 = (Inl (), s3)"
    using assms(2,4) s2(1,2) s3 by (auto simp: recv_data_frame_def len fields)
  moreover have "(int 2 \<le> 0) = False" "(op = PING) = False" "(op = PONG) = False"
    "(op = CONTINUE \<or> op = TEXT_FRAME \<or> op = BIN_FRAME) = True"
    using assms(6) by (auto simp: opcode_defs)
  ultimately have "WSRecvMessage host client max_size s = (None, sock_close s3)"
    unfolding WSRecvMessage_def
    by (subst WSRecvMessage_loop.simps)
      (simp only: s1(1) prod.case h Let_def fields if_False if_True sum.case list.size)
  then show ?thesis by (simp add: sock_close_def)
qed

text \<open>
  C39.  A message sent by a client arrives at the server as it was, and one sent by the server
  at the client: the receiver of the bytes that \<open>WSSendMessage\<close> put on the wire returns the
  opcode and the data, on hosts of any byte order and for any mask.  The exception is the empty
  message: sending it returns -1 and closes the sender's stream, and the receiver of its frame
  returns no message and closes its stream.
\<close>

theorem ws_message_round_trip:
  assumes "sock_up s" "length (m_data msg) < max_size" "max_size \<le> 2 ^ 31 - 2"
    "m_opcode msg = TEXT_FRAME \<or> m_opcode msg = BIN_FRAME"
    "WSSendMessage h1 rnd msg from_client True s = (r, msg', s')"
    "sock_up t" "sock_pending t = drop (length (s_out s)) (s_out s') @ rest"
  shows "\<exists>t'. if m_data msg = []
    then r = -1 \<and> \<not> s_open s' \<and> WSRecvMessage h2 (\<not> from_client) max_size t = (None, t') \<and> \<not> s_open t'
    else r = int (length (m_data msg) + 2) \<and> WSRecvMessage h2 (\<not> from_client) max_size t = (Some msg, t')
      \<and> sock_pending t' = rest"
proof -
  have op: "m_opcode msg < 16" "length (m_data msg) + 2 < 2 ^ 31" using assms(2-4) by (auto simp: opcode_defs)
  show ?thesis
  proof (cases "m_data msg = []")
    case True
    from WSSendMessage_empty [OF assms(1) True op(1), of h1 rnd from_client True] assms(5)
    have s: "r = -1" "\<not> s_open s'" "s_out s' = s_out s @ ws_frame (m_opcode msg) True from_client (mem_image h1 rnd) []"
      by auto
    then have "sock_pending t = ws_frame (m_opcode msg) True from_client (mem_image h1 rnd) [] @ rest"
      using assms(7) by simp
    from WSRecvMessage_empty [OF assms(6) _ _ _ _ assms(4) this, of "\<not> from_client" max_size h2] s True assms(2,3)
    show ?thesis by auto
  next
    case False
    from WSSendMessage_sends [OF assms(1) False op(2,1), of h1 rnd from_client True] assms(5)
    have s: "r = int (length (m_data msg) + 2)"
      "s_out s' = s_out s @ ws_frames (m_opcode msg) from_client [(mem_image h1 rnd, m_data msg)]" by auto
    then have "sock_pending t = ws_frames (m_opcode msg) from_client [(mem_image h1 rnd, m_data msg)] @ rest"
      using assms(7) by simp
    from WSRecvMessage_receives [OF assms(6) _ _ _ _ _ assms(4) this, of "\<not> from_client" max_size h2]
    show ?thesis using False assms(2,3) s(1) by (cases msg) auto
  qed
qed

theorem ws_message_round_trip_witness:
  "\<exists>r m' s'. WSSendMessage LittleEndian 77 \<lparr>m_opcode = TEXT_FRAME, m_data = [104, 105]\<rparr> True True
      \<lparr>s_in = [], s_accept = [], s_out = [], s_open = True\<rparr> = (r, m', s')
    \<and> fst (WSRecvMessage BigEndian False 100
        \<lparr>s_in = [RecvData (s_out s')], s_accept = [], s_out = [], s_open = True\<rparr>)
      = Some \<lparr>m_opcode = TEXT_FRAME, m_data = [104, 105]\<rparr>"
proof -
  let ?s = "\<lparr>s_in = [], s_accept = [], s_out = [], s_open = True\<rparr>"
  let ?m = "\<lparr>m_opcode = TEXT_FRAME, m_data = [104, 105]\<rparr>"
  have up: "sock_up ?s" by (simp add: sock_up_def)
  from WSSendMessage_sends [OF up, of ?m LittleEndian 77 True True] obtain m' s' where
    send: "WSSendMessage LittleEndian 77 ?m True True ?s = (4, m', s')" and out: "s_out s' \<noteq> []"
    by (auto simp: opcode_defs ws_frame_def head_bytes_def)
  let ?t = "\<lparr>s_in = [RecvData (s_out s')], s_accept = [], s_out = [], s_open = True\<rparr>"
  have "sock_up ?t" using out by (simp add: sock_up_def)
  from ws_message_round_trip [OF up _ _ _ send this, of 100 "[]" BigEndian] send
  show ?thesis by (auto simp: sock_pending_def)
qed

text \<open>
  A ping without payload between frames is answered by exactly one pong and a pong is
  skipped; neither disturbs the message under assembly.
\<close>

theorem WSRecvMessage_control:
  assumes "sock_up s"
    "sock_pending s = head_bytes (zero_head\<lparr>fin := True, opcode := op', mask_flag := m\<rparr>) @ rest"
    "op' = PING \<or> op' = PONG"
  shows "\<exists>s'. WSRecvMessage_loop host client max_size op data s
      = WSRecvMessage_loop host client max_size op data s'
    \<and> sock_up s' \<and> sock_pending s' = rest
    \<and> s_out s' = s_out s @ (if op' = PING then head_bytes (zero_head\<lparr>fin := True, opcode := PONG\<rparr>) else [])"
proof -
  define h where "h = zero_head\<lparr>fin := True, opcode := op', mask_flag := m\<rparr>"
  have op: "opcode h = op'" by (simp add: h_def)
  have h: "head_of (head_bytes h) = h"
    using assms(3) by (intro head_of_bytes) (auto simp: opcode_defs zero_head_def h_def)
  from read_pending [OF assms(1,2) [folded h_def] length_head_bytes two_lt(1)] obtain s1 where s1:
    "readFixSize ss_read 2 s = ((int 2, head_bytes h), s1)" "sock_up s1" "sock_pending s1 = rest"
    "s_out s1 = s_out s" .
  have flags: "(int 2 \<le> 0) = False" "(PONG = PING) = False" by (simp_all add: opcode_defs)
  show ?thesis
  proof (cases "op' = PING")
    case True
    let ?p = "head_bytes (zero_head\<lparr>fin := True, opcode := PONG\<rparr>)"
    obtain s2 where s2: "writeFixSize_loop ss_write ?p s1 = (None, s2)" "sock_up s2"
      "sock_pending s2 = rest" "s_out s2 = s_out s @ ?p"
      using ss.writeFixSize_loop_ok [OF s1(2), of ?p] s1(3,4) by auto
    then have pong: "WSPong s1 = (int 2, s2)"
      by (simp add: WSPong_def send_control_def writeFixSize_def to_int32_small)
    have "WSRecvMessage_loop host client max_size op data s
        = WSRecvMessage_loop host client max_size op data s2"
      by (subst WSRecvMessage_loop.simps)
        (simp only: s1(1) prod.case h Let_def op True pong flags if_True if_False simp_thms)
    then show ?thesis using s2 True by auto
  next
    case False
    with assms(3) have pong: "op' = PONG" by simp
    have "WSRecvMessage_loop host client max_size op data s
        = WSRecvMessage_loop host client max_size op data s1"
      by (subst WSRecvMessage_loop.simps)
        (simp only: s1(1) prod.case h Let_def op pong flags if_True if_False simp_thms)
    then show ?thesis using s1 False by auto
  qed
qed

theorem WSRecvMessage_control_witness:
  "\<exists>s'. WSRecvMessage_loop BigEndian True 9 0 [] \<lparr>s_in = [RecvData [137, 0]], s_accept = [], s_out = [],
      s_open = True\<rparr> = WSRecvMessage_loop BigEndian True 9 0 [] s' \<and> s_out s' = [138, 0]"
proof -
  let ?s = "\<lparr>s_in = [RecvData [137, 0]], s_accept = [], s_out = [], s_open = True\<rparr>"
  have "sock_up ?s" by (simp add: sock_up_def)
  moreover have "sock_pending ?s = head_bytes (zero_head\<lparr>fin := True, opcode := PING, mask_flag := False\<rparr>) @ []"
    by (simp add: sock_pending_def head_bytes_def zero_head_def opcode_defs)
  ultimately obtain s' where "WSRecvMessage_loop BigEndian True 9 0 [] ?s
      = WSRecvMessage_loop BigEndian True 9 0 [] s'"
    "s_out s' = s_out ?s @ head_bytes (zero_head\<lparr>fin := True, opcode := PONG\<rparr>)"
    using WSRecvMessage_control [where s = ?s and op' = PING and m = False and rest = "[]"
        and host = BigEndian and client = True and max_size = 9 and op = 0 and data = "[]"] by auto
  then show ?thesis by (auto simp: head_bytes_def zero_head_def opcode_defs)
qed

end
