(* ===== verification/Timer_Manager_Correct.thy ===== *)
theory Timer_Manager_Correct
  imports Timer_Manager
begin

text \<open>
  The invariant of the timer set and its properties: it stays ordered by time, holds every timer
  that can still fire, and what has expired is delivered in the order of the times.
\<close>

section \<open>Ordered sets over a strict order\<close>

text \<open>
  What \<open>std::set\<close> relies on: its comparison is a strict total order on the elements.  The facts
  below are proved once from that contract.
\<close>

locale strict_order =
  fixes less :: "'a \<Rightarrow> 'a \<Rightarrow> bool"
  assumes irrefl: "\<not> less a a"
    and trans: "less a b \<Longrightarrow> less b c \<Longrightarrow> less a c"
    and total: "a \<noteq> b \<Longrightarrow> less a b \<or> less b a"
begin

lemma sorted_distinct: "sorted_wrt less xs \<Longrightarrow> distinct xs"
  using irrefl by (induction xs) auto

lemma sorted_filter: "sorted_wrt less xs \<Longrightarrow> sorted_wrt less (filter P xs)"
  by (rule sorted_wrt_filter)

lemma downward_takeWhile:
  assumes "sorted_wrt less xs" "\<And>a b. less a b \<Longrightarrow> P b \<Longrightarrow> P a"
  shows "takeWhile P xs = filter P xs"
  using assms
proof (induction xs)
  case (Cons x xs)
  have "filter P xs = []" if "\<not> P x"
    using Cons.prems that by (auto simp: filter_empty_conv)
  with Cons show ?case by simp
qed simp

end

definition timer_less :: "(addr \<Rightarrow> u64) \<Rightarrow> addr \<Rightarrow> addr \<Rightarrow> bool" where
  "timer_less nx a b = Comparator (nx a) a (nx b) b"

lemma timer_less_iff: "timer_less nx a b \<longleftrightarrow> nx a < nx b \<or> nx a = nx b \<and> a < b"
  by (auto simp: timer_less_def Comparator_def)

interpretation tl: strict_order "timer_less nx"
  by unfold_locales (auto simp: timer_less_iff)

lemma set_set_insert: "a \<notin> set ts \<Longrightarrow> set (set_insert nx a ts) = insert a (set ts)"
proof (induction nx a ts rule: set_insert.induct)
  case (2 nx a b bs)
  then have "timer_less nx a b \<or> timer_less nx b a" using tl.total by auto
  with 2 show ?case by (auto simp: timer_less_def)
qed simp

lemma sorted_set_insert:
  "sorted_wrt (timer_less nx) ts \<Longrightarrow> a \<notin> set ts \<Longrightarrow> sorted_wrt (timer_less nx) (set_insert nx a ts)"
proof (induction nx a ts rule: set_insert.induct)
  case (2 nx a b bs)
  show ?case
  proof (cases "timer_less nx a b")
    case True
    with 2 tl.trans show ?thesis by (fastforce simp: timer_less_def)
  next
    case False
    with 2 have ba: "timer_less nx b a" using tl.total by auto
    with 2 False show ?thesis by (auto simp: timer_less_def [symmetric] set_set_insert)
  qed
qed simp

lemma set_insert_nonempty [simp]: "set_insert nx a ts \<noteq> []"
  by (cases ts) auto

lemma set_insert_cong:
  "(\<And>b. b \<in> insert a (set ts) \<Longrightarrow> nx b = ny b) \<Longrightarrow> set_insert nx a ts = set_insert ny a ts"
  by (induction nx a ts rule: set_insert.induct) auto

lemma sorted_timer_cong:
  "(\<And>b. b \<in> set ts \<Longrightarrow> nx b = ny b) \<Longrightarrow> sorted_wrt (timer_less nx) ts = sorted_wrt (timer_less ny) ts"
  by (induction ts) (auto simp: timer_less_iff)

section \<open>The invariant\<close>

definition armed :: "'c TimerManager \<Rightarrow> addr \<Rightarrow> bool" where
  "armed m a \<longleftrightarrow> (\<exists>t. heap m a = Some t \<and> t_cb t \<noteq> None)"

definition tm_inv :: "'c TimerManager \<Rightarrow> bool" where
  "tm_inv m \<longleftrightarrow> sorted_wrt (timer_less (next_of m)) (m_timers m)
     \<and> (\<forall>a \<in> set (m_timers m). heap m a \<noteq> None) \<and> (\<forall>a. armed m a \<longrightarrow> a \<in> set (m_timers m))"

lemma tm_invI:
  "sorted_wrt (timer_less (next_of m)) (m_timers m) \<Longrightarrow> (\<And>a. a \<in> set (m_timers m) \<Longrightarrow> heap m a \<noteq> None)
    \<Longrightarrow> (\<And>a. armed m a \<Longrightarrow> a \<in> set (m_timers m)) \<Longrightarrow> tm_inv m"
  by (simp add: tm_inv_def)

lemma next_of_upd: "next_of (m\<lparr>heap := (heap m)(a \<mapsto> t)\<rparr>) = (next_of m)(a := t_next t)"
  by (auto simp: next_of_def)

lemma next_of_timers [simp]:
  "next_of (m\<lparr>m_timers := ts\<rparr>) = next_of m" "next_of (m\<lparr>m_tickled := b\<rparr>) = next_of m"
  "next_of (m\<lparr>m_previouseTime := p\<rparr>) = next_of m"
  by (auto simp: next_of_def)

lemma sorted_upd_other:
  "a \<notin> set ts \<Longrightarrow> sorted_wrt (timer_less (f(a := v))) ts = sorted_wrt (timer_less f) ts"
  by (rule sorted_timer_cong) auto

text \<open>Putting a timer that is not in the set at its place.\<close>

lemma rearm_inv:
  assumes "sorted_wrt (timer_less (next_of m)) ts" "a \<notin> set ts"
    and "\<forall>b \<in> set ts. heap m b \<noteq> None" "\<And>b. armed m b \<Longrightarrow> b \<noteq> a \<Longrightarrow> b \<in> set ts"
  shows "tm_inv (m\<lparr>heap := (heap m)(a \<mapsto> t), m_timers := set_insert ((next_of m)(a := t_next t)) a ts\<rparr>)"
    (is "tm_inv ?m")
proof (rule tm_invI)
  have "next_of ?m = (next_of m)(a := t_next t)" by (auto simp: next_of_def)
  then show "sorted_wrt (timer_less (next_of ?m)) (m_timers ?m)"
    using assms(1,2) by (simp add: sorted_set_insert sorted_upd_other)
qed (use assms in \<open>auto simp: set_set_insert armed_def split: if_splits\<close>)

lemma insert_timer_inv:
  assumes "sorted_wrt (timer_less (next_of m)) (m_timers m)" "a \<notin> set (m_timers m)"
    and "\<forall>b \<in> set (m_timers m). heap m b \<noteq> None" "\<And>b. armed m b \<Longrightarrow> b \<noteq> a \<Longrightarrow> b \<in> set (m_timers m)"
    and "heap m a = Some t" "insert_timer a m = (f, m')"
  shows "tm_inv m'" "set (m_timers m') = insert a (set (m_timers m))" "heap m' = heap m"
proof -
  have upd: "(heap m)(a \<mapsto> t) = heap m" "(next_of m)(a := t_next t) = next_of m"
    using assms(5) by (auto simp: next_of_def fun_eq_iff)
  have "tm_inv (m\<lparr>m_timers := set_insert (next_of m) a (m_timers m)\<rparr>)"
    using rearm_inv [OF assms(1-4), of t] by (simp add: upd)
  with assms(6) show "tm_inv m'"
    by (auto simp: insert_timer_def Let_def tm_inv_def armed_def)
qed (use assms in \<open>auto simp: insert_timer_def Let_def set_set_insert\<close>)

lemma tm_inv_sorted: "tm_inv m \<Longrightarrow> sorted_wrt (timer_less (next_of m)) (m_timers m)"
  by (simp add: tm_inv_def)

lemma tm_inv_new: "tm_inv (new_TimerManager now)"
  by (simp add: tm_inv_def new_TimerManager_def armed_def)

lemma addTimer_inv:
  assumes "tm_inv m" "a \<notin> set (m_timers m)" "addTimer now a ms cb rec m = (f, m')"
  shows "tm_inv m'" "set (m_timers m') = insert a (set (m_timers m))"
    "heap m' = (heap m)(a \<mapsto> new_Timer now ms cb rec)"
proof -
  let ?m = "m\<lparr>heap := (heap m)(a \<mapsto> new_Timer now ms cb rec)\<rparr>"
  have pre: "sorted_wrt (timer_less (next_of ?m)) (m_timers ?m)" "a \<notin> set (m_timers ?m)"
    "\<forall>b \<in> set (m_timers ?m). heap ?m b \<noteq> None" "heap ?m a = Some (new_Timer now ms cb rec)"
    using assms(1,2) by (simp_all add: next_of_upd sorted_upd_other tm_inv_def)
  have arm: "armed ?m b \<Longrightarrow> b \<noteq> a \<Longrightarrow> b \<in> set (m_timers ?m)" for b
    using assms(1) by (simp add: tm_inv_def armed_def)
  have ins: "insert_timer a ?m = (f, m')" using assms(3) by (simp add: addTimer_def)
  note put = insert_timer_inv [OF pre(1-3) arm pre(4) ins]
  show "tm_inv m'" "set (m_timers m') = insert a (set (m_timers m))"
    "heap m' = (heap m)(a \<mapsto> new_Timer now ms cb rec)"
    using put by simp_all
qed

lemma erase_facts:
  assumes "tm_inv m"
  shows "sorted_wrt (timer_less (next_of m)) (set_erase a (m_timers m))" "a \<notin> set (set_erase a (m_timers m))"
    "set (set_erase a (m_timers m)) = set (m_timers m) - {a}"
  using assms by (auto simp: set_erase_def tm_inv_def sorted_wrt_filter)

lemma cancel_inv:
  assumes "tm_inv m" "cancel a m = (r, m')"
  shows "tm_inv m'"
proof (cases "armed m a")
  case True
  then obtain t where t: "heap m a = Some t" "t_cb t \<noteq> None" by (auto simp: armed_def)
  let ?m = "m\<lparr>heap := (heap m)(a \<mapsto> t\<lparr>t_cb := None\<rparr>), m_timers := set_erase a (m_timers m)\<rparr>"
  have "next_of ?m = (next_of m)(a := t_next t)" by (auto simp: next_of_def)
  then have "sorted_wrt (timer_less (next_of ?m)) (m_timers ?m)"
    using erase_facts [OF assms(1), of a] by (simp add: sorted_upd_other)
  moreover have "m' = ?m" using assms(2) t by (auto simp: cancel_def)
  ultimately show ?thesis
    using erase_facts(3) [OF assms(1), of a] assms(1) by (auto simp: tm_inv_def armed_def split: if_splits)
next
  case False
  with assms show ?thesis by (auto simp: cancel_def armed_def split: option.splits)
qed

lemma refresh_inv:
  assumes "tm_inv m" "refresh now a m = (r, m')"
  shows "tm_inv m'"
proof (cases "\<exists>t. heap m a = Some t \<and> t_cb t \<noteq> None \<and> a \<in> set (m_timers m)")
  case True
  then obtain t where t: "heap m a = Some t" "t_cb t \<noteq> None" "a \<in> set (m_timers m)" by blast
  have "m' = m\<lparr>heap := (heap m)(a \<mapsto> t\<lparr>t_next := now + t_ms t\<rparr>),
      m_timers := set_insert ((next_of m)(a := now + t_ms t)) a (set_erase a (m_timers m))\<rparr>"
    using assms(2) t by (auto simp: refresh_def Let_def next_of_upd)
  then show ?thesis
    using rearm_inv [of m "set_erase a (m_timers m)" a "t\<lparr>t_next := now + t_ms t\<rparr>"]
      erase_facts [OF assms(1), of a] assms(1) by (auto simp: tm_inv_def)
next
  case False
  with assms show ?thesis by (auto simp: refresh_def split: option.splits if_splits)
qed

lemma reset_inv:
  assumes "tm_inv m" "reset now a ms fn m = (r, m')"
  shows "tm_inv m'"
proof (cases "\<exists>t. heap m a = Some t \<and> \<not> (ms = t_ms t \<and> \<not> fn) \<and> t_cb t \<noteq> None \<and> a \<in> set (m_timers m)")
  case True
  then obtain t where t: "heap m a = Some t" "\<not> (ms = t_ms t \<and> \<not> fn)" "t_cb t \<noteq> None"
    "a \<in> set (m_timers m)" by blast
  let ?t = "t\<lparr>t_ms := ms, t_next := (if fn then now else t_next t - t_ms t) + ms\<rparr>"
  let ?m = "m\<lparr>heap := (heap m)(a \<mapsto> ?t), m_timers := set_erase a (m_timers m)\<rparr>"
  obtain f where ins: "insert_timer a ?m = (f, m')"
    using assms(2) t by (auto simp: reset_def Let_def split: prod.splits)
  have nx: "next_of ?m = (next_of m)(a := t_next ?t)" by (auto simp: next_of_def)
  have pre: "sorted_wrt (timer_less (next_of ?m)) (m_timers ?m)" "a \<notin> set (m_timers ?m)"
    "\<forall>b \<in> set (m_timers ?m). heap ?m b \<noteq> None" "heap ?m a = Some ?t"
    using erase_facts [OF assms(1), of a] assms(1) unfolding nx
    by (simp_all add: sorted_upd_other tm_inv_def)
  have arm: "armed ?m b \<Longrightarrow> b \<noteq> a \<Longrightarrow> b \<in> set (m_timers ?m)" for b
    using erase_facts(3) [OF assms(1), of a] assms(1) by (simp add: tm_inv_def armed_def)
  show ?thesis by (rule insert_timer_inv(1) [OF pre(1-3) arm pre(4) ins])
next
  case False
  with assms show ?thesis by (auto simp: reset_def split: option.splits if_splits)
qed

section \<open>Delivery\<close>

definition rearmed :: "u64 \<Rightarrow> 'c Timer \<Rightarrow> 'c Timer" where
  "rearmed now t = (if t_recurring t then t\<lparr>t_next := now + t_ms t\<rparr> else t\<lparr>t_cb := None\<rparr>)"

definition cb_of :: "'c TimerManager \<Rightarrow> addr \<Rightarrow> 'c option" where
  "cb_of m a = (case heap m a of Some t \<Rightarrow> t_cb t | None \<Rightarrow> None)"

definition recurring :: "'c TimerManager \<Rightarrow> addr \<Rightarrow> bool" where
  "recurring m a \<longleftrightarrow> (\<exists>t. heap m a = Some t \<and> t_recurring t)"

lemma fire_step:
  assumes "heap m a = Some t" "a \<notin> set (m_timers m)" "sorted_wrt (timer_less (next_of m)) (m_timers m)"
  obtains m1 where "fire now (a # as) m = (t_cb t # fst (fire now as m1), snd (fire now as m1))"
    "heap m1 = (heap m)(a \<mapsto> rearmed now t)" "sorted_wrt (timer_less (next_of m1)) (m_timers m1)"
    "set (m_timers m1) = set (m_timers m) \<union> (if t_recurring t then {a} else {})"
proof (cases "t_recurring t")
  case True
  let ?m1 = "m\<lparr>heap := (heap m)(a \<mapsto> rearmed now t),
      m_timers := set_insert ((next_of m)(a := now + t_ms t)) a (m_timers m)\<rparr>"
  have "next_of ?m1 = (next_of m)(a := now + t_ms t)"
    using True by (auto simp: next_of_def rearmed_def)
  then show ?thesis using True assms
    by (intro that [of ?m1])
      (simp_all add: Let_def next_of_upd rearmed_def set_set_insert sorted_set_insert sorted_upd_other
        split: prod.splits)
next
  case False
  let ?m1 = "m\<lparr>heap := (heap m)(a \<mapsto> rearmed now t)\<rparr>"
  from False assms show ?thesis
    by (intro that [of ?m1])
      (simp_all add: next_of_upd sorted_upd_other rearmed_def split: prod.splits)
qed

lemma fire_spec:
  assumes "distinct as" "set as \<inter> set (m_timers m) = {}" "\<forall>a \<in> set as. heap m a \<noteq> None"
    and "sorted_wrt (timer_less (next_of m)) (m_timers m)" "fire now as m = (cbs, m')"
  shows "cbs = map (cb_of m) as \<and> sorted_wrt (timer_less (next_of m')) (m_timers m')
    \<and> heap m' = (\<lambda>a. if a \<in> set as then map_option (rearmed now) (heap m a) else heap m a)
    \<and> set (m_timers m') = set (m_timers m) \<union> {a \<in> set as. recurring m a}"
  using assms
proof (induction as arbitrary: m cbs m')
  case (Cons a as)
  then obtain t where t: "heap m a = Some t" by auto
  have out: "a \<notin> set (m_timers m)" using Cons.prems(2) by simp
  obtain m1 where m1: "fire now (a # as) m = (t_cb t # fst (fire now as m1), snd (fire now as m1))"
    "heap m1 = (heap m)(a \<mapsto> rearmed now t)" "sorted_wrt (timer_less (next_of m1)) (m_timers m1)"
    "set (m_timers m1) = set (m_timers m) \<union> (if t_recurring t then {a} else {})"
    using fire_step [OF t out Cons.prems(4)] by metis
  have pre: "distinct as" "set as \<inter> set (m_timers m1) = {}" "\<forall>b \<in> set as. heap m1 b \<noteq> None"
    using Cons.prems(1-3) m1(2,4) by (auto split: if_splits)
  have same: "cb_of m1 b = cb_of m b \<and> recurring m1 b = recurring m b \<and> heap m1 b = heap m b"
    if "b \<in> set as" for b
    using Cons.prems(1) that by (auto simp: cb_of_def recurring_def m1(2))
  from Cons.IH [OF pre m1(3) prod.collapse [symmetric]] have IH:
    "fst (fire now as m1) = map (cb_of m1) as"
    "sorted_wrt (timer_less (next_of (snd (fire now as m1)))) (m_timers (snd (fire now as m1)))"
    "heap (snd (fire now as m1)) = (\<lambda>a. if a \<in> set as then map_option (rearmed now) (heap m1 a) else heap m1 a)"
    "set (m_timers (snd (fire now as m1))) = set (m_timers m1) \<union> {a \<in> set as. recurring m1 a}"
    by simp_all
  have res: "cbs = t_cb t # fst (fire now as m1)" "m' = snd (fire now as m1)"
    using Cons.prems(5) m1(1) by simp_all
  have "cbs = map (cb_of m) (a # as)"
    using IH(1) same by (simp add: res(1) cb_of_def [of m a] t)
  moreover have "heap m' b = (if b \<in> set (a # as) then map_option (rearmed now) (heap m b) else heap m b)" for b
    using Cons.prems(1) by (simp add: res(2) IH(3) m1(2) t)
  moreover have "set (m_timers m') = set (m_timers m) \<union> {b \<in> set (a # as). recurring m b}"
    using same by (auto simp: res(2) IH(4) m1(4) recurring_def t split: if_splits)
  ultimately show ?case using IH(2) res(2) by auto
qed simp

lemma next_of_le_takeWhile:
  assumes "sorted_wrt (timer_less (next_of m)) ts"
  shows "takeWhile (\<lambda>a. next_of m a \<le> now) ts = filter (\<lambda>a. next_of m a \<le> now) ts"
  using assms by (rule tl.downward_takeWhile) (auto simp: timer_less_iff)

lemma length_takeWhile_then:
  assumes "\<And>x. x \<in> set xs \<Longrightarrow> P x \<Longrightarrow> R x" "\<And>x. x \<in> set xs \<Longrightarrow> Q x \<Longrightarrow> R x"
    and "\<And>i j. i < j \<Longrightarrow> j < length xs \<Longrightarrow> R (xs ! j) \<Longrightarrow> \<not> P (xs ! i) \<Longrightarrow> Q (xs ! i)"
    and "\<And>x. x \<in> set xs \<Longrightarrow> R x \<Longrightarrow> P x \<or> Q x"
    and "\<And>i j. i < j \<Longrightarrow> j < length xs \<Longrightarrow> P (xs ! j) \<Longrightarrow> P (xs ! i)"
  shows "takeWhile P xs @ takeWhile Q (dropWhile P xs) = takeWhile R xs"
  using assms
proof (induction xs)
  case (Cons x xs)
  show ?case
  proof (cases "P x")
    case True
    have "takeWhile P xs @ takeWhile Q (dropWhile P xs) = takeWhile R xs"
    proof (rule Cons.IH)
      show "Q (xs ! i)" if "i < j" "j < length xs" "R (xs ! j)" "\<not> P (xs ! i)" for i j
        using Cons.prems(3) [of "Suc i" "Suc j"] that by simp
      show "P (xs ! i)" if "i < j" "j < length xs" "P (xs ! j)" for i j
        using Cons.prems(5) [of "Suc i" "Suc j"] that by simp
    qed (use Cons.prems in auto)
    with True Cons.prems(1) show ?thesis by simp
  next
    case False
    have noP: "\<not> P y" if "y \<in> set xs" for y
    proof -
      from that obtain i where "i < length xs" "y = xs ! i" by (auto simp: in_set_conv_nth)
      with Cons.prems(5) [of 0 "Suc i"] False show ?thesis by auto
    qed
    have eq: "Q y = R y" if "y \<in> set (x # xs)" for y
      using Cons.prems(2,4) [of y] that False noP by auto
    have "takeWhile Q (x # xs) = takeWhile R (x # xs)" using eq by (auto intro!: takeWhile_cong)
    with False show ?thesis by simp
  qed
qed simp

lemma expired_prefix:
  assumes "sorted_wrt (timer_less (next_of m)) (m_timers m)"
  shows "take (expired_count now na False m) (m_timers m) = filter (\<lambda>a. next_of m a \<le> now) (m_timers m)"
proof -
  let ?ts = "m_timers m"
  let ?P = "\<lambda>a. Comparator (next_of m a) a now na" and ?Q = "\<lambda>a. next_of m a = now"
  have less: "timer_less (next_of m) (?ts ! i) (?ts ! j)" if "i < j" "j < length ?ts" for i j
    using assms that by (simp add: sorted_wrt_iff_nth_less)
  have two: "takeWhile ?P ?ts @ takeWhile ?Q (dropWhile ?P ?ts) = takeWhile (\<lambda>a. next_of m a \<le> now) ?ts"
    by (rule length_takeWhile_then) (use less in \<open>force simp: Comparator_def timer_less_iff split: if_splits\<close>)+
  have drop: "drop (length (takeWhile ?P ?ts)) ?ts = dropWhile ?P ?ts"
    by (simp add: dropWhile_eq_drop)
  have "take (expired_count now na False m) ?ts = takeWhile ?P ?ts @ takeWhile ?Q (dropWhile ?P ?ts)"
  proof -
    have "take (length xs + length (takeWhile Q ys)) (xs @ ys) = xs @ takeWhile Q ys"
      for xs ys :: "addr list" and Q
      by (simp add: takeWhile_eq_take [symmetric])
    from this [of "takeWhile ?P ?ts" ?Q "dropWhile ?P ?ts"] show ?thesis
      by (simp add: expired_count_def Let_def drop)
  qed
  then show ?thesis using two next_of_le_takeWhile [OF assms] by simp
qed

text \<open>Which timers a call delivers: all after a rollover of the clock, else those that are due.\<close>

definition due :: "u64 \<Rightarrow> 'c TimerManager \<Rightarrow> addr list" where
  "due now m = (if fst (detectClockRollover now m) then m_timers m
     else filter (\<lambda>a. next_of m a \<le> now) (m_timers m))"

lemma due_prefix:
  assumes "tm_inv m" "detectClockRollover now m = (r, m1)"
  shows "take (expired_count now na r m1) (m_timers m1) = due now m"
    "drop (expired_count now na r m1) (m_timers m1) = filter (\<lambda>a. a \<notin> set (due now m)) (m_timers m)"
proof -
  have m1: "m_timers m1 = m_timers m" "heap m1 = heap m" "next_of m1 = next_of m"
    using assms(2) by (auto simp: detectClockRollover_def)
  have sorted: "sorted_wrt (timer_less (next_of m1)) (m_timers m1)"
    using assms(1) by (simp add: m1 tm_inv_def)
  show t: "take (expired_count now na r m1) (m_timers m1) = due now m"
  proof (cases r)
    case True
    then show ?thesis using assms(2) by (simp add: due_def expired_count_def Let_def m1(1))
  next
    case False
    then show ?thesis using expired_prefix [OF sorted, of now na] assms(2) m1 by (simp add: due_def)
  qed
  have "distinct (m_timers m1)" by (rule tl.sorted_distinct [OF sorted])
  then have "filter (\<lambda>a. a \<notin> set (take k (m_timers m1))) (m_timers m1) = drop k (m_timers m1)" for k
  proof -
    have "distinct (take k (m_timers m1) @ drop k (m_timers m1))" using \<open>distinct (m_timers m1)\<close> by simp
    then have "filter (\<lambda>a. a \<notin> set (take k (m_timers m1))) (take k (m_timers m1) @ drop k (m_timers m1))
        = drop k (m_timers m1)"
      by (auto simp: filter_empty_conv filter_id_conv simp del: append_take_drop_id)
    then show ?thesis by simp
  qed
  from this [of "expired_count now na r m1"]
  show "drop (expired_count now na r m1) (m_timers m1) = filter (\<lambda>a. a \<notin> set (due now m)) (m_timers m)"
    by (simp only: t [symmetric] m1(1))
qed

lemma listExpiredCb_spec:
  assumes "tm_inv m" "listExpiredCb now na m = (cbs, m')"
  shows "cbs = map (cb_of m) (due now m)
    \<and> heap m' = (\<lambda>a. if a \<in> set (due now m) then map_option (rearmed now) (heap m a) else heap m a)
    \<and> set (m_timers m') = (set (m_timers m) - set (due now m)) \<union> {a \<in> set (due now m). recurring m a}
    \<and> sorted_wrt (timer_less (next_of m')) (m_timers m')"
proof -
  obtain r m1 where r: "detectClockRollover now m = (r, m1)" by fastforce
  have m1: "m_timers m1 = m_timers m" "heap m1 = heap m" "next_of m1 = next_of m"
    "cb_of m1 = cb_of m" "recurring m1 = recurring m"
    using r by (auto simp: detectClockRollover_def cb_of_def recurring_def fun_eq_iff)
  have sorted: "sorted_wrt (timer_less (next_of m)) (m_timers m)" using assms(1) by (rule tm_inv_sorted)
  have nodue: "due now m = []" if "m_timers m \<noteq> []" "\<not> r" "now < next_of m (m_timers m ! 0)"
  proof -
    have "next_of m (m_timers m ! 0) \<le> next_of m a" if "a \<in> set (m_timers m)" for a
      using sorted that by (cases "m_timers m") (auto simp: timer_less_iff)
    then show ?thesis using that r by (force simp: due_def filter_empty_conv)
  qed
  show ?thesis
  proof (cases "m_timers m = [] \<or> \<not> r \<and> now < next_of m (m_timers m ! 0)")
    case True
    then have "due now m = []"
      using nodue by (cases "m_timers m = []") (simp_all add: due_def)
    moreover have "cbs = [] \<and> heap m' = heap m \<and> m_timers m' = m_timers m \<and> next_of m' = next_of m"
      using True assms(2) r m1 by (cases "m_timers m = []") (auto simp: listExpiredCb_def)
    ultimately show ?thesis using sorted by simp
  next
    case False
    let ?E = "due now m"
    let ?rest = "filter (\<lambda>a. a \<notin> set ?E) (m_timers m)"
    have f: "fire now ?E (m1\<lparr>m_timers := ?rest\<rparr>) = (cbs, m')"
      using False assms(2) r m1 due_prefix [OF assms(1) r, of na]
      by (auto simp: listExpiredCb_def Let_def)
    have sub: "set ?E \<subseteq> set (m_timers m)" by (auto simp: due_def)
    have "distinct ?E" using tl.sorted_distinct [OF sorted] by (simp add: due_def)
    moreover have "set ?E \<inter> set (m_timers (m1\<lparr>m_timers := ?rest\<rparr>)) = {}" by auto
    moreover have "\<forall>a \<in> set ?E. heap (m1\<lparr>m_timers := ?rest\<rparr>) a \<noteq> None"
      using assms(1) sub by (auto simp: tm_inv_def m1)
    moreover have "sorted_wrt (timer_less (next_of (m1\<lparr>m_timers := ?rest\<rparr>))) (m_timers (m1\<lparr>m_timers := ?rest\<rparr>))"
      using sorted by (simp add: m1 sorted_wrt_filter)
    ultimately have "cbs = map (cb_of (m1\<lparr>m_timers := ?rest\<rparr>)) ?E \<and> sorted_wrt (timer_less (next_of m')) (m_timers m')
        \<and> heap m' = (\<lambda>a. if a \<in> set ?E then map_option (rearmed now) (heap m1 a) else heap m1 a)
        \<and> set (m_timers m') = set ?rest \<union> {a \<in> set ?E. recurring (m1\<lparr>m_timers := ?rest\<rparr>) a}"
      using fire_spec [OF _ _ _ _ f] by (simp cong: if_cong)
    moreover have "cb_of (m1\<lparr>m_timers := ?rest\<rparr>) = cb_of m" "recurring (m1\<lparr>m_timers := ?rest\<rparr>) = recurring m"
      using m1 by (auto simp: cb_of_def recurring_def fun_eq_iff)
    ultimately show ?thesis by (auto simp: m1)
  qed
qed

lemma listExpiredCb_inv:
  assumes "tm_inv m" "listExpiredCb now na m = (cbs, m')"
  shows "tm_inv m'"
proof (rule tm_invI)
  note spec = listExpiredCb_spec [OF assms]
  have sub: "set (due now m) \<subseteq> set (m_timers m)" by (auto simp: due_def)
  show "sorted_wrt (timer_less (next_of m')) (m_timers m')" using spec by blast
  show "heap m' a \<noteq> None" if "a \<in> set (m_timers m')" for a
    using that spec sub assms(1) by (auto simp: tm_inv_def)
  show "a \<in> set (m_timers m')" if "armed m' a" for a
    using that spec assms(1)
    by (auto simp: tm_inv_def armed_def recurring_def rearmed_def split: if_splits)
qed

lemma tm_inv_tickled [simp]: "tm_inv (m\<lparr>m_tickled := b\<rparr>) = tm_inv m"
  by (simp add: tm_inv_def armed_def)

lemma getNextTimer_inv: "tm_inv m \<Longrightarrow> tm_inv (snd (getNextTimer now m))"
  by (simp add: getNextTimer_def split: list.splits)

text \<open>
  C18.  Every operation of the timer manager keeps the set in the strict order of time and
  address, with a live object behind every entry, and with every timer that still has its
  callback in it: a timer is never lost while it can fire.
\<close>

theorem timer_invariant:
  assumes "tm_inv m" "b \<notin> set (m_timers m)"
  shows "tm_inv (snd (addTimer now b ms cb rec m)) \<and> tm_inv (snd (cancel a m))
    \<and> tm_inv (snd (refresh now a m)) \<and> tm_inv (snd (reset now a ms fn m))
    \<and> tm_inv (snd (getNextTimer now m)) \<and> tm_inv (snd (listExpiredCb now na m))"
  using addTimer_inv(1) [OF assms prod.collapse [symmetric]] cancel_inv [OF assms(1) prod.collapse [symmetric]]
    refresh_inv [OF assms(1) prod.collapse [symmetric]] reset_inv [OF assms(1) prod.collapse [symmetric]]
    getNextTimer_inv [OF assms(1)] listExpiredCb_inv [OF assms(1) prod.collapse [symmetric]]
  by blast

theorem timer_invariant_witness:
  "tm_inv (snd (addTimer 5 7 100 (Some ''cb'') True (new_TimerManager 0)))"
proof -
  have "7 \<notin> set (m_timers (new_TimerManager 0))" by (simp add: new_TimerManager_def)
  from timer_invariant [OF tm_inv_new this] show ?thesis by blast
qed

text \<open>
  C20.  \<open>listExpiredCb\<close> delivers the callbacks of exactly the timers that are due (all of them after
  the clock was set back by more than an hour), in the order of their times.  Of these, a
  recurring timer is armed again at the present time plus its period, any other is disarmed and
  has lost its callback; every timer that is not due is untouched.
\<close>

theorem listExpiredCb_delivers:
  assumes "tm_inv m" "listExpiredCb now na m = (cbs, m')"
  shows "cbs = map (cb_of m) (due now m) \<and> sorted_wrt (timer_less (next_of m)) (due now m)
    \<and> (\<forall>a \<in> set (due now m). recurring m a \<longrightarrow> a \<in> set (m_timers m')
         \<and> next_of m' a = now + t_ms (the (heap m a)) \<and> cb_of m' a = cb_of m a)
    \<and> (\<forall>a \<in> set (due now m). \<not> recurring m a \<longrightarrow> a \<notin> set (m_timers m') \<and> \<not> armed m' a)
    \<and> (\<forall>a. a \<notin> set (due now m) \<longrightarrow> heap m' a = heap m a \<and> (a \<in> set (m_timers m') \<longleftrightarrow> a \<in> set (m_timers m)))"
proof -
  note spec = listExpiredCb_spec [OF assms]
  have "set (due now m) \<subseteq> set (m_timers m)" by (auto simp: due_def)
  then have live: "\<exists>t. heap m a = Some t" if "a \<in> set (due now m)" for a
    using that assms(1) by (auto simp: tm_inv_def)
  have sorted: "sorted_wrt (timer_less (next_of m)) (due now m)"
    using tm_inv_sorted [OF assms(1)] by (simp add: due_def sorted_wrt_filter)
  have rec: "a \<in> set (m_timers m') \<and> next_of m' a = now + t_ms (the (heap m a)) \<and> cb_of m' a = cb_of m a"
    if "a \<in> set (due now m)" "recurring m a" for a
    using that spec by (auto simp: recurring_def next_of_def cb_of_def rearmed_def)
  have one: "a \<notin> set (m_timers m') \<and> \<not> armed m' a" if "a \<in> set (due now m)" "\<not> recurring m a" for a
    using that spec live [OF that(1)] by (auto simp: recurring_def armed_def rearmed_def)
  show ?thesis using spec sorted rec one by auto
qed

theorem listExpiredCb_delivers_witness:
  "fst (listExpiredCb 20 1 (snd (addTimer 5 7 10 (Some ''cb'') True (new_TimerManager 0)))) = [Some ''cb'']"
proof -
  let ?m = "snd (addTimer 5 7 10 (Some ''cb'') True (new_TimerManager 0))"
  have "tm_inv ?m"
    using addTimer_inv(1) [OF tm_inv_new _ prod.collapse [symmetric]] by (simp add: new_TimerManager_def)
  from listExpiredCb_delivers [OF this prod.collapse [symmetric]]
  have "fst (listExpiredCb 20 1 ?m) = map (cb_of ?m) (due 20 ?m)" by blast
  then show ?thesis
    by (simp add: addTimer_def insert_timer_def new_TimerManager_def new_Timer_def due_def
        detectClockRollover_def next_of_def cb_of_def Let_def)
qed

text \<open>
  \<open>getNextTimer\<close> is the time to sleep: none when no timer is armed, zero exactly when one is
  due, and else the distance to the earliest time, so that after it no earlier timer is missed.
\<close>

theorem getNextTimer_earliest:
  assumes "tm_inv m" "m_timers m \<noteq> []" "getNextTimer now m = (d, m')"
  shows "(d = 0 \<longleftrightarrow> (\<exists>a \<in> set (m_timers m). next_of m a \<le> now))
    \<and> (d \<noteq> 0 \<longrightarrow> (\<exists>a \<in> set (m_timers m). next_of m a = now + d)
        \<and> (\<forall>a \<in> set (m_timers m). now + d \<le> next_of m a) \<and> now \<le> now + d)"
proof -
  obtain a as where as: "m_timers m = a # as" using assms(2) by (cases "m_timers m") auto
  have least: "next_of m a \<le> next_of m b" if "b \<in> set (m_timers m)" for b
    using tm_inv_sorted [OF assms(1)] that by (auto simp: as timer_less_iff)
  have d: "d = (if next_of m a \<le> now then 0 else next_of m a - now)"
    using assms(3) by (auto simp: getNextTimer_def as)
  show ?thesis
  proof (cases "next_of m a \<le> now")
    case True
    then show ?thesis using d as by auto
  next
    case False
    then have "\<not> next_of m b \<le> now" if "b \<in> set (m_timers m)" for b
      using least [OF that] by simp
    moreover have "d \<noteq> 0" "now + d = next_of m a" "now \<le> next_of m a" using d False by auto
    ultimately show ?thesis using least as False by auto
  qed
qed

theorem getNextTimer_earliest_witness:
  "fst (getNextTimer 8 (snd (addTimer 5 7 10 (Some ''cb'') True (new_TimerManager 0)))) \<noteq> 0"
proof -
  let ?m = "snd (addTimer 5 7 10 (Some ''cb'') True (new_TimerManager 0))"
  have "tm_inv ?m"
    using addTimer_inv(1) [OF tm_inv_new _ prod.collapse [symmetric]] by (simp add: new_TimerManager_def)
  moreover have ts: "m_timers ?m = [7]"
    by (simp add: addTimer_def insert_timer_def new_TimerManager_def Let_def)
  moreover have "next_of ?m 7 = 15"
    by (simp add: addTimer_def insert_timer_def new_TimerManager_def new_Timer_def next_of_def Let_def)
  ultimately show ?thesis
    using getNextTimer_earliest [of ?m 8, OF _ _ prod.collapse [symmetric]] by simp
qed

end
