(* ===== verification/Address_Correct.thy ===== *)
theory Address_Correct
  imports Address
begin

text \<open>
  The properties of addresses: the texts that are printed, the masks bit by bit, the bit count,
  and the way a host with a port is taken apart.
\<close>

section \<open>Counting bits\<close>

fun popcount :: "nat \<Rightarrow> nat" where
  "popcount n = (if n = 0 then 0 else n mod 2 + popcount (n div 2))"

declare popcount.simps [simp del]

lemma popcount_double: "popcount (2 * n) = popcount n" "popcount (Suc (2 * n)) = Suc (popcount n)"
  by (subst popcount.simps, cases "n = 0", simp_all add: popcount.simps [of 0])
    (subst popcount.simps, simp)

lemma and_double:
  fixes m n :: nat
  shows "(2 * m) AND (2 * n) = 2 * (m AND n)" "(2 * m) AND Suc (2 * n) = 2 * (m AND n)"
    "Suc (2 * m) AND (2 * n) = 2 * (m AND n)"
  by (simp_all add: and_rec [of "2 * m"] and_rec [of "Suc (2 * m)"])

lemma popcount_clear: "0 < n \<Longrightarrow> Suc (popcount (n AND (n - 1))) = popcount n"
proof (induction n rule: less_induct)
  case (less n)
  show ?case
  proof (cases "even n")
    case True
    then obtain m where m: "n = 2 * m" by blast
    with less.prems obtain k where k: "m = Suc k" by (cases m) auto
    have "n - 1 = Suc (2 * k)" by (simp add: m k)
    then have "n AND (n - 1) = (2 * m) AND Suc (2 * k)" by (simp only: m)
    then have "n AND (n - 1) = 2 * (m AND (m - 1))" by (simp only: and_double k diff_Suc_1)
    moreover have "Suc (popcount (m AND (m - 1))) = popcount m"
      by (rule less.IH) (simp_all add: m k)
    ultimately show ?thesis by (simp add: m popcount_double)
  next
    case False
    then obtain m where m: "n = Suc (2 * m)" by (metis oddE Suc_eq_plus1)
    then have "n AND (n - 1) = 2 * m" by (simp add: and_double)
    then show ?thesis by (simp add: m popcount_double)
  qed
qed

lemma CountBytes_popcount: "CountBytes w = popcount (unat w)"
proof (induction w rule: CountBytes.induct)
  case (1 w)
  show ?case
  proof (cases "w = 0")
    case True
    then show ?thesis by (simp add: CountBytes.simps [of 0] popcount.simps [of 0])
  next
    case False
    have "unat (w AND (w - 1)) = unat w AND (unat w - 1)"
      using False by (simp add: unsigned_and_eq unat_minus_one)
    then show ?thesis
      using 1 [OF False] False popcount_clear [of "unat w"] unat_gt_0 [of w]
      by (simp add: CountBytes.simps [of w])
  qed
qed

section \<open>Masks of IPv6 addresses\<close>

text \<open>Bit \<open>i\<close> of an address in network order, counted from the front.\<close>

definition addr_bit :: "bytes \<Rightarrow> nat \<Rightarrow> bool" where
  "addr_bit bs i \<longleftrightarrow> bit (bs ! (i div 8)) (7 - i mod 8)"

lemma CreateMask8_bit: "k \<le> 8 \<Longrightarrow> bit (CreateMask8 k) j \<longleftrightarrow> j < 8 - k"
proof -
  assume "k \<le> 8"
  have "(word_of_nat (2 ^ (8 - k) - 1) :: u8) = mask (8 - k)"
    by (simp add: mask_eq_exp_minus_1 of_nat_diff)
  then show ?thesis unfolding CreateMask8_def by (auto simp: bit_mask_iff)
qed

lemma bits_of_ff: "j < 8 \<Longrightarrow> bit (0xff :: u8) j"
  by (simp add: bit_iff_odd less_Suc_eq numeral_eq_Suc) auto

lemma addr_bit_parts:
  assumes "k < 16" "length xs = k" "i < 128" "length zs = 16 - (k + 1)"
  shows "addr_bit (xs @ [y] @ zs) i = (if i div 8 < k then bit (xs ! (i div 8)) (7 - i mod 8)
    else if i div 8 = k then bit y (7 - i mod 8) else bit (zs ! (i div 8 - (k + 1))) (7 - i mod 8))"
  using assms by (auto simp: addr_bit_def nth_append nth_Cons')

text \<open>Where bit \<open>i\<close> lies relative to a prefix.\<close>

lemma prefix_position:
  fixes p i :: nat
  shows "i div 8 < p div 8 \<Longrightarrow> i < p" "p div 8 < i div 8 \<Longrightarrow> p \<le> i"
    "i div 8 = p div 8 \<Longrightarrow> 7 - i mod 8 < 8 - p mod 8 \<longleftrightarrow> p \<le> i"
proof -
  have i: "i = 8 * (i div 8) + i mod 8" "i mod 8 < 8" and p: "p = 8 * (p div 8) + p mod 8" "p mod 8 < 8"
    by simp_all
  show "i div 8 < p div 8 \<Longrightarrow> i < p" "p div 8 < i div 8 \<Longrightarrow> p \<le> i" using i p by linarith+
  show "7 - i mod 8 < 8 - p mod 8 \<longleftrightarrow> p \<le> i" if "i div 8 = p div 8"
    using i p that by linarith
qed

lemma broadcast6_bits:
  assumes "broadcastAddress6 p a = Some b" "length (s6_addr a) = 16" "i < 128"
  shows "addr_bit (s6_addr b) i \<longleftrightarrow> addr_bit (s6_addr a) i \<or> p \<le> i"
proof -
  let ?k = "p div 8"
  have k: "?k < 16" and b: "s6_addr b = take ?k (s6_addr a) @ [s6_addr a ! ?k OR CreateMask8 (p mod 8)]
      @ replicate (16 - (?k + 1)) 0xff"
    using assms(1) by (auto simp: broadcastAddress6_def Let_def split: if_splits)
  have i: "i div 8 < 16" "7 - i mod 8 < 8" using assms(3) by auto
  have rep: "replicate (15 - ?k) x ! (i div 8 - Suc ?k) = x" if "\<not> i div 8 < ?k" "i div 8 \<noteq> ?k" for x :: u8
    using that i by (intro nth_replicate) linarith
  have m: "bit (CreateMask8 (p mod 8)) j \<longleftrightarrow> j < 8 - p mod 8" for j
    by (rule CreateMask8_bit) (simp add: mod_less_divisor less_imp_le)
  show ?thesis
    using addr_bit_parts [OF k _ assms(3), of "take ?k (s6_addr a)" "replicate (16 - (?k + 1)) 0xff"
        "s6_addr a ! ?k OR CreateMask8 (p mod 8)"] k i prefix_position [of i p] assms(2)
      bits_of_ff [OF i(2)]
    unfolding b by (auto simp: addr_bit_def bit_or_iff m rep)
qed

lemma subnetMask6_bits:
  assumes "subnetMask6 p = Some b" "i < 128"
  shows "addr_bit (s6_addr b) i \<longleftrightarrow> i < p"
proof -
  let ?k = "p div 8"
  have k: "?k < 16" and b: "s6_addr b = replicate ?k 0xff @ [NOT (CreateMask8 (p mod 8))]
      @ replicate (16 - (?k + 1)) 0"
    using assms(1) by (auto simp: subnetMask6_def Let_def split: if_splits)
  have i: "i div 8 < 16" "7 - i mod 8 < 8" using assms(2) by auto
  have rep: "replicate (15 - ?k) x ! (i div 8 - Suc ?k) = x" if "\<not> i div 8 < ?k" "i div 8 \<noteq> ?k" for x :: u8
    using that i by (intro nth_replicate) linarith
  have m: "bit (CreateMask8 (p mod 8)) j \<longleftrightarrow> j < 8 - p mod 8" for j
    by (rule CreateMask8_bit) (simp add: mod_less_divisor less_imp_le)
  show ?thesis
    using addr_bit_parts [OF k _ assms(2), of "replicate ?k 0xff" "replicate (16 - (?k + 1)) 0"
        "NOT (CreateMask8 (p mod 8))"] k i prefix_position [of i p] bits_of_ff [OF i(2)]
    unfolding b by (auto simp: addr_bit_def bit_not_iff m rep)
qed

text \<open>
  For an IPv6 address and a prefix shorter than 128 bits, the broadcast address keeps the
  bits of the prefix and sets all others, and the subnet mask has exactly the bits of the
  prefix; a longer prefix is an access behind the address.
\<close>

theorem ipv6_masks:
  assumes "length (s6_addr a) = 16"
  shows "(p < 128 \<longleftrightarrow> broadcastAddress6 p a \<noteq> None) \<and> (p < 128 \<longleftrightarrow> subnetMask6 p \<noteq> None)
    \<and> (\<forall>b i. broadcastAddress6 p a = Some b \<longrightarrow> i < 128 \<longrightarrow>
          (addr_bit (s6_addr b) i \<longleftrightarrow> addr_bit (s6_addr a) i \<or> p \<le> i))
    \<and> (\<forall>b i. subnetMask6 p = Some b \<longrightarrow> i < 128 \<longrightarrow> (addr_bit (s6_addr b) i \<longleftrightarrow> i < p))"
proof -
  have "p div 8 < 16 \<longleftrightarrow> p < 128" by auto
  then have "p < 128 \<longleftrightarrow> broadcastAddress6 p a \<noteq> None" "p < 128 \<longleftrightarrow> subnetMask6 p \<noteq> None"
    by (auto simp: broadcastAddress6_def subnetMask6_def Let_def)
  then show ?thesis using broadcast6_bits [OF _ assms] subnetMask6_bits by blast
qed

theorem ipv6_masks_witness: "broadcastAddress6 64 new_IPv6Address \<noteq> None"
proof -
  have "length (s6_addr new_IPv6Address) = 16" by (simp add: new_IPv6Address_def)
  from ipv6_masks [OF this, of 64] show ?thesis by simp
qed

lemma networdAddress6_clears_prefix:
  "map_option (\<lambda>b. s6_addr b ! 0) (networdAddress6 4 (new_IPv6Address\<lparr>s6_addr := replicate 16 0xff\<rparr>)) = Some 0x0f"
  by (simp add: networdAddress6_def Let_def CreateMask8_def)

lemma broadcastAddress4_is_network: "broadcastAddress4 = networdAddress4"
  by (simp add: broadcastAddress4_def networdAddress4_def fun_eq_iff)

lemma subnetMask4_zero: "subnetMask4 host p = Some m \<Longrightarrow> sin_addr m = 0"
  by (auto simp: subnetMask4_def)

lemma address_less_garbage:
  "\<not> address_less host 0 (IPv4Address a) (IPv4Address b) \<and> \<not> address_less host 0 (IPv4Address b) (IPv4Address a)"
  by (simp add: address_less_def)

section \<open>IPv4 texts\<close>

lemma digit_free:
  assumes "\<not> is_digit c"
  shows "c \<notin> set (dec n)"
  using dec_digits [of n] assms by blast

lemma split_unique:
  "a @ c # x = b @ c # y \<Longrightarrow> c \<notin> set a \<Longrightarrow> c \<notin> set b \<Longrightarrow> a = b \<and> x = y"
proof (induction a arbitrary: b)
  case Nil
  then show ?case by (cases b) auto
next
  case (Cons d a)
  then show ?case by (cases b) auto
qed

lemma dec_inject: "dec m = dec n \<Longrightarrow> m = n"
  using dec_digits by metis

lemma octets_inject:
  fixes v w :: u32
  assumes "unat (drop_bit 24 v AND 0xff) = unat (drop_bit 24 w AND 0xff)"
    and "unat (drop_bit 16 v AND 0xff) = unat (drop_bit 16 w AND 0xff)"
    and "unat (drop_bit 8 v AND 0xff) = unat (drop_bit 8 w AND 0xff)"
    and "unat (v AND 0xff) = unat (w AND 0xff)"
  shows "v = w"
proof -
  have ff: "bit (0xff :: int) j \<longleftrightarrow> j < 8" for j
  proof -
    have "(0xff :: int) = mask 8" by (simp add: mask_eq_exp_minus_1)
    then show ?thesis by (simp only: bit_mask_iff) auto
  qed
  have eq: "drop_bit 24 v AND 0xff = drop_bit 24 w AND 0xff" "drop_bit 16 v AND 0xff = drop_bit 16 w AND 0xff"
    "drop_bit 8 v AND 0xff = drop_bit 8 w AND 0xff" "v AND 0xff = w AND 0xff"
    using assms by (simp_all add: word_unat_eq_iff)
  have "bit v (s + j) \<longleftrightarrow> bit w (s + j)"
    if "drop_bit s v AND 0xff = drop_bit s w AND 0xff" "j < 8" for s j
    using arg_cong [OF that(1), of "\<lambda>x. bit x j"] that(2) by (simp add: bit_simps ff)
  note b = this [OF eq(1)] this [OF eq(2)] this [OF eq(3)] this [of 0, simplified, OF eq(4)]
  show ?thesis
  proof (rule bit_word_eqI)
    fix n
    assume "n < LENGTH(32)"
    then have "n < 8 \<or> (\<exists>j < 8. n = 8 + j) \<or> (\<exists>j < 8. n = 16 + j) \<or> (\<exists>j < 8. n = 24 + j)"
      by (simp add: Bex_def) presburger
    then show "bit v n = bit w n" using b by blast
  qed
qed

text \<open>
  The text of an IPv4 address is the dotted quad of its address with the port behind a
  colon, on a machine of either byte order, and different addresses have different texts.
\<close>

theorem ipv4_text:
  "insert4 host (new_IPv4Address host v p) = insert4 host' (new_IPv4Address host' v p)
   \<and> (insert4 host (new_IPv4Address host v p) = insert4 host (new_IPv4Address host w q) \<longleftrightarrow> v = w \<and> p = q)
   \<and> getPort4 host (new_IPv4Address host v p) = p
   \<and> getPort4 host (setPort4 host q (new_IPv4Address host v p)) = q"
proof -
  have shown: "insert4 h (new_IPv4Address h x r) = dec (unat (drop_bit 24 x AND 0xff)) @ CHR ''.''
     # dec (unat (drop_bit 16 x AND 0xff)) @ CHR ''.'' # dec (unat (drop_bit 8 x AND 0xff)) @ CHR ''.''
     # dec (unat (x AND 0xff)) @ CHR '':'' # dec (unat r)" for h x r
    by (simp add: insert4_def new_IPv4Address_def)
  have free: "CHR ''.'' \<notin> set (dec n)" "CHR '':'' \<notin> set (dec n)" for n
    by (rule digit_free, simp add: is_digit_def code_def)+
  have "v = w \<and> p = q" if "insert4 host (new_IPv4Address host v p) = insert4 host (new_IPv4Address host w q)"
  proof -
    note a = split_unique [OF that [unfolded shown] free(1) free(1)]
    note b = split_unique [OF a [THEN conjunct2] free(1) free(1)]
    note c = split_unique [OF b [THEN conjunct2] free(1) free(1)]
    note d = split_unique [OF c [THEN conjunct2] free(2) free(2)]
    show ?thesis
      using a b c d octets_inject [of v w] dec_inject word_unat_eq_iff by metis
  qed
  moreover have "insert4 host (new_IPv4Address host v p) = insert4 host' (new_IPv4Address host' v p)"
    by (simp only: shown)
  moreover have "getPort4 host (new_IPv4Address host v p) = p"
    "getPort4 host (setPort4 host q (new_IPv4Address host v p)) = q"
    by (simp_all add: getPort4_def setPort4_def new_IPv4Address_def)
  ultimately show ?thesis by blast
qed

section \<open>IPv6 texts\<close>

text \<open>The groups of an address as they are printed, joined by colons.\<close>

definition group_text :: "endian \<Rightarrow> u16 \<Rightarrow> string" where
  "group_text host w = hexnum (unat (byteswapOnLittleEndian host w))"

fun join_colon :: "string list \<Rightarrow> string" where
  "join_colon [] = []"
| "join_colon [s] = s"
| "join_colon (s # ss) = s @ '':'' @ join_colon ss"

lemma join_colon_Cons: "join_colon (s # ss) = s @ concat (map (\<lambda>t. '':'' @ t) ss)"
  by (induction "s # ss" arbitrary: s ss rule: join_colon.induct) auto

lemma join_colon_append:
  "xs \<noteq> [] \<Longrightarrow> join_colon (xs @ ys) = join_colon xs @ concat (map (\<lambda>t. '':'' @ t) ys)"
  by (cases xs) (simp_all add: join_colon_Cons)

lemma insert6_end: "insert6_loop host ws 8 u = (u, [])"
  by (simp add: insert6_loop.simps [of host ws 8])

lemma insert6_zero: "i < 8 \<Longrightarrow> ws ! i = 0 \<Longrightarrow> insert6_loop host ws i False = insert6_loop host ws (Suc i) False"
  by (simp add: insert6_loop.simps [of host ws i])

lemma insert6_print:
  "i < 8 \<Longrightarrow> u \<or> ws ! i \<noteq> 0 \<and> (i = 0 \<or> ws ! (i - 1) \<noteq> 0) \<Longrightarrow>
   insert6_loop host ws i u = (fst (insert6_loop host ws (Suc i) u),
     (if i = 0 then [] else '':'') @ group_text host (ws ! i) @ snd (insert6_loop host ws (Suc i) u))"
  by (auto simp: insert6_loop.simps [of host ws i] group_text_def Let_def split: prod.splits)

lemma insert6_skip:
  "i < 8 \<Longrightarrow> ws ! i \<noteq> 0 \<Longrightarrow> 0 < i \<Longrightarrow> ws ! (i - 1) = 0 \<Longrightarrow>
   insert6_loop host ws i False = (fst (insert6_loop host ws (Suc i) True),
     ''::'' @ group_text host (ws ! i) @ snd (insert6_loop host ws (Suc i) True))"
  by (auto simp: insert6_loop.simps [of host ws i] group_text_def Let_def split: prod.splits)

lemma insert6_rest:
  assumes "0 < i" "i \<le> 8" "length ws = 8"
  shows "insert6_loop host ws i True = (True, concat (map (\<lambda>w. '':'' @ group_text host w) (drop i ws)))"
  using assms(2,1)
proof (induction rule: inc_induct)
  case base
  then show ?case by (simp add: insert6_end assms(3))
next
  case (step i)
  have "drop i ws = ws ! i # drop (Suc i) ws" using step.hyps assms(3) by (simp add: Cons_nth_drop_Suc)
  moreover have "insert6_loop host ws (Suc i) True
      = (True, concat (map (\<lambda>w. '':'' @ group_text host w) (drop (Suc i) ws)))"
    by (rule step.IH) simp
  ultimately show ?case
    using insert6_print [of i True ws host] step.hyps step.prems by (simp only: fst_conv snd_conv) simp
qed

lemma insert6_zeros:
  assumes "i \<le> k" "k \<le> 8" "\<And>j. i \<le> j \<Longrightarrow> j < k \<Longrightarrow> ws ! j = 0"
  shows "insert6_loop host ws i False = insert6_loop host ws k False"
  using assms(1,3)
proof (induction rule: inc_induct)
  case (step i)
  have "insert6_loop host ws i False = insert6_loop host ws (Suc i) False"
    using step.hyps step.prems [of i] assms(2) by (intro insert6_zero) simp_all
  with step show ?case by simp
qed simp

lemma insert6_nonzeros:
  assumes "k \<le> 8" "\<And>j. j < k \<Longrightarrow> ws ! j \<noteq> 0" "length ws = 8"
  shows "insert6_loop host ws 0 False = (fst (insert6_loop host ws k False),
     join_colon (map (group_text host) (take k ws)) @ snd (insert6_loop host ws k False))"
  using assms(1,2)
proof (induction k)
  case 0
  then show ?case by simp
next
  case (Suc k)
  then have IH: "insert6_loop host ws 0 False = (fst (insert6_loop host ws k False),
     join_colon (map (group_text host) (take k ws)) @ snd (insert6_loop host ws k False))"
    by simp
  have "ws ! k \<noteq> 0" "k = 0 \<or> ws ! (k - 1) \<noteq> 0" using Suc.prems(2) by auto
  then have step: "insert6_loop host ws k False = (fst (insert6_loop host ws (Suc k) False),
     (if k = 0 then [] else '':'') @ group_text host (ws ! k) @ snd (insert6_loop host ws (Suc k) False))"
    using Suc.prems(1) by (intro insert6_print) auto
  have "take (Suc k) ws = take k ws @ [ws ! k]"
    using Suc.prems(1) assms(3) by (simp add: take_Suc_conv_app_nth)
  then have "join_colon (map (group_text host) (take (Suc k) ws))
      = join_colon (map (group_text host) (take k ws)) @ (if k = 0 then [] else '':'') @ group_text host (ws ! k)"
  proof (cases "k = 0")
    case False
    then have "map (group_text host) (take k ws) \<noteq> []" using assms(3) by auto
    then show ?thesis
      using join_colon_append [of _ "[group_text host (ws ! k)]"] False \<open>take (Suc k) ws = _\<close> by simp
  qed simp
  then show ?case unfolding IH by (simp add: step)
qed

lemma v6_words_length [simp]: "length (v6_words host a) = 8"
  by (simp add: v6_words_def)

text \<open>
  C27.  The text of an IPv6 address lists its eight groups in hexadecimal; the first run of zero
  groups, of whatever length, is replaced by two colons, and only that one.
\<close>

theorem ipv6_text:
  assumes "v6_words host a = pre @ replicate k 0 @ post" "0 \<notin> set pre"
    and "k = 0 \<Longrightarrow> post = []" "post \<noteq> [] \<Longrightarrow> post ! 0 \<noteq> 0"
  shows "insert6 host a = ''['' @ join_colon (map (group_text host) pre)
    @ (if k = 0 then [] else ''::'' @ join_colon (map (group_text host) post))
    @ '']:'' @ dec (unat (getPort6 host a))"
proof -
  let ?ws = "v6_words host a" and ?p = "length pre"
  let ?L = "insert6_loop host ?ws"
  have len: "?p + k + length post = 8"
    using arg_cong [OF assms(1), of length] by simp
  have nz: "?ws ! j \<noteq> 0" if "j < ?p" for j
    using that assms(1,2) nth_mem [of j pre] by (metis nth_append)
  have take: "take ?p ?ws = pre" using assms(1) by simp
  have first: "?L 0 False = (fst (?L ?p False), join_colon (map (group_text host) pre) @ snd (?L ?p False))"
    using insert6_nonzeros [of ?p ?ws host] len nz take by simp
  have z: "?ws ! j = 0" if "?p \<le> j" "j < ?p + k" for j
  proof -
    have "j - ?p < k" using that by linarith
    then show ?thesis using that assms(1) by (simp add: nth_append)
  qed
  have skip: "?L ?p False = ?L (?p + k) False"
    using insert6_zeros [of ?p "?p + k" ?ws host] len z by simp
  have port: "getPort6 host a = byteswapOnLittleEndian host (sin6_port a)" by (simp add: getPort6_def)
  show ?thesis
  proof (cases "post = []")
    case True
    then have "?p + k = 8" using len by simp
    then have stop: "?L (?p + k) False = (False, [])" by (simp only: insert6_end)
    have "?ws ! 7 = 0 \<longleftrightarrow> k \<noteq> 0"
      using z [of 7] nz [of 7] \<open>?p + k = 8\<close> by (cases "k = 0") auto
    then show ?thesis
      using first skip stop True by (auto simp: insert6_def Let_def port)
  next
    case False
    then have k: "k \<noteq> 0" using assms(3) by auto
    obtain q qs where post: "post = q # qs" using False by (cases post) auto
    let ?i = "?p + k"
    have i: "?i < 8" "?ws ! ?i = q" "q \<noteq> 0" "?ws ! (?i - 1) = 0" "?i \<noteq> 0"
      using len assms(1,4) z [of "?i - 1"] k by (auto simp: post nth_append)
    have "drop (Suc ?i) ?ws = qs"
      using assms(1) by (simp add: post)
    then have "?L (Suc ?i) True = (True, concat (map (\<lambda>w. '':'' @ group_text host w) qs))"
      using insert6_rest [of "Suc ?i" ?ws host] i(1) by simp
    then have "?L ?i False = (True, ''::'' @ group_text host q
        @ concat (map (\<lambda>w. '':'' @ group_text host w) qs))"
      using insert6_skip [of ?i ?ws host] i by simp
    then show ?thesis
      using first skip k by (simp add: insert6_def port post join_colon_Cons comp_def)
  qed
qed

theorem ipv6_text_witness:
  "insert6 LittleEndian new_IPv6Address = ''[::]:0''"
proof -
  have "v6_words LittleEndian new_IPv6Address = [] @ replicate 8 0 @ []"
    by (simp add: v6_words_def new_IPv6Address_def mem_load_def upt_rec numeral_eq_Suc)
  from ipv6_text [OF this] show ?thesis
    by (simp add: getPort6_def new_IPv6Address_def byteswapOnLittleEndian_def byteswap_def dec.simps char_of_def bit_0)
qed

section \<open>Hosts and services\<close>

lemma find_idx_hit:
  "c \<notin> set a \<Longrightarrow> find_idx (\<lambda>x. x = c) (a @ c # b) = Some (length a)"
  by (induction a) auto

lemma find_idx_miss: "c \<notin> set a \<Longrightarrow> find_idx (\<lambda>x. x = c) a = None"
  by (induction a) auto

text \<open>
  A host with a port is taken apart into the node and the service: \<open>name:port\<close>, a bracketed
  IPv6 address with or without port, and a bare name.
\<close>

theorem split_host_forms:
  assumes "node \<noteq> []" "CHR '':'' \<notin> set node" "node ! 0 \<noteq> CHR ''[''" "CHR '':'' \<notin> set port"
    and "v6 \<noteq> []" "CHR '']'' \<notin> set v6"
  shows "split_host (node @ '':'' @ port) = (node, Some port)
    \<and> split_host node = (node, None)
    \<and> split_host (''['' @ v6 @ '']:'' @ port) = (v6, Some port)
    \<and> split_host (''['' @ v6 @ '']'') = (v6, None)"
proof (intro conjI)
  have b: "split_bracket (node @ x) = ([], None)" for x
    using assms(1,3) by (simp add: split_bracket_def nth_append)
  show "split_host (node @ '':'' @ port) = (node, Some port)"
    using b [of "'':'' @ port"] find_idx_hit [OF assms(2), of port] find_idx_miss [OF assms(4)] assms(1)
    by (simp add: split_host_def Let_def)
  show "split_host node = (node, None)"
    using b [of "[]"] find_idx_miss [OF assms(2)] by (simp add: split_host_def Let_def)
  have "split_bracket (''['' @ v6 @ '']:'' @ port) = (v6, Some port)"
    using find_idx_hit [OF assms(6), of "'':'' @ port"] by (simp add: split_bracket_def substr_def nth_append)
  then show "split_host (''['' @ v6 @ '']:'' @ port) = (v6, Some port)"
    using assms(5) by (simp add: split_host_def Let_def)
  have "split_bracket (''['' @ v6 @ '']'') = (v6, None)"
    using find_idx_hit [OF assms(6), of "[]"] by (simp add: split_bracket_def substr_def nth_append)
  then show "split_host (''['' @ v6 @ '']'') = (v6, None)"
    using assms(5) by (simp add: split_host_def Let_def)
qed

theorem split_host_forms_witness:
  "split_host ''a:80'' = (''a'', Some ''80'') \<and> split_host ''[::1]'' = (''::1'', None)"
  using split_host_forms [of "''a''" "''80''" "''::1''"] by simp

lemma split_host_bare_ipv6: "split_host ''::1'' = (''::1'', Some ''::1'')"
  by (simp add: split_host_def split_bracket_def)

section \<open>Unix paths\<close>

lemma unix_path:
  assumes "0 \<notin> set path" "length path < 108" "path \<noteq> []"
  shows "map_option getPath (new_UnixAddress_path path) = Some path"
proof -
  have "path ! 0 \<noteq> 0" using assms(1,3) by (metis length_greater_0_conv nth_mem)
  moreover have "takeWhile (\<lambda>b. b \<noteq> 0) (path @ 0 # r) = path" for r
    using assms(1) by (subst takeWhile_append2) auto
  ultimately show ?thesis
    using assms by (simp add: new_UnixAddress_path_def getPath_def nth_append)
qed

end
