(* ===== verification/Spec2Isabelle.thy ===== *)
theory Spec2Isabelle
  imports Application_Correct Crypto_Util Thread_Pool Thread_Start Json_Util Log_Config MySQL_Format WS_Connection_Correct Simple_Http
    Tcp_Server_Correct MySQL_Correct MySQL_Stmt_Correct Mutex_Correct Worker Http_Exchange_Correct Http_Cut_Tokens Http_Pool_Correct Config_Correct Hook_Correct IO_Manager_Correct Scheduler_Correct Log_Correct Byte_Array_Correct Hash_Util_Correct Util_Correct Socket_Stream_Correct WebSocket_Correct
    Http_Message_Correct Http_Server_Correct Timer_Manager_Correct Address_Correct
begin

text \<open>
  Verification development of flz, a C++ framework for servers: fibers with their scheduler and
  event loop, hooked system calls, sockets, HTTP and websockets on both sides, logging,
  configuration, a MySQL client, and the helpers under them.  Paths are relative to \<^verbatim>\<open>src/\<close>.

  \<^bold>\<open>How the parts interact.\<close>  The application (\<^verbatim>\<open>src/application.cc\<close>, started by \<^verbatim>\<open>src/main.cc\<close>, under the
  supervisor of \<^verbatim>\<open>src/daemon.cc\<close> if asked) reads the command line (\<^verbatim>\<open>src/env.cc\<close>) and the configuration
  (\<^verbatim>\<open>src/config.cc\<close>), loads modules (\<^verbatim>\<open>src/module.cc\<close>, \<^verbatim>\<open>src/library.cc\<close>), makes the workers
  (\<^verbatim>\<open>src/worker.cc\<close>) and the servers (\<^verbatim>\<open>src/tcp_server.cc\<close>).  A server accepts on its sockets
  (\<^verbatim>\<open>src/socket.cc\<close>, whose system calls are those of \<^verbatim>\<open>src/hook.cc\<close>) and gives each client to a fiber
  (\<^verbatim>\<open>src/fiber.cc\<close>) of a scheduler (\<^verbatim>\<open>src/scheduler.cc\<close>), which is an event loop (\<^verbatim>\<open>src/iomanager.cc\<close>) with
  timers (\<^verbatim>\<open>src/timer.cc\<close>): a call that would block registers an event, leaves the fiber, and goes on
  when the event or the timer comes.  The fiber reads from a stream (\<^verbatim>\<open>src/stream.cc\<close>,
  \<^verbatim>\<open>streams/socket_stream.cc\<close>), parses the request with a generated automaton
  (\<^verbatim>\<open>http/http11_parser.cc\<close>), dispatches it to a servlet and writes the answer; a websocket changes
  the protocol and exchanges frames.  The client side is \<^verbatim>\<open>http/http_connection.cc\<close> and
  \<^verbatim>\<open>http/ws_connection.cc\<close>.

  \<^bold>\<open>Theories, and what their lemmas show.\<close>  A theory named \<open>X\<close> holds the state and the operations
  of a component, in the order of the code; \<open>X_Correct\<close> its properties.  The claims \<open>C1\<close> to \<open>C40\<close>
  stand in front of their theorems.

  \<^item> \<open>Prelude\<close>, \<open>Cpp_Strings\<close>, \<open>Ordered_Map\<close>, \<open>String_Map\<close>: machine words, the exception-and-state
    shape of member functions, memory images of integers, \<open>std::string\<close>, and \<open>std::map\<close> with a
    comparator.  \<open>map_ops\<close> is the interface of the map, interpreted for every rank.

  \<^item> \<open>Byte_File\<close> (the interface of a flat file with a cursor), \<open>Byte_Array\<close>, \<open>Byte_Array_Laws\<close> (its
    interpretation), \<open>Byte_Codec\<close>, \<open>Byte_Buffers\<close>, \<open>Byte_Array_Correct\<close>: \<^verbatim>\<open>src/bytearray.cc\<close>.  The chain
    of blocks refines a flat file; every typed write is read back; the bulk operations and files
    deliver exactly the content.  Where the code follows a null pointer (reading nothing at the end of
    a full chain) or overflows a signed integer (the zigzag code of the least number and of positive
    ones beyond half of the range), the statements say so.

  \<^item> \<open>Fiber\<close>, \<open>Scheduler\<close>, \<open>Timer_Manager\<close>, \<open>IO_Manager\<close>, \<open>Mutex\<close>, \<open>Worker\<close>, \<open>Thread_Start\<close>,
    \<open>Thread_Pool\<close>: fibers and their switches; the queue and the loop of the workers, interleaved as
    an inductive step relation; the ordered set of timers with the rollover of the clock (the interface
    \<open>strict_order\<close>); the event contexts against the kernel's interest list; the scoped locks and the
    semaphore for fibers; groups of workers; threads and the pool of threads.  Shown are the
    invariants of the reachable states, what happens to every entry of the scheduler's queue (two
    entries of one fiber are not excluded, \<open>scheduled_twice\<close>), that a waiter is woken and
    a wake-up is not missed, and that a stopping pool runs every task and comes to its end.

  \<^item> \<open>Fd_Manager\<close>, \<open>Hook\<close>, \<open>Socket\<close>, \<open>Socket_Stream\<close>, \<open>Tcp_Server\<close>, \<open>Address\<close>: what the hooks know of a
    descriptor and what the hooked calls return; who owns a descriptor, so that each one is closed
    once; the loops over partial transfers (the interface \<open>byte_stream\<close>); binding that succeeds as
    a whole, with one listening socket for each address in their order, or leaves nothing open;
    addresses, their texts and masks.

  \<^item> \<open>Http_Message\<close>, \<open>Ragel_Machine\<close>, \<open>Http11_Table\<close>, \<open>Httpclient_Table\<close>, \<open>Http_Parser\<close>, \<open>Http_Server\<close>,
    \<open>Http_Client\<close>, \<open>Http_Pool\<close>, \<open>WebSocket\<close>, \<open>WS_Connection\<close>, with \<open>Http_Request_Correct\<close>,
    \<open>Http_Exchange_Correct\<close> and \<open>Http_Cut_Tokens\<close>: messages, the two generated automata label for label
    with the loop around them, both sides of a connection, the pool of connections, and the
    websocket frames.  A request that the client writes is the request that the server reads; the
    two sides of the websocket handshake agree; a message that was sent is received, and an empty one
    closes the connection on both sides; the assertions of the generated parsers hold exactly for
    buffers whose length is an \<open>int\<close> and, for responses, that a NUL follows; chunked and counted bodies are delivered however the stream is cut; what goes wrong when a token is cut by
    the end of a buffer is shown, too.  \<open>Simple_Http\<close> is the other, small HTTP service of
    \<^verbatim>\<open>src/httpService_x.cc\<close>.

  \<^item> \<open>Log\<close>, \<open>Config\<close>, \<open>Log_Config\<close>, \<open>Env\<close>, \<open>Module_Manager\<close>, \<open>Library\<close>, \<open>Daemon\<close>, \<open>Application\<close>: patterns and loggers,
    variables with listeners and loading from YAML, options, the tables of modules, the supervisor,
    and the way from the command line to the running servers.  Every configured server listens on
    all its addresses, runs, and is found under its type.

  \<^item> \<open>MySQL\<close>, \<open>MySQL_Manager\<close>, \<open>MySQL_Format\<close>, \<open>MySQL_Stmt\<close>: connections, transactions, the manager with
    its idle connections, commands given by a format, prepared statements with the memory behind
    their parameters and columns.  A transaction sends nothing more
    after a successful end; every connection is in exactly one place.

  \<^item> \<open>Hash_Util\<close>, \<open>Util\<close>, \<open>File_Util\<close>, \<open>Json_Util\<close>, \<open>Crypto_Util\<close>: hashes and codecs, URL encoding, path
    names, the removal of trees, JSON texts, and the wrappers of OpenSSL.

  \<^bold>\<open>How the code is translated.\<close>  A class is a record with the names of its members, prefixed where
  they would clash; pointers to objects that are shared are addresses in a heap or numbers in a
  store; an \<open>Inl\<close> or \<open>None\<close> is an exception, an abort of an assertion, or behaviour that C++ leaves
  undefined, as the definition says.  Integers are words of their width where they can wrap.  Fields
  whose name begins with \<open>g_\<close>, and those that the text of a record names, record history for the
  statements and are read by no operation.

  \<^bold>\<open>Parameters.\<close>  What is not in the repository is an argument: the system calls (\<open>sys\<close> for sockets,
  \<open>fsys\<close> for files, \<open>epoll_ctl\<close>, \<open>fstat\<close>, \<open>fcntl\<close>, \<open>fork\<close> and \<open>waitpid\<close> by their results, the clock),
  \<open>getaddrinfo\<close> and \<open>getifaddrs\<close>, \<open>strftime\<close>, \<open>lexical_cast\<close>, \<open>fnmatch\<close>, \<open>sha1\<close>, the YAML and JSON
  libraries, the MySQL client library, OpenSSL, the dynamic linker, and the order of iteration of
  hash tables.  Hypotheses about them state what their manuals do; each has a witness:
  \<open>documented_fetch\<close> says what \<open>mysql_stmt_fetch\<close> writes into the buffers it was given, \<open>setfl_works\<close>
  which flags a successful \<open>fcntl(F_SETFL)\<close> changes.

  \<^bold>\<open>Bounds and fuel.\<close>  \<open>Rm\<close> has fuel for the depth of directories, more fuel than needed changes
  nothing (\<open>Rm_fuel\<close>).  Loops that may run for ever are partial functions: \<open>replace_str\<close> (an empty
  pattern) and the message loop of a websocket, of which \<open>ws_handleClient_returns\<close> shows that it
  ends on every connection that delivers finitely many bytes.  The loops of \<open>accept\<close>, of \<open>idle\<close> and
  of the workers are taken turn by turn.  The hashes are stated for buffers shorter than
  \<open>2 ^ 31\<close> bytes, since their length is an \<open>int\<close>.  The HTTP session counts the bytes of its buffer in
  an \<open>int\<close>, too; its model counts in \<open>nat\<close>, which is the same for the buffers it can be given.

  \<^bold>\<open>Not modelled.\<close>  Printing for debugging (\<open>toString\<close>, \<open>dump\<close>, \<open>operator<<\<close>, stack traces);
  floating point numbers and wide strings, which only call the C library; machine
  contexts and stacks below \<open>swapcontext\<close>; the weak memory of threads: a section under a mutex is
  one step; \<^verbatim>\<open>src/timestamp.cc\<close>; \<^verbatim>\<open>include/channel.h\<close>, whose functions have no definitions; the grammar
  of \<^verbatim>\<open>src/uri.rl\<close>, whose generated file is not in the repository (the parser of URIs is a parameter);
  samples, tests, templates and the sketches \<^verbatim>\<open>*.txt\<close>.
\<close>

end
